(* ===== verification/Prelude.thy ===== *)
theory Prelude
  imports Complex_Main
begin

text \<open>
  Shared vocabulary of the development: the application's errors, the composition of
  effectful calls, tables as lists of rows, and the few operations of the JavaScript
  standard library (sets and maps with insertion order, stable sorting, numbers read from
  strings) that several components use.

  A service function of the program runs in a database transaction: it reads and writes
  rows and may throw. It is modelled as a function that takes the state and returns the
  result (the error on the left, the value on the right) paired with the state it leaves
  behind. The state is kept on the error side as well, because a caller that catches the
  error continues with whatever has been written so far.
\<close>

section \<open>Errors\<close>

text \<open>
  The errors of \<^verbatim>\<open>app/shared/errors/app-error.server.ts\<close>, the subclass of
  \<^verbatim>\<open>ForbiddenError\<close> that \<^verbatim>\<open>role-grant-limits.server.ts\<close> adds, and the errors the
  database client raises (record to update not found, unique constraint, foreign key,
  invalid value, a statement in a transaction that has already failed) and
  \<^verbatim>\<open>RangeError\<close>, which formatting an invalid date throws. A message with accents or
  interpolation is named by its key in the source's table of messages.
\<close>

datatype db_error = RecordNotFound | UniqueViolation | ForeignKeyViolation | InvalidValue | TransactionAborted

datatype app_error =
    NotFoundError string "int option"
  | ValidationError string string
  | ConflictError string
  | ForbiddenError string
  | LimitReachedError string
  | GrantBeyondActorError string
  | DatabaseError db_error
  | RangeError

definition error_code :: "app_error \<Rightarrow> string option" where
  "error_code e = (case e of
     NotFoundError _ _ \<Rightarrow> Some ''NOT_FOUND''
   | ValidationError _ _ \<Rightarrow> Some ''VALIDATION_ERROR''
   | ConflictError _ \<Rightarrow> Some ''CONFLICT''
   | ForbiddenError _ \<Rightarrow> Some ''FORBIDDEN''
   | GrantBeyondActorError _ \<Rightarrow> Some ''FORBIDDEN''
   | LimitReachedError _ \<Rightarrow> Some ''LIMIT_REACHED''
   | DatabaseError _ \<Rightarrow> None
   | RangeError \<Rightarrow> None)"

definition error_status :: "app_error \<Rightarrow> int option" where
  "error_status e = (case e of
     NotFoundError _ _ \<Rightarrow> Some 404
   | ValidationError _ _ \<Rightarrow> Some 400
   | ConflictError _ \<Rightarrow> Some 409
   | ForbiddenError _ \<Rightarrow> Some 403
   | GrantBeyondActorError _ \<Rightarrow> Some 403
   | LimitReachedError _ \<Rightarrow> Some 429
   | DatabaseError _ \<Rightarrow> None
   | RangeError \<Rightarrow> None)"

definition is_ConflictError :: "app_error \<Rightarrow> bool" where
  "is_ConflictError e = (case e of ConflictError _ \<Rightarrow> True | _ \<Rightarrow> False)"

lemma is_ConflictError_simps [simp]:
  "is_ConflictError (ConflictError m)"
  "\<not> is_ConflictError (NotFoundError t i)"
  "\<not> is_ConflictError (ValidationError t m)"
  "\<not> is_ConflictError (ForbiddenError m)"
  "\<not> is_ConflictError (LimitReachedError m)"
  "\<not> is_ConflictError (GrantBeyondActorError m)"
  "\<not> is_ConflictError (DatabaseError d)"
  by (simp_all add: is_ConflictError_def)

section \<open>Sequencing effectful calls\<close>

type_synonym ('s, 'a) outcome = "(app_error + 'a) \<times> 's"

text \<open>\<open>chain r k\<close> is \<^verbatim>\<open>await r\<close> followed by \<open>k\<close>: a thrown error skips \<open>k\<close>.\<close>

definition chain :: "('s, 'a) outcome \<Rightarrow> ('a \<Rightarrow> 's \<Rightarrow> ('s, 'b) outcome) \<Rightarrow> ('s, 'b) outcome" where
  "chain r k = (case r of (Inl e, s) \<Rightarrow> (Inl e, s) | (Inr x, s) \<Rightarrow> k x s)"

text \<open>\<open>guard_by c s k\<close> runs the assertion \<open>c\<close>, which throws or returns nothing, before \<open>k\<close>.\<close>

definition guard_by :: "app_error option \<Rightarrow> 's \<Rightarrow> ('s, 'a) outcome \<Rightarrow> ('s, 'a) outcome" where
  "guard_by c s k = (case c of Some e \<Rightarrow> (Inl e, s) | None \<Rightarrow> k)"

text \<open>Two assertions in sequence: the first that throws decides.\<close>

definition orelse :: "'e option \<Rightarrow> 'e option \<Rightarrow> 'e option" where
  "orelse c d = (case c of Some e \<Rightarrow> Some e | None \<Rightarrow> d)"

lemma chain_simps [simp]:
  "chain (Inl e, s) k = (Inl e, s)"
  "chain (Inr x, s) k = k x s"
  by (simp_all add: chain_def)

lemma guard_by_simps [simp]:
  "guard_by None s k = k"
  "guard_by (Some e) s k = (Inl e, s)"
  by (simp_all add: guard_by_def)

lemma orelse_simps [simp]:
  "orelse None d = d"
  "orelse (Some e) d = Some e"
  by (simp_all add: orelse_def)

lemma orelse_None_iff [simp]: "orelse c d = None \<longleftrightarrow> c = None \<and> d = None"
  by (cases c) simp_all

lemma chain_InrE:
  assumes "chain r k = (Inr y, s')"
  obtains x s where "r = (Inr x, s)" and "k x s = (Inr y, s')"
  using assms by (cases r; cases "fst r") auto

lemma guard_by_InrE:
  assumes "guard_by c s k = (Inr y, s')"
  obtains "c = None" and "k = (Inr y, s')"
  using assms by (cases c) auto

lemma chain_InlE:
  assumes "chain r k = (Inl e, s')"
  obtains "r = (Inl e, s')" | x s where "r = (Inr x, s)" and "k x s = (Inl e, s')"
  using assms by (cases r; cases "fst r") auto

lemma guard_by_InlE:
  assumes "guard_by c s k = (Inl e, s')"
  obtains "c = Some e" and "s' = s" | "c = None" and "k = (Inl e, s')"
  using assms by (cases c) auto

lemma snd_chain_inv:
  assumes "Q (snd r)" and "\<And>x s. r = (Inr x, s) \<Longrightarrow> Q s \<Longrightarrow> Q (snd (k x s))"
  shows "Q (snd (chain r k))"
  using assms by (cases r; cases "fst r") auto

lemma snd_guard_inv: "Q s \<Longrightarrow> (c = None \<Longrightarrow> Q (snd k)) \<Longrightarrow> Q (snd (guard_by c s k))"
  by (cases c) auto

section \<open>Tables as lists of rows\<close>

text \<open>
  A table is the list of its rows, in the order the database returns them. \<open>update_where\<close>
  is \<^verbatim>\<open>updateMany\<close> and \<open>delete_where\<close> is \<^verbatim>\<open>deleteMany\<close>; \<^verbatim>\<open>findMany\<close> is \<open>filter\<close> and
  \<^verbatim>\<open>findFirst\<close> is \<open>find\<close>.
\<close>

definition update_where :: "('r \<Rightarrow> bool) \<Rightarrow> ('r \<Rightarrow> 'r) \<Rightarrow> 'r list \<Rightarrow> 'r list" where
  "update_where p f rows = map (\<lambda>r. if p r then f r else r) rows"

definition delete_where :: "('r \<Rightarrow> bool) \<Rightarrow> 'r list \<Rightarrow> 'r list" where
  "delete_where p rows = filter (\<lambda>r. \<not> p r) rows"

lemma update_where_simps [simp]:
  "update_where p f [] = []"
  "update_where p f (r # rows) = (if p r then f r else r) # update_where p f rows"
  by (simp_all add: update_where_def)

lemma set_update_where: "set (update_where p f rows) = (\<lambda>r. if p r then f r else r) ` set rows"
  by (simp add: update_where_def)

lemma bex_update_where: "(\<exists>x \<in> set (update_where p f rows). Q x) \<longleftrightarrow> (\<exists>r \<in> set rows. Q (if p r then f r else r))"
  by (auto simp: set_update_where)

lemma ball_update_where: "(\<forall>x \<in> set (update_where p f rows). Q x) \<longleftrightarrow> (\<forall>r \<in> set rows. Q (if p r then f r else r))"
  by (auto simp: set_update_where)

lemma length_update_where [simp]: "length (update_where p f rows) = length rows"
  by (simp add: update_where_def)

lemma map_update_where:
  assumes "\<And>r. g (f r) = g r"
  shows "map g (update_where p f rows) = map g rows"
  using assms by (simp add: update_where_def)

lemma update_where_none: "\<forall>r \<in> set rows. \<not> p r \<Longrightarrow> update_where p f rows = rows"
  by (induction rows) simp_all

lemma update_where_keeps: "r \<in> set rows \<Longrightarrow> \<not> p r \<Longrightarrow> r \<in> set (update_where p f rows)"
  by (induction rows) auto

lemma update_where_hits: "r \<in> set rows \<Longrightarrow> p r \<Longrightarrow> f r \<in> set (update_where p f rows)"
  by (induction rows) auto

text \<open>Updating one key and then others is updating them all.\<close>

lemma update_where_key_insert:
  assumes "\<And>r. g (f r) = g r" and "k \<notin> K"
  shows "update_where (\<lambda>r. g r \<in> K) f (update_where (\<lambda>r. g r = k) f rows) =
     update_where (\<lambda>r. g r \<in> insert k K) f rows"
  using assms by (auto simp: update_where_def)

lemma find_update_where_other:
  assumes "find q rows = Some r" and "\<And>x. p x \<Longrightarrow> \<not> q x" and "\<And>x. p x \<Longrightarrow> \<not> q (f x)"
  shows "find q (update_where p f rows) = Some r"
  using assms by (induction rows) (auto split: if_splits)

lemma delete_where_simps [simp]:
  "delete_where p [] = []"
  "delete_where p (r # rows) = (if p r then delete_where p rows else r # delete_where p rows)"
  by (simp_all add: delete_where_def)

lemma set_delete_where [simp]: "set (delete_where p rows) = {r \<in> set rows. \<not> p r}"
  by (auto simp: delete_where_def)

lemma distinct_map_delete_where: "distinct (map g rows) \<Longrightarrow> distinct (map g (delete_where p rows))"
  by (simp add: delete_where_def distinct_map_filter)

lemma find_Some_in: "find p rows = Some r \<Longrightarrow> r \<in> set rows \<and> p r"
  by (induction rows) (auto split: if_splits)

lemma find_None_iff_all: "find p rows = None \<longleftrightarrow> (\<forall>r \<in> set rows. \<not> p r)"
  by (induction rows) auto

text \<open>With distinct keys, a lookup by key finds the row that is there.\<close>

lemma find_key:
  assumes "distinct (map g rows)" and "r \<in> set rows"
  shows "find (\<lambda>x. g x = g r) rows = Some r"
  using assms by (induction rows) (auto simp: rev_image_eqI)

lemma find_unique_iff:
  assumes "distinct (map g rows)"
  shows "find (\<lambda>x. g x = k) rows = Some r \<longleftrightarrow> r \<in> set rows \<and> g r = k"
  using assms find_key [of g rows r] find_Some_in [of "\<lambda>x. g x = k" rows r] by auto

lemma find_key_and:
  assumes "distinct (map g rows)" and "r \<in> set rows" and "\<And>x. q x \<Longrightarrow> g x = g r" and "q r"
  shows "find q rows = Some r"
proof (cases "find q rows")
  case None
  then show ?thesis using assms(2,4) by (simp add: find_None_iff_all)
next
  case (Some x)
  then have "x \<in> set rows" "q x" using find_Some_in by fast+
  then have "x = r" using assms(1,2) assms(3) [of x] unfolding distinct_map inj_on_def by blast
  then show ?thesis using Some by simp
qed

lemma find_append: "find p (xs @ ys) = (case find p xs of Some x \<Rightarrow> Some x | None \<Rightarrow> find p ys)"
  by (induction xs) auto

lemma find_update_where:
  assumes "\<And>r. p r \<Longrightarrow> p (f r)" and "\<And>r. p r \<Longrightarrow> q (f r) = q r"
  shows "find q (update_where p f rows) = map_option (\<lambda>r. if p r then f r else r) (find q rows)"
  by (induction rows) (auto simp: assms)

lemma list_ex_update_same: "(\<And>r. p r \<Longrightarrow> q (f r) = q r) \<Longrightarrow> list_ex q (update_where p f rows) = list_ex q rows"
  by (induction rows) auto

lemma option_eqI: "(\<And>v. x = Some v \<longleftrightarrow> y = Some v) \<Longrightarrow> x = y"
  by (cases x; cases y) auto

section \<open>Tables whose rows exclude one another\<close>

text \<open>
  A table in which no two rows conflict: attributions of one layer whose intervals overlap,
  campaigns of a congregation that share a day. The locale holds what every insert, update
  and delete of such a table needs.
\<close>

definition exclusive :: "('r \<Rightarrow> int) \<Rightarrow> ('r \<Rightarrow> 'r \<Rightarrow> bool) \<Rightarrow> 'r list \<Rightarrow> bool" where
  "exclusive key conflict rows \<longleftrightarrow>
     distinct (map key rows) \<and>
     (\<forall>r \<in> set rows. \<forall>s \<in> set rows. key r \<noteq> key s \<longrightarrow> \<not> conflict r s)"

lemma exclusive_unique:
  "exclusive key conflict rows \<Longrightarrow> r \<in> set rows \<Longrightarrow> s \<in> set rows \<Longrightarrow> key r = key s \<Longrightarrow> r = s"
  unfolding exclusive_def distinct_map inj_on_def by blast

locale exclusive_rows =
  fixes key :: "'r \<Rightarrow> int" and conflict :: "'r \<Rightarrow> 'r \<Rightarrow> bool"
  assumes conflict_sym: "conflict r s \<Longrightarrow> conflict s r"
begin

lemma snoc:
  assumes "exclusive key conflict rows" and "key row \<notin> key ` set rows"
    and "\<And>r. r \<in> set rows \<Longrightarrow> \<not> conflict row r"
  shows "exclusive key conflict (rows @ [row])"
  unfolding exclusive_def
proof (intro conjI ballI impI)
  show "distinct (map key (rows @ [row]))" using assms(1,2) by (simp add: exclusive_def)
next
  fix r s assume "r \<in> set (rows @ [row])" "s \<in> set (rows @ [row])" "key r \<noteq> key s"
  then consider "r \<in> set rows" "s \<in> set rows" | "r = row" "s \<in> set rows" | "r \<in> set rows" "s = row"
    by auto
  then show "\<not> conflict r s"
  proof cases
    case 1
    then show ?thesis using assms(1) \<open>key r \<noteq> key s\<close> unfolding exclusive_def by blast
  next
    case 2
    then show ?thesis using assms(3) by blast
  next
    case 3
    then show ?thesis using assms(3) [of r] conflict_sym by blast
  qed
qed

lemma replace:
  assumes "exclusive key conflict rows" and "r0 \<in> set rows"
    and p: "\<And>r. r \<in> set rows \<Longrightarrow> p r \<Longrightarrow> r = r0" and id: "key (f r0) = key r0"
    and sep: "\<And>s. s \<in> set rows \<Longrightarrow> key s \<noteq> key r0 \<Longrightarrow> \<not> conflict (f r0) s"
  shows "exclusive key conflict (update_where p f rows)"
proof -
  have "map key (update_where p f rows) = map key rows"
    using p id by (auto simp: update_where_def)
  then have d: "distinct (map key (update_where p f rows))"
    using assms(1) by (simp only: exclusive_def)
  have "\<not> conflict r' s'"
    if rs': "r' \<in> set (update_where p f rows)" "s' \<in> set (update_where p f rows)" "key r' \<noteq> key s'" for r' s'
  proof -
    obtain r s where rs: "r \<in> set rows" "s \<in> set rows"
      and r': "r' = (if p r then f r else r)" and s': "s' = (if p s then f s else s)"
      using rs'(1,2) by (auto simp: set_update_where)
    consider "p r" "r = r0" "\<not> p s" | "p s" "s = r0" "\<not> p r" | "\<not> p r" "\<not> p s"
      using p rs rs'(3) r' s' by metis
    then show ?thesis
    proof cases
      case 1
      then show ?thesis using sep [of s] rs r' s' rs'(3) id by simp
    next
      case 2
      then have "\<not> conflict (f r0) r" using sep [of r] rs r' s' rs'(3) id by simp
      then show ?thesis using 2 r' s' conflict_sym by auto
    next
      case 3
      then show ?thesis using assms(1) rs r' s' rs'(3) unfolding exclusive_def by simp
    qed
  qed
  with d show ?thesis unfolding exclusive_def by blast
qed

text \<open>Rows may change freely as long as the change creates no conflict.\<close>

lemma update_no_new:
  assumes "exclusive key conflict rows" and id: "\<And>r. r \<in> set rows \<Longrightarrow> p r \<Longrightarrow> key (f r) = key r"
    and old: "\<And>r s. r \<in> set rows \<Longrightarrow> s \<in> set rows \<Longrightarrow>
                conflict (if p r then f r else r) (if p s then f s else s) \<Longrightarrow> conflict r s"
  shows "exclusive key conflict (update_where p f rows)"
proof -
  have ids: "key (if p r then f r else r) = key r" if "r \<in> set rows" for r using id that by simp
  then have "map key (update_where p f rows) = map key rows" by (simp add: update_where_def)
  then have d: "distinct (map key (update_where p f rows))"
    using assms(1) by (simp only: exclusive_def)
  have "\<not> conflict r' s'"
    if rs': "r' \<in> set (update_where p f rows)" "s' \<in> set (update_where p f rows)" "key r' \<noteq> key s'" for r' s'
  proof
    assume c: "conflict r' s'"
    obtain r s where rs: "r \<in> set rows" "s \<in> set rows"
      and r': "r' = (if p r then f r else r)" and s': "s' = (if p s then f s else s)"
      using rs'(1,2) by (auto simp: set_update_where)
    have "conflict r s" using old [OF rs] c r' s' by simp
    moreover have "key r \<noteq> key s" using rs'(3) ids rs r' s' by simp
    ultimately show False using assms(1) rs unfolding exclusive_def by blast
  qed
  with d show ?thesis unfolding exclusive_def by blast
qed

lemma delete: "exclusive key conflict rows \<Longrightarrow> exclusive key conflict (delete_where p rows)"
  by (simp add: exclusive_def distinct_map_delete_where)

end

section \<open>JavaScript sets, maps and sorting\<close>

text \<open>\<^verbatim>\<open>[...new Set(xs)]\<close> keeps the first occurrence of each element, in order.\<close>

definition js_set :: "'a list \<Rightarrow> 'a list" where
  "js_set xs = rev (remdups (rev xs))"

lemma set_js_set [simp]: "set (js_set xs) = set xs"
  by (simp add: js_set_def)

lemma distinct_js_set [simp]: "distinct (js_set xs)"
  by (simp add: js_set_def)

text \<open>
  \<^verbatim>\<open>xs.sort(cmp)\<close>: the specification asks for a stable sort, and for a consistent comparator
  that determines the result, which stable insertion computes.
\<close>

fun insert_by :: "('a \<Rightarrow> 'a \<Rightarrow> int) \<Rightarrow> 'a \<Rightarrow> 'a list \<Rightarrow> 'a list" where
  "insert_by cmp x [] = [x]"
| "insert_by cmp x (y # ys) = (if cmp x y \<le> 0 then x # y # ys else y # insert_by cmp x ys)"

definition js_sort :: "('a \<Rightarrow> 'a \<Rightarrow> int) \<Rightarrow> 'a list \<Rightarrow> 'a list" where
  "js_sort cmp xs = foldr (insert_by cmp) xs []"

lemma set_insert_by [simp]: "set (insert_by cmp x ys) = insert x (set ys)"
  by (induction ys) auto

lemma length_insert_by [simp]: "length (insert_by cmp x ys) = Suc (length ys)"
  by (induction ys) auto

lemma js_sort_Nil [simp]: "js_sort cmp [] = []"
  by (simp add: js_sort_def)

lemma js_sort_Cons [simp]: "js_sort cmp (x # xs) = insert_by cmp x (js_sort cmp xs)"
  by (simp add: js_sort_def)

lemma set_js_sort [simp]: "set (js_sort cmp xs) = set xs"
  by (induction xs) auto

lemma length_js_sort [simp]: "length (js_sort cmp xs) = length xs"
  by (induction xs) auto

lemma distinct_map_insert_by:
  "distinct (map g (insert_by cmp x ys)) \<longleftrightarrow> g x \<notin> g ` set ys \<and> distinct (map g ys)"
  by (induction ys) auto

lemma distinct_map_js_sort [simp]: "distinct (map g (js_sort cmp xs)) \<longleftrightarrow> distinct (map g xs)"
  by (induction xs) (auto simp: distinct_map_insert_by)

section \<open>Numbers read from strings\<close>

text \<open>
  \<^verbatim>\<open>Number(s)\<close> on strings, exactly, as a rational: \<open>None\<close> is \<^verbatim>\<open>NaN\<close> or an infinity, which every
  caller treats alike (\<^verbatim>\<open>Number.isFinite\<close>). White space around the literal is dropped, the
  empty literal is 0, decimal literals may have a sign, a fraction and an exponent, and
  hexadecimal, octal and binary literals have no sign.
\<close>

definition code :: "char \<Rightarrow> nat" where
  "code c = of_char c"

definition is_space :: "char \<Rightarrow> bool" where
  "is_space c \<longleftrightarrow> code c \<in> {9, 10, 11, 12, 13, 32, 160}"

definition digit_value :: "nat \<Rightarrow> char \<Rightarrow> nat option" where
  "digit_value base c =
     (let n = code c;
          d = (if 48 \<le> n \<and> n \<le> 57 then n - 48
               else if 97 \<le> n \<and> n \<le> 122 then n - 87
               else if 65 \<le> n \<and> n \<le> 90 then n - 55
               else base)
      in if d < base then Some d else None)"

text \<open>The longest prefix of digits: its value, how many digits it has, and the rest.\<close>

fun read_digits :: "nat \<Rightarrow> nat \<Rightarrow> nat \<Rightarrow> string \<Rightarrow> nat \<times> nat \<times> string" where
  "read_digits base acc k [] = (acc, k, [])"
| "read_digits base acc k (c # cs) =
     (case digit_value base c of
        None \<Rightarrow> (acc, k, c # cs)
      | Some d \<Rightarrow> read_digits base (acc * base + d) (Suc k) cs)"

definition trim :: "string \<Rightarrow> string" where
  "trim s = rev (dropWhile is_space (rev (dropWhile is_space s)))"

definition read_radix :: "nat \<Rightarrow> string \<Rightarrow> rat option" where
  "read_radix base s =
     (case read_digits base 0 0 s of (v, k, rest) \<Rightarrow>
        if k > 0 \<and> rest = [] then Some (of_nat v) else None)"

definition read_exponent :: "string \<Rightarrow> int option" where
  "read_exponent s =
     (case s of
        [] \<Rightarrow> Some 0
      | c # cs \<Rightarrow>
          if c = CHR ''e'' \<or> c = CHR ''E'' then
            (let neg = (cs \<noteq> [] \<and> hd cs = CHR ''-'');
                 ds = (if cs \<noteq> [] \<and> (hd cs = CHR ''-'' \<or> hd cs = CHR ''+'') then tl cs else cs)
             in case read_digits 10 0 0 ds of (v, k, rest) \<Rightarrow>
                  if k > 0 \<and> rest = [] then Some (if neg then - int v else int v) else None)
          else None)"

definition scale10 :: "rat \<Rightarrow> int \<Rightarrow> rat" where
  "scale10 m e = (if 0 \<le> e then m * 10 ^ nat e else m / 10 ^ nat (- e))"

definition read_decimal :: "string \<Rightarrow> rat option" where
  "read_decimal s =
     (case read_digits 10 0 0 s of (v, k, rest) \<Rightarrow>
        (case (if rest \<noteq> [] \<and> hd rest = CHR ''.'' then read_digits 10 v 0 (tl rest) else (v, 0, rest)) of
           (v', f, rest') \<Rightarrow>
             if k + f = 0 then None
             else map_option (\<lambda>e. scale10 (of_nat v') (e - int f)) (read_exponent rest')))"

definition js_number :: "string \<Rightarrow> rat option" where
  "js_number s =
     (case trim s of
        [] \<Rightarrow> Some 0
      | c # cs \<Rightarrow>
          if c = CHR ''0'' \<and> cs \<noteq> [] \<and> (hd cs = CHR ''x'' \<or> hd cs = CHR ''X'') then read_radix 16 (tl cs)
          else if c = CHR ''0'' \<and> cs \<noteq> [] \<and> (hd cs = CHR ''o'' \<or> hd cs = CHR ''O'') then read_radix 8 (tl cs)
          else if c = CHR ''0'' \<and> cs \<noteq> [] \<and> (hd cs = CHR ''b'' \<or> hd cs = CHR ''B'') then read_radix 2 (tl cs)
          else if c = CHR ''-'' then map_option uminus (read_decimal cs)
          else if c = CHR ''+'' then read_decimal cs
          else read_decimal (c # cs))"

text \<open>Evaluation of the reader on literals, for concrete instances.\<close>

lemma code_Char:
  "code (Char b0 b1 b2 b3 b4 b5 b6 b7) =
     of_bool b0 + 2 * of_bool b1 + 4 * of_bool b2 + 8 * of_bool b3 +
     16 * of_bool b4 + 32 * of_bool b5 + 64 * of_bool b6 + 128 * of_bool b7"
  by (simp add: code_def of_char_def algebra_simps)

lemmas number_eval = js_number_def trim_def is_space_def code_Char digit_value_def read_decimal_def
  read_exponent_def scale10_def Let_def

text \<open>\<^verbatim>\<open>s.split(sep)\<close> for a one-character separator.\<close>

fun split_on :: "char \<Rightarrow> string \<Rightarrow> string list" where
  "split_on sep [] = [[]]"
| "split_on sep (c # cs) =
     (if c = sep then [] # split_on sep cs
      else (case split_on sep cs of [] \<Rightarrow> [[c]] | w # ws \<Rightarrow> (c # w) # ws))"

lemma split_on_not_Nil [simp]: "split_on sep s \<noteq> []"
  by (induction s) (auto split: list.splits)

section \<open>Numbers written as strings\<close>

text \<open>\<^verbatim>\<open>String(n)\<close> for an integer, and \<^verbatim>\<open>s.padStart(2, '0')\<close>.\<close>

fun decimal :: "nat \<Rightarrow> string" where
  "decimal n = (if n < 10 then [char_of (48 + n)] else decimal (n div 10) @ [char_of (48 + n mod 10)])"

declare decimal.simps [simp del]

definition js_string :: "int \<Rightarrow> string" where
  "js_string n = (if n < 0 then CHR ''-'' # decimal (nat (- n)) else decimal (nat n))"

definition padStart2 :: "string \<Rightarrow> string" where
  "padStart2 s = replicate (2 - length s) CHR ''0'' @ s"

text \<open>Reading a number that was written gives it back, padded or not.\<close>

definition is_digit :: "char \<Rightarrow> bool" where
  "is_digit c \<longleftrightarrow> 48 \<le> code c \<and> code c \<le> 57"

lemma code_digit: "n < 10 \<Longrightarrow> code (char_of (48 + n)) = 48 + n"
  by (simp add: code_def)

lemma digit_value_digit: "is_digit c \<Longrightarrow> digit_value 10 c = Some (code c - 48)"
  by (auto simp: is_digit_def digit_value_def Let_def)

lemma decimal_digits: "decimal n \<noteq> [] \<and> (\<forall>c \<in> set (decimal n). is_digit c)"
proof (induction n rule: decimal.induct)
  case (1 n)
  have "is_digit (char_of (48 + k))" if "k < 10" for k :: nat using that by (simp add: is_digit_def code_digit)
  then show ?case using 1 by (cases "n < 10") (simp_all add: decimal.simps [of n])
qed

lemma read_digits_decimal:
  "read_digits 10 acc k (decimal n @ rest) =
     read_digits 10 (acc * 10 ^ length (decimal n) + n) (k + length (decimal n)) rest"
proof (induction n arbitrary: rest rule: decimal.induct)
  case (1 n)
  have one: "digit_value 10 (char_of (48 + m)) = Some m" if "m < 10" for m
    using that digit_value_digit [of "char_of (48 + m)"] by (simp add: is_digit_def code_digit)
  show ?case
  proof (cases "n < 10")
    case True
    then show ?thesis by (simp add: decimal.simps [of n] one)
  next
    case False
    have "acc * 10 ^ length (decimal (n div 10)) * 10 + n div 10 * 10 + n mod 10 =
        acc * 10 ^ length (decimal (n div 10)) * 10 + n" by simp
    with False 1 [of "char_of (48 + n mod 10) # rest"] show ?thesis
      by (simp add: decimal.simps [of n] one algebra_simps)
  qed
qed

lemma trim_digits: "\<forall>c \<in> set s. is_digit c \<Longrightarrow> trim s = s"
proof -
  have *: "dropWhile is_space xs = xs" if "\<forall>c \<in> set xs. is_digit c" for xs
    using that by (cases xs) (auto simp: is_digit_def is_space_def)
  show "\<forall>c \<in> set s. is_digit c \<Longrightarrow> trim s = s" by (simp add: trim_def *)
qed

lemma js_number_read:
  assumes "\<forall>c \<in> set s. is_digit c" and "read_digits 10 0 0 s = (v, k, [])" and "0 < k"
  shows "js_number s = Some (of_nat v)"
proof -
  obtain c cs where s: "s = c # cs" using assms(2,3) by (cases s) auto
  have "c \<noteq> CHR ''-''" "c \<noteq> CHR ''+''" "cs \<noteq> [] \<Longrightarrow> is_digit (hd cs)"
    using assms(1) s hd_in_set [of cs] by (auto simp: is_digit_def code_Char)
  moreover have "\<not> is_digit x" if "x \<in> {CHR ''x'', CHR ''X'', CHR ''o'', CHR ''O'', CHR ''b'', CHR ''B''}" for x
    using that by (auto simp: is_digit_def code_Char)
  moreover have "read_decimal s = Some (of_nat v)"
    using assms(2,3) by (simp add: read_decimal_def read_exponent_def scale10_def)
  ultimately show ?thesis
    using trim_digits [OF assms(1)] s by (auto simp: js_number_def)
qed

lemma js_number_decimal: "js_number (decimal n) = Some (of_nat n)"
  using decimal_digits [of n] read_digits_decimal [of 0 0 n "[]"] by (intro js_number_read) auto

lemma decimal_inject:
  assumes "decimal m = decimal n"
  shows "m = n"
proof -
  have "Some (of_nat m :: rat) = Some (of_nat n)"
    using js_number_decimal [of m] js_number_decimal [of n] unfolding assms by (rule trans [OF sym])
  then show ?thesis by (simp only: option.inject of_nat_eq_iff)
qed

lemma js_string_inject: "js_string a = js_string b \<longleftrightarrow> a = b"
proof
  assume eq: "js_string a = js_string b"
  have "\<not> is_digit CHR ''-''" by (simp add: is_digit_def code_Char)
  then have first: "hd (decimal n) \<noteq> CHR ''-'' \<and> decimal n \<noteq> []" for n
    using decimal_digits [of n] hd_in_set [of "decimal n"] by metis
  have sign: "hd (js_string n) = CHR ''-'' \<longleftrightarrow> n < 0" for n
    using first [of "nat n"] by (simp add: js_string_def)
  have "(a < 0) = (b < 0)" using sign [of a] sign [of b] eq by simp
  moreover from this have "nat \<bar>a\<bar> = nat \<bar>b\<bar>"
    using eq by (intro decimal_inject) (simp add: js_string_def split: if_splits)
  ultimately show "a = b" by linarith
qed simp

lemma js_number_padStart2: "js_number (padStart2 (decimal n)) = Some (of_nat n)"
proof (cases "length (decimal n) = 1")
  case True
  have z: "digit_value 10 CHR ''0'' = Some 0" "is_digit CHR ''0''"
    by (simp_all add: digit_value_def is_digit_def code_Char)
  have p: "padStart2 (decimal n) = CHR ''0'' # decimal n" using True by (simp add: padStart2_def)
  show ?thesis unfolding p
    using decimal_digits [of n] read_digits_decimal [of 0 1 n "[]"] z by (intro js_number_read) auto
next
  case False
  have "length (decimal n) \<noteq> 0" using decimal_digits [of n] by simp
  then have "2 - length (decimal n) = 0" using False by linarith
  then show ?thesis by (simp add: padStart2_def js_number_decimal)
qed

lemma split_on_append: "sep \<notin> set a \<Longrightarrow> split_on sep (a @ sep # b) = a # split_on sep b"
  by (induction a) auto

lemma split_on_none: "sep \<notin> set a \<Longrightarrow> split_on sep a = [a]"
  by (induction a) auto


section \<open>Latin-1 text\<close>

text \<open>
  Canonical decomposition followed by the removal of the combining marks, on the code points
  below 256, to which the characters of the model are limited.
\<close>

definition base_letter :: "nat \<Rightarrow> nat" where
  "base_letter n =
     (if 192 \<le> n \<and> n \<le> 197 then 65 else if n = 199 then 67 else if 200 \<le> n \<and> n \<le> 203 then 69
      else if 204 \<le> n \<and> n \<le> 207 then 73 else if n = 209 then 78 else if 210 \<le> n \<and> n \<le> 214 then 79
      else if 217 \<le> n \<and> n \<le> 220 then 85 else if n = 221 then 89
      else if 224 \<le> n \<and> n \<le> 229 then 97 else if n = 231 then 99 else if 232 \<le> n \<and> n \<le> 235 then 101
      else if 236 \<le> n \<and> n \<le> 239 then 105 else if n = 241 then 110 else if 242 \<le> n \<and> n \<le> 246 then 111
      else if 249 \<le> n \<and> n \<le> 252 then 117 else if n = 253 \<or> n = 255 then 121 else n)"

definition lower_latin1 :: "nat \<Rightarrow> nat" where
  "lower_latin1 n =
     (if (65 \<le> n \<and> n \<le> 90) \<or> (192 \<le> n \<and> n \<le> 222 \<and> n \<noteq> 215) then n + 32 else n)"

text \<open>\<^verbatim>\<open>shared/utils/strip-diacritics.ts\<close>\<close>

definition stripDiacritics :: "string \<Rightarrow> string" where
  "stripDiacritics input = map (\<lambda>c. char_of (lower_latin1 (base_letter (code c)))) input"

text \<open>Normalizing again changes nothing.\<close>

lemma base_letter_fixed: "base_letter (lower_latin1 (base_letter n)) = lower_latin1 (base_letter n)"
  unfolding base_letter_def lower_latin1_def by auto

lemma lower_latin1_fixed: "lower_latin1 (lower_latin1 n) = lower_latin1 n"
  unfolding lower_latin1_def by auto

lemma lower_base_bound: "n < 256 \<Longrightarrow> lower_latin1 (base_letter n) < 256"
  unfolding base_letter_def lower_latin1_def by auto

lemma code_of_char: "n < 256 \<Longrightarrow> code (char_of n) = n"
  by (simp add: code_def)

lemma stripDiacritics_idem: "stripDiacritics (stripDiacritics s) = stripDiacritics s"
proof -
  have "code c < 256" for c unfolding code_def by simp
  then show ?thesis
    by (simp add: stripDiacritics_def comp_def code_of_char lower_base_bound base_letter_fixed lower_latin1_fixed)
qed

end
