(* ===== verification/Js_Dates.thy ===== *)
theory Js_Dates
  imports Prelude
begin

text \<open>
  JavaScript dates: instants in milliseconds, the invalid date, the calendar of the
  ECMAScript specification, and the local-time helpers of
  \<^verbatim>\<open>app/shared/utils/date.server.ts\<close>. The process's time zone is a parameter: the two
  functions between UTC and local time that the specification calls \<^verbatim>\<open>LocalTime\<close> and
  \<^verbatim>\<open>UTC\<close>.
\<close>

section \<open>Instants\<close>

datatype jsdate = InvalidDate | Date int

text \<open>Comparisons with the invalid date are false, in either direction.\<close>

fun date_le :: "jsdate \<Rightarrow> jsdate \<Rightarrow> bool" where
  "date_le (Date a) (Date b) = (a \<le> b)"
| "date_le _ _ = False"

definition MS_PER_HOUR :: int where
  "MS_PER_HOUR = 60 * 60 * 1000"

definition MS_PER_DAY :: int where
  "MS_PER_DAY = 24 * MS_PER_HOUR"

lemma MS_PER_DAY_val: "MS_PER_DAY = 86400000"
  by (simp add: MS_PER_DAY_def MS_PER_HOUR_def)

lemma MS_PER_DAY_pos [simp]: "0 < MS_PER_DAY"
  by (simp add: MS_PER_DAY_val)

text \<open>The range of time values: outside it a date is invalid.\<close>

definition time_clip :: "int \<Rightarrow> jsdate" where
  "time_clip t = (if \<bar>t\<bar> \<le> 8640000000000000 then Date t else InvalidDate)"

section \<open>The calendar\<close>

text \<open>Days from the epoch to the first of January of year \<open>y\<close> (\<^verbatim>\<open>DayFromYear\<close>).\<close>

definition day_from_year :: "int \<Rightarrow> int" where
  "day_from_year y = 365 * (y - 1970) + (y - 1969) div 4 - (y - 1901) div 100 + (y - 1601) div 400"

definition is_leap :: "int \<Rightarrow> bool" where
  "is_leap y \<longleftrightarrow> y mod 4 = 0 \<and> (y mod 100 \<noteq> 0 \<or> y mod 400 = 0)"

definition month_starts :: "bool \<Rightarrow> int list" where
  "month_starts leap =
     (if leap then [0, 31, 60, 91, 121, 152, 182, 213, 244, 274, 305, 335]
      else [0, 31, 59, 90, 120, 151, 181, 212, 243, 273, 304, 334])"

text \<open>\<^verbatim>\<open>MakeDay\<close>: months (from 0) and days (from 1) may be out of range and carry over.\<close>

definition make_day :: "int \<Rightarrow> int \<Rightarrow> int \<Rightarrow> int" where
  "make_day y m d =
     (let y' = y + m div 12
      in day_from_year y' + month_starts (is_leap y') ! nat (m mod 12) + (d - 1))"

text \<open>
  The year of a day: \<^verbatim>\<open>YearFromTime\<close> is the largest year that starts on or before it. The
  estimate is at most one year too high.
\<close>

definition year_of_day :: "int \<Rightarrow> int" where
  "year_of_day d =
     (let y = 1970 + (d * 400) div 146097
      in if day_from_year (y + 1) \<le> d then y + 1 else if day_from_year y \<le> d then y else y - 1)"

definition last_start :: "int list \<Rightarrow> int \<Rightarrow> nat" where
  "last_start starts k = length (takeWhile (\<lambda>s. s \<le> k) starts) - 1"

text \<open>Year, month (from 0) and day of the month of a day number.\<close>

definition civil :: "int \<Rightarrow> int \<times> int \<times> int" where
  "civil d =
     (let y = year_of_day d;
          k = d - day_from_year y;
          starts = month_starts (is_leap y);
          m = last_start starts k
      in (y, int m, k - starts ! m + 1))"

section \<open>Local time\<close>

record zone =
  to_local :: "int \<Rightarrow> int"
  to_utc :: "int \<Rightarrow> int"

text \<open>\<^verbatim>\<open>new Date(y, m, d)\<close>: local midnight; a two-digit year is in the twentieth century.\<close>

definition new_date :: "zone \<Rightarrow> int \<Rightarrow> int \<Rightarrow> int \<Rightarrow> jsdate" where
  "new_date z y m d =
     (let y' = (if 0 \<le> y \<and> y \<le> 99 then 1900 + y else y)
      in time_clip (to_utc z (make_day y' m d * MS_PER_DAY)))"

text \<open>\<^verbatim>\<open>getFullYear()\<close>, \<^verbatim>\<open>getMonth()\<close> and \<^verbatim>\<open>getDate()\<close> of an instant.\<close>

definition local_civil :: "zone \<Rightarrow> int \<Rightarrow> int \<times> int \<times> int" where
  "local_civil z t = civil (to_local z t div MS_PER_DAY)"

text \<open>\<^verbatim>\<open>d.setDate(d.getDate() + n)\<close>: the local date moves, the local time of day stays.\<close>

definition add_local_days :: "zone \<Rightarrow> jsdate \<Rightarrow> int \<Rightarrow> jsdate" where
  "add_local_days z dt n =
     (case dt of InvalidDate \<Rightarrow> InvalidDate
      | Date t \<Rightarrow>
          (case local_civil z t of (y, m, d) \<Rightarrow>
             time_clip (to_utc z (make_day y m (d + n) * MS_PER_DAY + to_local z t mod MS_PER_DAY))))"

text \<open>
  \<^verbatim>\<open>parseLocalDate\<close>: \<open>YYYY-MM-DD\<close> as local midnight. A missing or unreadable component is
  \<^verbatim>\<open>NaN\<close> and makes the date invalid; components past the third are ignored.
\<close>

definition to_integer :: "rat \<Rightarrow> int" where
  "to_integer r = (if 0 \<le> r then floor r else ceiling r)"

definition parseLocalDate :: "zone \<Rightarrow> string \<Rightarrow> jsdate" where
  "parseLocalDate z value =
     (case map js_number (split_on CHR ''-'' value) of
        Some y # Some m # Some d # _ \<Rightarrow> new_date z (to_integer y) (to_integer (m - 1)) (to_integer d)
      | _ \<Rightarrow> InvalidDate)"

text \<open>\<^verbatim>\<open>startOfNextDay\<close>: local midnight of the day after, the exclusive bound of a date range.\<close>

definition startOfNextDay :: "zone \<Rightarrow> int \<Rightarrow> jsdate" where
  "startOfNextDay z t = (case local_civil z t of (y, m, d) \<Rightarrow> new_date z y m (d + 1))"

text \<open>Local midnight of the day of \<open>t\<close>: \<^verbatim>\<open>new Date(t.getFullYear(), t.getMonth(), t.getDate())\<close>.\<close>

definition startOfDay :: "zone \<Rightarrow> int \<Rightarrow> jsdate" where
  "startOfDay z t = (case local_civil z t of (y, m, d) \<Rightarrow> new_date z y m d)"

text \<open>UTC, the zone of the witnesses and of a server that runs in UTC.\<close>

definition utc :: zone where
  "utc = \<lparr>to_local = (\<lambda>t. t), to_utc = (\<lambda>t. t)\<rparr>"

lemmas date_eval = number_eval parseLocalDate_def to_integer_def new_date_def make_day_def is_leap_def
  day_from_year_def month_starts_def time_clip_def utc_def MS_PER_DAY_val local_civil_def civil_def
  year_of_day_def last_start_def add_local_days_def startOfNextDay_def startOfDay_def

section \<open>The calendar is a bijection\<close>

lemma div_bounds:
  fixes a n :: int
  assumes "0 < n"
  shows "n * (a div n) \<le> a \<and> a < n * (a div n) + n"
proof -
  have "a = n * (a div n) + a mod n" by simp
  moreover have "0 \<le> a mod n" "a mod n < n" using assms by simp_all
  ultimately show ?thesis by linarith
qed

lemma div_plus1:
  fixes a n :: int
  assumes "0 < n"
  shows "(a + 1) div n = a div n + (if (a + 1) mod n = 0 then 1 else 0)"
proof -
  have a: "a = n * (a div n) + a mod n" and r: "0 \<le> a mod n" "a mod n < n"
    using assms by simp_all
  show ?thesis
  proof (cases "a mod n = n - 1")
    case True
    with a have "a + 1 = n * (a div n + 1) + 0" by (simp add: algebra_simps)
    then have "(a + 1) div n = a div n + 1" "(a + 1) mod n = 0"
      using assms int_div_pos_eq int_mod_pos_eq by blast+
    then show ?thesis by simp
  next
    case False
    with a r have "a + 1 = n * (a div n) + (a mod n + 1)" "a mod n + 1 < n" by linarith+
    then have "(a + 1) div n = a div n" "(a + 1) mod n = a mod n + 1"
      using r int_div_pos_eq [of "a + 1" n "a div n" "a mod n + 1"]
        int_mod_pos_eq [of "a + 1" n "a div n" "a mod n + 1"] by simp_all
    then show ?thesis using r by simp
  qed
qed

lemma mod_shift:
  fixes y n k :: int
  shows "(y - n * k) mod n = y mod n"
  using mod_mult_self2 [of "y - n * k" n k] by simp

lemma leap_count:
  "(c \<longrightarrow> b) \<Longrightarrow> (b \<longrightarrow> a) \<Longrightarrow>
   365 + (if a then 1 else 0) - (if b then 1 else 0) + (if c then 1 else 0) =
   (if a \<and> (\<not> b \<or> c) then 366 else (365 :: int))"
  by (cases a; cases b; cases c; simp)

lemma year_length: "day_from_year (y + 1) - day_from_year y = (if is_leap y then 366 else 365)"
proof -
  let ?i = "\<lambda>b. if b then 1 else (0 :: int)"
  have 4: "(y + 1 - 1969) div 4 = (y - 1969) div 4 + ?i (y mod 4 = 0)"
    using div_plus1 [of 4 "y - 1969"] mod_shift [of y 4 492] by simp
  have 100: "(y + 1 - 1901) div 100 = (y - 1901) div 100 + ?i (y mod 100 = 0)"
    using div_plus1 [of 100 "y - 1901"] mod_shift [of y 100 19] by simp
  have 400: "(y + 1 - 1601) div 400 = (y - 1601) div 400 + ?i (y mod 400 = 0)"
    using div_plus1 [of 400 "y - 1601"] mod_shift [of y 400 4] by simp
  have a: "y mod 400 = 0 \<Longrightarrow> y mod 100 = 0" and b: "y mod 100 = 0 \<Longrightarrow> y mod 4 = 0"
    by presburger+
  have "day_from_year (y + 1) - day_from_year y
      = 365 + ?i (y mod 4 = 0) - ?i (y mod 100 = 0) + ?i (y mod 400 = 0)"
    unfolding day_from_year_def 4 100 400 by (simp add: algebra_simps)
  also have "\<dots> = (if is_leap y then 366 else 365)"
    unfolding is_leap_def by (rule leap_count) (use a b in blast)+
  finally show ?thesis .
qed

text \<open>The number of days before a year is within two days of the Gregorian average.\<close>

lemma day_from_year_estimate:
  "146097 * (y - 1970) - 506 \<le> 400 * day_from_year y \<and>
   400 * day_from_year y \<le> 146097 * (y - 1970) + 589"
proof -
  have "4 * ((y - 1969) div 4) \<le> y - 1969 \<and> y - 1969 < 4 * ((y - 1969) div 4) + 4"
    "100 * ((y - 1901) div 100) \<le> y - 1901 \<and> y - 1901 < 100 * ((y - 1901) div 100) + 100"
    "400 * ((y - 1601) div 400) \<le> y - 1601 \<and> y - 1601 < 400 * ((y - 1601) div 400) + 400"
    by (rule div_bounds; simp)+
  then show ?thesis
    unfolding day_from_year_def by (simp add: algebra_simps)
qed

lemma year_of_day_bounds:
  "day_from_year (year_of_day d) \<le> d \<and> d < day_from_year (year_of_day d + 1)"
proof -
  define y where "y = 1970 + (d * 400) div 146097"
  have y: "146097 * (y - 1970) \<le> d * 400 \<and> d * 400 < 146097 * (y - 1970) + 146097"
    using div_bounds [of 146097 "d * 400"] by (simp add: y_def)
  have lo: "day_from_year (y - 1) \<le> d"
    using y day_from_year_estimate [of "y - 1"] by auto
  have hi: "d < day_from_year (y + 2)"
    using y day_from_year_estimate [of "y + 2"] by auto
  show ?thesis
    using lo hi unfolding year_of_day_def Let_def y_def [symmetric] by (auto simp: add.commute)
qed

lemma last_start_le:
  assumes "sorted starts" and "starts \<noteq> []" and "hd starts \<le> k"
  shows "last_start starts k < length starts" and "starts ! last_start starts k \<le> k"
    and "Suc (last_start starts k) < length starts \<Longrightarrow> k < starts ! Suc (last_start starts k)"
proof -
  let ?t = "takeWhile (\<lambda>s. s \<le> k) starts"
  have ne: "?t \<noteq> []" using assms by (cases starts) auto
  have len: "length ?t \<le> length starts" by (rule length_takeWhile_le)
  show "last_start starts k < length starts"
    using ne len assms(2) unfolding last_start_def by (metis Suc_pred diff_less length_greater_0_conv less_le_trans zero_less_one)
  have "last_start starts k < length ?t"
    using ne unfolding last_start_def by simp
  then show "starts ! last_start starts k \<le> k"
    by (metis nth_mem set_takeWhileD takeWhile_nth)
  assume "Suc (last_start starts k) < length starts"
  then have "length ?t < length starts"
    using ne unfolding last_start_def by simp
  then have "\<not> starts ! length ?t \<le> k" by (rule nth_length_takeWhile)
  then show "k < starts ! Suc (last_start starts k)"
    using ne unfolding last_start_def by simp
qed

text \<open>Reading a day number as year, month and day, and making a day number of them, is the identity.\<close>

lemma make_day_civil:
  assumes "civil d = (y, m, k)"
  shows "make_day y m k = d" and "0 \<le> m" and "m < 12" and "1 \<le> k"
proof -
  let ?y = "year_of_day d" and ?k = "d - day_from_year (year_of_day d)"
  let ?s = "month_starts (is_leap ?y)"
  have ge: "0 \<le> ?k" using year_of_day_bounds [of d] by simp
  have s: "sorted ?s" "?s \<noteq> []" "length ?s = 12" "hd ?s \<le> ?k"
    using ge by (auto simp: month_starts_def)
  note last = last_start_le [OF s(1,2,4)]
  have ymk: "y = ?y" "m = int (last_start ?s ?k)" "k = ?k - ?s ! last_start ?s ?k + 1"
    using assms by (auto simp: civil_def Let_def)
  show m: "0 \<le> m" "m < 12" using ymk last(1) s(3) by auto
  show "1 \<le> k" using ymk last(2) by simp
  have "m div 12 = 0" "m mod 12 = m" using m by auto
  then show "make_day y m k = d"
    using ymk by (simp add: make_day_def)
qed

text \<open>Days overflow linearly, so the day after is one more, whatever the month.\<close>

lemma make_day_add: "make_day y m (d + n) = make_day y m d + n"
  by (simp add: make_day_def Let_def)

end
