(* ===== verification/Database.thy ===== *)
theory Database
  imports Js_Dates
begin

text \<open>
  The state the services share: the tables of \<^verbatim>\<open>app/database/schema.prisma\<close> that the modelled
  code reads or writes, as lists of rows, with the columns it uses; and the audit journal.
  Dates in a row are valid instants, in milliseconds.

  Only the constraints that the code leans on are part of a write: the primary keys that
  the database allots (a parameter of the operation that inserts), the foreign keys of
  \<^verbatim>\<open>Attribution\<close> and the restricting and cascading deletes of \<^verbatim>\<open>Campaign\<close> and \<^verbatim>\<open>Role\<close>. The
  columns \<^verbatim>\<open>createdAt\<close> and \<^verbatim>\<open>updatedAt\<close> are never read by the modelled code and left out.
\<close>

section \<open>Rows of the territories feature\<close>

datatype TerritoryKindKey = Classical | Univ | Commerces | Phone | Hotel

datatype TerritoryAttributionKind = DefaultKind | PhoneKind

datatype CampaignRegularStartAction = StartPause | StartClose | StartLeave

datatype CampaignRegularEndAction = EndResume | EndKeepPaused | EndClose

record attribution =
  attr_id :: int
  attr_type :: TerritoryAttributionKind
  attr_publisherId :: int
  attr_territoryId :: int
  attr_startDate :: int
  attr_endDate :: "int option"
  attr_lateDate :: int
  attr_notes :: string
  attr_campaignId :: "int option"
  attr_pausedAt :: "int option"
  attr_pausedByCampaignId :: "int option"
  attr_congregationId :: int

record campaign =
  camp_id :: int
  camp_name :: string
  camp_notes :: string
  camp_startDate :: int
  camp_endDate :: int
  camp_restPeriodDays :: "int option"
  camp_startRegularAction :: CampaignRegularStartAction
  camp_startAutoReassign :: bool
  camp_endCloseCampaign :: bool
  camp_endRegularAction :: CampaignRegularEndAction
  camp_activatedAt :: "int option"
  camp_endedAt :: "int option"
  camp_congregationId :: int

record campaign_territory =
  ct_campaignId :: int
  ct_territoryId :: int
  ct_congregationId :: int

record territory =
  terr_id :: int
  terr_number :: string
  terr_type :: TerritoryKindKey
  terr_congregationId :: int

record setting =
  set_id :: int
  set_key :: string
  set_value :: string
  set_congregationId :: int

record territory_kind =
  tk_id :: int
  tk_key :: TerritoryKindKey
  tk_isBuiltIn :: bool
  tk_congregationId :: int

record kind_allowed_role =
  tkr_kindId :: int
  tkr_roleId :: int
  tkr_congregationId :: int

section \<open>Rows of roles, people and accounts\<close>

record role =
  role_id :: int
  role_key :: string
  role_name :: "string option"
  role_description :: "string option"
  role_isBuiltIn :: bool
  role_parentRoleId :: "int option"
  role_showInOrganigram :: bool
  role_organigramOrder :: "int option"
  role_organigramNote :: "string option"
  role_isSinglePerson :: bool
  role_congregationId :: int

record permission =
  perm_id :: int
  perm_key :: string

record role_permission =
  rp_roleId :: int
  rp_permissionId :: int
  rp_congregationId :: int

record user_role_assignment =
  ura_userId :: int
  ura_roleId :: int
  ura_kind :: string
  ura_congregationId :: int

record member_role_assignment =
  mra_memberId :: int
  mra_roleId :: int
  mra_congregationId :: int

record member =
  mem_id :: int
  mem_firstname :: string
  mem_lastname :: string
  mem_firstnameNormalized :: string
  mem_lastnameNormalized :: string
  mem_isMale :: "bool option"
  mem_birthDate :: "int option"
  mem_phone :: string
  mem_address :: string
  mem_email :: string
  mem_dpaCardUpToDate :: bool
  mem_survivalBackpackReady :: bool
  mem_isPublisher :: bool
  mem_baptismDate :: "int option"
  mem_isAnointed :: bool
  mem_isHelder :: bool
  mem_isServant :: bool
  mem_arrivedAt :: "int option"
  mem_lastPastoralVisitAt :: "int option"
  mem_leftAt :: "int option"
  mem_inactiveAt :: "int option"
  mem_anonymizedAt :: "int option"
  mem_publisherGroupId :: "int option"
  mem_congregationId :: int

record user_account =
  acc_id :: int
  acc_memberId :: "int option"
  acc_email :: string
  acc_firstname :: "string option"
  acc_lastname :: "string option"
  acc_password :: string
  acc_active :: bool
  acc_emailVerifiedAt :: "int option"
  acc_anonymizedAt :: "int option"
  acc_congregationId :: int

datatype PublisherType = Normal | PionnierAuxiliaires | PionnierPermanant | PionnierSpecial | Missionnaire

record pioneer_enrolment =
  pe_id :: int
  pe_memberId :: int
  pe_type :: PublisherType
  pe_startMonth :: int
  pe_startYear :: int
  pe_endMonth :: "int option"
  pe_endYear :: "int option"
  pe_monthlyGoal :: "int option"
  pe_congregationId :: int

record publisher_activity =
  pa_id :: int
  pa_month :: int
  pa_year :: int
  pa_publisherId :: int
  pa_hours :: "int option"
  pa_studies :: int
  pa_type :: PublisherType
  pa_isPublisher :: bool
  pa_notes :: string
  pa_creditHours :: "int option"
  pa_congregationId :: int

text \<open>The column of the address is spelled \<^verbatim>\<open>adress\<close> in the schema.\<close>

record publisher_group =
  pg_id :: int
  pg_name :: string
  pg_adress :: string
  pg_responsibleId :: int
  pg_deputyId :: "int option"
  pg_congregationId :: int

record emergency_contact =
  ec_memberId :: int
  ec_name :: string
  ec_relationship :: string
  ec_phone :: string
  ec_congregationId :: int

record pioneer_goal =
  goal_id :: int
  goal_type :: PublisherType
  goal_serviceYear :: int
  goal_monthlyHours :: int
  goal_congregationId :: int

record data_deletion_record =
  ddr_entityType :: string
  ddr_entityId :: int
  ddr_congregationId :: int
  ddr_requestedBy :: string
  ddr_completedAt :: int

text \<open>The tenants. The table is outside row-level security and never written by the modelled code.\<close>

record congregation =
  cong_id :: int
  cong_slug :: string
  cong_active :: bool
  cong_suspendedAt :: "int option"

section \<open>The audit journal\<close>

datatype json = JNull | JBool bool | JNum int | JStr string | JArr "json list" | JObj "(string \<times> json) list"

record audit_entry =
  au_action :: string
  au_congregationId :: int
  au_actorId :: "int option"
  au_entityType :: "string option"
  au_entityId :: "int option"
  au_metadata :: "(string \<times> json) list option"

record db =
  attributions :: "attribution list"
  campaigns :: "campaign list"
  campaignTerritories :: "campaign_territory list"
  territories :: "territory list"
  settings :: "setting list"
  territoryKinds :: "territory_kind list"
  kindAllowedRoles :: "kind_allowed_role list"
  roles :: "role list"
  permissions :: "permission list"
  rolePermissions :: "role_permission list"
  userRoleAssignments :: "user_role_assignment list"
  memberRoleAssignments :: "member_role_assignment list"
  members :: "member list"
  userAccounts :: "user_account list"
  pioneerEnrolments :: "pioneer_enrolment list"
  publisherActivities :: "publisher_activity list"
  publisherGroups :: "publisher_group list"
  emergencyContacts :: "emergency_contact list"
  pioneerGoals :: "pioneer_goal list"
  dataDeletionRecords :: "data_deletion_record list"
  auditLog :: "audit_entry list"

text \<open>
  \<^verbatim>\<open>audit(entry)\<close> starts a write of the journal outside the transaction and never throws; the
  model appends the entry, in the order the calls are made.
\<close>

definition audit :: "audit_entry \<Rightarrow> db \<Rightarrow> db" where
  "audit e db = db\<lparr>auditLog := auditLog db @ [e]\<rparr>"

definition entity_audit ::
  "string \<Rightarrow> int \<Rightarrow> int \<Rightarrow> string \<Rightarrow> int \<Rightarrow> (string \<times> json) list option \<Rightarrow> db \<Rightarrow> db" where
  "entity_audit action congregationId actorId entityType entityId metadata =
     audit \<lparr>au_action = action, au_congregationId = congregationId, au_actorId = Some actorId,
            au_entityType = Some entityType, au_entityId = Some entityId, au_metadata = metadata\<rparr>"

definition json_opt :: "int option \<Rightarrow> json" where
  "json_opt x = (case x of None \<Rightarrow> JNull | Some n \<Rightarrow> JNum n)"

text \<open>The journal is the only table an audit call touches.\<close>

lemma audit_frame [simp]:
  "attributions (audit e d) = attributions d"
  "campaigns (audit e d) = campaigns d"
  "campaignTerritories (audit e d) = campaignTerritories d"
  "territories (audit e d) = territories d"
  "settings (audit e d) = settings d"
  "territoryKinds (audit e d) = territoryKinds d"
  "kindAllowedRoles (audit e d) = kindAllowedRoles d"
  "roles (audit e d) = roles d"
  "permissions (audit e d) = permissions d"
  "rolePermissions (audit e d) = rolePermissions d"
  "userRoleAssignments (audit e d) = userRoleAssignments d"
  "memberRoleAssignments (audit e d) = memberRoleAssignments d"
  "members (audit e d) = members d"
  "userAccounts (audit e d) = userAccounts d"
  "pioneerEnrolments (audit e d) = pioneerEnrolments d"
  "publisherActivities (audit e d) = publisherActivities d"
  "publisherGroups (audit e d) = publisherGroups d"
  "emergencyContacts (audit e d) = emergencyContacts d"
  "pioneerGoals (audit e d) = pioneerGoals d"
  "dataDeletionRecords (audit e d) = dataDeletionRecords d"
  "auditLog (audit e d) = auditLog d @ [e]"
  by (simp_all add: audit_def)

lemma entity_audit_frame [simp]:
  "attributions (entity_audit a c u t i m d) = attributions d"
  "campaigns (entity_audit a c u t i m d) = campaigns d"
  "campaignTerritories (entity_audit a c u t i m d) = campaignTerritories d"
  "territories (entity_audit a c u t i m d) = territories d"
  "settings (entity_audit a c u t i m d) = settings d"
  "territoryKinds (entity_audit a c u t i m d) = territoryKinds d"
  "kindAllowedRoles (entity_audit a c u t i m d) = kindAllowedRoles d"
  "roles (entity_audit a c u t i m d) = roles d"
  "permissions (entity_audit a c u t i m d) = permissions d"
  "rolePermissions (entity_audit a c u t i m d) = rolePermissions d"
  "userRoleAssignments (entity_audit a c u t i m d) = userRoleAssignments d"
  "memberRoleAssignments (entity_audit a c u t i m d) = memberRoleAssignments d"
  "members (entity_audit a c u t i m d) = members d"
  "userAccounts (entity_audit a c u t i m d) = userAccounts d"
  "pioneerEnrolments (entity_audit a c u t i m d) = pioneerEnrolments d"
  "publisherActivities (entity_audit a c u t i m d) = publisherActivities d"
  "publisherGroups (entity_audit a c u t i m d) = publisherGroups d"
  "emergencyContacts (entity_audit a c u t i m d) = emergencyContacts d"
  "pioneerGoals (entity_audit a c u t i m d) = pioneerGoals d"
  "dataDeletionRecords (entity_audit a c u t i m d) = dataDeletionRecords d"
  by (simp_all add: entity_audit_def)

section \<open>The environment of an operation\<close>

text \<open>
  What an operation takes from outside the program: the time zone and the primary keys the
  database allots to inserted rows. A key generator never allots a key in use.
\<close>

record env =
  env_zone :: zone
  env_attribution_id :: "attribution list \<Rightarrow> int"
  env_campaign_id :: "campaign list \<Rightarrow> int"
  env_role_id :: "role list \<Rightarrow> int"
  env_setting_id :: "setting list \<Rightarrow> int"
  env_enrolment_id :: "pioneer_enrolment list \<Rightarrow> int"
  env_member_id :: "member list \<Rightarrow> int"
  env_account_id :: "user_account list \<Rightarrow> int"
  env_group_id :: "publisher_group list \<Rightarrow> int"
  env_activity_id :: "publisher_activity list \<Rightarrow> int"
  env_goal_id :: "pioneer_goal list \<Rightarrow> int"

definition fresh_keys :: "env \<Rightarrow> bool" where
  "fresh_keys ev \<longleftrightarrow>
     (\<forall>rows. env_attribution_id ev rows \<notin> attr_id ` set rows) \<and>
     (\<forall>rows. env_campaign_id ev rows \<notin> camp_id ` set rows) \<and>
     (\<forall>rows. env_role_id ev rows \<notin> role_id ` set rows) \<and>
     (\<forall>rows. env_setting_id ev rows \<notin> set_id ` set rows) \<and>
     (\<forall>rows. env_enrolment_id ev rows \<notin> pe_id ` set rows) \<and>
     (\<forall>rows. env_member_id ev rows \<notin> mem_id ` set rows) \<and>
     (\<forall>rows. env_account_id ev rows \<notin> acc_id ` set rows) \<and>
     (\<forall>rows. env_group_id ev rows \<notin> pg_id ` set rows) \<and>
     (\<forall>rows. env_activity_id ev rows \<notin> pa_id ` set rows) \<and>
     (\<forall>rows. env_goal_id ev rows \<notin> goal_id ` set rows)"

text \<open>A concrete environment: UTC, and serial keys.\<close>

definition next_key :: "int list \<Rightarrow> int" where
  "next_key ids = fold max ids 0 + 1"

definition utc_env :: env where
  "utc_env = \<lparr>env_zone = utc, env_attribution_id = next_key \<circ> map attr_id,
     env_campaign_id = next_key \<circ> map camp_id, env_role_id = next_key \<circ> map role_id,
     env_setting_id = next_key \<circ> map set_id, env_enrolment_id = next_key \<circ> map pe_id,
     env_member_id = next_key \<circ> map mem_id, env_account_id = next_key \<circ> map acc_id, env_group_id = next_key \<circ> map pg_id,
     env_activity_id = next_key \<circ> map pa_id, env_goal_id = next_key \<circ> map goal_id\<rparr>"

lemma fold_max_ge: "a \<le> fold max ids a \<and> (\<forall>i \<in> set ids. i \<le> fold max ids (a :: int))"
  by (induction ids arbitrary: a) (auto intro: order_trans [OF max.cobounded1] order_trans [OF max.cobounded2])

lemma next_key_fresh: "next_key ids \<notin> set ids"
  using fold_max_ge [of 0 ids] unfolding next_key_def by fastforce

lemma next_key_fresh_image: "next_key (map f rows) \<notin> f ` set rows"
  using next_key_fresh [of "map f rows"] by simp

lemma fresh_utc_env: "fresh_keys utc_env"
  unfolding fresh_keys_def utc_env_def by (simp add: next_key_fresh_image)

definition empty_db :: db where
  "empty_db = \<lparr>attributions = [], campaigns = [], campaignTerritories = [], territories = [],
     settings = [], territoryKinds = [], kindAllowedRoles = [], roles = [], permissions = [],
     rolePermissions = [], userRoleAssignments = [], memberRoleAssignments = [], members = [],
     userAccounts = [], pioneerEnrolments = [], publisherActivities = [], publisherGroups = [],
     emergencyContacts = [], pioneerGoals = [], dataDeletionRecords = [], auditLog = []\<rparr>"

section \<open>Sample rows\<close>

text \<open>Concrete rows on which the witnesses evaluate the operations (congregation 1).\<close>

definition sample_attribution :: "int \<Rightarrow> int \<Rightarrow> int \<Rightarrow> int \<Rightarrow> int \<Rightarrow> attribution" where
  "sample_attribution i publisherId territoryId startDate lateDate =
     \<lparr>attr_id = i, attr_type = DefaultKind, attr_publisherId = publisherId, attr_territoryId = territoryId,
      attr_startDate = startDate, attr_endDate = None, attr_lateDate = lateDate, attr_notes = [],
      attr_campaignId = None, attr_pausedAt = None, attr_pausedByCampaignId = None, attr_congregationId = 1\<rparr>"

definition sample_territory :: "int \<Rightarrow> territory" where
  "sample_territory i = \<lparr>terr_id = i, terr_number = ''12'', terr_type = Classical, terr_congregationId = 1\<rparr>"

definition sample_member :: "int \<Rightarrow> member" where
  "sample_member i =
     \<lparr>mem_id = i, mem_firstname = ''Ada'', mem_lastname = ''Martin'',
      mem_firstnameNormalized = ''ada'', mem_lastnameNormalized = ''martin'', mem_isMale = Some True,
      mem_birthDate = None, mem_phone = [], mem_address = [], mem_email = [], mem_dpaCardUpToDate = False,
      mem_survivalBackpackReady = False, mem_isPublisher = True,
      mem_baptismDate = Some 0, mem_isAnointed = False, mem_isHelder = False, mem_isServant = False,
      mem_arrivedAt = None, mem_lastPastoralVisitAt = None, mem_leftAt = None, mem_inactiveAt = None, mem_anonymizedAt = None, mem_publisherGroupId = None,
      mem_congregationId = 1\<rparr>"

definition sample_login :: "int \<Rightarrow> int option \<Rightarrow> user_account" where
  "sample_login i memberId = \<lparr>acc_id = i, acc_memberId = memberId, acc_email = ''a'', acc_firstname = None,
     acc_lastname = None, acc_password = [], acc_active = True, acc_emailVerifiedAt = None, acc_anonymizedAt = None,
     acc_congregationId = 1\<rparr>"

definition sample_campaign :: "int \<Rightarrow> int \<Rightarrow> int \<Rightarrow> campaign" where
  "sample_campaign i startDate endDate =
     \<lparr>camp_id = i, camp_name = ''Invitation'', camp_notes = [], camp_startDate = startDate, camp_endDate = endDate,
      camp_restPeriodDays = None, camp_startRegularAction = StartPause, camp_startAutoReassign = False,
      camp_endCloseCampaign = True, camp_endRegularAction = EndResume, camp_activatedAt = None,
      camp_endedAt = None, camp_congregationId = 1\<rparr>"

definition sample_role :: "int \<Rightarrow> string \<Rightarrow> int option \<Rightarrow> role" where
  "sample_role i key parent =
     \<lparr>role_id = i, role_key = key, role_name = Some key, role_description = None, role_isBuiltIn = False,
      role_parentRoleId = parent, role_showInOrganigram = True, role_organigramOrder = Some i,
      role_organigramNote = None, role_isSinglePerson = False, role_congregationId = 1\<rparr>"

text \<open>Two publishers, two territories, and one regular attribution that is open.\<close>

definition sample_db :: db where
  "sample_db = empty_db\<lparr>members := [sample_member 1, sample_member 2],
     territories := [sample_territory 7, sample_territory 8],
     attributions := [sample_attribution 5 1 7 1000 90000]\<rparr>"

lemmas sample_defs = sample_attribution_def sample_territory_def sample_member_def sample_campaign_def
  sample_role_def sample_db_def empty_db_def

end
