(* ===== verification/Board_Appearance.thy ===== *)
theory Board_Appearance
  imports Database
begin

text \<open>
  How a computed document of the board looks: \<^verbatim>\<open>features/display-board/model/board-appearance.ts\<close>,
  \<^verbatim>\<open>model/dynamic-document.type.ts\<close> and \<^verbatim>\<open>schemas/appearance.schema.ts\<close>. Typefaces, accents and
  layouts are the strings that are stored.
\<close>

definition DynamicTypes :: "string list" where
  "DynamicTypes = [''publisher-groups'', ''pioneers'', ''programme'', ''organigram'']"

definition isDynamicType :: "string \<Rightarrow> bool" where
  "isDynamicType value \<longleftrightarrow> value \<in> set DynamicTypes"

definition BOARD_TYPEFACES :: "string list" where
  "BOARD_TYPEFACES = [''fira'', ''atkinson'', ''serif'']"

definition BOARD_ACCENTS :: "string list" where
  "BOARD_ACCENTS = [''teal'', ''blue'', ''indigo'', ''plum'', ''wine'', ''brick'', ''olive'', ''slate'', ''black'']"

text \<open>The layouts each document offers, its default first.\<close>

definition BOARD_LAYOUTS :: "string \<Rightarrow> string list" where
  "BOARD_LAYOUTS ty =
     (if ty = ''publisher-groups'' then [''directory'', ''columns'', ''bands'']
      else if ty = ''organigram'' then [''leader'', ''chart'']
      else if ty = ''pioneers'' then [''sections'', ''columns'']
      else if ty = ''programme'' then [''list''] else [])"

record BoardAppearance =
  bap_typeface :: string
  bap_accent :: string
  bap_layout :: string

definition defaultAppearance :: "string \<Rightarrow> BoardAppearance" where
  "defaultAppearance ty = \<lparr>bap_typeface = ''fira'', bap_accent = ''teal'', bap_layout = hd (BOARD_LAYOUTS ty)\<rparr>"

definition isBoardLayout :: "string \<Rightarrow> string \<Rightarrow> bool" where
  "isBoardLayout ty chosen \<longleftrightarrow> chosen \<in> set (BOARD_LAYOUTS ty)"

text \<open>What the form may send: three choices, each from the union of its lists.\<close>

definition ALL_LAYOUTS :: "string list" where
  "ALL_LAYOUTS = remdups (concat (map BOARD_LAYOUTS DynamicTypes))"

definition appearanceInputSchema :: "BoardAppearance \<Rightarrow> bool" where
  "appearanceInputSchema a \<longleftrightarrow>
     bap_typeface a \<in> set BOARD_TYPEFACES \<and> bap_accent a \<in> set BOARD_ACCENTS \<and> bap_layout a \<in> set ALL_LAYOUTS"

definition appearanceFor :: "string \<Rightarrow> BoardAppearance \<Rightarrow> BoardAppearance" where
  "appearanceFor ty input =
     \<lparr>bap_typeface = bap_typeface input, bap_accent = bap_accent input,
      bap_layout = (if isBoardLayout ty (bap_layout input) then bap_layout input else bap_layout (defaultAppearance ty))\<rparr>"

definition appearance_json :: "BoardAppearance \<Rightarrow> json" where
  "appearance_json a =
     JObj [(''typeface'', JStr (bap_typeface a)), (''accent'', JStr (bap_accent a)), (''layout'', JStr (bap_layout a))]"

text \<open>A choice of the stored object that no longer reads falls back to its own default.\<close>

definition fields :: "json option \<Rightarrow> (string \<times> json) list" where
  "fields raw = (case raw of Some (JObj fs) \<Rightarrow> fs | _ \<Rightarrow> [])"

definition chosen_from :: "string set \<Rightarrow> (string \<times> json) list \<Rightarrow> string \<Rightarrow> string \<Rightarrow> string" where
  "chosen_from choices stored name fallback =
     (case map_of stored name of Some (JStr s) \<Rightarrow> if s \<in> choices then s else fallback | _ \<Rightarrow> fallback)"

definition parseAppearance :: "string \<Rightarrow> json option \<Rightarrow> BoardAppearance" where
  "parseAppearance ty raw =
     (let stored = fields raw; fallback = defaultAppearance ty
      in \<lparr>bap_typeface = chosen_from (set BOARD_TYPEFACES) stored ''typeface'' (bap_typeface fallback),
          bap_accent = chosen_from (set BOARD_ACCENTS) stored ''accent'' (bap_accent fallback),
          bap_layout = chosen_from (set (BOARD_LAYOUTS ty)) stored ''layout'' (bap_layout fallback)\<rparr>)"

section \<open>What is stored reads back\<close>

lemma default_layout_offered: "isDynamicType ty \<Longrightarrow> bap_layout (defaultAppearance ty) \<in> set (BOARD_LAYOUTS ty)"
  by (auto simp: isDynamicType_def DynamicTypes_def defaultAppearance_def BOARD_LAYOUTS_def)

definition offered :: "string \<Rightarrow> BoardAppearance \<Rightarrow> bool" where
  "offered ty a \<longleftrightarrow> bap_typeface a \<in> set BOARD_TYPEFACES \<and> bap_accent a \<in> set BOARD_ACCENTS \<and> bap_layout a \<in> set (BOARD_LAYOUTS ty)"

lemma appearanceFor_offered:
  assumes "isDynamicType ty" and "appearanceInputSchema input"
  shows "offered ty (appearanceFor ty input)"
  using assms default_layout_offered [OF assms(1)]
  by (simp add: offered_def appearanceFor_def appearanceInputSchema_def isBoardLayout_def)

lemma chosen_from_in: "fallback \<in> choices \<Longrightarrow> chosen_from choices stored name fallback \<in> choices"
  by (simp add: chosen_from_def split: option.split json.split)

lemma default_choices:
  "bap_typeface (defaultAppearance ty) \<in> set BOARD_TYPEFACES" "bap_accent (defaultAppearance ty) \<in> set BOARD_ACCENTS"
  by (simp_all add: defaultAppearance_def BOARD_TYPEFACES_def BOARD_ACCENTS_def)

lemma parseAppearance_offered:
  assumes "isDynamicType ty"
  shows "offered ty (parseAppearance ty raw)"
  using default_layout_offered [OF assms] by (simp add: offered_def parseAppearance_def Let_def chosen_from_in default_choices)

lemma parse_offered:
  assumes "offered ty a"
  shows "parseAppearance ty (Some (appearance_json a)) = a"
  using assms by (simp add: offered_def parseAppearance_def fields_def appearance_json_def chosen_from_def Let_def)

text \<open>
  The appearance that the form chose and that is stored for a document reads back as it was stored,
  whatever layout the form named; and whatever is stored, what is read is offered for the document.
\<close>

theorem appearance_reads_back:
  assumes "isDynamicType ty" and "appearanceInputSchema input"
  shows "parseAppearance ty (Some (appearance_json (appearanceFor ty input))) = appearanceFor ty input \<and>
    (\<forall>raw. offered ty (parseAppearance ty raw))"
  using parse_offered [OF appearanceFor_offered [OF assms]] parseAppearance_offered [OF assms(1)] by blast

lemma appearance_reads_back_witness:
  "parseAppearance ''pioneers'' (Some (appearance_json (appearanceFor ''pioneers''
     \<lparr>bap_typeface = ''serif'', bap_accent = ''plum'', bap_layout = ''chart''\<rparr>))) =
   \<lparr>bap_typeface = ''serif'', bap_accent = ''plum'', bap_layout = ''sections''\<rparr>"
  using appearance_reads_back [of "''pioneers''" "\<lparr>bap_typeface = ''serif'', bap_accent = ''plum'', bap_layout = ''chart''\<rparr>"]
  by (simp add: isDynamicType_def DynamicTypes_def appearanceInputSchema_def BOARD_TYPEFACES_def BOARD_ACCENTS_def
      ALL_LAYOUTS_def BOARD_LAYOUTS_def appearanceFor_def isBoardLayout_def defaultAppearance_def)

end
