(* ===== verification/Role_Keys.thy ===== *)
theory Role_Keys
  imports Database
begin

text \<open>
  The keys of the roles every congregation has (\<^verbatim>\<open>shared/domain/built-in-roles.server.ts\<close>), their
  display names (\<^verbatim>\<open>shared/types/role.ts\<close>) and the pure rules of the organigram
  (\<^verbatim>\<open>shared/domain/role-tree.policy.ts\<close>). The messages of the translation files and the
  collation of \<^verbatim>\<open>localeCompare\<close> are parameters, gathered in the record \<open>i18n\<close>.
\<close>

section \<open>Keys\<close>

definition BUILT_IN_ROLE_KEYS :: "string list" where
  "BUILT_IN_ROLE_KEYS = [''member'', ''ministry-school-student'', ''publisher'', ''baptized'', ''brother'',
     ''sister'', ''anointed'', ''elder'', ''assistant-servant'', ''pioneer'']"

definition SYSTEM_ROLE_KEYS :: "string list" where
  "SYSTEM_ROLE_KEYS = [''admin'']"

definition SERVICE_COMMITTEE_KEY :: string where
  "SERVICE_COMMITTEE_KEY = ''service-committee''"

definition SERVICE_COMMITTEE_POST_KEYS :: "string list" where
  "SERVICE_COMMITTEE_POST_KEYS = [''coordinator'', ''secretary'', ''service-overseer'']"

definition APPOINTED_ROLE_KEYS :: "string list" where
  "APPOINTED_ROLE_KEYS = SERVICE_COMMITTEE_KEY # SERVICE_COMMITTEE_POST_KEYS"

definition isAppointedRoleKey :: "string \<Rightarrow> bool" where
  "isAppointedRoleKey key \<longleftrightarrow> key \<in> set APPOINTED_ROLE_KEYS"

definition isServiceCommitteePostKey :: "string \<Rightarrow> bool" where
  "isServiceCommitteePostKey key \<longleftrightarrow> key \<in> set SERVICE_COMMITTEE_POST_KEYS"

definition isIdentityRoleKey :: "string \<Rightarrow> bool" where
  "isIdentityRoleKey key \<longleftrightarrow> key \<in> set BUILT_IN_ROLE_KEYS"

lemmas role_key_defs = BUILT_IN_ROLE_KEYS_def SYSTEM_ROLE_KEYS_def SERVICE_COMMITTEE_KEY_def
  SERVICE_COMMITTEE_POST_KEYS_def APPOINTED_ROLE_KEYS_def isAppointedRoleKey_def
  isServiceCommitteePostKey_def isIdentityRoleKey_def

lemma post_is_appointed: "isServiceCommitteePostKey key \<Longrightarrow> isAppointedRoleKey key"
  by (simp add: role_key_defs)

lemma appointed_not_identity: "isAppointedRoleKey key \<Longrightarrow> \<not> isIdentityRoleKey key"
  by (auto simp: role_key_defs)

section \<open>Display names\<close>

record i18n =
  localeCompare :: "string \<Rightarrow> string \<Rightarrow> int"
  built_in_name :: "string \<Rightarrow> string option"
  built_in_description :: "string \<Rightarrow> string option"

text \<open>An absent or empty name falls through to the catalogue and then to the key.\<close>

definition getRoleDisplayName :: "i18n \<Rightarrow> string \<Rightarrow> string option \<Rightarrow> string" where
  "getRoleDisplayName loc key name =
     (case name of
        Some (c # cs) \<Rightarrow> c # cs
      | _ \<Rightarrow> (case built_in_name loc key of Some s \<Rightarrow> s | None \<Rightarrow> key))"

definition getRoleDescription :: "i18n \<Rightarrow> string \<Rightarrow> string option \<Rightarrow> string" where
  "getRoleDescription loc key description =
     (case description of
        Some (c # cs) \<Rightarrow> c # cs
      | _ \<Rightarrow> (case built_in_description loc key of Some s \<Rightarrow> s | None \<Rightarrow> []))"

section \<open>The policy of the organigram\<close>

definition MAX_ORGANIGRAM_DEPTH :: nat where
  "MAX_ORGANIGRAM_DEPTH = 10"

definition ORGANIGRAM_ROSTER_KEYS :: "string list" where
  "ORGANIGRAM_ROSTER_KEYS = [''elder'', ''assistant-servant'']"

record SetParentInput =
  spi_roleId :: int
  spi_roleKey :: string
  spi_parentChainIds :: "int list"
  spi_subtreeHeight :: nat

definition assertCanSetParent :: "SetParentInput \<Rightarrow> app_error option" where
  "assertCanSetParent p =
     (if spi_roleKey p \<in> set ORGANIGRAM_ROSTER_KEYS \<and> length (spi_parentChainIds p) > 0
      then Some (ForbiddenError ''rosterIsRoot'')
      else if isAppointedRoleKey (spi_roleKey p) then Some (ForbiddenError ''fixedPosition'')
      else if spi_roleKey p \<notin> set ORGANIGRAM_ROSTER_KEYS \<and> length (spi_parentChainIds p) = 0
      then Some (ValidationError ''parentRoleId'' ''serviceNeedsParent'')
      else if spi_roleId p \<in> set (spi_parentChainIds p) then Some (ValidationError ''parentRoleId'' ''cycle'')
      else if length (spi_parentChainIds p) + 1 + spi_subtreeHeight p > MAX_ORGANIGRAM_DEPTH
      then Some (ValidationError ''parentRoleId'' ''tooDeep'')
      else None)"

definition canShowInOrganigram :: "string \<Rightarrow> bool" where
  "canShowInOrganigram roleKey \<longleftrightarrow>
     roleKey \<in> set ORGANIGRAM_ROSTER_KEYS \<or>
     (\<not> isIdentityRoleKey roleKey \<and> roleKey \<notin> set SYSTEM_ROLE_KEYS)"

definition assertCanShowInOrganigram :: "string \<Rightarrow> app_error option" where
  "assertCanShowInOrganigram roleKey =
     (if \<not> canShowInOrganigram roleKey then Some (ForbiddenError ''notAnOrganigramRole'') else None)"

definition assertCanLeaveOrganigram :: "string \<Rightarrow> app_error option" where
  "assertCanLeaveOrganigram roleKey =
     (if isAppointedRoleKey roleKey then Some (ForbiddenError ''fixedPosition'') else None)"

lemma assertCanSetParent_None:
  "assertCanSetParent p = None \<longleftrightarrow>
     (spi_roleKey p \<in> set ORGANIGRAM_ROSTER_KEYS \<longrightarrow> spi_parentChainIds p = []) \<and>
     (spi_roleKey p \<notin> set ORGANIGRAM_ROSTER_KEYS \<longrightarrow> spi_parentChainIds p \<noteq> []) \<and>
     \<not> isAppointedRoleKey (spi_roleKey p) \<and> spi_roleId p \<notin> set (spi_parentChainIds p) \<and>
     length (spi_parentChainIds p) + 1 + spi_subtreeHeight p \<le> MAX_ORGANIGRAM_DEPTH"
  by (auto simp: assertCanSetParent_def)

lemma canShowInOrganigram_cases:
  "canShowInOrganigram key \<longleftrightarrow>
     key \<in> {''elder'', ''assistant-servant''} \<or> key \<notin> set (BUILT_IN_ROLE_KEYS @ SYSTEM_ROLE_KEYS)"
  by (auto simp: canShowInOrganigram_def ORGANIGRAM_ROSTER_KEYS_def isIdentityRoleKey_def)

end
