(* ===== verification/Permissions.thy ===== *)
theory Permissions
  imports Role_Keys
begin

text \<open>
  How a permission reaches an account (\<^verbatim>\<open>shared/auth/permissions.server.ts\<close>,
  \<^verbatim>\<open>shared/types/permission.ts\<close>) and the limits on what an actor may grant
  (\<^verbatim>\<open>shared/domain/role-grant-limits.server.ts\<close>). The checks of the code that read outside the
  transaction run before the operation's first write, so they read the state it starts from.
\<close>

section \<open>The catalogue\<close>

definition CanDoAnything :: string where
  "CanDoAnything = ''can-do-anything''"

definition ALL_PERMISSIONS :: "string list" where
  "ALL_PERMISSIONS = [CanDoAnything, ''can-view-board'', ''can-upload-board-documents'', ''can-review-board-documents'',
     ''can-organise-board-documents'', ''can-configure-board-sections'', ''can-manage-dynamic-board-documents'',
     ''can-view-territories'', ''can-manage-territories'', ''can-view-territory-attributions'',
     ''can-manage-territory-attributions'', ''can-manage-territory-campaigns'', ''can-plan-territory-splits'',
     ''can-configure-territory-settings'', ''can-view-prospection'', ''can-record-prospection'',
     ''can-manage-buildings'', ''can-view-publishers'', ''can-manage-publishers'',
     ''can-manage-publisher-lifecycle'', ''can-manage-publisher-groups'', ''can-view-activity'',
     ''can-record-activity'', ''can-correct-activity'', ''can-set-pioneer-goals'', ''can-view-emergency-info'',
     ''can-manage-emergency-info'', ''can-view-programs'', ''can-manage-programs'', ''can-assign-program-parts'',
     ''can-publish-programs'', ''can-manage-program-templates'', ''can-view-absences'',
     ''can-view-external-speakers'', ''can-manage-external-speakers'', ''can-view-users'', ''can-manage-users'',
     ''can-view-roles'', ''can-manage-roles'', ''can-configure-permissions'', ''can-configure-congregation'',
     ''can-export-congregation-data'', ''can-import-congregation-data'', ''can-delete-user-accounts'',
     ''can-anonymise-people'']"

definition PERMISSION_REQUIRES :: "string \<Rightarrow> string list" where
  "PERMISSION_REQUIRES p =
     (if p = ''can-manage-territory-attributions'' then [''can-view-publishers'']
      else if p = ''can-assign-program-parts'' then [''can-view-publishers'']
      else if p = ''can-plan-territory-splits'' then [''can-view-territories'']
      else if p = ''can-configure-permissions'' then [''can-view-roles'']
      else [])"

section \<open>The two paths\<close>

definition role_has_permission :: "db \<Rightarrow> int \<Rightarrow> string \<Rightarrow> bool" where
  "role_has_permission db roleId key \<longleftrightarrow>
     (\<exists>rp \<in> set (rolePermissions db). rp_roleId rp = roleId \<and>
        (\<exists>p \<in> set (permissions db). perm_id p = rp_permissionId rp \<and> perm_key p = key))"

text \<open>A role reaches an account directly, or through the member the account is linked to.\<close>

definition assigned_to_account :: "db \<Rightarrow> int \<Rightarrow> int \<Rightarrow> bool" where
  "assigned_to_account db userId roleId \<longleftrightarrow>
     (\<exists>a \<in> set (userRoleAssignments db). ura_userId a = userId \<and> ura_roleId a = roleId) \<or>
     (\<exists>u \<in> set (userAccounts db). acc_id u = userId \<and>
        (\<exists>a \<in> set (memberRoleAssignments db). acc_memberId u = Some (mra_memberId a) \<and> mra_roleId a = roleId))"

definition account_has_permission :: "db \<Rightarrow> string \<Rightarrow> user_account \<Rightarrow> bool" where
  "account_has_permission db key u \<longleftrightarrow>
     (\<exists>a \<in> set (userRoleAssignments db). ura_userId a = acc_id u \<and> role_has_permission db (ura_roleId a) key) \<or>
     (\<exists>a \<in> set (memberRoleAssignments db). acc_memberId u = Some (mra_memberId a) \<and> role_has_permission db (mra_roleId a) key)"

definition members_with_any_role :: "db \<Rightarrow> int list \<Rightarrow> member \<Rightarrow> bool" where
  "members_with_any_role db roleIds m \<longleftrightarrow>
     mem_leftAt m = None \<and> mem_anonymizedAt m = None \<and>
     ((\<exists>a \<in> set (memberRoleAssignments db). mra_memberId a = mem_id m \<and> mra_roleId a \<in> set roleIds) \<or>
      (\<exists>u \<in> set (userAccounts db). acc_memberId u = Some (mem_id m) \<and>
         (\<exists>a \<in> set (userRoleAssignments db). ura_userId a = acc_id u \<and> ura_roleId a \<in> set roleIds)))"

definition notificationRecipientFilter :: "db \<Rightarrow> user_account \<Rightarrow> bool" where
  "notificationRecipientFilter db u \<longleftrightarrow>
     acc_active u \<and>
     (case acc_memberId u of
        None \<Rightarrow> True
      | Some i \<Rightarrow> (\<exists>m \<in> set (members db). mem_id m = i \<and> mem_leftAt m = None \<and> mem_anonymizedAt m = None))"

section \<open>Resolution\<close>

definition permission_keys_of_roles :: "db \<Rightarrow> (role_permission \<Rightarrow> bool) \<Rightarrow> string list" where
  "permission_keys_of_roles db sel =
     concat (map (\<lambda>rp. map perm_key (filter (\<lambda>p. perm_id p = rp_permissionId rp) (permissions db)))
       (filter sel (rolePermissions db)))"

definition granted_keys :: "db \<Rightarrow> int \<Rightarrow> int \<Rightarrow> string list" where
  "granted_keys db userId congregationId =
     permission_keys_of_roles db
       (\<lambda>rp. rp_congregationId rp = congregationId \<and> assigned_to_account db userId (rp_roleId rp))"

definition resolveEffectivePermissions :: "db \<Rightarrow> int \<Rightarrow> int \<Rightarrow> string set" where
  "resolveEffectivePermissions db userId congregationId =
     (let granted = set (granted_keys db userId congregationId)
      in if CanDoAnything \<in> granted then set ALL_PERMISSIONS else granted)"

definition resolveEffectiveRoleIds :: "db \<Rightarrow> int \<Rightarrow> int \<Rightarrow> int list" where
  "resolveEffectiveRoleIds db userId congregationId =
     js_set (map role_id (filter (\<lambda>r. role_congregationId r = congregationId \<and>
        assigned_to_account db userId (role_id r)) (roles db)))"

definition findAccountsWithPermission :: "db \<Rightarrow> int \<Rightarrow> string \<Rightarrow> user_account list" where
  "findAccountsWithPermission db congregationId permissionKey =
     filter (\<lambda>u. acc_congregationId u = congregationId \<and> account_has_permission db permissionKey u) (userAccounts db)"

definition findNotificationRecipientsWithPermission :: "db \<Rightarrow> int \<Rightarrow> string \<Rightarrow> user_account list" where
  "findNotificationRecipientsWithPermission db congregationId permissionKey =
     filter (\<lambda>u. acc_congregationId u = congregationId \<and> account_has_permission db permissionKey u \<and>
        notificationRecipientFilter db u) (userAccounts db)"

definition findMembersWithAnyRole :: "db \<Rightarrow> int list \<Rightarrow> int \<Rightarrow> int list" where
  "findMembersWithAnyRole db roleIds congregationId =
     (if length roleIds = 0 then []
      else map mem_id (filter (\<lambda>m. mem_congregationId m = congregationId \<and> members_with_any_role db roleIds m) (members db)))"

definition isAccountAdmin :: "db \<Rightarrow> int \<Rightarrow> int \<Rightarrow> bool" where
  "isAccountAdmin db accountId congregationId \<longleftrightarrow>
     (\<exists>a \<in> set (findAccountsWithPermission db congregationId CanDoAnything). acc_id a = accountId)"

definition requireNotLastAdmin :: "db \<Rightarrow> int \<Rightarrow> int \<Rightarrow> app_error option" where
  "requireNotLastAdmin db accountId congregationId =
     (let admins = findAccountsWithPermission db congregationId CanDoAnything
      in if \<not> (\<exists>a \<in> set admins. acc_id a = accountId) then None
         else if length (filter (\<lambda>a. acc_id a \<noteq> accountId) admins) = 0
         then Some (ConflictError ''last_admin'')
         else None)"

section \<open>Limits on what an actor may grant\<close>

definition isAdminActor :: "string set \<Rightarrow> bool" where
  "isAdminActor actorPermissions \<longleftrightarrow> CanDoAnything \<in> actorPermissions"

fun assertActorHolds :: "string set \<Rightarrow> string list \<Rightarrow> app_error option" where
  "assertActorHolds actorPermissions keys =
     (if isAdminActor actorPermissions then None
      else (case find (\<lambda>key. key \<notin> actorPermissions) keys of
              Some key \<Rightarrow> Some (GrantBeyondActorError key) | None \<Rightarrow> None))"

definition assertActorHoldsRolePermissions :: "db \<Rightarrow> int list \<Rightarrow> int \<Rightarrow> string set \<Rightarrow> app_error option" where
  "assertActorHoldsRolePermissions db roleIds congregationId actorPermissions =
     (if isAdminActor actorPermissions \<or> length roleIds = 0 then None
      else assertActorHolds actorPermissions
             (permission_keys_of_roles db (\<lambda>rp. rp_roleId rp \<in> set roleIds \<and> rp_congregationId rp = congregationId)))"

definition assertMayChangeAccountAccess :: "db \<Rightarrow> int \<Rightarrow> int \<Rightarrow> string set \<Rightarrow> app_error option" where
  "assertMayChangeAccountAccess db accountId congregationId actorPermissions =
     (if isAdminActor actorPermissions then None
      else if isAccountAdmin db accountId congregationId
      then Some (GrantBeyondActorError ''admin_access'') else None)"

definition roleGrantsAdmin :: "db \<Rightarrow> int \<Rightarrow> int \<Rightarrow> bool" where
  "roleGrantsAdmin db roleId congregationId \<longleftrightarrow>
     (\<exists>rp \<in> set (rolePermissions db). rp_roleId rp = roleId \<and> rp_congregationId rp = congregationId \<and>
        (\<exists>p \<in> set (permissions db). perm_id p = rp_permissionId rp \<and> perm_key p = CanDoAnything))"

section \<open>Facts\<close>

lemma set_permission_keys_of_roles:
  "set (permission_keys_of_roles db sel) =
     {perm_key p | p rp. rp \<in> set (rolePermissions db) \<and> sel rp \<and> p \<in> set (permissions db) \<and> perm_id p = rp_permissionId rp}"
  by (auto simp: permission_keys_of_roles_def)

lemma assertActorHolds_None:
  "assertActorHolds actor keys = None \<longleftrightarrow> isAdminActor actor \<or> set keys \<subseteq> actor"
  by (auto simp: find_None_iff_all split: option.splits dest!: find_Some_in)

declare assertActorHolds.simps [simp del]

text \<open>The rows of a congregation belong to it: what foreign keys and row-level security keep.\<close>

definition grants_ok :: "db \<Rightarrow> int \<Rightarrow> bool" where
  "grants_ok db c \<longleftrightarrow>
     distinct (map role_id (roles db)) \<and>
     (\<forall>r \<in> set (roles db). \<forall>rp \<in> set (rolePermissions db).
        rp_roleId rp = role_id r \<longrightarrow> rp_congregationId rp = role_congregationId r) \<and>
     (\<forall>a \<in> set (userRoleAssignments db). \<exists>r \<in> set (roles db).
        role_id r = ura_roleId a \<and> role_congregationId r = ura_congregationId a) \<and>
     (\<forall>u \<in> set (userAccounts db). \<forall>a \<in> set (userRoleAssignments db).
        ura_userId a = acc_id u \<longrightarrow> ura_congregationId a = acc_congregationId u)"

lemma assertActorHoldsRolePermissions_None:
  assumes "assertActorHoldsRolePermissions db ids c actor = None" and "\<not> isAdminActor actor"
    and "rp \<in> set (rolePermissions db)" and "rp_roleId rp \<in> set ids" and "rp_congregationId rp = c"
    and "p \<in> set (permissions db)" and "perm_id p = rp_permissionId rp"
  shows "perm_key p \<in> actor"
proof -
  have "ids \<noteq> []" using assms(4) by auto
  then have "set (permission_keys_of_roles db (\<lambda>rp. rp_roleId rp \<in> set ids \<and> rp_congregationId rp = c)) \<subseteq> actor"
    using assms(1,2) by (simp add: assertActorHoldsRolePermissions_def assertActorHolds_None split: if_splits)
  then show ?thesis using assms(3-7) by (force simp: set_permission_keys_of_roles)
qed

text \<open>Admins remain when the protected account loses its roles.\<close>

lemma requireNotLastAdmin_None:
  assumes "requireNotLastAdmin db i c = None" and "isAccountAdmin db i c"
  obtains u where "u \<in> set (userAccounts db)" and "acc_congregationId u = c" and "acc_id u \<noteq> i"
    and "account_has_permission db CanDoAnything u"
proof -
  let ?admins = "findAccountsWithPermission db c CanDoAnything"
  have "filter (\<lambda>a. acc_id a \<noteq> i) ?admins \<noteq> []"
    using assms by (auto simp: requireNotLastAdmin_def Let_def isAccountAdmin_def split: if_splits)
  then obtain u where "u \<in> set (filter (\<lambda>a. acc_id a \<noteq> i) ?admins)" by (meson last_in_set)
  then show ?thesis using that [of u] by (simp add: findAccountsWithPermission_def)
qed

end
