(* ===== verification/Programme_Tables.thy ===== *)
theory Programme_Tables
  imports Permissions
begin

text \<open>
  The tables of the programme (\<^verbatim>\<open>app/database/schema.prisma\<close>), beside those of the rest of the
  application, which are the field \<open>core\<close>: events and their templates, the assignments of an
  event, the roles allowed on them, the kinds of part, visiting speakers, the notifications that
  wait for their digest, and the jobs handed to the e-mail queue, which is outside the program.
\<close>

section \<open>Rows\<close>

record event =
  evt_id :: int
  evt_name :: string
  evt_startDate :: int
  evt_endDate :: int
  evt_status :: string
  evt_templateId :: "int option"
  evt_createdById :: int
  evt_congregationId :: int

record event_template =
  tpl_id :: int
  tpl_name :: string
  tpl_key :: string
  tpl_description :: string
  tpl_weekDay :: "int option"
  tpl_isRecurring :: bool
  tpl_startTime :: string
  tpl_endTime :: string
  tpl_color :: string
  tpl_congregationId :: int

record template_part =
  tp_id :: int
  tp_name :: string
  tp_section :: string
  tp_track :: string
  tp_trackOrder :: "int option"
  tp_order :: int
  tp_durationMin :: "int option"
  tp_allowExternalSpeaker :: bool
  tp_speakerLabel :: "string option"
  tp_readerLabel :: "string option"
  tp_templateId :: int
  tp_presetId :: "int option"
  tp_congregationId :: int

record template_service_part =
  tsp_id :: int
  tsp_name :: string
  tsp_key :: string
  tsp_templateId :: int
  tsp_presetId :: "int option"
  tsp_congregationId :: int

record event_part =
  epa_id :: int
  epa_topic :: string
  epa_note :: string
  epa_hasConflict :: bool
  epa_name :: string
  epa_section :: string
  epa_track :: string
  epa_trackOrder :: "int option"
  epa_order :: int
  epa_durationMin :: "int option"
  epa_speakerLabel :: "string option"
  epa_readerLabel :: "string option"
  epa_eventId :: int
  epa_partId :: "int option"
  epa_presetId :: "int option"
  epa_assigneeId :: "int option"
  epa_assistantId :: "int option"
  epa_allowExternalSpeaker :: bool
  epa_externalSpeakerId :: "int option"
  epa_congregationId :: int

record event_service_part =
  esp_id :: int
  esp_note :: string
  esp_hasConflict :: bool
  esp_name :: string
  esp_eventId :: int
  esp_servicePartId :: "int option"
  esp_presetId :: "int option"
  esp_assigneeId :: "int option"
  esp_congregationId :: int

text \<open>
  The four tables of allowed roles have the same columns, but for the slot: \<open>al_ownerId\<close> is the
  part, \<open>al_asKind\<close> the slot of a programme part and empty on a service part.
\<close>

record allowed_role =
  al_ownerId :: int
  al_roleId :: int
  al_asKind :: string
  al_congregationId :: int

record template_responsible =
  trs_id :: int
  trs_templateId :: int
  trs_roleId :: int
  trs_scope :: string
  trs_congregationId :: int

record part_preset =
  pst_id :: int
  pst_key :: string
  pst_name :: "string option"
  pst_scope :: string
  pst_hasReaderSlot :: bool
  pst_speakerLabel :: "string option"
  pst_readerLabel :: "string option"
  pst_allowExternalSpeaker :: bool
  pst_shareMessage :: "string option"
  pst_isSystem :: bool
  pst_congregationId :: int

record external_speaker =
  xs_id :: int
  xs_name :: string
  xs_congregationName :: string
  xs_phone :: "string option"
  xs_email :: "string option"
  xs_notes :: "string option"
  xs_archivedAt :: "int option"
  xs_congregationId :: int

text \<open>The payload is kept as its list of fields.\<close>

record notification_event =
  ne_id :: int
  ne_type :: string
  ne_status :: string
  ne_entityType :: string
  ne_entityId :: int
  ne_recipientId :: "int option"
  ne_recipientRole :: "string option"
  ne_actorId :: "int option"
  ne_payload :: "(string \<times> json) list"
  ne_debounceKey :: string
  ne_debounceUntil :: "int option"
  ne_processedAt :: "int option"
  ne_congregationId :: int

record notification_preference =
  np_userId :: int
  np_notificationType :: string
  np_enabled :: bool
  np_congregationId :: int

datatype email_job =
    InstantJob int string "int option" "string option" "(string \<times> json) list"
  | DigestJob int int "(string \<times> string \<times> int \<times> (string \<times> json) list) list" "int list"

record pdb =
  core :: db
  events :: "event list"
  eventTemplates :: "event_template list"
  templateParts :: "template_part list"
  templateServiceParts :: "template_service_part list"
  templatePartAllowedRoles :: "allowed_role list"
  templateServicePartAllowedRoles :: "allowed_role list"
  templateResponsibles :: "template_responsible list"
  eventParts :: "event_part list"
  eventServiceParts :: "event_service_part list"
  eventPartAllowedRoles :: "allowed_role list"
  eventServicePartAllowedRoles :: "allowed_role list"
  partPresets :: "part_preset list"
  externalSpeakers :: "external_speaker list"
  notificationEvents :: "notification_event list"
  notificationPreferences :: "notification_preference list"
  emailQueue :: "email_job list"

text \<open>The keys the database allots to inserted rows.\<close>

record row_keys =
  key_event :: "event list \<Rightarrow> int"
  key_part :: "event_part list \<Rightarrow> int"
  key_service :: "event_service_part list \<Rightarrow> int"
  key_template :: "event_template list \<Rightarrow> int"
  key_template_part :: "template_part list \<Rightarrow> int"
  key_template_service :: "template_service_part list \<Rightarrow> int"
  key_preset :: "part_preset list \<Rightarrow> int"
  key_speaker :: "external_speaker list \<Rightarrow> int"
  key_responsible :: "template_responsible list \<Rightarrow> int"
  key_notification :: "notification_event list \<Rightarrow> int"

definition fresh_rows :: "row_keys \<Rightarrow> bool" where
  "fresh_rows k \<longleftrightarrow>
     (\<forall>rows. key_event k rows \<notin> evt_id ` set rows) \<and>
     (\<forall>rows. key_part k rows \<notin> epa_id ` set rows) \<and>
     (\<forall>rows. key_service k rows \<notin> esp_id ` set rows) \<and>
     (\<forall>rows. key_template k rows \<notin> tpl_id ` set rows) \<and>
     (\<forall>rows. key_template_part k rows \<notin> tp_id ` set rows) \<and>
     (\<forall>rows. key_template_service k rows \<notin> tsp_id ` set rows) \<and>
     (\<forall>rows. key_preset k rows \<notin> pst_id ` set rows) \<and>
     (\<forall>rows. key_speaker k rows \<notin> xs_id ` set rows) \<and>
     (\<forall>rows. key_responsible k rows \<notin> trs_id ` set rows) \<and>
     (\<forall>rows. key_notification k rows \<notin> ne_id ` set rows)"

definition serial_keys :: row_keys where
  "serial_keys = \<lparr>key_event = next_key \<circ> map evt_id, key_part = next_key \<circ> map epa_id,
     key_service = next_key \<circ> map esp_id, key_template = next_key \<circ> map tpl_id,
     key_template_part = next_key \<circ> map tp_id, key_template_service = next_key \<circ> map tsp_id,
     key_preset = next_key \<circ> map pst_id, key_speaker = next_key \<circ> map xs_id,
     key_responsible = next_key \<circ> map trs_id, key_notification = next_key \<circ> map ne_id\<rparr>"

lemma fresh_serial_keys: "fresh_rows serial_keys"
  unfolding fresh_rows_def serial_keys_def by (simp add: next_key_fresh_image)

section \<open>Constants\<close>

definition EventStatus_Draft :: string where
  "EventStatus_Draft = ''draft''"

definition EventStatus_Released :: string where
  "EventStatus_Released = ''released''"

definition TemplateKey_DayOff :: string where
  "TemplateKey_DayOff = ''day-off''"

definition TemplateKey_Freeform :: string where
  "TemplateKey_Freeform = ''freeform''"

definition SYSTEM_TEMPLATE_KEYS :: "string list" where
  "SYSTEM_TEMPLATE_KEYS = [TemplateKey_DayOff, TemplateKey_Freeform]"

definition isSystemTemplate :: "string \<Rightarrow> bool" where
  "isSystemTemplate key \<longleftrightarrow> key \<in> set SYSTEM_TEMPLATE_KEYS"

lemmas programme_constants = EventStatus_Draft_def EventStatus_Released_def TemplateKey_DayOff_def TemplateKey_Freeform_def
  SYSTEM_TEMPLATE_KEYS_def isSystemTemplate_def

section \<open>Relations\<close>

definition is_event :: "int \<Rightarrow> int \<Rightarrow> event \<Rightarrow> bool" where
  "is_event i congregationId e \<longleftrightarrow> evt_id e = i \<and> evt_congregationId e = congregationId"

definition is_part :: "int \<Rightarrow> int \<Rightarrow> event_part \<Rightarrow> bool" where
  "is_part i congregationId a \<longleftrightarrow> epa_id a = i \<and> epa_congregationId a = congregationId"

definition is_service :: "int \<Rightarrow> int \<Rightarrow> event_service_part \<Rightarrow> bool" where
  "is_service i congregationId a \<longleftrightarrow> esp_id a = i \<and> esp_congregationId a = congregationId"

definition is_template :: "int \<Rightarrow> int \<Rightarrow> event_template \<Rightarrow> bool" where
  "is_template i congregationId t \<longleftrightarrow> tpl_id t = i \<and> tpl_congregationId t = congregationId"

definition template_of :: "pdb \<Rightarrow> event \<Rightarrow> event_template option" where
  "template_of p e = Option.bind (evt_templateId e) (\<lambda>i. find (\<lambda>t. tpl_id t = i) (eventTemplates p))"

definition has_template_key :: "pdb \<Rightarrow> string \<Rightarrow> event \<Rightarrow> bool" where
  "has_template_key p key e \<longleftrightarrow> map_option tpl_key (template_of p e) = Some key"

text \<open>\<^verbatim>\<open>createdBy.memberId\<close>: the member behind the account that created the event.\<close>

definition creator_member :: "pdb \<Rightarrow> event \<Rightarrow> int option" where
  "creator_member p e = Option.bind (find (\<lambda>u. acc_id u = evt_createdById e) (userAccounts (core p))) acc_memberId"

definition event_with :: "pdb \<Rightarrow> int \<Rightarrow> event option" where
  "event_with p i = find (\<lambda>e. evt_id e = i) (events p)"

definition programme_audit :: "string \<Rightarrow> int \<Rightarrow> int \<Rightarrow> string \<Rightarrow> int \<Rightarrow> (string \<times> json) list option \<Rightarrow> pdb \<Rightarrow> pdb" where
  "programme_audit action congregationId actorId entityType i metadata p =
     p\<lparr>core := entity_audit action congregationId actorId entityType i metadata (core p)\<rparr>"

lemma programme_audit_frame [simp]:
  "events (programme_audit a c u t i m p) = events p"
  "eventTemplates (programme_audit a c u t i m p) = eventTemplates p"
  "templateParts (programme_audit a c u t i m p) = templateParts p"
  "templateServiceParts (programme_audit a c u t i m p) = templateServiceParts p"
  "templatePartAllowedRoles (programme_audit a c u t i m p) = templatePartAllowedRoles p"
  "templateServicePartAllowedRoles (programme_audit a c u t i m p) = templateServicePartAllowedRoles p"
  "templateResponsibles (programme_audit a c u t i m p) = templateResponsibles p"
  "eventParts (programme_audit a c u t i m p) = eventParts p"
  "eventServiceParts (programme_audit a c u t i m p) = eventServiceParts p"
  "eventPartAllowedRoles (programme_audit a c u t i m p) = eventPartAllowedRoles p"
  "eventServicePartAllowedRoles (programme_audit a c u t i m p) = eventServicePartAllowedRoles p"
  "partPresets (programme_audit a c u t i m p) = partPresets p"
  "externalSpeakers (programme_audit a c u t i m p) = externalSpeakers p"
  "notificationEvents (programme_audit a c u t i m p) = notificationEvents p"
  "notificationPreferences (programme_audit a c u t i m p) = notificationPreferences p"
  "emailQueue (programme_audit a c u t i m p) = emailQueue p"
  "userAccounts (core (programme_audit a c u t i m p)) = userAccounts (core p)"
  "members (core (programme_audit a c u t i m p)) = members (core p)"
  by (simp_all add: programme_audit_def)

end
