(* ===== verification/Notifications.thy ===== *)
theory Notifications
  imports Programme_Tables
begin

text \<open>
  Notifications (\<^verbatim>\<open>features/notifications/server/notify.server.ts\<close>, \<^verbatim>\<open>flush-settled.server.ts\<close>,
  \<^verbatim>\<open>cleanup.server.ts\<close>, \<^verbatim>\<open>preferences.server.ts\<close>, \<^verbatim>\<open>resolve-recipients.server.ts\<close> and
  \<^verbatim>\<open>model/registry-guards.ts\<close>): a notification waits in its table until it settles, is replaced or
  cancelled there, and leaves in a digest. The clock is an argument; adding to the e-mail queue
  appends to it.
\<close>

section \<open>The registry\<close>

record DebouncedNotificationType =
  dt_debounceMinutes :: int
  dt_recipientStrategy :: string
  dt_recipientRole :: "string option"

datatype NotificationTypeConfig =
    DebouncedType DebouncedNotificationType
  | CancellationType "string list" DebouncedNotificationType

definition isCancellationType :: "NotificationTypeConfig \<Rightarrow> bool" where
  "isCancellationType config = (case config of CancellationType _ _ \<Rightarrow> True | DebouncedType _ \<Rightarrow> False)"

definition ASSIGNED :: string where
  "ASSIGNED = ''programme.assignment.assigned''"

definition UNASSIGNED :: string where
  "UNASSIGNED = ''programme.assignment.unassigned''"

definition to_reviewers :: "int \<Rightarrow> DebouncedNotificationType" where
  "to_reviewers minutes = \<lparr>dt_debounceMinutes = minutes, dt_recipientStrategy = ''role'',
     dt_recipientRole = Some ''can-review-board-documents''\<rparr>"

definition to_account :: "int \<Rightarrow> DebouncedNotificationType" where
  "to_account minutes = \<lparr>dt_debounceMinutes = minutes, dt_recipientStrategy = ''entity-user'', dt_recipientRole = None\<rparr>"

definition boardNotifications :: "(string \<times> NotificationTypeConfig) list" where
  "boardNotifications =
     [(''board.document.created'', DebouncedType (to_reviewers 10)),
      (''board.document.updated'', DebouncedType (to_reviewers 10)),
      (''board.document.deleted'', CancellationType [''board.document.created'', ''board.document.updated''] (to_reviewers 0)),
      (''board.document.expiring'', DebouncedType (to_reviewers 0))]"

definition eventsNotifications :: "(string \<times> NotificationTypeConfig) list" where
  "eventsNotifications =
     [(ASSIGNED, DebouncedType (to_account 30)),
      (UNASSIGNED, CancellationType [ASSIGNED] (to_account 0))]"

definition territoryNotifications :: "(string \<times> NotificationTypeConfig) list" where
  "territoryNotifications = [(''territory.sync.completed'', DebouncedType (to_account 0))]"

definition NOTIFICATION_TYPES :: "string \<Rightarrow> NotificationTypeConfig option" where
  "NOTIFICATION_TYPES = map_of (boardNotifications @ eventsNotifications @ territoryNotifications)"

text \<open>The two guards run when the module loads; the result is the list of offenders.\<close>

definition assertNoDuplicateTypes :: "(string \<times> string list) list \<Rightarrow> string list" where
  "assertNoDuplicateTypes sources =
     (let declared = concat (map snd sources)
      in filter (\<lambda>t. length (filter (\<lambda>u. u = t) declared) > 1) (js_set declared))"

definition assertCancelsReferenceExistingTypes :: "(string \<times> NotificationTypeConfig) list \<Rightarrow> (string \<times> string) list" where
  "assertCancelsReferenceExistingTypes registry =
     concat (map (\<lambda>(t, config). case config of
         DebouncedType _ \<Rightarrow> []
       | CancellationType cancels _ \<Rightarrow> map (Pair t) (filter (\<lambda>c. c \<notin> set (map fst registry)) cancels)) registry)"

section \<open>Notifying\<close>

record NotifyParams =
  nt_type :: string
  nt_entityType :: string
  nt_entityId :: int
  nt_congregationId :: int
  nt_recipientId :: "int option"
  nt_recipientRole :: "string option"
  nt_actorId :: "int option"
  nt_payload :: "(string \<times> json) list"

definition recipient_part :: "int option \<Rightarrow> string option \<Rightarrow> string" where
  "recipient_part recipientId recipientRole =
     (case recipientId of Some i \<Rightarrow> ''user:'' @ js_string i
      | None \<Rightarrow> ''role:'' @ (case recipientRole of None \<Rightarrow> [] | Some r \<Rightarrow> r))"

definition buildDebounceKey :: "NotifyParams \<Rightarrow> string" where
  "buildDebounceKey ps =
     nt_entityType ps @ '':'' @ js_string (nt_entityId ps) @ '':'' @ recipient_part (nt_recipientId ps) (nt_recipientRole ps)"

text \<open>\<^verbatim>\<open>updateMany\<close> on the pending rows of a key, and its count.\<close>

definition pending_of :: "string \<Rightarrow> (string \<Rightarrow> bool) \<Rightarrow> notification_event \<Rightarrow> bool" where
  "pending_of key types n \<longleftrightarrow> ne_debounceKey n = key \<and> ne_status n = ''pending'' \<and> types (ne_type n)"

definition cancelled_row :: "int \<Rightarrow> notification_event \<Rightarrow> notification_event" where
  "cancelled_row now n = n\<lparr>ne_status := ''cancelled'', ne_processedAt := Some now\<rparr>"

definition pushToEmailQueue :: "NotifyParams \<Rightarrow> pdb \<Rightarrow> pdb" where
  "pushToEmailQueue ps p =
     p\<lparr>emailQueue := emailQueue p @ [InstantJob (nt_congregationId ps) (nt_type ps) (nt_recipientId ps) (nt_recipientRole ps) (nt_payload ps)]\<rparr>"

definition queued_row :: "row_keys \<Rightarrow> int \<Rightarrow> NotifyParams \<Rightarrow> int \<Rightarrow> pdb \<Rightarrow> notification_event" where
  "queued_row k now ps debounceMinutes p =
     \<lparr>ne_id = key_notification k (notificationEvents p), ne_type = nt_type ps, ne_status = ''pending'',
      ne_entityType = nt_entityType ps, ne_entityId = nt_entityId ps, ne_recipientId = nt_recipientId ps,
      ne_recipientRole = nt_recipientRole ps, ne_actorId = nt_actorId ps, ne_payload = nt_payload ps,
      ne_debounceKey = buildDebounceKey ps, ne_debounceUntil = Some (now + debounceMinutes * 60 * 1000),
      ne_processedAt = None, ne_congregationId = nt_congregationId ps\<rparr>"

definition queueDebounced :: "row_keys \<Rightarrow> int \<Rightarrow> NotifyParams \<Rightarrow> int \<Rightarrow> pdb \<Rightarrow> pdb" where
  "queueDebounced k now ps debounceMinutes p =
     (let replaced = p\<lparr>notificationEvents :=
            update_where (pending_of (buildDebounceKey ps) (\<lambda>t. t = nt_type ps)) (cancelled_row now) (notificationEvents p)\<rparr>
      in replaced\<lparr>notificationEvents := notificationEvents replaced @ [queued_row k now ps debounceMinutes replaced]\<rparr>)"

definition handleCancellation ::
  "row_keys \<Rightarrow> int \<Rightarrow> NotifyParams \<Rightarrow> string list \<Rightarrow> DebouncedNotificationType \<Rightarrow> pdb \<Rightarrow> pdb" where
  "handleCancellation k now ps cancels fallback p =
     (let hit = pending_of (buildDebounceKey ps) (\<lambda>t. t \<in> set cancels);
          cancelled = p\<lparr>notificationEvents := update_where hit (cancelled_row now) (notificationEvents p)\<rparr>
      in if length (filter hit (notificationEvents p)) > 0 then cancelled
         else if dt_debounceMinutes fallback > 0 then queueDebounced k now ps (dt_debounceMinutes fallback) cancelled
         else pushToEmailQueue ps cancelled)"

definition with_role :: "DebouncedNotificationType \<Rightarrow> NotifyParams \<Rightarrow> NotifyParams" where
  "with_role config ps =
     (if nt_recipientRole ps \<in> {None, Some []} then
        (case dt_recipientRole config of None \<Rightarrow> ps | Some r \<Rightarrow> if r = [] then ps else ps\<lparr>nt_recipientRole := Some r\<rparr>)
      else ps)"

definition notify :: "row_keys \<Rightarrow> int \<Rightarrow> NotifyParams \<Rightarrow> pdb \<Rightarrow> pdb" where
  "notify k now ps p =
     (case NOTIFICATION_TYPES (nt_type ps) of
        None \<Rightarrow> p
      | Some (CancellationType cancels fallback) \<Rightarrow> handleCancellation k now (with_role fallback ps) cancels fallback p
      | Some (DebouncedType config) \<Rightarrow>
          (if dt_debounceMinutes config > 0 then queueDebounced k now (with_role config ps) (dt_debounceMinutes config) p
           else pushToEmailQueue (with_role config ps) p))"

section \<open>The digest\<close>

definition typeFamily :: "string \<Rightarrow> string" where
  "typeFamily t = hd (split_on CHR ''.'' t)"

definition group_key :: "notification_event \<Rightarrow> string" where
  "group_key n = js_string (ne_congregationId n) @ '':'' @ recipient_part (ne_recipientId n) (ne_recipientRole n) @ '':'' @ typeFamily (ne_type n)"

text \<open>A \<^verbatim>\<open>Map\<close> of lists, in the order its keys arrive.\<close>

fun add_to_group :: "'k \<Rightarrow> 'a \<Rightarrow> ('k \<times> 'a list) list \<Rightarrow> ('k \<times> 'a list) list" where
  "add_to_group key x [] = [(key, [x])]"
| "add_to_group key x ((k, xs) # groups) = (if k = key then (k, xs @ [x]) # groups else (k, xs) # add_to_group key x groups)"

definition groupEvents :: "notification_event list \<Rightarrow> (string \<times> notification_event list) list" where
  "groupEvents ns = fold (\<lambda>n. add_to_group (group_key n) n) ns []"

definition settled :: "int \<Rightarrow> notification_event \<Rightarrow> bool" where
  "settled now n \<longleftrightarrow> ne_status n = ''pending'' \<and> (case ne_debounceUntil n of None \<Rightarrow> False | Some t \<Rightarrow> t \<le> now)"

definition digest_job :: "notification_event list \<Rightarrow> email_job" where
  "digest_job ns =
     DigestJob (ne_congregationId (hd ns)) (case ne_recipientId (hd ns) of None \<Rightarrow> 0 | Some i \<Rightarrow> i)
       (map (\<lambda>n. (ne_type n, ne_entityType n, ne_entityId n, ne_payload n)) ns) (map ne_id ns)"

definition settled_batch :: "int \<Rightarrow> pdb \<Rightarrow> notification_event list" where
  "settled_batch now p =
     take 500 (js_sort (\<lambda>a b. ne_congregationId a - ne_congregationId b) (filter (settled now) (notificationEvents p)))"

text \<open>The rows of the table are in the order of their creation.\<close>

definition flushSettledNotifications :: "int \<Rightarrow> pdb \<Rightarrow> (nat \<times> nat) \<times> pdb" where
  "flushSettledNotifications now p =
     (let batch = settled_batch now p
      in if batch = [] then ((0, 0), p)
         else
           (let jobs = map (digest_job \<circ> snd) (groupEvents batch);
                ids = map ne_id batch
            in ((length batch, length jobs),
                p\<lparr>emailQueue := emailQueue p @ jobs,
                  notificationEvents := update_where (\<lambda>n. ne_id n \<in> set ids)
                    (\<lambda>n. n\<lparr>ne_status := ''sent'', ne_processedAt := Some now\<rparr>) (notificationEvents p)\<rparr>)))"

text \<open>The two cut-offs are the instants seven and thirty days ago.\<close>

definition cleanupNotificationEvents :: "int \<Rightarrow> int \<Rightarrow> pdb \<Rightarrow> nat \<times> pdb" where
  "cleanupNotificationEvents sevenDaysAgo thirtyDaysAgo p =
     (let before = (\<lambda>t n. case ne_processedAt n of None \<Rightarrow> False | Some d \<Rightarrow> d < t);
          sentCancelled = (\<lambda>n. (ne_status n = ''sent'' \<or> ne_status n = ''cancelled'') \<and> before sevenDaysAgo n);
          kept = delete_where sentCancelled (notificationEvents p);
          failed = (\<lambda>n. ne_status n = ''failed'' \<and> before thirtyDaysAgo n)
      in (length (filter sentCancelled (notificationEvents p)) + length (filter failed kept),
          p\<lparr>notificationEvents := delete_where failed kept\<rparr>))"

section \<open>Preferences and recipients\<close>

definition getUserPreferences :: "int \<Rightarrow> pdb \<Rightarrow> (string \<times> bool) list" where
  "getUserPreferences userId p =
     map (\<lambda>x. (np_notificationType x, np_enabled x)) (filter (\<lambda>x. np_userId x = userId) (notificationPreferences p))"

definition preference_of :: "int \<Rightarrow> int \<Rightarrow> string \<Rightarrow> notification_preference \<Rightarrow> bool" where
  "preference_of userId congregationId t x \<longleftrightarrow>
     np_userId x = userId \<and> np_notificationType x = t \<and> np_congregationId x = congregationId"

definition togglePreference :: "int \<Rightarrow> int \<Rightarrow> string \<Rightarrow> bool \<Rightarrow> pdb \<Rightarrow> pdb" where
  "togglePreference userId congregationId t enabled p =
     (if list_ex (preference_of userId congregationId t) (notificationPreferences p)
      then p\<lparr>notificationPreferences := update_where (preference_of userId congregationId t)
        (\<lambda>x. x\<lparr>np_enabled := enabled\<rparr>) (notificationPreferences p)\<rparr>
      else p\<lparr>notificationPreferences := notificationPreferences p @
        [\<lparr>np_userId = userId, np_notificationType = t, np_enabled = enabled, np_congregationId = congregationId\<rparr>]\<rparr>)"

text \<open>\<^verbatim>\<open>board.document.created\<close> belongs to \<^verbatim>\<open>board.*\<close>\<close>

definition categoryWildcard :: "string \<Rightarrow> string" where
  "categoryWildcard t = typeFamily t @ ''.*''"

definition isNotificationDisabledForUser :: "pdb \<Rightarrow> int \<Rightarrow> int \<Rightarrow> string \<Rightarrow> bool" where
  "isNotificationDisabledForUser p userId congregationId t =
     list_ex (\<lambda>x. np_userId x = userId \<and> np_congregationId x = congregationId \<and> \<not> np_enabled x \<and>
       (np_notificationType x = t \<or> np_notificationType x = categoryWildcard t)) (notificationPreferences p)"

record ResolvedRecipient =
  rr_userId :: int
  rr_email :: string
  rr_firstname :: "string option"

definition fullName :: "string option \<Rightarrow> string option \<Rightarrow> string" where
  "fullName firstname lastname =
     (let text = (\<lambda>x. case x of None \<Rightarrow> [] | Some s \<Rightarrow> s) in trim (text firstname @ '' '' @ text lastname))"

definition member_of_account :: "pdb \<Rightarrow> user_account \<Rightarrow> member option" where
  "member_of_account p u = Option.bind (acc_memberId u) (\<lambda>i. find (\<lambda>m. mem_id m = i) (members (core p)))"

definition accountDisplayName :: "pdb \<Rightarrow> user_account \<Rightarrow> string" where
  "accountDisplayName p u =
     (case member_of_account p u of
        Some m \<Rightarrow> fullName (Some (mem_firstname m)) (Some (mem_lastname m))
      | None \<Rightarrow> fullName (acc_firstname u) (acc_lastname u))"

definition usable :: "string option \<Rightarrow> string option" where
  "usable x = (case x of None \<Rightarrow> None | Some s \<Rightarrow> if trim s = [] then None else Some (trim s))"

definition displayFirstname :: "pdb \<Rightarrow> user_account \<Rightarrow> string option" where
  "displayFirstname p u =
     (case usable (map_option mem_firstname (member_of_account p u)) of
        Some s \<Rightarrow> Some s | None \<Rightarrow> usable (acc_firstname u))"

definition recipient_of :: "pdb \<Rightarrow> user_account \<Rightarrow> ResolvedRecipient" where
  "recipient_of p u = \<lparr>rr_userId = acc_id u, rr_email = acc_email u, rr_firstname = displayFirstname p u\<rparr>"

definition resolveRecipients :: "pdb \<Rightarrow> int \<Rightarrow> string \<Rightarrow> string \<Rightarrow> ResolvedRecipient list" where
  "resolveRecipients p congregationId recipientRole t =
     (let users = findNotificationRecipientsWithPermission (core p) congregationId recipientRole
      in if length users = 0 then []
         else
           (let disabled = map np_userId (filter (\<lambda>x. np_userId x \<in> acc_id ` set users \<and> np_congregationId x = congregationId \<and>
                  \<not> np_enabled x \<and> (np_notificationType x = t \<or> np_notificationType x = categoryWildcard t)) (notificationPreferences p))
            in map (recipient_of p) (filter (\<lambda>u. acc_id u \<notin> set disabled) users)))"

end
