(* ===== verification/Allowed_Roles.thy ===== *)
theory Allowed_Roles
  imports Programme_Tables
begin

text \<open>
  Who may be assigned (\<^verbatim>\<open>features/events/server/allowed-roles.server.ts\<close>,
  \<^verbatim>\<open>allowed-roles.queries.ts\<close>, \<^verbatim>\<open>assignment-candidates.server.ts\<close>,
  \<^verbatim>\<open>model/allowed-roles-write.ts\<close>): the roles allowed on a slot, the members they make eligible,
  and the edit of those roles by difference. The slots are the strings \<open>speaker\<close> and \<open>reader\<close>.
\<close>

section \<open>Eligible members\<close>

definition present_member :: "pdb \<Rightarrow> int \<Rightarrow> bool" where
  "present_member p i \<longleftrightarrow>
     list_ex (\<lambda>m. mem_id m = i \<and> mem_leftAt m = None \<and> mem_anonymizedAt m = None) (members (core p))"

definition resolveEligibleUserIds :: "pdb \<Rightarrow> int list \<Rightarrow> int \<Rightarrow> int list" where
  "resolveEligibleUserIds p allowedRoleIds congregationId =
     (if length allowedRoleIds = 0 then
        (case find (\<lambda>r. role_key r = ''member'' \<and> role_isBuiltIn r \<and> role_congregationId r = congregationId) (roles (core p)) of
           None \<Rightarrow> []
         | Some memberRole \<Rightarrow>
             js_set (map mra_memberId (filter (\<lambda>a. mra_roleId a = role_id memberRole \<and>
               mra_congregationId a = congregationId \<and> present_member p (mra_memberId a)) (memberRoleAssignments (core p)))))
      else findMembersWithAnyRole (core p) allowedRoleIds congregationId)"

section \<open>Roles allowed on a slot\<close>

definition allowed_on :: "int \<Rightarrow> string \<Rightarrow> int \<Rightarrow> allowed_role \<Rightarrow> bool" where
  "allowed_on ownerId asKind congregationId r \<longleftrightarrow>
     al_ownerId r = ownerId \<and> al_asKind r = asKind \<and> al_congregationId r = congregationId"

definition allowed_role_ids :: "allowed_role list \<Rightarrow> int \<Rightarrow> string \<Rightarrow> int \<Rightarrow> int list" where
  "allowed_role_ids rows ownerId asKind congregationId = map al_roleId (filter (allowed_on ownerId asKind congregationId) rows)"

definition getTemplatePartAllowedRoleIds :: "pdb \<Rightarrow> int \<Rightarrow> string \<Rightarrow> int \<Rightarrow> int list" where
  "getTemplatePartAllowedRoleIds p partId asKind congregationId =
     allowed_role_ids (templatePartAllowedRoles p) partId asKind congregationId"

definition getPartAssignmentAllowedRoleIds :: "pdb \<Rightarrow> int \<Rightarrow> string \<Rightarrow> int \<Rightarrow> int list" where
  "getPartAssignmentAllowedRoleIds p eventPartId asKind congregationId =
     allowed_role_ids (eventPartAllowedRoles p) eventPartId asKind congregationId"

definition getTemplateServicePartAllowedRoleIds :: "pdb \<Rightarrow> int \<Rightarrow> int \<Rightarrow> int list" where
  "getTemplateServicePartAllowedRoleIds p servicePartId congregationId =
     allowed_role_ids (templateServicePartAllowedRoles p) servicePartId [] congregationId"

definition getServicePartAssignmentAllowedRoleIds :: "pdb \<Rightarrow> int \<Rightarrow> int \<Rightarrow> int list" where
  "getServicePartAssignmentAllowedRoleIds p eventServicePartId congregationId =
     allowed_role_ids (eventServicePartAllowedRoles p) eventServicePartId [] congregationId"

section \<open>Editing by difference\<close>

record DiffResult =
  df_added :: "int list"
  df_removed :: "int list"

definition diffRoleIds :: "int list \<Rightarrow> int list \<Rightarrow> DiffResult" where
  "diffRoleIds previous desired =
     \<lparr>df_added = filter (\<lambda>i. i \<notin> set previous) desired, df_removed = filter (\<lambda>i. i \<notin> set desired) previous\<rparr>"

text \<open>\<^verbatim>\<open>createMany\<close> with \<^verbatim>\<open>skipDuplicates\<close>: a row whose key is already in the table is not written.\<close>

definition same_key :: "allowed_role \<Rightarrow> allowed_role \<Rightarrow> bool" where
  "same_key a b \<longleftrightarrow> al_ownerId a = al_ownerId b \<and> al_roleId a = al_roleId b \<and> al_asKind a = al_asKind b"

definition add_if_new :: "allowed_role \<Rightarrow> allowed_role list \<Rightarrow> allowed_role list" where
  "add_if_new r rows = (if list_ex (same_key r) rows then rows else rows @ [r])"

definition create_allowed :: "allowed_role list \<Rightarrow> allowed_role list \<Rightarrow> allowed_role list" where
  "create_allowed new rows = fold add_if_new new rows"

definition allowed_row :: "int \<Rightarrow> string \<Rightarrow> int \<Rightarrow> int \<Rightarrow> allowed_role" where
  "allowed_row ownerId asKind congregationId roleId =
     \<lparr>al_ownerId = ownerId, al_roleId = roleId, al_asKind = asKind, al_congregationId = congregationId\<rparr>"

text \<open>The body the four \<^verbatim>\<open>set\<dots>AllowedRoles\<close> functions share, on their table.\<close>

definition set_allowed ::
  "int \<Rightarrow> string \<Rightarrow> int list \<Rightarrow> int \<Rightarrow> allowed_role list \<Rightarrow> DiffResult \<times> allowed_role list" where
  "set_allowed ownerId asKind desired congregationId rows =
     (let diff = diffRoleIds (allowed_role_ids rows ownerId asKind congregationId) desired
      in if df_added diff = [] \<and> df_removed diff = [] then (diff, rows)
         else
           (let kept = (if df_removed diff = [] then rows
                        else delete_where (\<lambda>r. allowed_on ownerId asKind congregationId r \<and> al_roleId r \<in> set (df_removed diff)) rows)
            in (diff, if df_added diff = [] then kept
                      else create_allowed (map (allowed_row ownerId asKind congregationId) (df_added diff)) kept)))"

definition setTemplatePartAllowedRoles :: "int \<Rightarrow> string \<Rightarrow> int list \<Rightarrow> int \<Rightarrow> pdb \<Rightarrow> DiffResult \<times> pdb" where
  "setTemplatePartAllowedRoles partId asKind desired congregationId p =
     (case set_allowed partId asKind desired congregationId (templatePartAllowedRoles p) of
        (diff, rows) \<Rightarrow> (diff, p\<lparr>templatePartAllowedRoles := rows\<rparr>))"

definition setPartAssignmentAllowedRoles :: "int \<Rightarrow> string \<Rightarrow> int list \<Rightarrow> int \<Rightarrow> pdb \<Rightarrow> DiffResult \<times> pdb" where
  "setPartAssignmentAllowedRoles eventPartId asKind desired congregationId p =
     (case set_allowed eventPartId asKind desired congregationId (eventPartAllowedRoles p) of
        (diff, rows) \<Rightarrow> (diff, p\<lparr>eventPartAllowedRoles := rows\<rparr>))"

definition setTemplateServicePartAllowedRoles :: "int \<Rightarrow> int list \<Rightarrow> int \<Rightarrow> pdb \<Rightarrow> DiffResult \<times> pdb" where
  "setTemplateServicePartAllowedRoles servicePartId desired congregationId p =
     (case set_allowed servicePartId [] desired congregationId (templateServicePartAllowedRoles p) of
        (diff, rows) \<Rightarrow> (diff, p\<lparr>templateServicePartAllowedRoles := rows\<rparr>))"

definition setServicePartAssignmentAllowedRoles :: "int \<Rightarrow> int list \<Rightarrow> int \<Rightarrow> pdb \<Rightarrow> DiffResult \<times> pdb" where
  "setServicePartAssignmentAllowedRoles eventServicePartId desired congregationId p =
     (case set_allowed eventServicePartId [] desired congregationId (eventServicePartAllowedRoles p) of
        (diff, rows) \<Rightarrow> (diff, p\<lparr>eventServicePartAllowedRoles := rows\<rparr>))"

section \<open>What the part editor manages\<close>

definition PART_SLOTS :: "string list" where
  "PART_SLOTS = [''speaker'', ''reader'']"

definition partAllowedRolesToWrite :: "string list \<Rightarrow> int list \<Rightarrow> int list \<Rightarrow> int list option \<times> int list option" where
  "partAllowedRolesToWrite managedSlots speakerIds readerIds =
     (let managed = set (filter (\<lambda>slot. slot \<in> set managedSlots) PART_SLOTS)
      in (if ''speaker'' \<in> managed then Some speakerIds else None,
          if ''reader'' \<in> managed then Some readerIds else None))"

section \<open>A whole programme at once\<close>

type_synonym slot_ids = "int list \<times> int list"

definition push_slot :: "allowed_role \<Rightarrow> (int \<Rightarrow> slot_ids option) \<Rightarrow> (int \<Rightarrow> slot_ids option)" where
  "push_slot r found =
     (case found (al_ownerId r) of
        None \<Rightarrow> found
      | Some (speaker, reader) \<Rightarrow>
          found(al_ownerId r \<mapsto> (if al_asKind r = ''speaker'' then (speaker @ [al_roleId r], reader) else (speaker, reader @ [al_roleId r]))))"

definition getPartAssignmentAllowedRoleIdsForParts :: "pdb \<Rightarrow> int list \<Rightarrow> int \<Rightarrow> int \<Rightarrow> slot_ids option" where
  "getPartAssignmentAllowedRoleIdsForParts p eventPartIds congregationId =
     (if length eventPartIds = 0 then (\<lambda>_. None)
      else fold push_slot
             (filter (\<lambda>r. al_ownerId r \<in> set eventPartIds \<and> al_congregationId r = congregationId) (eventPartAllowedRoles p))
             (fold (\<lambda>i found. found(i \<mapsto> ([], []))) eventPartIds (\<lambda>_. None)))"

definition push_id :: "allowed_role \<Rightarrow> (int \<Rightarrow> int list option) \<Rightarrow> (int \<Rightarrow> int list option)" where
  "push_id r found =
     (case found (al_ownerId r) of None \<Rightarrow> found | Some ids \<Rightarrow> found(al_ownerId r \<mapsto> ids @ [al_roleId r]))"

definition getServicePartAssignmentAllowedRoleIdsForParts :: "pdb \<Rightarrow> int list \<Rightarrow> int \<Rightarrow> int \<Rightarrow> int list option" where
  "getServicePartAssignmentAllowedRoleIdsForParts p eventServicePartIds congregationId =
     (if length eventServicePartIds = 0 then (\<lambda>_. None)
      else fold push_id
             (filter (\<lambda>r. al_ownerId r \<in> set eventServicePartIds \<and> al_congregationId r = congregationId)
               (eventServicePartAllowedRoles p))
             (fold (\<lambda>i found. found(i \<mapsto> [])) eventServicePartIds (\<lambda>_. None)))"

section \<open>Candidates\<close>

text \<open>
  The eligible members are asked for once per set of roles: the cache maps the sorted role ids to
  the answer (the source writes them as one string).
\<close>

definition eligibleFor ::
  "pdb \<Rightarrow> int \<Rightarrow> int list \<Rightarrow> (int list \<times> int list) list \<Rightarrow> int list \<times> (int list \<times> int list) list" where
  "eligibleFor p congregationId allowedRoleIds cache =
     (let key = js_sort (\<lambda>a b. a - b) allowedRoleIds
      in case map_of cache key of
           Some cached \<Rightarrow> (cached, cache)
         | None \<Rightarrow> (let answer = resolveEligibleUserIds p allowedRoleIds congregationId in (answer, (key, answer) # cache)))"

record AssignmentCandidates =
  cnd_parts :: "(int \<times> int list \<times> int list) list"
  cnd_services :: "(int \<times> int list) list"

fun part_candidates ::
  "pdb \<Rightarrow> int \<Rightarrow> (int \<Rightarrow> slot_ids option) \<Rightarrow> (int list \<Rightarrow> int list) \<Rightarrow> int list \<Rightarrow> (int list \<times> int list) list \<Rightarrow>
     (int \<times> int list \<times> int list) list \<times> (int list \<times> int list) list" where
  "part_candidates p c allowed offerable [] cache = ([], cache)"
| "part_candidates p c allowed offerable (i # ids) cache =
     (let slots = (case allowed i of None \<Rightarrow> ([], []) | Some s \<Rightarrow> s);
          (speakers, cache1) = eligibleFor p c (fst slots) cache;
          (readers, cache2) = eligibleFor p c (snd slots) cache1;
          (rest, cache3) = part_candidates p c allowed offerable ids cache2
      in ((i, offerable speakers, offerable readers) # rest, cache3))"

fun service_candidates ::
  "pdb \<Rightarrow> int \<Rightarrow> (int \<Rightarrow> int list option) \<Rightarrow> (int list \<Rightarrow> int list) \<Rightarrow> int list \<Rightarrow> (int list \<times> int list) list \<Rightarrow>
     (int \<times> int list) list" where
  "service_candidates p c allowed offerable [] cache = []"
| "service_candidates p c allowed offerable (i # ids) cache =
     (let (eligible, cache1) = eligibleFor p c (case allowed i of None \<Rightarrow> [] | Some s \<Rightarrow> s) cache
      in (i, offerable eligible) # service_candidates p c allowed offerable ids cache1)"

definition buildAssignmentCandidates :: "pdb \<Rightarrow> int list \<Rightarrow> int list \<Rightarrow> int list \<Rightarrow> int \<Rightarrow> AssignmentCandidates" where
  "buildAssignmentCandidates p partIds serviceIds memberIds congregationId =
     (let offerable = filter (\<lambda>i. i \<in> set memberIds);
          (parts, cache) = part_candidates p congregationId
            (getPartAssignmentAllowedRoleIdsForParts p partIds congregationId) offerable partIds []
      in \<lparr>cnd_parts = parts,
          cnd_services = service_candidates p congregationId
            (getServicePartAssignmentAllowedRoleIdsForParts p serviceIds congregationId) offerable serviceIds cache\<rparr>)"

end
