(* ===== verification/Plan_Limits.thy ===== *)
theory Plan_Limits
  imports Database
begin

text \<open>
  The limits of a congregation's plan (\<^verbatim>\<open>shared/domain/limits.server.ts\<close>). The counters run under
  row-level security, so they count the rows of the congregation. The tables of board documents
  and card overlays are outside the model: their counts are an argument.
\<close>

datatype LimitName = LimitMembers | LimitTerritories | LimitUsers | LimitBoardDocuments | LimitCardOverlays

record CongregationLimits =
  maxPublishers :: "int option"
  maxTerritories :: "int option"
  maxUsers :: "int option"
  maxStorageBytes :: "int option"
  maxBoardDocuments :: "int option"
  maxCardOverlays :: "int option"

definition LIMIT_COLUMN_MAP :: "LimitName \<Rightarrow> CongregationLimits \<Rightarrow> int option" where
  "LIMIT_COLUMN_MAP name l =
     (case name of LimitMembers \<Rightarrow> maxPublishers l | LimitTerritories \<Rightarrow> maxTerritories l
      | LimitUsers \<Rightarrow> maxUsers l | LimitBoardDocuments \<Rightarrow> maxBoardDocuments l
      | LimitCardOverlays \<Rightarrow> maxCardOverlays l)"

definition limit_name :: "LimitName \<Rightarrow> string" where
  "limit_name name =
     (case name of LimitMembers \<Rightarrow> ''members'' | LimitTerritories \<Rightarrow> ''territories'' | LimitUsers \<Rightarrow> ''users''
      | LimitBoardDocuments \<Rightarrow> ''boardDocuments'' | LimitCardOverlays \<Rightarrow> ''cardOverlays'')"

record uncounted =
  uc_documents :: nat
  uc_overlays :: nat

text \<open>Leavers and anonymized people do not count as members.\<close>

definition counted_member :: "int \<Rightarrow> member \<Rightarrow> bool" where
  "counted_member c m \<longleftrightarrow> mem_congregationId m = c \<and> mem_leftAt m = None \<and> mem_anonymizedAt m = None"

definition LIMIT_COUNTERS :: "uncounted \<Rightarrow> int \<Rightarrow> db \<Rightarrow> LimitName \<Rightarrow> nat" where
  "LIMIT_COUNTERS uc c db name =
     (case name of
        LimitMembers \<Rightarrow> length (filter (counted_member c) (members db))
      | LimitTerritories \<Rightarrow> length (filter (\<lambda>t. terr_congregationId t = c) (territories db))
      | LimitUsers \<Rightarrow> length (filter (\<lambda>a. acc_congregationId a = c) (userAccounts db))
      | LimitBoardDocuments \<Rightarrow> uc_documents uc
      | LimitCardOverlays \<Rightarrow> uc_overlays uc)"

definition isLimited :: "CongregationLimits \<Rightarrow> LimitName \<Rightarrow> bool" where
  "isLimited l name \<longleftrightarrow> LIMIT_COLUMN_MAP name l \<noteq> None"

definition checkWouldGoOverLimit :: "CongregationLimits \<Rightarrow> uncounted \<Rightarrow> int \<Rightarrow> LimitName \<Rightarrow> db \<Rightarrow> bool" where
  "checkWouldGoOverLimit l uc c name db =
     (if \<not> isLimited l name then False
      else case LIMIT_COLUMN_MAP name l of
        None \<Rightarrow> False
      | Some m \<Rightarrow> int (LIMIT_COUNTERS uc c db name) \<ge> m)"

definition errorIfWouldGoOverLimit ::
  "CongregationLimits \<Rightarrow> uncounted \<Rightarrow> int \<Rightarrow> LimitName \<Rightarrow> db \<Rightarrow> app_error option" where
  "errorIfWouldGoOverLimit l uc c name db =
     (if checkWouldGoOverLimit l uc c name db then Some (LimitReachedError (limit_name name)) else None)"

definition isStorageLimited :: "CongregationLimits \<Rightarrow> bool" where
  "isStorageLimited l \<longleftrightarrow> maxStorageBytes l \<noteq> None"

definition checkStorageLimit :: "CongregationLimits \<Rightarrow> int \<Rightarrow> int \<Rightarrow> bool" where
  "checkStorageLimit l currentBytes additionalBytes =
     (case maxStorageBytes l of None \<Rightarrow> False | Some m \<Rightarrow> currentBytes + additionalBytes > m)"

definition errorIfStorageOverLimit :: "CongregationLimits \<Rightarrow> int \<Rightarrow> int \<Rightarrow> app_error option" where
  "errorIfStorageOverLimit l currentBytes additionalBytes =
     (if checkStorageLimit l currentBytes additionalBytes then Some (LimitReachedError ''storage'') else None)"

lemma under_the_limit:
  assumes "errorIfWouldGoOverLimit l uc c name db = None" and "LIMIT_COLUMN_MAP name l = Some m"
  shows "int (LIMIT_COUNTERS uc c db name) < m"
  using assms by (auto simp: errorIfWouldGoOverLimit_def checkWouldGoOverLimit_def isLimited_def split: if_splits)

end
