(* ===== verification/Board.thy ===== *)
theory Board
  imports Board_Appearance Notifications Allowed_Roles Permissions Plan_Limits
begin

text \<open>
  The display board (\<^verbatim>\<open>features/display-board/server\<close>): sections and who sees them, documents and
  their versions, the documents computed from other features, and the files behind them. The bytes
  of a file stay in the storage; a key of it, which the random generator supplies, stands for them.
\<close>

section \<open>Rows\<close>

record board_section =
  bsc_id :: int
  bsc_name :: string
  bsc_order :: "int option"
  bsc_congregationId :: int

record section_role =
  bsr_sectionId :: int
  bsr_roleId :: int
  bsr_congregationId :: int

record board_document =
  bdc_id :: int
  bdc_title :: string
  bdc_uri :: "string option"
  bdc_thumbnailUri :: "string option"
  bdc_sectionId :: int
  bdc_order :: "int option"
  bdc_visibleFrom :: "int option"
  bdc_visibleUntil :: "int option"
  bdc_viewedBy :: "int list"
  bdc_isHighlighted :: bool
  bdc_congregationId :: int

record document_version =
  bdv_id :: int
  bdv_documentId :: int
  bdv_uri :: string
  bdv_thumbnailUri :: "string option"
  bdv_versionNumber :: int
  bdv_uploadedById :: "int option"
  bdv_congregationId :: int

record dynamic_document =
  dyn_id :: int
  dyn_title :: string
  dyn_dynamicType :: string
  dyn_dynamicRef :: "string option"
  dyn_dynamicConfig :: "json option"
  dyn_appearance :: "json option"
  dyn_sectionId :: int
  dyn_order :: "int option"
  dyn_visibleFrom :: "int option"
  dyn_visibleUntil :: "int option"
  dyn_isHighlighted :: bool
  dyn_showServices :: bool
  dyn_congregationId :: int

record dynamic_view =
  dvw_settingsId :: int
  dvw_userId :: int
  dvw_viewedAt :: int

record thumbnail_job =
  tj_congregationId :: int
  tj_documentId :: int
  tj_pdfStorageKey :: string

record board =
  programme :: pdb
  sections :: "board_section list"
  sectionRoles :: "section_role list"
  documents :: "board_document list"
  versions :: "document_version list"
  dynamics :: "dynamic_document list"
  dynamicViews :: "dynamic_view list"
  storage :: "string list"
  thumbnailQueue :: "thumbnail_job list"

text \<open>The keys the database allots, and those of new files.\<close>

record board_keys =
  bk_section :: "board_section list \<Rightarrow> int"
  bk_document :: "board_document list \<Rightarrow> int"
  bk_version :: "document_version list \<Rightarrow> int"
  bk_dynamic :: "dynamic_document list \<Rightarrow> int"
  bk_file :: "string list \<Rightarrow> string"
  bk_rows :: row_keys

definition is_document :: "int \<Rightarrow> int \<Rightarrow> board_document \<Rightarrow> bool" where
  "is_document i congregationId d \<longleftrightarrow> bdc_id d = i \<and> bdc_congregationId d = congregationId"

definition is_section :: "int \<Rightarrow> int \<Rightarrow> board_section \<Rightarrow> bool" where
  "is_section i congregationId s \<longleftrightarrow> bsc_id s = i \<and> bsc_congregationId s = congregationId"

definition is_dynamic :: "int \<Rightarrow> int \<Rightarrow> dynamic_document \<Rightarrow> bool" where
  "is_dynamic i congregationId d \<longleftrightarrow> dyn_id d = i \<and> dyn_congregationId d = congregationId"

definition board_audit :: "string \<Rightarrow> int \<Rightarrow> int \<Rightarrow> string \<Rightarrow> int \<Rightarrow> (string \<times> json) list option \<Rightarrow> board \<Rightarrow> board" where
  "board_audit action congregationId actorId entityType entityId metadata b =
     b\<lparr>programme := (programme b)\<lparr>core := entity_audit action congregationId actorId entityType entityId metadata (core (programme b))\<rparr>\<rparr>"

section \<open>Who sees a section\<close>

text \<open>The filter that the readers spread into their \<^verbatim>\<open>where\<close>: no role at all, or one of the viewer's.\<close>

definition buildSectionVisibilityFilter :: "int \<Rightarrow> int \<Rightarrow> board \<Rightarrow> board_section \<Rightarrow> bool" where
  "buildSectionVisibilityFilter userId congregationId b s \<longleftrightarrow>
     (let viewerRoleIds = resolveEffectiveRoleIds (core (programme b)) userId congregationId;
          chosen = filter (\<lambda>r. bsr_sectionId r = bsc_id s) (sectionRoles b)
      in chosen = [] \<or> list_ex (\<lambda>r. bsr_roleId r \<in> set viewerRoleIds) chosen)"

definition getSectionVisibilityRoleIds :: "int \<Rightarrow> int \<Rightarrow> board \<Rightarrow> int list" where
  "getSectionVisibilityRoleIds sectionId congregationId b =
     map bsr_roleId (filter (\<lambda>r. bsr_sectionId r = sectionId \<and> bsr_congregationId r = congregationId) (sectionRoles b))"

definition add_section_role :: "int \<Rightarrow> int \<Rightarrow> int \<Rightarrow> board \<Rightarrow> board" where
  "add_section_role sectionId congregationId roleId b =
     (if list_ex (\<lambda>r. bsr_sectionId r = sectionId \<and> bsr_roleId r = roleId) (sectionRoles b) then b
      else b\<lparr>sectionRoles := sectionRoles b @
        [\<lparr>bsr_sectionId = sectionId, bsr_roleId = roleId, bsr_congregationId = congregationId\<rparr>]\<rparr>)"

definition json_ids :: "int list \<Rightarrow> json" where
  "json_ids ids = JArr (map JNum ids)"

definition setSectionVisibilityRoles :: "int \<Rightarrow> int list \<Rightarrow> int \<Rightarrow> int \<Rightarrow> board \<Rightarrow> DiffResult \<times> board" where
  "setSectionVisibilityRoles sectionId desiredRoleIds congregationId actorId b =
     (let diff = diffRoleIds (getSectionVisibilityRoleIds sectionId congregationId b) desiredRoleIds
      in if df_added diff = [] \<and> df_removed diff = [] then (diff, b)
         else
           (diff, board_audit ''board.section.visibility_changed'' congregationId actorId ''BoardSection'' sectionId
              (Some [(''added'', json_ids (df_added diff)), (''removed'', json_ids (df_removed diff))])
              (fold (add_section_role sectionId congregationId) (df_added diff)
                (b\<lparr>sectionRoles := delete_where (\<lambda>r. bsr_sectionId r = sectionId \<and> bsr_congregationId r = congregationId \<and>
                   bsr_roleId r \<in> set (df_removed diff)) (sectionRoles b)\<rparr>))))"

section \<open>Sections\<close>

definition createBoardSection :: "board_keys \<Rightarrow> string \<Rightarrow> int \<Rightarrow> int \<Rightarrow> board \<Rightarrow> board_section \<times> board" where
  "createBoardSection k name congregationId actorId b =
     (let s = \<lparr>bsc_id = bk_section k (sections b), bsc_name = name, bsc_order = None, bsc_congregationId = congregationId\<rparr>
      in (s, board_audit ''board.section.created'' congregationId actorId ''BoardSection'' (bsc_id s) None
               (b\<lparr>sections := sections b @ [s]\<rparr>)))"

definition updateBoardSection :: "int \<Rightarrow> int \<Rightarrow> int \<Rightarrow> string \<Rightarrow> board \<Rightarrow> (board, unit) outcome" where
  "updateBoardSection i congregationId actorId name b =
     (if \<not> list_ex (is_section i congregationId) (sections b) then (Inl (DatabaseError RecordNotFound), b)
      else (Inr (), board_audit ''board.section.updated'' congregationId actorId ''BoardSection'' i None
              (b\<lparr>sections := update_where (is_section i congregationId) (\<lambda>s. s\<lparr>bsc_name := name\<rparr>) (sections b)\<rparr>)))"

text \<open>Rows are updated one after the other; the first that is missing throws.\<close>

fun order_sections :: "int \<Rightarrow> (int \<times> int) list \<Rightarrow> board \<Rightarrow> (board, unit) outcome" where
  "order_sections congregationId [] b = (Inr (), b)"
| "order_sections congregationId ((i, order) # rest) b =
     (if \<not> list_ex (is_section i congregationId) (sections b) then (Inl (DatabaseError RecordNotFound), b)
      else order_sections congregationId rest
             (b\<lparr>sections := update_where (is_section i congregationId) (\<lambda>s. s\<lparr>bsc_order := Some order\<rparr>) (sections b)\<rparr>))"

definition by_fives :: "'a list \<Rightarrow> ('a \<times> int) list" where
  "by_fives xs = zip xs (map (\<lambda>i. int i * 5) [0..<length xs])"

definition reorderBoardSections :: "int \<Rightarrow> int list \<Rightarrow> board \<Rightarrow> (board, unit) outcome" where
  "reorderBoardSections congregationId orderedIds = order_sections congregationId (by_fives orderedIds)"

text \<open>
  Moving one item by a rank: positions are multiples of five, the moved one is shifted by seven and a
  half. Everything is doubled to stay in the integers.
\<close>

definition computeReorderedItems :: "int list \<Rightarrow> int \<Rightarrow> bool \<Rightarrow> (int \<times> int) list" where
  "computeReorderedItems items targetId up =
     (let offset = (if up then - 15 else 15);
          shifted = map (\<lambda>(i, index). (i, int index * 10 + (if i = targetId then offset else 0))) (zip items [0..<length items])
      in by_fives (map fst (js_sort (\<lambda>a b. snd a - snd b) shifted)))"

text \<open>Ascending order of \<^verbatim>\<open>order\<close> puts \<^verbatim>\<open>NULL\<close> last.\<close>

definition by_order :: "('a \<Rightarrow> int option) \<Rightarrow> 'a \<Rightarrow> 'a \<Rightarrow> int" where
  "by_order f a b =
     (case (f a, f b) of (None, None) \<Rightarrow> 0 | (None, Some _) \<Rightarrow> 1 | (Some _, None) \<Rightarrow> - 1 | (Some x, Some y) \<Rightarrow> x - y)"

definition reorderSection :: "int \<Rightarrow> int \<Rightarrow> bool \<Rightarrow> board \<Rightarrow> (board, string option) outcome" where
  "reorderSection sectionId congregationId up b =
     (let rows = js_sort (by_order bsc_order) (filter (\<lambda>s. bsc_congregationId s = congregationId) (sections b))
      in case find (\<lambda>s. bsc_id s = sectionId) rows of
           None \<Rightarrow> (Inr None, b)
         | Some s \<Rightarrow> chain (order_sections congregationId (computeReorderedItems (map bsc_id rows) sectionId up) b)
             (\<lambda>_ b. (Inr (Some (bsc_name s)), b)))"

section \<open>Files\<close>

record upload =
  up_type :: string
  up_size :: int
  up_header :: "nat list"

datatype FileValidation = Invalid_Type | Invalid_Content | File_Too_Large

definition PDF_MAGIC_BYTES :: "nat list" where
  "PDF_MAGIC_BYTES = [0x25, 0x50, 0x44, 0x46, 0x2d]"

definition MAX_FILE_SIZE_BYTES :: int where
  "MAX_FILE_SIZE_BYTES = 20 * 1024 * 1024"

definition validateBoardFile :: "upload \<Rightarrow> FileValidation option" where
  "validateBoardFile f =
     (if up_type f \<noteq> ''application/pdf'' then Some Invalid_Type
      else if up_size f > MAX_FILE_SIZE_BYTES then Some File_Too_Large
      else if take 5 (up_header f) \<noteq> PDF_MAGIC_BYTES then Some Invalid_Content
      else None)"

definition validateVisibilityDates :: "int option \<Rightarrow> int option \<Rightarrow> bool" where
  "validateVisibilityDates visibleFrom visibleUntil =
     (case (visibleFrom, visibleUntil) of (Some f, Some u) \<Rightarrow> u > f | _ \<Rightarrow> True)"

definition saveFile :: "board_keys \<Rightarrow> board \<Rightarrow> string \<times> board" where
  "saveFile k b = (let key = bk_file k (storage b) in (key, b\<lparr>storage := storage b @ [key]\<rparr>))"

definition deleteBoardFile :: "string \<Rightarrow> board \<Rightarrow> board" where
  "deleteBoardFile key b = b\<lparr>storage := filter (\<lambda>f. f \<noteq> key) (storage b)\<rparr>"

text \<open>\<^verbatim>\<open>uri ?? ''\<close>: no file has the empty key. A failing deletion is logged, and the file stays.\<close>

definition deleteFile :: "string option \<Rightarrow> board \<Rightarrow> board" where
  "deleteFile uri b = deleteBoardFile (case uri of None \<Rightarrow> [] | Some key \<Rightarrow> key) b"

definition delete_thumbnail :: "string option \<Rightarrow> board \<Rightarrow> board" where
  "delete_thumbnail thumbnailUri b =
     (case thumbnailUri of None \<Rightarrow> b | Some [] \<Rightarrow> b | Some (c # cs) \<Rightarrow> deleteFile (Some (c # cs)) b)"

definition queue_thumbnail :: "int \<Rightarrow> int \<Rightarrow> string \<Rightarrow> board \<Rightarrow> board" where
  "queue_thumbnail congregationId documentId key b =
     b\<lparr>thumbnailQueue := thumbnailQueue b @
        [\<lparr>tj_congregationId = congregationId, tj_documentId = documentId, tj_pdfStorageKey = key\<rparr>]\<rparr>"

section \<open>Versions\<close>

definition versions_of :: "int \<Rightarrow> board \<Rightarrow> document_version list" where
  "versions_of documentId b = filter (\<lambda>v. bdv_documentId v = documentId) (versions b)"

definition last_version :: "int \<Rightarrow> board \<Rightarrow> int" where
  "last_version documentId b = fold (\<lambda>v n. max (bdv_versionNumber v) n) (versions_of documentId b) 0"

definition createVersionForUpload :: "board_keys \<Rightarrow> int \<Rightarrow> int \<Rightarrow> int \<Rightarrow> string \<Rightarrow> board \<Rightarrow> board" where
  "createVersionForUpload k documentId congregationId uploadedById uri b =
     b\<lparr>versions := versions b @
        [\<lparr>bdv_id = bk_version k (versions b), bdv_documentId = documentId, bdv_uri = uri, bdv_thumbnailUri = None,
          bdv_versionNumber = last_version documentId b + 1, bdv_uploadedById = Some uploadedById,
          bdv_congregationId = congregationId\<rparr>]\<rparr>"

definition set_document_file :: "int \<Rightarrow> int \<Rightarrow> string \<Rightarrow> board \<Rightarrow> board" where
  "set_document_file documentId congregationId uri b =
     b\<lparr>documents := update_where (is_document documentId congregationId)
        (\<lambda>d. d\<lparr>bdc_uri := Some uri, bdc_thumbnailUri := None\<rparr>) (documents b)\<rparr>"

datatype FileReplacementResult = Replaced string | Not_Replaced FileValidation

text \<open>A version of a document that does not exist violates the foreign key.\<close>

definition replaceDocumentFile ::
  "board_keys \<Rightarrow> int \<Rightarrow> int \<Rightarrow> int \<Rightarrow> upload \<Rightarrow> board \<Rightarrow> (board, FileReplacementResult) outcome" where
  "replaceDocumentFile k documentId congregationId uploadedById file b =
     (case validateBoardFile file of
        Some e \<Rightarrow> (Inr (Not_Replaced e), b)
      | None \<Rightarrow>
          (case saveFile k b of
             (uri, b) \<Rightarrow>
               if \<not> list_ex (\<lambda>d. bdc_id d = documentId) (documents b) then (Inl (DatabaseError ForeignKeyViolation), b)
               else
                 (case find (is_document documentId congregationId) (documents b) of
                    None \<Rightarrow> (Inl (DatabaseError RecordNotFound), createVersionForUpload k documentId congregationId uploadedById uri b)
                  | Some old \<Rightarrow>
                      (let written = set_document_file documentId congregationId uri
                             (createVersionForUpload k documentId congregationId uploadedById uri b);
                           cleaned = (case bdc_uri old of
                                        None \<Rightarrow> written
                                      | Some key \<Rightarrow> if key = [] then written
                                          else delete_thumbnail (bdc_thumbnailUri old) (deleteFile (Some key) written))
                       in (Inr (Replaced uri), queue_thumbnail congregationId documentId uri cleaned)))))"

definition is_version :: "int \<Rightarrow> int \<Rightarrow> document_version \<Rightarrow> bool" where
  "is_version i congregationId v \<longleftrightarrow> bdv_id v = i \<and> bdv_congregationId v = congregationId"

definition restoreDocumentVersion ::
  "board_keys \<Rightarrow> int \<Rightarrow> int \<Rightarrow> int \<Rightarrow> int \<Rightarrow> board \<Rightarrow> (board, int option) outcome" where
  "restoreDocumentVersion k documentId versionId congregationId uploadedById b =
     (case find (is_version versionId congregationId) (versions b) of
        None \<Rightarrow> (Inr None, b)
      | Some v \<Rightarrow>
          if bdv_documentId v \<noteq> documentId then (Inr None, b)
          else
            (case find (is_document documentId congregationId) (documents b) of
               None \<Rightarrow> (Inl (DatabaseError RecordNotFound), createVersionForUpload k documentId congregationId uploadedById (bdv_uri v) b)
             | Some current \<Rightarrow>
                 (Inr (Some (bdv_versionNumber v)),
                  queue_thumbnail congregationId documentId (bdv_uri v)
                    (delete_thumbnail (bdc_thumbnailUri current)
                      (set_document_file documentId congregationId (bdv_uri v)
                        (createVersionForUpload k documentId congregationId uploadedById (bdv_uri v) b))))))"

definition deleteAllVersionFiles :: "int \<Rightarrow> board \<Rightarrow> board" where
  "deleteAllVersionFiles documentId b =
     fold (\<lambda>v b. delete_thumbnail (bdv_thumbnailUri v) (deleteBoardFile (bdv_uri v) b)) (versions_of documentId b) b"

section \<open>Documents\<close>

record new_document =
  nd_title :: string
  nd_sectionId :: int
  nd_uri :: string
  nd_visibleFrom :: "int option"
  nd_visibleUntil :: "int option"
  nd_isHighlighted :: "bool option"

text \<open>The section must exist; it may belong to any congregation.\<close>

definition section_exists :: "int \<Rightarrow> board \<Rightarrow> bool" where
  "section_exists sectionId b \<longleftrightarrow> list_ex (\<lambda>s. bsc_id s = sectionId) (sections b)"

definition createBoardDocument :: "board_keys \<Rightarrow> int \<Rightarrow> int \<Rightarrow> new_document \<Rightarrow> board \<Rightarrow> (board, board_document) outcome" where
  "createBoardDocument k congregationId actorId data b =
     (if \<not> section_exists (nd_sectionId data) b then (Inl (DatabaseError ForeignKeyViolation), b)
      else
        (let d = \<lparr>bdc_id = bk_document k (documents b), bdc_title = nd_title data, bdc_uri = Some (nd_uri data),
                   bdc_thumbnailUri = None, bdc_sectionId = nd_sectionId data, bdc_order = Some 0,
                   bdc_visibleFrom = nd_visibleFrom data, bdc_visibleUntil = nd_visibleUntil data, bdc_viewedBy = [],
                   bdc_isHighlighted = (case nd_isHighlighted data of None \<Rightarrow> False | Some h \<Rightarrow> h),
                   bdc_congregationId = congregationId\<rparr>;
             v = \<lparr>bdv_id = bk_version k (versions b), bdv_documentId = bdc_id d, bdv_uri = nd_uri data, bdv_thumbnailUri = None,
                   bdv_versionNumber = 1, bdv_uploadedById = Some actorId, bdv_congregationId = congregationId\<rparr>
         in (Inr d, board_audit ''board.document.created'' congregationId actorId ''BoardDocument'' (bdc_id d) None
                      (b\<lparr>documents := documents b @ [d], versions := versions b @ [v]\<rparr>))))"

definition isDocumentOwnedByUploader :: "int \<Rightarrow> int \<Rightarrow> board \<Rightarrow> bool" where
  "isDocumentOwnedByUploader documentId userId b \<longleftrightarrow>
     (case find (\<lambda>v. bdv_documentId v = documentId \<and> bdv_versionNumber v = 1) (versions b) of
        None \<Rightarrow> False
      | Some v \<Rightarrow> bdv_uploadedById v = Some userId)"

text \<open>Versions go with their document.\<close>

definition remove_documents :: "(board_document \<Rightarrow> bool) \<Rightarrow> board \<Rightarrow> board" where
  "remove_documents gone b =
     (let ids = bdc_id ` set (filter gone (documents b))
      in b\<lparr>documents := delete_where gone (documents b),
           versions := delete_where (\<lambda>v. bdv_documentId v \<in> ids) (versions b)\<rparr>)"

definition delete_files_of :: "board_document \<Rightarrow> board \<Rightarrow> board" where
  "delete_files_of d b = delete_thumbnail (bdc_thumbnailUri d) (deleteFile (bdc_uri d) b)"

definition deleteBoardDocument :: "int \<Rightarrow> int \<Rightarrow> int \<Rightarrow> board \<Rightarrow> (board, int \<times> string) outcome" where
  "deleteBoardDocument documentId congregationId actorId b =
     (case find (is_document documentId congregationId) (documents b) of
        None \<Rightarrow> (Inl (DatabaseError RecordNotFound), b)
      | Some d \<Rightarrow>
          (Inr (bdc_id d, bdc_title d),
           board_audit ''board.document.deleted'' congregationId actorId ''BoardDocument'' documentId None
             (delete_files_of d (remove_documents (is_document documentId congregationId) b))))"

definition in_list :: "int list \<Rightarrow> int \<Rightarrow> board_document \<Rightarrow> bool" where
  "in_list ids congregationId d \<longleftrightarrow> bdc_id d \<in> set ids \<and> bdc_congregationId d = congregationId"

definition dynamic_in :: "int list \<Rightarrow> int \<Rightarrow> dynamic_document \<Rightarrow> bool" where
  "dynamic_in ids congregationId d \<longleftrightarrow> dyn_id d \<in> set ids \<and> dyn_congregationId d = congregationId"

definition remove_dynamics :: "(dynamic_document \<Rightarrow> bool) \<Rightarrow> board \<Rightarrow> board" where
  "remove_dynamics gone b =
     (let ids = dyn_id ` set (filter gone (dynamics b))
      in b\<lparr>dynamics := delete_where gone (dynamics b),
           dynamicViews := delete_where (\<lambda>w. dvw_settingsId w \<in> ids) (dynamicViews b)\<rparr>)"

definition bulkDeleteBoardItems :: "int \<Rightarrow> int list \<Rightarrow> int list \<Rightarrow> board \<Rightarrow> (nat \<times> nat) \<times> board" where
  "bulkDeleteBoardItems congregationId pdfIds dynIds b =
     (let rows = filter (in_list pdfIds congregationId) (documents b);
          dyns = filter (dynamic_in dynIds congregationId) (dynamics b)
      in ((length rows, length dyns),
          remove_dynamics (dynamic_in dynIds congregationId)
            (fold delete_files_of rows (remove_documents (in_list pdfIds congregationId) b))))"

definition bulkMoveBoardItems :: "int \<Rightarrow> int \<Rightarrow> int list \<Rightarrow> int list \<Rightarrow> board \<Rightarrow> (board, nat \<times> nat) outcome" where
  "bulkMoveBoardItems congregationId sectionId pdfIds dynIds b =
     (let rows = filter (in_list pdfIds congregationId) (documents b);
          dyns = filter (dynamic_in dynIds congregationId) (dynamics b)
      in if \<not> section_exists sectionId b \<and> (rows \<noteq> [] \<or> dyns \<noteq> []) then (Inl (DatabaseError ForeignKeyViolation), b)
         else
           (Inr (length rows, length dyns),
            b\<lparr>documents := update_where (in_list pdfIds congregationId) (\<lambda>d. d\<lparr>bdc_sectionId := sectionId\<rparr>) (documents b),
              dynamics := update_where (dynamic_in dynIds congregationId) (\<lambda>d. d\<lparr>dyn_sectionId := sectionId\<rparr>) (dynamics b)\<rparr>))"

datatype item_kind = Pdf | Dyn

fun order_items :: "int \<Rightarrow> ((item_kind \<times> int) \<times> int) list \<Rightarrow> board \<Rightarrow> (board, unit) outcome" where
  "order_items congregationId [] b = (Inr (), b)"
| "order_items congregationId (((Pdf, i), order) # rest) b =
     (if \<not> list_ex (is_document i congregationId) (documents b) then (Inl (DatabaseError RecordNotFound), b)
      else order_items congregationId rest
             (b\<lparr>documents := update_where (is_document i congregationId) (\<lambda>d. d\<lparr>bdc_order := Some order\<rparr>) (documents b)\<rparr>))"
| "order_items congregationId (((Dyn, i), order) # rest) b =
     (if \<not> list_ex (is_dynamic i congregationId) (dynamics b) then (Inl (DatabaseError RecordNotFound), b)
      else order_items congregationId rest
             (b\<lparr>dynamics := update_where (is_dynamic i congregationId) (\<lambda>d. d\<lparr>dyn_order := Some order\<rparr>) (dynamics b)\<rparr>))"

definition reorderBoardItems :: "int \<Rightarrow> (item_kind \<times> int) list \<Rightarrow> board \<Rightarrow> (board, unit) outcome" where
  "reorderBoardItems congregationId orderedItems = order_items congregationId (by_fives orderedItems)"

definition reorderDocument :: "int \<Rightarrow> int \<Rightarrow> bool \<Rightarrow> board \<Rightarrow> (board, string option) outcome" where
  "reorderDocument documentId congregationId up b =
     (case find (is_document documentId congregationId) (documents b) of
        None \<Rightarrow> (Inr None, b)
      | Some d \<Rightarrow>
          (let rows = js_sort (by_order bdc_order)
                 (filter (\<lambda>x. bdc_sectionId x = bdc_sectionId d \<and> bdc_congregationId x = congregationId) (documents b))
           in chain (order_items congregationId
                  (map (\<lambda>(i, order). ((Pdf, i), order)) (computeReorderedItems (map bdc_id rows) documentId up)) b)
                (\<lambda>_ b. (Inr (Some (bdc_title d)), b))))"

text \<open>\<open>None\<close> for a date or the highlight leaves the column alone. Connecting needs a section one can see.\<close>

record document_update =
  du_title :: string
  du_sectionId :: int
  du_visibleFrom :: "int option option"
  du_visibleUntil :: "int option option"
  du_isHighlighted :: "bool option"

definition kept :: "'a option \<Rightarrow> 'a \<Rightarrow> 'a" where
  "kept new old = (case new of None \<Rightarrow> old | Some x \<Rightarrow> x)"

definition updateBoardDocument ::
  "int \<Rightarrow> int \<Rightarrow> int \<Rightarrow> document_update \<Rightarrow> board \<Rightarrow> (board, board_document) outcome" where
  "updateBoardDocument i congregationId actorId data b =
     (case find (is_document i congregationId) (documents b) of
        None \<Rightarrow> (Inl (DatabaseError RecordNotFound), b)
      | Some d \<Rightarrow>
          if \<not> list_ex (is_section (du_sectionId data) congregationId) (sections b) then (Inl (DatabaseError RecordNotFound), b)
          else
            (let f = (\<lambda>d. d\<lparr>bdc_title := du_title data, bdc_sectionId := du_sectionId data,
                        bdc_visibleFrom := kept (du_visibleFrom data) (bdc_visibleFrom d),
                        bdc_visibleUntil := kept (du_visibleUntil data) (bdc_visibleUntil d),
                        bdc_isHighlighted := kept (du_isHighlighted data) (bdc_isHighlighted d)\<rparr>)
             in (Inr (f d), board_audit ''board.document.updated'' congregationId actorId ''BoardDocument'' i None
                   (b\<lparr>documents := update_where (is_document i congregationId) f (documents b)\<rparr>))))"

definition markDocumentAsViewed :: "int \<Rightarrow> int \<Rightarrow> int \<Rightarrow> board \<Rightarrow> (board, int \<times> string) outcome" where
  "markDocumentAsViewed documentId userId congregationId b =
     (case find (is_document documentId congregationId) (documents b) of
        None \<Rightarrow> (Inl (DatabaseError RecordNotFound), b)
      | Some d \<Rightarrow>
          (Inr (bdc_id d, bdc_title d),
           b\<lparr>documents := update_where (is_document documentId congregationId)
              (\<lambda>d. if userId \<in> set (bdc_viewedBy d) then d else d\<lparr>bdc_viewedBy := bdc_viewedBy d @ [userId]\<rparr>) (documents b)\<rparr>))"

text \<open>
  A section goes with its documents. Computed documents refuse it: their foreign key has no cascade,
  and the transaction is rolled back, here by returning the board as it was.
\<close>

definition deleteSectionWithFiles :: "int \<Rightarrow> int \<Rightarrow> board \<Rightarrow> (board, string) outcome" where
  "deleteSectionWithFiles sectionId congregationId b =
     (let rows = filter (\<lambda>d. bdc_sectionId d = sectionId \<and> bdc_congregationId d = congregationId) (documents b)
      in case find (is_section sectionId congregationId) (sections b) of
           None \<Rightarrow> (Inl (DatabaseError RecordNotFound), b)
         | Some s \<Rightarrow>
             if list_ex (\<lambda>d. dyn_sectionId d = sectionId) (dynamics b) \<or>
                list_ex (\<lambda>d. bdc_sectionId d = sectionId \<and> bdc_congregationId d \<noteq> congregationId) (documents b)
             then (Inl (DatabaseError ForeignKeyViolation), b)
             else
               (Inr (bsc_name s),
                fold delete_files_of rows
                  ((remove_documents (\<lambda>d. bdc_sectionId d = sectionId \<and> bdc_congregationId d = congregationId) b)
                    \<lparr>sections := delete_where (is_section sectionId congregationId) (sections b),
                     sectionRoles := delete_where (\<lambda>r. bsr_sectionId r = sectionId) (sectionRoles b)\<rparr>)))"

section \<open>Computed documents\<close>

definition createDynamicDocument ::
  "board_keys \<Rightarrow> int \<Rightarrow> string \<Rightarrow> string \<Rightarrow> string option \<Rightarrow> json option \<Rightarrow> int \<Rightarrow> int \<Rightarrow> board \<Rightarrow>
     (board, dynamic_document) outcome" where
  "createDynamicDocument k now title dynamicType dynamicRef dynamicConfig sectionId congregationId b =
     (if \<not> section_exists sectionId b then (Inl (DatabaseError ForeignKeyViolation), b)
      else
        (let d = \<lparr>dyn_id = bk_dynamic k (dynamics b), dyn_title = title, dyn_dynamicType = dynamicType, dyn_dynamicRef = dynamicRef,
                   dyn_dynamicConfig = dynamicConfig, dyn_appearance = None, dyn_sectionId = sectionId, dyn_order = None,
                   dyn_visibleFrom = Some now, dyn_visibleUntil = None, dyn_isHighlighted = False, dyn_showServices = False,
                   dyn_congregationId = congregationId\<rparr>
         in (Inr d, b\<lparr>dynamics := dynamics b @ [d]\<rparr>)))"

definition deleteDynamicDocument :: "int \<Rightarrow> int \<Rightarrow> board \<Rightarrow> (board, string) outcome" where
  "deleteDynamicDocument i congregationId b =
     (case find (is_dynamic i congregationId) (dynamics b) of
        None \<Rightarrow> (Inl (DatabaseError RecordNotFound), b)
      | Some d \<Rightarrow> (Inr (dyn_title d), remove_dynamics (is_dynamic i congregationId) b))"

record dynamic_update =
  dyu_title :: string
  dyu_sectionId :: int
  dyu_visibleFrom :: "int option"
  dyu_visibleUntil :: "int option"
  dyu_isHighlighted :: bool
  dyu_showServices :: bool
  dyu_dynamicConfig :: "json option"
  dyu_appearance :: "BoardAppearance option"

definition updateDynamicDocument ::
  "int \<Rightarrow> int \<Rightarrow> int \<Rightarrow> dynamic_update \<Rightarrow> board \<Rightarrow> (board, dynamic_document option) outcome" where
  "updateDynamicDocument i congregationId actorId data b =
     (case find (is_dynamic i congregationId) (dynamics b) of
        None \<Rightarrow> (Inr None, b)
      | Some existing \<Rightarrow>
          if \<not> section_exists (dyu_sectionId data) b then (Inl (DatabaseError ForeignKeyViolation), b)
          else
            (let appearance = (case dyu_appearance data of
                                 None \<Rightarrow> None
                               | Some chosen \<Rightarrow>
                                   if isDynamicType (dyn_dynamicType existing)
                                   then Some (appearance_json (appearanceFor (dyn_dynamicType existing) chosen)) else None);
                 f = (\<lambda>d. d\<lparr>dyn_title := dyu_title data, dyn_sectionId := dyu_sectionId data, dyn_visibleFrom := dyu_visibleFrom data,
                        dyn_visibleUntil := dyu_visibleUntil data, dyn_isHighlighted := dyu_isHighlighted data,
                        dyn_showServices := dyu_showServices data,
                        dyn_dynamicConfig := (case dyu_dynamicConfig data of None \<Rightarrow> dyn_dynamicConfig d | Some c \<Rightarrow> Some c),
                        dyn_appearance := (case appearance of None \<Rightarrow> dyn_appearance d | Some a \<Rightarrow> Some a)\<rparr>)
             in (Inr (Some (f existing)),
                 board_audit ''board.dynamic_document.updated'' congregationId actorId ''BoardDynamicDocumentSettings'' i None
                   (b\<lparr>dynamics := update_where (is_dynamic i congregationId) f (dynamics b)\<rparr>))))"

definition markDynamicDocumentViewed :: "int \<Rightarrow> int \<Rightarrow> int \<Rightarrow> board \<Rightarrow> board" where
  "markDynamicDocumentViewed now settingsId userId b =
     (let mine = (\<lambda>w. dvw_settingsId w = settingsId \<and> dvw_userId w = userId)
      in if list_ex mine (dynamicViews b)
         then b\<lparr>dynamicViews := update_where mine (\<lambda>w. w\<lparr>dvw_viewedAt := now\<rparr>) (dynamicViews b)\<rparr>
         else b\<lparr>dynamicViews := dynamicViews b @ [\<lparr>dvw_settingsId = settingsId, dvw_userId = userId, dvw_viewedAt = now\<rparr>]\<rparr>)"

section \<open>Background work\<close>

text \<open>The renderer of the first page is an argument: the key of its picture, or nothing.\<close>

definition handleThumbnailWork :: "(string list \<Rightarrow> string) \<Rightarrow> bool \<Rightarrow> thumbnail_job \<Rightarrow> board \<Rightarrow> (board, unit) outcome" where
  "handleThumbnailWork newKey renders job b =
     (if tj_pdfStorageKey job \<notin> set (storage b) \<or> \<not> renders then (Inr (), b)
      else
        (let thumbnailUri = newKey (storage b); saved = b\<lparr>storage := storage b @ [thumbnailUri]\<rparr>;
             mine = is_document (tj_documentId job) (tj_congregationId job)
         in if \<not> list_ex mine (documents b) then (Inl (DatabaseError RecordNotFound), saved)
            else (Inr (), saved\<lparr>documents := update_where mine (\<lambda>d. d\<lparr>bdc_thumbnailUri := Some thumbnailUri\<rparr>) (documents b)\<rparr>)))"

definition notify_board :: "board_keys \<Rightarrow> int \<Rightarrow> NotifyParams \<Rightarrow> board \<Rightarrow> board" where
  "notify_board k now ps b = b\<lparr>programme := notify (bk_rows k) now ps (programme b)\<rparr>"

definition expiring :: "int \<Rightarrow> board_document \<Rightarrow> bool" where
  "expiring now d \<longleftrightarrow>
     (case bdc_visibleUntil d of None \<Rightarrow> False | Some t \<Rightarrow> now \<le> t \<and> t \<le> now + 48 * 60 * 60 * 1000)"

definition expiring_notice :: "board_document list \<Rightarrow> int \<Rightarrow> NotifyParams" where
  "expiring_notice rows congregationId =
     \<lparr>nt_type = ''board.document.expiring'', nt_entityType = ''Congregation'', nt_entityId = congregationId,
      nt_congregationId = congregationId, nt_recipientId = None, nt_recipientRole = None, nt_actorId = None,
      nt_payload = [(''documents'', JArr (map (\<lambda>d. JObj [(''id'', JNum (bdc_id d)), (''title'', JStr (bdc_title d))])
        (filter (\<lambda>d. bdc_congregationId d = congregationId) rows)))]\<rparr>"

definition checkExpiringDocuments :: "board_keys \<Rightarrow> int \<Rightarrow> board \<Rightarrow> (nat \<times> nat) \<times> board" where
  "checkExpiringDocuments k now b =
     (let rows = filter (expiring now) (documents b); congregations = js_set (map bdc_congregationId rows)
      in ((length congregations, length rows),
          fold (\<lambda>c. notify_board k now (expiring_notice rows c)) congregations b))"

end
