(* ===== verification/Board_Pages.thy ===== *)
theory Board_Pages
  imports Board
begin

text \<open>
  The pages of the display board (\<^verbatim>\<open>features/display-board/routes\<close>): who may call an action, what it
  does with the form, and which of its effects stay when it throws. What the form parsers make of a
  submission, and the session's messages, are outside; a path parameter that is no number is \<open>None\<close>.
\<close>

section \<open>Requests and answers\<close>

record requester =
  rq_id :: int
  rq_congregationId :: int
  rq_permissions :: "string set"

text \<open>An uncaught error, a redirection that is thrown, one that is returned, a bad form, a reply.\<close>

datatype 'a board_answer = Crashed app_error | Turned_Away string | Went_To string | Bad_Form | Replied 'a

type_synonym 'a board_ending = "'a board_answer \<times> board"

definition may :: "requester \<Rightarrow> string \<Rightarrow> bool" where
  "may rq permission \<longleftrightarrow> permission \<in> rq_permissions rq"

definition requirePermission :: "requester \<Rightarrow> string \<Rightarrow> board \<Rightarrow> 'a board_ending \<Rightarrow> 'a board_ending" where
  "requirePermission rq permission b k = (if may rq permission then k else (Turned_Away ''/'', b))"

definition requireParamId :: "int option \<Rightarrow> string \<Rightarrow> board \<Rightarrow> (int \<Rightarrow> 'a board_ending) \<Rightarrow> 'a board_ending" where
  "requireParamId param redirectTo b k = (case param of None \<Rightarrow> (Turned_Away redirectTo, b) | Some i \<Rightarrow> k i)"

text \<open>
  What a thrown answer rolls back: the rows. Files, thumbnail jobs, e-mail jobs and the audit log are
  written outside of the transaction.
\<close>

definition rolled_back :: "board \<Rightarrow> board \<Rightarrow> board" where
  "rolled_back b b' =
     b\<lparr>programme := (programme b)\<lparr>core := (core (programme b))\<lparr>auditLog := auditLog (core (programme b'))\<rparr>,
                               emailQueue := emailQueue (programme b')\<rparr>,
       storage := storage b', thumbnailQueue := thumbnailQueue b'\<rparr>"

definition in_scope :: "(board \<Rightarrow> 'a board_ending) \<Rightarrow> board \<Rightarrow> 'a board_ending" where
  "in_scope body b =
     (case body b of
        (Crashed e, b') \<Rightarrow> (Crashed e, rolled_back b b')
      | (Turned_Away path, b') \<Rightarrow> (Turned_Away path, rolled_back b b')
      | (answer, b') \<Rightarrow> (answer, b'))"

text \<open>\<open>after r k\<close> goes on with \<open>k\<close> unless the service call threw.\<close>

definition after :: "(board, 'b) outcome \<Rightarrow> ('b \<Rightarrow> board \<Rightarrow> 'a board_ending) \<Rightarrow> 'a board_ending" where
  "after r k = (case r of (Inl e, b) \<Rightarrow> (Crashed e, b) | (Inr x, b) \<Rightarrow> k x b)"

definition is_AppError :: "app_error \<Rightarrow> bool" where
  "is_AppError e \<longleftrightarrow> (case e of DatabaseError _ \<Rightarrow> False | RangeError \<Rightarrow> False | _ \<Rightarrow> True)"

definition handleAppError :: "string \<Rightarrow> app_error \<Rightarrow> 'a board_answer" where
  "handleAppError redirectTo e = (if is_AppError e then Turned_Away redirectTo else Crashed e)"

definition CAN_VIEW :: string where "CAN_VIEW = ''can-view-board''"
definition CAN_UPLOAD :: string where "CAN_UPLOAD = ''can-upload-board-documents''"
definition CAN_REVIEW :: string where "CAN_REVIEW = ''can-review-board-documents''"
definition CAN_ORGANISE :: string where "CAN_ORGANISE = ''can-organise-board-documents''"
definition CAN_CONFIGURE :: string where "CAN_CONFIGURE = ''can-configure-board-sections''"
definition CAN_MANAGE_DYNAMIC :: string where "CAN_MANAGE_DYNAMIC = ''can-manage-dynamic-board-documents''"

definition BOARD :: string where "BOARD = ''/board''"
definition DOCUMENTS :: string where "DOCUMENTS = ''/board/documents''"
definition SECTIONS :: string where "SECTIONS = ''/board/sections''"

definition page_of :: "string \<Rightarrow> int \<Rightarrow> string \<Rightarrow> string" where
  "page_of base i leaf = base @ ''/'' @ js_string i @ ''/'' @ leaf"

section \<open>Uploading and editing a document\<close>

text \<open>An instant is \<open>None\<close> when the text of the form is no date. The file may be absent or empty.\<close>

record document_form =
  df_title :: string
  df_sectionId :: int
  df_visibleFrom :: "int option"
  df_visibleUntil :: "int option"
  df_highlighted :: "string option"
  df_file :: "upload option"

datatype 'f submission = Too_Large | Rejected | Filled 'f

definition past_epoch :: "int option \<Rightarrow> int option" where
  "past_epoch t = (case t of None \<Rightarrow> None | Some n \<Rightarrow> if n > 0 then Some n else None)"

definition document_notice :: "string \<Rightarrow> int \<Rightarrow> requester \<Rightarrow> (string \<times> json) list \<Rightarrow> NotifyParams" where
  "document_notice kind documentId rq payload =
     \<lparr>nt_type = kind, nt_entityType = ''BoardDocument'', nt_entityId = documentId,
      nt_congregationId = rq_congregationId rq, nt_recipientId = None, nt_recipientRole = None,
      nt_actorId = Some (rq_id rq), nt_payload = payload\<rparr>"

definition documents_of :: "int \<Rightarrow> board \<Rightarrow> board_document list" where
  "documents_of congregationId b = filter (\<lambda>d. bdc_congregationId d = congregationId) (documents b)"

definition sections_of :: "int \<Rightarrow> board \<Rightarrow> board_section list" where
  "sections_of congregationId b = filter (\<lambda>s. bsc_congregationId s = congregationId) (sections b)"

definition new_body ::
  "board_keys \<Rightarrow> int \<Rightarrow> CongregationLimits \<Rightarrow> nat \<Rightarrow> requester \<Rightarrow> document_form \<Rightarrow> upload \<Rightarrow> board \<Rightarrow> unit board_ending" where
  "new_body k now limits overlays rq form file b =
     (let congregationId = rq_congregationId rq;
          uc = \<lparr>uc_documents = length (documents_of congregationId b), uc_overlays = overlays\<rparr>;
          back = DOCUMENTS @ ''/new''
      in case errorIfWouldGoOverLimit limits uc congregationId LimitBoardDocuments (core (programme b)) of
           Some e \<Rightarrow> (handleAppError back e, b)
         | None \<Rightarrow>
             (case validateBoardFile file of
                Some e \<Rightarrow> (Went_To back, b)
              | None \<Rightarrow>
                  (case saveFile k b of
                     (key, b) \<Rightarrow>
                       (case createBoardDocument k congregationId (rq_id rq)
                               \<lparr>nd_title = df_title form, nd_sectionId = df_sectionId form, nd_uri = key,
                                nd_visibleFrom = past_epoch (df_visibleFrom form),
                                nd_visibleUntil = past_epoch (df_visibleUntil form),
                                nd_isHighlighted = map_option (\<lambda>h. h = ''on'') (df_highlighted form)\<rparr> b of
                          (Inl e, b) \<Rightarrow> (handleAppError back e, b)
                        | (Inr d, b) \<Rightarrow>
                            (let b = queue_thumbnail congregationId (bdc_id d) key b;
                                 b = (if may rq CAN_REVIEW then b
                                      else notify_board k now (document_notice ''board.document.created'' (bdc_id d) rq
                                             [(''title'', JStr (bdc_title d)), (''documentId'', JNum (bdc_id d))]) b)
                             in (Went_To (page_of DOCUMENTS (bdc_id d) ''edit''), b))))))"

definition new_document_action ::
  "board_keys \<Rightarrow> int \<Rightarrow> CongregationLimits \<Rightarrow> nat \<Rightarrow> requester \<Rightarrow> document_form submission \<Rightarrow> board \<Rightarrow> unit board_ending" where
  "new_document_action k now limits overlays rq sent b =
     (if \<not> may rq CAN_UPLOAD then (Turned_Away ''/'', b)
      else
        (case sent of
           Too_Large \<Rightarrow> (Went_To (DOCUMENTS @ ''/new''), b)
         | Rejected \<Rightarrow> (Bad_Form, b)
         | Filled form \<Rightarrow>
             (case df_file form of
                None \<Rightarrow> (Turned_Away (DOCUMENTS @ ''/new''), b)
              | Some file \<Rightarrow>
                  if \<not> validateVisibilityDates (past_epoch (df_visibleFrom form)) (past_epoch (df_visibleUntil form))
                  then (Went_To (DOCUMENTS @ ''/new''), b)
                  else in_scope (new_body k now limits overlays rq form file) b)))"

text \<open>Visibility and highlight are the reviewers'; an uploader's edit leaves the columns alone.\<close>

definition resolveVisibility ::
  "int option \<Rightarrow> int option \<Rightarrow> bool \<Rightarrow> int option option \<times> int option option \<times> bool" where
  "resolveVisibility rawFrom rawUntil canManageBoard =
     (if \<not> canManageBoard then (None, None, True)
      else (Some (past_epoch rawFrom), Some (past_epoch rawUntil),
            validateVisibilityDates (past_epoch rawFrom) (past_epoch rawUntil)))"

definition owns_document :: "requester \<Rightarrow> int \<Rightarrow> board \<Rightarrow> bool" where
  "owns_document rq documentId b \<longleftrightarrow> may rq CAN_UPLOAD \<and> isDocumentOwnedByUploader documentId (rq_id rq) b"

definition write_document ::
  "board_keys \<Rightarrow> int \<Rightarrow> requester \<Rightarrow> int \<Rightarrow> document_update \<Rightarrow> board \<Rightarrow> unit board_ending" where
  "write_document k now rq documentId changes b =
     after (updateBoardDocument documentId (rq_congregationId rq) (rq_id rq) changes b)
       (\<lambda>d b. (Went_To (page_of DOCUMENTS (bdc_id d) ''edit''),
               if may rq CAN_REVIEW then b
               else notify_board k now (document_notice ''board.document.updated'' (bdc_id d) rq
                      [(''title'', JStr (bdc_title d)), (''documentId'', JNum (bdc_id d))]) b))"

definition edit_document_body ::
  "board_keys \<Rightarrow> int \<Rightarrow> requester \<Rightarrow> int option \<Rightarrow> document_form \<Rightarrow> board \<Rightarrow> unit board_ending" where
  "edit_document_body k now rq param form b =
     requireParamId param BOARD b (\<lambda>documentId.
       if \<not> may rq CAN_REVIEW \<and> \<not> owns_document rq documentId b then (Turned_Away DOCUMENTS, b)
       else
         (let (visibleFrom, visibleUntil, _) =
                resolveVisibility (df_visibleFrom form) (df_visibleUntil form) (may rq CAN_REVIEW);
              changes = \<lparr>du_title = df_title form, du_sectionId = df_sectionId form, du_visibleFrom = visibleFrom,
                         du_visibleUntil = visibleUntil,
                         du_isHighlighted = (if may rq CAN_REVIEW then Some (df_highlighted form = Some ''on'') else None)\<rparr>
          in case (case df_file form of None \<Rightarrow> None | Some f \<Rightarrow> if up_size f > 0 then Some f else None) of
               None \<Rightarrow> write_document k now rq documentId changes b
             | Some file \<Rightarrow>
                 after (replaceDocumentFile k documentId (rq_congregationId rq) (rq_id rq) file b)
                   (\<lambda>result b. case result of
                       Not_Replaced e \<Rightarrow> (Went_To (page_of DOCUMENTS documentId ''edit''), b)
                     | Replaced uri \<Rightarrow> write_document k now rq documentId changes b)))"

definition edit_document_action ::
  "board_keys \<Rightarrow> int \<Rightarrow> requester \<Rightarrow> string \<Rightarrow> int option \<Rightarrow> document_form submission \<Rightarrow> board \<Rightarrow> unit board_ending" where
  "edit_document_action k now rq rawParam param sent b =
     (if \<not> may rq CAN_UPLOAD \<and> \<not> may rq CAN_REVIEW then (Turned_Away ''/'', b)
      else
        (case sent of
           Too_Large \<Rightarrow> (Went_To (DOCUMENTS @ ''/'' @ rawParam @ ''/edit''), b)
         | Rejected \<Rightarrow> (Bad_Form, b)
         | Filled form \<Rightarrow>
             (case resolveVisibility (df_visibleFrom form) (df_visibleUntil form) (may rq CAN_REVIEW) of
                (_, _, rangeIsValid) \<Rightarrow>
                  if \<not> rangeIsValid then (Went_To (DOCUMENTS @ ''/'' @ rawParam @ ''/edit''), b)
                  else in_scope (edit_document_body k now rq param form) b)))"

section \<open>Deleting, restoring, arranging\<close>

definition delete_document_body :: "board_keys \<Rightarrow> int \<Rightarrow> requester \<Rightarrow> int option \<Rightarrow> board \<Rightarrow> unit board_ending" where
  "delete_document_body k now rq param b =
     requireParamId param BOARD b (\<lambda>documentId.
       if \<not> may rq CAN_REVIEW \<and> \<not> owns_document rq documentId b then (Turned_Away DOCUMENTS, b)
       else
         after (deleteBoardDocument documentId (rq_congregationId rq) (rq_id rq) (deleteAllVersionFiles documentId b))
           (\<lambda>(i, title) b.
              (Went_To DOCUMENTS,
               notify_board k now (document_notice ''board.document.deleted'' documentId rq [(''title'', JStr title)]) b)))"

definition delete_document_action :: "board_keys \<Rightarrow> int \<Rightarrow> requester \<Rightarrow> int option \<Rightarrow> board \<Rightarrow> unit board_ending" where
  "delete_document_action k now rq param b =
     (if \<not> may rq CAN_UPLOAD \<and> \<not> may rq CAN_REVIEW then (Turned_Away ''/'', b)
      else in_scope (delete_document_body k now rq param) b)"

definition versions_action ::
  "board_keys \<Rightarrow> requester \<Rightarrow> int option \<Rightarrow> int option \<Rightarrow> board \<Rightarrow> unit board_ending" where
  "versions_action k rq param versionId b =
     (if \<not> may rq CAN_UPLOAD \<and> \<not> may rq CAN_REVIEW then (Turned_Away ''/'', b)
      else
        requireParamId param DOCUMENTS b (\<lambda>documentId.
          case versionId of
            None \<Rightarrow> (Bad_Form, b)
          | Some v \<Rightarrow>
              in_scope (\<lambda>b.
                if \<not> may rq CAN_REVIEW \<and> \<not> owns_document rq documentId b then (Turned_Away DOCUMENTS, b)
                else
                  after (restoreDocumentVersion k documentId v (rq_congregationId rq) (rq_id rq) b)
                    (\<lambda>_ b. (Went_To (page_of DOCUMENTS documentId ''versions''), b))) b))"

text \<open>What the arranging pages answer: \<^verbatim>\<open>ok\<close>, and how many of each kind they touched.\<close>

definition ids_of :: "item_kind \<Rightarrow> (item_kind \<times> int) list \<Rightarrow> int list" where
  "ids_of kind items = map snd (filter (\<lambda>i. fst i = kind) items)"

definition bulk_delete_action ::
  "requester \<Rightarrow> (item_kind \<times> int) list \<Rightarrow> board \<Rightarrow> (nat \<times> nat) option board_ending" where
  "bulk_delete_action rq items b =
     requirePermission rq CAN_ORGANISE b
       (if items = [] then (Replied None, b)
        else
          in_scope (\<lambda>b.
            (case bulkDeleteBoardItems (rq_congregationId rq) (ids_of Pdf items) (ids_of Dyn items) b of
               (counts, b) \<Rightarrow> (Replied (Some counts), b))) b)"

definition bulk_move_action ::
  "requester \<Rightarrow> (item_kind \<times> int) list \<Rightarrow> int \<Rightarrow> board \<Rightarrow> (nat \<times> nat) option board_ending" where
  "bulk_move_action rq items sectionId b =
     requirePermission rq CAN_ORGANISE b
       (if items = [] \<or> sectionId = 0 then (Replied None, b)
        else
          in_scope (\<lambda>b.
            after (bulkMoveBoardItems (rq_congregationId rq) sectionId (ids_of Pdf items) (ids_of Dyn items) b)
              (\<lambda>counts b. (Replied (Some counts), b))) b)"

definition reorder_action :: "requester \<Rightarrow> (item_kind \<times> int) list \<Rightarrow> board \<Rightarrow> bool board_ending" where
  "reorder_action rq orderedItems b =
     requirePermission rq CAN_ORGANISE b
       (if orderedItems = [] then (Replied False, b)
        else in_scope (\<lambda>b. after (reorderBoardItems (rq_congregationId rq) orderedItems b) (\<lambda>_ b. (Replied True, b))) b)"

definition move_document_action :: "requester \<Rightarrow> bool \<Rightarrow> int option \<Rightarrow> board \<Rightarrow> unit board_ending" where
  "move_document_action rq up param b =
     requirePermission rq CAN_ORGANISE b
       (in_scope (\<lambda>b. requireParamId param BOARD b (\<lambda>documentId.
          after (reorderDocument documentId (rq_congregationId rq) up b) (\<lambda>_ b. (Went_To DOCUMENTS, b)))) b)"

section \<open>Sections\<close>

record section_form =
  sf_name :: string
  sf_visibilityRoleIds :: "int list"

definition new_section_action :: "board_keys \<Rightarrow> requester \<Rightarrow> section_form option \<Rightarrow> board \<Rightarrow> unit board_ending" where
  "new_section_action k rq sent b =
     requirePermission rq CAN_CONFIGURE b
       (case sent of
          None \<Rightarrow> (Bad_Form, b)
        | Some form \<Rightarrow>
            in_scope (\<lambda>b.
              (case createBoardSection k (sf_name form) (rq_congregationId rq) (rq_id rq) b of
                 (s, b) \<Rightarrow>
                   (Went_To (page_of SECTIONS (bsc_id s) ''edit''),
                    if sf_visibilityRoleIds form = [] then b
                    else snd (setSectionVisibilityRoles (bsc_id s) (sf_visibilityRoleIds form)
                                (rq_congregationId rq) (rq_id rq) b)))) b)"

definition edit_section_action :: "requester \<Rightarrow> int option \<Rightarrow> section_form option \<Rightarrow> board \<Rightarrow> unit board_ending" where
  "edit_section_action rq param sent b =
     requirePermission rq CAN_CONFIGURE b
       (case sent of
          None \<Rightarrow> (Bad_Form, b)
        | Some form \<Rightarrow>
            in_scope (\<lambda>b. requireParamId param BOARD b (\<lambda>sectionId.
              after (updateBoardSection sectionId (rq_congregationId rq) (rq_id rq) (sf_name form) b)
                (\<lambda>_ b. (Went_To (page_of SECTIONS sectionId ''edit''),
                        snd (setSectionVisibilityRoles sectionId (sf_visibilityRoleIds form)
                              (rq_congregationId rq) (rq_id rq) b))))) b)"

definition delete_section_action :: "requester \<Rightarrow> int option \<Rightarrow> board \<Rightarrow> unit board_ending" where
  "delete_section_action rq param b =
     requirePermission rq CAN_CONFIGURE b
       (in_scope (\<lambda>b. requireParamId param BOARD b (\<lambda>sectionId.
          after (deleteSectionWithFiles sectionId (rq_congregationId rq) b) (\<lambda>_ b. (Went_To SECTIONS, b)))) b)"

definition move_section_action :: "requester \<Rightarrow> bool \<Rightarrow> int option \<Rightarrow> board \<Rightarrow> unit board_ending" where
  "move_section_action rq up param b =
     requirePermission rq CAN_CONFIGURE b
       (in_scope (\<lambda>b. requireParamId param BOARD b (\<lambda>sectionId.
          after (reorderSection sectionId (rq_congregationId rq) up b) (\<lambda>_ b. (Went_To SECTIONS, b)))) b)"

definition reorder_sections_action :: "requester \<Rightarrow> int list \<Rightarrow> board \<Rightarrow> bool board_ending" where
  "reorder_sections_action rq orderedIds b =
     requirePermission rq CAN_CONFIGURE b
       (if orderedIds = [] then (Replied False, b)
        else in_scope (\<lambda>b. after (reorderBoardSections (rq_congregationId rq) orderedIds b) (\<lambda>_ b. (Replied True, b))) b)"

section \<open>Computed documents\<close>

record dynamic_form =
  dmf_dynamicType :: string
  dmf_dynamicRef :: string
  dmf_title :: string

definition PROGRAMME :: string where
  "PROGRAMME = ''programme''"

definition every_template :: "int \<Rightarrow> board \<Rightarrow> json" where
  "every_template congregationId b =
     JObj [(''templates'',
             JArr (map (\<lambda>t. JObj [(''templateId'', JNum (tpl_id t)), (''parts'', JBool True), (''services'', JBool True)])
               (filter (\<lambda>t. tpl_congregationId t = congregationId) (eventTemplates (programme b))))),
           (''groupBy'', JStr ''date'')]"

definition first_section :: "int \<Rightarrow> board \<Rightarrow> board_section option" where
  "first_section congregationId b =
     (case js_sort (by_order bsc_order) (sections_of congregationId b) of [] \<Rightarrow> None | s # _ \<Rightarrow> Some s)"

definition new_dynamic_action ::
  "board_keys \<Rightarrow> int \<Rightarrow> requester \<Rightarrow> dynamic_form option \<Rightarrow> board \<Rightarrow> unit board_ending" where
  "new_dynamic_action k now rq sent b =
     requirePermission rq CAN_MANAGE_DYNAMIC b
       (case sent of
          None \<Rightarrow> (Bad_Form, b)
        | Some form \<Rightarrow>
            in_scope (\<lambda>b.
              (case first_section (rq_congregationId rq) b of
                 None \<Rightarrow> (Went_To (DOCUMENTS @ ''/new-dynamic''), b)
               | Some s \<Rightarrow>
                   after (createDynamicDocument k now (dmf_title form) (dmf_dynamicType form)
                            (if dmf_dynamicRef form = [] then None else Some (dmf_dynamicRef form))
                            (if dmf_dynamicType form = PROGRAMME then Some (every_template (rq_congregationId rq) b) else None)
                            (bsc_id s) (rq_congregationId rq) b)
                     (\<lambda>d b. (Went_To (page_of (BOARD @ ''/dynamic'') (dyn_id d) ''edit''), b)))) b)"

text \<open>The form's configuration is \<open>None\<close> when it is absent or no JSON: the stored one stays.\<close>

record dynamic_edit_form =
  def_title :: string
  def_sectionId :: int
  def_visibleFrom :: "int option"
  def_visibleUntil :: "int option"
  def_highlighted :: "string option"
  def_showServices :: "string option"
  def_dynamicConfig :: "json option"
  def_appearance :: "BoardAppearance option"

definition edit_dynamic_action ::
  "requester \<Rightarrow> int option \<Rightarrow> dynamic_edit_form option \<Rightarrow> board \<Rightarrow> unit board_ending" where
  "edit_dynamic_action rq param sent b =
     requirePermission rq CAN_MANAGE_DYNAMIC b
       (case sent of
          None \<Rightarrow> (Bad_Form, b)
        | Some form \<Rightarrow>
            requireParamId param BOARD b (\<lambda>dynamicId.
              let parsedFrom = past_epoch (def_visibleFrom form); parsedUntil = past_epoch (def_visibleUntil form);
                  back = page_of (BOARD @ ''/dynamic'') dynamicId ''edit''
              in if \<not> validateVisibilityDates parsedFrom parsedUntil then (Went_To back, b)
                 else
                   in_scope (\<lambda>b.
                     after (updateDynamicDocument dynamicId (rq_congregationId rq) (rq_id rq)
                              \<lparr>dyu_title = def_title form, dyu_sectionId = def_sectionId form, dyu_visibleFrom = parsedFrom,
                               dyu_visibleUntil = parsedUntil, dyu_isHighlighted = (def_highlighted form = Some ''on''),
                               dyu_showServices = (def_showServices form = Some ''on''),
                               dyu_dynamicConfig = def_dynamicConfig form, dyu_appearance = def_appearance form\<rparr> b)
                       (\<lambda>saved b. (case saved of None \<Rightarrow> Turned_Away DOCUMENTS | Some _ \<Rightarrow> Went_To back, b))) b))"

definition delete_dynamic_action :: "requester \<Rightarrow> int option \<Rightarrow> board \<Rightarrow> unit board_ending" where
  "delete_dynamic_action rq param b =
     requirePermission rq CAN_MANAGE_DYNAMIC b
       (requireParamId param BOARD b (\<lambda>dynamicId.
          in_scope (\<lambda>b.
            after (deleteDynamicDocument dynamicId (rq_congregationId rq) b) (\<lambda>_ b. (Went_To DOCUMENTS, b))) b))"

text \<open>Deleting several sections: the first that fails throws, after the files of those before it are gone.\<close>

fun delete_sections :: "int \<Rightarrow> int list \<Rightarrow> board \<Rightarrow> (board, unit) outcome" where
  "delete_sections congregationId [] b = (Inr (), b)"
| "delete_sections congregationId (i # ids) b =
     chain (deleteSectionWithFiles i congregationId b) (\<lambda>_ b. delete_sections congregationId ids b)"

definition bulk_delete_sections_action :: "requester \<Rightarrow> int list \<Rightarrow> board \<Rightarrow> nat option board_ending" where
  "bulk_delete_sections_action rq ids b =
     requirePermission rq CAN_CONFIGURE b
       (if ids = [] then (Replied None, b)
        else in_scope (\<lambda>b. after (delete_sections (rq_congregationId rq) ids b) (\<lambda>_ b. (Replied (Some (length ids)), b))) b)"

section \<open>Reading\<close>

definition section_visible :: "requester \<Rightarrow> int \<Rightarrow> board \<Rightarrow> bool" where
  "section_visible rq sectionId b \<longleftrightarrow>
     list_ex (\<lambda>s. bsc_id s = sectionId \<and> buildSectionVisibilityFilter (rq_id rq) (rq_congregationId rq) b s) (sections b)"

definition visible_document :: "requester \<Rightarrow> int \<Rightarrow> board \<Rightarrow> board_document option" where
  "visible_document rq documentId b =
     find (\<lambda>d. is_document documentId (rq_congregationId rq) d \<and> section_visible rq (bdc_sectionId d) b) (documents b)"

definition visible_dynamic :: "requester \<Rightarrow> int \<Rightarrow> board \<Rightarrow> dynamic_document option" where
  "visible_dynamic rq dynamicId b =
     find (\<lambda>d. is_dynamic dynamicId (rq_congregationId rq) d \<and> section_visible rq (dyn_sectionId d) b) (dynamics b)"

definition viewer_loader :: "requester \<Rightarrow> int option \<Rightarrow> board \<Rightarrow> (int \<times> string) board_ending" where
  "viewer_loader rq param b =
     requirePermission rq CAN_VIEW b
       (requireParamId param BOARD b (\<lambda>documentId.
          in_scope (\<lambda>b.
            case visible_document rq documentId b of
              None \<Rightarrow> (Turned_Away BOARD, b)
            | Some _ \<Rightarrow>
                after (markDocumentAsViewed documentId (rq_id rq) (rq_congregationId rq) b)
                  (\<lambda>shown b. (Replied shown, b))) b))"

text \<open>The file that is served, with the title that names it; \<open>None\<close> for the picture stands for a 404.\<close>

definition pdf_loader :: "requester \<Rightarrow> int option \<Rightarrow> board \<Rightarrow> (string \<times> string) board_ending" where
  "pdf_loader rq param b =
     requirePermission rq CAN_VIEW b
       (in_scope (\<lambda>b. requireParamId param BOARD b (\<lambda>documentId.
          case visible_document rq documentId b of
            None \<Rightarrow> (Turned_Away BOARD, b)
          | Some d \<Rightarrow>
              (let key = (case bdc_uri d of None \<Rightarrow> [] | Some u \<Rightarrow> u)
               in if key \<notin> set (storage b) then (Turned_Away BOARD, b) else (Replied (key, bdc_title d), b)))) b)"

definition thumbnail_loader :: "requester \<Rightarrow> int option \<Rightarrow> board \<Rightarrow> string option board_ending" where
  "thumbnail_loader rq param b =
     requirePermission rq CAN_VIEW b
       (in_scope (\<lambda>b. requireParamId param BOARD b (\<lambda>documentId.
          (Replied (case Option.bind (visible_document rq documentId b) bdc_thumbnailUri of
                      None \<Rightarrow> None
                    | Some key \<Rightarrow> if key = [] \<or> key \<notin> set (storage b) then None else Some key), b))) b)"

text \<open>The forms that edit a document, ask before deleting it, and list its versions.\<close>

definition document_loader ::
  "requester \<Rightarrow> int option \<Rightarrow> string \<Rightarrow> string \<Rightarrow> (board_document \<Rightarrow> 'a) \<Rightarrow> board \<Rightarrow> 'a board_ending" where
  "document_loader rq param invalid missing shown b =
     (if \<not> may rq CAN_UPLOAD \<and> \<not> may rq CAN_REVIEW then (Turned_Away ''/'', b)
      else
        requireParamId param invalid b (\<lambda>documentId.
          case find (is_document documentId (rq_congregationId rq)) (documents b) of
            None \<Rightarrow> (Turned_Away missing, b)
          | Some d \<Rightarrow>
              if \<not> may rq CAN_REVIEW \<and> \<not> owns_document rq documentId b then (Turned_Away DOCUMENTS, b)
              else (Replied (shown d), b)))"

definition edit_loader :: "requester \<Rightarrow> int option \<Rightarrow> board \<Rightarrow> (board_document \<times> board_section list) board_ending" where
  "edit_loader rq param b =
     document_loader rq param BOARD DOCUMENTS (\<lambda>d. (d, sections_of (rq_congregationId rq) b)) b"

definition delete_loader :: "requester \<Rightarrow> int option \<Rightarrow> board \<Rightarrow> board_document board_ending" where
  "delete_loader rq param b = document_loader rq param BOARD SECTIONS (\<lambda>d. d) b"

definition versions_loader :: "requester \<Rightarrow> int option \<Rightarrow> board \<Rightarrow> (board_document \<times> document_version list) board_ending" where
  "versions_loader rq param b =
     document_loader rq param DOCUMENTS DOCUMENTS
       (\<lambda>d. (d, js_sort (\<lambda>v w. bdv_versionNumber w - bdv_versionNumber v) (versions_of (bdc_id d) b))) b"

text \<open>
  The list of documents to look after, with the account that uploaded the first version of each. How
  the database compares a title with what is searched for is an argument; a section that is no whole
  number of 32 bits is refused by the client.
\<close>

record document_list =
  dli_documents :: "(board_document \<times> int option) list"
  dli_dynamics :: "dynamic_document list"
  dli_sections :: "board_section list"
  dli_canUpload :: bool
  dli_canManage :: bool
  dli_currentUserId :: int

definition first_uploader :: "int \<Rightarrow> board \<Rightarrow> int option" where
  "first_uploader documentId b =
     Option.bind (find (\<lambda>v. bdv_documentId v = documentId \<and> bdv_versionNumber v = 1) (versions b)) bdv_uploadedById"

definition section_asked_for :: "string option \<Rightarrow> string option" where
  "section_asked_for param = (case param of None \<Rightarrow> None | Some s \<Rightarrow> if s = [] \<or> s = ''all'' then None else Some s)"

definition list_loader ::
  "(string \<Rightarrow> string \<Rightarrow> bool) \<Rightarrow> requester \<Rightarrow> string option \<Rightarrow> string option \<Rightarrow> board \<Rightarrow> document_list board_ending" where
  "list_loader finds rq q sectionParam b =
     (if \<not> may rq CAN_UPLOAD \<and> \<not> may rq CAN_REVIEW then (Turned_Away ''/'', b)
      else
        (let searched = (case q of None \<Rightarrow> [] | Some s \<Rightarrow> s);
             titled = (\<lambda>title. searched = [] \<or> finds searched title);
             listed = (\<lambda>inSection.
               \<lparr>dli_documents = map (\<lambda>d. (d, first_uploader (bdc_id d) b))
                  (filter (\<lambda>d. bdc_congregationId d = rq_congregationId rq \<and> titled (bdc_title d) \<and> inSection (bdc_sectionId d))
                     (documents b)),
                dli_dynamics =
                  filter (\<lambda>d. dyn_congregationId d = rq_congregationId rq \<and> titled (dyn_title d) \<and> inSection (dyn_sectionId d))
                    (dynamics b),
                dli_sections = js_sort (by_order bsc_order) (sections_of (rq_congregationId rq) b),
                dli_canUpload = may rq CAN_UPLOAD, dli_canManage = may rq CAN_REVIEW, dli_currentUserId = rq_id rq\<rparr>)
         in in_scope (\<lambda>b.
              case section_asked_for sectionParam of
                None \<Rightarrow> (Replied (listed (\<lambda>_. True)), b)
              | Some s \<Rightarrow>
                  (case js_number s of
                     None \<Rightarrow> (Crashed (DatabaseError InvalidValue), b)
                   | Some n \<Rightarrow>
                       if n = of_int \<lfloor>n\<rfloor> \<and> - (2 ^ 31) \<le> n \<and> n < 2 ^ 31 then (Replied (listed (\<lambda>i. i = \<lfloor>n\<rfloor>)), b)
                       else (Crashed (DatabaseError InvalidValue), b))) b))"

text \<open>Who has read a document; the congregation's active accounts come in the order of their names.\<close>

definition shown_name :: "board \<Rightarrow> user_account \<Rightarrow> int \<times> string option \<times> string option \<times> int option" where
  "shown_name b u =
     (case Option.bind (acc_memberId u) (\<lambda>i. find (\<lambda>m. mem_id m = i) (members (core (programme b)))) of
        None \<Rightarrow> (acc_id u, acc_firstname u, acc_lastname u, acc_anonymizedAt u)
      | Some m \<Rightarrow> (acc_id u, Some (mem_firstname m), Some (mem_lastname m),
          (case mem_anonymizedAt m of None \<Rightarrow> acc_anonymizedAt u | Some t \<Rightarrow> Some t)))"

definition read_status_loader ::
  "(user_account list \<Rightarrow> user_account list) \<Rightarrow> requester \<Rightarrow> int option \<Rightarrow> board \<Rightarrow>
     ((int \<times> string option \<times> string option \<times> int option) list \<times> (int \<times> string option \<times> string option \<times> int option) list) board_ending" where
  "read_status_loader by_name rq param b =
     requirePermission rq CAN_REVIEW b
       (requireParamId param DOCUMENTS b (\<lambda>documentId.
          in_scope (\<lambda>b.
            case find (is_document documentId (rq_congregationId rq)) (documents b) of
              None \<Rightarrow> (Turned_Away DOCUMENTS, b)
            | Some d \<Rightarrow>
                (let allUsers = by_name (filter (\<lambda>u. acc_congregationId u = rq_congregationId rq \<and> acc_active u)
                                  (userAccounts (core (programme b))));
                     read = (\<lambda>u. acc_id u \<in> set (bdc_viewedBy d))
                 in (Replied (map (shown_name b) (filter read allUsers),
                              map (shown_name b) (filter (\<lambda>u. \<not> read u) allUsers)), b)))
            (board_audit ''board.read_status.viewed'' (rq_congregationId rq) (rq_id rq) ''BoardDocument'' documentId None b)))"

section \<open>The board itself\<close>

definition visibleNow :: "int \<Rightarrow> int option \<Rightarrow> int option \<Rightarrow> bool" where
  "visibleNow now visibleFrom visibleUntil \<longleftrightarrow>
     (case visibleFrom of None \<Rightarrow> False | Some f \<Rightarrow> f \<le> now) \<and>
     (case visibleUntil of None \<Rightarrow> True | Some u \<Rightarrow> now \<le> u)"

record board_card =
  bcd_kind :: item_kind
  bcd_id :: int
  bcd_title :: string
  bcd_order :: "int option"
  bcd_alreadyViewed :: bool

record board_folder =
  bfd_id :: int
  bfd_name :: string
  bfd_items :: "board_card list"

definition pdf_card :: "requester \<Rightarrow> board_document \<Rightarrow> board_card" where
  "pdf_card rq d =
     \<lparr>bcd_kind = Pdf, bcd_id = bdc_id d, bcd_title = bdc_title d, bcd_order = bdc_order d,
      bcd_alreadyViewed = (rq_id rq \<in> set (bdc_viewedBy d))\<rparr>"

text \<open>When the content of a computed document last changed is an argument.\<close>

definition isDynamicAlreadyViewed :: "(dynamic_document \<Rightarrow> int option) \<Rightarrow> requester \<Rightarrow> board \<Rightarrow> dynamic_document \<Rightarrow> bool" where
  "isDynamicAlreadyViewed contentVersion rq b d =
     (case find (\<lambda>w. dvw_settingsId w = dyn_id d \<and> dvw_userId w = rq_id rq) (dynamicViews b) of
        None \<Rightarrow> False
      | Some w \<Rightarrow> (case contentVersion d of None \<Rightarrow> True | Some v \<Rightarrow> v \<le> dvw_viewedAt w))"

definition dynamic_card :: "(dynamic_document \<Rightarrow> int option) \<Rightarrow> requester \<Rightarrow> board \<Rightarrow> dynamic_document \<Rightarrow> board_card" where
  "dynamic_card contentVersion rq b d =
     \<lparr>bcd_kind = Dyn, bcd_id = dyn_id d, bcd_title = dyn_title d, bcd_order = dyn_order d,
      bcd_alreadyViewed = isDynamicAlreadyViewed contentVersion rq b d\<rparr>"

definition documents_now :: "int \<Rightarrow> requester \<Rightarrow> board \<Rightarrow> board_document list" where
  "documents_now now rq b =
     js_sort (by_order bdc_order)
       (filter (\<lambda>d. visibleNow now (bdc_visibleFrom d) (bdc_visibleUntil d)) (documents_of (rq_congregationId rq) b))"

definition dynamics_now :: "int \<Rightarrow> requester \<Rightarrow> board \<Rightarrow> dynamic_document list" where
  "dynamics_now now rq b =
     js_sort (by_order dyn_order)
       (filter (\<lambda>d. dyn_congregationId d = rq_congregationId rq \<and> visibleNow now (dyn_visibleFrom d) (dyn_visibleUntil d) \<and>
          section_visible rq (dyn_sectionId d) b) (dynamics b))"

definition order_or_first :: "board_card \<Rightarrow> int" where
  "order_or_first c = (case bcd_order c of None \<Rightarrow> 0 | Some n \<Rightarrow> n)"

definition folder_of :: "int \<Rightarrow> (dynamic_document \<Rightarrow> int option) \<Rightarrow> requester \<Rightarrow> board \<Rightarrow> board_section \<Rightarrow> board_folder" where
  "folder_of now contentVersion rq b s =
     \<lparr>bfd_id = bsc_id s, bfd_name = bsc_name s,
      bfd_items = js_sort (\<lambda>x y. order_or_first x - order_or_first y)
        (map (pdf_card rq) (filter (\<lambda>d. bdc_sectionId d = bsc_id s) (documents_now now rq b)) @
         map (dynamic_card contentVersion rq b) (filter (\<lambda>d. dyn_sectionId d = bsc_id s) (dynamics_now now rq b)))\<rparr>"

definition index_loader ::
  "int \<Rightarrow> (dynamic_document \<Rightarrow> int option) \<Rightarrow> requester \<Rightarrow> board \<Rightarrow> (board_folder list \<times> board_card list) board_ending" where
  "index_loader now contentVersion rq b =
     requirePermission rq CAN_VIEW b
       (in_scope (\<lambda>b.
          (Replied
             (map (folder_of now contentVersion rq b)
                (js_sort (by_order bsc_order)
                  (filter (buildSectionVisibilityFilter (rq_id rq) (rq_congregationId rq) b) (sections_of (rq_congregationId rq) b))),
              map (pdf_card rq) (filter (\<lambda>d. bdc_isHighlighted d \<and> section_visible rq (bdc_sectionId d) b) (documents_now now rq b)) @
              map (dynamic_card contentVersion rq b) (filter dyn_isHighlighted (dynamics_now now rq b))), b)) b)"

end
