(* ===== verification/Org_Queries.thy ===== *)
theory Org_Queries
  imports Role_Keys
begin

text \<open>
  The read side of the organigram (\<^verbatim>\<open>shared/domain/organigram.queries.ts\<close>): ancestors,
  descendants and height over the parent links, computed on data that may hold cycles, and
  the assembly of the tree.
\<close>

section \<open>Links\<close>

record TreeLink =
  link_id :: int
  link_parent :: "int option"

text \<open>\<^verbatim>\<open>new Map(links.map(link => [link.id, link]))\<close>: the last link of an id counts.\<close>

definition parent_of :: "TreeLink list \<Rightarrow> int \<Rightarrow> int option" where
  "parent_of links i =
     (case map_of (rev (map (\<lambda>l. (link_id l, link_parent l)) links)) i of Some p \<Rightarrow> p | None \<Rightarrow> None)"

definition children_of :: "TreeLink list \<Rightarrow> int \<Rightarrow> int list" where
  "children_of links i = map link_id (filter (\<lambda>l. link_parent l = Some i) links)"

text \<open>The reporting relation: a role and the role it reports to.\<close>

definition edges :: "TreeLink list \<Rightarrow> (int \<times> int) set" where
  "edges links = {(link_id l, p) | l p. l \<in> set links \<and> link_parent l = Some p}"

lemma finite_edges: "finite (edges links)"
proof -
  have "edges links \<subseteq> (\<lambda>l. (link_id l, the (link_parent l))) ` set links"
    by (force simp: edges_def)
  then show ?thesis by (rule finite_subset) simp
qed

lemma set_children_of: "set (children_of links i) = {c. (c, i) \<in> edges links}"
  by (auto simp: children_of_def edges_def)

lemma parent_of_edge:
  assumes "distinct (map link_id links)"
  shows "parent_of links i = Some p \<longleftrightarrow> (i, p) \<in> edges links"
proof -
  let ?kvs = "rev (map (\<lambda>l. (link_id l, link_parent l)) links)"
  have "map fst ?kvs = rev (map link_id links)" by (simp add: rev_map comp_def)
  then have "distinct (map fst ?kvs)" using assms by (metis distinct_rev)
  then have "map_of ?kvs i = Some (Some p) \<longleftrightarrow> (i, Some p) \<in> set ?kvs" by (rule map_of_eq_Some_iff)
  moreover have "parent_of links i = Some p \<longleftrightarrow> map_of ?kvs i = Some (Some p)"
    unfolding parent_of_def by (cases "map_of ?kvs i") simp_all
  moreover have "(i, Some p) \<in> set ?kvs \<longleftrightarrow> (i, p) \<in> edges links" by (force simp: edges_def)
  ultimately show ?thesis by blast
qed

lemma parent_of_range: "parent_of links i = Some p \<Longrightarrow> p \<in> snd ` edges links"
  by (force simp: parent_of_def edges_def split: option.splits dest!: map_of_SomeD)

section \<open>Ancestors\<close>

text \<open>
  The loop of \<^verbatim>\<open>ancestorChainIds\<close>. The set \<open>seen\<close> of the code always holds exactly the ids of
  the chain, so the chain serves as both.
\<close>

function chain_from :: "TreeLink list \<Rightarrow> int option \<Rightarrow> int list \<Rightarrow> int list" where
  "chain_from links current path =
     (case current of
        None \<Rightarrow> path
      | Some c \<Rightarrow> if c \<in> set path then path else chain_from links (parent_of links c) (path @ [c]))"
  by auto
termination
proof (relation "measure (\<lambda>(links, current, path). card ((set_option current \<union> snd ` edges links) - set path))")
  fix links :: "TreeLink list" and current :: "int option" and path :: "int list" and c :: int
  assume c: "current = Some c" "c \<notin> set path"
  let ?U = "set_option (parent_of links c) \<union> snd ` edges links"
  have "?U - set (path @ [c]) \<subset> (set_option current \<union> snd ` edges links) - set path"
    using c parent_of_range [of links c] by (cases "parent_of links c") auto
  moreover have "finite ((set_option current \<union> snd ` edges links) - set path)"
    using finite_edges by simp
  ultimately show "((links, parent_of links c, path @ [c]), links, current, path)
      \<in> measure (\<lambda>(links, current, path). card ((set_option current \<union> snd ` edges links) - set path))"
    by (simp add: psubset_card_mono)
qed simp

declare chain_from.simps [simp del]

lemma chain_from_None [simp]: "chain_from links None path = path"
  by (simp add: chain_from.simps)

lemma chain_from_Some:
  "chain_from links (Some c) path = (if c \<in> set path then path else chain_from links (parent_of links c) (path @ [c]))"
  by (simp add: chain_from.simps [of links "Some c"])

definition ancestorChainIds :: "TreeLink list \<Rightarrow> int option \<Rightarrow> int list" where
  "ancestorChainIds links startId = chain_from links startId []"

section \<open>Descendants\<close>

text \<open>The queue of \<^verbatim>\<open>descendantIds\<close>, breadth first; \<open>found\<close> grows with \<open>seen\<close>.\<close>

function descend :: "TreeLink list \<Rightarrow> int list \<Rightarrow> int set \<Rightarrow> int list \<Rightarrow> int list" where
  "descend links [] seen found = found"
| "descend links (i # queue) seen found =
     (if i \<in> seen then descend links queue seen found
      else descend links (queue @ children_of links i) (insert i seen) (found @ [i]))"
  by pat_completeness auto
termination
proof (relation "(\<lambda>(links, queue, seen, found). card ((set queue \<union> link_id ` set links) - seen)) <*mlex*>
    measure (\<lambda>(links, queue, seen, found). length queue)")
  fix links :: "TreeLink list" and i :: int and queue found :: "int list" and seen :: "int set"
  let ?m = "\<lambda>(links, queue, seen :: int set, found :: int list). card ((set queue \<union> link_id ` set links) - seen)"
  have kids: "set (children_of links i) \<subseteq> link_id ` set links" for i by (auto simp: children_of_def)
  show "((links, queue, seen, found), links, i # queue, seen, found)
      \<in> ?m <*mlex*> measure (\<lambda>(links, queue, seen, found). length queue)" if "i \<in> seen"
  proof -
    have "(set (i # queue) \<union> link_id ` set links) - seen = (set queue \<union> link_id ` set links) - seen"
      using that by auto
    then show ?thesis by (intro mlex_leq) simp_all
  qed
  show "((links, queue @ children_of links i, insert i seen, found @ [i]), links, i # queue, seen, found)
      \<in> ?m <*mlex*> measure (\<lambda>(links, queue, seen, found). length queue)" if "i \<notin> seen"
  proof (intro mlex_less)
    have "(set (queue @ children_of links i) \<union> link_id ` set links) - insert i seen
        \<subset> (set (i # queue) \<union> link_id ` set links) - seen"
      using that kids by auto
    then show "?m (links, queue @ children_of links i, insert i seen, found @ [i]) < ?m (links, i # queue, seen, found)"
      by (simp add: psubset_card_mono)
  qed
qed (simp add: wf_mlex)

definition descendantIds :: "TreeLink list \<Rightarrow> int \<Rightarrow> int list" where
  "descendantIds links rootId = descend links (children_of links rootId) {rootId} []"

section \<open>Height\<close>

function walk_height :: "TreeLink list \<Rightarrow> int \<Rightarrow> int set \<Rightarrow> nat" where
  "walk_height links i seen =
     (let children = filter (\<lambda>c. c \<notin> seen) (children_of links i)
      in if children = [] then 0
         else 1 + foldr max (map (\<lambda>c. walk_height links c (insert c seen)) children) 0)"
  by auto
termination
proof (relation "measure (\<lambda>(links, i, seen). card (link_id ` set links - seen))")
  fix links :: "TreeLink list" and i c :: int and seen :: "int set" and children :: "int list"
  assume "children = filter (\<lambda>c. c \<notin> seen) (children_of links i)" "c \<in> set children"
  then have "link_id ` set links - insert c seen \<subset> link_id ` set links - seen"
    by (auto simp: children_of_def)
  then show "((links, c, insert c seen), links, i, seen) \<in> measure (\<lambda>(links, i, seen). card (link_id ` set links - seen))"
    by (simp add: psubset_card_mono)
qed simp

declare walk_height.simps [simp del]

definition subtreeHeight :: "TreeLink list \<Rightarrow> int \<Rightarrow> nat" where
  "subtreeHeight links rootId = walk_height links rootId {rootId}"

section \<open>What the derivations compute\<close>

lemma edges_functional:
  assumes "distinct (map link_id links)" and "(x, y) \<in> edges links" and "(x, z) \<in> edges links"
  shows "y = z"
  using parent_of_edge [OF assms(1), of x y] parent_of_edge [OF assms(1), of x z] assms(2,3) by simp

lemma closed_rtrancl:
  assumes "(x, y) \<in> r\<^sup>*" and "x \<in> A" and "\<And>u v. u \<in> A \<Longrightarrow> (u, v) \<in> r \<Longrightarrow> v \<in> A"
  shows "y \<in> A"
  using assms(1,2) by (induction rule: rtrancl_induct) (auto intro: assms(3))

lemma reach_step:
  assumes "distinct (map link_id links)"
  shows "{q. (c, q) \<in> (edges links)\<^sup>*} = insert c (case parent_of links c of None \<Rightarrow> {} | Some p \<Rightarrow> {q. (p, q) \<in> (edges links)\<^sup>*})"
proof (cases "parent_of links c")
  case None
  then have "\<And>y. (c, y) \<notin> edges links" using parent_of_edge [OF assms, of c] by simp
  then show ?thesis using None by (auto elim: converse_rtranclE)
next
  case (Some p)
  then have e: "(c, p) \<in> edges links" using parent_of_edge [OF assms] by simp
  have "q = c \<or> (p, q) \<in> (edges links)\<^sup>*" if "(c, q) \<in> (edges links)\<^sup>*" for q
    using that
  proof (cases rule: converse_rtranclE)
    case (step y)
    then show ?thesis using edges_functional [OF assms e, of y] by simp
  qed simp
  then show ?thesis using Some e by (auto intro: converse_rtrancl_into_rtrancl)
qed

lemma set_chain_from:
  assumes d: "distinct (map link_id links)"
    and "\<And>x y. x \<in> set path \<Longrightarrow> (x, y) \<in> edges links \<Longrightarrow> y \<in> set path \<or> current = Some y"
  shows "set (chain_from links current path) =
     set path \<union> (case current of None \<Rightarrow> {} | Some s \<Rightarrow> {q. (s, q) \<in> (edges links)\<^sup>*})"
  using assms
proof (induction links current path rule: chain_from.induct)
  case (1 links current path)
  show ?case
  proof (cases current)
    case None
    then show ?thesis by simp
  next
    case (Some c)
    show ?thesis
    proof (cases "c \<in> set path")
      case True
      have "q \<in> set path" if "(c, q) \<in> (edges links)\<^sup>*" for q
        using that True by (rule closed_rtrancl) (use "1.prems"(2) Some True in blast)
      then show ?thesis using Some True by (auto simp: chain_from_Some)
    next
      case False
      have next_step: "y \<in> set (path @ [c]) \<or> parent_of links c = Some y"
        if "x \<in> set (path @ [c])" "(x, y) \<in> edges links" for x y
        using that "1.prems"(2) [of x y] Some parent_of_edge [OF "1.prems"(1), of x y] by auto
      have "set (chain_from links current path) = set (chain_from links (parent_of links c) (path @ [c]))"
        using Some False by (simp add: chain_from_Some)
      also have "\<dots> = set (path @ [c]) \<union>
          (case parent_of links c of None \<Rightarrow> {} | Some s \<Rightarrow> {q. (s, q) \<in> (edges links)\<^sup>*})"
        by (rule "1.IH" [OF Some False "1.prems"(1)]) (rule next_step)
      also have "\<dots> = set path \<union> {q. (c, q) \<in> (edges links)\<^sup>*}"
        unfolding reach_step [OF "1.prems"(1), of c] by simp
      finally show ?thesis using Some by simp
    qed
  qed
qed

lemma distinct_chain_from: "distinct path \<Longrightarrow> distinct (chain_from links current path)"
proof (induction links current path rule: chain_from.induct)
  case (1 links current path)
  then show ?case by (cases current) (auto simp: chain_from_Some [of links _ path])
qed

lemma set_ancestorChainIds:
  assumes "distinct (map link_id links)"
  shows "set (ancestorChainIds links (Some s)) = {q. (s, q) \<in> (edges links)\<^sup>*}"
  using set_chain_from [OF assms, of "[]" "Some s"] by (simp add: ancestorChainIds_def)

lemma ancestorChainIds_None [simp]: "ancestorChainIds links None = []"
  by (simp add: ancestorChainIds_def)

lemma ancestorChainIds_Cons: "\<exists>rest. ancestorChainIds links (Some s) = s # rest"
proof -
  have "\<exists>rest. chain_from links current path = path @ rest" for links current path
  proof (induction links current path rule: chain_from.induct)
    case (1 links current path)
    then show ?case
      by (cases current) (auto simp: chain_from_Some [of links _ path])
  qed
  then obtain rest where "chain_from links (parent_of links s) [s] = [s] @ rest" by blast
  then show ?thesis by (simp add: ancestorChainIds_def chain_from_Some [of links s])
qed

text \<open>On data without cycles the chain is at least as long as every path upwards.\<close>

lemma length_chain_from:
  assumes d: "distinct (map link_id links)" and ac: "acyclic (edges links)"
    and "(s, q) \<in> edges links ^^ j" and "\<And>x. (s, x) \<in> (edges links)\<^sup>* \<Longrightarrow> x \<notin> set path"
  shows "length path + j + 1 \<le> length (chain_from links (Some s) path)"
  using assms(3,4)
proof (induction j arbitrary: s path)
  case 0
  have "s \<notin> set path" using "0.prems"(2) by blast
  moreover have "length path' \<le> length (chain_from links current path')" for current path'
  proof (induction links current path' rule: chain_from.induct)
    case (1 links current path)
    then show ?case
      by (cases current) (auto simp: chain_from_Some [of links _ path] dest: Suc_leD)
  qed
  then have "length (path @ [s]) \<le> length (chain_from links (parent_of links s) (path @ [s]))" .
  ultimately show ?case by (simp add: chain_from_Some [of links s])
next
  case (Suc j)
  then obtain p where e: "(s, p) \<in> edges links" and rest: "(p, q) \<in> edges links ^^ j"
    by (metis relpow_Suc_D2)
  have s: "s \<notin> set path" using Suc.prems(2) by blast
  have p: "parent_of links s = Some p" using parent_of_edge [OF d] e by blast
  have "x \<notin> set (path @ [s])" if "(p, x) \<in> (edges links)\<^sup>*" for x
  proof -
    have "(s, x) \<in> (edges links)\<^sup>+" using e that by (rule rtrancl_into_trancl2)
    then have "x \<noteq> s" using ac unfolding acyclic_def by blast
    then show ?thesis using Suc.prems(2) [of x] \<open>(s, x) \<in> (edges links)\<^sup>+\<close> by (simp add: trancl_into_rtrancl)
  qed
  from Suc.IH [OF rest this] show ?case
    using s p by (simp add: chain_from_Some [of links s])
qed

lemma length_ancestorChainIds:
  assumes "distinct (map link_id links)" and "acyclic (edges links)" and "(s, q) \<in> edges links ^^ j"
  shows "j + 1 \<le> length (ancestorChainIds links (Some s))"
  using length_chain_from [OF assms, of "[]"] by (simp add: ancestorChainIds_def)

lemma set_descend:
  assumes "\<And>x c. x \<in> seen \<Longrightarrow> (c, x) \<in> edges links \<Longrightarrow> c \<in> seen \<or> c \<in> set queue"
  shows "set (descend links queue seen found) =
     set found \<union> ({q. \<exists>s \<in> set queue. (q, s) \<in> (edges links)\<^sup>*} - seen)"
  using assms
proof (induction links queue seen found rule: descend.induct)
  case (1 links seen found)
  then show ?case by simp
next
  case (2 links i queue seen found)
  show ?case
  proof (cases "i \<in> seen")
    case True
    have "(q, i) \<in> (edges links)\<^sup>* \<Longrightarrow> q \<in> seen \<or> (\<exists>s \<in> set queue. (q, s) \<in> (edges links)\<^sup>*)" for q
    proof (induction rule: converse_rtrancl_induct)
      case base
      then show ?case using True by simp
    next
      case (step y z)
      then show ?case using "2.prems" [of z y] True by (auto intro: converse_rtrancl_into_rtrancl)
    qed
    moreover have "set (descend links queue seen found) =
        set found \<union> ({q. \<exists>s \<in> set queue. (q, s) \<in> (edges links)\<^sup>*} - seen)"
      using "2.IH"(1) [OF True] "2.prems" True by auto
    ultimately show ?thesis using True by auto
  next
    case False
    have step: "(q, i) \<in> (edges links)\<^sup>* \<longleftrightarrow> q = i \<or> (\<exists>c \<in> set (children_of links i). (q, c) \<in> (edges links)\<^sup>*)" for q
      by (auto simp: set_children_of elim: rtranclE intro: rtrancl_into_rtrancl)
    have "set (descend links (queue @ children_of links i) (insert i seen) (found @ [i])) =
        set (found @ [i]) \<union>
        ({q. \<exists>s \<in> set (queue @ children_of links i). (q, s) \<in> (edges links)\<^sup>*} - insert i seen)"
      by (rule "2.IH"(2) [OF False]) (use "2.prems" in \<open>auto simp: set_children_of\<close>)
    then show ?thesis using False step by auto
  qed
qed

text \<open>Every role below, however deep, and never the role itself.\<close>

lemma set_descendantIds:
  "set (descendantIds links r) = {q. (q, r) \<in> (edges links)\<^sup>+} - {r}"
proof -
  have "set (descendantIds links r) = {q. \<exists>s \<in> set (children_of links r). (q, s) \<in> (edges links)\<^sup>*} - {r}"
    unfolding descendantIds_def using set_descend [of "{r}" links "children_of links r" "[]"]
    by (simp add: set_children_of)
  then show ?thesis by (auto simp: set_children_of intro: rtrancl_into_trancl1 dest: tranclD2)
qed

lemma foldr_max_ge: "x \<in> set xs \<Longrightarrow> x \<le> foldr max xs (b :: nat)"
  by (induction xs) auto

lemma foldr_max_in: "foldr max xs (b :: nat) = b \<or> foldr max xs b \<in> set xs"
  by (induction xs) (auto simp: max_def)

text \<open>On data without cycles the height bounds every path that leads up to the role.\<close>

lemma walk_height_ge:
  assumes ac: "acyclic (edges links)" and "(x, r) \<in> edges links ^^ n"
    and "\<And>y. y \<in> seen \<Longrightarrow> (r, y) \<in> (edges links)\<^sup>*"
  shows "n \<le> walk_height links r seen"
  using assms(2,3)
proof (induction n arbitrary: r seen)
  case 0
  then show ?case by simp
next
  case (Suc n)
  then obtain c where c: "(x, c) \<in> edges links ^^ n" "(c, r) \<in> edges links" by auto
  let ?kids = "filter (\<lambda>c. c \<notin> seen) (children_of links r)"
  have "c \<notin> seen"
  proof
    assume "c \<in> seen"
    then have "(r, c) \<in> (edges links)\<^sup>*" by (rule Suc.prems(2))
    then have "(c, c) \<in> (edges links)\<^sup>+" using c(2) by (meson rtrancl_into_trancl2)
    then show False using ac by (simp add: acyclic_def)
  qed
  then have kid: "c \<in> set ?kids" using c(2) by (simp add: set_children_of)
  have up: "(c, y) \<in> (edges links)\<^sup>*" if "y \<in> insert c seen" for y
    using that Suc.prems(2) [of y] c(2) by (auto intro: converse_rtrancl_into_rtrancl)
  have "n \<le> walk_height links c (insert c seen)" using Suc.IH [OF c(1) up] .
  also have "\<dots> \<le> foldr max (map (\<lambda>c. walk_height links c (insert c seen)) ?kids) 0"
    using kid by (intro foldr_max_ge) auto
  finally show ?case
  proof (subst walk_height.simps, unfold Let_def)
    assume "n \<le> foldr max (map (\<lambda>c. walk_height links c (insert c seen)) ?kids) 0"
    moreover have "?kids \<noteq> []" using kid by (metis empty_iff empty_set)
    ultimately show "Suc n \<le> (if ?kids = [] then 0
        else 1 + foldr max (map (\<lambda>c. walk_height links c (insert c seen)) ?kids) 0)" by simp
  qed
qed

lemma subtreeHeight_ge:
  "acyclic (edges links) \<Longrightarrow> (x, r) \<in> edges links ^^ n \<Longrightarrow> n \<le> subtreeHeight links r"
  unfolding subtreeHeight_def by (rule walk_height_ge) auto

lemma walk_height_attained: "\<exists>x. (x, r) \<in> edges links ^^ walk_height links r seen"
proof (induction links r seen rule: walk_height.induct)
  case (1 links r seen)
  let ?kids = "filter (\<lambda>c. c \<notin> seen) (children_of links r)"
  show ?case
  proof (cases "?kids = []")
    case True
    then have "walk_height links r seen = 0" by (subst walk_height.simps) simp
    then show ?thesis by auto
  next
    case False
    let ?hs = "map (\<lambda>c. walk_height links c (insert c seen)) ?kids"
    have h: "walk_height links r seen = Suc (foldr max ?hs 0)"
      using False by (subst walk_height.simps) (simp add: Let_def)
    obtain k where k: "k \<in> set ?kids" using False by (cases ?kids) auto
    have "foldr max ?hs 0 \<in> set ?hs"
    proof (cases "foldr max ?hs 0 = 0")
      case True
      have "walk_height links k (insert k seen) \<in> set ?hs" using k by auto
      moreover from this have "walk_height links k (insert k seen) \<le> foldr max ?hs 0" by (rule foldr_max_ge)
      ultimately show ?thesis using True by simp
    next
      case False
      then show ?thesis using foldr_max_in [of ?hs 0] by simp
    qed
    then obtain c where c: "c \<in> set ?kids" "foldr max ?hs 0 = walk_height links c (insert c seen)" by auto
    obtain x where "(x, c) \<in> edges links ^^ walk_height links c (insert c seen)"
      using "1.IH" [OF refl False c(1)] by blast
    moreover have "(c, r) \<in> edges links" using c(1) by (simp add: set_children_of)
    ultimately show ?thesis unfolding h c(2) by auto
  qed
qed

end
