(* ===== verification/Org_Tree.thy ===== *)
theory Org_Tree
  imports Org_Queries
begin

text \<open>
  The assembly of the organigram from flat rows (\<^verbatim>\<open>buildOrganigramTree\<close> and \<^verbatim>\<open>getOrganigram\<close> of
  \<^verbatim>\<open>shared/domain/organigram.queries.ts\<close>), on data that may hold cycles: the traversal threads
  the set of visited roles, as the code's closure does, and its depth is bounded by the
  number of roles, which the lemmas below show to be enough.
\<close>

section \<open>Rows and nodes\<close>

record OrganigramRole =
  or_id :: int
  or_key :: string
  or_name :: "string option"
  or_isBuiltIn :: bool
  or_parentRoleId :: "int option"
  or_organigramOrder :: "int option"
  or_organigramNote :: "string option"
  or_isSinglePerson :: bool

record OrganigramHolder =
  oh_roleId :: int
  oh_memberId :: int
  oh_firstname :: "string option"
  oh_lastname :: "string option"
  oh_anonymizedAt :: "int option"
  oh_kind :: string
  oh_isElder :: bool

datatype OrganigramNode = OrganigramNode
  (on_id: int) (on_key: string) (on_name: string) (on_note: "string option") (on_isRoster: bool)
  (on_isSinglePerson: bool) (on_holders: "OrganigramHolder list") (on_children: "OrganigramNode list")

definition SEAT_RANK :: "string \<Rightarrow> int option" where
  "SEAT_RANK kind =
     (if kind = ''leader'' then Some 0 else if kind = ''deputy'' then Some 1
      else if kind = ''member'' then Some 2 else None)"

definition or_zero :: "int option \<Rightarrow> int" where
  "or_zero x = (case x of Some n \<Rightarrow> n | None \<Rightarrow> 0)"

definition or_empty :: "string option \<Rightarrow> string" where
  "or_empty x = (case x of Some s \<Rightarrow> s | None \<Rightarrow> [])"

definition seat_rank_or_9 :: "string \<Rightarrow> int" where
  "seat_rank_or_9 kind = (case SEAT_RANK kind of Some n \<Rightarrow> n | None \<Rightarrow> 9)"

definition compareHolders :: "i18n \<Rightarrow> OrganigramHolder \<Rightarrow> OrganigramHolder \<Rightarrow> int" where
  "compareHolders loc a b =
     (let rank = seat_rank_or_9 (oh_kind a) - seat_rank_or_9 (oh_kind b)
      in if rank \<noteq> 0 then rank else localeCompare loc (or_empty (oh_lastname a)) (or_empty (oh_lastname b)))"

definition compareRoles :: "i18n \<Rightarrow> OrganigramRole \<Rightarrow> OrganigramRole \<Rightarrow> int" where
  "compareRoles loc a b =
     (let order = or_zero (or_organigramOrder a) - or_zero (or_organigramOrder b)
      in if order \<noteq> 0 then order
         else localeCompare loc (getRoleDisplayName loc (or_key a) (or_name a)) (getRoleDisplayName loc (or_key b) (or_name b)))"

section \<open>The traversal\<close>

text \<open>\<^verbatim>\<open>xs.map(f)\<close> for an \<open>f\<close> with an effect on the set of visited ids.\<close>

primrec map_state :: "('a \<Rightarrow> 's \<Rightarrow> 'b \<times> 's) \<Rightarrow> 'a list \<Rightarrow> 's \<Rightarrow> 'b list \<times> 's" where
  "map_state f [] v = ([], v)"
| "map_state f (x # xs) v = (case f x v of (y, v') \<Rightarrow> (case map_state f xs v' of (ys, v'') \<Rightarrow> (y # ys, v'')))"

definition known_ids :: "OrganigramRole list \<Rightarrow> int set" where
  "known_ids rows = or_id ` set rows"

definition is_chart_root :: "OrganigramRole list \<Rightarrow> OrganigramRole \<Rightarrow> bool" where
  "is_chart_root rows r =
     (case or_parentRoleId r of None \<Rightarrow> True | Some p \<Rightarrow> p \<notin> known_ids rows)"

definition by_parent :: "OrganigramRole list \<Rightarrow> int \<Rightarrow> OrganigramRole list" where
  "by_parent rows i = filter (\<lambda>r. or_parentRoleId r = Some i \<and> i \<in> known_ids rows) rows"

definition make_node ::
  "i18n \<Rightarrow> OrganigramHolder list \<Rightarrow> OrganigramRole \<Rightarrow> OrganigramNode list \<Rightarrow> OrganigramNode" where
  "make_node loc holders r children =
     OrganigramNode (or_id r) (or_key r) (getRoleDisplayName loc (or_key r) (or_name r)) (or_organigramNote r)
       (or_key r \<in> set ORGANIGRAM_ROSTER_KEYS) (or_isSinglePerson r)
       (js_sort (compareHolders loc) (filter (\<lambda>h. oh_roleId h = or_id r) holders)) children"

primrec buildNode ::
  "nat \<Rightarrow> i18n \<Rightarrow> OrganigramRole list \<Rightarrow> OrganigramHolder list \<Rightarrow> OrganigramRole \<Rightarrow> int set \<Rightarrow> OrganigramNode \<times> int set" where
  "buildNode 0 loc rows holders r visited = (make_node loc holders r [], insert (or_id r) visited)"
| "buildNode (Suc fuel) loc rows holders r visited =
     (let visited' = insert (or_id r) visited;
          kids = js_sort (compareRoles loc) (filter (\<lambda>c. or_id c \<notin> visited') (by_parent rows (or_id r)))
      in case map_state (buildNode fuel loc rows holders) kids visited' of
           (children, visited'') \<Rightarrow> (make_node loc holders r children, visited''))"

text \<open>The last pass: whatever no root reaches becomes an extra root, in order.\<close>

primrec surface :: "(OrganigramRole \<Rightarrow> int set \<Rightarrow> OrganigramNode \<times> int set) \<Rightarrow> OrganigramRole list \<Rightarrow> int set \<Rightarrow> OrganigramNode list" where
  "surface build [] visited = []"
| "surface build (r # rs) visited =
     (if or_id r \<notin> visited then (case build r visited of (node, visited') \<Rightarrow> node # surface build rs visited')
      else surface build rs visited)"

definition buildOrganigramTree :: "i18n \<Rightarrow> OrganigramRole list \<Rightarrow> OrganigramHolder list \<Rightarrow> OrganigramNode list" where
  "buildOrganigramTree loc rows holders =
     (let build = buildNode (length rows) loc rows holders
      in case map_state build (js_sort (compareRoles loc) (filter (is_chart_root rows) rows)) {} of
           (tree, visited) \<Rightarrow> tree @ surface build (js_sort (compareRoles loc) rows) visited)"

section \<open>The query\<close>

definition chart_role :: "role \<Rightarrow> OrganigramRole" where
  "chart_role r = \<lparr>or_id = role_id r, or_key = role_key r, or_name = role_name r, or_isBuiltIn = role_isBuiltIn r,
     or_parentRoleId = role_parentRoleId r, or_organigramOrder = role_organigramOrder r,
     or_organigramNote = role_organigramNote r, or_isSinglePerson = role_isSinglePerson r\<rparr>"

text \<open>
  The seats of a person: the rows synced onto the member, then those of the linked account
  (a member has at most one account).
\<close>

definition member_seats :: "db \<Rightarrow> int list \<Rightarrow> member \<Rightarrow> (int \<times> string) list" where
  "member_seats db roleIds m =
     map (\<lambda>a. (mra_roleId a, ''member''))
       (filter (\<lambda>a. mra_memberId a = mem_id m \<and> mra_roleId a \<in> set roleIds) (memberRoleAssignments db)) @
     (case find (\<lambda>u. acc_memberId u = Some (mem_id m)) (userAccounts db) of
        None \<Rightarrow> []
      | Some account \<Rightarrow>
          map (\<lambda>a. (ura_roleId a, ura_kind a))
            (filter (\<lambda>a. ura_userId a = acc_id account \<and> ura_roleId a \<in> set roleIds) (userRoleAssignments db)))"

definition holders_of :: "db \<Rightarrow> int list \<Rightarrow> member \<Rightarrow> OrganigramHolder list" where
  "holders_of db roleIds m =
     map (\<lambda>(roleId, kind). \<lparr>oh_roleId = roleId, oh_memberId = mem_id m, oh_firstname = Some (mem_firstname m),
            oh_lastname = Some (mem_lastname m), oh_anonymizedAt = mem_anonymizedAt m, oh_kind = kind,
            oh_isElder = mem_isHelder m\<rparr>) (member_seats db roleIds m)"

definition getOrganigram :: "i18n \<Rightarrow> db \<Rightarrow> int \<Rightarrow> OrganigramNode list" where
  "getOrganigram loc db congregationId =
     (let chart = filter (\<lambda>r. role_congregationId r = congregationId \<and> role_showInOrganigram r) (roles db)
      in if length chart = 0 then []
         else
           (let roleIds = map role_id chart;
                people = filter (\<lambda>m. mem_congregationId m = congregationId \<and> mem_leftAt m = None \<and>
                           mem_anonymizedAt m = None \<and> member_seats db roleIds m \<noteq> []) (members db)
            in buildOrganigramTree loc (map chart_role chart) (concat (map (holders_of db roleIds) people))))"

section \<open>Every role is shown once\<close>

fun node_ids :: "OrganigramNode \<Rightarrow> int list" where
  "node_ids (OrganigramNode i k n nt ro sp hs children) = i # concat (map node_ids children)"

definition forest_ids :: "OrganigramNode list \<Rightarrow> int list" where
  "forest_ids ns = concat (map node_ids ns)"

lemma node_ids_make [simp]: "node_ids (make_node loc holders r children) = or_id r # forest_ids children"
  by (simp add: make_node_def forest_ids_def)

lemma forest_ids_simps [simp]:
  "forest_ids [] = []" "forest_ids (n # ns) = node_ids n @ forest_ids ns" "forest_ids (ms @ ns) = forest_ids ms @ forest_ids ns"
  by (simp_all add: forest_ids_def)

text \<open>Every id of a subtree but its root's belongs to a role whose parent is in the subtree.\<close>

definition hangs_together :: "OrganigramRole list \<Rightarrow> int set \<Rightarrow> int set \<Rightarrow> bool" where
  "hangs_together rows tops A \<longleftrightarrow>
     (\<forall>i \<in> A - tops. \<exists>r \<in> set rows. or_id r = i \<and> (\<exists>p. or_parentRoleId r = Some p \<and> p \<in> A))"

definition visits :: "OrganigramRole list \<Rightarrow> int set \<Rightarrow> int set \<Rightarrow> int list \<Rightarrow> int set \<Rightarrow> bool" where
  "visits rows tops v ids v' \<longleftrightarrow>
     v' = v \<union> set ids \<and> distinct ids \<and> set ids \<inter> v = {} \<and> tops \<subseteq> set ids \<and> set ids \<subseteq> known_ids rows \<and>
     hangs_together rows tops (set ids)"

lemma hangs_together_Un:
  "hangs_together rows A X \<Longrightarrow> hangs_together rows B Y \<Longrightarrow> hangs_together rows (A \<union> B) (X \<union> Y)"
  unfolding hangs_together_def by blast

text \<open>Building one sibling visits none of the others.\<close>

lemma siblings_stay_free:
  assumes d: "distinct (map or_id rows)" and ks: "set (k # ks) \<subseteq> set rows" "distinct (map or_id (k # ks))"
    and free: "or_id ` set (k # ks) \<inter> v = {}"
    and out: "\<And>j p. j \<in> set ks \<Longrightarrow> or_parentRoleId j = Some p \<Longrightarrow> p \<in> v \<or> p \<notin> known_ids rows"
    and head: "visits rows {or_id k} v (node_ids n) v1"
  shows "or_id ` set ks \<inter> v1 = {}"
proof -
  have "or_id j \<notin> set (node_ids n)" if j: "j \<in> set ks" for j
  proof
    assume "or_id j \<in> set (node_ids n)"
    moreover have "or_id j \<noteq> or_id k" using ks(2) imageI [OF j, of or_id] by auto
    ultimately obtain r p where r: "r \<in> set rows" "or_id r = or_id j" "or_parentRoleId r = Some p" "p \<in> set (node_ids n)"
      using head unfolding visits_def hangs_together_def by blast
    have "r = j" using d r(1,2) j ks(1) by (auto simp: distinct_map inj_on_def)
    then have "p \<in> v \<or> p \<notin> known_ids rows" using out [of j p] j r(3) by simp
    then show False using head r(4) by (auto simp: visits_def)
  qed
  then show ?thesis using head free by (auto simp: visits_def)
qed

lemma visits_map_state:
  assumes d: "distinct (map or_id rows)"
    and build: "\<And>r w n w'. r \<in> set rows \<Longrightarrow> or_id r \<notin> w \<Longrightarrow> f r w = (n, w') \<Longrightarrow> visits rows {or_id r} w (node_ids n) w'"
    and "set ks \<subseteq> set rows" and "distinct (map or_id ks)" and "or_id ` set ks \<inter> v = {}"
    and out: "\<And>k p. k \<in> set ks \<Longrightarrow> or_parentRoleId k = Some p \<Longrightarrow> p \<in> v \<or> p \<notin> known_ids rows"
    and "map_state f ks v = (ns, v')"
  shows "visits rows (or_id ` set ks) v (forest_ids ns) v'"
  using assms(3-7)
proof (induction ks arbitrary: v ns v')
  case Nil
  then show ?case by (simp add: visits_def hangs_together_def)
next
  case (Cons k ks)
  obtain n v1 where n: "f k v = (n, v1)" by fastforce
  obtain ms where ms: "map_state f ks v1 = (ms, v')" and ns: "ns = n # ms"
    using Cons.prems(5) n by (auto split: prod.splits)
  have head: "visits rows {or_id k} v (node_ids n) v1"
    using build [of k v n v1] Cons.prems(1,3) n by simp
  have free: "or_id ` set ks \<inter> v1 = {}"
    by (rule siblings_stay_free [OF d Cons.prems(1-3) _ head]) (use Cons.prems(4) in auto)
  have tail: "visits rows (or_id ` set ks) v1 (forest_ids ms) v'"
    by (rule Cons.IH [OF _ _ free _ ms]) (use Cons.prems head in \<open>auto simp: visits_def\<close>)
  have "hangs_together rows ({or_id k} \<union> or_id ` set ks) (set (node_ids n) \<union> set (forest_ids ms))"
    using head tail by (intro hangs_together_Un) (simp_all add: visits_def)
  then show ?case
    using head tail unfolding ns visits_def by auto
qed

lemma visits_buildNode:
  assumes d: "distinct (map or_id rows)"
  shows "r \<in> set rows \<Longrightarrow> or_id r \<notin> v \<Longrightarrow> buildNode fuel loc rows holders r v = (n, v') \<Longrightarrow>
     visits rows {or_id r} v (node_ids n) v'"
proof (induction fuel arbitrary: r v n v')
  case 0
  then show ?case by (auto simp: visits_def hangs_together_def known_ids_def)
next
  case (Suc fuel)
  let ?v1 = "insert (or_id r) v"
  let ?kids = "js_sort (compareRoles loc) (filter (\<lambda>c. or_id c \<notin> ?v1) (by_parent rows (or_id r)))"
  obtain ns where ms: "map_state (buildNode fuel loc rows holders) ?kids ?v1 = (ns, v')"
    and n: "n = make_node loc holders r ns"
    using Suc.prems(3) by (auto simp: Let_def split: prod.splits)
  have kids: "k \<in> set rows \<and> or_id k \<notin> ?v1 \<and> or_parentRoleId k = Some (or_id r)" if "k \<in> set ?kids" for k
    using that by (auto simp: by_parent_def)
  have "distinct (map or_id ?kids)"
    using d by (simp add: by_parent_def distinct_map_filter)
  then have all: "visits rows (or_id ` set ?kids) ?v1 (forest_ids ns) v'"
    using kids by (intro visits_map_state [OF d Suc.IH _ _ _ _ ms]) auto
  have "hangs_together rows {or_id r} (insert (or_id r) (set (forest_ids ns)))"
    unfolding hangs_together_def
  proof (intro ballI)
    fix i assume i: "i \<in> insert (or_id r) (set (forest_ids ns)) - {or_id r}"
    show "\<exists>x \<in> set rows. or_id x = i \<and> (\<exists>p. or_parentRoleId x = Some p \<and> p \<in> insert (or_id r) (set (forest_ids ns)))"
    proof (cases "i \<in> or_id ` set ?kids")
      case True
      then obtain k where "k \<in> set ?kids" "i = or_id k" by blast
      then show ?thesis using kids by blast
    next
      case False
      then show ?thesis using all i unfolding visits_def hangs_together_def by blast
    qed
  qed
  then show ?case
    using all Suc.prems(1,2) unfolding n visits_def by (auto simp: known_ids_def)
qed

lemma surface_ids:
  assumes d: "distinct (map or_id rows)" and "set rs \<subseteq> set rows"
    and build: "\<And>r w n w'. r \<in> set rows \<Longrightarrow> or_id r \<notin> w \<Longrightarrow> f r w = (n, w') \<Longrightarrow> visits rows {or_id r} w (node_ids n) w'"
  shows "distinct (forest_ids (surface f rs v)) \<and> set (forest_ids (surface f rs v)) \<inter> v = {} \<and>
     or_id ` set rs \<subseteq> v \<union> set (forest_ids (surface f rs v)) \<and> set (forest_ids (surface f rs v)) \<subseteq> known_ids rows"
  using assms(2)
proof (induction rs arbitrary: v)
  case Nil
  then show ?case by simp
next
  case (Cons r rs)
  show ?case
  proof (cases "or_id r \<in> v")
    case True
    then show ?thesis using Cons by simp
  next
    case False
    obtain n v1 where n: "f r v = (n, v1)" by fastforce
    have head: "visits rows {or_id r} v (node_ids n) v1" using build [OF _ False n] Cons.prems by simp
    have tail: "distinct (forest_ids (surface f rs v1)) \<and> set (forest_ids (surface f rs v1)) \<inter> v1 = {} \<and>
       or_id ` set rs \<subseteq> v1 \<union> set (forest_ids (surface f rs v1)) \<and> set (forest_ids (surface f rs v1)) \<subseteq> known_ids rows"
      using Cons by simp
    show ?thesis using False n head tail by (auto simp: visits_def)
  qed
qed

lemma chart_ids:
  assumes d: "distinct (map or_id rows)"
  shows "distinct (forest_ids (buildOrganigramTree loc rows holders)) \<and>
     set (forest_ids (buildOrganigramTree loc rows holders)) = or_id ` set rows"
proof -
  let ?f = "buildNode (length rows) loc rows holders"
  let ?tops = "js_sort (compareRoles loc) (filter (is_chart_root rows) rows)"
  obtain tree v where tree: "map_state ?f ?tops {} = (tree, v)" by fastforce
  have whole: "buildOrganigramTree loc rows holders = tree @ surface ?f (js_sort (compareRoles loc) rows) v"
    using tree by (simp add: buildOrganigramTree_def Let_def)
  have "visits rows (or_id ` set ?tops) {} (forest_ids tree) v"
    using d by (intro visits_map_state [OF d visits_buildNode [OF d] _ _ _ _ tree])
      (auto simp: is_chart_root_def distinct_map_filter)
  moreover have "distinct (forest_ids (surface ?f (js_sort (compareRoles loc) rows) v)) \<and>
      set (forest_ids (surface ?f (js_sort (compareRoles loc) rows) v)) \<inter> v = {} \<and>
      or_id ` set (js_sort (compareRoles loc) rows) \<subseteq> v \<union> set (forest_ids (surface ?f (js_sort (compareRoles loc) rows) v)) \<and>
      set (forest_ids (surface ?f (js_sort (compareRoles loc) rows) v)) \<subseteq> known_ids rows"
    by (rule surface_ids [OF d _ visits_buildNode [OF d]]) simp_all
  ultimately show ?thesis unfolding whole visits_def by (auto simp: known_ids_def)
qed

end
