(* ===== verification/Pioneer_Enrolment.thy ===== *)
theory Pioneer_Enrolment
  imports Database
begin

text \<open>
  Pioneer stints as periods of months (\<^verbatim>\<open>features/publishers/model/pioneer-enrolment.ts\<close>,
  \<^verbatim>\<open>pioneer-goals.constants.ts\<close>) and the calendar of the service year
  (\<^verbatim>\<open>features/publishers/model/pioneer-pace.ts\<close>): September to August, months from 0.
\<close>

section \<open>Months\<close>

record MonthRef =
  mr_month :: int
  mr_year :: int

definition FIRST_MONTH_OF_THEOCRATIC_YEAR :: int where
  "FIRST_MONTH_OF_THEOCRATIC_YEAR = 8"

definition MONTHS_IN_YEAR :: int where
  "MONTHS_IN_YEAR = 12"

definition absMonth :: "int \<Rightarrow> int \<Rightarrow> int" where
  "absMonth month year = year * MONTHS_IN_YEAR + month"

definition toServiceYear :: "int \<Rightarrow> int \<Rightarrow> int" where
  "toServiceYear month year = (if month \<ge> FIRST_MONTH_OF_THEOCRATIC_YEAR then year else year - 1)"

definition isEditableServiceYear :: "int \<Rightarrow> int \<Rightarrow> bool" where
  "isEditableServiceYear serviceYear currentServiceYear \<longleftrightarrow>
     serviceYear = currentServiceYear \<or> serviceYear = currentServiceYear + 1"

definition month_ref :: "int \<Rightarrow> MonthRef" where
  "month_ref a = \<lparr>mr_month = a mod MONTHS_IN_YEAR, mr_year = a div MONTHS_IN_YEAR\<rparr>"

definition serviceYearMonths :: "int \<Rightarrow> MonthRef list" where
  "serviceYearMonths serviceYear =
     map (\<lambda>i. month_ref (serviceYear * MONTHS_IN_YEAR + FIRST_MONTH_OF_THEOCRATIC_YEAR + i)) [0 .. MONTHS_IN_YEAR - 1]"

definition abs_ref :: "MonthRef \<Rightarrow> int" where
  "abs_ref m = absMonth (mr_month m) (mr_year m)"

lemma abs_month_ref [simp]: "abs_ref (month_ref a) = a"
  by (simp add: abs_ref_def month_ref_def absMonth_def MONTHS_IN_YEAR_def)

lemma abs_serviceYearMonths:
  "map abs_ref (serviceYearMonths sy) = [sy * 12 + 8 .. sy * 12 + 19]"
proof -
  have "map abs_ref (serviceYearMonths sy) = map (\<lambda>i. sy * 12 + 8 + i) [0 .. 11]"
    by (simp add: serviceYearMonths_def comp_def MONTHS_IN_YEAR_def FIRST_MONTH_OF_THEOCRATIC_YEAR_def)
  also have "\<dots> = [sy * 12 + 8 .. sy * 12 + 19]"
    by (simp add: upto.simps)
  finally show ?thesis .
qed

section \<open>Types of pioneers\<close>

definition DEFAULT_MONTHLY_GOALS :: "PublisherType \<Rightarrow> int" where
  "DEFAULT_MONTHLY_GOALS t =
     (case t of Normal \<Rightarrow> 0 | PionnierAuxiliaires \<Rightarrow> 30 | PionnierPermanant \<Rightarrow> 50
      | PionnierSpecial \<Rightarrow> 100 | Missionnaire \<Rightarrow> 100)"

definition PIONEER_TYPES :: "PublisherType list" where
  "PIONEER_TYPES = [PionnierPermanant, PionnierAuxiliaires, PionnierSpecial, Missionnaire]"

definition resolveDefaultGoal :: "PublisherType \<Rightarrow> int" where
  "resolveDefaultGoal t = DEFAULT_MONTHLY_GOALS t"

definition isPioneerType :: "PublisherType \<Rightarrow> bool" where
  "isPioneerType t \<longleftrightarrow> t \<noteq> Normal"

definition isAuxiliaryType :: "PublisherType \<Rightarrow> bool" where
  "isAuxiliaryType t \<longleftrightarrow> t = PionnierAuxiliaires"

section \<open>Stints\<close>

record EnrolmentPeriod =
  ep_type :: PublisherType
  ep_startMonth :: int
  ep_startYear :: int
  ep_endMonth :: "int option"
  ep_endYear :: "int option"
  ep_monthlyGoal :: "int option"

definition period_of :: "pioneer_enrolment \<Rightarrow> EnrolmentPeriod" where
  "period_of e = \<lparr>ep_type = pe_type e, ep_startMonth = pe_startMonth e, ep_startYear = pe_startYear e,
     ep_endMonth = pe_endMonth e, ep_endYear = pe_endYear e, ep_monthlyGoal = pe_monthlyGoal e\<rparr>"

definition isOngoing :: "EnrolmentPeriod \<Rightarrow> bool" where
  "isOngoing p \<longleftrightarrow> ep_endMonth p = None \<and> ep_endYear p = None"

definition isSingleMonth :: "EnrolmentPeriod \<Rightarrow> bool" where
  "isSingleMonth p \<longleftrightarrow>
     \<not> isOngoing p \<and> ep_endMonth p = Some (ep_startMonth p) \<and> ep_endYear p = Some (ep_startYear p)"

definition resolveEnrolmentGoal :: "EnrolmentPeriod \<Rightarrow> int \<Rightarrow> int" where
  "resolveEnrolmentGoal p fallbackRate =
     (case ep_monthlyGoal p of Some g \<Rightarrow> if g > 0 then g else fallbackRate | None \<Rightarrow> fallbackRate)"

text \<open>A missing component of the end counts as 0 in the arithmetic of \<^verbatim>\<open>null\<close>.\<close>

definition null_as_0 :: "int option \<Rightarrow> int" where
  "null_as_0 x = (case x of Some n \<Rightarrow> n | None \<Rightarrow> 0)"

definition coversMonth :: "EnrolmentPeriod \<Rightarrow> int \<Rightarrow> int \<Rightarrow> bool" where
  "coversMonth p month year =
     (let target = absMonth month year
      in if target < absMonth (ep_startMonth p) (ep_startYear p) then False
         else if isOngoing p then True
         else target \<le> absMonth (null_as_0 (ep_endMonth p)) (null_as_0 (ep_endYear p)))"

definition enrolledMonthsInServiceYear :: "EnrolmentPeriod \<Rightarrow> int \<Rightarrow> MonthRef list" where
  "enrolledMonthsInServiceYear p serviceYear =
     filter (\<lambda>m. coversMonth p (mr_month m) (mr_year m)) (serviceYearMonths serviceYear)"

definition standingTypeFromEnrolments :: "EnrolmentPeriod list \<Rightarrow> PublisherType" where
  "standingTypeFromEnrolments enrolments =
     (case find isOngoing enrolments of Some p \<Rightarrow> ep_type p | None \<Rightarrow> Normal)"

definition enrolmentForMonth :: "EnrolmentPeriod list \<Rightarrow> int \<Rightarrow> int \<Rightarrow> EnrolmentPeriod option" where
  "enrolmentForMonth enrolments month year = find (\<lambda>e. coversMonth e month year) enrolments"

text \<open>The months of a service year that a stint covers, as numbers.\<close>

lemma enrolled_months:
  "map abs_ref (enrolledMonthsInServiceYear p sy) =
     filter (\<lambda>a. absMonth (ep_startMonth p) (ep_startYear p) \<le> a \<and>
               (isOngoing p \<or> a \<le> absMonth (null_as_0 (ep_endMonth p)) (null_as_0 (ep_endYear p))))
       [sy * 12 + 8 .. sy * 12 + 19]"
proof -
  have "coversMonth p (mr_month m) (mr_year m) \<longleftrightarrow>
      absMonth (ep_startMonth p) (ep_startYear p) \<le> abs_ref m \<and>
      (isOngoing p \<or> abs_ref m \<le> absMonth (null_as_0 (ep_endMonth p)) (null_as_0 (ep_endYear p)))" for m
    by (auto simp: coversMonth_def abs_ref_def Let_def)
  then have "map abs_ref (filter (\<lambda>m. coversMonth p (mr_month m) (mr_year m)) ms) =
      filter (\<lambda>a. absMonth (ep_startMonth p) (ep_startYear p) \<le> a \<and>
               (isOngoing p \<or> a \<le> absMonth (null_as_0 (ep_endMonth p)) (null_as_0 (ep_endYear p)))) (map abs_ref ms)" for ms
    by (simp add: filter_map comp_def)
  then show ?thesis unfolding enrolledMonthsInServiceYear_def abs_serviceYearMonths [symmetric] by blast
qed

end
