(* ===== verification/Day_Offs.thy ===== *)
theory Day_Offs
  imports Programme_Tables
begin

text \<open>
  Absences and the conflict flags of the programme
  (\<^verbatim>\<open>features/events/server/days-off.server.ts\<close>, \<^verbatim>\<open>refresh-conflict-flags.server.ts\<close> and
  \<^verbatim>\<open>checkDayOffConflict\<close> of \<^verbatim>\<open>event-part-assignments.server.ts\<close>): every assignment row carries a
  flag that is kept up to date when the absences of a member change.
\<close>

section \<open>Absences\<close>

definition overlapping :: "event \<Rightarrow> int \<Rightarrow> int \<Rightarrow> bool" where
  "overlapping e startDate endDate \<longleftrightarrow> evt_startDate e \<le> endDate \<and> startDate \<le> evt_endDate e"

definition checkDayOffConflict :: "pdb \<Rightarrow> int \<Rightarrow> int \<Rightarrow> int \<Rightarrow> int \<Rightarrow> bool" where
  "checkDayOffConflict p memberId startDate endDate congregationId =
     list_ex (\<lambda>d. evt_congregationId d = congregationId \<and> creator_member p d = Some memberId \<and>
       has_template_key p TemplateKey_DayOff d \<and> overlapping d startDate endDate) (events p)"

definition getNextDaysOffs :: "int \<Rightarrow> int \<Rightarrow> int \<Rightarrow> pdb \<Rightarrow> event list" where
  "getNextDaysOffs userId congregationId now p =
     js_sort (\<lambda>a b. evt_startDate a - evt_startDate b) (filter (\<lambda>e. evt_congregationId e = congregationId \<and>
        evt_createdById e = userId \<and> has_template_key p TemplateKey_DayOff e \<and>
        ((evt_startDate e \<le> now \<and> now \<le> evt_endDate e) \<or> now \<le> evt_endDate e)) (events p))"

section \<open>Refreshing the flags\<close>

definition refreshed_events :: "pdb \<Rightarrow> int \<Rightarrow> int \<Rightarrow> int \<Rightarrow> event list" where
  "refreshed_events p startDate endDate congregationId =
     filter (\<lambda>e. evt_congregationId e = congregationId \<and> \<not> has_template_key p TemplateKey_DayOff e \<and>
       overlapping e startDate endDate) (events p)"

definition refreshed_parts :: "pdb \<Rightarrow> int list \<Rightarrow> int \<Rightarrow> int \<Rightarrow> event_part list" where
  "refreshed_parts p eventIds memberId congregationId =
     filter (\<lambda>a. epa_eventId a \<in> set eventIds \<and> epa_congregationId a = congregationId \<and>
       (epa_assigneeId a = Some memberId \<or> epa_assistantId a = Some memberId)) (eventParts p)"

definition refreshed_services :: "pdb \<Rightarrow> int list \<Rightarrow> int \<Rightarrow> int \<Rightarrow> event_service_part list" where
  "refreshed_services p eventIds memberId congregationId =
     filter (\<lambda>a. esp_eventId a \<in> set eventIds \<and> esp_assigneeId a = Some memberId \<and>
       esp_congregationId a = congregationId) (eventServiceParts p)"

definition option_list :: "'a option \<Rightarrow> 'a list" where
  "option_list x = (case x of None \<Rightarrow> [] | Some a \<Rightarrow> [a])"

definition participant_ids :: "event_part list \<Rightarrow> event_service_part list \<Rightarrow> int list" where
  "participant_ids parts services =
     js_set (concat (map (\<lambda>a. option_list (epa_assigneeId a) @ option_list (epa_assistantId a)) parts) @
       concat (map (\<lambda>a. option_list (esp_assigneeId a)) services))"

text \<open>The absences of the participants within the widest span of the matched events.\<close>

definition absences_in_window :: "pdb \<Rightarrow> int list \<Rightarrow> int \<Rightarrow> int \<Rightarrow> int \<Rightarrow> event list" where
  "absences_in_window p participants windowStart windowEnd congregationId =
     (if participants = [] then []
      else filter (\<lambda>d. evt_congregationId d = congregationId \<and> has_template_key p TemplateKey_DayOff d \<and>
             (case creator_member p d of None \<Rightarrow> False | Some m \<Rightarrow> m \<in> set participants) \<and>
             overlapping d windowStart windowEnd) (events p))"

type_synonym absence_ranges = "int \<Rightarrow> (int \<times> int) list option"

definition add_range :: "pdb \<Rightarrow> event \<Rightarrow> absence_ranges \<Rightarrow> absence_ranges" where
  "add_range p d ranges =
     (case creator_member p d of
        None \<Rightarrow> ranges
      | Some m \<Rightarrow> ranges(m \<mapsto> (case ranges m of None \<Rightarrow> [] | Some rs \<Rightarrow> rs) @ [(evt_startDate d, evt_endDate d)]))"

definition isAbsent :: "absence_ranges \<Rightarrow> event list \<Rightarrow> int option \<Rightarrow> int \<Rightarrow> bool" where
  "isAbsent ranges matched participantId eventId =
     (case participantId of
        None \<Rightarrow> False
      | Some m \<Rightarrow>
          (case ranges m of
             None \<Rightarrow> False
           | Some rs \<Rightarrow>
               (case find (\<lambda>e. evt_id e = eventId) (rev matched) of
                  None \<Rightarrow> False
                | Some e \<Rightarrow> list_ex (\<lambda>r. fst r \<le> evt_endDate e \<and> evt_startDate e \<le> snd r) rs)))"

text \<open>The four bulk updates: the rows found in conflict are flagged, the others cleared.\<close>

definition flag_parts :: "int list \<Rightarrow> int \<Rightarrow> bool \<Rightarrow> pdb \<Rightarrow> pdb" where
  "flag_parts ids congregationId flag p =
     (if ids = [] then p
      else p\<lparr>eventParts := update_where (\<lambda>a. epa_id a \<in> set ids \<and> epa_congregationId a = congregationId)
        (\<lambda>a. a\<lparr>epa_hasConflict := flag\<rparr>) (eventParts p)\<rparr>)"

definition flag_services :: "int list \<Rightarrow> int \<Rightarrow> bool \<Rightarrow> pdb \<Rightarrow> pdb" where
  "flag_services ids congregationId flag p =
     (if ids = [] then p
      else p\<lparr>eventServiceParts := update_where (\<lambda>a. esp_id a \<in> set ids \<and> esp_congregationId a = congregationId)
        (\<lambda>a. a\<lparr>esp_hasConflict := flag\<rparr>) (eventServiceParts p)\<rparr>)"

definition conflict_ranges ::
  "pdb \<Rightarrow> event list \<Rightarrow> event_part list \<Rightarrow> event_service_part list \<Rightarrow> int \<Rightarrow> int \<Rightarrow> int \<Rightarrow> absence_ranges" where
  "conflict_ranges p matched parts services startDate endDate congregationId =
     (let windowStart = fold (\<lambda>e m. if evt_startDate e < m then evt_startDate e else m) matched startDate;
          windowEnd = fold (\<lambda>e m. if evt_endDate e > m then evt_endDate e else m) matched endDate
      in fold (add_range p) (absences_in_window p (participant_ids parts services) windowStart windowEnd congregationId) (\<lambda>_. None))"

definition part_in_conflict :: "absence_ranges \<Rightarrow> event list \<Rightarrow> event_part \<Rightarrow> bool" where
  "part_in_conflict ranges matched a \<longleftrightarrow>
     isAbsent ranges matched (epa_assigneeId a) (epa_eventId a) \<or> isAbsent ranges matched (epa_assistantId a) (epa_eventId a)"

definition service_in_conflict :: "absence_ranges \<Rightarrow> event list \<Rightarrow> event_service_part \<Rightarrow> bool" where
  "service_in_conflict ranges matched a = isAbsent ranges matched (esp_assigneeId a) (esp_eventId a)"

definition refreshConflictFlags :: "int \<Rightarrow> int \<Rightarrow> int \<Rightarrow> int \<Rightarrow> pdb \<Rightarrow> pdb" where
  "refreshConflictFlags memberId startDate endDate congregationId p =
     (let matched = refreshed_events p startDate endDate congregationId
      in if matched = [] then p
         else
           (let eventIds = map evt_id matched;
                parts = refreshed_parts p eventIds memberId congregationId;
                services = refreshed_services p eventIds memberId congregationId
            in if parts = [] \<and> services = [] then p
               else
                 (let ranges = conflict_ranges p matched parts services startDate endDate congregationId
                  in flag_services (map esp_id (filter (\<lambda>a. \<not> service_in_conflict ranges matched a) services)) congregationId False
                       (flag_services (map esp_id (filter (service_in_conflict ranges matched) services)) congregationId True
                         (flag_parts (map epa_id (filter (\<lambda>a. \<not> part_in_conflict ranges matched a) parts)) congregationId False
                           (flag_parts (map epa_id (filter (part_in_conflict ranges matched) parts)) congregationId True p))))))"

section \<open>Declaring and removing an absence\<close>

text \<open>
  The name of the row is a message of the catalogue. An absence that ends before it starts, or
  without both dates, is refused with \<^verbatim>\<open>null\<close>.
\<close>

definition createDayOff ::
  "row_keys \<Rightarrow> string \<Rightarrow> int \<Rightarrow> int option \<Rightarrow> int option \<Rightarrow> int option \<Rightarrow> int \<Rightarrow> pdb \<Rightarrow> (pdb, event option) outcome" where
  "createDayOff k dayOffName accountId memberId startDate endDate congregationId p =
     (case (startDate, endDate) of
        (Some s, Some t) \<Rightarrow>
          (if s > t then (Inr None, p)
           else
             (case find (\<lambda>tpl. tpl_key tpl = TemplateKey_DayOff \<and> tpl_congregationId tpl = congregationId) (eventTemplates p) of
                None \<Rightarrow> (Inl (NotFoundError ''Day-off template'' None), p)
              | Some tpl \<Rightarrow>
                  (let e = \<lparr>evt_id = key_event k (events p), evt_name = dayOffName, evt_startDate = s, evt_endDate = t,
                            evt_status = EventStatus_Released, evt_templateId = Some (tpl_id tpl),
                            evt_createdById = accountId, evt_congregationId = congregationId\<rparr>;
                       q = p\<lparr>events := events p @ [e]\<rparr>
                   in (Inr (Some e),
                       (case memberId of None \<Rightarrow> q | Some m \<Rightarrow> refreshConflictFlags m s t congregationId q)))))
      | _ \<Rightarrow> (Inr None, p))"

text \<open>Deleting an event takes its assignments and their allowed roles with it.\<close>

definition remove_event_rows :: "(event \<Rightarrow> bool) \<Rightarrow> pdb \<Rightarrow> pdb" where
  "remove_event_rows gone p =
     (let ids = evt_id ` set (filter gone (events p));
          parts = epa_id ` set (filter (\<lambda>a. epa_eventId a \<in> ids) (eventParts p));
          services = esp_id ` set (filter (\<lambda>a. esp_eventId a \<in> ids) (eventServiceParts p))
      in p\<lparr>events := delete_where gone (events p),
          eventParts := delete_where (\<lambda>a. epa_eventId a \<in> ids) (eventParts p),
          eventServiceParts := delete_where (\<lambda>a. esp_eventId a \<in> ids) (eventServiceParts p),
          eventPartAllowedRoles := delete_where (\<lambda>r. al_ownerId r \<in> parts) (eventPartAllowedRoles p),
          eventServicePartAllowedRoles := delete_where (\<lambda>r. al_ownerId r \<in> services) (eventServicePartAllowedRoles p)\<rparr>)"

definition deleteDayOff :: "int \<Rightarrow> int option \<Rightarrow> int \<Rightarrow> pdb \<Rightarrow> (pdb, event) outcome" where
  "deleteDayOff eventId memberId congregationId p =
     (case find (is_event eventId congregationId) (events p) of
        None \<Rightarrow> (Inl (DatabaseError RecordNotFound), p)
      | Some e \<Rightarrow>
          (let q = remove_event_rows (is_event eventId congregationId) p
           in (Inr e,
               (case memberId of
                  None \<Rightarrow> q | Some m \<Rightarrow> refreshConflictFlags m (evt_startDate e) (evt_endDate e) congregationId q))))"

end
