(* ===== verification/Assignments.thy ===== *)
theory Assignments
  imports Day_Offs Allowed_Roles
begin

text \<open>
  Assigning the parts and the service parts of an event
  (\<^verbatim>\<open>features/events/server/event-part-assignments.server.ts\<close>) under the rules of
  \<^verbatim>\<open>event-part.policy.ts\<close>. A refusal is a value, \<^verbatim>\<open>{ error }\<close>, named by its key in
  \<^verbatim>\<open>PROGRAMME_ASSIGNMENT_ERRORS\<close>; the row lock of the writers is the transaction itself.
\<close>

section \<open>The rules\<close>

datatype ProgrammeRole = Speaker | Reader | Servant

type_synonym rejection = string

definition areParticipantsDistinct :: "int option \<Rightarrow> int option \<Rightarrow> bool" where
  "areParticipantsDistinct assigneeId assistantId =
     (case (assigneeId, assistantId) of (Some a, Some b) \<Rightarrow> a \<noteq> b | _ \<Rightarrow> True)"

definition assertDistinctParticipants :: "int option \<Rightarrow> int option \<Rightarrow> app_error option" where
  "assertDistinctParticipants assigneeId assistantId =
     (if \<not> areParticipantsDistinct assigneeId assistantId then Some (ConflictError ''participantsNotDistinct'') else None)"

definition checkExternalSpeakerValid :: "external_speaker option \<Rightarrow> rejection option" where
  "checkExternalSpeakerValid speaker =
     (case speaker of None \<Rightarrow> Some ''externalSpeakerInvalid''
      | Some s \<Rightarrow> if xs_archivedAt s \<noteq> None then Some ''externalSpeakerInvalid'' else None)"

definition checkParticipantsDistinct :: "int option \<Rightarrow> int option \<Rightarrow> rejection option" where
  "checkParticipantsDistinct assigneeId assistantId =
     (if \<not> areParticipantsDistinct assigneeId assistantId then Some ''participantsNotDistinct'' else None)"

definition INELIGIBLE_MESSAGE :: "ProgrammeRole \<Rightarrow> rejection" where
  "INELIGIBLE_MESSAGE r = (case r of Speaker \<Rightarrow> ''ineligibleSpeaker'' | Reader \<Rightarrow> ''ineligibleReader'' | Servant \<Rightarrow> ''ineligibleServant'')"

definition DAY_OFF_MESSAGE :: "ProgrammeRole \<Rightarrow> rejection" where
  "DAY_OFF_MESSAGE r = (case r of Speaker \<Rightarrow> ''dayOffSpeaker'' | Reader \<Rightarrow> ''dayOffReader'' | Servant \<Rightarrow> ''dayOffServant'')"

definition checkEligibleForRole :: "int list \<Rightarrow> int \<Rightarrow> ProgrammeRole \<Rightarrow> rejection option" where
  "checkEligibleForRole eligibleUserIds assigneeId roleKind =
     (if assigneeId \<in> set eligibleUserIds then None else Some (INELIGIBLE_MESSAGE roleKind))"

definition slot_name :: "ProgrammeRole \<Rightarrow> string" where
  "slot_name r = (case r of Speaker \<Rightarrow> ''speaker'' | Reader \<Rightarrow> ''reader'' | Servant \<Rightarrow> [])"

text \<open>Soft hyphens are the only code points of Latin-1 that \<^verbatim>\<open>sanitizeText\<close> strips.\<close>

definition sanitizeText :: "string \<Rightarrow> string" where
  "sanitizeText input = filter (\<lambda>c. code c \<noteq> 173) input"

section \<open>Reading a programme\<close>

definition nulls_last :: "int option \<Rightarrow> int option \<Rightarrow> int" where
  "nulls_last a b = (case (a, b) of (None, None) \<Rightarrow> 0 | (None, Some _) \<Rightarrow> 1 | (Some _, None) \<Rightarrow> - 1 | (Some x, Some y) \<Rightarrow> x - y)"

definition by_programme_order :: "event_part \<Rightarrow> event_part \<Rightarrow> int" where
  "by_programme_order a b =
     (if epa_order a \<noteq> epa_order b then epa_order a - epa_order b else nulls_last (epa_trackOrder a) (epa_trackOrder b))"

text \<open>The collation of the database orders the names of the service parts.\<close>

definition getEventProgramme ::
  "(string \<Rightarrow> string \<Rightarrow> int) \<Rightarrow> int \<Rightarrow> int \<Rightarrow> pdb \<Rightarrow> (event \<times> event_part list \<times> event_service_part list) option" where
  "getEventProgramme collate eventId congregationId p =
     map_option (\<lambda>e. (e, js_sort by_programme_order (filter (\<lambda>a. epa_eventId a = eventId) (eventParts p)),
         js_sort (\<lambda>a b. collate (esp_name a) (esp_name b)) (filter (\<lambda>a. esp_eventId a = eventId) (eventServiceParts p))))
       (find (is_event eventId congregationId) (events p))"

section \<open>Writing an assignment\<close>

text \<open>The check of one participant: a refusal, or whether the row is to be flagged.\<close>

definition checkPartParticipant ::
  "pdb \<Rightarrow> int \<Rightarrow> int option \<Rightarrow> ProgrammeRole \<Rightarrow> event \<Rightarrow> int \<Rightarrow> bool \<Rightarrow> rejection + bool" where
  "checkPartParticipant p assignmentId participantId roleKind e congregationId isReleased =
     (case participantId of
        None \<Rightarrow> Inr False
      | Some m \<Rightarrow>
          (let allowed = getPartAssignmentAllowedRoleIds p assignmentId (slot_name roleKind) congregationId;
               eligible = resolveEligibleUserIds p allowed congregationId
           in case checkEligibleForRole eligible m roleKind of
                Some r \<Rightarrow> Inl r
              | None \<Rightarrow>
                  if checkDayOffConflict p m (evt_startDate e) (evt_endDate e) congregationId
                  then (if isReleased then Inl (DAY_OFF_MESSAGE roleKind) else Inr True)
                  else Inr False))"

definition write_part :: "int \<Rightarrow> int \<Rightarrow> (event_part \<Rightarrow> event_part) \<Rightarrow> pdb \<Rightarrow> pdb" where
  "write_part i congregationId f p = p\<lparr>eventParts := update_where (is_part i congregationId) f (eventParts p)\<rparr>"

definition write_service :: "int \<Rightarrow> int \<Rightarrow> (event_service_part \<Rightarrow> event_service_part) \<Rightarrow> pdb \<Rightarrow> pdb" where
  "write_service i congregationId f p = p\<lparr>eventServiceParts := update_where (is_service i congregationId) f (eventServiceParts p)\<rparr>"

record PartAssigned =
  pas_assignment :: event_part
  pas_previousAssigneeId :: "int option"
  pas_previousAssistantId :: "int option"

definition save_part ::
  "event_part \<Rightarrow> int \<Rightarrow> int \<Rightarrow> (event_part \<Rightarrow> event_part) \<Rightarrow> pdb \<Rightarrow> (rejection + PartAssigned) \<times> pdb" where
  "save_part existing i congregationId f p =
     (Inr \<lparr>pas_assignment = f existing, pas_previousAssigneeId = epa_assigneeId existing,
           pas_previousAssistantId = epa_assistantId existing\<rparr>, write_part i congregationId f p)"

definition external_part :: "int \<Rightarrow> string \<Rightarrow> int option \<Rightarrow> event_part \<Rightarrow> event_part" where
  "external_part speakerId topic durationMin a =
     a\<lparr>epa_assigneeId := None, epa_assistantId := None, epa_externalSpeakerId := Some speakerId,
       epa_topic := topic, epa_hasConflict := False, epa_durationMin := durationMin\<rparr>"

definition assigned_part :: "int option \<Rightarrow> int option \<Rightarrow> string \<Rightarrow> bool \<Rightarrow> int option \<Rightarrow> event_part \<Rightarrow> event_part" where
  "assigned_part assigneeId assistantId topic hasConflict durationMin a =
     a\<lparr>epa_assigneeId := assigneeId, epa_assistantId := assistantId, epa_externalSpeakerId := None,
       epa_topic := topic, epa_hasConflict := hasConflict, epa_durationMin := durationMin\<rparr>"

text \<open>An assignment without its event cannot exist: the foreign key holds.\<close>

definition assignPart ::
  "int \<Rightarrow> int option \<Rightarrow> int option \<Rightarrow> int option \<Rightarrow> string \<Rightarrow> int \<Rightarrow> int option \<Rightarrow> pdb \<Rightarrow> (rejection + PartAssigned) \<times> pdb" where
  "assignPart assignmentId assigneeId assistantId externalSpeakerId topic congregationId durationMin p =
     (case find (is_part assignmentId congregationId) (eventParts p) of
        None \<Rightarrow> (Inl ''assignmentNotFound'', p)
      | Some existing \<Rightarrow>
          (case event_with p (epa_eventId existing) of
             None \<Rightarrow> (Inl ''assignmentNotFound'', p)
           | Some e \<Rightarrow>
               (case externalSpeakerId of
                  Some s \<Rightarrow>
                    (case checkExternalSpeakerValid (find (\<lambda>x. xs_id x = s \<and> xs_congregationId x = congregationId \<and>
                            xs_archivedAt x = None) (externalSpeakers p)) of
                       Some r \<Rightarrow> (Inl r, p)
                     | None \<Rightarrow> save_part existing assignmentId congregationId (external_part s (sanitizeText topic) durationMin) p)
                | None \<Rightarrow>
                    (case checkParticipantsDistinct assigneeId assistantId of
                       Some r \<Rightarrow> (Inl r, p)
                     | None \<Rightarrow>
                         (let isReleased = (evt_status e = EventStatus_Released)
                          in case checkPartParticipant p assignmentId assigneeId Speaker e congregationId isReleased of
                               Inl r \<Rightarrow> (Inl r, p)
                             | Inr speakerConflict \<Rightarrow>
                                 (case checkPartParticipant p assignmentId assistantId Reader e congregationId isReleased of
                                    Inl r \<Rightarrow> (Inl r, p)
                                  | Inr readerConflict \<Rightarrow>
                                      save_part existing assignmentId congregationId
                                        (assigned_part assigneeId assistantId (sanitizeText topic)
                                          (speakerConflict \<or> readerConflict) durationMin) p))))))"

record ServiceAssigned =
  sas_assignment :: event_service_part
  sas_previousAssigneeId :: "int option"

definition assigned_service :: "int option \<Rightarrow> bool \<Rightarrow> event_service_part \<Rightarrow> event_service_part" where
  "assigned_service assigneeId hasConflict a = a\<lparr>esp_assigneeId := assigneeId, esp_hasConflict := hasConflict\<rparr>"

definition save_service ::
  "event_service_part \<Rightarrow> int \<Rightarrow> int \<Rightarrow> (event_service_part \<Rightarrow> event_service_part) \<Rightarrow> pdb \<Rightarrow> (rejection + ServiceAssigned) \<times> pdb" where
  "save_service existing i congregationId f p =
     (Inr \<lparr>sas_assignment = f existing, sas_previousAssigneeId = esp_assigneeId existing\<rparr>, write_service i congregationId f p)"

definition checkServant :: "pdb \<Rightarrow> int \<Rightarrow> int option \<Rightarrow> event \<Rightarrow> int \<Rightarrow> bool \<Rightarrow> rejection + bool" where
  "checkServant p assignmentId assigneeId e congregationId isReleased =
     (case assigneeId of
        None \<Rightarrow> Inr False
      | Some m \<Rightarrow>
          (case checkEligibleForRole (resolveEligibleUserIds p
                  (getServicePartAssignmentAllowedRoleIds p assignmentId congregationId) congregationId) m Servant of
             Some r \<Rightarrow> Inl r
           | None \<Rightarrow>
               if checkDayOffConflict p m (evt_startDate e) (evt_endDate e) congregationId
               then (if isReleased then Inl (DAY_OFF_MESSAGE Servant) else Inr True)
               else Inr False))"

definition assignServicePart ::
  "int \<Rightarrow> int option \<Rightarrow> int \<Rightarrow> pdb \<Rightarrow> (rejection + ServiceAssigned) \<times> pdb" where
  "assignServicePart assignmentId assigneeId congregationId p =
     (case find (is_service assignmentId congregationId) (eventServiceParts p) of
        None \<Rightarrow> (Inl ''assignmentNotFound'', p)
      | Some existing \<Rightarrow>
          (case event_with p (esp_eventId existing) of
             None \<Rightarrow> (Inl ''assignmentNotFound'', p)
           | Some e \<Rightarrow>
               (case checkServant p assignmentId assigneeId e congregationId (evt_status e = EventStatus_Released) of
                  Inl r \<Rightarrow> (Inl r, p)
                | Inr hasConflict \<Rightarrow>
                    save_service existing assignmentId congregationId (assigned_service assigneeId hasConflict) p)))"

definition cleared_part :: "event_part \<Rightarrow> event_part" where
  "cleared_part a = a\<lparr>epa_assigneeId := None, epa_assistantId := None, epa_externalSpeakerId := None, epa_hasConflict := False\<rparr>"

definition unassignPart :: "int \<Rightarrow> int \<Rightarrow> pdb \<Rightarrow> PartAssigned option \<times> pdb" where
  "unassignPart assignmentId congregationId p =
     (case find (is_part assignmentId congregationId) (eventParts p) of
        None \<Rightarrow> (None, p)
      | Some existing \<Rightarrow>
          (Some \<lparr>pas_assignment = cleared_part existing, pas_previousAssigneeId = epa_assigneeId existing,
                 pas_previousAssistantId = epa_assistantId existing\<rparr>, write_part assignmentId congregationId cleared_part p))"

definition unassignServicePart :: "int \<Rightarrow> int \<Rightarrow> pdb \<Rightarrow> ServiceAssigned option \<times> pdb" where
  "unassignServicePart assignmentId congregationId p =
     (case find (is_service assignmentId congregationId) (eventServiceParts p) of
        None \<Rightarrow> (None, p)
      | Some existing \<Rightarrow>
          (Some \<lparr>sas_assignment = assigned_service None False existing, sas_previousAssigneeId = esp_assigneeId existing\<rparr>,
           write_service assignmentId congregationId (assigned_service None False) p))"

end
