(* ===== verification/Release.thy ===== *)
theory Release
  imports Assignments Notifications
begin

text \<open>
  Publishing an event (\<^verbatim>\<open>features/events/server/event-status.server.ts\<close>,
  \<^verbatim>\<open>event-status.policy.ts\<close>, \<^verbatim>\<open>event-status-bulk.server.ts\<close>) and telling the people assigned
  (\<^verbatim>\<open>notify-assignment.server.ts\<close>). The date in words and the link to the board are arguments,
  as is the failure of a transaction.
\<close>

section \<open>Telling one person\<close>

definition role_name_of :: "ProgrammeRole \<Rightarrow> string" where
  "role_name_of r = (case r of Speaker \<Rightarrow> ''speaker'' | Reader \<Rightarrow> ''reader'' | Servant \<Rightarrow> ''servant'')"

record AssignmentNotificationContext =
  anc_eventId :: int
  anc_eventName :: string
  anc_startDate :: int
  anc_templateId :: "int option"
  anc_status :: string
  anc_assignmentName :: string
  anc_entityType :: string
  anc_entityId :: int
  anc_congregationId :: int
  anc_actorId :: int

definition buildAssignmentContext ::
  "event \<Rightarrow> string \<Rightarrow> string option \<Rightarrow> string \<Rightarrow> int \<Rightarrow> int \<Rightarrow> int \<Rightarrow> AssignmentNotificationContext" where
  "buildAssignmentContext e status assignmentName entityType entityId congregationId actorId =
     \<lparr>anc_eventId = evt_id e, anc_eventName = evt_name e, anc_startDate = evt_startDate e,
      anc_templateId = evt_templateId e, anc_status = status,
      anc_assignmentName = (case assignmentName of None \<Rightarrow> [] | Some n \<Rightarrow> n), anc_entityType = entityType,
      anc_entityId = entityId, anc_congregationId = congregationId, anc_actorId = actorId\<rparr>"

record outside =
  out_keys :: row_keys
  out_date :: "int \<Rightarrow> string"
  out_link :: "pdb \<Rightarrow> int \<Rightarrow> int option \<Rightarrow> int \<Rightarrow> string"

definition recipient_account :: "pdb \<Rightarrow> int \<Rightarrow> int \<Rightarrow> user_account option" where
  "recipient_account p memberId congregationId =
     find (\<lambda>u. acc_memberId u = Some memberId \<and> acc_congregationId u = congregationId \<and>
       notificationRecipientFilter (core p) u) (userAccounts (core p))"

definition assignment_params :: "outside \<Rightarrow> AssignmentNotificationContext \<Rightarrow> string \<Rightarrow> ProgrammeRole \<Rightarrow> int \<Rightarrow> pdb \<Rightarrow> NotifyParams" where
  "assignment_params w ctx t role accountId p =
     \<lparr>nt_type = t, nt_entityType = anc_entityType ctx, nt_entityId = anc_entityId ctx,
      nt_congregationId = anc_congregationId ctx, nt_recipientId = Some accountId, nt_recipientRole = None,
      nt_actorId = Some (anc_actorId ctx),
      nt_payload = [(''eventId'', JNum (anc_eventId ctx)), (''eventName'', JStr (anc_eventName ctx)),
        (''eventDate'', JStr (out_date w (anc_startDate ctx))), (''assignmentName'', JStr (anc_assignmentName ctx)),
        (''role'', JStr (role_name_of role)),
        (''link'', JStr (out_link w p (anc_eventId ctx) (anc_templateId ctx) (anc_congregationId ctx)))]\<rparr>"

definition notifyAssignment :: "outside \<Rightarrow> int \<Rightarrow> AssignmentNotificationContext \<Rightarrow> string \<Rightarrow> int \<Rightarrow> ProgrammeRole \<Rightarrow> pdb \<Rightarrow> pdb" where
  "notifyAssignment w now ctx t memberId role p =
     (case recipient_account p memberId (anc_congregationId ctx) of
        None \<Rightarrow> p
      | Some u \<Rightarrow> notify (out_keys w) now (assignment_params w ctx t role (acc_id u) p) p)"

section \<open>Telling the difference\<close>

record AssignmentDiff =
  ad_role :: ProgrammeRole
  ad_previousMemberId :: "int option"
  ad_newMemberId :: "int option"

definition partAssignmentDiffs :: "int option \<Rightarrow> int option \<Rightarrow> int option \<Rightarrow> int option \<Rightarrow> AssignmentDiff list" where
  "partAssignmentDiffs previousAssigneeId previousAssistantId assigneeId assistantId =
     [\<lparr>ad_role = Speaker, ad_previousMemberId = previousAssigneeId, ad_newMemberId = assigneeId\<rparr>,
      \<lparr>ad_role = Reader, ad_previousMemberId = previousAssistantId, ad_newMemberId = assistantId\<rparr>]"

definition servicePartAssignmentDiffs :: "int option \<Rightarrow> int option \<Rightarrow> AssignmentDiff list" where
  "servicePartAssignmentDiffs previousAssigneeId assigneeId =
     [\<lparr>ad_role = Servant, ad_previousMemberId = previousAssigneeId, ad_newMemberId = assigneeId\<rparr>]"

definition dispatch_diff :: "outside \<Rightarrow> int \<Rightarrow> AssignmentNotificationContext \<Rightarrow> AssignmentDiff \<Rightarrow> pdb \<Rightarrow> pdb" where
  "dispatch_diff w now ctx d p =
     (let told = (case ad_previousMemberId d of
            None \<Rightarrow> p
          | Some m \<Rightarrow> if ad_newMemberId d \<noteq> Some m then notifyAssignment w now ctx UNASSIGNED m (ad_role d) p else p)
      in (case ad_newMemberId d of
            None \<Rightarrow> told
          | Some m \<Rightarrow> if ad_previousMemberId d \<noteq> Some m then notifyAssignment w now ctx ASSIGNED m (ad_role d) told else told))"

definition dispatchAssignmentDiffs :: "outside \<Rightarrow> int \<Rightarrow> AssignmentNotificationContext \<Rightarrow> AssignmentDiff list \<Rightarrow> pdb \<Rightarrow> pdb" where
  "dispatchAssignmentDiffs w now ctx changes p =
     (if anc_status ctx \<noteq> EventStatus_Released then p else fold (dispatch_diff w now ctx) changes p)"

section \<open>Releasing\<close>

definition parts_of :: "pdb \<Rightarrow> int \<Rightarrow> event_part list" where
  "parts_of p eventId = filter (\<lambda>a. epa_eventId a = eventId) (eventParts p)"

definition services_of :: "pdb \<Rightarrow> int \<Rightarrow> event_service_part list" where
  "services_of p eventId = filter (\<lambda>a. esp_eventId a = eventId) (eventServiceParts p)"

definition assertCanRelease :: "bool list \<Rightarrow> bool list \<Rightarrow> app_error option" where
  "assertCanRelease partFlags serviceFlags =
     (if \<not> (list_ex id partFlags \<or> list_ex id serviceFlags) then None
      else Some (ConflictError ''releaseBlockedByConflicts''))"

record NotifyTarget =
  tg_entityType :: string
  tg_entityId :: int
  tg_assignmentName :: string
  tg_memberId :: int
  tg_role :: ProgrammeRole

definition part_targets :: "event_part \<Rightarrow> NotifyTarget list" where
  "part_targets a =
     map (\<lambda>(m, r). \<lparr>tg_entityType = ''EventPart'', tg_entityId = epa_id a, tg_assignmentName = epa_name a, tg_memberId = m, tg_role = r\<rparr>)
       (map (\<lambda>m. (m, Speaker)) (option_list (epa_assigneeId a)) @ map (\<lambda>m. (m, Reader)) (option_list (epa_assistantId a)))"

definition service_targets :: "event_service_part \<Rightarrow> NotifyTarget list" where
  "service_targets a =
     map (\<lambda>m. \<lparr>tg_entityType = ''EventServicePart'', tg_entityId = esp_id a, tg_assignmentName = esp_name a,
               tg_memberId = m, tg_role = Servant\<rparr>) (option_list (esp_assigneeId a))"

definition computeNotifyTargets :: "event_part list \<Rightarrow> event_service_part list \<Rightarrow> NotifyTarget list" where
  "computeNotifyTargets parts services = concat (map part_targets parts) @ concat (map service_targets services)"

datatype ReleaseResult = ReleaseDone event "NotifyTarget list" | ReleaseBlocked string

definition set_status :: "int \<Rightarrow> int \<Rightarrow> string \<Rightarrow> pdb \<Rightarrow> pdb" where
  "set_status eventId congregationId status p =
     p\<lparr>events := update_where (is_event eventId congregationId) (\<lambda>e. e\<lparr>evt_status := status\<rparr>) (events p)\<rparr>"

definition releaseEvent :: "int \<Rightarrow> int \<Rightarrow> int \<Rightarrow> pdb \<Rightarrow> ReleaseResult option \<times> pdb" where
  "releaseEvent eventId congregationId actorId p =
     (case find (is_event eventId congregationId) (events p) of
        None \<Rightarrow> (None, p)
      | Some e \<Rightarrow>
          if evt_status e = EventStatus_Released then (Some (ReleaseDone e []), p)
          else
            (case assertCanRelease (map epa_hasConflict (parts_of p eventId)) (map esp_hasConflict (services_of p eventId)) of
               Some _ \<Rightarrow> (Some (ReleaseBlocked ''releaseBlockedByConflicts''), p)
             | None \<Rightarrow>
                 (Some (ReleaseDone (e\<lparr>evt_status := EventStatus_Released\<rparr>)
                    (computeNotifyTargets (parts_of p eventId) (services_of p eventId))),
                  programme_audit ''event.released'' congregationId actorId ''Event'' eventId None
                    (set_status eventId congregationId EventStatus_Released p))))"

definition target_context :: "event \<Rightarrow> NotifyTarget \<Rightarrow> int \<Rightarrow> int \<Rightarrow> AssignmentNotificationContext" where
  "target_context e t congregationId actorId =
     buildAssignmentContext e EventStatus_Released (Some (tg_assignmentName t)) (tg_entityType t) (tg_entityId t) congregationId actorId"

definition fireReleaseNotifications :: "outside \<Rightarrow> int \<Rightarrow> event \<Rightarrow> NotifyTarget list \<Rightarrow> int \<Rightarrow> int \<Rightarrow> pdb \<Rightarrow> pdb" where
  "fireReleaseNotifications w now e targets congregationId actorId p =
     fold (\<lambda>t. notifyAssignment w now (target_context e t congregationId actorId) ASSIGNED (tg_memberId t) (tg_role t)) targets p"

definition event_entity :: "int list \<Rightarrow> int list \<Rightarrow> notification_event \<Rightarrow> bool" where
  "event_entity partIds serviceIds n \<longleftrightarrow>
     (ne_entityType n = ''EventPart'' \<and> ne_entityId n \<in> set partIds) \<or>
     (ne_entityType n = ''EventServicePart'' \<and> ne_entityId n \<in> set serviceIds)"

definition unreleaseEvent :: "int \<Rightarrow> int \<Rightarrow> int \<Rightarrow> int \<Rightarrow> pdb \<Rightarrow> event option \<times> pdb" where
  "unreleaseEvent now eventId congregationId actorId p =
     (case find (is_event eventId congregationId) (events p) of
        None \<Rightarrow> (None, p)
      | Some e \<Rightarrow>
          if evt_status e = EventStatus_Draft then (Some e, p)
          else
            (let partIds = map epa_id (parts_of p eventId);
                 serviceIds = map esp_id (services_of p eventId);
                 q = set_status eventId congregationId EventStatus_Draft p;
                 cancelled = (if length partIds > 0 \<or> length serviceIds > 0
                   then q\<lparr>notificationEvents := update_where (\<lambda>n. ne_congregationId n = congregationId \<and> ne_status n = ''pending'' \<and>
                       event_entity partIds serviceIds n) (cancelled_row now) (notificationEvents q)\<rparr>
                   else q)
             in (Some (e\<lparr>evt_status := EventStatus_Draft\<rparr>),
                 programme_audit ''event.unreleased'' congregationId actorId ''Event'' eventId None cancelled)))"

section \<open>Bulk\<close>

record BulkReleaseResult =
  br_released :: "int list"
  br_blocked :: "(int \<times> string) list"
  br_notFound :: "int list"
  br_failed :: "(int \<times> string) list"

text \<open>\<open>fault\<close> gives the message of a transaction that fails, and so changes nothing.\<close>

definition release_one ::
  "outside \<Rightarrow> int \<Rightarrow> (int \<Rightarrow> string option) \<Rightarrow> int \<Rightarrow> int \<Rightarrow> int \<Rightarrow> BulkReleaseResult \<times> pdb \<Rightarrow> BulkReleaseResult \<times> pdb" where
  "release_one w now fault congregationId actorId i acc =
     (case acc of (r, p) \<Rightarrow>
        (case fault i of
           Some message \<Rightarrow> (r\<lparr>br_failed := br_failed r @ [(i, message)]\<rparr>, p)
         | None \<Rightarrow>
             (case releaseEvent i congregationId actorId p of
                (None, q) \<Rightarrow> (r\<lparr>br_notFound := br_notFound r @ [i]\<rparr>, q)
              | (Some (ReleaseBlocked message), q) \<Rightarrow> (r\<lparr>br_blocked := br_blocked r @ [(i, message)]\<rparr>, q)
              | (Some (ReleaseDone e targets), q) \<Rightarrow>
                  (r\<lparr>br_released := br_released r @ [i]\<rparr>, fireReleaseNotifications w now e targets congregationId actorId q))))"

definition bulkReleaseEvents ::
  "outside \<Rightarrow> int \<Rightarrow> (int \<Rightarrow> string option) \<Rightarrow> int list \<Rightarrow> int \<Rightarrow> int \<Rightarrow> pdb \<Rightarrow> BulkReleaseResult \<times> pdb" where
  "bulkReleaseEvents w now fault eventIds congregationId actorId p =
     fold (release_one w now fault congregationId actorId) eventIds
       (\<lparr>br_released = [], br_blocked = [], br_notFound = [], br_failed = []\<rparr>, p)"

record BulkUnreleaseResult =
  bu_unreleased :: "int list"
  bu_notFound :: "int list"
  bu_failed :: "(int \<times> string) list"

definition unrelease_one ::
  "int \<Rightarrow> (int \<Rightarrow> string option) \<Rightarrow> int \<Rightarrow> int \<Rightarrow> int \<Rightarrow> BulkUnreleaseResult \<times> pdb \<Rightarrow> BulkUnreleaseResult \<times> pdb" where
  "unrelease_one now fault congregationId actorId i acc =
     (case acc of (r, p) \<Rightarrow>
        (case fault i of
           Some message \<Rightarrow> (r\<lparr>bu_failed := bu_failed r @ [(i, message)]\<rparr>, p)
         | None \<Rightarrow>
             (case unreleaseEvent now i congregationId actorId p of
                (None, q) \<Rightarrow> (r\<lparr>bu_notFound := bu_notFound r @ [i]\<rparr>, q)
              | (Some _, q) \<Rightarrow> (r\<lparr>bu_unreleased := bu_unreleased r @ [i]\<rparr>, q))))"

definition bulkUnreleaseEvents ::
  "int \<Rightarrow> (int \<Rightarrow> string option) \<Rightarrow> int list \<Rightarrow> int \<Rightarrow> int \<Rightarrow> pdb \<Rightarrow> BulkUnreleaseResult \<times> pdb" where
  "bulkUnreleaseEvents now fault eventIds congregationId actorId p =
     fold (unrelease_one now fault congregationId actorId) eventIds
       (\<lparr>bu_unreleased = [], bu_notFound = [], bu_failed = []\<rparr>, p)"

end
