(* ===== verification/Event_Parts.thy ===== *)
theory Event_Parts
  imports Release
begin

text \<open>
  Events and the rows of their programme
  (\<^verbatim>\<open>features/events/server/event-parts.server.ts\<close>): creation, edit, deletion, reordering, and
  the application of a template to an event that exists.
\<close>

section \<open>Events\<close>

record NewEvent =
  nev_name :: string
  nev_startDate :: int
  nev_endDate :: int
  nev_createdById :: int
  nev_congregationId :: int

definition event_row :: "row_keys \<Rightarrow> NewEvent \<Rightarrow> int \<Rightarrow> pdb \<Rightarrow> event" where
  "event_row k d templateId p =
     \<lparr>evt_id = key_event k (events p), evt_name = nev_name d, evt_startDate = nev_startDate d, evt_endDate = nev_endDate d,
      evt_status = EventStatus_Draft, evt_templateId = Some templateId, evt_createdById = nev_createdById d,
      evt_congregationId = nev_congregationId d\<rparr>"

definition createFreeformEvent :: "row_keys \<Rightarrow> NewEvent \<Rightarrow> pdb \<Rightarrow> (pdb, event) outcome" where
  "createFreeformEvent k d p =
     (case find (\<lambda>t. tpl_key t = TemplateKey_Freeform \<and> tpl_congregationId t = nev_congregationId d) (eventTemplates p) of
        None \<Rightarrow> (Inl (NotFoundError ''Freeform template'' None), p)
      | Some t \<Rightarrow> (let e = event_row k d (tpl_id t) p in (Inr e, p\<lparr>events := events p @ [e]\<rparr>)))"

definition event_deleted_audit :: "int \<Rightarrow> int \<Rightarrow> int \<Rightarrow> pdb \<Rightarrow> pdb" where
  "event_deleted_audit congregationId actorId i = programme_audit ''event.deleted'' congregationId actorId ''Event'' i None"

definition bulkDeleteEvents :: "int list \<Rightarrow> int \<Rightarrow> int \<Rightarrow> pdb \<Rightarrow> nat \<times> pdb" where
  "bulkDeleteEvents ids congregationId actorId p =
     (if length ids = 0 then (0, p)
      else
        (let gone = (\<lambda>e. evt_id e \<in> set ids \<and> evt_congregationId e = congregationId)
         in (length (filter gone (events p)),
             fold (event_deleted_audit congregationId actorId) ids (remove_event_rows gone p))))"

definition deleteEvent :: "int \<Rightarrow> int \<Rightarrow> pdb \<Rightarrow> (pdb, event) outcome" where
  "deleteEvent i congregationId p =
     (case find (is_event i congregationId) (events p) of
        None \<Rightarrow> (Inl (DatabaseError RecordNotFound), p)
      | Some e \<Rightarrow> (Inr e, remove_event_rows (is_event i congregationId) p))"

record UpdateEventFields =
  uev_name :: "string option"
  uev_startDate :: "int option"
  uev_endDate :: "int option"

definition edited_event :: "UpdateEventFields \<Rightarrow> event \<Rightarrow> event" where
  "edited_event d e =
     e\<lparr>evt_name := (case uev_name d of None \<Rightarrow> evt_name e | Some n \<Rightarrow> n),
       evt_startDate := (case uev_startDate d of None \<Rightarrow> evt_startDate e | Some t \<Rightarrow> t),
       evt_endDate := (case uev_endDate d of None \<Rightarrow> evt_endDate e | Some t \<Rightarrow> t)\<rparr>"

definition field_names :: "UpdateEventFields \<Rightarrow> string list" where
  "field_names d =
     (if uev_name d = None then [] else [''name'']) @ (if uev_startDate d = None then [] else [''startDate'']) @
     (if uev_endDate d = None then [] else [''endDate''])"

definition updateEvent :: "int \<Rightarrow> int \<Rightarrow> UpdateEventFields \<Rightarrow> int \<Rightarrow> pdb \<Rightarrow> (pdb, event) outcome" where
  "updateEvent i congregationId d actorId p =
     (case find (is_event i congregationId) (events p) of
        None \<Rightarrow> (Inl (DatabaseError RecordNotFound), p)
      | Some e \<Rightarrow>
          (Inr (edited_event d e),
           programme_audit ''event.updated'' congregationId actorId ''Event'' i
             (Some [(''fields'', JArr (map JStr (field_names d)))])
             (p\<lparr>events := update_where (is_event i congregationId) (edited_event d) (events p)\<rparr>)))"

section \<open>Parts\<close>

definition diff_json :: "DiffResult \<Rightarrow> (string \<times> json) list" where
  "diff_json d = [(''added'', JArr (map JNum (df_added d))), (''removed'', JArr (map JNum (df_removed d)))]"

definition no_role_change :: DiffResult where
  "no_role_change = \<lparr>df_added = [], df_removed = []\<rparr>"

definition role_changes :: "DiffResult \<Rightarrow> bool" where
  "role_changes d \<longleftrightarrow> df_added d \<noteq> [] \<or> df_removed d \<noteq> []"

text \<open>\<open>None\<close> is \<^verbatim>\<open>undefined\<close>: the caller does not manage the slot.\<close>

definition set_slot ::
  "(int list \<Rightarrow> pdb \<Rightarrow> DiffResult \<times> pdb) \<Rightarrow> int list option \<Rightarrow> pdb \<Rightarrow> DiffResult \<times> pdb" where
  "set_slot write desired p = (case desired of None \<Rightarrow> (no_role_change, p) | Some ids \<Rightarrow> write ids p)"

definition writePartAllowedRoles :: "int \<Rightarrow> int list option \<Rightarrow> int list option \<Rightarrow> int \<Rightarrow> int \<Rightarrow> pdb \<Rightarrow> pdb" where
  "writePartAllowedRoles eventPartId speaker reader congregationId actorId p =
     (let (speakerDiff, q) = set_slot (\<lambda>ids. setPartAssignmentAllowedRoles eventPartId ''speaker'' ids congregationId) speaker p;
          (readerDiff, r) = set_slot (\<lambda>ids. setPartAssignmentAllowedRoles eventPartId ''reader'' ids congregationId) reader q
      in if \<not> role_changes speakerDiff \<and> \<not> role_changes readerDiff then r
         else programme_audit ''part.allowed_roles.changed'' congregationId actorId ''EventPart'' eventPartId
                (Some [(''speaker'', JObj (diff_json speakerDiff)), (''reader'', JObj (diff_json readerDiff))]) r)"

text \<open>
  An optional field may be absent, which leaves the column as it is (empty in a new row), or be
  \<^verbatim>\<open>null\<close>, \<open>Some None\<close>.
\<close>

definition given :: "'a option option \<Rightarrow> 'a option \<Rightarrow> 'a option" where
  "given field old = (case field of None \<Rightarrow> old | Some v \<Rightarrow> v)"

record PartData =
  pd_name :: string
  pd_section :: string
  pd_track :: string
  pd_trackOrder :: "int option option"
  pd_order :: int
  pd_durationMin :: "int option"
  pd_allowExternalSpeaker :: bool
  pd_speakerLabel :: "string option option"
  pd_readerLabel :: "string option option"
  pd_presetId :: "int option option"
  pd_allowedSpeakerRoleIds :: "int list option"
  pd_allowedReaderRoleIds :: "int list option"

definition blank_part :: "int \<Rightarrow> int \<Rightarrow> int option \<Rightarrow> int \<Rightarrow> PartData \<Rightarrow> event_part" where
  "blank_part i eventId partId congregationId d =
     \<lparr>epa_id = i, epa_topic = [], epa_note = [], epa_hasConflict = False, epa_name = pd_name d, epa_section = pd_section d,
      epa_track = pd_track d, epa_trackOrder = given (pd_trackOrder d) None, epa_order = pd_order d, epa_durationMin = pd_durationMin d,
      epa_speakerLabel = given (pd_speakerLabel d) None, epa_readerLabel = given (pd_readerLabel d) None, epa_eventId = eventId, epa_partId = partId,
      epa_presetId = given (pd_presetId d) None, epa_assigneeId = None, epa_assistantId = None,
      epa_allowExternalSpeaker = pd_allowExternalSpeaker d, epa_externalSpeakerId = None, epa_congregationId = congregationId\<rparr>"

definition addPartAssignment :: "row_keys \<Rightarrow> int \<Rightarrow> PartData \<Rightarrow> int \<Rightarrow> int \<Rightarrow> pdb \<Rightarrow> (pdb, event_part) outcome" where
  "addPartAssignment k eventId d congregationId actorId p =
     (if event_with p eventId = None then (Inl (DatabaseError ForeignKeyViolation), p)
      else
        (let a = blank_part (key_part k (eventParts p)) eventId None congregationId d
         in (Inr a, writePartAllowedRoles (epa_id a) (pd_allowedSpeakerRoleIds d) (pd_allowedReaderRoleIds d) congregationId actorId
               (p\<lparr>eventParts := eventParts p @ [a]\<rparr>))))"

definition edited_part :: "PartData \<Rightarrow> event_part \<Rightarrow> event_part" where
  "edited_part d a =
     a\<lparr>epa_name := pd_name d, epa_section := pd_section d, epa_track := pd_track d, epa_trackOrder := given (pd_trackOrder d) (epa_trackOrder a),
       epa_order := pd_order d, epa_durationMin := pd_durationMin d, epa_allowExternalSpeaker := pd_allowExternalSpeaker d,
       epa_speakerLabel := given (pd_speakerLabel d) (epa_speakerLabel a),
       epa_readerLabel := given (pd_readerLabel d) (epa_readerLabel a), epa_presetId := given (pd_presetId d) (epa_presetId a)\<rparr>"

definition updatePartAssignment :: "int \<Rightarrow> PartData \<Rightarrow> int \<Rightarrow> int \<Rightarrow> pdb \<Rightarrow> (pdb, event_part) outcome" where
  "updatePartAssignment i d congregationId actorId p =
     (case find (is_part i congregationId) (eventParts p) of
        None \<Rightarrow> (Inl (DatabaseError RecordNotFound), p)
      | Some a \<Rightarrow>
          (Inr (edited_part d a),
           writePartAllowedRoles i (pd_allowedSpeakerRoleIds d) (pd_allowedReaderRoleIds d) congregationId actorId
             (write_part i congregationId (edited_part d) p)))"

definition deletePartAssignment :: "int \<Rightarrow> int \<Rightarrow> pdb \<Rightarrow> (pdb, event_part) outcome" where
  "deletePartAssignment i congregationId p =
     (case find (is_part i congregationId) (eventParts p) of
        None \<Rightarrow> (Inl (DatabaseError RecordNotFound), p)
      | Some a \<Rightarrow>
          (Inr a, p\<lparr>eventParts := delete_where (is_part i congregationId) (eventParts p),
                    eventPartAllowedRoles := delete_where (\<lambda>r. al_ownerId r = i) (eventPartAllowedRoles p)\<rparr>))"

section \<open>Service parts\<close>

definition service_roles_audit :: "string \<Rightarrow> int \<Rightarrow> DiffResult \<Rightarrow> int \<Rightarrow> int \<Rightarrow> pdb \<Rightarrow> pdb" where
  "service_roles_audit entityType i diff congregationId actorId p =
     (if role_changes diff
      then programme_audit ''service_role.allowed_roles.changed'' congregationId actorId entityType i (Some (diff_json diff)) p
      else p)"

definition write_service_roles :: "int \<Rightarrow> int list \<Rightarrow> int \<Rightarrow> int \<Rightarrow> pdb \<Rightarrow> pdb" where
  "write_service_roles i allowedRoleIds congregationId actorId p =
     (let (diff, q) = setServicePartAssignmentAllowedRoles i allowedRoleIds congregationId p
      in service_roles_audit ''EventServicePart'' i diff congregationId actorId q)"

definition blank_service :: "int \<Rightarrow> int \<Rightarrow> int option \<Rightarrow> int option \<Rightarrow> int \<Rightarrow> string \<Rightarrow> event_service_part" where
  "blank_service i eventId servicePartId presetId congregationId name =
     \<lparr>esp_id = i, esp_note = [], esp_hasConflict = False, esp_name = name, esp_eventId = eventId,
      esp_servicePartId = servicePartId, esp_presetId = presetId, esp_assigneeId = None, esp_congregationId = congregationId\<rparr>"

definition addServicePartAssignment ::
  "row_keys \<Rightarrow> int \<Rightarrow> string \<Rightarrow> int list \<Rightarrow> int \<Rightarrow> int \<Rightarrow> pdb \<Rightarrow> (pdb, event_service_part) outcome" where
  "addServicePartAssignment k eventId name allowedRoleIds congregationId actorId p =
     (if event_with p eventId = None then (Inl (DatabaseError ForeignKeyViolation), p)
      else
        (let a = blank_service (key_service k (eventServiceParts p)) eventId None None congregationId name
         in (Inr a, write_service_roles (esp_id a) allowedRoleIds congregationId actorId
               (p\<lparr>eventServiceParts := eventServiceParts p @ [a]\<rparr>))))"

definition updateServicePartAssignment ::
  "int \<Rightarrow> string \<Rightarrow> int list \<Rightarrow> int \<Rightarrow> int \<Rightarrow> pdb \<Rightarrow> (pdb, event_service_part) outcome" where
  "updateServicePartAssignment i name allowedRoleIds congregationId actorId p =
     (case find (is_service i congregationId) (eventServiceParts p) of
        None \<Rightarrow> (Inl (DatabaseError RecordNotFound), p)
      | Some a \<Rightarrow>
          (Inr (a\<lparr>esp_name := name\<rparr>),
           write_service_roles i allowedRoleIds congregationId actorId (write_service i congregationId (\<lambda>a. a\<lparr>esp_name := name\<rparr>) p)))"

definition deleteServicePartAssignment :: "int \<Rightarrow> int \<Rightarrow> pdb \<Rightarrow> (pdb, event_service_part) outcome" where
  "deleteServicePartAssignment i congregationId p =
     (case find (is_service i congregationId) (eventServiceParts p) of
        None \<Rightarrow> (Inl (DatabaseError RecordNotFound), p)
      | Some a \<Rightarrow>
          (Inr a, p\<lparr>eventServiceParts := delete_where (is_service i congregationId) (eventServiceParts p),
                    eventServicePartAllowedRoles := delete_where (\<lambda>r. al_ownerId r = i) (eventServicePartAllowedRoles p)\<rparr>))"

section \<open>Order\<close>

text \<open>A part that is gone stops the loop; the surrounding transaction rolls back.\<close>

fun reorder_from :: "int \<Rightarrow> int \<Rightarrow> int list \<Rightarrow> pdb \<Rightarrow> (pdb, unit) outcome" where
  "reorder_from i congregationId [] p = (Inr (), p)"
| "reorder_from i congregationId (x # xs) p =
     (if find (is_part x congregationId) (eventParts p) = None then (Inl (DatabaseError RecordNotFound), p)
      else reorder_from (i + 1) congregationId xs (write_part x congregationId (\<lambda>a. a\<lparr>epa_order := i * 5\<rparr>) p))"

definition reorderPartAssignments :: "int \<Rightarrow> int list \<Rightarrow> pdb \<Rightarrow> (pdb, unit) outcome" where
  "reorderPartAssignments congregationId orderedIds p = reorder_from 0 congregationId orderedIds p"

section \<open>Applying a template\<close>

definition template_parts :: "pdb \<Rightarrow> int \<Rightarrow> template_part list" where
  "template_parts p templateId =
     js_sort (\<lambda>a b. tp_order a - tp_order b) (filter (\<lambda>t. tp_templateId t = templateId) (templateParts p))"

definition template_services :: "pdb \<Rightarrow> int \<Rightarrow> template_service_part list" where
  "template_services p templateId = filter (\<lambda>t. tsp_templateId t = templateId) (templateServiceParts p)"

text \<open>The columns that are copied: the order of the track is not among them.\<close>

definition applied_part :: "template_part \<Rightarrow> PartData" where
  "applied_part t =
     \<lparr>pd_name = tp_name t, pd_section = tp_section t, pd_track = tp_track t, pd_trackOrder = None, pd_order = tp_order t,
      pd_durationMin = tp_durationMin t, pd_allowExternalSpeaker = tp_allowExternalSpeaker t,
      pd_speakerLabel = Some (tp_speakerLabel t), pd_readerLabel = Some (tp_readerLabel t), pd_presetId = Some (tp_presetId t),
      pd_allowedSpeakerRoleIds = None, pd_allowedReaderRoleIds = None\<rparr>"

definition copy_part :: "row_keys \<Rightarrow> (template_part \<Rightarrow> PartData) \<Rightarrow> int \<Rightarrow> int \<Rightarrow> template_part \<Rightarrow> pdb \<Rightarrow> pdb" where
  "copy_part k columns eventId congregationId t p =
     (let a = blank_part (key_part k (eventParts p)) eventId (Some (tp_id t)) congregationId (columns t);
          allowed = filter (\<lambda>r. al_ownerId r = tp_id t) (templatePartAllowedRoles p)
      in p\<lparr>eventParts := eventParts p @ [a],
           eventPartAllowedRoles := create_allowed
             (map (\<lambda>r. allowed_row (epa_id a) (al_asKind r) congregationId (al_roleId r)) allowed) (eventPartAllowedRoles p)\<rparr>)"

definition copy_service ::
  "row_keys \<Rightarrow> (template_service_part \<Rightarrow> int option) \<Rightarrow> int \<Rightarrow> int \<Rightarrow> template_service_part \<Rightarrow> pdb \<Rightarrow> pdb" where
  "copy_service k preset eventId congregationId t p =
     (let a = blank_service (key_service k (eventServiceParts p)) eventId (Some (tsp_id t)) (preset t) congregationId (tsp_name t);
          allowed = filter (\<lambda>r. al_ownerId r = tsp_id t) (templateServicePartAllowedRoles p)
      in p\<lparr>eventServiceParts := eventServiceParts p @ [a],
           eventServicePartAllowedRoles := create_allowed
             (map (\<lambda>r. allowed_row (esp_id a) [] congregationId (al_roleId r)) allowed) (eventServicePartAllowedRoles p)\<rparr>)"

definition applyTemplateToEvent ::
  "row_keys \<Rightarrow> int \<Rightarrow> int \<Rightarrow> int \<Rightarrow> pdb \<Rightarrow> (pdb, event_template option) outcome" where
  "applyTemplateToEvent k eventId templateId congregationId p =
     (case find (is_template templateId congregationId) (eventTemplates p) of
        None \<Rightarrow> (Inr None, p)
      | Some t \<Rightarrow>
          (if find (is_event eventId congregationId) (events p) = None then (Inl (DatabaseError RecordNotFound), p)
           else
             (let linked = p\<lparr>events := update_where (is_event eventId congregationId) (\<lambda>e. e\<lparr>evt_templateId := Some templateId\<rparr>) (events p)\<rparr>;
                  with_parts = fold (copy_part k applied_part eventId congregationId) (template_parts p templateId) linked
              in (Inr (Some t),
                  fold (copy_service k tsp_presetId eventId congregationId) (template_services p templateId) with_parts))))"

end
