(* ===== verification/Conflict_Flags.thy ===== *)
theory Conflict_Flags
  imports Assignments
begin

text \<open>
  The conflict flags tell the absences: what a flag means, the two tables of assignments as
  instances of one interface, and the refresh of the flags as the recomputation of every row that
  an absence can concern.
\<close>

section \<open>What a flag means\<close>

definition part_people :: "event_part \<Rightarrow> int list" where
  "part_people a = option_list (epa_assigneeId a) @ option_list (epa_assistantId a)"

definition service_people :: "event_service_part \<Rightarrow> int list" where
  "service_people a = option_list (esp_assigneeId a)"

definition absent_from :: "pdb \<Rightarrow> event \<Rightarrow> int \<Rightarrow> bool" where
  "absent_from p e m = checkDayOffConflict p m (evt_startDate e) (evt_endDate e) (evt_congregationId e)"

definition exact_row :: "pdb \<Rightarrow> int \<Rightarrow> int list \<Rightarrow> bool \<Rightarrow> bool" where
  "exact_row p eventId people flag =
     (case event_with p eventId of
        None \<Rightarrow> True
      | Some e \<Rightarrow> has_template_key p TemplateKey_DayOff e \<or> flag = list_ex (absent_from p e) people)"

definition exact_part :: "pdb \<Rightarrow> event_part \<Rightarrow> bool" where
  "exact_part p a = exact_row p (epa_eventId a) (part_people a) (epa_hasConflict a)"

definition exact_service :: "pdb \<Rightarrow> event_service_part \<Rightarrow> bool" where
  "exact_service p a = exact_row p (esp_eventId a) (service_people a) (esp_hasConflict a)"

definition flags_exact :: "pdb \<Rightarrow> bool" where
  "flags_exact p \<longleftrightarrow> list_all (exact_part p) (eventParts p) \<and> list_all (exact_service p) (eventServiceParts p)"

text \<open>Keys are unique, and an assignment belongs to an event of its own congregation.\<close>

definition owned :: "pdb \<Rightarrow> int \<Rightarrow> int \<Rightarrow> bool" where
  "owned p eventId congregationId = list_ex (is_event eventId congregationId) (events p)"

definition programme_in_line :: "pdb \<Rightarrow> bool" where
  "programme_in_line p \<longleftrightarrow>
     distinct (map evt_id (events p)) \<and> distinct (map epa_id (eventParts p)) \<and> distinct (map esp_id (eventServiceParts p)) \<and>
     list_all (\<lambda>a. owned p (epa_eventId a) (epa_congregationId a)) (eventParts p) \<and>
     list_all (\<lambda>a. owned p (esp_eventId a) (esp_congregationId a)) (eventServiceParts p)"

lemma people_members:
  "m \<in> set (part_people a) \<longleftrightarrow> epa_assigneeId a = Some m \<or> epa_assistantId a = Some m"
  "m \<in> set (service_people b) \<longleftrightarrow> esp_assigneeId b = Some m"
  by (auto simp: part_people_def service_people_def option_list_def split: option.splits)

lemma event_with_iff:
  assumes "distinct (map evt_id (events p))"
  shows "event_with p i = Some e \<longleftrightarrow> e \<in> set (events p) \<and> evt_id e = i"
  unfolding event_with_def by (rule find_unique_iff [OF assms])

lemma owned_event:
  assumes "programme_in_line p" and "owned p i c"
  obtains e where "event_with p i = Some e" and "evt_congregationId e = c" and "e \<in> set (events p)" and "evt_id e = i"
proof -
  from assms(2) obtain e where e: "e \<in> set (events p)" "evt_id e = i" "evt_congregationId e = c"
    by (auto simp: owned_def is_event_def list_ex_iff)
  then have "event_with p i = Some e" using assms(1) event_with_iff by (auto simp: programme_in_line_def)
  then show ?thesis using that e by blast
qed

lemma people_of_flagged [simp]:
  "part_people (a\<lparr>epa_hasConflict := b\<rparr>) = part_people a"
  "service_people (d\<lparr>esp_hasConflict := b\<rparr>) = service_people d"
  by (simp_all add: part_people_def service_people_def)

text \<open>Only the events, their templates and the accounts decide who is absent.\<close>

lemma absence_frame:
  assumes "events q = events p" and "eventTemplates q = eventTemplates p" and "userAccounts (core q) = userAccounts (core p)"
  shows "has_template_key q = has_template_key p" and "creator_member q = creator_member p"
    and "checkDayOffConflict q = checkDayOffConflict p" and "absent_from q = absent_from p" and "exact_row q = exact_row p"
proof -
  show k: "has_template_key q = has_template_key p"
    by (simp add: fun_eq_iff has_template_key_def template_of_def assms)
  show c: "creator_member q = creator_member p"
    by (simp add: fun_eq_iff creator_member_def assms)
  show o: "checkDayOffConflict q = checkDayOffConflict p"
    by (simp add: fun_eq_iff checkDayOffConflict_def assms k c)
  show a: "absent_from q = absent_from p" by (simp add: fun_eq_iff absent_from_def o)
  show "exact_row q = exact_row p" by (simp add: fun_eq_iff exact_row_def event_with_def assms k a split: option.split)
qed

section \<open>A table of assignments\<close>

locale assignment_table =
  fixes rid :: "'r \<Rightarrow> int" and congregation :: "'r \<Rightarrow> int" and flagged :: "'r \<Rightarrow> bool"
    and set_flag :: "bool \<Rightarrow> 'r \<Rightarrow> 'r"
  assumes rid_set_flag [simp]: "rid (set_flag b r) = rid r"
    and congregation_set_flag [simp]: "congregation (set_flag b r) = congregation r"
    and flagged_set_flag [simp]: "flagged (set_flag b r) = b"
begin

text \<open>Flagging the touched rows in conflict and clearing the others rewrites each touched row once.\<close>

lemma two_bulk_updates:
  assumes "distinct (map rid rows)" and "\<And>a. touched a \<Longrightarrow> congregation a = c"
  shows "update_where (\<lambda>a. rid a \<in> set (map rid (filter (\<lambda>a. \<not> busy a) (filter touched rows))) \<and> congregation a = c) (set_flag False)
      (update_where (\<lambda>a. rid a \<in> set (map rid (filter busy (filter touched rows))) \<and> congregation a = c) (set_flag True) rows) =
    map (\<lambda>a. if touched a then set_flag (busy a) a else a) rows"
proof -
  let ?hit = "\<lambda>q a. rid a \<in> set (map rid (filter q (filter touched rows))) \<and> congregation a = c"
  have hit: "?hit q a \<longleftrightarrow> touched a \<and> q a" if "a \<in> set rows" for q a
    using that assms by (auto simp: distinct_map inj_on_def image_iff)
  have hit': "?hit q (set_flag True a) \<longleftrightarrow> touched a \<and> q a" if "a \<in> set rows" for q a
    using hit [OF that, of q] by simp
  show ?thesis
    unfolding update_where_def map_map
  proof (rule map_cong [OF refl], unfold comp_apply)
    fix a assume a: "a \<in> set rows"
    have busy: "?hit busy a \<longleftrightarrow> touched a \<and> busy a" by (rule hit [OF a])
    have clear: "?hit (\<lambda>a. \<not> busy a) (if touched a \<and> busy a then set_flag True a else a) \<longleftrightarrow> touched a \<and> \<not> busy a"
    proof (cases "touched a \<and> busy a")
      case True
      show ?thesis unfolding if_P [OF True] by (rule hit' [OF a])
    next
      case False
      show ?thesis unfolding if_not_P [OF False] by (rule hit [OF a])
    qed
    show "(if ?hit (\<lambda>a. \<not> busy a) (if ?hit busy a then set_flag True a else a)
        then set_flag False (if ?hit busy a then set_flag True a else a) else if ?hit busy a then set_flag True a else a) =
      (if touched a then set_flag (busy a) a else a)"
      unfolding busy clear by simp
  qed
qed

end

interpretation part_table: assignment_table epa_id epa_congregationId epa_hasConflict "\<lambda>b a. a\<lparr>epa_hasConflict := b\<rparr>"
  by unfold_locales simp_all

interpretation service_table: assignment_table esp_id esp_congregationId esp_hasConflict "\<lambda>b a. a\<lparr>esp_hasConflict := b\<rparr>"
  by unfold_locales simp_all

section \<open>The refresh recomputes the rows it concerns\<close>

lemma fold_lower: "fold (\<lambda>e m. if f e < m then f e else m) xs a \<le> (a :: int) \<and>
    (\<forall>x \<in> set xs. fold (\<lambda>e m. if f e < m then f e else m) xs a \<le> f x)"
proof (induction xs arbitrary: a)
  case (Cons x xs)
  show ?case using Cons.IH [of "if f x < a then f x else a"] by (auto split: if_splits)
qed simp

lemma fold_upper: "(a :: int) \<le> fold (\<lambda>e m. if f e > m then f e else m) xs a \<and>
    (\<forall>x \<in> set xs. f x \<le> fold (\<lambda>e m. if f e > m then f e else m) xs a)"
proof (induction xs arbitrary: a)
  case (Cons x xs)
  show ?case using Cons.IH [of "if f x > a then f x else a"] by (auto split: if_splits)
qed simp

definition some_range :: "absence_ranges \<Rightarrow> int \<Rightarrow> (int \<times> int \<Rightarrow> bool) \<Rightarrow> bool" where
  "some_range ranges m q = (case ranges m of None \<Rightarrow> False | Some rs \<Rightarrow> list_ex q rs)"

lemma some_range_fold:
  "some_range (fold (add_range p) ds ranges) m q \<longleftrightarrow>
     some_range ranges m q \<or> (\<exists>d \<in> set ds. creator_member p d = Some m \<and> q (evt_startDate d, evt_endDate d))"
proof (induction ds arbitrary: ranges)
  case (Cons d ds)
  have "some_range (add_range p d ranges) m q \<longleftrightarrow>
      some_range ranges m q \<or> (creator_member p d = Some m \<and> q (evt_startDate d, evt_endDate d))"
    by (cases "creator_member p d"; cases "ranges m") (auto simp: some_range_def add_range_def split: option.splits)
  then show ?case using Cons.IH [of "add_range p d ranges"] by auto
qed simp

lemma absent_in_window:
  assumes line: "distinct (map evt_id (events p))" and e: "e \<in> set (refreshed_events p s t c)"
    and m: "m \<in> set people"
  defines "matched \<equiv> refreshed_events p s t c"
  shows "isAbsent (fold (add_range p) (absences_in_window p people
      (fold (\<lambda>e m. if evt_startDate e < m then evt_startDate e else m) matched s)
      (fold (\<lambda>e m. if evt_endDate e > m then evt_endDate e else m) matched t) c) (\<lambda>_. None)) matched (Some m) (evt_id e)
    = absent_from p e m"
proof -
  let ?lo = "fold (\<lambda>e m. if evt_startDate e < m then evt_startDate e else m) matched s"
  let ?hi = "fold (\<lambda>e m. if evt_endDate e > m then evt_endDate e else m) matched t"
  let ?ds = "absences_in_window p people ?lo ?hi c"
  let ?ranges = "fold (add_range p) ?ds (\<lambda>_. None)"
  have "distinct (map evt_id matched)" using line by (simp add: matched_def refreshed_events_def distinct_map_filter)
  then have "find (\<lambda>x. evt_id x = evt_id e) (rev matched) = Some e"
    using e by (intro find_key) (auto simp: matched_def rev_map [symmetric])
  then have found: "isAbsent ?ranges matched (Some m) (evt_id e) =
      some_range ?ranges m (\<lambda>r. fst r \<le> evt_endDate e \<and> evt_startDate e \<le> snd r)"
    by (simp add: isAbsent_def some_range_def split: option.split)
  have c: "evt_congregationId e = c" using e by (simp add: refreshed_events_def)
  have span: "?lo \<le> evt_startDate e" "evt_endDate e \<le> ?hi"
    using e fold_lower [of evt_startDate matched s] fold_upper [of t evt_endDate matched] by (auto simp: matched_def)
  have "d \<in> set ?ds \<and> creator_member p d = Some m \<and> evt_startDate d \<le> evt_endDate e \<and> evt_startDate e \<le> evt_endDate d \<longleftrightarrow>
      d \<in> set (events p) \<and> evt_congregationId d = c \<and> creator_member p d = Some m \<and>
      has_template_key p TemplateKey_DayOff d \<and> overlapping d (evt_startDate e) (evt_endDate e)" for d
    using m span by (auto simp: absences_in_window_def overlapping_def)
  then show ?thesis
    unfolding found some_range_fold absent_from_def checkDayOffConflict_def c by (auto simp: list_ex_iff some_range_def)
qed

text \<open>The rows an absence of \<open>m\<close> between \<open>s\<close> and \<open>t\<close> can concern.\<close>

definition concerned :: "pdb \<Rightarrow> int \<Rightarrow> int \<Rightarrow> int \<Rightarrow> int \<Rightarrow> int \<Rightarrow> int \<Rightarrow> int list \<Rightarrow> bool" where
  "concerned p m s t c eventId congregationId people \<longleftrightarrow>
     eventId \<in> evt_id ` set (refreshed_events p s t c) \<and> congregationId = c \<and> m \<in> set people"

definition true_flag :: "pdb \<Rightarrow> int \<Rightarrow> int list \<Rightarrow> bool" where
  "true_flag p eventId people =
     (case event_with p eventId of None \<Rightarrow> False | Some e \<Rightarrow> list_ex (absent_from p e) people)"

lemma flag_parts_rows:
  "eventParts (flag_parts ids c b p) = update_where (\<lambda>a. epa_id a \<in> set ids \<and> epa_congregationId a = c)
     (\<lambda>a. a\<lparr>epa_hasConflict := b\<rparr>) (eventParts p)"
  "eventServiceParts (flag_parts ids c b p) = eventServiceParts p"
  by (simp_all add: flag_parts_def update_where_def)

lemma flag_services_rows:
  "eventServiceParts (flag_services ids c b p) = update_where (\<lambda>a. esp_id a \<in> set ids \<and> esp_congregationId a = c)
     (\<lambda>a. a\<lparr>esp_hasConflict := b\<rparr>) (eventServiceParts p)"
  "eventParts (flag_services ids c b p) = eventParts p"
  by (simp_all add: flag_services_def update_where_def)

lemma update_where_never: "update_where (\<lambda>a. False) f xs = xs"
  by (simp add: update_where_def)

text \<open>The early returns do what the updates would: nothing.\<close>

lemma refresh_updates:
  defines "matched \<equiv> \<lambda>p s t c. refreshed_events p s t c"
  defines "parts \<equiv> \<lambda>p m s t c. refreshed_parts p (map evt_id (matched p s t c)) m c"
  defines "services \<equiv> \<lambda>p m s t c. refreshed_services p (map evt_id (matched p s t c)) m c"
  defines "ranges \<equiv> \<lambda>p m s t c. conflict_ranges p (matched p s t c) (parts p m s t c) (services p m s t c) s t c"
  shows "eventParts (refreshConflictFlags m s t c p) =
      update_where (\<lambda>a. epa_id a \<in> set (map epa_id (filter (\<lambda>a. \<not> part_in_conflict (ranges p m s t c) (matched p s t c) a) (parts p m s t c))) \<and>
        epa_congregationId a = c) (\<lambda>a. a\<lparr>epa_hasConflict := False\<rparr>)
      (update_where (\<lambda>a. epa_id a \<in> set (map epa_id (filter (part_in_conflict (ranges p m s t c) (matched p s t c)) (parts p m s t c))) \<and>
        epa_congregationId a = c) (\<lambda>a. a\<lparr>epa_hasConflict := True\<rparr>) (eventParts p))" (is ?a)
    and "eventServiceParts (refreshConflictFlags m s t c p) =
      update_where (\<lambda>a. esp_id a \<in> set (map esp_id (filter (\<lambda>a. \<not> service_in_conflict (ranges p m s t c) (matched p s t c) a) (services p m s t c))) \<and>
        esp_congregationId a = c) (\<lambda>a. a\<lparr>esp_hasConflict := False\<rparr>)
      (update_where (\<lambda>a. esp_id a \<in> set (map esp_id (filter (service_in_conflict (ranges p m s t c) (matched p s t c)) (services p m s t c))) \<and>
        esp_congregationId a = c) (\<lambda>a. a\<lparr>esp_hasConflict := True\<rparr>) (eventServiceParts p))" (is ?b)
proof -
  have none: "parts p m s t c = [] \<and> services p m s t c = []" if "matched p s t c = []"
    using that by (simp add: parts_def services_def refreshed_parts_def refreshed_services_def)
  consider "parts p m s t c = [] \<and> services p m s t c = []" | "matched p s t c \<noteq> []" "\<not> (parts p m s t c = [] \<and> services p m s t c = [])"
    using none by blast
  then have "?a \<and> ?b"
  proof cases
    case 1
    then have "refreshConflictFlags m s t c p = p"
      unfolding refreshConflictFlags_def Let_def parts_def services_def matched_def by auto
    then show ?thesis using 1 by (simp add: update_where_never)
  next
    case 2
    then show ?thesis
      unfolding refreshConflictFlags_def Let_def parts_def services_def matched_def ranges_def
      by (simp only: if_False flag_services_rows flag_parts_rows)
  qed
  then show ?a ?b by blast+
qed

lemma true_flag_isAbsent:
  assumes line: "distinct (map evt_id (events p))"
    and i: "i \<in> evt_id ` set (refreshed_events p s t c)"
    and people: "set ids \<subseteq> set (participant_ids parts services)"
  shows "(\<exists>m \<in> set ids. isAbsent (conflict_ranges p (refreshed_events p s t c) parts services s t c) (refreshed_events p s t c) (Some m) i)
    = true_flag p i ids"
proof -
  obtain e where e: "e \<in> set (refreshed_events p s t c)" "evt_id e = i" using i by blast
  then have found: "event_with p i = Some e" using event_with_iff [OF line] by (auto simp: refreshed_events_def)
  have "isAbsent (conflict_ranges p (refreshed_events p s t c) parts services s t c) (refreshed_events p s t c) (Some m) i = absent_from p e m"
    if "m \<in> set ids" for m
    using absent_in_window [OF line e(1), of m "participant_ids parts services"] that people e(2)
    by (auto simp: conflict_ranges_def Let_def)
  then show ?thesis by (simp add: true_flag_def found list_ex_iff)
qed

lemma isAbsent_people:
  "part_in_conflict ranges matched a \<longleftrightarrow> (\<exists>m \<in> set (part_people a). isAbsent ranges matched (Some m) (epa_eventId a))"
  "service_in_conflict ranges matched b \<longleftrightarrow> (\<exists>m \<in> set (service_people b). isAbsent ranges matched (Some m) (esp_eventId b))"
  unfolding part_in_conflict_def service_in_conflict_def part_people_def service_people_def
  by (auto simp: option_list_def isAbsent_def split: option.splits)

lemma participants_cover:
  "a \<in> set parts \<Longrightarrow> set (part_people a) \<subseteq> set (participant_ids parts services)"
  "b \<in> set services \<Longrightarrow> set (service_people b) \<subseteq> set (participant_ids parts services)"
  by (auto simp: participant_ids_def part_people_def service_people_def)

lemma refreshed_are_concerned:
  "refreshed_parts p (map evt_id (refreshed_events p s t c)) m c =
     filter (\<lambda>a. concerned p m s t c (epa_eventId a) (epa_congregationId a) (part_people a)) (eventParts p)"
  "refreshed_services p (map evt_id (refreshed_events p s t c)) m c =
     filter (\<lambda>a. concerned p m s t c (esp_eventId a) (esp_congregationId a) (service_people a)) (eventServiceParts p)"
  by (auto simp: refreshed_parts_def refreshed_services_def concerned_def people_members intro!: filter_cong)

lemma refresh_rows:
  assumes line: "programme_in_line p"
  shows "eventParts (refreshConflictFlags m s t c p) =
      map (\<lambda>a. if concerned p m s t c (epa_eventId a) (epa_congregationId a) (part_people a)
        then a\<lparr>epa_hasConflict := true_flag p (epa_eventId a) (part_people a)\<rparr> else a) (eventParts p)" (is ?parts_exact)
    and "eventServiceParts (refreshConflictFlags m s t c p) =
      map (\<lambda>a. if concerned p m s t c (esp_eventId a) (esp_congregationId a) (service_people a)
        then a\<lparr>esp_hasConflict := true_flag p (esp_eventId a) (service_people a)\<rparr> else a) (eventServiceParts p)" (is ?services_exact)
proof -
  have dist: "distinct (map evt_id (events p))" "distinct (map epa_id (eventParts p))" "distinct (map esp_id (eventServiceParts p))"
    using line by (simp_all add: programme_in_line_def)
  have c: "concerned p m s t c i c' ids \<Longrightarrow> c' = c" for i c' ids by (simp add: concerned_def)
  let ?parts = "filter (\<lambda>a. concerned p m s t c (epa_eventId a) (epa_congregationId a) (part_people a)) (eventParts p)"
  let ?services = "filter (\<lambda>a. concerned p m s t c (esp_eventId a) (esp_congregationId a) (service_people a)) (eventServiceParts p)"
  let ?ranges = "conflict_ranges p (refreshed_events p s t c) ?parts ?services s t c"
  have part: "part_in_conflict ?ranges (refreshed_events p s t c) a = true_flag p (epa_eventId a) (part_people a)"
    if "concerned p m s t c (epa_eventId a) (epa_congregationId a) (part_people a)" "a \<in> set (eventParts p)" for a
    unfolding isAbsent_people
    by (rule true_flag_isAbsent [OF dist(1)]) (use that in \<open>auto simp: concerned_def intro: subsetD [OF participants_cover(1), rotated]\<close>)
  have service: "service_in_conflict ?ranges (refreshed_events p s t c) a = true_flag p (esp_eventId a) (service_people a)"
    if "concerned p m s t c (esp_eventId a) (esp_congregationId a) (service_people a)" "a \<in> set (eventServiceParts p)" for a
    unfolding isAbsent_people
    by (rule true_flag_isAbsent [OF dist(1)]) (use that in \<open>auto simp: concerned_def intro: subsetD [OF participants_cover(2), rotated]\<close>)
  show ?parts_exact
    unfolding refresh_updates(1) refreshed_are_concerned
    by (subst part_table.two_bulk_updates [OF dist(2)]) (auto simp: c part intro!: map_cong)
  show ?services_exact
    unfolding refresh_updates(2) refreshed_are_concerned
    by (subst service_table.two_bulk_updates [OF dist(3)]) (auto simp: c service intro!: map_cong)
qed

lemma refresh_frame [simp]:
  "events (refreshConflictFlags m s t c p) = events p"
  "eventTemplates (refreshConflictFlags m s t c p) = eventTemplates p"
  "core (refreshConflictFlags m s t c p) = core p"
  "notificationEvents (refreshConflictFlags m s t c p) = notificationEvents p"
  "externalSpeakers (refreshConflictFlags m s t c p) = externalSpeakers p"
  by (simp_all add: refreshConflictFlags_def Let_def flag_parts_def flag_services_def)

lemma refresh_in_line: "programme_in_line p \<Longrightarrow> programme_in_line (refreshConflictFlags m s t c p)"
proof -
  assume line: "programme_in_line p"
  have parts: "map epa_id (map (\<lambda>a. if q a then a\<lparr>epa_hasConflict := f a\<rparr> else a) xs) = map epa_id xs"
    "map esp_id (map (\<lambda>a. if r a then a\<lparr>esp_hasConflict := g a\<rparr> else a) ys) = map esp_id ys" for q f xs r g ys
    by simp_all
  show ?thesis
    using line unfolding programme_in_line_def refresh_frame refresh_rows [OF line] parts
    by (auto simp: list_all_iff owned_def)
qed

text \<open>
  When the absences of one member change within a span of days, the rows of the others, of other
  congregations and of other days keep a true flag, and the refresh recomputes the rest.
\<close>

lemma refresh_restores_flags:
  assumes line: "programme_in_line q"
    and kinds: "has_template_key q = has_template_key p"
    and parts: "\<And>a. a \<in> set (eventParts q) \<Longrightarrow> exact_part p a \<and> event_with q (epa_eventId a) = event_with p (epa_eventId a)"
    and services: "\<And>a. a \<in> set (eventServiceParts q) \<Longrightarrow>
      exact_service p a \<and> event_with q (esp_eventId a) = event_with p (esp_eventId a)"
    and changed: "\<And>e x. absent_from q e x \<noteq> absent_from p e x \<Longrightarrow> x = m \<and> evt_congregationId e = c \<and> overlapping e s t"
  shows "flags_exact (refreshConflictFlags m s t c q)"
proof -
  let ?r = "refreshConflictFlags m s t c q"
  have exact: "exact_row ?r = exact_row q" by (rule absence_frame) simp_all
  have row: "exact_row q i people (if concerned q m s t c i c' people then true_flag q i people else flag)"
    if old: "exact_row p i people flag" and own: "owned q i c'" and same: "event_with q i = event_with p i" for i c' people flag
  proof -
    obtain e where e: "event_with q i = Some e" "evt_congregationId e = c'" "e \<in> set (events q)" "evt_id e = i"
      using owned_event [OF line own] by blast
    show ?thesis
    proof (cases "has_template_key q TemplateKey_DayOff e \<or> concerned q m s t c i c' people")
      case True
      then show ?thesis by (auto simp: exact_row_def true_flag_def e)
    next
      case False
      then have "\<not> (c' = c \<and> overlapping e s t \<and> m \<in> set people)"
        using e by (force simp: concerned_def refreshed_events_def)
      then have "list_ex (absent_from q e) people = list_ex (absent_from p e) people"
        using changed [of e] e(2) unfolding list_ex_iff by blast
      moreover have "event_with p i = Some e" using same e(1) by simp
      ultimately show ?thesis using old e(1) False kinds unfolding exact_row_def by simp
    qed
  qed
  have "exact_part ?r a" if a: "a \<in> set (eventParts ?r)" for a
  proof -
    from a obtain b where b: "b \<in> set (eventParts q)" and ab: "a = (if concerned q m s t c (epa_eventId b) (epa_congregationId b) (part_people b)
        then b\<lparr>epa_hasConflict := true_flag q (epa_eventId b) (part_people b)\<rparr> else b)"
      unfolding refresh_rows(1) [OF line] by auto
    have "owned q (epa_eventId b) (epa_congregationId b)" using b line by (auto simp: programme_in_line_def list_all_iff)
    note this = row [OF _ this, of "part_people b" "epa_hasConflict b"]
    then show ?thesis using parts [OF b] unfolding exact_part_def exact ab by (auto split: if_splits)
  qed
  moreover have "exact_service ?r a" if a: "a \<in> set (eventServiceParts ?r)" for a
  proof -
    from a obtain b where b: "b \<in> set (eventServiceParts q)" and ab: "a = (if concerned q m s t c (esp_eventId b) (esp_congregationId b) (service_people b)
        then b\<lparr>esp_hasConflict := true_flag q (esp_eventId b) (service_people b)\<rparr> else b)"
      unfolding refresh_rows(2) [OF line] by auto
    have "owned q (esp_eventId b) (esp_congregationId b)" using b line by (auto simp: programme_in_line_def list_all_iff)
    note this = row [OF _ this, of "service_people b" "esp_hasConflict b"]
    then show ?thesis using services [OF b] unfolding exact_service_def exact ab by (auto split: if_splits)
  qed
  ultimately show ?thesis by (simp add: flags_exact_def list_all_iff)
qed

text \<open>A change that moves no absence keeps the flags true.\<close>

lemma flags_kept:
  assumes kinds: "has_template_key q = has_template_key p"
    and parts: "\<And>a. a \<in> set (eventParts q) \<Longrightarrow> exact_part p a \<and> event_with q (epa_eventId a) = event_with p (epa_eventId a)"
    and services: "\<And>a. a \<in> set (eventServiceParts q) \<Longrightarrow>
      exact_service p a \<and> event_with q (esp_eventId a) = event_with p (esp_eventId a)"
    and same: "\<And>e x. absent_from q e x = absent_from p e x"
  shows "flags_exact q"
proof -
  have absent: "absent_from q = absent_from p" using same by (simp add: fun_eq_iff)
  have "exact_row q i people flag = exact_row p i people flag" if "event_with q i = event_with p i" for i people flag
    unfolding exact_row_def that absent kinds ..
  then show ?thesis using parts services
    by (auto simp: flags_exact_def list_all_iff exact_part_def exact_service_def)
qed

end
