(* ===== verification/Programme_Flags.thy ===== *)
theory Programme_Flags
  imports Event_Parts Conflict_Flags
begin

text \<open>
  The conflict flags through the life of a programme: the operations that keep every flag true,
  and what follows at the moment an event is published.
\<close>

section \<open>Assigning\<close>

lemma in_line_write:
  assumes "programme_in_line p"
  shows "(\<And>a. epa_id (f a) = epa_id a \<and> epa_eventId (f a) = epa_eventId a \<and> epa_congregationId (f a) = epa_congregationId a) \<Longrightarrow>
      programme_in_line (write_part i c f p)"
    and "(\<And>b. esp_id (g b) = esp_id b \<and> esp_eventId (g b) = esp_eventId b \<and> esp_congregationId (g b) = esp_congregationId b) \<Longrightarrow>
      programme_in_line (write_service i c g p)"
  using assms unfolding programme_in_line_def write_part_def write_service_def owned_def
  by (auto simp: update_where_def list_all_iff comp_def if_distrib [of epa_id] if_distrib [of esp_id] cong: if_cong)

lemma found_part:
  assumes "programme_in_line p" and "find (is_part i c) (eventParts p) = Some a" and "event_with p (epa_eventId a) = Some e"
  shows "evt_congregationId e = c" and "b \<in> set (eventParts p) \<Longrightarrow> is_part i c b \<longleftrightarrow> b = a"
proof -
  have a: "a \<in> set (eventParts p)" "is_part i c a" using find_Some_in [OF assms(2)] by simp_all
  then have "owned p (epa_eventId a) c" using assms(1) by (auto simp: programme_in_line_def list_all_iff is_part_def)
  then show "evt_congregationId e = c" using owned_event [OF assms(1)] assms(3) by fastforce
  show "is_part i c b \<longleftrightarrow> b = a" if "b \<in> set (eventParts p)"
    using a that assms(1) by (auto simp: programme_in_line_def distinct_map inj_on_def is_part_def)
qed

lemma found_service:
  assumes "programme_in_line p" and "find (is_service i c) (eventServiceParts p) = Some a" and "event_with p (esp_eventId a) = Some e"
  shows "evt_congregationId e = c" and "b \<in> set (eventServiceParts p) \<Longrightarrow> is_service i c b \<longleftrightarrow> b = a"
proof -
  have a: "a \<in> set (eventServiceParts p)" "is_service i c a" using find_Some_in [OF assms(2)] by simp_all
  then have "owned p (esp_eventId a) c" using assms(1) by (auto simp: programme_in_line_def list_all_iff is_service_def)
  then show "evt_congregationId e = c" using owned_event [OF assms(1)] assms(3) by fastforce
  show "is_service i c b \<longleftrightarrow> b = a" if "b \<in> set (eventServiceParts p)"
    using a that assms(1) by (auto simp: programme_in_line_def distinct_map inj_on_def is_service_def)
qed

lemma flags_write_part:
  assumes "flags_exact p" and "\<And>a. a \<in> set (eventParts p) \<Longrightarrow> is_part i c a \<Longrightarrow> exact_part p (f a)"
  shows "flags_exact (write_part i c f p)"
proof -
  have "exact_row (write_part i c f p) = exact_row p" by (rule absence_frame) (simp_all add: write_part_def)
  then show ?thesis using assms
    by (auto simp: flags_exact_def list_all_iff exact_part_def exact_service_def write_part_def set_update_where)
qed

lemma flags_write_service:
  assumes "flags_exact p" and "\<And>a. a \<in> set (eventServiceParts p) \<Longrightarrow> is_service i c a \<Longrightarrow> exact_service p (f a)"
  shows "flags_exact (write_service i c f p)"
proof -
  have "exact_row (write_service i c f p) = exact_row p" by (rule absence_frame) (simp_all add: write_service_def)
  then show ?thesis using assms
    by (auto simp: flags_exact_def list_all_iff exact_part_def exact_service_def write_service_def set_update_where)
qed

lemma nobody_is_exact:
  "part_people a = [] \<Longrightarrow> \<not> epa_hasConflict a \<Longrightarrow> exact_part p a"
  "service_people b = [] \<Longrightarrow> \<not> esp_hasConflict b \<Longrightarrow> exact_service p b"
  by (simp_all add: exact_part_def exact_service_def exact_row_def split: option.split)

lemma checked_participant:
  assumes "checkPartParticipant p i x r e c released = Inr b" and "evt_congregationId e = c"
  shows "b = list_ex (absent_from p e) (option_list x)"
  using assms by (auto simp: checkPartParticipant_def Let_def option_list_def absent_from_def split: option.splits if_splits)

lemma checked_servant:
  assumes "checkServant p i x e c released = Inr b" and "evt_congregationId e = c"
  shows "b = list_ex (absent_from p e) (option_list x)"
  using assms by (auto simp: checkServant_def option_list_def absent_from_def split: option.splits if_splits)

text \<open>What a successful assignment did.\<close>

lemma assignPart_cases:
  assumes "assignPart i x y s topic c d p = (r, q)"
  obtains (refused) m where "r = Inl m" and "q = p"
  | (visitor) a e v where "find (is_part i c) (eventParts p) = Some a" and "event_with p (epa_eventId a) = Some e"
      and "q = write_part i c (external_part v (sanitizeText topic) d) p" and "s = Some v"
      and "r = Inr \<lparr>pas_assignment = external_part v (sanitizeText topic) d a, pas_previousAssigneeId = epa_assigneeId a,
        pas_previousAssistantId = epa_assistantId a\<rparr>"
  | (members) a e b b' where "find (is_part i c) (eventParts p) = Some a" and "event_with p (epa_eventId a) = Some e"
      and "s = None" and "areParticipantsDistinct x y"
      and "checkPartParticipant p i x Speaker e c (evt_status e = EventStatus_Released) = Inr b"
      and "checkPartParticipant p i y Reader e c (evt_status e = EventStatus_Released) = Inr b'"
      and "q = write_part i c (assigned_part x y (sanitizeText topic) (b \<or> b') d) p"
      and "r = Inr \<lparr>pas_assignment = assigned_part x y (sanitizeText topic) (b \<or> b') d a,
        pas_previousAssigneeId = epa_assigneeId a, pas_previousAssistantId = epa_assistantId a\<rparr>"
proof (cases "find (is_part i c) (eventParts p)")
  case None
  then have "r = Inl ''assignmentNotFound''" "q = p" using assms by (auto simp: assignPart_def)
  then show ?thesis by (rule refused)
next
  case a: (Some a)
  show ?thesis
  proof (cases "event_with p (epa_eventId a)")
    case None
    then have "r = Inl ''assignmentNotFound''" "q = p" using a assms by (auto simp: assignPart_def)
    then show ?thesis by (rule refused)
  next
    case e: (Some e)
    show ?thesis
    proof (cases s)
      case (Some v)
      let ?x = "find (\<lambda>x. xs_id x = v \<and> xs_congregationId x = c \<and> xs_archivedAt x = None) (externalSpeakers p)"
      show ?thesis
      proof (cases "checkExternalSpeakerValid ?x")
        case None
        then show ?thesis using assms visitor [OF a e _ Some] by (simp add: assignPart_def save_part_def a e Some)
      next
        case (Some m)
        then have "r = Inl m" "q = p" using assms by (simp_all add: assignPart_def a e \<open>s = Some v\<close>)
        then show ?thesis by (rule refused)
      qed
    next
      case None
      let ?speaker = "checkPartParticipant p i x Speaker e c (evt_status e = EventStatus_Released)"
      let ?reader = "checkPartParticipant p i y Reader e c (evt_status e = EventStatus_Released)"
      consider "\<not> areParticipantsDistinct x y" | m where "areParticipantsDistinct x y" "?speaker = Inl m"
        | b m where "areParticipantsDistinct x y" "?speaker = Inr b" "?reader = Inl m"
        | b b' where "areParticipantsDistinct x y" "?speaker = Inr b" "?reader = Inr b'"
        by (cases ?speaker; cases ?reader) auto
      then show ?thesis
      proof cases
        case 4
        then show ?thesis using assms members [OF a e None 4] by (simp add: assignPart_def save_part_def checkParticipantsDistinct_def a e None)
      qed (use assms refused in \<open>auto simp: assignPart_def checkParticipantsDistinct_def a e None\<close>)
    qed
  qed
qed

lemma assignServicePart_cases:
  assumes "assignServicePart i x c p = (r, q)"
  obtains (refused) m where "r = Inl m" and "q = p"
  | (assigned) a e b where "find (is_service i c) (eventServiceParts p) = Some a" and "event_with p (esp_eventId a) = Some e"
      and "checkServant p i x e c (evt_status e = EventStatus_Released) = Inr b"
      and "q = write_service i c (assigned_service x b) p"
      and "r = Inr \<lparr>sas_assignment = assigned_service x b a, sas_previousAssigneeId = esp_assigneeId a\<rparr>"
proof (cases "find (is_service i c) (eventServiceParts p)")
  case None
  then have "r = Inl ''assignmentNotFound''" "q = p" using assms by (auto simp: assignServicePart_def)
  then show ?thesis by (rule refused)
next
  case a: (Some a)
  show ?thesis
  proof (cases "event_with p (esp_eventId a)")
    case None
    then have "r = Inl ''assignmentNotFound''" "q = p" using a assms by (auto simp: assignServicePart_def)
    then show ?thesis by (rule refused)
  next
    case (Some e)
    then show ?thesis using a assms refused assigned [OF a Some]
      unfolding assignServicePart_def save_service_def by (auto split: sum.splits)
  qed
qed

lemma assignPart_keeps_flags:
  assumes line: "programme_in_line p" and flags: "flags_exact p"
  shows "programme_in_line (snd (assignPart i x y s topic c d p)) \<and> flags_exact (snd (assignPart i x y s topic c d p))"
proof -
  obtain r q where run: "assignPart i x y s topic c d p = (r, q)" by fastforce
  from run show ?thesis
  proof (cases rule: assignPart_cases)
    case refused
    then show ?thesis using run line flags by simp
  next
    case (visitor a e v)
    then show ?thesis using run line flags
      by (auto intro!: in_line_write flags_write_part nobody_is_exact simp: external_part_def part_people_def option_list_def)
  next
    case (members a e b b')
    have c: "evt_congregationId e = c" by (rule found_part(1) [OF line members(1,2)])
    have "exact_part p (assigned_part x y (sanitizeText topic) (b \<or> b') d a')"
      if "a' \<in> set (eventParts p)" "is_part i c a'" for a'
    proof -
      have "a' = a" using found_part(2) [OF line members(1,2)] that by blast
      then show ?thesis
        using members(2) checked_participant [OF members(5) c] checked_participant [OF members(6) c]
        by (simp add: exact_part_def exact_row_def assigned_part_def part_people_def list_ex_append)
    qed
    then show ?thesis using run line flags members(7)
      by (auto intro!: in_line_write flags_write_part simp: assigned_part_def)
  qed
qed

lemma assignServicePart_keeps_flags:
  assumes line: "programme_in_line p" and flags: "flags_exact p"
  shows "programme_in_line (snd (assignServicePart i x c p)) \<and> flags_exact (snd (assignServicePart i x c p))"
proof -
  obtain r q where run: "assignServicePart i x c p = (r, q)" by fastforce
  from run consider "snd (assignServicePart i x c p) = p"
    | a e b where "find (is_service i c) (eventServiceParts p) = Some a" "event_with p (esp_eventId a) = Some e"
        "checkServant p i x e c (evt_status e = EventStatus_Released) = Inr b"
        "snd (assignServicePart i x c p) = write_service i c (assigned_service x b) p"
    by (cases rule: assignServicePart_cases) (use run in auto)
  then show ?thesis
  proof cases
    case 1
    then show ?thesis using line flags by simp
  next
    case (2 a e b)
    have "exact_service p (assigned_service x b a')" if "a' \<in> set (eventServiceParts p)" "is_service i c a'" for a'
    proof -
      have "a' = a" using found_service(2) [OF line 2(1,2)] that by blast
      then show ?thesis
        using 2(2) checked_servant [OF 2(3) found_service(1) [OF line 2(1,2)]]
        by (simp add: exact_service_def exact_row_def assigned_service_def service_people_def)
    qed
    then show ?thesis using line flags unfolding 2(4)
      by (auto intro!: in_line_write flags_write_service simp: assigned_service_def)
  qed
qed

lemma unassign_keeps_flags:
  assumes "programme_in_line p" and "flags_exact p"
  shows "programme_in_line (snd (unassignPart i c p)) \<and> flags_exact (snd (unassignPart i c p))"
    and "programme_in_line (snd (unassignServicePart i c p)) \<and> flags_exact (snd (unassignServicePart i c p))"
  using assms
  by (auto intro!: in_line_write flags_write_part flags_write_service nobody_is_exact
    simp: unassignPart_def unassignServicePart_def cleared_part_def assigned_service_def part_people_def service_people_def option_list_def
    split: option.split)

section \<open>Absences\<close>

definition account_member :: "pdb \<Rightarrow> int \<Rightarrow> int option" where
  "account_member p accountId = Option.bind (find (\<lambda>u. acc_id u = accountId) (userAccounts (core p))) acc_memberId"

lemma creator_is_account: "creator_member p e = account_member p (evt_createdById e)"
  by (simp add: creator_member_def account_member_def)

lemma rows_owned:
  assumes "programme_in_line p"
  shows "a \<in> set (eventParts p) \<Longrightarrow> \<exists>e. event_with p (epa_eventId a) = Some e"
    and "b \<in> set (eventServiceParts p) \<Longrightarrow> \<exists>e. event_with p (esp_eventId b) = Some e"
  using assms owned_event [OF assms] unfolding programme_in_line_def list_all_iff by metis+

lemma add_event_frame:
  assumes "programme_in_line p" and "evt_id e \<notin> evt_id ` set (events p)"
  defines "q \<equiv> p\<lparr>events := events p @ [e]\<rparr>"
  shows "programme_in_line q" and "has_template_key q = has_template_key p" and "creator_member q = creator_member p"
    and "a \<in> set (eventParts q) \<Longrightarrow> event_with q (epa_eventId a) = event_with p (epa_eventId a)"
    and "b \<in> set (eventServiceParts q) \<Longrightarrow> event_with q (esp_eventId b) = event_with p (esp_eventId b)"
  using assms(1,2) rows_owned [OF assms(1)]
  unfolding programme_in_line_def owned_def q_def
  by (auto simp: list_all_iff fun_eq_iff has_template_key_def template_of_def creator_member_def event_with_def find_append
    split: option.split)

lemma createDayOff_keeps_flags:
  assumes line: "programme_in_line p" and flags: "flags_exact p" and keys: "fresh_rows k"
    and account: "account_member p accountId = memberId"
  shows "programme_in_line (snd (createDayOff k name accountId memberId s t c p)) \<and>
    flags_exact (snd (createDayOff k name accountId memberId s t c p))"
proof (cases "snd (createDayOff k name accountId memberId s t c p) = p")
  case True
  then show ?thesis using line flags by simp
next
  case False
  then obtain s' t' tpl where args: "s = Some s'" "t = Some t'" "\<not> s' > t'"
    and tpl: "find (\<lambda>tpl. tpl_key tpl = TemplateKey_DayOff \<and> tpl_congregationId tpl = c) (eventTemplates p) = Some tpl"
    by (auto simp: createDayOff_def split: option.splits if_splits)
  define e where "e = \<lparr>evt_id = key_event k (events p), evt_name = name, evt_startDate = s', evt_endDate = t',
    evt_status = EventStatus_Released, evt_templateId = Some (tpl_id tpl), evt_createdById = accountId, evt_congregationId = c\<rparr>"
  define q where "q = p\<lparr>events := events p @ [e]\<rparr>"
  have run: "snd (createDayOff k name accountId memberId s t c p) =
      (case memberId of None \<Rightarrow> q | Some m \<Rightarrow> refreshConflictFlags m s' t' c q)"
    using args(3) by (cases memberId) (simp_all add: createDayOff_def args(1,2) tpl e_def q_def Let_def)
  have "evt_id e \<notin> evt_id ` set (events p)" using keys by (simp add: fresh_rows_def e_def)
  note frame = add_event_frame [OF line this, folded q_def]
  have creator: "creator_member p e = memberId" using account by (simp add: creator_is_account e_def)
  have absent: "absent_from q d x = (absent_from p d x \<or>
      evt_congregationId d = c \<and> memberId = Some x \<and> has_template_key p TemplateKey_DayOff e \<and> overlapping d s' t')" for d x
    using creator unfolding absent_from_def checkDayOffConflict_def frame(2,3)
    by (auto simp: q_def overlapping_def e_def)
  have rows: "a \<in> set (eventParts q) \<Longrightarrow> exact_part p a" "b \<in> set (eventServiceParts q) \<Longrightarrow> exact_service p b" for a b
    using flags by (auto simp: q_def flags_exact_def list_all_iff)
  show ?thesis
  proof (cases memberId)
    case None
    have "flags_exact q" by (rule flags_kept [where p = p]) (use frame rows absent None in auto)
    then show ?thesis using run None frame(1) by simp
  next
    case (Some m)
    have "flags_exact (refreshConflictFlags m s' t' c q)"
      by (rule refresh_restores_flags [where p = p]) (use frame rows absent Some in auto)
    then show ?thesis using run Some refresh_in_line [OF frame(1)] by simp
  qed
qed

lemma remove_rows_frame:
  fixes gone :: "event \<Rightarrow> bool"
  assumes line: "programme_in_line p"
  defines "q \<equiv> remove_event_rows gone p"
  shows "programme_in_line q" and "has_template_key q = has_template_key p" and "creator_member q = creator_member p"
    and "a \<in> set (eventParts q) \<Longrightarrow> a \<in> set (eventParts p) \<and> event_with q (epa_eventId a) = event_with p (epa_eventId a)"
    and "b \<in> set (eventServiceParts q) \<Longrightarrow> b \<in> set (eventServiceParts p) \<and> event_with q (esp_eventId b) = event_with p (esp_eventId b)"
proof -
  have dist: "distinct (map evt_id (events p))" "distinct (map evt_id (events q))"
    using line by (auto simp: programme_in_line_def q_def remove_event_rows_def Let_def distinct_map_delete_where)
  have kept: "event_with q i = event_with p i" if "i \<notin> evt_id ` set (filter gone (events p))" for i
  proof (rule option_eqI)
    fix e
    show "event_with q i = Some e \<longleftrightarrow> event_with p i = Some e"
      unfolding event_with_iff [OF dist(1)] event_with_iff [OF dist(2)] using that
      by (auto simp: q_def remove_event_rows_def Let_def)
  qed
  show "a \<in> set (eventParts q) \<Longrightarrow> a \<in> set (eventParts p) \<and> event_with q (epa_eventId a) = event_with p (epa_eventId a)"
    using kept by (auto simp: q_def remove_event_rows_def Let_def)
  show "b \<in> set (eventServiceParts q) \<Longrightarrow> b \<in> set (eventServiceParts p) \<and> event_with q (esp_eventId b) = event_with p (esp_eventId b)"
    using kept by (auto simp: q_def remove_event_rows_def Let_def)
  have "owned q i c" if "owned p i c" "i \<notin> evt_id ` set (filter gone (events p))" for i c
    using that by (auto simp: owned_def list_ex_iff is_event_def q_def remove_event_rows_def Let_def)
  then show "programme_in_line q"
    using line unfolding programme_in_line_def q_def remove_event_rows_def Let_def
    by (auto simp: list_all_iff distinct_map_delete_where)
  show "has_template_key q = has_template_key p" "creator_member q = creator_member p"
    by (simp_all add: fun_eq_iff has_template_key_def template_of_def creator_member_def q_def remove_event_rows_def Let_def)
qed

lemma removed_events: "events (remove_event_rows gone p) = delete_where gone (events p)"
  by (simp add: remove_event_rows_def Let_def)

lemma absent_after_removal:
  assumes "programme_in_line p" and "absent_from (remove_event_rows gone p) d x \<noteq> absent_from p d x"
  obtains e where "e \<in> set (events p)" and "gone e" and "has_template_key p TemplateKey_DayOff e"
    and "creator_member p e = Some x" and "evt_congregationId d = evt_congregationId e"
    and "overlapping d (evt_startDate e) (evt_endDate e)"
proof -
  let ?q = "remove_event_rows gone p"
  let ?hit = "\<lambda>a. evt_congregationId a = evt_congregationId d \<and> creator_member p a = Some x \<and>
    has_template_key p TemplateKey_DayOff a \<and> overlapping a (evt_startDate d) (evt_endDate d)"
  have q: "absent_from ?q d x = list_ex ?hit (delete_where gone (events p))"
    unfolding absent_from_def checkDayOffConflict_def removed_events
    by (simp only: remove_rows_frame(2,3) [OF assms(1)])
  have p: "absent_from p d x = list_ex ?hit (events p)"
    by (simp add: absent_from_def checkDayOffConflict_def)
  obtain e where e: "e \<in> set (events p)" "gone e" "?hit e"
    using assms(2) unfolding q p list_ex_iff by auto
  have "overlapping d (evt_startDate e) (evt_endDate e)" using e(3) by (simp add: overlapping_def)
  then show thesis using that [OF e(1,2)] e(3) by simp
qed

lemma deleteDayOff_keeps_flags:
  assumes line: "programme_in_line p" and flags: "flags_exact p"
    and account: "\<And>e. find (is_event i c) (events p) = Some e \<Longrightarrow> memberId = creator_member p e"
  shows "programme_in_line (snd (deleteDayOff i memberId c p)) \<and> flags_exact (snd (deleteDayOff i memberId c p))"
proof (cases "find (is_event i c) (events p)")
  case None
  then show ?thesis using line flags by (simp add: deleteDayOff_def)
next
  case (Some e)
  let ?q = "remove_event_rows (is_event i c) p"
  have e: "e \<in> set (events p)" "is_event i c e" using find_Some_in [OF Some] by simp_all
  have only: "d = e" if "d \<in> set (events p)" "is_event i c d" for d
    using that e line by (auto simp: programme_in_line_def distinct_map inj_on_def is_event_def)
  note frame = remove_rows_frame [OF line, where gone = "is_event i c"]
  have absent: "creator_member p e = Some x \<and> evt_congregationId d = c \<and> overlapping d (evt_startDate e) (evt_endDate e)"
    if changed: "absent_from ?q d x \<noteq> absent_from p d x" for d x
  proof -
    obtain a where "a \<in> set (events p)" "is_event i c a" "creator_member p a = Some x"
      "evt_congregationId d = evt_congregationId a" "overlapping d (evt_startDate a) (evt_endDate a)"
      using absent_after_removal [OF line changed] by blast
    moreover from this have "a = e" using only by blast
    ultimately show ?thesis by (simp add: is_event_def)
  qed
  have rows: "a \<in> set (eventParts ?q) \<Longrightarrow> exact_part p a" "b \<in> set (eventServiceParts ?q) \<Longrightarrow> exact_service p b" for a b
    using flags frame(4,5) by (auto simp: flags_exact_def list_all_iff)
  have run: "snd (deleteDayOff i memberId c p) =
      (case memberId of None \<Rightarrow> ?q | Some m \<Rightarrow> refreshConflictFlags m (evt_startDate e) (evt_endDate e) c ?q)"
    by (simp add: deleteDayOff_def Some Let_def)
  show ?thesis
  proof (cases memberId)
    case None
    then have "flags_exact ?q" using account [OF Some] absent
      by (intro flags_kept [where p = p]) (use frame rows in auto)
    then show ?thesis using run None frame(1) by simp
  next
    case m: (Some m)
    have "flags_exact (refreshConflictFlags m (evt_startDate e) (evt_endDate e) c ?q)"
      by (rule refresh_restores_flags [where p = p]) (use frame rows absent m account [OF Some] in auto)
    then show ?thesis using run m refresh_in_line [OF frame(1)] by simp
  qed
qed

section \<open>Publishing, deleting and editing\<close>

lemma set_status_frame:
  defines "q \<equiv> \<lambda>i c status p. set_status i c status p"
  shows "has_template_key (q i c status p) = has_template_key p" and "checkDayOffConflict (q i c status p) = checkDayOffConflict p"
    and "event_with (q i c status p) j = map_option (\<lambda>e. if is_event i c e then e\<lparr>evt_status := status\<rparr> else e) (event_with p j)"
    and "map evt_id (events (q i c status p)) = map evt_id (events p)"
    and "owned (q i c status p) j d = owned p j d"
    and "eventParts (q i c status p) = eventParts p" and "eventServiceParts (q i c status p) = eventServiceParts p"
proof -
  show k: "has_template_key (q i c status p) = has_template_key p"
    by (simp add: fun_eq_iff has_template_key_def template_of_def q_def set_status_def)
  have m: "creator_member (q i c status p) = creator_member p"
    by (simp add: fun_eq_iff creator_member_def q_def set_status_def)
  have blind: "has_template_key p key (e\<lparr>evt_status := status\<rparr>) = has_template_key p key e"
    "creator_member p (e\<lparr>evt_status := status\<rparr>) = creator_member p e" for key e
    by (simp_all add: has_template_key_def template_of_def creator_member_def)
  show "checkDayOffConflict (q i c status p) = checkDayOffConflict p"
    unfolding checkDayOffConflict_def fun_eq_iff k m
    by (auto simp: q_def set_status_def overlapping_def blind intro!: list_ex_update_same)
  show "event_with (q i c status p) j = map_option (\<lambda>e. if is_event i c e then e\<lparr>evt_status := status\<rparr> else e) (event_with p j)"
    unfolding event_with_def q_def set_status_def
    by (simp, rule find_update_where) (simp_all add: is_event_def)
  show "map evt_id (events (q i c status p)) = map evt_id (events p)"
    by (simp add: q_def set_status_def update_where_def)
  show "owned (q i c status p) j d = owned p j d"
    by (auto simp: owned_def q_def set_status_def is_event_def intro!: list_ex_update_same)
qed (simp_all add: q_def set_status_def)

lemma set_status_keeps_flags:
  assumes "programme_in_line p" and "flags_exact p"
  shows "programme_in_line (set_status i c status p) \<and> flags_exact (set_status i c status p)"
proof -
  have "exact_row (set_status i c status p) = exact_row p"
    unfolding exact_row_def absent_from_def set_status_frame
    by (auto simp: fun_eq_iff has_template_key_def template_of_def split: option.split)
  then show ?thesis using assms
    by (simp add: programme_in_line_def flags_exact_def exact_part_def exact_service_def set_status_frame list_all_iff)
qed

text \<open>Operations on other columns and tables.\<close>

lemma same_programme:
  assumes "events q = events p" and "eventTemplates q = eventTemplates p" and "userAccounts (core q) = userAccounts (core p)"
    and "eventParts q = eventParts p" and "eventServiceParts q = eventServiceParts p"
  shows "programme_in_line q = programme_in_line p" and "flags_exact q = flags_exact p"
  using absence_frame(5) [OF assms(1-3)]
  by (simp_all add: programme_in_line_def owned_def flags_exact_def exact_part_def exact_service_def assms list_all_iff)

lemma audit_programme [simp]:
  "programme_in_line (programme_audit a c u t i m p) = programme_in_line p"
  "flags_exact (programme_audit a c u t i m p) = flags_exact p"
  by (rule same_programme; simp)+

lemma release_keeps_flags:
  assumes "programme_in_line p" and "flags_exact p"
  shows "programme_in_line (snd (releaseEvent i c actor p)) \<and> flags_exact (snd (releaseEvent i c actor p))"
  using assms set_status_keeps_flags [OF assms]
  by (auto simp: releaseEvent_def split: option.split)

lemma unrelease_keeps_flags:
  assumes "programme_in_line p" and "flags_exact p"
  shows "programme_in_line (snd (unreleaseEvent now i c actor p)) \<and> flags_exact (snd (unreleaseEvent now i c actor p))"
proof -
  have note_rows: "programme_in_line (q\<lparr>notificationEvents := ns\<rparr>) = programme_in_line q"
    "flags_exact (q\<lparr>notificationEvents := ns\<rparr>) = flags_exact q" for q ns
    by (rule same_programme; simp)+
  show ?thesis
    using assms set_status_keeps_flags [OF assms]
    by (auto simp: unreleaseEvent_def Let_def note_rows split: option.split)
qed

lemma deleteEvent_keeps_flags:
  assumes line: "programme_in_line p" and flags: "flags_exact p"
    and programme: "list_ex (\<lambda>e. is_event i c e \<and> has_template_key p TemplateKey_DayOff e) (events p) = False"
  shows "programme_in_line (snd (deleteEvent i c p)) \<and> flags_exact (snd (deleteEvent i c p))"
proof (cases "find (is_event i c) (events p)")
  case None
  then show ?thesis using line flags by (simp add: deleteEvent_def)
next
  case (Some e)
  note frame = remove_rows_frame [OF line, where gone = "is_event i c"]
  have "flags_exact (remove_event_rows (is_event i c) p)"
  proof (rule flags_kept [where p = p])
    show "absent_from (remove_event_rows (is_event i c) p) d x = absent_from p d x" for d x
    proof (rule ccontr)
      assume "absent_from (remove_event_rows (is_event i c) p) d x \<noteq> absent_from p d x"
      then obtain a where "a \<in> set (events p)" "is_event i c a" "has_template_key p TemplateKey_DayOff a"
        using absent_after_removal [OF line] by blast
      then show False using programme by (auto simp: list_ex_iff)
    qed
  qed (use frame flags in \<open>auto simp: flags_exact_def list_all_iff\<close>)
  then show ?thesis using frame(1) by (simp add: deleteEvent_def Some)
qed

lemma set_allowed_roles_frame [simp]:
  "events (snd (setPartAssignmentAllowedRoles i kind ids c p)) = events p"
  "eventTemplates (snd (setPartAssignmentAllowedRoles i kind ids c p)) = eventTemplates p"
  "userAccounts (core (snd (setPartAssignmentAllowedRoles i kind ids c p))) = userAccounts (core p)"
  "eventParts (snd (setPartAssignmentAllowedRoles i kind ids c p)) = eventParts p"
  "eventServiceParts (snd (setPartAssignmentAllowedRoles i kind ids c p)) = eventServiceParts p"
  "events (snd (setServicePartAssignmentAllowedRoles i ids c p)) = events p"
  "eventTemplates (snd (setServicePartAssignmentAllowedRoles i ids c p)) = eventTemplates p"
  "userAccounts (core (snd (setServicePartAssignmentAllowedRoles i ids c p))) = userAccounts (core p)"
  "eventParts (snd (setServicePartAssignmentAllowedRoles i ids c p)) = eventParts p"
  "eventServiceParts (snd (setServicePartAssignmentAllowedRoles i ids c p)) = eventServiceParts p"
  by (simp_all add: setPartAssignmentAllowedRoles_def setServicePartAssignmentAllowedRoles_def Let_def split: prod.split)

lemma allowed_roles_frame [simp]:
  "events (writePartAllowedRoles i x y c u p) = events p"
  "eventTemplates (writePartAllowedRoles i x y c u p) = eventTemplates p"
  "userAccounts (core (writePartAllowedRoles i x y c u p)) = userAccounts (core p)"
  "eventParts (writePartAllowedRoles i x y c u p) = eventParts p"
  "eventServiceParts (writePartAllowedRoles i x y c u p) = eventServiceParts p"
  "events (write_service_roles i ids c u p) = events p"
  "eventTemplates (write_service_roles i ids c u p) = eventTemplates p"
  "userAccounts (core (write_service_roles i ids c u p)) = userAccounts (core p)"
  "eventParts (write_service_roles i ids c u p) = eventParts p"
  "eventServiceParts (write_service_roles i ids c u p) = eventServiceParts p"
  by (simp_all add: writePartAllowedRoles_def set_slot_def write_service_roles_def service_roles_audit_def Let_def
    case_prod_beta split: option.split)

lemma allowed_roles_programme [simp]:
  "programme_in_line (writePartAllowedRoles i x y c u p) = programme_in_line p"
  "flags_exact (writePartAllowedRoles i x y c u p) = flags_exact p"
  "programme_in_line (write_service_roles i ids c u p) = programme_in_line p"
  "flags_exact (write_service_roles i ids c u p) = flags_exact p"
  by (rule same_programme; simp)+

lemma add_rows_keep_flags:
  assumes "programme_in_line p" and "flags_exact p" and "owned p i c"
  shows "epa_id a \<notin> epa_id ` set (eventParts p) \<Longrightarrow> epa_eventId a = i \<Longrightarrow> epa_congregationId a = c \<Longrightarrow> exact_part p a \<Longrightarrow>
      programme_in_line (p\<lparr>eventParts := eventParts p @ [a]\<rparr>) \<and> flags_exact (p\<lparr>eventParts := eventParts p @ [a]\<rparr>)"
    and "esp_id b \<notin> esp_id ` set (eventServiceParts p) \<Longrightarrow> esp_eventId b = i \<Longrightarrow> esp_congregationId b = c \<Longrightarrow> exact_service p b \<Longrightarrow>
      programme_in_line (p\<lparr>eventServiceParts := eventServiceParts p @ [b]\<rparr>) \<and> flags_exact (p\<lparr>eventServiceParts := eventServiceParts p @ [b]\<rparr>)"
proof -
  have "exact_row (p\<lparr>eventParts := xs\<rparr>) = exact_row p" "exact_row (p\<lparr>eventServiceParts := ys\<rparr>) = exact_row p" for xs ys
    by (rule absence_frame; simp)+
  then show "epa_id a \<notin> epa_id ` set (eventParts p) \<Longrightarrow> epa_eventId a = i \<Longrightarrow> epa_congregationId a = c \<Longrightarrow> exact_part p a \<Longrightarrow>
      programme_in_line (p\<lparr>eventParts := eventParts p @ [a]\<rparr>) \<and> flags_exact (p\<lparr>eventParts := eventParts p @ [a]\<rparr>)"
    "esp_id b \<notin> esp_id ` set (eventServiceParts p) \<Longrightarrow> esp_eventId b = i \<Longrightarrow> esp_congregationId b = c \<Longrightarrow> exact_service p b \<Longrightarrow>
      programme_in_line (p\<lparr>eventServiceParts := eventServiceParts p @ [b]\<rparr>) \<and> flags_exact (p\<lparr>eventServiceParts := eventServiceParts p @ [b]\<rparr>)"
    using assms by (simp_all add: programme_in_line_def flags_exact_def exact_part_def exact_service_def owned_def list_all_iff)
qed

lemma addPart_keeps_flags:
  assumes "programme_in_line p" and "flags_exact p" and "owned p eventId c" and "fresh_rows k"
  shows "programme_in_line (snd (addPartAssignment k eventId d c actor p)) \<and> flags_exact (snd (addPartAssignment k eventId d c actor p))"
    and "programme_in_line (snd (addServicePartAssignment k eventId name ids c actor p)) \<and>
      flags_exact (snd (addServicePartAssignment k eventId name ids c actor p))"
proof -
  let ?a = "blank_part (key_part k (eventParts p)) eventId None c d"
  let ?b = "blank_service (key_service k (eventServiceParts p)) eventId None None c name"
  have "exact_part p ?a" "exact_service p ?b"
    by (rule nobody_is_exact; simp add: part_people_def service_people_def option_list_def blank_part_def blank_service_def)+
  then have "programme_in_line (p\<lparr>eventParts := eventParts p @ [?a]\<rparr>) \<and> flags_exact (p\<lparr>eventParts := eventParts p @ [?a]\<rparr>)"
    "programme_in_line (p\<lparr>eventServiceParts := eventServiceParts p @ [?b]\<rparr>) \<and> flags_exact (p\<lparr>eventServiceParts := eventServiceParts p @ [?b]\<rparr>)"
    using assms(4) by (intro add_rows_keep_flags [OF assms(1-3)]; simp add: blank_part_def blank_service_def fresh_rows_def)+
  then show "programme_in_line (snd (addPartAssignment k eventId d c actor p)) \<and> flags_exact (snd (addPartAssignment k eventId d c actor p))"
    "programme_in_line (snd (addServicePartAssignment k eventId name ids c actor p)) \<and>
      flags_exact (snd (addServicePartAssignment k eventId name ids c actor p))"
    using assms(1,2)
    by (simp_all add: addPartAssignment_def addServicePartAssignment_def Let_def)
qed

lemma edits_keep_flags:
  assumes "programme_in_line p" and "flags_exact p"
  shows "programme_in_line (snd (updatePartAssignment i d c actor p)) \<and> flags_exact (snd (updatePartAssignment i d c actor p))"
    and "programme_in_line (snd (updateServicePartAssignment i name ids c actor p)) \<and>
      flags_exact (snd (updateServicePartAssignment i name ids c actor p))"
proof -
  have same: "exact_part p (edited_part d a) = exact_part p a" "exact_service p (b\<lparr>esp_name := name\<rparr>) = exact_service p b" for a b
    by (simp_all add: exact_part_def exact_service_def edited_part_def part_people_def service_people_def)
  have key: "epa_id (edited_part d a) = epa_id a \<and> epa_eventId (edited_part d a) = epa_eventId a \<and>
      epa_congregationId (edited_part d a) = epa_congregationId a" for a
    by (simp add: edited_part_def)
  have part: "programme_in_line (write_part i c (edited_part d) p) \<and> flags_exact (write_part i c (edited_part d) p)"
    using assms by (intro conjI in_line_write flags_write_part key) (auto simp: same flags_exact_def list_all_iff)
  have service: "programme_in_line (write_service i c (\<lambda>a. a\<lparr>esp_name := name\<rparr>) p) \<and> flags_exact (write_service i c (\<lambda>a. a\<lparr>esp_name := name\<rparr>) p)"
    using assms by (intro conjI in_line_write flags_write_service) (auto simp: same flags_exact_def list_all_iff)
  show "programme_in_line (snd (updatePartAssignment i d c actor p)) \<and> flags_exact (snd (updatePartAssignment i d c actor p))"
    using assms part by (simp add: updatePartAssignment_def split: option.split)
  show "programme_in_line (snd (updateServicePartAssignment i name ids c actor p)) \<and>
      flags_exact (snd (updateServicePartAssignment i name ids c actor p))"
    using assms service by (simp add: updateServicePartAssignment_def split: option.split)
qed

end
