(* ===== verification/Programme_Steps.thy ===== *)
theory Programme_Steps
  imports Programme_Flags
begin

text \<open>
  A programme through its life: the steps the routes of the application take on events, parts,
  service parts and absences, the flags along every sequence of them, what publishing an event then
  guarantees, and the one operation that breaks the flags.
\<close>

section \<open>The remaining steps\<close>

lemma notify_frame [simp]:
  "events (notify k now ps p) = events p" "eventTemplates (notify k now ps p) = eventTemplates p"
  "core (notify k now ps p) = core p"
  "eventParts (notify k now ps p) = eventParts p" "eventServiceParts (notify k now ps p) = eventServiceParts p"
  by (simp_all add: notify_def handleCancellation_def queueDebounced_def pushToEmailQueue_def Let_def
    split: option.split NotificationTypeConfig.split)

lemma freeform_keeps_flags:
  assumes line: "programme_in_line p" and flags: "flags_exact p" and keys: "fresh_rows k"
    and templates: "distinct (map tpl_id (eventTemplates p))"
  shows "programme_in_line (snd (createFreeformEvent k d p)) \<and> flags_exact (snd (createFreeformEvent k d p))"
proof (cases "find (\<lambda>t. tpl_key t = TemplateKey_Freeform \<and> tpl_congregationId t = nev_congregationId d) (eventTemplates p)")
  case None
  then show ?thesis using line flags by (simp add: createFreeformEvent_def)
next
  case (Some t)
  define e where "e = event_row k d (tpl_id t) p"
  define q where "q = p\<lparr>events := events p @ [e]\<rparr>"
  have t: "t \<in> set (eventTemplates p)" "tpl_key t = TemplateKey_Freeform" using find_Some_in [OF Some] by simp_all
  have kind: "\<not> has_template_key p TemplateKey_DayOff e"
    using t find_unique_iff [OF templates, of "tpl_id t" t]
    by (simp add: has_template_key_def template_of_def e_def event_row_def programme_constants)
  have "evt_id e \<notin> evt_id ` set (events p)" using keys by (simp add: fresh_rows_def e_def event_row_def)
  note frame = add_event_frame [OF line this, folded q_def]
  have absent: "absent_from q = absent_from p"
    unfolding fun_eq_iff absent_from_def checkDayOffConflict_def frame(2,3) using kind by (simp add: q_def)
  have "flags_exact q"
    by (rule flags_kept [where p = p]) (use frame flags absent in \<open>auto simp: q_def flags_exact_def list_all_iff\<close>)
  then show ?thesis using frame(1) by (simp add: createFreeformEvent_def Some Let_def q_def e_def)
qed

lemma delete_rows_keep_flags:
  assumes "programme_in_line p" and "flags_exact p"
  shows "programme_in_line (snd (deletePartAssignment i c p)) \<and> flags_exact (snd (deletePartAssignment i c p))"
    and "programme_in_line (snd (deleteServicePartAssignment i c p)) \<and> flags_exact (snd (deleteServicePartAssignment i c p))"
proof -
  have part: "exact_row (p\<lparr>eventParts := xs, eventPartAllowedRoles := rs\<rparr>) = exact_row p" for xs rs by (rule absence_frame; simp)
  have service: "exact_row (p\<lparr>eventServiceParts := xs, eventServicePartAllowedRoles := rs\<rparr>) = exact_row p" for xs rs
    by (rule absence_frame; simp)
  show "programme_in_line (snd (deletePartAssignment i c p)) \<and> flags_exact (snd (deletePartAssignment i c p))"
    using assms unfolding deletePartAssignment_def programme_in_line_def owned_def flags_exact_def exact_part_def exact_service_def
    by (auto simp: part list_all_iff distinct_map_delete_where split: option.split)
  show "programme_in_line (snd (deleteServicePartAssignment i c p)) \<and> flags_exact (snd (deleteServicePartAssignment i c p))"
    using assms unfolding deleteServicePartAssignment_def programme_in_line_def owned_def flags_exact_def exact_part_def exact_service_def
    by (auto simp: service list_all_iff distinct_map_delete_where split: option.split)
qed

lemma reorder_keeps_flags:
  "programme_in_line p \<Longrightarrow> flags_exact p \<Longrightarrow>
    programme_in_line (snd (reorder_from n c ids p)) \<and> flags_exact (snd (reorder_from n c ids p))"
proof (induction ids arbitrary: n p)
  case (Cons x xs)
  let ?q = "write_part x c (\<lambda>a. a\<lparr>epa_order := n * 5\<rparr>) p"
  have "exact_part p (a\<lparr>epa_order := n * 5\<rparr>) = exact_part p a" for a
    by (simp add: exact_part_def part_people_def)
  then have "programme_in_line ?q \<and> flags_exact ?q"
    using Cons.prems by (intro conjI in_line_write flags_write_part) (auto simp: flags_exact_def list_all_iff)
  then show ?case using Cons.IH Cons.prems by simp
qed simp

section \<open>Steps\<close>

text \<open>
  The account that declares or withdraws an absence passes its own member; a part is added to an
  event of the congregation; the routes of the programme delete programme events. Events are moved
  by \<open>updateEvent\<close>, which is left out: see below.
\<close>

inductive programme_step :: "pdb \<Rightarrow> pdb \<Rightarrow> bool" where
  part_assigned: "programme_step p (snd (assignPart i x y s topic c d p))"
| service_assigned: "programme_step p (snd (assignServicePart i x c p))"
| part_cleared: "programme_step p (snd (unassignPart i c p))"
| service_cleared: "programme_step p (snd (unassignServicePart i c p))"
| absence_declared: "fresh_rows k \<Longrightarrow> account_member p accountId = memberId \<Longrightarrow>
    programme_step p (snd (createDayOff k name accountId memberId s t c p))"
| absence_withdrawn: "(\<And>e. find (is_event i c) (events p) = Some e \<Longrightarrow> memberId = creator_member p e) \<Longrightarrow>
    programme_step p (snd (deleteDayOff i memberId c p))"
| event_released: "programme_step p (snd (releaseEvent i c actor p))"
| event_unreleased: "programme_step p (snd (unreleaseEvent now i c actor p))"
| event_created: "fresh_rows k \<Longrightarrow> distinct (map tpl_id (eventTemplates p)) \<Longrightarrow> programme_step p (snd (createFreeformEvent k new p))"
| event_deleted: "\<not> list_ex (\<lambda>e. is_event i c e \<and> has_template_key p TemplateKey_DayOff e) (events p) \<Longrightarrow>
    programme_step p (snd (deleteEvent i c p))"
| part_added: "fresh_rows k \<Longrightarrow> owned p eventId c \<Longrightarrow> programme_step p (snd (addPartAssignment k eventId data c actor p))"
| service_added: "fresh_rows k \<Longrightarrow> owned p eventId c \<Longrightarrow>
    programme_step p (snd (addServicePartAssignment k eventId name ids c actor p))"
| part_edited: "programme_step p (snd (updatePartAssignment i data c actor p))"
| service_edited: "programme_step p (snd (updateServicePartAssignment i name ids c actor p))"
| part_deleted: "programme_step p (snd (deletePartAssignment i c p))"
| service_deleted: "programme_step p (snd (deleteServicePartAssignment i c p))"
| parts_reordered: "programme_step p (snd (reorderPartAssignments c order p))"
| notified: "programme_step p (notify k now ps p)"

lemma step_keeps_flags:
  assumes "programme_step p q" and "programme_in_line p" and "flags_exact p"
  shows "programme_in_line q \<and> flags_exact q"
  using assms
proof (cases rule: programme_step.cases)
  case (part_added k eventId c data actor)
  then show ?thesis using addPart_keeps_flags(1) [OF assms(2,3)] by simp
next
  case (service_added k eventId c name ids actor)
  then show ?thesis using addPart_keeps_flags(2) [OF assms(2,3)] by simp
next
  case (notified k now ps)
  have "programme_in_line (notify k now ps p) = programme_in_line p" "flags_exact (notify k now ps p) = flags_exact p"
    by (rule same_programme; simp)+
  then show ?thesis using notified assms by simp
next
  case (absence_withdrawn i c memberId)
  then show ?thesis using deleteDayOff_keeps_flags [OF assms(2,3)] by simp
qed (use assms(2,3) assignPart_keeps_flags assignServicePart_keeps_flags unassign_keeps_flags createDayOff_keeps_flags
  release_keeps_flags unrelease_keeps_flags freeform_keeps_flags deleteEvent_keeps_flags edits_keep_flags
  delete_rows_keep_flags reorder_keeps_flags in \<open>simp_all add: reorderPartAssignments_def\<close>)

lemma steps_keep_flags:
  "programme_step\<^sup>*\<^sup>* p q \<Longrightarrow> programme_in_line p \<Longrightarrow> flags_exact p \<Longrightarrow> programme_in_line q \<and> flags_exact q"
  by (induction rule: rtranclp_induct) (auto dest: step_keeps_flags)

section \<open>What the flags promise\<close>

text \<open>Congregation 1: member 1 has account 10; event 1 is a meeting with one part and one service, event 2 an absence.\<close>

definition sample_event :: "int \<Rightarrow> int \<Rightarrow> int \<Rightarrow> int \<Rightarrow> event" where
  "sample_event i templateId s t =
     \<lparr>evt_id = i, evt_name = ''Meeting'', evt_startDate = s, evt_endDate = t, evt_status = EventStatus_Draft,
      evt_templateId = Some templateId, evt_createdById = 10, evt_congregationId = 1\<rparr>"

definition sample_template :: "int \<Rightarrow> string \<Rightarrow> event_template" where
  "sample_template i key =
     \<lparr>tpl_id = i, tpl_name = key, tpl_key = key, tpl_description = [], tpl_weekDay = Some 2, tpl_isRecurring = True,
      tpl_startTime = [], tpl_endTime = [], tpl_color = [], tpl_congregationId = 1\<rparr>"

definition sample_data :: PartData where
  "sample_data = \<lparr>pd_name = ''Reading'', pd_section = [], pd_track = ''main'', pd_trackOrder = None, pd_order = 0,
     pd_durationMin = None, pd_allowExternalSpeaker = False, pd_speakerLabel = None, pd_readerLabel = None, pd_presetId = None,
     pd_allowedSpeakerRoleIds = None, pd_allowedReaderRoleIds = None\<rparr>"

definition sample_programme :: pdb where
  "sample_programme = \<lparr>core = empty_db\<lparr>members := [sample_member 1], userAccounts := [sample_login 10 (Some 1)]\<rparr>,
     events = [sample_event 1 2 100 100],
     eventTemplates = [sample_template 1 TemplateKey_DayOff, sample_template 2 ''midweek''],
     templateParts = [], templateServiceParts = [], templatePartAllowedRoles = [], templateServicePartAllowedRoles = [],
     templateResponsibles = [], eventParts = [(blank_part 5 1 None 1 sample_data)\<lparr>epa_assigneeId := Some 1\<rparr>],
     eventServiceParts = [], eventPartAllowedRoles = [], eventServicePartAllowedRoles = [], partPresets = [],
     externalSpeakers = [], notificationEvents = [], notificationPreferences = [], emailQueue = []\<rparr>"

lemmas sample_programme_defs = sample_programme_def sample_event_def sample_template_def sample_data_def sample_member_def
  sample_login_def empty_db_def blank_part_def given_def programme_constants

lemma sample_in_line: "programme_in_line sample_programme" "flags_exact sample_programme"
  by (simp_all add: programme_in_line_def owned_def is_event_def flags_exact_def exact_part_def exact_row_def part_people_def
    option_list_def absent_from_def checkDayOffConflict_def event_with_def creator_member_def has_template_key_def template_of_def
    sample_programme_defs)




lemmas day_off_eval = createDayOff_def refreshConflictFlags_def refreshed_events_def refreshed_parts_def refreshed_services_def
  participant_ids_def absences_in_window_def conflict_ranges_def add_range_def flag_parts_def flag_services_def
  part_in_conflict_def service_in_conflict_def isAbsent_def overlapping_def option_list_def creator_member_def
  has_template_key_def template_of_def event_with_def serial_keys_def next_key_def js_set_def
  update_where_def Let_def


text \<open>The people a release names are those of its rows.\<close>

lemma release_targets:
  assumes "t \<in> set (computeNotifyTargets parts services)"
  shows "(\<exists>a \<in> set parts. tg_memberId t \<in> set (part_people a)) \<or> (\<exists>b \<in> set services. tg_memberId t \<in> set (service_people b))"
  using assms by (auto simp: computeNotifyTargets_def part_targets_def service_targets_def part_people_def service_people_def
    option_list_def split: option.splits)

lemma released_cases:
  assumes "releaseEvent i c actor p = (Some (ReleaseDone e targets), q)" and "find (is_event i c) (events p) = Some d"
    and "evt_status d \<noteq> EventStatus_Released"
  shows "targets = computeNotifyTargets (parts_of p i) (services_of p i)"
    and "a \<in> set (parts_of p i) \<Longrightarrow> \<not> epa_hasConflict a" and "b \<in> set (services_of p i) \<Longrightarrow> \<not> esp_hasConflict b"
  using assms unfolding releaseEvent_def assertCanRelease_def
  by (auto split: if_splits simp: list_ex_iff)

text \<open>
  C34. After any run of the programme's steps (assigning, clearing, adding, editing, deleting and
  reordering parts and services, creating and deleting events, publishing and withdrawing them, declaring
  and withdrawing absences), when a draft of a programme is published every person the release names, on
  any of its parts or service parts, is free of absences on the dates of the event. Moving an event to
  other dates is not one of these steps: the flags are not computed again, and
  \<open>moved_event_keeps_a_stale_flag\<close> shows an absent member being told.
\<close>

theorem released_people_are_present:
  assumes "programme_step\<^sup>*\<^sup>* p q" and "programme_in_line p" and "flags_exact p"
    and "releaseEvent i c actor q = (Some (ReleaseDone e targets), r)"
    and "find (is_event i c) (events q) = Some d" and "evt_status d = EventStatus_Draft"
    and "\<not> has_template_key q TemplateKey_DayOff d" and "t \<in> set targets"
  shows "\<not> checkDayOffConflict q (tg_memberId t) (evt_startDate d) (evt_endDate d) c"
proof -
  have line: "programme_in_line q" and flags: "flags_exact q" using steps_keep_flags [OF assms(1-3)] by simp_all
  have draft: "evt_status d \<noteq> EventStatus_Released" using assms(6) by (simp add: programme_constants)
  note released = released_cases [OF assms(4,5) draft]
  have d: "evt_congregationId d = c" "event_with q i = Some d"
    using find_Some_in [OF assms(5)] line event_with_iff [of q i d] by (auto simp: is_event_def programme_in_line_def)
  from assms(8) consider a where "a \<in> set (parts_of q i)" "tg_memberId t \<in> set (part_people a)"
    | b where "b \<in> set (services_of q i)" "tg_memberId t \<in> set (service_people b)"
    unfolding released(1) using release_targets by blast
  then have "\<not> absent_from q d (tg_memberId t)"
  proof cases
    case (1 a)
    then have "exact_row q i (part_people a) False"
      using flags released(2) by (auto simp: parts_of_def flags_exact_def list_all_iff exact_part_def)
    then show ?thesis using 1 d assms(7) by (auto simp: exact_row_def list_ex_iff)
  next
    case (2 b)
    then have "exact_row q i (service_people b) False"
      using flags released(3) by (auto simp: services_of_def flags_exact_def list_all_iff exact_service_def)
    then show ?thesis using 2 d assms(7) by (auto simp: exact_row_def list_ex_iff)
  qed
  then show ?thesis by (simp add: absent_from_def d)
qed

definition sample_target :: NotifyTarget where
  "sample_target = \<lparr>tg_entityType = ''EventPart'', tg_entityId = 5, tg_assignmentName = ''Reading'', tg_memberId = 1, tg_role = Speaker\<rparr>"

lemmas release_eval = releaseEvent_def assertCanRelease_def computeNotifyTargets_def part_targets_def service_targets_def
  parts_of_def services_of_def is_event_def option_list_def

lemma released_people_are_present_witness: "\<not> checkDayOffConflict sample_programme 1 100 100 1"
proof -
  let ?e = "(sample_event 1 2 100 100)\<lparr>evt_status := EventStatus_Released\<rparr>"
  have run: "releaseEvent 1 1 10 sample_programme = (Some (ReleaseDone ?e [sample_target]), snd (releaseEvent 1 1 10 sample_programme))"
    by (simp add: release_eval sample_target_def sample_programme_defs)
  have "find (is_event 1 1) (events sample_programme) = Some (sample_event 1 2 100 100)"
    "evt_status (sample_event 1 2 100 100) = EventStatus_Draft"
    "\<not> has_template_key sample_programme TemplateKey_DayOff (sample_event 1 2 100 100)"
    by (simp_all add: is_event_def has_template_key_def template_of_def sample_programme_defs)
  from released_people_are_present [OF rtranclp.rtrancl_refl sample_in_line run this, of sample_target] show ?thesis
    by (simp add: sample_target_def sample_event_def)
qed

text \<open>
  Moving an event leaves its flags behind. Member 1 is away on day 200 and assigned to an
  event of day 100; the event is moved to day 200 and published: the release succeeds and tells
  the absent member, although the very same assignment made on day 200 would have been refused.
\<close>

theorem moved_event_keeps_a_stale_flag:
  shows "let away = snd (createDayOff serial_keys ''Off'' 10 (Some 1) (Some 200) (Some 200) 1 sample_programme);
      moved = snd (updateEvent 1 1 \<lparr>uev_name = None, uev_startDate = Some 200, uev_endDate = Some 200\<rparr> 10 away);
      released = fst (releaseEvent 1 1 10 moved)
    in programme_in_line moved \<and> checkDayOffConflict moved 1 200 200 1 \<and>
       (\<exists>e. released = Some (ReleaseDone e [sample_target]) \<and> evt_startDate e = 200 \<and> evt_status e = EventStatus_Released)"
proof -
  define moved where "moved = snd (updateEvent 1 1 \<lparr>uev_name = None, uev_startDate = Some 200, uev_endDate = Some 200\<rparr> 10
    (snd (createDayOff serial_keys ''Off'' 10 (Some 1) (Some 200) (Some 200) 1 sample_programme)))"
  have rows: "events moved = [sample_event 1 2 200 200,
      (sample_event 2 1 200 200)\<lparr>evt_name := ''Off'', evt_status := EventStatus_Released\<rparr>]"
    "eventTemplates moved = [sample_template 1 TemplateKey_DayOff, sample_template 2 ''midweek'']"
    "eventParts moved = [(blank_part 5 1 None 1 sample_data)\<lparr>epa_assigneeId := Some 1\<rparr>]" "eventServiceParts moved = []"
    "userAccounts (core moved) = [sample_login 10 (Some 1)]"
    by (simp_all add: moved_def updateEvent_def edited_event_def is_event_def day_off_eval sample_programme_defs)
  have "programme_in_line moved" "checkDayOffConflict moved 1 200 200 1"
    by (simp_all add: programme_in_line_def owned_def checkDayOffConflict_def creator_member_def has_template_key_def
      template_of_def overlapping_def is_event_def rows)
      (simp_all add: sample_programme_defs)
  moreover have "fst (releaseEvent 1 1 10 moved) = Some (ReleaseDone ((sample_event 1 2 200 200)\<lparr>evt_status := EventStatus_Released\<rparr>) [sample_target])"
    by (simp add: release_eval rows) (simp add: sample_target_def sample_programme_defs)
  ultimately show ?thesis by (simp add: Let_def flip: moved_def) (simp add: sample_event_def)
qed

end
