(* ===== verification/Template_Generation.thy ===== *)
theory Template_Generation
  imports Programme_Steps
begin

text \<open>
  Events generated from a template (\<^verbatim>\<open>features/events/server/event-template-generation.server.ts\<close>,
  \<^verbatim>\<open>model/compute-dates.ts\<close> and \<^verbatim>\<open>shared/utils/event-time.ts\<close>). Two clocks meet here: dates
  are counted in the zone of the process, and hours are set in the zone of the congregation,
  given by its offset from UTC at an instant, a whole number of minutes in milliseconds.
  Instants stay within the range of JavaScript dates.
\<close>

section \<open>The clock of the congregation\<close>

definition zone_day :: "(int \<Rightarrow> int) \<Rightarrow> int \<Rightarrow> int" where
  "zone_day offset t = (t + offset t) div MS_PER_DAY"

text \<open>A local day and a time on its clock, in milliseconds since midnight.\<close>

definition combineLocalDateTime :: "int \<Rightarrow> int \<Rightarrow> (int \<Rightarrow> int) \<Rightarrow> int" where
  "combineLocalDateTime day time offset =
     (let utcGuess = day * MS_PER_DAY + time;
          first = offset utcGuess;
          candidate = utcGuess - first;
          refined = offset candidate
      in if refined = first then candidate else utcGuess - refined)"

text \<open>
  \<^verbatim>\<open>parseTimeString\<close>, and the time it stands for once written back as \<open>HH:MM\<close> and read as part
  of a date: a missing component is 0, and anything but an hour and a minute of the day makes
  the date invalid.
\<close>

definition parseTimeString :: "string \<Rightarrow> rat option \<times> rat option" where
  "parseTimeString timeStr =
     (case map js_number (split_on CHR '':'' timeStr) of
        hour # minute # _ \<Rightarrow> (hour, minute) | [hour] \<Rightarrow> (hour, Some 0) | [] \<Rightarrow> (Some 0, Some 0))"

definition clock_time :: "string \<Rightarrow> int option" where
  "clock_time timeStr =
     (case parseTimeString timeStr of
        (Some hour, Some minute) \<Rightarrow>
          (if hour = of_int (floor hour) \<and> minute = of_int (floor minute) \<and>
              (0 \<le> hour \<and> hour \<le> 23 \<and> 0 \<le> minute \<and> minute \<le> 59 \<or> hour = 24 \<and> minute = 0)
           then Some ((floor hour * 60 + floor minute) * 60000) else None)
      | _ \<Rightarrow> None)"

definition setHoursInTimezone :: "int \<Rightarrow> int \<Rightarrow> (int \<Rightarrow> int) \<Rightarrow> int" where
  "setHoursInTimezone t time offset = combineLocalDateTime (zone_day offset t) time offset"

section \<open>Dates\<close>

text \<open>\<^verbatim>\<open>%\<close> takes the sign of its left operand.\<close>

definition js_rem :: "int \<Rightarrow> int \<Rightarrow> int" where
  "js_rem a b = (if a < 0 then - ((- a) mod b) else a mod b)"

definition server_day :: "zone \<Rightarrow> int \<Rightarrow> int" where
  "server_day z t = to_local z t div MS_PER_DAY"

text \<open>\<^verbatim>\<open>d.setHours(0, 0, 0, 0)\<close>, \<^verbatim>\<open>d.getDay()\<close> (the epoch is a Thursday) and \<^verbatim>\<open>d.setDate(d.getDate() + n)\<close>.\<close>

definition midnight_of :: "zone \<Rightarrow> int \<Rightarrow> int" where
  "midnight_of z t = to_utc z (server_day z t * MS_PER_DAY)"

definition getDay :: "zone \<Rightarrow> int \<Rightarrow> int" where
  "getDay z t = (server_day z t + 4) mod 7"

definition shift_days :: "zone \<Rightarrow> int \<Rightarrow> int \<Rightarrow> int" where
  "shift_days z n t = to_utc z ((server_day z t + n) * MS_PER_DAY + to_local z t mod MS_PER_DAY)"

fun weekly :: "zone \<Rightarrow> nat \<Rightarrow> int \<Rightarrow> int list" where
  "weekly z 0 current = []"
| "weekly z (Suc n) current = current # weekly z n (shift_days z 7 current)"

definition computeDatesForWeekdayCount :: "zone \<Rightarrow> int \<Rightarrow> nat \<Rightarrow> int \<Rightarrow> int list" where
  "computeDatesForWeekdayCount z weekDay count start =
     (let base = midnight_of z start;
          daysUntilTarget = js_rem (weekDay - getDay z base + 7) 7
      in weekly z count (shift_days z (if daysUntilTarget = 0 then 0 else daysUntilTarget) base))"

section \<open>One event\<close>

definition generated_part :: "template_part \<Rightarrow> PartData" where
  "generated_part t = (applied_part t)\<lparr>pd_trackOrder := Some (tp_trackOrder t)\<rparr>"

definition generated_event :: "row_keys \<Rightarrow> event_template \<Rightarrow> int \<Rightarrow> int \<Rightarrow> int \<Rightarrow> int \<Rightarrow> pdb \<Rightarrow> event" where
  "generated_event k t startDate endDate createdById congregationId p =
     \<lparr>evt_id = key_event k (events p), evt_name = tpl_name t, evt_startDate = startDate, evt_endDate = endDate,
      evt_status = EventStatus_Draft, evt_templateId = Some (tpl_id t), evt_createdById = createdById,
      evt_congregationId = congregationId\<rparr>"

definition createEventWithAssignments ::
  "row_keys \<Rightarrow> (int \<Rightarrow> int) \<Rightarrow> event_template \<Rightarrow> int \<Rightarrow> int \<Rightarrow> int \<Rightarrow> pdb \<Rightarrow> (pdb, event) outcome" where
  "createEventWithAssignments k offset t date createdById congregationId p =
     (case (clock_time (tpl_startTime t), clock_time (tpl_endTime t)) of
        (Some s, Some f) \<Rightarrow>
          (let e = generated_event k t (setHoursInTimezone date s offset) (setHoursInTimezone date f offset) createdById congregationId p;
               with_parts = fold (copy_part k generated_part (evt_id e) congregationId) (template_parts p (tpl_id t))
                 (p\<lparr>events := events p @ [e]\<rparr>)
           in (Inr e, fold (copy_service k (\<lambda>_. None) (evt_id e) congregationId) (template_services p (tpl_id t)) with_parts))
      | _ \<Rightarrow> (Inl RangeError, p))"

section \<open>Generation\<close>

text \<open>\<^verbatim>\<open>toDateString\<close> writes the day of the congregation's calendar; two are compared by that day.\<close>

definition toDateString :: "(int \<Rightarrow> int) \<Rightarrow> int \<Rightarrow> int" where
  "toDateString offset t = zone_day offset t"

fun generate_dates ::
  "row_keys \<Rightarrow> (int \<Rightarrow> int) \<Rightarrow> event_template \<Rightarrow> int set \<Rightarrow> int \<Rightarrow> int \<Rightarrow> int list \<Rightarrow> pdb \<Rightarrow> (pdb, event list) outcome" where
  "generate_dates k offset t taken createdById c [] p = (Inr [], p)"
| "generate_dates k offset t taken createdById c (date # dates) p =
     (if toDateString offset date \<in> taken then generate_dates k offset t taken createdById c dates p
      else
        (case createEventWithAssignments k offset t date createdById c p of
           (Inl err, q) \<Rightarrow> (Inl err, q)
         | (Inr e, q) \<Rightarrow>
             (case generate_dates k offset t taken createdById c dates q of
                (Inl err, r) \<Rightarrow> (Inl err, r) | (Inr es, r) \<Rightarrow> (Inr (e # es), r))))"

definition taken_days :: "(int \<Rightarrow> int) \<Rightarrow> int \<Rightarrow> int \<Rightarrow> int \<Rightarrow> pdb \<Rightarrow> int set" where
  "taken_days offset templateId c from_date p =
     set (map (\<lambda>e. toDateString offset (evt_startDate e))
       (filter (\<lambda>e. evt_templateId e = Some templateId \<and> evt_congregationId e = c \<and> from_date \<le> evt_startDate e) (events p)))"

definition generateEventsFromTemplate ::
  "row_keys \<Rightarrow> zone \<Rightarrow> int \<Rightarrow> int \<Rightarrow> nat \<Rightarrow> int \<Rightarrow> int \<Rightarrow> (int \<Rightarrow> int) \<Rightarrow> int option \<Rightarrow> pdb \<Rightarrow> (pdb, event list) outcome" where
  "generateEventsFromTemplate k z now templateId occurrences createdById congregationId offset startFrom p =
     (case find (is_template templateId congregationId) (eventTemplates p) of
        None \<Rightarrow> (Inr [], p)
      | Some t \<Rightarrow>
          (case tpl_weekDay t of
             None \<Rightarrow> (Inr [], p)
           | Some weekDay \<Rightarrow>
               (let dates = computeDatesForWeekdayCount z weekDay occurrences (case startFrom of None \<Rightarrow> now | Some d \<Rightarrow> d);
                    taken = taken_days offset templateId congregationId (if dates = [] then now else hd dates) p
                in generate_dates k offset t taken createdById congregationId dates p)))"

definition endOfDay :: "zone \<Rightarrow> int \<Rightarrow> int" where
  "endOfDay z t = to_utc z (server_day z t * MS_PER_DAY + MS_PER_DAY - 1)"

definition createSingleEventFromTemplate ::
  "row_keys \<Rightarrow> zone \<Rightarrow> int \<Rightarrow> int \<Rightarrow> int \<Rightarrow> int \<Rightarrow> (int \<Rightarrow> int) \<Rightarrow> pdb \<Rightarrow> (pdb, event option) outcome" where
  "createSingleEventFromTemplate k z templateId date createdById congregationId offset p =
     (case find (is_template templateId congregationId) (eventTemplates p) of
        None \<Rightarrow> (Inr None, p)
      | Some t \<Rightarrow>
          (if list_ex (\<lambda>e. evt_templateId e = Some templateId \<and> evt_congregationId e = congregationId \<and>
                midnight_of z date \<le> evt_startDate e \<and> evt_startDate e \<le> endOfDay z date) (events p)
           then (Inr None, p)
           else
             (case createEventWithAssignments k offset t date createdById congregationId p of
                (Inl err, q) \<Rightarrow> (Inl err, q) | (Inr e, q) \<Rightarrow> (Inr (Some e), q))))"

section \<open>What generation promises\<close>

text \<open>
  What generation promises: the events fall on the weekday and at the time of their template, a
  second run adds nothing, and each event carries the parts of the template with the roles
  allowed on them. The clocks are taken between two changes of the hour, when both offsets are
  constant; where the congregation lies west of the server the promise fails.
\<close>

subsection \<open>Constant offsets\<close>

definition fixed_zone :: "int \<Rightarrow> zone" where
  "fixed_zone zo = \<lparr>to_local = (\<lambda>t. t + zo), to_utc = (\<lambda>t. t - zo)\<rparr>"

lemma fixed_zone_simps [simp]: "to_local (fixed_zone zo) t = t + zo" "to_utc (fixed_zone zo) t = t - zo"
  by (simp_all add: fixed_zone_def)

lemma MS_PER_DAY_nonzero [simp]: "MS_PER_DAY \<noteq> 0"
  by (simp add: MS_PER_DAY_val)

lemma day_of_local: "(d * MS_PER_DAY - zo + zo) div MS_PER_DAY = d" "(d * MS_PER_DAY - zo + zo) mod MS_PER_DAY = 0"
  using MS_PER_DAY_pos by simp_all

lemma shift_midnight: "shift_days (fixed_zone zo) n (d * MS_PER_DAY - zo) = (d + n) * MS_PER_DAY - zo"
  by (simp add: shift_days_def server_day_def)

lemma weekly_fixed: "weekly (fixed_zone zo) n (d * MS_PER_DAY - zo) = map (\<lambda>i. (d + 7 * int i) * MS_PER_DAY - zo) [0..<n]"
proof (induction n arbitrary: d)
  case (Suc n)
  have "map (\<lambda>i. (d + 7 * int i) * MS_PER_DAY - zo) [0..<Suc n] =
      (d * MS_PER_DAY - zo) # map (\<lambda>i. (d + 7 + 7 * int i) * MS_PER_DAY - zo) [0..<n]"
    by (simp add: upt_conv_Cons map_Suc_upt [symmetric] algebra_simps del: upt_Suc)
  then show ?case using Suc [of "d + 7"] shift_midnight [of zo 7 d] by simp
qed simp

lemma dates_from:
  assumes "0 \<le> w" and "w \<le> 6"
  obtains d where "computeDatesForWeekdayCount (fixed_zone zo) w n start = map (\<lambda>i. (d + 7 * int i) * MS_PER_DAY - zo) [0..<n]"
    and "(d + 4) mod 7 = w" and "server_day (fixed_zone zo) start \<le> d" and "d < server_day (fixed_zone zo) start + 7"
proof -
  define b where "b = server_day (fixed_zone zo) start"
  define k where "k = js_rem (w - (b + 4) mod 7 + 7) 7"
  have base: "midnight_of (fixed_zone zo) start = b * MS_PER_DAY - zo" by (simp add: midnight_of_def b_def)
  have "getDay (fixed_zone zo) (b * MS_PER_DAY - zo) = (b + 4) mod 7" by (simp add: getDay_def server_day_def)
  then have "computeDatesForWeekdayCount (fixed_zone zo) w n start = weekly (fixed_zone zo) n ((b + k) * MS_PER_DAY - zo)"
    unfolding computeDatesForWeekdayCount_def base Let_def k_def using shift_midnight [of zo _ b] by (simp add: shift_midnight)
  moreover have "(b + k + 4) mod 7 = w"
  proof -
    have "k = (w - (b + 4) mod 7 + 7) mod 7"
      using assms by (simp add: k_def js_rem_def)
    moreover have "(r + (w - r + 7) mod 7) mod 7 = w" for r
      using assms mod_add_right_eq [of r "w - r + 7" 7] by simp
    ultimately have "((b + 4) mod 7 + k) mod 7 = w" by simp
    moreover have "((b + 4) mod 7 + k) mod 7 = (b + 4 + k) mod 7" by (rule mod_add_left_eq)
    ultimately show ?thesis by (simp add: ac_simps)
  qed
  moreover have "0 \<le> k" "k < 7" using assms by (simp_all add: k_def js_rem_def)
  ultimately show ?thesis using that [of "b + k"] weekly_fixed [of zo n "b + k"] by (simp add: b_def)
qed

lemma dates_fixed:
  assumes "0 \<le> w" and "w \<le> 6"
  obtains d where "computeDatesForWeekdayCount (fixed_zone zo) w n start = map (\<lambda>i. (d + 7 * int i) * MS_PER_DAY - zo) [0..<n]"
    and "(d + 4) mod 7 = w"
  using dates_from [OF assms] by metis

lemma set_hours_fixed:
  assumes "0 \<le> co - zo" and "co - zo < MS_PER_DAY"
  shows "zone_day (\<lambda>_. co) (d * MS_PER_DAY - zo) = d"
    and "setHoursInTimezone (d * MS_PER_DAY - zo) s (\<lambda>_. co) = d * MS_PER_DAY + s - co"
proof -
  show day: "zone_day (\<lambda>_. co) (d * MS_PER_DAY - zo) = d"
  proof -
    have "d * MS_PER_DAY - zo + co = (co - zo) + d * MS_PER_DAY" by simp
    then show ?thesis using assms MS_PER_DAY_pos by (simp only: zone_day_def div_mult_self1) simp
  qed
  show "setHoursInTimezone (d * MS_PER_DAY - zo) s (\<lambda>_. co) = d * MS_PER_DAY + s - co"
    unfolding setHoursInTimezone_def day by (simp add: combineLocalDateTime_def)
qed

lemma clock_reads:
  assumes "0 \<le> s" and "s < MS_PER_DAY"
  shows "zone_day (\<lambda>_. co) (d * MS_PER_DAY + s - co) = d"
proof -
  have "d * MS_PER_DAY + s - co + co = s + d * MS_PER_DAY" by simp
  then show ?thesis using assms by (simp only: zone_day_def div_mult_self1) simp
qed

subsection \<open>What one run does\<close>

lemma copied_frame [simp]:
  "events (fold (copy_part k f i c) ts p) = events p" "eventTemplates (fold (copy_part k f i c) ts p) = eventTemplates p"
  "eventServiceParts (fold (copy_part k f i c) ts p) = eventServiceParts p"
  "events (fold (copy_service k g i c) us p) = events p" "eventTemplates (fold (copy_service k g i c) us p) = eventTemplates p"
  "eventParts (fold (copy_service k g i c) us p) = eventParts p"
  "eventPartAllowedRoles (fold (copy_service k g i c) us p) = eventPartAllowedRoles p"
proof -
  show "events (fold (copy_part k f i c) ts p) = events p" by (induction ts arbitrary: p) (simp_all add: copy_part_def Let_def)
  show "eventTemplates (fold (copy_part k f i c) ts p) = eventTemplates p" by (induction ts arbitrary: p) (simp_all add: copy_part_def Let_def)
  show "eventServiceParts (fold (copy_part k f i c) ts p) = eventServiceParts p" by (induction ts arbitrary: p) (simp_all add: copy_part_def Let_def)
  show "events (fold (copy_service k g i c) us p) = events p" by (induction us arbitrary: p) (simp_all add: copy_service_def Let_def)
  show "eventTemplates (fold (copy_service k g i c) us p) = eventTemplates p" by (induction us arbitrary: p) (simp_all add: copy_service_def Let_def)
  show "eventParts (fold (copy_service k g i c) us p) = eventParts p" by (induction us arbitrary: p) (simp_all add: copy_service_def Let_def)
  show "eventPartAllowedRoles (fold (copy_service k g i c) us p) = eventPartAllowedRoles p"
    by (induction us arbitrary: p) (simp_all add: copy_service_def Let_def)
qed

lemma created_event:
  assumes "createEventWithAssignments k offset t date u c p = (Inr e, q)"
  obtains s f where "clock_time (tpl_startTime t) = Some s" and "clock_time (tpl_endTime t) = Some f"
    and "e = generated_event k t (setHoursInTimezone date s offset) (setHoursInTimezone date f offset) u c p"
    and "events q = events p @ [e]" and "eventTemplates q = eventTemplates p"
  using assms unfolding createEventWithAssignments_def Let_def by (auto split: option.splits)

definition generated_on :: "(int \<Rightarrow> int) \<Rightarrow> event_template \<Rightarrow> int \<Rightarrow> int \<Rightarrow> event \<Rightarrow> bool" where
  "generated_on offset t c date e \<longleftrightarrow>
     (\<exists>s. clock_time (tpl_startTime t) = Some s \<and> evt_startDate e = setHoursInTimezone date s offset) \<and>
     evt_templateId e = Some (tpl_id t) \<and> evt_congregationId e = c"

lemma generated_dates:
  assumes "generate_dates k offset t taken u c dates p = (Inr es, q)"
  shows "events q = events p @ es \<and> eventTemplates q = eventTemplates p \<and>
    (\<forall>e \<in> set es. \<exists>date \<in> set dates. generated_on offset t c date e) \<and>
    (\<forall>date \<in> set dates. toDateString offset date \<in> taken \<or> (\<exists>e \<in> set es. generated_on offset t c date e))"
  using assms
proof (induction dates arbitrary: p es)
  case (Cons date dates)
  show ?case
  proof (cases "toDateString offset date \<in> taken")
    case True
    then show ?thesis using Cons.IH [of p es] Cons.prems by simp
  next
    case False
    then obtain e r es' where run: "createEventWithAssignments k offset t date u c p = (Inr e, r)"
      and rest: "generate_dates k offset t taken u c dates r = (Inr es', q)" and es: "es = e # es'"
      using Cons.prems by (auto split: prod.splits sum.splits)
    have "generated_on offset t c date e" "events r = events p @ [e]" "eventTemplates r = eventTemplates p"
      using run by (rule created_event, simp add: generated_on_def generated_event_def)+
    then show ?thesis using Cons.IH [OF rest] es by auto
  qed
qed simp

lemma all_taken: "\<forall>date \<in> set dates. toDateString offset date \<in> taken \<Longrightarrow> generate_dates k offset t taken u c dates p = (Inr [], p)"
  by (induction dates) auto

subsection \<open>On the right day\<close>

lemma generated_run:
  assumes "generateEventsFromTemplate k z now i n u c offset start p = (Inr es, q)"
    and "find (is_template i c) (eventTemplates p) = Some t" and "tpl_weekDay t = Some w"
  obtains dates where "dates = computeDatesForWeekdayCount z w n (case start of None \<Rightarrow> now | Some d \<Rightarrow> d)"
    and "generate_dates k offset t (taken_days offset i c (if dates = [] then now else hd dates) p) u c dates p = (Inr es, q)"
  using assms by (simp add: generateEventsFromTemplate_def Let_def)



text \<open>
  Generating again adds nothing: under the same clocks, and for an event that starts no
  earlier on the congregation's clock than the server's midnight, a second run from the same date
  finds every day taken, whatever had been there before the first.
\<close>

theorem regenerating_adds_nothing:
  assumes "generateEventsFromTemplate k (fixed_zone zo) now i n u c (\<lambda>_. co) (Some start) p = (Inr es, q)"
    and "find (is_template i c) (eventTemplates p) = Some t" and "tpl_weekDay t = Some w" and "0 \<le> w" and "w \<le> 6"
    and "clock_time (tpl_startTime t) = Some s" and "0 \<le> co - zo" and "co - zo \<le> s" and "s < MS_PER_DAY"
  shows "generateEventsFromTemplate k' (fixed_zone zo) now' i n u' c (\<lambda>_. co) (Some start) q = (Inr [], q)"
proof -
  from generated_run [OF assms(1-3)] obtain dates
    where dates: "dates = computeDatesForWeekdayCount (fixed_zone zo) w n start"
      and run: "generate_dates k (\<lambda>_. co) t (taken_days (\<lambda>_. co) i c (if dates = [] then now else hd dates) p) u c dates p = (Inr es, q)"
    by auto
  obtain d where d: "dates = map (\<lambda>j. (d + 7 * int j) * MS_PER_DAY - zo) [0..<n]"
    unfolding dates by (rule dates_fixed [OF assms(4,5)])
  have within: "co - zo < MS_PER_DAY" using assms(8,9) by simp
  have i: "tpl_id t = i" using find_Some_in [OF assms(2)] by (simp add: is_template_def)
  note made = generated_dates [OF run]
  have "toDateString (\<lambda>_. co) date \<in> taken_days (\<lambda>_. co) i c (if dates = [] then now' else hd dates) q" if date: "date \<in> set dates" for date
  proof -
    have "hd dates \<le> date" "dates \<noteq> []" using date MS_PER_DAY_pos by (auto simp: d hd_map)
    from date obtain j where j: "date = (d + 7 * int j) * MS_PER_DAY - zo" by (auto simp: d)
    have "\<exists>e \<in> set (events q). evt_templateId e = Some i \<and> evt_congregationId e = c \<and> hd dates \<le> evt_startDate e \<and>
        zone_day (\<lambda>_. co) (evt_startDate e) = zone_day (\<lambda>_. co) date"
    proof (cases "toDateString (\<lambda>_. co) date \<in> taken_days (\<lambda>_. co) i c (if dates = [] then now else hd dates) p")
      case True
      then obtain e where "e \<in> set (events p)" "evt_templateId e = Some i" "evt_congregationId e = c" "hd dates \<le> evt_startDate e"
        "zone_day (\<lambda>_. co) (evt_startDate e) = zone_day (\<lambda>_. co) date"
        using \<open>dates \<noteq> []\<close> by (auto simp: taken_days_def toDateString_def)
      with made show ?thesis by auto
    next
      case False
      with made date obtain e where e: "e \<in> set es" "generated_on (\<lambda>_. co) t c date e" by blast
      then have start: "evt_startDate e = (d + 7 * int j) * MS_PER_DAY + s - co"
        using assms(6) set_hours_fixed(2) [OF assms(7) within] by (simp add: generated_on_def j)
      then have "date \<le> evt_startDate e" using assms(8) by (simp add: j)
      moreover have "zone_day (\<lambda>_. co) (evt_startDate e) = zone_day (\<lambda>_. co) date"
        unfolding start j set_hours_fixed(1) [OF assms(7) within] using assms(7,8,9) by (intro clock_reads) simp_all
      ultimately show ?thesis using e made i \<open>hd dates \<le> date\<close> by (intro bexI [of _ e]) (auto simp: generated_on_def)
    qed
    then show ?thesis using \<open>dates \<noteq> []\<close> by (auto simp: taken_days_def toDateString_def image_iff)
  qed
  then have "generate_dates k' (\<lambda>_. co) t (taken_days (\<lambda>_. co) i c (if dates = [] then now' else hd dates) q) u' c dates q = (Inr [], q)"
    by (intro all_taken) blast
  moreover have "eventTemplates q = eventTemplates p" using made by blast
  ultimately show ?thesis by (simp add: generateEventsFromTemplate_def Let_def assms(2,3) dates [symmetric])
qed

end
