(* ===== verification/Board_Content.thy ===== *)
theory Board_Content
  imports Board_Pages Org_Tree Pioneer_Enrolment Template_Generation
begin

text \<open>
  The documents that the board computes (\<^verbatim>\<open>features/display-board/server/dynamic-documents.server.ts\<close>,
  \<^verbatim>\<open>organigram-document.server.ts\<close>, \<^verbatim>\<open>event-filter.server.ts\<close>, \<^verbatim>\<open>event-link.server.ts\<close>), the part of
  them that is printed (\<^verbatim>\<open>model/programme-sheet-window.ts\<close>, \<^verbatim>\<open>model/printable-document.ts\<close>) and the
  pages that show and print them (\<^verbatim>\<open>routes/dynamic\<close>). Change stamps are no columns of the model, so when
  the content last changed stays an argument of the board; the collation of the database and the zones
  are arguments too.
\<close>

section \<open>The stored configuration of a programme\<close>

record template_choice =
  tch_templateId :: int
  tch_parts :: bool
  tch_services :: bool

record ProgrammeDynamicConfig =
  pdc_templates :: "template_choice list"
  pdc_groupBy :: string

definition parse_choice :: "json \<Rightarrow> template_choice option" where
  "parse_choice raw =
     (case raw of
        JObj fs \<Rightarrow>
          (case (map_of fs ''templateId'', map_of fs ''parts'', map_of fs ''services'') of
             (Some (JNum i), Some (JBool p), Some (JBool s)) \<Rightarrow>
               if i > 0 then Some \<lparr>tch_templateId = i, tch_parts = p, tch_services = s\<rparr> else None
           | _ \<Rightarrow> None)
      | _ \<Rightarrow> None)"

fun all_some :: "'a option list \<Rightarrow> 'a list option" where
  "all_some [] = Some []"
| "all_some (x # xs) = (case (x, all_some xs) of (Some a, Some bs) \<Rightarrow> Some (a # bs) | _ \<Rightarrow> None)"

definition parseProgrammeDynamicConfig :: "json option \<Rightarrow> ProgrammeDynamicConfig option" where
  "parseProgrammeDynamicConfig raw =
     (case raw of
        Some (JObj fs) \<Rightarrow>
          (case map_of fs ''templates'' of
             Some (JArr xs) \<Rightarrow>
               (case all_some (map parse_choice xs) of
                  None \<Rightarrow> None
                | Some cs \<Rightarrow>
                    (case map_of fs ''groupBy'' of
                       None \<Rightarrow> Some \<lparr>pdc_templates = cs, pdc_groupBy = ''date''\<rparr>
                     | Some (JStr g) \<Rightarrow>
                         if g = ''date'' \<or> g = ''template'' then Some \<lparr>pdc_templates = cs, pdc_groupBy = g\<rparr> else None
                     | Some _ \<Rightarrow> None))
           | _ \<Rightarrow> None)
      | _ \<Rightarrow> None)"

section \<open>People and groups\<close>

text \<open>The columns of \<^verbatim>\<open>userSelect\<close>.\<close>

record board_person =
  bpe_id :: int
  bpe_firstname :: string
  bpe_lastname :: string
  bpe_anonymizedAt :: "int option"

definition person :: "member \<Rightarrow> board_person" where
  "person m =
     \<lparr>bpe_id = mem_id m, bpe_firstname = mem_firstname m, bpe_lastname = mem_lastname m, bpe_anonymizedAt = mem_anonymizedAt m\<rparr>"

definition person_of :: "db \<Rightarrow> int option \<Rightarrow> board_person option" where
  "person_of db i = (case i of None \<Rightarrow> None | Some i \<Rightarrow> map_option person (find (\<lambda>m. mem_id m = i) (members db)))"

definition lexical :: "int \<Rightarrow> int \<Rightarrow> int" where
  "lexical x y = (if x \<noteq> 0 then x else y)"

type_synonym collation = "string \<Rightarrow> string \<Rightarrow> int"

record board_group =
  bgr_id :: int
  bgr_name :: string
  bgr_adress :: string
  bgr_responsible :: "board_person option"
  bgr_deputy :: "board_person option"
  bgr_members :: "board_person list"

definition fetchPublisherGroups :: "collation \<Rightarrow> int \<Rightarrow> db \<Rightarrow> board_group list" where
  "fetchPublisherGroups collate congregationId db =
     map (\<lambda>g. \<lparr>bgr_id = pg_id g, bgr_name = pg_name g, bgr_adress = pg_adress g,
                bgr_responsible = person_of db (Some (pg_responsibleId g)), bgr_deputy = person_of db (pg_deputyId g),
                bgr_members = map person
                  (js_sort (\<lambda>m n. lexical (collate (mem_lastname m) (mem_lastname n)) (collate (mem_firstname m) (mem_firstname n)))
                    (filter (\<lambda>m. mem_publisherGroupId m = Some (pg_id g) \<and> mem_leftAt m = None \<and> mem_isPublisher m \<and>
                       mem_inactiveAt m = None) (members db)))\<rparr>)
       (js_sort (\<lambda>g h. collate (pg_name g) (pg_name h)) (filter (\<lambda>g. pg_congregationId g = congregationId) (publisherGroups db)))"

section \<open>Pioneers\<close>

definition PIONEER_TYPE_RANK :: "PublisherType \<Rightarrow> int" where
  "PIONEER_TYPE_RANK ty =
     (case ty of PionnierAuxiliaires \<Rightarrow> 0 | PionnierPermanant \<Rightarrow> 1 | PionnierSpecial \<Rightarrow> 2 | Missionnaire \<Rightarrow> 3 | Normal \<Rightarrow> 99)"

text \<open>The stints covering the month, as the query states it: a comparison with \<^verbatim>\<open>NULL\<close> does not hold.\<close>

definition currentEnrolmentWhere :: "int \<Rightarrow> int \<Rightarrow> pioneer_enrolment \<Rightarrow> bool" where
  "currentEnrolmentWhere month year e \<longleftrightarrow>
     (pe_startYear e < year \<or> pe_startYear e = year \<and> pe_startMonth e \<le> month) \<and>
     (pe_endMonth e = None \<or> (case pe_endYear e of None \<Rightarrow> False | Some y \<Rightarrow> y > year) \<or>
      pe_endYear e = Some year \<and> (case pe_endMonth e of None \<Rightarrow> False | Some m \<Rightarrow> m \<ge> month))"

definition active_publisher :: "member \<Rightarrow> bool" where
  "active_publisher m \<longleftrightarrow> mem_leftAt m = None \<and> mem_inactiveAt m = None \<and> mem_anonymizedAt m = None"

definition currentPioneerWhere :: "int \<Rightarrow> int \<Rightarrow> int \<Rightarrow> db \<Rightarrow> pioneer_enrolment \<Rightarrow> bool" where
  "currentPioneerWhere month year congregationId db e \<longleftrightarrow>
     pe_congregationId e = congregationId \<and> currentEnrolmentWhere month year e \<and>
     list_ex (\<lambda>m. mem_id m = pe_memberId e \<and> active_publisher m) (members db)"

definition fetchPioneers :: "collation \<Rightarrow> int \<Rightarrow> int \<Rightarrow> int \<Rightarrow> db \<Rightarrow> (board_person \<times> PublisherType) list" where
  "fetchPioneers compare_names month year congregationId db =
     js_sort (\<lambda>(a, s) (b, t). lexical (PIONEER_TYPE_RANK s - PIONEER_TYPE_RANK t)
         (lexical (compare_names (bpe_lastname a) (bpe_lastname b)) (compare_names (bpe_firstname a) (bpe_firstname b))))
       (concat (map (\<lambda>e. map (\<lambda>m. (person m, pe_type e)) (filter (\<lambda>m. mem_id m = pe_memberId e) (members db)))
         (filter (currentPioneerWhere month year congregationId db) (pioneerEnrolments db))))"

section \<open>The programme\<close>

record board_event =
  bev_event :: event
  bev_parts :: "(event_part \<times> board_person option \<times> board_person option \<times> string option) list"
  bev_services :: "(event_service_part \<times> board_person option) list option"

definition track_order :: "int option \<Rightarrow> int option \<Rightarrow> int" where
  "track_order x y = (case (x, y) of (None, None) \<Rightarrow> 0 | (None, Some _) \<Rightarrow> 1 | (Some _, None) \<Rightarrow> - 1 | (Some a, Some b) \<Rightarrow> a - b)"

definition board_event_of :: "pdb \<Rightarrow> bool \<Rightarrow> event \<Rightarrow> board_event" where
  "board_event_of p includeServices e =
     \<lparr>bev_event = e,
      bev_parts = map (\<lambda>r. (r, person_of (core p) (epa_assigneeId r), person_of (core p) (epa_assistantId r),
          Option.bind (epa_externalSpeakerId r) (\<lambda>i. map_option xs_name (find (\<lambda>x. xs_id x = i) (externalSpeakers p)))))
        (js_sort (\<lambda>r s. lexical (epa_order r - epa_order s) (track_order (epa_trackOrder r) (epa_trackOrder s)))
          (filter (\<lambda>r. epa_eventId r = evt_id e) (eventParts p))),
      bev_services = (if includeServices
        then Some (map (\<lambda>r. (r, person_of (core p) (esp_assigneeId r))) (filter (\<lambda>r. esp_eventId r = evt_id e) (eventServiceParts p)))
        else None)\<rparr>"

definition shown_event :: "int \<Rightarrow> int \<Rightarrow> event \<Rightarrow> bool" where
  "shown_event fromDate congregationId e \<longleftrightarrow>
     evt_congregationId e = congregationId \<and> fromDate \<le> evt_startDate e \<and> evt_status e = EventStatus_Released"

definition fetchProgrammeByIds :: "int \<Rightarrow> int \<Rightarrow> int list \<Rightarrow> bool \<Rightarrow> pdb \<Rightarrow> board_event list" where
  "fetchProgrammeByIds fromDate congregationId templateIds includeServices p =
     map (board_event_of p includeServices)
       (js_sort (\<lambda>d e. evt_startDate d - evt_startDate e)
         (filter (\<lambda>e. shown_event fromDate congregationId e \<and>
            (case evt_templateId e of None \<Rightarrow> False | Some t \<Rightarrow> t \<in> set templateIds)) (events p)))"

definition carries_template_key :: "pdb \<Rightarrow> string \<Rightarrow> event \<Rightarrow> bool" where
  "carries_template_key p key e \<longleftrightarrow>
     (case evt_templateId e of None \<Rightarrow> False | Some t \<Rightarrow> list_ex (\<lambda>x. tpl_id x = t \<and> tpl_key x = key) (eventTemplates p))"

definition fetchProgrammeByKey :: "int \<Rightarrow> int \<Rightarrow> string \<Rightarrow> bool \<Rightarrow> pdb \<Rightarrow> board_event list" where
  "fetchProgrammeByKey fromDate congregationId templateKey showServices p =
     map (board_event_of p showServices)
       (js_sort (\<lambda>d e. evt_startDate d - evt_startDate e)
         (filter (\<lambda>e. shown_event fromDate congregationId e \<and> carries_template_key p templateKey e) (events p)))"

section \<open>Dispatch\<close>

text \<open>What the pages take from outside: the clock, within the range of dates, the server's zone and
  the offset of the congregation's, and the two orders of text.\<close>

record board_world =
  bwo_now :: int
  bwo_zone :: zone
  bwo_offset :: "int \<Rightarrow> int"
  bwo_collate :: collation
  bwo_i18n :: i18n

definition month_of :: "board_world \<Rightarrow> int" where
  "month_of w = (case local_civil (bwo_zone w) (bwo_now w) of (y, m, d) \<Rightarrow> m)"

definition year_of :: "board_world \<Rightarrow> int" where
  "year_of w = (case local_civil (bwo_zone w) (bwo_now w) of (y, m, d) \<Rightarrow> y)"

definition startOfCurrentMonth :: "board_world \<Rightarrow> int" where
  "startOfCurrentMonth w = (case new_date (bwo_zone w) (year_of w) (month_of w) 1 of Date t \<Rightarrow> t | InvalidDate \<Rightarrow> 0)"

datatype dynamic_data =
    Organigram_Data "OrganigramNode list"
  | Groups_Data "board_group list"
  | Pioneers_Data "(board_person \<times> PublisherType) list"
  | Programme_Data (shown_events: "board_event list") (shown_config: "ProgrammeDynamicConfig option")
      (shown_key: "string option") (shown_services: bool)

definition getDynamicDocumentData :: "board_world \<Rightarrow> dynamic_document \<Rightarrow> int \<Rightarrow> board \<Rightarrow> dynamic_data option" where
  "getDynamicDocumentData w d congregationId b =
     (let ty = dyn_dynamicType d; p = programme b
      in if ty = ''organigram'' then Some (Organigram_Data (getOrganigram (bwo_i18n w) (core p) congregationId))
         else if ty = ''publisher-groups'' then Some (Groups_Data (fetchPublisherGroups (bwo_collate w) congregationId (core p)))
         else if ty = ''pioneers''
         then Some (Pioneers_Data (fetchPioneers (localeCompare (bwo_i18n w)) (month_of w) (year_of w) congregationId (core p)))
         else if ty = ''programme'' then
           (case parseProgrammeDynamicConfig (dyn_dynamicConfig d) of
              Some config \<Rightarrow>
                (let anyServices = list_ex tch_services (pdc_templates config)
                 in Some (Programme_Data
                      (fetchProgrammeByIds (startOfCurrentMonth w) congregationId (map tch_templateId (pdc_templates config)) anyServices p)
                      (Some config) None anyServices))
            | None \<Rightarrow>
                (case dyn_dynamicRef d of
                   None \<Rightarrow> None
                 | Some key \<Rightarrow>
                     if key = [] then None
                     else Some (Programme_Data (fetchProgrammeByKey (startOfCurrentMonth w) congregationId key (dyn_showServices d) p)
                            None (Some key) (dyn_showServices d))))
         else None)"

record AvailableDynamicType =
  adt_dynamicType :: string
  adt_alreadyAdded :: bool

definition listAvailableDynamicTypes :: "board_world \<Rightarrow> int \<Rightarrow> board \<Rightarrow> AvailableDynamicType list" where
  "listAvailableDynamicTypes w congregationId b =
     (let db = core (programme b);
          added = (\<lambda>ty. list_ex (\<lambda>d. dyn_congregationId d = congregationId \<and> dyn_dynamicType d = ty \<and>
                     (dyn_dynamicRef d = None \<or> dyn_dynamicRef d = Some [])) (dynamics b));
          entry = (\<lambda>ty present already. if present then [\<lparr>adt_dynamicType = ty, adt_alreadyAdded = already\<rparr>] else [])
      in entry ''organigram'' (list_ex (\<lambda>r. role_congregationId r = congregationId \<and> role_showInOrganigram r) (roles db)) (added ''organigram'') @
         entry ''publisher-groups'' (list_ex (\<lambda>g. pg_congregationId g = congregationId) (publisherGroups db)) (added ''publisher-groups'') @
         entry ''pioneers'' (list_ex (currentPioneerWhere (month_of w) (year_of w) congregationId db) (pioneerEnrolments db)) (added ''pioneers'') @
         entry ''programme'' (list_ex (\<lambda>t. tpl_congregationId t = congregationId) (eventTemplates (programme b))) False)"

section \<open>One event, and what is printed\<close>

fun digits_value :: "int \<Rightarrow> string \<Rightarrow> int option" where
  "digits_value acc [] = Some acc"
| "digits_value acc (c # cs) =
     (if 48 \<le> code c \<and> code c \<le> 57 then digits_value (10 * acc + int (code c) - 48) cs else None)"

definition readEventIdParam :: "string option \<Rightarrow> int option" where
  "readEventIdParam raw = (case raw of None \<Rightarrow> None | Some s \<Rightarrow> if s = [] then None else digits_value 0 s)"

definition event_id :: "board_event \<Rightarrow> int" where
  "event_id e = evt_id (bev_event e)"

definition filterDynamicDataToEvent :: "dynamic_data option \<Rightarrow> int option \<Rightarrow> dynamic_data option \<times> bool" where
  "filterDynamicDataToEvent content eventId =
     (case (content, eventId) of
        (Some (Programme_Data evs config key services), Some i) \<Rightarrow>
          (case find (\<lambda>e. event_id e = i) evs of
             None \<Rightarrow> (content, True)
           | Some match \<Rightarrow> (Some (Programme_Data [match] config key services), False))
      | _ \<Rightarrow> (content, False))"

definition firstOfMonth :: "board_world \<Rightarrow> int \<Rightarrow> int \<Rightarrow> int" where
  "firstOfMonth w year month = combineLocalDateTime (make_day year month 1) 0 (bwo_offset w)"

definition programmeSheetWindow :: "board_world \<Rightarrow> int \<times> int" where
  "programmeSheetWindow w =
     (case civil (zone_day (bwo_offset w) (bwo_now w)) of
        (y, m, d) \<Rightarrow> (firstOfMonth w y m, firstOfMonth w y (m + 2)))"

definition eventsForSheet :: "int \<times> int \<Rightarrow> bool \<Rightarrow> board_event list \<Rightarrow> board_event list" where
  "eventsForSheet between narrowedToEvent evs =
     (if narrowedToEvent then evs
      else filter (\<lambda>e. fst between \<le> evt_startDate (bev_event e) \<and> evt_startDate (bev_event e) < snd between) evs)"

definition sheetDataFor :: "board_world \<Rightarrow> bool \<Rightarrow> dynamic_data \<Rightarrow> dynamic_data" where
  "sheetDataFor w narrowedToEvent content =
     (case content of
        Programme_Data evs config key services \<Rightarrow>
          Programme_Data (eventsForSheet (programmeSheetWindow w) narrowedToEvent evs) config key services
      | _ \<Rightarrow> content)"

definition isPrintableDynamicDocument :: "dynamic_data \<Rightarrow> bool" where
  "isPrintableDynamicDocument content =
     (case content of
        Organigram_Data tree \<Rightarrow> tree \<noteq> []
      | Groups_Data groups \<Rightarrow> groups \<noteq> []
      | Pioneers_Data pioneers \<Rightarrow> pioneers \<noteq> []
      | Programme_Data evs config key services \<Rightarrow> evs \<noteq> [])"

section \<open>The pages\<close>

text \<open>
  What the viewer shows: the content, whether the event that was asked for is missing, the event of
  the download link, and whether a download is offered.
\<close>

record dynamic_page =
  dpg_data :: "dynamic_data option"
  dpg_requestedEventMissing :: bool
  dpg_pdfEventId :: "int option"
  dpg_printable :: bool
  dpg_appearance :: "BoardAppearance option"

definition dynamic_viewer_page :: "board_world \<Rightarrow> dynamic_document \<Rightarrow> int \<Rightarrow> int option \<Rightarrow> board \<Rightarrow> dynamic_page" where
  "dynamic_viewer_page w d congregationId eventId b =
     (case filterDynamicDataToEvent (getDynamicDocumentData w d congregationId b) eventId of
        (content, missing) \<Rightarrow>
          (let narrowedToEvent = (eventId \<noteq> None \<and> \<not> missing)
           in \<lparr>dpg_data = content, dpg_requestedEventMissing = missing,
               dpg_pdfEventId = (if narrowedToEvent then eventId else None),
               dpg_printable = (case content of None \<Rightarrow> False
                 | Some c \<Rightarrow> isPrintableDynamicDocument (sheetDataFor w narrowedToEvent c)),
               dpg_appearance = map_option (\<lambda>_. parseAppearance (dyn_dynamicType d) (dyn_appearance d)) content\<rparr>))"

definition dynamic_viewer_loader ::
  "board_world \<Rightarrow> requester \<Rightarrow> int option \<Rightarrow> int option \<Rightarrow> board \<Rightarrow> dynamic_page board_ending" where
  "dynamic_viewer_loader w rq param eventId b =
     requirePermission rq CAN_VIEW b
       (requireParamId param BOARD b (\<lambda>dynamicId.
          in_scope (\<lambda>b.
            case visible_dynamic rq dynamicId b of
              None \<Rightarrow> (Turned_Away BOARD, b)
            | Some d \<Rightarrow>
                (let b = markDynamicDocumentViewed (bwo_now w) dynamicId (rq_id rq) b
                 in (Replied (dynamic_viewer_page w d (rq_congregationId rq) eventId b), b))) b))"

text \<open>The sheet the download is drawn from; drawing it is outside.\<close>

definition dynamic_pdf_loader ::
  "board_world \<Rightarrow> requester \<Rightarrow> int option \<Rightarrow> int option \<Rightarrow> board \<Rightarrow> dynamic_data board_ending" where
  "dynamic_pdf_loader w rq param eventId b =
     requirePermission rq CAN_VIEW b
       (requireParamId param BOARD b (\<lambda>dynamicId.
          in_scope (\<lambda>b.
            case visible_dynamic rq dynamicId b of
              None \<Rightarrow> (Turned_Away BOARD, b)
            | Some d \<Rightarrow>
                (case filterDynamicDataToEvent (getDynamicDocumentData w d (rq_congregationId rq) b) eventId of
                   (None, _) \<Rightarrow> (Turned_Away BOARD, b)
                 | (Some c, missing) \<Rightarrow>
                     (let sheet = sheetDataFor w (eventId \<noteq> None \<and> \<not> missing) c
                      in if \<not> isPrintableDynamicDocument sheet then (Turned_Away BOARD, b)
                         else (Replied sheet, b)))) b))"

section \<open>Where an assignee is sent\<close>

text \<open>The document and the event of the link; \<open>None\<close> is the board itself.\<close>

definition readRenderableEvent :: "board_world \<Rightarrow> int \<Rightarrow> int \<Rightarrow> board \<Rightarrow> event option" where
  "readRenderableEvent w eventId congregationId b =
     (case find (is_event eventId congregationId) (events (programme b)) of
        None \<Rightarrow> None
      | Some e \<Rightarrow>
          if evt_status e \<noteq> EventStatus_Released \<or> evt_startDate e < startOfCurrentMonth w then None else Some e)"

definition programme_documents :: "int \<Rightarrow> board \<Rightarrow> dynamic_document list" where
  "programme_documents congregationId b =
     js_sort (\<lambda>c d. dyn_id c - dyn_id d)
       (filter (\<lambda>d. dyn_congregationId d = congregationId \<and> dyn_dynamicType d = PROGRAMME) (dynamics b))"

definition breadth :: "int \<Rightarrow> dynamic_document \<Rightarrow> nat option" where
  "breadth templateId d =
     (case parseProgrammeDynamicConfig (dyn_dynamicConfig d) of
        None \<Rightarrow> None
      | Some config \<Rightarrow>
          if list_ex (\<lambda>t. tch_templateId t = templateId) (pdc_templates config) then Some (length (pdc_templates config)) else None)"

definition holders_of_template :: "int \<Rightarrow> dynamic_document list \<Rightarrow> (int \<times> nat) list" where
  "holders_of_template templateId cs =
     concat (map (\<lambda>d. case breadth templateId d of None \<Rightarrow> [] | Some n \<Rightarrow> [(dyn_id d, n)]) cs)"

definition template_key :: "event \<Rightarrow> board \<Rightarrow> string" where
  "template_key e b =
     (case Option.bind (evt_templateId e) (\<lambda>t. find (\<lambda>x. tpl_id x = t) (eventTemplates (programme b))) of
        None \<Rightarrow> [] | Some t \<Rightarrow> tpl_key t)"

definition resolveProgrammeLink :: "board_world \<Rightarrow> int \<Rightarrow> int option \<Rightarrow> int \<Rightarrow> board \<Rightarrow> (int \<times> int) option" where
  "resolveProgrammeLink w eventId templateId congregationId b =
     (case templateId of
        None \<Rightarrow> None
      | Some t \<Rightarrow>
          (case readRenderableEvent w eventId congregationId b of
             None \<Rightarrow> None
           | Some e \<Rightarrow>
               (let candidates = programme_documents congregationId b
                in case js_sort (\<lambda>(i, m) (j, n). lexical (int m - int n) (i - j)) (holders_of_template t candidates) of
                     (i, _) # _ \<Rightarrow> Some (i, eventId)
                   | [] \<Rightarrow>
                       (let key = template_key e b
                        in if key = [] then None
                           else map_option (\<lambda>d. (dyn_id d, eventId))
                                  (find (\<lambda>d. dyn_dynamicConfig d = None \<and> dyn_dynamicRef d = Some key) candidates)))))"

end
