(* ===== verification/Board_Laws.thy ===== *)
theory Board_Laws
  imports Board_Content
begin

text \<open>
  What holds of the display board: the last version of a document is the file it shows, whatever the
  pages do; a document is only served to those who may see its section; an uploader touches its own
  documents only; and what a replacement leaves of the earlier versions.
\<close>

section \<open>Versions and files\<close>

definition is_last :: "document_version list \<Rightarrow> document_version \<Rightarrow> bool" where
  "is_last vs v \<longleftrightarrow> v \<in> set vs \<and> (\<forall>w \<in> set vs. bdv_documentId w = bdv_documentId v \<longrightarrow> bdv_versionNumber w \<le> bdv_versionNumber v)"

definition version_key :: "document_version \<Rightarrow> int \<times> int" where
  "version_key v = (bdv_documentId v, bdv_versionNumber v)"

definition shelf_ok :: "(int \<times> string option) list \<Rightarrow> document_version list \<Rightarrow> bool" where
  "shelf_ok ds vs \<longleftrightarrow>
     distinct (map fst ds) \<and> distinct (map version_key vs) \<and>
     (\<forall>v \<in> set vs. bdv_versionNumber v \<ge> 1 \<and> bdv_documentId v \<in> fst ` set ds) \<and>
     (\<forall>(i, uri) \<in> set ds. \<exists>v. is_last vs v \<and> bdv_documentId v = i \<and> uri = Some (bdv_uri v))"

definition shelf :: "board \<Rightarrow> (int \<times> string option) list" where
  "shelf b = map (\<lambda>d. (bdc_id d, bdc_uri d)) (documents b)"

definition board_ok :: "board \<Rightarrow> bool" where
  "board_ok b \<longleftrightarrow> shelf_ok (shelf b) (versions b)"

definition fresh_board_keys :: "board_keys \<Rightarrow> bool" where
  "fresh_board_keys k \<longleftrightarrow> (\<forall>ds. bk_document k ds \<notin> bdc_id ` set ds)"

lemma board_ok_cong:
  assumes "shelf b' = shelf b" and "versions b' = versions b"
  shows "board_ok b' = board_ok b"
  using assms by (simp add: board_ok_def)

lemma fst_shelf: "fst ` set (shelf b) = bdc_id ` set (documents b)"
  by (simp add: shelf_def image_image)

subsection \<open>Calls that leave documents and versions alone\<close>

lemma shelf_helpers [simp]:
  "shelf (board_audit a c u t i m b) = shelf b" "versions (board_audit a c u t i m b) = versions b"
  "shelf (notify_board k now ps b) = shelf b" "versions (notify_board k now ps b) = versions b"
  "shelf (deleteBoardFile key b) = shelf b" "versions (deleteBoardFile key b) = versions b"
  "shelf (deleteFile uri b) = shelf b" "versions (deleteFile uri b) = versions b"
  "shelf (queue_thumbnail c i key b) = shelf b" "versions (queue_thumbnail c i key b) = versions b"
  "shelf (rolled_back b b') = shelf b" "versions (rolled_back b b') = versions b"
  "documents (deleteBoardFile key b) = documents b" "documents (deleteFile uri b) = documents b"
  by (simp_all add: shelf_def board_audit_def notify_board_def deleteBoardFile_def deleteFile_def queue_thumbnail_def
      rolled_back_def)

lemma delete_thumbnail_keeps [simp]:
  "documents (delete_thumbnail t b) = documents b" "shelf (delete_thumbnail t b) = shelf b"
  "versions (delete_thumbnail t b) = versions b"
  by (simp_all add: delete_thumbnail_def split: option.splits list.splits)

lemma delete_files_of_keeps [simp]:
  "documents (delete_files_of d b) = documents b" "shelf (delete_files_of d b) = shelf b"
  "versions (delete_files_of d b) = versions b"
  by (simp_all add: delete_files_of_def)

lemma fold_delete_files_of [simp]:
  "documents (fold delete_files_of ds b) = documents b" "shelf (fold delete_files_of ds b) = shelf b"
  "versions (fold delete_files_of ds b) = versions b"
  by (induction ds arbitrary: b) simp_all

lemma fold_version_files [simp]:
  "documents (fold (\<lambda>v b. delete_thumbnail (bdv_thumbnailUri v) (deleteBoardFile (bdv_uri v) b)) vs b) = documents b"
  "versions (fold (\<lambda>v b. delete_thumbnail (bdv_thumbnailUri v) (deleteBoardFile (bdv_uri v) b)) vs b) = versions b"
  by (induction vs arbitrary: b) simp_all

lemma deleteAllVersionFiles_keeps [simp]:
  "documents (deleteAllVersionFiles i b) = documents b" "shelf (deleteAllVersionFiles i b) = shelf b"
  "versions (deleteAllVersionFiles i b) = versions b"
  by (simp_all add: deleteAllVersionFiles_def shelf_def)

lemma shelf_update [simp]:
  assumes "\<And>d. bdc_id (f d) = bdc_id d" "\<And>d. bdc_uri (f d) = bdc_uri d"
  shows "shelf (b\<lparr>documents := update_where p f (documents b)\<rparr>) = shelf b"
  using assms by (simp add: shelf_def update_where_def)

lemma documents_setters [simp]:
  "shelf (b\<lparr>sections := x\<rparr>) = shelf b" "shelf (b\<lparr>sectionRoles := y\<rparr>) = shelf b"
  "shelf (b\<lparr>dynamics := z\<rparr>) = shelf b" "shelf (b\<lparr>dynamicViews := w\<rparr>) = shelf b"
  "shelf (b\<lparr>storage := s\<rparr>) = shelf b" "shelf (b\<lparr>thumbnailQueue := t\<rparr>) = shelf b"
  "shelf (b\<lparr>versions := v\<rparr>) = shelf b"
  by (simp_all add: shelf_def)

subsection \<open>A new version\<close>

lemma fold_max_bound:
  fixes n :: int
  shows "n \<le> fold (\<lambda>v n. max (bdv_versionNumber v) n) vs n" and
    "v \<in> set vs \<Longrightarrow> bdv_versionNumber v \<le> fold (\<lambda>v n. max (bdv_versionNumber v) n) vs n"
proof (induction vs arbitrary: n)
  case (Cons w vs)
  { case 1 show ?case using Cons(1) [of "max (bdv_versionNumber w) n"] by simp }
  { case 2 then show ?case using Cons(1,2) [of "max (bdv_versionNumber w) n"] by auto }
qed simp_all

lemma last_version_bound: "v \<in> set (versions b) \<Longrightarrow> bdv_versionNumber v \<le> last_version (bdv_documentId v) b"
  by (auto simp: last_version_def versions_of_def intro: fold_max_bound)

lemma last_version_nonneg: "0 \<le> last_version i b"
  by (simp add: last_version_def fold_max_bound)

lemma shelf_ok_new_version:
  assumes ok: "shelf_ok ds vs" and i: "bdv_documentId new \<in> fst ` set ds" and
    beyond: "\<And>v. v \<in> set vs \<Longrightarrow> bdv_documentId v = bdv_documentId new \<Longrightarrow> bdv_versionNumber v < bdv_versionNumber new" and
    positive: "1 \<le> bdv_versionNumber new" and ids: "map fst ds' = map fst ds" and
    uris: "\<And>j uri. (j, uri) \<in> set ds' \<Longrightarrow> (if j = bdv_documentId new then uri = Some (bdv_uri new) else (j, uri) \<in> set ds)"
  shows "shelf_ok ds' (vs @ [new])"
proof -
  have fsts: "fst ` set ds' = fst ` set ds" using ids by (metis set_map)
  have key: "version_key new \<notin> version_key ` set vs" using beyond by (force simp: version_key_def)
  have last: "is_last (vs @ [new]) new" using beyond by (force simp: is_last_def)
  have keep: "is_last (vs @ [new]) v" if "is_last vs v" "bdv_documentId v \<noteq> bdv_documentId new" for v
    using that by (auto simp: is_last_def)
  have "\<exists>v. is_last (vs @ [new]) v \<and> bdv_documentId v = j \<and> uri = Some (bdv_uri v)" if "(j, uri) \<in> set ds'" for j uri
  proof (cases "j = bdv_documentId new")
    case True
    then show ?thesis using uris [OF that] last by auto
  next
    case False
    then have "(j, uri) \<in> set ds" using uris [OF that] by simp
    then obtain v where "is_last vs v" "bdv_documentId v = j" "uri = Some (bdv_uri v)"
      using ok by (auto simp: shelf_ok_def)
    then show ?thesis using keep False by blast
  qed
  then show ?thesis using ok key i positive ids by (auto simp: shelf_ok_def fsts)
qed

lemma shelf_ok_removed:
  assumes ok: "shelf_ok ds vs"
  shows "shelf_ok (filter (\<lambda>d. fst d \<notin> gone) ds) (filter (\<lambda>v. bdv_documentId v \<notin> gone) vs)"
proof -
  have "\<exists>v. is_last (filter (\<lambda>v. bdv_documentId v \<notin> gone) vs) v \<and> bdv_documentId v = i \<and> uri = Some (bdv_uri v)"
    if "(i, uri) \<in> set ds" "i \<notin> gone" for i uri
  proof -
    obtain v where "is_last vs v" "bdv_documentId v = i" "uri = Some (bdv_uri v)"
      using ok \<open>(i, uri) \<in> set ds\<close> by (auto simp: shelf_ok_def)
    then show ?thesis using \<open>i \<notin> gone\<close> by (intro exI [of _ v]) (auto simp: is_last_def)
  qed
  moreover have "bdv_documentId v \<in> fst ` {x \<in> set ds. fst x \<notin> gone}" if "v \<in> set vs" "bdv_documentId v \<notin> gone" for v
    using ok that by (force simp: shelf_ok_def)
  ultimately show ?thesis using ok by (auto simp: shelf_ok_def distinct_map inj_on_def)
qed

lemma remove_documents_ok:
  assumes ok: "board_ok b"
  shows "board_ok (remove_documents gone b)"
proof -
  let ?ids = "bdc_id ` set (filter gone (documents b))"
  have inj: "inj_on bdc_id (set (documents b))"
    using ok by (auto simp: board_ok_def shelf_ok_def shelf_def distinct_map o_def comp_def)
  have "\<not> gone d \<longleftrightarrow> bdc_id d \<notin> ?ids" if "d \<in> set (documents b)" for d
    using inj that by (auto simp: inj_on_def)
  then have "delete_where gone (documents b) = filter (\<lambda>d. bdc_id d \<notin> ?ids) (documents b)"
    unfolding delete_where_def by (intro filter_cong) auto
  then have "shelf (remove_documents gone b) = filter (\<lambda>d. fst d \<notin> ?ids) (shelf b)"
    by (simp add: shelf_def remove_documents_def filter_map o_def comp_def Let_def)
  then show ?thesis
    using shelf_ok_removed [of "shelf b" "versions b" ?ids] ok
    by (simp add: board_ok_def remove_documents_def delete_where_def Let_def)
qed

lemma shelf_ok_new_document:
  assumes ok: "shelf_ok ds vs" and fresh: "bdv_documentId v \<notin> fst ` set ds" and one: "bdv_versionNumber v = 1"
  shows "shelf_ok (ds @ [(bdv_documentId v, Some (bdv_uri v))]) (vs @ [v])"
proof -
  have other: "bdv_documentId w \<noteq> bdv_documentId v" if "w \<in> set vs" for w
    using ok fresh that by (metis shelf_ok_def)
  have new: "is_last (vs @ [v]) v" using other by (auto simp: is_last_def)
  have "is_last (vs @ [v]) w" if "is_last vs w" for w
    using that other by (auto simp: is_last_def) metis
  then have "\<exists>w. is_last (vs @ [v]) w \<and> bdv_documentId w = i \<and> uri = Some (bdv_uri w)" if "(i, uri) \<in> set ds" for i uri
    using ok that unfolding shelf_ok_def by blast
  moreover have "version_key v \<notin> version_key ` set vs"
  proof
    assume "version_key v \<in> version_key ` set vs"
    then obtain w where w: "w \<in> set vs" "version_key v = version_key w" by blast
    show False using other [OF w(1)] w(2) by (simp add: version_key_def)
  qed
  ultimately show ?thesis using ok fresh new one by (auto simp: shelf_ok_def)
qed

lemma new_version_ok:
  assumes ok: "board_ok b" and d: "find (is_document i c) (documents b) = Some d"
  shows "board_ok (set_document_file i c uri (createVersionForUpload k i c u uri b))"
proof -
  have dd: "d \<in> set (documents b)" "bdc_id d = i" "bdc_congregationId d = c"
    using find_Some_in [OF d] by (auto simp: is_document_def)
  have inj: "inj_on bdc_id (set (documents b))"
    using ok by (auto simp: board_ok_def shelf_ok_def shelf_def distinct_map o_def comp_def)
  then have same: "is_document i c e \<longleftrightarrow> bdc_id e = i" if "e \<in> set (documents b)" for e
    using that dd by (auto simp: is_document_def inj_on_def)
  let ?new = "\<lparr>bdv_id = bk_version k (versions b), bdv_documentId = i, bdv_uri = uri, bdv_thumbnailUri = None,
    bdv_versionNumber = last_version i b + 1, bdv_uploadedById = Some u, bdv_congregationId = c\<rparr>"
  let ?b = "set_document_file i c uri (createVersionForUpload k i c u uri b)"
  have vs: "versions ?b = versions b @ [?new]" by (simp add: set_document_file_def createVersionForUpload_def)
  have ds: "documents ?b = update_where (is_document i c) (\<lambda>d. d\<lparr>bdc_uri := Some uri, bdc_thumbnailUri := None\<rparr>) (documents b)"
    by (simp add: set_document_file_def createVersionForUpload_def)
  have "shelf_ok (shelf ?b) (versions b @ [?new])"
  proof (rule shelf_ok_new_version)
    show "shelf_ok (shelf b) (versions b)" using ok by (simp add: board_ok_def)
    show "bdv_documentId ?new \<in> fst ` set (shelf b)" using dd by (force simp: shelf_def)
    show "bdv_versionNumber v < bdv_versionNumber ?new" if "v \<in> set (versions b)" "bdv_documentId v = bdv_documentId ?new" for v
      using last_version_bound [OF that(1)] that(2) by simp
    show "1 \<le> bdv_versionNumber ?new" by (simp add: last_version_nonneg)
    show "map fst (shelf ?b) = map fst (shelf b)" by (simp add: shelf_def ds update_where_def)
    show "if j = bdv_documentId ?new then w = Some (bdv_uri ?new) else (j, w) \<in> set (shelf b)" if "(j, w) \<in> set (shelf ?b)" for j w
      using that by (auto simp: shelf_def ds update_where_def same split: if_splits)
  qed
  then show ?thesis by (simp add: board_ok_def vs)
qed

lemma createBoardDocument_ok:
  assumes ok: "board_ok b" and fresh: "fresh_board_keys k" and
    call: "createBoardDocument k c u data b = (Inr d, b')"
  shows "board_ok b'"
proof -
  let ?i = "bk_document k (documents b)"
  have "?i \<notin> fst ` set (shelf b)" using fresh by (simp add: fresh_board_keys_def fst_shelf)
  then have "shelf_ok (shelf b @ [(?i, Some (nd_uri data))])
      (versions b @ [\<lparr>bdv_id = bk_version k (versions b), bdv_documentId = ?i, bdv_uri = nd_uri data, bdv_thumbnailUri = None,
        bdv_versionNumber = 1, bdv_uploadedById = Some u, bdv_congregationId = c\<rparr>])"
    using shelf_ok_new_document [of "shelf b" "versions b"
      "\<lparr>bdv_id = bk_version k (versions b), bdv_documentId = ?i, bdv_uri = nd_uri data, bdv_thumbnailUri = None,
        bdv_versionNumber = 1, bdv_uploadedById = Some u, bdv_congregationId = c\<rparr>"] ok
    by (simp add: board_ok_def)
  then show ?thesis using call
    by (auto simp: createBoardDocument_def board_ok_def Let_def shelf_def board_audit_def split: if_splits)
qed

lemma replaceDocumentFile_ok:
  assumes "board_ok b" and "replaceDocumentFile k i c u file b = (Inr r, b')"
  shows "board_ok b'"
proof -
  have saved: "board_ok (snd (saveFile k b))" "documents (snd (saveFile k b)) = documents b"
    using assms(1) by (simp_all add: saveFile_def board_ok_def Let_def)
  show ?thesis
  proof (cases "validateBoardFile file")
    case (Some e)
    then show ?thesis using assms by (simp add: replaceDocumentFile_def)
  next
    case None
    obtain uri s where s: "saveFile k b = (uri, s)" by (cases "saveFile k b")
    then obtain d where d: "find (is_document i c) (documents s) = Some d"
      using assms(2) None by (auto simp: replaceDocumentFile_def split: if_splits option.splits)
    have "board_ok (set_document_file i c uri (createVersionForUpload k i c u uri s))"
      using new_version_ok d saved s by simp
    then show ?thesis
      using assms(2) None s d
      by (auto simp: replaceDocumentFile_def board_ok_def Let_def split: if_splits option.splits)
  qed
qed

lemma restoreDocumentVersion_ok:
  assumes "board_ok b" and "restoreDocumentVersion k i v c u b = (Inr r, b')"
  shows "board_ok b'"
  using assms new_version_ok [OF assms(1)]
  by (auto simp: restoreDocumentVersion_def board_ok_def split: if_splits option.splits)

subsection \<open>Actions\<close>

definition is_committed :: "'a board_answer \<Rightarrow> bool" where
  "is_committed a \<longleftrightarrow> (case a of Crashed _ \<Rightarrow> False | Turned_Away _ \<Rightarrow> False | _ \<Rightarrow> True)"

lemma is_committed_simps [simp]:
  "\<not> is_committed (Crashed e)" "\<not> is_committed (Turned_Away path)" "is_committed (Went_To path)" "is_committed Bad_Form"
  "is_committed (Replied x)" "\<not> is_committed (handleAppError path e)"
  by (simp_all add: is_committed_def handleAppError_def)

lemma rolled_back_ok [simp]: "board_ok (rolled_back b b') = board_ok b"
  by (simp add: board_ok_def)

lemma in_scope_ok:
  assumes "board_ok b" and "\<And>a b'. body b = (a, b') \<Longrightarrow> is_committed a \<Longrightarrow> board_ok b'"
  shows "board_ok (snd (in_scope body b))"
  using assms by (cases "body b"; cases "fst (body b)") (auto simp: in_scope_def)

lemma after_committed:
  assumes "after r k = (a, b')" and "is_committed a"
  obtains x s where "r = (Inr x, s)" and "k x s = (a, b')"
  using assms by (auto simp: after_def split: prod.splits sum.splits)

lemma param_committed:
  assumes "requireParamId param path b k = (a, b')" and "is_committed a"
  obtains i where "param = Some i" and "k i = (a, b')"
  using assms by (auto simp: requireParamId_def split: option.splits)

lemma requirePermission_ok:
  assumes "board_ok b" and "board_ok (snd k)"
  shows "board_ok (snd (requirePermission rq p b k))"
  using assms by (simp add: requirePermission_def)

lemma requireParamId_ok:
  assumes "board_ok b" and "\<And>i. board_ok (snd (k i))"
  shows "board_ok (snd (requireParamId param path b k))"
  using assms by (simp add: requireParamId_def split: option.split)

lemma helpers_ok [simp]:
  "board_ok (board_audit a c u t i m b) = board_ok b" "board_ok (notify_board k now ps b) = board_ok b"
  "board_ok (queue_thumbnail c i key b) = board_ok b" "board_ok (deleteAllVersionFiles i b) = board_ok b"
  "board_ok (delete_files_of d b) = board_ok b" "board_ok (fold delete_files_of ds b) = board_ok b"
  by (simp_all add: board_ok_def)

lemma saveFile_ok: "saveFile k b = (key, b') \<Longrightarrow> board_ok b' = board_ok b"
  by (auto simp: saveFile_def board_ok_def Let_def)

lemma updateBoardDocument_ok:
  assumes "board_ok b" and "updateBoardDocument i c u changes b = (Inr d, b')"
  shows "board_ok b'"
  using assms by (auto simp: updateBoardDocument_def board_ok_def Let_def split: option.splits if_splits)

lemma deleteBoardDocument_ok:
  assumes "board_ok b" and "deleteBoardDocument i c u b = (Inr r, b')"
  shows "board_ok b'"
  using assms by (auto simp: deleteBoardDocument_def remove_documents_ok split: option.splits)

lemma markDocumentAsViewed_ok:
  assumes "board_ok b" and "markDocumentAsViewed i u c b = (r, b')"
  shows "board_ok b'"
  using assms by (auto simp: markDocumentAsViewed_def board_ok_def split: option.splits)

lemma order_items_ok: "board_ok b \<Longrightarrow> order_items c items b = (Inr (), b') \<Longrightarrow> board_ok b'"
  by (induction c items b rule: order_items.induct) (auto simp: board_ok_def split: if_splits)

lemma order_sections_shelf:
  "shelf (snd (order_sections c items b)) = shelf b \<and> versions (snd (order_sections c items b)) = versions b"
  by (induction c items b rule: order_sections.induct) simp_all

lemma remove_dynamics_shelf [simp]:
  "shelf (remove_dynamics p b) = shelf b" "versions (remove_dynamics p b) = versions b"
  by (simp_all add: remove_dynamics_def Let_def shelf_def)

lemma fold_add_section_role [simp]:
  "shelf (fold (add_section_role i c) ids b) = shelf b" "versions (fold (add_section_role i c) ids b) = versions b"
  by (induction ids arbitrary: b) (simp_all add: add_section_role_def)

lemma setSectionVisibilityRoles_ok [simp]: "board_ok (snd (setSectionVisibilityRoles i ids c u b)) = board_ok b"
  by (simp add: setSectionVisibilityRoles_def board_ok_def Let_def)

lemma deleteSectionWithFiles_ok:
  assumes "board_ok b" and "deleteSectionWithFiles i c b = (Inr r, b')"
  shows "board_ok b'"
proof -
  have "board_ok (x\<lparr>sections := y, sectionRoles := z\<rparr>)" if "board_ok x" for x y z
    using that by (simp add: board_ok_def)
  then show ?thesis
    using assms by (auto simp: deleteSectionWithFiles_def Let_def remove_documents_ok split: option.splits if_splits)
qed

lemma delete_sections_ok: "board_ok b \<Longrightarrow> delete_sections c ids b = (Inr (), b') \<Longrightarrow> board_ok b'"
proof (induction c ids b rule: delete_sections.induct)
  case (2 c i ids b)
  then show ?case
    by (cases "deleteSectionWithFiles i c b"; cases "fst (deleteSectionWithFiles i c b)")
       (auto dest: deleteSectionWithFiles_ok)
qed simp

lemma saved_document_ok:
  assumes "board_ok b" and "fresh_board_keys k" and "saveFile k b = (key, s)" and
    "createBoardDocument k c u data s = (Inr d, b')"
  shows "board_ok b'"
  using assms createBoardDocument_ok saveFile_ok by metis

lemma new_document_action_ok:
  assumes ok: "board_ok b" and fresh: "fresh_board_keys k"
  shows "board_ok (snd (new_document_action k now limits overlays rq sent b))"
proof -
  have "board_ok (snd (in_scope (new_body k now limits overlays rq form f) b))" for form f
  proof (rule in_scope_ok [OF ok])
    fix a b' assume "new_body k now limits overlays rq form f b = (a, b')" and "is_committed a"
    then show "board_ok b'" using ok
      by (auto simp: new_body_def Let_def saveFile_ok split: option.splits prod.splits sum.splits if_splits
          intro: saved_document_ok [OF ok fresh])
  qed
  then show ?thesis using ok by (simp add: new_document_action_def split: submission.split option.split)
qed

lemma write_document_ok:
  assumes "board_ok b" and "write_document k now rq i changes b = (a, b')" and "is_committed a"
  shows "board_ok b'"
  using assms unfolding write_document_def
  by (elim after_committed) (auto dest: updateBoardDocument_ok)

lemma edit_document_action_ok:
  assumes ok: "board_ok b"
  shows "board_ok (snd (edit_document_action k now rq raw param sent b))"
proof -
  have "board_ok (snd (in_scope (edit_document_body k now rq param form) b))" for form
  proof (rule in_scope_ok [OF ok])
    fix a b' assume "edit_document_body k now rq param form b = (a, b')" and a: "is_committed a"
    then show "board_ok b'" unfolding edit_document_body_def
      by (elim param_committed)
         (auto simp: Let_def split: prod.splits if_splits option.splits FileReplacementResult.splits
          elim!: after_committed dest!: replaceDocumentFile_ok [OF ok] intro: write_document_ok [OF ok] dest: write_document_ok [rotated])
  qed
  then show ?thesis using ok by (simp add: edit_document_action_def split: submission.split prod.split)
qed

lemma delete_document_action_ok:
  assumes ok: "board_ok b"
  shows "board_ok (snd (delete_document_action k now rq param b))"
proof -
  have "board_ok (snd (in_scope (delete_document_body k now rq param) b))"
  proof (rule in_scope_ok [OF ok])
    fix a b' assume "delete_document_body k now rq param b = (a, b')" and "is_committed a"
    then show "board_ok b'" unfolding delete_document_body_def
      using ok by (elim param_committed) (auto split: if_splits elim!: after_committed dest: deleteBoardDocument_ok [rotated])
  qed
  then show ?thesis using ok by (simp add: delete_document_action_def)
qed

lemma versions_action_ok:
  assumes ok: "board_ok b"
  shows "board_ok (snd (versions_action k rq param v b))"
proof -
  have *: "board_ok (snd (in_scope (\<lambda>b. if \<not> may rq CAN_REVIEW \<and> \<not> owns_document rq i b then (Turned_Away DOCUMENTS, b)
      else after (restoreDocumentVersion k i w (rq_congregationId rq) (rq_id rq) b)
        (\<lambda>_ b. (Went_To (page_of DOCUMENTS i ''versions''), b))) b :: unit board_ending))" for i w
    by (rule in_scope_ok [OF ok])
       (auto split: if_splits elim!: after_committed dest: restoreDocumentVersion_ok [OF ok])
  show ?thesis using ok * by (cases param; cases v) (simp_all add: versions_action_def requireParamId_def)
qed

text \<open>The arranging pages are one service call each; a call that succeeds keeps the shelf in order.\<close>

lemma service_ok:
  assumes ok: "board_ok b" and call: "\<And>x b'. r b = (Inr x, b') \<Longrightarrow> board_ok b'" and
    rest: "\<And>x s. snd (k x s) = s"
  shows "board_ok (snd (in_scope (\<lambda>b. after (r b) k) b))"
proof (rule in_scope_ok [OF ok])
  fix a b' assume "after (r b) k = (a, b')" and "is_committed a"
  then show "board_ok b'"
  proof (rule after_committed)
    fix x s assume "r b = (Inr x, s)" and "k x s = (a, b')"
    then show "board_ok b'" using call rest [of x s] by simp
  qed
qed

lemma param_service_ok:
  assumes ok: "board_ok b" and call: "\<And>i x b'. r i b = (Inr x, b') \<Longrightarrow> board_ok b'" and
    rest: "\<And>i x s. snd (k i x s) = s"
  shows "board_ok (snd (in_scope (\<lambda>b. requireParamId param path b (\<lambda>i. after (r i b) (k i))) b))"
proof (cases param)
  case None
  then show ?thesis using ok by (simp add: in_scope_def requireParamId_def)
next
  case (Some i)
  then show ?thesis
    using service_ok [OF ok, of "r i" "k i"] call rest by (simp add: requireParamId_def)
qed

lemma bulkDelete_ok: "board_ok b \<Longrightarrow> board_ok (snd (bulkDeleteBoardItems c ps ds b))"
  by (simp add: bulkDeleteBoardItems_def Let_def board_ok_def [of "remove_dynamics _ _"])
     (simp add: board_ok_def [symmetric] remove_documents_ok)

lemma bulkMove_ok: "board_ok b \<Longrightarrow> bulkMoveBoardItems c s ps ds b = (Inr r, b') \<Longrightarrow> board_ok b'"
  by (auto simp: bulkMoveBoardItems_def Let_def board_ok_def shelf_def update_where_def o_def if_distrib [of bdc_id] if_distrib [of bdc_uri] cong: if_cong split: if_split_asm)

lemma reorderDocument_ok: "board_ok b \<Longrightarrow> reorderDocument i c up b = (Inr r, b') \<Longrightarrow> board_ok b'"
  by (auto simp: reorderDocument_def Let_def chain_def split: option.splits prod.splits sum.splits dest: order_items_ok)

lemma reorderBoardItems_ok: "board_ok b \<Longrightarrow> reorderBoardItems c items b = (Inr r, b') \<Longrightarrow> board_ok b'"
  by (cases r) (simp add: reorderBoardItems_def order_items_ok)

lemma order_sections_ok: "order_sections c items b = (r, b') \<Longrightarrow> board_ok b' = board_ok b"
  using order_sections_shelf [of c items b] by (simp add: board_ok_def)

lemma reorderSection_ok: "board_ok b \<Longrightarrow> reorderSection i c up b = (Inr r, b') \<Longrightarrow> board_ok b'"
  by (auto simp: reorderSection_def Let_def chain_def split: option.splits prod.splits sum.splits dest: order_sections_ok)

lemma updateDynamicDocument_ok: "board_ok b \<Longrightarrow> updateDynamicDocument i c u data b = (Inr r, b') \<Longrightarrow> board_ok b'"
  by (auto simp: updateDynamicDocument_def board_ok_def Let_def split: option.splits if_splits)

lemma createDynamicDocument_ok: "board_ok b \<Longrightarrow> createDynamicDocument k now t ty ref cf s c b = (Inr r, b') \<Longrightarrow> board_ok b'"
  by (auto simp: createDynamicDocument_def board_ok_def Let_def split: if_splits)

lemma deleteDynamicDocument_ok: "board_ok b \<Longrightarrow> deleteDynamicDocument i c b = (Inr r, b') \<Longrightarrow> board_ok b'"
  by (auto simp: deleteDynamicDocument_def board_ok_def split: option.splits)

lemma updateBoardSection_ok: "board_ok b \<Longrightarrow> updateBoardSection i c u n b = (Inr r, b') \<Longrightarrow> board_ok b'"
  by (auto simp: updateBoardSection_def board_ok_def split: if_splits)

lemma edit_section_ok:
  assumes ok: "board_ok b"
  shows "board_ok (snd (edit_section_action rq param sent b))"
proof -
  have "board_ok (snd (in_scope (\<lambda>b. requireParamId param BOARD b (\<lambda>i. after
      (updateBoardSection i (rq_congregationId rq) (rq_id rq) (sf_name form) b)
      (\<lambda>_ b. (Went_To (page_of SECTIONS i ''edit''),
              snd (setSectionVisibilityRoles i (sf_visibilityRoleIds form) (rq_congregationId rq) (rq_id rq) b))))) b :: unit board_ending))"
    for form
    by (rule in_scope_ok [OF ok]) (auto elim!: param_committed after_committed dest: updateBoardSection_ok [OF ok])
  then show ?thesis using ok by (auto simp: edit_section_action_def requirePermission_def split: option.split)
qed

lemma new_section_ok:
  assumes ok: "board_ok b"
  shows "board_ok (snd (new_section_action k rq sent b))"
proof -
  have new: "board_ok b'" if "createBoardSection k n c u b = (s, b')" for n c u s b'
    using that ok by (auto simp: createBoardSection_def board_ok_def Let_def)
  have "board_ok (snd (in_scope (\<lambda>b.
      (case createBoardSection k (sf_name form) (rq_congregationId rq) (rq_id rq) b of
         (s, b) \<Rightarrow> (Went_To (page_of SECTIONS (bsc_id s) ''edit''),
            if sf_visibilityRoleIds form = [] then b
            else snd (setSectionVisibilityRoles (bsc_id s) (sf_visibilityRoleIds form)
                        (rq_congregationId rq) (rq_id rq) b)))) b :: unit board_ending))" for form
    by (rule in_scope_ok [OF ok]) (auto split: prod.splits if_splits dest: new)
  then show ?thesis using ok by (auto simp: new_section_action_def requirePermission_def split: option.split)
qed

lemma new_dynamic_ok:
  assumes ok: "board_ok b"
  shows "board_ok (snd (new_dynamic_action k now rq sent b))"
proof -
  have "board_ok b'" if "(case first_section c b of
          None \<Rightarrow> (Went_To p, b)
        | Some s \<Rightarrow> after (createDynamicDocument k now t ty ref cf (bsc_id s) c b) (\<lambda>d b. (Went_To (q d), b))) = (a, b')"
    and "is_committed a" for c p t ty ref cf and q :: "dynamic_document \<Rightarrow> string" and a :: "unit board_answer" and b'
    using that ok by (auto split: option.splits elim!: after_committed dest: createDynamicDocument_ok [OF ok])
  then show ?thesis using ok
    unfolding new_dynamic_action_def
    by (auto simp: requirePermission_def split: option.split intro!: in_scope_ok [OF ok])
qed

lemma edit_dynamic_ok:
  assumes ok: "board_ok b"
  shows "board_ok (snd (edit_dynamic_action rq param sent b))"
proof -
  have "board_ok (snd (in_scope (\<lambda>b. after (updateDynamicDocument i c u data b)
      (\<lambda>saved b. (case saved of None \<Rightarrow> Turned_Away DOCUMENTS | Some _ \<Rightarrow> Went_To p, b))) b :: unit board_ending))"
    for i c u data p
    by (rule in_scope_ok [OF ok]) (auto elim!: after_committed dest: updateDynamicDocument_ok [OF ok])
  then show ?thesis using ok
    by (auto simp: edit_dynamic_action_def requirePermission_def requireParamId_def Let_def split: option.split)
qed

lemma viewer_loader_ok:
  assumes ok: "board_ok b"
  shows "board_ok (snd (viewer_loader rq param b))"
proof -
  have "board_ok (snd (in_scope (\<lambda>b. case visible_document rq i b of
        None \<Rightarrow> (Turned_Away BOARD, b)
      | Some _ \<Rightarrow> after (markDocumentAsViewed i (rq_id rq) (rq_congregationId rq) b) (\<lambda>shown b. (Replied shown, b))) b))" for i
    by (rule in_scope_ok [OF ok]) (auto split: option.splits elim!: after_committed dest: markDocumentAsViewed_ok [OF ok])
  then show ?thesis using ok by (auto simp: viewer_loader_def requirePermission_def requireParamId_def split: option.split)
qed

lemma background_ok:
  assumes "board_ok b"
  shows "board_ok (snd (handleThumbnailWork newKey renders job b))" "board_ok (snd (checkExpiringDocuments k now b))"
    "board_ok (markDynamicDocumentViewed now i u b)"
proof -
  show "board_ok (snd (handleThumbnailWork newKey renders job b))"
    using assms by (auto simp: handleThumbnailWork_def board_ok_def Let_def shelf_def update_where_def o_def
        if_distrib [of bdc_id] if_distrib [of bdc_uri] cong: if_cong)
  have "board_ok (fold (\<lambda>c. notify_board k now (expiring_notice rows c)) cs x) = board_ok x" for cs rows x
    by (induction cs arbitrary: x) simp_all
  then show "board_ok (snd (checkExpiringDocuments k now b))" using assms by (simp add: checkExpiringDocuments_def Let_def)
  show "board_ok (markDynamicDocumentViewed now i u b)"
    using assms by (simp add: markDynamicDocumentViewed_def board_ok_def Let_def)
qed

lemma dynamic_viewer_loader_ok:
  assumes ok: "board_ok b"
  shows "board_ok (snd (dynamic_viewer_loader w rq param e b))"
proof -
  have "board_ok (snd (in_scope (\<lambda>b. case visible_dynamic rq i b of
        None \<Rightarrow> (Turned_Away BOARD, b)
      | Some d \<Rightarrow> (let b = markDynamicDocumentViewed (bwo_now w) i (rq_id rq) b
                 in (Replied (dynamic_viewer_page w d (rq_congregationId rq) e b), b))) b))" for i
    by (rule in_scope_ok [OF ok]) (auto simp: Let_def background_ok [OF ok] split: option.splits)
  then show ?thesis using ok
    by (auto simp: dynamic_viewer_loader_def requirePermission_def requireParamId_def split: option.split)
qed

section \<open>The last version is the one that is shown\<close>

inductive board_step :: "board_keys \<Rightarrow> board \<Rightarrow> board \<Rightarrow> bool" for k :: board_keys where
  upload: "board_step k b (snd (new_document_action k now limits overlays rq sent b))"
| edit: "board_step k b (snd (edit_document_action k now rq raw param sent b))"
| delete: "board_step k b (snd (delete_document_action k now rq param b))"
| restore: "board_step k b (snd (versions_action k rq param versionId b))"
| bulk_delete: "board_step k b (snd (bulk_delete_action rq items b))"
| bulk_move: "board_step k b (snd (bulk_move_action rq items sectionId b))"
| reorder: "board_step k b (snd (reorder_action rq items b))"
| move: "board_step k b (snd (move_document_action rq up param b))"
| new_section: "board_step k b (snd (new_section_action k rq sent b))"
| edit_section: "board_step k b (snd (edit_section_action rq param sent b))"
| delete_section: "board_step k b (snd (delete_section_action rq param b))"
| delete_sections: "board_step k b (snd (bulk_delete_sections_action rq ids b))"
| move_section: "board_step k b (snd (move_section_action rq up param b))"
| reorder_sections: "board_step k b (snd (reorder_sections_action rq ids b))"
| new_dynamic: "board_step k b (snd (new_dynamic_action k now rq sent b))"
| edit_dynamic: "board_step k b (snd (edit_dynamic_action rq param sent b))"
| delete_dynamic: "board_step k b (snd (delete_dynamic_action rq param b))"
| open_document: "board_step k b (snd (viewer_loader rq param b))"
| open_dynamic: "board_step k b (snd (dynamic_viewer_loader w rq param e b))"
| thumbnail: "board_step k b (snd (handleThumbnailWork newKey renders job b))"
| expiring: "board_step k b (snd (checkExpiringDocuments k now b))"

lemma board_step_ok:
  assumes "board_step k b b'" and ok: "board_ok b" and fresh: "fresh_board_keys k"
  shows "board_ok b'"
  using assms(1)
proof cases
  case (bulk_delete rq items)
  have "board_ok (snd (in_scope (\<lambda>b. (case bulkDeleteBoardItems c ps ds b of (counts, b) \<Rightarrow> (Replied (Some counts), b))) b))" for c ps ds
    by (rule in_scope_ok [OF ok]) (use bulkDelete_ok [OF ok, of c ps ds] in \<open>auto split: prod.splits\<close>)
  then show ?thesis using bulk_delete ok by (simp add: bulk_delete_action_def requirePermission_def)
next
  case (bulk_move rq items sectionId)
  then show ?thesis using ok by (auto simp: bulk_move_action_def requirePermission_def intro!: service_ok dest: bulkMove_ok)
next
  case (reorder rq items)
  then show ?thesis using ok by (auto simp: reorder_action_def requirePermission_def intro!: service_ok dest: reorderBoardItems_ok)
next
  case (move rq up param)
  then show ?thesis using ok
    by (auto simp: move_document_action_def requirePermission_def intro!: param_service_ok dest: reorderDocument_ok)
next
  case (delete_section rq param)
  then show ?thesis using ok
    by (auto simp: delete_section_action_def requirePermission_def intro!: param_service_ok dest: deleteSectionWithFiles_ok)
next
  case (delete_sections rq ids)
  then show ?thesis using ok
    by (auto simp: bulk_delete_sections_action_def requirePermission_def intro!: service_ok dest: delete_sections_ok)
next
  case (move_section rq up param)
  then show ?thesis using ok
    by (auto simp: move_section_action_def requirePermission_def intro!: param_service_ok dest: reorderSection_ok)
next
  case (reorder_sections rq ids)
  then show ?thesis using ok
    by (auto simp: reorder_sections_action_def requirePermission_def reorderBoardSections_def intro!: service_ok dest: order_sections_ok)
next
  case (delete_dynamic rq param)
  then show ?thesis using ok
    by (auto simp: delete_dynamic_action_def intro!: requirePermission_ok requireParamId_ok service_ok dest: deleteDynamicDocument_ok)
qed (use ok fresh in \<open>simp_all add: new_document_action_ok edit_document_action_ok delete_document_action_ok versions_action_ok
    new_section_ok edit_section_ok new_dynamic_ok edit_dynamic_ok viewer_loader_ok dynamic_viewer_loader_ok background_ok\<close>)

lemma board_steps_ok: "(board_step k)\<^sup>*\<^sup>* b b' \<Longrightarrow> fresh_board_keys k \<Longrightarrow> board_ok b \<Longrightarrow> board_ok b'"
  by (induction rule: rtranclp_induct) (auto dest: board_step_ok)

lemma last_is_unique:
  assumes "board_ok b" and "is_last (versions b) v" and "is_last (versions b) w" and "bdv_documentId v = bdv_documentId w"
  shows "v = w"
proof -
  have "bdv_versionNumber v = bdv_versionNumber w" using assms(2-4) by (force simp: is_last_def)
  then show ?thesis using assms by (auto simp: board_ok_def shelf_ok_def distinct_map inj_on_def is_last_def version_key_def)
qed

text \<open>
  C18. Whatever the pages and the background work do, the version of a document with the highest number is
  unique and is the file that the document shows.
\<close>

theorem latest_version_is_shown:
  assumes "fresh_board_keys k" and "board_ok b" and "(board_step k)\<^sup>*\<^sup>* b b'" and "d \<in> set (documents b')"
  shows "\<exists>!v. is_last (versions b') v \<and> bdv_documentId v = bdc_id d \<and> bdc_uri d = Some (bdv_uri v)"
proof -
  have ok: "board_ok b'" using board_steps_ok assms by blast
  moreover have "(bdc_id d, bdc_uri d) \<in> set (shelf b')" using assms(4) by (auto simp: shelf_def)
  ultimately obtain v where v: "is_last (versions b') v" "bdv_documentId v = bdc_id d" "bdc_uri d = Some (bdv_uri v)"
    by (auto simp: board_ok_def shelf_ok_def)
  show ?thesis
  proof (rule ex1I [of _ v])
    show "is_last (versions b') v \<and> bdv_documentId v = bdc_id d \<and> bdc_uri d = Some (bdv_uri v)" using v by blast
    show "w = v" if "is_last (versions b') w \<and> bdv_documentId w = bdc_id d \<and> bdc_uri d = Some (bdv_uri w)" for w
      using last_is_unique [OF ok] v that by metis
  qed
qed

section \<open>Who is served\<close>

text \<open>A section without roles is everybody's; otherwise one needs one of its roles.\<close>

definition open_to :: "requester \<Rightarrow> int \<Rightarrow> board \<Rightarrow> bool" where
  "open_to rq sectionId b \<longleftrightarrow>
     (\<exists>s \<in> set (sections b). bsc_id s = sectionId) \<and>
     ((\<forall>r \<in> set (sectionRoles b). bsr_sectionId r \<noteq> sectionId) \<or>
      (\<exists>r \<in> set (sectionRoles b). bsr_sectionId r = sectionId \<and>
         bsr_roleId r \<in> set (resolveEffectiveRoleIds (core (programme b)) (rq_id rq) (rq_congregationId rq))))"

lemma visibility_filter:
  "buildSectionVisibilityFilter u c b s \<longleftrightarrow>
     (\<forall>r \<in> set (sectionRoles b). bsr_sectionId r \<noteq> bsc_id s) \<or>
     (\<exists>r \<in> set (sectionRoles b). bsr_sectionId r = bsc_id s \<and> bsr_roleId r \<in> set (resolveEffectiveRoleIds (core (programme b)) u c))"
  by (auto simp: buildSectionVisibilityFilter_def Let_def list_ex_iff filter_empty_conv)

lemma section_visible_open_to: "section_visible rq i b = open_to rq i b"
  by (auto simp: section_visible_def open_to_def list_ex_iff visibility_filter)

definition cards_of :: "board_folder list \<times> board_card list \<Rightarrow> board_card set" where
  "cards_of shown = (\<Union>f \<in> set (fst shown). set (bfd_items f)) \<union> set (snd shown)"

inductive served :: "requester \<Rightarrow> board \<Rightarrow> item_kind \<Rightarrow> int \<Rightarrow> bool" for rq :: requester and b :: board where
  viewed: "fst (viewer_loader rq (Some i) b) = Replied shown \<Longrightarrow> served rq b Pdf i"
| downloaded: "fst (pdf_loader rq (Some i) b) = Replied bytes \<Longrightarrow> served rq b Pdf i"
| pictured: "fst (thumbnail_loader rq (Some i) b) = Replied (Some key) \<Longrightarrow> served rq b Pdf i"
| opened: "fst (dynamic_viewer_loader w rq (Some i) e b) = Replied page \<Longrightarrow> served rq b Dyn i"
| printed: "fst (dynamic_pdf_loader w rq (Some i) e b) = Replied sheet \<Longrightarrow> served rq b Dyn i"
| listed: "fst (index_loader now cv rq b) = Replied shown \<Longrightarrow> c \<in> cards_of shown \<Longrightarrow> served rq b (bcd_kind c) (bcd_id c)"

definition kept_in :: "requester \<Rightarrow> board \<Rightarrow> item_kind \<Rightarrow> int \<Rightarrow> bool" where
  "kept_in rq b kind i \<longleftrightarrow>
     (case kind of
        Pdf \<Rightarrow> \<exists>d \<in> set (documents b). bdc_id d = i \<and> bdc_congregationId d = rq_congregationId rq \<and> open_to rq (bdc_sectionId d) b
      | Dyn \<Rightarrow> \<exists>d \<in> set (dynamics b). dyn_id d = i \<and> dyn_congregationId d = rq_congregationId rq \<and> open_to rq (dyn_sectionId d) b)"

lemma in_scope_replied: "fst (in_scope body b) = Replied x \<longleftrightarrow> fst (body b) = Replied x"
  by (cases "body b"; cases "fst (body b)") (auto simp: in_scope_def)

lemma visible_document_kept:
  assumes "visible_document rq i b = Some d"
  shows "kept_in rq b Pdf i"
  using find_Some_in [OF assms [unfolded visible_document_def]]
  by (auto simp: kept_in_def is_document_def section_visible_open_to)

lemma visible_dynamic_kept:
  assumes "visible_dynamic rq i b = Some d"
  shows "kept_in rq b Dyn i"
  using find_Some_in [OF assms [unfolded visible_dynamic_def]]
  by (auto simp: kept_in_def is_dynamic_def section_visible_open_to)

lemma open_section:
  assumes "s \<in> set (sections b)" and "buildSectionVisibilityFilter (rq_id rq) (rq_congregationId rq) b s"
  shows "open_to rq (bsc_id s) b"
  using assms unfolding open_to_def visibility_filter by blast

lemma pdf_card_kept:
  assumes "d \<in> set (documents_now now rq b)" and "open_to rq (bdc_sectionId d) b"
  shows "kept_in rq b (bcd_kind (pdf_card rq d)) (bcd_id (pdf_card rq d))"
  using assms by (auto simp: kept_in_def pdf_card_def documents_now_def documents_of_def)

lemma dynamic_card_kept:
  assumes "d \<in> set (dynamics_now now rq b)"
  shows "kept_in rq b (bcd_kind (dynamic_card cv rq b d)) (bcd_id (dynamic_card cv rq b d))"
  using assms by (auto simp: kept_in_def dynamic_card_def dynamics_now_def section_visible_open_to)

lemma index_cards_kept:
  assumes shown: "fst (index_loader now cv rq b) = Replied shown" and c: "c \<in> cards_of shown"
  shows "kept_in rq b (bcd_kind c) (bcd_id c)"
proof -
  let ?open = "filter (buildSectionVisibilityFilter (rq_id rq) (rq_congregationId rq) b) (sections_of (rq_congregationId rq) b)"
  have "shown = (map (folder_of now cv rq b) (js_sort (by_order bsc_order) ?open),
      map (pdf_card rq) (filter (\<lambda>d. bdc_isHighlighted d \<and> section_visible rq (bdc_sectionId d) b) (documents_now now rq b)) @
      map (dynamic_card cv rq b) (filter dyn_isHighlighted (dynamics_now now rq b)))"
    using shown by (simp add: index_loader_def requirePermission_def in_scope_replied split: if_splits)
  then consider s where "s \<in> set ?open" "c \<in> set (bfd_items (folder_of now cv rq b s))"
    | d where "c = pdf_card rq d" "d \<in> set (documents_now now rq b)" "section_visible rq (bdc_sectionId d) b"
    | d where "c = dynamic_card cv rq b d" "d \<in> set (dynamics_now now rq b)"
    using c unfolding cards_of_def by auto
  then show ?thesis
  proof cases
    case (1 s)
    then have s: "open_to rq (bsc_id s) b" using open_section by (simp add: sections_of_def)
    show ?thesis using 1(2) s by (auto simp: folder_of_def intro: pdf_card_kept dynamic_card_kept)
  next
    case (2 d)
    then show ?thesis using pdf_card_kept section_visible_open_to by blast
  next
    case (3 d)
    then show ?thesis using dynamic_card_kept by blast
  qed
qed

lemma served_kept:
  assumes "served rq b kind i"
  shows "may rq CAN_VIEW \<and> kept_in rq b kind i"
  using assms
proof cases
  case (viewed shown)
  then show ?thesis
    by (auto simp: viewer_loader_def requirePermission_def requireParamId_def in_scope_replied visible_document_kept
        split: if_splits option.splits)
next
  case (downloaded bytes)
  then show ?thesis
    by (auto simp: pdf_loader_def requirePermission_def requireParamId_def in_scope_replied visible_document_kept
        split: if_splits option.splits)
next
  case (pictured key)
  then show ?thesis
    by (auto simp: thumbnail_loader_def requirePermission_def requireParamId_def in_scope_replied visible_document_kept
        split: if_splits option.splits bind_splits)
next
  case (opened w e page)
  then show ?thesis
    by (auto simp: dynamic_viewer_loader_def requirePermission_def requireParamId_def in_scope_replied visible_dynamic_kept
        split: if_splits option.splits)
next
  case (printed w e sheet)
  then show ?thesis
    by (auto simp: dynamic_pdf_loader_def requirePermission_def requireParamId_def in_scope_replied visible_dynamic_kept
        split: if_splits option.splits)
next
  case (listed now cv shown c)
  then have "may rq CAN_VIEW" by (auto simp: index_loader_def requirePermission_def split: if_splits)
  then show ?thesis using listed index_cards_kept by blast
qed

text \<open>
  The pages for looking after the board do not ask for the section: the forms of one document, the
  list of who has read it, and the list of all documents.
\<close>

inductive opened_to_manage :: "requester \<Rightarrow> board \<Rightarrow> int \<Rightarrow> bool" for rq :: requester and b :: board where
  edit_form: "fst (edit_loader rq (Some i) b) = Replied x \<Longrightarrow> opened_to_manage rq b i"
| delete_form: "fst (delete_loader rq (Some i) b) = Replied d \<Longrightarrow> opened_to_manage rq b i"
| version_list: "fst (versions_loader rq (Some i) b) = Replied vs \<Longrightarrow> opened_to_manage rq b i"
| readers: "fst (read_status_loader by_name rq (Some i) b) = Replied us \<Longrightarrow> opened_to_manage rq b i"

inductive listed_to_manage :: "requester \<Rightarrow> board \<Rightarrow> item_kind \<Rightarrow> int \<Rightarrow> bool" for rq :: requester and b :: board where
  pdf_row: "fst (list_loader finds rq q sec b) = Replied shown \<Longrightarrow> (d, u) \<in> set (dli_documents shown) \<Longrightarrow>
    listed_to_manage rq b Pdf (bdc_id d)"
| dynamic_row: "fst (list_loader finds rq q sec b) = Replied shown \<Longrightarrow> d \<in> set (dli_dynamics shown) \<Longrightarrow>
    listed_to_manage rq b Dyn (dyn_id d)"

definition in_congregation :: "requester \<Rightarrow> board \<Rightarrow> item_kind \<Rightarrow> int \<Rightarrow> bool" where
  "in_congregation rq b kind i \<longleftrightarrow>
     (case kind of
        Pdf \<Rightarrow> \<exists>d \<in> set (documents b). bdc_id d = i \<and> bdc_congregationId d = rq_congregationId rq
      | Dyn \<Rightarrow> \<exists>d \<in> set (dynamics b). dyn_id d = i \<and> dyn_congregationId d = rq_congregationId rq)"

lemma find_in_congregation:
  "find (is_document i (rq_congregationId rq)) (documents b) = Some d \<Longrightarrow> in_congregation rq b Pdf i"
  by (drule find_Some_in) (auto simp: in_congregation_def is_document_def)

lemma document_loader_replied:
  assumes "fst (document_loader rq (Some i) invalid missing shown b) = Replied x"
  shows "(may rq CAN_REVIEW \<or> owns_document rq i b) \<and> in_congregation rq b Pdf i"
  using assms by (auto simp: document_loader_def requireParamId_def find_in_congregation split: if_splits option.splits)

lemma opened_to_manage_own:
  assumes "opened_to_manage rq b i"
  shows "(may rq CAN_REVIEW \<or> owns_document rq i b) \<and> in_congregation rq b Pdf i"
  using assms
proof cases
  case (readers by_name us)
  then have "may rq CAN_REVIEW"
    and "find (is_document i (rq_congregationId rq)) (documents b) \<noteq> None"
    by (auto simp: read_status_loader_def requirePermission_def requireParamId_def in_scope_replied board_audit_def Let_def
        split: if_splits option.splits)
  then show ?thesis using find_in_congregation by blast
qed (simp_all add: edit_loader_def delete_loader_def versions_loader_def document_loader_replied)

lemma listed_to_manage_own:
  assumes "listed_to_manage rq b kind i"
  shows "(may rq CAN_UPLOAD \<or> may rq CAN_REVIEW) \<and> in_congregation rq b kind i"
  using assms
  by cases (auto simp: list_loader_def in_scope_replied Let_def in_congregation_def split: if_splits option.splits)

text \<open>
  C19. A member who opens a document in the viewer, downloads its file or its picture, finds its card on
  the board, or opens or prints a computed document, may see the board, and the document belongs to the
  member's congregation and to a section that has no roles or one that the member holds. The pages that
  manage documents leave the section aside: the forms that edit, delete and restore and the list of readers
  open for a reviewer, or (but the last) for the account that uploaded the document; the list of documents
  opens for those who upload or review; all of them show the documents of one's own congregation only.
\<close>

theorem documents_stay_in_their_section:
  shows "(served rq b kind i \<longrightarrow> may rq CAN_VIEW \<and> kept_in rq b kind i) \<and>
    (opened_to_manage rq b j \<longrightarrow> (may rq CAN_REVIEW \<or> owns_document rq j b) \<and> in_congregation rq b Pdf j) \<and>
    (fst (read_status_loader by_name rq param b) = Replied us \<longrightarrow> may rq CAN_REVIEW) \<and>
    (listed_to_manage rq b kind i \<longrightarrow> (may rq CAN_UPLOAD \<or> may rq CAN_REVIEW) \<and> in_congregation rq b kind i)"
  using served_kept opened_to_manage_own listed_to_manage_own
  by (auto simp: read_status_loader_def requirePermission_def split: if_splits)

section \<open>Uploaders\<close>

text \<open>What an action makes of the rows of one document.\<close>

definition rows_of :: "int \<Rightarrow> board \<Rightarrow> board_document list \<times> document_version list" where
  "rows_of i b = (filter (\<lambda>d. bdc_id d = i) (documents b), versions_of i b)"

lemma rows_of_cong: "documents b' = documents b \<Longrightarrow> versions b' = versions b \<Longrightarrow> rows_of i b' = rows_of i b"
  by (simp add: rows_of_def versions_of_def)

lemma documents_helpers [simp]:
  "documents (board_audit a c u t i m b) = documents b" "documents (notify_board k now ps b) = documents b"
  "documents (queue_thumbnail c i key b) = documents b" "documents (rolled_back b b') = documents b"
  by (simp_all add: board_audit_def notify_board_def queue_thumbnail_def rolled_back_def)

lemma in_scope_rows:
  assumes "\<And>a b'. body b = (a, b') \<Longrightarrow> is_committed a \<Longrightarrow> rows_of j b' = rows_of j b"
  shows "rows_of j (snd (in_scope body b)) = rows_of j b"
  using assms by (cases "body b"; cases "fst (body b)") (auto simp: in_scope_def rows_of_def versions_of_def)

lemma filter_other_documents:
  assumes "\<And>d. bdc_id (f d) = bdc_id d" and "\<And>d. p d \<Longrightarrow> bdc_id d \<noteq> j"
  shows "filter (\<lambda>d. bdc_id d = j) (update_where p f ds) = filter (\<lambda>d. bdc_id d = j) ds"
  using assms by (induction ds) auto

lemma new_version_rows:
  "j \<noteq> i \<Longrightarrow> rows_of j (set_document_file i c uri (createVersionForUpload k i c u uri b)) = rows_of j b"
  by (simp add: rows_of_def versions_of_def set_document_file_def createVersionForUpload_def)
     (rule filter_other_documents; auto simp: is_document_def)

lemma rows_of_setters [simp]:
  "rows_of j (queue_thumbnail c i key b) = rows_of j b" "rows_of j (deleteFile uri b) = rows_of j b"
  "rows_of j (delete_thumbnail t b) = rows_of j b" "rows_of j (notify_board k now ps b) = rows_of j b"
  "rows_of j (board_audit a c u et i m b) = rows_of j b" "rows_of j (delete_files_of d b) = rows_of j b"
  "rows_of j (deleteAllVersionFiles i b) = rows_of j b" "rows_of j (snd (saveFile k b)) = rows_of j b"
  by (simp_all add: rows_of_def versions_of_def saveFile_def Let_def)

lemma replaceDocumentFile_rows:
  assumes "replaceDocumentFile k i c u file b = (Inr r, b')" and "j \<noteq> i"
  shows "rows_of j b' = rows_of j b"
proof (cases "validateBoardFile file")
  case (Some e)
  then show ?thesis using assms by (simp add: replaceDocumentFile_def)
next
  case None
  obtain uri s where s: "saveFile k b = (uri, s)" by (cases "saveFile k b")
  then have "rows_of j s = rows_of j b" using rows_of_setters(8) [of j k b] by simp
  then show ?thesis
    using assms None s new_version_rows [OF assms(2)]
    by (auto simp: replaceDocumentFile_def Let_def split: if_splits option.splits)
qed

lemma updateBoardDocument_rows:
  assumes "updateBoardDocument i c u changes b = (Inr d, b')" and "j \<noteq> i"
  shows "rows_of j b' = rows_of j b"
proof -
  have "rows_of j (x\<lparr>documents := update_where (is_document i c) f (documents x)\<rparr>) = rows_of j x"
    if "\<And>d. bdc_id (f d) = bdc_id d" for f x
    using that assms(2) by (simp add: rows_of_def versions_of_def) (rule filter_other_documents; auto simp: is_document_def)
  then show ?thesis using assms by (auto simp: updateBoardDocument_def Let_def split: option.splits if_splits)
qed

lemma remove_document_rows:
  assumes "j \<noteq> i"
  shows "rows_of j (remove_documents (is_document i c) b) = rows_of j b"
proof -
  have "filter (\<lambda>d. bdc_id d = j) (delete_where (is_document i c) ds) = filter (\<lambda>d. bdc_id d = j) ds" for ds
    using assms by (induction ds) (auto simp: delete_where_def is_document_def)
  moreover have "filter (\<lambda>v. bdv_documentId v = j) (delete_where (\<lambda>v. bdv_documentId v \<in> bdc_id ` set (filter (is_document i c) ds)) vs) =
      filter (\<lambda>v. bdv_documentId v = j) vs" for ds vs
    using assms by (induction vs) (auto simp: delete_where_def is_document_def)
  ultimately show ?thesis by (simp add: rows_of_def versions_of_def remove_documents_def Let_def)
qed

lemma deleteBoardDocument_rows:
  assumes "deleteBoardDocument i c u b = (Inr r, b')" and "j \<noteq> i"
  shows "rows_of j b' = rows_of j b"
  using assms by (auto simp: deleteBoardDocument_def remove_document_rows split: option.splits)

lemma restoreDocumentVersion_rows:
  assumes "restoreDocumentVersion k i v c u b = (Inr r, b')" and "j \<noteq> i"
  shows "rows_of j b' = rows_of j b"
  using assms new_version_rows [OF assms(2)]
  by (auto simp: restoreDocumentVersion_def split: if_splits option.splits)

text \<open>An uploader without the right to review only gets past the guard on a document of its own.\<close>

lemma edit_body_rows:
  assumes "\<not> may rq CAN_REVIEW" and "\<not> isDocumentOwnedByUploader j (rq_id rq) b" and
    "edit_document_body k now rq param form b = (a, b')" and a: "is_committed a"
  shows "rows_of j b' = rows_of j b"
proof -
  obtain i where i: "param = Some i" and own: "owns_document rq i b"
    using assms unfolding edit_document_body_def by (elim param_committed) (auto split: if_splits)
  have ji: "j \<noteq> i" using own assms(2) by (auto simp: owns_document_def)
  have written: "rows_of j x = rows_of j s" if "write_document k now rq i changes s = (a, x)" for changes s x
    using that a unfolding write_document_def
    by (elim after_committed) (auto dest: updateBoardDocument_rows [OF _ ji])
  show ?thesis
    using assms(1,3) a own unfolding i edit_document_body_def
    by (auto simp: requireParamId_def Let_def split: prod.splits if_splits option.splits FileReplacementResult.splits
        elim!: after_committed dest!: replaceDocumentFile_rows [OF _ ji] written)
qed

lemma delete_body_rows:
  assumes "\<not> may rq CAN_REVIEW" and "\<not> isDocumentOwnedByUploader j (rq_id rq) b" and
    "delete_document_body k now rq param b = (a, b')" and a: "is_committed a"
  shows "rows_of j b' = rows_of j b"
  using assms unfolding delete_document_body_def
  by (elim param_committed)
     (auto simp: owns_document_def split: if_splits elim!: after_committed dest!: deleteBoardDocument_rows [where j = j])

lemma restore_body_rows:
  assumes "\<not> may rq CAN_REVIEW" and "\<not> isDocumentOwnedByUploader j (rq_id rq) b" and
    "(if \<not> may rq CAN_REVIEW \<and> \<not> owns_document rq i b then (Turned_Away DOCUMENTS, b)
      else after (restoreDocumentVersion k i v c (rq_id rq) b) (\<lambda>_ b. (Went_To p, b))) = (a, b')" and "is_committed a"
  shows "rows_of j b' = rows_of j b"
  using assms by (auto simp: owns_document_def split: if_splits elim!: after_committed dest!: restoreDocumentVersion_rows [where j = j])

definition showing :: "board_document \<Rightarrow> int \<times> int option \<times> int option \<times> bool" where
  "showing d = (bdc_id d, bdc_visibleFrom d, bdc_visibleUntil d, bdc_isHighlighted d)"

lemma map_showing_update:
  "(\<And>d. showing (f d) = showing d) \<Longrightarrow> map showing (update_where p f ds) = map showing ds"
  by (simp add: update_where_def)

lemma replaceDocumentFile_showing:
  assumes "replaceDocumentFile k i c u file b = (Inr r, b')"
  shows "map showing (documents b') = map showing (documents b)"
proof (cases "validateBoardFile file")
  case (Some e)
  then show ?thesis using assms by (simp add: replaceDocumentFile_def)
next
  case None
  have "map showing (documents (set_document_file i c uri (createVersionForUpload k i c u uri s))) = map showing (documents s)" for uri s
    by (simp add: set_document_file_def createVersionForUpload_def)
       (rule map_showing_update, simp add: showing_def)
  then show ?thesis using assms None
    by (auto simp: replaceDocumentFile_def saveFile_def Let_def split: if_splits option.splits)
qed

lemma edit_keeps_showing:
  assumes "\<not> may rq CAN_REVIEW" and "edit_document_body k now rq param form b = (a, b')" and a: "is_committed a"
  shows "map showing (documents b') = map showing (documents b)"
proof -
  have written: "map showing (documents x) = map showing (documents s)"
    if "write_document k now rq i \<lparr>du_title = t, du_sectionId = sec, du_visibleFrom = None, du_visibleUntil = None,
        du_isHighlighted = None\<rparr> s = (a, x)" for i t sec s x
    using that a unfolding write_document_def
    by (elim after_committed)
       (auto simp: updateBoardDocument_def Let_def kept_def split: option.splits if_splits intro!: map_showing_update
          simp: showing_def)
  show ?thesis
    using assms unfolding edit_document_body_def
    by (elim param_committed)
       (auto simp: resolveVisibility_def Let_def split: if_splits option.splits FileReplacementResult.splits
          elim!: after_committed dest!: replaceDocumentFile_showing written)
qed

text \<open>
  What one account can ask of the board, page after page. A document is the same to the others when its row,
  apart from the list of those who have read it, and its versions are.
\<close>

inductive page_action :: "board_keys \<Rightarrow> requester \<Rightarrow> board \<Rightarrow> board \<Rightarrow> bool" for k :: board_keys and rq :: requester where
  asks_upload: "page_action k rq b (snd (new_document_action k now limits overlays rq sent b))"
| asks_edit: "page_action k rq b (snd (edit_document_action k now rq raw param sent b))"
| asks_delete: "page_action k rq b (snd (delete_document_action k now rq param b))"
| asks_restore: "page_action k rq b (snd (versions_action k rq param versionId b))"
| asks_bulk_delete: "page_action k rq b (snd (bulk_delete_action rq items b))"
| asks_bulk_move: "page_action k rq b (snd (bulk_move_action rq items sectionId b))"
| asks_reorder: "page_action k rq b (snd (reorder_action rq items b))"
| asks_move: "page_action k rq b (snd (move_document_action rq up param b))"
| asks_new_section: "page_action k rq b (snd (new_section_action k rq sections_sent b))"
| asks_edit_section: "page_action k rq b (snd (edit_section_action rq param sections_sent b))"
| asks_delete_section: "page_action k rq b (snd (delete_section_action rq param b))"
| asks_delete_sections: "page_action k rq b (snd (bulk_delete_sections_action rq ids b))"
| asks_move_section: "page_action k rq b (snd (move_section_action rq up param b))"
| asks_reorder_sections: "page_action k rq b (snd (reorder_sections_action rq ids b))"
| asks_new_dynamic: "page_action k rq b (snd (new_dynamic_action k now rq dynamic_sent b))"
| asks_edit_dynamic: "page_action k rq b (snd (edit_dynamic_action rq param edit_sent b))"
| asks_delete_dynamic: "page_action k rq b (snd (delete_dynamic_action rq param b))"
| asks_document: "page_action k rq b (snd (viewer_loader rq param b))"
| asks_dynamic: "page_action k rq b (snd (dynamic_viewer_loader w rq param e b))"

definition contents :: "int \<Rightarrow> board \<Rightarrow> board_document list \<times> document_version list" where
  "contents i b = (map (\<lambda>d. d\<lparr>bdc_viewedBy := []\<rparr>) (filter (\<lambda>d. bdc_id d = i) (documents b)), versions_of i b)"

lemma rows_contents: "rows_of i b' = rows_of i b \<Longrightarrow> contents i b' = contents i b"
  by (simp add: rows_of_def contents_def)

lemma contents_exists: "j \<in> bdc_id ` set (documents b) \<longleftrightarrow> fst (contents j b) \<noteq> []"
  by (auto simp: contents_def filter_empty_conv)

lemma contents_owned:
  assumes "contents j b' = contents j b"
  shows "isDocumentOwnedByUploader j u b' = isDocumentOwnedByUploader j u b"
proof -
  have eq: "find (\<lambda>v. bdv_documentId v = j \<and> bdv_versionNumber v = 1) vs =
      find (\<lambda>v. bdv_versionNumber v = 1) (filter (\<lambda>v. bdv_documentId v = j) vs)" for vs
    by (induction vs) auto
  show ?thesis using assms unfolding isDocumentOwnedByUploader_def contents_def versions_of_def eq by simp
qed

text \<open>A page whose service keeps the documents and versions keeps every document's rows.\<close>

lemma kept_rows:
  assumes "\<And>a b'. body b = (a, b') \<Longrightarrow> is_committed a \<Longrightarrow> documents b' = documents b \<and> versions b' = versions b"
  shows "rows_of j (snd (in_scope body b)) = rows_of j b"
  using assms by (intro in_scope_rows rows_of_cong) auto

lemma dynamic_rows:
  "rows_of j (snd (new_dynamic_action k now rq sent b)) = rows_of j b"
  "rows_of j (snd (edit_dynamic_action rq param sent' b)) = rows_of j b"
  "rows_of j (snd (delete_dynamic_action rq param b)) = rows_of j b"
  "rows_of j (snd (dynamic_viewer_loader w rq param e b)) = rows_of j b"
proof -
  have create: "documents b' = documents s \<and> versions b' = versions s"
    if "createDynamicDocument k now t ty ref cf sec c s = (Inr d, b')" for t ty ref cf sec c s d b'
    using that by (auto simp: createDynamicDocument_def Let_def split: if_splits)
  have update: "documents b' = documents s \<and> versions b' = versions s"
    if "updateDynamicDocument i c u data s = (Inr d, b')" for i c u data s d b'
    using that by (auto simp: updateDynamicDocument_def Let_def board_audit_def split: option.splits if_splits)
  have delete: "documents b' = documents s \<and> versions b' = versions s"
    if "deleteDynamicDocument i c s = (Inr d, b')" for i c s d b'
    using that by (auto simp: deleteDynamicDocument_def remove_dynamics_def Let_def split: option.splits)
  have viewed: "documents (markDynamicDocumentViewed n i u s) = documents s \<and> versions (markDynamicDocumentViewed n i u s) = versions s"
    for n i u s
    by (simp add: markDynamicDocumentViewed_def Let_def)
  show "rows_of j (snd (new_dynamic_action k now rq sent b)) = rows_of j b"
    unfolding new_dynamic_action_def
    by (auto simp: requirePermission_def split: option.splits intro!: kept_rows elim!: after_committed dest: create)
  show "rows_of j (snd (edit_dynamic_action rq param sent' b)) = rows_of j b"
    by (auto simp: edit_dynamic_action_def requirePermission_def requireParamId_def Let_def split: option.splits
        intro!: kept_rows elim!: after_committed dest: update)
  show "rows_of j (snd (delete_dynamic_action rq param b)) = rows_of j b"
    by (auto simp: delete_dynamic_action_def requirePermission_def requireParamId_def split: option.splits
        intro!: kept_rows elim!: after_committed dest: delete)
  show "rows_of j (snd (dynamic_viewer_loader w rq param e b)) = rows_of j b"
    by (auto simp: dynamic_viewer_loader_def requirePermission_def requireParamId_def Let_def viewed split: option.splits
        intro!: kept_rows)
qed

lemma viewed_contents: "contents j (snd (viewer_loader rq param b)) = contents j b"
proof -
  have mark: "contents j b' = contents j s" if "markDocumentAsViewed i u c s = (Inr d, b')" for i u c s d b'
  proof -
    have "map (\<lambda>d. d\<lparr>bdc_viewedBy := []\<rparr>) (filter (\<lambda>d. bdc_id d = j) (update_where (is_document i c)
        (\<lambda>d. if u \<in> set (bdc_viewedBy d) then d else d\<lparr>bdc_viewedBy := bdc_viewedBy d @ [u]\<rparr>) ds)) =
      map (\<lambda>d. d\<lparr>bdc_viewedBy := []\<rparr>) (filter (\<lambda>d. bdc_id d = j) ds)" for ds
      by (induction ds) auto
    then show ?thesis using that
      by (auto simp: markDocumentAsViewed_def contents_def versions_of_def split: option.splits)
  qed
  have scope: "contents j (snd (in_scope body b)) = contents j b"
    if "\<And>a b'. body b = (a, b') \<Longrightarrow> is_committed a \<Longrightarrow> contents j b' = contents j b" for body :: "board \<Rightarrow> (int \<times> string) board_ending"
    using that by (cases "body b"; cases "fst (body b)") (auto simp: in_scope_def contents_def versions_of_def)
  show ?thesis
    by (auto simp: viewer_loader_def requirePermission_def requireParamId_def split: option.splits
        intro!: scope elim!: after_committed dest: mark)
qed

lemma upload_rows:
  assumes "fresh_board_keys k" and "j \<in> bdc_id ` set (documents b)"
  shows "rows_of j (snd (new_document_action k now limits overlays rq sent b)) = rows_of j b"
proof -
  have key: "bk_document k (documents b) \<noteq> j" using assms unfolding fresh_board_keys_def by auto
  have created: "rows_of j b' = rows_of j s"
    if "createBoardDocument k c u data s = (Inr d, b')" and "documents s = documents b" for c u data s d b'
    using that key
    by (auto simp: createBoardDocument_def rows_of_def versions_of_def Let_def board_audit_def split: if_splits)
  have "rows_of j (snd (in_scope (new_body k now limits overlays rq form f) b)) = rows_of j b" for form f
  proof (rule in_scope_rows)
    fix a b' assume run: "new_body k now limits overlays rq form f b = (a, b')" and "is_committed a"
    obtain key s where s: "saveFile k b = (key, s)" by (cases "saveFile k b")
    then have "documents s = documents b" "rows_of j s = rows_of j b"
      using rows_of_setters(8) [of j k b] by (auto simp: saveFile_def Let_def)
    with run \<open>is_committed a\<close> s show "rows_of j b' = rows_of j b"
      by (auto simp: new_body_def Let_def split: option.splits prod.splits sum.splits if_splits dest: created)
  qed
  then show ?thesis by (simp add: new_document_action_def split: submission.split option.split)
qed

lemma own_actions_rows:
  assumes "\<not> may rq CAN_REVIEW" and "\<not> isDocumentOwnedByUploader j (rq_id rq) b"
  shows "rows_of j (snd (edit_document_action k now rq raw param sent b)) = rows_of j b"
    and "rows_of j (snd (delete_document_action k now rq param b)) = rows_of j b"
    and "rows_of j (snd (versions_action k rq param v b)) = rows_of j b"
proof -
  have edit: "rows_of j (snd (in_scope (edit_document_body k now rq param form) b)) = rows_of j b"
    and delete: "rows_of j (snd (in_scope (delete_document_body k now rq param) b)) = rows_of j b"
    and restore: "rows_of j (snd (in_scope (\<lambda>b. if \<not> may rq CAN_REVIEW \<and> \<not> owns_document rq i b then (Turned_Away DOCUMENTS, b)
      else after (restoreDocumentVersion k i w (rq_congregationId rq) (rq_id rq) b)
        (\<lambda>_ b. (Went_To (page_of DOCUMENTS i ''versions''), b))) b :: unit board_ending)) = rows_of j b"
    for form i w
    by (rule in_scope_rows; erule (1) edit_body_rows [OF assms] delete_body_rows [OF assms] restore_body_rows [OF assms])+
  show "rows_of j (snd (edit_document_action k now rq raw param sent b)) = rows_of j b"
    "rows_of j (snd (delete_document_action k now rq param b)) = rows_of j b"
    "rows_of j (snd (versions_action k rq param v b)) = rows_of j b"
    using edit delete restore
    by (auto simp: edit_document_action_def delete_document_action_def versions_action_def requireParamId_def
        split: submission.split prod.split option.split)
qed

lemma page_action_contents:
  assumes "page_action k rq b b'" and "\<not> may rq CAN_REVIEW" "\<not> may rq CAN_ORGANISE" "\<not> may rq CAN_CONFIGURE"
    and "fresh_board_keys k" and "j \<in> bdc_id ` set (documents b)" and "\<not> isDocumentOwnedByUploader j (rq_id rq) b"
  shows "contents j b' = contents j b"
  using assms(1)
proof cases
  case (asks_upload now limits overlays sent)
  then show ?thesis by (intro rows_contents) (simp add: upload_rows [OF assms(5,6)])
next
  case (asks_edit now raw param sent)
  then show ?thesis by (intro rows_contents) (simp add: own_actions_rows [OF assms(2,7)])
next
  case (asks_delete now param)
  then show ?thesis by (intro rows_contents) (simp add: own_actions_rows [OF assms(2,7)])
next
  case (asks_restore param versionId)
  then show ?thesis by (intro rows_contents) (simp add: own_actions_rows [OF assms(2,7)])
next
  case (asks_new_dynamic now sent)
  then show ?thesis by (intro rows_contents) (simp add: dynamic_rows)
next
  case (asks_edit_dynamic param sent)
  then show ?thesis by (intro rows_contents) (simp add: dynamic_rows)
next
  case (asks_delete_dynamic param)
  then show ?thesis by (intro rows_contents) (simp add: dynamic_rows)
next
  case (asks_document param)
  then show ?thesis by (simp add: viewed_contents)
next
  case (asks_dynamic w param e)
  then show ?thesis by (intro rows_contents) (simp add: dynamic_rows)
qed (use assms(3,4) in \<open>simp_all add: requirePermission_def bulk_delete_action_def bulk_move_action_def reorder_action_def
       move_document_action_def new_section_action_def edit_section_action_def delete_section_action_def
       bulk_delete_sections_action_def move_section_action_def reorder_sections_action_def\<close>)

lemma page_actions_contents:
  assumes "(page_action k rq)\<^sup>*\<^sup>* b b'" and "\<not> may rq CAN_REVIEW" "\<not> may rq CAN_ORGANISE" "\<not> may rq CAN_CONFIGURE"
    and "fresh_board_keys k" and "j \<in> bdc_id ` set (documents b)" and "\<not> isDocumentOwnedByUploader j (rq_id rq) b"
  shows "contents j b' = contents j b"
  using assms(1)
proof (induction rule: rtranclp_induct)
  case (step x y)
  have "j \<in> bdc_id ` set (documents x)" "\<not> isDocumentOwnedByUploader j (rq_id rq) x"
    using step.IH assms(6,7) contents_owned [OF step.IH] by (simp_all add: contents_exists)
  then show ?case using page_action_contents [OF step.hyps(2) assms(2-5)] step.IH by simp
qed simp

lemma edit_action_keeps_showing:
  assumes "\<not> may rq CAN_REVIEW"
  shows "map showing (documents (snd (edit_document_action k now rq raw param sent b))) = map showing (documents b)"
proof -
  have "map showing (documents (snd (in_scope (edit_document_body k now rq param form) b))) = map showing (documents b)" for form
    using edit_keeps_showing [OF assms]
    by (cases "edit_document_body k now rq param form b"; cases "fst (edit_document_body k now rq param form b)")
       (auto simp: in_scope_def)
  then show ?thesis by (simp add: edit_document_action_def split: submission.split prod.split)
qed

text \<open>
  C20. Somebody who may upload but not review changes, by editing, deleting or restoring, no row of a document
  that somebody else uploaded, and no edit of theirs changes when a document shows or its highlight. If they
  may neither organise documents nor configure sections either, no run of the board's pages, however long,
  changes such a document in anything but the list of its readers. (Organising is a right of its own: whoever
  has it moves and deletes any document of the congregation, whoever uploaded it.)
\<close>

theorem uploaders_touch_only_their_own:
  assumes "\<not> may rq CAN_REVIEW"
  shows "(\<not> isDocumentOwnedByUploader j (rq_id rq) b \<longrightarrow>
      rows_of j (snd (edit_document_action k now rq raw param sent b)) = rows_of j b \<and>
      rows_of j (snd (delete_document_action k now rq param b)) = rows_of j b \<and>
      rows_of j (snd (versions_action k rq param v b)) = rows_of j b) \<and>
    map showing (documents (snd (edit_document_action k now rq raw param sent b))) = map showing (documents b) \<and>
    (\<not> may rq CAN_ORGANISE \<and> \<not> may rq CAN_CONFIGURE \<and> fresh_board_keys k \<and> j \<in> bdc_id ` set (documents b) \<and>
      \<not> isDocumentOwnedByUploader j (rq_id rq) b \<and> (page_action k rq)\<^sup>*\<^sup>* b b' \<longrightarrow> contents j b' = contents j b)"
proof (intro conjI impI)
  show "contents j b' = contents j b"
    if "\<not> may rq CAN_ORGANISE \<and> \<not> may rq CAN_CONFIGURE \<and> fresh_board_keys k \<and> j \<in> bdc_id ` set (documents b) \<and>
      \<not> isDocumentOwnedByUploader j (rq_id rq) b \<and> (page_action k rq)\<^sup>*\<^sup>* b b'"
    using that assms by (elim conjE) (rule page_actions_contents)
qed (simp_all add: own_actions_rows [OF assms] edit_action_keeps_showing [OF assms])

section \<open>Earlier versions after a replacement\<close>

lemma storage_helpers [simp]:
  "storage (queue_thumbnail c i key b) = storage b" "storage (deleteFile (Some f) b) = filter (\<lambda>g. g \<noteq> f) (storage b)"
  "storage (createVersionForUpload k i c u uri b) = storage b" "storage (set_document_file i c uri b) = storage b"
  by (simp_all add: queue_thumbnail_def deleteFile_def deleteBoardFile_def createVersionForUpload_def set_document_file_def)

lemma delete_thumbnail_storage: "set (storage (delete_thumbnail t b)) \<subseteq> set (storage b)"
  by (auto simp: delete_thumbnail_def split: option.split list.split)

lemma find_updated: "find p ds \<noteq> None \<Longrightarrow> (\<And>d. p d \<Longrightarrow> p (f d)) \<Longrightarrow> find p (update_where p f ds) \<noteq> None"
  by (induction ds) auto

lemma updated_rows: "d \<in> set (update_where p f ds) \<Longrightarrow> p d \<Longrightarrow> \<exists>e. d = f e"
  by (induction ds) (auto split: if_splits)

lemma set_file_documents:
  assumes "d \<in> set (documents (set_document_file i c uri b))" and "is_document i c d"
  shows "bdc_uri d = Some uri"
proof -
  have "d \<in> set (update_where (is_document i c) (\<lambda>d. d\<lparr>bdc_uri := Some uri, bdc_thumbnailUri := None\<rparr>) (documents b))"
    using assms(1) by (simp add: set_document_file_def)
  from updated_rows [OF this assms(2)] obtain e where e: "d = e\<lparr>bdc_uri := Some uri, bdc_thumbnailUri := None\<rparr>" by (rule exE)
  show ?thesis unfolding e by simp
qed

lemma set_file_find:
  assumes "find (is_document i c) (documents b) \<noteq> None"
  shows "find (is_document i c) (documents (set_document_file i c uri b)) \<noteq> None"
proof -
  have "find (is_document i c) (update_where (is_document i c) (\<lambda>d. d\<lparr>bdc_uri := Some uri, bdc_thumbnailUri := None\<rparr>) (documents b)) \<noteq> None"
    by (rule find_updated [OF assms]) (simp add: is_document_def)
  then show ?thesis by (simp add: set_document_file_def)
qed

lemma createVersion_documents [simp]: "documents (createVersionForUpload k i c u uri b) = documents b"
  by (simp add: createVersionForUpload_def)

lemma createVersion_versions: "\<exists>new. versions (createVersionForUpload k i c u uri b) = versions b @ [new]"
  by (simp add: createVersionForUpload_def)

lemma find_append_Some: "find p xs = Some x \<Longrightarrow> find p (xs @ ys) = Some x"
  by (induction xs) (auto split: if_splits)

lemma set_file_versions [simp]: "versions (set_document_file i c uri b) = versions b"
  by (simp add: set_document_file_def)

text \<open>
  C21. Replacing the file of a document removes the file it replaces from the storage while the version that
  records it stays: restoring that version succeeds, and then nobody can open the document.
\<close>

theorem restoring_shows_a_missing_file:
  assumes replaced: "replaceDocumentFile k i c u file b = (Inr (Replaced uri), b1)" and
    d: "find (is_document i c) (documents b) = Some d" and old: "bdc_uri d = Some old" "old \<noteq> []" and
    v: "find (is_version vid c) (versions b) = Some v" "bdv_documentId v = i" "bdv_uri v = old" and
    fresh: "bk_file k (storage b) \<noteq> old" and rq: "rq_congregationId rq = c" "may rq CAN_VIEW"
  shows "\<exists>b2. restoreDocumentVersion k i vid c u' b1 = (Inr (Some (bdv_versionNumber v)), b2) \<and>
    fst (pdf_loader rq (Some i) b2) = Turned_Away BOARD"
proof -
  define s where "s = snd (saveFile k b)"
  have saved: "saveFile k b = (bk_file k (storage b), s)" "documents s = documents b" "versions s = versions b"
    "storage s = storage b @ [bk_file k (storage b)]"
    by (simp_all add: s_def saveFile_def Let_def)
  let ?w = "set_document_file i c uri (createVersionForUpload k i c u uri s)"
  have uri: "uri = bk_file k (storage b)" and
    b1: "b1 = queue_thumbnail c i uri (delete_thumbnail (bdc_thumbnailUri d) (deleteFile (Some old) ?w))"
    using replaced saved d old by (auto simp: replaceDocumentFile_def Let_def split: option.splits if_splits)
  have gone: "old \<notin> set (storage b1)"
    using delete_thumbnail_storage [of "bdc_thumbnailUri d" "deleteFile (Some old) ?w"] saved fresh by (auto simp: b1)
  have "find (is_document i c) (documents b1) \<noteq> None"
    using set_file_find [of i c "createVersionForUpload k i c u uri s" uri] d saved(2) by (simp add: b1 queue_thumbnail_def)
  then obtain d1 where d1: "find (is_document i c) (documents b1) = Some d1" by blast
  have v1: "find (is_version vid c) (versions b1) = Some v"
    using createVersion_versions [of k i c u uri s] find_append_Some [OF v(1)] saved(3) by (auto simp: b1)
  define b2 where "b2 = queue_thumbnail c i old (delete_thumbnail (bdc_thumbnailUri d1)
    (set_document_file i c old (createVersionForUpload k i c u' old b1)))"
  have restored: "restoreDocumentVersion k i vid c u' b1 = (Inr (Some (bdv_versionNumber v)), b2)"
    using v v1 d1 by (simp add: restoreDocumentVersion_def b2_def)
  have docs: "documents b2 = documents (set_document_file i c old (createVersionForUpload k i c u' old b1))"
    by (simp add: b2_def)
  have still: "old \<notin> set (storage b2)"
    using delete_thumbnail_storage [of "bdc_thumbnailUri d1" "set_document_file i c old (createVersionForUpload k i c u' old b1)"] gone
    by (auto simp: b2_def)
  have "bdc_uri e = Some old" if "visible_document rq i b2 = Some e" for e
    using find_Some_in [OF that [unfolded visible_document_def]] rq set_file_documents docs by auto
  then have "fst (pdf_loader rq (Some i) b2) = Turned_Away BOARD"
    using rq still by (auto simp: pdf_loader_def requirePermission_def requireParamId_def in_scope_def split: option.split)
  then show ?thesis using restored by blast
qed

section \<open>A concrete board\<close>

definition sample_board_keys :: board_keys where
  "sample_board_keys = \<lparr>bk_section = next_key \<circ> map bsc_id, bk_document = next_key \<circ> map bdc_id, bk_version = next_key \<circ> map bdv_id,
     bk_dynamic = next_key \<circ> map dyn_id, bk_file = (\<lambda>fs. CHR ''f'' # concat fs), bk_rows = serial_keys\<rparr>"

definition sample_document :: board_document where
  "sample_document = \<lparr>bdc_id = 1, bdc_title = ''Plan'', bdc_uri = Some ''a'', bdc_thumbnailUri = None, bdc_sectionId = 1, bdc_order = None,
     bdc_visibleFrom = Some 0, bdc_visibleUntil = None, bdc_viewedBy = [], bdc_isHighlighted = False, bdc_congregationId = 1\<rparr>"

definition sample_version :: document_version where
  "sample_version = \<lparr>bdv_id = 1, bdv_documentId = 1, bdv_uri = ''a'', bdv_thumbnailUri = None, bdv_versionNumber = 1,
     bdv_uploadedById = Some 8, bdv_congregationId = 1\<rparr>"

definition sample_board :: board where
  "sample_board = \<lparr>programme = sample_programme, sections = [\<lparr>bsc_id = 1, bsc_name = ''Hall'', bsc_order = None, bsc_congregationId = 1\<rparr>],
     sectionRoles = [], documents = [sample_document], versions = [sample_version], dynamics = [], dynamicViews = [],
     storage = [''a''], thumbnailQueue = []\<rparr>"

definition sample_upload :: upload where
  "sample_upload = \<lparr>up_type = ''application/pdf'', up_size = 100, up_header = PDF_MAGIC_BYTES\<rparr>"

definition uploader :: requester where
  "uploader = \<lparr>rq_id = 7, rq_congregationId = 1, rq_permissions = {CAN_VIEW, CAN_UPLOAD}\<rparr>"

definition reviewer :: requester where
  "reviewer = \<lparr>rq_id = 9, rq_congregationId = 1, rq_permissions = {CAN_VIEW, CAN_REVIEW}\<rparr>"

lemma sample_keys_fresh: "fresh_board_keys sample_board_keys"
  by (simp add: fresh_board_keys_def sample_board_keys_def next_key_fresh_image)

lemma sample_board_ok: "board_ok sample_board"
  by (simp add: board_ok_def shelf_ok_def shelf_def sample_board_def sample_document_def sample_version_def is_last_def version_key_def)

definition sample_new_form :: document_form where
  "sample_new_form = \<lparr>df_title = ''List'', df_sectionId = 1, df_visibleFrom = None, df_visibleUntil = None, df_highlighted = None,
     df_file = Some sample_upload\<rparr>"

definition no_plan_limits :: CongregationLimits where
  "no_plan_limits = \<lparr>maxPublishers = None, maxTerritories = None, maxUsers = None, maxStorageBytes = None, maxBoardDocuments = None,
     maxCardOverlays = None\<rparr>"

definition sample_uploaded :: board where
  "sample_uploaded = snd (new_document_action sample_board_keys 0 no_plan_limits 0 (reviewer\<lparr>rq_permissions := {CAN_UPLOAD, CAN_REVIEW}\<rparr>)
     (Filled sample_new_form) sample_board)"

definition sample_new_document :: board_document where
  "sample_new_document = \<lparr>bdc_id = 2, bdc_title = ''List'', bdc_uri = Some ''fa'', bdc_thumbnailUri = None, bdc_sectionId = 1, bdc_order = Some 0,
     bdc_visibleFrom = None, bdc_visibleUntil = None, bdc_viewedBy = [], bdc_isHighlighted = False, bdc_congregationId = 1\<rparr>"

lemmas page_names = CAN_VIEW_def CAN_UPLOAD_def CAN_REVIEW_def CAN_ORGANISE_def CAN_CONFIGURE_def CAN_MANAGE_DYNAMIC_def

lemma sample_created:
  "createBoardDocument sample_board_keys 1 9 \<lparr>nd_title = ''List'', nd_sectionId = 1, nd_uri = ''fa'', nd_visibleFrom = None,
      nd_visibleUntil = None, nd_isHighlighted = None\<rparr> (sample_board\<lparr>storage := [''a'', ''fa'']\<rparr>) =
   (Inr sample_new_document, board_audit ''board.document.created'' 1 9 ''BoardDocument'' 2 None
      (sample_board\<lparr>storage := [''a'', ''fa''], documents := [sample_document, sample_new_document],
         versions := [sample_version, \<lparr>bdv_id = 2, bdv_documentId = 2, bdv_uri = ''fa'', bdv_thumbnailUri = None, bdv_versionNumber = 1,
           bdv_uploadedById = Some 9, bdv_congregationId = 1\<rparr>]\<rparr>))"
  by (simp add: createBoardDocument_def section_exists_def sample_board_def sample_board_keys_def sample_document_def
      sample_version_def sample_new_document_def next_key_def Let_def)

lemma sample_uploaded_documents: "documents sample_uploaded = [sample_document, sample_new_document]"
proof -
  have "validateBoardFile sample_upload = None"
    by (simp add: validateBoardFile_def sample_upload_def MAX_FILE_SIZE_BYTES_def PDF_MAGIC_BYTES_def)
  moreover have "saveFile sample_board_keys sample_board = (''fa'', sample_board\<lparr>storage := [''a'', ''fa'']\<rparr>)"
    by (simp add: saveFile_def sample_board_keys_def sample_board_def Let_def)
  moreover have "errorIfWouldGoOverLimit no_plan_limits uc 1 LimitBoardDocuments db = None" for uc db
    by (simp add: errorIfWouldGoOverLimit_def checkWouldGoOverLimit_def isLimited_def LIMIT_COLUMN_MAP_def no_plan_limits_def)
  ultimately show ?thesis
    by (simp add: sample_uploaded_def new_document_action_def new_body_def in_scope_def reviewer_def may_def sample_new_form_def
        past_epoch_def validateVisibilityDates_def sample_created Let_def)
qed

text \<open>Any number of steps, here one.\<close>

lemma one_step: "board_step k b b' \<Longrightarrow> (board_step k)\<^sup>*\<^sup>* b b'"
  by (rule r_into_rtranclp)

lemma latest_version_is_shown_witness:
  "\<exists>!v. is_last (versions sample_uploaded) v \<and> bdv_documentId v = 2 \<and> Some ''fa'' = Some (bdv_uri v)"
  using latest_version_is_shown [OF sample_keys_fresh sample_board_ok one_step [OF upload [of sample_board_keys sample_board 0
      no_plan_limits 0 "reviewer\<lparr>rq_permissions := {CAN_UPLOAD, CAN_REVIEW}\<rparr>" "Filled sample_new_form", folded sample_uploaded_def]],
      of sample_new_document]
  by (simp add: sample_uploaded_documents sample_new_document_def)

lemma sample_viewed: "fst (viewer_loader uploader (Some 1) sample_board) = Replied (1, ''Plan'')"
  by (simp add: viewer_loader_def requirePermission_def requireParamId_def in_scope_def visible_document_def section_visible_def
      buildSectionVisibilityFilter_def Let_def may_def uploader_def sample_board_def sample_document_def is_document_def
      markDocumentAsViewed_def after_def)

lemma documents_stay_in_their_section_witness:
  "may uploader CAN_VIEW \<and> kept_in uploader sample_board Pdf 1"
  using documents_stay_in_their_section viewed [OF sample_viewed] by blast

lemma uploaders_touch_only_their_own_witness:
  "rows_of 1 (snd (delete_document_action sample_board_keys 0 uploader (Some 1) sample_board)) = rows_of 1 sample_board"
  using uploaders_touch_only_their_own [of uploader 1 sample_board]
  by (simp add: may_def uploader_def page_names isDocumentOwnedByUploader_def sample_board_def sample_version_def)

lemma restoring_shows_a_missing_file_witness:
  "\<exists>b1 b2. replaceDocumentFile sample_board_keys 1 1 9 sample_upload sample_board = (Inr (Replaced ''fa''), b1) \<and>
     restoreDocumentVersion sample_board_keys 1 1 1 9 b1 = (Inr (Some 1), b2) \<and>
     fst (pdf_loader uploader (Some 1) b2) = Turned_Away BOARD"
proof -
  obtain b1 where b1: "replaceDocumentFile sample_board_keys 1 1 9 sample_upload sample_board = (Inr (Replaced ''fa''), b1)"
    by (simp add: replaceDocumentFile_def validateBoardFile_def sample_upload_def MAX_FILE_SIZE_BYTES_def PDF_MAGIC_BYTES_def
        saveFile_def sample_board_keys_def sample_board_def sample_document_def is_document_def Let_def)
  show ?thesis
    using restoring_shows_a_missing_file [OF b1, of sample_document "''a''" 1 sample_version uploader 9] b1
    by (simp add: sample_board_def sample_document_def sample_version_def is_document_def is_version_def sample_board_keys_def
        uploader_def may_def)
qed

end
