(* ===== verification/Board_Links.thy ===== *)
theory Board_Links
  imports Board_Laws
begin

text \<open>
  The links into the board: the one in an assignment's notification opens a document that holds the
  event, and the viewer offers a download exactly when the download route answers.
\<close>

section \<open>Programmes\<close>

lemma event_id_board_event_of [simp]: "event_id (board_event_of p s e) = evt_id e"
  by (simp add: event_id_def board_event_of_def)

lemma fetched_by_ids:
  assumes "e \<in> set (events p)" and "shown_event fromDate c e" and "evt_templateId e = Some t" and "t \<in> set ids"
  shows "evt_id e \<in> event_id ` set (fetchProgrammeByIds fromDate c ids s p)"
  using assms by (auto simp: fetchProgrammeByIds_def image_image image_iff)

lemma fetched_by_key:
  assumes "e \<in> set (events p)" and "shown_event fromDate c e" and "carries_template_key p key e"
  shows "evt_id e \<in> event_id ` set (fetchProgrammeByKey fromDate c key s p)"
  using assms by (auto simp: fetchProgrammeByKey_def image_image image_iff)

text \<open>A document holds an event when it shows it among its own.\<close>

definition holds_event :: "board_world \<Rightarrow> board \<Rightarrow> int \<Rightarrow> dynamic_document \<Rightarrow> int \<Rightarrow> bool" where
  "holds_event w b c d i \<longleftrightarrow>
     (\<exists>evs config key services. getDynamicDocumentData w d c b = Some (Programme_Data evs config key services) \<and> i \<in> event_id ` set evs)"

lemma holds_event_found:
  assumes "holds_event w b c d i"
  shows "\<exists>e config key services. event_id e = i \<and>
    filterDynamicDataToEvent (getDynamicDocumentData w d c b) (Some i) = (Some (Programme_Data [e] config key services), False)"
proof -
  obtain evs config key services where data: "getDynamicDocumentData w d c b = Some (Programme_Data evs config key services)"
    and i: "i \<in> event_id ` set evs" using assms by (auto simp: holds_event_def)
  have "find (\<lambda>e. event_id e = i) evs \<noteq> None" using i by (auto simp: find_None_iff)
  then obtain e where e: "find (\<lambda>e. event_id e = i) evs = Some e" by blast
  then show ?thesis using find_Some_in [OF e] data by (auto simp: filterDynamicDataToEvent_def)
qed

lemma type_names: "PROGRAMME = ''programme''" by (simp add: PROGRAMME_def)

lemma config_holds:
  assumes "dyn_dynamicType d = PROGRAMME" and "breadth t d = Some n" and "evt_templateId e = Some t" and
    "e \<in> set (events (programme b))" and "shown_event (startOfCurrentMonth w) c e"
  shows "holds_event w b c d (evt_id e)"
proof -
  obtain config where config: "parseProgrammeDynamicConfig (dyn_dynamicConfig d) = Some config"
    and t: "t \<in> set (map tch_templateId (pdc_templates config))"
    using assms(2) by (auto simp: breadth_def list_ex_iff split: option.splits if_splits)
  show ?thesis
    unfolding holds_event_def getDynamicDocumentData_def
    using config fetched_by_ids [OF assms(4,5,3) t] assms(1) by (simp add: Let_def type_names)
qed

lemma legacy_holds:
  assumes "dyn_dynamicType d = PROGRAMME" and "dyn_dynamicConfig d = None" and "dyn_dynamicRef d = Some key" and "key \<noteq> []" and
    "carries_template_key (programme b) key e" and "e \<in> set (events (programme b))" and "shown_event (startOfCurrentMonth w) c e"
  shows "holds_event w b c d (evt_id e)"
  unfolding holds_event_def getDynamicDocumentData_def
  using assms(1-4) fetched_by_key [OF assms(6,7,5)] by (simp add: Let_def type_names parseProgrammeDynamicConfig_def)

lemma key_of_template:
  assumes "template_key e b = key" and "key \<noteq> []"
  shows "carries_template_key (programme b) key e"
proof -
  obtain t x where t: "evt_templateId e = Some t" and x: "find (\<lambda>x. tpl_id x = t) (eventTemplates (programme b)) = Some x"
    and key: "tpl_key x = key"
    using assms by (auto simp: template_key_def split: option.splits bind_splits)
  show ?thesis using find_Some_in [OF x] t key by (auto simp: carries_template_key_def list_ex_iff)
qed

text \<open>
  C22. The link sent with an assignment is either the board or a programme document of the congregation that
  holds the event: opened on the event, the document shows that event and nothing else.
\<close>

theorem links_lead_to_their_event:
  assumes link: "resolveProgrammeLink w eventId (Some t) c b = Some (i, j)" and
    e: "find (is_event eventId c) (events (programme b)) = Some e" "evt_templateId e = Some t"
  shows "j = eventId \<and> (\<exists>d \<in> set (dynamics b). is_dynamic i c d \<and> (\<exists>x config key services. event_id x = eventId \<and>
    filterDynamicDataToEvent (getDynamicDocumentData w d c b) (Some eventId) = (Some (Programme_Data [x] config key services), False)))"
proof -
  let ?cs = "programme_documents c b"
  have ev: "e \<in> set (events (programme b))" "evt_id e = eventId" "evt_congregationId e = c"
    using find_Some_in [OF e(1)] by (auto simp: is_event_def)
  have "readRenderableEvent w eventId c b \<noteq> None" using link by (auto simp: resolveProgrammeLink_def split: option.splits)
  then have shown: "readRenderableEvent w eventId c b = Some e" "shown_event (startOfCurrentMonth w) c e"
    using e ev by (auto simp: readRenderableEvent_def shown_event_def split: if_splits)
  have "\<exists>d \<in> set ?cs. dyn_id d = i \<and> j = eventId \<and> holds_event w b c d eventId"
  proof (cases "js_sort (\<lambda>(i, m) (j, n). lexical (int m - int n) (i - j)) (holders_of_template t ?cs)")
    case Nil
    then obtain d where d: "find (\<lambda>d. dyn_dynamicConfig d = None \<and> dyn_dynamicRef d = Some (template_key e b)) ?cs = Some d"
      and key: "template_key e b \<noteq> []" and ij: "dyn_id d = i" "j = eventId"
      using link shown(1) by (auto simp: resolveProgrammeLink_def Let_def split: if_splits)
    have "holds_event w b c d (evt_id e)"
      using find_Some_in [OF d] legacy_holds [OF _ _ _ key key_of_template [OF refl key] ev(1) shown(2)]
      by (auto simp: programme_documents_def)
    then show ?thesis using find_Some_in [OF d] ij ev by auto
  next
    case (Cons m ms)
    then have "m \<in> set (holders_of_template t ?cs)" by (metis list.set_intros(1) set_js_sort)
    then obtain d n where d: "d \<in> set ?cs" "breadth t d = Some n" "m = (dyn_id d, n)"
      by (auto simp: holders_of_template_def split: option.splits)
    have ij: "dyn_id d = i" "j = eventId"
      using link shown(1) Cons d(3) by (auto simp: resolveProgrammeLink_def Let_def)
    have "holds_event w b c d (evt_id e)"
      using d config_holds [OF _ d(2) e(2) ev(1) shown(2)] by (auto simp: programme_documents_def)
    then show ?thesis using d ij ev by auto
  qed
  then obtain d where d: "d \<in> set ?cs" "dyn_id d = i" "j = eventId" "holds_event w b c d eventId" by blast
  then have "d \<in> set (dynamics b)" "is_dynamic i c d" by (auto simp: programme_documents_def is_dynamic_def)
  then show ?thesis using holds_event_found [OF d(4)] d(3) by blast
qed

section \<open>The download\<close>

text \<open>
  C23. A viewer is offered the download exactly when following its link at that moment brings a sheet: the
  button never offers what the route would refuse, nor hides what it would serve.
\<close>

theorem the_button_offers_what_the_route_serves:
  assumes "fst (dynamic_viewer_loader w rq (Some i) eventId b) = Replied page"
  shows "dpg_printable page \<longleftrightarrow> (\<exists>sheet. fst (dynamic_pdf_loader w rq (Some i) (dpg_pdfEventId page) b) = Replied sheet)"
proof -
  obtain d where d: "visible_dynamic rq i b = Some d" and rq: "may rq CAN_VIEW"
    and page: "page = dynamic_viewer_page w d (rq_congregationId rq) eventId (markDynamicDocumentViewed (bwo_now w) i (rq_id rq) b)"
    using assms
    by (auto simp: dynamic_viewer_loader_def requirePermission_def requireParamId_def in_scope_replied Let_def split: if_splits option.splits)
  have same: "getDynamicDocumentData w d c (markDynamicDocumentViewed now i u b) = getDynamicDocumentData w d c b" for c now u
  proof -
    have "programme (markDynamicDocumentViewed now i u b) = programme b" by (simp add: markDynamicDocumentViewed_def Let_def)
    then show ?thesis by (simp only: getDynamicDocumentData_def)
  qed
  let ?data = "getDynamicDocumentData w d (rq_congregationId rq) b"
  obtain content missing where f: "filterDynamicDataToEvent ?data eventId = (content, missing)" by fastforce
  have again: "filterDynamicDataToEvent ?data (if eventId \<noteq> None \<and> \<not> missing then eventId else None) =
      (content, False)"
    using f by (auto simp: filterDynamicDataToEvent_def split: option.splits dynamic_data.splits)
  show ?thesis
    using rq d again
    by (auto simp: page dynamic_viewer_page_def same f Let_def dynamic_pdf_loader_def requirePermission_def requireParamId_def
        in_scope_replied split: option.splits)
qed

section \<open>A concrete programme\<close>

definition sample_world :: board_world where
  "sample_world = \<lparr>bwo_now = 0, bwo_zone = utc, bwo_offset = (\<lambda>_. 0), bwo_collate = (\<lambda>_ _. 0),
     bwo_i18n = \<lparr>localeCompare = (\<lambda>_ _. 0), built_in_name = (\<lambda>_. None), built_in_description = (\<lambda>_. None)\<rparr>\<rparr>"

definition sample_released :: event where
  "sample_released = (sample_event 1 2 100 100)\<lparr>evt_status := EventStatus_Released\<rparr>"

definition sample_sheet :: dynamic_document where
  "sample_sheet = \<lparr>dyn_id = 3, dyn_title = ''Midweek'', dyn_dynamicType = PROGRAMME, dyn_dynamicRef = None,
     dyn_dynamicConfig = Some (JObj [(''templates'', JArr [JObj [(''templateId'', JNum 2), (''parts'', JBool True), (''services'', JBool False)]])]),
     dyn_appearance = None, dyn_sectionId = 1, dyn_order = None, dyn_visibleFrom = Some 0, dyn_visibleUntil = None,
     dyn_isHighlighted = False, dyn_showServices = False, dyn_congregationId = 1\<rparr>"

definition sample_linked :: board where
  "sample_linked = sample_board\<lparr>programme := sample_programme\<lparr>events := [sample_released]\<rparr>, dynamics := [sample_sheet]\<rparr>"

lemma sample_month: "startOfCurrentMonth sample_world = 0"
  by code_simp

lemma sample_config:
  "parseProgrammeDynamicConfig (dyn_dynamicConfig sample_sheet) =
     Some \<lparr>pdc_templates = [\<lparr>tch_templateId = 2, tch_parts = True, tch_services = False\<rparr>], pdc_groupBy = ''date''\<rparr>"
  by (simp add: sample_sheet_def parseProgrammeDynamicConfig_def parse_choice_def)

lemma sample_found: "find (is_event 1 1) (events (programme sample_linked)) = Some sample_released" "evt_templateId sample_released = Some 2"
  by (simp_all add: sample_linked_def sample_released_def sample_event_def is_event_def)

lemma sample_link: "resolveProgrammeLink sample_world 1 (Some 2) 1 sample_linked = Some (3, 1)"
proof -
  have "programme_documents 1 sample_linked = [sample_sheet]"
    by (simp add: programme_documents_def sample_linked_def sample_sheet_def js_sort_def)
  moreover have "breadth 2 sample_sheet = Some 1" by (simp add: breadth_def sample_config)
  moreover have "dyn_id sample_sheet = 3" by (simp add: sample_sheet_def)
  moreover have "readRenderableEvent sample_world 1 1 sample_linked = Some sample_released"
    unfolding readRenderableEvent_def sample_found sample_month
    by (simp add: sample_released_def sample_event_def)
  ultimately show ?thesis by (simp add: resolveProgrammeLink_def holders_of_template_def js_sort_def Let_def)
qed

lemma links_lead_to_their_event_witness:
  "\<exists>d \<in> set (dynamics sample_linked). is_dynamic 3 1 d \<and> (\<exists>x config key services. event_id x = 1 \<and>
     filterDynamicDataToEvent (getDynamicDocumentData sample_world d 1 sample_linked) (Some 1) =
       (Some (Programme_Data [x] config key services), False))"
  using links_lead_to_their_event [OF sample_link sample_found] by blast

lemma sample_viewer:
  "fst (dynamic_viewer_loader sample_world uploader (Some 3) (Some 1) sample_linked) =
     Replied (dynamic_viewer_page sample_world sample_sheet 1 (Some 1) (markDynamicDocumentViewed 0 3 7 sample_linked))"
  by (simp add: dynamic_viewer_loader_def requirePermission_def requireParamId_def in_scope_def may_def uploader_def Let_def
      visible_dynamic_def is_dynamic_def sample_linked_def sample_sheet_def section_visible_def sample_board_def
      buildSectionVisibilityFilter_def sample_world_def)

lemma the_button_offers_what_the_route_serves_witness:
  "dpg_printable (dynamic_viewer_page sample_world sample_sheet 1 (Some 1) (markDynamicDocumentViewed 0 3 7 sample_linked)) \<longleftrightarrow>
   (\<exists>sheet. fst (dynamic_pdf_loader sample_world uploader (Some 3)
      (dpg_pdfEventId (dynamic_viewer_page sample_world sample_sheet 1 (Some 1) (markDynamicDocumentViewed 0 3 7 sample_linked)))
      sample_linked) = Replied sheet)"
  by (rule the_button_offers_what_the_route_serves [OF sample_viewer])

end
