(* ===== verification/Roles.thy ===== *)
theory Roles
  imports Permissions
begin

text \<open>
  Roles, their permissions and the accounts that hold them
  (\<^verbatim>\<open>shared/domain/roles.server.ts\<close>): the role catalogue, the identity and permissions of a
  role, and the grants to accounts, each held to the limits of \<open>Permissions\<close>.
\<close>

section \<open>Keys made from names\<close>

text \<open>
  \<^verbatim>\<open>slugifyRoleKey\<close> on Latin-1 text, where canonical decomposition is \<open>base_letter\<close>: an
  accented letter loses its accent, and the characters with the Diacritic property vanish.
\<close>

definition is_diacritic :: "nat \<Rightarrow> bool" where
  "is_diacritic n \<longleftrightarrow> n \<in> {94, 96, 168, 175, 180, 183, 184}"

definition lower_code :: "nat \<Rightarrow> nat" where
  "lower_code n = (if 65 \<le> n \<and> n \<le> 90 then n + 32 else n)"

definition slug_code :: "nat \<Rightarrow> bool" where
  "slug_code n \<longleftrightarrow> (97 \<le> n \<and> n \<le> 122) \<or> (48 \<le> n \<and> n \<le> 57)"

text \<open>\<^verbatim>\<open>replace(/[^a-z0-9]+/g, '-')\<close>: a maximal run of other characters becomes one hyphen.\<close>

fun hyphenate :: "bool \<Rightarrow> string \<Rightarrow> string" where
  "hyphenate in_run [] = []"
| "hyphenate in_run (c # cs) =
     (if slug_code (code c) then c # hyphenate False cs
      else if in_run then hyphenate True cs else CHR ''-'' # hyphenate True cs)"

definition strip_hyphens :: "string \<Rightarrow> string" where
  "strip_hyphens s = rev (dropWhile (\<lambda>c. c = CHR ''-'') (rev (dropWhile (\<lambda>c. c = CHR ''-'') s)))"

definition slugifyRoleKey :: "string \<Rightarrow> string" where
  "slugifyRoleKey name =
     strip_hyphens (hyphenate False
       (map (\<lambda>n. char_of (lower_code n)) (filter (\<lambda>n. \<not> is_diacritic n) (map (base_letter \<circ> code) name))))"

section \<open>Reading roles\<close>

definition BUILT_IN_ORDER :: "string \<Rightarrow> int option" where
  "BUILT_IN_ORDER key =
     (let keys = BUILT_IN_ROLE_KEYS @ SYSTEM_ROLE_KEYS
      in if key \<in> set keys then Some (int (length (takeWhile (\<lambda>k. k \<noteq> key) keys))) else None)"

definition MAX_SAFE_INTEGER :: int where
  "MAX_SAFE_INTEGER = 9007199254740991"

definition accountAssignableRole :: "role \<Rightarrow> bool" where
  "accountAssignableRole r \<longleftrightarrow> \<not> role_isSinglePerson r \<and> (\<not> role_isBuiltIn r \<or> role_key r \<in> set SYSTEM_ROLE_KEYS)"

record RoleListItem =
  rli_id :: int
  rli_key :: string
  rli_name :: "string option"
  rli_description :: "string option"
  rli_isBuiltIn :: bool
  rli_permissionCount :: nat
  rli_memberCount :: nat

definition role_list_item :: "db \<Rightarrow> role \<Rightarrow> RoleListItem" where
  "role_list_item db r =
     \<lparr>rli_id = role_id r, rli_key = role_key r, rli_name = role_name r, rli_description = role_description r,
      rli_isBuiltIn = role_isBuiltIn r,
      rli_permissionCount = length (filter (\<lambda>rp. rp_roleId rp = role_id r) (rolePermissions db)),
      rli_memberCount = length (filter (\<lambda>a. ura_roleId a = role_id r) (userRoleAssignments db))\<rparr>"

definition item_order :: "string \<Rightarrow> int" where
  "item_order key = (case BUILT_IN_ORDER key of Some n \<Rightarrow> n | None \<Rightarrow> MAX_SAFE_INTEGER)"

definition compareRoleItems :: "i18n \<Rightarrow> RoleListItem \<Rightarrow> RoleListItem \<Rightarrow> int" where
  "compareRoleItems loc a b =
     (if rli_isBuiltIn a \<and> rli_isBuiltIn b then item_order (rli_key a) - item_order (rli_key b)
      else if rli_isBuiltIn a then - 1
      else if rli_isBuiltIn b then 1
      else localeCompare loc (getRoleDisplayName loc (rli_key a) (rli_name a)) (getRoleDisplayName loc (rli_key b) (rli_name b)))"

definition listRoles :: "i18n \<Rightarrow> db \<Rightarrow> int \<Rightarrow> RoleListItem list" where
  "listRoles loc db congregationId =
     js_sort (compareRoleItems loc)
       (map (role_list_item db) (filter (\<lambda>r. role_congregationId r = congregationId) (roles db)))"

definition listDelegatableRoles :: "i18n \<Rightarrow> db \<Rightarrow> int \<Rightarrow> RoleListItem list" where
  "listDelegatableRoles loc db congregationId =
     js_sort (\<lambda>a b. localeCompare loc (getRoleDisplayName loc (rli_key a) (rli_name a))
                     (getRoleDisplayName loc (rli_key b) (rli_name b)))
       (map (role_list_item db) (filter (\<lambda>r. role_congregationId r = congregationId \<and>
          role_key r \<notin> set (BUILT_IN_ROLE_KEYS @ [SERVICE_COMMITTEE_KEY])) (roles db)))"

definition role_permission_keys :: "db \<Rightarrow> int \<Rightarrow> string list" where
  "role_permission_keys db roleId = permission_keys_of_roles db (\<lambda>rp. rp_roleId rp = roleId)"

record RoleDetail =
  rd_id :: int
  rd_key :: string
  rd_name :: "string option"
  rd_description :: "string option"
  rd_isBuiltIn :: bool
  rd_isSinglePerson :: bool
  rd_permissionKeys :: "string list"
  rd_memberCount :: nat

definition is_role :: "int \<Rightarrow> int \<Rightarrow> role \<Rightarrow> bool" where
  "is_role i congregationId r \<longleftrightarrow> role_id r = i \<and> role_congregationId r = congregationId"

definition getRole :: "db \<Rightarrow> int \<Rightarrow> int \<Rightarrow> RoleDetail option" where
  "getRole db i congregationId =
     map_option (\<lambda>r. \<lparr>rd_id = role_id r, rd_key = role_key r, rd_name = role_name r,
         rd_description = role_description r, rd_isBuiltIn = role_isBuiltIn r,
         rd_isSinglePerson = role_isSinglePerson r, rd_permissionKeys = role_permission_keys db (role_id r),
         rd_memberCount = length (filter (\<lambda>a. ura_roleId a = role_id r) (userRoleAssignments db))\<rparr>)
       (find (is_role i congregationId) (roles db))"

section \<open>The permissions of a role\<close>

definition permission_id :: "db \<Rightarrow> string \<Rightarrow> int option" where
  "permission_id db key = map_option perm_id (find (\<lambda>p. perm_key p = key) (permissions db))"

definition known_permission_ids :: "db \<Rightarrow> string list \<Rightarrow> int list" where
  "known_permission_ids db keys = List.map_filter (permission_id db) keys"

text \<open>\<^verbatim>\<open>createMany\<close> with \<^verbatim>\<open>skipDuplicates\<close> on the pairs of a role and its permissions.\<close>

definition grant_rows :: "int \<Rightarrow> int \<Rightarrow> int list \<Rightarrow> role_permission list \<Rightarrow> role_permission list" where
  "grant_rows roleId congregationId permissionIds rows =
     rows @ map (\<lambda>p. \<lparr>rp_roleId = roleId, rp_permissionId = p, rp_congregationId = congregationId\<rparr>)
              (filter (\<lambda>p. \<not> (\<exists>rp \<in> set rows. rp_roleId rp = roleId \<and> rp_permissionId rp = p)) (js_set permissionIds))"

definition json_strings :: "string list \<Rightarrow> json" where
  "json_strings xs = JArr (map JStr xs)"

definition syncRolePermissions ::
  "int \<Rightarrow> int \<Rightarrow> string list \<Rightarrow> string list \<Rightarrow> int option \<Rightarrow> db \<Rightarrow> db" where
  "syncRolePermissions roleId congregationId previousKeys desiredKeys actorId db =
     (let added = filter (\<lambda>k. k \<notin> set previousKeys) (js_set desiredKeys);
          removed = filter (\<lambda>k. k \<notin> set desiredKeys) (js_set previousKeys)
      in if added = [] \<and> removed = [] then db
         else
           (let addedIds = known_permission_ids db added;
                removedIds = known_permission_ids db removed;
                granted = (if addedIds = [] then rolePermissions db
                           else grant_rows roleId congregationId addedIds (rolePermissions db));
                kept = (if removedIds = [] then granted
                        else delete_where (\<lambda>rp. rp_roleId rp = roleId \<and> rp_permissionId rp \<in> set removedIds) granted);
                db' = db\<lparr>rolePermissions := kept\<rparr>
            in case actorId of
                 None \<Rightarrow> db'
               | Some actor \<Rightarrow> entity_audit ''role.permission.changed'' congregationId actor ''Role'' roleId
                   (Some [(''added'', json_strings added), (''removed'', json_strings removed)]) db'))"

definition changed_keys :: "string list \<Rightarrow> string list \<Rightarrow> string list" where
  "changed_keys previousKeys permissionKeys =
     filter (\<lambda>k. k \<notin> set previousKeys) (js_set permissionKeys) @ filter (\<lambda>k. k \<notin> set permissionKeys) (js_set previousKeys)"

definition updateRolePermissions ::
  "int \<Rightarrow> int \<Rightarrow> int \<Rightarrow> string list \<Rightarrow> string set \<Rightarrow> db \<Rightarrow> (db, unit) outcome" where
  "updateRolePermissions i congregationId actorId permissionKeys actorPermissions db =
     (case find (is_role i congregationId) (roles db) of
        None \<Rightarrow> (Inr (), db)
      | Some r \<Rightarrow>
          (let previousKeys = role_permission_keys db i;
               changed = changed_keys previousKeys permissionKeys
           in guard_by
                (if changed \<noteq> [] then
                   orelse (if role_isBuiltIn r \<and> \<not> isAdminActor actorPermissions
                           then Some (GrantBeyondActorError ''built_in_role'') else None)
                          (assertActorHolds actorPermissions changed)
                 else None) db
              (Inr (), syncRolePermissions i congregationId previousKeys permissionKeys (Some actorId) db)))"

section \<open>Creating and editing roles\<close>

record CreateRoleParams =
  crp_name :: string
  crp_description :: "string option"
  crp_permissionKeys :: "string list"
  crp_isSinglePerson :: "bool option"

text \<open>\<^verbatim>\<open>description?.trim() || null\<close>\<close>

definition trimmed_or_null :: "string option \<Rightarrow> string option" where
  "trimmed_or_null d = (case d of None \<Rightarrow> None | Some s \<Rightarrow> if trim s = [] then None else Some (trim s))"

definition new_role :: "env \<Rightarrow> int \<Rightarrow> string \<Rightarrow> string \<Rightarrow> string option \<Rightarrow> bool \<Rightarrow> db \<Rightarrow> role" where
  "new_role ev congregationId key name description isSinglePerson db =
     \<lparr>role_id = env_role_id ev (roles db), role_key = key, role_name = Some name, role_description = description,
      role_isBuiltIn = False, role_parentRoleId = None, role_showInOrganigram = False,
      role_organigramOrder = None, role_organigramNote = None, role_isSinglePerson = isSinglePerson,
      role_congregationId = congregationId\<rparr>"

definition createRole :: "env \<Rightarrow> int \<Rightarrow> int \<Rightarrow> CreateRoleParams \<Rightarrow> db \<Rightarrow> (db, int \<times> string) outcome" where
  "createRole ev congregationId actorId params db =
     (let trimmedName = trim (crp_name params)
      in if length trimmedName = 0 then (Inl (ValidationError ''name'' ''required''), db)
         else
           (let key = slugifyRoleKey trimmedName
            in if length key = 0 then (Inl (ValidationError ''name'' ''alphanumeric''), db)
               else if find (\<lambda>r. role_key r = key \<and> role_congregationId r = congregationId) (roles db) \<noteq> None
               then (Inl (ConflictError ''role_key_exists''), db)
               else
                 (let r = new_role ev congregationId key trimmedName (trimmed_or_null (crp_description params))
                            (case crp_isSinglePerson params of Some b \<Rightarrow> b | None \<Rightarrow> False) db;
                      db1 = db\<lparr>roles := roles db @ [r]\<rparr>;
                      db2 = (if length (crp_permissionKeys params) > 0
                             then syncRolePermissions (role_id r) congregationId [] (crp_permissionKeys params) None db1
                             else db1)
                  in (Inr (role_id r, key),
                      entity_audit ''role.created'' congregationId actorId ''Role'' (role_id r)
                        (Some [(''key'', JStr key), (''name'', JStr trimmedName),
                               (''permissionKeys'', json_strings (crp_permissionKeys params))]) db2))))"

record UpdateRoleIdentityParams =
  uri_name :: "string option"
  uri_description :: "string option option"

text \<open>\<^verbatim>\<open>db.role.update\<close> by primary key and congregation; a new parent must exist.\<close>

definition update_role :: "int \<Rightarrow> int \<Rightarrow> (role \<Rightarrow> role) \<Rightarrow> db \<Rightarrow> (db, role) outcome" where
  "update_role i congregationId f db =
     (case find (is_role i congregationId) (roles db) of
        None \<Rightarrow> (Inl (DatabaseError RecordNotFound), db)
      | Some r \<Rightarrow>
          (case role_parentRoleId (f r) of
             Some p \<Rightarrow>
               if role_parentRoleId r \<noteq> Some p \<and> find (is_role p congregationId) (roles db) = None
               then (Inl (DatabaseError ForeignKeyViolation), db)
               else (Inr (f r), db\<lparr>roles := update_where (is_role i congregationId) f (roles db)\<rparr>)
           | None \<Rightarrow> (Inr (f r), db\<lparr>roles := update_where (is_role i congregationId) f (roles db)\<rparr>)))"

definition updateRoleIdentity ::
  "int \<Rightarrow> int \<Rightarrow> int \<Rightarrow> UpdateRoleIdentityParams \<Rightarrow> db \<Rightarrow> (db, unit) outcome" where
  "updateRoleIdentity i congregationId actorId params db =
     (case find (is_role i congregationId) (roles db) of
        None \<Rightarrow> (Inr (), db)
      | Some r \<Rightarrow>
          if role_isBuiltIn r then (Inl (ForbiddenError ''built_in_identity''), db)
          else if (\<exists>n. uri_name params = Some n \<and> trim n = [])
          then (Inl (ValidationError ''name'' ''required''), db)
          else
            (let newName = (case uri_name params of
                              Some n \<Rightarrow> if Some (trim n) \<noteq> role_name r then Some (trim n) else None | None \<Rightarrow> None);
                 newDescription = (case uri_description params of
                              Some d \<Rightarrow> if trimmed_or_null d \<noteq> trimmed_or_null (role_description r)
                                        then Some (trimmed_or_null d) else None | None \<Rightarrow> None);
                 fieldsChanged = (if newName = None then [] else [''name'']) @
                                 (if newDescription = None then [] else [''description''])
             in if fieldsChanged = [] then (Inr (), db)
                else chain (update_role i congregationId
                       (\<lambda>r. r\<lparr>role_name := (case newName of Some n \<Rightarrow> Some n | None \<Rightarrow> role_name r),
                              role_description := (case newDescription of Some d \<Rightarrow> d | None \<Rightarrow> role_description r)\<rparr>) db)
                       (\<lambda>_ db. (Inr (), entity_audit ''role.updated'' congregationId actorId ''Role'' i
                          (Some [(''fieldsChanged'', json_strings fieldsChanged)]) db))))"

text \<open>Deleting a role cascades to its permissions, its holders and the kinds it may work.\<close>

definition deleteRole :: "int \<Rightarrow> int \<Rightarrow> int \<Rightarrow> db \<Rightarrow> (db, unit) outcome" where
  "deleteRole i congregationId actorId db =
     (case find (is_role i congregationId) (roles db) of
        None \<Rightarrow> (Inr (), db)
      | Some r \<Rightarrow>
          if role_isBuiltIn r then (Inl (ForbiddenError ''built_in_role''), db)
          else if length (filter (\<lambda>x. role_parentRoleId x = Some i \<and> role_congregationId x = congregationId) (roles db)) > 0
          then (Inl (ConflictError ''has_children''), db)
          else
            (Inr (),
             entity_audit ''role.deleted'' congregationId actorId ''Role'' i
               (Some [(''key'', JStr (role_key r)),
                      (''name'', case role_name r of Some n \<Rightarrow> JStr n | None \<Rightarrow> JNull),
                      (''memberCount'', JNum (int (length (filter (\<lambda>a. ura_roleId a = i) (userRoleAssignments db)))))])
               (db\<lparr>roles := delete_where (is_role i congregationId) (roles db),
                   rolePermissions := delete_where (\<lambda>rp. rp_roleId rp = i) (rolePermissions db),
                   userRoleAssignments := delete_where (\<lambda>a. ura_roleId a = i) (userRoleAssignments db),
                   memberRoleAssignments := delete_where (\<lambda>a. mra_roleId a = i) (memberRoleAssignments db),
                   kindAllowedRoles := delete_where (\<lambda>k. tkr_roleId k = i) (kindAllowedRoles db)\<rparr>)))"

section \<open>Granting roles to accounts\<close>

definition holds :: "int \<Rightarrow> int \<Rightarrow> user_role_assignment \<Rightarrow> bool" where
  "holds userId roleId a \<longleftrightarrow> ura_userId a = userId \<and> ura_roleId a = roleId"

definition grant :: "int \<Rightarrow> int \<Rightarrow> string \<Rightarrow> int \<Rightarrow> user_role_assignment" where
  "grant userId roleId kind congregationId =
     \<lparr>ura_userId = userId, ura_roleId = roleId, ura_kind = kind, ura_congregationId = congregationId\<rparr>"

text \<open>Inserts of assignments: the account must exist and the pairs must be new.\<close>

definition insert_grants :: "user_role_assignment list \<Rightarrow> db \<Rightarrow> (db, unit) outcome" where
  "insert_grants new db =
     (if \<exists>a \<in> set new. \<forall>u \<in> set (userAccounts db). acc_id u \<noteq> ura_userId a
      then (Inl (DatabaseError ForeignKeyViolation), db)
      else if \<not> distinct (map (\<lambda>a. (ura_userId a, ura_roleId a)) new) \<or>
              (\<exists>a \<in> set new. \<exists>b \<in> set (userRoleAssignments db). holds (ura_userId a) (ura_roleId a) b)
      then (Inl (DatabaseError UniqueViolation), db)
      else (Inr (), db\<lparr>userRoleAssignments := userRoleAssignments db @ new\<rparr>))"

definition assignment_audit :: "int \<Rightarrow> int \<Rightarrow> int \<Rightarrow> string list \<Rightarrow> string list \<Rightarrow> db \<Rightarrow> db" where
  "assignment_audit congregationId actorId userId added removed =
     entity_audit ''user.role_assignment.changed'' congregationId actorId ''User'' userId
       (Some [(''added'', json_strings added), (''removed'', json_strings removed)])"

definition addUserToRole ::
  "int \<Rightarrow> int \<Rightarrow> int \<Rightarrow> int \<Rightarrow> string set \<Rightarrow> db \<Rightarrow> (db, unit) outcome" where
  "addUserToRole userId roleId congregationId actorId actorPermissions db =
     (case find (is_role roleId congregationId) (roles db) of
        None \<Rightarrow> (Inr (), db)
      | Some r \<Rightarrow>
          if isIdentityRoleKey (role_key r) then (Inl (ForbiddenError ''identity_role''), db)
          else if role_isSinglePerson r then (Inl (ForbiddenError ''personal_role''), db)
          else if find (holds userId roleId) (userRoleAssignments db) \<noteq> None then (Inr (), db)
          else guard_by (orelse (assertMayChangeAccountAccess db userId congregationId actorPermissions)
                                (assertActorHoldsRolePermissions db [roleId] congregationId actorPermissions)) db
                 (chain (insert_grants [grant userId roleId ''member'' congregationId] db) (\<lambda>_ db.
                    (Inr (), assignment_audit congregationId actorId userId [role_key r] [] db))))"

definition removeUserFromRole ::
  "int \<Rightarrow> int \<Rightarrow> int \<Rightarrow> int \<Rightarrow> string set \<Rightarrow> db \<Rightarrow> (db, unit) outcome" where
  "removeUserFromRole userId roleId congregationId actorId actorPermissions db =
     (case find (is_role roleId congregationId) (roles db) of
        None \<Rightarrow> (Inr (), db)
      | Some r \<Rightarrow>
          if isIdentityRoleKey (role_key r) then (Inl (ForbiddenError ''identity_role''), db)
          else
            (case find (holds userId roleId) (userRoleAssignments db) of
               None \<Rightarrow> (Inr (), db)
             | Some existing \<Rightarrow>
                 if ura_kind existing = ''leader'' \<or> ura_kind existing = ''deputy''
                 then (Inl (ForbiddenError ''leadership_seat''), db)
                 else guard_by
                        (orelse (assertMayChangeAccountAccess db userId congregationId actorPermissions)
                        (orelse (assertActorHoldsRolePermissions db [roleId] congregationId actorPermissions)
                                (if roleGrantsAdmin db roleId congregationId
                                 then requireNotLastAdmin db userId congregationId else None))) db
                      (Inr (), assignment_audit congregationId actorId userId [] [role_key r]
                         (db\<lparr>userRoleAssignments := delete_where (holds userId roleId) (userRoleAssignments db)\<rparr>))))"

definition existing_assignable_ids :: "db \<Rightarrow> int \<Rightarrow> int list" where
  "existing_assignable_ids db userId =
     js_set (map ura_roleId (filter (\<lambda>a. ura_userId a = userId \<and>
       (\<exists>r \<in> set (roles db). role_id r = ura_roleId a \<and> accountAssignableRole r)) (userRoleAssignments db)))"

definition role_keys_of :: "role list \<Rightarrow> int list \<Rightarrow> string list" where
  "role_keys_of rs ids = List.map_filter (\<lambda>i. map_option role_key (find (\<lambda>r. role_id r = i) rs)) ids"

definition setUserCustomRoleAssignments ::
  "int \<Rightarrow> int \<Rightarrow> int \<Rightarrow> int list \<Rightarrow> string set \<Rightarrow> db \<Rightarrow> (db, unit) outcome" where
  "setUserCustomRoleAssignments userId congregationId actorId customRoleIds actorPermissions db =
     (let customRoles = filter (\<lambda>r. role_congregationId r = congregationId \<and> accountAssignableRole r) (roles db);
          desired = js_set (filter (\<lambda>i. i \<in> role_id ` set customRoles) customRoleIds);
          existingIds = existing_assignable_ids db userId;
          added = filter (\<lambda>i. i \<notin> set existingIds) desired;
          removed = filter (\<lambda>i. i \<notin> set desired) existingIds
      in if added = [] \<and> removed = [] then (Inr (), db)
         else guard_by
                (orelse (assertMayChangeAccountAccess db userId congregationId actorPermissions)
                (orelse (assertActorHoldsRolePermissions db (added @ removed) congregationId actorPermissions)
                        (if \<exists>i \<in> set removed. roleGrantsAdmin db i congregationId
                         then requireNotLastAdmin db userId congregationId else None))) db
              (chain (if added = [] then (Inr (), db)
                      else insert_grants (map (\<lambda>i. grant userId i ''member'' congregationId) added) db) (\<lambda>_ db.
                 (Inr (), assignment_audit congregationId actorId userId
                    (role_keys_of customRoles added) (role_keys_of customRoles removed)
                    (db\<lparr>userRoleAssignments := (if removed = [] then userRoleAssignments db
                        else delete_where (\<lambda>a. ura_userId a = userId \<and> ura_roleId a \<in> set removed)
                               (userRoleAssignments db))\<rparr>)))))"

end
