(* ===== verification/Role_Grants.thy ===== *)
theory Role_Grants
  imports Roles
begin

text \<open>
  What the grants of \<open>Roles\<close> guarantee: nobody hands out or takes away a permission they do not
  hold, a congregation keeps an admin, and an account ends up with exactly the roles asked
  for.
\<close>

section \<open>Changes of permissions\<close>

text \<open>Every account's permissions differ at most by permissions of the actor.\<close>

definition changes_within :: "string set \<Rightarrow> db \<Rightarrow> db \<Rightarrow> bool" where
  "changes_within actor db db' \<longleftrightarrow>
     userAccounts db' = userAccounts db \<and>
     (\<forall>u \<in> set (userAccounts db). \<forall>key.
        account_has_permission db' key u \<noteq> account_has_permission db key u \<longrightarrow> key \<in> actor)"

lemma changes_within_refl [simp]: "changes_within actor db db"
  by (simp add: changes_within_def)

text \<open>The tables that decide permissions, apart from the assignments themselves.\<close>

definition same_grant_tables :: "db \<Rightarrow> db \<Rightarrow> bool" where
  "same_grant_tables db db' \<longleftrightarrow>
     userAccounts db' = userAccounts db \<and> rolePermissions db' = rolePermissions db \<and>
     permissions db' = permissions db \<and> memberRoleAssignments db' = memberRoleAssignments db"

lemma role_has_permission_cong:
  "same_grant_tables db db' \<Longrightarrow> role_has_permission db' i key = role_has_permission db i key"
  by (simp add: same_grant_tables_def role_has_permission_def)

text \<open>
  If the assignments that differ concern roles whose permissions the actor holds, the change
  is within the actor's permissions.
\<close>

lemma changes_within_assignments:
  assumes tables: "same_grant_tables db db'"
    and diff: "\<And>a. (a \<in> set (userRoleAssignments db')) \<noteq> (a \<in> set (userRoleAssignments db)) \<Longrightarrow> ura_roleId a \<in> ids"
    and held: "\<And>i key. i \<in> ids \<Longrightarrow> role_has_permission db i key \<Longrightarrow> key \<in> actor"
  shows "changes_within actor db db'"
proof -
  have "key \<in> actor" if ne: "account_has_permission db' key u \<noteq> account_has_permission db key u" for u key
  proof (rule ccontr)
    assume "key \<notin> actor"
    then have "(\<exists>a \<in> set (userRoleAssignments db'). ura_userId a = acc_id u \<and> role_has_permission db (ura_roleId a) key) \<longleftrightarrow>
        (\<exists>a \<in> set (userRoleAssignments db). ura_userId a = acc_id u \<and> role_has_permission db (ura_roleId a) key)"
      using diff held by blast
    then show False
      using ne tables unfolding account_has_permission_def role_has_permission_cong [OF tables]
      by (simp add: same_grant_tables_def) blast
  qed
  then show ?thesis using tables by (simp add: changes_within_def same_grant_tables_def)
qed

text \<open>A role of the congregation grants exactly what its rows of the congregation grant.\<close>

lemma role_permission_in_congregation:
  assumes "grants_ok db c" and "r \<in> set (roles db)" and "role_congregationId r = c"
    and "role_has_permission db (role_id r) key"
  obtains rp p where "rp \<in> set (rolePermissions db)" and "rp_roleId rp = role_id r" and "rp_congregationId rp = c"
    and "p \<in> set (permissions db)" and "perm_id p = rp_permissionId rp" and "perm_key p = key"
  using assms unfolding role_has_permission_def grants_ok_def by metis

lemma assertActorHoldsRolePermissions_role:
  assumes "assertActorHoldsRolePermissions db ids c actor = None" and "\<not> isAdminActor actor" and "grants_ok db c"
    and "r \<in> set (roles db)" and "role_congregationId r = c" and "role_id r \<in> set ids"
    and "role_has_permission db (role_id r) key"
  shows "key \<in> actor"
  using role_permission_in_congregation [OF assms(3-5,7)] assertActorHoldsRolePermissions_None [OF assms(1,2)] assms(6)
  by metis

lemma roleGrantsAdmin_iff:
  assumes "grants_ok db c" and "r \<in> set (roles db)" and "role_congregationId r = c"
  shows "roleGrantsAdmin db (role_id r) c \<longleftrightarrow> role_has_permission db (role_id r) CanDoAnything"
  using assms unfolding roleGrantsAdmin_def role_has_permission_def grants_ok_def by metis

section \<open>Admins remain\<close>

definition has_admin :: "db \<Rightarrow> int \<Rightarrow> bool" where
  "has_admin db c \<longleftrightarrow> findAccountsWithPermission db c CanDoAnything \<noteq> []"

lemma has_admin_iff:
  "has_admin db c \<longleftrightarrow> (\<exists>u \<in> set (userAccounts db). acc_congregationId u = c \<and> account_has_permission db CanDoAnything u)"
  by (auto simp: has_admin_def findAccountsWithPermission_def filter_empty_conv)

text \<open>
  An operation that takes roles of one account, after checking that the account is not the
  last admin when one of them grants everything, leaves an admin.
\<close>

lemma has_admin_kept:
  assumes "has_admin db c" and tables: "same_grant_tables db db'"
    and others: "\<And>a. a \<in> set (userRoleAssignments db) \<Longrightarrow> ura_userId a \<noteq> i \<Longrightarrow> a \<in> set (userRoleAssignments db')"
    and kept: "\<And>a. a \<in> set (userRoleAssignments db) \<Longrightarrow> \<not> grants_all \<Longrightarrow>
        role_has_permission db (ura_roleId a) CanDoAnything \<Longrightarrow> a \<in> set (userRoleAssignments db')"
    and check: "grants_all \<Longrightarrow> requireNotLastAdmin db i c = None"
  shows "has_admin db' c"
proof -
  have up: "account_has_permission db' CanDoAnything u"
    if "account_has_permission db CanDoAnything u"
      "\<And>a. a \<in> set (userRoleAssignments db) \<Longrightarrow> ura_userId a = acc_id u \<Longrightarrow>
         role_has_permission db (ura_roleId a) CanDoAnything \<Longrightarrow> a \<in> set (userRoleAssignments db')" for u
    using that tables unfolding account_has_permission_def role_has_permission_cong [OF tables]
    by (auto simp: same_grant_tables_def)
  have acc: "userAccounts db' = userAccounts db" using tables by (simp add: same_grant_tables_def)
  obtain u where u: "u \<in> set (userAccounts db)" "acc_congregationId u = c" "account_has_permission db CanDoAnything u"
    using assms(1) by (auto simp: has_admin_iff)
  show ?thesis
  proof (cases "grants_all \<and> acc_id u = i")
    case True
    then have "isAccountAdmin db i c" using u by (auto simp: isAccountAdmin_def findAccountsWithPermission_def)
    then obtain v where "v \<in> set (userAccounts db)" "acc_congregationId v = c" "acc_id v \<noteq> i"
      "account_has_permission db CanDoAnything v"
      using requireNotLastAdmin_None check True by metis
    then show ?thesis using up others unfolding has_admin_iff acc by metis
  next
    case False
    then have "account_has_permission db' CanDoAnything u" using up u(3) others kept by metis
    then show ?thesis using u unfolding has_admin_iff acc by blast
  qed
qed

section \<open>The three grants to accounts\<close>

lemma insert_grants_Inr:
  assumes "insert_grants new db = (Inr x, db')"
  shows "db' = db\<lparr>userRoleAssignments := userRoleAssignments db @ new\<rparr>"
  using assms by (auto simp: insert_grants_def split: if_splits)

lemma assignment_audit_frame [simp]:
  "userRoleAssignments (assignment_audit c a u x y d) = userRoleAssignments d"
  "roles (assignment_audit c a u x y d) = roles d"
  "same_grant_tables db (assignment_audit c a u x y d) = same_grant_tables db d"
  by (simp_all add: assignment_audit_def same_grant_tables_def)

lemma addUserToRole_Inr:
  assumes "addUserToRole userId roleId c a actor db = (Inr x, db')"
  obtains "db' = db"
  | r where "find (is_role roleId c) (roles db) = Some r" and "\<not> role_isSinglePerson r"
      and "\<not> isIdentityRoleKey (role_key r)" and "assertActorHoldsRolePermissions db [roleId] c actor = None"
      and "same_grant_tables db db'" and "userRoleAssignments db' = userRoleAssignments db @ [grant userId roleId ''member'' c]"
proof -
  show ?thesis
  proof (cases "find (is_role roleId c) (roles db)")
    case None
    then show ?thesis using assms that(1) by (simp add: addUserToRole_def)
  next
    case (Some r)
    show ?thesis
    proof (cases "find (holds userId roleId) (userRoleAssignments db)")
      case None
      then have ok: "\<not> isIdentityRoleKey (role_key r)" "\<not> role_isSinglePerson r"
        "assertActorHoldsRolePermissions db [roleId] c actor = None"
        and run: "chain (insert_grants [grant userId roleId ''member'' c] db) (\<lambda>_ db.
            (Inr (), assignment_audit c a userId [role_key r] [] db)) = (Inr x, db')"
        using assms Some by (auto simp: addUserToRole_def elim!: guard_by_InrE split: if_splits)
      from run obtain y s where s: "insert_grants [grant userId roleId ''member'' c] db = (Inr y, s)"
        "db' = assignment_audit c a userId [role_key r] [] s"
        by (auto elim!: chain_InrE)
      have "same_grant_tables db db'" "userRoleAssignments db' = userRoleAssignments db @ [grant userId roleId ''member'' c]"
        using insert_grants_Inr [OF s(1)] s(2) by (simp_all, simp add: same_grant_tables_def)
      then show ?thesis using that(2) [OF Some ok(2,1,3)] by blast
    next
      case (Some b)
      then show ?thesis using assms \<open>find (is_role roleId c) (roles db) = Some r\<close> that(1)
        by (auto simp: addUserToRole_def split: if_splits)
    qed
  qed
qed

lemma removeUserFromRole_Inr:
  assumes "removeUserFromRole userId roleId c a actor db = (Inr x, db')"
  obtains "db' = db"
  | r where "find (is_role roleId c) (roles db) = Some r"
      and "assertActorHoldsRolePermissions db [roleId] c actor = None"
      and "roleGrantsAdmin db roleId c \<Longrightarrow> requireNotLastAdmin db userId c = None"
      and "same_grant_tables db db'"
      and "userRoleAssignments db' = delete_where (holds userId roleId) (userRoleAssignments db)"
proof -
  show ?thesis
  proof (cases "find (is_role roleId c) (roles db)")
    case None
    then show ?thesis using assms that(1) by (simp add: removeUserFromRole_def)
  next
    case (Some r)
    show ?thesis
    proof (cases "find (holds userId roleId) (userRoleAssignments db)")
      case None
      then show ?thesis using assms Some that(1) by (auto simp: removeUserFromRole_def split: if_splits)
    next
      case (Some b)
      have found: "find (is_role roleId c) (roles db) = Some r" by fact
      have ok: "assertActorHoldsRolePermissions db [roleId] c actor = None"
        "roleGrantsAdmin db roleId c \<Longrightarrow> requireNotLastAdmin db userId c = None"
        and db': "db' = assignment_audit c a userId [] [role_key r]
            (db\<lparr>userRoleAssignments := delete_where (holds userId roleId) (userRoleAssignments db)\<rparr>)"
        using assms Some found by (auto simp: removeUserFromRole_def elim!: guard_by_InrE split: if_splits)
      show ?thesis
        by (rule that(2) [OF found ok]) (simp_all add: db', simp add: same_grant_tables_def)
    qed
  qed
qed

lemma js_set_Nil_iff [simp]: "js_set xs = [] \<longleftrightarrow> xs = []"
  by (metis set_js_set set_empty)

text \<open>The assignable roles of a congregation, and what a replacement of them does.\<close>

definition assignable_in :: "db \<Rightarrow> int \<Rightarrow> int \<Rightarrow> bool" where
  "assignable_in db c i \<longleftrightarrow>
     (\<exists>r \<in> set (roles db). role_id r = i \<and> role_congregationId r = c \<and> accountAssignableRole r)"

lemma set_existing_assignable_ids:
  "i \<in> set (existing_assignable_ids db userId) \<longleftrightarrow>
     (\<exists>a \<in> set (userRoleAssignments db). ura_userId a = userId \<and> ura_roleId a = i) \<and>
     (\<exists>r \<in> set (roles db). role_id r = i \<and> accountAssignableRole r)"
  by (auto simp: existing_assignable_ids_def)

lemma setUserCustomRoleAssignments_Inr:
  assumes "setUserCustomRoleAssignments userId c a ids actor db = (Inr x, db')"
  obtains added removed where
    "set added = {i \<in> set ids. assignable_in db c i \<and> i \<notin> set (existing_assignable_ids db userId)}"
    and "set removed = {i \<in> set (existing_assignable_ids db userId). \<not> (i \<in> set ids \<and> assignable_in db c i)}"
    and "added \<noteq> [] \<or> removed \<noteq> [] \<Longrightarrow> assertActorHoldsRolePermissions db (added @ removed) c actor = None"
    and "\<exists>i \<in> set removed. roleGrantsAdmin db i c \<Longrightarrow> requireNotLastAdmin db userId c = None"
    and "same_grant_tables db db'" and "roles db' = roles db"
    and "set (userRoleAssignments db') =
      {b \<in> set (userRoleAssignments db) \<union> (\<lambda>i. grant userId i ''member'' c) ` set added.
         \<not> (ura_userId b = userId \<and> ura_roleId b \<in> set removed)}"
proof -
  let ?custom = "filter (\<lambda>r. role_congregationId r = c \<and> accountAssignableRole r) (roles db)"
  define desired where "desired = js_set (filter (\<lambda>i. i \<in> role_id ` set ?custom) ids)"
  define existing where "existing = existing_assignable_ids db userId"
  define added where "added = filter (\<lambda>i. i \<notin> set existing) desired"
  define removed where "removed = filter (\<lambda>i. i \<notin> set desired) existing"
  have desired: "i \<in> set desired \<longleftrightarrow> i \<in> set ids \<and> assignable_in db c i" for i
    by (auto simp: desired_def assignable_in_def)
  have sets: "set added = {i \<in> set ids. assignable_in db c i \<and> i \<notin> set existing}"
    "set removed = {i \<in> set existing. \<not> (i \<in> set ids \<and> assignable_in db c i)}"
    by (auto simp: added_def removed_def desired)
  have dis: "set added \<inter> set removed = {}" by (auto simp: added_def removed_def)
  show ?thesis
  proof (cases "added = [] \<and> removed = []")
    case True
    then have "db' = db"
      using assms unfolding setUserCustomRoleAssignments_def Let_def added_def removed_def desired_def existing_def
      by (auto split: if_splits)
    then show ?thesis
      using that [of added removed] sets True unfolding existing_def by (simp add: same_grant_tables_def)
  next
    case False
    let ?trim = "\<lambda>as. if removed = [] then as else delete_where (\<lambda>a. ura_userId a = userId \<and> ura_roleId a \<in> set removed) as"
    have run: "guard_by
                (orelse (assertMayChangeAccountAccess db userId c actor)
                (orelse (assertActorHoldsRolePermissions db (added @ removed) c actor)
                        (if \<exists>i \<in> set removed. roleGrantsAdmin db i c
                         then requireNotLastAdmin db userId c else None))) db
              (chain (if added = [] then (Inr (), db)
                      else insert_grants (map (\<lambda>i. grant userId i ''member'' c) added) db) (\<lambda>_ db.
                 (Inr (), assignment_audit c a userId (role_keys_of ?custom added) (role_keys_of ?custom removed)
                    (db\<lparr>userRoleAssignments := ?trim (userRoleAssignments db)\<rparr>)))) = (Inr x, db')"
      using assms False
      unfolding setUserCustomRoleAssignments_def Let_def added_def removed_def desired_def existing_def
      by (simp only: if_False)
    then have ok: "assertActorHoldsRolePermissions db (added @ removed) c actor = None"
      "\<exists>i \<in> set removed. roleGrantsAdmin db i c \<Longrightarrow> requireNotLastAdmin db userId c = None"
      by (auto elim!: guard_by_InrE split: if_splits)
    from run obtain y s where s: "(if added = [] then (Inr (), db)
          else insert_grants (map (\<lambda>i. grant userId i ''member'' c) added) db) = (Inr y, s)"
      and db': "db' = assignment_audit c a userId (role_keys_of ?custom added) (role_keys_of ?custom removed)
          (s\<lparr>userRoleAssignments := ?trim (userRoleAssignments s)\<rparr>)"
      by (elim guard_by_InrE chain_InrE) simp
    have s_eq: "s = db\<lparr>userRoleAssignments := userRoleAssignments db @ map (\<lambda>i. grant userId i ''member'' c) added\<rparr>"
      using s insert_grants_Inr by (cases "added = []") auto
    have "set (userRoleAssignments db') =
      {b \<in> set (userRoleAssignments db) \<union> (\<lambda>i. grant userId i ''member'' c) ` set added.
         \<not> (ura_userId b = userId \<and> ura_roleId b \<in> set removed)}"
      unfolding db' s_eq by auto
    moreover have "same_grant_tables db db'" "roles db' = roles db"
      unfolding db' s_eq by (simp_all, simp add: same_grant_tables_def)
    ultimately show ?thesis
      using that [of added removed] sets ok unfolding existing_def by blast
  qed
qed

section \<open>The permissions of a role\<close>

lemma updateRolePermissions_Inr:
  assumes "updateRolePermissions i c a keys actor db = (Inr x, db')"
  obtains "db' = db"
  | r where "find (is_role i c) (roles db) = Some r"
      and "\<not> isAdminActor actor \<Longrightarrow> set (changed_keys (role_permission_keys db i) keys) \<subseteq> actor"
      and "db' = syncRolePermissions i c (role_permission_keys db i) keys (Some a) db"
proof (cases "find (is_role i c) (roles db)")
  case None
  then show ?thesis using assms that(1) by (simp add: updateRolePermissions_def)
next
  case (Some r)
  have "\<not> isAdminActor actor \<Longrightarrow> set (changed_keys (role_permission_keys db i) keys) \<subseteq> actor"
    using assms Some
    by (auto simp: updateRolePermissions_def Let_def assertActorHolds_None elim!: guard_by_InrE split: if_splits)
  moreover have "db' = syncRolePermissions i c (role_permission_keys db i) keys (Some a) db"
    using assms Some by (auto simp: updateRolePermissions_def Let_def elim!: guard_by_InrE)
  ultimately show ?thesis using that(2) Some by blast
qed

lemma set_map_filter: "set (List.map_filter f xs) = {y. \<exists>x \<in> set xs. f x = Some y}"
  by (induction xs) (auto simp: List.map_filter_simps split: option.splits)

text \<open>The catalogue of permissions: keys and ids are unique.\<close>

definition catalogue_ok :: "db \<Rightarrow> bool" where
  "catalogue_ok db \<longleftrightarrow> distinct (map perm_id (permissions db)) \<and> distinct (map perm_key (permissions db))"

lemma permission_id_iff:
  assumes "catalogue_ok db"
  shows "permission_id db key = Some i \<longleftrightarrow> (\<exists>p \<in> set (permissions db). perm_key p = key \<and> perm_id p = i)"
  using find_unique_iff [of perm_key "permissions db" key] assms
  by (auto simp: permission_id_def catalogue_ok_def)

lemma known_permission_iff:
  assumes "catalogue_ok db" and "p \<in> set (permissions db)"
  shows "perm_id p \<in> set (known_permission_ids db keys) \<longleftrightarrow> perm_key p \<in> set keys"
proof -
  have "perm_key q = perm_key p" if "q \<in> set (permissions db)" "perm_id q = perm_id p" for q
    using assms that by (auto simp: catalogue_ok_def distinct_map inj_on_def)
  moreover have "perm_id p \<in> set (known_permission_ids db keys) \<longleftrightarrow>
      (\<exists>key \<in> set keys. \<exists>q \<in> set (permissions db). perm_key q = key \<and> perm_id q = perm_id p)"
    by (simp add: known_permission_ids_def set_map_filter permission_id_iff [OF assms(1)])
  ultimately show ?thesis using assms(2) by metis
qed

lemma known_permission_ids_Nil [simp]: "known_permission_ids db [] = []"
  by (simp add: known_permission_ids_def List.map_filter_simps)

lemma set_grant_rows:
  "(\<exists>rp \<in> set (grant_rows roleId c ids rows). rp_roleId rp = j \<and> rp_permissionId rp = k) \<longleftrightarrow>
     (\<exists>rp \<in> set rows. rp_roleId rp = j \<and> rp_permissionId rp = k) \<or> (j = roleId \<and> k \<in> set ids)"
  by (cases "\<exists>rp \<in> set rows. rp_roleId rp = roleId \<and> rp_permissionId rp = k")
    (auto simp: grant_rows_def bex_Un)

lemma syncRolePermissions_rows:
  assumes "catalogue_ok db" and db': "db' = syncRolePermissions roleId c prev keys actorId db"
  shows "role_has_permission db' j key \<longleftrightarrow>
      (if j = roleId \<and> (\<exists>p \<in> set (permissions db). perm_key p = key)
       then (role_has_permission db j key \<and> \<not> (key \<in> set prev \<and> key \<notin> set keys)) \<or> (key \<in> set keys \<and> key \<notin> set prev)
       else role_has_permission db j key)"
    and "permissions db' = permissions db" and "userAccounts db' = userAccounts db"
    and "userRoleAssignments db' = userRoleAssignments db" and "memberRoleAssignments db' = memberRoleAssignments db"
    and "roles db' = roles db"
proof -
  let ?added = "filter (\<lambda>k. k \<notin> set prev) (js_set keys)"
  let ?removed = "filter (\<lambda>k. k \<notin> set keys) (js_set prev)"
  let ?addedIds = "known_permission_ids db ?added"
  let ?removedIds = "known_permission_ids db ?removed"
  have frame: "permissions db' = permissions db \<and> userAccounts db' = userAccounts db \<and>
      userRoleAssignments db' = userRoleAssignments db \<and> memberRoleAssignments db' = memberRoleAssignments db \<and>
      roles db' = roles db"
    by (simp add: db' syncRolePermissions_def Let_def entity_audit_def split: option.splits)
  then show "permissions db' = permissions db" "userAccounts db' = userAccounts db"
    "userRoleAssignments db' = userRoleAssignments db" "memberRoleAssignments db' = memberRoleAssignments db"
    "roles db' = roles db" by simp_all
  have rows: "(\<exists>rp \<in> set (rolePermissions db'). rp_roleId rp = j \<and> rp_permissionId rp = k) \<longleftrightarrow>
      ((\<exists>rp \<in> set (rolePermissions db). rp_roleId rp = j \<and> rp_permissionId rp = k) \<or> (j = roleId \<and> k \<in> set ?addedIds))
      \<and> \<not> (j = roleId \<and> k \<in> set ?removedIds)" for k
  proof (cases "?added = [] \<and> ?removed = []")
    case True
    then have "rolePermissions db' = rolePermissions db"
      by (simp add: db' syncRolePermissions_def Let_def)
    moreover have "?addedIds = []" "?removedIds = []"
      using True by simp_all
    ultimately show ?thesis by simp
  next
    case False
    let ?granted = "if ?addedIds = [] then rolePermissions db else grant_rows roleId c ?addedIds (rolePermissions db)"
    have "rolePermissions db' = (if ?removedIds = [] then ?granted
        else delete_where (\<lambda>rp. rp_roleId rp = roleId \<and> rp_permissionId rp \<in> set ?removedIds) ?granted)"
      using False unfolding db' syncRolePermissions_def Let_def
      by (cases actorId) (auto simp: entity_audit_def)
    then have del: "set (rolePermissions db') = {rp \<in> set ?granted. \<not> (rp_roleId rp = roleId \<and> rp_permissionId rp \<in> set ?removedIds)}"
      by (simp split: if_splits)
    have "(\<exists>rp \<in> set ?granted. rp_roleId rp = j \<and> rp_permissionId rp = k) \<longleftrightarrow>
      (\<exists>rp \<in> set (rolePermissions db). rp_roleId rp = j \<and> rp_permissionId rp = k) \<or> (j = roleId \<and> k \<in> set ?addedIds)"
      by (cases "?addedIds = []") (simp_all add: set_grant_rows)
    then show ?thesis unfolding del by auto
  qed
  have has: "role_has_permission d j key \<longleftrightarrow>
      (\<exists>p \<in> set (permissions d). perm_key p = key \<and> (\<exists>rp \<in> set (rolePermissions d). rp_roleId rp = j \<and> rp_permissionId rp = perm_id p))" for d
    unfolding role_has_permission_def by metis
  have ids: "perm_id p \<in> set ?addedIds \<longleftrightarrow> perm_key p \<in> set keys \<and> perm_key p \<notin> set prev"
    "perm_id p \<in> set ?removedIds \<longleftrightarrow> perm_key p \<in> set prev \<and> perm_key p \<notin> set keys"
    if "p \<in> set (permissions db)" for p
    using known_permission_iff [OF assms(1) that] by auto
  have perms: "permissions db' = permissions db" using frame by simp
  show "role_has_permission db' j key \<longleftrightarrow>
      (if j = roleId \<and> (\<exists>p \<in> set (permissions db). perm_key p = key)
       then (role_has_permission db j key \<and> \<not> (key \<in> set prev \<and> key \<notin> set keys)) \<or> (key \<in> set keys \<and> key \<notin> set prev)
       else role_has_permission db j key)"
    unfolding has perms rows using ids by auto
qed

section \<open>A concrete congregation\<close>

text \<open>
  Two accounts: the first is an admin through the custom role 1, the second holds role 2, which
  lets it see the board. Role 3 grants nothing.
\<close>

abbreviation sample_account :: "int \<Rightarrow> user_account" where
  "sample_account i \<equiv> sample_login i None"

definition sample_grants :: db where
  "sample_grants = empty_db\<lparr>
     roles := [sample_role 1 ''bureau'' None, sample_role 2 ''accueil'' None, sample_role 3 ''sono'' None],
     permissions := [\<lparr>perm_id = 1, perm_key = CanDoAnything\<rparr>, \<lparr>perm_id = 2, perm_key = ''can-view-board''\<rparr>],
     rolePermissions := [\<lparr>rp_roleId = 1, rp_permissionId = 1, rp_congregationId = 1\<rparr>,
                         \<lparr>rp_roleId = 2, rp_permissionId = 2, rp_congregationId = 1\<rparr>],
     userAccounts := [sample_account 1, sample_account 2],
     userRoleAssignments := [grant 1 1 ''member'' 1, grant 2 2 ''member'' 1]\<rparr>"

lemmas sample_grants_defs = sample_grants_def sample_login_def sample_role_def empty_db_def grant_def

lemma sample_grants_ok: "grants_ok sample_grants 1" "catalogue_ok sample_grants"
  by (simp_all add: grants_ok_def catalogue_ok_def sample_grants_defs CanDoAnything_def)

lemma sample_grants_admin: "account_has_permission sample_grants key u \<longleftrightarrow>
    (acc_id u = 1 \<and> key = CanDoAnything) \<or> (acc_id u = 2 \<and> key = ''can-view-board'')"
  by (auto simp: account_has_permission_def role_has_permission_def sample_grants_defs CanDoAnything_def)

lemmas grant_eval = sample_grants_defs is_role_def holds_def isAdminActor_def assertActorHolds.simps
  assertActorHoldsRolePermissions_def assertMayChangeAccountAccess_def isAccountAdmin_def
  findAccountsWithPermission_def account_has_permission_def role_has_permission_def
  permission_keys_of_roles_def role_key_defs CanDoAnything_def

lemma sample_runs:
  "\<exists>db'. addUserToRole 2 3 1 9 {''can-view-board''} sample_grants = (Inr (), db')"
  "\<exists>db'. removeUserFromRole 2 2 1 9 {''can-view-board''} sample_grants = (Inr (), db')"
  "\<exists>db'. setUserCustomRoleAssignments 2 1 9 [3] {''can-view-board''} sample_grants = (Inr (), db')"
  "\<exists>db'. updateRolePermissions 3 1 9 [''can-view-board''] {''can-view-board''} sample_grants = (Inr (), db')"
  by (simp_all add: addUserToRole_def removeUserFromRole_def setUserCustomRoleAssignments_def
      updateRolePermissions_def changed_keys_def role_permission_keys_def existing_assignable_ids_def
      accountAssignableRole_def roleGrantsAdmin_def insert_grants_def guard_by_def chain_def orelse_def
      js_set_def Let_def grant_eval)

lemma sample_user: "\<exists>u \<in> set (userAccounts sample_grants). acc_id u = 2 \<and> acc_congregationId u = 1"
  by (simp add: sample_grants_defs)

section \<open>Properties\<close>

lemma addUserToRole_within:
  assumes ok: "grants_ok db c" and na: "\<not> isAdminActor actor" and run: "addUserToRole userId roleId c a actor db = (Inr x, db')"
  shows "changes_within actor db db'"
  using run
proof (cases rule: addUserToRole_Inr)
  case 1
  then show ?thesis by simp
next
  case (2 r)
  have r: "r \<in> set (roles db)" "role_id r = roleId" "role_congregationId r = c"
    using find_Some_in [OF 2(1)] by (simp_all add: is_role_def)
  show ?thesis
    by (rule changes_within_assignments [OF 2(5), of "{roleId}"])
      (use 2(6) assertActorHoldsRolePermissions_role [OF 2(4) na ok r(1,3)] r(2) in \<open>auto simp: grant_def\<close>)
qed

lemma removeUserFromRole_within:
  assumes ok: "grants_ok db c" and na: "\<not> isAdminActor actor" and run: "removeUserFromRole userId roleId c a actor db = (Inr x, db')"
  shows "changes_within actor db db'"
  using run
proof (cases rule: removeUserFromRole_Inr)
  case 1
  then show ?thesis by simp
next
  case (2 r)
  have r: "r \<in> set (roles db)" "role_id r = roleId" "role_congregationId r = c"
    using find_Some_in [OF 2(1)] by (simp_all add: is_role_def)
  show ?thesis
    by (rule changes_within_assignments [OF 2(4), of "{roleId}"])
      (use 2(5) assertActorHoldsRolePermissions_role [OF 2(2) na ok r(1,3)] r(2) in \<open>auto simp: holds_def\<close>)
qed

text \<open>Assignments of an account refer to roles of its congregation.\<close>

lemma existing_in_congregation:
  assumes "grants_ok db c" and "u \<in> set (userAccounts db)" and "acc_id u = userId" and "acc_congregationId u = c"
    and "i \<in> set (existing_assignable_ids db userId)"
  shows "assignable_in db c i"
proof -
  obtain b r where b: "b \<in> set (userRoleAssignments db)" "ura_userId b = userId" "ura_roleId b = i"
    and r: "r \<in> set (roles db)" "role_id r = i" "accountAssignableRole r"
    using assms(5) unfolding set_existing_assignable_ids by blast
  obtain q where q: "q \<in> set (roles db)" "role_id q = i" "role_congregationId q = c"
    using assms(1-4) b unfolding grants_ok_def by metis
  have "q = r" using assms(1) q(1,2) r(1,2) unfolding grants_ok_def by (auto simp: distinct_map inj_on_def)
  then show ?thesis using q r by (auto simp: assignable_in_def)
qed

lemma setUserCustomRoleAssignments_within:
  assumes ok: "grants_ok db c" and na: "\<not> isAdminActor actor"
    and acc: "u \<in> set (userAccounts db)" "acc_id u = userId" "acc_congregationId u = c"
    and run: "setUserCustomRoleAssignments userId c a ids actor db = (Inr x, db')"
  shows "changes_within actor db db'"
  using run
proof (cases rule: setUserCustomRoleAssignments_Inr)
  case (1 added removed)
  note sets = 1(1,2) and held = 1(3) and tables = 1(5) and rows = 1(7)
  show ?thesis
  proof (rule changes_within_assignments [OF tables, of "set (added @ removed)"])
    fix b assume "(b \<in> set (userRoleAssignments db')) \<noteq> (b \<in> set (userRoleAssignments db))"
    then have "b \<in> (\<lambda>i. grant userId i ''member'' c) ` set added \<or> ura_roleId b \<in> set removed"
      unfolding rows by blast
    then show "ura_roleId b \<in> set (added @ removed)" by (auto simp: grant_def)
  next
    fix i key assume i: "i \<in> set (added @ removed)" and has: "role_has_permission db i key"
    have "assignable_in db c i"
    proof (cases "i \<in> set added")
      case True
      then show ?thesis unfolding sets(1) by blast
    next
      case False
      then have "i \<in> set (existing_assignable_ids db userId)" using i sets(2) by simp
      then show ?thesis by (rule existing_in_congregation [OF ok acc])
    qed
    then obtain r where r: "r \<in> set (roles db)" "role_congregationId r = c" "role_id r = i"
      by (auto simp: assignable_in_def)
    have "added \<noteq> [] \<or> removed \<noteq> []" using i by (cases added) auto
    then have "assertActorHoldsRolePermissions db (added @ removed) c actor = None" by (rule held)
    from assertActorHoldsRolePermissions_role [OF this na ok r(1,2)] show "key \<in> actor"
      using i has r(3) by blast
  qed
qed

lemma updateRolePermissions_within:
  assumes cat: "catalogue_ok db" and na: "\<not> isAdminActor actor"
    and run: "updateRolePermissions i c a keys actor db = (Inr x, db')"
  shows "changes_within actor db db'"
  using run
proof (cases rule: updateRolePermissions_Inr)
  case 1
  then show ?thesis by simp
next
  case (2 r)
  note rows = syncRolePermissions_rows [OF cat 2(3)]
  have same: "role_has_permission db' j key = role_has_permission db j key" if "key \<notin> actor" for j key
  proof -
    have "key \<notin> set (changed_keys (role_permission_keys db i) keys)" using 2(2) [OF na] that by blast
    then have "key \<in> set (role_permission_keys db i) \<longleftrightarrow> key \<in> set keys" by (auto simp: changed_keys_def)
    then show ?thesis using rows(1) [of j key] by auto
  qed
  have "account_has_permission db' key u = account_has_permission db key u" if "key \<notin> actor" for key u
    using same [OF that] rows(4,5) by (simp add: account_has_permission_def)
  then show ?thesis using rows(3) by (auto simp: changes_within_def)
qed

lemma deleteRole_only_takes:
  assumes "deleteRole i c a db = (Inr x, db')" and "u \<in> set (userAccounts db)"
  shows "(account_has_permission db' key u \<longrightarrow> account_has_permission db key u) \<and>
    (account_has_permission db key u \<longrightarrow> account_has_permission db' key u \<or> assigned_to_account db (acc_id u) i)"
proof (cases "find (is_role i c) (roles db)")
  case None
  then show ?thesis using assms by (simp add: deleteRole_def)
next
  case (Some r)
  then have rows: "permissions db' = permissions db"
    "set (rolePermissions db') = {b \<in> set (rolePermissions db). rp_roleId b \<noteq> i}"
    "set (userRoleAssignments db') = {b \<in> set (userRoleAssignments db). ura_roleId b \<noteq> i}"
    "set (memberRoleAssignments db') = {b \<in> set (memberRoleAssignments db). mra_roleId b \<noteq> i}"
    using assms(1) by (auto simp: deleteRole_def split: if_splits)
  have perm: "role_has_permission db' j k \<longleftrightarrow> j \<noteq> i \<and> role_has_permission db j k" for j k
    unfolding role_has_permission_def rows by blast
  show ?thesis using assms(2) unfolding account_has_permission_def perm rows assigned_to_account_def by blast
qed

text \<open>
  C24. Nobody hands out or takes away what they do not hold by changing a role's permissions, adding an
  account to a role, removing it from one or replacing its roles: unless the actor is an admin, every
  permission that any account gains or loses by one of these four is one of the actor's own. Deleting a
  role is not checked in this way: it hands out nothing, but takes the role's permissions from whoever
  held that role, whatever the actor holds.
\<close>

theorem grants_stay_within_the_actor:
  assumes "grants_ok db c" and "catalogue_ok db" and "\<not> isAdminActor actor"
    and "\<exists>u \<in> set (userAccounts db). acc_id u = userId \<and> acc_congregationId u = c"
  shows "(updateRolePermissions i c a keys actor db = (Inr x, db') \<longrightarrow> changes_within actor db db') \<and>
    (addUserToRole userId i c a actor db = (Inr x, db') \<longrightarrow> changes_within actor db db') \<and>
    (removeUserFromRole userId i c a actor db = (Inr x, db') \<longrightarrow> changes_within actor db db') \<and>
    (setUserCustomRoleAssignments userId c a ids actor db = (Inr x, db') \<longrightarrow> changes_within actor db db') \<and>
    (deleteRole i c a db = (Inr y, db') \<longrightarrow>
       (\<forall>v \<in> set (userAccounts db). \<forall>key.
          (account_has_permission db' key v \<longrightarrow> account_has_permission db key v) \<and>
          (account_has_permission db key v \<longrightarrow> account_has_permission db' key v \<or> assigned_to_account db (acc_id v) i)))"
proof (intro conjI impI)
  obtain u where u: "u \<in> set (userAccounts db)" "acc_id u = userId" "acc_congregationId u = c"
    using assms(4) by blast
  show "changes_within actor db db'" if "setUserCustomRoleAssignments userId c a ids actor db = (Inr x, db')"
    by (rule setUserCustomRoleAssignments_within [OF assms(1,3) u that])
  show "\<forall>v \<in> set (userAccounts db). \<forall>key. (account_has_permission db' key v \<longrightarrow> account_has_permission db key v) \<and>
      (account_has_permission db key v \<longrightarrow> account_has_permission db' key v \<or> assigned_to_account db (acc_id v) i)"
    if "deleteRole i c a db = (Inr y, db')"
    using deleteRole_only_takes [OF that] by blast
qed (rule updateRolePermissions_within [OF assms(2,3)] addUserToRole_within [OF assms(1,3)]
      removeUserFromRole_within [OF assms(1,3)], assumption)+

lemma removeUserFromRole_keeps_admin:
  assumes ok: "grants_ok db c" and admin: "has_admin db c"
    and run: "removeUserFromRole userId i c a actor db = (Inr x, db')"
  shows "has_admin db' c"
  using run
proof (cases rule: removeUserFromRole_Inr)
  case 1
  then show ?thesis using admin by simp
next
  case (2 r)
  have r: "r \<in> set (roles db)" "role_id r = i" "role_congregationId r = c"
    using find_Some_in [OF 2(1)] by (simp_all add: is_role_def)
  have iff: "roleGrantsAdmin db i c \<longleftrightarrow> role_has_permission db i CanDoAnything"
    using roleGrantsAdmin_iff [OF ok r(1,3)] r(2) by simp
  show ?thesis
  proof (rule has_admin_kept [OF admin 2(4), of userId "roleGrantsAdmin db i c"])
    fix b assume b: "b \<in> set (userRoleAssignments db)"
    show "b \<in> set (userRoleAssignments db')" if "ura_userId b \<noteq> userId"
      using b that by (simp add: 2(5) holds_def)
    assume "\<not> roleGrantsAdmin db i c" "role_has_permission db (ura_roleId b) CanDoAnything"
    then have "ura_roleId b \<noteq> i" using iff by metis
    then show "b \<in> set (userRoleAssignments db')" using b by (simp add: 2(5) holds_def)
  qed (rule 2(3))
qed

lemma setUserCustomRoleAssignments_keeps_admin:
  assumes ok: "grants_ok db c" and admin: "has_admin db c"
    and acc: "u \<in> set (userAccounts db)" "acc_id u = userId" "acc_congregationId u = c"
    and run: "setUserCustomRoleAssignments userId c a ids actor db = (Inr x, db')"
  shows "has_admin db' c"
  using run
proof (cases rule: setUserCustomRoleAssignments_Inr)
  case (1 added removed)
  note rows = 1(7)
  have admin_role: "roleGrantsAdmin db j c" if "j \<in> set removed" "role_has_permission db j CanDoAnything" for j
  proof -
    have "assignable_in db c j" using existing_in_congregation [OF ok acc] that(1) 1(2) by simp
    then obtain r where "r \<in> set (roles db)" "role_congregationId r = c" "role_id r = j"
      by (auto simp: assignable_in_def)
    then show ?thesis using roleGrantsAdmin_iff [OF ok, of r] that(2) by simp
  qed
  show ?thesis
  proof (rule has_admin_kept [OF admin 1(5), of userId "\<exists>i \<in> set removed. roleGrantsAdmin db i c"])
    fix b assume b: "b \<in> set (userRoleAssignments db)"
    show "b \<in> set (userRoleAssignments db')" if "ura_userId b \<noteq> userId"
      using b that unfolding rows by blast
    assume "\<not> (\<exists>i \<in> set removed. roleGrantsAdmin db i c)" "role_has_permission db (ura_roleId b) CanDoAnything"
    then have "ura_roleId b \<notin> set removed" using admin_role by blast
    then show "b \<in> set (userRoleAssignments db')" using b unfolding rows by blast
  qed (rule 1(4))
qed

lemma grants_stay_within_the_actor_witness:
  "\<exists>db'. updateRolePermissions 3 1 9 [''can-view-board''] {''can-view-board''} sample_grants = (Inr (), db') \<and>
     changes_within {''can-view-board''} sample_grants db'"
proof -
  have na: "\<not> isAdminActor {''can-view-board''}" by (simp add: isAdminActor_def CanDoAnything_def)
  obtain db' where run: "updateRolePermissions 3 1 9 [''can-view-board''] {''can-view-board''} sample_grants = (Inr (), db')"
    using sample_runs(4) by blast
  from grants_stay_within_the_actor [OF sample_grants_ok na sample_user] run show ?thesis by blast
qed

text \<open>
  A congregation that has an admin keeps one when an account is removed from a role or its
  roles are replaced, whoever makes the change.
\<close>

theorem an_admin_remains:
  assumes "grants_ok db c" and "has_admin db c"
    and "removeUserFromRole userId i c a actor db = (Inr x, db') \<or>
         (setUserCustomRoleAssignments userId c a ids actor db = (Inr x, db') \<and>
          (\<exists>u \<in> set (userAccounts db). acc_id u = userId \<and> acc_congregationId u = c))"
  shows "has_admin db' c"
  using assms(3)
proof
  assume "removeUserFromRole userId i c a actor db = (Inr x, db')"
  then show ?thesis by (rule removeUserFromRole_keeps_admin [OF assms(1,2)])
next
  assume *: "setUserCustomRoleAssignments userId c a ids actor db = (Inr x, db') \<and>
          (\<exists>u \<in> set (userAccounts db). acc_id u = userId \<and> acc_congregationId u = c)"
  then obtain u where "u \<in> set (userAccounts db)" "acc_id u = userId" "acc_congregationId u = c" by blast
  from setUserCustomRoleAssignments_keeps_admin [OF assms(1,2) this conjunct1 [OF *]] show ?thesis .
qed

lemma an_admin_remains_witness:
  "\<exists>db'. removeUserFromRole 2 2 1 9 {''can-view-board''} sample_grants = (Inr (), db') \<and> has_admin db' 1"
proof -
  obtain db' where run: "removeUserFromRole 2 2 1 9 {''can-view-board''} sample_grants = (Inr (), db')"
    using sample_runs(2) by blast
  have "has_admin sample_grants 1" unfolding has_admin_iff sample_grants_admin by (simp add: sample_grants_defs)
  from an_admin_remains [OF sample_grants_ok(1) this disjI1 [OF run]] run show ?thesis by blast
qed

text \<open>
  Replacing the roles of an account ends with exactly the assignable roles asked for, and
  leaves its seats on personal roles and everybody else's assignments alone.
\<close>

theorem replaced_roles_are_the_ones_asked_for:
  assumes "grants_ok db c" and "\<exists>u \<in> set (userAccounts db). acc_id u = userId \<and> acc_congregationId u = c"
    and "setUserCustomRoleAssignments userId c a ids actor db = (Inr x, db')"
  shows "(assignable_in db c i \<longrightarrow>
       (\<exists>b \<in> set (userRoleAssignments db'). holds userId i b) = (i \<in> set ids)) \<and>
    (\<not> assignable_in db c i \<longrightarrow>
       (\<exists>b \<in> set (userRoleAssignments db'). holds userId i b) = (\<exists>b \<in> set (userRoleAssignments db). holds userId i b)) \<and>
    (ura_userId b \<noteq> userId \<longrightarrow> (b \<in> set (userRoleAssignments db')) = (b \<in> set (userRoleAssignments db)))"
proof -
  obtain u where acc: "u \<in> set (userAccounts db)" "acc_id u = userId" "acc_congregationId u = c"
    using assms(2) by blast
  from assms(3) show ?thesis
  proof (cases rule: setUserCustomRoleAssignments_Inr)
    case (1 added removed)
    note added = 1(1) and removed = 1(2) and rows = 1(7)
    have new: "(\<exists>b \<in> set (userRoleAssignments db'). holds userId i b) \<longleftrightarrow>
        ((\<exists>b \<in> set (userRoleAssignments db). holds userId i b) \<or> i \<in> set added) \<and> i \<notin> set removed"
    proof -
      have g: "holds userId i (grant userId j ''member'' c) \<longleftrightarrow> j = i" for j by (simp add: holds_def grant_def)
      have h: "\<not> (ura_userId b = userId \<and> ura_roleId b \<in> set removed) \<longleftrightarrow> i \<notin> set removed" if "holds userId i b" for b
        using that by (auto simp: holds_def)
      have "(\<exists>b \<in> set (userRoleAssignments db'). holds userId i b) \<longleftrightarrow>
          (\<exists>b \<in> set (userRoleAssignments db) \<union> (\<lambda>i. grant userId i ''member'' c) ` set added. holds userId i b \<and> i \<notin> set removed)"
        unfolding rows using h by blast
      then show ?thesis by (simp add: bex_Un g)
    qed
    have old: "i \<in> set (existing_assignable_ids db userId) \<longleftrightarrow>
        (\<exists>b \<in> set (userRoleAssignments db). holds userId i b) \<and> assignable_in db c i"
    proof
      assume *: "i \<in> set (existing_assignable_ids db userId)"
      show "(\<exists>b \<in> set (userRoleAssignments db). holds userId i b) \<and> assignable_in db c i"
        using existing_in_congregation [OF assms(1) acc *] *
        unfolding set_existing_assignable_ids holds_def by blast
    next
      assume "(\<exists>b \<in> set (userRoleAssignments db). holds userId i b) \<and> assignable_in db c i"
      then show "i \<in> set (existing_assignable_ids db userId)"
        unfolding set_existing_assignable_ids holds_def assignable_in_def by blast
    qed
    have in_added: "i \<in> set added \<longleftrightarrow> i \<in> set ids \<and> assignable_in db c i \<and> i \<notin> set (existing_assignable_ids db userId)"
      using added by simp
    have in_removed: "i \<in> set removed \<longleftrightarrow>
        i \<in> set (existing_assignable_ids db userId) \<and> \<not> (i \<in> set ids \<and> assignable_in db c i)"
      using removed by simp
    have others: "(b \<in> set (userRoleAssignments db')) = (b \<in> set (userRoleAssignments db))"
      if "ura_userId b \<noteq> userId"
      using that unfolding rows grant_def by auto
    show ?thesis
      unfolding new using in_added in_removed old others by blast
  qed
qed

lemma replaced_roles_are_the_ones_asked_for_witness:
  "\<exists>db'. setUserCustomRoleAssignments 2 1 9 [3] {''can-view-board''} sample_grants = (Inr (), db') \<and>
     (\<exists>b \<in> set (userRoleAssignments db'). holds 2 3 b) \<and> \<not> (\<exists>b \<in> set (userRoleAssignments db'). holds 2 2 b)"
proof -
  obtain db' where run: "setUserCustomRoleAssignments 2 1 9 [3] {''can-view-board''} sample_grants = (Inr (), db')"
    using sample_runs(3) by blast
  have roles: "assignable_in sample_grants 1 3" "assignable_in sample_grants 1 2"
    by (simp_all add: assignable_in_def accountAssignableRole_def sample_grants_defs role_key_defs)
  note replaced = replaced_roles_are_the_ones_asked_for [OF sample_grants_ok(1) sample_user run]
  show ?thesis using run roles replaced [of 3] replaced [of 2] by auto
qed

text \<open>
  The checks above guard the grants to accounts only: deleting a role that nobody reports
  to takes no account of who deletes it, and removes the last admin of a congregation.
\<close>

theorem deleteRole_removes_the_last_admin:
  "has_admin sample_grants 1 \<and> fst (deleteRole 1 1 2 sample_grants) = Inr () \<and>
     \<not> has_admin (snd (deleteRole 1 1 2 sample_grants)) 1"
proof -
  have "has_admin sample_grants 1" unfolding has_admin_iff sample_grants_admin by (simp add: sample_grants_defs)
  moreover have "fst (deleteRole 1 1 2 sample_grants) = Inr () \<and>
      findAccountsWithPermission (snd (deleteRole 1 1 2 sample_grants)) 1 CanDoAnything = []"
    by (simp add: deleteRole_def Let_def grant_eval)
  ultimately show ?thesis unfolding has_admin_def by blast
qed

end
