(* ===== verification/Organigram.thy ===== *)
theory Organigram
  imports Roles Org_Queries
begin

text \<open>
  The write side of the organigram (\<^verbatim>\<open>shared/domain/organigram.server.ts\<close>): roles enter and
  leave the chart, change their parent and their place among siblings. Permissions and
  assignments are never touched.
\<close>

section \<open>Reading the chart\<close>

definition ORDER_STEP :: int where
  "ORDER_STEP = 5"

definition requireRole :: "db \<Rightarrow> int \<Rightarrow> int \<Rightarrow> app_error + role" where
  "requireRole db roleId congregationId =
     (case find (is_role roleId congregationId) (roles db) of
        None \<Rightarrow> Inl (NotFoundError ''Role'' (Some roleId)) | Some r \<Rightarrow> Inr r)"

definition in_chart :: "int \<Rightarrow> role \<Rightarrow> bool" where
  "in_chart congregationId r \<longleftrightarrow> role_congregationId r = congregationId \<and> role_showInOrganigram r"

definition role_link :: "role \<Rightarrow> TreeLink" where
  "role_link r = \<lparr>link_id = role_id r, link_parent = role_parentRoleId r\<rparr>"

definition treeLinks :: "db \<Rightarrow> int \<Rightarrow> TreeLink list" where
  "treeLinks db congregationId = map role_link (filter (in_chart congregationId) (roles db))"

definition order_or_zero :: "role \<Rightarrow> int" where
  "order_or_zero r = (case role_organigramOrder r of Some n \<Rightarrow> n | None \<Rightarrow> 0)"

definition siblings_under :: "db \<Rightarrow> int option \<Rightarrow> int \<Rightarrow> role list" where
  "siblings_under db parentRoleId congregationId =
     filter (\<lambda>r. in_chart congregationId r \<and> role_parentRoleId r = parentRoleId) (roles db)"

definition nextOrderUnder :: "db \<Rightarrow> int option \<Rightarrow> int \<Rightarrow> int" where
  "nextOrderUnder db parentRoleId congregationId =
     foldl (\<lambda>m s. max m (order_or_zero s)) 0 (siblings_under db parentRoleId congregationId) + ORDER_STEP"

definition organigram_audit :: "int \<Rightarrow> int \<Rightarrow> int \<Rightarrow> (string \<times> json) list \<Rightarrow> db \<Rightarrow> db" where
  "organigram_audit congregationId actorId roleId metadata =
     entity_audit ''organigram.changed'' congregationId actorId ''Role'' roleId (Some metadata)"

section \<open>Entering the chart\<close>

definition set_parent_input :: "db \<Rightarrow> role \<Rightarrow> int option \<Rightarrow> int \<Rightarrow> SetParentInput" where
  "set_parent_input db r parentRoleId congregationId =
     (let links = treeLinks db congregationId
      in \<lparr>spi_roleId = role_id r, spi_roleKey = role_key r, spi_parentChainIds = ancestorChainIds links parentRoleId,
          spi_subtreeHeight = subtreeHeight links (role_id r)\<rparr>)"

definition addRoleToOrganigram :: "int \<Rightarrow> int option \<Rightarrow> int \<Rightarrow> int \<Rightarrow> db \<Rightarrow> (db, unit) outcome" where
  "addRoleToOrganigram roleId parentRoleId congregationId actorId db =
     (case requireRole db roleId congregationId of
        Inl e \<Rightarrow> (Inl e, db)
      | Inr r \<Rightarrow>
          guard_by (orelse (assertCanShowInOrganigram (role_key r))
                           (assertCanSetParent (set_parent_input db r parentRoleId congregationId))) db
            (let order = nextOrderUnder db parentRoleId congregationId
             in chain (update_role roleId congregationId
                  (\<lambda>r. r\<lparr>role_showInOrganigram := True, role_parentRoleId := parentRoleId,
                         role_organigramOrder := Some order\<rparr>) db)
                  (\<lambda>_ db. (Inr (), organigram_audit congregationId actorId roleId
                     [(''change'', JStr ''added''), (''parentRoleId'', json_opt parentRoleId)] db))))"

definition createServiceInOrganigram ::
  "env \<Rightarrow> string \<Rightarrow> int option \<Rightarrow> int \<Rightarrow> int \<Rightarrow> bool \<Rightarrow> db \<Rightarrow> (db, int) outcome" where
  "createServiceInOrganigram ev name parentRoleId congregationId actorId isSinglePerson db =
     chain (createRole ev congregationId actorId
              \<lparr>crp_name = name, crp_description = None, crp_permissionKeys = [],
               crp_isSinglePerson = Some isSinglePerson\<rparr> db)
       (\<lambda>(i, _) db. chain (addRoleToOrganigram i parentRoleId congregationId actorId db) (\<lambda>_ db. (Inr i, db)))"

section \<open>Changing and leaving it\<close>

definition setRoleSinglePerson :: "int \<Rightarrow> bool \<Rightarrow> int \<Rightarrow> int \<Rightarrow> db \<Rightarrow> (db, unit) outcome" where
  "setRoleSinglePerson roleId isSinglePerson congregationId actorId db =
     (case find (is_role roleId congregationId) (roles db) of
        None \<Rightarrow> (Inl (NotFoundError ''Role'' (Some roleId)), db)
      | Some r \<Rightarrow>
          if role_isBuiltIn r then (Inl (ForbiddenError ''built_in_shape''), db)
          else if role_isSinglePerson r = isSinglePerson then (Inr (), db)
          else if isSinglePerson \<and>
             length (filter (\<lambda>a. ura_roleId a = roleId \<and> ura_congregationId a = congregationId \<and> ura_kind a = ''leader'')
               (userRoleAssignments db)) > 1
          then (Inl (ConflictError ''several_leaders''), db)
          else chain (update_role roleId congregationId (\<lambda>r. r\<lparr>role_isSinglePerson := isSinglePerson\<rparr>) db)
                 (\<lambda>_ db. (Inr (), organigram_audit congregationId actorId roleId
                    [(''change'', JStr ''single-person''), (''isSinglePerson'', JBool isSinglePerson)] db)))"

definition removeRoleFromOrganigram :: "int \<Rightarrow> int \<Rightarrow> int \<Rightarrow> db \<Rightarrow> (db, unit) outcome" where
  "removeRoleFromOrganigram roleId congregationId actorId db =
     (case requireRole db roleId congregationId of
        Inl e \<Rightarrow> (Inl e, db)
      | Inr r \<Rightarrow>
          guard_by (assertCanLeaveOrganigram (role_key r)) db
            (let db1 = db\<lparr>roles := update_where
                   (\<lambda>x. role_congregationId x = congregationId \<and> role_parentRoleId x = Some roleId)
                   (\<lambda>x. x\<lparr>role_parentRoleId := role_parentRoleId r\<rparr>) (roles db)\<rparr>
             in chain (update_role roleId congregationId
                  (\<lambda>r. r\<lparr>role_showInOrganigram := False, role_parentRoleId := None, role_organigramOrder := None\<rparr>) db1)
                  (\<lambda>_ db. (Inr (), organigram_audit congregationId actorId roleId
                     [(''change'', JStr ''removed''), (''childrenLiftedTo'', json_opt (role_parentRoleId r))] db))))"

definition setOrganigramParent :: "int \<Rightarrow> int option \<Rightarrow> int \<Rightarrow> int \<Rightarrow> db \<Rightarrow> (db, unit) outcome" where
  "setOrganigramParent roleId parentRoleId congregationId actorId db =
     (case requireRole db roleId congregationId of
        Inl e \<Rightarrow> (Inl e, db)
      | Inr r \<Rightarrow>
          if \<not> role_showInOrganigram r then (Inl (ValidationError ''roleId'' ''not_in_organigram''), db)
          else guard_by (assertCanSetParent (set_parent_input db r parentRoleId congregationId)) db
            (let order = nextOrderUnder db parentRoleId congregationId
             in chain (update_role roleId congregationId
                  (\<lambda>r. r\<lparr>role_parentRoleId := parentRoleId, role_organigramOrder := Some order\<rparr>) db)
                  (\<lambda>_ db. (Inr (), organigram_audit congregationId actorId roleId
                     [(''change'', JStr ''moved''), (''parentRoleId'', json_opt parentRoleId)] db))))"

section \<open>Order among siblings\<close>

datatype direction = Up | Down

definition direction_name :: "direction \<Rightarrow> string" where
  "direction_name d = (case d of Up \<Rightarrow> ''up'' | Down \<Rightarrow> ''down'')"

definition findIndex :: "('a \<Rightarrow> bool) \<Rightarrow> 'a list \<Rightarrow> int" where
  "findIndex p xs = (if \<exists>x \<in> set xs. p x then int (length (takeWhile (\<lambda>x. \<not> p x) xs)) else - 1)"

text \<open>\<^verbatim>\<open>splice(index, 1)\<close> followed by \<^verbatim>\<open>splice(target, 0, moved)\<close>.\<close>

definition move_to :: "nat \<Rightarrow> nat \<Rightarrow> 'a list \<Rightarrow> 'a list" where
  "move_to index target xs =
     (let rest = take index xs @ drop (Suc index) xs
      in take target rest @ [xs ! index] @ drop target rest)"

primrec renumber :: "int \<Rightarrow> nat \<Rightarrow> int list \<Rightarrow> db \<Rightarrow> (db, unit) outcome" where
  "renumber congregationId position [] db = (Inr (), db)"
| "renumber congregationId position (i # is) db =
     chain (update_role i congregationId
              (\<lambda>r. r\<lparr>role_organigramOrder := Some ((int position + 1) * ORDER_STEP)\<rparr>) db)
       (\<lambda>_ db. renumber congregationId (Suc position) is db)"

definition ordered_siblings :: "db \<Rightarrow> int option \<Rightarrow> int \<Rightarrow> int list" where
  "ordered_siblings db parentRoleId congregationId =
     map role_id (js_sort (\<lambda>a b. order_or_zero a - order_or_zero b) (siblings_under db parentRoleId congregationId))"

definition moveOrganigramNode :: "int \<Rightarrow> direction \<Rightarrow> int \<Rightarrow> int \<Rightarrow> db \<Rightarrow> (db, unit) outcome" where
  "moveOrganigramNode roleId direction congregationId actorId db =
     (case requireRole db roleId congregationId of
        Inl e \<Rightarrow> (Inl e, db)
      | Inr r \<Rightarrow>
          (let ordered = ordered_siblings db (role_parentRoleId r) congregationId;
               index = findIndex (\<lambda>s. s = roleId) ordered;
               target = (case direction of Up \<Rightarrow> index - 1 | Down \<Rightarrow> index + 1)
           in if index = - 1 \<or> target < 0 \<or> target \<ge> int (length ordered) then (Inr (), db)
              else chain (renumber congregationId 0 (move_to (nat index) (nat target) ordered) db)
                     (\<lambda>_ db. (Inr (), organigram_audit congregationId actorId roleId
                        [(''change'', JStr ''reordered''), (''direction'', JStr (direction_name direction))] db))))"

end
