(* ===== verification/Seats.thy ===== *)
theory Seats
  imports Role_Grants Organigram
begin

text \<open>
  Who sits in the nodes of the organigram (\<^verbatim>\<open>shared/domain/organigram-seats.server.ts\<close>), and the
  service committee, whose members are the holders of its three posts
  (\<^verbatim>\<open>shared/domain/service-committee.server.ts\<close>).
\<close>

section \<open>The service committee\<close>

definition committee_of :: "db \<Rightarrow> int \<Rightarrow> role option" where
  "committee_of db congregationId =
     find (\<lambda>r. role_congregationId r = congregationId \<and> role_key r = SERVICE_COMMITTEE_KEY) (roles db)"

definition post_ids :: "db \<Rightarrow> int \<Rightarrow> int list" where
  "post_ids db congregationId =
     List.map_filter (\<lambda>key. map_option role_id
       (find (\<lambda>r. role_congregationId r = congregationId \<and> role_key r = key) (roles db))) SERVICE_COMMITTEE_POST_KEYS"

definition titulaires :: "db \<Rightarrow> int \<Rightarrow> int list" where
  "titulaires db congregationId =
     js_set (map ura_userId (filter (\<lambda>a. ura_roleId a \<in> set (post_ids db congregationId) \<and> ura_congregationId a = congregationId \<and>
       ura_kind a = ''leader'') (userRoleAssignments db)))"

definition holders_in :: "db \<Rightarrow> int \<Rightarrow> int \<Rightarrow> int list" where
  "holders_in db roleId congregationId =
     js_set (map ura_userId (filter (\<lambda>a. ura_roleId a = roleId \<and> ura_congregationId a = congregationId) (userRoleAssignments db)))"

text \<open>\<^verbatim>\<open>createMany\<close> with \<^verbatim>\<open>skipDuplicates\<close>.\<close>

definition create_missing :: "user_role_assignment list \<Rightarrow> user_role_assignment list \<Rightarrow> user_role_assignment list" where
  "create_missing rows old = old @ filter (\<lambda>a. \<not> list_ex (holds (ura_userId a) (ura_roleId a)) old) rows"

definition syncServiceCommitteeMembers :: "int \<Rightarrow> int \<Rightarrow> db \<Rightarrow> db" where
  "syncServiceCommitteeMembers congregationId actorId db =
     (case committee_of db congregationId of
        None \<Rightarrow> db
      | Some committee \<Rightarrow>
          if length (post_ids db congregationId) = 0 then db
          else
            (let desired = titulaires db congregationId;
                 existing = holders_in db (role_id committee) congregationId;
                 added = filter (\<lambda>u. u \<notin> set existing) desired;
                 removed = filter (\<lambda>u. u \<notin> set desired) existing
             in if added = [] \<and> removed = [] then db
                else
                  (let with_added = create_missing (map (\<lambda>u. grant u (role_id committee) ''member'' congregationId) added)
                         (userRoleAssignments db);
                       rows = delete_where (\<lambda>a. ura_roleId a = role_id committee \<and> ura_congregationId a = congregationId \<and>
                         ura_userId a \<in> set removed) with_added
                   in entity_audit ''user.role_assignment.changed'' congregationId actorId ''Role'' (role_id committee)
                        (Some [(''change'', JStr ''service-committee-synced''), (''added'', JArr (map JNum added)),
                               (''removed'', JArr (map JNum removed))])
                        (db\<lparr>userRoleAssignments := rows\<rparr>))))"

section \<open>Seating\<close>

definition requireSeatableAccount :: "db \<Rightarrow> int \<Rightarrow> int \<Rightarrow> app_error + int" where
  "requireSeatableAccount db memberId congregationId =
     (case find (\<lambda>m. mem_id m = memberId \<and> mem_congregationId m = congregationId) (members db) of
        None \<Rightarrow> Inl (NotFoundError ''Member'' (Some memberId))
      | Some m \<Rightarrow>
          (case find (\<lambda>u. acc_memberId u = Some memberId) (userAccounts db) of
             None \<Rightarrow> Inl (ValidationError ''memberId'' ''member_has_no_account'')
           | Some u \<Rightarrow> Inr (acc_id u)))"

definition rolesGrantedBySeat :: "db \<Rightarrow> role \<Rightarrow> string \<Rightarrow> int \<Rightarrow> int list" where
  "rolesGrantedBySeat db r seatKind congregationId =
     (if \<not> isServiceCommitteePostKey (role_key r) \<or> seatKind \<noteq> ''leader'' then [role_id r]
      else (case committee_of db congregationId of None \<Rightarrow> [role_id r] | Some committee \<Rightarrow> [role_id r, role_id committee]))"

definition outgoing_leader :: "int \<Rightarrow> int \<Rightarrow> int \<Rightarrow> user_role_assignment \<Rightarrow> bool" where
  "outgoing_leader roleId congregationId userId a \<longleftrightarrow>
     ura_roleId a = roleId \<and> ura_congregationId a = congregationId \<and> ura_kind a = ''leader'' \<and> ura_userId a \<noteq> userId"

text \<open>What the handover asks of each outgoing holder, in turn.\<close>

fun assert_handover :: "db \<Rightarrow> int \<Rightarrow> string set \<Rightarrow> bool \<Rightarrow> int list \<Rightarrow> app_error option" where
  "assert_handover db congregationId actorPermissions grantsAdmin [] = None"
| "assert_handover db congregationId actorPermissions grantsAdmin (holder # rest) =
     orelse (assertMayChangeAccountAccess db holder congregationId actorPermissions)
       (orelse (if grantsAdmin then requireNotLastAdmin db holder congregationId else None)
          (assert_handover db congregationId actorPermissions grantsAdmin rest))"

definition is_elder :: "db \<Rightarrow> int \<Rightarrow> int \<Rightarrow> bool" where
  "is_elder db memberId congregationId \<longleftrightarrow>
     list_ex (\<lambda>a. mra_memberId a = memberId \<and> mra_congregationId a = congregationId \<and>
       list_ex (\<lambda>r. role_id r = mra_roleId a \<and> role_key r = ''elder'') (roles db)) (memberRoleAssignments db)"

definition seat_audit :: "int \<Rightarrow> int \<Rightarrow> int \<Rightarrow> string list \<Rightarrow> string \<Rightarrow> db \<Rightarrow> db" where
  "seat_audit congregationId actorId userId added seatKind =
     entity_audit ''user.role_assignment.changed'' congregationId actorId ''User'' userId
       (Some [(''added'', json_strings added), (''removed'', json_strings []), (''kind'', JStr seatKind)])"

definition seat_of :: "db \<Rightarrow> int \<Rightarrow> int \<Rightarrow> int \<Rightarrow> user_role_assignment option" where
  "seat_of db userId roleId congregationId =
     find (\<lambda>a. holds userId roleId a \<and> ura_congregationId a = congregationId) (userRoleAssignments db)"

text \<open>The row of the seat: changed, created or left as it is.\<close>

definition write_seat :: "int \<Rightarrow> int \<Rightarrow> int \<Rightarrow> string \<Rightarrow> db \<Rightarrow> (db, unit) outcome" where
  "write_seat userId roleId congregationId seatKind db =
     (case seat_of db userId roleId congregationId of
        Some existing \<Rightarrow>
          (if ura_kind existing = seatKind then (Inr (), db)
           else (Inr (), db\<lparr>userRoleAssignments :=
             update_where (holds userId roleId) (\<lambda>a. a\<lparr>ura_kind := seatKind\<rparr>) (userRoleAssignments db)\<rparr>))
      | None \<Rightarrow> insert_grants [grant userId roleId seatKind congregationId] db)"

definition seatMember ::
  "int \<Rightarrow> int \<Rightarrow> string \<Rightarrow> int \<Rightarrow> int \<Rightarrow> string set \<Rightarrow> db \<Rightarrow> (db, unit) outcome" where
  "seatMember roleId memberId kind congregationId actorId actorPermissions db =
     (case requireRole db roleId congregationId of
        Inl e \<Rightarrow> (Inl e, db)
      | Inr r \<Rightarrow>
          if isIdentityRoleKey (role_key r) then (Inl (ForbiddenError ''roster_is_synced''), db)
          else
            (case requireSeatableAccount db memberId congregationId of
               Inl e \<Rightarrow> (Inl e, db)
             | Inr userId \<Rightarrow>
                 (let isPost = isServiceCommitteePostKey (role_key r);
                      isSingle = role_isSinglePerson r \<or> isPost;
                      seatKind = (if isSingle \<and> kind \<noteq> ''deputy'' then ''leader'' else kind);
                      outgoing = map ura_userId (filter (outgoing_leader roleId congregationId userId) (userRoleAssignments db));
                      existing = seat_of db userId roleId congregationId;
                      unchanged = (map_option ura_kind existing = Some seatKind)
                  in guard_by
                       (orelse (assertMayChangeAccountAccess db userId congregationId actorPermissions)
                       (orelse (assertActorHoldsRolePermissions db (rolesGrantedBySeat db r seatKind congregationId) congregationId actorPermissions)
                       (orelse (if isSingle \<and> seatKind = ''leader''
                                then assert_handover db congregationId actorPermissions
                                       (length outgoing > 0 \<and> roleGrantsAdmin db roleId congregationId) outgoing
                                else None)
                               (if isPost \<and> seatKind = ''leader'' \<and> \<not> is_elder db memberId congregationId
                                then Some (ValidationError ''memberId'' ''post_requires_elder'') else None)))) db
                     (chain (write_seat userId roleId congregationId seatKind db) (\<lambda>_ seated.
                       (let handed = (if isSingle \<and> seatKind = ''leader''
                              then seated\<lparr>userRoleAssignments :=
                                delete_where (outgoing_leader roleId congregationId userId) (userRoleAssignments seated)\<rparr>
                              else seated);
                            synced = (if isPost then syncServiceCommitteeMembers congregationId actorId handed else handed)
                        in (Inr (), if unchanged then synced
                             else seat_audit congregationId actorId userId (if existing = None then [role_key r] else []) seatKind synced)))))))"

definition unseatMember :: "int \<Rightarrow> int \<Rightarrow> int \<Rightarrow> int \<Rightarrow> string set \<Rightarrow> db \<Rightarrow> (db, unit) outcome" where
  "unseatMember roleId memberId congregationId actorId actorPermissions db =
     (case requireRole db roleId congregationId of
        Inl e \<Rightarrow> (Inl e, db)
      | Inr r \<Rightarrow>
          (case requireSeatableAccount db memberId congregationId of
             Inl e \<Rightarrow> (Inl e, db)
           | Inr userId \<Rightarrow>
               guard_by
                 (orelse (assertMayChangeAccountAccess db userId congregationId actorPermissions)
                 (orelse (assertActorHoldsRolePermissions db (rolesGrantedBySeat db r ''leader'' congregationId) congregationId actorPermissions)
                         (if roleGrantsAdmin db roleId congregationId then requireNotLastAdmin db userId congregationId else None))) db
                 (let vacated = db\<lparr>userRoleAssignments :=
                        delete_where (\<lambda>a. holds userId roleId a \<and> ura_congregationId a = congregationId) (userRoleAssignments db)\<rparr>;
                      synced = (if isServiceCommitteePostKey (role_key r) then syncServiceCommitteeMembers congregationId actorId vacated
                                else vacated)
                  in (Inr (), assignment_audit congregationId actorId userId [] [role_key r] synced))))"

end
