(* ===== verification/Org_Layout.thy ===== *)
theory Org_Layout
  imports Org_Tree "HOL-Library.Multiset"
begin

text \<open>
  The organigram as the printed sheet lays it out (\<^verbatim>\<open>shared/domain/organigram-layout.ts\<close>): the
  blocks in reading order, the lines of a service with its adjoints and teams, the grouping the
  renderers share, and the flat list of the "move under" select.

  Names are Latin-1 strings. The typographic apostrophe is not, so the three phrases of the
  eyebrow are the constructors of a datatype.
\<close>

section \<open>Blocks\<close>

definition COMMITTEE_KEY :: string where
  "COMMITTEE_KEY = ''service-committee''"

definition POST_KEYS :: "string list" where
  "POST_KEYS = [''coordinator'', ''secretary'', ''service-overseer'']"

record BandBlock =
  bb_id :: int
  bb_node :: "OrganigramNode option"
  bb_under :: "string option"
  bb_rows :: "OrganigramNode list"

datatype LayoutBlock =
    RosterBlock int string OrganigramNode
  | CommitteeBlock int OrganigramNode "OrganigramNode list"
  | Band BandBlock
  | RowBlock int OrganigramNode

definition is_leaf :: "OrganigramNode \<Rightarrow> bool" where
  "is_leaf n \<longleftrightarrow> length (on_children n) = 0"

definition hasChildUnits :: "OrganigramNode \<Rightarrow> bool" where
  "hasChildUnits n \<longleftrightarrow> (\<exists>child \<in> set (on_children n). length (on_children child) > 0)"

definition band :: "int \<Rightarrow> OrganigramNode option \<Rightarrow> string option \<Rightarrow> OrganigramNode list \<Rightarrow> LayoutBlock" where
  "band i n header rows = Band \<lparr>bb_id = i, bb_node = n, bb_under = header, bb_rows = rows\<rparr>"

text \<open>The order in which the code pushes the blocks is the order of the lists.\<close>

lemma size_child: "c \<in> set (on_children n) \<Longrightarrow> size c < size n"
  by (cases n) (auto dest: size_list_estimation' [OF _ order_refl, where f = size])

function walkContainer :: "OrganigramNode \<Rightarrow> string option \<Rightarrow> LayoutBlock list" where
  "walkContainer n header =
     (if \<not> hasChildUnits n then [band (on_id n) (Some n) header (on_children n)]
      else band (on_id n) (Some n) header (filter is_leaf (on_children n)) #
        concat (map (\<lambda>child. walkContainer child (Some (on_name n)))
          (filter (\<lambda>child. length (on_children child) > 0) (on_children n))))"
  by auto
termination by (relation "measure (\<lambda>(n, header). size n)") (auto simp: size_child)

declare walkContainer.simps [simp del]

definition emitBranch :: "OrganigramNode list \<Rightarrow> string option \<Rightarrow> LayoutBlock list" where
  "emitBranch nodes header =
     (let leaves = filter is_leaf nodes
      in (if length leaves > 0 then
            (case header of
               None \<Rightarrow> map (\<lambda>leaf. RowBlock (on_id leaf) leaf) leaves
             | Some _ \<Rightarrow> [band (on_id (hd leaves)) None header leaves])
          else []) @
         concat (map (\<lambda>child. walkContainer child header) (filter (\<lambda>child. length (on_children child) > 0) nodes)))"

definition COLLEGE_OF_ELDERS :: string where
  "COLLEGE_OF_ELDERS = ''Coll'' @ [CHR 0xE8] @ ''ge des anciens''"

definition branch_header :: "OrganigramNode \<Rightarrow> string" where
  "branch_header roster = (if on_key roster = ''elder'' then COLLEGE_OF_ELDERS else on_name roster)"

definition posts_of :: "OrganigramNode \<Rightarrow> OrganigramNode list" where
  "posts_of committee = concat (map (\<lambda>key. filter (\<lambda>child. on_key child = key) (on_children committee)) POST_KEYS)"

definition committee_part :: "OrganigramNode \<Rightarrow> LayoutBlock list" where
  "committee_part committee =
     CommitteeBlock (on_id committee) committee (posts_of committee) #
     concat (map (\<lambda>post. emitBranch (on_children post) (Some (on_name post))) (posts_of committee)) @
     emitBranch (filter (\<lambda>child. on_key child \<notin> set POST_KEYS) (on_children committee)) (Some (on_name committee))"

definition toLayout :: "OrganigramNode list \<Rightarrow> LayoutBlock list" where
  "toLayout tree =
     (let rosters = filter on_isRoster tree;
          others = filter (\<lambda>n. \<not> on_isRoster n) tree
      in map (\<lambda>roster. RosterBlock (on_id roster) (on_name roster) roster) rosters @
         (case find (\<lambda>child. on_key child = COMMITTEE_KEY) (concat (map on_children rosters)) of
            None \<Rightarrow> [] | Some committee \<Rightarrow> committee_part committee) @
         concat (map (\<lambda>roster. emitBranch (filter (\<lambda>child. on_key child \<noteq> COMMITTEE_KEY) (on_children roster))
                                 (Some (branch_header roster))) rosters) @
         emitBranch others None)"

section \<open>The lines of a service\<close>

text \<open>Lower case on Latin-1 letters.\<close>

definition lower_char :: "char \<Rightarrow> char" where
  "lower_char c =
     (let n = code c
      in if (65 \<le> n \<and> n \<le> 90) \<or> (192 \<le> n \<and> n \<le> 222 \<and> n \<noteq> 215) then char_of (n + 32) else c)"

definition toLocaleLowerCase :: "string \<Rightarrow> string" where
  "toLocaleLowerCase = map lower_char"

definition startsWith :: "string \<Rightarrow> string \<Rightarrow> bool" where
  "startsWith s p \<longleftrightarrow> take (length p) s = p"

definition LEADER_TITLE_PREFIXES :: "string list" where
  "LEADER_TITLE_PREFIXES = [''responsable'', ''pr'' @ [CHR 0xE9] @ ''pos'' @ [CHR 0xE9]]"

definition seatLabel :: "string \<Rightarrow> bool \<Rightarrow> string \<Rightarrow> bool \<Rightarrow> string option" where
  "seatLabel kind isElder node_name isSinglePerson =
     (let name = toLocaleLowerCase node_name
      in if kind = ''deputy'' then (if startsWith name ''adjoint'' then None else Some ''Adjoint'')
         else if kind \<noteq> ''leader'' \<or> isSinglePerson then None
         else if \<exists>p \<in> set LEADER_TITLE_PREFIXES. startsWith name p then None
         else Some (if isElder then ''Responsable'' else ''Pr'' @ [CHR 0xE9] @ ''pos'' @ [CHR 0xE9]))"

definition teamRows :: "OrganigramNode list \<Rightarrow> OrganigramNode list" where
  "teamRows rows = filter (\<lambda>row. \<not> on_isSinglePerson row) rows"

definition seats :: "string \<Rightarrow> OrganigramNode \<Rightarrow> OrganigramHolder list" where
  "seats kind n = filter (\<lambda>h. oh_kind h = kind) (on_holders n)"

text \<open>\<^verbatim>\<open>filter(a => !seen.has(a.memberId) && seen.add(a.memberId))\<close>\<close>

fun unseen :: "int set \<Rightarrow> OrganigramHolder list \<Rightarrow> OrganigramHolder list" where
  "unseen seen [] = []"
| "unseen seen (h # hs) =
     (if oh_memberId h \<in> seen then unseen seen hs else h # unseen (insert (oh_memberId h) seen) hs)"

definition bandAdjoints :: "OrganigramNode \<Rightarrow> OrganigramNode list \<Rightarrow> OrganigramHolder list" where
  "bandAdjoints n rows =
     unseen (oh_memberId ` set (seats ''leader'' n)) (seats ''deputy'' n @ concat (map (seats ''leader'') rows))"

definition serviceParts :: "OrganigramNode \<Rightarrow> OrganigramNode list option \<Rightarrow> OrganigramHolder list \<times> OrganigramNode list" where
  "serviceParts n rows =
     (case rows of
        None \<Rightarrow> (filter (\<lambda>h. oh_kind h = ''leader'' \<or> oh_kind h = ''deputy'') (on_holders n), [])
      | Some rs \<Rightarrow>
          (seats ''leader'' n @ map (\<lambda>h. h\<lparr>oh_kind := ''deputy''\<rparr>) (bandAdjoints n rs), teamRows rs))"

definition bandEntries :: "BandBlock list \<Rightarrow> (OrganigramNode \<times> OrganigramNode list option) list" where
  "bandEntries bands =
     concat (map (\<lambda>b. case bb_node b of
        Some n \<Rightarrow> [(n, Some (bb_rows b))] | None \<Rightarrow> map (\<lambda>row. (row, None)) (bb_rows b)) bands)"

section \<open>Grouping for the renderers\<close>

record GroupedLayout =
  gl_rosters :: "LayoutBlock list"
  gl_committee :: "LayoutBlock option"
  gl_sections :: "(string \<times> BandBlock list) list"
  gl_legacy :: "LayoutBlock list"

definition add_band :: "string \<Rightarrow> BandBlock \<Rightarrow> (string \<times> BandBlock list) list \<Rightarrow> (string \<times> BandBlock list) list" where
  "add_band header b sections =
     (if sections \<noteq> [] \<and> fst (last sections) = header
      then butlast sections @ [(header, snd (last sections) @ [b])]
      else sections @ [(header, [b])])"

definition group_block :: "GroupedLayout \<Rightarrow> LayoutBlock \<Rightarrow> GroupedLayout" where
  "group_block g block =
     (case block of
        RosterBlock _ _ _ \<Rightarrow> g\<lparr>gl_rosters := gl_rosters g @ [block]\<rparr>
      | CommitteeBlock _ _ _ \<Rightarrow> g\<lparr>gl_committee := Some block\<rparr>
      | Band b \<Rightarrow>
          (case bb_under b of
             Some header \<Rightarrow> g\<lparr>gl_sections := add_band header b (gl_sections g)\<rparr>
           | None \<Rightarrow> g\<lparr>gl_legacy := gl_legacy g @ [block]\<rparr>)
      | RowBlock _ _ \<Rightarrow> g\<lparr>gl_legacy := gl_legacy g @ [block]\<rparr>)"

definition groupLayout :: "LayoutBlock list \<Rightarrow> GroupedLayout" where
  "groupLayout blocks =
     foldl group_block \<lparr>gl_rosters = [], gl_committee = None, gl_sections = [], gl_legacy = []\<rparr> blocks"

section \<open>The eyebrow and the flat list\<close>

datatype Eyebrow = EyebrowDes | EyebrowDeL | EyebrowDu

definition is_vowel :: "char \<Rightarrow> bool" where
  "is_vowel c \<longleftrightarrow> c \<in> set ''aeiouyh'' \<or>
     code c \<in> {0xE0, 0xE2, 0xE4, 0xE9, 0xE8, 0xEA, 0xEB, 0xEE, 0xEF, 0xF4, 0xF6, 0xF9, 0xFB, 0xFC}"

definition responsibilityEyebrow :: "string \<Rightarrow> Eyebrow" where
  "responsibilityEyebrow name =
     (let first = toLocaleLowerCase (takeWhile (\<lambda>c. \<not> is_space c) (trim name))
      in if first \<noteq> [] \<and> last first = CHR ''s'' then EyebrowDes
         else if first \<noteq> [] \<and> is_vowel (hd first) then EyebrowDeL
         else EyebrowDu)"

record FlatEntry =
  fe_id :: int
  fe_label :: string
  fe_node :: OrganigramNode
  fe_parentId :: "int option"
  fe_parentName :: "string option"

definition flat_entry :: "nat \<Rightarrow> OrganigramNode option \<Rightarrow> OrganigramNode \<Rightarrow> FlatEntry" where
  "flat_entry depth parent n =
     \<lparr>fe_id = on_id n, fe_label = replicate (2 * depth) (CHR 0xA0) @ on_name n, fe_node = n,
      fe_parentId = map_option on_id parent, fe_parentName = map_option on_name parent\<rparr>"

function flatten_node :: "nat \<Rightarrow> OrganigramNode option \<Rightarrow> OrganigramNode \<Rightarrow> FlatEntry list" where
  "flatten_node depth parent n =
     flat_entry depth parent n # concat (map (flatten_node (Suc depth) (Some n)) (on_children n))"
  by auto
termination by (relation "measure (\<lambda>(depth, parent, n). size n)") (auto simp: size_child)

declare flatten_node.simps [simp del]

definition flattenTree :: "OrganigramNode list \<Rightarrow> FlatEntry list" where
  "flattenTree tree = concat (map (flatten_node 0 None) tree)"

end
