(* ===== verification/Classes.thy ===== *)
theory Classes
  imports Prelude "HOL-Library.Multiset"
begin

text \<open>
  Lists split into classes by a key, as the code does with maps that keep the order of insertion,
  and the elements a stable sort holds.
\<close>

lemma js_set_snoc: "js_set (xs @ [x]) = (if x \<in> set xs then js_set xs else js_set xs @ [x])"
  by (simp add: js_set_def)

lemma classes_cover:
  assumes "distinct ks"
  shows "mset (concat (map (\<lambda>k. filter (\<lambda>n. f n = k) xs) ks)) = mset (filter (\<lambda>n. f n \<in> set ks) xs)"
  using assms
proof (induction ks)
  case (Cons k ks)
  have "mset (filter (\<lambda>n. f n = k \<or> f n \<in> set ks) xs) = mset (filter (\<lambda>n. f n = k) xs) + mset (filter (\<lambda>n. f n \<in> set ks) xs)"
    using Cons.prems by (induction xs) auto
  with Cons show ?case by simp
qed simp

lemma all_classes: "mset (concat (map (\<lambda>k. filter (\<lambda>x. f x = k) xs) (js_set (map f xs)))) = mset xs"
  using classes_cover [of "js_set (map f xs)" f xs] by simp

lemma mset_insert_by: "mset (insert_by cmp x ys) = add_mset x (mset ys)"
  by (induction ys) auto

lemma mset_js_sort: "mset (js_sort cmp xs) = mset xs"
  by (induction xs) (simp_all add: mset_insert_by)

lemma mset_concat_sum: "mset (concat (map f xs)) = sum_mset (image_mset (mset \<circ> f) (mset xs))"
  by (induction xs) simp_all

lemma mset_concat_cong: "(\<And>x. mset (f x) = mset (g x)) \<Longrightarrow> mset (concat (map f xs)) = mset (concat (map g xs))"
  by (induction xs) simp_all

lemma mset_concat_perm: "mset xs = mset ys \<Longrightarrow> mset (concat (map f xs)) = mset (concat (map f ys))"
  using mset_concat_sum [of f xs] mset_concat_sum [of f ys] by simp

section \<open>Sorting by a number\<close>

lemma insert_by_insort: "insert_by (\<lambda>a b. f a - f b) x ys = insort_key f x ys" for f :: "'a \<Rightarrow> int"
  by (induction ys) auto

lemma js_sort_key: "js_sort (\<lambda>a b. f a - f b) xs = sort_key f xs" for f :: "'a \<Rightarrow> int"
  by (induction xs) (simp_all add: insert_by_insort)

lemma js_sort_descending: "js_sort (\<lambda>a b. f b - f a) xs = sort_key (\<lambda>x. - f x) xs" for f :: "'a \<Rightarrow> int"
  using js_sort_key [of "\<lambda>x. - f x" xs] by simp

text \<open>The first elements of a merge are among the first of each side.\<close>

lemma take_insort: "take n (insort_key f x zs) = take n (insort_key f x (take n zs))"
proof (induction zs arbitrary: n)
  case (Cons z zs)
  then show ?case by (cases n) (auto simp: take_Cons' split: nat.split)
qed simp

lemma take_inserts: "take n (foldr (insort_key f) xs zs) = take n (foldr (insort_key f) xs (take n zs))"
proof (induction xs)
  case (Cons x xs)
  have "take n (insort_key f x (foldr (insort_key f) xs zs)) = take n (insort_key f x (take n (foldr (insort_key f) xs zs)))"
    by (rule take_insort)
  also have "\<dots> = take n (insort_key f x (take n (foldr (insort_key f) xs (take n zs))))" by (simp only: Cons)
  also have "\<dots> = take n (insort_key f x (foldr (insort_key f) xs (take n zs)))" by (rule take_insort [symmetric])
  finally show ?case by simp
qed simp

lemma insort_splits:
  assumes "sorted (map f zs)"
  shows "\<exists>l r. zs = l @ r \<and> insort_key f d zs = l @ d # r \<and> (\<forall>x\<in>set r. f d \<le> f x)"
  using assms
proof (induction zs)
  case (Cons z zs)
  show ?case
  proof (cases "f d \<le> f z")
    case True
    then show ?thesis using Cons.prems by (intro exI [of _ "[]"] exI [of _ "z # zs"]) auto
  next
    case False
    obtain l r where "zs = l @ r" "insort_key f d zs = l @ d # r" "\<forall>x\<in>set r. f d \<le> f x" using Cons by auto
    then show ?thesis using False by (intro exI [of _ "z # l"] exI [of _ r]) simp
  qed
qed simp

lemma insert_before:
  assumes "f a \<le> f d" and "\<forall>x\<in>set r. f d \<le> f x"
  shows "\<exists>l'. insort_key f a (l @ d # r) = l' @ d # r \<and> insort_key f a (l @ r) = l' @ r \<and> length l' = Suc (length l)"
proof (induction l)
  case Nil
  have "insort_key f a r = a # r" using assms by (cases r) auto
  then show ?case using assms by (intro exI [of _ "[a]"]) simp
next
  case (Cons x l)
  then obtain l' where l': "insort_key f a (l @ d # r) = l' @ d # r" "insort_key f a (l @ r) = l' @ r" "length l' = Suc (length l)"
    by blast
  show ?case
  proof (cases "f a \<le> f x")
    case True
    then show ?thesis by (intro exI [of _ "a # x # l"]) simp
  next
    case False
    then show ?thesis using l' by (intro exI [of _ "x # l'"]) simp
  qed
qed

lemma dominated_insert:
  assumes "sorted (map f zs)" and "\<forall>a\<in>set xs. f a \<le> f d" and "n \<le> length xs"
  shows "take n (foldr (insort_key f) xs (insort_key f d zs)) = take n (foldr (insort_key f) xs zs)"
proof -
  have "\<exists>l r. foldr (insort_key f) xs (insort_key f d zs) = l @ d # r \<and> foldr (insort_key f) xs zs = l @ r \<and>
      length xs \<le> length l \<and> (\<forall>x\<in>set r. f d \<le> f x)"
    using assms(2)
  proof (induction xs)
    case Nil
    then show ?case using insort_splits [OF assms(1), of d] by fastforce
  next
    case (Cons a xs)
    then obtain l r where lr: "foldr (insort_key f) xs (insort_key f d zs) = l @ d # r" "foldr (insort_key f) xs zs = l @ r"
        "length xs \<le> length l" "\<forall>x\<in>set r. f d \<le> f x" by auto
    obtain l' where "insort_key f a (l @ d # r) = l' @ d # r" "insort_key f a (l @ r) = l' @ r" "length l' = Suc (length l)"
      using insert_before [of f a d r l] Cons.prems lr(4) by auto
    then show ?case using lr by (intro exI [of _ l'] exI [of _ r]) simp
  qed
  then show ?thesis using assms(3) by auto
qed

lemma sorted_inserts: "sorted (map f zs) \<Longrightarrow> sorted (map f (foldr (insort_key f) xs zs))"
  by (induction xs) (simp_all add: sorted_insort_key)

lemma dominated_inserts:
  assumes "sorted (map f zs)" and "\<forall>a\<in>set xs. \<forall>d\<in>set ds. f a \<le> f d" and "n \<le> length xs"
  shows "take n (foldr (insort_key f) xs (foldr (insort_key f) ds zs)) = take n (foldr (insort_key f) xs zs)"
  using assms(2)
proof (induction ds)
  case (Cons d ds)
  then show ?case using dominated_insert [OF sorted_inserts [OF assms(1)], of xs d n ds] assms(3) by simp
qed simp

lemma foldr_insort: "foldr (insort_key f) xs (sort_key f ys) = sort_key f (xs @ ys)"
  by (induction xs) simp_all

lemma take_of_merge:
  assumes "sorted (map f xs)"
  shows "take n (sort_key f (take n xs @ ys)) = take n (sort_key f (xs @ ys))"
proof (cases "n \<le> length xs")
  case True
  have "take n (sort_key f ((take n xs @ drop n xs) @ ys)) =
      take n (foldr (insort_key f) (take n xs) (foldr (insort_key f) (drop n xs) (sort_key f ys)))"
    by (simp only: foldr_insort append_assoc)
  also have "\<dots> = take n (foldr (insort_key f) (take n xs) (sort_key f ys))"
  proof (rule dominated_inserts)
    have "sorted (map f (take n xs @ drop n xs))" using assms by simp
    then show "\<forall>a\<in>set (take n xs). \<forall>d\<in>set (drop n xs). f a \<le> f d" unfolding map_append sorted_append by simp
  qed (use True in simp_all)
  also have "\<dots> = take n (sort_key f (take n xs @ ys))" by (simp only: foldr_insort)
  finally show ?thesis by (simp only: append_take_drop_id)
qed simp

lemma sort_key_sorted_part: "sort_key f (sort_key f xs @ ys) = sort_key f (xs @ ys)"
proof (rule properties_for_sort_key)
  show "mset (sort_key f (xs @ ys)) = mset (sort_key f xs @ ys)" by simp
  have "(\<lambda>x. f k = f x) = (\<lambda>x. f x = f k)" for k by auto
  then show "filter (\<lambda>x. f k = f x) (sort_key f (xs @ ys)) = filter (\<lambda>x. f k = f x) (sort_key f xs @ ys)" for k
    by (simp add: sort_key_stable)
qed simp

text \<open>Taking the first of each list before merging them changes nothing to the first of the merge.\<close>

lemma take_merge:
  "take n (sort_key f (take n (sort_key f xs) @ take n (sort_key f ys))) = take n (sort_key f (xs @ ys))"
proof -
  have "sorted (map f (take n (sort_key f ys)))" by (simp add: sorted_wrt_take flip: take_map)
  then have "sort_key f (take n (sort_key f ys)) = take n (sort_key f ys)" by (rule sort_key_id_if_sorted)
  then have "take n (sort_key f (take n (sort_key f xs) @ take n (sort_key f ys))) =
      take n (foldr (insort_key f) (take n (sort_key f xs)) (take n (sort_key f ys)))"
    by (simp only: foldr_insort [symmetric])
  also have "\<dots> = take n (sort_key f (take n (sort_key f xs) @ ys))"
    by (simp only: take_inserts [symmetric] foldr_insort)
  also have "\<dots> = take n (sort_key f (sort_key f xs @ ys))" by (rule take_of_merge) simp
  finally show ?thesis by (simp only: sort_key_sorted_part)
qed

end
