(* ===== verification/Organigram_Chart.thy ===== *)
theory Organigram_Chart
  imports Organigram
begin

text \<open>
  The organigram stays a chart: no role reports to itself through others, no branch is deeper
  than ten levels, and a role outside the chart reports to nobody, whatever sequence of
  operations runs, refused ones included.
\<close>

section \<open>Relations without long paths\<close>

lemma relpow_prefix: "(x, y) \<in> E ^^ (m + n) \<Longrightarrow> \<exists>z. (x, z) \<in> (E :: ('a \<times> 'a) set) ^^ m"
  by (auto simp: relpow_add)

lemma no_long_path_acyclic:
  assumes "E ^^ n = ({} :: ('a \<times> 'a) set)"
  shows "acyclic E"
proof (rule acyclicI, intro allI notI)
  fix x assume cycle: "(x, x) \<in> E\<^sup>+"
  have "\<exists>y. (x, y) \<in> E ^^ k \<and> (y, x) \<in> E\<^sup>*" for k
  proof (induction k)
    case 0
    show ?case by simp
  next
    case (Suc k)
    then obtain y where y: "(x, y) \<in> E ^^ k" "(y, x) \<in> E\<^sup>*" by blast
    have "(y, x) \<in> E\<^sup>+" using rtrancl_trancl_trancl [OF y(2) cycle] .
    then obtain z where "(y, z) \<in> E" "(z, x) \<in> E\<^sup>*" by (blast dest: tranclD)
    then show ?case using y(1) by (auto intro: relpow_Suc_I)
  qed
  then show False using assms by blast
qed

lemma relpow_subset: "E' \<subseteq> E \<Longrightarrow> E' ^^ n \<subseteq> (E :: ('a \<times> 'a) set) ^^ n"
  by (induction n) (auto simp: relcomp_mono)

text \<open>A new edge above a node that the chain above its target does not meet.\<close>

lemma relpow_insert_edge:
  assumes "E' \<subseteq> insert (r, p) E" and "(p, r) \<notin> E\<^sup>*" and "(x, y) \<in> E' ^^ n"
  shows "(x, y) \<in> E ^^ n \<or> (\<exists>i j. (x, r) \<in> E ^^ i \<and> (p, y) \<in> E ^^ j \<and> n = i + 1 + j)"
  using assms(3)
proof (induction n arbitrary: y)
  case 0
  then show ?case by simp
next
  case (Suc n)
  then obtain z where z: "(x, z) \<in> E' ^^ n" "(z, y) \<in> E'" by (auto elim: relpow_Suc_E)
  from Suc.IH [OF z(1)] show ?case
  proof
    assume *: "(x, z) \<in> E ^^ n"
    show ?thesis
    proof (cases "(z, y) = (r, p)")
      case True
      then show ?thesis using * by (intro disjI2 exI [of _ n] exI [of _ 0]) simp
    next
      case False
      then have "(z, y) \<in> E" using z(2) assms(1) by blast
      then show ?thesis using * by (blast intro: relpow_Suc_I)
    qed
  next
    assume "\<exists>i j. (x, r) \<in> E ^^ i \<and> (p, z) \<in> E ^^ j \<and> n = i + 1 + j"
    then obtain i j where ij: "(x, r) \<in> E ^^ i" "(p, z) \<in> E ^^ j" "n = i + 1 + j" by blast
    have "z \<noteq> r" using ij(2) assms(2) relpow_imp_rtrancl by metis
    then have "(z, y) \<in> E" using z(2) assms(1) by blast
    then have "(p, y) \<in> E ^^ Suc j" using ij(2) by (rule relpow_Suc_I [rotated])
    then show ?thesis using ij(1,3) by (intro disjI2 exI [of _ i] exI [of _ "Suc j"]) simp
  qed
qed

text \<open>Closing gaps only shortens paths.\<close>

lemma relpow_shortcut:
  assumes "E' \<subseteq> E \<union> E O E" and "(x, y) \<in> E' ^^ n"
  shows "\<exists>m \<ge> n. (x, y) \<in> E ^^ m"
  using assms(2)
proof (induction n arbitrary: y)
  case 0
  then show ?case by (intro exI [of _ 0]) simp
next
  case (Suc n)
  then obtain z where z: "(x, z) \<in> E' ^^ n" "(z, y) \<in> E'" by (auto elim: relpow_Suc_E)
  obtain m where m: "m \<ge> n" "(x, z) \<in> E ^^ m" using Suc.IH [OF z(1)] by blast
  obtain k where k: "(z, y) \<in> E ^^ k" "1 \<le> k"
  proof (cases "(z, y) \<in> E")
    case True
    then show ?thesis using that [of 1] by simp
  next
    case False
    then have "(z, y) \<in> E O E" using z(2) assms(1) by blast
    then show ?thesis using that [of "Suc 1"] by simp
  qed
  have "(x, y) \<in> E ^^ (m + k)" using m(2) k(1) by (auto simp: relpow_add)
  moreover have "Suc n \<le> m + k" using m(1) k(2) by linarith
  ultimately show ?case by blast
qed

lemma shortcut_no_long_path:
  assumes "E' \<subseteq> E \<union> E O E" and "E ^^ n = {}"
  shows "E' ^^ n = {}"
proof (rule ccontr)
  assume "E' ^^ n \<noteq> {}"
  then obtain x y where "(x, y) \<in> E' ^^ n" by auto
  then obtain m where m: "m \<ge> n" "(x, y) \<in> E ^^ m" using relpow_shortcut [OF assms(1)] by blast
  then show False using relpow_prefix [of x y n "m - n" E] assms(2) by simp
qed

section \<open>The invariant\<close>

definition chart_edges :: "db \<Rightarrow> int \<Rightarrow> (int \<times> int) set" where
  "chart_edges db c = edges (treeLinks db c)"

lemma chart_edges_iff:
  "(i, p) \<in> chart_edges db c \<longleftrightarrow>
     (\<exists>r \<in> set (roles db). role_congregationId r = c \<and> role_showInOrganigram r \<and> role_id r = i \<and> role_parentRoleId r = Some p)"
proof -
  have "(i, p) \<in> chart_edges db c \<longleftrightarrow>
      (\<exists>l \<in> set (treeLinks db c). link_id l = i \<and> link_parent l = Some p)"
    by (auto simp: chart_edges_def edges_def)
  also have "\<dots> \<longleftrightarrow> (\<exists>r \<in> set (roles db). in_chart c r \<and> role_id r = i \<and> role_parentRoleId r = Some p)"
    by (auto simp: treeLinks_def role_link_def)
  finally show ?thesis by (simp add: in_chart_def conj_ac)
qed

definition chart_ok :: "db \<Rightarrow> int \<Rightarrow> bool" where
  "chart_ok db c \<longleftrightarrow>
     distinct (map role_id (roles db)) \<and>
     (\<forall>r \<in> set (roles db). role_congregationId r = c \<and> \<not> role_showInOrganigram r \<longrightarrow> role_parentRoleId r = None) \<and>
     chart_edges db c ^^ MAX_ORGANIGRAM_DEPTH = {}"

lemma chart_ok_cong: "roles db' = roles db \<Longrightarrow> chart_ok db' c = chart_ok db c"
  by (simp add: chart_ok_def chart_edges_def treeLinks_def)

lemma distinct_link_ids: "distinct (map role_id (roles db)) \<Longrightarrow> distinct (map link_id (treeLinks db c))"
  by (simp add: treeLinks_def role_link_def comp_def distinct_map_filter)

lemma chart_acyclic: "chart_ok db c \<Longrightarrow> acyclic (chart_edges db c)"
  by (auto simp: chart_ok_def intro: no_long_path_acyclic)

lemma role_unique:
  "distinct (map role_id (roles db)) \<Longrightarrow> r \<in> set (roles db) \<Longrightarrow> s \<in> set (roles db) \<Longrightarrow> role_id r = role_id s \<Longrightarrow> r = s"
  by (auto simp: distinct_map inj_on_def)

text \<open>What an update of one role does to the table.\<close>

lemma update_role_roles:
  "roles (snd (update_role i c f db)) =
     (if \<exists>x. fst (update_role i c f db) = Inr x then update_where (is_role i c) f (roles db) else roles db)"
  by (auto simp: update_role_def split: option.splits)

lemma update_role_Inr:
  assumes "update_role i c f db = (Inr x, db')"
  obtains r where "find (is_role i c) (roles db) = Some r" and "db' = db\<lparr>roles := update_where (is_role i c) f (roles db)\<rparr>"
  using assms by (auto simp: update_role_def split: option.splits if_splits)

lemma update_role_Inl: "update_role i c f db = (Inl e, db') \<Longrightarrow> db' = db"
  by (auto simp: update_role_def split: option.splits if_splits)

lemma update_role_error: "fst (update_role i c f db) = Inl e \<Longrightarrow> snd (update_role i c f db) = db"
  by (auto simp: update_role_def split: option.splits if_splits)

text \<open>
  A change of one role keeps the chart when it keeps the parent, or drops it, or sets one
  that the policy accepts.
\<close>

lemma chart_ok_update:
  assumes ok: "chart_ok db c" and found: "find (is_role i c) (roles db) = Some r"
    and id: "\<And>x. role_id (f x) = role_id x"
    and cong: "\<And>x. role_congregationId (f x) = role_congregationId x"
    and off: "\<not> role_showInOrganigram (f r) \<Longrightarrow> role_parentRoleId (f r) = None"
    and edge: "\<And>p. role_parentRoleId (f r) = Some p \<Longrightarrow>
       (i, p) \<in> chart_edges db c \<or>
       assertCanSetParent (set_parent_input db r (Some p) c) = None"
  shows "chart_ok (db\<lparr>roles := update_where (is_role i c) f (roles db)\<rparr>) c"
proof -
  let ?db' = "db\<lparr>roles := update_where (is_role i c) f (roles db)\<rparr>"
  let ?E = "chart_edges db c" and ?E' = "chart_edges ?db' c"
  have d: "distinct (map role_id (roles db))" and deep: "?E ^^ MAX_ORGANIGRAM_DEPTH = {}"
    using ok by (simp_all add: chart_ok_def)
  have old_off: "role_parentRoleId x = None"
    if "x \<in> set (roles db)" "role_congregationId x = c" "\<not> role_showInOrganigram x" for x
    using ok that by (simp add: chart_ok_def)
  have r: "r \<in> set (roles db)" "role_id r = i" "role_congregationId r = c"
    using find_Some_in [OF found] by (simp_all add: is_role_def)
  have only: "x = r" if "x \<in> set (roles db)" "is_role i c x" for x
    using role_unique [OF d that(1) r(1)] that(2) r(2) by (simp add: is_role_def)
  have d': "distinct (map role_id (roles ?db'))"
    using d map_update_where [of role_id f "is_role i c" "roles db", OF id] by simp
  have rows: "x \<in> set (roles ?db') \<Longrightarrow> (x \<in> set (roles db) \<and> \<not> is_role i c x) \<or> x = f r" for x
    using only by (auto simp: set_update_where split: if_splits)
  have off': "role_parentRoleId x = None"
    if "x \<in> set (roles ?db')" "role_congregationId x = c" "\<not> role_showInOrganigram x" for x
    using rows [OF that(1)]
  proof
    assume "x \<in> set (roles db) \<and> \<not> is_role i c x"
    then show ?thesis using old_off that(2,3) by simp
  next
    assume "x = f r"
    then show ?thesis using off that(3) by simp
  qed
  have edges: "?E' \<subseteq> ?E \<union> {(i, p) | p. role_parentRoleId (f r) = Some p}"
  proof (rule subrelI)
    fix a b assume "(a, b) \<in> ?E'"
    then obtain x where x: "x \<in> set (roles ?db')" "role_congregationId x = c" "role_showInOrganigram x"
      "role_id x = a" "role_parentRoleId x = Some b"
      unfolding chart_edges_iff by blast
    from rows [OF x(1)] show "(a, b) \<in> ?E \<union> {(i, p) | p. role_parentRoleId (f r) = Some p}"
    proof
      assume "x \<in> set (roles db) \<and> \<not> is_role i c x"
      then have "(a, b) \<in> ?E" using x unfolding chart_edges_iff by blast
      then show ?thesis ..
    next
      assume "x = f r"
      then show ?thesis using x(4,5) id [of r] r(2) by simp
    qed
  qed
  have "?E' ^^ MAX_ORGANIGRAM_DEPTH = {}"
  proof (cases "?E' \<subseteq> ?E")
    case True
    then show ?thesis using deep relpow_subset [OF True, of MAX_ORGANIGRAM_DEPTH] by simp
  next
    case False
    then obtain p where p: "role_parentRoleId (f r) = Some p" "(i, p) \<notin> ?E" using edges by blast
    have E': "?E' \<subseteq> insert (i, p) ?E" using edges p(1) by auto
    have pol: "assertCanSetParent (set_parent_input db r (Some p) c) = None" using edge [OF p(1)] p(2) by blast
    let ?chain = "ancestorChainIds (treeLinks db c) (Some p)"
    have "i \<notin> set ?chain" and len: "length ?chain + 1 + subtreeHeight (treeLinks db c) i \<le> MAX_ORGANIGRAM_DEPTH"
      using pol r(2) by (simp_all add: assertCanSetParent_None set_parent_input_def Let_def)
    then have up: "(p, i) \<notin> ?E\<^sup>*"
      using set_ancestorChainIds [OF distinct_link_ids [OF d]] by (simp add: chart_edges_def)
    show ?thesis
    proof (rule ccontr)
      assume "?E' ^^ MAX_ORGANIGRAM_DEPTH \<noteq> {}"
      then obtain x y where "(x, y) \<in> ?E' ^^ MAX_ORGANIGRAM_DEPTH" by auto
      then have "\<exists>a b. (x, i) \<in> ?E ^^ a \<and> (p, y) \<in> ?E ^^ b \<and> MAX_ORGANIGRAM_DEPTH = a + 1 + b"
        using relpow_insert_edge [OF E' up] deep by blast
      then obtain a b where ab: "(x, i) \<in> ?E ^^ a" "(p, y) \<in> ?E ^^ b" "MAX_ORGANIGRAM_DEPTH = a + 1 + b" by blast
      have "a \<le> subtreeHeight (treeLinks db c) i"
        using subtreeHeight_ge ab(1) chart_acyclic [OF ok] unfolding chart_edges_def by blast
      moreover have "b + 1 \<le> length ?chain"
        using length_ancestorChainIds [OF distinct_link_ids [OF d]] ab(2) chart_acyclic [OF ok]
        unfolding chart_edges_def by blast
      ultimately show False using len ab(3) by linarith
    qed
  qed
  with d' off' show ?thesis unfolding chart_ok_def by blast
qed

section \<open>Every operation keeps it\<close>

lemma organigram_audit_roles [simp]: "roles (organigram_audit c a i m db) = roles db"
  by (simp add: organigram_audit_def)

text \<open>An operation that runs one update and journals it keeps the chart if the update does.\<close>

lemma chart_ok_update_role:
  assumes "chart_ok db c"
    and "\<And>x. role_id (f x) = role_id x" and "\<And>x. role_congregationId (f x) = role_congregationId x"
    and "\<And>r. find (is_role i c) (roles db) = Some r \<Longrightarrow>
       (role_showInOrganigram (f r) \<or> role_parentRoleId (f r) = None) \<and>
       (\<forall>p. role_parentRoleId (f r) = Some p \<longrightarrow>
          (i, p) \<in> chart_edges db c \<or> assertCanSetParent (set_parent_input db r (Some p) c) = None)"
    and "\<And>s. roles (g s) = roles s"
  shows "chart_ok (snd (chain (update_role i c f db) (\<lambda>_ s. (Inr (), g s)))) c"
proof (cases "fst (update_role i c f db)")
  case (Inl e)
  have "update_role i c f db = (Inl e, db)" using Inl update_role_error [OF Inl] by (simp add: prod_eq_iff)
  then show ?thesis using assms(1) by (simp only: chain_simps snd_conv)
next
  case (Inr x)
  obtain s where s: "update_role i c f db = (Inr x, s)" using Inr by (metis prod.collapse)
  then obtain r where r: "find (is_role i c) (roles db) = Some r"
    "s = db\<lparr>roles := update_where (is_role i c) f (roles db)\<rparr>"
    by (rule update_role_Inr)
  have "chart_ok s c"
    unfolding r(2)
  proof (rule chart_ok_update [OF assms(1) r(1) assms(2,3)])
    show "role_parentRoleId (f r) = None" if "\<not> role_showInOrganigram (f r)"
      using assms(4) [OF r(1)] that by simp
    show "(i, p) \<in> chart_edges db c \<or> assertCanSetParent (set_parent_input db r (Some p) c) = None"
      if "role_parentRoleId (f r) = Some p" for p
      using assms(4) [OF r(1)] that by simp
  qed
  then have "chart_ok (g s) c" using chart_ok_cong [OF assms(5)] by blast
  then show ?thesis unfolding s by (simp only: chain_simps snd_conv)
qed

lemma update_role_wrong_congregation:
  assumes "chart_ok db d" and "d \<noteq> c"
    and "\<And>x. role_id (f x) = role_id x" and "\<And>x. role_congregationId (f x) = role_congregationId x"
  shows "chart_ok (db\<lparr>roles := update_where (is_role i c) f (roles db)\<rparr>) d"
proof -
  let ?db' = "db\<lparr>roles := update_where (is_role i c) f (roles db)\<rparr>"
  have new: "roles ?db' = update_where (is_role i c) f (roles db)" by simp
  have rows: "x \<in> set (roles db)" if x: "x \<in> set (roles ?db')" "role_congregationId x = d" for x
  proof -
    obtain y where y: "y \<in> set (roles db)" "x = (if is_role i c y then f y else y)"
      using x(1) unfolding new set_update_where by blast
    have "\<not> is_role i c y"
    proof
      assume "is_role i c y"
      then have "role_congregationId x = c" using y(2) assms(4) [of y] by (simp add: is_role_def)
      then show False using x(2) assms(2) by simp
    qed
    then show ?thesis using y by simp
  qed
  have "chart_edges ?db' d \<subseteq> chart_edges db d"
    by (rule subrelI) (use rows in \<open>unfold chart_edges_iff, blast\<close>)
  then have "chart_edges ?db' d ^^ MAX_ORGANIGRAM_DEPTH = {}"
    using relpow_subset [of "chart_edges ?db' d" "chart_edges db d" MAX_ORGANIGRAM_DEPTH] assms(1) by (auto simp: chart_ok_def)
  moreover have "distinct (map role_id (roles ?db'))"
    using assms(1) map_update_where [of role_id f "is_role i c" "roles db", OF assms(3)] by (simp add: chart_ok_def)
  ultimately show ?thesis using rows assms(1) unfolding chart_ok_def by blast
qed

text \<open>The chart depends on four columns of the roles only.\<close>

definition chart_shape :: "role \<Rightarrow> int \<times> int option \<times> bool \<times> int" where
  "chart_shape r = (role_id r, role_parentRoleId r, role_showInOrganigram r, role_congregationId r)"

lemma chart_ok_shape:
  assumes "map chart_shape (roles db') = map chart_shape (roles db)"
  shows "chart_ok db' c = chart_ok db c"
proof -
  have proj: "map (g \<circ> chart_shape) (roles db') = map (g \<circ> chart_shape) (roles db)" for g :: "_ \<Rightarrow> 'b"
    using assms by (metis map_map)
  have ids: "map role_id (roles db') = map role_id (roles db)"
    using proj [of fst] by (simp add: comp_def chart_shape_def)
  have off: "(\<forall>r \<in> set (roles d). role_congregationId r = c \<and> \<not> role_showInOrganigram r \<longrightarrow> role_parentRoleId r = None) =
      (\<forall>s \<in> set (map chart_shape (roles d)). snd (snd (snd s)) = c \<and> \<not> fst (snd (snd s)) \<longrightarrow> fst (snd s) = None)" for d
    by (simp add: chart_shape_def)
  have edge: "(i, p) \<in> chart_edges d c \<longleftrightarrow> (i, Some p, True, c) \<in> set (map chart_shape (roles d))" for i p d
    unfolding chart_edges_iff by (force simp: chart_shape_def)
  have "x \<in> chart_edges db' c \<longleftrightarrow> x \<in> chart_edges db c" for x by (cases x) (simp only: edge assms)
  then have "chart_edges db' c = chart_edges db c" by blast
  then show ?thesis unfolding chart_ok_def ids off assms by simp
qed

lemma update_role_shape:
  assumes "\<And>x. chart_shape (f x) = chart_shape x"
  shows "map chart_shape (roles (snd (update_role i c f db))) = map chart_shape (roles db)"
  using map_update_where [of chart_shape f "is_role i c" "roles db", OF assms] by (simp add: update_role_roles)

lemma chart_ok_update_shape:
  assumes "\<And>x. chart_shape (f x) = chart_shape x"
  shows "chart_ok (snd (update_role i c f db)) d = chart_ok db d"
  by (rule chart_ok_shape [OF update_role_shape [OF assms]])

lemma syncRolePermissions_roles [simp]: "roles (syncRolePermissions i c prev keys a db) = roles db"
  by (simp add: syncRolePermissions_def Let_def entity_audit_def split: option.splits)

lemma chart_ok_new_role:
  assumes "chart_ok db d" and "role_id r \<notin> role_id ` set (roles db)"
    and "\<not> role_showInOrganigram r" and "role_parentRoleId r = None" and "roles db' = roles db @ [r]"
  shows "chart_ok db' d"
proof -
  have "chart_edges db' d = chart_edges db d"
    unfolding chart_edges_def treeLinks_def using assms(3,5) by (simp add: in_chart_def)
  then show ?thesis using assms by (simp add: chart_ok_def)
qed

lemma chart_ok_fewer_roles:
  assumes "chart_ok db d" and "roles db' = delete_where p (roles db)"
  shows "chart_ok db' d"
proof -
  have "chart_edges db' d \<subseteq> chart_edges db d"
    by (rule subrelI) (unfold chart_edges_iff assms(2), auto)
  then show ?thesis
    using relpow_subset [of "chart_edges db' d" "chart_edges db d" MAX_ORGANIGRAM_DEPTH] assms
    by (auto simp: chart_ok_def distinct_map_delete_where)
qed

lemma createRole_keeps_chart:
  assumes "fresh_keys ev" and "chart_ok db d"
  shows "chart_ok (snd (createRole ev c a params db)) d"
proof -
  have fresh: "role_id (new_role ev c key n desc sp db) \<notin> role_id ` set (roles db)" for key n desc sp
    using assms(1) by (simp add: new_role_def fresh_keys_def)
  have new: "chart_ok db' d" if "roles db' = roles db @ [new_role ev c key n desc sp db]" for db' key n desc sp
    by (rule chart_ok_new_role [OF assms(2) fresh _ _ that]) (simp_all add: new_role_def)
  show ?thesis
    using assms(2) by (auto simp: createRole_def Let_def intro!: new split: if_splits)
qed

lemma updateRoleIdentity_keeps_chart:
  assumes "chart_ok db d"
  shows "chart_ok (snd (updateRoleIdentity i c a params db)) d"
proof -
  have step: "chart_ok (snd (chain (update_role i c f db) (\<lambda>_ s. (Inr (), g s)))) d"
    if "\<And>x. chart_shape (f x) = chart_shape x" "\<And>s. roles (g s) = roles s" for f g
  proof (rule snd_chain_inv [where Q = "\<lambda>s. chart_ok s d"])
    show "chart_ok (snd (update_role i c f db)) d" unfolding chart_ok_update_shape [OF that(1)] by (rule assms)
    show "chart_ok (snd (Inr (), g s)) d" if "chart_ok s d" for s
      using chart_ok_cong [OF \<open>\<And>s. roles (g s) = roles s\<close>] that by simp
  qed
  show ?thesis
    using assms by (auto simp: updateRoleIdentity_def Let_def chart_shape_def intro!: step split: option.splits)
qed

lemma deleteRole_keeps_chart:
  assumes "chart_ok db d"
  shows "chart_ok (snd (deleteRole i c a db)) d"
  using assms chart_ok_fewer_roles [OF assms, of _ "is_role i c"]
  by (auto simp: deleteRole_def split: option.splits)

text \<open>An update that the policy accepts keeps every congregation's chart.\<close>

lemma chart_ok_update_step:
  assumes "chart_ok db d"
    and "\<And>x. role_id (f x) = role_id x" and "\<And>x. role_congregationId (f x) = role_congregationId x"
    and "\<And>r. find (is_role i c) (roles db) = Some r \<Longrightarrow>
       (role_showInOrganigram (f r) \<or> role_parentRoleId (f r) = None) \<and>
       (\<forall>p. role_parentRoleId (f r) = Some p \<longrightarrow> assertCanSetParent (set_parent_input db r (Some p) c) = None)"
    and "\<And>s. roles (g s) = roles s"
  shows "chart_ok (snd (chain (update_role i c f db) (\<lambda>_ s. (Inr (), g s)))) d"
proof (cases "d = c")
  case True
  have ok: "chart_ok db c" using assms(1) True by (simp only:)
  have "chart_ok (snd (chain (update_role i c f db) (\<lambda>_ s. (Inr (), g s)))) c"
  proof (rule chart_ok_update_role [OF ok assms(2,3) _ assms(5)])
    fix r assume "find (is_role i c) (roles db) = Some r"
    note kept = assms(4) [OF this]
    show "(role_showInOrganigram (f r) \<or> role_parentRoleId (f r) = None) \<and>
       (\<forall>p. role_parentRoleId (f r) = Some p \<longrightarrow>
          (i, p) \<in> chart_edges db c \<or> assertCanSetParent (set_parent_input db r (Some p) c) = None)"
      using conjunct1 [OF kept] conjunct2 [OF kept] by simp
  qed
  then show ?thesis unfolding True .
next
  case False
  show ?thesis
  proof (rule snd_chain_inv [where Q = "\<lambda>s. chart_ok s d"])
    show "chart_ok (snd (update_role i c f db)) d"
    proof (cases "fst (update_role i c f db)")
      case (Inl e)
      then show ?thesis using assms(1) by (simp only: update_role_error)
    next
      case (Inr x)
      obtain s where s: "update_role i c f db = (Inr x, s)" using Inr by (metis prod.collapse)
      then have "s = db\<lparr>roles := update_where (is_role i c) f (roles db)\<rparr>" by (rule update_role_Inr)
      then show ?thesis
        using update_role_wrong_congregation [OF assms(1) False assms(2,3)] s by (simp only: snd_conv)
    qed
    show "chart_ok (snd (Inr (), g s)) d" if "chart_ok s d" for s
      using chart_ok_cong [OF assms(5)] that by simp
  qed
qed

lemma requireRole_Inr: "requireRole db i c = Inr r \<longleftrightarrow> find (is_role i c) (roles db) = Some r"
  by (simp add: requireRole_def split: option.splits)

lemma requireRole_id: "requireRole db i c = Inr r \<Longrightarrow> role_id r = i"
  using find_Some_in by (fastforce simp: requireRole_Inr is_role_def)

lemma addRoleToOrganigram_keeps_chart:
  assumes "chart_ok db d"
  shows "chart_ok (snd (addRoleToOrganigram i p c a db)) d"
proof (cases "requireRole db i c")
  case (Inl e)
  then show ?thesis using assms by (simp add: addRoleToOrganigram_def)
next
  case (Inr r)
  show ?thesis
  proof (cases "orelse (assertCanShowInOrganigram (role_key r)) (assertCanSetParent (set_parent_input db r p c))")
    case (Some e)
    then show ?thesis using assms Inr by (simp add: addRoleToOrganigram_def)
  next
    case None
    then show ?thesis
      using Inr unfolding addRoleToOrganigram_def Let_def
      by (simp, intro chart_ok_update_step assms) (auto simp: requireRole_Inr)
  qed
qed

lemma setOrganigramParent_keeps_chart:
  assumes "chart_ok db d"
  shows "chart_ok (snd (setOrganigramParent i p c a db)) d"
proof (cases "requireRole db i c")
  case (Inl e)
  then show ?thesis using assms by (simp add: setOrganigramParent_def)
next
  case (Inr r)
  show ?thesis
  proof (cases "\<not> role_showInOrganigram r \<or> assertCanSetParent (set_parent_input db r p c) \<noteq> None")
    case True
    then show ?thesis using assms Inr by (auto simp: setOrganigramParent_def)
  next
    case False
    then show ?thesis
      using Inr unfolding setOrganigramParent_def Let_def
      by (simp, intro chart_ok_update_step assms) (auto simp: requireRole_Inr)
  qed
qed

lemma createServiceInOrganigram_keeps_chart:
  assumes "fresh_keys ev" and "chart_ok db d"
  shows "chart_ok (snd (createServiceInOrganigram ev name p c a sp db)) d"
  unfolding createServiceInOrganigram_def
proof (rule snd_chain_inv [where Q = "\<lambda>s. chart_ok s d"])
  show "chart_ok (snd (createRole ev c a params db)) d" for params by (rule createRole_keeps_chart [OF assms])
  fix x :: "int \<times> string" and s assume "chart_ok s d"
  then have "chart_ok (snd (addRoleToOrganigram i p c a s)) d" for i by (rule addRoleToOrganigram_keeps_chart)
  then have "chart_ok (snd (chain (addRoleToOrganigram i p c a s) (\<lambda>_ s. (Inr i, s)))) d" for i
    by (rule snd_chain_inv [where Q = "\<lambda>s. chart_ok s d"]) (simp only: snd_conv)
  then show "chart_ok (snd ((case x of (i, key) \<Rightarrow> \<lambda>s. chain (addRoleToOrganigram i p c a s) (\<lambda>_ s. (Inr i, s))) s)) d"
    by (simp only: prod.case_eq_if)
qed

lemma setRoleSinglePerson_keeps_chart:
  assumes "chart_ok db d"
  shows "chart_ok (snd (setRoleSinglePerson i sp c a db)) d"
proof -
  have "chart_ok (snd (chain (update_role i c (\<lambda>r. r\<lparr>role_isSinglePerson := sp\<rparr>) db)
      (\<lambda>_ s. (Inr (), organigram_audit c a i m s)))) d" for m
  proof (rule snd_chain_inv [where Q = "\<lambda>s. chart_ok s d"])
    show "chart_ok (snd (update_role i c (\<lambda>r. r\<lparr>role_isSinglePerson := sp\<rparr>) db)) d"
      by (subst chart_ok_update_shape) (simp_all add: chart_shape_def assms)
    show "chart_ok (snd (Inr (), organigram_audit c a i m s)) d" if "chart_ok s d" for s
      using chart_ok_cong [of "organigram_audit c a i m s" s d] that by simp
  qed
  then show ?thesis using assms by (simp add: setRoleSinglePerson_def split: option.splits)
qed

lemma renumber_shape: "map chart_shape (roles (snd (renumber c n is db))) = map chart_shape (roles db)"
proof (induction "is" arbitrary: n db)
  case Nil
  show ?case by simp
next
  case (Cons i "is")
  let ?f = "\<lambda>r. r\<lparr>role_organigramOrder := Some ((int n + 1) * ORDER_STEP)\<rparr>"
  have first: "map chart_shape (roles (snd (update_role i c ?f db))) = map chart_shape (roles db)"
    by (rule update_role_shape) (simp add: chart_shape_def)
  show ?case
    unfolding renumber.simps
    by (rule snd_chain_inv [where Q = "\<lambda>s. map chart_shape (roles s) = map chart_shape (roles db)"]) (simp_all add: first Cons.IH)
qed

lemma moveOrganigramNode_keeps_chart:
  assumes "chart_ok db d"
  shows "chart_ok (snd (moveOrganigramNode i dir c a db)) d"
proof -
  have "chart_ok (snd (chain (renumber c 0 is db) (\<lambda>_ s. (Inr (), organigram_audit c a i m s)))) d" for "is" m
  proof (rule snd_chain_inv [where Q = "\<lambda>s. chart_ok s d"])
    show "chart_ok (snd (renumber c 0 is db)) d"
      using chart_ok_shape [OF renumber_shape] assms by blast
    show "chart_ok (snd (Inr (), organigram_audit c a i m s)) d" if "chart_ok s d" for s
      using chart_ok_cong [of "organigram_audit c a i m s" s d] that by simp
  qed
  then show ?thesis using assms by (simp add: moveOrganigramNode_def Let_def split: sum.splits)
qed

subsection \<open>Leaving the chart\<close>

text \<open>What becomes of a row when role \<open>i\<close>, whose parent is \<open>p\<close>, leaves the chart of \<open>c\<close>.\<close>

definition lifted :: "int \<Rightarrow> int \<Rightarrow> int option \<Rightarrow> role \<Rightarrow> role" where
  "lifted i c p x =
     (if role_congregationId x = c \<and> role_parentRoleId x = Some i then x\<lparr>role_parentRoleId := p\<rparr> else x)"

definition without_place :: "int \<Rightarrow> int \<Rightarrow> int option \<Rightarrow> role \<Rightarrow> role" where
  "without_place i c p x =
     (if is_role i c x
      then (lifted i c p x)\<lparr>role_showInOrganigram := False, role_parentRoleId := None, role_organigramOrder := None\<rparr>
      else lifted i c p x)"

lemma lifted_simps [simp]:
  "role_id (lifted i c p x) = role_id x" "role_congregationId (lifted i c p x) = role_congregationId x"
  "role_showInOrganigram (lifted i c p x) = role_showInOrganigram x"
  "is_role j d (lifted i c p x) = is_role j d x"
  by (simp_all add: lifted_def is_role_def)

lemma without_place_simps [simp]:
  "role_id (without_place i c p x) = role_id x"
  "role_congregationId (without_place i c p x) = role_congregationId x"
  by (simp_all add: without_place_def)

lemma find_map_same: "(\<And>x. p (f x) = p x) \<Longrightarrow> find p (map f xs) = map_option f (find p xs)"
  by (induction xs) auto

lemma removeRoleFromOrganigram_run:
  assumes "find (is_role i c) (roles db) = Some r" and "assertCanLeaveOrganigram (role_key r) = None"
  obtains db' where "removeRoleFromOrganigram i c a db = (Inr (), db')"
    and "roles db' = map (without_place i c (role_parentRoleId r)) (roles db)"
    and "userRoleAssignments db' = userRoleAssignments db" and "memberRoleAssignments db' = memberRoleAssignments db"
    and "rolePermissions db' = rolePermissions db"
proof -
  let ?p = "role_parentRoleId r"
  let ?db1 = "db\<lparr>roles := update_where (\<lambda>x. role_congregationId x = c \<and> role_parentRoleId x = Some i)
                 (\<lambda>x. x\<lparr>role_parentRoleId := ?p\<rparr>) (roles db)\<rparr>"
  let ?f = "\<lambda>r. r\<lparr>role_showInOrganigram := False, role_parentRoleId := None, role_organigramOrder := None\<rparr>"
  have one: "roles ?db1 = map (lifted i c ?p) (roles db)" by (simp add: update_where_def lifted_def)
  have found: "find (is_role i c) (roles ?db1) = Some (lifted i c ?p r)"
    unfolding one by (simp add: find_map_same assms(1))
  let ?db2 = "?db1\<lparr>roles := update_where (is_role i c) ?f (roles ?db1)\<rparr>"
  have two: "update_role i c ?f ?db1 = (Inr (?f (lifted i c ?p r)), ?db2)"
    by (simp add: update_role_def found [simplified])
  have rows: "roles ?db2 = map (without_place i c ?p) (roles db)"
    using one by (simp add: update_where_def without_place_def lifted_def is_role_def)
  let ?db' = "organigram_audit c a i [(''change'', JStr ''removed''), (''childrenLiftedTo'', json_opt ?p)] ?db2"
  have run: "removeRoleFromOrganigram i c a db = (Inr (), ?db')"
    unfolding removeRoleFromOrganigram_def Let_def using assms two by (simp add: requireRole_def)
  show ?thesis
    by (rule that [OF run]) (use rows in \<open>simp_all add: organigram_audit_def\<close>)
qed

lemma chart_ok_without_place:
  assumes ok: "chart_ok db d" and r: "r \<in> set (roles db)" "role_id r = i" "role_congregationId r = c"
    and rows: "roles db' = map (without_place i c (role_parentRoleId r)) (roles db)"
  shows "chart_ok db' d"
proof -
  let ?E = "chart_edges db d" and ?E' = "chart_edges db' d"
  have off: "role_parentRoleId x = None"
    if "x \<in> set (roles db)" "role_congregationId x = d" "\<not> role_showInOrganigram x" for x
    using ok that by (simp add: chart_ok_def)
  have "?E' \<subseteq> ?E \<union> ?E O ?E"
  proof (rule subrelI)
    fix x y assume "(x, y) \<in> ?E'"
    then obtain s where s: "s \<in> set (roles db)" "role_congregationId s = d" "role_id s = x"
      "role_showInOrganigram (without_place i c (role_parentRoleId r) s)"
      "role_parentRoleId (without_place i c (role_parentRoleId r) s) = Some y"
      unfolding chart_edges_iff rows by auto
    have stays: "\<not> is_role i c s" using s(4) by (auto simp: without_place_def)
    then have shown: "role_showInOrganigram s" and par: "role_parentRoleId (lifted i c (role_parentRoleId r) s) = Some y"
      using s(4,5) by (simp_all add: without_place_def)
    show "(x, y) \<in> ?E \<union> ?E O ?E"
    proof (cases "role_congregationId s = c \<and> role_parentRoleId s = Some i")
      case True
      then have up: "role_parentRoleId r = Some y" using par by (simp add: lifted_def)
      have d: "d = c" using True s(2) by simp
      have "(x, i) \<in> ?E" using s(1-3) shown True unfolding chart_edges_iff by blast
      moreover have "role_showInOrganigram r" using off [OF r(1)] up r(3) d by auto
      then have "(i, y) \<in> ?E" using r up d unfolding chart_edges_iff by blast
      ultimately show ?thesis by blast
    next
      case False
      then have "role_parentRoleId s = Some y" using par by (auto simp: lifted_def split: if_splits)
      then have "(x, y) \<in> ?E" using s(1-3) shown unfolding chart_edges_iff by blast
      then show ?thesis by blast
    qed
  qed
  then have "?E' ^^ MAX_ORGANIGRAM_DEPTH = {}"
    by (rule shortcut_no_long_path) (use ok in \<open>simp add: chart_ok_def\<close>)
  moreover have "map role_id (roles db') = map role_id (roles db)" unfolding rows by simp
  moreover have "role_parentRoleId x = None"
    if x: "x \<in> set (roles db')" "role_congregationId x = d" "\<not> role_showInOrganigram x" for x
  proof -
    obtain s where s: "s \<in> set (roles db)" "x = without_place i c (role_parentRoleId r) s"
      using x(1) unfolding rows by auto
    show ?thesis
    proof (cases "is_role i c s")
      case True
      then show ?thesis using s(2) by (simp add: without_place_def)
    next
      case False
      then have "role_parentRoleId s = None" using off [OF s(1)] x(2,3) s(2) by (simp add: without_place_def)
      then show ?thesis using False s(2) by (simp add: without_place_def lifted_def)
    qed
  qed
  ultimately show ?thesis using ok by (simp add: chart_ok_def)
qed

lemma removeRoleFromOrganigram_keeps_chart:
  assumes "chart_ok db d"
  shows "chart_ok (snd (removeRoleFromOrganigram i c a db)) d"
proof (cases "requireRole db i c")
  case (Inl e)
  then show ?thesis using assms by (simp add: removeRoleFromOrganigram_def)
next
  case (Inr r)
  then have found: "find (is_role i c) (roles db) = Some r" by (simp add: requireRole_Inr)
  then have r: "r \<in> set (roles db)" "role_id r = i" "role_congregationId r = c"
    using find_Some_in [OF found] by (simp_all add: is_role_def)
  show ?thesis
  proof (cases "assertCanLeaveOrganigram (role_key r)")
    case (Some e)
    then show ?thesis using assms Inr by (simp add: removeRoleFromOrganigram_def)
  next
    case None
    obtain db' where db': "removeRoleFromOrganigram i c a db = (Inr (), db')"
      "roles db' = map (without_place i c (role_parentRoleId r)) (roles db)"
      using removeRoleFromOrganigram_run [OF found None] by metis
    show ?thesis using chart_ok_without_place [OF assms r db'(2)] db'(1) by simp
  qed
qed

end
