(* ===== verification/Seat_Laws.thy ===== *)
theory Seat_Laws
  imports Seats
begin

text \<open>
  The service committee is made of the holders of its posts, and two ways in which the limits of the
  seats are narrower than what they guard.
\<close>

section \<open>The committee follows its posts\<close>

definition seats_ok :: "db \<Rightarrow> int \<Rightarrow> bool" where
  "seats_ok db c \<longleftrightarrow> distinct (map role_id (roles db)) \<and>
     list_all (\<lambda>a. list_all (\<lambda>r. role_id r = ura_roleId a \<longrightarrow> role_congregationId r = c \<longrightarrow> ura_congregationId a = c) (roles db))
       (userRoleAssignments db)"

definition committee_in_line :: "db \<Rightarrow> int \<Rightarrow> bool" where
  "committee_in_line db c =
     (case committee_of db c of
        None \<Rightarrow> True
      | Some r \<Rightarrow> post_ids db c = [] \<or> set (holders_in db (role_id r) c) = set (titulaires db c))"

lemma committee_row:
  assumes "committee_of db c = Some r"
  shows "r \<in> set (roles db)" and "role_congregationId r = c" and "role_key r = SERVICE_COMMITTEE_KEY"
  using find_Some_in [OF assms [unfolded committee_of_def]] by simp_all

lemma map_filter_in:
  assumes "x \<in> set (List.map_filter f xs)"
  obtains k where "k \<in> set xs" "f k = Some x"
  using assms by (auto simp: map_filter_def)

lemma map_option_find_Some:
  assumes "map_option f (find P xs) = Some i"
  obtains r where "r \<in> set xs" "P r" "f r = i"
  using assms find_Some_in by (metis map_option_eq_Some)

lemma post_row:
  assumes "i \<in> set (post_ids db c)"
  obtains r where "r \<in> set (roles db)" "role_id r = i" "role_congregationId r = c" "role_key r \<in> set SERVICE_COMMITTEE_POST_KEYS"
  by (rule map_filter_in [OF assms [unfolded post_ids_def]], erule map_option_find_Some, erule conjE, rule that, assumption+, simp)

lemma committee_is_no_post:
  assumes "seats_ok db c" and "committee_of db c = Some r"
  shows "role_id r \<notin> set (post_ids db c)"
proof
  assume "role_id r \<in> set (post_ids db c)"
  then obtain s where "s \<in> set (roles db)" "role_id s = role_id r" "role_key s \<in> set SERVICE_COMMITTEE_POST_KEYS"
    by (rule post_row)
  moreover have "s = r" using calculation(1,2) committee_row(1) [OF assms(2)] assms(1)
    unfolding seats_ok_def distinct_map inj_on_def by blast
  ultimately show False using committee_row(3) [OF assms(2)] by (simp add: role_key_defs)
qed

lemma same_roles: "roles (entity_audit a c u t i m db) = roles db"
  by simp

lemma committee_of_uras [simp]:
  "committee_of (db\<lparr>userRoleAssignments := x\<rparr>) c = committee_of db c" "post_ids (db\<lparr>userRoleAssignments := x\<rparr>) c = post_ids db c"
  "committee_of (entity_audit a b u t i m db) c = committee_of db c" "post_ids (entity_audit a b u t i m db) c = post_ids db c"
  by (simp_all add: committee_of_def post_ids_def)

lemma holders_audit [simp]:
  "holders_in (entity_audit a b u t i m db) r c = holders_in db r c" "titulaires (entity_audit a b u t i m db) c = titulaires db c"
  by (simp_all add: holders_in_def titulaires_def)

lemma set_holders:
  "u \<in> set (holders_in db i c) \<longleftrightarrow> (\<exists>a\<in>set (userRoleAssignments db). ura_userId a = u \<and> ura_roleId a = i \<and> ura_congregationId a = c)"
  by (auto simp: holders_in_def)

lemma set_titulaires:
  "u \<in> set (titulaires db c) \<longleftrightarrow> (\<exists>a\<in>set (userRoleAssignments db). ura_userId a = u \<and> ura_roleId a \<in> set (post_ids db c) \<and>
     ura_congregationId a = c \<and> ura_kind a = ''leader'')"
  by (auto simp: titulaires_def)

lemma committee_sync_rows:
  assumes "committee_of db c = Some r" and "post_ids db c \<noteq> []"
    and "added = filter (\<lambda>u. u \<notin> set (holders_in db (role_id r) c)) (titulaires db c)"
    and "removed = filter (\<lambda>u. u \<notin> set (titulaires db c)) (holders_in db (role_id r) c)"
    and "added \<noteq> [] \<or> removed \<noteq> []"
  obtains m where "syncServiceCommitteeMembers c actor db =
    entity_audit ''user.role_assignment.changed'' c actor ''Role'' (role_id r) m
      (db\<lparr>userRoleAssignments := delete_where (\<lambda>a. ura_roleId a = role_id r \<and> ura_congregationId a = c \<and> ura_userId a \<in> set removed)
        (create_missing (map (\<lambda>u. grant u (role_id r) ''member'' c) added) (userRoleAssignments db))\<rparr>)"
  using assms by (auto simp: syncServiceCommitteeMembers_def Let_def simp del: filter_empty_conv)

lemma sync_idle:
  assumes "committee_of db c = None \<or> post_ids db c = [] \<or>
    (\<exists>r. committee_of db c = Some r \<and> set (holders_in db (role_id r) c) = set (titulaires db c))"
  shows "syncServiceCommitteeMembers c actor db = db"
  using assms by (auto simp: syncServiceCommitteeMembers_def Let_def split: option.splits)

lemma synced_row:
  assumes "\<And>a. a \<in> set old \<Longrightarrow> ura_roleId a = i \<Longrightarrow> ura_congregationId a = c"
    and "\<And>u. u \<in> set existing \<longleftrightarrow> (\<exists>a\<in>set old. ura_userId a = u \<and> ura_roleId a = i \<and> ura_congregationId a = c)"
    and "rows = delete_where (\<lambda>a. ura_roleId a = i \<and> ura_congregationId a = c \<and> ura_userId a \<in> set (filter (\<lambda>u. u \<notin> set desired) existing))
      (create_missing (map (\<lambda>u. grant u i ''member'' c) (filter (\<lambda>u. u \<notin> set existing) desired)) old)"
  shows "a \<in> set rows \<longleftrightarrow>
      (a \<in> set old \<and> \<not> (ura_roleId a = i \<and> ura_congregationId a = c \<and> ura_userId a \<notin> set desired)) \<or>
      (\<exists>u. u \<in> set desired \<and> u \<notin> set existing \<and> a = grant u i ''member'' c)"
  using assms(1) unfolding assms(3)
  by (auto simp: create_missing_def list_ex_iff holds_def grant_def assms(2))

lemma synced_holder:
  assumes row: "\<And>a. a \<in> set rows \<longleftrightarrow>
      (a \<in> set old \<and> \<not> (ura_roleId a = i \<and> ura_congregationId a = c \<and> ura_userId a \<notin> set desired)) \<or>
      (\<exists>u. u \<in> set desired \<and> u \<notin> set existing \<and> a = grant u i ''member'' c)"
    and existing: "\<And>u. u \<in> set existing \<longleftrightarrow> (\<exists>a\<in>set old. ura_userId a = u \<and> ura_roleId a = i \<and> ura_congregationId a = c)"
  shows "(\<exists>a\<in>set rows. ura_userId a = u \<and> ura_roleId a = i \<and> ura_congregationId a = c) \<longleftrightarrow> u \<in> set desired"
proof
  assume "\<exists>a\<in>set rows. ura_userId a = u \<and> ura_roleId a = i \<and> ura_congregationId a = c"
  then obtain a where a: "a \<in> set rows" "ura_userId a = u" "ura_roleId a = i" "ura_congregationId a = c" by blast
  show "u \<in> set desired"
    using a(1) unfolding row
  proof
    assume "\<exists>v. v \<in> set desired \<and> v \<notin> set existing \<and> a = grant v i ''member'' c"
    then obtain v where "v \<in> set desired" "a = grant v i ''member'' c" by blast
    then show ?thesis using a(2) by (simp add: grant_def)
  next
    assume "a \<in> set old \<and> \<not> (ura_roleId a = i \<and> ura_congregationId a = c \<and> ura_userId a \<notin> set desired)"
    then show ?thesis using a(2-4) by simp
  qed
next
  assume u: "u \<in> set desired"
  show "\<exists>a\<in>set rows. ura_userId a = u \<and> ura_roleId a = i \<and> ura_congregationId a = c"
  proof (cases "u \<in> set existing")
    case True
    then obtain a where "a \<in> set old" "ura_userId a = u" "ura_roleId a = i" "ura_congregationId a = c"
      unfolding existing by blast
    moreover have "a \<in> set rows" unfolding row using calculation u by simp
    ultimately show ?thesis by blast
  next
    case False
    then have "grant u i ''member'' c \<in> set rows" using u unfolding row by blast
    then show ?thesis by (rule bexI [rotated]) (simp add: grant_def)
  qed
qed

lemma sync_in_line:
  assumes "seats_ok db c"
  shows "committee_in_line (syncServiceCommitteeMembers c actor db) c"
proof (cases "committee_of db c")
  case None
  then show ?thesis by (simp add: syncServiceCommitteeMembers_def committee_in_line_def)
next
  case (Some r)
  define i where "i = role_id r"
  define desired where "desired = titulaires db c"
  define existing where "existing = holders_in db i c"
  define added where "added = filter (\<lambda>u. u \<notin> set existing) desired"
  define removed where "removed = filter (\<lambda>u. u \<notin> set desired) existing"
  define rows where "rows = delete_where (\<lambda>a. ura_roleId a = i \<and> ura_congregationId a = c \<and> ura_userId a \<in> set removed)
    (create_missing (map (\<lambda>u. grant u i ''member'' c) added) (userRoleAssignments db))"
  have here: "ura_congregationId a = c" if "a \<in> set (userRoleAssignments db)" "ura_roleId a = i" for a
    using assms committee_row [OF Some] that by (auto simp: seats_ok_def list_all_iff i_def)
  have existing: "u \<in> set existing \<longleftrightarrow> (\<exists>a\<in>set (userRoleAssignments db). ura_userId a = u \<and> ura_roleId a = i \<and> ura_congregationId a = c)" for u
    by (simp add: existing_def set_holders)
  have row: "a \<in> set rows \<longleftrightarrow>
      (a \<in> set (userRoleAssignments db) \<and> \<not> (ura_roleId a = i \<and> ura_congregationId a = c \<and> ura_userId a \<notin> set desired)) \<or>
      (\<exists>u. u \<in> set desired \<and> u \<notin> set existing \<and> a = grant u i ''member'' c)" for a
    using here existing by (rule synced_row) (simp_all add: rows_def added_def removed_def)
  have "u \<in> set (holders_in (db\<lparr>userRoleAssignments := rows\<rparr>) i c) \<longleftrightarrow> u \<in> set desired" for u
    unfolding set_holders using synced_holder [OF row existing, of u] by simp
  then have holders: "set (holders_in (db\<lparr>userRoleAssignments := rows\<rparr>) i c) = set desired" by blast
  have other: "a \<in> set rows \<longleftrightarrow> a \<in> set (userRoleAssignments db)" if "ura_roleId a \<noteq> i" for a
    using row [of a] that by (auto simp: grant_def)
  have no_post: "i \<notin> set (post_ids db c)" using committee_is_no_post [OF assms Some] by (simp add: i_def)
  have "u \<in> set (titulaires (db\<lparr>userRoleAssignments := rows\<rparr>) c) \<longleftrightarrow> u \<in> set desired" for u
    unfolding desired_def set_titulaires committee_of_uras db.select_convs(1) using other no_post by simp metis
  then have posts: "set (titulaires (db\<lparr>userRoleAssignments := rows\<rparr>) c) = set desired" by blast
  show ?thesis
  proof (cases "post_ids db c = [] \<or> added = [] \<and> removed = []")
    case True
    then have "post_ids db c = [] \<or> set existing = set desired" by (auto simp: added_def removed_def filter_empty_conv)
    then show ?thesis using Some sync_idle [of db c actor]
      by (auto simp: committee_in_line_def i_def existing_def desired_def)
  next
    case False
    then obtain m where "syncServiceCommitteeMembers c actor db =
        entity_audit ''user.role_assignment.changed'' c actor ''Role'' i m (db\<lparr>userRoleAssignments := rows\<rparr>)"
      using committee_sync_rows [OF Some, of added removed actor]
      by (auto simp: added_def removed_def rows_def i_def existing_def desired_def simp del: filter_empty_conv)
    then show ?thesis using Some holders posts by (simp add: committee_in_line_def i_def)
  qed
qed

lemma seats_ok_audit [simp]:
  "seats_ok (entity_audit a b u t i m db) c = seats_ok db c"
  "seats_ok (assignment_audit b a2 u x y db) c = seats_ok db c"
  "seats_ok (seat_audit b a2 u x k db) c = seats_ok db c"
  by (simp_all add: seats_ok_def assignment_audit_def seat_audit_def)

lemma in_line_audit [simp]:
  "committee_in_line (entity_audit a b u t i m db) c = committee_in_line db c"
  "committee_in_line (assignment_audit b a2 u x y db) c = committee_in_line db c"
  "committee_in_line (seat_audit b a2 u x k db) c = committee_in_line db c"
  by (simp_all add: committee_in_line_def assignment_audit_def seat_audit_def split: option.split)

lemma seats_ok_rows:
  assumes "seats_ok db c"
    and "\<And>a. a \<in> set rows \<Longrightarrow> ura_congregationId a = c \<or>
      (\<exists>b\<in>set (userRoleAssignments db). ura_roleId b = ura_roleId a \<and> ura_congregationId b = ura_congregationId a)"
  shows "seats_ok (db\<lparr>userRoleAssignments := rows\<rparr>) c"
  using assms unfolding seats_ok_def list_all_iff by simp metis

lemma write_seat_ok:
  assumes "seats_ok db c" and "write_seat u i c k db = (Inr x, s)"
  shows "seats_ok s c"
proof (cases "seat_of db u i c")
  case None
  then have "s = db\<lparr>userRoleAssignments := userRoleAssignments db @ [grant u i k c]\<rparr>"
    using assms(2) insert_grants_Inr by (simp add: write_seat_def)
  then show ?thesis using assms(1) by (auto intro!: seats_ok_rows simp: grant_def)
next
  case (Some a)
  then have "s = db \<or> s = db\<lparr>userRoleAssignments := update_where (holds u i) (\<lambda>a. a\<lparr>ura_kind := k\<rparr>) (userRoleAssignments db)\<rparr>"
    using assms(2) by (auto simp: write_seat_def split: if_splits)
  then show ?thesis
  proof
    show ?thesis if "s = db\<lparr>userRoleAssignments := update_where (holds u i) (\<lambda>a. a\<lparr>ura_kind := k\<rparr>) (userRoleAssignments db)\<rparr>"
      unfolding that
    proof (rule seats_ok_rows [OF assms(1)])
      fix a assume "a \<in> set (update_where (holds u i) (\<lambda>a. a\<lparr>ura_kind := k\<rparr>) (userRoleAssignments db))"
      then obtain b where "b \<in> set (userRoleAssignments db)" "a = (if holds u i b then b\<lparr>ura_kind := k\<rparr> else b)"
        by (auto simp: update_where_def)
      then show "ura_congregationId a = c \<or>
          (\<exists>b\<in>set (userRoleAssignments db). ura_roleId b = ura_roleId a \<and> ura_congregationId b = ura_congregationId a)"
        by (auto intro!: bexI [of _ b])
    qed
  qed (simp add: assms(1))
qed

lemma seatMember_post:
  assumes run: "seatMember roleId memberId kind c actor perms db = (Inr (), db')"
    and "requireRole db roleId c = Inr r" and "isServiceCommitteePostKey (role_key r)"
    and "requireSeatableAccount db memberId c = Inr userId"
  defines "k \<equiv> if kind \<noteq> ''deputy'' then ''leader'' else kind"
  shows "\<exists>x s handed. write_seat userId roleId c k db = (Inr x, s) \<and>
    handed = (if k = ''leader'' then s\<lparr>userRoleAssignments :=
        delete_where (outgoing_leader roleId c userId) (userRoleAssignments s)\<rparr> else s) \<and>
    (db' = syncServiceCommitteeMembers c actor handed \<or>
      (\<exists>added. db' = seat_audit c actor userId added k (syncServiceCommitteeMembers c actor handed)))"
proof -
  have nid: "\<not> isIdentityRoleKey (role_key r)" using run assms(2) by (auto simp: seatMember_def split: if_splits)
  have post: "(role_isSinglePerson r \<or> isServiceCommitteePostKey (role_key r)) = True" using assms(3) by simp
  obtain x s where w: "write_seat userId roleId c k db = (Inr x, s)"
    and db': "(Inr (), if map_option ura_kind (seat_of db userId roleId c) = Some k
        then syncServiceCommitteeMembers c actor (if True \<and> k = ''leader''
          then s\<lparr>userRoleAssignments := delete_where (outgoing_leader roleId c userId) (userRoleAssignments s)\<rparr> else s)
        else seat_audit c actor userId (if seat_of db userId roleId c = None then [role_key r] else []) k
          (syncServiceCommitteeMembers c actor (if True \<and> k = ''leader''
          then s\<lparr>userRoleAssignments := delete_where (outgoing_leader roleId c userId) (userRoleAssignments s)\<rparr> else s)))
      = (Inr () :: app_error + unit, db')"
    using run unfolding seatMember_def k_def
    by (simp only: assms(2-4) nid post sum.case if_False if_True Let_def simp_thms) (elim guard_by_InrE chain_InrE, simp)
  show ?thesis
    by (rule exI [of _ x], rule exI [of _ s], rule exI, rule conjI [OF w], rule conjI [OF refl], use db' in \<open>auto split: if_splits\<close>)
qed

text \<open>
  C15. Whatever the seats of a congregation were, once somebody has been seated on one of the three
  posts of the service committee, or has left it, the members of the committee are exactly the
  titulaires of its posts: a deputy is not on it, the previous holder has left it, and so has
  anybody who had been put on it by hand.
\<close>

theorem committee_is_made_of_its_posts:
  assumes "seats_ok db c" and "requireRole db roleId c = Inr r" and "isServiceCommitteePostKey (role_key r)"
    and "seatMember roleId memberId kind c actor perms db = (Inr (), db') \<or>
      unseatMember roleId memberId c actor perms db = (Inr (), db')"
  shows "committee_in_line db' c"
  using assms(4)
proof
  assume run: "unseatMember roleId memberId c actor perms db = (Inr (), db')"
  then obtain userId where "requireSeatableAccount db memberId c = Inr userId"
    using assms(2) by (auto simp: unseatMember_def split: sum.splits)
  then have "db' = assignment_audit c actor userId [] [role_key r] (syncServiceCommitteeMembers c actor
      (db\<lparr>userRoleAssignments := delete_where (\<lambda>a. holds userId roleId a \<and> ura_congregationId a = c) (userRoleAssignments db)\<rparr>))"
    using run assms(2,3) by (auto simp: unseatMember_def Let_def elim!: guard_by_InrE)
  then show ?thesis using assms(1) by (auto intro!: sync_in_line seats_ok_rows)
next
  assume run: "seatMember roleId memberId kind c actor perms db = (Inr (), db')"
  define k where "k = (if kind \<noteq> ''deputy'' then ''leader'' else kind)"
  obtain userId where u: "requireSeatableAccount db memberId c = Inr userId"
    using run assms(2) by (auto simp: seatMember_def split: sum.splits if_splits)
  obtain x s handed where s: "write_seat userId roleId c k db = (Inr x, s)"
    and handed: "handed = (if k = ''leader'' then s\<lparr>userRoleAssignments :=
        delete_where (outgoing_leader roleId c userId) (userRoleAssignments s)\<rparr> else s)"
    and db': "db' = syncServiceCommitteeMembers c actor handed \<or>
      (\<exists>added. db' = seat_audit c actor userId added k (syncServiceCommitteeMembers c actor handed))"
    using seatMember_post [OF run assms(2,3) u] unfolding k_def by blast
  have "seats_ok handed c"
    using write_seat_ok [OF assms(1) s] by (auto simp: handed intro!: seats_ok_rows)
  then show ?thesis using db' sync_in_line by auto
qed

section \<open>The last admin through the committee\<close>

text \<open>
  One elder, the coordinator, whose seat on the committee is what makes his account an admin. The
  guard of the last admin looks at the post alone, which grants nothing, so leaving it takes the
  last admin of the congregation away.
\<close>

definition sample_seats :: db where
  "sample_seats = empty_db\<lparr>
     roles := [sample_role 1 SERVICE_COMMITTEE_KEY None, sample_role 2 ''coordinator'' (Some 1), sample_role 3 ''elder'' None],
     permissions := [\<lparr>perm_id = 1, perm_key = CanDoAnything\<rparr>],
     rolePermissions := [\<lparr>rp_roleId = 1, rp_permissionId = 1, rp_congregationId = 1\<rparr>],
     members := [sample_member 5],
     memberRoleAssignments := [\<lparr>mra_memberId = 5, mra_roleId = 3, mra_congregationId = 1\<rparr>],
     userAccounts := [sample_login 7 (Some 5)],
     userRoleAssignments := [grant 7 2 ''leader'' 1, grant 7 1 ''member'' 1]\<rparr>"

lemmas seat_eval = sample_seats_def sample_login_def sample_role_def sample_member_def empty_db_def grant_def
  requireRole_def requireSeatableAccount_def rolesGrantedBySeat_def role_key_defs is_role_def holds_def
  isAdminActor_def assertActorHoldsRolePermissions_def assertMayChangeAccountAccess_def roleGrantsAdmin_def
  CanDoAnything_def syncServiceCommitteeMembers_def committee_of_def post_ids_def titulaires_def holders_in_def
  create_missing_def map_filter_def js_set_def Let_def assignment_audit_def entity_audit_def audit_def

lemma sample_seats_ok: "seats_ok sample_seats 1"
  by (simp add: seats_ok_def seat_eval)

lemma sample_unseats:
  "\<exists>db'. unseatMember 2 5 1 7 {CanDoAnything} sample_seats = (Inr (), db') \<and> findAccountsWithPermission db' 1 CanDoAnything = []"
  by (simp add: unseatMember_def findAccountsWithPermission_def account_has_permission_def role_has_permission_def seat_eval)

lemma leaving_a_post_takes_the_last_admin_away:
  "requireNotLastAdmin sample_seats 7 1 \<noteq> None \<and>
   (\<exists>db'. unseatMember 2 5 1 7 {CanDoAnything} sample_seats = (Inr (), db') \<and> findAccountsWithPermission db' 1 CanDoAnything = [])"
  using sample_unseats
  by (simp add: requireNotLastAdmin_def findAccountsWithPermission_def account_has_permission_def role_has_permission_def seat_eval)

lemma committee_is_made_of_its_posts_witness:
  "\<exists>db'. unseatMember 2 5 1 7 {CanDoAnything} sample_seats = (Inr (), db') \<and> committee_in_line db' 1"
proof -
  obtain db' where run: "unseatMember 2 5 1 7 {CanDoAnything} sample_seats = (Inr (), db')"
    using sample_unseats by blast
  have r: "requireRole sample_seats 2 1 = Inr (sample_role 2 ''coordinator'' (Some 1))"
    by (simp add: seat_eval)
  have "isServiceCommitteePostKey (role_key (sample_role 2 ''coordinator'' (Some 1)))"
    by (simp add: sample_role_def role_key_defs)
  from committee_is_made_of_its_posts [OF sample_seats_ok r this disjI2 [OF run]] run show ?thesis by blast
qed

end
