(* ===== verification/Adoption.thy ===== *)
theory Adoption
  imports Seats Org_Layout Classes Organigram_Chart Seat_Laws
begin

text \<open>
  Adopting the standard service committee in place of the services a congregation had drawn by
  hand (\<^verbatim>\<open>shared/domain/organigram-adoption.server.ts\<close>).
\<close>

section \<open>The proposal\<close>

record AdoptionPost =
  ap_key :: string
  ap_name :: string
  ap_suggestedRoleId :: "int option"

record AdoptionCandidate =
  ac_id :: int
  ac_name :: string

record AdoptionProposal =
  alreadyAdopted :: bool
  posts :: "AdoptionPost list"
  candidates :: "AdoptionCandidate list"

definition POST_HINTS :: "(string \<times> string list) list" where
  "POST_HINTS =
     [(SERVICE_COMMITTEE_KEY, [''comite-de-service'', ''comite-service'', ''service-committee'']),
      (''coordinator'', [''coordinateur'', ''coordinator'', ''coordonnateur'']),
      (''secretary'', [''secretaire'', ''secretary'']),
      (''service-overseer'', [''surveillant-du-service'', ''surveillant-service'', ''responsable-de-la-predication'',
         ''responsable-pour-la-predication'', ''responsable-predication'', ''service-overseer''])]"

fun first_hint :: "string list \<Rightarrow> role list \<Rightarrow> int option" where
  "first_hint [] rs = None"
| "first_hint (hint # hints) rs =
     (case find (\<lambda>r. role_key r = hint) rs of
        Some r \<Rightarrow> Some (role_id r)
      | None \<Rightarrow>
          (case find (\<lambda>r. startsWith (role_key r) hint) rs of
             Some r \<Rightarrow> Some (role_id r)
           | None \<Rightarrow> first_hint hints rs))"

definition bestMatch :: "string \<Rightarrow> role list \<Rightarrow> int option" where
  "bestMatch postKey rs =
     first_hint (js_sort (\<lambda>a b. int (length b) - int (length a))
       (case map_of POST_HINTS postKey of Some hints \<Rightarrow> hints | None \<Rightarrow> [])) rs"

text \<open>The roles of the congregation; \<^verbatim>\<open>byKey\<close> and \<^verbatim>\<open>byId\<close> are maps built from them, the last entry of a key wins.\<close>

definition congregation_roles :: "db \<Rightarrow> int \<Rightarrow> role list" where
  "congregation_roles db congregationId = filter (\<lambda>r. role_congregationId r = congregationId) (roles db)"

definition by_key :: "role list \<Rightarrow> string \<Rightarrow> role option" where
  "by_key rs key = find (\<lambda>r. role_key r = key) (rev rs)"

definition by_id :: "role list \<Rightarrow> int \<Rightarrow> role option" where
  "by_id rs i = find (\<lambda>r. role_id r = i) (rev rs)"

definition adoption_candidates :: "role list \<Rightarrow> role list" where
  "adoption_candidates rs = filter (\<lambda>r. role_showInOrganigram r \<and> \<not> isAppointedRoleKey (role_key r)) rs"

definition proposeCommitteeAdoption :: "i18n \<Rightarrow> db \<Rightarrow> int \<Rightarrow> AdoptionProposal" where
  "proposeCommitteeAdoption loc db congregationId =
     (let rs = congregation_roles db congregationId
      in if (case find (\<lambda>r. role_key r = SERVICE_COMMITTEE_KEY) rs of Some committee \<Rightarrow> role_showInOrganigram committee | None \<Rightarrow> False)
         then \<lparr>alreadyAdopted = True, posts = [], candidates = []\<rparr>
         else
           (let found = adoption_candidates rs
            in \<lparr>alreadyAdopted = False,
                posts = map (\<lambda>key. \<lparr>ap_key = key, ap_name = getRoleDisplayName loc key None,
                  ap_suggestedRoleId = bestMatch key found\<rparr>) APPOINTED_ROLE_KEYS,
                candidates = map (\<lambda>r. \<lparr>ac_id = role_id r, ac_name = getRoleDisplayName loc (role_key r) (role_name r)\<rparr>) found\<rparr>))"

section \<open>Carrying one service over to its post\<close>

definition copy_permissions :: "int \<Rightarrow> int \<Rightarrow> int \<Rightarrow> role_permission list \<Rightarrow> role_permission list" where
  "copy_permissions sourceId targetId congregationId rps =
     rps @ filter (\<lambda>rp. \<not> list_ex (\<lambda>old. rp_roleId old = targetId \<and> rp_permissionId old = rp_permissionId rp) rps)
       (map (\<lambda>rp. \<lparr>rp_roleId = targetId, rp_permissionId = rp_permissionId rp, rp_congregationId = congregationId\<rparr>)
         (filter (\<lambda>rp. rp_roleId rp = sourceId \<and> rp_congregationId rp = congregationId) rps))"

definition incoming_holder :: "db \<Rightarrow> int \<Rightarrow> int \<Rightarrow> user_role_assignment option" where
  "incoming_holder db sourceId congregationId =
     (let holders = filter (\<lambda>a. ura_roleId a = sourceId \<and> ura_congregationId a = congregationId) (userRoleAssignments db)
      in case find (\<lambda>a. ura_kind a = ''leader'') holders of
           Some a \<Rightarrow> Some a
         | None \<Rightarrow> (case holders of a # _ \<Rightarrow> Some a | [] \<Rightarrow> None))"

definition move_holder :: "int \<Rightarrow> int \<Rightarrow> int \<Rightarrow> user_role_assignment \<Rightarrow> db \<Rightarrow> (db, unit) outcome" where
  "move_holder sourceId targetId congregationId incoming db =
     chain (insert_grants [grant (ura_userId incoming) targetId ''leader'' congregationId] db) (\<lambda>_ seated.
       (Inr (), seated\<lparr>userRoleAssignments :=
          delete_where (\<lambda>a. holds (ura_userId incoming) sourceId a \<and> ura_congregationId a = congregationId)
            (userRoleAssignments seated)\<rparr>))"

definition rehang :: "int \<Rightarrow> int \<Rightarrow> int \<Rightarrow> role list \<Rightarrow> role list" where
  "rehang sourceId targetId congregationId =
     update_where (\<lambda>r. role_congregationId r = congregationId \<and> role_parentRoleId r = Some sourceId)
       (\<lambda>r. r\<lparr>role_parentRoleId := Some targetId\<rparr>)"

definition take_off_chart :: "int \<Rightarrow> int \<Rightarrow> role list \<Rightarrow> role list" where
  "take_off_chart sourceId congregationId =
     update_where (is_role sourceId congregationId)
       (\<lambda>r. r\<lparr>role_showInOrganigram := False, role_parentRoleId := None, role_organigramOrder := None\<rparr>)"

definition carryOver :: "int \<Rightarrow> int \<Rightarrow> int \<Rightarrow> bool \<Rightarrow> db \<Rightarrow> (db, unit) outcome" where
  "carryOver sourceId targetId congregationId moveHolder db =
     (let copied = db\<lparr>rolePermissions := copy_permissions sourceId targetId congregationId (rolePermissions db)\<rparr>;
          incoming = (if moveHolder then incoming_holder copied sourceId congregationId else None)
      in chain (case incoming of None \<Rightarrow> (Inr (), copied) | Some a \<Rightarrow> move_holder sourceId targetId congregationId a copied)
           (\<lambda>_ moved. (Inr (), moved\<lparr>roles :=
              take_off_chart sourceId congregationId (rehang sourceId targetId congregationId (roles moved))\<rparr>)))"

section \<open>Adopting\<close>

record AdoptionChoice =
  postKey :: string
  fromRoleId :: "int option"

fun check_choices :: "AdoptionChoice list \<Rightarrow> string list \<Rightarrow> app_error option" where
  "check_choices [] seenPosts = None"
| "check_choices (choice # choices) seenPosts =
     (if \<not> isAppointedRoleKey (postKey choice) then Some (ValidationError ''postKey'' ''unknownPost'')
      else if postKey choice \<in> set seenPosts then Some (ValidationError ''postKey'' ''duplicatePost'')
      else check_choices choices (postKey choice # seenPosts))"

fun resolve_mappings :: "role list \<Rightarrow> AdoptionChoice list \<Rightarrow> app_error + (role \<times> role) list" where
  "resolve_mappings rs [] = Inr []"
| "resolve_mappings rs (choice # choices) =
     (case fromRoleId choice of
        None \<Rightarrow> resolve_mappings rs choices
      | Some i \<Rightarrow>
          (case (by_key rs (postKey choice), by_id rs i) of
             (Some target, Some source) \<Rightarrow>
               if isAppointedRoleKey (role_key source) then Inl (ForbiddenError ''notTakenOver'')
               else (case resolve_mappings rs choices of Inl e \<Rightarrow> Inl e | Inr rest \<Rightarrow> Inr ((target, source) # rest))
           | _ \<Rightarrow> Inl (NotFoundError ''Role'' (Some i))))"

definition place :: "int \<Rightarrow> int \<Rightarrow> int option \<Rightarrow> int \<Rightarrow> role list \<Rightarrow> role list" where
  "place congregationId i parentRoleId order =
     update_where (is_role i congregationId)
       (\<lambda>r. r\<lparr>role_showInOrganigram := True, role_parentRoleId := parentRoleId, role_organigramOrder := Some order\<rparr>)"

fun place_posts :: "role list \<Rightarrow> int \<Rightarrow> int \<Rightarrow> nat \<Rightarrow> string list \<Rightarrow> role list \<Rightarrow> role list" where
  "place_posts rs congregationId committeeId index [] now = now"
| "place_posts rs congregationId committeeId index (key # keys) now =
     place_posts rs congregationId committeeId (Suc index) keys
       (case by_key rs key of
          Some post \<Rightarrow> place congregationId (role_id post) (Some committeeId) ((int index + 1) * ORDER_STEP) now
        | None \<Rightarrow> now)"

fun carry_all :: "int \<Rightarrow> (role \<times> role) list \<Rightarrow> db \<Rightarrow> (db, unit) outcome" where
  "carry_all congregationId [] db = (Inr (), db)"
| "carry_all congregationId ((target, source) # mappings) db =
     chain (carryOver (role_id source) (role_id target) congregationId (role_key target \<noteq> SERVICE_COMMITTEE_KEY) db)
       (\<lambda>_. carry_all congregationId mappings)"

definition json_choice :: "AdoptionChoice \<Rightarrow> json" where
  "json_choice choice = JObj [(''postKey'', JStr (postKey choice)), (''fromRoleId'', json_opt (fromRoleId choice))]"

definition adoptServiceCommittee ::
  "AdoptionChoice list \<Rightarrow> int \<Rightarrow> int \<Rightarrow> string set \<Rightarrow> db \<Rightarrow> (db, unit) outcome" where
  "adoptServiceCommittee choices congregationId actorId actorPermissions db =
     guard_by (check_choices choices []) db
       (let rs = congregation_roles db congregationId
        in case by_key rs SERVICE_COMMITTEE_KEY of
             None \<Rightarrow> (Inl (NotFoundError ''Role'' (Some 0)), db)
           | Some committee \<Rightarrow>
               if role_showInOrganigram committee then (Inl (ConflictError ''alreadyAdopted''), db)
               else
                 (case resolve_mappings rs choices of
                    Inl e \<Rightarrow> (Inl e, db)
                  | Inr mappings \<Rightarrow>
                      guard_by
                        (if length mappings > 0
                         then assertActorHoldsRolePermissions db
                                (js_set (concat (map (\<lambda>(target, source). [role_id target, role_id source]) mappings) @ [role_id committee]))
                                congregationId actorPermissions
                         else None) db
                        (let placed = place_posts rs congregationId (role_id committee) 0 SERVICE_COMMITTEE_POST_KEYS
                               (place congregationId (role_id committee) (map_option role_id (by_key rs ''elder'')) ORDER_STEP (roles db))
                         in chain (carry_all congregationId mappings (db\<lparr>roles := placed\<rparr>)) (\<lambda>_ carried.
                              (Inr (), entity_audit ''organigram.changed'' congregationId actorId ''Role'' (role_id committee)
                                 (Some [(''change'', JStr ''committee-adopted''),
                                        (''mapped'', JArr (map json_choice (filter (\<lambda>choice. fromRoleId choice \<noteq> None) choices)))])
                                 (syncServiceCommitteeMembers congregationId actorId carried))))))"

section \<open>What an adoption promises\<close>

text \<open>
  An adoption is refused before it writes anything, ends with a committee made of its posts, and
  loops the chart when the service taken over is the root itself.
\<close>

subsection \<open>Refusals\<close>

lemma move_holder_Inl:
  assumes "move_holder s t c a db = (Inl e, db')"
  shows "\<exists>x. e = DatabaseError x"
  using assms by (auto simp: move_holder_def insert_grants_def chain_def split: if_splits)

lemma carryOver_Inl:
  assumes "carryOver s t c m db = (Inl e, db')"
  shows "\<exists>x. e = DatabaseError x"
proof -
  have "\<exists>copied a db''. move_holder s t c a copied = (Inl e, db'')"
    using assms by (auto simp: carryOver_def Let_def chain_def split: option.splits sum.splits prod.splits if_splits)
  then show ?thesis using move_holder_Inl by blast
qed

lemma carry_all_Inl:
  assumes "carry_all c ms db = (Inl e, db')"
  shows "\<exists>x. e = DatabaseError x"
  using assms
proof (induction c ms db rule: carry_all.induct)
  case (2 c target source ms db)
  then show ?case
    by (cases "carryOver (role_id source) (role_id target) c (role_key target \<noteq> SERVICE_COMMITTEE_KEY) db"; cases "fst (carryOver (role_id source) (role_id target) c (role_key target \<noteq> SERVICE_COMMITTEE_KEY) db)")
      (auto dest: carryOver_Inl)
qed simp

lemma carried_never_refused:
  assumes "chain (carry_all c ms placed) (\<lambda>_ d. (Inr (), s d)) = (Inl e, db')"
  shows "\<exists>x. e = DatabaseError x"
  using assms carry_all_Inl by (auto simp: chain_def split: sum.splits prod.splits)

text \<open>
  C16. The adoption page commits whatever an application error leaves behind, and nothing is left:
  every refusal of an adoption, whatever its form asked, comes before its first write.
\<close>

theorem adoption_refuses_before_it_writes:
  assumes "adoptServiceCommittee choices c actor perms db = (Inl e, db')" and "\<forall>x. e \<noteq> DatabaseError x"
  shows "db' = db"
  using assms unfolding adoptServiceCommittee_def Let_def
  by (auto simp: guard_by_def split: option.splits if_splits sum.splits dest!: carried_never_refused)

subsection \<open>The committee that comes out\<close>

lemma seats_ok_update:
  assumes "\<And>r. role_id (f r) = role_id r" and "\<And>r. role_congregationId (f r) = role_congregationId r"
  shows "seats_ok (db\<lparr>roles := update_where P f rs\<rparr>) c = seats_ok (db\<lparr>roles := rs\<rparr>) c"
proof -
  have "role_id (if P r then f r else r) = role_id r" "role_congregationId (if P r then f r else r) = role_congregationId r" for r
    using assms by simp_all
  then show ?thesis by (simp add: seats_ok_def update_where_def list.pred_map comp_def)
qed

lemma carryOver_frame:
  assumes "carryOver s t c m db = (Inr x, db')" and "seats_ok db c"
  shows "seats_ok db' c"
proof -
  obtain y moved where moved: "db' = moved\<lparr>roles := take_off_chart s c (rehang s t c (roles moved))\<rparr>"
    and run: "(case if m then incoming_holder (db\<lparr>rolePermissions := copy_permissions s t c (rolePermissions db)\<rparr>) s c else None of
        None \<Rightarrow> (Inr (), db\<lparr>rolePermissions := copy_permissions s t c (rolePermissions db)\<rparr>)
      | Some a \<Rightarrow> move_holder s t c a (db\<lparr>rolePermissions := copy_permissions s t c (rolePermissions db)\<rparr>)) = (Inr y, moved)"
    using assms(1) unfolding carryOver_def Let_def by (elim chain_InrE) (rule that [rotated], assumption, simp)
  have step: "(Inr y, moved) = (Inr () :: app_error + unit, db\<lparr>rolePermissions := copy_permissions s t c (rolePermissions db)\<rparr>) \<or>
      (\<exists>a. move_holder s t c a (db\<lparr>rolePermissions := copy_permissions s t c (rolePermissions db)\<rparr>) = (Inr y, moved))"
    using run by (auto split: option.splits)
  have "seats_ok moved c"
    using step
  proof
    assume "\<exists>a. move_holder s t c a (db\<lparr>rolePermissions := copy_permissions s t c (rolePermissions db)\<rparr>) = (Inr y, moved)"
    then obtain a where "move_holder s t c a (db\<lparr>rolePermissions := copy_permissions s t c (rolePermissions db)\<rparr>) = (Inr y, moved)" ..
    then obtain q where "q = db\<lparr>rolePermissions := copy_permissions s t c (rolePermissions db),
          userRoleAssignments := userRoleAssignments db @ [grant (ura_userId a) t ''leader'' c]\<rparr>"
      and "moved = q\<lparr>userRoleAssignments := delete_where (\<lambda>b. holds (ura_userId a) s b \<and> ura_congregationId b = c) (userRoleAssignments q)\<rparr>"
      unfolding move_holder_def by (elim chain_InrE) (drule insert_grants_Inr, simp)
    then show ?thesis using assms(2) by (auto simp: seats_ok_def list_all_iff grant_def)
  qed (use assms(2) in \<open>simp add: seats_ok_def\<close>)
  then show ?thesis
    by (simp add: moved take_off_chart_def rehang_def seats_ok_update)
qed

lemma carry_all_frame:
  assumes "carry_all c ms db = (Inr x, db')" and "seats_ok db c"
  shows "seats_ok db' c"
  using assms
proof (induction c ms db rule: carry_all.induct)
  case (2 c target source ms db)
  from 2(2) obtain y s where s: "carryOver (role_id source) (role_id target) c (role_key target \<noteq> SERVICE_COMMITTEE_KEY) db = (Inr y, s)"
    "carry_all c ms s = (Inr x, db')"
    by (auto elim!: chain_InrE)
  show ?case by (rule 2(1) [OF s(2) carryOver_frame [OF s(1) 2(3)]])
qed simp

lemma seats_ok_place [simp]: "seats_ok (db\<lparr>roles := place c i p k rs\<rparr>) d = seats_ok (db\<lparr>roles := rs\<rparr>) d"
  by (simp add: place_def seats_ok_update)

lemma seats_ok_place_posts [simp]: "seats_ok (db\<lparr>roles := place_posts rs c m n ks now\<rparr>) d = seats_ok (db\<lparr>roles := now\<rparr>) d"
  by (induction rs c m n ks now rule: place_posts.induct) (simp_all split: option.splits)

text \<open>
  Adopting the committee ends with a committee made of exactly the titulaires of its posts,
  whatever services its form mapped.
\<close>

theorem adoption_forms_the_committee:
  assumes "adoptServiceCommittee choices c actor perms db = (Inr x, db')" and "seats_ok db c"
  shows "committee_in_line db' c"
proof -
  define start where "start committee = db\<lparr>roles := place_posts (congregation_roles db c) c (role_id committee) 0 SERVICE_COMMITTEE_POST_KEYS
      (place c (role_id committee) (map_option role_id (by_key (congregation_roles db c) ''elder'')) ORDER_STEP (roles db))\<rparr>"
    for committee :: role
  obtain committee where "by_key (congregation_roles db c) SERVICE_COMMITTEE_KEY = Some committee"
    using assms(1) by (auto simp: adoptServiceCommittee_def Let_def elim!: guard_by_InrE split: option.splits)
  moreover obtain ms where "resolve_mappings (congregation_roles db c) choices = Inr ms"
    using assms(1) calculation by (auto simp: adoptServiceCommittee_def Let_def elim!: guard_by_InrE split: sum.splits if_splits)
  ultimately obtain m where run: "chain (carry_all c ms (start committee)) (\<lambda>_ carried. (Inr (),
      entity_audit ''organigram.changed'' c actor ''Role'' (role_id committee) m (syncServiceCommitteeMembers c actor carried))) = (Inr x, db')"
    using assms(1) unfolding adoptServiceCommittee_def start_def
    by (auto elim!: guard_by_InrE simp: Let_def split: if_split_asm)
  from run obtain y carried where carried: "carry_all c ms (start committee) = (Inr y, carried)"
    and db': "entity_audit ''organigram.changed'' c actor ''Role'' (role_id committee) m (syncServiceCommitteeMembers c actor carried) = db'"
    by (elim chain_InrE) simp
  have "seats_ok (start committee) c" using assms(2) by (simp add: start_def)
  then have "seats_ok carried c" using carry_all_frame [OF carried] by blast
  then show ?thesis using sync_in_line unfolding db' [symmetric] by simp
qed

subsection \<open>Taking the root over\<close>

text \<open>
  The page offers every service of the chart that is not one of the four posts, the elders among
  them. Taking the elders over as the coordinator hangs the committee, whose parent they are, under
  the coordinator, whose parent is the committee.
\<close>

definition sample_chart :: db where
  "sample_chart = empty_db\<lparr>
     roles := [sample_role 1 ''elder'' None,
               (sample_role 2 SERVICE_COMMITTEE_KEY None)\<lparr>role_showInOrganigram := False\<rparr>,
               (sample_role 3 ''coordinator'' None)\<lparr>role_showInOrganigram := False\<rparr>]\<rparr>"

lemma taking_the_root_over_loops_the_chart:
  "map ac_id (candidates (proposeCommitteeAdoption loc sample_chart 1)) = [1] \<and>
   (\<exists>db'. adoptServiceCommittee [\<lparr>postKey = ''coordinator'', fromRoleId = Some 1\<rparr>] 1 9 {CanDoAnything} sample_chart = (Inr (), db') \<and>
      (2, 3) \<in> chart_edges db' 1 \<and> (3, 2) \<in> chart_edges db' 1)"
  unfolding chart_edges_iff
  by (simp add: sample_chart_def empty_db_def sample_role_def proposeCommitteeAdoption_def congregation_roles_def adoption_candidates_def
      adoptServiceCommittee_def by_key_def by_id_def place_def carryOver_def copy_permissions_def incoming_holder_def
      take_off_chart_def rehang_def is_role_def Let_def role_key_defs isAdminActor_def assertActorHoldsRolePermissions_def
      update_where_def entity_audit_def audit_def syncServiceCommitteeMembers_def committee_of_def post_ids_def titulaires_def holders_in_def js_set_def map_filter_def)

lemma small_chart_ok: "chart_ok sample_chart 1"
proof -
  have "chart_edges sample_chart 1 = {}" by (auto simp: chart_edges_iff sample_chart_def empty_db_def sample_role_def)
  moreover have "({} :: (int \<times> int) set) ^^ MAX_ORGANIGRAM_DEPTH = {}" by (simp add: MAX_ORGANIGRAM_DEPTH_def numeral_eq_Suc)
  ultimately show ?thesis by (simp add: chart_ok_def) (auto simp: sample_chart_def empty_db_def sample_role_def)
qed

lemma sample_chart_adopts:
  "\<exists>db'. adoptServiceCommittee [\<lparr>postKey = ''coordinator'', fromRoleId = Some 1\<rparr>] 1 9 {CanDoAnything} sample_chart = (Inr (), db')"
  using taking_the_root_over_loops_the_chart by blast

lemma adoption_forms_the_committee_witness:
  "\<exists>db'. adoptServiceCommittee [\<lparr>postKey = ''coordinator'', fromRoleId = Some 1\<rparr>] 1 9 {CanDoAnything} sample_chart = (Inr (), db') \<and>
     committee_in_line db' 1"
proof -
  obtain db' where run: "adoptServiceCommittee [\<lparr>postKey = ''coordinator'', fromRoleId = Some 1\<rparr>] 1 9 {CanDoAnything} sample_chart = (Inr (), db')"
    using sample_chart_adopts by blast
  have "seats_ok sample_chart 1" by (simp add: seats_ok_def sample_chart_def empty_db_def sample_role_def)
  from adoption_forms_the_committee [OF run this] run show ?thesis by blast
qed

lemma adoption_refuses_before_it_writes_witness:
  "adoptServiceCommittee [\<lparr>postKey = ''admin'', fromRoleId = Some 1\<rparr>] 1 9 {} sample_chart =
     (Inl (ValidationError ''postKey'' ''unknownPost''), sample_chart)"
proof -
  have run: "fst (adoptServiceCommittee [\<lparr>postKey = ''admin'', fromRoleId = Some 1\<rparr>] 1 9 {} sample_chart) =
      Inl (ValidationError ''postKey'' ''unknownPost'')"
    by (simp add: adoptServiceCommittee_def role_key_defs)
  then obtain db' where *: "adoptServiceCommittee [\<lparr>postKey = ''admin'', fromRoleId = Some 1\<rparr>] 1 9 {} sample_chart =
      (Inl (ValidationError ''postKey'' ''unknownPost''), db')"
    by (metis prod.collapse)
  from adoption_refuses_before_it_writes [OF *] * show ?thesis by simp
qed

end
