(* ===== verification/Settings.thy ===== *)
theory Settings
  imports Database
begin

text \<open>
  Congregation settings (\<^verbatim>\<open>app/shared/domain/settings.server.ts\<close>): one text value per key and
  congregation, read with a default by the features and written by an update-or-create.
\<close>

definition getSetting :: "db \<Rightarrow> string \<Rightarrow> int \<Rightarrow> string option" where
  "getSetting db key congregationId =
     map_option set_value (find (\<lambda>s. set_key s = key \<and> set_congregationId s = congregationId) (settings db))"

definition getBoolSetting :: "db \<Rightarrow> string \<Rightarrow> int \<Rightarrow> bool" where
  "getBoolSetting db key congregationId = (getSetting db key congregationId = Some ''true'')"

text \<open>An empty value is ignored, so a setting can never be blanked through this function.\<close>

definition setSetting :: "env \<Rightarrow> string \<Rightarrow> string \<Rightarrow> int \<Rightarrow> db \<Rightarrow> (db, unit) outcome" where
  "setSetting ev key val congregationId db =
     (if length val < 1 then (Inr (), db)
      else (case find (\<lambda>s. set_key s = key \<and> set_congregationId s = congregationId) (settings db) of
          Some existing \<Rightarrow>
            (Inr (), db\<lparr>settings := update_where
               (\<lambda>s. set_id s = set_id existing \<and> set_congregationId s = congregationId)
               (\<lambda>s. s\<lparr>set_value := val\<rparr>) (settings db)\<rparr>)
        | None \<Rightarrow>
            (Inr (), db\<lparr>settings := settings db @
               [\<lparr>set_id = env_setting_id ev (settings db), set_key = key, set_value = val,
                  set_congregationId = congregationId\<rparr>]\<rparr>)))"

text \<open>The table's keys: the primary key, and one row per key and congregation.\<close>

definition settings_wf :: "db \<Rightarrow> bool" where
  "settings_wf db \<longleftrightarrow>
     distinct (map set_id (settings db)) \<and>
     distinct (map (\<lambda>s. (set_key s, set_congregationId s)) (settings db))"

lemma getSetting_iff:
  assumes "settings_wf db"
  shows "getSetting db key c = Some v \<longleftrightarrow>
     (\<exists>s \<in> set (settings db). set_key s = key \<and> set_congregationId s = c \<and> set_value s = v)"
  using assms find_unique_iff [of "\<lambda>s. (set_key s, set_congregationId s)" "settings db" "(key, c)"]
  by (auto simp: getSetting_def settings_wf_def)

lemma setSetting_wf:
  assumes "settings_wf db" and "fresh_keys ev"
  shows "settings_wf (snd (setSetting ev key val c db))"
  using assms
  by (auto simp: setSetting_def settings_wf_def map_update_where fresh_keys_def find_None_iff_all
      split: option.splits)

lemma getSetting_setSetting:
  assumes wf: "settings_wf db" and "fresh_keys ev" and "val \<noteq> []"
  shows "getSetting (snd (setSetting ev key val c db)) key' c' =
     (if key' = key \<and> c' = c then Some val else getSetting db key' c')"
proof (rule option_eqI)
  fix v
  let ?db' = "snd (setSetting ev key val c db)"
  have wf': "settings_wf ?db'" using assms(1,2) by (rule setSetting_wf)
  show "getSetting ?db' key' c' = Some v \<longleftrightarrow>
     (if key' = key \<and> c' = c then Some val else getSetting db key' c') = Some v"
  proof (cases "find (\<lambda>s. set_key s = key \<and> set_congregationId s = c) (settings db)")
    case None
    then show ?thesis
      using assms(3) by (auto simp: setSetting_def getSetting_def find_append split: option.splits)
  next
    case (Some s0)
    then have s0: "s0 \<in> set (settings db)" "set_key s0 = key" "set_congregationId s0 = c"
      using find_Some_in by fastforce+
    have id: "\<And>s. s \<in> set (settings db) \<Longrightarrow> set_id s = set_id s0 \<longleftrightarrow> set_key s = key \<and> set_congregationId s = c"
      using wf s0 by (auto simp: settings_wf_def distinct_map inj_on_def)
    have "settings ?db' = update_where (\<lambda>s. set_id s = set_id s0 \<and> set_congregationId s = c)
        (\<lambda>s. s\<lparr>set_value := val\<rparr>) (settings db)"
      using Some assms(3) by (simp add: setSetting_def)
    then show ?thesis
      using s0 id by (auto simp: getSetting_iff [OF wf] getSetting_iff [OF wf'] bex_update_where split: if_splits)
  qed
qed

end
