(* ===== verification/Campaign_Queries.thy ===== *)
theory Campaign_Queries
  imports Settings
begin

text \<open>
  The read side of publishing campaigns: lifecycle status
  (\<^verbatim>\<open>territories/model/campaign-status.ts\<close>), the form's preview of the transitions
  (\<^verbatim>\<open>campaign-preview.ts\<close>) and the queries of \<^verbatim>\<open>campaign.queries.ts\<close>. A campaign with its
  scope is the row paired with the territories of its scope.
\<close>

section \<open>Lifecycle status\<close>

datatype CampaignStatus = Scheduled | Active | Ended

definition getCampaignStatus :: "campaign \<Rightarrow> CampaignStatus" where
  "getCampaignStatus c =
     (if camp_endedAt c \<noteq> None then Ended
      else if camp_activatedAt c \<noteq> None then Active
      else Scheduled)"

lemma getCampaignStatus_iff:
  "getCampaignStatus c = Active \<longleftrightarrow> camp_activatedAt c \<noteq> None \<and> camp_endedAt c = None"
  "getCampaignStatus c = Ended \<longleftrightarrow> camp_endedAt c \<noteq> None"
  "getCampaignStatus c = Scheduled \<longleftrightarrow> camp_activatedAt c = None \<and> camp_endedAt c = None"
  by (auto simp: getCampaignStatus_def)

section \<open>Preview of the configured transitions\<close>

datatype preview_start = PreviewPause | PreviewReassign | PreviewClose | PreviewLeave

datatype preview_end =
  PreviewCloseCampaign | PreviewLeaveCampaignOpen | PreviewResume | PreviewKeepPaused | PreviewCloseRegulars

definition previewCampaignLifecycle ::
  "CampaignRegularStartAction \<Rightarrow> bool \<Rightarrow> bool \<Rightarrow> CampaignRegularEndAction \<Rightarrow>
     preview_start list \<times> preview_end list" where
  "previewCampaignLifecycle startRegularAction startAutoReassign endCloseCampaign endRegularAction =
     ((case startRegularAction of
         StartPause \<Rightarrow> [PreviewPause] @ (if startAutoReassign then [PreviewReassign] else [])
       | StartClose \<Rightarrow> [PreviewClose]
       | StartLeave \<Rightarrow> [PreviewLeave]),
      (if endCloseCampaign then PreviewCloseCampaign else PreviewLeaveCampaignOpen) #
      (if startRegularAction = StartPause then
         (case endRegularAction of
            EndResume \<Rightarrow> [PreviewResume]
          | EndKeepPaused \<Rightarrow> [PreviewKeepPaused]
          | EndClose \<Rightarrow> [PreviewCloseRegulars])
       else []))"

section \<open>Queries\<close>

type_synonym CampaignWithScope = "campaign \<times> int list"

definition scope_of :: "db \<Rightarrow> campaign \<Rightarrow> int list" where
  "scope_of db c = map ct_territoryId
     (filter (\<lambda>s. ct_campaignId s = camp_id c \<and> ct_congregationId s = camp_congregationId c)
        (campaignTerritories db))"

definition with_scope :: "db \<Rightarrow> campaign \<Rightarrow> CampaignWithScope" where
  "with_scope db c = (c, scope_of db c)"

definition is_active :: "int \<Rightarrow> campaign \<Rightarrow> bool" where
  "is_active congregationId c \<longleftrightarrow>
     camp_congregationId c = congregationId \<and> camp_activatedAt c \<noteq> None \<and> camp_endedAt c = None"

definition getActiveCampaign :: "db \<Rightarrow> int \<Rightarrow> CampaignWithScope option" where
  "getActiveCampaign db congregationId =
     map_option (with_scope db) (find (is_active congregationId) (campaigns db))"

definition due_to_activate :: "int \<Rightarrow> int \<Rightarrow> campaign \<Rightarrow> bool" where
  "due_to_activate congregationId now c \<longleftrightarrow>
     camp_congregationId c = congregationId \<and> camp_activatedAt c = None \<and> camp_endedAt c = None \<and>
     camp_startDate c \<le> now"

definition getCampaignsDueToActivate :: "db \<Rightarrow> int \<Rightarrow> int \<Rightarrow> CampaignWithScope list" where
  "getCampaignsDueToActivate db congregationId now =
     map (with_scope db) (filter (due_to_activate congregationId now) (campaigns db))"

definition due_to_end :: "env \<Rightarrow> int \<Rightarrow> int \<Rightarrow> campaign \<Rightarrow> bool" where
  "due_to_end ev congregationId now c \<longleftrightarrow>
     is_active congregationId c \<and>
     (case startOfDay (env_zone ev) now of
        InvalidDate \<Rightarrow> False | Date startOfToday \<Rightarrow> camp_endDate c < startOfToday)"

definition getCampaignsDueToEnd :: "env \<Rightarrow> db \<Rightarrow> int \<Rightarrow> int \<Rightarrow> CampaignWithScope list" where
  "getCampaignsDueToEnd ev db congregationId now =
     map (with_scope db) (filter (due_to_end ev congregationId now) (campaigns db))"

definition listAllTerritoryIds :: "db \<Rightarrow> int \<Rightarrow> int list" where
  "listAllTerritoryIds db congregationId =
     map terr_id (filter (\<lambda>t. terr_congregationId t = congregationId) (territories db))"

text \<open>Newest window first, with the size of the scope.\<close>

definition listCampaigns :: "db \<Rightarrow> int \<Rightarrow> (campaign \<times> nat) list" where
  "listCampaigns db congregationId =
     map (\<lambda>c. (c, length (scope_of db c)))
       (js_sort (\<lambda>a b. camp_startDate b - camp_startDate a)
          (filter (\<lambda>c. camp_congregationId c = congregationId) (campaigns db)))"

definition getCampaign :: "db \<Rightarrow> int \<Rightarrow> int \<Rightarrow> CampaignWithScope option" where
  "getCampaign db i congregationId =
     map_option (with_scope db)
       (find (\<lambda>c. camp_id c = i \<and> camp_congregationId c = congregationId) (campaigns db))"

definition getUpcomingCampaign :: "db \<Rightarrow> int \<Rightarrow> int \<Rightarrow> campaign option" where
  "getUpcomingCampaign db congregationId now =
     (case js_sort (\<lambda>a b. camp_startDate a - camp_startDate b)
             (filter (\<lambda>c. camp_congregationId c = congregationId \<and> camp_activatedAt c = None \<and>
                camp_endedAt c = None \<and> now \<le> camp_endDate c) (campaigns db))
      of [] \<Rightarrow> None | c # _ \<Rightarrow> Some c)"

section \<open>Facts shared by the aggregates\<close>

lemma getActiveCampaign_None:
  "getActiveCampaign db cong = None \<longleftrightarrow> (\<forall>c \<in> set (campaigns db). \<not> is_active cong c)"
  by (simp add: getActiveCampaign_def find_None_iff_all)

lemma getActiveCampaign_Some:
  assumes "getActiveCampaign db cong = Some (c, scope)"
  shows "c \<in> set (campaigns db)" and "is_active cong c" and "scope = scope_of db c"
  using assms find_Some_in [of "is_active cong" "campaigns db"]
  by (auto simp: getActiveCampaign_def with_scope_def)

text \<open>The head of a sorted list is minimal, so the upcoming campaign starts first.\<close>

lemma hd_insert_by:
  assumes "\<And>a b. cmp a b = f a - (f b :: int)" and "\<forall>y \<in> set ys. f (hd ys) \<le> f y"
  shows "\<forall>y \<in> set (insert_by cmp x ys). f (hd (insert_by cmp x ys)) \<le> f y"
  using assms by (cases ys) force+

lemma hd_js_sort:
  assumes "\<And>a b. cmp a b = f a - (f b :: int)"
  shows "\<forall>y \<in> set (js_sort cmp xs). f (hd (js_sort cmp xs)) \<le> f y"
proof (induction xs)
  case Nil
  then show ?case by simp
next
  case (Cons x xs)
  show ?case unfolding js_sort_Cons by (rule hd_insert_by [OF assms Cons.IH])
qed

lemma getUpcomingCampaign_Some:
  assumes "getUpcomingCampaign db cong now = Some c"
  shows "c \<in> set (campaigns db)" and "getCampaignStatus c = Scheduled" and "now \<le> camp_endDate c"
    and "d \<in> set (campaigns db) \<Longrightarrow> camp_congregationId d = cong \<Longrightarrow> getCampaignStatus d = Scheduled \<Longrightarrow>
         now \<le> camp_endDate d \<Longrightarrow> camp_startDate c \<le> camp_startDate d"
proof -
  let ?p = "\<lambda>c. camp_congregationId c = cong \<and> camp_activatedAt c = None \<and> camp_endedAt c = None \<and> now \<le> camp_endDate c"
  let ?xs = "js_sort (\<lambda>a b. camp_startDate a - camp_startDate b) (filter ?p (campaigns db))"
  obtain rest where xs: "?xs = c # rest"
    using assms by (auto simp: getUpcomingCampaign_def split: list.splits)
  then have "c \<in> set ?xs" by simp
  then show "c \<in> set (campaigns db)" "getCampaignStatus c = Scheduled" "now \<le> camp_endDate c"
    by (auto simp: getCampaignStatus_iff)
  have "\<forall>y \<in> set ?xs. camp_startDate (hd ?xs) \<le> camp_startDate y"
    by (rule hd_js_sort) simp
  moreover assume "d \<in> set (campaigns db)" "camp_congregationId d = cong"
    "getCampaignStatus d = Scheduled" "now \<le> camp_endDate d"
  then have "d \<in> set ?xs" by (auto simp: getCampaignStatus_iff)
  ultimately show "camp_startDate c \<le> camp_startDate d" using xs by auto
qed

end
