(* ===== verification/Attribution.thy ===== *)
theory Attribution
  imports Campaign_Queries
begin

text \<open>
  Territory attributions (\<^verbatim>\<open>territories/server/attribution.aggregate.ts\<close>): who holds which
  territory over which interval. The aggregate's invariant is that two attributions of the
  same publisher, territory and layer (regular work, or one campaign) never overlap.
\<close>

section \<open>Intervals\<close>

text \<open>An interval of \<^verbatim>\<open>attributionsOverlap\<close>; no end date means still open.\<close>

type_synonym interval = "jsdate \<times> jsdate option"

definition ends_after :: "interval \<Rightarrow> interval \<Rightarrow> bool" where
  "ends_after a b = (case snd a of None \<Rightarrow> True | Some e \<Rightarrow> date_le (fst b) e)"

definition attributionsOverlap :: "interval \<Rightarrow> interval \<Rightarrow> bool" where
  "attributionsOverlap a b \<longleftrightarrow> ends_after a b \<and> ends_after b a"

definition row_interval :: "attribution \<Rightarrow> interval" where
  "row_interval r = (Date (attr_startDate r), map_option Date (attr_endDate r))"

lemma attributionsOverlap_sym: "attributionsOverlap a b = attributionsOverlap b a"
  by (auto simp: attributionsOverlap_def)

section \<open>How long an attribution may last\<close>

definition parsePositiveDays :: "string option \<Rightarrow> rat \<Rightarrow> rat" where
  "parsePositiveDays v fallback =
     (case v of
        None \<Rightarrow> fallback
      | Some s \<Rightarrow>
          if s = [] then fallback
          else (case js_number s of None \<Rightarrow> fallback | Some n \<Rightarrow> if 0 < n then n else fallback))"

definition resolveDurationDays :: "db \<Rightarrow> TerritoryAttributionKind \<Rightarrow> TerritoryKindKey \<Rightarrow> int \<Rightarrow> rat" where
  "resolveDurationDays db attributionType territoryType congregationId =
     (if attributionType = PhoneKind then
        parsePositiveDays (getSetting db ''attribution-phone-duration-days'' congregationId) 14
      else if territoryType = Commerces then
        parsePositiveDays (getSetting db ''attribution-commerce-duration-days'' congregationId) 120
      else
        (case getSetting db ''attribution-default-duration-days'' congregationId of
           Some (c # cs) \<Rightarrow> parsePositiveDays (Some (c # cs)) 120
         | _ \<Rightarrow>
             (case getSetting db ''attribution-default-duration-months'' congregationId of
                Some (c # cs) \<Rightarrow>
                  (let months = parsePositiveDays (Some (c # cs)) 0
                   in if 0 < months then months * 30 else 120)
              | _ \<Rightarrow> 120)))"

lemma parsePositiveDays_pos: "0 < fallback \<Longrightarrow> 0 < parsePositiveDays v fallback"
  by (auto simp: parsePositiveDays_def split: option.splits)

lemma resolveDurationDays_pos: "0 < resolveDurationDays db k t c"
  by (auto simp: resolveDurationDays_def Let_def parsePositiveDays_pos split: option.splits list.splits)

section \<open>The overlap check\<close>

definition overlap_candidate ::
  "int \<Rightarrow> int \<Rightarrow> int \<Rightarrow> int option \<Rightarrow> int option \<Rightarrow> attribution \<Rightarrow> bool" where
  "overlap_candidate congregationId publisherId territoryId campaignId excludeId r \<longleftrightarrow>
     attr_congregationId r = congregationId \<and> attr_publisherId r = publisherId \<and>
     attr_territoryId r = territoryId \<and> attr_campaignId r = campaignId \<and>
     Some (attr_id r) \<noteq> excludeId"

definition assertNoActiveOverlap ::
  "db \<Rightarrow> int \<Rightarrow> int \<Rightarrow> int \<Rightarrow> interval \<Rightarrow> int option \<Rightarrow> int option \<Rightarrow> app_error option" where
  "assertNoActiveOverlap db congregationId publisherId territoryId candidate campaignId excludeId =
     (case find (\<lambda>existing. attributionsOverlap candidate (row_interval existing))
             (filter (overlap_candidate congregationId publisherId territoryId campaignId excludeId)
                (attributions db))
      of Some _ \<Rightarrow> Some (ConflictError ''attribution_overlap'') | None \<Rightarrow> None)"

lemma assertNoActiveOverlap_None:
  "assertNoActiveOverlap db cong pub terr cand camp excl = None \<longleftrightarrow>
   (\<forall>r \<in> set (attributions db). overlap_candidate cong pub terr camp excl r \<longrightarrow>
      \<not> attributionsOverlap cand (row_interval r))"
  by (auto simp: assertNoActiveOverlap_def find_None_iff_all split: option.splits dest!: find_Some_in)

lemma assertNoActiveOverlap_Some:
  "assertNoActiveOverlap db cong pub terr cand camp excl = Some e \<Longrightarrow> e = ConflictError ''attribution_overlap''"
  by (auto simp: assertNoActiveOverlap_def split: option.splits)

section \<open>Assigning a territory\<close>

record CreateAttributionParams =
  cap_publisherId :: int
  cap_territoryId :: int
  cap_startDate :: string
  cap_notes :: string
  cap_type :: TerritoryAttributionKind
  cap_campaignId :: "int option"
  cap_congregationId :: int
  cap_actorId :: int

text \<open>\<^verbatim>\<open>db.attribution.create\<close>: dates must be valid and the foreign keys must exist.\<close>

definition attribution_keys_exist :: "CreateAttributionParams \<Rightarrow> db \<Rightarrow> bool" where
  "attribution_keys_exist p db \<longleftrightarrow>
     (\<exists>m \<in> set (members db). mem_id m = cap_publisherId p) \<and>
     (\<exists>t \<in> set (territories db). terr_id t = cap_territoryId p) \<and>
     (case cap_campaignId p of None \<Rightarrow> True | Some cid \<Rightarrow>
        (\<exists>c \<in> set (campaigns db). camp_id c = cid \<and> camp_congregationId c = cap_congregationId p))"

definition new_attribution :: "env \<Rightarrow> CreateAttributionParams \<Rightarrow> int \<Rightarrow> int \<Rightarrow> db \<Rightarrow> attribution" where
  "new_attribution ev p startDate lateDate db =
     \<lparr>attr_id = env_attribution_id ev (attributions db), attr_type = cap_type p,
      attr_publisherId = cap_publisherId p, attr_territoryId = cap_territoryId p,
      attr_startDate = startDate, attr_endDate = None, attr_lateDate = lateDate,
      attr_notes = cap_notes p, attr_campaignId = cap_campaignId p,
      attr_pausedAt = None, attr_pausedByCampaignId = None,
      attr_congregationId = cap_congregationId p\<rparr>"

definition create_attribution ::
  "env \<Rightarrow> CreateAttributionParams \<Rightarrow> jsdate \<Rightarrow> jsdate \<Rightarrow> db \<Rightarrow> (db, attribution) outcome" where
  "create_attribution ev p startDate lateDate db =
     (case (startDate, lateDate) of
        (Date s, Date l) \<Rightarrow>
          if attribution_keys_exist p db
          then (Inr (new_attribution ev p s l db),
                db\<lparr>attributions := attributions db @ [new_attribution ev p s l db]\<rparr>)
          else (Inl (DatabaseError ForeignKeyViolation), db)
      | _ \<Rightarrow> (Inl (DatabaseError InvalidValue), db))"

text \<open>Campaign mode: regular work only outside campaigns, campaign work only for the active one.\<close>

definition campaign_mode_guard :: "int option \<Rightarrow> CampaignWithScope option \<Rightarrow> app_error option" where
  "campaign_mode_guard campaignId activeCampaign =
     (case campaignId of
        None \<Rightarrow> (if activeCampaign \<noteq> None then Some (ConflictError ''campaign_mode_active'') else None)
      | Some cid \<Rightarrow>
          (case activeCampaign of
             None \<Rightarrow> Some (ConflictError ''campaign_not_active'')
           | Some (c, _) \<Rightarrow> if camp_id c \<noteq> cid then Some (ConflictError ''campaign_not_active'') else None))"

definition territory_occupied :: "db \<Rightarrow> int \<Rightarrow> int \<Rightarrow> bool" where
  "territory_occupied db congregationId territoryId \<longleftrightarrow>
     (\<exists>r \<in> set (attributions db). attr_congregationId r = congregationId \<and>
        attr_territoryId r = territoryId \<and> attr_endDate r = None \<and> attr_pausedAt r = None)"

definition late_date ::
  "env \<Rightarrow> db \<Rightarrow> CreateAttributionParams \<Rightarrow> CampaignWithScope option \<Rightarrow> territory \<Rightarrow> jsdate \<Rightarrow> jsdate" where
  "late_date ev db p activeCampaign territory startDate =
     (case (cap_campaignId p, activeCampaign) of
        (Some _, Some (c, _)) \<Rightarrow>
          if camp_endCloseCampaign c then startOfNextDay (env_zone ev) (camp_endDate c)
          else add_local_days (env_zone ev) startDate
                 (floor (resolveDurationDays db (cap_type p) (terr_type territory) (cap_congregationId p)))
      | _ \<Rightarrow> add_local_days (env_zone ev) startDate
                 (floor (resolveDurationDays db (cap_type p) (terr_type territory) (cap_congregationId p))))"

definition assign :: "env \<Rightarrow> CreateAttributionParams \<Rightarrow> db \<Rightarrow> (db, attribution) outcome" where
  "assign ev p db =
     (let activeCampaign = getActiveCampaign db (cap_congregationId p)
      in guard_by (campaign_mode_guard (cap_campaignId p) activeCampaign) db
        (case find (\<lambda>t. terr_id t = cap_territoryId p \<and> terr_congregationId t = cap_congregationId p)
                (territories db) of
           None \<Rightarrow> (Inl (DatabaseError RecordNotFound), db)
         | Some territory \<Rightarrow>
             guard_by (if cap_campaignId p \<noteq> None \<and>
                          territory_occupied db (cap_congregationId p) (cap_territoryId p)
                       then Some (ConflictError ''territory_occupied'') else None) db
             (let startDate = parseLocalDate (env_zone ev) (cap_startDate p);
                  lateDate = late_date ev db p activeCampaign territory startDate
              in guard_by (assertNoActiveOverlap db (cap_congregationId p) (cap_publisherId p)
                             (cap_territoryId p) (startDate, None) (cap_campaignId p) None) db
                 (chain (create_attribution ev p startDate lateDate db) (\<lambda>attribution db.
                    (Inr attribution,
                     entity_audit ''attribution.created'' (cap_congregationId p) (cap_actorId p)
                       ''Attribution'' (attr_id attribution)
                       (Some [(''publisherId'', JNum (cap_publisherId p)),
                              (''territoryId'', JNum (cap_territoryId p))]) db))))))"

section \<open>Editing, returning and archiving\<close>

record UpdateAttributionParams =
  uap_publisherId :: int
  uap_notes :: string
  uap_type :: TerritoryAttributionKind
  uap_startDate :: int
  uap_lateDate :: "int option"
  uap_endDate :: "int option"

definition is_attribution :: "int \<Rightarrow> int \<Rightarrow> attribution \<Rightarrow> bool" where
  "is_attribution i congregationId r \<longleftrightarrow> attr_id r = i \<and> attr_congregationId r = congregationId"

definition orelse_old :: "'a option \<Rightarrow> 'a option \<Rightarrow> 'a option" where
  "orelse_old new old = (case new of Some v \<Rightarrow> Some v | None \<Rightarrow> old)"

text \<open>The columns an edit writes; an absent late or end date leaves the column as it is.\<close>

definition apply_update :: "UpdateAttributionParams \<Rightarrow> attribution \<Rightarrow> attribution" where
  "apply_update params r =
     r\<lparr>attr_publisherId := uap_publisherId params, attr_notes := uap_notes params,
       attr_type := uap_type params, attr_startDate := uap_startDate params,
       attr_lateDate := (case uap_lateDate params of Some l \<Rightarrow> l | None \<Rightarrow> attr_lateDate r),
       attr_endDate := orelse_old (uap_endDate params) (attr_endDate r)\<rparr>"

text \<open>\<^verbatim>\<open>db.attribution.update\<close> by primary key and congregation: the row must exist.\<close>

definition update_attribution ::
  "int \<Rightarrow> int \<Rightarrow> (attribution \<Rightarrow> attribution) \<Rightarrow> db \<Rightarrow> (db, attribution) outcome" where
  "update_attribution i congregationId f db =
     (case find (is_attribution i congregationId) (attributions db) of
        None \<Rightarrow> (Inl (DatabaseError RecordNotFound), db)
      | Some r \<Rightarrow> (Inr (f r), db\<lparr>attributions := update_where (is_attribution i congregationId) f (attributions db)\<rparr>))"

definition update :: "int \<Rightarrow> int \<Rightarrow> int \<Rightarrow> UpdateAttributionParams \<Rightarrow> db \<Rightarrow> (db, attribution) outcome" where
  "update i congregationId actorId params db =
     (case find (is_attribution i congregationId) (attributions db) of
        None \<Rightarrow> (Inl (NotFoundError ''Attribution'' None), db)
      | Some existing \<Rightarrow>
          (let nextStart = uap_startDate params;
               nextEnd = orelse_old (uap_endDate params) (attr_endDate existing);
               publisherChanged = (uap_publisherId params \<noteq> attr_publisherId existing);
               startChanged = (nextStart \<noteq> attr_startDate existing);
               endChanged = (nextEnd \<noteq> attr_endDate existing)
           in guard_by
                (if publisherChanged \<or> startChanged \<or> endChanged
                 then assertNoActiveOverlap db congregationId (uap_publisherId params)
                        (attr_territoryId existing) (Date nextStart, map_option Date nextEnd)
                        (attr_campaignId existing) (Some i)
                 else None) db
              (chain (update_attribution i congregationId (apply_update params) db) (\<lambda>attribution db.
                 (Inr attribution,
                  entity_audit ''attribution.updated'' congregationId actorId ''Attribution'' i None db)))))"

definition markReturned :: "int \<Rightarrow> int \<Rightarrow> int \<Rightarrow> int \<Rightarrow> db \<Rightarrow> (db, attribution) outcome" where
  "markReturned i endDate congregationId actorId db =
     chain (update_attribution i congregationId (\<lambda>r. r\<lparr>attr_endDate := Some endDate\<rparr>) db) (\<lambda>attribution db.
       (Inr attribution,
        entity_audit ''attribution.updated'' congregationId actorId ''Attribution'' i
          (Some [(''markedReturned'', JBool True)]) db))"

definition held_by :: "int \<Rightarrow> int \<Rightarrow> attribution \<Rightarrow> bool" where
  "held_by publisherId congregationId r \<longleftrightarrow>
     attr_publisherId r = publisherId \<and> attr_congregationId r = congregationId \<and> attr_endDate r = None"

definition audit_all ::
  "string \<Rightarrow> int \<Rightarrow> int \<Rightarrow> (string \<times> json) list \<Rightarrow> int list \<Rightarrow> db \<Rightarrow> db" where
  "audit_all action congregationId actorId metadata ids db =
     fold (\<lambda>i. entity_audit action congregationId actorId ''Attribution'' i (Some metadata)) ids db"

definition markReturnedForPublisher :: "int \<Rightarrow> int \<Rightarrow> int \<Rightarrow> int \<Rightarrow> db \<Rightarrow> (db, nat) outcome" where
  "markReturnedForPublisher publisherId endDate congregationId actorId db =
     (let open_rows = filter (held_by publisherId congregationId) (attributions db)
      in if open_rows = [] then (Inr 0, db)
         else (Inr (length open_rows),
               audit_all ''attribution.updated'' congregationId actorId
                 [(''markedReturned'', JBool True), (''bulk'', JBool True)] (map attr_id open_rows)
                 (db\<lparr>attributions := update_where (held_by publisherId congregationId)
                    (\<lambda>r. r\<lparr>attr_endDate := Some endDate\<rparr>) (attributions db)\<rparr>)))"

definition archive :: "int \<Rightarrow> int \<Rightarrow> int \<Rightarrow> db \<Rightarrow> (db, attribution) outcome" where
  "archive i congregationId actorId db =
     (case find (is_attribution i congregationId) (attributions db) of
        None \<Rightarrow> (Inl (DatabaseError RecordNotFound), db)
      | Some r \<Rightarrow>
          (Inr r,
           entity_audit ''attribution.deleted'' congregationId actorId ''Attribution'' i None
             (db\<lparr>attributions := delete_where (is_attribution i congregationId) (attributions db)\<rparr>)))"

section \<open>The aggregate's invariant\<close>

text \<open>Two rows are in the same layer when the overlap check compares them.\<close>

definition same_layer :: "attribution \<Rightarrow> attribution \<Rightarrow> bool" where
  "same_layer r s \<longleftrightarrow>
     attr_congregationId r = attr_congregationId s \<and> attr_publisherId r = attr_publisherId s \<and>
     attr_territoryId r = attr_territoryId s \<and> attr_campaignId r = attr_campaignId s"

definition attr_conflict :: "attribution \<Rightarrow> attribution \<Rightarrow> bool" where
  "attr_conflict r s \<longleftrightarrow> same_layer r s \<and> attributionsOverlap (row_interval r) (row_interval s)"

abbreviation rows_ok :: "attribution list \<Rightarrow> bool" where
  "rows_ok \<equiv> exclusive attr_id attr_conflict"

definition attr_inv :: "db \<Rightarrow> bool" where
  "attr_inv db \<longleftrightarrow> rows_ok (attributions db)"

lemma same_layer_sym: "same_layer r s = same_layer s r"
  by (auto simp: same_layer_def)

interpretation attr_table: exclusive_rows attr_id attr_conflict
  by unfold_locales (simp add: attr_conflict_def same_layer_sym attributionsOverlap_sym)

text \<open>
  A row shrinks when it keeps its key, layer and start and does not end later: closing,
  pausing and resuming all shrink, and shrinking never creates an overlap.
\<close>

definition shrinks :: "attribution \<Rightarrow> attribution \<Rightarrow> bool" where
  "shrinks r r' \<longleftrightarrow>
     attr_id r' = attr_id r \<and> same_layer r' r \<and> attr_startDate r' = attr_startDate r \<and>
     (case attr_endDate r of None \<Rightarrow> True | Some e \<Rightarrow> (\<exists>e'. attr_endDate r' = Some e' \<and> e' \<le> e))"

lemma shrinks_refl [simp]: "shrinks r r"
  by (auto simp: shrinks_def same_layer_def split: option.splits)

lemma shrinks_ends_after:
  assumes "shrinks r r'" and "shrinks s s'" and "ends_after (row_interval r') (row_interval s')"
  shows "ends_after (row_interval r) (row_interval s)"
  using assms by (auto simp: shrinks_def ends_after_def row_interval_def split: option.splits)

lemma shrinks_overlap:
  "shrinks r r' \<Longrightarrow> shrinks s s' \<Longrightarrow> attributionsOverlap (row_interval r') (row_interval s') \<Longrightarrow>
   attributionsOverlap (row_interval r) (row_interval s)"
  unfolding attributionsOverlap_def using shrinks_ends_after by blast

lemma shrinks_layer:
  "shrinks r r' \<Longrightarrow> shrinks s s' \<Longrightarrow> same_layer r' s' \<Longrightarrow> same_layer r s"
  by (auto simp: shrinks_def same_layer_def)

lemma shrinks_conflict: "shrinks r r' \<Longrightarrow> shrinks s s' \<Longrightarrow> attr_conflict r' s' \<Longrightarrow> attr_conflict r s"
  unfolding attr_conflict_def using shrinks_layer shrinks_overlap by blast

lemma rows_ok_update_where:
  assumes "rows_ok rows" and shr: "\<And>r. r \<in> set rows \<Longrightarrow> p r \<Longrightarrow> shrinks r (f r)"
  shows "rows_ok (update_where p f rows)"
proof (rule attr_table.update_no_new [OF assms(1)])
  show "attr_id (f r) = attr_id r" if "r \<in> set rows" "p r" for r
    using shr [OF that] by (simp add: shrinks_def)
  show "attr_conflict r s" if "r \<in> set rows" "s \<in> set rows"
    "attr_conflict (if p r then f r else r) (if p s then f s else s)" for r s
    using that(3) by (rule shrinks_conflict [rotated 2]) (use shr that(1,2) in simp_all)
qed

lemma audit_all_frame [simp]:
  "attributions (audit_all a c u m ids d) = attributions d"
  "campaigns (audit_all a c u m ids d) = campaigns d"
  "campaignTerritories (audit_all a c u m ids d) = campaignTerritories d"
  "territories (audit_all a c u m ids d) = territories d"
  "settings (audit_all a c u m ids d) = settings d"
  "members (audit_all a c u m ids d) = members d"
  "length (auditLog (audit_all a c u m ids d)) = length (auditLog d) + length ids"
  unfolding audit_all_def by (induction ids arbitrary: d) (simp_all add: entity_audit_def)

section \<open>What assigning does\<close>

text \<open>A thrown error leaves every table as it was; no error comes after a write.\<close>

lemma create_attribution_Inl: "create_attribution ev p s l db = (Inl e, db') \<Longrightarrow> db' = db"
  by (auto simp: create_attribution_def split: jsdate.splits if_splits)

lemma create_attribution_Inr:
  assumes "create_attribution ev p s l db = (Inr row, db')"
  obtains s' l' where "s = Date s'" and "l = Date l'" and "attribution_keys_exist p db"
    and "row = new_attribution ev p s' l' db" and "db' = db\<lparr>attributions := attributions db @ [row]\<rparr>"
  using assms by (auto simp: create_attribution_def split: jsdate.splits if_splits)

lemma assign_Inl: "assign ev p db = (Inl e, db') \<Longrightarrow> db' = db"
  unfolding assign_def Let_def
  by (auto elim!: guard_by_InlE chain_InlE split: option.splits dest: create_attribution_Inl)

text \<open>What holds of the state and the result when a territory is assigned.\<close>

definition assigned :: "env \<Rightarrow> CreateAttributionParams \<Rightarrow> db \<Rightarrow> int \<Rightarrow> int \<Rightarrow> bool" where
  "assigned ev p db s l \<longleftrightarrow>
     campaign_mode_guard (cap_campaignId p) (getActiveCampaign db (cap_congregationId p)) = None \<and>
     (cap_campaignId p \<noteq> None \<longrightarrow> \<not> territory_occupied db (cap_congregationId p) (cap_territoryId p)) \<and>
     parseLocalDate (env_zone ev) (cap_startDate p) = Date s \<and>
     (\<exists>t \<in> set (territories db). terr_id t = cap_territoryId p \<and> terr_congregationId t = cap_congregationId p \<and>
        late_date ev db p (getActiveCampaign db (cap_congregationId p)) t (Date s) = Date l) \<and>
     assertNoActiveOverlap db (cap_congregationId p) (cap_publisherId p) (cap_territoryId p)
       (Date s, None) (cap_campaignId p) None = None \<and>
     attribution_keys_exist p db"

lemma assign_Inr:
  assumes "assign ev p db = (Inr row, db')"
  obtains s l where "assigned ev p db s l" and "row = new_attribution ev p s l db"
    and "db' = entity_audit ''attribution.created'' (cap_congregationId p) (cap_actorId p)
           ''Attribution'' (attr_id row)
           (Some [(''publisherId'', JNum (cap_publisherId p)), (''territoryId'', JNum (cap_territoryId p))])
           (db\<lparr>attributions := attributions db @ [row]\<rparr>)"
proof -
  let ?start = "parseLocalDate (env_zone ev) (cap_startDate p)"
  let ?active = "getActiveCampaign db (cap_congregationId p)"
  obtain t where t: "find (\<lambda>t. terr_id t = cap_territoryId p \<and> terr_congregationId t = cap_congregationId p)
      (territories db) = Some t"
    and g: "campaign_mode_guard (cap_campaignId p) ?active = None"
      "cap_campaignId p \<noteq> None \<longrightarrow> \<not> territory_occupied db (cap_congregationId p) (cap_territoryId p)"
      "assertNoActiveOverlap db (cap_congregationId p) (cap_publisherId p) (cap_territoryId p)
         (?start, None) (cap_campaignId p) None = None"
    and c: "chain (create_attribution ev p ?start (late_date ev db p ?active t ?start) db)
        (\<lambda>attribution db. (Inr attribution, entity_audit ''attribution.created'' (cap_congregationId p)
           (cap_actorId p) ''Attribution'' (attr_id attribution)
           (Some [(''publisherId'', JNum (cap_publisherId p)), (''territoryId'', JNum (cap_territoryId p))]) db))
        = (Inr row, db')"
    using assms unfolding assign_def Let_def
    by (auto elim!: guard_by_InrE split: option.splits if_splits)
  from c obtain s l where sl: "?start = Date s" "late_date ev db p ?active t ?start = Date l"
      "attribution_keys_exist p db" "row = new_attribution ev p s l db"
    and db': "db' = entity_audit ''attribution.created'' (cap_congregationId p) (cap_actorId p)
           ''Attribution'' (attr_id row)
           (Some [(''publisherId'', JNum (cap_publisherId p)), (''territoryId'', JNum (cap_territoryId p))])
           (db\<lparr>attributions := attributions db @ [row]\<rparr>)"
    by (auto elim!: chain_InrE create_attribution_Inr)
  have "assigned ev p db s l"
    using g sl find_Some_in [OF t] by (auto simp: assigned_def)
  then show ?thesis using that sl(4) db' by blast
qed

lemma new_attribution_fields [simp]:
  "attr_id (new_attribution ev p s l db) = env_attribution_id ev (attributions db)"
  "attr_congregationId (new_attribution ev p s l db) = cap_congregationId p"
  "attr_publisherId (new_attribution ev p s l db) = cap_publisherId p"
  "attr_territoryId (new_attribution ev p s l db) = cap_territoryId p"
  "attr_campaignId (new_attribution ev p s l db) = cap_campaignId p"
  "attr_startDate (new_attribution ev p s l db) = s"
  "attr_endDate (new_attribution ev p s l db) = None"
  "attr_lateDate (new_attribution ev p s l db) = l"
  "attr_pausedAt (new_attribution ev p s l db) = None"
  "attr_pausedByCampaignId (new_attribution ev p s l db) = None"
  by (simp_all add: new_attribution_def)

lemma attr_inv_assign:
  assumes "attr_inv db" and "fresh_keys ev"
  shows "attr_inv (snd (assign ev p db))"
proof (cases "assign ev p db")
  case (Pair r db')
  show ?thesis
  proof (cases r)
    case (Inl e)
    then show ?thesis using Pair assign_Inl assms(1) by fastforce
  next
    case (Inr row)
    with Pair obtain s l where a: "assigned ev p db s l" and row: "row = new_attribution ev p s l db"
      and db': "attributions db' = attributions db @ [row]"
      by (auto elim!: assign_Inr)
    have "rows_ok (attributions db @ [row])"
    proof (rule attr_table.snoc)
      show "rows_ok (attributions db)" using assms(1) by (simp add: attr_inv_def)
      show "attr_id row \<notin> attr_id ` set (attributions db)"
        using assms(2) row by (simp add: fresh_keys_def)
      fix r assume "r \<in> set (attributions db)"
      then show "\<not> attr_conflict row r"
        using a row by (auto simp: assigned_def assertNoActiveOverlap_None overlap_candidate_def
            attr_conflict_def same_layer_def row_interval_def)
    qed
    then show ?thesis using Pair db' by (simp add: attr_inv_def)
  qed
qed

section \<open>Editing keeps the layers disjoint\<close>

lemma update_attribution_Inl: "update_attribution i c f db = (Inl e, db') \<Longrightarrow> e = DatabaseError RecordNotFound \<and> db' = db"
  by (auto simp: update_attribution_def split: option.splits)

lemma update_attribution_Inr:
  assumes "update_attribution i c f db = (Inr row, db')"
  obtains r where "r \<in> set (attributions db)" and "is_attribution i c r" and "row = f r"
    and "db' = db\<lparr>attributions := update_where (is_attribution i c) f (attributions db)\<rparr>"
  using assms find_Some_in by (fastforce simp: update_attribution_def split: option.splits)

lemma apply_update_fields [simp]:
  "attr_id (apply_update params r) = attr_id r"
  "attr_congregationId (apply_update params r) = attr_congregationId r"
  "attr_publisherId (apply_update params r) = uap_publisherId params"
  "attr_territoryId (apply_update params r) = attr_territoryId r"
  "attr_campaignId (apply_update params r) = attr_campaignId r"
  "attr_startDate (apply_update params r) = uap_startDate params"
  "attr_endDate (apply_update params r) = orelse_old (uap_endDate params) (attr_endDate r)"
  by (simp_all add: apply_update_def)

lemma update_Inl: "update i c a params db = (Inl e, db') \<Longrightarrow> db' = db"
  unfolding update_def Let_def
  by (auto elim!: guard_by_InlE chain_InlE dest: update_attribution_Inl split: option.splits)

lemma attr_inv_update:
  assumes inv: "attr_inv db"
  shows "attr_inv (snd (update i c a params db))"
proof (cases "update i c a params db")
  case (Pair r db')
  show ?thesis
  proof (cases r)
    case (Inl e)
    then show ?thesis using Pair update_Inl inv by fastforce
  next
    case (Inr row)
    let ?f = "apply_update params"
    obtain r0 where r0: "find (is_attribution i c) (attributions db) = Some r0"
      and checked: "uap_publisherId params \<noteq> attr_publisherId r0 \<or> uap_startDate params \<noteq> attr_startDate r0 \<or>
          orelse_old (uap_endDate params) (attr_endDate r0) \<noteq> attr_endDate r0 \<longrightarrow>
        assertNoActiveOverlap db c (uap_publisherId params) (attr_territoryId r0)
          (row_interval (?f r0)) (attr_campaignId r0) (Some i) = None"
      and rows: "attributions db' = update_where (is_attribution i c) ?f (attributions db)"
      using Pair Inr unfolding update_def Let_def row_interval_def
      by (auto elim!: guard_by_InrE chain_InrE update_attribution_Inr split: option.splits if_splits)
    have r0': "r0 \<in> set (attributions db)" "attr_id r0 = i" "attr_congregationId r0 = c"
      using find_Some_in [OF r0] by (auto simp: is_attribution_def)
    have "rows_ok (update_where (is_attribution i c) ?f (attributions db))"
    proof (rule attr_table.replace)
      show ok: "rows_ok (attributions db)" using inv by (simp add: attr_inv_def)
      show "r0 \<in> set (attributions db)" by (fact r0'(1))
      show "r = r0" if "r \<in> set (attributions db)" "is_attribution i c r" for r
        using exclusive_unique [OF ok that(1) r0'(1)] that(2) r0'(2) by (simp add: is_attribution_def)
      show "attr_id (?f r0) = attr_id r0" by simp
    next
      fix s assume s: "s \<in> set (attributions db)" "attr_id s \<noteq> attr_id r0"
      show "\<not> attr_conflict (?f r0) s"
      proof (cases "assertNoActiveOverlap db c (uap_publisherId params) (attr_territoryId r0)
          (row_interval (?f r0)) (attr_campaignId r0) (Some i) = None")
        case True
        then show ?thesis
          using s r0' by (auto simp: assertNoActiveOverlap_None overlap_candidate_def attr_conflict_def same_layer_def)
      next
        case False
        then have "row_interval (?f r0) = row_interval r0" "same_layer (?f r0) s = same_layer r0 s"
          using checked by (auto simp: row_interval_def same_layer_def)
        then have "attr_conflict (?f r0) s = attr_conflict r0 s" by (simp add: attr_conflict_def)
        then show ?thesis using inv s r0'(1) by (simp add: attr_inv_def exclusive_def)
      qed
    qed
    then show ?thesis using Pair rows by (simp add: attr_inv_def)
  qed
qed

section \<open>Returning\<close>

lemma attr_inv_markReturnedForPublisher:
  "attr_inv db \<Longrightarrow> attr_inv (snd (markReturnedForPublisher pub t c a db))"
  by (auto simp: markReturnedForPublisher_def attr_inv_def Let_def held_by_def shrinks_def same_layer_def
      intro!: rows_ok_update_where)

lemma attr_inv_archive: "attr_inv db \<Longrightarrow> attr_inv (snd (archive i c a db))"
  by (auto simp: archive_def attr_inv_def attr_table.delete split: option.splits)

text \<open>Returning a held attribution keeps the invariant; the code sets the end date without a check.\<close>

lemma attr_inv_markReturned:
  assumes "attr_inv db"
    and "\<And>r. r \<in> set (attributions db) \<Longrightarrow> is_attribution i c r \<Longrightarrow>
           attr_endDate r = None \<or> (\<exists>e. attr_endDate r = Some e \<and> t \<le> e)"
  shows "attr_inv (snd (markReturned i t c a db))"
proof (cases "update_attribution i c (\<lambda>r. r\<lparr>attr_endDate := Some t\<rparr>) db")
  case (Pair r db')
  show ?thesis
  proof (cases r)
    case (Inl e)
    then have "db' = db" using Pair update_attribution_Inl by blast
    then show ?thesis using Pair Inl assms(1) by (simp add: markReturned_def)
  next
    case (Inr row)
    have "rows_ok (update_where (is_attribution i c) (\<lambda>r. r\<lparr>attr_endDate := Some t\<rparr>) (attributions db))"
    proof (rule rows_ok_update_where)
      show "rows_ok (attributions db)" using assms(1) by (simp add: attr_inv_def)
      fix r assume "r \<in> set (attributions db)" "is_attribution i c r"
      from assms(2) [OF this] show "shrinks r (r\<lparr>attr_endDate := Some t\<rparr>)"
        by (auto simp: shrinks_def same_layer_def)
    qed
    then show ?thesis
      using Pair Inr by (auto simp: markReturned_def attr_inv_def elim!: update_attribution_Inr)
  qed
qed

section \<open>A concrete instance\<close>

definition sample_assign :: CreateAttributionParams where
  "sample_assign = \<lparr>cap_publisherId = 2, cap_territoryId = 8, cap_startDate = ''2026-01-15'', cap_notes = [],
     cap_type = DefaultKind, cap_campaignId = None, cap_congregationId = 1, cap_actorId = 1\<rparr>"

lemmas assign_eval = assign_def sample_assign_def campaign_mode_guard_def getActiveCampaign_def late_date_def
  resolveDurationDays_def parsePositiveDays_def getSetting_def assertNoActiveOverlap_def overlap_candidate_def
  create_attribution_def attribution_keys_exist_def new_attribution_def utc_env_def next_key_def date_eval
  territory_occupied_def with_scope_def scope_of_def is_active_def sample_defs

lemma sample_assign_ok:
  "fst (assign utc_env sample_assign sample_db) =
     Inr (sample_attribution 6 2 8 1768435200000 1778803200000)"
  by (simp add: assign_eval)

lemma sample_inv: "attr_inv sample_db"
  by (simp add: attr_inv_def exclusive_def sample_defs)

text \<open>
  A publisher returned a territory and took it again. Returning the first attribution a second
  time, with a date inside the second one, makes the two overlap.
\<close>

definition returned_twice_db :: db where
  "returned_twice_db = sample_db\<lparr>attributions :=
     [(sample_attribution 5 1 7 1000 90000)\<lparr>attr_endDate := Some 2000\<rparr>, sample_attribution 6 1 7 3000 90000]\<rparr>"

lemma late_return_overlaps:
  "attr_inv returned_twice_db \<and> \<not> attr_inv (snd (markReturned 5 4000 1 1 returned_twice_db))"
proof
  show "attr_inv returned_twice_db"
    by (auto simp: returned_twice_db_def attr_inv_def exclusive_def sample_defs attr_conflict_def same_layer_def
        attributionsOverlap_def ends_after_def row_interval_def)
  show "\<not> attr_inv (snd (markReturned 5 4000 1 1 returned_twice_db))"
    by (auto simp: returned_twice_db_def attr_inv_def exclusive_def sample_defs attr_conflict_def same_layer_def
        attributionsOverlap_def ends_after_def row_interval_def markReturned_def
        update_attribution_def is_attribution_def)
qed

section \<open>Properties\<close>

text \<open>
  C1. Assigning, editing, returning a publisher's territories and archiving never let two
  attributions of the same publisher, territory and layer overlap: they keep the primary keys
  distinct and the intervals disjoint, whether they succeed or throw. The single return
  \<^verbatim>\<open>markReturned\<close> writes its end date without a check, and keeps them disjoint when the
  attribution it closes is open or was recorded as ending no earlier than the date given;
  \<open>late_return_overlaps\<close> shows that it does not for a later date.
\<close>

theorem aggregate_keeps_layers_disjoint:
  assumes "attr_inv db" and "fresh_keys ev"
  shows "attr_inv (snd (assign ev p db)) \<and> attr_inv (snd (update i c a params db)) \<and>
    attr_inv (snd (markReturnedForPublisher pub t c a db)) \<and> attr_inv (snd (archive i c a db)) \<and>
    ((\<forall>r \<in> set (attributions db). is_attribution i c r \<longrightarrow>
        attr_endDate r = None \<or> (\<exists>e. attr_endDate r = Some e \<and> t \<le> e)) \<longrightarrow>
      attr_inv (snd (markReturned i t c a db)))"
  using assms attr_inv_markReturned [OF assms(1)]
  by (simp add: attr_inv_assign attr_inv_update attr_inv_markReturnedForPublisher attr_inv_archive)

lemma aggregate_keeps_layers_disjoint_witness:
  "attributions (snd (assign utc_env sample_assign sample_db)) =
     [sample_attribution 5 1 7 1000 90000, sample_attribution 6 2 8 1768435200000 1778803200000] \<and>
   attr_inv (snd (assign utc_env sample_assign sample_db)) \<and>
   attr_inv (snd (markReturned 5 80000 1 1 sample_db))"
proof (intro conjI)
  show "attributions (snd (assign utc_env sample_assign sample_db)) =
     [sample_attribution 5 1 7 1000 90000, sample_attribution 6 2 8 1768435200000 1778803200000]"
    by (simp add: assign_eval)
  show "attr_inv (snd (assign utc_env sample_assign sample_db))"
    using aggregate_keeps_layers_disjoint [OF sample_inv fresh_utc_env] by blast
  have "attr_endDate r = None" if "r \<in> set (attributions sample_db)" for r
    using that by (simp add: sample_defs)
  then show "attr_inv (snd (markReturned 5 80000 1 1 sample_db))"
    using aggregate_keeps_layers_disjoint [OF sample_inv fresh_utc_env] by blast
qed

text \<open>
  C7. An assignment that succeeds respects campaign mode: regular work is only ever created
  while no campaign of the congregation is active, and campaign work only for the campaign
  that is active, on a territory that nobody is working. The new attribution is open, not
  paused, and is the only row added.
\<close>

theorem assign_respects_campaign_mode:
  assumes "assign ev p db = (Inr row, db')"
  shows "(attr_campaignId row = None \<longrightarrow> (\<forall>c \<in> set (campaigns db). \<not> is_active (cap_congregationId p) c))
    \<and> (\<forall>cid. attr_campaignId row = Some cid \<longrightarrow>
         (\<exists>c \<in> set (campaigns db). camp_id c = cid \<and> is_active (cap_congregationId p) c) \<and>
         \<not> territory_occupied db (cap_congregationId p) (cap_territoryId p))
    \<and> attributions db' = attributions db @ [row] \<and> attr_endDate row = None \<and> attr_pausedAt row = None"
proof -
  from assms obtain s l where a: "assigned ev p db s l" and row: "row = new_attribution ev p s l db"
    and db': "attributions db' = attributions db @ [row]"
    by (auto elim!: assign_Inr)
  have guard: "campaign_mode_guard (cap_campaignId p) (getActiveCampaign db (cap_congregationId p)) = None"
    and free: "cap_campaignId p \<noteq> None \<longrightarrow> \<not> territory_occupied db (cap_congregationId p) (cap_territoryId p)"
    using a by (auto simp: assigned_def)
  have regular: "cap_campaignId p = None \<Longrightarrow> \<forall>c \<in> set (campaigns db). \<not> is_active (cap_congregationId p) c"
    using guard getActiveCampaign_None [of db "cap_congregationId p"]
    by (cases "getActiveCampaign db (cap_congregationId p)") (simp_all add: campaign_mode_guard_def)
  have campaign: "\<exists>c \<in> set (campaigns db). camp_id c = cid \<and> is_active (cap_congregationId p) c"
    if cid: "cap_campaignId p = Some cid" for cid
  proof -
    obtain c sc where "getActiveCampaign db (cap_congregationId p) = Some (c, sc)" "camp_id c = cid"
      using guard cid by (auto simp: campaign_mode_guard_def split: option.splits if_splits)
    then show ?thesis using getActiveCampaign_Some by blast
  qed
  show ?thesis
    using regular campaign free row db' by simp
qed

lemma assign_respects_campaign_mode_witness:
  "\<exists>row db'. assign utc_env sample_assign sample_db = (Inr row, db') \<and>
     attr_campaignId row = None \<and> attributions db' = attributions sample_db @ [row] \<and>
     (\<forall>c \<in> set (campaigns sample_db). \<not> is_active 1 c)"
proof -
  obtain row db' where run: "assign utc_env sample_assign sample_db = (Inr row, db')"
    and row: "row = sample_attribution 6 2 8 1768435200000 1778803200000"
    using sample_assign_ok by (cases "assign utc_env sample_assign sample_db") simp
  have reg: "attr_campaignId row = None" "cap_congregationId sample_assign = 1"
    by (simp_all add: row sample_attribution_def sample_assign_def)
  have "\<forall>c \<in> set (campaigns sample_db). \<not> is_active 1 c" "attributions db' = attributions sample_db @ [row]"
    using assign_respects_campaign_mode [OF run] reg by simp_all
  then show ?thesis using run reg by blast
qed

text \<open>
  Assigning fails with the error the code names, in the order of its checks: a regular
  assignment during a campaign and a campaign assignment outside its campaign are refused
  first, then an unknown territory, then an occupied one, then an overlap; a refused
  assignment changes no row and leaves no audit entry.
\<close>

theorem assign_errors:
  "(cap_campaignId p = None \<and> getActiveCampaign db (cap_congregationId p) \<noteq> None \<longrightarrow>
      assign ev p db = (Inl (ConflictError ''campaign_mode_active''), db)) \<and>
   (cap_campaignId p = Some cid \<and> (\<forall>c \<in> set (campaigns db). is_active (cap_congregationId p) c \<longrightarrow> camp_id c \<noteq> cid) \<longrightarrow>
      assign ev p db = (Inl (ConflictError ''campaign_not_active''), db)) \<and>
   (cap_campaignId p = None \<and> getActiveCampaign db (cap_congregationId p) = None \<and>
      (\<forall>t \<in> set (territories db). terr_id t = cap_territoryId p \<longrightarrow> terr_congregationId t \<noteq> cap_congregationId p) \<longrightarrow>
      assign ev p db = (Inl (DatabaseError RecordNotFound), db)) \<and>
   (fst (assign ev p db) = Inl e \<longrightarrow> snd (assign ev p db) = db)"
proof (intro conjI impI)
  assume "cap_campaignId p = None \<and> getActiveCampaign db (cap_congregationId p) \<noteq> None"
  then show "assign ev p db = (Inl (ConflictError ''campaign_mode_active''), db)"
    by (simp add: assign_def Let_def campaign_mode_guard_def)
next
  assume *: "cap_campaignId p = Some cid \<and>
    (\<forall>c \<in> set (campaigns db). is_active (cap_congregationId p) c \<longrightarrow> camp_id c \<noteq> cid)"
  then have "campaign_mode_guard (cap_campaignId p) (getActiveCampaign db (cap_congregationId p))
      = Some (ConflictError ''campaign_not_active'')"
    using getActiveCampaign_Some(1,2) [of db "cap_congregationId p"]
    by (auto simp: campaign_mode_guard_def split: option.splits)
  then show "assign ev p db = (Inl (ConflictError ''campaign_not_active''), db)"
    by (simp add: assign_def Let_def)
next
  assume "cap_campaignId p = None \<and> getActiveCampaign db (cap_congregationId p) = None \<and>
    (\<forall>t \<in> set (territories db). terr_id t = cap_territoryId p \<longrightarrow> terr_congregationId t \<noteq> cap_congregationId p)"
  moreover from this have "find (\<lambda>t. terr_id t = cap_territoryId p \<and> terr_congregationId t = cap_congregationId p)
      (territories db) = None"
    by (simp add: find_None_iff_all)
  ultimately show "assign ev p db = (Inl (DatabaseError RecordNotFound), db)"
    by (simp add: assign_def Let_def campaign_mode_guard_def)
next
  assume "fst (assign ev p db) = Inl e"
  then show "snd (assign ev p db) = db"
    using assign_Inl by (metis prod.collapse)
qed

lemma assign_errors_witness:
  "assign utc_env sample_assign (sample_db\<lparr>campaigns := [(sample_campaign 3 0 10)\<lparr>camp_activatedAt := Some 1\<rparr>]\<rparr>) =
     (Inl (ConflictError ''campaign_mode_active''),
      sample_db\<lparr>campaigns := [(sample_campaign 3 0 10)\<lparr>camp_activatedAt := Some 1\<rparr>]\<rparr>) \<and>
   assign utc_env (sample_assign\<lparr>cap_campaignId := Some 3\<rparr>) sample_db =
     (Inl (ConflictError ''campaign_not_active''), sample_db) \<and>
   assign utc_env (sample_assign\<lparr>cap_territoryId := 9\<rparr>) sample_db =
     (Inl (DatabaseError RecordNotFound), sample_db)"
proof (intro conjI)
  show "assign utc_env sample_assign (sample_db\<lparr>campaigns := [(sample_campaign 3 0 10)\<lparr>camp_activatedAt := Some 1\<rparr>]\<rparr>) =
     (Inl (ConflictError ''campaign_mode_active''),
      sample_db\<lparr>campaigns := [(sample_campaign 3 0 10)\<lparr>camp_activatedAt := Some 1\<rparr>]\<rparr>)"
    by (rule assign_errors [THEN conjunct1, rule_format]) (simp add: assign_eval)
  show "assign utc_env (sample_assign\<lparr>cap_campaignId := Some 3\<rparr>) sample_db =
     (Inl (ConflictError ''campaign_not_active''), sample_db)"
    by (rule assign_errors [THEN conjunct2, THEN conjunct1, rule_format, of _ 3]) (simp add: assign_eval)
  show "assign utc_env (sample_assign\<lparr>cap_territoryId := 9\<rparr>) sample_db =
     (Inl (DatabaseError RecordNotFound), sample_db)"
    by (rule assign_errors [THEN conjunct2, THEN conjunct2, THEN conjunct1, rule_format]) (simp add: assign_eval)
qed

text \<open>
  The duration of an attribution is positive whatever the congregation's settings hold:
  an unreadable, infinite, zero or negative setting falls back to the default of the method
  or territory kind (14 days by phone, 120 days otherwise).
\<close>

theorem duration_is_positive:
  "0 < resolveDurationDays db k t c \<and>
   (k = PhoneKind \<and> getSetting db ''attribution-phone-duration-days'' c = None \<longrightarrow> resolveDurationDays db k t c = 14)"
  using resolveDurationDays_pos [of db k t c]
  by (auto simp: resolveDurationDays_def parsePositiveDays_def)

lemma duration_is_positive_witness:
  "resolveDurationDays sample_db PhoneKind Classical 1 = 14"
  by (rule duration_is_positive [THEN conjunct2, rule_format]) (simp add: assign_eval)

end
