(* ===== verification/Attribution_Pause.thy ===== *)
theory Attribution_Pause
  imports Attribution
begin

text \<open>
  Pausing and resuming attributions around a campaign
  (\<^verbatim>\<open>territories/server/attribution-pause.aggregate.ts\<close>): the manual pause and resume of one
  attribution, and the five bulk transitions a campaign runs at its start, at its end and
  when its scope changes. The locale \<open>bulk_transition\<close> is the contract the campaign
  lifecycle relies on; each transition of the code is an interpretation of it.
\<close>

section \<open>One attribution\<close>

definition pause :: "int \<Rightarrow> int \<Rightarrow> int \<Rightarrow> int \<Rightarrow> int \<Rightarrow> db \<Rightarrow> (db, attribution) outcome" where
  "pause i congregationId campaignId actorId now db =
     (case find (is_attribution i congregationId) (attributions db) of
        None \<Rightarrow> (Inl (NotFoundError ''Attribution'' (Some i)), db)
      | Some existing \<Rightarrow>
          if attr_endDate existing \<noteq> None then (Inl (ConflictError ''attribution_not_open''), db)
          else if attr_pausedAt existing \<noteq> None then (Inl (ConflictError ''attribution_already_paused''), db)
          else
            chain (update_attribution i congregationId
                     (\<lambda>r. r\<lparr>attr_pausedAt := Some now, attr_pausedByCampaignId := Some campaignId\<rparr>) db)
              (\<lambda>attribution db. (Inr attribution,
                 entity_audit ''attribution.paused'' congregationId actorId ''Attribution'' i
                   (Some [(''campaignId'', JNum campaignId)]) db)))"

definition resume :: "int \<Rightarrow> int \<Rightarrow> int \<Rightarrow> int \<Rightarrow> db \<Rightarrow> (db, attribution) outcome" where
  "resume i congregationId actorId now db =
     (case find (is_attribution i congregationId) (attributions db) of
        None \<Rightarrow> (Inl (NotFoundError ''Attribution'' (Some i)), db)
      | Some existing \<Rightarrow>
          (case attr_pausedAt existing of
             None \<Rightarrow> (Inl (ConflictError ''attribution_not_paused''), db)
           | Some pausedAt \<Rightarrow>
               (case time_clip (attr_lateDate existing + (now - pausedAt)) of
                  InvalidDate \<Rightarrow> (Inl (DatabaseError InvalidValue), db)
                | Date lateDate \<Rightarrow>
                    chain (update_attribution i congregationId
                             (\<lambda>r. r\<lparr>attr_pausedAt := None, attr_pausedByCampaignId := None,
                                    attr_lateDate := lateDate\<rparr>) db)
                      (\<lambda>attribution db. (Inr attribution,
                         entity_audit ''attribution.resumed'' congregationId actorId ''Attribution'' i
                           (Some [(''pausedByCampaignId'', json_opt (attr_pausedByCampaignId existing))]) db)))))"

section \<open>The bulk transitions\<close>

record CampaignTransitionParams =
  ctp_congregationId :: int
  ctp_campaignId :: int
  ctp_territoryIds :: "int list option"
  ctp_actorId :: int
  ctp_now :: int

definition territoryFilter :: "int list option \<Rightarrow> attribution \<Rightarrow> bool" where
  "territoryFilter territoryIds r =
     (case territoryIds of None \<Rightarrow> True | Some ids \<Rightarrow> attr_territoryId r \<in> set ids)"

definition auditEach :: "int list \<Rightarrow> string \<Rightarrow> CampaignTransitionParams \<Rightarrow> db \<Rightarrow> db" where
  "auditEach ids action p =
     audit_all action (ctp_congregationId p) (ctp_actorId p)
       [(''campaignId'', JNum (ctp_campaignId p)), (''bulk'', JBool True)] ids"

definition by_ids :: "int list \<Rightarrow> int \<Rightarrow> attribution \<Rightarrow> bool" where
  "by_ids ids congregationId r \<longleftrightarrow> attr_id r \<in> set ids \<and> attr_congregationId r = congregationId"

text \<open>
  The shape the transitions share: read the selected rows, update them by their keys, write
  one audit entry per row.
\<close>

definition bulk_update ::
  "(attribution \<Rightarrow> bool) \<Rightarrow> (attribution \<Rightarrow> attribution) \<Rightarrow> string \<Rightarrow> CampaignTransitionParams \<Rightarrow> db \<Rightarrow>
     attribution list \<times> db" where
  "bulk_update sel upd action p db =
     (let rows = filter sel (attributions db); ids = map attr_id rows
      in if rows = [] then (rows, db)
         else (rows, auditEach ids action p
                 (db\<lparr>attributions := update_where (by_ids ids (ctp_congregationId p)) upd (attributions db)\<rparr>)))"

definition open_regular_unpaused :: "CampaignTransitionParams \<Rightarrow> attribution \<Rightarrow> bool" where
  "open_regular_unpaused p r \<longleftrightarrow>
     attr_congregationId r = ctp_congregationId p \<and> attr_endDate r = None \<and> attr_campaignId r = None \<and>
     attr_pausedAt r = None \<and> territoryFilter (ctp_territoryIds p) r"

definition set_paused :: "CampaignTransitionParams \<Rightarrow> attribution \<Rightarrow> attribution" where
  "set_paused p r = r\<lparr>attr_pausedAt := Some (ctp_now p), attr_pausedByCampaignId := Some (ctp_campaignId p)\<rparr>"

definition pauseOpenRegulars :: "CampaignTransitionParams \<Rightarrow> db \<Rightarrow> (db, attribution list) outcome" where
  "pauseOpenRegulars p db =
     (case bulk_update (open_regular_unpaused p) (set_paused p) ''attribution.paused'' p db of
        (rows, db') \<Rightarrow> (Inr rows, db'))"

definition open_regular :: "CampaignTransitionParams \<Rightarrow> attribution \<Rightarrow> bool" where
  "open_regular p r \<longleftrightarrow>
     attr_congregationId r = ctp_congregationId p \<and> attr_endDate r = None \<and> attr_campaignId r = None \<and>
     territoryFilter (ctp_territoryIds p) r"

definition set_ended :: "CampaignTransitionParams \<Rightarrow> attribution \<Rightarrow> attribution" where
  "set_ended p r = r\<lparr>attr_endDate := Some (ctp_now p)\<rparr>"

definition closeOpenRegulars :: "CampaignTransitionParams \<Rightarrow> db \<Rightarrow> (db, nat) outcome" where
  "closeOpenRegulars p db =
     (case bulk_update (open_regular p) (set_ended p) ''attribution.updated'' p db of
        (rows, db') \<Rightarrow> (Inr (length rows), db'))"

definition open_paused_by :: "CampaignTransitionParams \<Rightarrow> attribution \<Rightarrow> bool" where
  "open_paused_by p r \<longleftrightarrow>
     attr_congregationId r = ctp_congregationId p \<and> attr_pausedByCampaignId r = Some (ctp_campaignId p) \<and>
     attr_endDate r = None \<and> territoryFilter (ctp_territoryIds p) r"

definition paused_ms :: "CampaignTransitionParams \<Rightarrow> attribution \<Rightarrow> int" where
  "paused_ms p r = (case attr_pausedAt r of Some t \<Rightarrow> ctp_now p - t | None \<Rightarrow> 0)"

definition set_resumed :: "CampaignTransitionParams \<Rightarrow> attribution \<Rightarrow> attribution" where
  "set_resumed p r = r\<lparr>attr_pausedAt := None, attr_pausedByCampaignId := None,
                       attr_lateDate := attr_lateDate r + paused_ms p r\<rparr>"

text \<open>The loop of \<^verbatim>\<open>resumePausedBy\<close>: one update per row, each with that row's own shift.\<close>

fun resume_rows :: "CampaignTransitionParams \<Rightarrow> attribution list \<Rightarrow> db \<Rightarrow> (db, unit) outcome" where
  "resume_rows p [] db = (Inr (), db)"
| "resume_rows p (row # rows) db =
     (case time_clip (attr_lateDate row + paused_ms p row) of
        InvalidDate \<Rightarrow> (Inl (DatabaseError InvalidValue), db)
      | Date lateDate \<Rightarrow>
          chain (update_attribution (attr_id row) (ctp_congregationId p)
                   (\<lambda>r. r\<lparr>attr_pausedAt := None, attr_pausedByCampaignId := None, attr_lateDate := lateDate\<rparr>) db)
            (\<lambda>_ db. resume_rows p rows db))"

definition resumePausedBy :: "CampaignTransitionParams \<Rightarrow> db \<Rightarrow> (db, nat) outcome" where
  "resumePausedBy p db =
     (let rows = filter (open_paused_by p) (attributions db)
      in chain (resume_rows p rows db) (\<lambda>_ db.
           (Inr (length rows), auditEach (map attr_id rows) ''attribution.resumed'' p db)))"

definition set_closed_unpaused :: "CampaignTransitionParams \<Rightarrow> attribution \<Rightarrow> attribution" where
  "set_closed_unpaused p r =
     r\<lparr>attr_endDate := Some (ctp_now p), attr_pausedAt := None, attr_pausedByCampaignId := None\<rparr>"

definition closePausedBy :: "CampaignTransitionParams \<Rightarrow> db \<Rightarrow> (db, nat) outcome" where
  "closePausedBy p db =
     (case bulk_update (open_paused_by p) (set_closed_unpaused p) ''attribution.updated'' p db of
        (rows, db') \<Rightarrow> (Inr (length rows), db'))"

definition open_campaign_attribution :: "CampaignTransitionParams \<Rightarrow> attribution \<Rightarrow> bool" where
  "open_campaign_attribution p r \<longleftrightarrow>
     attr_congregationId r = ctp_congregationId p \<and> attr_campaignId r = Some (ctp_campaignId p) \<and>
     attr_endDate r = None \<and> territoryFilter (ctp_territoryIds p) r"

definition closeOpenCampaignAttributions :: "CampaignTransitionParams \<Rightarrow> db \<Rightarrow> (db, nat) outcome" where
  "closeOpenCampaignAttributions p db =
     (case bulk_update (open_campaign_attribution p) (set_ended p) ''attribution.updated'' p db of
        (rows, db') \<Rightarrow> (Inr (length rows), db'))"

section \<open>The contract of a bulk transition\<close>

text \<open>Everything but the attributions and the journal is left alone.\<close>

definition same_elsewhere :: "db \<Rightarrow> db \<Rightarrow> bool" where
  "same_elsewhere db db' \<longleftrightarrow>
     campaigns db' = campaigns db \<and> campaignTerritories db' = campaignTerritories db \<and>
     territories db' = territories db \<and> settings db' = settings db \<and> members db' = members db"

lemma same_elsewhere_refl [simp]: "same_elsewhere db db"
  by (simp add: same_elsewhere_def)

lemma same_elsewhere_trans: "same_elsewhere a b \<Longrightarrow> same_elsewhere b c \<Longrightarrow> same_elsewhere a c"
  by (simp add: same_elsewhere_def)

locale bulk_transition =
  fixes sel :: "CampaignTransitionParams \<Rightarrow> attribution \<Rightarrow> bool"
    and upd :: "CampaignTransitionParams \<Rightarrow> attribution \<Rightarrow> attribution"
    and run :: "CampaignTransitionParams \<Rightarrow> db \<Rightarrow> (db, 'a) outcome"
  assumes run_rows: "attr_inv db \<Longrightarrow> run p db = (Inr x, db') \<Longrightarrow>
      attributions db' = update_where (sel p) (upd p) (attributions db)"
    and run_error: "attr_inv db \<Longrightarrow> run p db = (Inl e, db') \<Longrightarrow>
      \<exists>part. (\<forall>r. part r \<longrightarrow> sel p r) \<and> attributions db' = update_where part (upd p) (attributions db)"
    and run_elsewhere: "same_elsewhere db (snd (run p db))"
    and sel_congregation: "sel p r \<Longrightarrow> attr_congregationId r = ctp_congregationId p"
    and sel_open: "sel p r \<Longrightarrow> attr_endDate r = None"
    and upd_shrinks: "sel p r \<Longrightarrow> shrinks r (upd p r)"
    and upd_done: "sel p r \<Longrightarrow> \<not> sel p (upd p r)"
begin

lemma run_some_rows:
  assumes "attr_inv db"
  shows "\<exists>part. (\<forall>r. part r \<longrightarrow> sel p r) \<and>
      attributions (snd (run p db)) = update_where part (upd p) (attributions db)"
proof (cases "run p db")
  case (Pair r db')
  then show ?thesis
    using run_rows [OF assms] run_error [OF assms] by (cases r) auto
qed

lemma run_inv:
  assumes "attr_inv db"
  shows "attr_inv (snd (run p db))"
proof -
  obtain part where part: "\<forall>r. part r \<longrightarrow> sel p r"
    and rows: "attributions (snd (run p db)) = update_where part (upd p) (attributions db)"
    using run_some_rows [OF assms] by blast
  have "rows_ok (update_where part (upd p) (attributions db))"
    using assms part upd_shrinks unfolding attr_inv_def by (intro rows_ok_update_where) blast+
  then show ?thesis using rows by (simp add: attr_inv_def)
qed

text \<open>A transition never touches a closed row or a row of another congregation.\<close>

lemma run_leaves:
  assumes "attr_inv db" and "r \<in> set (attributions db)"
    and "attr_endDate r \<noteq> None \<or> attr_congregationId r \<noteq> ctp_congregationId p"
  shows "r \<in> set (attributions (snd (run p db)))"
proof -
  obtain part where part: "\<forall>r. part r \<longrightarrow> sel p r"
    and rows: "attributions (snd (run p db)) = update_where part (upd p) (attributions db)"
    using run_some_rows [OF assms(1)] by blast
  have "\<not> part r"
  proof
    assume "part r"
    then have "sel p r" using part by simp
    then show False using assms(3) sel_open [of p r] sel_congregation [of p r] by simp
  qed
  with assms(2) show ?thesis unfolding rows by (rule update_where_keeps)
qed

text \<open>No selected row is left, and running the transition again changes no row.\<close>

lemma run_done:
  assumes "attr_inv db" and "run p db = (Inr x, db')"
  shows "\<forall>r \<in> set (attributions db'). \<not> sel p r"
  using run_rows [OF assms] upd_done by (auto simp: set_update_where)

lemma run_idem:
  assumes "attr_inv db" and "run p db = (Inr x, db')" and "run p db' = (Inr y, db'')"
  shows "attributions db'' = attributions db'"
proof -
  have "attr_inv db'" using run_inv [OF assms(1), of p] assms(2) by simp
  then show ?thesis
    using run_rows [OF _ assms(3)] run_done [OF assms(1,2)] by (simp add: update_where_none)
qed

end

section \<open>The five transitions meet the contract\<close>

lemma update_by_ids:
  assumes "distinct (map attr_id rows)" and "\<And>r. sel r \<Longrightarrow> attr_congregationId r = c"
  shows "update_where (by_ids (map attr_id (filter sel rows)) c) upd rows = update_where sel upd rows"
proof -
  have "by_ids (map attr_id (filter sel rows)) c r = sel r" if "r \<in> set rows" for r
    using assms that by (auto simp: by_ids_def distinct_map inj_on_def)
  then show ?thesis by (simp add: update_where_def)
qed

lemma bulk_update_rows:
  assumes "attr_inv db" and "\<And>r. sel r \<Longrightarrow> attr_congregationId r = ctp_congregationId p"
    and "bulk_update sel upd action p db = (rows, db')"
  shows "rows = filter sel (attributions db)" and "attributions db' = update_where sel upd (attributions db)"
proof -
  show rows: "rows = filter sel (attributions db)"
    using assms(3) by (auto simp: bulk_update_def Let_def split: if_splits)
  have d: "distinct (map attr_id (attributions db))" using assms(1) by (simp add: attr_inv_def exclusive_def)
  show "attributions db' = update_where sel upd (attributions db)"
  proof (cases "filter sel (attributions db) = []")
    case True
    then have "update_where sel upd (attributions db) = attributions db"
      by (intro update_where_none) (simp add: filter_empty_conv)
    then show ?thesis using assms(3) True by (auto simp: bulk_update_def)
  next
    case False
    then show ?thesis
      using assms(3) update_by_ids [OF d, of sel "ctp_congregationId p" upd] assms(2)
      by (auto simp: bulk_update_def Let_def auditEach_def)
  qed
qed

lemma bulk_update_elsewhere: "same_elsewhere db (snd (bulk_update sel upd action p db))"
  by (simp add: bulk_update_def Let_def same_elsewhere_def auditEach_def)

named_theorems transition_defs

lemmas [transition_defs] =
  open_regular_unpaused_def open_regular_def open_paused_by_def open_campaign_attribution_def
  set_paused_def set_ended_def set_closed_unpaused_def set_resumed_def shrinks_def same_layer_def

interpretation pausing: bulk_transition open_regular_unpaused set_paused pauseOpenRegulars
proof unfold_locales
  fix db p x db'
  assume "attr_inv db" "pauseOpenRegulars p db = (Inr x, db')"
  then show "attributions db' = update_where (open_regular_unpaused p) (set_paused p) (attributions db)"
    using bulk_update_rows(2) [of db "open_regular_unpaused p" p]
    by (auto simp: pauseOpenRegulars_def open_regular_unpaused_def split: prod.splits)
next
  fix db p
  show "same_elsewhere db (snd (pauseOpenRegulars p db))"
    using bulk_update_elsewhere [of db "open_regular_unpaused p" "set_paused p" "''attribution.paused''" p]
    by (auto simp: pauseOpenRegulars_def split: prod.splits)
qed (auto simp: transition_defs pauseOpenRegulars_def split: prod.splits)

interpretation closing_regulars: bulk_transition open_regular set_ended closeOpenRegulars
proof unfold_locales
  fix db p x db'
  assume "attr_inv db" "closeOpenRegulars p db = (Inr x, db')"
  then show "attributions db' = update_where (open_regular p) (set_ended p) (attributions db)"
    using bulk_update_rows(2) [of db "open_regular p" p]
    by (auto simp: closeOpenRegulars_def open_regular_def split: prod.splits)
next
  fix db p
  show "same_elsewhere db (snd (closeOpenRegulars p db))"
    using bulk_update_elsewhere [of db "open_regular p" "set_ended p" "''attribution.updated''" p]
    by (auto simp: closeOpenRegulars_def split: prod.splits)
qed (auto simp: transition_defs closeOpenRegulars_def split: prod.splits)

interpretation closing_paused: bulk_transition open_paused_by set_closed_unpaused closePausedBy
proof unfold_locales
  fix db p x db'
  assume "attr_inv db" "closePausedBy p db = (Inr x, db')"
  then show "attributions db' = update_where (open_paused_by p) (set_closed_unpaused p) (attributions db)"
    using bulk_update_rows(2) [of db "open_paused_by p" p]
    by (auto simp: closePausedBy_def open_paused_by_def split: prod.splits)
next
  fix db p
  show "same_elsewhere db (snd (closePausedBy p db))"
    using bulk_update_elsewhere [of db "open_paused_by p" "set_closed_unpaused p" "''attribution.updated''" p]
    by (auto simp: closePausedBy_def split: prod.splits)
qed (auto simp: transition_defs closePausedBy_def split: prod.splits)

interpretation closing_campaign: bulk_transition open_campaign_attribution set_ended closeOpenCampaignAttributions
proof unfold_locales
  fix db p x db'
  assume "attr_inv db" "closeOpenCampaignAttributions p db = (Inr x, db')"
  then show "attributions db' = update_where (open_campaign_attribution p) (set_ended p) (attributions db)"
    using bulk_update_rows(2) [of db "open_campaign_attribution p" p]
    by (auto simp: closeOpenCampaignAttributions_def open_campaign_attribution_def split: prod.splits)
next
  fix db p
  show "same_elsewhere db (snd (closeOpenCampaignAttributions p db))"
    using bulk_update_elsewhere
      [of db "open_campaign_attribution p" "set_ended p" "''attribution.updated''" p]
    by (auto simp: closeOpenCampaignAttributions_def split: prod.splits)
qed (auto simp: transition_defs closeOpenCampaignAttributions_def split: prod.splits)

text \<open>
  The loop updates the rows one by one; when it ends, exactly the given rows have been
  updated, and when it fails, some of them.
\<close>

lemma update_attribution_elsewhere: "same_elsewhere db (snd (update_attribution i c f db))"
  by (simp add: update_attribution_def same_elsewhere_def split: option.splits)

lemma resume_rows_elsewhere: "same_elsewhere db (snd (resume_rows p rows db))"
proof (induction rows arbitrary: db)
  case Nil
  then show ?case by simp
next
  case (Cons row rows)
  show ?case
  proof (cases "time_clip (attr_lateDate row + paused_ms p row)")
    case InvalidDate
    then show ?thesis by simp
  next
    case (Date l)
    have "same_elsewhere db (snd (resume_rows p rows s))" if "same_elsewhere db s" for s
      using that Cons.IH by (rule same_elsewhere_trans)
    then have "same_elsewhere db (snd (chain (update_attribution i c f db) (\<lambda>_ s. resume_rows p rows s)))" for i c f
      by (intro snd_chain_inv [where Q = "same_elsewhere db"] update_attribution_elsewhere)
    then show ?thesis using Date by simp
  qed
qed

lemma resumePausedBy_elsewhere: "same_elsewhere db (snd (resumePausedBy p db))"
proof -
  let ?rows = "filter (open_paused_by p) (attributions db)"
  have "same_elsewhere db (snd (resume_rows p ?rows db))" by (rule resume_rows_elsewhere)
  then show ?thesis
    unfolding resumePausedBy_def Let_def
    by (rule snd_chain_inv) (simp add: same_elsewhere_def auditEach_def)
qed

lemma resume_rows_spec:
  assumes "distinct (map attr_id (attributions db))" and "distinct (map attr_id rows)"
    and "\<forall>row \<in> set rows. find (is_attribution (attr_id row) (ctp_congregationId p)) (attributions db) = Some row"
  shows "\<exists>K \<subseteq> attr_id ` set rows.
     attributions (snd (resume_rows p rows db)) =
       update_where (\<lambda>r. attr_id r \<in> K) (set_resumed p) (attributions db) \<and>
     (fst (resume_rows p rows db) = Inr () \<longrightarrow> K = attr_id ` set rows)"
  using assms
proof (induction rows arbitrary: db)
  case Nil
  then show ?case by (auto simp: update_where_none)
next
  case (Cons row rows)
  let ?c = "ctp_congregationId p"
  show ?case
  proof (cases "time_clip (attr_lateDate row + paused_ms p row)")
    case InvalidDate
    then show ?thesis by (intro exI [of _ "{}"]) (simp add: update_where_none)
  next
    case (Date l)
    let ?f = "\<lambda>r. r\<lparr>attr_pausedAt := None, attr_pausedByCampaignId := None, attr_lateDate := l\<rparr>"
    define db1 where "db1 = db\<lparr>attributions := update_where (is_attribution (attr_id row) ?c) ?f (attributions db)\<rparr>"
    have found: "find (is_attribution (attr_id row) ?c) (attributions db) = Some row"
      using Cons.prems(3) by simp
    then have row: "row \<in> set (attributions db)" "attr_congregationId row = ?c"
      using find_Some_in [OF found] by (auto simp: is_attribution_def)
    have step: "resume_rows p (row # rows) db = resume_rows p rows db1"
      using Date found by (simp add: update_attribution_def db1_def)
    have key: "r = row" if "r \<in> set (attributions db)" "attr_id r = attr_id row" for r
      using Cons.prems(1) row(1) that by (auto simp: distinct_map inj_on_def)
    have l: "l = attr_lateDate row + paused_ms p row"
      using Date by (auto simp: time_clip_def split: if_splits)
    have first: "attributions db1 = update_where (\<lambda>r. attr_id r = attr_id row) (set_resumed p) (attributions db)"
      unfolding db1_def using key row l
      by (auto simp: update_where_def is_attribution_def set_resumed_def)
    have ids: "map attr_id (attributions db1) = map attr_id (attributions db)"
      unfolding first by (rule map_update_where) (simp add: set_resumed_def)
    have still: "find (is_attribution (attr_id r) ?c) (attributions db1) = Some r" if "r \<in> set rows" for r
    proof -
      have old: "find (is_attribution (attr_id r) ?c) (attributions db) = Some r" "attr_id r \<noteq> attr_id row"
        using Cons.prems(2,3) that by force+
      then show ?thesis
        unfolding first by (intro find_update_where_other) (auto simp: is_attribution_def set_resumed_def)
    qed
    have d: "distinct (map attr_id (attributions db1))" "distinct (map attr_id rows)"
      using Cons.prems(1,2) ids by simp_all
    obtain K where K: "K \<subseteq> attr_id ` set rows"
      "attributions (snd (resume_rows p rows db1)) =
         update_where (\<lambda>r. attr_id r \<in> K) (set_resumed p) (attributions db1)"
      "fst (resume_rows p rows db1) = Inr () \<longrightarrow> K = attr_id ` set rows"
      using Cons.IH [OF d] still by blast
    have "attr_id row \<notin> K" using K(1) Cons.prems(2) by auto
    then have "attributions (snd (resume_rows p rows db1)) =
         update_where (\<lambda>r. attr_id r \<in> insert (attr_id row) K) (set_resumed p) (attributions db)"
      unfolding K(2) first by (intro update_where_key_insert) (simp_all add: set_resumed_def)
    then show ?thesis
      unfolding step using K(1,3) by (intro exI [of _ "insert (attr_id row) K"]) auto
  qed
qed

lemma resumePausedBy_rows:
  assumes "attr_inv db"
  shows "\<exists>part. (\<forall>r. part r \<longrightarrow> open_paused_by p r) \<and>
      attributions (snd (resumePausedBy p db)) = update_where part (set_resumed p) (attributions db) \<and>
      (\<forall>x. fst (resumePausedBy p db) = Inr x \<longrightarrow>
         attributions (snd (resumePausedBy p db)) = update_where (open_paused_by p) (set_resumed p) (attributions db))"
proof -
  define rows where "rows = filter (open_paused_by p) (attributions db)"
  have d: "distinct (map attr_id (attributions db))" using assms by (simp add: attr_inv_def exclusive_def)
  have d': "distinct (map attr_id rows)" unfolding rows_def using d by (rule distinct_map_filter)
  have f: "\<forall>row \<in> set rows. find (is_attribution (attr_id row) (ctp_congregationId p)) (attributions db) = Some row"
  proof
    fix row assume "row \<in> set rows"
    then have row: "row \<in> set (attributions db)" "attr_congregationId row = ctp_congregationId p"
      by (simp_all add: rows_def open_paused_by_def)
    show "find (is_attribution (attr_id row) (ctp_congregationId p)) (attributions db) = Some row"
      by (rule find_key_and [OF d row(1)]) (auto simp: is_attribution_def row(2))
  qed
  obtain K where K: "K \<subseteq> attr_id ` set rows"
    "attributions (snd (resume_rows p rows db)) = update_where (\<lambda>r. attr_id r \<in> K) (set_resumed p) (attributions db)"
    "fst (resume_rows p rows db) = Inr () \<longrightarrow> K = attr_id ` set rows"
    using resume_rows_spec [OF d d' f] by blast
  obtain r s where run: "resume_rows p rows db = (r, s)" by fastforce
  have whole: "resumePausedBy p db = chain (r, s) (\<lambda>_ s.
      (Inr (length rows), auditEach (map attr_id rows) ''attribution.resumed'' p s))"
    using run by (simp add: resumePausedBy_def Let_def rows_def)
  have snd: "attributions (snd (resumePausedBy p db)) = attributions s"
    unfolding whole by (cases r) (simp_all add: auditEach_def)
  have fst: "r = Inr ()" if "fst (resumePausedBy p db) = Inr x" for x
    using that unfolding whole by (cases r) simp_all
  have part: "update_where (\<lambda>r. attr_id r \<in> K) (set_resumed p) (attributions db) =
      update_where (\<lambda>r. open_paused_by p r \<and> attr_id r \<in> K) (set_resumed p) (attributions db)"
    using K(1) d by (auto simp: update_where_def rows_def distinct_map inj_on_def)
  have full: "update_where (\<lambda>r. open_paused_by p r \<and> attr_id r \<in> attr_id ` set rows) (set_resumed p) (attributions db) =
      update_where (open_paused_by p) (set_resumed p) (attributions db)"
    by (auto simp: update_where_def rows_def)
  show ?thesis
    using K run snd fst part full by (intro exI [of _ "\<lambda>r. open_paused_by p r \<and> attr_id r \<in> K"]) auto
qed

interpretation resuming: bulk_transition open_paused_by set_resumed resumePausedBy
proof unfold_locales
  fix db p x db'
  assume "attr_inv db" and run: "resumePausedBy p db = (Inr x, db')"
  then show "attributions db' = update_where (open_paused_by p) (set_resumed p) (attributions db)"
    using resumePausedBy_rows [of db p] by auto
next
  fix db p e db'
  assume "attr_inv db" and run: "resumePausedBy p db = (Inl e, db')"
  then show "\<exists>part. (\<forall>r. part r \<longrightarrow> open_paused_by p r) \<and>
      attributions db' = update_where part (set_resumed p) (attributions db)"
    using resumePausedBy_rows [of db p] by auto
next
  fix db p
  show "same_elsewhere db (snd (resumePausedBy p db))" by (rule resumePausedBy_elsewhere)
qed (auto simp: transition_defs paused_ms_def)

section \<open>Properties\<close>

lemma pause_Inr:
  assumes "attr_inv db" and "pause i c cid a t0 db = (Inr row, db1)"
  obtains r where "r \<in> set (attributions db)" and "is_attribution i c r"
    and "attr_endDate r = None" and "attr_pausedAt r = None"
    and "row = r\<lparr>attr_pausedAt := Some t0, attr_pausedByCampaignId := Some cid\<rparr>"
    and "attributions db1 = update_where (is_attribution i c) (\<lambda>_. row) (attributions db)"
proof -
  let ?f = "\<lambda>r. r\<lparr>attr_pausedAt := Some t0, attr_pausedByCampaignId := Some cid\<rparr>"
  obtain r where r: "find (is_attribution i c) (attributions db) = Some r"
    using assms(2) by (cases "find (is_attribution i c) (attributions db)") (simp_all add: pause_def)
  have mem: "r \<in> set (attributions db)" "is_attribution i c r" using find_Some_in [OF r] by simp_all
  have ok: "attr_endDate r = None" "attr_pausedAt r = None"
    using assms(2) r by (simp_all add: pause_def split: if_splits)
  then have row: "row = ?f r" and db1: "attributions db1 = update_where (is_attribution i c) ?f (attributions db)"
    using assms(2) r by (auto simp: pause_def update_attribution_def)
  have one: "x = r" if "x \<in> set (attributions db)" "is_attribution i c x" for x
    using exclusive_unique [of attr_id attr_conflict "attributions db" x r] assms(1) mem that
    by (simp add: attr_inv_def is_attribution_def)
  have "update_where (is_attribution i c) ?f (attributions db) = update_where (is_attribution i c) (\<lambda>_. row) (attributions db)"
    unfolding update_where_def
  proof (rule map_cong [OF refl])
    fix x assume "x \<in> set (attributions db)"
    then show "(if is_attribution i c x then ?f x else x) = (if is_attribution i c x then row else x)"
      using one [of x] row by simp
  qed
  then show ?thesis using that [OF mem ok row] db1 by simp
qed

lemma resume_Inr:
  assumes "attributions db1 = update_where (is_attribution i c) (\<lambda>_. row) rows" and "is_attribution i c row"
    and "r \<in> set rows" and "is_attribution i c r" and "attr_pausedAt row = Some t0"
    and "resume i c a t1 db1 = (Inr row', db2)"
  shows "row' = row\<lparr>attr_pausedAt := None, attr_pausedByCampaignId := None,
                    attr_lateDate := attr_lateDate row + (t1 - t0)\<rparr> \<and>
         attributions db2 = update_where (is_attribution i c) (\<lambda>_. row') rows"
proof -
  have "find (is_attribution i c) (update_where (is_attribution i c) (\<lambda>_. row) rows) = Some row"
    using assms(2-4) by (induction rows) auto
  then have found: "find (is_attribution i c) (attributions db1) = Some row" using assms(1) by simp
  define l where "l = attr_lateDate row + (t1 - t0)"
  obtain l' where clip: "time_clip l = Date l'"
    using assms(5,6) found by (cases "time_clip l") (auto simp: resume_def l_def)
  then have "l' = l" by (auto simp: time_clip_def split: if_splits)
  then have row': "row' = row\<lparr>attr_pausedAt := None, attr_pausedByCampaignId := None, attr_lateDate := l\<rparr>"
    and db2: "attributions db2 = update_where (is_attribution i c)
      (\<lambda>r. r\<lparr>attr_pausedAt := None, attr_pausedByCampaignId := None, attr_lateDate := l\<rparr>) (attributions db1)"
    using assms(5,6) found clip by (simp_all add: resume_def l_def update_attribution_def) auto
  have "update_where (is_attribution i c)
      (\<lambda>r. r\<lparr>attr_pausedAt := None, attr_pausedByCampaignId := None, attr_lateDate := l\<rparr>) (attributions db1)
    = update_where (is_attribution i c) (\<lambda>_. row') rows"
    using assms(1,2) row' by (simp add: update_where_def)
  then show ?thesis using row' db2 l_def by simp
qed

text \<open>
  C8. Pausing an attribution at one instant and resuming it at a later one gives back exactly
  the time that remained: its due date moves by the length of the pause, every other column
  is what it was before the pause, and no other attribution changes.
\<close>

theorem pause_resume_keeps_remaining_time:
  assumes "attr_inv db" and "pause i c cid a t0 db = (Inr row, db1)" and "resume i c a' t1 db1 = (Inr row', db2)"
  shows "\<exists>r \<in> set (attributions db). is_attribution i c r \<and> attr_pausedAt r = None \<and>
     attr_lateDate row' - t1 = attr_lateDate r - t0 \<and>
     row' = r\<lparr>attr_pausedByCampaignId := None, attr_lateDate := attr_lateDate row'\<rparr> \<and>
     attributions db2 = update_where (is_attribution i c) (\<lambda>_. row') (attributions db)"
proof -
  from pause_Inr [OF assms(1,2)] obtain r where r: "r \<in> set (attributions db)" "is_attribution i c r"
    "attr_pausedAt r = None" and row: "row = r\<lparr>attr_pausedAt := Some t0, attr_pausedByCampaignId := Some cid\<rparr>"
    and rows: "attributions db1 = update_where (is_attribution i c) (\<lambda>_. row) (attributions db)"
    by metis
  have "is_attribution i c row" "attr_pausedAt row = Some t0" using r(2) row by (simp_all add: is_attribution_def)
  from resume_Inr [OF rows this(1) r(1,2) this(2) assms(3)]
  show ?thesis using r row by (intro bexI [of _ r]) simp_all
qed

lemma pause_resume_keeps_remaining_time_witness:
  "\<exists>row db1 row' db2.
     pause 5 1 3 1 2000 sample_db = (Inr row, db1) \<and> resume 5 1 1 6000 db1 = (Inr row', db2) \<and>
     attr_lateDate row' - 6000 = 90000 - 2000"
proof -
  obtain row db1 where p: "pause 5 1 3 1 2000 sample_db = (Inr row, db1)"
    by (simp add: pause_def is_attribution_def update_attribution_def sample_defs)
  obtain row' db2 where r: "resume 5 1 1 6000 db1 = (Inr row', db2)"
    using p by (auto simp: pause_def resume_def is_attribution_def update_attribution_def sample_defs time_clip_def)
  from pause_resume_keeps_remaining_time [OF sample_inv p r]
  have "attr_lateDate row' - 6000 = 90000 - 2000"
    by (simp add: sample_defs)
  with p r show ?thesis by blast
qed

text \<open>
  C9. Each bulk transition of a campaign keeps the aggregate's invariant even when it fails
  half way, and touches no table but the attributions (and the journal).
\<close>

theorem bulk_transitions_keep_layers_disjoint:
  assumes "attr_inv db"
  shows "attr_inv (snd (pauseOpenRegulars p db)) \<and> attr_inv (snd (closeOpenRegulars p db)) \<and>
    attr_inv (snd (resumePausedBy p db)) \<and> attr_inv (snd (closePausedBy p db)) \<and>
    attr_inv (snd (closeOpenCampaignAttributions p db)) \<and>
    same_elsewhere db (snd (resumePausedBy p db))"
  using pausing.run_inv [OF assms] closing_regulars.run_inv [OF assms] resuming.run_inv [OF assms]
    closing_paused.run_inv [OF assms] closing_campaign.run_inv [OF assms] resumePausedBy_elsewhere
  by blast

definition sample_transition :: CampaignTransitionParams where
  "sample_transition = \<lparr>ctp_congregationId = 1, ctp_campaignId = 3, ctp_territoryIds = None, ctp_actorId = 1, ctp_now = 2000\<rparr>"

lemma bulk_transitions_keep_layers_disjoint_witness:
  "map attr_pausedAt (attributions (snd (pauseOpenRegulars sample_transition sample_db))) = [Some 2000] \<and>
   attr_inv (snd (pauseOpenRegulars sample_transition sample_db))"
  using bulk_transitions_keep_layers_disjoint [OF sample_inv, of sample_transition]
  by (simp add: pauseOpenRegulars_def bulk_update_def open_regular_unpaused_def sample_transition_def
      territoryFilter_def by_ids_def auditEach_def set_paused_def sample_defs Let_def)

text \<open>
  When the resumption at a campaign's end succeeds, no open attribution in its scope is
  still paused by that campaign, every attribution it had paused is open again with the time
  that remained at the pause, and a second run changes nothing.
\<close>

theorem resumePausedBy_gives_time_back:
  assumes "attr_inv db" and "resumePausedBy p db = (Inr n, db')"
  shows "(\<forall>r \<in> set (attributions db'). \<not> open_paused_by p r) \<and>
    (\<forall>r \<in> set (attributions db). open_paused_by p r \<longrightarrow>
       (\<exists>r' \<in> set (attributions db'). attr_id r' = attr_id r \<and> attr_pausedAt r' = None \<and> attr_endDate r' = None \<and>
          (\<forall>t. attr_pausedAt r = Some t \<longrightarrow> attr_lateDate r' - ctp_now p = attr_lateDate r - t))) \<and>
    (\<forall>r \<in> set (attributions db). \<not> open_paused_by p r \<longrightarrow> r \<in> set (attributions db')) \<and>
    (\<forall>m db''. resumePausedBy p db' = (Inr m, db'') \<longrightarrow> attributions db'' = attributions db')"
proof (intro conjI ballI impI)
  have rows: "attributions db' = update_where (open_paused_by p) (set_resumed p) (attributions db)"
    using resuming.run_rows [OF assms] .
  show "\<not> open_paused_by p r" if "r \<in> set (attributions db')" for r
    using resuming.run_done [OF assms] that by blast
  show "r \<in> set (attributions db')" if "r \<in> set (attributions db)" "\<not> open_paused_by p r" for r
    unfolding rows using that by (rule update_where_keeps)
  show "\<exists>r' \<in> set (attributions db'). attr_id r' = attr_id r \<and> attr_pausedAt r' = None \<and> attr_endDate r' = None \<and>
          (\<forall>t. attr_pausedAt r = Some t \<longrightarrow> attr_lateDate r' - ctp_now p = attr_lateDate r - t)"
    if "r \<in> set (attributions db)" "open_paused_by p r" for r
  proof (intro bexI [of _ "set_resumed p r"])
    show "set_resumed p r \<in> set (attributions db')"
      unfolding rows using that by (rule update_where_hits)
  qed (use that in \<open>simp_all add: set_resumed_def paused_ms_def open_paused_by_def\<close>)
  show "\<forall>m db''. resumePausedBy p db' = (Inr m, db'') \<longrightarrow> attributions db'' = attributions db'"
    using resuming.run_idem [OF assms] by blast
qed

lemma resumePausedBy_gives_time_back_witness:
  "\<exists>db1 db2. pauseOpenRegulars sample_transition sample_db = (Inr (attributions sample_db), db1) \<and>
     resumePausedBy (sample_transition\<lparr>ctp_now := 5000\<rparr>) db1 = (Inr 1, db2) \<and>
     (\<forall>r \<in> set (attributions db2). \<not> open_paused_by sample_transition r)"
proof -
  define db1 where "db1 = snd (pauseOpenRegulars sample_transition sample_db)"
  define p where "p = sample_transition\<lparr>ctp_now := 5000\<rparr>"
  have inv: "attr_inv db1" unfolding db1_def by (rule pausing.run_inv [OF sample_inv])
  have run1: "pauseOpenRegulars sample_transition sample_db = (Inr (attributions sample_db), db1)"
    by (simp add: db1_def pauseOpenRegulars_def bulk_update_def open_regular_unpaused_def sample_transition_def
        territoryFilter_def sample_defs Let_def)
  have rows: "attributions db1 = [set_paused sample_transition (sample_attribution 5 1 7 1000 90000)]"
    by (simp add: db1_def pauseOpenRegulars_def bulk_update_def open_regular_unpaused_def sample_transition_def
        territoryFilter_def by_ids_def auditEach_def set_paused_def sample_defs Let_def)
  have "fst (resumePausedBy p db1) = Inr 1"
    by (simp add: resumePausedBy_def rows open_paused_by_def p_def sample_transition_def territoryFilter_def
        Let_def auditEach_def set_paused_def sample_attribution_def paused_ms_def time_clip_def update_attribution_def is_attribution_def)
  then obtain db2 where run2: "resumePausedBy p db1 = (Inr 1, db2)" by (cases "resumePausedBy p db1") simp
  have "open_paused_by p = open_paused_by sample_transition"
    by (simp add: p_def open_paused_by_def fun_eq_iff)
  with resumePausedBy_gives_time_back [OF inv run2] run1 run2 p_def show ?thesis by auto
qed

end
