(* ===== verification/Campaign.thy ===== *)
theory Campaign
  imports Attribution_Pause
begin

text \<open>
  The campaign aggregate (\<^verbatim>\<open>territories/server/campaign.aggregate.ts\<close>): creating, editing and
  deleting campaigns, replacing their scope, and the two lifecycle stamps. Its invariant is
  that two campaigns of a congregation never share a day.
\<close>

section \<open>Windows\<close>

definition campaignWindowsOverlap :: "jsdate \<times> jsdate \<Rightarrow> jsdate \<times> jsdate \<Rightarrow> bool" where
  "campaignWindowsOverlap a b \<longleftrightarrow> date_le (fst a) (snd b) \<and> date_le (fst b) (snd a)"

definition window :: "campaign \<Rightarrow> jsdate \<times> jsdate" where
  "window c = (Date (camp_startDate c), Date (camp_endDate c))"

lemma campaignWindowsOverlap_sym: "campaignWindowsOverlap a b = campaignWindowsOverlap b a"
  by (auto simp: campaignWindowsOverlap_def)

definition assertNoWindowOverlap :: "db \<Rightarrow> int \<Rightarrow> jsdate \<Rightarrow> jsdate \<Rightarrow> int option \<Rightarrow> app_error option" where
  "assertNoWindowOverlap db congregationId startDate endDate excludeId =
     (case find (\<lambda>existing. campaignWindowsOverlap (startDate, endDate) (window existing))
             (filter (\<lambda>c. camp_congregationId c = congregationId \<and> Some (camp_id c) \<noteq> excludeId) (campaigns db))
      of Some _ \<Rightarrow> Some (ConflictError ''campaign_overlap'') | None \<Rightarrow> None)"

lemma assertNoWindowOverlap_None:
  "assertNoWindowOverlap db c s e x = None \<longleftrightarrow>
   (\<forall>d \<in> set (campaigns db). camp_congregationId d = c \<longrightarrow> Some (camp_id d) \<noteq> x \<longrightarrow>
      \<not> campaignWindowsOverlap (s, e) (window d))"
  by (auto simp: assertNoWindowOverlap_def find_None_iff_all split: option.splits dest!: find_Some_in)

section \<open>Operations\<close>

record CampaignParams =
  cpm_name :: string
  cpm_notes :: string
  cpm_startDate :: string
  cpm_endDate :: string
  cpm_restPeriodDays :: "int option"
  cpm_startRegularAction :: CampaignRegularStartAction
  cpm_startAutoReassign :: bool
  cpm_endCloseCampaign :: bool
  cpm_endRegularAction :: CampaignRegularEndAction
  cpm_congregationId :: int
  cpm_actorId :: int

record CreateCampaignParams = CampaignParams +
  cpm_scopeTerritoryIds :: "int list"

text \<open>
  \<^verbatim>\<open>db.campaignTerritory.createMany\<close>: the pairs must be new, and the territories of the
  congregation must exist.
\<close>

definition create_scope :: "int \<Rightarrow> int \<Rightarrow> int list \<Rightarrow> db \<Rightarrow> (db, unit) outcome" where
  "create_scope campaignId congregationId territoryIds db =
     (if \<not> distinct territoryIds \<or>
         (\<exists>s \<in> set (campaignTerritories db). ct_campaignId s = campaignId \<and> ct_territoryId s \<in> set territoryIds)
      then (Inl (DatabaseError UniqueViolation), db)
      else if \<not> (\<forall>i \<in> set territoryIds. \<exists>t \<in> set (territories db). terr_id t = i \<and> terr_congregationId t = congregationId)
      then (Inl (DatabaseError ForeignKeyViolation), db)
      else (Inr (), db\<lparr>campaignTerritories := campaignTerritories db @
              map (\<lambda>i. \<lparr>ct_campaignId = campaignId, ct_territoryId = i, ct_congregationId = congregationId\<rparr>) territoryIds\<rparr>))"

definition new_campaign :: "env \<Rightarrow> 'a CampaignParams_scheme \<Rightarrow> int \<Rightarrow> int \<Rightarrow> db \<Rightarrow> campaign" where
  "new_campaign ev params s e db =
     \<lparr>camp_id = env_campaign_id ev (campaigns db), camp_name = cpm_name params, camp_notes = cpm_notes params,
      camp_startDate = s, camp_endDate = e, camp_restPeriodDays = cpm_restPeriodDays params,
      camp_startRegularAction = cpm_startRegularAction params,
      camp_startAutoReassign = cpm_startAutoReassign params,
      camp_endCloseCampaign = cpm_endCloseCampaign params,
      camp_endRegularAction = cpm_endRegularAction params,
      camp_activatedAt = None, camp_endedAt = None, camp_congregationId = cpm_congregationId params\<rparr>"

text \<open>\<^verbatim>\<open>db.campaign.create\<close>: the dates must be valid.\<close>

definition insert_campaign ::
  "env \<Rightarrow> 'a CampaignParams_scheme \<Rightarrow> jsdate \<Rightarrow> jsdate \<Rightarrow> db \<Rightarrow> (db, campaign) outcome" where
  "insert_campaign ev params startDate endDate db =
     (case (startDate, endDate) of
        (Date s, Date e) \<Rightarrow>
          (Inr (new_campaign ev params s e db), db\<lparr>campaigns := campaigns db @ [new_campaign ev params s e db]\<rparr>)
      | _ \<Rightarrow> (Inl (DatabaseError InvalidValue), db))"

definition createCampaign :: "env \<Rightarrow> CreateCampaignParams \<Rightarrow> db \<Rightarrow> (db, campaign) outcome" where
  "createCampaign ev params db =
     (let startDate = parseLocalDate (env_zone ev) (cpm_startDate params);
          endDate = parseLocalDate (env_zone ev) (cpm_endDate params)
      in guard_by (assertNoWindowOverlap db (cpm_congregationId params) startDate endDate None) db
        (chain (insert_campaign ev params startDate endDate db) (\<lambda>campaign db.
           chain (if length (cpm_scopeTerritoryIds params) > 0
                  then create_scope (camp_id campaign) (cpm_congregationId params) (cpm_scopeTerritoryIds params) db
                  else (Inr (), db)) (\<lambda>_ db.
             (Inr campaign,
              entity_audit ''campaign.created'' (cpm_congregationId params) (cpm_actorId params) ''Campaign''
                (camp_id campaign)
                (Some [(''name'', JStr (cpm_name params)),
                       (''scopeSize'', JNum (int (length (cpm_scopeTerritoryIds params))))]) db)))))"

definition is_campaign :: "int \<Rightarrow> int \<Rightarrow> campaign \<Rightarrow> bool" where
  "is_campaign i congregationId c \<longleftrightarrow> camp_id c = i \<and> camp_congregationId c = congregationId"

text \<open>\<^verbatim>\<open>db.campaign.update\<close> by primary key and congregation.\<close>

definition update_campaign :: "int \<Rightarrow> int \<Rightarrow> (campaign \<Rightarrow> campaign) \<Rightarrow> db \<Rightarrow> (db, campaign) outcome" where
  "update_campaign i congregationId f db =
     (case find (is_campaign i congregationId) (campaigns db) of
        None \<Rightarrow> (Inl (DatabaseError RecordNotFound), db)
      | Some c \<Rightarrow> (Inr (f c), db\<lparr>campaigns := update_where (is_campaign i congregationId) f (campaigns db)\<rparr>))"

definition apply_campaign_params ::
  "'a CampaignParams_scheme \<Rightarrow> int \<Rightarrow> int \<Rightarrow> CampaignRegularStartAction \<Rightarrow> bool \<Rightarrow> campaign \<Rightarrow> campaign" where
  "apply_campaign_params params startDate endDate startRegularAction startAutoReassign c =
     c\<lparr>camp_name := cpm_name params, camp_notes := cpm_notes params, camp_startDate := startDate,
       camp_endDate := endDate, camp_restPeriodDays := cpm_restPeriodDays params,
       camp_startRegularAction := startRegularAction, camp_startAutoReassign := startAutoReassign,
       camp_endCloseCampaign := cpm_endCloseCampaign params,
       camp_endRegularAction := cpm_endRegularAction params\<rparr>"

definition updateCampaign :: "env \<Rightarrow> int \<Rightarrow> int \<Rightarrow> int \<Rightarrow> 'a CampaignParams_scheme \<Rightarrow> db \<Rightarrow> (db, campaign) outcome" where
  "updateCampaign ev i congregationId actorId params db =
     (case find (is_campaign i congregationId) (campaigns db) of
        None \<Rightarrow> (Inl (NotFoundError ''Campaign'' (Some i)), db)
      | Some existing \<Rightarrow>
          (let started = (camp_activatedAt existing \<noteq> None);
               startDate = (if started then Date (camp_startDate existing)
                            else parseLocalDate (env_zone ev) (cpm_startDate params));
               endDate = parseLocalDate (env_zone ev) (cpm_endDate params)
           in guard_by (assertNoWindowOverlap db congregationId startDate endDate (Some i)) db
                (chain (case (startDate, endDate) of
                          (Date s, Date e) \<Rightarrow>
                            update_campaign i congregationId
                              (apply_campaign_params params s e
                                 (if started then camp_startRegularAction existing else cpm_startRegularAction params)
                                 (if started then camp_startAutoReassign existing else cpm_startAutoReassign params)) db
                        | _ \<Rightarrow> (Inl (DatabaseError InvalidValue), db))
                  (\<lambda>campaign db. (Inr campaign,
                     entity_audit ''campaign.updated'' congregationId actorId ''Campaign'' i None db)))))"

definition in_scope_of :: "int \<Rightarrow> int \<Rightarrow> campaign_territory \<Rightarrow> bool" where
  "in_scope_of campaignId congregationId s \<longleftrightarrow> ct_campaignId s = campaignId \<and> ct_congregationId s = congregationId"

definition replaceScope :: "int \<Rightarrow> int \<Rightarrow> int list \<Rightarrow> db \<Rightarrow> (db, unit) outcome" where
  "replaceScope campaignId congregationId territoryIds db =
     (let db' = db\<lparr>campaignTerritories := delete_where (in_scope_of campaignId congregationId) (campaignTerritories db)\<rparr>
      in if length territoryIds > 0 then create_scope campaignId congregationId territoryIds db' else (Inr (), db'))"

text \<open>Deleting a campaign cascades to its scope; referenced campaigns are refused before the foreign key is.\<close>

definition refers_to_campaign :: "int \<Rightarrow> int \<Rightarrow> attribution \<Rightarrow> bool" where
  "refers_to_campaign i congregationId r \<longleftrightarrow>
     attr_congregationId r = congregationId \<and> (attr_campaignId r = Some i \<or> attr_pausedByCampaignId r = Some i)"

definition deleteCampaign :: "int \<Rightarrow> int \<Rightarrow> int \<Rightarrow> db \<Rightarrow> (db, campaign) outcome" where
  "deleteCampaign i congregationId actorId db =
     (case find (is_campaign i congregationId) (campaigns db) of
        None \<Rightarrow> (Inl (NotFoundError ''Campaign'' (Some i)), db)
      | Some existing \<Rightarrow>
          if getCampaignStatus existing = Active then (Inl (ConflictError ''campaign_active''), db)
          else if length (filter (refers_to_campaign i congregationId) (attributions db)) > 0
          then (Inl (ConflictError ''campaign_has_attributions''), db)
          else (Inr existing,
                entity_audit ''campaign.deleted'' congregationId actorId ''Campaign'' i None
                  (db\<lparr>campaigns := delete_where (is_campaign i congregationId) (campaigns db),
                      campaignTerritories := delete_where (in_scope_of i congregationId) (campaignTerritories db)\<rparr>)))"

definition markActivated :: "int \<Rightarrow> int \<Rightarrow> int \<Rightarrow> int \<Rightarrow> db \<Rightarrow> (db, campaign) outcome" where
  "markActivated i congregationId actorId now db =
     chain (update_campaign i congregationId (\<lambda>c. c\<lparr>camp_activatedAt := Some now\<rparr>) db) (\<lambda>campaign db.
       (Inr campaign, entity_audit ''campaign.activated'' congregationId actorId ''Campaign'' i None db))"

definition markEnded :: "int \<Rightarrow> int \<Rightarrow> int \<Rightarrow> int \<Rightarrow> db \<Rightarrow> (db, campaign) outcome" where
  "markEnded i congregationId actorId now db =
     chain (update_campaign i congregationId (\<lambda>c. c\<lparr>camp_endedAt := Some now\<rparr>) db) (\<lambda>campaign db.
       (Inr campaign, entity_audit ''campaign.ended'' congregationId actorId ''Campaign'' i None db))"

section \<open>The aggregate's invariant\<close>

definition camp_conflict :: "campaign \<Rightarrow> campaign \<Rightarrow> bool" where
  "camp_conflict c d \<longleftrightarrow>
     camp_congregationId c = camp_congregationId d \<and> campaignWindowsOverlap (window c) (window d)"

definition camp_inv :: "db \<Rightarrow> bool" where
  "camp_inv db \<longleftrightarrow> exclusive camp_id camp_conflict (campaigns db)"

interpretation camp_table: exclusive_rows camp_id camp_conflict
  by unfold_locales (simp add: camp_conflict_def campaignWindowsOverlap_sym)

section \<open>The operations keep the windows apart\<close>

lemma create_scope_frame:
  "create_scope i c ids db = (r, db') \<Longrightarrow>
   campaigns db' = campaigns db \<and> attributions db' = attributions db \<and> territories db' = territories db"
  by (auto simp: create_scope_def split: if_splits)

lemma update_campaign_Inl: "update_campaign i c f db = (Inl e, db') \<Longrightarrow> e = DatabaseError RecordNotFound \<and> db' = db"
  by (auto simp: update_campaign_def split: option.splits)

lemma update_campaign_Inr:
  assumes "update_campaign i c f db = (Inr row, db')"
  obtains r where "r \<in> set (campaigns db)" and "is_campaign i c r" and "row = f r"
    and "db' = db\<lparr>campaigns := update_where (is_campaign i c) f (campaigns db)\<rparr>"
  using assms find_Some_in by (fastforce simp: update_campaign_def split: option.splits)

lemma insert_campaign_Inr:
  assumes "insert_campaign ev params sd ed db = (Inr row, db')"
  obtains s e where "sd = Date s" and "ed = Date e" and "row = new_campaign ev params s e db"
    and "db' = db\<lparr>campaigns := campaigns db @ [row]\<rparr>"
  using assms by (auto simp: insert_campaign_def split: jsdate.splits)

lemma insert_campaign_Inl: "insert_campaign ev params sd ed db = (Inl e, db') \<Longrightarrow> db' = db"
  by (auto simp: insert_campaign_def split: jsdate.splits)

lemma new_campaign_fields [simp]:
  "camp_id (new_campaign ev params s e db) = env_campaign_id ev (campaigns db)"
  "camp_congregationId (new_campaign ev params s e db) = cpm_congregationId params"
  "camp_activatedAt (new_campaign ev params s e db) = None"
  "camp_endedAt (new_campaign ev params s e db) = None"
  "window (new_campaign ev params s e db) = (Date s, Date e)"
  by (simp_all add: new_campaign_def window_def)

text \<open>The campaigns a creation leaves, whether the scope could be stored or not.\<close>

lemma createCampaign_campaigns:
  obtains "campaigns (snd (createCampaign ev params db)) = campaigns db"
  | s e where "assertNoWindowOverlap db (cpm_congregationId params) (Date s) (Date e) None = None"
      and "campaigns (snd (createCampaign ev params db)) = campaigns db @ [new_campaign ev params s e db]"
proof -
  let ?sd = "parseLocalDate (env_zone ev) (cpm_startDate params)"
  let ?ed = "parseLocalDate (env_zone ev) (cpm_endDate params)"
  show ?thesis
  proof (cases "assertNoWindowOverlap db (cpm_congregationId params) ?sd ?ed None")
    case (Some e)
    then show ?thesis using that(1) by (simp add: createCampaign_def Let_def)
  next
    case None
    obtain r db1 where ins: "insert_campaign ev params ?sd ?ed db = (r, db1)" by fastforce
    show ?thesis
    proof (cases r)
      case (Inl e)
      then have "db1 = db" using ins insert_campaign_Inl by blast
      then show ?thesis using that(1) None ins Inl by (simp add: createCampaign_def Let_def)
    next
      case (Inr row)
      then obtain s e where se: "?sd = Date s" "?ed = Date e" "row = new_campaign ev params s e db"
        and db1: "campaigns db1 = campaigns db @ [row]"
        using ins by (auto elim!: insert_campaign_Inr)
      have "campaigns (snd (createCampaign ev params db)) = campaigns db1"
        using None ins Inr create_scope_frame
        by (auto simp: createCampaign_def Let_def chain_def split: prod.splits sum.splits)
      then show ?thesis using that(2) None se db1 by simp
    qed
  qed
qed

lemma camp_inv_createCampaign:
  assumes "camp_inv db" and "fresh_keys ev"
  shows "camp_inv (snd (createCampaign ev params db))"
proof (cases rule: createCampaign_campaigns [of ev params db])
  case 1
  then show ?thesis using assms(1) by (simp add: camp_inv_def)
next
  case (2 s e)
  have "exclusive camp_id camp_conflict (campaigns db @ [new_campaign ev params s e db])"
  proof (rule camp_table.snoc)
    show "exclusive camp_id camp_conflict (campaigns db)" using assms(1) by (simp add: camp_inv_def)
    show "camp_id (new_campaign ev params s e db) \<notin> camp_id ` set (campaigns db)"
      using assms(2) by (simp add: fresh_keys_def)
    show "\<not> camp_conflict (new_campaign ev params s e db) r" if "r \<in> set (campaigns db)" for r
      using 2(1) that by (auto simp: assertNoWindowOverlap_None camp_conflict_def)
  qed
  then show ?thesis using 2(2) by (simp add: camp_inv_def)
qed

text \<open>An update that leaves the windows alone keeps the invariant.\<close>

lemma camp_inv_update_campaign:
  assumes "camp_inv db"
    and "\<And>c. camp_id (f c) = camp_id c \<and> camp_congregationId (f c) = camp_congregationId c \<and> window (f c) = window c"
  shows "camp_inv (snd (update_campaign i c f db))"
proof -
  have "exclusive camp_id camp_conflict (update_where (is_campaign i c) f (campaigns db))"
    using assms by (intro camp_table.update_no_new) (auto simp: camp_inv_def camp_conflict_def split: if_splits)
  then show ?thesis using assms(1) by (simp add: update_campaign_def camp_inv_def split: option.splits)
qed

lemma camp_inv_markActivated: "camp_inv db \<Longrightarrow> camp_inv (snd (markActivated i c a t db))"
  unfolding markActivated_def
  by (intro snd_chain_inv [where Q = camp_inv] camp_inv_update_campaign) (simp_all add: window_def camp_inv_def)

lemma camp_inv_markEnded: "camp_inv db \<Longrightarrow> camp_inv (snd (markEnded i c a t db))"
  unfolding markEnded_def
  by (intro snd_chain_inv [where Q = camp_inv] camp_inv_update_campaign) (simp_all add: window_def camp_inv_def)

lemma camp_inv_deleteCampaign: "camp_inv db \<Longrightarrow> camp_inv (snd (deleteCampaign i c a db))"
  by (simp add: deleteCampaign_def camp_inv_def camp_table.delete split: option.splits)

lemma camp_inv_replaceScope: "camp_inv db \<Longrightarrow> camp_inv (snd (replaceScope i c ids db))"
  by (simp add: replaceScope_def camp_inv_def create_scope_def Let_def)

lemma apply_campaign_params_fields [simp]:
  "camp_id (apply_campaign_params params s e a b c) = camp_id c"
  "camp_congregationId (apply_campaign_params params s e a b c) = camp_congregationId c"
  "camp_activatedAt (apply_campaign_params params s e a b c) = camp_activatedAt c"
  "camp_endedAt (apply_campaign_params params s e a b c) = camp_endedAt c"
  "camp_startDate (apply_campaign_params params s e a b c) = s"
  "camp_endDate (apply_campaign_params params s e a b c) = e"
  "camp_startRegularAction (apply_campaign_params params s e a b c) = a"
  "camp_startAutoReassign (apply_campaign_params params s e a b c) = b"
  by (simp_all add: apply_campaign_params_def)

text \<open>What a successful edit wrote.\<close>

lemma updateCampaign_Inr:
  assumes "updateCampaign ev i c a params db = (Inr row, db')"
  obtains c0 s e b1 b2 where "c0 \<in> set (campaigns db)" and "is_campaign i c c0"
    and "assertNoWindowOverlap db c (Date s) (Date e) (Some i) = None"
    and "camp_activatedAt c0 \<noteq> None \<Longrightarrow> s = camp_startDate c0 \<and> b1 = camp_startRegularAction c0 \<and> b2 = camp_startAutoReassign c0"
    and "row = apply_campaign_params params s e b1 b2 c0"
    and "campaigns db' = update_where (is_campaign i c) (apply_campaign_params params s e b1 b2) (campaigns db)"
    and "attributions db' = attributions db"
proof -
  obtain c0 where c0: "find (is_campaign i c) (campaigns db) = Some c0"
    using assms by (cases "find (is_campaign i c) (campaigns db)") (simp_all add: updateCampaign_def)
  define sd where "sd = (if camp_activatedAt c0 \<noteq> None then Date (camp_startDate c0)
      else parseLocalDate (env_zone ev) (cpm_startDate params))"
  define ed where "ed = parseLocalDate (env_zone ev) (cpm_endDate params)"
  define b1 where "b1 = (if camp_activatedAt c0 \<noteq> None then camp_startRegularAction c0 else cpm_startRegularAction params)"
  define b2 where "b2 = (if camp_activatedAt c0 \<noteq> None then camp_startAutoReassign c0 else cpm_startAutoReassign params)"
  have run: "guard_by (assertNoWindowOverlap db c sd ed (Some i)) db
      (chain (case (sd, ed) of (Date s, Date e) \<Rightarrow> update_campaign i c (apply_campaign_params params s e b1 b2) db
              | _ \<Rightarrow> (Inl (DatabaseError InvalidValue), db))
        (\<lambda>campaign db. (Inr campaign, entity_audit ''campaign.updated'' c a ''Campaign'' i None db)))
      = (Inr row, db')"
    using assms unfolding updateCampaign_def c0 option.case Let_def sd_def ed_def b1_def b2_def .
  then obtain s e where se: "sd = Date s" "ed = Date e" and free: "assertNoWindowOverlap db c sd ed (Some i) = None"
    by (auto elim!: guard_by_InrE split: jsdate.splits)
  have upd: "update_campaign i c (apply_campaign_params params s e b1 b2) db =
      (Inr (apply_campaign_params params s e b1 b2 c0),
       db\<lparr>campaigns := update_where (is_campaign i c) (apply_campaign_params params s e b1 b2) (campaigns db)\<rparr>)"
    using c0 by (simp add: update_campaign_def)
  have "row = apply_campaign_params params s e b1 b2 c0"
    "campaigns db' = update_where (is_campaign i c) (apply_campaign_params params s e b1 b2) (campaigns db)"
    "attributions db' = attributions db"
    using run free unfolding se by (auto simp: upd)
  moreover have "camp_activatedAt c0 \<noteq> None \<Longrightarrow>
      s = camp_startDate c0 \<and> b1 = camp_startRegularAction c0 \<and> b2 = camp_startAutoReassign c0"
    using se(1) by (simp add: sd_def b1_def b2_def)
  ultimately show ?thesis using that [of c0 s e b1 b2] find_Some_in [OF c0] free se by simp
qed

lemma updateCampaign_Inl: "updateCampaign ev i c a params db = (Inl e, db') \<Longrightarrow> db' = db"
  unfolding updateCampaign_def Let_def
  by (auto elim!: guard_by_InlE chain_InlE dest: update_campaign_Inl split: option.splits jsdate.splits)

lemma camp_inv_updateCampaign:
  assumes inv: "camp_inv db"
  shows "camp_inv (snd (updateCampaign ev i c a params db))"
proof (cases "updateCampaign ev i c a params db")
  case (Pair r db')
  show ?thesis
  proof (cases r)
    case (Inl e)
    then have "db' = db" using Pair updateCampaign_Inl by blast
    then show ?thesis using Pair inv by simp
  next
    case (Inr row)
    have ok: "exclusive camp_id camp_conflict (campaigns db)" using inv by (simp add: camp_inv_def)
    from Pair Inr obtain c0 s e b1 b2 where c0: "c0 \<in> set (campaigns db)" "is_campaign i c c0"
      and free: "assertNoWindowOverlap db c (Date s) (Date e) (Some i) = None"
      and rows: "campaigns db' = update_where (is_campaign i c) (apply_campaign_params params s e b1 b2) (campaigns db)"
      by (metis updateCampaign_Inr)
    have "exclusive camp_id camp_conflict (update_where (is_campaign i c) (apply_campaign_params params s e b1 b2) (campaigns db))"
    proof (rule camp_table.replace [OF ok c0(1)])
      show "d = c0" if "d \<in> set (campaigns db)" "is_campaign i c d" for d
        using exclusive_unique [OF ok that(1) c0(1)] that(2) c0(2) by (simp add: is_campaign_def)
      show "\<not> camp_conflict (apply_campaign_params params s e b1 b2 c0) d"
        if "d \<in> set (campaigns db)" "camp_id d \<noteq> camp_id c0" for d
        using free c0(2) that by (auto simp: assertNoWindowOverlap_None camp_conflict_def window_def is_campaign_def)
    qed simp
    then show ?thesis using Pair rows by (simp add: camp_inv_def)
  qed
qed

section \<open>Properties\<close>

text \<open>
  C6. Two campaigns of a congregation never share a day, whatever operation of the aggregate
  runs and whether it succeeds or throws: the overlap check is made on create and on edit,
  and the lifecycle stamps, a scope replacement and a deletion leave the windows alone.
\<close>

theorem campaigns_never_share_a_day:
  assumes "camp_inv db" and "fresh_keys ev"
  shows "camp_inv (snd (createCampaign ev params db)) \<and> camp_inv (snd (updateCampaign ev i c a params' db)) \<and>
    camp_inv (snd (deleteCampaign i c a db)) \<and> camp_inv (snd (replaceScope i c ids db)) \<and>
    camp_inv (snd (markActivated i c a t db)) \<and> camp_inv (snd (markEnded i c a t db))"
  using assms
  by (simp add: camp_inv_createCampaign camp_inv_updateCampaign camp_inv_deleteCampaign camp_inv_replaceScope
      camp_inv_markActivated camp_inv_markEnded)

definition sample_campaign_params :: CampaignParams where
  "sample_campaign_params = \<lparr>cpm_name = ''Invitation'', cpm_notes = [], cpm_startDate = ''2026-03-01'',
     cpm_endDate = ''2026-03-31'', cpm_restPeriodDays = None, cpm_startRegularAction = StartPause,
     cpm_startAutoReassign = False, cpm_endCloseCampaign = True, cpm_endRegularAction = EndResume,
     cpm_congregationId = 1, cpm_actorId = 1\<rparr>"

definition sample_create_campaign :: CreateCampaignParams where
  "sample_create_campaign = CampaignParams.extend sample_campaign_params \<lparr>cpm_scopeTerritoryIds = [7]\<rparr>"

lemmas campaign_eval = createCampaign_def sample_create_campaign_def sample_campaign_params_def
  CampaignParams.extend_def assertNoWindowOverlap_def insert_campaign_def new_campaign_def create_scope_def
  utc_env_def next_key_def date_eval sample_defs

lemma sample_campaign_created:
  "fst (createCampaign utc_env sample_create_campaign sample_db) =
     Inr (sample_campaign 1 1772323200000 1774915200000) \<and>
   campaigns (snd (createCampaign utc_env sample_create_campaign sample_db)) =
     [sample_campaign 1 1772323200000 1774915200000]"
  by (simp add: campaign_eval)

lemma campaigns_never_share_a_day_witness:
  "campaigns (snd (createCampaign utc_env sample_create_campaign sample_db)) =
     [sample_campaign 1 1772323200000 1774915200000] \<and>
   camp_inv (snd (createCampaign utc_env sample_create_campaign sample_db))"
proof -
  have "camp_inv sample_db" by (simp add: camp_inv_def exclusive_def sample_defs)
  from campaigns_never_share_a_day [OF this fresh_utc_env] sample_campaign_created show ?thesis by blast
qed

text \<open>
  Once a campaign has started, an edit can no longer move its start or change its start
  options, and no edit, before or after the start, changes its stamps, its congregation or
  any attribution.
\<close>

theorem started_campaign_start_is_frozen:
  assumes "updateCampaign ev i c a params db = (Inr row, db')"
  shows "\<exists>old \<in> set (campaigns db). camp_id old = i \<and> camp_id row = i \<and>
     camp_activatedAt row = camp_activatedAt old \<and> camp_endedAt row = camp_endedAt old \<and>
     (camp_activatedAt old \<noteq> None \<longrightarrow> camp_startDate row = camp_startDate old \<and>
        camp_startRegularAction row = camp_startRegularAction old \<and>
        camp_startAutoReassign row = camp_startAutoReassign old) \<and>
     attributions db' = attributions db"
proof -
  obtain c0 s e b1 b2 where c0: "c0 \<in> set (campaigns db)" "is_campaign i c c0"
    and frozen: "camp_activatedAt c0 \<noteq> None \<Longrightarrow>
        s = camp_startDate c0 \<and> b1 = camp_startRegularAction c0 \<and> b2 = camp_startAutoReassign c0"
    and row: "row = apply_campaign_params params s e b1 b2 c0" and db': "attributions db' = attributions db"
    using updateCampaign_Inr [OF assms] by metis
  then show ?thesis by (intro bexI [of _ c0]) (simp_all add: is_campaign_def)
qed

lemma started_campaign_start_is_frozen_witness:
  "\<exists>row db'. updateCampaign utc_env 1 1 1 sample_campaign_params
       (sample_db\<lparr>campaigns := [(sample_campaign 1 0 10)\<lparr>camp_activatedAt := Some 5\<rparr>]\<rparr>) = (Inr row, db') \<and>
     camp_startDate row = 0 \<and> camp_endDate row = 1774915200000"
proof -
  let ?db = "sample_db\<lparr>campaigns := [(sample_campaign 1 0 10)\<lparr>camp_activatedAt := Some 5\<rparr>]\<rparr>"
  have "fst (updateCampaign utc_env 1 1 1 sample_campaign_params ?db) =
      Inr ((sample_campaign 1 0 1774915200000)\<lparr>camp_activatedAt := Some 5\<rparr>)"
    by (simp add: updateCampaign_def is_campaign_def update_campaign_def apply_campaign_params_def campaign_eval)
  then obtain db' where run: "updateCampaign utc_env 1 1 1 sample_campaign_params ?db =
      (Inr ((sample_campaign 1 0 1774915200000)\<lparr>camp_activatedAt := Some 5\<rparr>), db')"
    by (cases "updateCampaign utc_env 1 1 1 sample_campaign_params ?db") simp
  from started_campaign_start_is_frozen [OF run]
  have "camp_startDate ((sample_campaign 1 0 1774915200000)\<lparr>camp_activatedAt := Some 5\<rparr>) = 0"
    by (simp add: sample_defs)
  with run show ?thesis by (intro exI conjI) (assumption, simp_all add: sample_defs)
qed

text \<open>
  C10. Deleting a campaign is refused while it is active and while any attribution refers to
  it; when it succeeds, no attribution of the congregation refers to a campaign that is gone
  and no row of its scope is left.
\<close>

theorem deleteCampaign_leaves_no_reference:
  assumes "deleteCampaign i c a db = (Inr row, db')"
  shows "getCampaignStatus row \<noteq> Active \<and> attributions db' = attributions db \<and>
    (\<forall>r \<in> set (attributions db'). attr_congregationId r = c \<longrightarrow>
       attr_campaignId r \<noteq> Some i \<and> attr_pausedByCampaignId r \<noteq> Some i) \<and>
    (\<forall>d \<in> set (campaigns db'). \<not> is_campaign i c d) \<and>
    (\<forall>s \<in> set (campaignTerritories db'). \<not> in_scope_of i c s)"
proof -
  obtain c0 where c0: "find (is_campaign i c) (campaigns db) = Some c0"
    using assms by (cases "find (is_campaign i c) (campaigns db)") (simp_all add: deleteCampaign_def)
  then have ok: "getCampaignStatus c0 \<noteq> Active" "filter (refers_to_campaign i c) (attributions db) = []"
    and row: "row = c0" and db': "attributions db' = attributions db"
      "campaigns db' = delete_where (is_campaign i c) (campaigns db)"
      "campaignTerritories db' = delete_where (in_scope_of i c) (campaignTerritories db)"
    using assms by (auto simp: deleteCampaign_def split: if_splits)
  then show ?thesis by (auto simp: filter_empty_conv refers_to_campaign_def)
qed

lemma deleteCampaign_leaves_no_reference_witness:
  "\<exists>row db'. deleteCampaign 1 1 1 (sample_db\<lparr>campaigns := [sample_campaign 1 0 10]\<rparr>) = (Inr row, db') \<and>
     (\<forall>d \<in> set (campaigns db'). \<not> is_campaign 1 1 d)"
proof -
  let ?db = "sample_db\<lparr>campaigns := [sample_campaign 1 0 10]\<rparr>"
  have "fst (deleteCampaign 1 1 1 ?db) = Inr (sample_campaign 1 0 10)"
    by (simp add: deleteCampaign_def is_campaign_def getCampaignStatus_def refers_to_campaign_def sample_defs)
  then obtain db' where run: "deleteCampaign 1 1 1 ?db = (Inr (sample_campaign 1 0 10), db')"
    by (cases "deleteCampaign 1 1 1 ?db") simp
  from deleteCampaign_leaves_no_reference [OF run] run show ?thesis by blast
qed

end
