(* ===== verification/Lifecycle.thy ===== *)
theory Lifecycle
  imports Campaign
begin

text \<open>
  The campaign lifecycle (\<^verbatim>\<open>territories/server/campaign-lifecycle.workflow.ts\<close>): the start and
  end transitions of a campaign, the edit of its scope, and the date-driven sweep that the
  worker runs for every congregation (\<^verbatim>\<open>jobs/handle-campaign-lifecycle-work.server.ts\<close>). The
  transitions rest on the contract \<open>bulk_transition\<close> of the attribution aggregate.
\<close>

section \<open>The date written into a reassignment\<close>

definition localDateString :: "zone \<Rightarrow> int \<Rightarrow> string" where
  "localDateString z t =
     (case local_civil z t of (y, m, d) \<Rightarrow>
        js_string y @ ''-'' @ padStart2 (js_string (m + 1)) @ ''-'' @ padStart2 (js_string d))"

definition scopeTerritoryIds :: "CampaignWithScope \<Rightarrow> int list option" where
  "scopeTerritoryIds campaign = (if length (snd campaign) > 0 then Some (snd campaign) else None)"

section \<open>Start\<close>

definition reassign_params :: "env \<Rightarrow> campaign \<Rightarrow> attribution \<Rightarrow> int \<Rightarrow> int \<Rightarrow> int \<Rightarrow> CreateAttributionParams" where
  "reassign_params ev campaign row congregationId actorId now =
     \<lparr>cap_publisherId = attr_publisherId row, cap_territoryId = attr_territoryId row,
      cap_startDate = localDateString (env_zone ev) now, cap_notes = [], cap_type = DefaultKind,
      cap_campaignId = Some (camp_id campaign), cap_congregationId = congregationId, cap_actorId = actorId\<rparr>"

text \<open>The loop of \<^verbatim>\<open>_reassignIntoCampaign\<close>: conflicts are skipped, other errors end it.\<close>

fun reassignIntoCampaign ::
  "env \<Rightarrow> campaign \<Rightarrow> attribution list \<Rightarrow> int \<Rightarrow> int \<Rightarrow> int \<Rightarrow> nat \<Rightarrow> db \<Rightarrow> (db, nat) outcome" where
  "reassignIntoCampaign ev campaign [] congregationId actorId now reassigned db = (Inr reassigned, db)"
| "reassignIntoCampaign ev campaign (row # rows) congregationId actorId now reassigned db =
     (case assign ev (reassign_params ev campaign row congregationId actorId now) db of
        (Inr _, db') \<Rightarrow> reassignIntoCampaign ev campaign rows congregationId actorId now (reassigned + 1) db'
      | (Inl err, db') \<Rightarrow>
          if \<not> is_ConflictError err then (Inl err, db')
          else reassignIntoCampaign ev campaign rows congregationId actorId now reassigned db')"

record ActivationResult =
  ar_activated :: bool
  ar_paused :: nat
  ar_closed :: nat
  ar_reassigned :: nat

definition transition :: "int \<Rightarrow> campaign \<Rightarrow> int list option \<Rightarrow> int \<Rightarrow> int \<Rightarrow> CampaignTransitionParams" where
  "transition congregationId campaign territoryIds actorId now =
     \<lparr>ctp_congregationId = congregationId, ctp_campaignId = camp_id campaign,
      ctp_territoryIds = territoryIds, ctp_actorId = actorId, ctp_now = now\<rparr>"

text \<open>
  What starting does to the attributions of a set of territories: the three branches on
  \<^verbatim>\<open>startRegularAction\<close>, with the numbers of rows paused, closed and reassigned.
\<close>

definition start_transition ::
  "env \<Rightarrow> campaign \<Rightarrow> CampaignTransitionParams \<Rightarrow> db \<Rightarrow> (db, nat \<times> nat \<times> nat) outcome" where
  "start_transition ev campaign p db =
     (case camp_startRegularAction campaign of
        StartPause \<Rightarrow>
          chain (pauseOpenRegulars p db) (\<lambda>pausedRows db.
            if camp_startAutoReassign campaign
            then chain (reassignIntoCampaign ev campaign pausedRows (ctp_congregationId p) (ctp_actorId p) (ctp_now p) 0 db)
                   (\<lambda>reassigned db. (Inr (length pausedRows, 0, reassigned), db))
            else (Inr (length pausedRows, 0, 0), db))
      | StartClose \<Rightarrow> chain (closeOpenRegulars p db) (\<lambda>closed db. (Inr (0, closed, 0), db))
      | StartLeave \<Rightarrow> (Inr (0, 0, 0), db))"

definition activateCampaign ::
  "env \<Rightarrow> CampaignWithScope \<Rightarrow> int \<Rightarrow> int \<Rightarrow> int \<Rightarrow> db \<Rightarrow> (db, ActivationResult) outcome" where
  "activateCampaign ev campaign congregationId actorId now db =
     (if camp_activatedAt (fst campaign) \<noteq> None
      then (Inr \<lparr>ar_activated = False, ar_paused = 0, ar_closed = 0, ar_reassigned = 0\<rparr>, db)
      else
        chain (markActivated (camp_id (fst campaign)) congregationId actorId now db) (\<lambda>_ db.
        chain (start_transition ev (fst campaign)
                 (transition congregationId (fst campaign) (scopeTerritoryIds campaign) actorId now) db)
          (\<lambda>(paused, closed, reassigned) db.
             (Inr \<lparr>ar_activated = True, ar_paused = paused, ar_closed = closed, ar_reassigned = reassigned\<rparr>, db))))"

section \<open>End\<close>

record EndResult =
  er_ended :: bool
  er_closedCampaign :: nat
  er_resumed :: nat
  er_closedRegulars :: nat

text \<open>What ending does to the attributions of a set of territories.\<close>

definition end_transition ::
  "campaign \<Rightarrow> CampaignTransitionParams \<Rightarrow> db \<Rightarrow> (db, nat \<times> nat \<times> nat) outcome" where
  "end_transition campaign p db =
     chain (if camp_endCloseCampaign campaign then closeOpenCampaignAttributions p db else (Inr 0, db))
       (\<lambda>closedCampaign db.
          (case camp_endRegularAction campaign of
             EndResume \<Rightarrow> chain (resumePausedBy p db) (\<lambda>resumed db. (Inr (closedCampaign, resumed, 0), db))
           | EndClose \<Rightarrow> chain (closePausedBy p db) (\<lambda>closedRegulars db. (Inr (closedCampaign, 0, closedRegulars), db))
           | EndKeepPaused \<Rightarrow> (Inr (closedCampaign, 0, 0), db)))"

definition endCampaign :: "CampaignWithScope \<Rightarrow> int \<Rightarrow> int \<Rightarrow> int \<Rightarrow> db \<Rightarrow> (db, EndResult) outcome" where
  "endCampaign campaign congregationId actorId now db =
     (if camp_endedAt (fst campaign) \<noteq> None \<or> camp_activatedAt (fst campaign) = None
      then (Inr \<lparr>er_ended = False, er_closedCampaign = 0, er_resumed = 0, er_closedRegulars = 0\<rparr>, db)
      else
        chain (markEnded (camp_id (fst campaign)) congregationId actorId now db) (\<lambda>_ db.
        chain (end_transition (fst campaign) (transition congregationId (fst campaign) None actorId now) db)
          (\<lambda>(closedCampaign, resumed, closedRegulars) db.
             (Inr \<lparr>er_ended = True, er_closedCampaign = closedCampaign, er_resumed = resumed,
                   er_closedRegulars = closedRegulars\<rparr>, db))))"

section \<open>Scope edits\<close>

definition scope_diff :: "db \<Rightarrow> int list \<Rightarrow> int list \<Rightarrow> int \<Rightarrow> int list \<times> int list" where
  "scope_diff db currentIds nextTerritoryIds congregationId =
     (let allIds = (if currentIds = [] \<or> nextTerritoryIds = [] then listAllTerritoryIds db congregationId else []);
          effectiveCurrent = (if length currentIds > 0 then currentIds else allIds);
          effectiveNext = (if length nextTerritoryIds > 0 then nextTerritoryIds else allIds)
      in (filter (\<lambda>i. i \<notin> set effectiveCurrent) effectiveNext,
          filter (\<lambda>i. i \<notin> set effectiveNext) effectiveCurrent))"

definition applyScopeChange ::
  "env \<Rightarrow> CampaignWithScope \<Rightarrow> int list \<Rightarrow> int \<Rightarrow> int \<Rightarrow> int \<Rightarrow> db \<Rightarrow> (db, nat \<times> nat) outcome" where
  "applyScopeChange ev campaign nextTerritoryIds congregationId actorId now db =
     (if getCampaignStatus (fst campaign) \<noteq> Active
      then chain (replaceScope (camp_id (fst campaign)) congregationId nextTerritoryIds db) (\<lambda>_ db. (Inr (0, 0), db))
      else
        (case scope_diff db (snd campaign) nextTerritoryIds congregationId of (added, removed) \<Rightarrow>
           chain (if length added > 0
                  then start_transition ev (fst campaign) (transition congregationId (fst campaign) (Some added) actorId now) db
                  else (Inr (0, 0, 0), db)) (\<lambda>_ db.
           chain (if length removed > 0
                  then end_transition (fst campaign) (transition congregationId (fst campaign) (Some removed) actorId now) db
                  else (Inr (0, 0, 0), db)) (\<lambda>_ db.
           chain (replaceScope (camp_id (fst campaign)) congregationId nextTerritoryIds db) (\<lambda>_ db.
             (Inr (length added, length removed), db))))))"

section \<open>The sweep\<close>

definition SYSTEM_ACTOR_ID :: int where
  "SYSTEM_ACTOR_ID = 0"

fun activate_all :: "env \<Rightarrow> CampaignWithScope list \<Rightarrow> int \<Rightarrow> int \<Rightarrow> nat \<Rightarrow> db \<Rightarrow> (db, nat) outcome" where
  "activate_all ev [] congregationId now activated db = (Inr activated, db)"
| "activate_all ev (campaign # rest) congregationId now activated db =
     chain (activateCampaign ev campaign congregationId SYSTEM_ACTOR_ID now db) (\<lambda>result db.
       activate_all ev rest congregationId now (if ar_activated result then activated + 1 else activated) db)"

fun end_all :: "CampaignWithScope list \<Rightarrow> int \<Rightarrow> int \<Rightarrow> nat \<Rightarrow> db \<Rightarrow> (db, nat) outcome" where
  "end_all [] congregationId now ended db = (Inr ended, db)"
| "end_all (campaign # rest) congregationId now ended db =
     chain (endCampaign campaign congregationId SYSTEM_ACTOR_ID now db) (\<lambda>result db.
       end_all rest congregationId now (if er_ended result then ended + 1 else ended) db)"

definition runCampaignLifecycleSweep :: "env \<Rightarrow> int \<Rightarrow> int \<Rightarrow> db \<Rightarrow> (db, nat \<times> nat) outcome" where
  "runCampaignLifecycleSweep ev congregationId now db =
     chain (activate_all ev (getCampaignsDueToActivate db congregationId now) congregationId now 0 db) (\<lambda>activated db.
     chain (end_all (getCampaignsDueToEnd ev db congregationId now) congregationId now 0 db) (\<lambda>ended db.
       (Inr (activated, ended), db)))"

text \<open>
  \<^verbatim>\<open>withScope\<close> runs its body in one transaction: an error rolls every table back, but not the
  journal, which is written outside.
\<close>

definition withScope :: "(db \<Rightarrow> (db, 'a) outcome) \<Rightarrow> db \<Rightarrow> (db, 'a) outcome" where
  "withScope body db =
     (case body db of
        (Inl e, db') \<Rightarrow> (Inl e, db\<lparr>auditLog := auditLog db'\<rparr>)
      | (Inr x, db') \<Rightarrow> (Inr x, db'))"

record work_totals =
  wt_activated :: nat
  wt_ended :: nat
  wt_failed :: nat

text \<open>The worker: one pass per active congregation, whose failure never stops the others.\<close>

fun campaign_work :: "env \<Rightarrow> int \<Rightarrow> int list \<Rightarrow> work_totals \<Rightarrow> db \<Rightarrow> work_totals \<times> db" where
  "campaign_work ev now [] totals db = (totals, db)"
| "campaign_work ev now (cong # congregations) totals db =
     (case withScope (runCampaignLifecycleSweep ev cong now) db of
        (Inr (activated, ended), db') \<Rightarrow>
          campaign_work ev now congregations
            (totals\<lparr>wt_activated := wt_activated totals + activated, wt_ended := wt_ended totals + ended\<rparr>) db'
      | (Inl _, db') \<Rightarrow>
          campaign_work ev now congregations (totals\<lparr>wt_failed := wt_failed totals + 1\<rparr>) db')"

definition handleCampaignLifecycleWork :: "env \<Rightarrow> int \<Rightarrow> congregation list \<Rightarrow> db \<Rightarrow> work_totals \<times> db" where
  "handleCampaignLifecycleWork ev now congregations db =
     campaign_work ev now (map cong_id (filter (\<lambda>c. cong_active c \<and> cong_suspendedAt c = None) congregations))
       \<lparr>wt_activated = 0, wt_ended = 0, wt_failed = 0\<rparr> db"

section \<open>What every transition keeps\<close>

text \<open>A call that keeps the attribution invariant and changes only attributions and the journal.\<close>

definition keeps :: "db \<Rightarrow> db \<Rightarrow> bool" where
  "keeps db db' \<longleftrightarrow> (attr_inv db \<longrightarrow> attr_inv db') \<and> same_elsewhere db db'"

lemma keeps_refl [simp]: "keeps db db"
  by (simp add: keeps_def)

lemma keeps_trans: "keeps a b \<Longrightarrow> keeps b c \<Longrightarrow> keeps a c"
  unfolding keeps_def using same_elsewhere_trans by blast

lemma keeps_chain:
  assumes "keeps db (snd r)" and "\<And>x s. r = (Inr x, s) \<Longrightarrow> keeps s (snd (k x s))"
  shows "keeps db (snd (chain r k))"
proof (cases r)
  case (Pair v s)
  show ?thesis
  proof (cases v)
    case (Inl e)
    then show ?thesis using assms(1) Pair by simp
  next
    case (Inr x)
    then have "keeps db s" "keeps s (snd (k x s))" using assms Pair by simp_all
    then show ?thesis using Pair Inr keeps_trans by simp
  qed
qed

lemma assign_elsewhere: "same_elsewhere db (snd (assign ev p db))"
proof (cases "assign ev p db")
  case (Pair r db')
  show ?thesis
  proof (cases r)
    case (Inl e)
    then show ?thesis using Pair assign_Inl by fastforce
  next
    case (Inr row)
    then show ?thesis using Pair by (auto elim!: assign_Inr simp: same_elsewhere_def)
  qed
qed

lemma keeps_assign: "fresh_keys ev \<Longrightarrow> keeps db (snd (assign ev p db))"
  by (simp add: keeps_def assign_elsewhere attr_inv_assign)

lemma keeps_reassign:
  assumes "fresh_keys ev"
  shows "keeps db (snd (reassignIntoCampaign ev campaign rows c a t n db))"
proof (induction rows arbitrary: n db)
  case Nil
  then show ?case by simp
next
  case (Cons row rows)
  obtain r db' where run: "assign ev (reassign_params ev campaign row c a t) db = (r, db')" by fastforce
  then have "keeps db db'" using keeps_assign [OF assms] by (metis snd_conv)
  then show ?case using run keeps_trans [OF _ Cons.IH] by (cases r) simp_all
qed

lemma keeps_transitions:
  "keeps db (snd (pauseOpenRegulars p db))" "keeps db (snd (closeOpenRegulars p db))"
  "keeps db (snd (resumePausedBy p db))" "keeps db (snd (closePausedBy p db))"
  "keeps db (snd (closeOpenCampaignAttributions p db))"
  by (simp_all add: keeps_def pausing.run_inv pausing.run_elsewhere closing_regulars.run_inv
      closing_regulars.run_elsewhere resuming.run_inv resuming.run_elsewhere closing_paused.run_inv
      closing_paused.run_elsewhere closing_campaign.run_inv closing_campaign.run_elsewhere)

lemma keeps_start_transition:
  assumes "fresh_keys ev"
  shows "keeps db (snd (start_transition ev campaign p db))"
  unfolding start_transition_def
  by (cases "camp_startRegularAction campaign")
    (auto intro!: keeps_chain keeps_transitions keeps_reassign [OF assms])

lemma keeps_end_transition: "keeps db (snd (end_transition campaign p db))"
  unfolding end_transition_def
  by (cases "camp_endRegularAction campaign") (auto intro!: keeps_chain keeps_transitions)

text \<open>The invariant of the two aggregates together.\<close>

definition lifecycle_inv :: "db \<Rightarrow> bool" where
  "lifecycle_inv db \<longleftrightarrow> attr_inv db \<and> camp_inv db"

lemma keeps_lifecycle_inv: "keeps db db' \<Longrightarrow> lifecycle_inv db \<Longrightarrow> lifecycle_inv db'"
  by (auto simp: keeps_def lifecycle_inv_def camp_inv_def same_elsewhere_def)

lemma mark_attributions:
  "attributions (snd (markActivated i c a t db)) = attributions db"
  "attributions (snd (markEnded i c a t db)) = attributions db"
  by (simp_all add: markActivated_def markEnded_def update_campaign_def split: option.splits)

lemma lifecycle_inv_mark:
  "lifecycle_inv db \<Longrightarrow> lifecycle_inv (snd (markActivated i c a t db))"
  "lifecycle_inv db \<Longrightarrow> lifecycle_inv (snd (markEnded i c a t db))"
  by (simp_all add: lifecycle_inv_def camp_inv_markActivated camp_inv_markEnded attr_inv_def mark_attributions)

lemma lifecycle_inv_start:
  "fresh_keys ev \<Longrightarrow> lifecycle_inv db \<Longrightarrow> lifecycle_inv (snd (start_transition ev campaign p db))"
  using keeps_start_transition keeps_lifecycle_inv by blast

lemma lifecycle_inv_end: "lifecycle_inv db \<Longrightarrow> lifecycle_inv (snd (end_transition campaign p db))"
  using keeps_end_transition keeps_lifecycle_inv by blast

lemma lifecycle_inv_activate:
  assumes "fresh_keys ev" and "lifecycle_inv db"
  shows "lifecycle_inv (snd (activateCampaign ev campaign c a t db))"
  using assms unfolding activateCampaign_def
  by (auto intro!: snd_chain_inv [where Q = lifecycle_inv] lifecycle_inv_mark lifecycle_inv_start)

lemma lifecycle_inv_endCampaign:
  "lifecycle_inv db \<Longrightarrow> lifecycle_inv (snd (endCampaign campaign c a t db))"
  unfolding endCampaign_def
  by (auto intro!: snd_chain_inv [where Q = lifecycle_inv] lifecycle_inv_mark lifecycle_inv_end)

lemma lifecycle_inv_replaceScope: "lifecycle_inv db \<Longrightarrow> lifecycle_inv (snd (replaceScope i c ids db))"
  by (simp add: lifecycle_inv_def camp_inv_replaceScope) (simp add: replaceScope_def create_scope_def attr_inv_def Let_def)

lemma lifecycle_inv_applyScopeChange:
  assumes "fresh_keys ev" and "lifecycle_inv db"
  shows "lifecycle_inv (snd (applyScopeChange ev campaign ids c a t db))"
  using assms unfolding applyScopeChange_def
  by (auto intro!: snd_chain_inv [where Q = lifecycle_inv] lifecycle_inv_start lifecycle_inv_end
      lifecycle_inv_replaceScope split: prod.splits)

lemma lifecycle_inv_activate_all:
  assumes "fresh_keys ev"
  shows "lifecycle_inv db \<Longrightarrow> lifecycle_inv (snd (activate_all ev cs c t n db))"
  by (induction cs arbitrary: n db)
    (auto intro!: snd_chain_inv [where Q = lifecycle_inv] lifecycle_inv_activate [OF assms])

lemma lifecycle_inv_end_all: "lifecycle_inv db \<Longrightarrow> lifecycle_inv (snd (end_all cs c t n db))"
  by (induction cs arbitrary: n db)
    (auto intro!: snd_chain_inv [where Q = lifecycle_inv] lifecycle_inv_endCampaign)

lemma lifecycle_inv_sweep:
  assumes "fresh_keys ev" and "lifecycle_inv db"
  shows "lifecycle_inv (snd (runCampaignLifecycleSweep ev c t db))"
  using assms unfolding runCampaignLifecycleSweep_def
  by (auto intro!: snd_chain_inv [where Q = lifecycle_inv] lifecycle_inv_activate_all lifecycle_inv_end_all)

lemma lifecycle_inv_work:
  assumes "fresh_keys ev"
  shows "lifecycle_inv db \<Longrightarrow> lifecycle_inv (snd (campaign_work ev t congs totals db))"
proof (induction congs arbitrary: totals db)
  case Nil
  then show ?case by simp
next
  case (Cons cong congs)
  obtain r db' where run: "runCampaignLifecycleSweep ev cong t db = (r, db')" by fastforce
  have "lifecycle_inv db'" using lifecycle_inv_sweep [OF assms Cons.prems, of cong t] run by simp
  moreover have "lifecycle_inv (db\<lparr>auditLog := auditLog db'\<rparr>)"
    using Cons.prems by (simp add: lifecycle_inv_def attr_inv_def camp_inv_def)
  ultimately show ?case
    using run Cons.IH by (cases r) (auto simp: withScope_def split: prod.splits)
qed

section \<open>What the transitions do to the rows\<close>

definition campaign_work_rows :: "int \<Rightarrow> attribution list \<Rightarrow> bool" where
  "campaign_work_rows cid rows \<longleftrightarrow>
     (\<forall>r \<in> set rows. attr_campaignId r = Some cid \<and> attr_endDate r = None \<and> attr_pausedAt r = None \<and>
        attr_pausedByCampaignId r = None)"

text \<open>Reassigning only adds open attributions of the campaign.\<close>

lemma assign_rows:
  "\<exists>new. attributions (snd (assign ev (reassign_params ev campaign row c a t) db)) = attributions db @ new \<and>
     campaign_work_rows (camp_id campaign) new"
proof (cases "assign ev (reassign_params ev campaign row c a t) db")
  case (Pair r db')
  show ?thesis
  proof (cases r)
    case (Inl e)
    then have "db' = db" using Pair assign_Inl by blast
    then show ?thesis using Pair by (intro exI [of _ "[]"]) (simp add: campaign_work_rows_def)
  next
    case (Inr new)
    have "campaign_work_rows (camp_id campaign) [new] \<and> attributions db' = attributions db @ [new]"
      using Pair Inr by (auto elim!: assign_Inr simp: campaign_work_rows_def reassign_params_def)
    then show ?thesis using Pair by (intro exI [of _ "[new]"]) simp
  qed
qed

lemma reassign_rows:
  "\<exists>new. attributions (snd (reassignIntoCampaign ev campaign rows c a t n db)) = attributions db @ new \<and>
     campaign_work_rows (camp_id campaign) new"
proof (induction rows arbitrary: n db)
  case Nil
  then show ?case by (simp add: campaign_work_rows_def)
next
  case (Cons row rows)
  obtain r db1 where run: "assign ev (reassign_params ev campaign row c a t) db = (r, db1)" by fastforce
  obtain new1 where new1: "attributions db1 = attributions db @ new1" "campaign_work_rows (camp_id campaign) new1"
    using assign_rows [of ev campaign row c a t db] run by auto
  have more: "\<exists>new. attributions (snd (reassignIntoCampaign ev campaign rows c a t m db1)) = attributions db @ new \<and>
      campaign_work_rows (camp_id campaign) new" for m
  proof -
    obtain new2 where "attributions (snd (reassignIntoCampaign ev campaign rows c a t m db1)) = attributions db1 @ new2"
      "campaign_work_rows (camp_id campaign) new2"
      using Cons.IH by blast
    then show ?thesis using new1 by (intro exI [of _ "new1 @ new2"]) (auto simp: campaign_work_rows_def)
  qed
  show ?case
  proof (cases r)
    case (Inl e)
    then show ?thesis using run new1 more by (cases "is_ConflictError e") auto
  next
    case (Inr row')
    then show ?thesis using run more by simp
  qed
qed

lemma start_pause_rows:
  assumes "attr_inv db" and "camp_startRegularAction campaign = StartPause"
    and "start_transition ev campaign p db = (Inr x, db')"
  shows "\<exists>new. attributions db' = update_where (open_regular_unpaused p) (set_paused p) (attributions db) @ new \<and>
     campaign_work_rows (camp_id campaign) new"
proof -
  from assms(2,3) obtain rows db1 where p: "pauseOpenRegulars p db = (Inr rows, db1)"
    and rest: "(if camp_startAutoReassign campaign
            then chain (reassignIntoCampaign ev campaign rows (ctp_congregationId p) (ctp_actorId p) (ctp_now p) 0 db1)
                   (\<lambda>reassigned db. (Inr (length rows, 0, reassigned), db))
            else (Inr (length rows, 0, 0), db1)) = (Inr x, db')"
    by (auto simp: start_transition_def elim!: chain_InrE)
  have rows: "attributions db1 = update_where (open_regular_unpaused p) (set_paused p) (attributions db)"
    using pausing.run_rows [OF assms(1) p] .
  show ?thesis
  proof (cases "camp_startAutoReassign campaign")
    case True
    then obtain n where
      run: "reassignIntoCampaign ev campaign rows (ctp_congregationId p) (ctp_actorId p) (ctp_now p) 0 db1 = (Inr n, db')"
      using rest by (auto elim!: chain_InrE)
    show ?thesis
      using reassign_rows [of ev campaign rows "ctp_congregationId p" "ctp_actorId p" "ctp_now p" 0 db1] rows
      unfolding run by simp
  next
    case False
    then have "db' = db1" using rest by simp
    then show ?thesis using rows by (intro exI [of _ "[]"]) (simp add: campaign_work_rows_def)
  qed
qed

lemma start_close_rows:
  assumes "attr_inv db" and "camp_startRegularAction campaign = StartClose"
    and "start_transition ev campaign p db = (Inr x, db')"
  shows "attributions db' = update_where (open_regular p) (set_ended p) (attributions db)"
  using assms(2,3) closing_regulars.run_rows [OF assms(1)]
  by (auto simp: start_transition_def elim!: chain_InrE)

text \<open>What the two stamps write.\<close>

lemma markActivated_Inr:
  assumes "markActivated i c a t db = (Inr row, db')"
  shows "campaigns db' = update_where (is_campaign i c) (\<lambda>d. d\<lparr>camp_activatedAt := Some t\<rparr>) (campaigns db) \<and>
     attributions db' = attributions db \<and> (\<exists>d \<in> set (campaigns db). is_campaign i c d)"
  using assms unfolding markActivated_def by (auto elim!: chain_InrE update_campaign_Inr)

lemma markEnded_Inr:
  assumes "markEnded i c a t db = (Inr row, db')"
  shows "campaigns db' = update_where (is_campaign i c) (\<lambda>d. d\<lparr>camp_endedAt := Some t\<rparr>) (campaigns db) \<and>
     attributions db' = attributions db \<and> (\<exists>d \<in> set (campaigns db). is_campaign i c d)"
  using assms unfolding markEnded_def by (auto elim!: chain_InrE update_campaign_Inr)

text \<open>An activation that ran is its stamp followed by the start transition.\<close>

lemma activateCampaign_Inr:
  assumes "activateCampaign ev campaign c a t db = (Inr res, db')" and "camp_activatedAt (fst campaign) = None"
  obtains row db1 x where "markActivated (camp_id (fst campaign)) c a t db = (Inr row, db1)"
    and "start_transition ev (fst campaign) (transition c (fst campaign) (scopeTerritoryIds campaign) a t) db1 = (Inr x, db')"
  using assms unfolding activateCampaign_def by (auto elim!: chain_InrE split: prod.splits)

lemma activateCampaign_campaigns:
  assumes "activateCampaign ev campaign c a t db = (Inr res, db')" and "camp_activatedAt (fst campaign) = None"
    and "fresh_keys ev"
  shows "campaigns db' = update_where (is_campaign (camp_id (fst campaign)) c)
      (\<lambda>d. d\<lparr>camp_activatedAt := Some t\<rparr>) (campaigns db)"
proof -
  obtain row db1 x where m: "markActivated (camp_id (fst campaign)) c a t db = (Inr row, db1)"
    and s: "start_transition ev (fst campaign) (transition c (fst campaign) (scopeTerritoryIds campaign) a t) db1 = (Inr x, db')"
    using activateCampaign_Inr [OF assms(1,2)] .
  have "campaigns db' = campaigns db1"
    using keeps_start_transition [OF assms(3), of db1 "fst campaign"
        "transition c (fst campaign) (scopeTerritoryIds campaign) a t"] s
    by (simp add: keeps_def same_elsewhere_def)
  then show ?thesis using markActivated_Inr [OF m] by simp
qed

lemma endCampaign_Inr:
  assumes "endCampaign campaign c a t db = (Inr res, db')"
    and "camp_activatedAt (fst campaign) \<noteq> None" and "camp_endedAt (fst campaign) = None"
  obtains row db1 x where "markEnded (camp_id (fst campaign)) c a t db = (Inr row, db1)"
    and "end_transition (fst campaign) (transition c (fst campaign) None a t) db1 = (Inr x, db')"
  using assms unfolding endCampaign_def by (auto elim!: chain_InrE split: prod.splits)

lemma endCampaign_campaigns:
  assumes "endCampaign campaign c a t db = (Inr res, db')"
    and "camp_activatedAt (fst campaign) \<noteq> None" and "camp_endedAt (fst campaign) = None"
  shows "campaigns db' = update_where (is_campaign (camp_id (fst campaign)) c)
      (\<lambda>d. d\<lparr>camp_endedAt := Some t\<rparr>) (campaigns db)"
proof -
  obtain row db1 x where m: "markEnded (camp_id (fst campaign)) c a t db = (Inr row, db1)"
    and s: "end_transition (fst campaign) (transition c (fst campaign) None a t) db1 = (Inr x, db')"
    using endCampaign_Inr [OF assms] .
  have "campaigns db' = campaigns db1"
    using keeps_end_transition [of db1 "fst campaign" "transition c (fst campaign) None a t"] s
    by (simp add: keeps_def same_elsewhere_def)
  then show ?thesis using markEnded_Inr [OF m] by simp
qed

section \<open>The sweep reaches a state with nothing left to do\<close>

text \<open>Stamping is idempotent, so the stamps of a loop add up.\<close>

lemma update_where_again:
  assumes "\<And>r. f (f r) = f r" and "\<And>r. p (f r) = p r"
  shows "update_where p f (update_where q f rows) = update_where (\<lambda>r. p r \<or> q r) f rows"
  using assms by (auto simp: update_where_def)

definition among :: "CampaignWithScope list \<Rightarrow> int \<Rightarrow> campaign \<Rightarrow> bool" where
  "among cs c d \<longleftrightarrow> camp_congregationId d = c \<and> camp_id d \<in> (camp_id \<circ> fst) ` set cs"

lemma activate_all_campaigns:
  assumes "fresh_keys ev" and "\<forall>x \<in> set cs. camp_activatedAt (fst x) = None"
    and "activate_all ev cs c t n db = (Inr m, db')"
  shows "campaigns db' = update_where (among cs c) (\<lambda>d. d\<lparr>camp_activatedAt := Some t\<rparr>) (campaigns db)"
  using assms(2,3)
proof (induction cs arbitrary: n db)
  case Nil
  then show ?case by (simp add: update_where_none among_def)
next
  case (Cons x cs)
  obtain res db1 k where step: "activateCampaign ev x c SYSTEM_ACTOR_ID t db = (Inr res, db1)"
    and rest: "activate_all ev cs c t k db1 = (Inr m, db')"
    using Cons.prems(2) by (auto elim!: chain_InrE)
  have first: "campaigns db1 = update_where (is_campaign (camp_id (fst x)) c)
      (\<lambda>d. d\<lparr>camp_activatedAt := Some t\<rparr>) (campaigns db)"
    using activateCampaign_campaigns [OF step _ assms(1)] Cons.prems(1) by simp
  have "campaigns db' = update_where (among cs c) (\<lambda>d. d\<lparr>camp_activatedAt := Some t\<rparr>) (campaigns db1)"
    using Cons.IH [OF _ rest] Cons.prems(1) by simp
  also have "\<dots> = update_where (\<lambda>d. among cs c d \<or> is_campaign (camp_id (fst x)) c d)
      (\<lambda>d. d\<lparr>camp_activatedAt := Some t\<rparr>) (campaigns db)"
    unfolding first by (rule update_where_again) (simp_all add: among_def)
  also have "(\<lambda>d. among cs c d \<or> is_campaign (camp_id (fst x)) c d) = among (x # cs) c"
    by (auto simp: among_def is_campaign_def fun_eq_iff)
  finally show ?case .
qed

lemma end_all_campaigns:
  assumes "\<forall>x \<in> set cs. camp_activatedAt (fst x) \<noteq> None \<and> camp_endedAt (fst x) = None"
    and "end_all cs c t n db = (Inr m, db')"
  shows "campaigns db' = update_where (among cs c) (\<lambda>d. d\<lparr>camp_endedAt := Some t\<rparr>) (campaigns db)"
  using assms
proof (induction cs arbitrary: n db)
  case Nil
  then show ?case by (simp add: update_where_none among_def)
next
  case (Cons x cs)
  obtain res db1 k where step: "endCampaign x c SYSTEM_ACTOR_ID t db = (Inr res, db1)"
    and rest: "end_all cs c t k db1 = (Inr m, db')"
    using Cons.prems(2) by (auto elim!: chain_InrE)
  have first: "campaigns db1 = update_where (is_campaign (camp_id (fst x)) c)
      (\<lambda>d. d\<lparr>camp_endedAt := Some t\<rparr>) (campaigns db)"
    using endCampaign_campaigns [OF step] Cons.prems(1) by simp
  have "campaigns db' = update_where (among cs c) (\<lambda>d. d\<lparr>camp_endedAt := Some t\<rparr>) (campaigns db1)"
    using Cons.IH [OF _ rest] Cons.prems(1) by simp
  also have "\<dots> = update_where (\<lambda>d. among cs c d \<or> is_campaign (camp_id (fst x)) c d)
      (\<lambda>d. d\<lparr>camp_endedAt := Some t\<rparr>) (campaigns db)"
    unfolding first by (rule update_where_again) (simp_all add: among_def)
  also have "(\<lambda>d. among cs c d \<or> is_campaign (camp_id (fst x)) c d) = among (x # cs) c"
    by (auto simp: among_def is_campaign_def fun_eq_iff)
  finally show ?case .
qed

lemma among_due:
  assumes "d \<in> set (campaigns db)" and "due d" and "camp_congregationId d = c"
  shows "among (map (with_scope db) (filter due (campaigns db))) c d"
  using assms by (force simp: among_def with_scope_def)

lemma sweep_Inr:
  assumes "fresh_keys ev" and "runCampaignLifecycleSweep ev c t db = (Inr r, db')"
  shows "getCampaignsDueToActivate db' c t = [] \<and> getCampaignsDueToEnd ev db' c t = []"
proof -
  let ?act = "getCampaignsDueToActivate db c t"
  obtain n db1 m where a: "activate_all ev ?act c t 0 db = (Inr n, db1)"
    and e: "end_all (getCampaignsDueToEnd ev db1 c t) c t 0 db1 = (Inr m, db')"
    using assms(2) unfolding runCampaignLifecycleSweep_def by (auto elim!: chain_InrE)
  let ?fin = "getCampaignsDueToEnd ev db1 c t"
  have rows1: "campaigns db1 = update_where (among ?act c) (\<lambda>d. d\<lparr>camp_activatedAt := Some t\<rparr>) (campaigns db)"
    by (rule activate_all_campaigns [OF assms(1) _ a])
      (auto simp: getCampaignsDueToActivate_def with_scope_def due_to_activate_def)
  have rows2: "campaigns db' = update_where (among ?fin c) (\<lambda>d. d\<lparr>camp_endedAt := Some t\<rparr>) (campaigns db1)"
    by (rule end_all_campaigns [OF _ e]) (auto simp: getCampaignsDueToEnd_def with_scope_def due_to_end_def is_active_def)
  have act1: "\<not> due_to_activate c t d" if mem: "d \<in> set (campaigns db1)" for d
  proof
    assume due: "due_to_activate c t d"
    obtain d0 where d0: "d0 \<in> set (campaigns db)"
      and d: "d = (if among ?act c d0 then d0\<lparr>camp_activatedAt := Some t\<rparr> else d0)"
      using mem unfolding rows1 set_update_where by blast
    have "d = d0" "\<not> among ?act c d0" using due d by (auto simp: due_to_activate_def split: if_splits)
    moreover have "among ?act c d0" unfolding getCampaignsDueToActivate_def
      using among_due [OF d0] due \<open>d = d0\<close> by (simp add: due_to_activate_def)
    ultimately show False by simp
  qed
  have act2: "\<not> due_to_activate c t d" and end2: "\<not> due_to_end ev c t d" if mem: "d \<in> set (campaigns db')" for d
  proof -
    obtain d1 where d1: "d1 \<in> set (campaigns db1)"
      and d: "d = (if among ?fin c d1 then d1\<lparr>camp_endedAt := Some t\<rparr> else d1)"
      using mem unfolding rows2 set_update_where by blast
    show "\<not> due_to_activate c t d"
      using act1 [OF d1] d by (auto simp: due_to_activate_def split: if_splits)
    show "\<not> due_to_end ev c t d"
    proof
      assume due: "due_to_end ev c t d"
      then have same: "d = d1" "\<not> among ?fin c d1" using d by (auto simp: due_to_end_def is_active_def split: if_splits)
      have "among ?fin c d1" unfolding getCampaignsDueToEnd_def
        using among_due [OF d1] due same(1) by (simp add: due_to_end_def is_active_def)
      then show False using same(2) by simp
    qed
  qed
  show ?thesis
    using act2 end2 by (simp add: getCampaignsDueToActivate_def getCampaignsDueToEnd_def filter_empty_conv)
qed

section \<open>Work paused at a start and resumed at an end\<close>

text \<open>All three branches of the start, row by row.\<close>

lemma start_transition_rows:
  assumes "attr_inv db" and "start_transition ev camp p db = (Inr x, db')"
  shows "\<exists>new. campaign_work_rows (camp_id camp) new \<and>
      (camp_startRegularAction camp \<noteq> StartPause \<or> \<not> camp_startAutoReassign camp \<longrightarrow> new = []) \<and>
      attributions db' =
        (case camp_startRegularAction camp of
           StartPause \<Rightarrow> update_where (open_regular_unpaused p) (set_paused p) (attributions db)
         | StartClose \<Rightarrow> update_where (open_regular p) (set_ended p) (attributions db)
         | StartLeave \<Rightarrow> attributions db) @ new"
proof (cases "camp_startRegularAction camp")
  case StartPause
  show ?thesis
  proof (cases "camp_startAutoReassign camp")
    case True
    then show ?thesis using start_pause_rows [OF assms(1) StartPause assms(2)] StartPause by auto
  next
    case False
    obtain rows where "pauseOpenRegulars p db = (Inr rows, db')"
      using assms(2) StartPause False by (auto simp: start_transition_def elim!: chain_InrE)
    then show ?thesis
      using pausing.run_rows [OF assms(1)] StartPause by (intro exI [of _ "[]"]) (simp add: campaign_work_rows_def)
  qed
next
  case StartClose
  then show ?thesis
    using start_close_rows [OF assms(1) StartClose assms(2)] by (intro exI [of _ "[]"]) (simp add: campaign_work_rows_def)
next
  case StartLeave
  then have "db' = db" using assms(2) by (simp add: start_transition_def)
  then show ?thesis using StartLeave by (intro exI [of _ "[]"]) (simp add: campaign_work_rows_def)
qed

lemma activation_pauses:
  assumes "attr_inv db" and "activateCampaign ev (camp, scope) c a t db = (Inr res, db')"
    and "camp_activatedAt camp = None" and "camp_startRegularAction camp = StartPause"
    and "r \<in> set (attributions db)" and "open_regular_unpaused (transition c camp (scopeTerritoryIds (camp, scope)) a t) r"
  shows "set_paused (transition c camp (scopeTerritoryIds (camp, scope)) a t) r \<in> set (attributions db')"
proof -
  let ?p = "transition c camp (scopeTerritoryIds (camp, scope)) a t"
  obtain row db1 x where m: "markActivated (camp_id camp) c a t db = (Inr row, db1)"
    and s: "start_transition ev camp ?p db1 = (Inr x, db')"
    by (rule activateCampaign_Inr [OF assms(2), unfolded fst_conv, OF assms(3)])
  have same: "attributions db1 = attributions db" using markActivated_Inr [OF m] by blast
  then have "attr_inv db1" using assms(1) by (simp add: attr_inv_def)
  from start_pause_rows [OF this assms(4) s] obtain new where
    "attributions db' = update_where (open_regular_unpaused ?p) (set_paused ?p) (attributions db) @ new"
    unfolding same by blast
  then show ?thesis using update_where_hits [of r "attributions db" "open_regular_unpaused ?p" "set_paused ?p"] assms(5,6) by simp
qed

text \<open>An end that resumes leaves campaign work aside and sets every row it had paused running.\<close>

lemma end_resumes:
  assumes "attr_inv db" and "endCampaign (camp, scope) c a t db = (Inr res, db')"
    and "camp_activatedAt camp \<noteq> None" and "camp_endedAt camp = None" and "camp_endRegularAction camp = EndResume"
    and "r \<in> set (attributions db)" and "open_paused_by (transition c camp None a t) r" and "attr_campaignId r = None"
  shows "set_resumed (transition c camp None a t) r \<in> set (attributions db')"
proof -
  let ?q = "transition c camp None a t"
  obtain row db1 x where m: "markEnded (camp_id camp) c a t db = (Inr row, db1)"
    and s: "end_transition camp ?q db1 = (Inr x, db')"
    by (rule endCampaign_Inr [OF assms(2), unfolded fst_conv, OF assms(3,4)])
  have same: "attributions db1 = attributions db" using markEnded_Inr [OF m] by blast
  then have inv: "attr_inv db1" using assms(1) by (simp add: attr_inv_def)
  obtain k db2 n where close: "(if camp_endCloseCampaign camp then closeOpenCampaignAttributions ?q db1 else (Inr 0, db1)) = (Inr k, db2)"
    and resume: "resumePausedBy ?q db2 = (Inr n, db')"
    using s assms(5) unfolding end_transition_def by (auto elim!: chain_InrE)
  have "r \<in> set (attributions db2) \<and> attr_inv db2"
  proof (cases "camp_endCloseCampaign camp")
    case True
    then have run: "closeOpenCampaignAttributions ?q db1 = (Inr k, db2)" using close by simp
    have "\<not> open_campaign_attribution ?q r" using assms(8) by (simp add: open_campaign_attribution_def)
    then have "r \<in> set (attributions db2)"
      using assms(6) unfolding closing_campaign.run_rows [OF inv run] same by (intro update_where_keeps)
    moreover have "attr_inv db2" using closing_campaign.run_inv [OF inv, of ?q] run by simp
    ultimately show ?thesis by blast
  next
    case False
    then show ?thesis using close assms(6) same inv by simp
  qed
  then show ?thesis using resuming.run_rows [OF _ resume] update_where_hits assms(7) by metis
qed

section \<open>Days written and read back\<close>

lemma split_local_date:
  "split_on CHR ''-'' (decimal y @ ''-'' @ padStart2 (decimal m) @ ''-'' @ padStart2 (decimal d)) =
     [decimal y, padStart2 (decimal m), padStart2 (decimal d)]"
proof -
  have "\<not> is_digit CHR ''-''" "is_digit CHR ''0''" by (simp_all add: is_digit_def code_Char)
  then have "CHR ''-'' \<notin> set (decimal n)" for n using decimal_digits [of n] by blast
  moreover from this have "CHR ''-'' \<notin> set (padStart2 (decimal n))" for n by (simp add: padStart2_def)
  ultimately show ?thesis using split_on_append split_on_none by simp
qed

lemma parse_localDateString:
  assumes "local_civil z t = (y, m, d)" and "0 \<le> y"
  shows "parseLocalDate z (localDateString z t) = startOfDay z t"
proof -
  have md: "0 \<le> m" "1 \<le> d" using make_day_civil assms(1) unfolding local_civil_def by blast+
  have s: "localDateString z t = decimal (nat y) @ ''-'' @ padStart2 (decimal (nat (m + 1))) @ ''-'' @ padStart2 (decimal (nat d))"
    using assms md by (simp add: localDateString_def js_string_def)
  have "parseLocalDate z (localDateString z t) = new_date z y m d"
    unfolding parseLocalDate_def s split_local_date
    using assms(2) md by (simp add: js_number_decimal js_number_padStart2 to_integer_def)
  then show ?thesis using assms(1) by (simp add: startOfDay_def)
qed

section \<open>A concrete campaign\<close>

text \<open>
  One campaign of ten days that pauses at its start and resumes at its end, and one that
  takes over the day after.
\<close>

definition sample_lifecycle_db :: db where
  "sample_lifecycle_db = sample_db\<lparr>campaigns := [sample_campaign 1 0 777600000]\<rparr>"

definition handover_db :: db where
  "handover_db = sample_db\<lparr>campaigns :=
       [(sample_campaign 1 0 777600000)\<lparr>camp_activatedAt := Some 0\<rparr>, sample_campaign 2 864000000 1728000000],
     attributions := [(sample_attribution 5 1 7 (- 1000) 90000)\<lparr>attr_pausedAt := Some 0, attr_pausedByCampaignId := Some 1\<rparr>]\<rparr>"

lemmas lifecycle_eval = runCampaignLifecycleSweep_def getCampaignsDueToActivate_def getCampaignsDueToEnd_def
  due_to_activate_def due_to_end_def is_active_def with_scope_def scope_of_def activateCampaign_def
  endCampaign_def markActivated_def markEnded_def update_campaign_def is_campaign_def start_transition_def
  end_transition_def scopeTerritoryIds_def transition_def SYSTEM_ACTOR_ID_def pauseOpenRegulars_def
  closeOpenCampaignAttributions_def resumePausedBy_def bulk_update_def open_regular_unpaused_def
  open_campaign_attribution_def open_paused_by_def territoryFilter_def by_ids_def set_paused_def set_ended_def
  update_attribution_def is_attribution_def paused_ms_def auditEach_def utc_env_def time_clip_def Let_def sample_defs

lemma sample_year: "year_of_day 0 = 1970" "year_of_day 10 = 1970" "day_from_year 1970 = 0"
  by (simp_all add: year_of_day_def day_from_year_def)

lemma sample_civil: "civil 0 = (1970, 0, 1)" "civil 10 = (1970, 0, 11)"
  by (simp_all add: civil_def sample_year is_leap_def month_starts_def last_start_def)

lemma sample_days: "startOfDay utc 5000 = Date 0" "startOfDay utc 864000000 = Date 864000000"
  by (simp_all add: startOfDay_def local_civil_def utc_def MS_PER_DAY_val sample_civil new_date_def make_day_def
      sample_year month_starts_def time_clip_def is_leap_def)

lemma sample_lifecycle_inv: "lifecycle_inv sample_lifecycle_db"
  by (simp add: lifecycle_inv_def attr_inv_def camp_inv_def exclusive_def sample_lifecycle_db_def sample_defs)

lemma sample_activation:
  "\<exists>res db1. activateCampaign utc_env (sample_campaign 1 0 777600000, []) 1 1 5000 sample_lifecycle_db = (Inr res, db1) \<and>
     ar_activated res \<and> ar_paused res = 1 \<and>
     attributions db1 = [(sample_attribution 5 1 7 1000 90000)\<lparr>attr_pausedAt := Some 5000, attr_pausedByCampaignId := Some 1\<rparr>] \<and>
     campaigns db1 = [(sample_campaign 1 0 777600000)\<lparr>camp_activatedAt := Some 5000\<rparr>]"
  by (simp add: lifecycle_eval sample_lifecycle_db_def)

section \<open>Properties\<close>

text \<open>
  C5. The lifecycle keeps both aggregates sound: after an activation, an end, a scope edit, a
  sweep or a whole run of the worker, successful or not, attributions of one layer still
  never overlap and campaigns of a congregation still never share a day.
\<close>

theorem lifecycle_keeps_invariants:
  assumes "lifecycle_inv db" and "fresh_keys ev"
  shows "lifecycle_inv (snd (activateCampaign ev campaign c a t db)) \<and>
    lifecycle_inv (snd (endCampaign campaign c a t db)) \<and>
    lifecycle_inv (snd (applyScopeChange ev campaign ids c a t db)) \<and>
    lifecycle_inv (snd (runCampaignLifecycleSweep ev c t db)) \<and>
    lifecycle_inv (snd (handleCampaignLifecycleWork ev t congs db))"
  using assms
  by (simp add: lifecycle_inv_activate lifecycle_inv_endCampaign lifecycle_inv_applyScopeChange
      lifecycle_inv_sweep lifecycle_inv_work handleCampaignLifecycleWork_def)

lemma lifecycle_keeps_invariants_witness:
  "lifecycle_inv (snd (activateCampaign utc_env (sample_campaign 1 0 777600000, []) 1 1 5000 sample_lifecycle_db)) \<and>
   map attr_pausedAt (attributions (snd (activateCampaign utc_env (sample_campaign 1 0 777600000, []) 1 1 5000
      sample_lifecycle_db))) = [Some 5000]"
proof
  show "lifecycle_inv (snd (activateCampaign utc_env (sample_campaign 1 0 777600000, []) 1 1 5000 sample_lifecycle_db))"
    using lifecycle_keeps_invariants [OF sample_lifecycle_inv fresh_utc_env] by blast
  show "map attr_pausedAt (attributions (snd (activateCampaign utc_env (sample_campaign 1 0 777600000, []) 1 1 5000
      sample_lifecycle_db))) = [Some 5000]"
    using sample_activation by auto
qed

text \<open>
  C4. An activation that succeeds stamps the campaign with its instant, keeping every other
  column of it and every other campaign, so that it is active unless it had ended. It pauses
  the open regular attributions of its territories that nobody had paused when it starts by
  pausing, closes all the open regular ones when it starts by closing, and leaves them when it
  starts by leaving; every other attribution is kept as it is, and the only rows added are
  open attributions of the campaign, when it reassigns what it paused.
\<close>

theorem activation_clears_the_scope:
  assumes "attr_inv db" and "activateCampaign ev (camp, scope) c a t db = (Inr res, db')"
    and "camp_activatedAt camp = None" and "fresh_keys ev"
  shows "(\<exists>d \<in> set (campaigns db). is_campaign (camp_id camp) c d \<and>
       (camp_endedAt d = None \<longrightarrow> is_active c (d\<lparr>camp_activatedAt := Some t\<rparr>))) \<and>
    campaigns db' = map (\<lambda>d. if is_campaign (camp_id camp) c d then d\<lparr>camp_activatedAt := Some t\<rparr> else d)
      (campaigns db) \<and>
    (\<exists>new. campaign_work_rows (camp_id camp) new \<and>
       (camp_startRegularAction camp \<noteq> StartPause \<or> \<not> camp_startAutoReassign camp \<longrightarrow> new = []) \<and>
       attributions db' =
         (case camp_startRegularAction camp of
            StartPause \<Rightarrow> map (\<lambda>r. if open_regular_unpaused (transition c camp (scopeTerritoryIds (camp, scope)) a t) r
              then r\<lparr>attr_pausedAt := Some t, attr_pausedByCampaignId := Some (camp_id camp)\<rparr> else r) (attributions db)
          | StartClose \<Rightarrow> map (\<lambda>r. if open_regular (transition c camp (scopeTerritoryIds (camp, scope)) a t) r
              then r\<lparr>attr_endDate := Some t\<rparr> else r) (attributions db)
          | StartLeave \<Rightarrow> attributions db) @ new)"
proof -
  let ?p = "transition c camp (scopeTerritoryIds (camp, scope)) a t"
  obtain row db1 x where m: "markActivated (camp_id camp) c a t db = (Inr row, db1)"
    and s: "start_transition ev camp ?p db1 = (Inr x, db')"
    by (rule activateCampaign_Inr [OF assms(2), unfolded fst_conv, OF assms(3)])
  have rows: "campaigns db' = update_where (is_campaign (camp_id camp) c)
      (\<lambda>d. d\<lparr>camp_activatedAt := Some t\<rparr>) (campaigns db)"
    using activateCampaign_campaigns [OF assms(2) _ assms(4)] assms(3) by simp
  obtain d where "d \<in> set (campaigns db)" "is_campaign (camp_id camp) c d" using markActivated_Inr [OF m] by blast
  then have found: "\<exists>d \<in> set (campaigns db). is_campaign (camp_id camp) c d \<and>
      (camp_endedAt d = None \<longrightarrow> is_active c (d\<lparr>camp_activatedAt := Some t\<rparr>))"
    by (intro bexI [of _ d]) (simp_all add: is_campaign_def is_active_def)
  have same: "attributions db1 = attributions db" using markActivated_Inr [OF m] by blast
  then have inv: "attr_inv db1" using assms(1) by (simp add: attr_inv_def)
  have attrs: "\<exists>new. campaign_work_rows (camp_id camp) new \<and>
      (camp_startRegularAction camp \<noteq> StartPause \<or> \<not> camp_startAutoReassign camp \<longrightarrow> new = []) \<and>
      attributions db' =
        (case camp_startRegularAction camp of
           StartPause \<Rightarrow> update_where (open_regular_unpaused ?p) (set_paused ?p) (attributions db)
         | StartClose \<Rightarrow> update_where (open_regular ?p) (set_ended ?p) (attributions db)
         | StartLeave \<Rightarrow> attributions db) @ new"
    using start_transition_rows [OF inv s] unfolding same .
  have upds: "set_paused ?p = (\<lambda>r. r\<lparr>attr_pausedAt := Some t, attr_pausedByCampaignId := Some (camp_id camp)\<rparr>)"
    "set_ended ?p = (\<lambda>r. r\<lparr>attr_endDate := Some t\<rparr>)"
    by (simp_all add: fun_eq_iff set_paused_def set_ended_def transition_def)
  show ?thesis
    using found rows attrs unfolding update_where_def upds by blast
qed

lemma activation_clears_the_scope_witness:
  "\<exists>res db1. activateCampaign utc_env (sample_campaign 1 0 777600000, []) 1 1 5000 sample_lifecycle_db = (Inr res, db1) \<and>
     attributions db1 = [(sample_attribution 5 1 7 1000 90000)\<lparr>attr_pausedAt := Some 5000, attr_pausedByCampaignId := Some 1\<rparr>]"
proof -
  obtain res db1 where run: "activateCampaign utc_env (sample_campaign 1 0 777600000, []) 1 1 5000 sample_lifecycle_db = (Inr res, db1)"
    using sample_activation by blast
  have inv: "attr_inv sample_lifecycle_db" using sample_lifecycle_inv by (simp add: lifecycle_inv_def)
  have camp: "camp_activatedAt (sample_campaign 1 0 777600000) = None"
    "camp_startRegularAction (sample_campaign 1 0 777600000) = StartPause"
    "\<not> camp_startAutoReassign (sample_campaign 1 0 777600000)" "camp_id (sample_campaign 1 0 777600000) = 1"
    by (simp_all add: sample_campaign_def)
  have row: "attributions sample_lifecycle_db = [sample_attribution 5 1 7 1000 90000]"
    "open_regular_unpaused (transition 1 (sample_campaign 1 0 777600000)
       (scopeTerritoryIds (sample_campaign 1 0 777600000, [])) 1 5000) (sample_attribution 5 1 7 1000 90000)"
    by (simp_all add: sample_lifecycle_db_def sample_db_def lifecycle_eval)
  from activation_clears_the_scope [OF inv run camp(1) fresh_utc_env]
  have "attributions db1 = [(sample_attribution 5 1 7 1000 90000)\<lparr>attr_pausedAt := Some 5000, attr_pausedByCampaignId := Some 1\<rparr>]"
    by (simp add: camp row)
  with run show ?thesis by blast
qed

text \<open>
  C2. A campaign that pauses regular work at its start and resumes it at its end costs the
  publishers nothing. Its activation leaves every open regular attribution of its territories
  that nobody had paused in the table with only the pause written into it. Whatever else
  happens before the campaign is ended, as long as that row is still as the activation left it
  and the aggregate's invariant holds, it is after the end as it was before the start, open
  and running, with its late date moved by the length of the campaign, so that exactly as
  much time is left as at the start.
\<close>

theorem campaign_gives_remaining_time_back:
  assumes "attr_inv db" and "camp_activatedAt camp = None" and "camp_startRegularAction camp = StartPause"
    and "activateCampaign ev (camp, scope) c a t1 db = (Inr res, db1)"
    and "camp_id camp' = camp_id camp" and "camp_activatedAt camp' \<noteq> None" and "camp_endedAt camp' = None"
    and "camp_endRegularAction camp' = EndResume"
    and "attr_inv db2" and "endCampaign (camp', scope') c a' t2 db2 = (Inr res', db3)"
    and "r \<in> set (attributions db)" and "open_regular_unpaused (transition c camp (scopeTerritoryIds (camp, scope)) a t1) r"
  shows "r\<lparr>attr_pausedAt := Some t1, attr_pausedByCampaignId := Some (camp_id camp)\<rparr> \<in> set (attributions db1) \<and>
    (r\<lparr>attr_pausedAt := Some t1, attr_pausedByCampaignId := Some (camp_id camp)\<rparr> \<in> set (attributions db2) \<longrightarrow>
      r\<lparr>attr_pausedByCampaignId := None, attr_lateDate := attr_lateDate r + (t2 - t1)\<rparr> \<in> set (attributions db3))"
proof -
  let ?p = "transition c camp (scopeTerritoryIds (camp, scope)) a t1"
  let ?q = "transition c camp' None a' t2"
  let ?r = "set_paused ?p r"
  have paused: "?r = r\<lparr>attr_pausedAt := Some t1, attr_pausedByCampaignId := Some (camp_id camp)\<rparr>"
    by (simp add: set_paused_def transition_def)
  have "?r \<in> set (attributions db1)" using activation_pauses [OF assms(1,4,2,3,11,12)] .
  moreover have "set_resumed ?q ?r \<in> set (attributions db3)" if "?r \<in> set (attributions db2)"
  proof (rule end_resumes [OF assms(9,10,6,7,8) that])
    show "open_paused_by ?q ?r"
      using assms(5,12) by (simp add: open_paused_by_def set_paused_def open_regular_unpaused_def transition_def territoryFilter_def)
    show "attr_campaignId ?r = None" using assms(12) by (simp add: open_regular_unpaused_def set_paused_def)
  qed
  moreover have "set_resumed ?q ?r = r\<lparr>attr_pausedByCampaignId := None, attr_lateDate := attr_lateDate r + (t2 - t1)\<rparr>"
    using assms(12) by (simp add: set_resumed_def set_paused_def paused_ms_def transition_def open_regular_unpaused_def)
  ultimately show ?thesis unfolding paused by simp
qed

lemma campaign_gives_remaining_time_back_witness:
  "\<exists>res1 db1 res2 db2 r'.
     activateCampaign utc_env (sample_campaign 1 0 777600000, []) 1 1 5000 sample_lifecycle_db = (Inr res1, db1) \<and>
     endCampaign ((sample_campaign 1 0 777600000)\<lparr>camp_activatedAt := Some 5000\<rparr>, []) 1 1 8000 db1 = (Inr res2, db2) \<and>
     r' \<in> set (attributions db2) \<and> attr_pausedAt r' = None \<and> attr_lateDate r' = 93000"
proof -
  obtain res1 db1 where run1: "activateCampaign utc_env (sample_campaign 1 0 777600000, []) 1 1 5000 sample_lifecycle_db = (Inr res1, db1)"
    and rows: "attributions db1 = [(sample_attribution 5 1 7 1000 90000)\<lparr>attr_pausedAt := Some 5000, attr_pausedByCampaignId := Some 1\<rparr>]"
    and camps: "campaigns db1 = [(sample_campaign 1 0 777600000)\<lparr>camp_activatedAt := Some 5000\<rparr>]"
    using sample_activation by blast
  let ?c2 = "((sample_campaign 1 0 777600000)\<lparr>camp_activatedAt := Some 5000\<rparr>, [])"
  have "\<exists>res2 db2. endCampaign ?c2 1 1 8000 db1 = (Inr res2, db2)"
    by (simp add: lifecycle_eval rows camps)
  then obtain res2 db2 where run2: "endCampaign ?c2 1 1 8000 db1 = (Inr res2, db2)" by blast
  have inv: "attr_inv sample_lifecycle_db" using sample_lifecycle_inv by (simp add: lifecycle_inv_def)
  have inv1: "attr_inv db1" by (simp add: attr_inv_def exclusive_def rows)
  have c: "camp_activatedAt (sample_campaign 1 0 777600000) = None"
    "camp_startRegularAction (sample_campaign 1 0 777600000) = StartPause"
    "camp_id ((sample_campaign 1 0 777600000)\<lparr>camp_activatedAt := Some 5000\<rparr>) = camp_id (sample_campaign 1 0 777600000)"
    "camp_activatedAt ((sample_campaign 1 0 777600000)\<lparr>camp_activatedAt := Some 5000\<rparr>) \<noteq> None"
    "camp_endedAt ((sample_campaign 1 0 777600000)\<lparr>camp_activatedAt := Some 5000\<rparr>) = None"
    "camp_endRegularAction ((sample_campaign 1 0 777600000)\<lparr>camp_activatedAt := Some 5000\<rparr>) = EndResume"
    by (simp_all add: sample_campaign_def)
  have r: "sample_attribution 5 1 7 1000 90000 \<in> set (attributions sample_lifecycle_db)"
    by (simp add: sample_lifecycle_db_def sample_db_def)
  have o: "open_regular_unpaused (transition 1 (sample_campaign 1 0 777600000)
      (scopeTerritoryIds (sample_campaign 1 0 777600000, [])) 1 5000) (sample_attribution 5 1 7 1000 90000)"
    by (simp add: lifecycle_eval)
  from campaign_gives_remaining_time_back [OF inv c(1,2) run1 c(3-6) inv1 run2 r o]
  have "(sample_attribution 5 1 7 1000 90000)\<lparr>attr_pausedByCampaignId := None, attr_lateDate := 93000\<rparr> \<in> set (attributions db2)"
    by (simp add: rows sample_attribution_def sample_campaign_def)
  with run1 run2 show ?thesis by (intro exI conjI) (assumption | simp add: sample_attribution_def)+
qed

text \<open>
  C3. A sweep that succeeds leaves nothing to do: no campaign of the congregation is due to
  start or to end, and sweeping again at the same instant changes nothing at all. A second
  activation or end of the same campaign does nothing either.
\<close>

theorem sweep_converges:
  assumes "fresh_keys ev" and "runCampaignLifecycleSweep ev c t db = (Inr r, db')"
  shows "getCampaignsDueToActivate db' c t = [] \<and> getCampaignsDueToEnd ev db' c t = [] \<and>
    runCampaignLifecycleSweep ev c t db' = (Inr (0, 0), db')"
  using sweep_Inr [OF assms] by (simp add: runCampaignLifecycleSweep_def)

lemma sweep_converges_witness:
  "\<exists>db'. runCampaignLifecycleSweep utc_env 1 5000 sample_lifecycle_db = (Inr (1, 0), db') \<and>
     runCampaignLifecycleSweep utc_env 1 5000 db' = (Inr (0, 0), db')"
proof -
  have "\<exists>db'. runCampaignLifecycleSweep utc_env 1 5000 sample_lifecycle_db = (Inr (1, 0), db')"
    by (simp add: lifecycle_eval sample_days sample_lifecycle_db_def)
  then obtain db' where run: "runCampaignLifecycleSweep utc_env 1 5000 sample_lifecycle_db = (Inr (1, 0), db')" by blast
  from sweep_converges [OF fresh_utc_env run] run show ?thesis by blast
qed

text \<open>
  The day written for a reassignment is read back as the local midnight of the day the
  campaign starts, in every time zone and every year of our era.
\<close>

theorem reassignment_starts_on_the_local_day:
  assumes "fst (local_civil (env_zone ev) now) \<ge> 0"
  shows "parseLocalDate (env_zone ev) (cap_startDate (reassign_params ev campaign row c a now)) =
     startOfDay (env_zone ev) now"
proof -
  obtain y m d where "local_civil (env_zone ev) now = (y, m, d)" by (rule prod_cases3)
  then show ?thesis
    using assms parse_localDateString [of "env_zone ev" now y m d] by (simp add: reassign_params_def)
qed

lemma reassignment_starts_on_the_local_day_witness:
  "parseLocalDate utc (localDateString utc 1768435200001) = Date 1768435200000"
proof -
  have "fst (local_civil (env_zone utc_env) 1768435200001) \<ge> 0" by (simp add: utc_env_def date_eval)
  from reassignment_starts_on_the_local_day [OF this] show ?thesis
    by (simp add: reassign_params_def utc_env_def date_eval)
qed

text \<open>
  The sweep starts campaigns before it ends those that are over, so a campaign that takes
  over the day after another loses its pause: the regular attributions are still paused by
  the old campaign when the new one starts, and are set running when the old one ends. After
  this sweep the new campaign, which pauses regular work, is active while regular work goes on.
\<close>

theorem sweep_handover_loses_the_pause:
  "\<exists>db'. runCampaignLifecycleSweep utc_env 1 864000000 handover_db = (Inr (1, 1), db') \<and>
     map (\<lambda>c. (camp_id c, getCampaignStatus c, camp_startRegularAction c)) (campaigns db') =
       [(1, Ended, StartPause), (2, Active, StartPause)] \<and>
     (\<exists>r \<in> set (attributions db').
        open_regular_unpaused (transition 1 (sample_campaign 2 864000000 1728000000) None 0 864000000) r)"
  by (simp add: lifecycle_eval sample_days handover_db_def getCampaignStatus_def set_resumed_def)

end
