(* ===== verification/Chart_Operations.thy ===== *)
theory Chart_Operations
  imports Organigram_Chart "HOL-Library.Multiset"
begin

text \<open>
  What sequences of operations do to the organigram: the chart invariant along every run, the
  effect of a removal, and the order of siblings, which a move swaps and an arrival extends.
\<close>

section \<open>Runs\<close>

inductive role_step :: "env \<Rightarrow> db \<Rightarrow> db \<Rightarrow> bool" for ev where
  create: "role_step ev db (snd (createRole ev c a params db))"
| identity: "role_step ev db (snd (updateRoleIdentity i c a changes db))"
| delete: "role_step ev db (snd (deleteRole i c a db))"
| enter: "role_step ev db (snd (addRoleToOrganigram i p c a db))"
| service: "role_step ev db (snd (createServiceInOrganigram ev name p c a sp db))"
| personal: "role_step ev db (snd (setRoleSinglePerson i sp c a db))"
| leave: "role_step ev db (snd (removeRoleFromOrganigram i c a db))"
| attach: "role_step ev db (snd (setOrganigramParent i p c a db))"
| shift: "role_step ev db (snd (moveOrganigramNode i dir c a db))"

lemma role_step_keeps_chart:
  assumes "role_step ev db db'" and "fresh_keys ev" and "chart_ok db d"
  shows "chart_ok db' d"
  using assms(1)
  by cases (simp_all only: createRole_keeps_chart [OF assms(2,3)] updateRoleIdentity_keeps_chart [OF assms(3)]
      deleteRole_keeps_chart [OF assms(3)] addRoleToOrganigram_keeps_chart [OF assms(3)]
      createServiceInOrganigram_keeps_chart [OF assms(2,3)] setRoleSinglePerson_keeps_chart [OF assms(3)]
      removeRoleFromOrganigram_keeps_chart [OF assms(3)] setOrganigramParent_keeps_chart [OF assms(3)]
      moveOrganigramNode_keeps_chart [OF assms(3)])

text \<open>
  C17. However roles are created, edited, deleted, placed, moved and taken out, refusals
  included, every congregation's organigram remains a chart: nobody reports to themselves,
  and no chain of reports is longer than ten levels.
\<close>

theorem organigram_stays_a_chart:
  assumes "(role_step ev)\<^sup>*\<^sup>* db db'" and "fresh_keys ev" and "chart_ok db d"
  shows "chart_ok db' d \<and> acyclic (chart_edges db' d) \<and> (x, y) \<notin> chart_edges db' d ^^ MAX_ORGANIGRAM_DEPTH"
proof -
  have "chart_ok db' d"
    using assms(1) by (induction rule: rtranclp_induct) (auto intro: role_step_keeps_chart assms(2,3))
  then show ?thesis using chart_acyclic by (auto simp: chart_ok_def)
qed

section \<open>Sorting\<close>

lemma sorted_insert_by_key:
  "sorted (map g ys) \<Longrightarrow> sorted (map g (insert_by (\<lambda>a b. g a - g b) x ys) :: int list)"
  by (induction ys) (auto intro: order_trans)

lemma sorted_js_sort_key: "sorted (map g (js_sort (\<lambda>a b. g a - g b) xs) :: int list)"
  by (induction xs) (simp_all add: sorted_insert_by_key)

text \<open>A list with strictly increasing keys is what any of its permutations sorts to.\<close>

lemma js_sort_unique:
  assumes "sorted_wrt (\<lambda>a b. g a < (g b :: int)) ys" and "set ys = set xs" and "distinct xs"
  shows "js_sort (\<lambda>a b. g a - g b) xs = ys"
proof -
  let ?s = "js_sort (\<lambda>a b. g a - g b) xs"
  have mono: "sorted_wrt (<) (map g ys)" using assms(1) by (simp add: sorted_wrt_map)
  then have "distinct (map g ys)" by (simp add: strict_sorted_iff)
  then have inj: "inj_on g (set xs)" using assms(2) by (simp add: distinct_map)
  have "distinct (map id ?s)" using assms(3) by (simp only: distinct_map_js_sort) simp
  then have "distinct (map g ?s)" using inj by (simp add: distinct_map)
  moreover have "sorted (map g ys)" using mono by (simp add: strict_sorted_iff)
  ultimately have "map g ?s = map g ys"
    by (intro sorted_distinct_set_unique sorted_js_sort_key \<open>distinct (map g ys)\<close>) (simp_all add: assms(2))
  then show ?thesis using inj assms(2) by (intro map_inj_on [of g]) simp_all
qed

lemma insert_by_greatest:
  assumes "\<And>y. y \<in> set ys \<Longrightarrow> g y < (g x :: int)"
  shows "insert_by (\<lambda>a b. g a - g b) x ys = ys @ [x]"
  using assms by (induction ys) force+

lemma insert_by_before_last:
  assumes "g y < (g x :: int)"
  shows "insert_by (\<lambda>a b. g a - g b) y (ys @ [x]) = insert_by (\<lambda>a b. g a - g b) y ys @ [x]"
  using assms by (induction ys) auto

lemma js_sort_greatest:
  assumes "\<And>y. y \<in> set (xs @ ys) \<Longrightarrow> g y < (g x :: int)"
  shows "js_sort (\<lambda>a b. g a - g b) (xs @ x # ys) = js_sort (\<lambda>a b. g a - g b) (xs @ ys) @ [x]"
  using assms
proof (induction xs)
  case Nil
  let ?ys = "js_sort (\<lambda>a b. g a - g b) ys"
  have "insert_by (\<lambda>a b. g a - g b) x ?ys = ?ys @ [x]" by (rule insert_by_greatest) (simp add: Nil)
  then show ?case by simp
next
  case (Cons z xs)
  then show ?case by (simp add: insert_by_before_last)
qed

lemma insert_by_least:
  assumes "\<And>y. y \<in> set ys \<Longrightarrow> (g x :: int) \<le> g y"
  shows "insert_by (\<lambda>a b. g a - g b) x ys = x # ys"
  using assms by (cases ys) simp_all

lemma filter_insert_by:
  assumes "sorted (map g ys)"
  shows "filter P (insert_by (\<lambda>a b. g a - (g b :: int)) x ys) =
     (if P x then insert_by (\<lambda>a b. g a - g b) x (filter P ys) else filter P ys)"
  using assms
proof (induction ys)
  case Nil
  show ?case by simp
next
  case (Cons y ys)
  show ?case
  proof (cases "g x \<le> g y")
    case True
    then have "g x \<le> g z" if "z \<in> set (filter P (y # ys))" for z
      using Cons.prems that by (auto split: if_splits)
    then have "insert_by (\<lambda>a b. g a - g b) x (filter P (y # ys)) = x # filter P (y # ys)" by (rule insert_by_least)
    then show ?thesis using True by simp
  next
    case False
    then show ?thesis using Cons by simp
  qed
qed

lemma filter_js_sort:
  "filter P (js_sort (\<lambda>a b. g a - (g b :: int)) xs) = js_sort (\<lambda>a b. g a - g b) (filter P xs)"
  by (induction xs) (simp_all add: filter_insert_by sorted_js_sort_key)

section \<open>Order among siblings\<close>

definition with_order :: "int \<Rightarrow> (int \<Rightarrow> nat option) \<Rightarrow> role \<Rightarrow> role" where
  "with_order c pos r =
     (case pos (role_id r) of
        Some k \<Rightarrow> if role_congregationId r = c then r\<lparr>role_organigramOrder := Some ((int k + 1) * ORDER_STEP)\<rparr> else r
      | None \<Rightarrow> r)"

definition position_in :: "nat \<Rightarrow> int list \<Rightarrow> int \<Rightarrow> nat option" where
  "position_in n is = map_of (zip is [n ..< n + length is])"

lemma position_in_Cons: "position_in n (i # is) j = (if j = i then Some n else position_in (Suc n) is j)"
  by (simp add: position_in_def upt_conv_Cons del: upt_Suc)

lemma position_in_None: "position_in n is j = None \<longleftrightarrow> j \<notin> set is"
  by (induction "is" arbitrary: n) (simp_all add: position_in_Cons, simp add: position_in_def)

lemma position_in_nth: "distinct is \<Longrightarrow> k < length is \<Longrightarrow> position_in n is (is ! k) = Some (n + k)"
  by (induction "is" arbitrary: n k) (auto simp: position_in_Cons nth_Cons split: nat.split)

lemma is_role_order [simp]: "is_role i c (r\<lparr>role_organigramOrder := x\<rparr>) = is_role i c r"
  by (simp add: is_role_def)

text \<open>Renumbering rows that exist succeeds and gives each its place.\<close>

lemma renumber_run:
  assumes "distinct is" and "\<And>i. i \<in> set is \<Longrightarrow> find (is_role i c) (roles db) \<noteq> None"
  shows "renumber c n is db = (Inr (), db\<lparr>roles := map (with_order c (position_in n is)) (roles db)\<rparr>)"
  using assms
proof (induction "is" arbitrary: n db)
  case Nil
  have "with_order c (position_in n []) = id" by (simp add: fun_eq_iff with_order_def position_in_def)
  then show ?case by simp
next
  case (Cons i "is")
  let ?f = "\<lambda>r. r\<lparr>role_organigramOrder := Some ((int n + 1) * ORDER_STEP)\<rparr>"
  let ?db1 = "db\<lparr>roles := update_where (is_role i c) ?f (roles db)\<rparr>"
  obtain r where r: "find (is_role i c) (roles db) = Some r" using Cons.prems(2) [of i] by auto
  have one: "update_role i c ?f db = (Inr (?f r), ?db1)"
    by (simp add: update_role_def r split: option.split)
  have found: "find (is_role j c) (roles ?db1) \<noteq> None" if "j \<in> set is" for j
  proof -
    have "find (is_role j c) (roles ?db1) =
        map_option (\<lambda>r. if is_role i c r then ?f r else r) (find (is_role j c) (roles db))"
      unfolding update_where_def by (simp, subst find_map_same) auto
    then show ?thesis using Cons.prems(2) [of j] that by simp
  qed
  have both: "with_order c (position_in (Suc n) is) (if is_role i c r then ?f r else r) =
      with_order c (position_in n (i # is)) r" for r
  proof (cases "role_id r = i")
    case True
    then have "position_in (Suc n) is (role_id r) = None" using Cons.prems(1) by (simp add: position_in_None)
    then show ?thesis using True by (simp add: with_order_def position_in_Cons is_role_def)
  next
    case False
    then show ?thesis by (simp add: with_order_def position_in_Cons is_role_def)
  qed
  have "renumber c (Suc n) is ?db1 =
      (Inr (), ?db1\<lparr>roles := map (with_order c (position_in (Suc n) is)) (roles ?db1)\<rparr>)"
    by (rule Cons.IH) (use Cons.prems(1) found in auto)
  moreover have "map (with_order c (position_in (Suc n) is)) (roles ?db1) =
      map (with_order c (position_in n (i # is))) (roles db)"
    by (simp add: update_where_def both)
  ultimately show ?case using one by simp
qed

text \<open>Renumbering all siblings makes the given order the displayed one.\<close>

lemma ordered_siblings_renumbered:
  assumes d: "distinct (map role_id (roles db))" and dis: "distinct is"
    and sibs: "set is = role_id ` set (siblings_under db p c)"
    and rows: "roles db' = map (with_order c (position_in 0 is)) (roles db)"
  shows "ordered_siblings db' p c = is"
proof -
  let ?w = "with_order c (position_in 0 is)" and ?S = "siblings_under db p c"
  have keep: "role_id (?w r) = role_id r" "in_chart c (?w r) = in_chart c r" "role_parentRoleId (?w r) = role_parentRoleId r" for r
    by (simp_all add: with_order_def in_chart_def split: option.split)
  have S': "siblings_under db' p c = map ?w ?S"
    unfolding siblings_under_def rows by (simp add: filter_map comp_def keep)
  have dS: "distinct (map role_id ?S)" using d by (simp add: siblings_under_def distinct_map_filter)
  define row where "row i = the (find (\<lambda>r. role_id r = i) ?S)" for i
  have row: "row i \<in> set ?S" "role_id (row i) = i" if "i \<in> set is" for i
  proof -
    obtain r where "r \<in> set ?S" "role_id r = i" using \<open>i \<in> set is\<close> unfolding sibs by auto
    then have "row i = r" unfolding row_def using find_key [OF dS, of r] by simp
    then show "row i \<in> set ?S" "role_id (row i) = i" using \<open>r \<in> set ?S\<close> \<open>role_id r = i\<close> by simp_all
  qed
  let ?ys = "map (\<lambda>i. ?w (row i)) is"
  have order: "order_or_zero (?w (row (is ! k))) = (int k + 1) * ORDER_STEP" if "k < length is" for k
  proof -
    have i: "is ! k \<in> set is" using that by simp
    then have "role_congregationId (row (is ! k)) = c" using row(1) by (auto simp: siblings_under_def in_chart_def)
    then show ?thesis
      using position_in_nth [OF dis that, of 0] row(2) [OF i] by (simp add: with_order_def order_or_zero_def)
  qed
  have "sorted_wrt (\<lambda>a b. order_or_zero a < order_or_zero b) ?ys"
    unfolding sorted_wrt_iff_nth_less by (auto simp: order ORDER_STEP_def)
  moreover have "set ?ys = set (siblings_under db' p c)"
  proof -
    have "row ` set is = set ?S"
    proof
      show "row ` set is \<subseteq> set ?S" using row(1) by blast
      show "set ?S \<subseteq> row ` set is"
      proof
        fix r assume r: "r \<in> set ?S"
        then have "role_id r \<in> set is" unfolding sibs by blast
        moreover have "row (role_id r) = r" unfolding row_def using find_key [OF dS r] by simp
        ultimately show "r \<in> row ` set is" by force
      qed
    qed
    then show ?thesis unfolding S' by (simp add: image_comp [symmetric] image_image [symmetric, of ?w row])
  qed
  moreover have "distinct (siblings_under db' p c)"
  proof -
    have "map role_id (siblings_under db' p c) = map role_id ?S" unfolding S' by (simp add: keep)
    then show ?thesis using dS by (metis distinct_map)
  qed
  ultimately have "js_sort (\<lambda>a b. order_or_zero a - order_or_zero b) (siblings_under db' p c) = ?ys"
    by (rule js_sort_unique)
  then have "ordered_siblings db' p c = map role_id ?ys" by (simp only: ordered_siblings_def)
  also have "\<dots> = map id is" unfolding map_map by (rule map_cong) (simp_all add: keep row(2))
  finally show ?thesis by simp
qed

lemma move_to_up: "Suc k < length xs \<Longrightarrow> move_to (Suc k) k xs = take k xs @ [xs ! Suc k, xs ! k] @ drop (Suc (Suc k)) xs"
  by (simp add: move_to_def Let_def take_Suc_conv_app_nth min_def)

lemma move_to_down: "Suc k < length xs \<Longrightarrow> move_to k (Suc k) xs = take k xs @ [xs ! Suc k, xs ! k] @ drop (Suc (Suc k)) xs"
proof -
  assume k: "Suc k < length xs"
  have "drop (Suc k) xs = xs ! Suc k # drop (Suc (Suc k)) xs" using k by (simp add: Cons_nth_drop_Suc)
  then show ?thesis using k by (simp add: move_to_def Let_def min_def)
qed

lemma set_move_to: "i < length xs \<Longrightarrow> set (move_to i j xs) = set xs \<and> (distinct (move_to i j xs) = distinct xs)"
proof -
  assume i: "i < length xs"
  let ?rest = "take i xs @ drop (Suc i) xs"
  have "mset (move_to i j xs) = mset (take j ?rest @ drop j ?rest) + {#xs ! i#}"
    unfolding move_to_def Let_def by simp
  also have "\<dots> = mset (take i xs @ xs ! i # drop (Suc i) xs)"
    unfolding append_take_drop_id by simp
  also have "\<dots> = mset xs" using id_take_nth_drop [OF i] by simp
  finally have *: "mset (move_to i j xs) = mset xs" .
  show ?thesis using mset_eq_setD [OF *] mset_eq_imp_distinct_iff [OF *] by simp
qed

lemma findIndex_nth:
  assumes "distinct xs" and "k < length xs"
  shows "findIndex (\<lambda>x. x = xs ! k) xs = int k"
proof -
  have "takeWhile (\<lambda>x. x \<noteq> xs ! k) xs = take k xs"
    using assms by (intro takeWhile_eq_take_P_nth) (auto simp: nth_eq_iff_index_eq)
  then show ?thesis using assms(2) by (auto simp: findIndex_def)
qed

text \<open>A move within the row of siblings displays them in the moved order.\<close>

lemma moveOrganigramNode_run:
  assumes d: "distinct (map role_id (roles db))" and r: "find (is_role i c) (roles db) = Some r"
    and k: "k < length (ordered_siblings db (role_parentRoleId r) c)" "ordered_siblings db (role_parentRoleId r) c ! k = i"
    and t: "int t = (case dir of Up \<Rightarrow> int k - 1 | Down \<Rightarrow> int k + 1)" "t < length (ordered_siblings db (role_parentRoleId r) c)"
  obtains db' where "moveOrganigramNode i dir c a db = (Inr (), db')"
    and "ordered_siblings db' (role_parentRoleId r) c = move_to k t (ordered_siblings db (role_parentRoleId r) c)"
    and "map chart_shape (roles db') = map chart_shape (roles db)"
    and "map (\<lambda>r. r\<lparr>role_organigramOrder := None\<rparr>) (roles db') = map (\<lambda>r. r\<lparr>role_organigramOrder := None\<rparr>) (roles db)"
proof -
  let ?p = "role_parentRoleId r" and ?O = "ordered_siblings db (role_parentRoleId r) c"
  have dS: "distinct (map role_id (siblings_under db ?p c))" using d by (simp add: siblings_under_def distinct_map_filter)
  then have dO: "distinct ?O" by (simp add: ordered_siblings_def)
  have setO: "set ?O = role_id ` set (siblings_under db ?p c)" by (simp add: ordered_siblings_def)
  let ?L = "move_to k t ?O"
  have L: "set ?L = set ?O" "distinct ?L" using set_move_to [OF k(1)] dO by simp_all
  have found: "find (is_role j c) (roles db) \<noteq> None" if "j \<in> set ?L" for j
  proof -
    have "\<exists>x \<in> set (roles db). is_role j c x"
      using that unfolding L(1) setO by (auto simp: siblings_under_def in_chart_def is_role_def)
    then show ?thesis by (auto simp: find_None_iff_all)
  qed
  let ?db1 = "db\<lparr>roles := map (with_order c (position_in 0 ?L)) (roles db)\<rparr>"
  have ren: "renumber c 0 ?L db = (Inr (), ?db1)" by (rule renumber_run [OF L(2) found])
  let ?db' = "organigram_audit c a i [(''change'', JStr ''reordered''), (''direction'', JStr (direction_name dir))] ?db1"
  have idx: "findIndex (\<lambda>s. s = i) ?O = int k" using findIndex_nth [OF dO k(1)] k(2) by simp
  have run: "moveOrganigramNode i dir c a db = (Inr (), ?db')"
    using ren t(2) unfolding moveOrganigramNode_def requireRole_def r Let_def option.case sum.case idx t(1) [symmetric]
    by simp
  have sib: "ordered_siblings ?db' ?p c = ?L"
    by (rule ordered_siblings_renumbered [OF d L(2)]) (simp_all add: L(1) setO)
  show ?thesis
    by (rule that [OF run sib])
      (simp_all add: with_order_def chart_shape_def split: option.split)
qed

lemma find_role_shape:
  assumes "distinct (map role_id (roles db))" and "map chart_shape (roles db') = map chart_shape (roles db)"
    and "find (is_role i c) (roles db) = Some r"
  obtains r' where "find (is_role i c) (roles db') = Some r'" and "role_parentRoleId r' = role_parentRoleId r"
proof -
  have r: "r \<in> set (roles db)" "role_id r = i" "role_congregationId r = c"
    using find_Some_in [OF assms(3)] by (simp_all add: is_role_def)
  have sets: "chart_shape ` set (roles db') = chart_shape ` set (roles db)"
    using arg_cong [OF assms(2), of set] by simp
  have "chart_shape r \<in> chart_shape ` set (roles db')" unfolding sets using r(1) by (rule imageI)
  then obtain r' where r': "r' \<in> set (roles db')" "chart_shape r' = chart_shape r" by (rule imageE) simp
  have ids: "map role_id (roles d) = map fst (map chart_shape (roles d))" for d
    by (simp add: chart_shape_def)
  have d': "distinct (map role_id (roles db'))" using assms(1) unfolding ids assms(2) .
  have "find (is_role i c) (roles db') = Some r'"
    by (rule find_key_and [OF d' r'(1)]) (use r' r in \<open>auto simp: is_role_def chart_shape_def\<close>)
  moreover have "role_parentRoleId r' = role_parentRoleId r" using r'(2) by (simp add: chart_shape_def)
  ultimately show ?thesis using that by blast
qed

lemma list_split_at: "Suc k < length xs \<Longrightarrow> xs = take k xs @ [xs ! k, xs ! Suc k] @ drop (Suc (Suc k)) xs"
  by (metis Cons_nth_drop_Suc Suc_lessD append_Cons append_Nil append_take_drop_id)

lemma swap_neighbours:
  assumes "Suc k < length xs"
  shows "xs[k := b, Suc k := a] = take k xs @ [b, a] @ drop (Suc (Suc k)) xs"
proof -
  obtain ys p q zs where xs: "xs = ys @ [p, q] @ zs" and ys: "length ys = k"
    using list_split_at [OF assms] assms by (metis Suc_lessD length_take min.absorb4)
  show ?thesis unfolding xs by (simp add: list_update_append ys)
qed

text \<open>
  Moving a service up swaps it with the sibling displayed above it and changes nothing
  else about the roles; moving it down again restores the row.
\<close>

theorem moving_swaps_siblings:
  assumes "chart_ok db c" and "find (is_role i c) (roles db) = Some r"
    and "Suc k < length (ordered_siblings db (role_parentRoleId r) c)"
    and "ordered_siblings db (role_parentRoleId r) c ! Suc k = i"
  shows "\<exists>db1 db2. moveOrganigramNode i Up c a db = (Inr (), db1) \<and>
    ordered_siblings db1 (role_parentRoleId r) c =
      (ordered_siblings db (role_parentRoleId r) c)
        [k := i, Suc k := ordered_siblings db (role_parentRoleId r) c ! k] \<and>
    map (\<lambda>r. r\<lparr>role_organigramOrder := None\<rparr>) (roles db1) = map (\<lambda>r. r\<lparr>role_organigramOrder := None\<rparr>) (roles db) \<and>
    moveOrganigramNode i Down c a db1 = (Inr (), db2) \<and>
    ordered_siblings db2 (role_parentRoleId r) c = ordered_siblings db (role_parentRoleId r) c"
proof -
  let ?O = "ordered_siblings db (role_parentRoleId r) c"
  let ?S = "take k ?O @ [?O ! Suc k, ?O ! k] @ drop (Suc (Suc k)) ?O"
  have d: "distinct (map role_id (roles db))" using assms(1) by (simp add: chart_ok_def)
  obtain db1 where up: "moveOrganigramNode i Up c a db = (Inr (), db1)"
    "ordered_siblings db1 (role_parentRoleId r) c = move_to (Suc k) k ?O"
    "map chart_shape (roles db1) = map chart_shape (roles db)"
    "map (\<lambda>r. r\<lparr>role_organigramOrder := None\<rparr>) (roles db1) = map (\<lambda>r. r\<lparr>role_organigramOrder := None\<rparr>) (roles db)"
    by (rule moveOrganigramNode_run [OF d assms(2,3,4), of k Up a]) (use assms(3) in simp_all)
  have O1: "ordered_siblings db1 (role_parentRoleId r) c = ?S" unfolding up(2) by (rule move_to_up [OF assms(3)])
  have S: "?S = ?O[k := i, Suc k := ?O ! k]"
    using swap_neighbours [OF assms(3), of i "?O ! k"] assms(4) by simp
  have ok1: "chart_ok db1 c" using chart_ok_shape [OF up(3)] assms(1) by blast
  then have d1: "distinct (map role_id (roles db1))" by (simp add: chart_ok_def)
  obtain r1 where r1: "find (is_role i c) (roles db1) = Some r1" "role_parentRoleId r1 = role_parentRoleId r"
    using find_role_shape [OF d up(3) assms(2)] by blast
  have len: "length ?S = length ?O" using assms(3) by simp
  have k1: "k < length (ordered_siblings db1 (role_parentRoleId r1) c)" "ordered_siblings db1 (role_parentRoleId r1) c ! k = i"
    unfolding r1(2) O1 using assms(3,4) by (simp_all add: nth_append)
  have t1: "Suc k < length (ordered_siblings db1 (role_parentRoleId r1) c)" unfolding r1(2) O1 len by (rule assms(3))
  obtain db2 where down: "moveOrganigramNode i Down c a db1 = (Inr (), db2)"
    "ordered_siblings db2 (role_parentRoleId r1) c = move_to k (Suc k) (ordered_siblings db1 (role_parentRoleId r1) c)"
    by (rule moveOrganigramNode_run [OF d1 r1(1) k1, of "Suc k" Down a]) (use t1 in simp_all)
  have "move_to k (Suc k) ?S = ?O"
    using move_to_down [of k ?S] assms(3) list_split_at [OF assms(3)] by (simp add: nth_append)
  then have O2: "ordered_siblings db2 (role_parentRoleId r) c = ?O" using down(2) unfolding r1(2) O1 by simp
  show ?thesis
    by (intro exI [of _ db1] exI [of _ db2] conjI up(1,4) down(1) O2) (use O1 S in simp)
qed

text \<open>
  Taking a role out of the chart leaves the role, its permissions and its holders, gives
  its children to its own parent and moves nobody else.
\<close>

theorem removal_closes_the_gap:
  assumes "find (is_role i c) (roles db) = Some r" and "\<not> isAppointedRoleKey (role_key r)"
  shows "\<exists>db'. removeRoleFromOrganigram i c a db = (Inr (), db') \<and>
    map role_id (roles db') = map role_id (roles db) \<and> rolePermissions db' = rolePermissions db \<and>
    userRoleAssignments db' = userRoleAssignments db \<and> memberRoleAssignments db' = memberRoleAssignments db \<and>
    (\<forall>k < length (roles db). let x = roles db ! k; x' = roles db' ! k in
       if is_role i c x then \<not> role_showInOrganigram x' \<and> role_parentRoleId x' = None \<and> role_organigramOrder x' = None
       else if role_congregationId x = c \<and> role_parentRoleId x = Some i
       then x' = x\<lparr>role_parentRoleId := role_parentRoleId r\<rparr>
       else x' = x)"
proof -
  have "assertCanLeaveOrganigram (role_key r) = None" using assms(2) by (simp add: assertCanLeaveOrganigram_def)
  from removeRoleFromOrganigram_run [OF assms(1) this, of a] obtain db' where
    run: "removeRoleFromOrganigram i c a db = (Inr (), db')"
    and rows: "roles db' = map (without_place i c (role_parentRoleId r)) (roles db)"
    and same: "userRoleAssignments db' = userRoleAssignments db" "memberRoleAssignments db' = memberRoleAssignments db"
      "rolePermissions db' = rolePermissions db" by metis
  have ids: "map role_id (roles db') = map role_id (roles db)" unfolding rows by simp
  have each: "let x = roles db ! k; x' = roles db' ! k in
       if is_role i c x then \<not> role_showInOrganigram x' \<and> role_parentRoleId x' = None \<and> role_organigramOrder x' = None
       else if role_congregationId x = c \<and> role_parentRoleId x = Some i
       then x' = x\<lparr>role_parentRoleId := role_parentRoleId r\<rparr>
       else x' = x" if "k < length (roles db)" for k
    unfolding rows Let_def nth_map [OF that] by (simp add: without_place_def lifted_def)
  show ?thesis using run ids same each by blast
qed

lemma foldl_max_ge: "(m :: int) \<le> foldl (\<lambda>m s. max m (g s)) m xs \<and> (\<forall>x \<in> set xs. g x \<le> foldl (\<lambda>m s. max m (g s)) m xs)"
proof (induction xs arbitrary: m)
  case (Cons x xs)
  from Cons [of "max m (g x)"] show ?case by auto
qed simp

lemma nextOrderUnder_greater: "s \<in> set (siblings_under db p c) \<Longrightarrow> order_or_zero s < nextOrderUnder db p c"
  using foldl_max_ge [of 0 order_or_zero "siblings_under db p c"] unfolding nextOrderUnder_def ORDER_STEP_def by fastforce

text \<open>An update that puts role \<open>r\<close> under \<open>p\<close> with the next order.\<close>

definition arrives :: "int option \<Rightarrow> int \<Rightarrow> db \<Rightarrow> (role \<Rightarrow> role) \<Rightarrow> role \<Rightarrow> bool" where
  "arrives p c db f r \<longleftrightarrow>
     role_id (f r) = role_id r \<and> in_chart c (f r) \<and> role_parentRoleId (f r) = p \<and>
     order_or_zero (f r) = nextOrderUnder db p c"

lemma arrives_last:
  assumes d: "distinct (map role_id (roles db))" and found: "find (is_role i c) (roles db) = Some r"
    and f: "arrives p c db f r" and rows: "roles db' = update_where (is_role i c) f (roles db)"
  shows "ordered_siblings db' p c = filter (\<lambda>j. j \<noteq> i) (ordered_siblings db p c) @ [i]"
proof -
  let ?q = "\<lambda>r. in_chart c r \<and> role_parentRoleId r = p"
  let ?sort = "js_sort (\<lambda>a b. order_or_zero a - order_or_zero b)"
  have r: "r \<in> set (roles db)" "role_id r = i" "is_role i c r"
    using find_Some_in [OF found] by (simp_all add: is_role_def)
  obtain A B where AB: "roles db = A @ r # B" using split_list [OF r(1)] by blast
  have others: "role_id x \<noteq> i" if "x \<in> set (A @ B)" for x
  proof -
    have "role_id r \<notin> role_id ` set (A @ B)" using d unfolding AB by auto
    then show ?thesis using that r(2) by (metis imageI)
  qed
  then have same: "update_where (is_role i c) f A = A" "update_where (is_role i c) f B = B"
    by (auto intro!: update_where_none simp: is_role_def)
  have "roles db' = A @ f r # B"
    unfolding rows AB using r(3) same by (simp add: update_where_def)
  then have S': "siblings_under db' p c = filter ?q A @ f r # filter ?q B"
    using f by (simp add: siblings_under_def arrives_def)
  have drop: "filter (\<lambda>x. role_id x \<noteq> i) (siblings_under db p c) = filter ?q A @ filter ?q B"
  proof -
    have sub: "filter (\<lambda>x. in_chart c x \<and> role_parentRoleId x = p \<and> role_id x \<noteq> i) X = filter ?q X" if "set X \<subseteq> set (A @ B)" for X
      by (rule filter_cong [OF refl]) (use others that in blast)
    show ?thesis unfolding siblings_under_def AB filter_filter by (simp add: r(2) sub)
  qed
  have "order_or_zero y < order_or_zero (f r)" if "y \<in> set (filter ?q A @ filter ?q B)" for y
  proof -
    have "y \<in> set (siblings_under db p c)" using that unfolding drop [symmetric] by simp
    then show ?thesis using nextOrderUnder_greater f by (simp add: arrives_def)
  qed
  then have "?sort (siblings_under db' p c) = ?sort (filter ?q A @ filter ?q B) @ [f r]"
    unfolding S' by (rule js_sort_greatest)
  also have "\<dots> = filter (\<lambda>x. role_id x \<noteq> i) (?sort (siblings_under db p c)) @ [f r]"
    unfolding filter_js_sort drop by simp
  finally show ?thesis
    using f r(2) unfolding ordered_siblings_def arrives_def by (simp add: filter_map comp_def)
qed

lemma addRoleToOrganigram_arrives:
  assumes "addRoleToOrganigram i p c a db = (Inr (), db')"
  obtains f r where "find (is_role i c) (roles db) = Some r" and "arrives p c db f r"
    and "roles db' = update_where (is_role i c) f (roles db)"
proof -
  let ?f = "\<lambda>r. r\<lparr>role_showInOrganigram := True, role_parentRoleId := p, role_organigramOrder := Some (nextOrderUnder db p c)\<rparr>"
  obtain r where r: "find (is_role i c) (roles db) = Some r"
    using assms by (auto simp: addRoleToOrganigram_def requireRole_def split: option.splits)
  from assms obtain x s where s: "update_role i c ?f db = (Inr x, s)" "roles db' = roles s"
    unfolding addRoleToOrganigram_def requireRole_def r Let_def option.case sum.case
    by (elim guard_by_InrE chain_InrE) auto
  have "s = db\<lparr>roles := update_where (is_role i c) ?f (roles db)\<rparr>" using s(1) by (rule update_role_Inr)
  moreover have "arrives p c db ?f r"
    using find_Some_in [OF r] by (simp add: arrives_def in_chart_def is_role_def order_or_zero_def)
  ultimately show ?thesis using that [OF r, of ?f] s(2) by simp
qed

lemma setOrganigramParent_arrives:
  assumes "setOrganigramParent i p c a db = (Inr (), db')"
  obtains f r where "find (is_role i c) (roles db) = Some r" and "arrives p c db f r"
    and "roles db' = update_where (is_role i c) f (roles db)"
proof -
  let ?f = "\<lambda>r. r\<lparr>role_parentRoleId := p, role_organigramOrder := Some (nextOrderUnder db p c)\<rparr>"
  obtain r where r: "find (is_role i c) (roles db) = Some r" "role_showInOrganigram r"
    using assms by (auto simp: setOrganigramParent_def requireRole_def split: option.splits if_splits)
  from assms obtain x s where s: "update_role i c ?f db = (Inr x, s)" "roles db' = roles s"
    using r(2) unfolding setOrganigramParent_def requireRole_def r(1) Let_def option.case sum.case
    by (simp, elim guard_by_InrE chain_InrE) auto
  have "s = db\<lparr>roles := update_where (is_role i c) ?f (roles db)\<rparr>" using s(1) by (rule update_role_Inr)
  moreover have "arrives p c db ?f r"
    using find_Some_in [OF r(1)] r(2) by (simp add: arrives_def in_chart_def is_role_def order_or_zero_def)
  ultimately show ?thesis using that [OF r(1), of ?f] s(2) by simp
qed

text \<open>
  A role that enters the chart, or moves under another parent, comes last among its new
  siblings, whose order stays.
\<close>

theorem arrival_comes_last:
  assumes "chart_ok db c"
    and "addRoleToOrganigram i p c a db = (Inr (), db') \<or> setOrganigramParent i p c a db = (Inr (), db')"
  shows "ordered_siblings db' p c = filter (\<lambda>j. j \<noteq> i) (ordered_siblings db p c) @ [i]"
proof -
  have d: "distinct (map role_id (roles db))" using assms(1) by (simp add: chart_ok_def)
  have "\<exists>f r. find (is_role i c) (roles db) = Some r \<and> arrives p c db f r \<and>
      roles db' = update_where (is_role i c) f (roles db)"
    using assms(2)
  proof
    assume "addRoleToOrganigram i p c a db = (Inr (), db')"
    then show ?thesis by (rule addRoleToOrganigram_arrives) blast
  next
    assume "setOrganigramParent i p c a db = (Inr (), db')"
    then show ?thesis by (rule setOrganigramParent_arrives) blast
  qed
  then show ?thesis using arrives_last [OF d] by blast
qed

section \<open>A concrete chart\<close>

text \<open>
  The elders with the service committee and two services under them, and a role outside the
  chart.
\<close>

definition sample_chart :: db where
  "sample_chart = empty_db\<lparr>roles := [sample_role 1 ''elder'' None, sample_role 2 ''service-committee'' (Some 1),
     sample_role 3 ''sono'' (Some 1), sample_role 4 ''accueil'' (Some 1),
     (sample_role 5 ''menage'' None)\<lparr>role_showInOrganigram := False, role_organigramOrder := None\<rparr>]\<rparr>"

lemmas sample_chart_defs = sample_chart_def sample_role_def empty_db_def

lemma flat_relation: "E O E = {} \<Longrightarrow> E ^^ Suc (Suc n) = ({} :: ('a \<times> 'a) set)"
  by (induction n) (simp_all add: O_assoc)

lemma sample_chart_ok: "chart_ok sample_chart c"
proof (cases "c = 1")
  case True
  have "chart_edges sample_chart c \<subseteq> {(2, 1), (3, 1), (4, 1)}"
    by (rule subrelI) (auto simp: chart_edges_iff sample_chart_defs)
  from relcomp_mono [OF this this] have "chart_edges sample_chart c O chart_edges sample_chart c = {}" by auto
  then have "chart_edges sample_chart c ^^ Suc (Suc 8) = {}" by (rule flat_relation)
  then show ?thesis by (auto simp: chart_ok_def MAX_ORGANIGRAM_DEPTH_def sample_chart_defs numeral_nat)
next
  case False
  have "chart_edges sample_chart c = {}" using False by (auto simp: chart_edges_def treeLinks_def edges_def in_chart_def sample_chart_defs)
  then have "chart_edges sample_chart c O chart_edges sample_chart c = {}" by simp
  then have "chart_edges sample_chart c ^^ Suc (Suc 8) = {}" by (rule flat_relation)
  then show ?thesis by (auto simp: chart_ok_def MAX_ORGANIGRAM_DEPTH_def sample_chart_defs numeral_nat)
qed

lemmas chart_eval = requireRole_def is_role_def update_role_def update_where_def removeRoleFromOrganigram_def
  addRoleToOrganigram_def setOrganigramParent_def moveOrganigramNode_def set_parent_input_def treeLinks_def
  role_link_def in_chart_def siblings_under_def ordered_siblings_def order_or_zero_def nextOrderUnder_def
  organigram_audit_def assertCanLeaveOrganigram_def assertCanShowInOrganigram_def canShowInOrganigram_def
  assertCanSetParent_def ORGANIGRAM_ROSTER_KEYS_def MAX_ORGANIGRAM_DEPTH_def ORDER_STEP_def role_key_defs
  subtreeHeight_def walk_height.simps children_of_def ancestorChainIds_def chain_from_Some parent_of_def

lemma sample_arrival:
  "\<exists>db'. addRoleToOrganigram 5 (Some 1) 1 9 sample_chart = (Inr (), db')"
  by (simp add: chart_eval sample_chart_defs)

lemma sample_role_found: "find (is_role 3 1) (roles sample_chart) = Some (sample_role 3 ''sono'' (Some 1))"
  by (simp add: is_role_def sample_chart_defs)

lemma sample_siblings: "ordered_siblings sample_chart (Some 1) 1 = [2, 3, 4]"
  by (simp add: chart_eval sample_chart_defs)

lemma organigram_stays_a_chart_witness:
  "chart_ok (snd (addRoleToOrganigram 5 (Some 3) 1 9 sample_chart)) 1 \<and>
   (1, 1) \<notin> chart_edges (snd (addRoleToOrganigram 5 (Some 3) 1 9 sample_chart)) 1 ^^ MAX_ORGANIGRAM_DEPTH"
proof -
  have "(role_step utc_env)\<^sup>*\<^sup>* sample_chart (snd (addRoleToOrganigram 5 (Some 3) 1 9 sample_chart))"
    by (rule r_into_rtranclp, rule role_step.enter)
  from organigram_stays_a_chart [OF this fresh_utc_env sample_chart_ok] show ?thesis by blast
qed

lemma moving_swaps_siblings_witness:
  "\<exists>db1 db2. moveOrganigramNode 3 Up 1 9 sample_chart = (Inr (), db1) \<and>
     ordered_siblings db1 (Some 1) 1 = [3, 2, 4] \<and> moveOrganigramNode 3 Down 1 9 db1 = (Inr (), db2) \<and>
     ordered_siblings db2 (Some 1) 1 = [2, 3, 4]"
proof -
  have p: "role_parentRoleId (sample_role 3 ''sono'' (Some 1)) = Some 1" by (simp add: sample_role_def)
  have k: "Suc 0 < length (ordered_siblings sample_chart (role_parentRoleId (sample_role 3 ''sono'' (Some 1))) 1)"
    "ordered_siblings sample_chart (role_parentRoleId (sample_role 3 ''sono'' (Some 1))) 1 ! Suc 0 = 3"
    unfolding p sample_siblings by simp_all
  have swapped: "[2, 3, 4][0 := 3, Suc 0 := [2, 3, 4 :: int] ! 0] = [3, 2, 4]" by simp
  from moving_swaps_siblings [OF sample_chart_ok sample_role_found k, of 9] show ?thesis
    unfolding p sample_siblings swapped by blast
qed

lemma removal_closes_the_gap_witness:
  "\<exists>db'. removeRoleFromOrganigram 3 1 9 sample_chart = (Inr (), db') \<and>
     map role_id (roles db') = [1, 2, 3, 4, 5]"
proof -
  have free: "\<not> isAppointedRoleKey (role_key (sample_role 3 ''sono'' (Some 1)))"
    by (simp add: sample_role_def role_key_defs)
  have ids: "map role_id (roles sample_chart) = [1, 2, 3, 4, 5]" by (simp add: sample_chart_defs)
  from removal_closes_the_gap [OF sample_role_found free, of 9] show ?thesis
    unfolding ids by (elim exE conjE, intro exI conjI)
qed

lemma arrival_comes_last_witness:
  "\<exists>db'. addRoleToOrganigram 5 (Some 1) 1 9 sample_chart = (Inr (), db') \<and>
     ordered_siblings db' (Some 1) 1 = [2, 3, 4, 5]"
proof -
  obtain db' where run: "addRoleToOrganigram 5 (Some 1) 1 9 sample_chart = (Inr (), db')"
    using sample_arrival by blast
  have row: "filter (\<lambda>j. j \<noteq> 5) [2, 3, 4] @ [5] = [2, 3, 4, 5 :: int]" by simp
  then show ?thesis
    using arrival_comes_last [OF sample_chart_ok disjI1 [OF run]] run unfolding sample_siblings row by blast
qed

text \<open>
  The place of the service committee is fixed only as long as the elders stay in the
  chart: taking their roster out lifts the committee to the top, and when the roster is back
  the policy refuses to put the committee under it again.
\<close>

theorem committee_loses_its_place:
  "\<exists>db1 db2. removeRoleFromOrganigram 1 1 9 sample_chart = (Inr (), db1) \<and>
     map role_parentRoleId (filter (\<lambda>r. role_key r = SERVICE_COMMITTEE_KEY) (roles db1)) = [None] \<and>
     addRoleToOrganigram 1 None 1 9 db1 = (Inr (), db2) \<and>
     setOrganigramParent 2 (Some 1) 1 9 db2 = (Inl (ForbiddenError ''fixedPosition''), db2)"
  by (simp add: chart_eval sample_chart_defs)

text \<open>A service can be placed under a role that is not in the chart, and so stands at its top.\<close>

lemma parent_outside_the_chart:
  "\<exists>db'. setOrganigramParent 3 (Some 5) 1 9 sample_chart = (Inr (), db') \<and>
     map role_parentRoleId (filter (is_role 3 1) (roles db')) = [Some 5] \<and>
     \<not> (\<exists>r \<in> set (roles db'). in_chart 1 r \<and> role_id r = 5)"
  by (simp add: chart_eval sample_chart_defs)

end
