(* ===== verification/Org_Shape.thy ===== *)
theory Org_Shape
  imports Org_Tree Chart_Operations
begin

text \<open>
  On data without cycles the assembled tree is the chart: each role stands under the role it
  reports to, in display order, and the roots are the roles that report to nobody in the chart.
\<close>

section \<open>Nodes and their reports\<close>

fun nodes :: "OrganigramNode \<Rightarrow> OrganigramNode list" where
  "nodes (OrganigramNode i k n nt ro sp hs children) =
     OrganigramNode i k n nt ro sp hs children # concat (map nodes children)"

definition forest_nodes :: "OrganigramNode list \<Rightarrow> OrganigramNode list" where
  "forest_nodes ns = concat (map nodes ns)"

lemma nodes_make [simp]: "nodes (make_node loc holders r cs) = make_node loc holders r cs # forest_nodes cs"
  by (simp add: make_node_def forest_nodes_def)

lemma forest_nodes_simps [simp]:
  "forest_nodes [] = []" "forest_nodes (n # ns) = nodes n @ forest_nodes ns"
  by (simp_all add: forest_nodes_def)

lemma node_ids_nodes: "node_ids n = map on_id (nodes n)"
proof (induction n)
  case (OrganigramNode i k n nt ro sp hs children)
  then have *: "map node_ids children = map (map on_id \<circ> nodes) children" by simp
  show ?case by (simp only: nodes.simps node_ids.simps map_concat list.map map_map * OrganigramNode.sel)
qed

lemma forest_ids_nodes: "forest_ids ns = map on_id (forest_nodes ns)"
  by (induction ns) (simp_all add: node_ids_nodes)

lemma make_node_sel [simp]:
  "on_id (make_node loc holders r cs) = or_id r" "on_key (make_node loc holders r cs) = or_key r"
  "on_children (make_node loc holders r cs) = cs"
  by (simp_all add: make_node_def)

lemma child_in_nodes: "m \<in> set (nodes n) \<Longrightarrow> c \<in> set (on_children m) \<Longrightarrow> c \<in> set (nodes n)"
proof (induction n)
  case (OrganigramNode i k nm nt ro sp hs children)
  have self: "x \<in> set (nodes x)" for x by (cases x) simp
  show ?case using OrganigramNode self [of c] by auto
qed

lemma child_in_forest:
  assumes "m \<in> set (forest_nodes ns)" and "c \<in> set (on_children m)"
  shows "c \<in> set (forest_nodes ns)"
  using assms child_in_nodes by (auto simp: forest_nodes_def)

definition reports_in_order :: "i18n \<Rightarrow> OrganigramRole list \<Rightarrow> OrganigramRole \<Rightarrow> OrganigramNode list \<Rightarrow> bool" where
  "reports_in_order loc rows r cs \<longleftrightarrow>
     map on_id cs = map or_id (js_sort (compareRoles loc) (by_parent rows (or_id r)))"

definition follows_rows :: "i18n \<Rightarrow> OrganigramRole list \<Rightarrow> OrganigramHolder list \<Rightarrow> OrganigramNode list \<Rightarrow> bool" where
  "follows_rows loc rows holders ms \<longleftrightarrow>
     (\<forall>m \<in> set ms. \<exists>r \<in> set rows. m = make_node loc holders r (on_children m) \<and>
        reports_in_order loc rows r (on_children m))"

lemma follows_rows_Un [simp]:
  "follows_rows loc rows holders (ms @ ns) \<longleftrightarrow> follows_rows loc rows holders ms \<and> follows_rows loc rows holders ns"
  by (auto simp: follows_rows_def)

text \<open>The visited set is closed under going up; roles outside of it are built in full.\<close>

definition closed_up :: "OrganigramRole list \<Rightarrow> int set \<Rightarrow> bool" where
  "closed_up rows v \<longleftrightarrow>
     (\<forall>r \<in> set rows. or_id r \<in> v \<longrightarrow> (\<forall>p. or_parentRoleId r = Some p \<longrightarrow> p \<in> known_ids rows \<longrightarrow> p \<in> v))"

definition parent_seen :: "OrganigramRole list \<Rightarrow> int set \<Rightarrow> OrganigramRole \<Rightarrow> bool" where
  "parent_seen rows v r \<longleftrightarrow> (\<forall>p. or_parentRoleId r = Some p \<longrightarrow> p \<in> v \<or> p \<notin> known_ids rows)"

lemma parent_seen_mono: "parent_seen rows v r \<Longrightarrow> v \<subseteq> w \<Longrightarrow> parent_seen rows w r"
  by (auto simp: parent_seen_def)

lemma finite_known [simp]: "finite (known_ids rows)"
  by (simp add: known_ids_def)

lemma map_state_follows:
  assumes d: "distinct (map or_id rows)"
    and build: "\<And>k w n w'. k \<in> set rows \<Longrightarrow> or_id k \<notin> w \<Longrightarrow> closed_up rows w \<Longrightarrow> parent_seen rows w k \<Longrightarrow>
       card (known_ids rows - w) \<le> fuel \<Longrightarrow> f k w = (n, w') \<Longrightarrow>
       follows_rows loc rows holders (nodes n) \<and> on_id n = or_id k \<and> closed_up rows w' \<and> visits rows {or_id k} w (node_ids n) w'"
    and "set ks \<subseteq> set rows" and "distinct (map or_id ks)" and "or_id ` set ks \<inter> v = {}"
    and "\<forall>k \<in> set ks. parent_seen rows v k" and "closed_up rows v" and "card (known_ids rows - v) \<le> fuel"
    and "map_state f ks v = (ns, v')"
  shows "follows_rows loc rows holders (forest_nodes ns) \<and> map on_id ns = map or_id ks \<and> closed_up rows v'"
  using assms(3-9)
proof (induction ks arbitrary: v ns v')
  case Nil
  then show ?case by (simp add: follows_rows_def)
next
  case (Cons k ks)
  obtain n v1 where n: "f k v = (n, v1)" by fastforce
  obtain ms where ms: "map_state f ks v1 = (ms, v')" and ns: "ns = n # ms"
    using Cons.prems(7) n by (auto split: prod.splits)
  have head: "follows_rows loc rows holders (nodes n)" "on_id n = or_id k" "closed_up rows v1"
    "visits rows {or_id k} v (node_ids n) v1"
    using build [of k v n v1] Cons.prems(1,3-6) n by simp_all
  have sub: "v \<subseteq> v1" using head(4) by (auto simp: visits_def)
  have free: "or_id ` set ks \<inter> v1 = {}"
    by (rule siblings_stay_free [OF d Cons.prems(1-3) _ head(4)]) (use Cons.prems(4) in \<open>auto simp: parent_seen_def\<close>)
  have "card (known_ids rows - v1) \<le> card (known_ids rows - v)" using sub by (intro card_mono) auto
  then have "follows_rows loc rows holders (forest_nodes ms) \<and> map on_id ms = map or_id ks \<and> closed_up rows v'"
    using Cons.prems sub by (intro Cons.IH [OF _ _ free _ head(3) _ ms]) (auto intro: parent_seen_mono)
  then show ?case using head(1,2) unfolding ns by simp
qed

lemma buildNode_follows:
  assumes d: "distinct (map or_id rows)"
  shows "r \<in> set rows \<Longrightarrow> or_id r \<notin> v \<Longrightarrow> closed_up rows v \<Longrightarrow> parent_seen rows v r \<Longrightarrow>
     card (known_ids rows - v) \<le> fuel \<Longrightarrow> buildNode fuel loc rows holders r v = (n, v') \<Longrightarrow>
     follows_rows loc rows holders (nodes n) \<and> on_id n = or_id r \<and> closed_up rows v'"
proof (induction fuel arbitrary: r v n v')
  case 0
  then have "known_ids rows - v = {}" by simp
  moreover have "or_id r \<in> known_ids rows - v" using 0(1,2) by (simp add: known_ids_def)
  ultimately show ?case by blast
next
  case (Suc fuel)
  let ?v1 = "insert (or_id r) v"
  have known: "or_id r \<in> known_ids rows" using Suc.prems(1) by (simp add: known_ids_def)
  have row: "k = r" if "k \<in> set rows" "or_id k = or_id r" for k
    using d that Suc.prems(1) by (auto simp: distinct_map inj_on_def)
  have up1: "closed_up rows ?v1"
    using Suc.prems(3,4) row unfolding closed_up_def parent_seen_def by blast
  have fresh: "or_id k \<notin> ?v1" if k: "k \<in> set (by_parent rows (or_id r))" for k
  proof -
    have kr: "k \<in> set rows" "or_parentRoleId k = Some (or_id r)" using k by (simp_all add: by_parent_def)
    have "or_id k \<notin> v" using Suc.prems(2,3) kr known unfolding closed_up_def by blast
    moreover have "or_id k \<noteq> or_id r" using row [OF kr(1)] kr(2) Suc.prems(2,4) known by (auto simp: parent_seen_def)
    ultimately show ?thesis by simp
  qed
  have all: "filter (\<lambda>c. or_id c \<notin> ?v1) (by_parent rows (or_id r)) = by_parent rows (or_id r)"
    using fresh by (auto simp: filter_id_conv)
  let ?kids = "js_sort (compareRoles loc) (by_parent rows (or_id r))"
  obtain ns where ms: "map_state (buildNode fuel loc rows holders) ?kids ?v1 = (ns, v')"
    and n: "n = make_node loc holders r ns"
    using Suc.prems(6) unfolding buildNode.simps Let_def all by (auto split: prod.splits)
  have sub: "set ?kids \<subseteq> set rows" by (auto simp: by_parent_def)
  have dist: "distinct (map or_id ?kids)" using d by (simp add: by_parent_def distinct_map_filter)
  have out: "or_id ` set ?kids \<inter> ?v1 = {}" unfolding set_js_sort using fresh by blast
  have seen: "\<forall>k \<in> set ?kids. parent_seen rows ?v1 k" by (simp add: by_parent_def parent_seen_def)
  have "known_ids rows - ?v1 \<subset> known_ids rows - v" using known Suc.prems(2) by auto
  then have fewer: "card (known_ids rows - ?v1) \<le> fuel"
    using psubset_card_mono [of "known_ids rows - v"] Suc.prems(5) by fastforce
  have "follows_rows loc rows holders (forest_nodes ns) \<and> map on_id ns = map or_id ?kids \<and> closed_up rows v'"
  proof (rule map_state_follows [OF d _ sub dist out seen up1 fewer ms])
    fix k w m w'
    assume k: "k \<in> set rows" "or_id k \<notin> w" "closed_up rows w" "parent_seen rows w k"
      "card (known_ids rows - w) \<le> fuel" "buildNode fuel loc rows holders k w = (m, w')"
    show "follows_rows loc rows holders (nodes m) \<and> on_id m = or_id k \<and> closed_up rows w' \<and>
        visits rows {or_id k} w (node_ids m) w'"
      using Suc.IH [OF k] visits_buildNode [OF d k(1,2,6)] by simp
  qed
  then show ?case using Suc.prems(1) unfolding n by (auto simp: follows_rows_def reports_in_order_def)
qed

section \<open>The whole tree\<close>

definition row_edges :: "OrganigramRole list \<Rightarrow> (int \<times> int) set" where
  "row_edges rows = {(or_id r, p) | r p. r \<in> set rows \<and> or_parentRoleId r = Some p}"

lemma surface_none: "\<forall>r \<in> set rs. or_id r \<in> v \<Longrightarrow> surface f rs v = []"
  by (induction rs) simp_all

lemma tree_follows_rows:
  assumes d: "distinct (map or_id rows)" and ac: "acyclic (row_edges rows)"
  shows "follows_rows loc rows holders (forest_nodes (buildOrganigramTree loc rows holders)) \<and>
     map on_id (buildOrganigramTree loc rows holders) =
       map or_id (js_sort (compareRoles loc) (filter (is_chart_root rows) rows))"
proof -
  let ?f = "buildNode (length rows) loc rows holders"
  let ?tops = "js_sort (compareRoles loc) (filter (is_chart_root rows) rows)"
  obtain tree v where tree: "map_state ?f ?tops {} = (tree, v)" by fastforce
  have dist: "distinct (map or_id ?tops)" using d by (simp add: distinct_map_filter)
  have seen: "\<forall>k \<in> set ?tops. parent_seen rows {} k"
    by (auto simp: is_chart_root_def parent_seen_def split: option.splits)
  have card: "card (known_ids rows - {}) \<le> length rows" by (simp add: known_ids_def card_length [of "map or_id rows", simplified])
  have follows: "follows_rows loc rows holders (forest_nodes tree) \<and> map on_id tree = map or_id ?tops \<and> closed_up rows v"
  proof (rule map_state_follows [OF d _ _ dist _ seen _ card tree])
    fix k w m w'
    assume k: "k \<in> set rows" "or_id k \<notin> w" "closed_up rows w" "parent_seen rows w k"
      "card (known_ids rows - w) \<le> length rows" "?f k w = (m, w')"
    show "follows_rows loc rows holders (nodes m) \<and> on_id m = or_id k \<and> closed_up rows w' \<and>
        visits rows {or_id k} w (node_ids m) w'"
      using buildNode_follows [OF d k] visits_buildNode [OF d k(1,2,6)] by simp
  qed (auto simp: closed_up_def)
  have "visits rows (or_id ` set ?tops) {} (forest_ids tree) v"
    using d by (intro visits_map_state [OF d visits_buildNode [OF d] _ _ _ _ tree])
      (auto simp: is_chart_root_def distinct_map_filter)
  then have v: "v = set (forest_ids tree)" and tops: "or_id ` set ?tops \<subseteq> v" by (simp_all add: visits_def)
  have "finite (row_edges rows)"
    by (rule finite_subset [of _ "(\<lambda>r. (or_id r, the (or_parentRoleId r))) ` set rows"]) (force simp: row_edges_def)+
  then have wf: "wf ((row_edges rows)\<inverse>)" using ac by (rule finite_acyclic_wf_converse)
  have all: "or_id r \<in> v" if "r \<in> set rows" for r
    using that
  proof (induction "or_id r" arbitrary: r rule: wf_induct_rule [OF wf])
    case 1
    show ?case
    proof (cases "is_chart_root rows r")
      case True
      then show ?thesis using tops 1(2) by auto
    next
      case False
      then obtain p where p: "or_parentRoleId r = Some p" "p \<in> known_ids rows"
        by (auto simp: is_chart_root_def split: option.splits)
      then obtain q where q: "q \<in> set rows" "or_id q = p" by (auto simp: known_ids_def)
      have "(or_id q, or_id r) \<in> (row_edges rows)\<inverse>" using 1(2) p(1) q(2) by (auto simp: row_edges_def)
      then have "or_id q \<in> v" using 1(1) q(1) by blast
      then obtain m where m: "m \<in> set (forest_nodes tree)" "on_id m = or_id q" unfolding v forest_ids_nodes by auto
      obtain s where s: "s \<in> set rows" "m = make_node loc holders s (on_children m)" "reports_in_order loc rows s (on_children m)"
        using follows m(1) unfolding follows_rows_def by blast
      have "or_id s = p" using s(2) m(2) q(2) by (metis make_node_sel(1))
      then have "or_id r \<in> or_id ` set (by_parent rows (or_id s))" using 1(2) p by (auto simp: by_parent_def)
      then have "or_id r \<in> set (map on_id (on_children m))" using s(3) unfolding reports_in_order_def by simp
      then obtain n where n: "n \<in> set (on_children m)" "on_id n = or_id r" by auto
      have "n \<in> set (forest_nodes tree)" using child_in_forest [OF m(1) n(1)] .
      then show ?thesis unfolding v forest_ids_nodes using n(2) by force
    qed
  qed
  then have "surface ?f (js_sort (compareRoles loc) rows) v = []" by (intro surface_none) simp
  then have "buildOrganigramTree loc rows holders = tree"
    using tree by (simp add: buildOrganigramTree_def Let_def)
  then show ?thesis using follows by simp
qed

section \<open>The organigram of a congregation\<close>

lemma getOrganigram_tree:
  obtains holders where
    "getOrganigram loc db c = buildOrganigramTree loc (map chart_role (filter (in_chart c) (roles db))) holders"
proof (cases "filter (in_chart c) (roles db) = []")
  case True
  then have "getOrganigram loc db c = []" by (simp add: getOrganigram_def in_chart_def [abs_def] Let_def)
  moreover have "buildOrganigramTree loc [] holders = []" for holders by (simp add: buildOrganigramTree_def Let_def)
  ultimately show ?thesis using that [of "[]"] True by simp
next
  case False
  then show ?thesis
    using that by (simp add: getOrganigram_def in_chart_def [abs_def] Let_def)
qed

lemma chart_role_sel [simp]:
  "or_id (chart_role r) = role_id r" "or_key (chart_role r) = role_key r"
  "or_parentRoleId (chart_role r) = role_parentRoleId r"
  by (simp_all add: chart_role_def)

lemma organigram_facts:
  assumes "chart_ok db c"
  shows "distinct (forest_ids (getOrganigram loc db c)) \<and>
    set (forest_ids (getOrganigram loc db c)) = role_id ` {r \<in> set (roles db). in_chart c r} \<and>
    (\<forall>m \<in> set (forest_nodes (getOrganigram loc db c)). \<exists>r \<in> set (roles db).
       in_chart c r \<and> on_id m = role_id r \<and> on_key m = role_key r \<and>
       set (map on_id (on_children m)) =
         role_id ` {x \<in> set (roles db). in_chart c x \<and> role_parentRoleId x = Some (role_id r)})"
proof -
  let ?chart = "filter (in_chart c) (roles db)"
  let ?rows = "map chart_role ?chart"
  obtain holders where tree: "getOrganigram loc db c = buildOrganigramTree loc ?rows holders"
    by (rule getOrganigram_tree)
  have d: "distinct (map or_id ?rows)"
    using assms by (simp add: chart_ok_def comp_def distinct_map_filter)
  have "row_edges ?rows = chart_edges db c"
    unfolding row_edges_def chart_edges_def edges_def treeLinks_def role_link_def by force
  then have "acyclic (row_edges ?rows)" using chart_acyclic [OF assms] by simp
  from tree_follows_rows [OF d this, of loc holders]
  have follows: "follows_rows loc ?rows holders (forest_nodes (getOrganigram loc db c))" unfolding tree by simp
  have each: "\<exists>r \<in> set (roles db). in_chart c r \<and> on_id m = role_id r \<and> on_key m = role_key r \<and>
       set (map on_id (on_children m)) =
         role_id ` {x \<in> set (roles db). in_chart c x \<and> role_parentRoleId x = Some (role_id r)}"
    if m: "m \<in> set (forest_nodes (getOrganigram loc db c))" for m
  proof -
    obtain row where row: "row \<in> set ?rows" "m = make_node loc holders row (on_children m)"
      "reports_in_order loc ?rows row (on_children m)"
      using follows m unfolding follows_rows_def by blast
    obtain r where r: "r \<in> set (roles db)" "in_chart c r" "row = chart_role r" using row(1) by auto
    have sel: "on_id m = role_id r" "on_key m = role_key r"
      using arg_cong [OF row(2), of on_id] arg_cong [OF row(2), of on_key] r(3) by simp_all
    have "set (map on_id (on_children m)) = or_id ` set (by_parent ?rows (role_id r))"
      using row(3) r(3) unfolding reports_in_order_def by (metis chart_role_sel(1) list.set_map set_js_sort)
    also have "\<dots> = role_id ` {x \<in> set (roles db). in_chart c x \<and> role_parentRoleId x = Some (role_id r)}"
      using r(1,2) by (force simp: by_parent_def known_ids_def)
    finally show ?thesis using r(1,2) sel by blast
  qed
  have once: "distinct (forest_ids (getOrganigram loc db c)) \<and>
      set (forest_ids (getOrganigram loc db c)) = or_id ` set ?rows"
    unfolding tree by (rule chart_ids [OF d])
  have ids: "or_id ` set ?rows = role_id ` {r \<in> set (roles db). in_chart c r}" by force
  show ?thesis using once each unfolding ids by blast
qed

lemmas organigram_distinct = organigram_facts [THEN conjunct1]

lemmas organigram_ids = organigram_facts [THEN conjunct2, THEN conjunct1]

lemmas organigram_nodes = organigram_facts [THEN conjunct2, THEN conjunct2]

text \<open>
  C25. The organigram shows every role of the chart exactly once and, when the stored chart has
  no cycle, each of them directly above the roles that report to it.
\<close>

theorem organigram_shows_the_chart:
  assumes "chart_ok db c"
  shows "distinct (forest_ids (getOrganigram loc db c)) \<and>
    set (forest_ids (getOrganigram loc db c)) = role_id ` {r \<in> set (roles db). in_chart c r} \<and>
    (\<forall>m \<in> set (forest_nodes (getOrganigram loc db c)). \<exists>r \<in> set (roles db).
       in_chart c r \<and> on_id m = role_id r \<and> on_key m = role_key r \<and>
       set (map on_id (on_children m)) =
         role_id ` {x \<in> set (roles db). in_chart c x \<and> role_parentRoleId x = Some (role_id r)})"
  by (rule organigram_facts [OF assms])

lemma sample_chart_ids: "role_id ` {r \<in> set (roles sample_chart). in_chart 1 r} = {1, 2, 3, 4}"
proof -
  have "{r \<in> set (roles sample_chart). in_chart 1 r} = set (filter (in_chart 1) (roles sample_chart))" by auto
  also have "role_id ` \<dots> = {1, 2, 3, 4}" by (simp add: in_chart_def sample_chart_defs)
  finally show ?thesis .
qed

lemma organigram_shows_the_chart_witness:
  "\<forall>loc. distinct (forest_ids (getOrganigram loc sample_chart 1)) \<and>
     set (forest_ids (getOrganigram loc sample_chart 1)) = {1, 2, 3, 4}"
  using organigram_shows_the_chart [OF sample_chart_ok, of _ 1] unfolding sample_chart_ids by blast

end
