(* ===== verification/Org_Sheet.thy ===== *)
theory Org_Sheet
  imports Org_Layout Org_Shape
begin

text \<open>
  The sheet loses nobody: every service of the tree is printed exactly once, before and after
  the grouping, and every deputy and leader of a band appears exactly once among its people.
\<close>

section \<open>Collecting ids\<close>

fun printed :: "LayoutBlock \<Rightarrow> int list" where
  "printed (RosterBlock i title n) = [on_id n]"
| "printed (CommitteeBlock i n posts) = on_id n # map on_id posts"
| "printed (Band b) = (case bb_node b of Some n \<Rightarrow> [on_id n] | None \<Rightarrow> []) @ map on_id (bb_rows b)"
| "printed (RowBlock i n) = [on_id n]"

definition printed_ids :: "LayoutBlock list \<Rightarrow> int list" where
  "printed_ids blocks = concat (map printed blocks)"

lemma printed_ids_simps [simp]:
  "printed_ids [] = []" "printed_ids (b # bs) = printed b @ printed_ids bs"
  "printed_ids (bs @ cs) = printed_ids bs @ printed_ids cs"
  by (simp_all add: printed_ids_def)

lemma printed_ids_concat: "printed_ids (concat bss) = concat (map printed_ids bss)"
  by (induction bss) simp_all

lemma node_ids_children: "node_ids n = on_id n # forest_ids (on_children n)"
  by (cases n) (simp add: forest_ids_def)

lemma mset_forest_ids:
  "mset (forest_ids ns) = mset (map on_id ns) + mset (concat (map (\<lambda>n. forest_ids (on_children n)) ns))"
  by (induction ns) (simp_all add: node_ids_children)

lemma forest_ids_concat: "forest_ids (concat nss) = concat (map forest_ids nss)"
  by (induction nss) simp_all

lemma forest_ids_leaves: "\<forall>n \<in> set ns. is_leaf n \<Longrightarrow> forest_ids ns = map on_id ns"
  by (induction ns) (simp_all add: node_ids_children is_leaf_def)

text \<open>Bags of a concatenation are compared element by element.\<close>

lemma mset_concat_map_cong:
  "(\<And>x. x \<in> set xs \<Longrightarrow> mset (f x) = mset (g x)) \<Longrightarrow> mset (concat (map f xs)) = mset (concat (map g xs))"
  by (induction xs) simp_all

lemma mset_concat_map_add:
  "mset (concat (map (\<lambda>x. f x @ g x) xs)) = mset (concat (map f xs)) + mset (concat (map g xs))"
  by (induction xs) simp_all

lemma mset_concat_map_perm: "mset xs = mset ys \<Longrightarrow> mset (concat (map f xs)) = mset (concat (map f ys))"
  by (metis mset_concat mset_map sum_mset_sum_list)

lemma forest_ids_perm: "mset ms = mset ns \<Longrightarrow> mset (forest_ids ms) = mset (forest_ids ns)"
  unfolding forest_ids_def by (rule mset_concat_map_perm)

lemma forest_ids_split:
  "mset (forest_ids ns) = mset (forest_ids (filter P ns)) + mset (forest_ids (filter (\<lambda>n. \<not> P n) ns))"
proof -
  have "mset (filter P ns @ filter (\<lambda>n. \<not> P n) ns) = mset ns" by simp
  from forest_ids_perm [OF this] show ?thesis by simp
qed

lemma forest_ids_leaf_split:
  "mset (forest_ids ns) = mset (map on_id (filter is_leaf ns)) +
     mset (forest_ids (filter (\<lambda>n. length (on_children n) > 0) ns))"
proof -
  have "filter (\<lambda>n. \<not> is_leaf n) ns = filter (\<lambda>n. length (on_children n) > 0) ns" by (simp add: is_leaf_def)
  moreover have "forest_ids (filter is_leaf ns) = map on_id (filter is_leaf ns)" by (rule forest_ids_leaves) simp
  ultimately show ?thesis using forest_ids_split [of ns is_leaf] by simp
qed

section \<open>Branches\<close>

lemma printed_band [simp]:
  "printed (band i n header rows) = (case n of Some m \<Rightarrow> [on_id m] | None \<Rightarrow> []) @ map on_id rows"
  by (simp add: band_def)

lemma walkContainer_ids: "mset (printed_ids (walkContainer n header)) = mset (node_ids n)"
proof (induction n header rule: walkContainer.induct)
  case (1 n header)
  let ?big = "filter (\<lambda>child. length (on_children child) > 0) (on_children n)"
  show ?case
  proof (cases "hasChildUnits n")
    case False
    then have "\<forall>c \<in> set (on_children n). is_leaf c" by (simp add: hasChildUnits_def is_leaf_def)
    then show ?thesis
      using False by (simp add: walkContainer.simps [of n] node_ids_children forest_ids_leaves)
  next
    case True
    have "mset (concat (map (\<lambda>c. printed_ids (walkContainer c (Some (on_name n)))) ?big)) = mset (forest_ids ?big)"
      unfolding forest_ids_def by (rule mset_concat_map_cong) (use 1 True in simp)
    then show ?thesis
      using True forest_ids_leaf_split [of "on_children n"]
      by (simp add: walkContainer.simps [of n] node_ids_children printed_ids_concat comp_def)
  qed
qed

lemma emitBranch_ids: "mset (printed_ids (emitBranch ns header)) = mset (forest_ids ns)"
proof -
  let ?big = "filter (\<lambda>child. length (on_children child) > 0) ns"
  have "mset (concat (map (\<lambda>c. printed_ids (walkContainer c header)) ?big)) = mset (forest_ids ?big)"
    unfolding forest_ids_def by (rule mset_concat_map_cong) (simp add: walkContainer_ids)
  moreover have "printed_ids (map (\<lambda>leaf. RowBlock (on_id leaf) leaf) ls) = map on_id ls" for ls
    by (induction ls) simp_all
  ultimately show ?thesis
    using forest_ids_leaf_split [of ns]
    by (cases header) (simp_all add: emitBranch_def Let_def printed_ids_concat comp_def filter_empty_conv)
qed

section \<open>The committee\<close>

lemma mset_posts_of: "mset (posts_of committee) = mset (filter (\<lambda>c. on_key c \<in> set POST_KEYS) (on_children committee))"
proof -
  have "mset (concat (map (\<lambda>key. filter (\<lambda>c. on_key c = key) cs) POST_KEYS)) = mset (filter (\<lambda>c. on_key c \<in> set POST_KEYS) cs)" for cs
    by (induction cs) (auto simp: POST_KEYS_def)
  then show ?thesis unfolding posts_of_def .
qed

lemma committee_part_ids: "mset (printed_ids (committee_part committee)) = mset (node_ids committee)"
proof -
  let ?posts = "posts_of committee"
  let ?own = "filter (\<lambda>c. on_key c \<notin> set POST_KEYS) (on_children committee)"
  have "mset (concat (map (\<lambda>post. printed_ids (emitBranch (on_children post) (Some (on_name post)))) ?posts)) =
      mset (concat (map (\<lambda>post. forest_ids (on_children post)) ?posts))"
    by (rule mset_concat_map_cong) (rule emitBranch_ids)
  moreover have "mset (forest_ids (on_children committee)) = mset (forest_ids ?posts) + mset (forest_ids ?own)"
    using forest_ids_split [of "on_children committee" "\<lambda>c. on_key c \<in> set POST_KEYS"]
      forest_ids_perm [OF mset_posts_of [of committee]] by simp
  ultimately show ?thesis
    using mset_forest_ids [of ?posts]
    by (simp add: committee_part_def printed_ids_concat comp_def emitBranch_ids node_ids_children [of committee])
qed

section \<open>The whole sheet\<close>

text \<open>Among the children of the rosters, at most one is the committee.\<close>

definition one_committee :: "OrganigramNode list \<Rightarrow> bool" where
  "one_committee tree \<longleftrightarrow>
     length (filter (\<lambda>c. on_key c = COMMITTEE_KEY) (concat (map on_children (filter on_isRoster tree)))) \<le> 1"

lemma at_most_one:
  assumes "length (filter P xs) \<le> 1"
  shows "filter P xs = (case find P xs of None \<Rightarrow> [] | Some x \<Rightarrow> [x])"
proof (cases "find P xs")
  case None
  then have "filter P xs = []" by (simp add: find_None_iff filter_empty_conv)
  then show ?thesis using None by simp
next
  case (Some x)
  have "filter P xs \<noteq> [] \<Longrightarrow> hd (filter P xs) = x" using Some by (induction xs) (auto split: if_splits)
  moreover have "filter P xs \<noteq> []" using Some by (auto simp: find_Some_iff filter_empty_conv)
  moreover have "length (filter P xs) = 1" using assms calculation(2) by (cases "filter P xs") auto
  ultimately show ?thesis using Some by (cases "filter P xs") auto
qed

lemma filter_concat_map: "filter P (concat (map f xs)) = concat (map (\<lambda>x. filter P (f x)) xs)"
  by (induction xs) simp_all

lemma toLayout_ids:
  assumes "one_committee tree"
  shows "mset (printed_ids (toLayout tree)) = mset (forest_ids tree)"
proof -
  let ?rosters = "filter on_isRoster tree" and ?others = "filter (\<lambda>n. \<not> on_isRoster n) tree"
  let ?kids = "concat (map on_children ?rosters)"
  let ?committee = "case find (\<lambda>c. on_key c = COMMITTEE_KEY) ?kids of None \<Rightarrow> [] | Some c \<Rightarrow> committee_part c"
  have heads: "printed_ids (map (\<lambda>r. RosterBlock (on_id r) (on_name r) r) rs) = map on_id rs" for rs
    by (induction rs) simp_all
  have mid: "mset (printed_ids ?committee) = mset (forest_ids (filter (\<lambda>c. on_key c = COMMITTEE_KEY) ?kids))"
    using at_most_one [OF assms [unfolded one_committee_def]]
    by (cases "find (\<lambda>c. on_key c = COMMITTEE_KEY) ?kids") (simp_all add: committee_part_ids)
  have "mset (concat (map (\<lambda>r. printed_ids (emitBranch (filter (\<lambda>c. on_key c \<noteq> COMMITTEE_KEY) (on_children r)) (Some (branch_header r)))) ?rosters)) =
      mset (concat (map (\<lambda>r. forest_ids (filter (\<lambda>c. on_key c \<noteq> COMMITTEE_KEY) (on_children r))) ?rosters))"
    by (rule mset_concat_map_cong) (rule emitBranch_ids)
  also have "\<dots> = mset (forest_ids (filter (\<lambda>c. on_key c \<noteq> COMMITTEE_KEY) ?kids))"
    by (simp add: filter_concat_map forest_ids_concat comp_def)
  finally have rest: "mset (concat (map (\<lambda>r. printed_ids (emitBranch (filter (\<lambda>c. on_key c \<noteq> COMMITTEE_KEY) (on_children r)) (Some (branch_header r)))) ?rosters)) =
      mset (forest_ids (filter (\<lambda>c. on_key c \<noteq> COMMITTEE_KEY) ?kids))" .
  have kids: "mset (forest_ids (filter (\<lambda>c. on_key c = COMMITTEE_KEY) ?kids)) +
      mset (forest_ids (filter (\<lambda>c. on_key c \<noteq> COMMITTEE_KEY) ?kids)) = mset (concat (map (\<lambda>r. forest_ids (on_children r)) ?rosters))"
    using forest_ids_split [of ?kids "\<lambda>c. on_key c = COMMITTEE_KEY"] by (simp add: forest_ids_concat comp_def)
  have "mset (printed_ids (toLayout tree)) =
      mset (map on_id ?rosters) + mset (printed_ids ?committee) +
      mset (forest_ids (filter (\<lambda>c. on_key c \<noteq> COMMITTEE_KEY) ?kids)) + mset (forest_ids ?others)"
    unfolding toLayout_def Let_def printed_ids_simps heads printed_ids_concat map_map mset_append emitBranch_ids
    by (simp add: comp_def rest)
  also have "\<dots> = mset (forest_ids ?rosters) + mset (forest_ids ?others)"
    unfolding mid mset_forest_ids [of ?rosters] kids [symmetric] by simp
  also have "\<dots> = mset (forest_ids tree)" using forest_ids_split [of tree on_isRoster] by simp
  finally show ?thesis .
qed

section \<open>The grouping\<close>

definition grouped_ids :: "GroupedLayout \<Rightarrow> int list" where
  "grouped_ids g = printed_ids (gl_rosters g) @ (case gl_committee g of None \<Rightarrow> [] | Some b \<Rightarrow> printed b) @
     concat (map (\<lambda>(under, bands). printed_ids (map Band bands)) (gl_sections g)) @ printed_ids (gl_legacy g)"

fun is_committee :: "LayoutBlock \<Rightarrow> bool" where
  "is_committee (CommitteeBlock _ _ _) = True"
| "is_committee _ = False"

lemma add_band_ids:
  "mset (concat (map (\<lambda>(under, bands). printed_ids (map Band bands)) (add_band u b sections))) =
     mset (concat (map (\<lambda>(under, bands). printed_ids (map Band bands)) sections)) + mset (printed (Band b))"
proof (cases "sections \<noteq> [] \<and> fst (last sections) = u")
  case True
  then obtain ss bs where "sections = ss @ [(u, bs)]"
    by (metis append_butlast_last_id prod.collapse)
  then show ?thesis by (simp add: add_band_def)
next
  case False
  then have "add_band u b sections = sections @ [(u, [b])]" by (auto simp: add_band_def)
  then show ?thesis by simp
qed

lemma group_block_ids:
  assumes "is_committee b \<Longrightarrow> gl_committee g = None"
  shows "mset (grouped_ids (group_block g b)) = mset (grouped_ids g) + mset (printed b)"
proof (cases b)
  case (Band x)
  then show ?thesis by (cases "bb_under x") (simp_all add: group_block_def grouped_ids_def add_band_ids)
qed (use assms in \<open>simp_all add: group_block_def grouped_ids_def\<close>)

lemma group_block_committee: "\<not> is_committee b \<Longrightarrow> gl_committee (group_block g b) = gl_committee g"
  by (cases b) (auto simp: group_block_def split: option.splits)

lemma foldl_group_block_ids:
  assumes "length (filter is_committee bs) \<le> (if gl_committee g = None then 1 else 0)"
  shows "mset (grouped_ids (foldl group_block g bs)) = mset (grouped_ids g) + mset (printed_ids bs)"
  using assms
proof (induction bs arbitrary: g)
  case Nil
  show ?case by simp
next
  case (Cons b bs)
  have "length (filter is_committee bs) \<le> (if gl_committee (group_block g b) = None then 1 else 0)"
    using Cons.prems group_block_committee [of b g] by (auto split: if_splits)
  moreover have "is_committee b \<Longrightarrow> gl_committee g = None" using Cons.prems by (auto split: if_splits)
  ultimately show ?case by (simp add: Cons.IH group_block_ids)
qed

lemma walkContainer_bands: "b \<in> set (walkContainer n u) \<Longrightarrow> \<not> is_committee b"
  by (induction n u rule: walkContainer.induct)
    (subst (asm) walkContainer.simps, auto simp: band_def split: if_splits)

lemma emitBranch_bands: "b \<in> set (emitBranch ns u) \<Longrightarrow> \<not> is_committee b"
  by (auto simp: emitBranch_def Let_def band_def walkContainer_bands split: if_splits option.splits)

lemma no_committee: "\<forall>b \<in> set bs. \<not> is_committee b \<Longrightarrow> filter is_committee bs = []"
  by (simp add: filter_empty_conv)

lemma toLayout_one_committee: "length (filter is_committee (toLayout tree)) \<le> 1"
proof -
  have e: "filter is_committee (emitBranch ns u) = []" for ns u
    by (rule no_committee) (use emitBranch_bands in blast)
  have c: "filter is_committee (concat (map (\<lambda>x. emitBranch (f x) (u x)) xs)) = []" for f u and xs :: "'b list"
    by (induction xs) (simp_all add: e)
  have r: "filter is_committee (map (\<lambda>r. RosterBlock (on_id r) (on_name r) r) rs) = []" for rs by (induction rs) simp_all
  show ?thesis
    by (simp add: toLayout_def Let_def committee_part_def r c e split: option.split)
qed

lemma groupLayout_ids: "mset (grouped_ids (groupLayout (toLayout tree))) = mset (printed_ids (toLayout tree))"
proof -
  let ?g = "\<lparr>gl_rosters = [], gl_committee = None, gl_sections = [], gl_legacy = []\<rparr> :: GroupedLayout"
  have "grouped_ids ?g = []" by (simp add: grouped_ids_def)
  then show ?thesis
    using foldl_group_block_ids [of "toLayout tree" ?g] toLayout_one_committee [of tree] by (simp add: groupLayout_def)
qed

section \<open>The sheet of a congregation\<close>

lemma children_ids_below: "mset (map on_id (concat (map on_children ns))) \<subseteq># mset (forest_ids ns)"
proof (induction ns)
  case (Cons n ns)
  have "mset (map on_id (on_children n)) \<subseteq># mset (forest_ids (on_children n))"
    unfolding mset_forest_ids by simp
  then have "mset (map on_id (on_children n)) \<subseteq># mset (node_ids n)"
    unfolding node_ids_children by (simp add: subset_mset.le_iff_add) (metis add_mset_add_single union_assoc)
  then show ?case using Cons by (simp add: subset_mset.add_mono)
qed simp

lemma distinct_submset: "mset xs \<subseteq># mset ys \<Longrightarrow> distinct ys \<Longrightarrow> distinct xs"
proof -
  assume sub: "mset xs \<subseteq># mset ys" and "distinct ys"
  then have "count (mset xs) a \<le> 1" for a
    using mset_subset_eq_count [OF sub, of a] distinct_count_atmost_1 [of ys] by (metis le_trans le_numeral_extra(4) zero_le_one)
  then show "distinct xs"
    by (simp add: distinct_count_atmost_1) (metis One_nat_def count_eq_zero_iff le_Suc_eq le_zero_eq set_mset_mset)
qed

lemma getOrganigram_one_committee:
  assumes ok: "chart_ok db c"
    and keys: "\<And>r s. r \<in> set (roles db) \<Longrightarrow> s \<in> set (roles db) \<Longrightarrow> role_congregationId r = c \<Longrightarrow>
      role_congregationId s = c \<Longrightarrow> role_key r = role_key s \<Longrightarrow> r = s"
  shows "one_committee (getOrganigram loc db c)"
proof -
  let ?tree = "getOrganigram loc db c"
  let ?kids = "concat (map on_children (filter on_isRoster ?tree))"
  let ?cs = "filter (\<lambda>n. on_key n = COMMITTEE_KEY) ?kids"
  have "mset (map on_id ?kids) \<subseteq># mset (forest_ids (filter on_isRoster ?tree))" by (rule children_ids_below)
  moreover have "mset (forest_ids (filter on_isRoster ?tree)) \<subseteq># mset (forest_ids ?tree)"
    unfolding forest_ids_split [of ?tree on_isRoster] by simp
  ultimately have "distinct (map on_id ?kids)"
    using distinct_submset organigram_distinct [OF ok] by (metis subset_mset.order_trans)
  then have d: "distinct (map on_id ?cs)" by (rule distinct_map_filter)
  have same: "on_id m = on_id n" if mn: "m \<in> set ?cs" "n \<in> set ?cs" for m n
  proof -
    have node: "\<exists>r \<in> set (roles db). role_congregationId r = c \<and> on_id x = role_id r \<and> on_key x = role_key r"
      if x: "x \<in> set ?cs" for x
    proof -
      obtain y where y: "y \<in> set ?tree" "x \<in> set (on_children y)" using x by auto
      have "y \<in> set (nodes y)" by (cases y) simp
      then have "y \<in> set (forest_nodes ?tree)" using y(1) unfolding forest_nodes_def by auto
      then have "x \<in> set (forest_nodes ?tree)" using y(2) by (rule child_in_forest)
      then show ?thesis using organigram_nodes [OF ok] unfolding in_chart_def by blast
    qed
    obtain r s where "r \<in> set (roles db)" "role_congregationId r = c" "on_id m = role_id r" "on_key m = role_key r"
      "s \<in> set (roles db)" "role_congregationId s = c" "on_id n = role_id s" "on_key n = role_key s"
      using node [OF mn(1)] node [OF mn(2)] by blast
    moreover have "on_key m = on_key n" using mn by simp
    ultimately show ?thesis using keys [of r s] by simp
  qed
  have "length ?cs \<le> 1"
  proof (rule ccontr)
    assume "\<not> length ?cs \<le> 1"
    then have l: "0 < length ?cs" "1 < length ?cs" by auto
    have "on_id (?cs ! 0) = on_id (?cs ! 1)" by (rule same) (use l nth_mem in blast)+
    then show False using nth_eq_iff_index_eq [OF d, of 0 1] l by simp
  qed
  then show ?thesis by (simp add: one_committee_def)
qed

text \<open>
  The printed sheet of a congregation, as the screen and the document group it, names every
  role of its chart exactly once, when no two of its roles share a key.
\<close>

theorem sheet_names_each_role_once:
  assumes "chart_ok db c"
    and "\<forall>r \<in> set (roles db). \<forall>s \<in> set (roles db).
      role_congregationId r = c \<and> role_congregationId s = c \<and> role_key r = role_key s \<longrightarrow> r = s"
  shows "distinct (grouped_ids (groupLayout (toLayout (getOrganigram loc db c)))) \<and>
    set (grouped_ids (groupLayout (toLayout (getOrganigram loc db c)))) =
      role_id ` {r \<in> set (roles db). in_chart c r}"
proof -
  have "one_committee (getOrganigram loc db c)" by (rule getOrganigram_one_committee [OF assms(1)]) (use assms(2) in blast)
  then have *: "mset (grouped_ids (groupLayout (toLayout (getOrganigram loc db c)))) = mset (forest_ids (getOrganigram loc db c))"
    using toLayout_ids groupLayout_ids by simp
  then show ?thesis
    using mset_eq_setD [OF *] mset_eq_imp_distinct_iff [OF *] organigram_distinct [OF assms(1)]
      organigram_ids [OF assms(1)] by simp
qed

lemma sheet_names_each_role_once_witness:
  "\<forall>loc. distinct (grouped_ids (groupLayout (toLayout (getOrganigram loc sample_chart 1)))) \<and>
     set (grouped_ids (groupLayout (toLayout (getOrganigram loc sample_chart 1)))) = {1, 2, 3, 4}"
proof -
  have "\<forall>r \<in> set (roles sample_chart). \<forall>s \<in> set (roles sample_chart).
      role_congregationId r = 1 \<and> role_congregationId s = 1 \<and> role_key r = role_key s \<longrightarrow> r = s"
    by (simp add: sample_chart_defs)
  from sheet_names_each_role_once [OF sample_chart_ok this] show ?thesis
    unfolding sample_chart_ids by blast
qed

section \<open>People and the flat list\<close>

lemma unseen_subset: "set (unseen seen hs) \<subseteq> set hs"
  by (induction seen hs rule: unseen.induct) auto

lemma unseen_ids: "oh_memberId ` set (unseen seen hs) = oh_memberId ` set hs - seen"
  by (induction seen hs rule: unseen.induct) auto

lemma distinct_unseen: "distinct (map oh_memberId (unseen seen hs))"
  by (induction seen hs rule: unseen.induct) (simp_all add: unseen_ids)

text \<open>
  The line of a service names its leaders, then as adjoints its deputies and the leaders of
  what is beneath it: everyone of them once, and nobody who already leads it.
\<close>

theorem service_line_names_everyone_once:
  "map oh_memberId (fst (serviceParts n (Some rows))) =
     map oh_memberId (seats ''leader'' n) @ map oh_memberId (bandAdjoints n rows) \<and>
   distinct (map oh_memberId (bandAdjoints n rows)) \<and>
   oh_memberId ` set (bandAdjoints n rows) =
     oh_memberId ` (set (seats ''deputy'' n) \<union> (\<Union>row \<in> set rows. set (seats ''leader'' row))) -
     oh_memberId ` set (seats ''leader'' n)"
  by (simp add: serviceParts_def bandAdjoints_def comp_def distinct_unseen unseen_ids)

lemma flatten_node_nodes: "map fe_node (flatten_node depth parent n) = nodes n"
proof (induction depth parent n rule: flatten_node.induct)
  case (1 depth parent n)
  then have "map (map fe_node \<circ> flatten_node (Suc depth) (Some n)) (on_children n) = map nodes (on_children n)" by simp
  then have kids: "map fe_node (concat (map (flatten_node (Suc depth) (Some n)) (on_children n))) = concat (map nodes (on_children n))"
    unfolding map_concat map_map by (rule arg_cong)
  have "map fe_node (flatten_node depth parent n) = n # concat (map nodes (on_children n))"
    unfolding flatten_node.simps [of depth parent n] list.map kids by (simp add: flat_entry_def)
  then show ?case by (cases n) simp
qed

lemma flatten_node_entries:
  "e \<in> set (flatten_node depth parent n) \<Longrightarrow> fe_id e = on_id (fe_node e) \<and>
     ((fe_node e = n \<and> fe_parentId e = map_option on_id parent \<and> fe_parentName e = map_option on_name parent) \<or>
      (\<exists>m \<in> set (nodes n). fe_node e \<in> set (on_children m) \<and> fe_parentId e = Some (on_id m) \<and>
         fe_parentName e = Some (on_name m)))"
proof (induction depth parent n rule: flatten_node.induct)
  case (1 depth parent n)
  have self: "n \<in> set (nodes n)" by (cases n) simp
  have below: "m \<in> set (nodes n)" if "c \<in> set (on_children n)" "m \<in> set (nodes c)" for c m
    using that by (cases n) auto
  show ?case
  proof (cases "e = flat_entry depth parent n")
    case True
    then show ?thesis by (simp add: flat_entry_def)
  next
    case False
    then obtain c where c: "c \<in> set (on_children n)" "e \<in> set (flatten_node (Suc depth) (Some n) c)"
      using 1(2) unfolding flatten_node.simps [of depth parent n] by auto
    note ih = 1(1) [OF c]
    have "\<exists>m \<in> set (nodes n). fe_node e \<in> set (on_children m) \<and> fe_parentId e = Some (on_id m) \<and>
         fe_parentName e = Some (on_name m)"
      using conjunct2 [OF ih]
    proof
      assume "fe_node e = c \<and> fe_parentId e = map_option on_id (Some n) \<and> fe_parentName e = map_option on_name (Some n)"
      then show ?thesis using self c(1) by (intro bexI [of _ n]) simp_all
    next
      assume "\<exists>m \<in> set (nodes c). fe_node e \<in> set (on_children m) \<and> fe_parentId e = Some (on_id m) \<and>
         fe_parentName e = Some (on_name m)"
      then show ?thesis using below [OF c(1)] by blast
    qed
    then show ?thesis using conjunct1 [OF ih] by blast
  qed
qed

text \<open>
  The list of the "move under" select holds the nodes of the tree, each once and in reading
  order, and an entry's parent is the node that the entry stands under.
\<close>

theorem flat_list_is_the_tree:
  "map fe_node (flattenTree tree) = forest_nodes tree \<and> map fe_id (flattenTree tree) = forest_ids tree \<and>
   list_all (\<lambda>e. case fe_parentId e of
         None \<Rightarrow> fe_node e \<in> set tree
       | Some p \<Rightarrow> (\<exists>m \<in> set (forest_nodes tree). on_id m = p \<and> fe_parentName e = Some (on_name m) \<and>
                     fe_node e \<in> set (on_children m))) (flattenTree tree)"
proof -
  have nodes: "map fe_node (flattenTree tree) = forest_nodes tree"
    unfolding flattenTree_def forest_nodes_def map_concat map_map
    by (rule arg_cong [of _ _ concat]) (simp add: comp_def flatten_node_nodes)
  have entry: "fe_id e = on_id (fe_node e) \<and>
      (case fe_parentId e of
         None \<Rightarrow> fe_node e \<in> set tree
       | Some p \<Rightarrow> (\<exists>m \<in> set (forest_nodes tree). on_id m = p \<and> fe_parentName e = Some (on_name m) \<and>
                     fe_node e \<in> set (on_children m)))" if e: "e \<in> set (flattenTree tree)" for e
  proof -
    obtain n where n: "n \<in> set tree" "e \<in> set (flatten_node 0 None n)" using e by (auto simp: flattenTree_def)
    have "m \<in> set (forest_nodes tree)" if "m \<in> set (nodes n)" for m using n(1) that by (auto simp: forest_nodes_def)
    then have up: "fe_parentId e = Some p \<Longrightarrow> fe_node e \<in> set (on_children m) \<Longrightarrow> m \<in> set (nodes n) \<Longrightarrow> m \<in> set (forest_nodes tree)" for m p
      by blast
    note ent = flatten_node_entries [OF n(2)]
    show ?thesis
    proof (cases "fe_parentId e")
      case None
      then show ?thesis using ent n(1) by auto
    next
      case (Some p)
      then obtain m where "m \<in> set (nodes n)" "fe_node e \<in> set (on_children m)" "p = on_id m" "fe_parentName e = Some (on_name m)"
        using ent by auto
      then show ?thesis using ent Some up [OF Some] by auto
    qed
  qed
  have "map fe_id (flattenTree tree) = map on_id (map fe_node (flattenTree tree))" using entry by simp
  then have "map fe_id (flattenTree tree) = forest_ids tree" unfolding nodes forest_ids_nodes .
  moreover have "list_all (\<lambda>e. case fe_parentId e of
         None \<Rightarrow> fe_node e \<in> set tree
       | Some p \<Rightarrow> (\<exists>m \<in> set (forest_nodes tree). on_id m = p \<and> fe_parentName e = Some (on_name m) \<and>
                     fe_node e \<in> set (on_children m))) (flattenTree tree)"
    unfolding list_all_iff using entry by blast
  ultimately show ?thesis using nodes by blast
qed

end
