(* ===== verification/Pioneer_Stints.thy ===== *)
theory Pioneer_Stints
  imports Pioneer_Enrolment
begin

text \<open>
  The aggregate of pioneer enrolments
  (\<^verbatim>\<open>features/publishers/server/pioneer-enrolment.aggregate.ts\<close>): the stints of a member never
  share a month, and their ends are set or unset together.
\<close>

section \<open>Guards\<close>

record MonthRange =
  rg_startMonth :: int
  rg_startYear :: int
  rg_endMonth :: "int option"
  rg_endYear :: "int option"

text \<open>An unset end is infinitely late; \<open>None\<close> stands for it.\<close>

definition range_end :: "MonthRange \<Rightarrow> int option" where
  "range_end r =
     (case rg_endMonth r of
        Some m \<Rightarrow> (case rg_endYear r of Some y \<Rightarrow> Some (absMonth m y) | None \<Rightarrow> None)
      | None \<Rightarrow> None)"

definition starts_by :: "MonthRange \<Rightarrow> int option \<Rightarrow> bool" where
  "starts_by r limit =
     (case limit of Some l \<Rightarrow> absMonth (rg_startMonth r) (rg_startYear r) \<le> l | None \<Rightarrow> True)"

definition enrolmentsOverlap :: "MonthRange \<Rightarrow> MonthRange \<Rightarrow> bool" where
  "enrolmentsOverlap a b \<longleftrightarrow> starts_by a (range_end b) \<and> starts_by b (range_end a)"

definition endBoundsArePaired :: "int option \<Rightarrow> int option \<Rightarrow> bool" where
  "endBoundsArePaired endMonth endYear \<longleftrightarrow> (endMonth = None) = (endYear = None)"

definition assertEndBoundsPaired :: "int option \<Rightarrow> int option \<Rightarrow> app_error option" where
  "assertEndBoundsPaired endMonth endYear =
     (if \<not> endBoundsArePaired endMonth endYear then Some (ConflictError ''pioneer_enrolment_end_bounds_unpaired'') else None)"

definition stint_range :: "pioneer_enrolment \<Rightarrow> MonthRange" where
  "stint_range e = \<lparr>rg_startMonth = pe_startMonth e, rg_startYear = pe_startYear e,
     rg_endMonth = pe_endMonth e, rg_endYear = pe_endYear e\<rparr>"

definition assertNoOverlap :: "db \<Rightarrow> int \<Rightarrow> int \<Rightarrow> MonthRange \<Rightarrow> int option \<Rightarrow> app_error option" where
  "assertNoOverlap db memberId congregationId candidate excludeId =
     (if \<exists>s \<in> set (pioneerEnrolments db). pe_memberId s = memberId \<and> pe_congregationId s = congregationId \<and>
           excludeId \<noteq> Some (pe_id s) \<and> enrolmentsOverlap candidate (stint_range s)
      then Some (ConflictError ''pioneer_enrolment_overlap'') else None)"

section \<open>Operations\<close>

definition is_stint :: "int \<Rightarrow> int \<Rightarrow> pioneer_enrolment \<Rightarrow> bool" where
  "is_stint i congregationId e \<longleftrightarrow> pe_id e = i \<and> pe_congregationId e = congregationId"

definition update_stint :: "int \<Rightarrow> int \<Rightarrow> (pioneer_enrolment \<Rightarrow> pioneer_enrolment) \<Rightarrow> db \<Rightarrow> (db, pioneer_enrolment) outcome" where
  "update_stint i congregationId f db =
     (case find (is_stint i congregationId) (pioneerEnrolments db) of
        None \<Rightarrow> (Inl (DatabaseError RecordNotFound), db)
      | Some e \<Rightarrow> (Inr (f e), db\<lparr>pioneerEnrolments := update_where (is_stint i congregationId) f (pioneerEnrolments db)\<rparr>))"

definition stint_audit :: "string \<Rightarrow> int \<Rightarrow> int \<Rightarrow> int \<Rightarrow> (string \<times> json) list option \<Rightarrow> db \<Rightarrow> db" where
  "stint_audit action congregationId actorId i metadata =
     entity_audit action congregationId actorId ''PioneerEnrolment'' i metadata"

record OpenEnrolmentParams =
  oe_type :: PublisherType
  oe_startMonth :: int
  oe_startYear :: int
  oe_endMonth :: "int option"
  oe_endYear :: "int option"
  oe_monthlyGoal :: "int option"

definition type_name :: "PublisherType \<Rightarrow> string" where
  "type_name t =
     (case t of Normal \<Rightarrow> ''Normal'' | PionnierAuxiliaires \<Rightarrow> ''PionnierAuxiliaires''
      | PionnierPermanant \<Rightarrow> ''PionnierPermanant'' | PionnierSpecial \<Rightarrow> ''PionnierSpecial''
      | Missionnaire \<Rightarrow> ''Missionnaire'')"

definition open_range :: "OpenEnrolmentParams \<Rightarrow> MonthRange" where
  "open_range p = \<lparr>rg_startMonth = oe_startMonth p, rg_startYear = oe_startYear p,
     rg_endMonth = oe_endMonth p, rg_endYear = oe_endYear p\<rparr>"

definition new_stint :: "env \<Rightarrow> int \<Rightarrow> int \<Rightarrow> OpenEnrolmentParams \<Rightarrow> db \<Rightarrow> pioneer_enrolment" where
  "new_stint ev memberId congregationId p db =
     \<lparr>pe_id = env_enrolment_id ev (pioneerEnrolments db), pe_memberId = memberId, pe_type = oe_type p,
      pe_startMonth = oe_startMonth p, pe_startYear = oe_startYear p, pe_endMonth = oe_endMonth p,
      pe_endYear = oe_endYear p, pe_monthlyGoal = oe_monthlyGoal p, pe_congregationId = congregationId\<rparr>"

definition is_member :: "int \<Rightarrow> int \<Rightarrow> member \<Rightarrow> bool" where
  "is_member i congregationId m \<longleftrightarrow> mem_id m = i \<and> mem_congregationId m = congregationId"

definition openEnrolment ::
  "env \<Rightarrow> int \<Rightarrow> int \<Rightarrow> int \<Rightarrow> OpenEnrolmentParams \<Rightarrow> db \<Rightarrow> (db, pioneer_enrolment) outcome" where
  "openEnrolment ev memberId congregationId actorId params db =
     guard_by (orelse (assertEndBoundsPaired (oe_endMonth params) (oe_endYear params))
                      (assertNoOverlap db memberId congregationId (open_range params) None)) db
       (if find (is_member memberId congregationId) (members db) = None
        then (Inl (DatabaseError ForeignKeyViolation), db)
        else
          (let e = new_stint ev memberId congregationId params db
           in (Inr e, stint_audit ''pioneer_enrolment.created'' congregationId actorId (pe_id e)
                 (Some [(''memberId'', JNum memberId), (''type'', JStr (type_name (oe_type params)))])
                 (db\<lparr>pioneerEnrolments := pioneerEnrolments db @ [e]\<rparr>))))"

definition closeEnrolment :: "int \<Rightarrow> int \<Rightarrow> int \<Rightarrow> int \<Rightarrow> int \<Rightarrow> db \<Rightarrow> (db, pioneer_enrolment) outcome" where
  "closeEnrolment i congregationId actorId endMonth endYear db =
     (case find (is_stint i congregationId) (pioneerEnrolments db) of
        None \<Rightarrow> (Inl (NotFoundError ''PioneerEnrolment'' None), db)
      | Some existing \<Rightarrow>
          if absMonth endMonth endYear < absMonth (pe_startMonth existing) (pe_startYear existing)
          then (Inl (ConflictError ''pioneer_enrolment_end_before_start''), db)
          else chain (update_stint i congregationId
                        (\<lambda>e. e\<lparr>pe_endMonth := Some endMonth, pe_endYear := Some endYear\<rparr>) db)
                 (\<lambda>e db. (Inr e, stint_audit ''pioneer_enrolment.ended'' congregationId actorId i None db)))"

record UpdateEnrolmentParams =
  ue_type :: "PublisherType option"
  ue_startMonth :: int
  ue_startYear :: int
  ue_endMonth :: "int option"
  ue_endYear :: "int option"
  ue_monthlyGoal :: "int option"

definition update_range :: "UpdateEnrolmentParams \<Rightarrow> MonthRange" where
  "update_range p = \<lparr>rg_startMonth = ue_startMonth p, rg_startYear = ue_startYear p,
     rg_endMonth = ue_endMonth p, rg_endYear = ue_endYear p\<rparr>"

definition apply_stint_params :: "UpdateEnrolmentParams \<Rightarrow> pioneer_enrolment \<Rightarrow> pioneer_enrolment" where
  "apply_stint_params p e =
     e\<lparr>pe_type := (case ue_type p of Some t \<Rightarrow> t | None \<Rightarrow> pe_type e),
       pe_startMonth := ue_startMonth p, pe_startYear := ue_startYear p,
       pe_endMonth := ue_endMonth p, pe_endYear := ue_endYear p,
       pe_monthlyGoal := (case ue_monthlyGoal p of Some g \<Rightarrow> Some g | None \<Rightarrow> pe_monthlyGoal e)\<rparr>"

definition updateEnrolment ::
  "int \<Rightarrow> int \<Rightarrow> int \<Rightarrow> UpdateEnrolmentParams \<Rightarrow> db \<Rightarrow> (db, pioneer_enrolment) outcome" where
  "updateEnrolment i congregationId actorId params db =
     (case find (is_stint i congregationId) (pioneerEnrolments db) of
        None \<Rightarrow> (Inl (NotFoundError ''PioneerEnrolment'' None), db)
      | Some existing \<Rightarrow>
          guard_by (orelse (assertEndBoundsPaired (ue_endMonth params) (ue_endYear params))
                      (assertNoOverlap db (pe_memberId existing) congregationId (update_range params) (Some i))) db
            (chain (update_stint i congregationId (apply_stint_params params) db)
               (\<lambda>e db. (Inr e, stint_audit ''pioneer_enrolment.updated'' congregationId actorId i None db))))"

definition setEnrolmentGoal :: "int \<Rightarrow> int \<Rightarrow> int \<Rightarrow> int option \<Rightarrow> db \<Rightarrow> (db, pioneer_enrolment) outcome" where
  "setEnrolmentGoal i congregationId actorId monthlyGoal db =
     (case find (is_stint i congregationId) (pioneerEnrolments db) of
        None \<Rightarrow> (Inl (NotFoundError ''PioneerEnrolment'' None), db)
      | Some _ \<Rightarrow>
          chain (update_stint i congregationId (\<lambda>e. e\<lparr>pe_monthlyGoal := monthlyGoal\<rparr>) db)
            (\<lambda>e db. (Inr e, stint_audit ''pioneer_enrolment.updated'' congregationId actorId i
               (Some [(''monthlyGoal'', json_opt monthlyGoal)]) db)))"

definition deleteEnrolment :: "int \<Rightarrow> int \<Rightarrow> int \<Rightarrow> db \<Rightarrow> (db, pioneer_enrolment) outcome" where
  "deleteEnrolment i congregationId actorId db =
     (case find (is_stint i congregationId) (pioneerEnrolments db) of
        None \<Rightarrow> (Inl (DatabaseError RecordNotFound), db)
      | Some e \<Rightarrow>
          (Inr e, stint_audit ''pioneer_enrolment.deleted'' congregationId actorId i None
             (db\<lparr>pioneerEnrolments := delete_where (is_stint i congregationId) (pioneerEnrolments db)\<rparr>)))"

section \<open>The invariant\<close>

lemma enrolmentsOverlap_sym: "enrolmentsOverlap a b \<Longrightarrow> enrolmentsOverlap b a"
  by (simp add: enrolmentsOverlap_def)

definition stint_conflict :: "pioneer_enrolment \<Rightarrow> pioneer_enrolment \<Rightarrow> bool" where
  "stint_conflict e f \<longleftrightarrow> pe_memberId e = pe_memberId f \<and> pe_congregationId e = pe_congregationId f \<and>
     enrolmentsOverlap (stint_range e) (stint_range f)"

interpretation stint_table: exclusive_rows pe_id stint_conflict
  by unfold_locales (simp add: stint_conflict_def enrolmentsOverlap_sym)

definition stint_inv :: "db \<Rightarrow> bool" where
  "stint_inv db \<longleftrightarrow> exclusive pe_id stint_conflict (pioneerEnrolments db) \<and>
     (\<forall>e \<in> set (pioneerEnrolments db). endBoundsArePaired (pe_endMonth e) (pe_endYear e))"

text \<open>Two stints overlap exactly when some month is covered by both.\<close>

lemma coversMonth_stint:
  assumes "endBoundsArePaired (pe_endMonth e) (pe_endYear e)"
  shows "coversMonth (period_of e) m y \<longleftrightarrow>
     absMonth (pe_startMonth e) (pe_startYear e) \<le> absMonth m y \<and>
     (case range_end (stint_range e) of Some l \<Rightarrow> absMonth m y \<le> l | None \<Rightarrow> True)"
  using assms
  by (cases "pe_endMonth e"; cases "pe_endYear e")
    (auto simp: coversMonth_def period_of_def isOngoing_def range_end_def stint_range_def null_as_0_def
      endBoundsArePaired_def Let_def)

definition starts_before_end :: "pioneer_enrolment \<Rightarrow> bool" where
  "starts_before_end e \<longleftrightarrow> starts_by (stint_range e) (range_end (stint_range e))"

lemma overlap_shares_a_month:
  assumes "endBoundsArePaired (pe_endMonth e) (pe_endYear e)" and "endBoundsArePaired (pe_endMonth f) (pe_endYear f)"
    and "coversMonth (period_of e) m y" and "coversMonth (period_of f) m y"
  shows "enrolmentsOverlap (stint_range e) (stint_range f)"
proof -
  have "starts_by (stint_range e) (range_end (stint_range f))"
    if "coversMonth (period_of e) m y" "coversMonth (period_of f) m y"
      "endBoundsArePaired (pe_endMonth e) (pe_endYear e)" "endBoundsArePaired (pe_endMonth f) (pe_endYear f)" for e f
  proof -
    have "absMonth (pe_startMonth e) (pe_startYear e) \<le> absMonth m y"
      using that(1) unfolding coversMonth_stint [OF that(3)] by blast
    moreover have "case range_end (stint_range f) of Some l \<Rightarrow> absMonth m y \<le> l | None \<Rightarrow> True"
      using that(2) unfolding coversMonth_stint [OF that(4)] by blast
    ultimately show ?thesis
      by (cases "range_end (stint_range f)") (auto simp: starts_by_def stint_range_def)
  qed
  then show ?thesis using assms by (simp add: enrolmentsOverlap_def)
qed

section \<open>The operations keep it\<close>

lemma stint_audit_frame [simp]:
  "pioneerEnrolments (stint_audit a c u i m d) = pioneerEnrolments d" "members (stint_audit a c u i m d) = members d"
  "roles (stint_audit a c u i m d) = roles d" "memberRoleAssignments (stint_audit a c u i m d) = memberRoleAssignments d"
  by (simp_all add: stint_audit_def)

lemma stint_inv_cong: "pioneerEnrolments db' = pioneerEnrolments db \<Longrightarrow> stint_inv db' = stint_inv db"
  by (simp add: stint_inv_def)

lemma update_stint_Inr:
  assumes "update_stint i c f db = (Inr x, db')"
  obtains e where "find (is_stint i c) (pioneerEnrolments db) = Some e" and "x = f e"
    and "db' = db\<lparr>pioneerEnrolments := update_where (is_stint i c) f (pioneerEnrolments db)\<rparr>"
  using assms by (auto simp: update_stint_def split: option.splits)

text \<open>An update of one stint that keeps its owner, key and paired ends, and conflicts with no other.\<close>

lemma stint_inv_update:
  assumes inv: "stint_inv db" and found: "find (is_stint i c) (pioneerEnrolments db) = Some e"
    and key: "pe_id (f e) = pe_id e" and paired: "endBoundsArePaired (pe_endMonth (f e)) (pe_endYear (f e))"
    and sep: "\<And>s. s \<in> set (pioneerEnrolments db) \<Longrightarrow> pe_id s \<noteq> pe_id e \<Longrightarrow> \<not> stint_conflict (f e) s"
  shows "stint_inv (db\<lparr>pioneerEnrolments := update_where (is_stint i c) f (pioneerEnrolments db)\<rparr>)"
proof -
  have ok: "exclusive pe_id stint_conflict (pioneerEnrolments db)" using inv by (simp add: stint_inv_def)
  have e: "e \<in> set (pioneerEnrolments db)" "is_stint i c e" using find_Some_in [OF found] by simp_all
  have only: "r = e" if "r \<in> set (pioneerEnrolments db)" "is_stint i c r" for r
    using exclusive_unique [OF ok that(1) e(1)] that(2) e(2) by (simp add: is_stint_def)
  have "exclusive pe_id stint_conflict (update_where (is_stint i c) f (pioneerEnrolments db))"
    by (rule stint_table.replace [where f = f and p = "is_stint i c", OF ok e(1) only key sep])
  moreover have "endBoundsArePaired (pe_endMonth x) (pe_endYear x)"
    if x: "x \<in> set (update_where (is_stint i c) f (pioneerEnrolments db))" for x
  proof -
    obtain r where r: "r \<in> set (pioneerEnrolments db)" "x = (if is_stint i c r then f r else r)"
      using x unfolding set_update_where by blast
    show ?thesis
    proof (cases "is_stint i c r")
      case True
      then show ?thesis using r only paired by simp
    next
      case False
      then show ?thesis using r inv by (simp add: stint_inv_def)
    qed
  qed
  ultimately show ?thesis by (simp add: stint_inv_def)
qed

lemma starts_by_stint:
  "starts_by (stint_range e) l = (case l of Some l \<Rightarrow> absMonth (pe_startMonth e) (pe_startYear e) \<le> l | None \<Rightarrow> True)"
  by (cases l) (simp_all add: starts_by_def stint_range_def)

text \<open>A stint that covers fewer months conflicts with no more stints.\<close>

lemma shorter_no_conflict:
  assumes ok: "exclusive pe_id stint_conflict rows" and "e \<in> set rows" and "s \<in> set rows" and "pe_id s \<noteq> pe_id e"
    and same: "pe_memberId e' = pe_memberId e" "pe_congregationId e' = pe_congregationId e"
      "pe_startMonth e' = pe_startMonth e" "pe_startYear e' = pe_startYear e"
    and shorter: "range_end (stint_range e) = None \<or> range_end (stint_range e') = range_end (stint_range e) \<or>
       (\<exists>l l'. range_end (stint_range e) = Some l \<and> range_end (stint_range e') = Some l' \<and> l' \<le> l)"
  shows "\<not> stint_conflict e' s"
proof
  assume c: "stint_conflict e' s"
  have "starts_by (stint_range s) (range_end (stint_range e)) \<or> range_end (stint_range e') = None"
    using c shorter unfolding stint_conflict_def enrolmentsOverlap_def
    by (auto simp: starts_by_def split: option.splits)
  then have "starts_by (stint_range s) (range_end (stint_range e))"
    using c shorter unfolding stint_conflict_def enrolmentsOverlap_def by (auto simp: starts_by_def split: option.splits)
  moreover have "starts_by (stint_range e) (range_end (stint_range s))"
    using c unfolding stint_conflict_def enrolmentsOverlap_def starts_by_stint same by simp
  ultimately have "stint_conflict e s"
    using c same unfolding stint_conflict_def enrolmentsOverlap_def by simp
  then show False using assms(1-4) unfolding exclusive_def by metis
qed

lemma openEnrolment_Inr:
  assumes "openEnrolment ev memberId c a p db = (Inr e, db')"
  shows "e = new_stint ev memberId c p db" and "endBoundsArePaired (oe_endMonth p) (oe_endYear p)"
    and "assertNoOverlap db memberId c (open_range p) None = None"
    and "find (is_member memberId c) (members db) \<noteq> None"
    and "pioneerEnrolments db' = pioneerEnrolments db @ [e]"
    and "members db' = members db" and "roles db' = roles db" and "memberRoleAssignments db' = memberRoleAssignments db"
  using assms
  by (auto simp: openEnrolment_def Let_def assertEndBoundsPaired_def elim!: guard_by_InrE split: if_splits)

lemma openEnrolment_Inl: "openEnrolment ev memberId c a p db = (Inl e, db') \<Longrightarrow> db' = db"
  by (auto simp: openEnrolment_def Let_def elim!: guard_by_InlE split: if_splits)

lemma assertNoOverlap_None:
  assumes "assertNoOverlap db memberId c candidate ex = None" and "s \<in> set (pioneerEnrolments db)"
    and "pe_memberId s = memberId" and "pe_congregationId s = c" and "ex \<noteq> Some (pe_id s)"
  shows "\<not> enrolmentsOverlap candidate (stint_range s)"
  using assms by (auto simp: assertNoOverlap_def split: if_splits)

lemma stint_inv_open:
  assumes "fresh_keys ev" and inv: "stint_inv db"
  shows "stint_inv (snd (openEnrolment ev memberId c a p db))"
proof (cases "openEnrolment ev memberId c a p db")
  case (Pair r db')
  show ?thesis
  proof (cases r)
    case (Inl e)
    then show ?thesis using openEnrolment_Inl [OF Pair [unfolded Inl]] Pair inv by simp
  next
    case (Inr e)
    note run = openEnrolment_Inr [OF Pair [unfolded Inr]]
    have range: "stint_range e = open_range p" unfolding run(1) by (simp add: stint_range_def open_range_def new_stint_def)
    have "exclusive pe_id stint_conflict (pioneerEnrolments db @ [e])"
    proof (rule stint_table.snoc)
      show "exclusive pe_id stint_conflict (pioneerEnrolments db)" using inv by (simp add: stint_inv_def)
      show "pe_id e \<notin> pe_id ` set (pioneerEnrolments db)"
        using assms(1) unfolding run(1) by (simp add: new_stint_def fresh_keys_def)
      fix s assume s: "s \<in> set (pioneerEnrolments db)"
      show "\<not> stint_conflict e s"
        using assertNoOverlap_None [OF run(3) s] run(1) unfolding stint_conflict_def range
        by (auto simp: new_stint_def)
    qed
    moreover have "endBoundsArePaired (pe_endMonth e) (pe_endYear e)" using run(2) unfolding run(1) by (simp add: new_stint_def)
    ultimately show ?thesis using inv Pair run(5) by (simp add: stint_inv_def)
  qed
qed

lemma closeEnrolment_Inr:
  assumes "closeEnrolment i c a m y db = (Inr x, db')"
  obtains e where "find (is_stint i c) (pioneerEnrolments db) = Some e"
    and "absMonth (pe_startMonth e) (pe_startYear e) \<le> absMonth m y"
    and "x = e\<lparr>pe_endMonth := Some m, pe_endYear := Some y\<rparr>"
    and "pioneerEnrolments db' = update_where (is_stint i c) (\<lambda>e. e\<lparr>pe_endMonth := Some m, pe_endYear := Some y\<rparr>) (pioneerEnrolments db)"
    and "members db' = members db" and "roles db' = roles db" and "memberRoleAssignments db' = memberRoleAssignments db"
proof -
  obtain e where e: "find (is_stint i c) (pioneerEnrolments db) = Some e"
    using assms by (auto simp: closeEnrolment_def split: option.splits)
  show ?thesis
    using assms that [OF e] by (auto simp: closeEnrolment_def e update_stint_def split: if_splits)
qed

lemma closeEnrolment_Inl: "closeEnrolment i c a m y db = (Inl e, db') \<Longrightarrow> db' = db"
  by (auto simp: closeEnrolment_def update_stint_def split: option.splits if_splits)

text \<open>Closing keeps the invariant when the stint was ongoing, or ended no earlier.\<close>

lemma stint_inv_close:
  assumes inv: "stint_inv db"
    and shorter: "\<And>e l. find (is_stint i c) (pioneerEnrolments db) = Some e \<Longrightarrow>
       range_end (stint_range e) = Some l \<Longrightarrow> absMonth m y \<le> l"
  shows "stint_inv (snd (closeEnrolment i c a m y db))"
proof (cases "closeEnrolment i c a m y db")
  case (Pair r db')
  show ?thesis
  proof (cases r)
    case (Inl e)
    then show ?thesis using closeEnrolment_Inl [OF Pair [unfolded Inl]] Pair inv by simp
  next
    case (Inr x)
    let ?f = "\<lambda>e. e\<lparr>pe_endMonth := Some m, pe_endYear := Some y\<rparr>"
    obtain e where e: "find (is_stint i c) (pioneerEnrolments db) = Some e"
      and rows: "pioneerEnrolments db' = update_where (is_stint i c) ?f (pioneerEnrolments db)"
      using Pair [unfolded Inr] by (rule closeEnrolment_Inr)
    have ok: "exclusive pe_id stint_conflict (pioneerEnrolments db)" using inv by (simp add: stint_inv_def)
    have e_in: "e \<in> set (pioneerEnrolments db)" using find_Some_in [OF e] by simp
    have fin: "range_end (stint_range (?f e)) = Some (absMonth m y)" by (simp add: range_end_def stint_range_def)
    have "range_end (stint_range e) = None \<or> (\<exists>l l'. range_end (stint_range e) = Some l \<and>
        range_end (stint_range (?f e)) = Some l' \<and> l' \<le> l)"
      using shorter [OF e] fin by (cases "range_end (stint_range e)") auto
    then have "\<not> stint_conflict (?f e) s" if "s \<in> set (pioneerEnrolments db)" "pe_id s \<noteq> pe_id e" for s
      by (intro shorter_no_conflict [OF ok e_in that]) auto
    then have "stint_inv (db\<lparr>pioneerEnrolments := update_where (is_stint i c) ?f (pioneerEnrolments db)\<rparr>)"
      by (intro stint_inv_update [OF inv e]) (simp_all add: endBoundsArePaired_def)
    then show ?thesis using Pair rows by (simp add: stint_inv_def)
  qed
qed

lemma stint_inv_update_op:
  assumes inv: "stint_inv db"
  shows "stint_inv (snd (updateEnrolment i c a p db))"
proof (cases "find (is_stint i c) (pioneerEnrolments db)")
  case None
  then show ?thesis using inv by (simp add: updateEnrolment_def)
next
  case (Some e)
  let ?f = "apply_stint_params p"
  show ?thesis
  proof (cases "orelse (assertEndBoundsPaired (ue_endMonth p) (ue_endYear p))
      (assertNoOverlap db (pe_memberId e) c (update_range p) (Some i))")
    case (Some err)
    then show ?thesis using inv \<open>find _ _ = Some e\<close> by (simp add: updateEnrolment_def)
  next
    case None
    note found = \<open>find (is_stint i c) (pioneerEnrolments db) = Some e\<close>
    have e: "e \<in> set (pioneerEnrolments db)" "pe_id e = i" "pe_congregationId e = c"
      using find_Some_in [OF found] by (simp_all add: is_stint_def)
    have same: "pe_id (?f e) = pe_id e" "pe_memberId (?f e) = pe_memberId e" "pe_congregationId (?f e) = pe_congregationId e"
      "stint_range (?f e) = update_range p" "pe_endMonth (?f e) = ue_endMonth p" "pe_endYear (?f e) = ue_endYear p"
      by (simp_all add: apply_stint_params_def stint_range_def update_range_def)
    have free: "assertNoOverlap db (pe_memberId e) c (update_range p) (Some i) = None"
      and paired: "endBoundsArePaired (ue_endMonth p) (ue_endYear p)"
      using None by (simp_all add: assertEndBoundsPaired_def split: if_splits)
    have "\<not> stint_conflict (?f e) s" if s: "s \<in> set (pioneerEnrolments db)" "pe_id s \<noteq> pe_id e" for s
      using assertNoOverlap_None [OF free s(1)] s(2) e(2,3) unfolding stint_conflict_def same by auto
    then have "stint_inv (db\<lparr>pioneerEnrolments := update_where (is_stint i c) ?f (pioneerEnrolments db)\<rparr>)"
      by (intro stint_inv_update [OF inv found]) (simp_all add: same paired)
    then show ?thesis
      using None found by (simp add: updateEnrolment_def update_stint_def stint_inv_def)
  qed
qed

lemma stint_inv_goal:
  assumes inv: "stint_inv db"
  shows "stint_inv (snd (setEnrolmentGoal i c a g db))"
proof (cases "find (is_stint i c) (pioneerEnrolments db)")
  case None
  then show ?thesis using inv by (simp add: setEnrolmentGoal_def)
next
  case (Some e)
  let ?f = "\<lambda>e. e\<lparr>pe_monthlyGoal := g\<rparr>"
  have ok: "exclusive pe_id stint_conflict (pioneerEnrolments db)" using inv by (simp add: stint_inv_def)
  have e: "e \<in> set (pioneerEnrolments db)" using find_Some_in [OF Some] by simp
  have "stint_range (?f e) = stint_range e" by (simp add: stint_range_def)
  then have "\<not> stint_conflict (?f e) s" if "s \<in> set (pioneerEnrolments db)" "pe_id s \<noteq> pe_id e" for s
    by (intro shorter_no_conflict [OF ok e that]) auto
  moreover have "endBoundsArePaired (pe_endMonth (?f e)) (pe_endYear (?f e))" using inv e by (simp add: stint_inv_def)
  ultimately have "stint_inv (db\<lparr>pioneerEnrolments := update_where (is_stint i c) ?f (pioneerEnrolments db)\<rparr>)"
    by (intro stint_inv_update [OF inv Some]) simp_all
  then show ?thesis using Some by (simp add: setEnrolmentGoal_def update_stint_def stint_inv_def)
qed

lemma stint_inv_delete:
  assumes "stint_inv db"
  shows "stint_inv (snd (deleteEnrolment i c a db))"
  using assms
  by (auto simp: deleteEnrolment_def stint_inv_def stint_table.delete split: option.split)

section \<open>Runs\<close>

inductive stint_step :: "env \<Rightarrow> db \<Rightarrow> db \<Rightarrow> bool" for ev where
  stint_opened: "stint_step ev db (snd (openEnrolment ev memberId c a p db))"
| stint_closed: "(\<And>e l. find (is_stint i c) (pioneerEnrolments db) = Some e \<Longrightarrow>
       range_end (stint_range e) = Some l \<Longrightarrow> absMonth m y \<le> l) \<Longrightarrow>
     stint_step ev db (snd (closeEnrolment i c a m y db))"
| stint_edited: "stint_step ev db (snd (updateEnrolment i c a u db))"
| goal_set: "stint_step ev db (snd (setEnrolmentGoal i c a g db))"
| stint_deleted: "stint_step ev db (snd (deleteEnrolment i c a db))"

lemma stint_step_inv:
  assumes "stint_step ev db db'" and "fresh_keys ev" and "stint_inv db"
  shows "stint_inv db'"
  using assms(1)
proof cases
  case stint_opened
  then show ?thesis using stint_inv_open [OF assms(2,3)] by simp
next
  case stint_closed
  then show ?thesis using stint_inv_close [OF assms(3)] by blast
next
  case stint_edited
  then show ?thesis using stint_inv_update_op [OF assms(3)] by simp
next
  case goal_set
  then show ?thesis using stint_inv_goal [OF assms(3)] by simp
next
  case stint_deleted
  then show ?thesis using stint_inv_delete [OF assms(3)] by simp
qed

text \<open>
  C28. However stints are opened, edited, given a goal, deleted, or closed (an ongoing one, or
  one that ended no earlier), no month is covered by two stints of a member.
\<close>

theorem stints_never_share_a_month:
  assumes "(stint_step ev)\<^sup>*\<^sup>* db db'" and "fresh_keys ev" and "stint_inv db"
    and "e \<in> set (pioneerEnrolments db')" and "f \<in> set (pioneerEnrolments db')" and "e \<noteq> f"
    and "pe_memberId e = pe_memberId f" and "pe_congregationId e = pe_congregationId f"
  shows "stint_inv db' \<and> \<not> (coversMonth (period_of e) month year \<and> coversMonth (period_of f) month year)"
proof -
  have inv: "stint_inv db'"
    using assms(1) by (induction rule: rtranclp_induct) (auto intro: stint_step_inv assms(2,3))
  then have ok: "exclusive pe_id stint_conflict (pioneerEnrolments db')"
    and paired: "endBoundsArePaired (pe_endMonth e) (pe_endYear e)" "endBoundsArePaired (pe_endMonth f) (pe_endYear f)"
    using assms(4,5) by (simp_all add: stint_inv_def)
  have "pe_id e \<noteq> pe_id f" using exclusive_unique [OF ok assms(4,5)] assms(6) by blast
  then have "\<not> stint_conflict e f" using ok assms(4,5) unfolding exclusive_def by blast
  then have "\<not> enrolmentsOverlap (stint_range e) (stint_range f)" using assms(7,8) by (simp add: stint_conflict_def)
  then show ?thesis using overlap_shares_a_month [OF paired] inv by blast
qed

definition sample_stint :: "int \<Rightarrow> int \<Rightarrow> int option \<Rightarrow> pioneer_enrolment" where
  "sample_stint i startMonth endMonth =
     \<lparr>pe_id = i, pe_memberId = 1, pe_type = PionnierAuxiliaires, pe_startMonth = startMonth, pe_startYear = 2025,
      pe_endMonth = endMonth, pe_endYear = map_option (\<lambda>_. 2025) endMonth, pe_monthlyGoal = None, pe_congregationId = 1\<rparr>"

text \<open>A stint of January, and one that goes on since March.\<close>

definition sample_stints :: db where
  "sample_stints = empty_db\<lparr>members := [sample_member 1],
     pioneerEnrolments := [sample_stint 1 0 (Some 0), sample_stint 2 2 None]\<rparr>"

lemmas stint_eval = sample_stints_def sample_stint_def empty_db_def sample_member_def stint_inv_def exclusive_def
  stint_conflict_def enrolmentsOverlap_def starts_by_def range_end_def stint_range_def absMonth_def
  MONTHS_IN_YEAR_def endBoundsArePaired_def is_stint_def closeEnrolment_def update_stint_def

lemma sample_stints_inv: "stint_inv sample_stints"
  by (simp add: stint_eval)

lemma stints_never_share_a_month_witness:
  "pioneerEnrolments (snd (deleteEnrolment 3 1 9 sample_stints)) = [sample_stint 1 0 (Some 0), sample_stint 2 2 None] \<and>
   stint_inv (snd (deleteEnrolment 3 1 9 sample_stints)) \<and>
   \<not> (coversMonth (period_of (sample_stint 1 0 (Some 0))) 2 2025 \<and> coversMonth (period_of (sample_stint 2 2 None)) 2 2025)"
proof -
  have rows: "pioneerEnrolments (snd (deleteEnrolment 3 1 9 sample_stints)) = [sample_stint 1 0 (Some 0), sample_stint 2 2 None]"
    by (simp add: deleteEnrolment_def stint_eval)
  have run: "(stint_step utc_env)\<^sup>*\<^sup>* sample_stints (snd (deleteEnrolment 3 1 9 sample_stints))"
    by (rule r_into_rtranclp, rule stint_step.stint_deleted)
  have two: "sample_stint 1 0 (Some 0) \<noteq> sample_stint 2 2 None" by (simp add: sample_stint_def)
  have same: "pe_memberId (sample_stint 1 0 (Some 0)) = pe_memberId (sample_stint 2 2 None)"
    "pe_congregationId (sample_stint 1 0 (Some 0)) = pe_congregationId (sample_stint 2 2 None)"
    by (simp_all add: sample_stint_def)
  have mem: "sample_stint 1 0 (Some 0) \<in> set (pioneerEnrolments (snd (deleteEnrolment 3 1 9 sample_stints)))"
    "sample_stint 2 2 None \<in> set (pioneerEnrolments (snd (deleteEnrolment 3 1 9 sample_stints)))"
    unfolding rows by simp_all
  show ?thesis
    using stints_never_share_a_month [OF run fresh_utc_env sample_stints_inv mem two same, of 2 2025] rows by blast
qed

text \<open>
  Closing again a stint that has ended, at a later month, is not checked for overlap: it
  stretches the stint over the next one, and both cover the same month.
\<close>

theorem closing_again_can_overlap:
  "stint_inv sample_stints \<and>
   (\<exists>e db'. closeEnrolment 1 1 9 4 2025 sample_stints = (Inr e, db') \<and> \<not> stint_inv db' \<and>
      list_all (\<lambda>s. coversMonth (period_of s) 2 2025) (pioneerEnrolments db') \<and>
      map pe_memberId (pioneerEnrolments db') = [1, 1])"
proof
  show "stint_inv sample_stints" by (rule sample_stints_inv)
  have run: "\<exists>e db'. closeEnrolment 1 1 9 4 2025 sample_stints = (Inr e, db') \<and>
      pioneerEnrolments db' = [sample_stint 1 0 (Some 4), sample_stint 2 2 None]"
    by (simp add: stint_eval)
  have bad: "\<not> stint_inv db'" if "pioneerEnrolments db' = [sample_stint 1 0 (Some 4), sample_stint 2 2 None]" for db'
    unfolding stint_inv_def that by (simp add: stint_eval)
  have "list_all (\<lambda>s. coversMonth (period_of s) 2 2025) [sample_stint 1 0 (Some 4), sample_stint 2 2 None]"
    by (simp add: coversMonth_def period_of_def isOngoing_def null_as_0_def absMonth_def MONTHS_IN_YEAR_def sample_stint_def)
  moreover have "map pe_memberId [sample_stint 1 0 (Some 4), sample_stint 2 2 None] = [1, 1]" by (simp add: sample_stint_def)
  ultimately show "\<exists>e db'. closeEnrolment 1 1 9 4 2025 sample_stints = (Inr e, db') \<and> \<not> stint_inv db' \<and>
      list_all (\<lambda>s. coversMonth (period_of s) 2 2025) (pioneerEnrolments db') \<and>
      map pe_memberId (pioneerEnrolments db') = [1, 1]"
    using run bad by (elim exE conjE, intro exI conjI) auto
qed

end
