(* ===== verification/Built_In_Roles.thy ===== *)
theory Built_In_Roles
  imports Pioneer_Stints Role_Keys
begin

text \<open>
  The roles derived from the flags of a member
  (\<^verbatim>\<open>shared/domain/built-in-roles.server.ts\<close>): the predicate of each key, the difference with the
  stored assignments, and the sync that writes it.
\<close>

section \<open>Predicates\<close>

record MemberFlags =
  mf_isMale :: "bool option"
  mf_isPublisher :: bool
  mf_standingType :: PublisherType
  mf_baptismDate :: "int option"
  mf_isAnointed :: bool
  mf_isHelder :: bool
  mf_isServant :: bool
  mf_leftAt :: "int option"

text \<open>A key outside the table has no predicate.\<close>

definition BUILT_IN_ROLE_PREDICATES :: "(string \<times> (MemberFlags \<Rightarrow> bool)) list" where
  "BUILT_IN_ROLE_PREDICATES =
     [(''member'', \<lambda>m. mf_leftAt m = None),
      (''ministry-school-student'', \<lambda>m. mf_leftAt m = None \<and> \<not> mf_isPublisher m),
      (''publisher'', \<lambda>m. mf_leftAt m = None \<and> mf_isPublisher m),
      (''baptized'', \<lambda>m. mf_leftAt m = None \<and> mf_isPublisher m \<and> mf_baptismDate m \<noteq> None),
      (''brother'', \<lambda>m. mf_leftAt m = None \<and> mf_baptismDate m \<noteq> None \<and> mf_isMale m = Some True),
      (''sister'', \<lambda>m. mf_leftAt m = None \<and> mf_baptismDate m \<noteq> None \<and> mf_isMale m = Some False),
      (''anointed'', \<lambda>m. mf_leftAt m = None \<and> mf_isPublisher m \<and> mf_baptismDate m \<noteq> None \<and> mf_isAnointed m),
      (''elder'', \<lambda>m. mf_leftAt m = None \<and> mf_baptismDate m \<noteq> None \<and> mf_isMale m = Some True \<and> mf_isHelder m),
      (''assistant-servant'', \<lambda>m. mf_leftAt m = None \<and> mf_baptismDate m \<noteq> None \<and> mf_isMale m = Some True \<and>
         mf_isServant m),
      (''pioneer'', \<lambda>m. mf_leftAt m = None \<and> mf_isPublisher m \<and> mf_baptismDate m \<noteq> None \<and>
         mf_standingType m \<noteq> Normal)]"

definition desired_key :: "MemberFlags \<Rightarrow> string \<Rightarrow> bool" where
  "desired_key m key = (case map_of BUILT_IN_ROLE_PREDICATES key of Some p \<Rightarrow> p m | None \<Rightarrow> False)"

text \<open>The keys to add and those to remove, in the order of the roles.\<close>

definition diffBuiltInAssignments :: "role list \<Rightarrow> int set \<Rightarrow> MemberFlags \<Rightarrow> int list \<times> int list" where
  "diffBuiltInAssignments builtInRoles existingRoleIds m =
     (map role_id (filter (\<lambda>r. desired_key m (role_key r) \<and> role_id r \<notin> existingRoleIds) builtInRoles),
      map role_id (filter (\<lambda>r. \<not> desired_key m (role_key r) \<and> role_id r \<in> existingRoleIds) builtInRoles))"

section \<open>The sync\<close>

definition find_member :: "int \<Rightarrow> int \<Rightarrow> db \<Rightarrow> member option" where
  "find_member i congregationId db = find (is_member i congregationId) (members db)"

text \<open>The nested select follows the foreign key \<^verbatim>\<open>(memberId, congregationId)\<close>, in the order of the rows.\<close>

definition enrolments_of :: "int \<Rightarrow> int \<Rightarrow> db \<Rightarrow> pioneer_enrolment list" where
  "enrolments_of i congregationId db =
     filter (\<lambda>e. pe_memberId e = i \<and> pe_congregationId e = congregationId) (pioneerEnrolments db)"

definition member_flags :: "member \<Rightarrow> PublisherType \<Rightarrow> MemberFlags" where
  "member_flags m standing =
     \<lparr>mf_isMale = mem_isMale m, mf_isPublisher = mem_isPublisher m, mf_standingType = standing,
      mf_baptismDate = mem_baptismDate m, mf_isAnointed = mem_isAnointed m, mf_isHelder = mem_isHelder m,
      mf_isServant = mem_isServant m, mf_leftAt = mem_leftAt m\<rparr>"

definition flags_of :: "member \<Rightarrow> int \<Rightarrow> int \<Rightarrow> db \<Rightarrow> MemberFlags" where
  "flags_of m i congregationId db =
     member_flags m (standingTypeFromEnrolments (map period_of (enrolments_of i congregationId db)))"

definition built_in_roles :: "int \<Rightarrow> db \<Rightarrow> role list" where
  "built_in_roles congregationId db =
     filter (\<lambda>r. role_key r \<in> set BUILT_IN_ROLE_KEYS \<and> role_congregationId r = congregationId) (roles db)"

definition role_ids_of_member :: "int \<Rightarrow> db \<Rightarrow> int set" where
  "role_ids_of_member memberId db =
     mra_roleId ` set (filter (\<lambda>a. mra_memberId a = memberId) (memberRoleAssignments db))"

definition keys_of :: "role list \<Rightarrow> int list \<Rightarrow> json" where
  "keys_of rs ids = JArr (map (\<lambda>k. JStr k)
     (filter (\<lambda>k. k \<noteq> []) (List.map_filter (\<lambda>i. map_option role_key (find (\<lambda>r. role_id r = i) (rev rs))) ids)))"

definition write_assignments :: "int \<Rightarrow> int \<Rightarrow> int list \<Rightarrow> int list \<Rightarrow> db \<Rightarrow> db" where
  "write_assignments memberId congregationId added removed db =
     db\<lparr>memberRoleAssignments :=
          delete_where (\<lambda>a. mra_memberId a = memberId \<and> mra_roleId a \<in> set removed)
            (memberRoleAssignments db @
             map (\<lambda>i. \<lparr>mra_memberId = memberId, mra_roleId = i, mra_congregationId = congregationId\<rparr>) added)\<rparr>"

definition sync_audit ::
  "int \<Rightarrow> int \<Rightarrow> int option \<Rightarrow> role list \<Rightarrow> int list \<Rightarrow> int list \<Rightarrow> audit_entry" where
  "sync_audit memberId congregationId actorId rs added removed =
     \<lparr>au_action = ''role.assignments.synced'', au_congregationId = congregationId, au_actorId = actorId,
      au_entityType = Some ''Member'', au_entityId = Some memberId,
      au_metadata = Some [(''added'', keys_of rs added), (''removed'', keys_of rs removed)]\<rparr>"

definition syncBuiltInRoleAssignments :: "int \<Rightarrow> int \<Rightarrow> int option \<Rightarrow> db \<Rightarrow> db" where
  "syncBuiltInRoleAssignments memberId congregationId actorId db =
     (case find_member memberId congregationId db of
        None \<Rightarrow> db
      | Some row \<Rightarrow>
          (let m = flags_of row memberId congregationId db;
               builtInRoles = built_in_roles congregationId db;
               (added, removed) = diffBuiltInAssignments builtInRoles (role_ids_of_member memberId db) m
           in if added = [] \<and> removed = [] then db
              else audit (sync_audit memberId congregationId actorId builtInRoles added removed)
                     (write_assignments memberId congregationId added removed db)))"

section \<open>What the sync leaves\<close>

lemma diff_parts:
  "fst (diffBuiltInAssignments rs ex m) = map role_id (filter (\<lambda>r. desired_key m (role_key r) \<and> role_id r \<notin> ex) rs)"
  "snd (diffBuiltInAssignments rs ex m) = map role_id (filter (\<lambda>r. \<not> desired_key m (role_key r) \<and> role_id r \<in> ex) rs)"
  by (simp_all add: diffBuiltInAssignments_def)

lemma write_nothing: "write_assignments i c [] [] db = db"
  by (simp add: write_assignments_def delete_where_def)

text \<open>The rows after a sync, whether or not it had anything to write.\<close>

lemma sync_rows:
  assumes "find_member i c db = Some row"
  shows "memberRoleAssignments (syncBuiltInRoleAssignments i c a db) =
     memberRoleAssignments (write_assignments i c
       (fst (diffBuiltInAssignments (built_in_roles c db) (role_ids_of_member i db) (flags_of row i c db)))
       (snd (diffBuiltInAssignments (built_in_roles c db) (role_ids_of_member i db) (flags_of row i c db))) db)"
  using assms by (auto simp: syncBuiltInRoleAssignments_def Let_def write_nothing split: prod.split)

lemma sync_frame [simp]:
  "roles (syncBuiltInRoleAssignments i c a db) = roles db"
  "members (syncBuiltInRoleAssignments i c a db) = members db"
  "userAccounts (syncBuiltInRoleAssignments i c a db) = userAccounts db"
  "userRoleAssignments (syncBuiltInRoleAssignments i c a db) = userRoleAssignments db"
  "pioneerEnrolments (syncBuiltInRoleAssignments i c a db) = pioneerEnrolments db"
  "publisherActivities (syncBuiltInRoleAssignments i c a db) = publisherActivities db"
  "publisherGroups (syncBuiltInRoleAssignments i c a db) = publisherGroups db"
  "emergencyContacts (syncBuiltInRoleAssignments i c a db) = emergencyContacts db"
  "dataDeletionRecords (syncBuiltInRoleAssignments i c a db) = dataDeletionRecords db"
  by (simp_all add: syncBuiltInRoleAssignments_def write_assignments_def Let_def split: option.split prod.split)

lemma sync_reads [simp]:
  "find_member j d (syncBuiltInRoleAssignments i c a db) = find_member j d db"
  "built_in_roles d (syncBuiltInRoleAssignments i c a db) = built_in_roles d db"
  "flags_of row j d (syncBuiltInRoleAssignments i c a db) = flags_of row j d db"
  by (simp_all add: find_member_def built_in_roles_def flags_of_def enrolments_of_def)

lemma role_ids_iff: "x \<in> role_ids_of_member i db \<longleftrightarrow> (\<exists>a \<in> set (memberRoleAssignments db). mra_memberId a = i \<and> mra_roleId a = x)"
  by (auto simp: role_ids_of_member_def)

lemma role_ids_write:
  "role_ids_of_member j (write_assignments i c added removed db) =
     (if j = i then (role_ids_of_member i db \<union> set added) - set removed else role_ids_of_member j db)"
proof (rule set_eqI)
  fix x
  have "(\<exists>a \<in> set (memberRoleAssignments (write_assignments i c added removed db)). mra_memberId a = j \<and> mra_roleId a = x) \<longleftrightarrow>
      ((\<exists>a \<in> set (memberRoleAssignments db). mra_memberId a = j \<and> mra_roleId a = x) \<or> (j = i \<and> x \<in> set added)) \<and>
      \<not> (j = i \<and> x \<in> set removed)"
    by (simp add: write_assignments_def) force
  then show "x \<in> role_ids_of_member j (write_assignments i c added removed db) \<longleftrightarrow>
      x \<in> (if j = i then (role_ids_of_member i db \<union> set added) - set removed else role_ids_of_member j db)"
    by (simp add: role_ids_iff)
qed

lemma role_ids_sync:
  assumes "find_member i c db = Some row"
  shows "role_ids_of_member i (syncBuiltInRoleAssignments i c a db) =
     (role_ids_of_member i db \<union>
       role_id ` {r \<in> set (built_in_roles c db). desired_key (flags_of row i c db) (role_key r) \<and> role_id r \<notin> role_ids_of_member i db})
     - role_id ` {r \<in> set (built_in_roles c db). \<not> desired_key (flags_of row i c db) (role_key r) \<and> role_id r \<in> role_ids_of_member i db}"
proof -
  have cong: "role_ids_of_member i x = role_ids_of_member i y" if "memberRoleAssignments x = memberRoleAssignments y" for x y
    unfolding role_ids_of_member_def that by simp
  show ?thesis
    unfolding cong [OF sync_rows [OF assms]] role_ids_write diff_parts by simp
qed

text \<open>With distinct keys, a role of the catalogue is held exactly when its predicate holds.\<close>

lemma sync_exact:
  assumes keys: "distinct (map role_id (roles db))" and row: "find_member i c db = Some row"
    and r: "r \<in> set (built_in_roles c db)"
  shows "role_id r \<in> role_ids_of_member i (syncBuiltInRoleAssignments i c a db) \<longleftrightarrow>
     desired_key (flags_of row i c db) (role_key r)"
proof -
  have same: "s = r" if "s \<in> set (built_in_roles c db)" "role_id s = role_id r" for s
    using keys that r unfolding built_in_roles_def distinct_map by (auto dest: inj_onD)
  let ?d = "\<lambda>r. desired_key (flags_of row i c db) (role_key r)"
  show ?thesis
  proof (cases "?d r")
    case True
    then have "role_id r \<notin> role_id ` {r \<in> set (built_in_roles c db). \<not> ?d r \<and> role_id r \<in> role_ids_of_member i db}"
      using same by auto
    then show ?thesis using True r unfolding role_ids_sync [OF row] by auto
  next
    case False
    then have "role_id r \<notin> role_id ` {r \<in> set (built_in_roles c db). ?d r \<and> role_id r \<notin> role_ids_of_member i db}"
      using same by auto
    then show ?thesis using False r unfolding role_ids_sync [OF row] by auto
  qed
qed

text \<open>A sync of a member whose roles are right writes nothing.\<close>

lemma sync_stable:
  assumes "find_member i c db = Some row"
    and "\<And>r. r \<in> set (built_in_roles c db) \<Longrightarrow>
       (role_id r \<in> role_ids_of_member i db) = desired_key (flags_of row i c db) (role_key r)"
  shows "syncBuiltInRoleAssignments i c a db = db"
proof -
  have "diffBuiltInAssignments (built_in_roles c db) (role_ids_of_member i db) (flags_of row i c db) = ([], [])"
    unfolding diffBuiltInAssignments_def using assms(2) by (simp add: filter_empty_conv)
  then show ?thesis using assms(1) by (simp add: syncBuiltInRoleAssignments_def)
qed

text \<open>The roles of other members, and the roles that no flag implies, stay as they are.\<close>

definition outside_sync :: "int \<Rightarrow> int \<Rightarrow> db \<Rightarrow> member_role_assignment \<Rightarrow> bool" where
  "outside_sync i c db a \<longleftrightarrow> mra_memberId a \<noteq> i \<or> mra_roleId a \<notin> role_id ` set (built_in_roles c db)"

lemma sync_outside:
  "filter (outside_sync i c db) (memberRoleAssignments (syncBuiltInRoleAssignments i c a db)) =
   filter (outside_sync i c db) (memberRoleAssignments db)"
proof (cases "find_member i c db")
  case None
  then show ?thesis by (simp add: syncBuiltInRoleAssignments_def)
next
  case (Some row)
  have "filter (outside_sync i c db) (memberRoleAssignments (write_assignments i c added removed db)) =
      filter (outside_sync i c db) (memberRoleAssignments db)"
    if "set added \<subseteq> role_id ` set (built_in_roles c db)" "set removed \<subseteq> role_id ` set (built_in_roles c db)" for added removed
  proof -
    have "filter (outside_sync i c db) (map (\<lambda>x. \<lparr>mra_memberId = i, mra_roleId = x, mra_congregationId = c\<rparr>) added) = []"
      using that(1) by (auto simp: filter_empty_conv outside_sync_def)
    moreover have "filter (outside_sync i c db) (delete_where (\<lambda>a. mra_memberId a = i \<and> mra_roleId a \<in> set removed) rows) =
        filter (outside_sync i c db) rows" for rows
      unfolding delete_where_def filter_filter
      by (rule filter_cong [OF refl]) (use that(2) in \<open>auto simp: outside_sync_def\<close>)
    ultimately show ?thesis by (simp add: write_assignments_def)
  qed
  then show ?thesis unfolding sync_rows [OF Some] diff_parts by (rule) auto
qed

text \<open>The primary key \<^verbatim>\<open>(memberId, roleId)\<close> is kept.\<close>

definition mra_key :: "member_role_assignment \<Rightarrow> int \<times> int" where
  "mra_key a = (mra_memberId a, mra_roleId a)"

lemma sync_distinct:
  assumes keys: "distinct (map role_id (roles db))" and rows: "distinct (map mra_key (memberRoleAssignments db))"
  shows "distinct (map mra_key (memberRoleAssignments (syncBuiltInRoleAssignments i c a db)))"
proof (cases "find_member i c db")
  case None
  then show ?thesis using rows by (simp add: syncBuiltInRoleAssignments_def)
next
  case (Some row)
  let ?added = "fst (diffBuiltInAssignments (built_in_roles c db) (role_ids_of_member i db) (flags_of row i c db))"
  let ?new = "map (\<lambda>x. \<lparr>mra_memberId = i, mra_roleId = x, mra_congregationId = c\<rparr>) ?added"
  have "distinct ?added"
    using keys unfolding diff_parts built_in_roles_def by (simp add: distinct_map_filter)
  then have "distinct (map mra_key ?new)" by (simp add: comp_def mra_key_def distinct_map inj_on_def)
  moreover have "set (map mra_key (memberRoleAssignments db)) \<inter> set (map mra_key ?new) = {}"
    unfolding diff_parts by (auto simp: mra_key_def role_ids_iff)
  ultimately have "distinct (map mra_key (memberRoleAssignments db @ ?new))" using rows by simp
  then show ?thesis
    unfolding sync_rows [OF Some] write_assignments_def by (simp add: distinct_map_delete_where)
qed

section \<open>Roles in line with the flags\<close>

definition in_line_for :: "int \<Rightarrow> db \<Rightarrow> member \<Rightarrow> bool" where
  "in_line_for c db m \<longleftrightarrow>
     (\<forall>r \<in> set (built_in_roles c db).
        (role_id r \<in> role_ids_of_member (mem_id m) db) = desired_key (flags_of m (mem_id m) c db) (role_key r))"

definition roles_in_line :: "int \<Rightarrow> db \<Rightarrow> bool" where
  "roles_in_line c db \<longleftrightarrow> (\<forall>m \<in> set (members db). mem_congregationId m = c \<longrightarrow> in_line_for c db m)"

definition people_keys :: "db \<Rightarrow> bool" where
  "people_keys db \<longleftrightarrow> distinct (map role_id (roles db)) \<and> distinct (map mem_id (members db))"

text \<open>
  After a change that touched nobody's flags but those of member \<open>i\<close>, a sync of \<open>i\<close> is all that
  is needed.
\<close>

lemma find_member_iff:
  assumes "distinct (map mem_id (members db))"
  shows "find_member i c db = Some m \<longleftrightarrow> m \<in> set (members db) \<and> mem_id m = i \<and> mem_congregationId m = c"
proof
  assume "find_member i c db = Some m"
  then show "m \<in> set (members db) \<and> mem_id m = i \<and> mem_congregationId m = c"
    using find_Some_in [of "is_member i c" "members db" m] by (simp add: find_member_def is_member_def)
next
  assume m: "m \<in> set (members db) \<and> mem_id m = i \<and> mem_congregationId m = c"
  then obtain m' where m': "find_member i c db = Some m'"
    using find_None_iff_all [of "is_member i c" "members db"] unfolding find_member_def is_member_def
    by (cases "find (\<lambda>m. mem_id m = i \<and> mem_congregationId m = c) (members db)") (auto simp: is_member_def)
  then have "m' \<in> set (members db)" "mem_id m' = mem_id m"
    using m find_Some_in [of "is_member i c" "members db" m'] by (simp_all add: find_member_def is_member_def)
  then show "find_member i c db = Some m"
    using assms m m' unfolding distinct_map by (auto dest: inj_onD)
qed

lemma in_line_for_cong:
  assumes "roles db' = roles db" and "role_ids_of_member (mem_id m) db' = role_ids_of_member (mem_id m) db"
    and "enrolments_of (mem_id m) c db' = enrolments_of (mem_id m) c db"
  shows "in_line_for c db' m = in_line_for c db m"
  using assms unfolding in_line_for_def built_in_roles_def flags_of_def by simp

lemma role_ids_sync_other:
  assumes "j \<noteq> i"
  shows "role_ids_of_member j (syncBuiltInRoleAssignments i c a db) = role_ids_of_member j db"
proof (cases "find_member i c db")
  case None
  then show ?thesis by (simp add: syncBuiltInRoleAssignments_def)
next
  case (Some row)
  have "role_ids_of_member j (syncBuiltInRoleAssignments i c a db) =
      role_ids_of_member j (write_assignments i c
       (fst (diffBuiltInAssignments (built_in_roles c db) (role_ids_of_member i db) (flags_of row i c db)))
       (snd (diffBuiltInAssignments (built_in_roles c db) (role_ids_of_member i db) (flags_of row i c db))) db)"
    unfolding role_ids_of_member_def [of j] sync_rows [OF Some] by (rule refl)
  then show ?thesis using assms by (simp add: role_ids_write)
qed

lemma enrolments_of_sync [simp]: "enrolments_of j d (syncBuiltInRoleAssignments i c a db) = enrolments_of j d db"
  by (simp add: enrolments_of_def)

lemma in_line_for_sync:
  assumes keys: "people_keys db" and m: "m \<in> set (members db)" "mem_congregationId m = c"
    and other: "mem_id m \<noteq> i \<Longrightarrow> in_line_for c db m"
  shows "in_line_for c (syncBuiltInRoleAssignments i c a db) m"
proof -
  have k: "distinct (map role_id (roles db))" "distinct (map mem_id (members db))" using keys by (simp_all add: people_keys_def)
  show ?thesis
  proof (cases "mem_id m = i")
    case True
    then have "find_member i c db = Some m" using m unfolding find_member_iff [OF k(2)] by simp
    then show ?thesis using sync_exact [OF k(1)] True unfolding in_line_for_def by simp
  next
    case False
    then show ?thesis
      using other in_line_for_cong [of "syncBuiltInRoleAssignments i c a db" db m c] role_ids_sync_other [OF False] by simp
  qed
qed

lemma roles_in_line_sync:
  assumes "people_keys db"
    and "\<And>m. m \<in> set (members db) \<Longrightarrow> mem_congregationId m = c \<Longrightarrow> mem_id m \<noteq> i \<Longrightarrow> in_line_for c db m"
  shows "roles_in_line c (syncBuiltInRoleAssignments i c a db)"
  unfolding roles_in_line_def using in_line_for_sync [OF assms(1)] assms(2) by simp

lemma roles_in_line_cong:
  assumes "roles db' = roles db" and "members db' = members db" and "pioneerEnrolments db' = pioneerEnrolments db"
    and "memberRoleAssignments db' = memberRoleAssignments db"
  shows "roles_in_line c db' = roles_in_line c db"
  using assms unfolding roles_in_line_def in_line_for_def built_in_roles_def flags_of_def role_ids_of_member_def enrolments_of_def
  by simp

lemma people_keys_sync [simp]: "people_keys (syncBuiltInRoleAssignments i c a db) = people_keys db"
  by (simp add: people_keys_def)

lemma stint_inv_sync [simp]: "stint_inv (syncBuiltInRoleAssignments i c a db) = stint_inv db"
  by (rule stint_inv_cong) simp

end
