(* ===== verification/Members.thy ===== *)
theory Members
  imports Built_In_Roles Plan_Limits
begin

text \<open>
  The aggregate of members (\<^verbatim>\<open>features/publishers/server/member.aggregate.ts\<close>) with the identity
  form (\<^verbatim>\<open>member-identity.ts\<close>), the preconditions (\<^verbatim>\<open>member-preconditions.server.ts\<close>), the arrival
  of a member who comes back (\<^verbatim>\<open>model/arrival.ts\<close>) and the emergency information
  (\<^verbatim>\<open>emergency-info.aggregate.ts\<close>).
\<close>

section \<open>The identity form\<close>

text \<open>\<open>Date.parse\<close> is a parameter: its reading of a string outside the ISO form is the engine's.\<close>

type_synonym date_parser = "string \<Rightarrow> jsdate"

datatype group_field = NoGroup | NotANumber | GroupId int

record MemberFormFields =
  ff_firstname :: string
  ff_lastname :: string
  ff_gender :: string
  ff_birthDate :: "string option"
  ff_baptismDate :: "string option"
  ff_isHelder :: bool
  ff_isServant :: bool
  ff_isAnointed :: bool
  ff_groupId :: group_field
  ff_phone :: string
  ff_address :: string
  ff_email :: string
  ff_arrivedAt :: "string option option"

definition form_date :: "date_parser \<Rightarrow> string option \<Rightarrow> jsdate option" where
  "form_date parse v = (case v of None \<Rightarrow> None | Some s \<Rightarrow> if s = [] then None else Some (parse s))"

definition stored_date :: "jsdate option \<Rightarrow> int option" where
  "stored_date v = (case v of Some (Date t) \<Rightarrow> Some t | _ \<Rightarrow> None)"

definition form_group :: "group_field \<Rightarrow> int option" where
  "form_group g = (case g of GroupId i \<Rightarrow> Some i | _ \<Rightarrow> None)"

text \<open>\<^verbatim>\<open>memberDataFromForm\<close>: the columns it writes, on a row; an arrival left out is kept.\<close>

definition memberDataFromForm :: "date_parser \<Rightarrow> MemberFormFields \<Rightarrow> member \<Rightarrow> member" where
  "memberDataFromForm parse p m =
     m\<lparr>mem_firstname := ff_firstname p, mem_lastname := ff_lastname p,
       mem_firstnameNormalized := stripDiacritics (ff_firstname p),
       mem_lastnameNormalized := stripDiacritics (ff_lastname p),
       mem_isMale := Some (ff_gender p = ''male''),
       mem_baptismDate := stored_date (form_date parse (ff_baptismDate p)),
       mem_birthDate := stored_date (form_date parse (ff_birthDate p)),
       mem_isHelder := ff_isHelder p, mem_isServant := ff_isServant p, mem_isAnointed := ff_isAnointed p,
       mem_publisherGroupId := form_group (ff_groupId p),
       mem_address := ff_address p, mem_phone := ff_phone p, mem_email := ff_email p,
       mem_arrivedAt := (case ff_arrivedAt p of None \<Rightarrow> mem_arrivedAt m | Some v \<Rightarrow> stored_date (form_date parse v))\<rparr>"

text \<open>
  What the database refuses: an invalid date, a group that does not exist, and a row outside the
  check constraints of the table (an unknown sex passes them).
\<close>

definition member_check :: "member \<Rightarrow> bool" where
  "member_check m \<longleftrightarrow>
     \<not> (mem_isHelder m \<and> mem_isServant m) \<and>
     (mem_isAnointed m \<longrightarrow> mem_baptismDate m \<noteq> None) \<and>
     (mem_baptismDate m \<noteq> None \<longrightarrow> mem_isPublisher m) \<and>
     (mem_isHelder m \<or> mem_isServant m \<longrightarrow> mem_baptismDate m \<noteq> None \<and> mem_isMale m \<noteq> Some False)"

definition form_dates :: "date_parser \<Rightarrow> MemberFormFields \<Rightarrow> jsdate option list" where
  "form_dates parse p = [form_date parse (ff_baptismDate p), form_date parse (ff_birthDate p),
     (case ff_arrivedAt p of None \<Rightarrow> None | Some v \<Rightarrow> form_date parse v)]"

definition group_exists :: "db \<Rightarrow> int option \<Rightarrow> bool" where
  "group_exists db g \<longleftrightarrow> (case g of None \<Rightarrow> True | Some i \<Rightarrow> i \<in> pg_id ` set (publisherGroups db))"

definition row_refused :: "member \<Rightarrow> db \<Rightarrow> app_error option" where
  "row_refused m db =
     (if \<not> member_check m then Some (DatabaseError InvalidValue)
      else if \<not> group_exists db (mem_publisherGroupId m) then Some (DatabaseError ForeignKeyViolation) else None)"

definition form_refused :: "date_parser \<Rightarrow> MemberFormFields \<Rightarrow> member \<Rightarrow> db \<Rightarrow> app_error option" where
  "form_refused parse p m db =
     (if Some InvalidDate \<in> set (form_dates parse p) then Some (DatabaseError InvalidValue) else row_refused m db)"

definition haveIdentityFlagsChanged :: "member \<Rightarrow> member \<Rightarrow> bool" where
  "haveIdentityFlagsChanged before after \<longleftrightarrow>
     mem_isPublisher before \<noteq> mem_isPublisher after \<or> mem_isMale before \<noteq> mem_isMale after \<or>
     mem_baptismDate before \<noteq> mem_baptismDate after \<or> mem_isAnointed before \<noteq> mem_isAnointed after \<or>
     mem_isHelder before \<noteq> mem_isHelder after \<or> mem_isServant before \<noteq> mem_isServant after \<or>
     mem_leftAt before \<noteq> mem_leftAt after"

section \<open>Preconditions\<close>

definition loadMemberIdentity :: "int \<Rightarrow> int \<Rightarrow> db \<Rightarrow> app_error + member" where
  "loadMemberIdentity memberId congregationId db =
     (case find_member memberId congregationId db of
        None \<Rightarrow> Inl (NotFoundError ''Member'' None) | Some m \<Rightarrow> Inr m)"

text \<open>The group a member oversees, and the one he assists: each is at most one, by unique columns.\<close>

definition responsibleFor :: "int \<Rightarrow> db \<Rightarrow> publisher_group option" where
  "responsibleFor i db = find (\<lambda>g. pg_responsibleId g = i) (publisherGroups db)"

definition deputyFor :: "int \<Rightarrow> db \<Rightarrow> publisher_group option" where
  "deputyFor i db = find (\<lambda>g. pg_deputyId g = Some i) (publisherGroups db)"

definition ensureMemberIsNotGroupResponsible :: "int \<Rightarrow> db \<Rightarrow> app_error option" where
  "ensureMemberIsNotGroupResponsible memberId db =
     (case responsibleFor memberId db of
        Some g \<Rightarrow> Some (ConflictError ''cannot_anonymize_group_responsible'') | None \<Rightarrow> None)"

section \<open>Writing a member\<close>

definition member_audit :: "string \<Rightarrow> int \<Rightarrow> int \<Rightarrow> int \<Rightarrow> (string \<times> json) list option \<Rightarrow> db \<Rightarrow> db" where
  "member_audit action congregationId actorId i metadata =
     entity_audit action congregationId actorId ''Member'' i metadata"

definition write_member :: "int \<Rightarrow> int \<Rightarrow> (member \<Rightarrow> member) \<Rightarrow> db \<Rightarrow> db" where
  "write_member i congregationId f db =
     db\<lparr>members := update_where (is_member i congregationId) f (members db)\<rparr>"

definition blank_member :: "int \<Rightarrow> int \<Rightarrow> member" where
  "blank_member i congregationId =
     \<lparr>mem_id = i, mem_firstname = [], mem_lastname = [], mem_firstnameNormalized = [], mem_lastnameNormalized = [],
      mem_isMale = None, mem_birthDate = None, mem_phone = [], mem_address = [], mem_email = [],
      mem_dpaCardUpToDate = False, mem_survivalBackpackReady = False, mem_isPublisher = False,
      mem_baptismDate = None, mem_isAnointed = False, mem_isHelder = False, mem_isServant = False,
      mem_arrivedAt = None, mem_lastPastoralVisitAt = None, mem_leftAt = None, mem_inactiveAt = None,
      mem_anonymizedAt = None, mem_publisherGroupId = None, mem_congregationId = congregationId\<rparr>"

definition createMember ::
  "env \<Rightarrow> date_parser \<Rightarrow> CongregationLimits \<Rightarrow> uncounted \<Rightarrow> MemberFormFields \<Rightarrow> int \<Rightarrow> int \<Rightarrow> db \<Rightarrow> (db, member) outcome" where
  "createMember ev parse limits uc params congregationId actorId db =
     guard_by (errorIfWouldGoOverLimit limits uc congregationId LimitMembers db) db
       (let i = env_member_id ev (members db);
            m = (memberDataFromForm parse params (blank_member i congregationId))\<lparr>mem_isPublisher := True\<rparr>
        in guard_by (form_refused parse params m db) db
             (Inr m, member_audit ''publisher.created'' congregationId actorId i None
                (syncBuiltInRoleAssignments i congregationId (Some actorId) (db\<lparr>members := members db @ [m]\<rparr>))))"

record CreateDirectParams =
  cd_firstname :: string
  cd_lastname :: string
  cd_isMale :: "bool option"
  cd_birthDate :: "int option"
  cd_baptismDate :: "int option"
  cd_isPublisher :: bool
  cd_isHelder :: bool
  cd_isServant :: bool
  cd_isAnointed :: bool
  cd_publisherGroupId :: "int option"
  cd_phone :: string
  cd_address :: string

definition direct_member :: "int \<Rightarrow> int \<Rightarrow> CreateDirectParams \<Rightarrow> member" where
  "direct_member i congregationId p =
     (blank_member i congregationId)
       \<lparr>mem_firstname := cd_firstname p, mem_lastname := cd_lastname p,
        mem_firstnameNormalized := stripDiacritics (cd_firstname p),
        mem_lastnameNormalized := stripDiacritics (cd_lastname p),
        mem_isMale := cd_isMale p, mem_birthDate := cd_birthDate p, mem_baptismDate := cd_baptismDate p,
        mem_isPublisher := cd_isPublisher p, mem_isHelder := cd_isHelder p, mem_isServant := cd_isServant p,
        mem_isAnointed := cd_isAnointed p, mem_publisherGroupId := cd_publisherGroupId p,
        mem_phone := cd_phone p, mem_address := cd_address p\<rparr>"

definition createDirect :: "env \<Rightarrow> int \<Rightarrow> int \<Rightarrow> CreateDirectParams \<Rightarrow> db \<Rightarrow> (db, member) outcome" where
  "createDirect ev congregationId actorId params db =
     (let i = env_member_id ev (members db);
          m = direct_member i congregationId params
      in guard_by (row_refused m db) db
           (Inr m, syncBuiltInRoleAssignments i congregationId (Some actorId) (db\<lparr>members := members db @ [m]\<rparr>)))"

definition updateIdentity ::
  "date_parser \<Rightarrow> int \<Rightarrow> int \<Rightarrow> int \<Rightarrow> MemberFormFields \<Rightarrow> db \<Rightarrow> (db, member) outcome" where
  "updateIdentity parse i congregationId actorId params db =
     (case loadMemberIdentity i congregationId db of
        Inl e \<Rightarrow> (Inl e, db)
      | Inr before \<Rightarrow>
          guard_by (form_refused parse params (memberDataFromForm parse params before) db) db
            (let m = memberDataFromForm parse params before;
                 db = write_member i congregationId (memberDataFromForm parse params) db;
                 db = (if haveIdentityFlagsChanged before m
                       then syncBuiltInRoleAssignments i congregationId (Some actorId) db else db)
             in (Inr m, member_audit ''publisher.updated'' congregationId actorId i None db)))"

definition togglePublisher :: "int \<Rightarrow> int \<Rightarrow> bool \<Rightarrow> int \<Rightarrow> db \<Rightarrow> (db, member) outcome" where
  "togglePublisher memberId congregationId isPublisher actorId db =
     (case find_member memberId congregationId db of
        None \<Rightarrow> (Inl (NotFoundError ''Member'' None), db)
      | Some existing \<Rightarrow>
          guard_by (row_refused (existing\<lparr>mem_isPublisher := isPublisher\<rparr>) db) db
          (let db = write_member memberId congregationId (\<lambda>m. m\<lparr>mem_isPublisher := isPublisher\<rparr>) db;
               db = syncBuiltInRoleAssignments memberId congregationId (Some actorId) db
           in (Inr (existing\<lparr>mem_isPublisher := isPublisher\<rparr>),
               member_audit ''publisher.status.changed'' congregationId actorId memberId
                 (Some [(''isPublisher'', JBool isPublisher)]) db)))"

section \<open>Lifecycle\<close>

text \<open>
  \<^verbatim>\<open>arrivalOnReturn\<close>: a member away for more than a year is welcomed like a new arrival, from
  the day of the return. Days are calendar days of UTC.
\<close>

definition RETURN_AS_ARRIVAL_MONTHS :: int where
  "RETURN_AS_ARRIVAL_MONTHS = 12"

definition arrivalOnReturn :: "int option \<Rightarrow> int \<Rightarrow> int option" where
  "arrivalOnReturn leftAt returnedOn =
     (case leftAt of
        None \<Rightarrow> None
      | Some l \<Rightarrow>
          (case (local_civil utc returnedOn, local_civil utc l) of
             ((y, m, d), (ly, lm, ld)) \<Rightarrow>
               (case (new_date utc y m d, new_date utc ly (lm + RETURN_AS_ARRIVAL_MONTHS) ld) of
                  (Date day, Date aYearLater) \<Rightarrow> if day > aYearLater then Some day else None
                | _ \<Rightarrow> None)))"

datatype LifecycleState = Left | Returned | Active | Inactive

record lifecycle_spec =
  ls_field :: "member \<Rightarrow> int option"
  ls_set :: "int option \<Rightarrow> member \<Rightarrow> member"
  ls_setNull :: bool
  ls_action :: string
  ls_syncsRoles :: bool

definition LIFECYCLE_MUTATION :: "LifecycleState \<Rightarrow> lifecycle_spec" where
  "LIFECYCLE_MUTATION st =
     (case st of
        Left \<Rightarrow> \<lparr>ls_field = mem_leftAt, ls_set = (\<lambda>v. mem_leftAt_update (\<lambda>_. v)), ls_setNull = False,
                 ls_action = ''member.left'', ls_syncsRoles = True\<rparr>
      | Returned \<Rightarrow> \<lparr>ls_field = mem_leftAt, ls_set = (\<lambda>v. mem_leftAt_update (\<lambda>_. v)), ls_setNull = True,
                 ls_action = ''member.returned'', ls_syncsRoles = True\<rparr>
      | Inactive \<Rightarrow> \<lparr>ls_field = mem_inactiveAt, ls_set = (\<lambda>v. mem_inactiveAt_update (\<lambda>_. v)), ls_setNull = False,
                 ls_action = ''publisher.inactivated'', ls_syncsRoles = False\<rparr>
      | Active \<Rightarrow> \<lparr>ls_field = mem_inactiveAt, ls_set = (\<lambda>v. mem_inactiveAt_update (\<lambda>_. v)), ls_setNull = True,
                 ls_action = ''publisher.reactivated'', ls_syncsRoles = False\<rparr>)"

definition arrivalUpdate :: "LifecycleState \<Rightarrow> int option \<Rightarrow> int \<Rightarrow> member \<Rightarrow> member" where
  "arrivalUpdate st leftAt moment m =
     (case (if st = Returned then arrivalOnReturn leftAt moment else None) of
        Some arrivedAt \<Rightarrow> m\<lparr>mem_arrivedAt := Some arrivedAt\<rparr> | None \<Rightarrow> m)"

definition account_of :: "int \<Rightarrow> db \<Rightarrow> user_account option" where
  "account_of memberId db = find (\<lambda>a. acc_memberId a = Some memberId) (userAccounts db)"

definition drop_user_roles :: "int \<Rightarrow> db \<Rightarrow> db" where
  "drop_user_roles userId db =
     db\<lparr>userRoleAssignments := delete_where (\<lambda>a. ura_userId a = userId) (userRoleAssignments db)\<rparr>"

text \<open>\<open>moment\<close> is \<^verbatim>\<open>at ?? new Date()\<close>.\<close>

definition lifecycle_row :: "LifecycleState \<Rightarrow> int \<Rightarrow> member \<Rightarrow> member" where
  "lifecycle_row st moment m =
     arrivalUpdate st (mem_leftAt m) moment
       (ls_set (LIFECYCLE_MUTATION st) (if ls_setNull (LIFECYCLE_MUTATION st) then None else Some moment) m)"

definition lifecycle_metadata :: "LifecycleState \<Rightarrow> string option \<Rightarrow> (string \<times> json) list option" where
  "lifecycle_metadata st trigger =
     (if trigger \<noteq> None \<or> \<not> ls_syncsRoles (LIFECYCLE_MUTATION st)
      then Some [(''trigger'', JStr (case trigger of Some t \<Rightarrow> t | None \<Rightarrow> ''manual''))] else None)"

definition setLifecycle ::
  "int \<Rightarrow> int \<Rightarrow> int \<Rightarrow> LifecycleState \<Rightarrow> string option \<Rightarrow> int \<Rightarrow> db \<Rightarrow> (db, member) outcome" where
  "setLifecycle memberId congregationId actorId st trigger moment db =
     (case find_member memberId congregationId db of
        None \<Rightarrow> (Inl (NotFoundError ''Member'' None), db)
      | Some current \<Rightarrow>
          (let spec = LIFECYCLE_MUTATION st
           in if (if ls_setNull spec then ls_field spec current = None else ls_field spec current \<noteq> None)
              then (Inr current, db)
              else
                (let updated = lifecycle_row st moment current;
                     account = (if st = Left then account_of memberId db else None);
                     db = write_member memberId congregationId (lifecycle_row st moment) db;
                     db = (if ls_syncsRoles spec then syncBuiltInRoleAssignments memberId congregationId (Some actorId) db else db);
                     db = (case account of Some a \<Rightarrow> drop_user_roles (acc_id a) db | None \<Rightarrow> db)
                 in (Inr updated, member_audit (ls_action spec) congregationId actorId memberId
                       (lifecycle_metadata st trigger) db))))"

section \<open>Names, groups, visits\<close>

definition account_name_row :: "string \<Rightarrow> string \<Rightarrow> member \<Rightarrow> member" where
  "account_name_row firstname lastname m =
     m\<lparr>mem_firstname := firstname, mem_lastname := lastname,
       mem_firstnameNormalized := stripDiacritics firstname, mem_lastnameNormalized := stripDiacritics lastname\<rparr>"

definition updateAccountName :: "int \<Rightarrow> int \<Rightarrow> int \<Rightarrow> string \<Rightarrow> string \<Rightarrow> db \<Rightarrow> (db, member) outcome" where
  "updateAccountName memberId congregationId actorId firstname lastname db =
     (case find_member memberId congregationId db of
        None \<Rightarrow> (Inl (DatabaseError RecordNotFound), db)
      | Some m \<Rightarrow>
          (let db = write_member memberId congregationId (account_name_row firstname lastname) db
           in (Inr (account_name_row firstname lastname m),
               syncBuiltInRoleAssignments memberId congregationId (Some actorId) db)))"

text \<open>\<^verbatim>\<open>member.responsibleFor ?? member.deputyFor\<close>\<close>

definition led_group :: "int \<Rightarrow> db \<Rightarrow> publisher_group option" where
  "led_group memberId db = (case responsibleFor memberId db of Some g \<Rightarrow> Some g | None \<Rightarrow> deputyFor memberId db)"

definition setGroup :: "int \<Rightarrow> int \<Rightarrow> int option \<Rightarrow> int \<Rightarrow> db \<Rightarrow> (db, unit) outcome" where
  "setGroup memberId congregationId groupId actorId db =
     (case find_member memberId congregationId db of
        None \<Rightarrow> (Inl (NotFoundError ''Member'' None), db)
      | Some m \<Rightarrow>
          if mem_publisherGroupId m = groupId then (Inr (), db)
          else if (case led_group memberId db of Some g \<Rightarrow> Some (pg_id g) \<noteq> groupId | None \<Rightarrow> False)
          then (Inl (ConflictError ''groups_members_error_leads_group''), db)
          else if \<not> group_exists db groupId then (Inl (DatabaseError ForeignKeyViolation), db)
          else (Inr (), member_audit ''publisher.group.membership_changed'' congregationId actorId memberId
                  (Some [(''from'', json_opt (mem_publisherGroupId m)), (''to'', json_opt groupId)])
                  (write_member memberId congregationId (\<lambda>m. m\<lparr>mem_publisherGroupId := groupId\<rparr>) db)))"

definition setLastPastoralVisit :: "int \<Rightarrow> int \<Rightarrow> int option \<Rightarrow> int \<Rightarrow> db \<Rightarrow> (db, unit) outcome" where
  "setLastPastoralVisit memberId congregationId visitedOn actorId db =
     (case find_member memberId congregationId db of
        None \<Rightarrow> (Inl (NotFoundError ''Member'' None), db)
      | Some _ \<Rightarrow>
          (Inr (), member_audit ''publisher.pastoral_visit.recorded'' congregationId actorId memberId
             (Some [(''cleared'', JBool (visitedOn = None))])
             (write_member memberId congregationId (\<lambda>m. m\<lparr>mem_lastPastoralVisitAt := visitedOn\<rparr>) db)))"

section \<open>Emergency information and anonymization\<close>

record EmergencyContactInput =
  eci_name :: string
  eci_relationship :: string
  eci_phone :: string

definition purgeEmergencyContacts :: "int \<Rightarrow> int \<Rightarrow> db \<Rightarrow> db" where
  "purgeEmergencyContacts memberId congregationId db =
     db\<lparr>emergencyContacts :=
          delete_where (\<lambda>e. ec_memberId e = memberId \<and> ec_congregationId e = congregationId) (emergencyContacts db)\<rparr>"

definition updateEmergencyInfo ::
  "int \<Rightarrow> int \<Rightarrow> int \<Rightarrow> bool \<Rightarrow> bool \<Rightarrow> EmergencyContactInput list \<Rightarrow> db \<Rightarrow> (db, member) outcome" where
  "updateEmergencyInfo memberId congregationId actorId dpaCard backpack contacts db =
     (let f = (\<lambda>m. m\<lparr>mem_dpaCardUpToDate := dpaCard, mem_survivalBackpackReady := backpack\<rparr>)
      in case find_member memberId congregationId db of
           None \<Rightarrow> (Inl (DatabaseError RecordNotFound), db)
         | Some m \<Rightarrow>
             (let db = purgeEmergencyContacts memberId congregationId (write_member memberId congregationId f db);
                  db = db\<lparr>emergencyContacts := emergencyContacts db @
                         map (\<lambda>e. \<lparr>ec_memberId = memberId, ec_name = eci_name e, ec_relationship = eci_relationship e,
                                   ec_phone = eci_phone e, ec_congregationId = congregationId\<rparr>) contacts\<rparr>
              in (Inr (f m), member_audit ''emergency_info.updated'' congregationId actorId memberId None db)))"

definition anonymized_row :: "int \<Rightarrow> member \<Rightarrow> member" where
  "anonymized_row now m =
     m\<lparr>mem_firstname := ''Utilisateur'', mem_lastname := ''supprime'',
       mem_firstnameNormalized := stripDiacritics ''Utilisateur'', mem_lastnameNormalized := stripDiacritics ''supprime'',
       mem_phone := [], mem_address := [], mem_email := [], mem_birthDate := None, mem_baptismDate := None,
       mem_arrivedAt := None, mem_lastPastoralVisitAt := None, mem_isMale := None, mem_isHelder := False,
       mem_isServant := False, mem_isAnointed := False, mem_publisherGroupId := None, mem_anonymizedAt := Some now,
       mem_leftAt := (case mem_leftAt m of None \<Rightarrow> Some now | Some t \<Rightarrow> Some t)\<rparr>"

definition clear_deputy :: "int \<Rightarrow> db \<Rightarrow> db" where
  "clear_deputy memberId db =
     db\<lparr>publisherGroups := update_where (\<lambda>g. pg_deputyId g = Some memberId) (\<lambda>g. g\<lparr>pg_deputyId := None\<rparr>)
          (publisherGroups db)\<rparr>"

definition anonymize :: "int \<Rightarrow> int \<Rightarrow> int \<Rightarrow> int \<Rightarrow> db \<Rightarrow> (db, unit) outcome" where
  "anonymize memberId congregationId actorId now db =
     (case find_member memberId congregationId db of
        None \<Rightarrow> (Inl (NotFoundError ''Member'' None), db)
      | Some m \<Rightarrow>
          if mem_anonymizedAt m \<noteq> None then (Inr (), db)
          else
            guard_by (ensureMemberIsNotGroupResponsible memberId db) db
              (let db = write_member memberId congregationId (anonymized_row now) db;
                   db = clear_deputy memberId db;
                   db = purgeEmergencyContacts memberId congregationId db;
                   db = syncBuiltInRoleAssignments memberId congregationId None db;
                   db = db\<lparr>dataDeletionRecords := dataDeletionRecords db @
                          [\<lparr>ddr_entityType = ''Member'', ddr_entityId = memberId, ddr_congregationId = congregationId,
                            ddr_requestedBy = ''admin:'' @ js_string actorId, ddr_completedAt = now\<rparr>]\<rparr>
               in (Inr (), member_audit ''user.anonymized'' congregationId actorId memberId None db)))"

section \<open>Reading back\<close>

lemma find_update_where_self:
  assumes "\<And>r. p (f r) = p r"
  shows "find p (update_where p f rows) = map_option f (find p rows)"
  by (induction rows) (simp_all add: assms)

lemma find_member_write:
  assumes "\<And>m. mem_id (f m) = mem_id m" and "\<And>m. mem_congregationId (f m) = mem_congregationId m"
  shows "find_member i c (write_member i c f db) = map_option f (find_member i c db)"
  using find_update_where_self [of "is_member i c" f] assms
  by (simp add: find_member_def write_member_def is_member_def)

lemma find_member_cong: "members db' = members db \<Longrightarrow> find_member i c db' = find_member i c db"
  by (simp add: find_member_def)

lemma lifecycle_row_key [simp]:
  "mem_id (lifecycle_row st t m) = mem_id m" "mem_congregationId (lifecycle_row st t m) = mem_congregationId m"
  by (cases st; simp add: lifecycle_row_def arrivalUpdate_def LIFECYCLE_MUTATION_def split: option.split)+

text \<open>A change of lifecycle returns the row it leaves behind.\<close>

lemma setLifecycle_row:
  assumes "find_member i c db = Some m"
  shows "\<exists>db'. setLifecycle i c a st trig t db =
     (Inr (if (if ls_setNull (LIFECYCLE_MUTATION st) then ls_field (LIFECYCLE_MUTATION st) m = None
                 else ls_field (LIFECYCLE_MUTATION st) m \<noteq> None) then m else lifecycle_row st t m), db') \<and>
     find_member i c db' = Some (if (if ls_setNull (LIFECYCLE_MUTATION st) then ls_field (LIFECYCLE_MUTATION st) m = None
                 else ls_field (LIFECYCLE_MUTATION st) m \<noteq> None) then m else lifecycle_row st t m)"
proof (cases "if ls_setNull (LIFECYCLE_MUTATION st) then ls_field (LIFECYCLE_MUTATION st) m = None
    else ls_field (LIFECYCLE_MUTATION st) m \<noteq> None")
  case True
  then show ?thesis using assms by (simp add: setLifecycle_def Let_def)
next
  case False
  let ?w = "write_member i c (lifecycle_row st t) db"
  have w: "find_member i c (write_member i c (lifecycle_row s t) db) = Some (lifecycle_row s t m)" for s
    using assms by (simp add: find_member_write)
  have "find_member i c (if ls_syncsRoles (LIFECYCLE_MUTATION st) then syncBuiltInRoleAssignments i c (Some a) ?w else ?w) =
      Some (lifecycle_row st t m)" using w by simp
  moreover have "find_member i c (drop_user_roles u d) = find_member i c d" for u d
    by (rule find_member_cong) (simp add: drop_user_roles_def)
  moreover have "find_member i c (member_audit x y z u v d) = find_member i c d" for x y z u v d
    by (rule find_member_cong) (simp add: member_audit_def)
  ultimately show ?thesis
    using w unfolding setLifecycle_def assms option.case Let_def if_not_P [OF False] by (simp split: option.split)
qed

end
