(* ===== verification/Publisher_Groups.thy ===== *)
theory Publisher_Groups
  imports Members
begin

text \<open>
  Field service groups: the check on their leaders (\<^verbatim>\<open>group-leaders.server.ts\<close>), their creation,
  edition and deletion (\<^verbatim>\<open>publisher-group-mutations.server.ts\<close>, \<^verbatim>\<open>update-group.server.ts\<close>) and
  their membership (\<^verbatim>\<open>group-members.server.ts\<close>), all under \<^verbatim>\<open>features/publishers/server\<close>.
\<close>

section \<open>Leaders\<close>

definition GROUP_LEADER_WHERE :: "member \<Rightarrow> bool" where
  "GROUP_LEADER_WHERE m \<longleftrightarrow> mem_leftAt m = None \<and> mem_anonymizedAt m = None \<and> mem_isMale m = Some True \<and>
     (mem_isHelder m \<or> mem_isServant m)"

record GroupLeaders =
  gl_responsibleId :: int
  gl_deputyId :: "int option"
  gl_groupId :: "int option"

text \<open>One turn of the loop: the checks on one chosen leader.\<close>

definition leads_elsewhere :: "publisher_group option \<Rightarrow> int option \<Rightarrow> bool" where
  "leads_elsewhere led groupId = (case led of Some g \<Rightarrow> Some (pg_id g) \<noteq> groupId | None \<Rightarrow> False)"

definition assert_leader :: "db \<Rightarrow> int \<Rightarrow> int option \<Rightarrow> string \<Rightarrow> int \<Rightarrow> app_error option" where
  "assert_leader db congregationId groupId field i =
     (if find (\<lambda>m. is_member i congregationId m \<and> GROUP_LEADER_WHERE m) (members db) = None
      then Some (ValidationError field ''groups_form_error_not_eligible'')
      else if leads_elsewhere (responsibleFor i db) groupId
      then Some (ValidationError field ''groups_form_error_already_responsible'')
      else if leads_elsewhere (deputyFor i db) groupId
      then Some (ValidationError field ''groups_form_error_already_deputy'')
      else None)"

definition assertGroupLeaders :: "db \<Rightarrow> int \<Rightarrow> GroupLeaders \<Rightarrow> app_error option" where
  "assertGroupLeaders db congregationId l =
     (if gl_deputyId l = Some (gl_responsibleId l) then Some (ValidationError ''deputy'' ''groups_form_error_same_person'')
      else orelse (assert_leader db congregationId (gl_groupId l) ''responsible'' (gl_responsibleId l))
             (case gl_deputyId l of
                None \<Rightarrow> None | Some d \<Rightarrow> assert_leader db congregationId (gl_groupId l) ''deputy'' d))"

section \<open>Operations\<close>

definition joinLedGroup :: "int \<Rightarrow> int \<Rightarrow> int \<Rightarrow> int \<Rightarrow> int option \<Rightarrow> db \<Rightarrow> (db, unit) outcome" where
  "joinLedGroup groupId congregationId actorId responsibleId deputyId db =
     chain (setGroup responsibleId congregationId (Some groupId) actorId db) (\<lambda>_ db.
       case deputyId of
         None \<Rightarrow> (Inr (), db)
       | Some d \<Rightarrow> setGroup d congregationId (Some groupId) actorId db)"

record GroupParams =
  gp_name :: string
  gp_address :: string
  gp_responsibleId :: int
  gp_deputyId :: "int option"

definition is_group :: "int \<Rightarrow> int \<Rightarrow> publisher_group \<Rightarrow> bool" where
  "is_group i congregationId g \<longleftrightarrow> pg_id g = i \<and> pg_congregationId g = congregationId"

text \<open>The two unique columns.\<close>

definition leaders_taken :: "int option \<Rightarrow> GroupParams \<Rightarrow> db \<Rightarrow> bool" where
  "leaders_taken except p db \<longleftrightarrow>
     (\<exists>g \<in> set (publisherGroups db). Some (pg_id g) \<noteq> except \<and>
        (pg_responsibleId g = gp_responsibleId p \<or> (gp_deputyId p \<noteq> None \<and> pg_deputyId g = gp_deputyId p)))"

definition group_row :: "GroupParams \<Rightarrow> publisher_group \<Rightarrow> publisher_group" where
  "group_row p g = g\<lparr>pg_name := gp_name p, pg_adress := gp_address p, pg_deputyId := gp_deputyId p,
     pg_responsibleId := gp_responsibleId p\<rparr>"

definition group_audit :: "string \<Rightarrow> int \<Rightarrow> int \<Rightarrow> int \<Rightarrow> db \<Rightarrow> db" where
  "group_audit action congregationId actorId i = entity_audit action congregationId actorId ''PublisherGroup'' i None"

definition updateGroup :: "int \<Rightarrow> int \<Rightarrow> int \<Rightarrow> GroupParams \<Rightarrow> db \<Rightarrow> (db, publisher_group) outcome" where
  "updateGroup groupId congregationId actorId p db =
     guard_by (assertGroupLeaders db congregationId
        \<lparr>gl_responsibleId = gp_responsibleId p, gl_deputyId = gp_deputyId p, gl_groupId = Some groupId\<rparr>) db
       (case find (is_group groupId congregationId) (publisherGroups db) of
          None \<Rightarrow> (Inl (DatabaseError RecordNotFound), db)
        | Some g \<Rightarrow>
            if leaders_taken (Some groupId) p db then (Inl (DatabaseError UniqueViolation), db)
            else
              chain (joinLedGroup groupId congregationId actorId (gp_responsibleId p) (gp_deputyId p)
                 (db\<lparr>publisherGroups := update_where (is_group groupId congregationId) (group_row p) (publisherGroups db)\<rparr>))
              (\<lambda>_ db. (Inr (group_row p g), group_audit ''publisher.group.updated'' congregationId actorId groupId db)))"

definition new_group :: "int \<Rightarrow> int \<Rightarrow> GroupParams \<Rightarrow> publisher_group" where
  "new_group i congregationId p =
     \<lparr>pg_id = i, pg_name = gp_name p, pg_adress = gp_address p, pg_responsibleId = gp_responsibleId p,
      pg_deputyId = gp_deputyId p, pg_congregationId = congregationId\<rparr>"

definition createPublisherGroup :: "env \<Rightarrow> int \<Rightarrow> int \<Rightarrow> GroupParams \<Rightarrow> db \<Rightarrow> (db, publisher_group) outcome" where
  "createPublisherGroup ev congregationId actorId p db =
     guard_by (assertGroupLeaders db congregationId
        \<lparr>gl_responsibleId = gp_responsibleId p, gl_deputyId = gp_deputyId p, gl_groupId = None\<rparr>) db
       (if leaders_taken None p db then (Inl (DatabaseError UniqueViolation), db)
        else
          (let g = new_group (env_group_id ev (publisherGroups db)) congregationId p
           in chain (joinLedGroup (pg_id g) congregationId actorId (gp_responsibleId p) (gp_deputyId p)
                 (db\<lparr>publisherGroups := publisherGroups db @ [g]\<rparr>))
              (\<lambda>_ db. (Inr g, group_audit ''publisher.group.created'' congregationId actorId (pg_id g) db))))"

text \<open>The members of a deleted group are left in none: the foreign key is set to null.\<close>

definition deletePublisherGroup :: "int \<Rightarrow> int \<Rightarrow> int \<Rightarrow> db \<Rightarrow> (db, publisher_group) outcome" where
  "deletePublisherGroup i congregationId actorId db =
     (case find (is_group i congregationId) (publisherGroups db) of
        None \<Rightarrow> (Inl (DatabaseError RecordNotFound), db)
      | Some g \<Rightarrow>
          (Inr g, group_audit ''publisher.group.deleted'' congregationId actorId i
             (db\<lparr>publisherGroups := delete_where (is_group i congregationId) (publisherGroups db),
                members := update_where (\<lambda>m. mem_publisherGroupId m = Some i)
                  (\<lambda>m. m\<lparr>mem_publisherGroupId := None\<rparr>) (members db)\<rparr>)))"

definition may_join :: "int \<Rightarrow> int \<Rightarrow> member \<Rightarrow> bool" where
  "may_join memberId congregationId m \<longleftrightarrow>
     is_member memberId congregationId m \<and> mem_isPublisher m \<and> mem_leftAt m = None \<and> mem_anonymizedAt m = None"

definition addGroupMember :: "int \<Rightarrow> int \<Rightarrow> int \<Rightarrow> int \<Rightarrow> db \<Rightarrow> (db, string \<times> string) outcome" where
  "addGroupMember groupId congregationId memberId actorId db =
     (case (find (is_group groupId congregationId) (publisherGroups db), find (may_join memberId congregationId) (members db)) of
        (Some _, Some m) \<Rightarrow>
          chain (setGroup memberId congregationId (Some groupId) actorId db)
            (\<lambda>_ db. (Inr (mem_firstname m, mem_lastname m), db))
      | _ \<Rightarrow> (Inl (NotFoundError ''Member'' (Some memberId)), db))"

definition removeGroupMember :: "int \<Rightarrow> int \<Rightarrow> int \<Rightarrow> int \<Rightarrow> db \<Rightarrow> (db, string \<times> string) outcome" where
  "removeGroupMember groupId congregationId memberId actorId db =
     (case find (\<lambda>m. is_member memberId congregationId m \<and> mem_publisherGroupId m = Some groupId) (members db) of
        None \<Rightarrow> (Inl (NotFoundError ''Member'' (Some memberId)), db)
      | Some m \<Rightarrow>
          chain (setGroup memberId congregationId None actorId db)
            (\<lambda>_ db. (Inr (mem_firstname m, mem_lastname m), db)))"

section \<open>Leaders belong to the group they lead\<close>

definition leads :: "publisher_group \<Rightarrow> int \<Rightarrow> bool" where
  "leads g i \<longleftrightarrow> pg_responsibleId g = i \<or> pg_deputyId g = Some i"

definition in_place :: "db \<Rightarrow> publisher_group \<Rightarrow> int \<Rightarrow> bool" where
  "in_place db g i \<longleftrightarrow>
     (\<exists>m \<in> set (members db). mem_id m = i \<and> mem_congregationId m = pg_congregationId g \<and> mem_publisherGroupId m = Some (pg_id g))"

definition leaders_in_place :: "db \<Rightarrow> bool" where
  "leaders_in_place db \<longleftrightarrow>
     distinct (map mem_id (members db)) \<and> distinct (map pg_id (publisherGroups db)) \<and>
     (\<forall>g \<in> set (publisherGroups db). \<forall>i. leads g i \<longrightarrow> in_place db g i)"

lemma leaders_in_placeD:
  assumes "leaders_in_place db"
  shows "distinct (map mem_id (members db))" and "distinct (map pg_id (publisherGroups db))"
    and "g \<in> set (publisherGroups db) \<Longrightarrow> leads g i \<Longrightarrow> in_place db g i"
  using assms by (auto simp: leaders_in_place_def)

lemma member_unique: "distinct (map mem_id (members db)) \<Longrightarrow> m \<in> set (members db) \<Longrightarrow> n \<in> set (members db) \<Longrightarrow>
    mem_id m = mem_id n \<Longrightarrow> m = n"
  by (auto simp: distinct_map dest: inj_onD)

lemma group_unique: "distinct (map pg_id (publisherGroups db)) \<Longrightarrow> g \<in> set (publisherGroups db) \<Longrightarrow>
    h \<in> set (publisherGroups db) \<Longrightarrow> pg_id g = pg_id h \<Longrightarrow> g = h"
  by (auto simp: distinct_map dest: inj_onD)

text \<open>So nobody leads two groups.\<close>

lemma leads_one:
  assumes ok: "leaders_in_place db" and "g \<in> set (publisherGroups db)" "leads g i" "h \<in> set (publisherGroups db)" "leads h i"
  shows "g = h"
proof -
  obtain m where m: "m \<in> set (members db)" "mem_id m = i" "mem_publisherGroupId m = Some (pg_id g)"
    using leaders_in_placeD(3) [OF ok assms(2,3)] by (auto simp: in_place_def)
  obtain n where n: "n \<in> set (members db)" "mem_id n = i" "mem_publisherGroupId n = Some (pg_id h)"
    using leaders_in_placeD(3) [OF ok assms(4,5)] by (auto simp: in_place_def)
  have "m = n" using member_unique [OF leaders_in_placeD(1) [OF ok] m(1) n(1)] m(2) n(2) by simp
  then show ?thesis using group_unique [OF leaders_in_placeD(2) [OF ok] assms(2,4)] m(3) n(3) by simp
qed

lemma led_group_None: "led_group i db = None \<longleftrightarrow> (\<forall>g \<in> set (publisherGroups db). \<not> leads g i)"
  by (auto simp: led_group_def responsibleFor_def deputyFor_def leads_def find_None_iff_all split: option.splits dest: find_Some_in)

lemma led_group_Some: "led_group i db = Some g \<Longrightarrow> g \<in> set (publisherGroups db) \<and> leads g i"
  by (auto simp: led_group_def responsibleFor_def deputyFor_def leads_def split: option.splits dest: find_Some_in)

text \<open>A member who may be moved to \<open>groupId\<close> leads no other group.\<close>

lemma assert_leader_None:
  assumes ok: "leaders_in_place db" and "assert_leader db c groupId field i = None"
    and g: "g \<in> set (publisherGroups db)" "leads g i"
  shows "Some (pg_id g) = groupId"
proof -
  have free: "\<not> leads_elsewhere (responsibleFor i db) groupId" "\<not> leads_elsewhere (deputyFor i db) groupId"
    using assms(2) by (auto simp: assert_leader_def split: if_splits)
  show ?thesis
  proof (cases "pg_responsibleId g = i")
    case True
    then obtain h where h: "responsibleFor i db = Some h"
      using g(1) by (cases "responsibleFor i db") (auto simp: responsibleFor_def find_None_iff_all)
    then have "h \<in> set (publisherGroups db)" "leads h i"
      using find_Some_in [of _ _ h] by (auto simp: responsibleFor_def leads_def)
    then have "h = g" using leads_one [OF ok _ _ g] by simp
    then show ?thesis using free(1) h by (simp add: leads_elsewhere_def)
  next
    case False
    then have d: "pg_deputyId g = Some i" using g(2) by (simp add: leads_def)
    then obtain h where h: "deputyFor i db = Some h"
      using g(1) by (cases "deputyFor i db") (auto simp: deputyFor_def find_None_iff_all)
    then have "h \<in> set (publisherGroups db)" "leads h i"
      using find_Some_in [of _ _ h] by (auto simp: deputyFor_def leads_def)
    then have "h = g" using leads_one [OF ok _ _ g] by simp
    then show ?thesis using free(2) h by (simp add: leads_elsewhere_def)
  qed
qed

text \<open>What a successful move does.\<close>

definition enter_group :: "int option \<Rightarrow> member \<Rightarrow> member" where
  "enter_group g m = m\<lparr>mem_publisherGroupId := g\<rparr>"

lemma move_to_fields [simp]:
  "mem_id (enter_group g m) = mem_id m" "mem_congregationId (enter_group g m) = mem_congregationId m"
  "mem_publisherGroupId (enter_group g m) = g"
  by (simp_all add: enter_group_def)

lemma setGroup_Inr:
  assumes keys: "distinct (map mem_id (members db))" and "setGroup i c g a db = (Inr x, db')"
  obtains m where "find_member i c db = Some m"
    and "members db' = update_where (is_member i c) (enter_group g) (members db)"
    and "publisherGroups db' = publisherGroups db"
    and "mem_publisherGroupId m = g \<or> led_group i db = None \<or> (\<exists>h. led_group i db = Some h \<and> Some (pg_id h) = g)"
proof -
  obtain m where m: "find_member i c db = Some m"
    using assms(2) by (auto simp: setGroup_def split: option.splits)
  show ?thesis
  proof (cases "mem_publisherGroupId m = g")
    case True
    have "r = m" if "r \<in> set (members db)" "is_member i c r" for r
      using member_unique [OF keys that(1)] m that(2) by (simp add: find_member_iff [OF keys] is_member_def)
    then have "update_where (is_member i c) (enter_group g) (members db) = members db"
      unfolding update_where_def by (intro map_idI) (auto simp: enter_group_def True [symmetric])
    then show ?thesis using that [OF m] True assms(2) m by (simp add: setGroup_def)
  next
    case False
    have free: "\<not> (case led_group i db of Some g' \<Rightarrow> Some (pg_id g') \<noteq> g | None \<Rightarrow> False)"
      using assms(2) False by (auto simp: setGroup_def m split: if_splits)
    then have "db' = member_audit ''publisher.group.membership_changed'' c a i
        (Some [(''from'', json_opt (mem_publisherGroupId m)), (''to'', json_opt g)])
        (write_member i c (\<lambda>m. m\<lparr>mem_publisherGroupId := g\<rparr>) db)"
      using assms(2) False by (auto simp: setGroup_def m split: if_splits)
    then have "members db' = update_where (is_member i c) (enter_group g) (members db)" "publisherGroups db' = publisherGroups db"
      by (simp_all add: member_audit_def write_member_def enter_group_def [abs_def])
    then show ?thesis using that [OF m] free by (auto split: option.splits)
  qed
qed

lemma in_place_move:
  assumes rows: "members db' = update_where (is_member i c) (enter_group g) (members db)" and "in_place db h j"
    and mine: "j = i \<Longrightarrow> g = Some (pg_id h)"
  shows "in_place db' h j"
proof -
  obtain m where m: "m \<in> set (members db)" "mem_id m = j" "mem_congregationId m = pg_congregationId h"
    "mem_publisherGroupId m = Some (pg_id h)"
    using assms(2) by (auto simp: in_place_def)
  let ?m = "if is_member i c m then enter_group g m else m"
  have "?m \<in> set (members db')" unfolding rows set_update_where using m(1) by blast
  moreover have "mem_id ?m = j" "mem_congregationId ?m = pg_congregationId h" "mem_publisherGroupId ?m = Some (pg_id h)"
    using m mine by (auto simp: is_member_def)
  ultimately show ?thesis unfolding in_place_def by blast
qed

lemma in_place_moved:
  assumes rows: "members db' = update_where (is_member i (pg_congregationId h)) (enter_group (Some (pg_id h))) (members db)"
    and found: "find_member i (pg_congregationId h) db = Some m"
  shows "in_place db' h i"
proof -
  have m: "m \<in> set (members db)" "is_member i (pg_congregationId h) m"
    using find_Some_in [of "is_member i (pg_congregationId h)" "members db" m] found by (simp_all add: find_member_def)
  have "enter_group (Some (pg_id h)) m \<in> set (members db')" unfolding rows set_update_where using m by (intro image_eqI [of _ _ m]) simp_all
  then show ?thesis using m(2) unfolding in_place_def by (intro bexI) (auto simp: is_member_def)
qed

lemma map_mem_id_move: "map mem_id (update_where p (enter_group g) rows) = map mem_id rows"
  by (induction rows) simp_all

lemma setGroup_in_place:
  assumes ok: "leaders_in_place db" and run: "setGroup i c g a db = (Inr x, db')"
  shows "leaders_in_place db'"
proof -
  note keys = leaders_in_placeD(1,2) [OF ok]
  obtain m where m: "find_member i c db = Some m"
    and rows: "members db' = update_where (is_member i c) (enter_group g) (members db)"
    and groups: "publisherGroups db' = publisherGroups db"
    and free: "mem_publisherGroupId m = g \<or> led_group i db = None \<or> (\<exists>h. led_group i db = Some h \<and> Some (pg_id h) = g)"
    using setGroup_Inr [OF keys(1) run] .
  have m': "m \<in> set (members db)" "mem_id m = i" using m unfolding find_member_iff [OF keys(1)] by simp_all
  have "in_place db' h j" if h: "h \<in> set (publisherGroups db)" "leads h j" for h j
  proof (rule in_place_move [OF rows leaders_in_placeD(3) [OF ok h]])
    assume "j = i"
    then obtain n where n: "n \<in> set (members db)" "mem_id n = i" "mem_publisherGroupId n = Some (pg_id h)"
      using leaders_in_placeD(3) [OF ok h] by (auto simp: in_place_def)
    then have "n = m" using member_unique [OF keys(1) n(1) m'(1)] m'(2) by simp
    moreover have "led_group i db \<noteq> None" using h \<open>j = i\<close> unfolding led_group_None by blast
    moreover have "k = h" if "led_group i db = Some k" for k
      using leads_one [OF ok _ _ h] led_group_Some [OF that] \<open>j = i\<close> by blast
    ultimately show "g = Some (pg_id h)" using free n(3) by metis
  qed
  then show ?thesis using keys by (simp add: leaders_in_place_def groups rows map_mem_id_move)
qed

lemma joinLedGroup_in_place:
  assumes ok: "leaders_in_place db" and G: "distinct (map pg_id G)" and own: "own \<in> set G" "pg_id own = gid" "pg_congregationId own = c"
    "pg_responsibleId own = r" "pg_deputyId own = d"
    and others: "\<And>h. h \<in> set G \<Longrightarrow> h \<noteq> own \<Longrightarrow>
       h \<in> set (publisherGroups db) \<and> \<not> leads h r \<and> (\<forall>i. d = Some i \<longrightarrow> \<not> leads h i)"
    and run: "joinLedGroup gid c a r d (db\<lparr>publisherGroups := G\<rparr>) = (Inr x, db')"
  shows "leaders_in_place db'"
proof -
  let ?db1 = "db\<lparr>publisherGroups := G\<rparr>"
  have keys: "distinct (map mem_id (members ?db1))" using leaders_in_placeD(1) [OF ok] by simp
  obtain y db2 where first: "setGroup r c (Some gid) a ?db1 = (Inr y, db2)"
    and second: "(case d of None \<Rightarrow> (Inr (), db2) | Some i \<Rightarrow> setGroup i c (Some gid) a db2) = (Inr x, db')"
    using run unfolding joinLedGroup_def by (rule chain_InrE) simp
  obtain m where m: "find_member r c ?db1 = Some m"
    and rows2: "members db2 = update_where (is_member r c) (enter_group (Some gid)) (members ?db1)"
    and groups2: "publisherGroups db2 = G"
  proof (rule setGroup_Inr [OF keys first])
    fix m assume "find_member r c ?db1 = Some m" "members db2 = update_where (is_member r c) (enter_group (Some gid)) (members ?db1)"
      "publisherGroups db2 = publisherGroups ?db1"
    then show thesis using that by simp
  qed
  have keys2: "distinct (map mem_id (members db2))" using keys by (simp add: rows2 map_mem_id_move)
  have r2: "in_place db2 own r" by (rule in_place_moved [of _ _ _ ?db1 m]) (use rows2 m own in simp_all)
  have o2: "in_place db2 h j" if h: "h \<in> set G" "h \<noteq> own" "leads h j" for h j
  proof -
    have "in_place db h j" using leaders_in_placeD(3) [OF ok] others [OF h(1,2)] h(3) by blast
    then have "in_place ?db1 h j" by (simp add: in_place_def)
    then show ?thesis by (rule in_place_move [OF rows2]) (use others [OF h(1,2)] h(3) in blast)
  qed
  have "leaders_in_place db' \<and> True"
  proof (cases d)
    case None
    then have "db' = db2" using second by simp
    moreover have "in_place db2 h j" if "h \<in> set G" "leads h j" for h j
      using that r2 o2 own(4,5) None by (cases "h = own") (auto simp: leads_def)
    ultimately show ?thesis using keys2 G groups2 by (simp add: leaders_in_place_def)
  next
    case (Some i)
    then have run2: "setGroup i c (Some gid) a db2 = (Inr x, db')" using second by simp
    obtain n where n: "find_member i c db2 = Some n"
      and rows3: "members db' = update_where (is_member i c) (enter_group (Some gid)) (members db2)"
      and groups3: "publisherGroups db' = publisherGroups db2"
      using setGroup_Inr [OF keys2 run2] .
    have "in_place db' h j" if h: "h \<in> set G" "leads h j" for h j
    proof (cases "h = own")
      case True
      have "in_place db' own i" by (rule in_place_moved [of _ _ _ db2 n]) (use rows3 n own in simp_all)
      moreover have "in_place db' own r" by (rule in_place_move [OF rows3 r2]) (simp add: own)
      ultimately show ?thesis using h(2) True own(4,5) Some by (auto simp: leads_def)
    next
      case False
      show ?thesis
        by (rule in_place_move [OF rows3 o2 [OF h(1) False h(2)]]) (use others [OF h(1) False] h(2) Some in blast)
    qed
    then show ?thesis using keys2 G groups2 groups3 by (simp add: leaders_in_place_def rows3 map_mem_id_move)
  qed
  then show ?thesis by simp
qed

lemma groups_cong:
  assumes "members db' = members db" and "publisherGroups db' = publisherGroups db"
  shows "leaders_in_place db' = leaders_in_place db"
  using assms by (simp add: leaders_in_place_def in_place_def)

lemma assertGroupLeaders_None:
  assumes ok: "leaders_in_place db" and "assertGroupLeaders db c \<lparr>gl_responsibleId = r, gl_deputyId = d, gl_groupId = k\<rparr> = None"
    and h: "h \<in> set (publisherGroups db)" "Some (pg_id h) \<noteq> k"
  shows "\<not> leads h r \<and> (\<forall>i. d = Some i \<longrightarrow> \<not> leads h i)"
proof -
  have "assert_leader db c k ''responsible'' r = None" and "\<And>i. d = Some i \<Longrightarrow> assert_leader db c k ''deputy'' i = None"
    using assms(2) by (auto simp: assertGroupLeaders_def split: if_splits)
  then show ?thesis using assert_leader_None [OF ok _ h(1)] h(2) by blast
qed

lemma updateGroup_in_place:
  assumes ok: "leaders_in_place db" and run: "updateGroup i c a p db = (Inr x, db')"
  shows "leaders_in_place db'"
proof -
  let ?G = "update_where (is_group i c) (group_row p) (publisherGroups db)"
  have checked: "assertGroupLeaders db c \<lparr>gl_responsibleId = gp_responsibleId p, gl_deputyId = gp_deputyId p, gl_groupId = Some i\<rparr> = None"
    using run unfolding updateGroup_def by (auto elim!: guard_by_InrE)
  obtain g where g: "find (is_group i c) (publisherGroups db) = Some g"
    using run unfolding updateGroup_def by (auto elim!: guard_by_InrE split: option.splits)
  have "chain (joinLedGroup i c a (gp_responsibleId p) (gp_deputyId p) (db\<lparr>publisherGroups := ?G\<rparr>))
      (\<lambda>_ db. (Inr (group_row p g), group_audit ''publisher.group.updated'' c a i db)) = (Inr x, db')"
    using run checked unfolding updateGroup_def by (auto simp: g split: if_splits)
  then obtain y db1 where join: "joinLedGroup i c a (gp_responsibleId p) (gp_deputyId p) (db\<lparr>publisherGroups := ?G\<rparr>) = (Inr y, db1)"
    and db': "db' = group_audit ''publisher.group.updated'' c a i db1"
    by (elim chain_InrE) simp
  have g_in: "g \<in> set (publisherGroups db)" "is_group i c g" using find_Some_in [OF g] by simp_all
  note ids = leaders_in_placeD(2) [OF ok]
  have same_ids: "map pg_id ?G = map pg_id (publisherGroups db)"
    by (rule map_update_where) (simp add: group_row_def)
  have "leaders_in_place db1"
  proof (rule joinLedGroup_in_place [OF ok, where own = "group_row p g"])
    show "distinct (map pg_id ?G)" using ids same_ids by simp
    show "group_row p g \<in> set ?G" unfolding set_update_where using g_in by (intro image_eqI [of _ _ g]) simp_all
    show "pg_id (group_row p g) = i" "pg_congregationId (group_row p g) = c"
      using g_in(2) by (simp_all add: group_row_def is_group_def)
    show "pg_responsibleId (group_row p g) = gp_responsibleId p" "pg_deputyId (group_row p g) = gp_deputyId p"
      by (simp_all add: group_row_def)
    show "joinLedGroup i c a (gp_responsibleId p) (gp_deputyId p) (db\<lparr>publisherGroups := ?G\<rparr>) = (Inr y, db1)" by (rule join)
    fix h assume h: "h \<in> set ?G" "h \<noteq> group_row p g"
    then obtain k where k: "k \<in> set (publisherGroups db)" "h = (if is_group i c k then group_row p k else k)"
      unfolding set_update_where by blast
    have "k \<noteq> g" using h(2) k(2) g_in(2) by auto
    then have id: "pg_id k \<noteq> i"
      using group_unique [OF ids k(1) g_in(1)] g_in(2) by (auto simp: is_group_def)
    then have "h = k" using k(2) by (simp add: is_group_def)
    then show "h \<in> set (publisherGroups db) \<and> \<not> leads h (gp_responsibleId p) \<and> (\<forall>i. gp_deputyId p = Some i \<longrightarrow> \<not> leads h i)"
      using assertGroupLeaders_None [OF ok checked k(1)] k(1) id by simp
  qed
  then show ?thesis unfolding db' by (subst groups_cong [where db = db1]) (simp_all add: group_audit_def)
qed

lemma createPublisherGroup_in_place:
  assumes fresh: "fresh_keys ev" and ok: "leaders_in_place db" and run: "createPublisherGroup ev c a p db = (Inr x, db')"
  shows "leaders_in_place db'"
proof -
  let ?g = "new_group (env_group_id ev (publisherGroups db)) c p"
  have checked: "assertGroupLeaders db c \<lparr>gl_responsibleId = gp_responsibleId p, gl_deputyId = gp_deputyId p, gl_groupId = None\<rparr> = None"
    using run unfolding createPublisherGroup_def by (auto elim!: guard_by_InrE)
  have "chain (joinLedGroup (pg_id ?g) c a (gp_responsibleId p) (gp_deputyId p) (db\<lparr>publisherGroups := publisherGroups db @ [?g]\<rparr>))
      (\<lambda>_ db. (Inr ?g, group_audit ''publisher.group.created'' c a (pg_id ?g) db)) = (Inr x, db')"
    using run checked unfolding createPublisherGroup_def by (auto simp: Let_def split: if_splits)
  then obtain y db1 where join: "joinLedGroup (pg_id ?g) c a (gp_responsibleId p) (gp_deputyId p)
      (db\<lparr>publisherGroups := publisherGroups db @ [?g]\<rparr>) = (Inr y, db1)"
    and db': "db' = group_audit ''publisher.group.created'' c a (pg_id ?g) db1"
    by (auto elim!: chain_InrE)
  have "pg_id ?g \<notin> pg_id ` set (publisherGroups db)" using fresh by (simp add: new_group_def fresh_keys_def)
  then have "leaders_in_place db1"
    using leaders_in_placeD(2) [OF ok] assertGroupLeaders_None [OF ok checked] join
    by (intro joinLedGroup_in_place [OF ok, where own = ?g]) (auto simp: new_group_def)
  then show ?thesis unfolding db' by (subst groups_cong [where db = db1]) (simp_all add: group_audit_def)
qed

lemma deletePublisherGroup_in_place:
  assumes ok: "leaders_in_place db" and run: "deletePublisherGroup i c a db = (Inr x, db')"
  shows "leaders_in_place db'"
proof -
  let ?f = "\<lambda>m. m\<lparr>mem_publisherGroupId := None\<rparr>"
  obtain g where g: "find (is_group i c) (publisherGroups db) = Some g"
    using run by (auto simp: deletePublisherGroup_def split: option.splits)
  have groups: "publisherGroups db' = delete_where (is_group i c) (publisherGroups db)"
    and rows: "members db' = update_where (\<lambda>m. mem_publisherGroupId m = Some i) ?f (members db)"
    using run by (auto simp: deletePublisherGroup_def g group_audit_def)
  have "in_place db' h j" if h: "h \<in> set (publisherGroups db')" "leads h j" for h j
  proof -
    have k: "h \<in> set (publisherGroups db)" "\<not> is_group i c h" using h(1) unfolding groups by simp_all
    have "g \<in> set (publisherGroups db)" "is_group i c g" using find_Some_in [OF g] by simp_all
    then have id: "pg_id h \<noteq> i"
      using k group_unique [OF leaders_in_placeD(2) [OF ok] k(1), of g] by (auto simp: is_group_def)
    obtain m where m: "m \<in> set (members db)" "mem_id m = j" "mem_congregationId m = pg_congregationId h"
      "mem_publisherGroupId m = Some (pg_id h)"
      using leaders_in_placeD(3) [OF ok k(1) h(2)] by (auto simp: in_place_def)
    have "m \<in> set (members db')" unfolding rows by (rule update_where_keeps [OF m(1)]) (use m(4) id in simp)
    then show ?thesis using m by (auto simp: in_place_def)
  qed
  moreover have "map mem_id (members db') = map mem_id (members db)" unfolding rows by (rule map_update_where) simp
  moreover have "distinct (map pg_id (publisherGroups db'))"
    unfolding groups by (rule distinct_map_delete_where [OF leaders_in_placeD(2) [OF ok]])
  ultimately show ?thesis using leaders_in_placeD(1) [OF ok] by (simp add: leaders_in_place_def)
qed

lemma addGroupMember_in_place:
  assumes "leaders_in_place db" and "addGroupMember i c m a db = (Inr x, db')"
  shows "leaders_in_place db'"
  using assms(2) setGroup_in_place [OF assms(1)]
  by (auto simp: addGroupMember_def elim!: chain_InrE split: option.splits)

lemma removeGroupMember_in_place:
  assumes "leaders_in_place db" and "removeGroupMember i c m a db = (Inr x, db')"
  shows "leaders_in_place db'"
  using assms(2) setGroup_in_place [OF assms(1)]
  by (auto simp: removeGroupMember_def elim!: chain_InrE split: option.splits)

section \<open>Runs\<close>

text \<open>The transactions that commit; a failed one leaves the state as it was.\<close>

inductive group_step :: "env \<Rightarrow> db \<Rightarrow> db \<Rightarrow> bool" for ev where
  group_created: "createPublisherGroup ev c a p db = (Inr x, db') \<Longrightarrow> group_step ev db db'"
| group_updated: "updateGroup i c a p db = (Inr x, db') \<Longrightarrow> group_step ev db db'"
| group_deleted: "deletePublisherGroup i c a db = (Inr x, db') \<Longrightarrow> group_step ev db db'"
| member_added: "addGroupMember i c m a db = (Inr n, db') \<Longrightarrow> group_step ev db db'"
| member_removed: "removeGroupMember i c m a db = (Inr n, db') \<Longrightarrow> group_step ev db db'"
| member_moved: "setGroup m c g a db = (Inr u, db') \<Longrightarrow> group_step ev db db'"

lemma group_step_in_place: "group_step ev db db' \<Longrightarrow> fresh_keys ev \<Longrightarrow> leaders_in_place db \<Longrightarrow> leaders_in_place db'"
  by (cases rule: group_step.cases)
    (auto intro: createPublisherGroup_in_place updateGroup_in_place deletePublisherGroup_in_place addGroupMember_in_place
      removeGroupMember_in_place setGroup_in_place)

text \<open>
  C29. Whatever is done by the group pages and the member's own group choice (creating, editing and
  deleting a group, adding a member to one, removing one, \<^verbatim>\<open>setGroup\<close>), the overseer and the deputy of every
  group belong to it, and nobody leads two groups. The identity form of a member also writes the group,
  without these checks, and is not one of these operations: \<open>identity_form_moves_a_leader\<close>.
\<close>

theorem leaders_stay_in_their_group:
  assumes "(group_step ev)\<^sup>*\<^sup>* db db'" and "fresh_keys ev" and "leaders_in_place db"
    and "g \<in> set (publisherGroups db')" and "leads g i"
  shows "in_place db' g i \<and> filter (\<lambda>h. leads h i) (publisherGroups db') = [g]"
proof -
  have ok: "leaders_in_place db'"
    using assms(1) by (induction rule: rtranclp_induct) (auto intro: group_step_in_place assms(2,3))
  have "filter (\<lambda>h. leads h i) gs = (if g \<in> set gs then [g] else [])"
    if "set gs \<subseteq> set (publisherGroups db')" "distinct gs" for gs
    using that
  proof (induction gs)
    case (Cons h gs)
    have "leads h i \<longleftrightarrow> h = g" using leads_one [OF ok _ _ assms(4,5)] Cons.prems(1) assms(5) by auto
    then show ?case using Cons by auto
  qed simp
  moreover have "distinct (publisherGroups db')" using leaders_in_placeD(2) [OF ok] by (simp add: distinct_map)
  ultimately show ?thesis using leaders_in_placeD(3) [OF ok assms(4,5)] assms(4) by simp
qed

text \<open>Two brothers who may lead, and a group that the first one oversees.\<close>

definition sample_elder :: "int \<Rightarrow> int option \<Rightarrow> member" where
  "sample_elder i g = (sample_member i)\<lparr>mem_isHelder := True, mem_publisherGroupId := g\<rparr>"

definition sample_group :: "int \<Rightarrow> int \<Rightarrow> publisher_group" where
  "sample_group i r = \<lparr>pg_id = i, pg_name = ''Nord'', pg_adress = [], pg_responsibleId = r, pg_deputyId = None,
     pg_congregationId = 1\<rparr>"

definition sample_groups :: db where
  "sample_groups = empty_db\<lparr>members := [sample_elder 1 (Some 5), sample_elder 2 None], publisherGroups := [sample_group 5 1]\<rparr>"

lemmas sample_groups_defs = sample_groups_def sample_elder_def sample_group_def sample_member_def empty_db_def

lemma sample_groups_in_place: "leaders_in_place sample_groups"
  by (simp add: leaders_in_place_def in_place_def leads_def sample_groups_defs)

lemma leaders_stay_in_their_group_witness:
  "\<exists>db'. createPublisherGroup utc_env 1 9 \<lparr>gp_name = ''Sud'', gp_address = [], gp_responsibleId = 2, gp_deputyId = None\<rparr> sample_groups
       = (Inr (sample_group 6 2\<lparr>pg_name := ''Sud''\<rparr>), db') \<and>
     in_place db' (sample_group 5 1) 1 \<and> filter (\<lambda>h. leads h 1) (publisherGroups db') = [sample_group 5 1]"
proof -
  let ?p = "\<lparr>gp_name = ''Sud'', gp_address = [], gp_responsibleId = 2, gp_deputyId = None\<rparr>"
  have "\<exists>db'. createPublisherGroup utc_env 1 9 ?p sample_groups = (Inr (sample_group 6 2\<lparr>pg_name := ''Sud''\<rparr>), db') \<and>
      publisherGroups db' = [sample_group 5 1, sample_group 6 2\<lparr>pg_name := ''Sud''\<rparr>]"
    by (simp add: createPublisherGroup_def assertGroupLeaders_def assert_leader_def leads_elsewhere_def responsibleFor_def
      deputyFor_def GROUP_LEADER_WHERE_def is_member_def leaders_taken_def Let_def new_group_def joinLedGroup_def setGroup_def
      find_member_def led_group_def group_exists_def utc_env_def next_key_def group_audit_def sample_groups_defs member_audit_def
      write_member_def)
  then obtain db' where run: "createPublisherGroup utc_env 1 9 ?p sample_groups = (Inr (sample_group 6 2\<lparr>pg_name := ''Sud''\<rparr>), db')"
    and groups: "publisherGroups db' = [sample_group 5 1, sample_group 6 2\<lparr>pg_name := ''Sud''\<rparr>]" by blast
  have "(group_step utc_env)\<^sup>*\<^sup>* sample_groups db'" by (rule r_into_rtranclp) (rule group_step.group_created [OF run])
  moreover have "sample_group 5 1 \<in> set (publisherGroups db')" "leads (sample_group 5 1) 1"
    by (simp_all add: groups leads_def sample_group_def)
  ultimately show ?thesis
    using leaders_stay_in_their_group [OF _ fresh_utc_env sample_groups_in_place] run by blast
qed

text \<open>
  The identity form writes the group of a member without that rule: it takes the overseer out
  of his group, which the aggregate's own move refuses.
\<close>

theorem identity_form_moves_a_leader:
  "leaders_in_place sample_groups \<and>
   setGroup 1 1 None 9 sample_groups = (Inl (ConflictError ''groups_members_error_leads_group''), sample_groups) \<and>
   (\<exists>m db'. updateIdentity (\<lambda>_. Date 0) 1 1 9
        \<lparr>ff_firstname = ''Ada'', ff_lastname = ''Martin'', ff_gender = ''male'', ff_birthDate = None,
         ff_baptismDate = Some ''1970-01-01'', ff_isHelder = True, ff_isServant = False, ff_isAnointed = False,
         ff_groupId = NoGroup, ff_phone = [], ff_address = [], ff_email = [], ff_arrivedAt = None\<rparr> sample_groups = (Inr m, db') \<and>
      publisherGroups db' = [sample_group 5 1] \<and> mem_publisherGroupId m = None \<and> \<not> leaders_in_place db')"
proof (intro conjI sample_groups_in_place)
  show "setGroup 1 1 None 9 sample_groups = (Inl (ConflictError ''groups_members_error_leads_group''), sample_groups)"
    by (simp add: setGroup_def find_member_def is_member_def led_group_def responsibleFor_def sample_groups_defs)
  let ?p = "\<lparr>ff_firstname = ''Ada'', ff_lastname = ''Martin'', ff_gender = ''male'', ff_birthDate = None,
         ff_baptismDate = Some ''1970-01-01'', ff_isHelder = True, ff_isServant = False, ff_isAnointed = False,
         ff_groupId = NoGroup, ff_phone = [], ff_address = [], ff_email = [], ff_arrivedAt = None\<rparr>"
  let ?f = "memberDataFromForm (\<lambda>_. Date 0) ?p"
  have found: "find_member 1 1 sample_groups = Some (sample_elder 1 (Some 5))"
    by (simp add: find_member_def is_member_def sample_groups_defs)
  have same: "\<not> haveIdentityFlagsChanged (sample_elder 1 (Some 5)) (?f (sample_elder 1 (Some 5)))"
    by (simp add: haveIdentityFlagsChanged_def memberDataFromForm_def form_date_def stored_date_def sample_elder_def sample_member_def)
  have free: "form_refused (\<lambda>_. Date 0) ?p (?f (sample_elder 1 (Some 5))) sample_groups = None"
    by (simp add: form_refused_def form_dates_def form_date_def row_refused_def member_check_def memberDataFromForm_def
      stored_date_def form_group_def group_exists_def sample_elder_def sample_member_def)
  let ?db = "member_audit ''publisher.updated'' 1 9 1 None (write_member 1 1 ?f sample_groups)"
  have run: "updateIdentity (\<lambda>_. Date 0) 1 1 9 ?p sample_groups = (Inr (?f (sample_elder 1 (Some 5))), ?db)"
    unfolding updateIdentity_def loadMemberIdentity_def found option.case sum.case free guard_by_simps Let_def
    using same by simp
  have groups: "publisherGroups ?db = [sample_group 5 1]"
    and rows: "members ?db = [?f (sample_elder 1 (Some 5)), sample_elder 2 None]"
    by (simp_all add: member_audit_def write_member_def sample_groups_def is_member_def sample_elder_def sample_member_def)
  have fields: "mem_publisherGroupId (?f (sample_elder 1 (Some 5))) = None" "mem_id (sample_elder 2 None) \<noteq> 1"
    by (simp_all add: memberDataFromForm_def form_group_def sample_elder_def sample_member_def)
  then have "\<not> in_place ?db (sample_group 5 1) 1" unfolding in_place_def rows by simp
  moreover have "leads (sample_group 5 1) 1" by (simp add: leads_def sample_group_def)
  ultimately have "\<not> leaders_in_place ?db" using leaders_in_placeD(3) [of ?db "sample_group 5 1" 1] groups by auto
  then show "\<exists>m db'. updateIdentity (\<lambda>_. Date 0) 1 1 9 ?p sample_groups = (Inr m, db') \<and>
      publisherGroups db' = [sample_group 5 1] \<and> mem_publisherGroupId m = None \<and> \<not> leaders_in_place db'"
    using run groups fields(1) by (intro exI conjI)
qed

end
