(* ===== verification/Inactive_Status.thy ===== *)
theory Inactive_Status
  imports Members
begin

text \<open>
  Monthly reports and the inactive flag
  (\<^verbatim>\<open>features/publishers/server/evaluate-inactive-status.server.ts\<close>,
  \<^verbatim>\<open>publisher-activity-mutations.server.ts\<close> and \<^verbatim>\<open>model/inactive.ts\<close>). The walk over the calendar
  is a loop without a syntactic bound: it returns an option, where \<open>None\<close> would be a loop that
  never ends.
\<close>

section \<open>The streak of missed reports\<close>

definition INACTIVE_STREAK_THRESHOLD :: nat where
  "INACTIVE_STREAK_THRESHOLD = 6"

record ActivityRow =
  ar_year :: int
  ar_month :: int
  ar_isPublisher :: bool
  ar_hours :: "int option"

record YearMonth =
  ym_year :: int
  ym_month :: int

definition ym_of :: "ActivityRow \<Rightarrow> YearMonth" where
  "ym_of r = \<lparr>ym_year = ar_year r, ym_month = ar_month r\<rparr>"

definition isMissedPreachReport :: "ActivityRow \<Rightarrow> bool" where
  "isMissedPreachReport r \<longleftrightarrow> \<not> ar_isPublisher r \<and> (case ar_hours r of None \<Rightarrow> True | Some h \<Rightarrow> h = 0)"

definition compareYm :: "YearMonth \<Rightarrow> YearMonth \<Rightarrow> int" where
  "compareYm a b = (if ym_year a \<noteq> ym_year b then ym_year a - ym_year b else ym_month a - ym_month b)"

definition previousMonth :: "YearMonth \<Rightarrow> YearMonth" where
  "previousMonth ym =
     (if ym_month ym = 0 then \<lparr>ym_year = ym_year ym - 1, ym_month = 11\<rparr>
      else \<lparr>ym_year = ym_year ym, ym_month = ym_month ym - 1\<rparr>)"

text \<open>The last row of a month wins in the map; the oldest missed month is kept on the way.\<close>

record ActivityIndex =
  ai_byMonth :: "YearMonth \<Rightarrow> ActivityRow option"
  ai_oldestMissed :: "YearMonth option"

definition index_row :: "ActivityRow \<Rightarrow> ActivityIndex \<Rightarrow> ActivityIndex" where
  "index_row r ix =
     (let ix = ix\<lparr>ai_byMonth := (ai_byMonth ix)(ym_of r \<mapsto> r)\<rparr>
      in if \<not> isMissedPreachReport r then ix
         else case ai_oldestMissed ix of
           None \<Rightarrow> ix\<lparr>ai_oldestMissed := Some (ym_of r)\<rparr>
         | Some o' \<Rightarrow> if compareYm (ym_of r) o' < 0 then ix\<lparr>ai_oldestMissed := Some (ym_of r)\<rparr> else ix)"

definition indexActivities :: "ActivityRow list \<Rightarrow> ActivityIndex" where
  "indexActivities activities = fold index_row activities \<lparr>ai_byMonth = Map.empty, ai_oldestMissed = None\<rparr>"

definition shouldIncludeMonth :: "YearMonth \<Rightarrow> ActivityIndex \<Rightarrow> bool" where
  "shouldIncludeMonth ym index =
     (case ai_byMonth index ym of
        Some row \<Rightarrow> isMissedPreachReport row
      | None \<Rightarrow> (case ai_oldestMissed index of Some o' \<Rightarrow> compareYm ym o' > 0 | None \<Rightarrow> False))"

partial_function (option) walk_from :: "ActivityIndex \<Rightarrow> YearMonth \<Rightarrow> YearMonth list option" where
  "walk_from index cursor =
     (if shouldIncludeMonth cursor index
      then Option.bind (walk_from index (previousMonth cursor)) (\<lambda>rest. Some (cursor # rest))
      else Some [])"

definition walkStreak :: "ActivityRow \<Rightarrow> ActivityIndex \<Rightarrow> YearMonth list option" where
  "walkStreak newest index = walk_from index (ym_of newest)"

definition computeStreakOnset :: "zone \<Rightarrow> ActivityRow list \<Rightarrow> jsdate option option" where
  "computeStreakOnset z activities =
     (case activities of
        [] \<Rightarrow> Some None
      | newest # _ \<Rightarrow>
          if \<not> isMissedPreachReport newest then Some None
          else
            (let index = indexActivities activities
             in if ai_oldestMissed index = None then Some None
                else Option.bind (walkStreak newest index) (\<lambda>streak.
                  if length streak < INACTIVE_STREAK_THRESHOLD then Some None
                  else
                    (let completing = streak ! (length streak - INACTIVE_STREAK_THRESHOLD)
                     in Some (Some (new_date z (ym_year completing) (ym_month completing + 1) 1))))))"

section \<open>The calendar of the walk\<close>

definition valid_month :: "YearMonth \<Rightarrow> bool" where
  "valid_month ym \<longleftrightarrow> 0 \<le> ym_month ym \<and> ym_month ym \<le> 11"

definition month_no :: "YearMonth \<Rightarrow> int" where
  "month_no ym = 12 * ym_year ym + ym_month ym"

definition month_at :: "int \<Rightarrow> YearMonth" where
  "month_at n = \<lparr>ym_year = n div 12, ym_month = n mod 12\<rparr>"

lemma month_at_no [simp]: "valid_month ym \<Longrightarrow> month_at (month_no ym) = ym"
  by (simp add: month_at_def month_no_def valid_month_def)

lemma month_no_at [simp]: "month_no (month_at n) = n"
  by (simp add: month_at_def month_no_def)

lemma valid_month_at [simp]: "valid_month (month_at n)"
  by (simp add: valid_month_def month_at_def)

lemma month_no_inj: "valid_month a \<Longrightarrow> valid_month b \<Longrightarrow> month_no a = month_no b \<Longrightarrow> a = b"
  by (metis month_at_no)

lemma previous_month_at: "previousMonth (month_at n) = month_at (n - 1)"
proof -
  define q r where "q = n div 12" and "r = n mod 12"
  have n: "n = 12 * q + r" "0 \<le> r" "r < 12" unfolding q_def r_def by simp_all
  have "(n - 1) div 12 = (if r = 0 then q - 1 else q) \<and> (n - 1) mod 12 = (if r = 0 then 11 else r - 1)"
  proof (cases "r = 0")
    case True
    then have "n - 1 = 12 * (q - 1) + 11" using n(1) by simp
    then show ?thesis
      using True int_div_pos_eq [of "n - 1" 12 "q - 1" 11] int_mod_pos_eq [of "n - 1" 12 "q - 1" 11] by simp
  next
    case False
    then have "n - 1 = 12 * q + (r - 1)" "0 \<le> r - 1" "r - 1 < 12" using n by simp_all
    then show ?thesis
      using False int_div_pos_eq [of "n - 1" 12 q "r - 1"] int_mod_pos_eq [of "n - 1" 12 q "r - 1"] by simp
  qed
  then show ?thesis by (simp add: previousMonth_def month_at_def q_def r_def)
qed

lemma compare_months:
  assumes "valid_month a" and "valid_month b"
  shows "compareYm a b < 0 \<longleftrightarrow> month_no a < month_no b" and "compareYm a b > 0 \<longleftrightarrow> month_no a > month_no b"
proof -
  have m: "0 \<le> ym_month a" "ym_month a \<le> 11" "0 \<le> ym_month b" "ym_month b \<le> 11"
    using assms by (simp_all add: valid_month_def)
  consider "ym_year a = ym_year b" | "ym_year a < ym_year b" | "ym_year b < ym_year a" by linarith
  then have "(compareYm a b < 0 \<longleftrightarrow> month_no a < month_no b) \<and> (compareYm a b > 0 \<longleftrightarrow> month_no a > month_no b)"
  proof cases
    case 1
    then show ?thesis by (simp add: compareYm_def month_no_def)
  next
    case 2
    then have "compareYm a b < 0" "month_no a < month_no b" using m by (simp_all add: compareYm_def month_no_def)
    then show ?thesis by linarith
  next
    case 3
    then have "compareYm a b > 0" "month_no a > month_no b" using m by (simp_all add: compareYm_def month_no_def)
    then show ?thesis by linarith
  qed
  then show "compareYm a b < 0 \<longleftrightarrow> month_no a < month_no b" and "compareYm a b > 0 \<longleftrightarrow> month_no a > month_no b"
    by simp_all
qed

section \<open>The walk ends\<close>

definition valid_rows :: "ActivityRow list \<Rightarrow> bool" where
  "valid_rows rows \<longleftrightarrow> (\<forall>r \<in> set rows. valid_month (ym_of r))"

definition row_no :: "ActivityRow \<Rightarrow> int" where
  "row_no r = month_no (ym_of r)"

text \<open>What the index holds: the last row of each month, and the oldest missed month.\<close>

lemma index_fold:
  "ai_byMonth (fold index_row rows ix) ym =
     (case find (\<lambda>r. ym_of r = ym) (rev rows) of Some r \<Rightarrow> Some r | None \<Rightarrow> ai_byMonth ix ym)"
proof (induction rows arbitrary: ix)
  case (Cons r rows)
  have one: "ai_byMonth (index_row r ix) ym = (if ym_of r = ym then Some r else ai_byMonth ix ym)"
    by (auto simp: index_row_def Let_def split: option.split)
  show ?case unfolding fold_simps rev.simps find_append Cons.IH one by (auto split: option.split)
qed simp

lemma index_byMonth: "ai_byMonth (indexActivities rows) ym = find (\<lambda>r. ym_of r = ym) (rev rows)"
  unfolding indexActivities_def index_fold by (simp split: option.split)

definition oldest_of :: "ActivityRow list \<Rightarrow> YearMonth option \<Rightarrow> bool" where
  "oldest_of rows x \<longleftrightarrow>
     (case x of
        None \<Rightarrow> \<forall>r \<in> set rows. \<not> isMissedPreachReport r
      | Some m \<Rightarrow> valid_month m \<and> (\<exists>r \<in> set rows. isMissedPreachReport r \<and> ym_of r = m) \<and>
          (\<forall>r \<in> set rows. isMissedPreachReport r \<longrightarrow> month_no m \<le> row_no r))"

lemma oldest_index: "valid_rows rows \<Longrightarrow> oldest_of rows (ai_oldestMissed (indexActivities rows))"
proof (induction rows rule: rev_induct)
  case Nil
  then show ?case by (simp add: oldest_of_def indexActivities_def)
next
  case (snoc r rows)
  have r: "valid_month (ym_of r)" and rest: "valid_rows rows" using snoc.prems by (simp_all add: valid_rows_def)
  have step: "indexActivities (rows @ [r]) = index_row r (indexActivities rows)" by (simp add: indexActivities_def)
  show ?case
  proof (cases "isMissedPreachReport r")
    case False
    then have "ai_oldestMissed (index_row r (indexActivities rows)) = ai_oldestMissed (indexActivities rows)"
      by (simp add: index_row_def Let_def)
    then show ?thesis using snoc.IH [OF rest] False unfolding step oldest_of_def by (auto split: option.splits)
  next
    case missed: True
    show ?thesis
    proof (cases "ai_oldestMissed (indexActivities rows)")
      case None
      then have "ai_oldestMissed (index_row r (indexActivities rows)) = Some (ym_of r)"
        using missed by (simp add: index_row_def Let_def)
      then show ?thesis
        using snoc.IH [OF rest] missed r None unfolding step oldest_of_def row_no_def by auto
    next
      case (Some m)
      have m: "valid_month m" "\<exists>r \<in> set rows. isMissedPreachReport r \<and> ym_of r = m"
        "\<forall>r \<in> set rows. isMissedPreachReport r \<longrightarrow> month_no m \<le> row_no r"
        using snoc.IH [OF rest] Some unfolding oldest_of_def by simp_all
      show ?thesis
      proof (cases "month_no (ym_of r) < month_no m")
        case True
        then have "ai_oldestMissed (index_row r (indexActivities rows)) = Some (ym_of r)"
          using missed Some compare_months(1) [OF r m(1)] by (simp add: index_row_def Let_def)
        then show ?thesis using m(3) missed r True unfolding step oldest_of_def row_no_def by fastforce
      next
        case False
        then have "ai_oldestMissed (index_row r (indexActivities rows)) = Some m"
          using missed Some compare_months(1) [OF r m(1)] by (simp add: index_row_def Let_def)
        then show ?thesis using m missed False unfolding step oldest_of_def row_no_def by auto
      qed
    qed
  qed
qed

text \<open>
  One report per month: the row of a month is the one the index finds. The walk then includes the
  month of a missed report, and a month without report after the oldest missed one.
\<close>

definition month_included :: "ActivityRow list \<Rightarrow> int \<Rightarrow> bool" where
  "month_included rows n \<longleftrightarrow>
     (if \<exists>r \<in> set rows. row_no r = n then \<exists>r \<in> set rows. row_no r = n \<and> isMissedPreachReport r
      else \<exists>r \<in> set rows. isMissedPreachReport r \<and> row_no r < n)"

lemma included_at:
  assumes valid: "valid_rows rows" and one: "distinct (map row_no rows)"
  shows "shouldIncludeMonth (month_at n) (indexActivities rows) \<longleftrightarrow> month_included rows n"
proof -
  let ?ix = "indexActivities rows"
  have same: "ym_of r = month_at n \<longleftrightarrow> row_no r = n" if "r \<in> set rows" for r
    using valid that unfolding valid_rows_def row_no_def by (metis month_at_no month_no_at)
  have uniq: "r = s" if "r \<in> set rows" "s \<in> set rows" "row_no r = row_no s" for r s
    using one that by (auto simp: distinct_map dest: inj_onD)
  show ?thesis
  proof (cases "ai_byMonth ?ix (month_at n)")
    case (Some row)
    then have row: "row \<in> set rows" "row_no row = n"
      using find_Some_in [of "\<lambda>r. ym_of r = month_at n" "rev rows" row] same unfolding index_byMonth by auto
    then show ?thesis using uniq Some by (auto simp: shouldIncludeMonth_def month_included_def)
  next
    case None
    then have none: "\<not> (\<exists>r \<in> set rows. row_no r = n)"
      using same unfolding index_byMonth find_None_iff_all by auto
    have "oldest_of rows (ai_oldestMissed ?ix)" by (rule oldest_index [OF valid])
    moreover have "compareYm (month_at n) m > 0 \<longleftrightarrow> month_no m < n" if "valid_month m" for m
      using compare_months(2) [of "month_at n" m] that by simp
    ultimately show ?thesis
      using None none unfolding shouldIncludeMonth_def month_included_def oldest_of_def
      by (auto split: option.splits simp: row_no_def intro: order.strict_trans1)
  qed
qed

text \<open>Nothing is included before the oldest missed report, so the walk ends.\<close>

lemma walk_from_months:
  assumes valid: "valid_rows rows" and one: "distinct (map row_no rows)"
  shows "\<exists>k. walk_from (indexActivities rows) (month_at n) = Some (map (\<lambda>j. month_at (n - int j)) [0..<k]) \<and>
     (\<forall>j < k. month_included rows (n - int j)) \<and> \<not> month_included rows (n - int k)"
proof -
  define low where "low = Min (insert n (row_no ` set rows))"
  have low: "low \<le> n" "\<And>r. r \<in> set rows \<Longrightarrow> low \<le> row_no r" by (simp_all add: low_def)
  have stop: "\<not> month_included rows (low - 1)"
  proof -
    have "row_no r \<noteq> low - 1" "\<not> row_no r < low - 1" if "r \<in> set rows" for r using low(2) [OF that] by linarith+
    then show ?thesis unfolding month_included_def by metis
  qed
  have run: "\<exists>k. walk_from (indexActivities rows) (month_at i) = Some (map (\<lambda>j. month_at (i - int j)) [0..<k]) \<and>
     (\<forall>j < k. month_included rows (i - int j)) \<and> \<not> month_included rows (i - int k)"
    if "i = low - 1 + int d" for i d
    using that
  proof (induction d arbitrary: i)
    case 0
    then have "walk_from (indexActivities rows) (month_at i) = Some []"
      using stop included_at [OF valid one, of i] by (subst walk_from.simps) simp
    then show ?case using stop 0 by (intro exI [of _ 0]) simp
  next
    case (Suc d)
    show ?case
    proof (cases "month_included rows i")
      case False
      then have "walk_from (indexActivities rows) (month_at i) = Some []"
        using included_at [OF valid one, of i] by (subst walk_from.simps) simp
      then show ?thesis using False by (intro exI [of _ 0]) simp
    next
      case True
      obtain k where k: "walk_from (indexActivities rows) (month_at (i - 1)) = Some (map (\<lambda>j. month_at (i - 1 - int j)) [0..<k])"
        "\<forall>j < k. month_included rows (i - 1 - int j)" "\<not> month_included rows (i - 1 - int k)"
        using Suc.IH [of "i - 1"] Suc.prems by auto
      have "map (\<lambda>j. month_at (i - int j)) [0..<Suc k] = month_at i # map (\<lambda>j. month_at (i - 1 - int j)) [0..<k]"
        by (simp add: upt_conv_Cons map_Suc_upt [symmetric] comp_def algebra_simps del: upt_Suc)
      then have "walk_from (indexActivities rows) (month_at i) = Some (map (\<lambda>j. month_at (i - int j)) [0..<Suc k])"
        using True included_at [OF valid one, of i] k(1) by (subst walk_from.simps) (simp add: previous_month_at)
      moreover have "\<forall>j < Suc k. month_included rows (i - int j)"
      proof (intro allI impI)
        fix j assume "j < Suc k"
        then show "month_included rows (i - int j)"
          using True k(2) by (cases j) (auto simp: algebra_simps)
      qed
      moreover have "\<not> month_included rows (i - int (Suc k))" using k(3) by (simp add: algebra_simps)
      ultimately show ?thesis by blast
    qed
  qed
  have "n = low - 1 + int (nat (n - low + 1))" using low(1) by simp
  then show ?thesis by (rule run)
qed

text \<open>Six months in a row are included exactly when none of their reports shows ministry and a missed
  report reaches back that far.\<close>

lemma six_included:
  assumes "distinct (map row_no rows)"
  shows "(\<forall>j < 6. month_included rows (n - int j)) \<longleftrightarrow>
     (\<exists>r \<in> set rows. isMissedPreachReport r \<and> row_no r \<le> n - 5) \<and>
     (\<forall>r \<in> set rows. n - 5 \<le> row_no r \<and> row_no r \<le> n \<longrightarrow> isMissedPreachReport r)"
    (is "?six \<longleftrightarrow> ?old \<and> ?clean")
proof
  have uniq: "r = s" if "r \<in> set rows" "s \<in> set rows" "row_no r = row_no s" for r s
    using assms that by (auto simp: distinct_map dest: inj_onD)
  assume six: ?six
  have old: ?old
  proof -
    have "month_included rows (n - 5)" using six [rule_format, of 5] by simp
    then show ?thesis unfolding month_included_def by (auto split: if_splits)
  qed
  moreover have ?clean
  proof (intro ballI impI)
    fix r assume r: "r \<in> set rows" "n - 5 \<le> row_no r \<and> row_no r \<le> n"
    then have "nat (n - row_no r) < 6" by linarith
    then have "month_included rows (n - int (nat (n - row_no r)))" using six by blast
    then have "month_included rows (row_no r)" using r(2) by simp
    then show "isMissedPreachReport r" using r(1) uniq unfolding month_included_def by (metis (full_types))
  qed
  ultimately show "?old \<and> ?clean" by blast
next
  assume r: "?old \<and> ?clean"
  then obtain o' where o': "o' \<in> set rows" "isMissedPreachReport o'" "row_no o' \<le> n - 5" by blast
  show ?six
  proof (intro allI impI)
    fix j :: nat assume j: "j < 6"
    show "month_included rows (n - int j)"
    proof (cases "\<exists>r \<in> set rows. row_no r = n - int j")
      case True
      then show ?thesis using r j unfolding month_included_def by auto
    next
      case False
      then have "row_no o' < n - int j" using o'(1,3) j by (cases "row_no o' = n - int j") auto
      then show ?thesis using False o'(1,2) unfolding month_included_def by auto
    qed
  qed
qed

text \<open>
  C30. The walk over the reports always ends. It finds a publisher inactive exactly when the newest
  six calendar months hold no report with ministry and a missed report lies in or before the
  first of them; the flag dates from the month after the sixth month of the streak.
\<close>

theorem inactive_after_six_missed_months:
  assumes "valid_rows (newest # rest)" and "distinct (map row_no (newest # rest))"
    and "list_all (\<lambda>r. row_no r < row_no newest) rest"
  shows "\<exists>onset. computeStreakOnset z (newest # rest) = Some onset \<and>
    ((onset \<noteq> None) = (isMissedPreachReport newest \<and>
       list_ex (\<lambda>r. isMissedPreachReport r \<and> row_no r \<le> row_no newest - 5) (newest # rest) \<and>
       list_all (\<lambda>r. row_no r < row_no newest - 5 \<or> isMissedPreachReport r) (newest # rest))) \<and>
    (onset = None \<or> (\<exists>first. onset = Some (new_date z (ym_year (month_at (first + 5))) (ym_month (month_at (first + 5)) + 1) 1) \<and>
       month_included (newest # rest) first \<and> \<not> month_included (newest # rest) (first - 1)))"
proof -
  let ?rows = "newest # rest" and ?n = "row_no newest"
  have upto: "row_no r \<le> ?n" if "r \<in> set ?rows" for r using assms(3) that by (auto simp: list_all_iff)
  have cond: "(\<forall>j < 6. month_included ?rows (?n - int j)) \<longleftrightarrow>
      list_ex (\<lambda>r. isMissedPreachReport r \<and> row_no r \<le> ?n - 5) ?rows \<and>
      list_all (\<lambda>r. row_no r < ?n - 5 \<or> isMissedPreachReport r) ?rows"
    unfolding six_included [OF assms(2)] list_ex_iff list_all_iff using upto by fastforce
  show ?thesis
  proof (cases "isMissedPreachReport newest")
    case False
    then show ?thesis by (simp add: computeStreakOnset_def)
  next
    case True
    obtain k where k: "walk_from (indexActivities ?rows) (month_at ?n) = Some (map (\<lambda>j. month_at (?n - int j)) [0..<k])"
      "\<forall>j < k. month_included ?rows (?n - int j)" "\<not> month_included ?rows (?n - int k)"
      using walk_from_months [OF assms(1,2)] by blast
    have "oldest_of ?rows (ai_oldestMissed (indexActivities ?rows))" by (rule oldest_index [OF assms(1)])
    then have missed: "ai_oldestMissed (indexActivities ?rows) \<noteq> None" using True unfolding oldest_of_def by (auto split: option.splits)
    have "ym_of newest = month_at ?n" using assms(1) by (simp add: row_no_def valid_rows_def)
    then have walk: "walkStreak newest (indexActivities ?rows) = Some (map (\<lambda>j. month_at (?n - int j)) [0..<k])"
      using k(1) by (simp add: walkStreak_def)
    have six: "6 \<le> k \<longleftrightarrow> (\<forall>j < 6. month_included ?rows (?n - int j))"
      using k(2,3) by (metis less_le_trans linorder_not_less)
    show ?thesis
    proof (cases "6 \<le> k")
      case False
      then have "computeStreakOnset z ?rows = Some None"
        using True missed walk by (simp add: computeStreakOnset_def Let_def INACTIVE_STREAK_THRESHOLD_def)
      then show ?thesis using six False cond True by simp
    next
      case six_k: True
      let ?first = "?n - int k + 1"
      have at: "month_at (?n - int (k - 6)) = month_at (?first + 5)" using six_k by (simp add: of_nat_diff algebra_simps)
      have "computeStreakOnset z ?rows =
          Some (Some (new_date z (ym_year (month_at (?first + 5))) (ym_month (month_at (?first + 5)) + 1) 1))"
        using True missed walk six_k unfolding computeStreakOnset_def Let_def INACTIVE_STREAK_THRESHOLD_def at [symmetric]
        by (simp add: nth_upt)
      moreover have "month_included ?rows ?first"
        using k(2) [rule_format, of "k - 1"] six_k by (simp add: of_nat_diff algebra_simps)
      moreover have "\<not> month_included ?rows (?first - 1)" using k(3) by simp
      ultimately show ?thesis using six six_k cond True by blast
    qed
  qed
qed

text \<open>Six missed reports in a row.\<close>

definition missed_report :: "int \<Rightarrow> int \<Rightarrow> ActivityRow" where
  "missed_report y m = \<lparr>ar_year = y, ar_month = m, ar_isPublisher = False, ar_hours = Some 0\<rparr>"

lemma inactive_after_six_missed_months_witness:
  "\<exists>d. computeStreakOnset utc (map (missed_report 2025) [7, 6, 5, 4, 3, 2]) = Some (Some d)"
proof -
  have rows: "map (missed_report 2025) [7, 6, 5, 4, 3, 2] = missed_report 2025 7 # map (missed_report 2025) [6, 5, 4, 3, 2]"
    by simp
  have ok: "valid_rows (map (missed_report 2025) [7, 6, 5, 4, 3, 2])" "distinct (map row_no (map (missed_report 2025) [7, 6, 5, 4, 3, 2]))"
    "list_all (\<lambda>r. row_no r < row_no (missed_report 2025 7)) (map (missed_report 2025) [6, 5, 4, 3, 2])"
    "isMissedPreachReport (missed_report 2025 7)"
    "list_ex (\<lambda>r. isMissedPreachReport r \<and> row_no r \<le> row_no (missed_report 2025 7) - 5) (map (missed_report 2025) [7, 6, 5, 4, 3, 2])"
    "list_all (\<lambda>r. row_no r < row_no (missed_report 2025 7) - 5 \<or> isMissedPreachReport r) (map (missed_report 2025) [7, 6, 5, 4, 3, 2])"
    by (simp_all add: valid_rows_def missed_report_def row_no_def ym_of_def valid_month_def month_no_def isMissedPreachReport_def)
  show ?thesis
    using inactive_after_six_missed_months [of "missed_report 2025 7" "map (missed_report 2025) [6, 5, 4, 3, 2]" utc]
      ok unfolding rows by fastforce
qed

section \<open>Evaluation after a report\<close>

datatype EvaluateInactiveStatusTrigger = ActivityCreated | ActivityUpdated | ActivityDeleted

definition trigger_name :: "EvaluateInactiveStatusTrigger \<Rightarrow> string" where
  "trigger_name t =
     (case t of ActivityCreated \<Rightarrow> ''activity-created'' | ActivityUpdated \<Rightarrow> ''activity-updated''
      | ActivityDeleted \<Rightarrow> ''activity-deleted'')"

record TriggeringActivity =
  ta_isPublisher :: bool
  ta_hours :: "int option"

definition isHoursReport :: "TriggeringActivity option \<Rightarrow> bool" where
  "isHoursReport activity =
     (case activity of None \<Rightarrow> False
      | Some a \<Rightarrow> ta_isPublisher a \<and> (case ta_hours a of Some h \<Rightarrow> h > 0 | None \<Rightarrow> False))"

definition activity_row :: "publisher_activity \<Rightarrow> ActivityRow" where
  "activity_row p = \<lparr>ar_year = pa_year p, ar_month = pa_month p, ar_isPublisher = pa_isPublisher p, ar_hours = pa_hours p\<rparr>"

text \<open>Newest first; the order of two reports of a month is that of the rows.\<close>

definition newest_first :: "ActivityRow \<Rightarrow> ActivityRow \<Rightarrow> int" where
  "newest_first a b = compareYm (ym_of b) (ym_of a)"

definition activities_of :: "int \<Rightarrow> int \<Rightarrow> db \<Rightarrow> ActivityRow list" where
  "activities_of publisherId congregationId db =
     js_sort newest_first (map activity_row
       (filter (\<lambda>p. pa_publisherId p = publisherId \<and> pa_congregationId p = congregationId) (publisherActivities db)))"

definition setInactive :: "int \<Rightarrow> int \<Rightarrow> int \<Rightarrow> EvaluateInactiveStatusTrigger \<Rightarrow> jsdate \<Rightarrow> db \<Rightarrow> (db, unit) outcome" where
  "setInactive publisherId congregationId actorId trigger moment db =
     (case moment of
        InvalidDate \<Rightarrow> (Inl (DatabaseError InvalidValue), db)
      | Date t \<Rightarrow> chain (setLifecycle publisherId congregationId actorId Inactive (Some (trigger_name trigger)) t db)
                  (\<lambda>_ db. (Inr (), db)))"

definition clearInactive :: "int \<Rightarrow> int \<Rightarrow> int \<Rightarrow> EvaluateInactiveStatusTrigger \<Rightarrow> int \<Rightarrow> db \<Rightarrow> (db, unit) outcome" where
  "clearInactive publisherId congregationId actorId trigger now db =
     chain (setLifecycle publisherId congregationId actorId Active (Some (trigger_name trigger)) now db) (\<lambda>_ db. (Inr (), db))"

text \<open>\<open>None\<close>: the walk of the calendar never ends.\<close>

definition evaluateInactiveStatus ::
  "zone \<Rightarrow> int \<Rightarrow> int \<Rightarrow> int \<Rightarrow> EvaluateInactiveStatusTrigger \<Rightarrow> TriggeringActivity option \<Rightarrow> int \<Rightarrow> db \<Rightarrow>
     (db, unit) outcome option" where
  "evaluateInactiveStatus z publisherId congregationId actorId trigger triggering now db =
     (case find_member publisherId congregationId db of
        None \<Rightarrow> Some (Inr (), db)
      | Some m \<Rightarrow>
          if mem_leftAt m \<noteq> None \<or> \<not> mem_isPublisher m then Some (Inr (), db)
          else if mem_inactiveAt m \<noteq> None \<and> isHoursReport triggering
          then Some (clearInactive publisherId congregationId actorId trigger now db)
          else if mem_inactiveAt m \<noteq> None then Some (Inr (), db)
          else Option.bind (computeStreakOnset z (activities_of publisherId congregationId db)) (\<lambda>onset.
                 case onset of
                   None \<Rightarrow> Some (Inr (), db)
                 | Some d \<Rightarrow> Some (setInactive publisherId congregationId actorId trigger d db)))"

section \<open>Reports\<close>

record ActivityParams =
  ap_type :: PublisherType
  ap_isPublisher :: bool
  ap_hours :: int
  ap_studies :: int
  ap_notes :: string
  ap_creditHours :: "int option option"

definition activity_audit :: "string \<Rightarrow> int \<Rightarrow> int \<Rightarrow> int \<Rightarrow> (string \<times> json) list option \<Rightarrow> db \<Rightarrow> db" where
  "activity_audit action congregationId actorId i metadata =
     entity_audit action congregationId actorId ''PublisherActivity'' i metadata"

text \<open>The evaluation, then the row as the result.\<close>

definition returning :: "'a \<Rightarrow> (db, unit) outcome option \<Rightarrow> (db, 'a) outcome option" where
  "returning x r = map_option (\<lambda>r. chain r (\<lambda>_ db. (Inr x, db))) r"

definition createPublisherActivity ::
  "env \<Rightarrow> int \<Rightarrow> int \<Rightarrow> int \<Rightarrow> ActivityParams \<Rightarrow> int \<Rightarrow> int \<Rightarrow> int \<Rightarrow> db \<Rightarrow> (db, publisher_activity) outcome option" where
  "createPublisherActivity ev publisherId month year p congregationId actorId now db =
     (if publisherId \<notin> mem_id ` set (members db) then Some (Inl (DatabaseError ForeignKeyViolation), db)
      else
        (let r = \<lparr>pa_id = env_activity_id ev (publisherActivities db), pa_month = month, pa_year = year,
                  pa_publisherId = publisherId, pa_hours = Some (ap_hours p), pa_studies = ap_studies p,
                  pa_type = ap_type p, pa_isPublisher = ap_isPublisher p, pa_notes = ap_notes p,
                  pa_creditHours = None, pa_congregationId = congregationId\<rparr>;
             db = activity_audit ''publisher.activity.created'' congregationId actorId (pa_id r)
                    (Some [(''publisherId'', JNum publisherId), (''month'', JNum month), (''year'', JNum year)])
                    (db\<lparr>publisherActivities := publisherActivities db @ [r]\<rparr>)
         in returning r (evaluateInactiveStatus (env_zone ev) publisherId congregationId actorId ActivityCreated
              (Some \<lparr>ta_isPublisher = pa_isPublisher r, ta_hours = pa_hours r\<rparr>) now db)))"

definition is_activity :: "int \<Rightarrow> int \<Rightarrow> publisher_activity \<Rightarrow> bool" where
  "is_activity i congregationId r \<longleftrightarrow> pa_id r = i \<and> pa_congregationId r = congregationId"

text \<open>A credit left out is kept; the database refuses a negative one.\<close>

definition apply_activity :: "ActivityParams \<Rightarrow> publisher_activity \<Rightarrow> publisher_activity" where
  "apply_activity p r =
     r\<lparr>pa_type := ap_type p, pa_isPublisher := ap_isPublisher p, pa_hours := Some (ap_hours p),
       pa_studies := ap_studies p, pa_notes := ap_notes p,
       pa_creditHours := (case ap_creditHours p of None \<Rightarrow> pa_creditHours r | Some c \<Rightarrow> c)\<rparr>"

definition credit_refused :: "ActivityParams \<Rightarrow> bool" where
  "credit_refused p \<longleftrightarrow> (case ap_creditHours p of Some (Some c) \<Rightarrow> c < 0 | _ \<Rightarrow> False)"

definition updatePublisherActivity ::
  "env \<Rightarrow> int \<Rightarrow> int \<Rightarrow> int \<Rightarrow> ActivityParams \<Rightarrow> int \<Rightarrow> db \<Rightarrow> (db, publisher_activity) outcome option" where
  "updatePublisherActivity ev i congregationId actorId p now db =
     (case find (is_activity i congregationId) (publisherActivities db) of
        None \<Rightarrow> Some (Inl (DatabaseError RecordNotFound), db)
      | Some old \<Rightarrow>
          if credit_refused p then Some (Inl (DatabaseError InvalidValue), db)
          else
            (let r = apply_activity p old;
                 db = activity_audit ''publisher.activity.updated'' congregationId actorId i
                        (map_option (\<lambda>c. [(''creditHours'', json_opt c)]) (ap_creditHours p))
                        (db\<lparr>publisherActivities := update_where (is_activity i congregationId) (apply_activity p)
                            (publisherActivities db)\<rparr>)
             in returning r (evaluateInactiveStatus (env_zone ev) (pa_publisherId r) congregationId actorId ActivityUpdated
                  (Some \<lparr>ta_isPublisher = pa_isPublisher r, ta_hours = pa_hours r\<rparr>) now db)))"

definition deletePublisherActivity :: "env \<Rightarrow> int \<Rightarrow> int \<Rightarrow> int \<Rightarrow> int \<Rightarrow> db \<Rightarrow> (db, publisher_activity) outcome option" where
  "deletePublisherActivity ev i congregationId actorId now db =
     (case find (is_activity i congregationId) (publisherActivities db) of
        None \<Rightarrow> Some (Inl (DatabaseError RecordNotFound), db)
      | Some r \<Rightarrow>
          (let db = activity_audit ''publisher.activity.deleted'' congregationId actorId i None
                      (db\<lparr>publisherActivities := delete_where (is_activity i congregationId) (publisherActivities db)\<rparr>)
           in returning r (evaluateInactiveStatus (env_zone ev) (pa_publisherId r) congregationId actorId ActivityDeleted
                None now db)))"

text \<open>\<^verbatim>\<open>wasInactiveDuring\<close>: from the local month of the flag on.\<close>

definition wasInactiveDuring :: "zone \<Rightarrow> int option \<Rightarrow> int \<Rightarrow> int \<Rightarrow> bool" where
  "wasInactiveDuring z inactiveAt year month =
     (case inactiveAt of
        None \<Rightarrow> False
      | Some t \<Rightarrow>
          (case local_civil z t of (y, m, _) \<Rightarrow>
             if year > y then True else if year < y then False else month \<ge> m))"

text \<open>
  A report evaluated for a publisher who is flagged inactive clears the flag exactly when it
  shows ministry with hours; every other report, and every deletion, leaves the flag as it is.
\<close>

theorem only_hours_clear_the_inactive_flag:
  assumes "find_member i c db = Some m" and "mem_inactiveAt m \<noteq> None" and "mem_leftAt m = None" and "mem_isPublisher m"
  shows "\<exists>db' m'. evaluateInactiveStatus z i c a trig activity now db = Some (Inr (), db') \<and> find_member i c db' = Some m' \<and>
     mem_inactiveAt m' = (if isHoursReport activity then None else mem_inactiveAt m)"
proof (cases "isHoursReport activity")
  case True
  obtain db' where run: "setLifecycle i c a Active (Some (trigger_name trig)) now db = (Inr (lifecycle_row Active now m), db')"
    and row: "find_member i c db' = Some (lifecycle_row Active now m)"
    using setLifecycle_row [OF assms(1), of a Active "Some (trigger_name trig)" now] assms(2)
    by (auto simp: LIFECYCLE_MUTATION_def)
  have "mem_inactiveAt (lifecycle_row Active now m) = None"
    by (simp add: lifecycle_row_def arrivalUpdate_def LIFECYCLE_MUTATION_def)
  then show ?thesis
    using assms True run row by (simp add: evaluateInactiveStatus_def clearInactive_def)
next
  case False
  then show ?thesis using assms by (simp add: evaluateInactiveStatus_def)
qed

lemma only_hours_clear_the_inactive_flag_witness:
  "\<exists>db' m'. evaluateInactiveStatus utc 1 1 9 ActivityCreated (Some \<lparr>ta_isPublisher = True, ta_hours = Some 3\<rparr>) 0
       (empty_db\<lparr>members := [(sample_member 1)\<lparr>mem_inactiveAt := Some 5\<rparr>]\<rparr>) = Some (Inr (), db') \<and>
     find_member 1 1 db' = Some m' \<and> mem_inactiveAt m' = None"
proof -
  let ?db = "empty_db\<lparr>members := [(sample_member 1)\<lparr>mem_inactiveAt := Some 5\<rparr>]\<rparr>"
  have "find_member 1 1 ?db = Some ((sample_member 1)\<lparr>mem_inactiveAt := Some 5\<rparr>)"
    by (simp add: find_member_def is_member_def sample_member_def)
  then show ?thesis
    using only_hours_clear_the_inactive_flag [of 1 1 ?db "(sample_member 1)\<lparr>mem_inactiveAt := Some 5\<rparr>" utc 9 ActivityCreated
        "Some \<lparr>ta_isPublisher = True, ta_hours = Some 3\<rparr>" 0]
    by (simp add: sample_member_def isHoursReport_def)
qed

end
