(* ===== verification/Accounts.thy ===== *)
theory Accounts
  imports Members Role_Grants
begin

text \<open>
  Logins: adding one to a member and removing it
  (\<^verbatim>\<open>features/publishers/server/link-account-to-member.server.ts\<close>,
  \<^verbatim>\<open>unlink-account-from-member.server.ts\<close>), and their edition, deletion, anonymization and link to a
  new member (\<^verbatim>\<open>features/settings/server\<close>). Password-reset tokens and board documents are outside the
  model; a fresh token and a random identifier are arguments. Reads of a transaction see the
  congregation's rows only; the checks on the last admin read every row.
\<close>

section \<open>Operations\<close>

definition is_account :: "int \<Rightarrow> int \<Rightarrow> user_account \<Rightarrow> bool" where
  "is_account i congregationId a \<longleftrightarrow> acc_id a = i \<and> acc_congregationId a = congregationId"

definition account_audit :: "string \<Rightarrow> int \<Rightarrow> int \<Rightarrow> int \<Rightarrow> (string \<times> json) list option \<Rightarrow> db \<Rightarrow> db" where
  "account_audit action congregationId actorId i metadata =
     entity_audit action congregationId actorId ''UserAccount'' i metadata"

definition lower_text :: "string \<Rightarrow> string" where
  "lower_text s = map (\<lambda>c. char_of (lower_latin1 (code c))) s"

definition email_used :: "string \<Rightarrow> (user_account \<Rightarrow> bool) \<Rightarrow> db \<Rightarrow> bool" where
  "email_used email scope db \<longleftrightarrow> (\<exists>a \<in> set (userAccounts db). scope a \<and> acc_email a = email)"

definition new_login :: "int \<Rightarrow> int \<Rightarrow> string \<Rightarrow> int \<Rightarrow> user_account" where
  "new_login i memberId email congregationId =
     \<lparr>acc_id = i, acc_memberId = Some memberId, acc_email = email, acc_firstname = None, acc_lastname = None,
      acc_password = [], acc_active = True, acc_emailVerifiedAt = None, acc_anonymizedAt = None,
      acc_congregationId = congregationId\<rparr>"

definition linkAccountToMember ::
  "env \<Rightarrow> string \<Rightarrow> int \<Rightarrow> string \<Rightarrow> int \<Rightarrow> int \<Rightarrow> db \<Rightarrow> (db, int \<times> string \<times> string) outcome" where
  "linkAccountToMember ev token memberId email congregationId actorId db =
     (case find_member memberId congregationId db of
        None \<Rightarrow> (Inl (NotFoundError ''Member'' None), db)
      | Some m \<Rightarrow>
          if account_of memberId db \<noteq> None then (Inl (ConflictError ''Member already has a linked account''), db)
          else
            (let normalizedEmail = lower_text email
             in if email_used normalizedEmail (\<lambda>a. acc_congregationId a = congregationId) db
                then (Inl (ConflictError ''Email already in use''), db)
                else if email_used normalizedEmail (\<lambda>_. True) db then (Inl (DatabaseError UniqueViolation), db)
                else
                  (let i = env_account_id ev (userAccounts db);
                       db = db\<lparr>userAccounts := userAccounts db @ [new_login i memberId normalizedEmail congregationId]\<rparr>
                   in (Inr (i, token, mem_firstname m),
                       account_audit ''account.linked_to_member'' congregationId actorId i
                         (Some [(''memberId'', JNum memberId)]) db))))"

text \<open>The assignments of a deleted account go with it.\<close>

definition delete_account_row :: "int \<Rightarrow> int \<Rightarrow> db \<Rightarrow> db" where
  "delete_account_row i congregationId db =
     drop_user_roles i (db\<lparr>userAccounts := delete_where (is_account i congregationId) (userAccounts db)\<rparr>)"

definition unlinkAccountFromMember :: "int \<Rightarrow> int \<Rightarrow> int \<Rightarrow> db \<Rightarrow> (db, (int \<times> string) option) outcome" where
  "unlinkAccountFromMember memberId congregationId actorId db =
     (case find_member memberId congregationId db of
        None \<Rightarrow> (Inl (NotFoundError ''Member'' None), db)
      | Some _ \<Rightarrow>
          (case account_of memberId db of
             None \<Rightarrow> (Inr None, db)
           | Some a \<Rightarrow>
               if find (is_account (acc_id a) congregationId) (userAccounts db) = None
               then (Inl (DatabaseError RecordNotFound), db)
               else (Inr (Some (acc_id a, acc_email a)),
                     account_audit ''account.unlinked_from_member'' congregationId actorId (acc_id a)
                       (Some [(''memberId'', JNum memberId), (''email'', JStr (acc_email a))])
                       (delete_account_row (acc_id a) congregationId db))))"

definition deleteAccount :: "int \<Rightarrow> int \<Rightarrow> int \<Rightarrow> db \<Rightarrow> (db, int \<times> int option) outcome" where
  "deleteAccount accountId congregationId actorId db =
     (case find (is_account accountId congregationId) (userAccounts db) of
        None \<Rightarrow> (Inl (NotFoundError ''UserAccount'' None), db)
      | Some a \<Rightarrow>
          guard_by (requireNotLastAdmin db accountId congregationId) db
            (Inr (accountId, acc_memberId a),
             account_audit ''account.deleted'' congregationId actorId accountId
               (Some [(''email'', JStr (acc_email a)), (''memberId'', json_opt (acc_memberId a))])
               (delete_account_row accountId congregationId db)))"

definition write_account :: "int \<Rightarrow> int \<Rightarrow> (user_account \<Rightarrow> user_account) \<Rightarrow> db \<Rightarrow> db" where
  "write_account i congregationId f db =
     db\<lparr>userAccounts := update_where (is_account i congregationId) f (userAccounts db)\<rparr>"

definition anonymized_account :: "string \<Rightarrow> int \<Rightarrow> user_account \<Rightarrow> user_account" where
  "anonymized_account uuid now a =
     a\<lparr>acc_firstname := None, acc_lastname := None, acc_email := ''deleted-'' @ uuid @ ''@anonymized.local'',
       acc_password := [], acc_active := False, acc_anonymizedAt := Some now\<rparr>"

definition anonymizeAccount :: "string \<Rightarrow> int \<Rightarrow> int \<Rightarrow> int \<Rightarrow> int \<Rightarrow> db \<Rightarrow> (db, unit) outcome" where
  "anonymizeAccount uuid accountId congregationId actorId now db =
     (case find (is_account accountId congregationId) (userAccounts db) of
        None \<Rightarrow> (Inl (NotFoundError ''UserAccount'' None), db)
      | Some a \<Rightarrow>
          if acc_anonymizedAt a \<noteq> None then (Inl (ConflictError ''Account already anonymized''), db)
          else
            guard_by (requireNotLastAdmin db accountId congregationId) db
              (let db = write_account accountId congregationId (anonymized_account uuid now) db;
                   db = db\<lparr>userRoleAssignments := delete_where (\<lambda>r. ura_userId r = accountId \<and> ura_congregationId r = congregationId)
                              (userRoleAssignments db),
                           dataDeletionRecords := dataDeletionRecords db @
                             [\<lparr>ddr_entityType = ''UserAccount'', ddr_entityId = accountId, ddr_congregationId = congregationId,
                               ddr_requestedBy = ''admin:'' @ js_string actorId, ddr_completedAt = now\<rparr>]\<rparr>
               in (Inr (), account_audit ''user.anonymized'' congregationId actorId accountId None db)))"

record UpdateAccountParams =
  ua_firstname :: string
  ua_lastname :: string
  ua_email :: string
  ua_active :: bool

definition updated_account :: "UpdateAccountParams \<Rightarrow> bool \<Rightarrow> user_account \<Rightarrow> user_account" where
  "updated_account p hasLinkedMember a =
     a\<lparr>acc_firstname := (if hasLinkedMember then None else Some (ua_firstname p)),
       acc_lastname := (if hasLinkedMember then None else Some (ua_lastname p)),
       acc_email := lower_text (ua_email p), acc_active := ua_active p\<rparr>"

text \<open>The guard on the last admin runs for an account that is not known to be inactive.\<close>

definition updateAccount ::
  "int \<Rightarrow> int \<Rightarrow> int \<Rightarrow> UpdateAccountParams \<Rightarrow> string set \<Rightarrow> db \<Rightarrow> (db, unit) outcome" where
  "updateAccount userId congregationId actorId p actorPermissions db =
     guard_by (assertMayChangeAccountAccess db userId congregationId actorPermissions) db
       (let existing = find (is_account userId congregationId) (userAccounts db);
            memberId = Option.bind existing acc_memberId
        in guard_by (if \<not> ua_active p \<and> map_option acc_active existing \<noteq> Some False
                     then requireNotLastAdmin db userId congregationId else None) db
             (case existing of
                None \<Rightarrow> (Inl (DatabaseError RecordNotFound), db)
              | Some a \<Rightarrow>
                  if \<exists>b \<in> set (userAccounts db). acc_id b \<noteq> userId \<and> acc_email b = lower_text (ua_email p)
                  then (Inl (DatabaseError UniqueViolation), db)
                  else
                    chain
                      (case memberId of
                         None \<Rightarrow> (Inr (), write_account userId congregationId (updated_account p False) db)
                       | Some i \<Rightarrow>
                           chain (updateAccountName i congregationId actorId (ua_firstname p) (ua_lastname p)
                                    (write_account userId congregationId (updated_account p True) db))
                             (\<lambda>_ db. (Inr (), db)))
                      (\<lambda>_ db. (Inr (), account_audit ''user.updated'' congregationId actorId userId None db))))"

text \<open>\<^verbatim>\<open>linkMemberToAccount\<close>: the names fall back on those of the account.\<close>

definition linkMemberToAccount ::
  "env \<Rightarrow> CongregationLimits \<Rightarrow> uncounted \<Rightarrow> int \<Rightarrow> int \<Rightarrow> int \<Rightarrow> string option \<Rightarrow> string option \<Rightarrow> CreateDirectParams \<Rightarrow> db \<Rightarrow>
     (db, int \<times> int) outcome" where
  "linkMemberToAccount ev limits uc accountId congregationId actorId firstname lastname p db =
     (case find (is_account accountId congregationId) (userAccounts db) of
        None \<Rightarrow> (Inl (NotFoundError ''UserAccount'' None), db)
      | Some a \<Rightarrow>
          if acc_memberId a \<noteq> None then (Inl (ConflictError ''Account already has a linked Member''), db)
          else
            guard_by (errorIfWouldGoOverLimit limits uc congregationId LimitMembers db) db
              (let name = (\<lambda>given own. case given of Some s \<Rightarrow> s | None \<Rightarrow> (case own of Some s \<Rightarrow> s | None \<Rightarrow> []))
               in chain (createDirect ev congregationId actorId
                      (p\<lparr>cd_firstname := name firstname (acc_firstname a), cd_lastname := name lastname (acc_lastname a)\<rparr>) db)
                  (\<lambda>m db. (Inr (mem_id m, accountId),
                     account_audit ''account.linked_to_member'' congregationId actorId accountId
                       (Some [(''memberId'', JNum (mem_id m)), (''direction'', JStr ''account_to_member'')])
                       (write_account accountId congregationId
                          (\<lambda>a. a\<lparr>acc_memberId := Some (mem_id m), acc_firstname := None, acc_lastname := None\<rparr>) db)))))"

end
