(* ===== verification/Pioneer_Workflow.thy ===== *)
theory Pioneer_Workflow
  imports Built_In_Roles
begin

text \<open>
  The manager's actions on pioneer stints
  (\<^verbatim>\<open>features/publishers/server/pioneer-enrolment.workflow.ts\<close>): a write of the aggregate, then a sync
  of the identity roles of its member; and the end of every ongoing stint of a type.
\<close>

section \<open>Actions on one stint\<close>

definition syncMemberRoles :: "int \<Rightarrow> int \<Rightarrow> int \<Rightarrow> db \<Rightarrow> db" where
  "syncMemberRoles memberId congregationId actorId db =
     syncBuiltInRoleAssignments memberId congregationId (Some actorId) db"

definition then_sync :: "int \<Rightarrow> int \<Rightarrow> (db, pioneer_enrolment) outcome \<Rightarrow> (db, pioneer_enrolment) outcome" where
  "then_sync congregationId actorId r =
     chain r (\<lambda>e db. (Inr e, syncMemberRoles (pe_memberId e) congregationId actorId db))"

definition enrolPioneer ::
  "env \<Rightarrow> int \<Rightarrow> int \<Rightarrow> int \<Rightarrow> OpenEnrolmentParams \<Rightarrow> db \<Rightarrow> (db, pioneer_enrolment) outcome" where
  "enrolPioneer ev memberId congregationId actorId params db =
     chain (openEnrolment ev memberId congregationId actorId params db)
       (\<lambda>e db. (Inr e, syncMemberRoles memberId congregationId actorId db))"

definition endPioneerEnrolment :: "int \<Rightarrow> int \<Rightarrow> int \<Rightarrow> int \<Rightarrow> int \<Rightarrow> db \<Rightarrow> (db, pioneer_enrolment) outcome" where
  "endPioneerEnrolment enrolmentId congregationId actorId endMonth endYear db =
     then_sync congregationId actorId (closeEnrolment enrolmentId congregationId actorId endMonth endYear db)"

definition updatePioneerEnrolment ::
  "int \<Rightarrow> int \<Rightarrow> int \<Rightarrow> UpdateEnrolmentParams \<Rightarrow> db \<Rightarrow> (db, pioneer_enrolment) outcome" where
  "updatePioneerEnrolment enrolmentId congregationId actorId params db =
     then_sync congregationId actorId (updateEnrolment enrolmentId congregationId actorId params db)"

definition removePioneerEnrolment :: "int \<Rightarrow> int \<Rightarrow> int \<Rightarrow> db \<Rightarrow> (db, pioneer_enrolment) outcome" where
  "removePioneerEnrolment enrolmentId congregationId actorId db =
     then_sync congregationId actorId (deleteEnrolment enrolmentId congregationId actorId db)"

section \<open>The end of a type of stint\<close>

definition ongoing_stint :: "int \<Rightarrow> PublisherType \<Rightarrow> pioneer_enrolment \<Rightarrow> bool" where
  "ongoing_stint congregationId t e \<longleftrightarrow>
     pe_congregationId e = congregationId \<and> pe_type e = t \<and> pe_endMonth e = None \<and> pe_endYear e = None"

definition started_by :: "int \<Rightarrow> int \<Rightarrow> pioneer_enrolment \<Rightarrow> bool" where
  "started_by endMonth endYear e \<longleftrightarrow> pe_startYear e * 12 + pe_startMonth e \<le> endYear * 12 + endMonth"

fun close_all :: "int \<Rightarrow> int \<Rightarrow> int \<Rightarrow> int \<Rightarrow> int list \<Rightarrow> db \<Rightarrow> (db, unit) outcome" where
  "close_all congregationId actorId endMonth endYear [] db = (Inr (), db)"
| "close_all congregationId actorId endMonth endYear (i # rest) db =
     chain (closeEnrolment i congregationId actorId endMonth endYear db)
       (\<lambda>_ db. close_all congregationId actorId endMonth endYear rest db)"

definition sync_all :: "int \<Rightarrow> int \<Rightarrow> int list \<Rightarrow> db \<Rightarrow> db" where
  "sync_all congregationId actorId memberIds db =
     fold (\<lambda>memberId. syncMemberRoles memberId congregationId actorId) memberIds db"

definition endOngoingEnrolmentsOfType ::
  "int \<Rightarrow> int \<Rightarrow> PublisherType \<Rightarrow> int \<Rightarrow> int \<Rightarrow> db \<Rightarrow> (db, nat \<times> int) outcome" where
  "endOngoingEnrolmentsOfType congregationId actorId t endMonth endYear db =
     (let allOngoing = filter (ongoing_stint congregationId t) (pioneerEnrolments db);
          ongoing = filter (started_by endMonth endYear) allOngoing
      in chain (close_all congregationId actorId endMonth endYear (map pe_id ongoing) db)
           (\<lambda>_ db. (Inr (length ongoing, int (length allOngoing) - int (length ongoing)),
                    sync_all congregationId actorId (js_set (map pe_memberId ongoing)) db)))"

section \<open>One action keeps the roles in line\<close>

text \<open>An aggregate write that changes the stints of at most the member it returns.\<close>

definition touches_one :: "int \<Rightarrow> db \<Rightarrow> (db, pioneer_enrolment) outcome \<Rightarrow> bool" where
  "touches_one c db r \<longleftrightarrow>
     roles (snd r) = roles db \<and> members (snd r) = members db \<and>
     memberRoleAssignments (snd r) = memberRoleAssignments db \<and>
     (case fst r of Inl _ \<Rightarrow> pioneerEnrolments (snd r) = pioneerEnrolments db
      | Inr e \<Rightarrow> (\<forall>j. j \<noteq> pe_memberId e \<longrightarrow> enrolments_of j c (snd r) = enrolments_of j c db))"

lemma then_sync_in_line:
  assumes keys: "people_keys db" and line: "roles_in_line c db" and one: "touches_one c db r"
  shows "roles_in_line c (snd (then_sync c a r))" and "people_keys (snd (then_sync c a r))"
proof -
  obtain x db' where r: "r = (x, db')" by (cases r)
  have same: "roles db' = roles db" "members db' = members db" "memberRoleAssignments db' = memberRoleAssignments db"
    using one unfolding touches_one_def r by simp_all
  have keys': "people_keys db'" using keys same by (simp add: people_keys_def)
  show "people_keys (snd (then_sync c a r))"
    using keys' unfolding r by (cases x) (simp_all add: then_sync_def syncMemberRoles_def)
  show "roles_in_line c (snd (then_sync c a r))"
  proof (cases x)
    case (Inl e)
    then have "pioneerEnrolments db' = pioneerEnrolments db" using one unfolding touches_one_def r by simp
    then show ?thesis
      using roles_in_line_cong [OF same(1,2) _ same(3)] line unfolding r Inl by (simp add: then_sync_def)
  next
    case (Inr e)
    have "in_line_for c db' m" if "m \<in> set (members db')" "mem_congregationId m = c" "mem_id m \<noteq> pe_memberId e" for m
    proof -
      have "enrolments_of (mem_id m) c db' = enrolments_of (mem_id m) c db"
        using one that(3) unfolding touches_one_def r Inr by simp
      moreover have "role_ids_of_member (mem_id m) db' = role_ids_of_member (mem_id m) db"
        unfolding role_ids_of_member_def same by (rule refl)
      ultimately have "in_line_for c db' m = in_line_for c db m" by (intro in_line_for_cong [OF same(1)])
      then show ?thesis using line that(1,2) same(2) by (simp add: roles_in_line_def)
    qed
    then have "roles_in_line c (syncBuiltInRoleAssignments (pe_memberId e) c (Some a) db')"
      by (rule roles_in_line_sync [OF keys'])
    then show ?thesis unfolding r Inr by (simp add: then_sync_def syncMemberRoles_def)
  qed
qed

text \<open>The keys of the stints are distinct, whatever their periods.\<close>

definition stint_keys :: "db \<Rightarrow> bool" where
  "stint_keys db \<longleftrightarrow> distinct (map pe_id (pioneerEnrolments db))"

lemma stint_keys_inj: "stint_keys db \<Longrightarrow> e \<in> set (pioneerEnrolments db) \<Longrightarrow> f \<in> set (pioneerEnrolments db) \<Longrightarrow>
    pe_id e = pe_id f \<Longrightarrow> e = f"
  unfolding stint_keys_def distinct_map by (auto dest: inj_onD)

lemma filter_update_other:
  assumes "\<And>r. r \<in> set rows \<Longrightarrow> p r \<Longrightarrow> \<not> P r \<and> \<not> P (f r)"
  shows "filter P (update_where p f rows) = filter P rows"
  using assms by (induction rows) auto

lemma filter_delete_other:
  assumes "\<And>r. r \<in> set rows \<Longrightarrow> p r \<Longrightarrow> \<not> P r"
  shows "filter P (delete_where p rows) = filter P rows"
  using assms by (induction rows) auto

lemma enrolments_of_update:
  assumes keys: "stint_keys db" and found: "find (is_stint i c) (pioneerEnrolments db) = Some e"
    and own: "pe_memberId (f e) = pe_memberId e" and j: "j \<noteq> pe_memberId e"
    and rows: "pioneerEnrolments db' = update_where (is_stint i c) f (pioneerEnrolments db)"
  shows "enrolments_of j d db' = enrolments_of j d db"
  unfolding enrolments_of_def rows
proof (rule filter_update_other)
  fix r assume r: "r \<in> set (pioneerEnrolments db)" "is_stint i c r"
  have "e \<in> set (pioneerEnrolments db)" "is_stint i c e" using find_Some_in [OF found] by simp_all
  then have "r = e" using stint_keys_inj [OF keys r(1)] r(2) by (simp add: is_stint_def)
  then show "\<not> (pe_memberId r = j \<and> pe_congregationId r = d) \<and> \<not> (pe_memberId (f r) = j \<and> pe_congregationId (f r) = d)"
    using own j by simp
qed

lemma stint_keys_update:
  assumes "stint_keys db" and "\<And>r. pe_id (f r) = pe_id r"
    and "pioneerEnrolments db' = update_where p f (pioneerEnrolments db)"
  shows "stint_keys db'"
proof -
  have "map pe_id (update_where p f rows) = map pe_id rows" for rows by (induction rows) (simp_all add: assms(2))
  then show ?thesis using assms(1,3) by (simp add: stint_keys_def)
qed

text \<open>Each operation of the aggregate writes the stints of the member of the stint it returns.\<close>

lemma updated_touches_one:
  assumes keys: "stint_keys db" and found: "find (is_stint i c) (pioneerEnrolments db) = Some e"
    and same: "roles db' = roles db" "members db' = members db" "memberRoleAssignments db' = memberRoleAssignments db"
    and rows: "pioneerEnrolments db' = update_where (is_stint i c) f (pioneerEnrolments db)"
    and f: "\<And>r. pe_id (f r) = pe_id r" "\<And>r. pe_memberId (f r) = pe_memberId r"
  shows "touches_one c db (Inr (f e), db')" and "stint_keys db'"
  using enrolments_of_update [OF keys found f(2) _ rows] stint_keys_update [OF keys f(1) rows] same f(2)
  by (simp_all add: touches_one_def)

lemma failed_touches_one: "touches_one c db (Inl err, db)"
  by (simp add: touches_one_def)

lemma open_touches_one:
  assumes keys: "stint_keys db" and fresh: "fresh_keys ev"
  shows "touches_one c db (openEnrolment ev memberId c a p db)" and "stint_keys (snd (openEnrolment ev memberId c a p db))"
proof -
  have "touches_one c db (openEnrolment ev memberId c a p db) \<and> stint_keys (snd (openEnrolment ev memberId c a p db))"
  proof (cases "openEnrolment ev memberId c a p db")
    case (Pair r db')
    show ?thesis
    proof (cases r)
      case (Inl e)
      show ?thesis unfolding Pair Inl openEnrolment_Inl [OF Pair [unfolded Inl]] using failed_touches_one keys by simp
    next
      case (Inr e)
      note run = openEnrolment_Inr [OF Pair [unfolded Inr]]
      have "enrolments_of j c db' = enrolments_of j c db" if "j \<noteq> pe_memberId e" for j
        using that unfolding enrolments_of_def run(5) by simp
      moreover have "pe_id e \<notin> pe_id ` set (pioneerEnrolments db)"
        using fresh unfolding run(1) by (simp add: new_stint_def fresh_keys_def)
      ultimately show ?thesis
        using run(5-8) keys unfolding Pair Inr by (simp add: touches_one_def stint_keys_def)
    qed
  qed
  then show "touches_one c db (openEnrolment ev memberId c a p db)" and "stint_keys (snd (openEnrolment ev memberId c a p db))"
    by simp_all
qed

lemma close_touches_one:
  assumes keys: "stint_keys db"
  shows "touches_one c db (closeEnrolment i c a m y db)" and "stint_keys (snd (closeEnrolment i c a m y db))"
proof -
  have "touches_one c db (closeEnrolment i c a m y db) \<and> stint_keys (snd (closeEnrolment i c a m y db))"
  proof (cases "closeEnrolment i c a m y db")
    case (Pair r db')
    show ?thesis
    proof (cases r)
      case (Inl e)
      show ?thesis unfolding Pair Inl closeEnrolment_Inl [OF Pair [unfolded Inl]] using failed_touches_one keys by simp
    next
      case (Inr x)
      obtain e where run: "find (is_stint i c) (pioneerEnrolments db) = Some e"
        "x = e\<lparr>pe_endMonth := Some m, pe_endYear := Some y\<rparr>"
        "pioneerEnrolments db' = update_where (is_stint i c) (\<lambda>e. e\<lparr>pe_endMonth := Some m, pe_endYear := Some y\<rparr>) (pioneerEnrolments db)"
        "members db' = members db" "roles db' = roles db" "memberRoleAssignments db' = memberRoleAssignments db"
        using Pair [unfolded Inr] by (rule closeEnrolment_Inr)
      show ?thesis
        using updated_touches_one [OF keys run(1,5,4,6,3)] unfolding Pair Inr run(2) by simp
    qed
  qed
  then show "touches_one c db (closeEnrolment i c a m y db)" and "stint_keys (snd (closeEnrolment i c a m y db))"
    by simp_all
qed

lemma update_touches_one:
  assumes keys: "stint_keys db"
  shows "touches_one c db (updateEnrolment i c a p db)" and "stint_keys (snd (updateEnrolment i c a p db))"
proof -
  have "touches_one c db (updateEnrolment i c a p db) \<and> stint_keys (snd (updateEnrolment i c a p db))"
  proof (cases "find (is_stint i c) (pioneerEnrolments db)")
    case None
    then show ?thesis using keys failed_touches_one by (simp add: updateEnrolment_def)
  next
    case (Some e)
    show ?thesis
    proof (cases "orelse (assertEndBoundsPaired (ue_endMonth p) (ue_endYear p))
        (assertNoOverlap db (pe_memberId e) c (update_range p) (Some i))")
      case None
      let ?db' = "stint_audit ''pioneer_enrolment.updated'' c a i None
        (db\<lparr>pioneerEnrolments := update_where (is_stint i c) (apply_stint_params p) (pioneerEnrolments db)\<rparr>)"
      have run: "updateEnrolment i c a p db = (Inr (apply_stint_params p e), ?db')"
        using None \<open>find _ _ = Some e\<close> by (simp add: updateEnrolment_def update_stint_def)
      show ?thesis
        unfolding run snd_conv
        using updated_touches_one [OF keys \<open>find _ _ = Some e\<close>, of ?db' "apply_stint_params p"]
        by (simp add: apply_stint_params_def)
    next
      case (Some err)
      then show ?thesis using \<open>find _ _ = Some e\<close> keys failed_touches_one by (simp add: updateEnrolment_def)
    qed
  qed
  then show "touches_one c db (updateEnrolment i c a p db)" and "stint_keys (snd (updateEnrolment i c a p db))"
    by simp_all
qed

lemma delete_touches_one:
  assumes keys: "stint_keys db"
  shows "touches_one c db (deleteEnrolment i c a db)" and "stint_keys (snd (deleteEnrolment i c a db))"
proof -
  have "touches_one c db (deleteEnrolment i c a db) \<and> stint_keys (snd (deleteEnrolment i c a db))"
  proof (cases "find (is_stint i c) (pioneerEnrolments db)")
    case None
    then show ?thesis using keys failed_touches_one by (simp add: deleteEnrolment_def)
  next
    case (Some e)
    have e: "e \<in> set (pioneerEnrolments db)" "is_stint i c e" using find_Some_in [OF Some] by simp_all
    have only: "r = e" if "r \<in> set (pioneerEnrolments db)" "is_stint i c r" for r
      using stint_keys_inj [OF keys that(1) e(1)] that(2) e(2) by (simp add: is_stint_def)
    have "filter (\<lambda>e. pe_memberId e = j \<and> pe_congregationId e = c) (delete_where (is_stint i c) (pioneerEnrolments db)) =
        filter (\<lambda>e. pe_memberId e = j \<and> pe_congregationId e = c) (pioneerEnrolments db)" if "j \<noteq> pe_memberId e" for j
      by (rule filter_delete_other) (use only that in blast)
    then show ?thesis
      using Some keys by (simp add: deleteEnrolment_def touches_one_def enrolments_of_def stint_keys_def distinct_map_delete_where)
  qed
  then show "touches_one c db (deleteEnrolment i c a db)" and "stint_keys (snd (deleteEnrolment i c a db))"
    by simp_all
qed

section \<open>The end of every ongoing stint of a type\<close>

definition ends_at :: "int \<Rightarrow> int \<Rightarrow> pioneer_enrolment \<Rightarrow> pioneer_enrolment" where
  "ends_at m y e = e\<lparr>pe_endMonth := Some m, pe_endYear := Some y\<rparr>"

lemma ends_at_fields [simp]:
  "pe_id (ends_at m y e) = pe_id e" "pe_memberId (ends_at m y e) = pe_memberId e"
  "pe_congregationId (ends_at m y e) = pe_congregationId e" "pe_startMonth (ends_at m y e) = pe_startMonth e"
  "pe_startYear (ends_at m y e) = pe_startYear e" "ends_at m y (ends_at m y e) = ends_at m y e"
  by (simp_all add: ends_at_def)

lemma started_by_abs: "started_by m y e \<longleftrightarrow> absMonth (pe_startMonth e) (pe_startYear e) \<le> absMonth m y"
  by (simp add: started_by_def absMonth_def MONTHS_IN_YEAR_def)

lemma close_runs:
  assumes keys: "stint_keys db" and e: "e \<in> set (pioneerEnrolments db)" "pe_congregationId e = c" "started_by m y e"
  shows "\<exists>x db'. closeEnrolment (pe_id e) c a m y db = (Inr x, db') \<and>
     pioneerEnrolments db' = update_where (is_stint (pe_id e) c) (ends_at m y) (pioneerEnrolments db)"
proof -
  have "find (is_stint (pe_id e) c) (pioneerEnrolments db) \<noteq> None"
    using e(1,2) by (auto simp: find_None_iff_all is_stint_def)
  then obtain f where f: "find (is_stint (pe_id e) c) (pioneerEnrolments db) = Some f" by blast
  then have "f = e"
    using find_Some_in [OF f] stint_keys_inj [OF keys _ e(1)] by (simp add: is_stint_def)
  then show ?thesis
    using f e(3) unfolding started_by_abs by (simp add: closeEnrolment_def update_stint_def ends_at_def [abs_def])
qed

lemma update_where_insert:
  "update_where (\<lambda>r. pe_id r \<in> set (i # rest) \<and> pe_congregationId r = c) (ends_at m y) rows =
   update_where (\<lambda>r. pe_id r \<in> set rest \<and> pe_congregationId r = c) (ends_at m y)
     (update_where (is_stint i c) (ends_at m y) rows)"
  by (induction rows) (auto simp: is_stint_def)

lemma close_all_runs:
  assumes "stint_keys db"
    and "\<forall>i \<in> set ids. \<exists>e \<in> set (pioneerEnrolments db). pe_id e = i \<and> pe_congregationId e = c \<and> started_by m y e"
  shows "\<exists>db'. close_all c a m y ids db = (Inr (), db') \<and>
     pioneerEnrolments db' =
       update_where (\<lambda>r. pe_id r \<in> set ids \<and> pe_congregationId r = c) (ends_at m y) (pioneerEnrolments db) \<and>
     roles db' = roles db \<and> members db' = members db \<and> memberRoleAssignments db' = memberRoleAssignments db"
  using assms
proof (induction ids arbitrary: db)
  case Nil
  then show ?case by (simp add: update_where_none)
next
  case (Cons i rest)
  obtain e where e: "e \<in> set (pioneerEnrolments db)" "pe_id e = i" "pe_congregationId e = c" "started_by m y e"
    using Cons.prems(2) by auto
  obtain x db1 where run: "closeEnrolment i c a m y db = (Inr x, db1)"
    and rows: "pioneerEnrolments db1 = update_where (is_stint i c) (ends_at m y) (pioneerEnrolments db)"
    using close_runs [OF Cons.prems(1) e(1,3,4), of a] unfolding e(2) by blast
  have keys: "stint_keys db1" using close_touches_one(2) [OF Cons.prems(1), of i c a m y] run by simp
  have "touches_one c db (Inr x, db1)" using close_touches_one(1) [OF Cons.prems(1), of c i a m y] run by simp
  then have same: "roles db1 = roles db" "members db1 = members db" "memberRoleAssignments db1 = memberRoleAssignments db"
    by (simp_all add: touches_one_def)
  have "\<forall>j \<in> set rest. \<exists>f \<in> set (pioneerEnrolments db1). pe_id f = j \<and> pe_congregationId f = c \<and> started_by m y f"
  proof
    fix j assume "j \<in> set rest"
    then obtain f where f: "f \<in> set (pioneerEnrolments db)" "pe_id f = j" "pe_congregationId f = c" "started_by m y f"
      using Cons.prems(2) by auto
    let ?f = "if is_stint i c f then ends_at m y f else f"
    have "?f \<in> set (pioneerEnrolments db1)" unfolding rows set_update_where using f(1) by blast
    moreover have "pe_id ?f = j \<and> pe_congregationId ?f = c \<and> started_by m y ?f" using f by (simp add: started_by_def)
    ultimately show "\<exists>f \<in> set (pioneerEnrolments db1). pe_id f = j \<and> pe_congregationId f = c \<and> started_by m y f" by blast
  qed
  from Cons.IH [OF keys this] show ?case
    unfolding close_all.simps run chain_simps update_where_insert rows [symmetric] same .
qed

lemma sync_all_frame [simp]:
  "roles (sync_all c a ids db) = roles db" "members (sync_all c a ids db) = members db"
  "pioneerEnrolments (sync_all c a ids db) = pioneerEnrolments db" "people_keys (sync_all c a ids db) = people_keys db"
  by (induction ids arbitrary: db) (simp_all add: sync_all_def syncMemberRoles_def)

lemma sync_all_in_line:
  assumes "people_keys db"
    and "\<And>m. m \<in> set (members db) \<Longrightarrow> mem_congregationId m = c \<Longrightarrow> mem_id m \<notin> set ids \<Longrightarrow> in_line_for c db m"
  shows "roles_in_line c (sync_all c a ids db)"
  using assms
proof (induction ids arbitrary: db)
  case Nil
  then show ?case by (simp add: sync_all_def roles_in_line_def)
next
  case (Cons i rest)
  let ?db = "syncBuiltInRoleAssignments i c (Some a) db"
  have "roles_in_line c (sync_all c a rest ?db)"
  proof (rule Cons.IH)
    show "people_keys ?db" using Cons.prems(1) by simp
    fix m assume m: "m \<in> set (members ?db)" "mem_congregationId m = c" "mem_id m \<notin> set rest"
    show "in_line_for c ?db m"
      by (rule in_line_for_sync [OF Cons.prems(1)]) (use m Cons.prems(2) in simp_all)
  qed
  then show ?case by (simp add: sync_all_def syncMemberRoles_def)
qed

definition ends_with_type :: "int \<Rightarrow> PublisherType \<Rightarrow> int \<Rightarrow> int \<Rightarrow> pioneer_enrolment \<Rightarrow> bool" where
  "ends_with_type c t m y e \<longleftrightarrow> ongoing_stint c t e \<and> started_by m y e"

lemma mass_close:
  assumes keys: "stint_keys db"
  obtains db1 where
    "close_all c a m y (map pe_id (filter (started_by m y) (filter (ongoing_stint c t) (pioneerEnrolments db)))) db = (Inr (), db1)"
    and "pioneerEnrolments db1 = update_where (ends_with_type c t m y) (ends_at m y) (pioneerEnrolments db)"
    and "roles db1 = roles db" and "members db1 = members db" and "memberRoleAssignments db1 = memberRoleAssignments db"
proof -
  let ?ids = "map pe_id (filter (started_by m y) (filter (ongoing_stint c t) (pioneerEnrolments db)))"
  have ids: "\<forall>i \<in> set ?ids. \<exists>e \<in> set (pioneerEnrolments db). pe_id e = i \<and> pe_congregationId e = c \<and> started_by m y e"
    by (auto simp: ongoing_stint_def)
  have "update_where (\<lambda>r. pe_id r \<in> set ?ids \<and> pe_congregationId r = c) (ends_at m y) (pioneerEnrolments db) =
      update_where (ends_with_type c t m y) (ends_at m y) (pioneerEnrolments db)"
    unfolding update_where_def
  proof (rule map_cong [OF refl])
    fix r assume r: "r \<in> set (pioneerEnrolments db)"
    have "(pe_id r \<in> set ?ids \<and> pe_congregationId r = c) = ends_with_type c t m y r"
      using stint_keys_inj [OF keys r] r by (auto simp: ends_with_type_def ongoing_stint_def)
    then show "(if pe_id r \<in> set ?ids \<and> pe_congregationId r = c then ends_at m y r else r) =
        (if ends_with_type c t m y r then ends_at m y r else r)" by simp
  qed
  then show ?thesis using that close_all_runs [OF keys ids, of a] by metis
qed

text \<open>
  Ending every ongoing stint of a type never fails: the stints of that type that have begun by
  the given month end there, those dated ahead are left open and counted, and no other stint
  changes.
\<close>

theorem mass_close_never_fails:
  assumes "stint_keys db"
  shows "\<exists>closed skipped db'. endOngoingEnrolmentsOfType c a t m y db = (Inr (closed, skipped), db') \<and>
     pioneerEnrolments db' = update_where (ends_with_type c t m y) (ends_at m y) (pioneerEnrolments db) \<and>
     closed = length (filter (ends_with_type c t m y) (pioneerEnrolments db)) \<and>
     int closed + skipped = int (length (filter (ongoing_stint c t) (pioneerEnrolments db)))"
proof -
  obtain db1 where run:
    "close_all c a m y (map pe_id (filter (started_by m y) (filter (ongoing_stint c t) (pioneerEnrolments db)))) db = (Inr (), db1)"
    and rows: "pioneerEnrolments db1 = update_where (ends_with_type c t m y) (ends_at m y) (pioneerEnrolments db)"
    using mass_close [OF assms] by metis
  have "filter (started_by m y) (filter (ongoing_stint c t) (pioneerEnrolments db)) =
      filter (ends_with_type c t m y) (pioneerEnrolments db)"
    unfolding filter_filter by (rule filter_cong) (simp_all add: ends_with_type_def)
  then show ?thesis
    unfolding endOngoingEnrolmentsOfType_def Let_def run chain_simps using rows by simp
qed

lemma mass_close_never_fails_witness:
  "stint_keys sample_stints \<and>
   (\<exists>closed skipped db'. endOngoingEnrolmentsOfType 1 9 PionnierAuxiliaires 1 2025 sample_stints = (Inr (closed, skipped), db') \<and>
      closed = 0 \<and> skipped = 1)"
proof -
  have keys: "stint_keys sample_stints" by (simp add: stint_keys_def sample_stints_def sample_stint_def)
  have none: "filter (ends_with_type 1 PionnierAuxiliaires 1 2025) (pioneerEnrolments sample_stints) = []"
    and one: "filter (ongoing_stint 1 PionnierAuxiliaires) (pioneerEnrolments sample_stints) = [sample_stint 2 2 None]"
    by (simp_all add: sample_stints_def sample_stint_def ends_with_type_def ongoing_stint_def started_by_def)
  show ?thesis
    using mass_close_never_fails [OF keys, of 1 9 PionnierAuxiliaires 1 2025] keys unfolding none one
    by (elim exE conjE, intro exI conjI) simp_all
qed

section \<open>Every action keeps the roles in line\<close>

definition people_line :: "int \<Rightarrow> db \<Rightarrow> bool" where
  "people_line c db \<longleftrightarrow> people_keys db \<and> stint_keys db \<and> roles_in_line c db"

lemma stint_keys_then_sync: "stint_keys (snd r) \<Longrightarrow> stint_keys (snd (then_sync c a r))"
  by (cases r; cases "fst r") (auto simp: then_sync_def syncMemberRoles_def stint_keys_def)

lemma people_line_then_sync:
  assumes "people_line c db" and "touches_one c db r" and "stint_keys (snd r)"
  shows "people_line c (snd (then_sync c a r))"
  using assms then_sync_in_line [OF _ _ assms(2)] stint_keys_then_sync [OF assms(3)] by (simp add: people_line_def)

lemma enrolPioneer_then_sync: "enrolPioneer ev i c a p db = then_sync c a (openEnrolment ev i c a p db)"
proof (cases "openEnrolment ev i c a p db")
  case (Pair r db')
  show ?thesis
  proof (cases r)
    case (Inl e)
    then show ?thesis unfolding enrolPioneer_def then_sync_def Pair by simp
  next
    case (Inr e)
    then have "pe_memberId e = i" using openEnrolment_Inr(1) [OF Pair [unfolded Inr]] by (simp add: new_stint_def)
    then show ?thesis unfolding enrolPioneer_def then_sync_def Pair Inr by simp
  qed
qed

lemma people_line_mass_close:
  assumes "people_line c db"
  shows "people_line c (snd (endOngoingEnrolmentsOfType c a t m y db))"
proof -
  have keys: "people_keys db" "stint_keys db" and line: "roles_in_line c db" using assms by (simp_all add: people_line_def)
  let ?ended = "filter (started_by m y) (filter (ongoing_stint c t) (pioneerEnrolments db))"
  obtain db1 where run: "close_all c a m y (map pe_id ?ended) db = (Inr (), db1)"
    and rows: "pioneerEnrolments db1 = update_where (ends_with_type c t m y) (ends_at m y) (pioneerEnrolments db)"
    and same: "roles db1 = roles db" "members db1 = members db" "memberRoleAssignments db1 = memberRoleAssignments db"
    using mass_close [OF keys(2)] by metis
  have keys1: "people_keys db1" "stint_keys db1"
    using keys same stint_keys_update [OF keys(2) _ rows] by (simp_all add: people_keys_def)
  have other: "in_line_for c db1 x"
    if x: "x \<in> set (members db1)" "mem_congregationId x = c" "mem_id x \<notin> set (js_set (map pe_memberId ?ended))" for x
  proof -
    have "enrolments_of (mem_id x) c db1 = enrolments_of (mem_id x) c db"
      unfolding enrolments_of_def rows
    proof (rule filter_update_other)
      fix r assume "r \<in> set (pioneerEnrolments db)" "ends_with_type c t m y r"
      then have "pe_memberId r \<in> set (js_set (map pe_memberId ?ended))" by (auto simp: ends_with_type_def)
      then have "pe_memberId r \<noteq> mem_id x" using x(3) by metis
      then show "\<not> (pe_memberId r = mem_id x \<and> pe_congregationId r = c) \<and>
          \<not> (pe_memberId (ends_at m y r) = mem_id x \<and> pe_congregationId (ends_at m y r) = c)" by simp
    qed
    then have "in_line_for c db1 x = in_line_for c db x"
      by (intro in_line_for_cong [OF same(1)]) (simp_all add: role_ids_of_member_def same)
    then show ?thesis using line x(1,2) same(2) by (simp add: roles_in_line_def)
  qed
  have "roles_in_line c (sync_all c a (js_set (map pe_memberId ?ended)) db1)"
    by (rule sync_all_in_line [OF keys1(1) other])
  then show ?thesis
    using keys1 unfolding people_line_def endOngoingEnrolmentsOfType_def Let_def run
    by (simp add: stint_keys_def)
qed

end
