(* ===== verification/Member_Roles.thy ===== *)
theory Member_Roles
  imports Members Pioneer_Workflow
begin

text \<open>
  Identity roles through the life of a member: whatever is done to members and to their stints,
  by the aggregate of members or by the pioneer workflow, the stored identity roles are those the
  flags imply.
\<close>

section \<open>Writes of one member\<close>

definition row_keeper :: "(member \<Rightarrow> member) \<Rightarrow> bool" where
  "row_keeper f \<longleftrightarrow> (\<forall>m. mem_id (f m) = mem_id m \<and> mem_congregationId (f m) = mem_congregationId m)"

definition flag_keeper :: "(member \<Rightarrow> member) \<Rightarrow> bool" where
  "flag_keeper f \<longleftrightarrow> row_keeper f \<and> (\<forall>m t. member_flags (f m) t = member_flags m t)"

lemma write_member_frame [simp]:
  "roles (write_member i c f db) = roles db" "memberRoleAssignments (write_member i c f db) = memberRoleAssignments db"
  "pioneerEnrolments (write_member i c f db) = pioneerEnrolments db"
  "userAccounts (write_member i c f db) = userAccounts db" "userRoleAssignments (write_member i c f db) = userRoleAssignments db"
  "publisherGroups (write_member i c f db) = publisherGroups db"
  "publisherActivities (write_member i c f db) = publisherActivities db"
  "emergencyContacts (write_member i c f db) = emergencyContacts db"
  "members (write_member i c f db) = update_where (is_member i c) f (members db)"
  by (simp_all add: write_member_def)

lemma member_audit_frame [simp]:
  "roles (member_audit a c u i m db) = roles db" "memberRoleAssignments (member_audit a c u i m db) = memberRoleAssignments db"
  "pioneerEnrolments (member_audit a c u i m db) = pioneerEnrolments db" "members (member_audit a c u i m db) = members db"
  "userAccounts (member_audit a c u i m db) = userAccounts db"
  "userRoleAssignments (member_audit a c u i m db) = userRoleAssignments db"
  "publisherGroups (member_audit a c u i m db) = publisherGroups db"
  "publisherActivities (member_audit a c u i m db) = publisherActivities db"
  "emergencyContacts (member_audit a c u i m db) = emergencyContacts db"
  "dataDeletionRecords (member_audit a c u i m db) = dataDeletionRecords db"
  by (simp_all add: member_audit_def)

text \<open>People and their roles are read from four tables.\<close>

lemma people_line_cong:
  assumes "roles db' = roles db" and "members db' = members db" and "pioneerEnrolments db' = pioneerEnrolments db"
    and "memberRoleAssignments db' = memberRoleAssignments db"
  shows "people_line c db' = people_line c db"
  using roles_in_line_cong [OF assms, of c] assms by (simp add: people_line_def people_keys_def stint_keys_def)

lemma map_mem_id_update: "row_keeper f \<Longrightarrow> map mem_id (update_where p f rows) = map mem_id rows"
  by (induction rows) (simp_all add: row_keeper_def)

lemma in_line_for_flags:
  assumes "roles db' = roles db" and "memberRoleAssignments db' = memberRoleAssignments db"
    and "pioneerEnrolments db' = pioneerEnrolments db" and "mem_id m' = mem_id m"
    and "\<And>t. member_flags m' t = member_flags m t"
  shows "in_line_for c db' m' = in_line_for c db m"
  using assms unfolding in_line_for_def built_in_roles_def flags_of_def role_ids_of_member_def enrolments_of_def by simp

lemma people_line_write_sync:
  assumes line: "people_line c db" and f: "row_keeper f"
  shows "people_line c (syncBuiltInRoleAssignments i c a (write_member i c f db))"
proof -
  let ?db = "write_member i c f db"
  have keys: "people_keys ?db" "stint_keys ?db"
    using line map_mem_id_update [OF f] by (simp_all add: people_line_def people_keys_def stint_keys_def)
  have "in_line_for c ?db m" if m: "m \<in> set (members ?db)" "mem_congregationId m = c" "mem_id m \<noteq> i" for m
  proof -
    obtain r where r: "r \<in> set (members db)" "m = (if is_member i c r then f r else r)"
      using m(1) unfolding write_member_frame set_update_where by blast
    then have "m = r" using m(3) f by (auto simp: is_member_def row_keeper_def split: if_splits)
    then have "in_line_for c db m" using line r(1) m(2) by (simp add: people_line_def roles_in_line_def)
    then show ?thesis by (subst in_line_for_flags [where m = m]) simp_all
  qed
  then have "roles_in_line c (syncBuiltInRoleAssignments i c a ?db)" by (rule roles_in_line_sync [OF keys(1)])
  then show ?thesis using keys by (simp add: people_line_def stint_keys_def)
qed

lemma people_line_write:
  assumes line: "people_line c db" and f: "row_keeper f"
    and flags: "\<And>m t. m \<in> set (members db) \<Longrightarrow> is_member i c m \<Longrightarrow> member_flags (f m) t = member_flags m t"
  shows "people_line c (write_member i c f db)"
proof -
  let ?db = "write_member i c f db"
  have keys: "people_keys ?db" "stint_keys ?db"
    using line map_mem_id_update [OF f] by (simp_all add: people_line_def people_keys_def stint_keys_def)
  have "in_line_for c ?db m" if m: "m \<in> set (members ?db)" "mem_congregationId m = c" for m
  proof -
    obtain r where r: "r \<in> set (members db)" "m = (if is_member i c r then f r else r)"
      using m(1) unfolding write_member_frame set_update_where by blast
    have "mem_id m = mem_id r" "mem_congregationId m = mem_congregationId r"
      using r(2) f by (simp_all add: row_keeper_def)
    moreover have "member_flags m t = member_flags r t" for t using r flags by simp
    moreover have "in_line_for c db r" using line r(1) m(2) calculation(2) by (simp add: people_line_def roles_in_line_def)
    ultimately show ?thesis by (subst in_line_for_flags [where m = r]) simp_all
  qed
  then show ?thesis using keys by (simp add: people_line_def roles_in_line_def)
qed

lemma people_line_insert_sync:
  assumes line: "people_line c db" and fresh: "mem_id m \<notin> mem_id ` set (members db)"
  shows "people_line c (syncBuiltInRoleAssignments (mem_id m) c a (db\<lparr>members := members db @ [m]\<rparr>))"
proof -
  let ?db = "db\<lparr>members := members db @ [m]\<rparr>"
  have keys: "people_keys ?db" "stint_keys ?db"
    using line fresh by (auto simp: people_line_def people_keys_def stint_keys_def)
  have "in_line_for c ?db x" if x: "x \<in> set (members ?db)" "mem_congregationId x = c" "mem_id x \<noteq> mem_id m" for x
  proof -
    have "x \<in> set (members db)" using x(1,3) by auto
    then have "in_line_for c db x" using line x(2) by (simp add: people_line_def roles_in_line_def)
    then show ?thesis by (subst in_line_for_flags [where m = x]) simp_all
  qed
  then have "roles_in_line c (syncBuiltInRoleAssignments (mem_id m) c a ?db)" by (rule roles_in_line_sync [OF keys(1)])
  then show ?thesis using keys by (simp add: people_line_def stint_keys_def)
qed

section \<open>The operations\<close>

lemma people_line_audit [simp]: "people_line c (member_audit a d u i m db) = people_line c db"
  by (rule people_line_cong) simp_all

lemma people_line_createMember:
  assumes "people_line c db" and "fresh_keys ev"
  shows "people_line c (snd (createMember ev parse l uc p c a db))"
proof -
  let ?m = "(memberDataFromForm parse p (blank_member (env_member_id ev (members db)) c))\<lparr>mem_isPublisher := True\<rparr>"
  have "mem_id ?m = env_member_id ev (members db)" by (simp add: memberDataFromForm_def blank_member_def)
  moreover have "env_member_id ev (members db) \<notin> mem_id ` set (members db)" using assms(2) by (simp add: fresh_keys_def)
  ultimately have "people_line c (syncBuiltInRoleAssignments (env_member_id ev (members db)) c (Some a) (db\<lparr>members := members db @ [?m]\<rparr>))"
    using people_line_insert_sync [OF assms(1), of ?m "Some a"] by simp
  then show ?thesis
    unfolding createMember_def Let_def
    by (intro snd_guard_inv [where Q = "people_line c"] assms(1)) simp
qed

lemma people_line_createDirect:
  assumes "people_line c db" and "fresh_keys ev"
  shows "people_line c (snd (createDirect ev c a p db))"
proof -
  let ?m = "direct_member (env_member_id ev (members db)) c p"
  have "mem_id ?m = env_member_id ev (members db)" by (simp add: direct_member_def blank_member_def)
  moreover have "env_member_id ev (members db) \<notin> mem_id ` set (members db)" using assms(2) by (simp add: fresh_keys_def)
  ultimately have "people_line c (syncBuiltInRoleAssignments (env_member_id ev (members db)) c (Some a) (db\<lparr>members := members db @ [?m]\<rparr>))"
    using people_line_insert_sync [OF assms(1), of ?m "Some a"] by simp
  then show ?thesis
    unfolding createDirect_def Let_def
    by (intro snd_guard_inv [where Q = "people_line c"] assms(1)) simp
qed

lemma row_keeper_form: "row_keeper (memberDataFromForm parse p)"
  by (simp add: row_keeper_def memberDataFromForm_def)

lemma unchanged_flags:
  assumes "\<not> haveIdentityFlagsChanged m m'"
  shows "member_flags m' t = member_flags m t"
  using assms by (simp add: haveIdentityFlagsChanged_def member_flags_def)

lemma people_line_updateIdentity:
  assumes line: "people_line c db"
  shows "people_line c (snd (updateIdentity parse i c a p db))"
proof (cases "find_member i c db")
  case None
  then show ?thesis using line by (simp add: updateIdentity_def loadMemberIdentity_def)
next
  case (Some m)
  let ?f = "memberDataFromForm parse p"
  have only: "r = m" if "r \<in> set (members db)" "is_member i c r" for r
  proof -
    have "distinct (map mem_id (members db))" using line by (simp add: people_line_def people_keys_def)
    then have "find_member i c db = Some r" using that by (simp add: find_member_iff is_member_def)
    then show ?thesis using Some by simp
  qed
  have "people_line c (if haveIdentityFlagsChanged m (?f m)
      then syncBuiltInRoleAssignments i c (Some a) (write_member i c ?f db) else write_member i c ?f db)"
  proof (cases "haveIdentityFlagsChanged m (?f m)")
    case True
    then show ?thesis using people_line_write_sync [OF line row_keeper_form] by simp
  next
    case False
    have "people_line c (write_member i c ?f db)"
      by (rule people_line_write [OF line row_keeper_form]) (use only unchanged_flags [OF False] in blast)
    then show ?thesis using False by simp
  qed
  then show ?thesis
    unfolding updateIdentity_def loadMemberIdentity_def Some sum.case option.case
    by (intro snd_guard_inv [where Q = "people_line c"] line) (simp only: Let_def snd_conv people_line_audit)
qed

lemma people_line_togglePublisher:
  assumes "people_line c db"
  shows "people_line c (snd (togglePublisher i c b a db))"
proof (cases "find_member i c db")
  case None
  then show ?thesis using assms by (simp add: togglePublisher_def)
next
  case (Some m)
  show ?thesis
    unfolding togglePublisher_def Some option.case Let_def
    by (intro snd_guard_inv [where Q = "people_line c"] assms)
      (simp add: people_line_write_sync [OF assms] row_keeper_def)
qed

lemma row_keeper_lifecycle: "row_keeper (lifecycle_row st t)"
  by (cases st) (simp_all add: row_keeper_def lifecycle_row_def arrivalUpdate_def LIFECYCLE_MUTATION_def split: option.split)

lemma inactive_keeps_flags: "\<not> ls_syncsRoles (LIFECYCLE_MUTATION st) \<Longrightarrow> member_flags (lifecycle_row st t m) x = member_flags m x"
  by (cases st) (simp_all add: member_flags_def lifecycle_row_def arrivalUpdate_def LIFECYCLE_MUTATION_def)

lemma drop_user_roles_frame [simp]:
  "roles (drop_user_roles u db) = roles db" "members (drop_user_roles u db) = members db"
  "pioneerEnrolments (drop_user_roles u db) = pioneerEnrolments db"
  "memberRoleAssignments (drop_user_roles u db) = memberRoleAssignments db"
  "people_line c (drop_user_roles u db) = people_line c db"
  by (simp_all add: drop_user_roles_def people_line_cong [of "db\<lparr>userRoleAssignments := _\<rparr>" db])

lemma people_line_setLifecycle:
  assumes line: "people_line c db"
  shows "people_line c (snd (setLifecycle i c a st trig t db))"
proof -
  have "people_line c (if ls_syncsRoles (LIFECYCLE_MUTATION st)
      then syncBuiltInRoleAssignments i c (Some a) (write_member i c (lifecycle_row st t) db)
      else write_member i c (lifecycle_row st t) db)"
    using people_line_write_sync [OF line row_keeper_lifecycle] people_line_write [OF line row_keeper_lifecycle inactive_keeps_flags]
    by simp
  then show ?thesis
    using line by (auto simp: setLifecycle_def Let_def split: option.split)
qed

lemma people_line_updateAccountName:
  assumes "people_line c db"
  shows "people_line c (snd (updateAccountName i c a fn name db))"
  using assms people_line_write_sync [OF assms, of "account_name_row fn name" i "Some a"]
  by (simp add: updateAccountName_def Let_def row_keeper_def account_name_row_def split: option.split)

lemma people_line_setGroup:
  assumes "people_line c db"
  shows "people_line c (snd (setGroup i c g a db))"
  using assms people_line_write [OF assms, of "\<lambda>m. m\<lparr>mem_publisherGroupId := g\<rparr>" i]
  by (auto simp: setGroup_def row_keeper_def member_flags_def split: option.split)

lemma people_line_setLastPastoralVisit:
  assumes "people_line c db"
  shows "people_line c (snd (setLastPastoralVisit i c v a db))"
  using assms people_line_write [OF assms, of "\<lambda>m. m\<lparr>mem_lastPastoralVisitAt := v\<rparr>" i]
  by (auto simp: setLastPastoralVisit_def row_keeper_def member_flags_def split: option.split)

lemma purge_frame [simp]:
  "roles (purgeEmergencyContacts i c db) = roles db" "members (purgeEmergencyContacts i c db) = members db"
  "pioneerEnrolments (purgeEmergencyContacts i c db) = pioneerEnrolments db"
  "memberRoleAssignments (purgeEmergencyContacts i c db) = memberRoleAssignments db"
  "publisherGroups (purgeEmergencyContacts i c db) = publisherGroups db"
  "userAccounts (purgeEmergencyContacts i c db) = userAccounts db"
  "userRoleAssignments (purgeEmergencyContacts i c db) = userRoleAssignments db"
  by (simp_all add: purgeEmergencyContacts_def)

lemma clear_deputy_frame [simp]:
  "roles (clear_deputy i db) = roles db" "members (clear_deputy i db) = members db"
  "pioneerEnrolments (clear_deputy i db) = pioneerEnrolments db"
  "memberRoleAssignments (clear_deputy i db) = memberRoleAssignments db"
  "emergencyContacts (clear_deputy i db) = emergencyContacts db"
  "userAccounts (clear_deputy i db) = userAccounts db"
  "userRoleAssignments (clear_deputy i db) = userRoleAssignments db"
  by (simp_all add: clear_deputy_def)

lemma people_line_updateEmergencyInfo:
  assumes "people_line c db"
  shows "people_line c (snd (updateEmergencyInfo i c a b1 b2 cs db))"
proof (cases "find_member i c db")
  case None
  then show ?thesis using assms by (simp add: updateEmergencyInfo_def)
next
  case (Some m)
  let ?f = "\<lambda>m. m\<lparr>mem_dpaCardUpToDate := b1, mem_survivalBackpackReady := b2\<rparr>"
  have "people_line c (write_member i c ?f db)"
    by (rule people_line_write [OF assms]) (simp_all add: row_keeper_def member_flags_def)
  then show ?thesis
    unfolding updateEmergencyInfo_def Let_def Some option.case snd_conv people_line_audit
    by (rule people_line_cong [THEN iffD2, rotated 4]) simp_all
qed

lemma row_keeper_anonymized: "row_keeper (anonymized_row now)"
  by (simp add: row_keeper_def anonymized_row_def)

text \<open>The sync of an anonymized member runs after his contacts and deputyships are gone; it reads neither.\<close>

lemma people_line_anonymize:
  assumes line: "people_line c db"
  shows "people_line c (snd (anonymize i c a now db))"
proof (cases "find_member i c db")
  case None
  then show ?thesis using line by (simp add: anonymize_def)
next
  case (Some m)
  let ?w = "write_member i c (anonymized_row now) db"
  let ?db = "purgeEmergencyContacts i c (clear_deputy i ?w)"
  have w: "people_line c (syncBuiltInRoleAssignments i c None ?w)"
    by (rule people_line_write_sync [OF line row_keeper_anonymized])
  have same: "find_member i c ?db = find_member i c ?w" "built_in_roles c ?db = built_in_roles c ?w"
    "role_ids_of_member i ?db = role_ids_of_member i ?w" "flags_of r i c ?db = flags_of r i c ?w" for r
    by (simp_all add: find_member_def built_in_roles_def role_ids_of_member_def flags_of_def enrolments_of_def)
  have "memberRoleAssignments (syncBuiltInRoleAssignments i c None ?db) = memberRoleAssignments (syncBuiltInRoleAssignments i c None ?w)"
  proof (cases "find_member i c ?w")
    case None
    then show ?thesis using same(1) by (simp add: syncBuiltInRoleAssignments_def)
  next
    case (Some r)
    have "memberRoleAssignments (write_assignments i c x y ?db) = memberRoleAssignments (write_assignments i c x y ?w)" for x y
      by (simp add: write_assignments_def)
    then show ?thesis unfolding sync_rows [OF Some] sync_rows [OF Some [folded same(1)]] same by simp
  qed
  then have "people_line c (syncBuiltInRoleAssignments i c None ?db)"
    using w by (subst people_line_cong [where db = "syncBuiltInRoleAssignments i c None ?w"]) simp_all
  then have "people_line c (syncBuiltInRoleAssignments i c None ?db\<lparr>dataDeletionRecords := rs\<rparr>)" for rs
    by (subst people_line_cong [where db = "syncBuiltInRoleAssignments i c None ?db"]) simp_all
  then show ?thesis
    using line unfolding anonymize_def Some option.case Let_def
    by (cases "ensureMemberIsNotGroupResponsible i db") simp_all
qed

section \<open>Runs\<close>

inductive people_step :: "env \<Rightarrow> date_parser \<Rightarrow> int \<Rightarrow> db \<Rightarrow> db \<Rightarrow> bool" for ev parse c where
  created: "people_step ev parse c db (snd (createMember ev parse l uc p c a db))"
| created_direct: "people_step ev parse c db (snd (createDirect ev c a d db))"
| identity_edited: "people_step ev parse c db (snd (updateIdentity parse i c a p db))"
| publisher_toggled: "people_step ev parse c db (snd (togglePublisher i c b a db))"
| lifecycle_set: "people_step ev parse c db (snd (setLifecycle i c a st trig t db))"
| renamed: "people_step ev parse c db (snd (updateAccountName i c a fn name db))"
| regrouped: "people_step ev parse c db (snd (setGroup i c g a db))"
| visited: "people_step ev parse c db (snd (setLastPastoralVisit i c v a db))"
| emergency_edited: "people_step ev parse c db (snd (updateEmergencyInfo i c a b1 b2 cs db))"
| anonymized: "people_step ev parse c db (snd (anonymize i c a now db))"
| enrolled: "people_step ev parse c db (snd (enrolPioneer ev i c a oe db))"
| stint_ended: "people_step ev parse c db (snd (endPioneerEnrolment i c a m y db))"
| stint_updated: "people_step ev parse c db (snd (updatePioneerEnrolment i c a ue db))"
| stint_removed: "people_step ev parse c db (snd (removePioneerEnrolment i c a db))"
| type_ended: "people_step ev parse c db (snd (endOngoingEnrolmentsOfType c a ty m y db))"

lemmas people_line_operations =
  people_line_createMember people_line_createDirect people_line_updateIdentity people_line_togglePublisher
  people_line_setLifecycle people_line_updateAccountName people_line_setGroup people_line_setLastPastoralVisit
  people_line_updateEmergencyInfo people_line_anonymize people_line_mass_close

lemma people_line_step:
  assumes "people_step ev parse c db db'" and fresh: "fresh_keys ev" and line: "people_line c db"
  shows "people_line c db'"
proof -
  have keys: "stint_keys db" using line by (simp add: people_line_def)
  note stints = people_line_then_sync [OF line open_touches_one [OF keys fresh]]
    people_line_then_sync [OF line close_touches_one [OF keys]]
    people_line_then_sync [OF line update_touches_one [OF keys]]
    people_line_then_sync [OF line delete_touches_one [OF keys]]
  show ?thesis
    using assms(1)
    by (cases rule: people_step.cases)
      (simp_all add: people_line_operations [OF line] people_line_operations(1,2) [OF line fresh]
        enrolPioneer_then_sync endPioneerEnrolment_def updatePioneerEnrolment_def removePioneerEnrolment_def stints)
qed

text \<open>
  C27. However members are created, edited, renamed, moved between groups, marked as left, returned,
  inactive or active, visited, anonymized, and however their pioneer stints are opened, ended, edited
  and removed, every member holds exactly the identity roles that his flags and stints imply; who
  has left holds none.
\<close>

theorem identity_roles_follow_the_flags:
  assumes "(people_step ev parse c)\<^sup>*\<^sup>* db db'" and "fresh_keys ev" and "people_line c db"
    and "m \<in> set (members db')" and "mem_congregationId m = c"
  shows "list_all (\<lambda>r. (role_id r \<in> role_ids_of_member (mem_id m) db') =
           desired_key (flags_of m (mem_id m) c db') (role_key r)) (built_in_roles c db') \<and>
         (mem_leftAt m = None \<or> role_ids_of_member (mem_id m) db' \<inter> role_id ` set (built_in_roles c db') = {})"
proof -
  have "people_line c db'"
    using assms(1) by (induction rule: rtranclp_induct) (auto intro: people_line_step assms(2,3))
  then have line: "in_line_for c db' m" using assms(4,5) by (simp add: people_line_def roles_in_line_def)
  have "\<not> desired_key (flags_of m (mem_id m) c db') k" if "mem_leftAt m \<noteq> None" for k
    using that by (simp add: desired_key_def BUILT_IN_ROLE_PREDICATES_def flags_of_def member_flags_def)
  then have "role_ids_of_member (mem_id m) db' \<inter> role_id ` set (built_in_roles c db') = {}" if "mem_leftAt m \<noteq> None"
    using line that by (auto simp: in_line_for_def)
  then show ?thesis using line by (auto simp: in_line_for_def list_all_iff)
qed

text \<open>A publisher who holds the role of the members, and a login that holds a role of its own.\<close>

definition sample_people :: db where
  "sample_people = empty_db\<lparr>members := [sample_member 1], roles := [sample_role 4 ''member'' None, sample_role 5 ''editor'' None],
     memberRoleAssignments := [\<lparr>mra_memberId = 1, mra_roleId = 4, mra_congregationId = 1\<rparr>],
     userAccounts := [sample_login 30 (Some 1)],
     userRoleAssignments := [\<lparr>ura_userId = 30, ura_roleId = 5, ura_kind = ''holder'', ura_congregationId = 1\<rparr>]\<rparr>"

lemmas sample_people_defs = sample_people_def empty_db_def sample_role_def sample_member_def sample_login_def

lemma sample_people_built_in: "built_in_roles 1 sample_people = [sample_role 4 ''member'' None]"
  by (simp add: built_in_roles_def sample_people_defs BUILT_IN_ROLE_KEYS_def)

lemma sample_people_line: "people_line 1 sample_people"
proof -
  have "desired_key (flags_of (sample_member 1) 1 1 sample_people) ''member''"
    by (simp add: desired_key_def BUILT_IN_ROLE_PREDICATES_def flags_of_def member_flags_def sample_member_def)
  moreover have "role_ids_of_member 1 sample_people = {4}" by (simp add: role_ids_of_member_def sample_people_defs)
  ultimately have "in_line_for 1 sample_people (sample_member 1)"
    unfolding in_line_for_def sample_people_built_in by (simp add: sample_role_def sample_member_def)
  then have "roles_in_line 1 sample_people"
    unfolding roles_in_line_def by (simp add: sample_people_def)
  then show ?thesis
    by (simp add: people_line_def people_keys_def stint_keys_def sample_people_defs)
qed

lemma identity_roles_follow_the_flags_witness:
  "people_line 1 sample_people \<and>
   role_ids_of_member 1 (snd (setLifecycle 1 1 9 Left None 1000 sample_people)) \<inter>
     role_id ` set (built_in_roles 1 (snd (setLifecycle 1 1 9 Left None 1000 sample_people))) = {}"
proof -
  let ?db = "snd (setLifecycle 1 1 9 Left None 1000 sample_people)"
  let ?m = "lifecycle_row Left 1000 (sample_member 1)"
  have found: "find_member 1 1 sample_people = Some (sample_member 1)"
    by (simp add: find_member_def is_member_def sample_people_defs)
  have m: "?m \<in> set (members ?db)" "mem_congregationId ?m = 1" "mem_leftAt ?m \<noteq> None" "mem_id ?m = 1"
    unfolding setLifecycle_def found option.case Let_def
    by (simp_all add: LIFECYCLE_MUTATION_def lifecycle_row_def arrivalUpdate_def sample_member_def account_of_def
      sample_people_def empty_db_def is_member_def)
  have run: "(people_step utc_env (\<lambda>_. InvalidDate) 1)\<^sup>*\<^sup>* sample_people ?db"
    by (rule r_into_rtranclp, rule people_step.lifecycle_set)
  show ?thesis
    using identity_roles_follow_the_flags [OF run fresh_utc_env sample_people_line m(1,2)] m(3,4) sample_people_line by simp
qed

end
