(* ===== verification/Last_Admin.thy ===== *)
theory Last_Admin
  imports Accounts Member_Roles
begin

text \<open>
  The last admin of a congregation: which operations on logins keep one, and which do not.
\<close>

lemma account_permission_other:
  assumes "account_has_permission db key u" and "acc_id u \<noteq> i"
    and "permissions db' = permissions db" and "rolePermissions db' = rolePermissions db"
    and "memberRoleAssignments db' = memberRoleAssignments db"
    and "\<And>a. a \<in> set (userRoleAssignments db) \<Longrightarrow> ura_userId a \<noteq> i \<Longrightarrow> a \<in> set (userRoleAssignments db')"
  shows "account_has_permission db' key u"
proof -
  have same: "role_has_permission db' k key = role_has_permission db k key" for k
    unfolding role_has_permission_def assms(3,4) by (rule refl)
  show ?thesis
    using assms(1) unfolding account_has_permission_def same assms(5)
  proof (elim disjE bexE conjE)
    fix a assume a: "a \<in> set (userRoleAssignments db)" "ura_userId a = acc_id u" "role_has_permission db (ura_roleId a) key"
    then have "a \<in> set (userRoleAssignments db')" using assms(2,6) by simp
    then show "(\<exists>a\<in>set (userRoleAssignments db'). ura_userId a = acc_id u \<and> role_has_permission db (ura_roleId a) key) \<or>
        (\<exists>a\<in>set (memberRoleAssignments db). acc_memberId u = Some (mra_memberId a) \<and> role_has_permission db (mra_roleId a) key)"
      using a(2,3) by blast
  qed blast
qed

text \<open>An operation that takes away an account after the check on the last admin.\<close>

lemma has_admin_without:
  assumes admin: "has_admin db c" and check: "requireNotLastAdmin db i c = None"
    and tables: "permissions db' = permissions db" "rolePermissions db' = rolePermissions db"
      "memberRoleAssignments db' = memberRoleAssignments db"
    and rows: "\<And>a. a \<in> set (userRoleAssignments db) \<Longrightarrow> ura_userId a \<noteq> i \<Longrightarrow> a \<in> set (userRoleAssignments db')"
    and accounts: "\<And>u. u \<in> set (userAccounts db) \<Longrightarrow> acc_id u \<noteq> i \<Longrightarrow> u \<in> set (userAccounts db')"
  shows "has_admin db' c"
proof -
  obtain u where u: "u \<in> set (userAccounts db)" "acc_congregationId u = c" "acc_id u \<noteq> i"
    "account_has_permission db CanDoAnything u"
  proof (cases "isAccountAdmin db i c")
    case True
    then show ?thesis using requireNotLastAdmin_None [OF check True] that by metis
  next
    case False
    obtain u where u: "u \<in> set (userAccounts db)" "acc_congregationId u = c" "account_has_permission db CanDoAnything u"
      using admin unfolding has_admin_iff by blast
    then have "acc_id u \<noteq> i" using False by (auto simp: isAccountAdmin_def findAccountsWithPermission_def)
    then show ?thesis using u that by blast
  qed
  have "account_has_permission db' CanDoAnything u"
    by (rule account_permission_other [OF u(4,3) tables rows])
  then show ?thesis using accounts [OF u(1,3)] u(2) unfolding has_admin_iff by blast
qed

lemma account_audit_frame [simp]:
  "permissions (account_audit a c u i m db) = permissions db" "rolePermissions (account_audit a c u i m db) = rolePermissions db"
  "memberRoleAssignments (account_audit a c u i m db) = memberRoleAssignments db"
  "userRoleAssignments (account_audit a c u i m db) = userRoleAssignments db"
  "userAccounts (account_audit a c u i m db) = userAccounts db" "members (account_audit a c u i m db) = members db"
  by (simp_all add: account_audit_def)

lemma delete_account_frame [simp]:
  "permissions (delete_account_row i c db) = permissions db" "rolePermissions (delete_account_row i c db) = rolePermissions db"
  "memberRoleAssignments (delete_account_row i c db) = memberRoleAssignments db"
  "userRoleAssignments (delete_account_row i c db) = delete_where (\<lambda>a. ura_userId a = i) (userRoleAssignments db)"
  "userAccounts (delete_account_row i c db) = delete_where (is_account i c) (userAccounts db)"
  by (simp_all add: delete_account_row_def drop_user_roles_def)

text \<open>
  C31. Deleting or anonymizing a login from the settings leaves the congregation an admin.
\<close>

theorem settings_keep_an_admin:
  assumes "has_admin db c"
    and "deleteAccount i c a db = (Inr x, db') \<or> anonymizeAccount uuid i c a now db = (Inr (), db')"
  shows "has_admin db' c"
  using assms(2)
proof
  assume run: "deleteAccount i c a db = (Inr x, db')"
  then obtain b where b: "find (is_account i c) (userAccounts db) = Some b"
    by (auto simp: deleteAccount_def split: option.splits)
  have check: "requireNotLastAdmin db i c = None" and db': "userAccounts db' = delete_where (is_account i c) (userAccounts db)"
    "userRoleAssignments db' = delete_where (\<lambda>a. ura_userId a = i) (userRoleAssignments db)"
    "permissions db' = permissions db" "rolePermissions db' = rolePermissions db"
    "memberRoleAssignments db' = memberRoleAssignments db"
    using run unfolding deleteAccount_def b by (auto elim!: guard_by_InrE)
  show ?thesis by (rule has_admin_without [OF assms(1) check db'(3-5)]) (simp_all add: db' is_account_def)
next
  assume run: "anonymizeAccount uuid i c a now db = (Inr (), db')"
  then obtain b where b: "find (is_account i c) (userAccounts db) = Some b" "acc_anonymizedAt b = None"
    by (auto simp: anonymizeAccount_def split: option.splits if_splits)
  have check: "requireNotLastAdmin db i c = None"
    and db': "userAccounts db' = update_where (is_account i c) (anonymized_account uuid now) (userAccounts db)"
    "userRoleAssignments db' = delete_where (\<lambda>r. ura_userId r = i \<and> ura_congregationId r = c) (userRoleAssignments db)"
    "permissions db' = permissions db" "rolePermissions db' = rolePermissions db"
    "memberRoleAssignments db' = memberRoleAssignments db"
    using run b(2) unfolding anonymizeAccount_def b(1) option.case
    by (auto simp: write_account_def elim!: guard_by_InrE)
  show ?thesis
  proof (rule has_admin_without [OF assms(1) check db'(3-5)])
    show "u \<in> set (userAccounts db')" if "u \<in> set (userAccounts db)" "acc_id u \<noteq> i" for u
      unfolding db'(1) by (rule update_where_keeps [OF that(1)]) (use that(2) in \<open>simp add: is_account_def\<close>)
  qed (simp_all add: db')
qed

text \<open>A congregation whose only admin is the login of a member.\<close>

definition sample_sole_admin :: db where
  "sample_sole_admin = sample_people\<lparr>permissions := [\<lparr>perm_id = 1, perm_key = CanDoAnything\<rparr>],
     rolePermissions := [\<lparr>rp_roleId = 5, rp_permissionId = 1, rp_congregationId = 1\<rparr>]\<rparr>"

lemma sole_admin_is_admin:
  "account_has_permission sample_sole_admin CanDoAnything (sample_login 30 (Some 1))"
  by (simp add: account_has_permission_def role_has_permission_def sample_sole_admin_def sample_people_defs)

lemma sample_sole_admin_admin: "has_admin sample_sole_admin 1"
proof -
  have "sample_login 30 (Some 1) \<in> set (userAccounts sample_sole_admin)" "acc_congregationId (sample_login 30 (Some 1)) = 1"
    by (simp_all add: sample_sole_admin_def sample_people_def sample_login_def)
  then show ?thesis using sole_admin_is_admin unfolding has_admin_iff by blast
qed

text \<open>With a second login that is an admin too, one may be deleted.\<close>

definition sample_two_admins :: db where
  "sample_two_admins = sample_sole_admin\<lparr>userAccounts := [sample_login 30 (Some 1), sample_login 31 None],
     userRoleAssignments := [grant 30 5 ''holder'' 1, grant 31 5 ''holder'' 1]\<rparr>"

lemma two_admins: "account_has_permission sample_two_admins CanDoAnything u \<longleftrightarrow> acc_id u = 30 \<or> acc_id u = 31"
  by (auto simp: account_has_permission_def role_has_permission_def sample_two_admins_def sample_sole_admin_def
    sample_people_defs grant_def)

lemma two_admins_check: "requireNotLastAdmin sample_two_admins 31 1 = None" "has_admin sample_two_admins 1"
  by (simp_all add: requireNotLastAdmin_def findAccountsWithPermission_def two_admins Let_def has_admin_def)
    (simp_all add: sample_two_admins_def sample_login_def)

lemma settings_keep_an_admin_witness:
  "\<exists>x db'. deleteAccount 31 1 9 sample_two_admins = (Inr x, db') \<and> has_admin db' 1"
proof -
  have "find (is_account 31 1) (userAccounts sample_two_admins) = Some (sample_login 31 None)"
    by (simp add: sample_two_admins_def sample_login_def is_account_def)
  then obtain x db' where run: "deleteAccount 31 1 9 sample_two_admins = (Inr x, db')"
    by (simp add: deleteAccount_def two_admins_check)
  then show ?thesis using settings_keep_an_admin [OF two_admins_check(2) disjI1 [OF run]] by blast
qed

text \<open>
  Two operations of the publishers' pages take the last admin away without that check: marking
  the admin's member as left, which drops the roles of the login, and unlinking the login, which
  deletes it. Deleting the same login from the settings is refused.
\<close>

theorem leaving_removes_the_last_admin:
  "has_admin sample_sole_admin 1 \<and>
   deleteAccount 30 1 9 sample_sole_admin = (Inl (ConflictError ''last_admin''), sample_sole_admin) \<and>
   (\<exists>m db'. setLifecycle 1 1 9 Left None 1000 sample_sole_admin = (Inr m, db') \<and> \<not> has_admin db' 1) \<and>
   (\<exists>x db'. unlinkAccountFromMember 1 1 9 sample_sole_admin = (Inr (Some x), db') \<and> \<not> has_admin db' 1)"
proof (intro conjI sample_sole_admin_admin)
  let ?u = "sample_login 30 (Some 1)"
  have accounts: "userAccounts sample_sole_admin = [?u]" by (simp add: sample_sole_admin_def sample_people_def)
  have fields: "acc_id ?u = 30" "acc_congregationId ?u = 1" "acc_memberId ?u = Some 1" by (simp_all add: sample_login_def)
  have admins: "findAccountsWithPermission sample_sole_admin 1 CanDoAnything = [?u]"
    using sole_admin_is_admin by (simp add: findAccountsWithPermission_def accounts fields)
  have found: "find_member 1 1 sample_sole_admin = Some (sample_member 1)"
    by (simp add: find_member_def is_member_def sample_sole_admin_def sample_people_defs)
  have login: "account_of 1 sample_sole_admin = Some ?u" "find (is_account 30 1) (userAccounts sample_sole_admin) = Some ?u"
    by (simp_all add: account_of_def accounts is_account_def fields)
  show "deleteAccount 30 1 9 sample_sole_admin = (Inl (ConflictError ''last_admin''), sample_sole_admin)"
    by (simp add: deleteAccount_def login(2) requireNotLastAdmin_def admins Let_def fields)
  show "\<exists>x db'. unlinkAccountFromMember 1 1 9 sample_sole_admin = (Inr (Some x), db') \<and> \<not> has_admin db' 1"
  proof (intro exI conjI)
    let ?db = "account_audit ''account.unlinked_from_member'' 1 9 30
      (Some [(''memberId'', JNum 1), (''email'', JStr (acc_email ?u))]) (delete_account_row 30 1 sample_sole_admin)"
    show "unlinkAccountFromMember 1 1 9 sample_sole_admin = (Inr (Some (30, acc_email ?u)), ?db)"
      by (simp add: unlinkAccountFromMember_def found login fields)
    have "userAccounts ?db = []" by (simp add: accounts is_account_def fields)
    then show "\<not> has_admin ?db 1" by (simp add: has_admin_iff)
  qed
  show "\<exists>m db'. setLifecycle 1 1 9 Left None 1000 sample_sole_admin = (Inr m, db') \<and> \<not> has_admin db' 1"
  proof (intro exI conjI)
    let ?db = "snd (setLifecycle 1 1 9 Left None 1000 sample_sole_admin)"
    have unset: "mem_leftAt (sample_member 1) = None" by (simp add: sample_member_def)
    let ?w = "syncBuiltInRoleAssignments 1 1 (Some 9) (write_member 1 1 (lifecycle_row Left 1000) sample_sole_admin)"
    have run: "setLifecycle 1 1 9 Left None 1000 sample_sole_admin =
        (Inr (lifecycle_row Left 1000 (sample_member 1)), member_audit ''member.left'' 1 9 1 None (drop_user_roles 30 ?w))"
      unfolding setLifecycle_def found option.case Let_def
      by (simp add: LIFECYCLE_MUTATION_def unset login(1) fields lifecycle_metadata_def)
    then show "setLifecycle 1 1 9 Left None 1000 sample_sole_admin = (Inr (lifecycle_row Left 1000 (sample_member 1)), ?db)"
      by simp
    have roles5: "role_has_permission d k CanDoAnything \<longleftrightarrow> k = 5"
      if "permissions d = permissions sample_sole_admin" "rolePermissions d = rolePermissions sample_sole_admin" for d k
      unfolding role_has_permission_def that by (simp add: sample_sole_admin_def)
    let ?s = "member_audit ''member.left'' 1 9 1 None (drop_user_roles 30 ?w)"
    have same: "permissions ?s = permissions sample_sole_admin" "rolePermissions ?s = rolePermissions sample_sole_admin"
      "userAccounts ?s = [?u]" "userRoleAssignments ?s = []"
      by (simp_all add: member_audit_def drop_user_roles_def syncBuiltInRoleAssignments_def write_member_def
        write_assignments_def accounts Let_def split: option.split prod.split)
        (simp_all add: sample_sole_admin_def sample_people_def)
    have left: "role_ids_of_member 1 ?s \<subseteq> {4}"
    proof -
      have f: "find_member 1 1 (write_member 1 1 (lifecycle_row Left 1000) sample_sole_admin) = Some (lifecycle_row Left 1000 (sample_member 1))"
        by (simp add: find_member_write found)
      have "built_in_roles 1 (write_member 1 1 (lifecycle_row Left 1000) sample_sole_admin) = [sample_role 4 ''member'' None]"
        using sample_people_built_in by (simp add: built_in_roles_def sample_sole_admin_def)
      moreover have "role_ids_of_member 1 (write_member 1 1 (lifecycle_row Left 1000) sample_sole_admin) = {4}"
        by (simp add: role_ids_of_member_def sample_sole_admin_def sample_people_defs)
      ultimately have "role_ids_of_member 1 ?w \<subseteq> {4}" unfolding role_ids_sync [OF f] by (auto simp: sample_role_def)
      then show ?thesis by (simp add: role_ids_of_member_def member_audit_def)
    qed
    have "\<not> account_has_permission ?s CanDoAnything ?u"
      using left unfolding account_has_permission_def same(4) roles5 [OF same(1,2)] fields
      by (auto simp: role_ids_of_member_def)
    then have "\<not> has_admin ?s 1" unfolding has_admin_iff same(3) by simp
    then show "\<not> has_admin ?db 1" unfolding run by simp
  qed
qed

end
