(* ===== verification/Pioneer_Pace.thy ===== *)
theory Pioneer_Pace
  imports Pioneer_Enrolment
begin

text \<open>
  The pace of a pioneer through the service year
  (\<^verbatim>\<open>features/publishers/model/pioneer-pace.ts\<close>). Hours are integers; the averages, quotients of
  integers by at most 12, are exact rationals instead of doubles, and compare the same. A date
  counts by its local year, month and day.
\<close>

section \<open>Input and output\<close>

definition REPORT_OVERDUE_AFTER_DAYS :: int where
  "REPORT_OVERDUE_AFTER_DAYS = 10"

definition OUT_OF_REACH_FACTOR :: rat where
  "OUT_OF_REACH_FACTOR = 3 / 2"

definition RECENT_MONTHS_WINDOW :: nat where
  "RECENT_MONTHS_WINDOW = 3"

datatype RiskBucket = Green | Amber | Red

datatype ReportingStatus = Filed | Awaiting | Overdue

record PioneerMonth =
  pm_month :: int
  pm_year :: int
  pm_hours :: "int option"
  pm_studies :: "int option"
  pm_credit :: "int option"

record local_day =
  ld_year :: int
  ld_month :: int
  ld_day :: int

record PaceInput =
  pi_serviceYear :: int
  pi_monthlyRate :: int
  pi_months :: "PioneerMonth list"
  pi_now :: local_day
  pi_enrolledSinceYearStart :: bool
  pi_concluded :: bool
  pi_notEnrolledMonths :: "MonthRef list"

record PioneerPace =
  pp_elapsedEnrolled :: int
  pp_reportedMonths :: nat
  pp_targetToDate :: int
  pp_actualToDate :: int
  pp_creditToDate :: int
  pp_achievedToDate :: int
  pp_paceDelta :: int
  pp_remainingMonths :: int
  pp_fullYearTarget :: int
  pp_requiredAvgToFinish :: rat
  pp_recentAvg :: rat
  pp_projectedYearEnd :: rat
  pp_outOfReach :: bool
  pp_riskBucket :: RiskBucket
  pp_reportingStatus :: ReportingStatus
  pp_monthlyHours :: "int option list"
  pp_monthlyStudies :: "int option list"
  pp_monthlyCredits :: "int option list"

section \<open>The expected month\<close>

definition firstAbs :: "int \<Rightarrow> int" where
  "firstAbs serviceYear = absMonth FIRST_MONTH_OF_THEOCRATIC_YEAR serviceYear"

definition currentExpectedMonth :: "int \<Rightarrow> local_day \<Rightarrow> MonthRef option" where
  "currentExpectedMonth serviceYear now =
     (let start = firstAbs serviceYear;
          finish = start + MONTHS_IN_YEAR - 1;
          previousCompleted = absMonth (ld_month now) (ld_year now) - 1
      in if previousCompleted < start then None else Some (month_ref (min previousCompleted finish)))"

definition ESCALATE :: "RiskBucket \<Rightarrow> RiskBucket" where
  "ESCALATE b = (case b of Green \<Rightarrow> Amber | Amber \<Rightarrow> Red | Red \<Rightarrow> Red)"

definition riskBucketFor :: "int \<Rightarrow> int \<Rightarrow> ReportingStatus \<Rightarrow> RiskBucket" where
  "riskBucketFor paceDelta monthlyRate reportingStatus =
     (let base = (if paceDelta \<ge> 0 then Green else if paceDelta \<ge> - monthlyRate then Amber else Red)
      in if reportingStatus = Overdue \<and> paceDelta \<le> 0 then ESCALATE base else base)"

definition abs_month_of :: "PioneerMonth \<Rightarrow> int" where
  "abs_month_of m = absMonth (pm_month m) (pm_year m)"

definition reportingStatusFor :: "PaceInput \<Rightarrow> ReportingStatus" where
  "reportingStatusFor i =
     (case currentExpectedMonth (pi_serviceYear i) (pi_now i) of
        None \<Rightarrow> Awaiting
      | Some expected \<Rightarrow>
          if \<exists>m \<in> set (pi_months i). pm_month m = mr_month expected \<and> pm_year m = mr_year expected then Filed
          else
            (let nowAbs = absMonth (ld_month (pi_now i)) (ld_year (pi_now i));
                 isImmediatelyPrevious = (nowAbs - 1 = abs_ref expected);
                 withinGrace = (isImmediatelyPrevious \<and> ld_day (pi_now i) \<le> REPORT_OVERDUE_AFTER_DAYS)
             in if withinGrace then Awaiting else Overdue))"

section \<open>The enrolled span\<close>

record EnrollmentWindow =
  ew_reportedToDate :: "PioneerMonth list"
  ew_elapsedEnrolled :: int
  ew_remainingMonths :: int
  ew_fullYearTarget :: int

text \<open>The index of a month in the service year: 0 for September.\<close>

definition sy_index :: "int \<Rightarrow> int \<Rightarrow> int" where
  "sy_index serviceYear a = a - firstAbs serviceYear"

definition resolveEnrollmentWindow ::
  "PioneerMonth list \<Rightarrow> int \<Rightarrow> int \<Rightarrow> int \<Rightarrow> bool \<Rightarrow> bool \<Rightarrow> MonthRef list \<Rightarrow> EnrollmentWindow" where
  "resolveEnrollmentWindow ordered serviceYear monthlyRate currentIndex enrolledSinceYearStart concluded notEnrolledMonths =
     (let idx = (\<lambda>m. sy_index serviceYear (abs_month_of m));
          lastServedIndex = (if ordered = [] then - 1 else idx (last ordered));
          referenceIndex = (if concluded then lastServedIndex else currentIndex);
          reportedToDate = (if referenceIndex < 0 then [] else filter (\<lambda>m. idx m \<le> referenceIndex) ordered);
          startIndex = (if enrolledSinceYearStart then Some 0
                        else if reportedToDate = [] then None else Some (idx (hd reportedToDate)));
          gapsInSpan = (case startIndex of
                          None \<Rightarrow> 0
                        | Some s \<Rightarrow> int (length (filter (\<lambda>m. sy_index serviceYear (abs_ref m) \<ge> s \<and>
                             sy_index serviceYear (abs_ref m) \<le> referenceIndex) notEnrolledMonths)));
          spanLength = (case startIndex of
                          Some s \<Rightarrow> if referenceIndex \<ge> 0 then referenceIndex - s + 1 else 0 | None \<Rightarrow> 0);
          elapsedEnrolled = max 0 (spanLength - gapsInSpan);
          remainingMonths = (if concluded then 0 else if currentIndex < 0 then MONTHS_IN_YEAR
                             else MONTHS_IN_YEAR - 1 - currentIndex);
          fullYearTarget = (if startIndex = None then 0 else monthlyRate * (elapsedEnrolled + remainingMonths))
      in \<lparr>ew_reportedToDate = reportedToDate, ew_elapsedEnrolled = elapsedEnrolled,
          ew_remainingMonths = remainingMonths, ew_fullYearTarget = fullYearTarget\<rparr>)"

section \<open>The pace\<close>

definition hours_or_zero :: "int option \<Rightarrow> int" where
  "hours_or_zero x = (case x of Some n \<Rightarrow> n | None \<Rightarrow> 0)"

definition by_month :: "PioneerMonth \<Rightarrow> PioneerMonth \<Rightarrow> int" where
  "by_month a b = abs_month_of a - abs_month_of b"

definition currentIndexOf :: "PaceInput \<Rightarrow> int" where
  "currentIndexOf i =
     (case currentExpectedMonth (pi_serviceYear i) (pi_now i) of
        None \<Rightarrow> - 1 | Some e \<Rightarrow> sy_index (pi_serviceYear i) (abs_ref e))"

definition pace_window :: "PaceInput \<Rightarrow> EnrollmentWindow" where
  "pace_window i =
     resolveEnrollmentWindow (js_sort by_month (pi_months i)) (pi_serviceYear i) (pi_monthlyRate i) (currentIndexOf i)
       (pi_enrolledSinceYearStart i) (pi_concluded i) (pi_notEnrolledMonths i)"

text \<open>A value per month of the service year, \<open>None\<close> where no row exists; the last row of a month wins.\<close>

definition align :: "int \<Rightarrow> PioneerMonth list \<Rightarrow> (PioneerMonth \<Rightarrow> int) \<Rightarrow> int option list" where
  "align serviceYear ordered value =
     map (\<lambda>m. map_option value (find (\<lambda>p. abs_month_of p = abs_ref m) (rev ordered))) (serviceYearMonths serviceYear)"

definition computePioneerPace :: "PaceInput \<Rightarrow> PioneerPace" where
  "computePioneerPace i =
     (let ordered = js_sort by_month (pi_months i);
          w = pace_window i;
          reported = ew_reportedToDate w;
          rate = pi_monthlyRate i;
          remaining = ew_remainingMonths w;
          actual = sum_list (map (\<lambda>m. hours_or_zero (pm_hours m)) reported);
          credit = sum_list (map (\<lambda>m. hours_or_zero (pm_credit m)) reported);
          achieved = actual + credit;
          target = rate * ew_elapsedEnrolled w;
          paceDelta = achieved - target;
          requiredAvg = (if remaining = 0 then 0
                         else max 0 (of_int (ew_fullYearTarget w - achieved) / of_int remaining));
          recent = drop (length reported - RECENT_MONTHS_WINDOW) reported;
          recentAvg = (if recent = [] then 0
                       else of_int (sum_list (map (\<lambda>m. hours_or_zero (pm_hours m)) recent)) / of_nat (length recent));
          reportingStatus = (if pi_concluded i then Filed else reportingStatusFor i)
      in \<lparr>pp_elapsedEnrolled = ew_elapsedEnrolled w, pp_reportedMonths = length reported, pp_targetToDate = target,
          pp_actualToDate = actual, pp_creditToDate = credit, pp_achievedToDate = achieved, pp_paceDelta = paceDelta,
          pp_remainingMonths = remaining, pp_fullYearTarget = ew_fullYearTarget w, pp_requiredAvgToFinish = requiredAvg,
          pp_recentAvg = recentAvg, pp_projectedYearEnd = of_int achieved + recentAvg * of_int remaining,
          pp_outOfReach = (requiredAvg > of_int rate * OUT_OF_REACH_FACTOR),
          pp_riskBucket = riskBucketFor paceDelta rate reportingStatus, pp_reportingStatus = reportingStatus,
          pp_monthlyHours = align (pi_serviceYear i) ordered (\<lambda>m. hours_or_zero (pm_hours m)),
          pp_monthlyStudies = align (pi_serviceYear i) ordered (\<lambda>m. hours_or_zero (pm_studies m)),
          pp_monthlyCredits = align (pi_serviceYear i) ordered (\<lambda>m. hours_or_zero (pm_credit m))\<rparr>)"

section \<open>Auxiliary pioneers\<close>

record ThisMonth =
  tm_hours :: int
  tm_credit :: int
  tm_rate :: int
  tm_met :: bool
  tm_reported :: bool

record AuxiliarySummary =
  as_enrolledMonths :: nat
  as_reportedMonths :: nat
  as_metMonths :: nat
  as_thisMonth :: "ThisMonth option"

definition month_credited :: "PioneerMonth \<Rightarrow> int" where
  "month_credited m = hours_or_zero (pm_hours m) + hours_or_zero (pm_credit m)"

definition computeAuxiliarySummary :: "int \<Rightarrow> PioneerMonth list \<Rightarrow> local_day \<Rightarrow> AuxiliarySummary" where
  "computeAuxiliarySummary monthlyRate months now =
     \<lparr>as_enrolledMonths = length months,
      as_reportedMonths = length (filter (\<lambda>m. pm_hours m \<noteq> None) months),
      as_metMonths = length (filter (\<lambda>m. month_credited m \<ge> monthlyRate) months),
      as_thisMonth = map_option (\<lambda>m.
          \<lparr>tm_hours = hours_or_zero (pm_hours m), tm_credit = hours_or_zero (pm_credit m), tm_rate = monthlyRate,
           tm_met = (month_credited m \<ge> monthlyRate), tm_reported = (pm_hours m \<noteq> None)\<rparr>)
        (find (\<lambda>m. pm_month m = ld_month now \<and> pm_year m = ld_year now) months)\<rparr>"

section \<open>Bounds\<close>

definition in_service_year :: "int \<Rightarrow> PioneerMonth \<Rightarrow> bool" where
  "in_service_year sy m \<longleftrightarrow> 0 \<le> sy_index sy (abs_month_of m) \<and> sy_index sy (abs_month_of m) \<le> 11"

lemma currentIndex_bounds: "- 1 \<le> currentIndexOf i \<and> currentIndexOf i \<le> 11"
  by (auto simp: currentIndexOf_def currentExpectedMonth_def sy_index_def Let_def MONTHS_IN_YEAR_def split: option.split)

lemma window_remaining:
  "ew_remainingMonths (pace_window i) =
     (if pi_concluded i then 0 else if currentIndexOf i < 0 then 12 else 11 - currentIndexOf i)"
  by (simp add: pace_window_def resolveEnrollmentWindow_def Let_def MONTHS_IN_YEAR_def)

lemma window_elapsed:
  assumes "list_all (in_service_year (pi_serviceYear i)) (pi_months i)"
  shows "0 \<le> ew_elapsedEnrolled (pace_window i)"
    and "ew_elapsedEnrolled (pace_window i) \<le>
      (if pi_concluded i then 12 else if currentIndexOf i < 0 then 0 else currentIndexOf i + 1)"
proof -
  let ?s = "js_sort by_month (pi_months i)"
  let ?idx = "\<lambda>m. sy_index (pi_serviceYear i) (abs_month_of m)"
  have rows: "0 \<le> ?idx m \<and> ?idx m \<le> 11" if "m \<in> set ?s" for m
    using assms that by (auto simp: list_all_iff in_service_year_def)
  define ref where "ref = (if pi_concluded i then (if ?s = [] then - 1 else ?idx (last ?s)) else currentIndexOf i)"
  define rep where "rep = (if ref < 0 then [] else filter (\<lambda>m. ?idx m \<le> ref) ?s)"
  have start: "0 \<le> ?idx (hd rep)" if "rep \<noteq> []"
  proof -
    have "hd rep \<in> set rep" using that by simp
    then have "hd rep \<in> set ?s" by (auto simp: rep_def split: if_splits)
    then show ?thesis using rows by simp
  qed
  have "?idx (last ?s) \<le> 11" if "?s \<noteq> []" using rows [OF last_in_set [OF that]] by simp
  then have ref: "ref \<le> (if pi_concluded i then 11 else currentIndexOf i)" by (auto simp: ref_def)
  show "0 \<le> ew_elapsedEnrolled (pace_window i)"
    by (simp add: pace_window_def resolveEnrollmentWindow_def Let_def)
  have elapsed: "ew_elapsedEnrolled (pace_window i) \<le> (if ref < 0 then 0 else ref + 1)"
    using start unfolding pace_window_def resolveEnrollmentWindow_def Let_def ref_def [symmetric] rep_def [symmetric]
    by (cases "pi_enrolledSinceYearStart i"; cases "rep = []") auto
  show "ew_elapsedEnrolled (pace_window i) \<le>
      (if pi_concluded i then 12 else if currentIndexOf i < 0 then 0 else currentIndexOf i + 1)"
    using elapsed ref by (auto split: if_splits)
qed

text \<open>
  C32. The pace accounts for the year: the months owed so far and those to come are at most twelve.
  Over the year, a pioneer who was enrolled at its start or has a month on record up to the reference month
  owes what he owes to date plus the rate of each month to come, and one who has neither owes nothing; for an
  active pioneer enrolled since the start, with no month out of service, that is twelve times the rate. The
  hours required per month, kept up to August, reach that goal. An overdue report is never on track
  without a surplus.
\<close>

theorem pace_accounts_for_the_year:
  assumes "list_all (in_service_year (pi_serviceYear i)) (pi_months i)"
  shows "0 \<le> pp_elapsedEnrolled (computePioneerPace i) \<and> 0 \<le> pp_remainingMonths (computePioneerPace i) \<and>
    pp_elapsedEnrolled (computePioneerPace i) + pp_remainingMonths (computePioneerPace i) \<le> 12 \<and>
    pp_fullYearTarget (computePioneerPace i) =
      (if pi_enrolledSinceYearStart i \<or> 0 < pp_reportedMonths (computePioneerPace i)
       then pp_targetToDate (computePioneerPace i) + pi_monthlyRate i * pp_remainingMonths (computePioneerPace i) else 0) \<and>
    (pi_enrolledSinceYearStart i \<and> \<not> pi_concluded i \<and> pi_notEnrolledMonths i = [] \<longrightarrow>
      pp_fullYearTarget (computePioneerPace i) = 12 * pi_monthlyRate i) \<and>
    (pp_remainingMonths (computePioneerPace i) = 0 \<or>
      of_int (pp_achievedToDate (computePioneerPace i)) +
        pp_requiredAvgToFinish (computePioneerPace i) * of_int (pp_remainingMonths (computePioneerPace i)) =
      of_int (max (pp_achievedToDate (computePioneerPace i)) (pp_fullYearTarget (computePioneerPace i)))) \<and>
    (pp_reportingStatus (computePioneerPace i) \<noteq> Overdue \<or> pp_riskBucket (computePioneerPace i) \<noteq> Green \<or>
      0 < pp_paceDelta (computePioneerPace i))"
proof -
  let ?w = "pace_window i"
  define rem where "rem = ew_remainingMonths ?w"
  define elapsed where "elapsed = ew_elapsedEnrolled ?w"
  define achieved where "achieved = pp_achievedToDate (computePioneerPace i)"
  have out: "pp_elapsedEnrolled (computePioneerPace i) = elapsed" "pp_remainingMonths (computePioneerPace i) = rem"
    "pp_fullYearTarget (computePioneerPace i) = ew_fullYearTarget ?w"
    "pp_targetToDate (computePioneerPace i) = pi_monthlyRate i * elapsed"
    "0 < pp_reportedMonths (computePioneerPace i) \<longleftrightarrow> ew_reportedToDate ?w \<noteq> []"
    "pp_requiredAvgToFinish (computePioneerPace i) =
      (if rem = 0 then 0 else max 0 (of_int (ew_fullYearTarget ?w - achieved) / of_int rem))"
    "pp_riskBucket (computePioneerPace i) = riskBucketFor (pp_paceDelta (computePioneerPace i)) (pi_monthlyRate i)
      (pp_reportingStatus (computePioneerPace i))"
    by (simp_all add: computePioneerPace_def Let_def rem_def elapsed_def achieved_def)
  have b: "0 \<le> elapsed" "elapsed \<le> (if pi_concluded i then 12 else if currentIndexOf i < 0 then 0 else currentIndexOf i + 1)"
    using window_elapsed [OF assms] by (simp_all add: elapsed_def)
  have r: "rem = (if pi_concluded i then 0 else if currentIndexOf i < 0 then 12 else 11 - currentIndexOf i)"
    by (simp add: rem_def window_remaining)
  have c: "currentIndexOf i \<le> 11" using currentIndex_bounds by blast
  have bounds: "0 \<le> rem" "elapsed + rem \<le> 12" using b r c by (auto split: if_splits)
  have full: "ew_fullYearTarget ?w =
      (if pi_enrolledSinceYearStart i \<or> ew_reportedToDate ?w \<noteq> [] then pi_monthlyRate i * elapsed + pi_monthlyRate i * rem else 0)"
    unfolding rem_def elapsed_def pace_window_def resolveEnrollmentWindow_def Let_def by (simp add: distrib_left)
  have twelve: "ew_fullYearTarget ?w = 12 * pi_monthlyRate i"
    if "pi_enrolledSinceYearStart i" "\<not> pi_concluded i" "pi_notEnrolledMonths i = []"
  proof -
    have "elapsed = (if currentIndexOf i < 0 then 0 else currentIndexOf i + 1)"
      using that c unfolding elapsed_def pace_window_def resolveEnrollmentWindow_def Let_def by simp
    then have "elapsed + rem = 12" using r that(2) by simp
    moreover have "ew_fullYearTarget ?w = pi_monthlyRate i * (elapsed + rem)" using full that(1) by (simp add: distrib_left)
    ultimately show ?thesis by (simp only: mult.commute)
  qed
  have required: "of_int achieved + (if rem = 0 then 0 else max 0 (of_int (ew_fullYearTarget ?w - achieved) / of_int rem)) * of_int rem =
      (of_int (max achieved (ew_fullYearTarget ?w)) :: rat)" if "rem \<noteq> 0"
  proof (cases "achieved \<le> ew_fullYearTarget ?w")
    case True
    then have "(0 :: rat) \<le> of_int (ew_fullYearTarget ?w - achieved) / of_int rem" using bounds(1) by simp
    then show ?thesis using that True by (simp add: max_def)
  next
    case False
    then have "(of_int (ew_fullYearTarget ?w - achieved) :: rat) / of_int rem \<le> 0"
      using bounds(1) by (simp add: divide_le_0_iff)
    then show ?thesis using that False by (simp add: max_def)
  qed
  have risk: "riskBucketFor d rate Overdue \<noteq> Green \<or> 0 < d" for d rate
    by (auto simp: riskBucketFor_def Let_def ESCALATE_def split: RiskBucket.split)
  show ?thesis
    unfolding out achieved_def [symmetric] using b(1) bounds full twelve required risk by (auto simp: out)
qed

text \<open>A pioneer of 50 hours a month, seen in the middle of December.\<close>

definition sample_pace :: PaceInput where
  "sample_pace = \<lparr>pi_serviceYear = 2025, pi_monthlyRate = 50,
     pi_months = [\<lparr>pm_month = 8, pm_year = 2025, pm_hours = Some 40, pm_studies = None, pm_credit = Some 5\<rparr>],
     pi_now = \<lparr>ld_year = 2025, ld_month = 11, ld_day = 15\<rparr>, pi_enrolledSinceYearStart = True, pi_concluded = False,
     pi_notEnrolledMonths = []\<rparr>"

lemma pace_accounts_for_the_year_witness:
  "pp_elapsedEnrolled (computePioneerPace sample_pace) + pp_remainingMonths (computePioneerPace sample_pace) \<le> 12 \<and>
   pp_fullYearTarget (computePioneerPace sample_pace) = 600"
proof -
  have "list_all (in_service_year (pi_serviceYear sample_pace)) (pi_months sample_pace)"
    by (simp add: sample_pace_def in_service_year_def sy_index_def abs_month_of_def firstAbs_def absMonth_def MONTHS_IN_YEAR_def
      FIRST_MONTH_OF_THEOCRATIC_YEAR_def)
  then show ?thesis using pace_accounts_for_the_year [of sample_pace] by (simp add: sample_pace_def)
qed

end
