(* ===== verification/Pioneer_Roster.thy ===== *)
theory Pioneer_Roster
  imports Pioneer_Pace Pioneer_Stints
begin

text \<open>
  The pioneer roster of a service year: the plan read from the stints
  (\<^verbatim>\<open>features/publishers/model/pioneer-enrolment-pace.ts\<close>), the goals
  (\<^verbatim>\<open>server/pioneer-goals.queries.ts\<close>, \<^verbatim>\<open>set-pioneer-goal.server.ts\<close>), the reading of stints
  (\<^verbatim>\<open>server/pioneer-enrolment.queries.ts\<close>) and the summary (\<^verbatim>\<open>server/pioneer-activity.queries.ts\<close>).
\<close>

section \<open>Goals\<close>

definition goal_of :: "int \<Rightarrow> PublisherType \<Rightarrow> int \<Rightarrow> pioneer_goal \<Rightarrow> bool" where
  "goal_of serviceYear t congregationId g \<longleftrightarrow>
     goal_serviceYear g = serviceYear \<and> goal_type g = t \<and> goal_congregationId g = congregationId"

definition resolvePioneerGoal :: "int \<Rightarrow> PublisherType \<Rightarrow> int \<Rightarrow> db \<Rightarrow> int" where
  "resolvePioneerGoal serviceYear t congregationId db =
     (case find (goal_of serviceYear t congregationId) (pioneerGoals db) of
        Some g \<Rightarrow> goal_monthlyHours g | None \<Rightarrow> resolveDefaultGoal t)"

record PioneerGoalRow =
  pgr_type :: PublisherType
  pgr_defaultRate :: int
  pgr_override :: "int option"
  pgr_effectiveRate :: int

definition listPioneerGoalsForYear :: "int \<Rightarrow> int \<Rightarrow> db \<Rightarrow> PioneerGoalRow list" where
  "listPioneerGoalsForYear serviceYear congregationId db =
     map (\<lambda>t.
       let override = map_option goal_monthlyHours (find (goal_of serviceYear t congregationId) (rev (pioneerGoals db)))
       in \<lparr>pgr_type = t, pgr_defaultRate = resolveDefaultGoal t, pgr_override = override,
           pgr_effectiveRate = (case override of Some g \<Rightarrow> g | None \<Rightarrow> resolveDefaultGoal t)\<rparr>) PIONEER_TYPES"

text \<open>The upsert of \<^verbatim>\<open>set-pioneer-goal.server.ts\<close>, with its audit in the same transaction.\<close>

definition setPioneerGoal ::
  "env \<Rightarrow> int \<Rightarrow> PublisherType \<Rightarrow> int \<Rightarrow> int \<Rightarrow> int \<Rightarrow> db \<Rightarrow> (db, pioneer_goal) outcome" where
  "setPioneerGoal ev serviceYear t monthlyHours congregationId actorId db =
     (let (goal, rows) =
        (case find (goal_of serviceYear t congregationId) (pioneerGoals db) of
           Some g \<Rightarrow> (g\<lparr>goal_monthlyHours := monthlyHours\<rparr>,
             update_where (goal_of serviceYear t congregationId) (\<lambda>g. g\<lparr>goal_monthlyHours := monthlyHours\<rparr>) (pioneerGoals db))
         | None \<Rightarrow>
             (let g = \<lparr>goal_id = env_goal_id ev (pioneerGoals db), goal_type = t, goal_serviceYear = serviceYear,
                       goal_monthlyHours = monthlyHours, goal_congregationId = congregationId\<rparr>
              in (g, pioneerGoals db @ [g])))
      in (Inr goal, entity_audit ''pioneer_goal.updated'' congregationId actorId ''PioneerGoal'' (goal_id goal)
            (Some [(''serviceYear'', JNum serviceYear), (''type'', JStr (type_name t)), (''monthlyHours'', JNum monthlyHours)])
            (db\<lparr>pioneerGoals := rows\<rparr>)))"

section \<open>Reading stints\<close>

definition by_start :: "pioneer_enrolment \<Rightarrow> pioneer_enrolment \<Rightarrow> int" where
  "by_start a b = (if pe_startYear a \<noteq> pe_startYear b then pe_startYear a - pe_startYear b else pe_startMonth a - pe_startMonth b)"

definition getEnrolmentsForMember :: "int \<Rightarrow> int \<Rightarrow> db \<Rightarrow> pioneer_enrolment list" where
  "getEnrolmentsForMember memberId congregationId db =
     js_sort by_start (filter (\<lambda>e. pe_memberId e = memberId \<and> pe_congregationId e = congregationId) (pioneerEnrolments db))"

text \<open>The bound the database applies, and the exact intersection.\<close>

definition coarse_bound :: "int \<Rightarrow> int \<Rightarrow> pioneer_enrolment \<Rightarrow> bool" where
  "coarse_bound serviceYear congregationId e \<longleftrightarrow>
     pe_congregationId e = congregationId \<and> pe_startYear e \<le> serviceYear + 1 \<and>
     (case pe_endYear e of None \<Rightarrow> True | Some y \<Rightarrow> y \<ge> serviceYear)"

definition by_member :: "pioneer_enrolment \<Rightarrow> pioneer_enrolment \<Rightarrow> int" where
  "by_member a b = (if pe_memberId a \<noteq> pe_memberId b then pe_memberId a - pe_memberId b else by_start a b)"

definition getEnrolmentsForServiceYear :: "int \<Rightarrow> int \<Rightarrow> db \<Rightarrow> pioneer_enrolment list" where
  "getEnrolmentsForServiceYear serviceYear congregationId db =
     filter (\<lambda>e. length (enrolledMonthsInServiceYear (period_of e) serviceYear) > 0)
       (js_sort by_member (filter (coarse_bound serviceYear congregationId) (pioneerEnrolments db)))"

definition resolveEnrolmentMonthlyGoal :: "EnrolmentPeriod \<Rightarrow> int \<Rightarrow> int \<Rightarrow> db \<Rightarrow> int" where
  "resolveEnrolmentMonthlyGoal p serviceYear congregationId db =
     resolveEnrolmentGoal p (resolvePioneerGoal serviceYear (ep_type p) congregationId db)"

definition getMonthEnrolment :: "int \<Rightarrow> int \<Rightarrow> int \<Rightarrow> int \<Rightarrow> db \<Rightarrow> (PublisherType \<times> int) option" where
  "getMonthEnrolment memberId congregationId month year db =
     map_option (\<lambda>p. (ep_type p, resolveEnrolmentMonthlyGoal p (toServiceYear month year) congregationId db))
       (enrolmentForMonth (map period_of (getEnrolmentsForMember memberId congregationId db)) month year)"

section \<open>The plan\<close>

record EnrolmentActualMonth =
  ea_month :: int
  ea_year :: int
  ea_type :: PublisherType
  ea_hours :: "int option"
  ea_studies :: "int option"
  ea_creditHours :: "int option"

record EnrolmentPlan =
  pl_rosterType :: PublisherType
  pl_isAuxiliary :: bool
  pl_ongoing :: bool
  pl_months :: "PioneerMonth list"
  pl_enrolledMonths :: "MonthRef list"
  pl_enrolledSinceYearStart :: bool
  pl_concluded :: bool
  pl_notEnrolledMonths :: "MonthRef list"
  pl_currentMonthlyGoal :: "int option"

text \<open>\<open>None\<close> stands for minus infinity.\<close>

definition latestEnrolledAbs :: "EnrolmentPeriod \<Rightarrow> int \<Rightarrow> int option" where
  "latestEnrolledAbs stint serviceYear =
     (let months = enrolledMonthsInServiceYear stint serviceYear
      in if months = [] then None else Some (abs_ref (last months)))"

definition later_than :: "int option \<Rightarrow> int option \<Rightarrow> bool" where
  "later_than a b = (case a of None \<Rightarrow> False | Some x \<Rightarrow> (case b of None \<Rightarrow> True | Some y \<Rightarrow> x > y))"

definition latest_stint :: "int \<Rightarrow> EnrolmentPeriod list \<Rightarrow> EnrolmentPeriod" where
  "latest_stint serviceYear stints =
     foldl (\<lambda>acc e. if later_than (latestEnrolledAbs e serviceYear) (latestEnrolledAbs acc serviceYear) then e else acc)
       (hd stints) (tl stints)"

definition push_month :: "MonthRef \<Rightarrow> MonthRef list \<Rightarrow> MonthRef list" where
  "push_month m ms = (if abs_ref m \<in> abs_ref ` set ms then ms else ms @ [m])"

definition by_ref :: "MonthRef \<Rightarrow> MonthRef \<Rightarrow> int" where
  "by_ref a b = abs_ref a - abs_ref b"

definition roster_months :: "int \<Rightarrow> EnrolmentPeriod list \<Rightarrow> MonthRef list" where
  "roster_months serviceYear stints =
     js_sort by_ref (fold push_month (concat (map (\<lambda>s. enrolledMonthsInServiceYear s serviceYear) stints)) [])"

definition actual_abs :: "EnrolmentActualMonth \<Rightarrow> int" where
  "actual_abs a = absMonth (ea_month a) (ea_year a)"

definition actual_month :: "EnrolmentActualMonth \<Rightarrow> PioneerMonth" where
  "actual_month a = \<lparr>pm_month = ea_month a, pm_year = ea_year a, pm_hours = ea_hours a, pm_studies = ea_studies a,
     pm_credit = ea_creditHours a\<rparr>"

definition planFromEnrolments ::
  "EnrolmentPeriod list \<Rightarrow> EnrolmentActualMonth list \<Rightarrow> int \<Rightarrow> PublisherType \<Rightarrow> EnrolmentPlan option" where
  "planFromEnrolments enrolments activities serviceYear memberType =
     (let stintsInSY = filter (\<lambda>e. length (enrolledMonthsInServiceYear e serviceYear) > 0) enrolments
      in if stintsInSY = [] then
           (if \<not> isPioneerType memberType then None
            else Some \<lparr>pl_rosterType = memberType, pl_isAuxiliary = isAuxiliaryType memberType, pl_ongoing = True,
                       pl_months = [], pl_enrolledMonths = [], pl_enrolledSinceYearStart = False, pl_concluded = False,
                       pl_notEnrolledMonths = [], pl_currentMonthlyGoal = None\<rparr>)
         else
           (let current = latest_stint serviceYear stintsInSY;
                rosterType = ep_type current;
                rosterStints = filter (\<lambda>e. ep_type e = rosterType) stintsInSY;
                enrolled = roster_months serviceYear rosterStints;
                enrolledAbs = set (map abs_ref enrolled);
                rosterOngoing = (\<exists>e \<in> set rosterStints. isOngoing e);
                latestActivityAbs = (if activities = [] then None else Some (Max (set (map actual_abs activities))));
                concluded = (\<not> rosterOngoing \<and>
                  (case latestActivityAbs of None \<Rightarrow> False | Some a \<Rightarrow> a \<notin> enrolledAbs))
            in Some \<lparr>pl_rosterType = rosterType, pl_isAuxiliary = isAuxiliaryType rosterType, pl_ongoing = rosterOngoing,
                     pl_months = map actual_month (filter (\<lambda>a. ea_type a = rosterType) activities),
                     pl_enrolledMonths = enrolled,
                     pl_enrolledSinceYearStart = (absMonth FIRST_MONTH_OF_THEOCRATIC_YEAR serviceYear \<in> enrolledAbs),
                     pl_concluded = concluded,
                     pl_notEnrolledMonths = filter (\<lambda>m. abs_ref m \<notin> enrolledAbs) (serviceYearMonths serviceYear),
                     pl_currentMonthlyGoal = ep_monthlyGoal current\<rparr>))"

section \<open>The roster\<close>

text \<open>One row per month, that of the highest id, in the order the months first appear.\<close>

definition pa_abs :: "publisher_activity \<Rightarrow> int" where
  "pa_abs r = absMonth (pa_month r) (pa_year r)"

definition keep_latest :: "publisher_activity \<Rightarrow> publisher_activity list \<Rightarrow> publisher_activity list" where
  "keep_latest row rows =
     (if \<exists>r \<in> set rows. pa_abs r = pa_abs row
      then map (\<lambda>r. if pa_abs r = pa_abs row \<and> pa_id row > pa_id r then row else r) rows
      else rows @ [row])"

definition dedupeLatestPerMonth :: "publisher_activity list \<Rightarrow> publisher_activity list" where
  "dedupeLatestPerMonth activities = fold keep_latest activities []"

definition serviceYearOfRow :: "int \<Rightarrow> int \<Rightarrow> int" where
  "serviceYearOfRow month year = (if month \<ge> 8 then year else year - 1)"

definition serviceYearWhere :: "int \<Rightarrow> publisher_activity \<Rightarrow> bool" where
  "serviceYearWhere serviceYear r \<longleftrightarrow>
     (pa_year r = serviceYear \<and> pa_month r \<ge> 8) \<or> (pa_year r = serviceYear + 1 \<and> pa_month r \<le> 7)"

definition withPriorServiceYearWhere :: "int \<Rightarrow> publisher_activity \<Rightarrow> bool" where
  "withPriorServiceYearWhere serviceYear r \<longleftrightarrow> serviceYearWhere (serviceYear - 1) r \<or> serviceYearWhere serviceYear r"

text \<open>A member with the reports of two service years, newest id first, and the stints.\<close>

definition reports_of :: "int \<Rightarrow> member \<Rightarrow> db \<Rightarrow> publisher_activity list" where
  "reports_of serviceYear m db =
     js_sort (\<lambda>a b. pa_id b - pa_id a) (filter (\<lambda>r. pa_publisherId r = mem_id m \<and> pa_congregationId r = mem_congregationId m \<and>
        withPriorServiceYearWhere serviceYear r) (publisherActivities db))"

definition stints_of :: "member \<Rightarrow> db \<Rightarrow> EnrolmentPeriod list" where
  "stints_of m db = map period_of (filter (\<lambda>e. pe_memberId e = mem_id m \<and> pe_congregationId e = mem_congregationId m)
     (pioneerEnrolments db))"

record PioneerRosterRowBase =
  rb_memberId :: int
  rb_firstname :: string
  rb_lastname :: string
  rb_type :: PublisherType
  rb_groupName :: "string option"
  rb_concluded :: bool
  rb_monthlyRate :: int

datatype PioneerActivity =
    Annual PioneerRosterRowBase PioneerPace
  | Auxiliary PioneerRosterRowBase bool AuxiliarySummary

definition resolveRates :: "int \<Rightarrow> int \<Rightarrow> db \<Rightarrow> PublisherType \<Rightarrow> int option" where
  "resolveRates serviceYear congregationId db t =
     (if t \<in> set PIONEER_TYPES then Some (resolvePioneerGoal serviceYear t congregationId db) else None)"

definition actual_of :: "publisher_activity \<Rightarrow> EnrolmentActualMonth" where
  "actual_of r = \<lparr>ea_month = pa_month r, ea_year = pa_year r, ea_type = pa_type r, ea_hours = pa_hours r,
     ea_studies = Some (pa_studies r), ea_creditHours = pa_creditHours r\<rparr>"

text \<open>The reports joined to the months of the plan: no report, no hours.\<close>

definition planned_month :: "PioneerMonth list \<Rightarrow> MonthRef \<Rightarrow> PioneerMonth" where
  "planned_month months mr =
     (let reported = find (\<lambda>p. pm_month p * 10000 + pm_year p = mr_month mr * 10000 + mr_year mr) (rev months)
      in \<lparr>pm_month = mr_month mr, pm_year = mr_year mr, pm_hours = Option.bind reported pm_hours,
          pm_studies = Option.bind reported pm_studies, pm_credit = Option.bind reported pm_credit\<rparr>)"

text \<open>The outer \<open>None\<close> is the error of a type without a rate.\<close>

definition classifyPioneerMember ::
  "member \<Rightarrow> publisher_activity list \<Rightarrow> EnrolmentPeriod list \<Rightarrow> string option \<Rightarrow> (PublisherType \<Rightarrow> int option) \<Rightarrow> int \<Rightarrow>
     local_day \<Rightarrow> PioneerActivity option option" where
  "classifyPioneerMember m activities enrolments groupName rates serviceYear now =
     (let thisYear = filter (\<lambda>r. serviceYearOfRow (pa_month r) (pa_year r) = serviceYear) activities;
          rows = map actual_of (dedupeLatestPerMonth thisYear)
      in case planFromEnrolments enrolments rows serviceYear (standingTypeFromEnrolments enrolments) of
           None \<Rightarrow> Some None
         | Some plan \<Rightarrow>
             (case rates (pl_rosterType plan) of
                None \<Rightarrow> None
              | Some typeRate \<Rightarrow>
                  (let monthlyRate = (case pl_currentMonthlyGoal plan of
                                        Some g \<Rightarrow> if g > 0 then g else typeRate | None \<Rightarrow> typeRate);
                       base = \<lparr>rb_memberId = mem_id m, rb_firstname = mem_firstname m, rb_lastname = mem_lastname m,
                               rb_type = pl_rosterType plan, rb_groupName = groupName, rb_concluded = pl_concluded plan,
                               rb_monthlyRate = monthlyRate\<rparr>
                   in if pl_isAuxiliary plan
                      then Some (Some (Auxiliary base (pl_ongoing plan)
                             (computeAuxiliarySummary monthlyRate (map (planned_month (pl_months plan)) (pl_enrolledMonths plan)) now)))
                      else Some (Some (Annual base (computePioneerPace
                             \<lparr>pi_serviceYear = serviceYear, pi_monthlyRate = monthlyRate, pi_months = pl_months plan,
                              pi_now = now, pi_enrolledSinceYearStart = pl_enrolledSinceYearStart plan,
                              pi_concluded = pl_concluded plan, pi_notEnrolledMonths = pl_notEnrolledMonths plan\<rparr>))))))"

definition group_name_of :: "member \<Rightarrow> db \<Rightarrow> string option" where
  "group_name_of m db =
     map_option pg_name (Option.bind (mem_publisherGroupId m) (\<lambda>i. find (\<lambda>g. pg_id g = i) (publisherGroups db)))"

definition classify_in :: "db \<Rightarrow> int \<Rightarrow> int \<Rightarrow> local_day \<Rightarrow> member \<Rightarrow> PioneerActivity option option" where
  "classify_in db congregationId serviceYear now m =
     classifyPioneerMember m (reports_of serviceYear m db) (stints_of m db) (group_name_of m db)
       (resolveRates serviceYear congregationId db) serviceYear now"

definition getPioneerActivityForMember ::
  "int \<Rightarrow> int \<Rightarrow> int \<Rightarrow> local_day \<Rightarrow> db \<Rightarrow> PioneerActivity option option" where
  "getPioneerActivityForMember memberId congregationId serviceYear now db =
     (case find (\<lambda>m. mem_id m = memberId \<and> mem_congregationId m = congregationId) (members db) of
        None \<Rightarrow> Some None
      | Some m \<Rightarrow> classify_in db congregationId serviceYear now m)"

definition RISK_RANK :: "RiskBucket \<Rightarrow> int" where
  "RISK_RANK b = (case b of Red \<Rightarrow> 0 | Amber \<Rightarrow> 1 | Green \<Rightarrow> 2)"

type_synonym annual_row = "PioneerRosterRowBase \<times> PioneerPace"

text \<open>\<^verbatim>\<open>sortMostAtRiskFirst\<close>\<close>

definition most_at_risk :: "annual_row \<Rightarrow> annual_row \<Rightarrow> int" where
  "most_at_risk a b =
     (if rb_concluded (fst a) \<noteq> rb_concluded (fst b) then (if rb_concluded (fst a) then 1 else - 1)
      else if RISK_RANK (pp_riskBucket (snd a)) - RISK_RANK (pp_riskBucket (snd b)) \<noteq> 0
      then RISK_RANK (pp_riskBucket (snd a)) - RISK_RANK (pp_riskBucket (snd b))
      else pp_paceDelta (snd a) - pp_paceDelta (snd b))"

record RosterTotals =
  rt_onTrack :: nat
  rt_behind :: nat
  rt_atRisk :: nat
  rt_actualHours :: int
  rt_targetHours :: int

definition count_row :: "annual_row \<Rightarrow> RosterTotals \<Rightarrow> RosterTotals" where
  "count_row row t =
     (if rb_concluded (fst row) then t
      else
        (let t = (case pp_riskBucket (snd row) of
                    Green \<Rightarrow> t\<lparr>rt_onTrack := rt_onTrack t + 1\<rparr>
                  | Amber \<Rightarrow> t\<lparr>rt_behind := rt_behind t + 1\<rparr>
                  | Red \<Rightarrow> t\<lparr>rt_atRisk := rt_atRisk t + 1\<rparr>)
         in t\<lparr>rt_actualHours := rt_actualHours t + pp_achievedToDate (snd row),
              rt_targetHours := rt_targetHours t + pp_fullYearTarget (snd row)\<rparr>))"

definition computeTotals :: "annual_row list \<Rightarrow> RosterTotals" where
  "computeTotals annual =
     fold count_row annual \<lparr>rt_onTrack = 0, rt_behind = 0, rt_atRisk = 0, rt_actualHours = 0, rt_targetHours = 0\<rparr>"

record PioneerActivitySummary =
  ps_serviceYear :: int
  ps_annual :: "annual_row list"
  ps_auxiliary :: "(PioneerRosterRowBase \<times> bool \<times> AuxiliarySummary) list"
  ps_totals :: RosterTotals

definition roster_candidate :: "int \<Rightarrow> int \<Rightarrow> db \<Rightarrow> member \<Rightarrow> bool" where
  "roster_candidate serviceYear congregationId db m \<longleftrightarrow>
     mem_congregationId m = congregationId \<and> mem_anonymizedAt m = None \<and> mem_leftAt m = None \<and> mem_inactiveAt m = None \<and>
     ((\<exists>e \<in> set (pioneerEnrolments db). pe_memberId e = mem_id m \<and> pe_congregationId e = mem_congregationId m) \<or>
      (\<exists>r \<in> set (publisherActivities db). pa_publisherId r = mem_id m \<and> pa_congregationId r = mem_congregationId m \<and>
         serviceYearWhere serviceYear r \<and> pa_type r \<noteq> Normal))"

definition annual_rows :: "PioneerActivity option list \<Rightarrow> annual_row list" where
  "annual_rows cs = List.map_filter (\<lambda>c. case c of Some (Annual b p) \<Rightarrow> Some (b, p) | _ \<Rightarrow> None) cs"

definition auxiliary_rows :: "PioneerActivity option list \<Rightarrow> (PioneerRosterRowBase \<times> bool \<times> AuxiliarySummary) list" where
  "auxiliary_rows cs = List.map_filter (\<lambda>c. case c of Some (Auxiliary b p a) \<Rightarrow> Some (b, p, a) | _ \<Rightarrow> None) cs"

text \<open>The collation of the database orders the names; \<open>None\<close> when a member has no rate.\<close>

definition getPioneerActivitySummary ::
  "(member \<Rightarrow> member \<Rightarrow> int) \<Rightarrow> int \<Rightarrow> int \<Rightarrow> local_day \<Rightarrow> db \<Rightarrow> PioneerActivitySummary option" where
  "getPioneerActivitySummary by_name congregationId serviceYear now db =
     (let candidates = js_sort by_name (filter (roster_candidate serviceYear congregationId db) (members db));
          classified = map (classify_in db congregationId serviceYear now) candidates
      in if None \<in> set classified then None
         else
           (let cs = map the classified;
                annual = js_sort most_at_risk (annual_rows cs)
            in Some \<lparr>ps_serviceYear = serviceYear, ps_annual = annual, ps_auxiliary = auxiliary_rows cs,
                     ps_totals = computeTotals annual\<rparr>))"

section \<open>Goals and months\<close>

text \<open>
  A saved goal is the one resolved for its service year, type and congregation, and no other
  goal changes, whether the row existed or not.
\<close>

theorem saved_goal_is_resolved:
  "resolvePioneerGoal y k d (snd (setPioneerGoal ev serviceYear t hours c actor db)) =
     (if (y, k, d) = (serviceYear, t, c) then hours else resolvePioneerGoal y k d db)"
proof (cases "find (goal_of serviceYear t c) (pioneerGoals db)")
  case None
  obtain g where rows: "pioneerGoals (snd (setPioneerGoal ev serviceYear t hours c actor db)) = pioneerGoals db @ [g]"
    and g: "goal_of y k d g \<longleftrightarrow> (y, k, d) = (serviceYear, t, c)" "goal_monthlyHours g = hours"
    by (rule that) (auto simp: setPioneerGoal_def None Let_def goal_of_def)
  have "find (goal_of y k d) (pioneerGoals db) = None" if "(y, k, d) = (serviceYear, t, c)"
    using None that by simp
  then show ?thesis
    unfolding resolvePioneerGoal_def rows find_append using g by (auto split: option.split)
next
  case (Some g)
  have rows: "pioneerGoals (snd (setPioneerGoal ev serviceYear t hours c actor db)) =
      update_where (goal_of serviceYear t c) (\<lambda>g. g\<lparr>goal_monthlyHours := hours\<rparr>) (pioneerGoals db)"
    by (simp add: setPioneerGoal_def Some Let_def)
  have found: "find (goal_of y k d) (update_where (goal_of serviceYear t c) (\<lambda>g. g\<lparr>goal_monthlyHours := hours\<rparr>) (pioneerGoals db)) =
      map_option (\<lambda>r. if goal_of serviceYear t c r then r\<lparr>goal_monthlyHours := hours\<rparr> else r)
        (find (goal_of y k d) (pioneerGoals db))"
    by (rule find_update_where) (simp_all add: goal_of_def)
  show ?thesis
  proof (cases "(y, k, d) = (serviceYear, t, c)")
    case True
    have "goal_of serviceYear t c g" using Some by (auto simp: find_Some_iff)
    then show ?thesis unfolding resolvePioneerGoal_def rows found using Some True by simp
  next
    case False
    have "\<not> goal_of serviceYear t c h" if "find (goal_of y k d) (pioneerGoals db) = Some h" for h
    proof -
      have "goal_of y k d h" using that by (auto simp: find_Some_iff)
      then show ?thesis using False by (auto simp: goal_of_def)
    qed
    then have "map_option (\<lambda>r. if goal_of serviceYear t c r then r\<lparr>goal_monthlyHours := hours\<rparr> else r)
        (find (goal_of y k d) (pioneerGoals db)) = find (goal_of y k d) (pioneerGoals db)"
      by (cases "find (goal_of y k d) (pioneerGoals db)") auto
    then show ?thesis unfolding resolvePioneerGoal_def rows found using False by (simp only: if_False)
  qed
qed

text \<open>The rows the database keeps: months from 0 to 11 and paired ends.\<close>

definition stint_row_ok :: "pioneer_enrolment \<Rightarrow> bool" where
  "stint_row_ok e \<longleftrightarrow>
     0 \<le> pe_startMonth e \<and> pe_startMonth e \<le> 11 \<and> endBoundsArePaired (pe_endMonth e) (pe_endYear e) \<and>
     (case pe_endMonth e of None \<Rightarrow> True | Some m \<Rightarrow> 0 \<le> m \<and> m \<le> 11)"

lemma enrolled_within_coarse_bound:
  assumes "stint_row_ok e" and "enrolledMonthsInServiceYear (period_of e) sy \<noteq> []" and "pe_congregationId e = c"
  shows "coarse_bound sy c e"
proof -
  let ?p = "period_of e"
  have "map abs_ref (enrolledMonthsInServiceYear ?p sy) \<noteq> []" using assms(2) by simp
  then obtain a where a: "sy * 12 + 8 \<le> a" "a \<le> sy * 12 + 19"
    "absMonth (ep_startMonth ?p) (ep_startYear ?p) \<le> a"
    "isOngoing ?p \<or> a \<le> absMonth (null_as_0 (ep_endMonth ?p)) (null_as_0 (ep_endYear ?p))"
    unfolding enrolled_months filter_empty_conv by auto
  have "pe_startYear e * 12 \<le> sy * 12 + 19"
    using a(2,3) assms(1) by (simp add: absMonth_def MONTHS_IN_YEAR_def period_of_def stint_row_ok_def)
  moreover have "sy * 12 + 8 \<le> y * 12 + 11" if "pe_endYear e = Some y" for y
    using a(1,4) assms(1) that
    by (cases "pe_endMonth e")
      (auto simp: absMonth_def MONTHS_IN_YEAR_def period_of_def stint_row_ok_def isOngoing_def null_as_0_def endBoundsArePaired_def)
  ultimately show ?thesis using assms(3) by (auto simp: coarse_bound_def split: option.split)
qed

text \<open>
  The bound the database applies before the exact test loses no stint: the reading for a service
  year returns exactly the stints of the congregation with a month in it.
\<close>

theorem service_year_bound_is_exact:
  assumes "list_all stint_row_ok (pioneerEnrolments db)"
  shows "set (getEnrolmentsForServiceYear sy c db) =
    {e \<in> set (pioneerEnrolments db). pe_congregationId e = c \<and> enrolledMonthsInServiceYear (period_of e) sy \<noteq> []}"
proof -
  have "e \<in> set (getEnrolmentsForServiceYear sy c db) \<longleftrightarrow>
      e \<in> set (pioneerEnrolments db) \<and> pe_congregationId e = c \<and> enrolledMonthsInServiceYear (period_of e) sy \<noteq> []" for e
    using assms enrolled_within_coarse_bound [of e sy c]
    by (auto simp: getEnrolmentsForServiceYear_def list_all_iff coarse_bound_def)
  then show ?thesis by blast
qed

lemma service_year_bound_is_exact_witness:
  "list_all stint_row_ok (pioneerEnrolments sample_stints) \<and>
   set (getEnrolmentsForServiceYear 2024 1 sample_stints) =
    {e \<in> set (pioneerEnrolments sample_stints). pe_congregationId e = 1 \<and>
       enrolledMonthsInServiceYear (period_of e) 2024 \<noteq> []}"
proof -
  have rows: "list_all stint_row_ok (pioneerEnrolments sample_stints)"
    by (simp add: stint_eval stint_row_ok_def)
  show ?thesis using rows service_year_bound_is_exact [OF rows, of 2024 1] by blast
qed

end
