(* ===== verification/Assignment_News.thy ===== *)
theory Assignment_News
  imports Programme_Steps
begin

text \<open>
  What people learn of their assignments: the notifications that wait about a part, after a
  publication, a change of the people on it, and a withdrawal.
\<close>

section \<open>Keys\<close>

definition news_key :: "string \<Rightarrow> int \<Rightarrow> int \<Rightarrow> string" where
  "news_key entityType entityId accountId = entityType @ '':'' @ js_string entityId @ '':'' @ ''user:'' @ js_string accountId"

lemma news_key_inject: "news_key t i a = news_key t i b \<longleftrightarrow> a = b"
  by (simp add: news_key_def js_string_inject)

section \<open>Waiting notifications\<close>

definition waiting :: "string \<Rightarrow> pdb \<Rightarrow> nat" where
  "waiting key p = length (filter (pending_of key (\<lambda>t. t = ASSIGNED)) (notificationEvents p))"

lemma programme_types:
  "NOTIFICATION_TYPES ASSIGNED = Some (DebouncedType (to_account 30))"
  "NOTIFICATION_TYPES UNASSIGNED = Some (CancellationType [ASSIGNED] (to_account 0))"
  by (simp_all add: NOTIFICATION_TYPES_def boardNotifications_def eventsNotifications_def ASSIGNED_def UNASSIGNED_def)

lemma cancelled_waiting [simp]:
  "filter (pending_of key (\<lambda>t. t = ASSIGNED)) (update_where (pending_of key' (\<lambda>t. t = ASSIGNED)) (cancelled_row now) rows) =
    (if key' = key then [] else filter (pending_of key (\<lambda>t. t = ASSIGNED)) rows)"
  by (induction rows) (auto simp: pending_of_def [abs_def] cancelled_row_def)

lemma to_account_simps [simp]:
  "with_role (to_account m) ps = ps" "dt_debounceMinutes (to_account m) = m"
  by (simp_all add: with_role_def to_account_def)

lemma waiting_after_assigned:
  assumes "nt_type ps = ASSIGNED"
  shows "waiting key (notify k now ps p) = (if buildDebounceKey ps = key then 1 else waiting key p)"
  by (simp add: assms notify_def programme_types queueDebounced_def Let_def waiting_def)
    (simp add: queued_row_def pending_of_def assms)

lemma waiting_after_unassigned:
  assumes "nt_type ps = UNASSIGNED"
  shows "waiting key (notify k now ps p) = (if buildDebounceKey ps = key then 0 else waiting key p)"
  by (simp add: assms notify_def programme_types handleCancellation_def Let_def waiting_def pushToEmailQueue_def)

lemma recipient_core: "core q = core p \<Longrightarrow> recipient_account q = recipient_account p"
  by (simp add: recipient_account_def fun_eq_iff)

lemma notifyAssignment_core [simp]: "core (notifyAssignment w now ctx t m r p) = core p"
  by (simp add: notifyAssignment_def split: option.split)

lemma waiting_after_assignment:
  "waiting key (notifyAssignment w now ctx ASSIGNED m r p) =
    (case recipient_account p m (anc_congregationId ctx) of
       None \<Rightarrow> waiting key p
     | Some u \<Rightarrow> if news_key (anc_entityType ctx) (anc_entityId ctx) (acc_id u) = key then 1 else waiting key p)"
  by (simp add: notifyAssignment_def waiting_after_assigned assignment_params_def buildDebounceKey_def recipient_part_def news_key_def
    split: option.split)

lemma waiting_after_removal:
  "waiting key (notifyAssignment w now ctx UNASSIGNED m r p) =
    (case recipient_account p m (anc_congregationId ctx) of
       None \<Rightarrow> waiting key p
     | Some u \<Rightarrow> if news_key (anc_entityType ctx) (anc_entityId ctx) (acc_id u) = key then 0 else waiting key p)"
  by (simp add: notifyAssignment_def waiting_after_unassigned assignment_params_def buildDebounceKey_def recipient_part_def news_key_def
    split: option.split)

section \<open>After a publication\<close>

lemma fire_core [simp]: "core (fireReleaseNotifications w now e ts c actor p) = core p"
  unfolding fireReleaseNotifications_def by (induction ts arbitrary: p) simp_all

lemma fire_keeps:
  "waiting key p = 1 \<Longrightarrow> waiting key (fireReleaseNotifications w now e ts c actor p) = 1"
  unfolding fireReleaseNotifications_def
  by (induction ts arbitrary: p) (simp_all add: waiting_after_assignment split: option.split)

text \<open>Who is assigned on an event: the speaker and the reader of each of its parts, and the servant of each service.\<close>

definition assigned_on :: "pdb \<Rightarrow> int \<Rightarrow> string \<Rightarrow> int \<Rightarrow> int \<Rightarrow> bool" where
  "assigned_on p eventId entityType entityId memberId \<longleftrightarrow>
     (entityType = ''EventPart'' \<and>
        (\<exists>a \<in> set (eventParts p). epa_eventId a = eventId \<and> epa_id a = entityId \<and>
           (epa_assigneeId a = Some memberId \<or> epa_assistantId a = Some memberId))) \<or>
     (entityType = ''EventServicePart'' \<and>
        (\<exists>a \<in> set (eventServiceParts p). esp_eventId a = eventId \<and> esp_id a = entityId \<and> esp_assigneeId a = Some memberId))"

lemma targets_assigned:
  "(\<exists>t \<in> set (computeNotifyTargets (parts_of p i) (services_of p i)).
      tg_entityType t = ty \<and> tg_entityId t = k \<and> tg_memberId t = m) \<longleftrightarrow> assigned_on p i ty k m"
proof -
  have part: "(\<exists>t \<in> set (part_targets a). tg_entityType t = ty \<and> tg_entityId t = k \<and> tg_memberId t = m) \<longleftrightarrow>
      ty = ''EventPart'' \<and> epa_id a = k \<and> (epa_assigneeId a = Some m \<or> epa_assistantId a = Some m)" for a
    by (cases "epa_assigneeId a"; cases "epa_assistantId a") (auto simp: part_targets_def option_list_def)
  have service: "(\<exists>t \<in> set (service_targets a). tg_entityType t = ty \<and> tg_entityId t = k \<and> tg_memberId t = m) \<longleftrightarrow>
      ty = ''EventServicePart'' \<and> esp_id a = k \<and> esp_assigneeId a = Some m" for a
    by (cases "esp_assigneeId a") (auto simp: service_targets_def option_list_def)
  have "(\<exists>t \<in> set (computeNotifyTargets (parts_of p i) (services_of p i)).
        tg_entityType t = ty \<and> tg_entityId t = k \<and> tg_memberId t = m) \<longleftrightarrow>
      (\<exists>a \<in> set (parts_of p i). \<exists>t \<in> set (part_targets a). tg_entityType t = ty \<and> tg_entityId t = k \<and> tg_memberId t = m) \<or>
      (\<exists>a \<in> set (services_of p i). \<exists>t \<in> set (service_targets a). tg_entityType t = ty \<and> tg_entityId t = k \<and> tg_memberId t = m)"
    by (simp add: computeNotifyTargets_def bex_Un)
  then show ?thesis unfolding part service assigned_on_def parts_of_def services_of_def by auto
qed

lemma fire_reaches:
  assumes "t \<in> set targets" and "recipient_account q (tg_memberId t) c = Some u"
  shows "waiting (news_key (tg_entityType t) (tg_entityId t) (acc_id u)) (fireReleaseNotifications w now e targets c actor q) = 1"
  using assms
proof (induction targets arbitrary: q)
  case (Cons x xs)
  let ?q = "notifyAssignment w now (target_context e x c actor) ASSIGNED (tg_memberId x) (tg_role x) q"
  have unfold: "fireReleaseNotifications w now e (x # xs) c actor q = fireReleaseNotifications w now e xs c actor ?q"
    by (simp add: fireReleaseNotifications_def)
  have same: "recipient_account ?q (tg_memberId t) c = Some u"
    using Cons.prems(2) recipient_core [of ?q q] by simp
  show ?case
  proof (cases "t = x")
    case True
    then have "waiting (news_key (tg_entityType t) (tg_entityId t) (acc_id u)) ?q = 1"
      using Cons.prems(2) by (simp add: waiting_after_assignment target_context_def buildAssignmentContext_def)
    then show ?thesis unfolding unfold by (rule fire_keeps)
  next
    case False
    then show ?thesis unfolding unfold using Cons.IH [OF _ same] Cons.prems(1) by simp
  qed
qed simp

lemma fire_spares:
  assumes "\<And>t u. t \<in> set targets \<Longrightarrow> recipient_account q (tg_memberId t) c = Some u \<Longrightarrow>
      news_key (tg_entityType t) (tg_entityId t) (acc_id u) \<noteq> key"
  shows "waiting key (fireReleaseNotifications w now e targets c actor q) = waiting key q"
  using assms
proof (induction targets arbitrary: q)
  case (Cons x xs)
  let ?q = "notifyAssignment w now (target_context e x c actor) ASSIGNED (tg_memberId x) (tg_role x) q"
  have same: "recipient_account ?q = recipient_account q" by (rule recipient_core) simp
  have "waiting key (fireReleaseNotifications w now e xs c actor ?q) = waiting key ?q"
    using Cons.prems by (intro Cons.IH) (simp add: same)
  moreover have "waiting key ?q = waiting key q"
    using Cons.prems [of x]
    by (simp add: waiting_after_assignment target_context_def buildAssignmentContext_def split: option.split)
  ultimately show ?case by (simp add: fireReleaseNotifications_def)
qed (simp add: fireReleaseNotifications_def)

text \<open>
  C35. Publication tells everyone once, and nobody else. After an event that was not yet published has
  been, and its notifications fired, the speaker and the reader of each of its parts and the servant of
  each of its services, as far as they have a reachable account, have exactly one notification waiting
  about that part or service, however many were waiting before; and no other account has one more or
  one less.
\<close>

theorem release_tells_everyone_once:
  assumes "find (is_event i c) (events p) = Some e0" and "evt_status e0 \<noteq> EventStatus_Released"
    and "releaseEvent i c actor p = (Some (ReleaseDone e targets), q)"
  shows "(assigned_on p i ty k m \<and> recipient_account p m c = Some u \<longrightarrow>
      waiting (news_key ty k (acc_id u)) (fireReleaseNotifications w now e targets c actor q) = 1) \<and>
    ((\<forall>ty k m u. assigned_on p i ty k m \<and> recipient_account p m c = Some u \<longrightarrow> news_key ty k (acc_id u) \<noteq> key) \<longrightarrow>
      waiting key (fireReleaseNotifications w now e targets c actor q) = waiting key p)"
proof (intro conjI impI)
  have targets: "targets = computeNotifyTargets (parts_of p i) (services_of p i)"
    and rows: "userAccounts (core q) = userAccounts (core p)" "members (core q) = members (core p)"
      "notificationEvents q = notificationEvents p"
    using assms by (auto simp: releaseEvent_def set_status_def split: option.splits if_splits)
  then have recipient: "recipient_account q = recipient_account p"
    unfolding recipient_account_def notificationRecipientFilter_def by (simp only:)
  have same: "waiting key q = waiting key p" for key by (simp add: waiting_def rows)
  show "waiting (news_key ty k (acc_id u)) (fireReleaseNotifications w now e targets c actor q) = 1"
    if told: "assigned_on p i ty k m \<and> recipient_account p m c = Some u"
  proof -
    obtain t where "t \<in> set targets" "tg_entityType t = ty" "tg_entityId t = k" "tg_memberId t = m"
      using told targets_assigned [of p i ty k m] unfolding targets by blast
    then show ?thesis using fire_reaches [of t targets q c u] told by (simp add: recipient)
  qed
  show "waiting key (fireReleaseNotifications w now e targets c actor q) = waiting key p"
    if others: "\<forall>ty k m u. assigned_on p i ty k m \<and> recipient_account p m c = Some u \<longrightarrow> news_key ty k (acc_id u) \<noteq> key"
    unfolding same [symmetric]
  proof (rule fire_spares)
    fix t u assume t: "t \<in> set targets" and u: "recipient_account q (tg_memberId t) c = Some u"
    have "assigned_on p i (tg_entityType t) (tg_entityId t) (tg_memberId t)"
      using t targets_assigned [of p i "tg_entityType t" "tg_entityId t" "tg_memberId t"] unfolding targets by blast
    then show "news_key (tg_entityType t) (tg_entityId t) (acc_id u) \<noteq> key" using u others by (simp add: recipient)
  qed
qed

lemma sample_recipient: "recipient_account sample_programme 1 1 = Some (sample_login 10 (Some 1))"
  by (simp add: recipient_account_def notificationRecipientFilter_def sample_programme_defs)

definition sample_outside :: outside where
  "sample_outside = \<lparr>out_keys = serial_keys, out_date = (\<lambda>_. []), out_link = (\<lambda>_ _ _ _. [])\<rparr>"

lemma release_tells_everyone_once_witness:
  "\<exists>e q. releaseEvent 1 1 10 sample_programme = (Some (ReleaseDone e [sample_target]), q) \<and>
    waiting (news_key ''EventPart'' 5 10) (fireReleaseNotifications sample_outside 0 e [sample_target] 1 10 q) = 1"
proof -
  let ?e = "(sample_event 1 2 100 100)\<lparr>evt_status := EventStatus_Released\<rparr>"
  have run: "releaseEvent 1 1 10 sample_programme = (Some (ReleaseDone ?e [sample_target]), snd (releaseEvent 1 1 10 sample_programme))"
    by (simp add: release_eval sample_target_def sample_programme_defs)
  have draft: "find (is_event 1 1) (events sample_programme) = Some (sample_event 1 2 100 100)"
      "evt_status (sample_event 1 2 100 100) \<noteq> EventStatus_Released"
    by (simp_all add: release_eval sample_programme_defs)
  have "assigned_on sample_programme 1 ''EventPart'' 5 1" by (simp add: assigned_on_def sample_programme_defs)
  then have "waiting (news_key ''EventPart'' 5 10) (fireReleaseNotifications sample_outside 0 ?e [sample_target] 1 10
      (snd (releaseEvent 1 1 10 sample_programme))) = 1"
    using release_tells_everyone_once [OF draft run, of "''EventPart''" 5 1 "sample_login 10 (Some 1)" sample_outside 0 "[]"] sample_recipient
    by (simp add: sample_login_def)
  with run show ?thesis by blast
qed

section \<open>After a change\<close>

lemma accounts_apart:
  assumes "distinct (map acc_id (userAccounts (core p)))"
    and "recipient_account p m c = Some u" and "recipient_account p m' c = Some v"
  shows "acc_id u = acc_id v \<longleftrightarrow> m = m'"
proof -
  have u: "u \<in> set (userAccounts (core p))" "acc_memberId u = Some m" "v \<in> set (userAccounts (core p))" "acc_memberId v = Some m'"
    using find_Some_in [OF assms(2) [unfolded recipient_account_def]] find_Some_in [OF assms(3) [unfolded recipient_account_def]] by simp_all
  then have "acc_id u = acc_id v \<Longrightarrow> u = v" using assms(1) by (auto simp: distinct_map inj_on_def)
  then show ?thesis using u assms(2,3) by auto
qed

text \<open>What one slot does to the news of member \<open>m\<close>.\<close>

lemma waiting_after_slot:
  assumes "distinct (map acc_id (userAccounts (core p)))" and "recipient_account p m (anc_congregationId ctx) = Some u"
  shows "waiting (news_key (anc_entityType ctx) (anc_entityId ctx) (acc_id u)) (dispatch_diff w now ctx d p) =
    (if ad_newMemberId d = Some m then
       (if ad_previousMemberId d = Some m then waiting (news_key (anc_entityType ctx) (anc_entityId ctx) (acc_id u)) p else 1)
     else if ad_previousMemberId d = Some m then 0
     else waiting (news_key (anc_entityType ctx) (anc_entityId ctx) (acc_id u)) p)"
proof -
  let ?key = "news_key (anc_entityType ctx) (anc_entityId ctx) (acc_id u)"
  have apart: "news_key (anc_entityType ctx) (anc_entityId ctx) (acc_id v) = ?key \<longleftrightarrow> m' = m"
    if "recipient_account p m' (anc_congregationId ctx) = Some v" for m' v
    using accounts_apart [OF assms(1) that assms(2)] by (simp add: news_key_inject)
  have removed: "waiting ?key (notifyAssignment w now ctx UNASSIGNED m' r p) = (if m' = m then 0 else waiting ?key p)" for m' r
    using apart assms(2) by (auto simp: waiting_after_removal split: option.split)
  have same: "recipient_account (notifyAssignment w now ctx k m' r p) = recipient_account p" for k m' r
    by (rule recipient_core) simp
  have added: "waiting ?key (notifyAssignment w now ctx ASSIGNED m' r q) = (if m' = m then 1 else waiting ?key q)"
    if "recipient_account q = recipient_account p" for m' r q
    using apart assms(2) by (auto simp: waiting_after_assignment that split: option.split)
  show ?thesis
    by (cases "ad_previousMemberId d"; cases "ad_newMemberId d") (auto simp: dispatch_diff_def Let_def removed added same)
qed

lemma dispatch_diff_core [simp]: "core (dispatch_diff w now ctx d p) = core p"
  by (simp add: dispatch_diff_def Let_def split: option.split)

text \<open>
  A change of the people on a published part is told to those it concerns: afterwards a member
  who came onto the part has exactly one notification waiting, a member who left it has none, and
  for one who keeps a place nothing changes. The one move this leaves out is the reader who
  becomes the speaker: see below.
\<close>

theorem change_of_people_is_told:
  assumes "anc_status ctx = EventStatus_Released" and "distinct (map acc_id (userAccounts (core p)))"
    and "recipient_account p m (anc_congregationId ctx) = Some u"
    and "areParticipantsDistinct x y" and "areParticipantsDistinct x' y'"
    and "\<not> (y = Some m \<and> x' = Some m)"
  defines "key \<equiv> news_key (anc_entityType ctx) (anc_entityId ctx) (acc_id u)"
  shows "waiting key (dispatchAssignmentDiffs w now ctx (partAssignmentDiffs x y x' y') p) =
    (if Some m \<in> {x', y'} then (if (x = Some m \<and> x' = Some m) \<or> (y = Some m \<and> y' = Some m) then waiting key p else 1)
     else if Some m \<in> {x, y} then 0 else waiting key p)"
proof -
  let ?q = "dispatch_diff w now ctx \<lparr>ad_role = Speaker, ad_previousMemberId = x, ad_newMemberId = x'\<rparr> p"
  have q: "distinct (map acc_id (userAccounts (core ?q)))" "recipient_account ?q m (anc_congregationId ctx) = Some u"
    using assms(2,3) recipient_core [of ?q p] by simp_all
  have "x = Some m \<Longrightarrow> y \<noteq> Some m" "x' = Some m \<Longrightarrow> y' \<noteq> Some m"
    using assms(4,5) by (auto simp: areParticipantsDistinct_def split: option.splits)
  then show ?thesis
    using assms(1,6) waiting_after_slot [OF q] waiting_after_slot [OF assms(2,3)]
    by (auto simp: key_def dispatchAssignmentDiffs_def partAssignmentDiffs_def)
qed

definition sample_context :: AssignmentNotificationContext where
  "sample_context = buildAssignmentContext (sample_event 1 2 100 100) EventStatus_Released (Some ''Reading'') ''EventPart'' 5 1 10"

lemma sample_context_fields:
  "anc_status sample_context = EventStatus_Released" "anc_congregationId sample_context = 1"
  "anc_entityType sample_context = ''EventPart''" "anc_entityId sample_context = 5"
  by (simp_all add: sample_context_def buildAssignmentContext_def)

lemma sample_accounts: "distinct (map acc_id (userAccounts (core sample_programme)))"
  by (simp add: sample_programme_defs)

lemma change_of_people_is_told_witness:
  "waiting (news_key ''EventPart'' 5 10)
    (dispatchAssignmentDiffs sample_outside 0 sample_context (partAssignmentDiffs None None (Some 1) None) sample_programme) = 1"
  using change_of_people_is_told [of sample_context sample_programme 1 "sample_login 10 (Some 1)" None None "Some 1" None sample_outside 0]
    sample_recipient sample_accounts
  by (simp add: sample_context_fields areParticipantsDistinct_def) (simp add: sample_login_def)

text \<open>
  The reader who becomes the speaker of a published part learns nothing: the notification that
  announces the new place is cancelled, in the same submission, by the loss of the old one.
\<close>

theorem promoted_reader_is_not_told:
  "waiting (news_key ''EventPart'' 5 10)
    (dispatchAssignmentDiffs sample_outside 0 sample_context (partAssignmentDiffs None (Some 1) (Some 1) None) sample_programme) = 0"
proof -
  let ?q = "dispatch_diff sample_outside 0 sample_context \<lparr>ad_role = Speaker, ad_previousMemberId = None, ad_newMemberId = Some 1\<rparr> sample_programme"
  have "recipient_account ?q 1 1 = Some (sample_login 10 (Some 1))" using recipient_core [of ?q sample_programme] sample_recipient by simp
  then show ?thesis
    using waiting_after_slot [of ?q 1 sample_context "sample_login 10 (Some 1)"] sample_accounts
    by (simp add: sample_context_fields dispatchAssignmentDiffs_def partAssignmentDiffs_def) (simp add: sample_login_def)
qed

section \<open>After a withdrawal\<close>

text \<open>
  Withdrawing a published event silences it: no notification about any of its parts or service
  parts is left waiting, and the assignments themselves stay.
\<close>

theorem withdrawn_event_is_silent:
  assumes "find (is_event i c) (events p) = Some e" and "evt_status e = EventStatus_Released"
    and "unreleaseEvent now i c actor p = (r, q)"
    and "n \<in> set (notificationEvents q)" and "ne_congregationId n = c"
    and "event_entity (map epa_id (parts_of p i)) (map esp_id (services_of p i)) n"
  shows "ne_status n \<noteq> ''pending'' \<and> parts_of q i = parts_of p i \<and> services_of q i = services_of p i"
proof -
  have "length (parts_of p i) > 0 \<or> length (services_of p i) > 0" using assms(6) by (auto simp: event_entity_def)
  then have rows: "notificationEvents q = update_where (\<lambda>n. ne_congregationId n = c \<and> ne_status n = ''pending'' \<and>
      event_entity (map epa_id (parts_of p i)) (map esp_id (services_of p i)) n) (cancelled_row now) (notificationEvents p)"
    and same: "parts_of q i = parts_of p i" "services_of q i = services_of p i"
    using assms(1-3) by (auto simp: unreleaseEvent_def Let_def programme_constants set_status_def parts_of_def services_of_def)
  have "ne_status n \<noteq> ''pending''"
  proof
    assume pending: "ne_status n = ''pending''"
    from assms(4) obtain n' where "n' \<in> set (notificationEvents p)"
      and "n = (if ne_congregationId n' = c \<and> ne_status n' = ''pending'' \<and>
        event_entity (map epa_id (parts_of p i)) (map esp_id (services_of p i)) n' then cancelled_row now n' else n')"
      unfolding rows set_update_where by auto
    then show False using pending assms(5,6) by (auto simp: cancelled_row_def split: if_splits)
  qed
  with same show ?thesis by simp
qed

definition sample_note :: notification_event where
  "sample_note = \<lparr>ne_id = 3, ne_type = ASSIGNED, ne_status = ''pending'', ne_entityType = ''EventPart'', ne_entityId = 5,
     ne_recipientId = Some 10, ne_recipientRole = None, ne_actorId = None, ne_payload = [],
     ne_debounceKey = news_key ''EventPart'' 5 10, ne_debounceUntil = Some 50, ne_processedAt = None, ne_congregationId = 1\<rparr>"

definition sample_published :: pdb where
  "sample_published = sample_programme\<lparr>events := [(sample_event 1 2 100 100)\<lparr>evt_status := EventStatus_Released\<rparr>],
     notificationEvents := [sample_note]\<rparr>"

lemma withdrawn_event_is_silent_witness:
  "ne_status (cancelled_row 7 sample_note) \<noteq> ''pending'' \<and>
    notificationEvents (snd (unreleaseEvent 7 1 1 10 sample_published)) = [cancelled_row 7 sample_note]"
proof -
  obtain r q where run: "unreleaseEvent 7 1 1 10 sample_published = (r, q)" by fastforce
  have e: "find (is_event 1 1) (events sample_published) = Some ((sample_event 1 2 100 100)\<lparr>evt_status := EventStatus_Released\<rparr>)"
    by (simp add: is_event_def sample_published_def sample_event_def)
  have parts: "map epa_id (parts_of sample_published 1) = [5]" "map esp_id (services_of sample_published 1) = []"
    by (simp_all add: parts_of_def services_of_def sample_published_def sample_programme_defs)
  have "notificationEvents (snd (unreleaseEvent 7 1 1 10 sample_published)) = [cancelled_row 7 sample_note]"
    by (simp add: unreleaseEvent_def e Let_def parts)
      (simp add: programme_constants set_status_def sample_published_def event_entity_def sample_note_def update_where_def)
  moreover have "event_entity [5] [] (cancelled_row 7 sample_note)" "ne_congregationId (cancelled_row 7 sample_note) = 1"
    by (simp_all add: event_entity_def cancelled_row_def sample_note_def)
  ultimately show ?thesis
    using withdrawn_event_is_silent [OF e _ run, of "cancelled_row 7 sample_note"] parts run by simp
qed

end
