(* ===== verification/Digest.thy ===== *)
theory Digest
  imports Assignment_News Classes
begin

text \<open>
  The digest: the grouping of settled notifications as a partition by key, one flush as the
  delivery of every row of its batch, and repeated flushes as the delivery of everything settled.
\<close>

section \<open>Grouping\<close>

lemma add_to_groups:
  assumes "distinct keys"
  shows "add_to_group key x (map (\<lambda>k. (k, f k)) keys) =
    (if key \<in> set keys then map (\<lambda>k. (k, if k = key then f k @ [x] else f k)) keys
     else map (\<lambda>k. (k, f k)) keys @ [(key, [x])])"
  using assms by (induction keys) auto

lemma grouped_by_key:
  "groupEvents ns = map (\<lambda>k. (k, filter (\<lambda>n. group_key n = k) ns)) (js_set (map group_key ns))"
proof (induction ns rule: rev_induct)
  case Nil
  show ?case by (simp add: groupEvents_def js_set_def)
next
  case (snoc n ns)
  have step: "groupEvents (ns @ [n]) = add_to_group (group_key n) n (groupEvents ns)"
    by (simp add: groupEvents_def)
  show ?case
  proof (cases "group_key n \<in> set (map group_key ns)")
    case True
    then show ?thesis unfolding step snoc add_to_groups [OF distinct_js_set] by (auto simp: js_set_snoc)
  next
    case False
    then have "filter (\<lambda>m. group_key m = group_key n) ns = []" by (auto simp: filter_empty_conv image_iff)
    with False show ?thesis unfolding step snoc add_to_groups [OF distinct_js_set] by (auto simp: js_set_snoc)
  qed
qed

text \<open>
  Grouping is a partition by key: the groups come in the order their keys first appear, and
  each holds exactly the notifications of its key, in the order they were created.
\<close>

theorem groups_are_classes:
  "groupEvents ns = map (\<lambda>k. (k, filter (\<lambda>n. group_key n = k) ns)) (js_set (map group_key ns))"
  by (rule grouped_by_key)

section \<open>Flushing\<close>

definition delivered :: "email_job \<Rightarrow> int list" where
  "delivered j = (case j of DigestJob _ _ _ ids \<Rightarrow> ids | InstantJob _ _ _ _ _ \<Rightarrow> [])"

lemma digest_carries: "mset (concat (map (delivered \<circ> digest_job \<circ> snd) (groupEvents ns))) = mset (map ne_id ns)"
proof -
  have "delivered \<circ> digest_job = map ne_id" by (simp add: fun_eq_iff delivered_def digest_job_def)
  then have "concat (map (delivered \<circ> digest_job \<circ> snd) (groupEvents ns)) = map ne_id (concat (map snd (groupEvents ns)))"
    by (simp add: map_concat comp_assoc [symmetric])
  moreover have "mset (concat (map snd (groupEvents ns))) = mset ns"
    unfolding grouped_by_key using classes_cover [of "js_set (map group_key ns)" group_key ns] by (simp add: comp_def)
  ultimately show ?thesis by simp
qed

lemma batch_rows: "set (settled_batch now p) \<subseteq> set (filter (settled now) (notificationEvents p))"
  using set_take_subset by (fastforce simp: settled_batch_def)

lemma flush_settles:
  fixes now :: int
  assumes "distinct (map ne_id (notificationEvents p))"
  defines "q \<equiv> snd (flushSettledNotifications now p)" and "ids \<equiv> set (map ne_id (settled_batch now p))"
  shows "filter (settled now) (notificationEvents q) = filter (\<lambda>n. ne_id n \<notin> ids) (filter (settled now) (notificationEvents p))"
    and "map ne_id (notificationEvents q) = map ne_id (notificationEvents p)"
    and "emailQueue q = emailQueue p @ map (digest_job \<circ> snd) (groupEvents (settled_batch now p))"
proof -
  have sent: "\<not> settled now (n\<lparr>ne_status := ''sent'', ne_processedAt := Some now\<rparr>)" for n by (simp add: settled_def)
  have filter_sent: "filter (settled now) (update_where (\<lambda>n. ne_id n \<in> ids) (\<lambda>n. n\<lparr>ne_status := ''sent'', ne_processedAt := Some now\<rparr>) rows) =
      filter (\<lambda>n. ne_id n \<notin> ids) (filter (settled now) rows)" for rows
    by (induction rows) (auto simp: sent)
  have none: "groupEvents [] = []" by (simp add: groupEvents_def)
  show "filter (settled now) (notificationEvents q) = filter (\<lambda>n. ne_id n \<notin> ids) (filter (settled now) (notificationEvents p))"
    using filter_sent [of "notificationEvents p"]
    by (auto simp: q_def flushSettledNotifications_def Let_def ids_def)
  show "map ne_id (notificationEvents q) = map ne_id (notificationEvents p)"
    by (simp add: q_def flushSettledNotifications_def Let_def update_where_def)
  show "emailQueue q = emailQueue p @ map (digest_job \<circ> snd) (groupEvents (settled_batch now p))"
    by (simp add: q_def flushSettledNotifications_def Let_def none)
qed

lemma flush_once:
  fixes now :: int
  assumes "distinct (map ne_id (notificationEvents p))"
  defines "q \<equiv> snd (flushSettledNotifications now p)"
  shows "distinct (map ne_id (notificationEvents q))"
    and "length (filter (settled now) (notificationEvents q)) = length (filter (settled now) (notificationEvents p)) - 500"
    and "mset (concat (map delivered (emailQueue q))) + mset (map ne_id (filter (settled now) (notificationEvents q))) =
      mset (concat (map delivered (emailQueue p))) + mset (map ne_id (filter (settled now) (notificationEvents p)))"
proof -
  let ?S = "filter (settled now) (notificationEvents p)"
  let ?b = "settled_batch now p"
  note settles = flush_settles [OF assms(1), of now, folded q_def]
  show "distinct (map ne_id (notificationEvents q))" using settles(2) assms(1) by simp
  have S: "distinct (map ne_id ?S)" using assms(1) by (rule distinct_map_filter)
  have b: "distinct (map ne_id ?b)" using S
    by (simp add: settled_batch_def take_map [symmetric] distinct_take)
  have left: "filter (\<lambda>n. ne_id n \<notin> set (map ne_id ?b)) ?S = filter (\<lambda>n. n \<notin> set ?b) ?S"
    using batch_rows [of now p] S by (intro filter_cong) (auto simp: distinct_map inj_on_def)
  have dist: "distinct ?S" "distinct ?b" using S b by (simp_all add: distinct_map)
  have "mset (filter (\<lambda>n. n \<notin> set ?b) ?S) + mset ?b = mset (filter (\<lambda>n. n \<notin> set ?b) ?S @ ?b)" by simp
  also have "\<dots> = mset ?S"
  proof -
    have "distinct (filter (\<lambda>n. n \<notin> set ?b) ?S @ ?b)"
      using distinct_filter [OF dist(1)] dist(2) by (simp only: distinct_append) auto
    moreover have "set (filter (\<lambda>n. n \<notin> set ?b) ?S @ ?b) = set ?S" using batch_rows [of now p] by auto
    ultimately show ?thesis using dist(1) set_eq_iff_mset_eq_distinct by blast
  qed
  finally have split: "mset (filter (settled now) (notificationEvents q)) + mset ?b = mset ?S"
    unfolding settles(1) left .
  have "length (filter (settled now) (notificationEvents q)) + length ?b = length ?S"
    using arg_cong [OF split, of size] by (simp only: size_union size_mset)
  then show "length (filter (settled now) (notificationEvents q)) = length ?S - 500"
    by (simp add: settled_batch_def min_def split: if_splits)
  have "mset (concat (map delivered (emailQueue q))) = mset (concat (map delivered (emailQueue p))) + image_mset ne_id (mset ?b)"
    unfolding settles(3) using digest_carries [of ?b] by (simp add: comp_assoc)
  then show "mset (concat (map delivered (emailQueue q))) + mset (map ne_id (filter (settled now) (notificationEvents q))) =
      mset (concat (map delivered (emailQueue p))) + mset (map ne_id ?S)"
    using arg_cong [OF split, of "image_mset ne_id"] by (simp add: ac_simps)
qed

text \<open>
  C36. Nothing is lost or sent twice. Flushing as often as it takes, five hundred rows at a time,
  leaves no settled notification waiting, and the digests added to the e-mail queue carry every
  notification that had settled exactly once.
\<close>

theorem flushes_deliver_everything_once:
  assumes "distinct (map ne_id (notificationEvents p))"
    and "length (filter (settled now) (notificationEvents p)) \<le> 500 * k"
  defines "q \<equiv> ((\<lambda>p. snd (flushSettledNotifications now p)) ^^ k) p"
  shows "filter (settled now) (notificationEvents q) = [] \<and>
    mset (concat (map delivered (emailQueue q))) =
      mset (concat (map delivered (emailQueue p))) + mset (map ne_id (filter (settled now) (notificationEvents p)))"
proof -
  let ?after = "\<lambda>k. ((\<lambda>p. snd (flushSettledNotifications now p)) ^^ k) p"
  let ?left = "\<lambda>p. filter (settled now) (notificationEvents p)"
  let ?carried = "\<lambda>p. mset (concat (map delivered (emailQueue p)))"
  have run: "distinct (map ne_id (notificationEvents (?after k))) \<and> length (?left (?after k)) = length (?left p) - 500 * k \<and>
    ?carried (?after k) + mset (map ne_id (?left (?after k))) = ?carried p + mset (map ne_id (?left p))" for k
  proof (induction k)
    case 0
    then show ?case using assms(1) by simp
  next
    case (Suc k)
    then show ?case using flush_once [of "?after k" now] by simp
  qed
  have none: "?left q = []" using run [of k] assms(2) by (simp add: q_def del: filter_empty_conv)
  then have "?carried q = ?carried p + mset (map ne_id (?left p))" using run [of k] by (simp only: q_def [symmetric]) simp
  with none show ?thesis by blast
qed

lemma flushes_deliver_everything_once_witness:
  "filter (settled 60) (notificationEvents (snd (flushSettledNotifications 60 (sample_programme\<lparr>notificationEvents := [sample_note]\<rparr>)))) = []"
  using flushes_deliver_everything_once [of "sample_programme\<lparr>notificationEvents := [sample_note]\<rparr>" 60 1] by simp

end
