(* ===== verification/Eligibility.thy ===== *)
theory Eligibility
  imports Programme_Steps
begin

text \<open>
  Who is offered for a slot, and the edit of the allowed roles: the page that asks once per set of
  roles offers what the single checks accept, and a saved selection is the one read back.
\<close>

section \<open>A whole programme at once\<close>

lemma pushed_slots:
  assumes "list_all (\<lambda>r. al_asKind r = ''speaker'' \<or> al_asKind r = ''reader'') rows" and "found i = Some (s, t)"
  shows "fold push_slot (filter (\<lambda>r. al_ownerId r \<in> set ids \<and> al_congregationId r = c) rows) found i =
    Some (s @ (if i \<in> set ids then allowed_role_ids rows i ''speaker'' c else []),
      t @ (if i \<in> set ids then allowed_role_ids rows i ''reader'' c else []))"
  using assms
proof (induction rows arbitrary: found s t)
  case (Cons r rows)
  show ?case
  proof (cases "al_ownerId r \<in> set ids \<and> al_congregationId r = c")
    case True
    obtain s' t' where "push_slot r found i = Some (s', t')"
      and "s' = s @ (if al_ownerId r = i \<and> al_asKind r = ''speaker'' then [al_roleId r] else [])"
      and "t' = t @ (if al_ownerId r = i \<and> al_asKind r \<noteq> ''speaker'' then [al_roleId r] else [])"
      using Cons.prems(2) by (auto simp: push_slot_def split: option.splits)
    then show ?thesis using Cons.IH [of "push_slot r found" s' t'] Cons.prems(1) True
      by (auto simp: allowed_role_ids_def allowed_on_def)
  next
    case False
    then show ?thesis using Cons.IH [of found s t] Cons.prems
      by (auto simp: allowed_role_ids_def allowed_on_def)
  qed
qed (simp add: allowed_role_ids_def)

lemma empty_slots: "fold (\<lambda>i found. found(i \<mapsto> v)) ids m i = (if i \<in> set ids then Some v else m i)"
  by (induction ids arbitrary: m) auto

lemma slots_for_parts:
  assumes "list_all (\<lambda>r. al_asKind r = ''speaker'' \<or> al_asKind r = ''reader'') (eventPartAllowedRoles p)" and "i \<in> set ids"
  shows "getPartAssignmentAllowedRoleIdsForParts p ids c i =
    Some (getPartAssignmentAllowedRoleIds p i ''speaker'' c, getPartAssignmentAllowedRoleIds p i ''reader'' c)"
  using pushed_slots [OF assms(1), of "fold (\<lambda>i found. found(i \<mapsto> ([], []))) ids (\<lambda>_. None)" i "[]" "[]" ids c] assms(2)
  by (auto simp: getPartAssignmentAllowedRoleIdsForParts_def getPartAssignmentAllowedRoleIds_def empty_slots)

lemma pushed_ids:
  assumes "list_all (\<lambda>r. al_asKind r = []) rows" and "found i = Some s"
  shows "fold push_id (filter (\<lambda>r. al_ownerId r \<in> set ids \<and> al_congregationId r = c) rows) found i =
    Some (s @ (if i \<in> set ids then allowed_role_ids rows i [] c else []))"
  using assms
proof (induction rows arbitrary: found s)
  case (Cons r rows)
  show ?case
  proof (cases "al_ownerId r \<in> set ids \<and> al_congregationId r = c")
    case True
    have "push_id r found i = Some (s @ (if al_ownerId r = i then [al_roleId r] else []))"
      using Cons.prems(2) by (auto simp: push_id_def split: option.splits)
    then show ?thesis using Cons.IH [of "push_id r found" "s @ (if al_ownerId r = i then [al_roleId r] else [])"] Cons.prems(1) True
      by (auto simp: allowed_role_ids_def allowed_on_def)
  next
    case False
    then show ?thesis using Cons.IH [of found s] Cons.prems
      by (auto simp: allowed_role_ids_def allowed_on_def)
  qed
qed (simp add: allowed_role_ids_def)

lemma ids_for_services:
  assumes "list_all (\<lambda>r. al_asKind r = []) (eventServicePartAllowedRoles p)" and "i \<in> set ids"
  shows "getServicePartAssignmentAllowedRoleIdsForParts p ids c i = Some (getServicePartAssignmentAllowedRoleIds p i c)"
  using pushed_ids [OF assms(1), of "fold (\<lambda>i found. found(i \<mapsto> [])) ids (\<lambda>_. None)" i "[]" ids c] assms(2)
  by (auto simp: getServicePartAssignmentAllowedRoleIdsForParts_def getServicePartAssignmentAllowedRoleIds_def empty_slots)

section \<open>The cache\<close>

definition cache_true :: "pdb \<Rightarrow> int \<Rightarrow> (int list \<times> int list) list \<Rightarrow> bool" where
  "cache_true p c cache \<longleftrightarrow> (\<forall>ids answer. map_of cache (js_sort (\<lambda>a b. a - b) ids) = Some answer \<longrightarrow> answer = resolveEligibleUserIds p ids c)"

lemma eligible_depends_on_set:
  assumes "set a = set b"
  shows "resolveEligibleUserIds p a c = resolveEligibleUserIds p b c"
proof -
  have "length a = 0 \<longleftrightarrow> length b = 0" using assms by (metis length_0_conv set_empty)
  then show ?thesis using assms by (simp add: resolveEligibleUserIds_def findMembersWithAnyRole_def members_with_any_role_def)
qed

lemma eligibleFor_true:
  assumes "cache_true p c cache"
  obtains cache' where "eligibleFor p c ids cache = (resolveEligibleUserIds p ids c, cache')" and "cache_true p c cache'"
proof (cases "map_of cache (js_sort (\<lambda>a b. a - b) ids)")
  case None
  let ?cache = "(js_sort (\<lambda>a b. a - b) ids, resolveEligibleUserIds p ids c) # cache"
  have "resolveEligibleUserIds p ids c = resolveEligibleUserIds p other c"
    if "js_sort (\<lambda>a b. a - b) ids = js_sort (\<lambda>a b. a - b) other" for other
    using arg_cong [OF that, of set] by (intro eligible_depends_on_set) simp
  then have "cache_true p c ?cache" using assms unfolding cache_true_def map_of.simps fun_upd_apply fst_conv snd_conv
    by (metis option.inject)
  then show ?thesis using that [of ?cache] None by (simp add: eligibleFor_def Let_def)
next
  case (Some answer)
  then have "answer = resolveEligibleUserIds p ids c" using assms unfolding cache_true_def by blast
  then show ?thesis using that [of cache] assms Some by (simp add: eligibleFor_def)
qed

lemma part_candidates_are_eligible:
  assumes "cache_true p c cache"
  obtains cache' where "part_candidates p c allowed offer ids cache =
      (map (\<lambda>i. let slots = (case allowed i of None \<Rightarrow> ([], []) | Some s \<Rightarrow> s)
        in (i, offer (resolveEligibleUserIds p (fst slots) c), offer (resolveEligibleUserIds p (snd slots) c))) ids, cache')"
    and "cache_true p c cache'"
proof -
  have "\<exists>cache'. part_candidates p c allowed offer ids cache =
      (map (\<lambda>i. let slots = (case allowed i of None \<Rightarrow> ([], []) | Some s \<Rightarrow> s)
        in (i, offer (resolveEligibleUserIds p (fst slots) c), offer (resolveEligibleUserIds p (snd slots) c))) ids, cache') \<and>
      cache_true p c cache'"
    using assms
  proof (induction ids arbitrary: cache)
    case (Cons i ids)
    let ?slots = "case allowed i of None \<Rightarrow> ([], []) | Some s \<Rightarrow> s"
    obtain c1 where c1: "eligibleFor p c (fst ?slots) cache = (resolveEligibleUserIds p (fst ?slots) c, c1)" "cache_true p c c1"
      using eligibleFor_true [OF Cons.prems] by metis
    obtain c2 where c2: "eligibleFor p c (snd ?slots) c1 = (resolveEligibleUserIds p (snd ?slots) c, c2)" "cache_true p c c2"
      using eligibleFor_true [OF c1(2)] by metis
    show ?case using Cons.IH [OF c2(2)] c1(1) c2(1) by (auto simp: Let_def)
  qed simp
  then show ?thesis using that by blast
qed

lemma service_candidates_are_eligible:
  assumes "cache_true p c cache"
  shows "service_candidates p c allowed offer ids cache =
    map (\<lambda>i. (i, offer (resolveEligibleUserIds p (case allowed i of None \<Rightarrow> [] | Some s \<Rightarrow> s) c))) ids"
  using assms
proof (induction ids arbitrary: cache)
  case (Cons i ids)
  obtain c1 where c1: "eligibleFor p c (case allowed i of None \<Rightarrow> [] | Some s \<Rightarrow> s) cache =
      (resolveEligibleUserIds p (case allowed i of None \<Rightarrow> [] | Some s \<Rightarrow> s) c, c1)" "cache_true p c c1"
    using eligibleFor_true [OF Cons.prems] by metis
  then show ?case using Cons.IH [OF c1(2)] by (simp add: Let_def)
qed simp

text \<open>
  C37. The programme page offers exactly whom the assignment accepts: for every part and every
  service part, the candidates built from one read of the table and one question per set of roles
  are those that resolving the slot alone gives, among the members shown.
\<close>

theorem candidates_are_the_eligible:
  assumes "list_all (\<lambda>r. al_asKind r = ''speaker'' \<or> al_asKind r = ''reader'') (eventPartAllowedRoles p)"
    and "list_all (\<lambda>r. al_asKind r = []) (eventServicePartAllowedRoles p)"
  shows "buildAssignmentCandidates p partIds serviceIds memberIds c =
    \<lparr>cnd_parts = map (\<lambda>i. (i,
        filter (\<lambda>m. m \<in> set memberIds) (resolveEligibleUserIds p (getPartAssignmentAllowedRoleIds p i ''speaker'' c) c),
        filter (\<lambda>m. m \<in> set memberIds) (resolveEligibleUserIds p (getPartAssignmentAllowedRoleIds p i ''reader'' c) c))) partIds,
     cnd_services = map (\<lambda>i. (i,
        filter (\<lambda>m. m \<in> set memberIds) (resolveEligibleUserIds p (getServicePartAssignmentAllowedRoleIds p i c) c))) serviceIds\<rparr>"
proof -
  have "cache_true p c []" by (simp add: cache_true_def)
  then obtain cache where parts: "part_candidates p c (getPartAssignmentAllowedRoleIdsForParts p partIds c)
      (filter (\<lambda>m. m \<in> set memberIds)) partIds [] =
      (map (\<lambda>i. let slots = (case getPartAssignmentAllowedRoleIdsForParts p partIds c i of None \<Rightarrow> ([], []) | Some s \<Rightarrow> s)
        in (i, filter (\<lambda>m. m \<in> set memberIds) (resolveEligibleUserIds p (fst slots) c),
               filter (\<lambda>m. m \<in> set memberIds) (resolveEligibleUserIds p (snd slots) c))) partIds, cache)"
    and cache: "cache_true p c cache"
    by (rule part_candidates_are_eligible)
  show ?thesis
    unfolding buildAssignmentCandidates_def Let_def parts prod.case service_candidates_are_eligible [OF cache]
    using slots_for_parts [OF assms(1)] ids_for_services [OF assms(2)] by (simp add: Let_def)
qed

definition sample_slots :: pdb where
  "sample_slots = sample_programme\<lparr>core := empty_db\<lparr>members := [sample_member 1, sample_member 2],
       memberRoleAssignments := [\<lparr>mra_memberId = 2, mra_roleId = 8, mra_congregationId = 1\<rparr>]\<rparr>,
     eventPartAllowedRoles := [allowed_row 5 ''speaker'' 1 8]\<rparr>"

lemma candidates_are_the_eligible_witness:
  "buildAssignmentCandidates sample_slots [5] [] [1, 2] 1 = \<lparr>cnd_parts = [(5, [2], [])], cnd_services = []\<rparr>"
proof -
  have rows: "eventPartAllowedRoles sample_slots = [allowed_row 5 ''speaker'' 1 8]" "eventServicePartAllowedRoles sample_slots = []"
    "members (core sample_slots) = [sample_member 1, sample_member 2]" "roles (core sample_slots) = []"
    "memberRoleAssignments (core sample_slots) = [\<lparr>mra_memberId = 2, mra_roleId = 8, mra_congregationId = 1\<rparr>]"
    "userRoleAssignments (core sample_slots) = []" "userAccounts (core sample_slots) = []"
    by (simp_all add: sample_slots_def sample_programme_def empty_db_def)
  have "resolveEligibleUserIds sample_slots [8] 1 = [2]" "resolveEligibleUserIds sample_slots [] 1 = []"
    by (simp_all add: resolveEligibleUserIds_def findMembersWithAnyRole_def members_with_any_role_def rows sample_member_def)
  moreover have "getPartAssignmentAllowedRoleIds sample_slots 5 ''speaker'' 1 = [8]" "getPartAssignmentAllowedRoleIds sample_slots 5 ''reader'' 1 = []"
    by (simp_all add: getPartAssignmentAllowedRoleIds_def allowed_role_ids_def allowed_on_def rows allowed_row_def)
  ultimately show ?thesis
    using candidates_are_the_eligible [of sample_slots "[5]" "[]" "[1, 2]" 1] by (simp add: rows allowed_row_def)
qed

section \<open>Saving a selection\<close>

lemma set_create_allowed:
  "set (create_allowed new rows) \<subseteq> set new \<union> set rows" "set rows \<subseteq> set (create_allowed new rows)"
  "r \<in> set new \<Longrightarrow> \<exists>r' \<in> set (create_allowed new rows). same_key r r'"
proof -
  have one: "set rows \<subseteq> set (add_if_new x rows)" for x rows by (auto simp: add_if_new_def)
  show keep: "set rows \<subseteq> set (create_allowed new rows)" for new rows
  proof (induction new arbitrary: rows)
    case (Cons x new)
    have "set rows \<subseteq> set (create_allowed new (add_if_new x rows))" using one Cons by (rule subset_trans)
    then show ?case by (simp add: create_allowed_def)
  qed (simp add: create_allowed_def)
  show "set (create_allowed new rows) \<subseteq> set new \<union> set rows"
  proof (induction new arbitrary: rows)
    case (Cons x new)
    have "set (add_if_new x rows) \<subseteq> insert x (set rows)" by (auto simp: add_if_new_def)
    then show ?case using Cons [of "add_if_new x rows"] by (auto simp: create_allowed_def)
  qed (simp add: create_allowed_def)
  show "\<exists>r' \<in> set (create_allowed new rows). same_key r r'" if "r \<in> set new"
    using that
  proof (induction new arbitrary: rows)
    case (Cons x new)
    have step: "create_allowed (x # new) rows = create_allowed new (add_if_new x rows)" by (simp add: create_allowed_def)
    have "\<exists>r' \<in> set (add_if_new x rows). same_key x r'"
      by (auto simp: add_if_new_def list_ex_iff same_key_def)
    then show ?case using Cons keep [of "add_if_new x rows" new] unfolding step by auto
  qed simp
qed

definition rows_owned_by :: "int \<Rightarrow> int \<Rightarrow> allowed_role list \<Rightarrow> bool" where
  "rows_owned_by ownerId c rows \<longleftrightarrow> list_all (\<lambda>r. al_ownerId r \<noteq> ownerId \<or> al_congregationId r = c) rows"

lemma allowed_after_set:
  assumes "rows_owned_by owner c rows"
  shows "set (allowed_role_ids (snd (set_allowed owner kind desired c rows)) i k c) =
    (if i = owner \<and> k = kind then set desired else set (allowed_role_ids rows i k c))"
proof -
  let ?prev = "allowed_role_ids rows owner kind c"
  let ?diff = "diffRoleIds ?prev desired"
  let ?kept = "if df_removed ?diff = [] then rows else delete_where (\<lambda>r. allowed_on owner kind c r \<and> al_roleId r \<in> set (df_removed ?diff)) rows"
  let ?new = "map (allowed_row owner kind c) (df_added ?diff)"
  let ?after = "if df_added ?diff = [] then ?kept else create_allowed ?new ?kept"
  have kept: "set ?kept = {r \<in> set rows. \<not> (allowed_on owner kind c r \<and> al_roleId r \<in> set (df_removed ?diff))}"
    by (auto simp: delete_where_def)
  have ids: "x \<in> set (allowed_role_ids xs i k c) \<longleftrightarrow> (\<exists>r \<in> set xs. allowed_on i k c r \<and> al_roleId r = x)" for x xs i k
    by (auto simp: allowed_role_ids_def)
  have after: "x \<in> set (allowed_role_ids ?after i k c) \<longleftrightarrow>
      x \<in> set (allowed_role_ids ?kept i k c) \<or> (i = owner \<and> k = kind \<and> x \<in> set (df_added ?diff))" for x
  proof
    assume "x \<in> set (allowed_role_ids ?after i k c)"
    then obtain r where r: "r \<in> set ?after" "allowed_on i k c r" "al_roleId r = x" unfolding ids by blast
    then have "r \<in> set ?new \<or> r \<in> set ?kept" using set_create_allowed(1) [of ?new ?kept] by (auto split: if_splits)
    then show "x \<in> set (allowed_role_ids ?kept i k c) \<or> (i = owner \<and> k = kind \<and> x \<in> set (df_added ?diff))"
    proof
      assume "r \<in> set ?new"
      then show ?thesis using r by (auto simp: allowed_on_def allowed_row_def)
    next
      assume "r \<in> set ?kept"
      then show ?thesis using r ids by blast
    qed
  next
    assume "x \<in> set (allowed_role_ids ?kept i k c) \<or> (i = owner \<and> k = kind \<and> x \<in> set (df_added ?diff))"
    then show "x \<in> set (allowed_role_ids ?after i k c)"
    proof
      assume "x \<in> set (allowed_role_ids ?kept i k c)"
      then obtain r where "r \<in> set ?kept" "allowed_on i k c r" "al_roleId r = x" unfolding ids by blast
      moreover from this have "r \<in> set ?after" using set_create_allowed(2) [of ?kept ?new] by (auto split: if_splits)
      ultimately show ?thesis unfolding ids by blast
    next
      assume x: "i = owner \<and> k = kind \<and> x \<in> set (df_added ?diff)"
      then have "allowed_row owner kind c x \<in> set ?new" "df_added ?diff \<noteq> []" by auto
      then obtain r where r: "r \<in> set ?after" "same_key (allowed_row owner kind c x) r"
        using set_create_allowed(3) [of "allowed_row owner kind c x" ?new ?kept] by auto
      have "r \<in> set ?new \<or> r \<in> set rows"
        using r(1) set_create_allowed(1) [of ?new ?kept] kept by (auto split: if_splits)
      moreover have "r \<in> set ?new \<Longrightarrow> al_congregationId r = c" by (auto simp: allowed_row_def)
      moreover have "r \<in> set rows \<Longrightarrow> al_congregationId r = c"
        using assms r(2) by (auto simp: rows_owned_by_def list_all_iff same_key_def allowed_row_def)
      ultimately have "al_congregationId r = c" by blast
      then have "allowed_on owner kind c r" "al_roleId r = x" using r(2) by (auto simp: same_key_def allowed_row_def allowed_on_def)
      then show ?thesis unfolding ids using r(1) x by blast
    qed
  qed
  have "x \<in> set (allowed_role_ids ?kept i k c) \<longleftrightarrow>
      x \<in> set (allowed_role_ids rows i k c) \<and> \<not> (i = owner \<and> k = kind \<and> x \<in> set (df_removed ?diff))" for x
    unfolding ids kept by (auto simp: allowed_on_def)
  then have whole: "set (allowed_role_ids ?after i k c) =
      (if i = owner \<and> k = kind then set desired else set (allowed_role_ids rows i k c))"
    unfolding set_eq_iff after by (auto simp: diffRoleIds_def)
  show ?thesis
  proof (cases "df_added ?diff = [] \<and> df_removed ?diff = []")
    case True
    then show ?thesis using whole by (simp add: set_allowed_def Let_def)
  next
    case False
    then have "snd (set_allowed owner kind desired c rows) = ?after" by (auto simp: set_allowed_def Let_def)
    with whole show ?thesis by simp
  qed
qed

text \<open>
  A saved selection is the one read back: after the roles allowed on a slot of a part are set,
  reading that slot gives exactly the roles asked for, and every other slot of every other part
  still gives what it gave.
\<close>

theorem saved_selection_is_read_back:
  assumes "rows_owned_by owner c (eventPartAllowedRoles p)"
  shows "set (getPartAssignmentAllowedRoleIds (snd (setPartAssignmentAllowedRoles owner kind desired c p)) i k c) =
    (if i = owner \<and> k = kind then set desired else set (getPartAssignmentAllowedRoleIds p i k c))"
  using allowed_after_set [OF assms, of kind desired i k]
  by (simp add: getPartAssignmentAllowedRoleIds_def setPartAssignmentAllowedRoles_def case_prod_beta)

lemma saved_selection_is_read_back_witness:
  "set (getPartAssignmentAllowedRoleIds (snd (setPartAssignmentAllowedRoles 5 ''speaker'' [3, 4] 1 sample_slots)) 5 ''speaker'' 1) = {3, 4}"
  using saved_selection_is_read_back [of 5 1 sample_slots "''speaker''" "[3, 4]" 5 "''speaker''"]
  by (simp add: rows_owned_by_def sample_slots_def allowed_row_def)

end
