(* ===== verification/Template_Copies.thy ===== *)
theory Template_Copies
  imports Template_Generation Eligibility
begin

text \<open>
  What a template hands to an event: its parts, with their columns and the roles allowed on each
  slot, whether the event is generated from it or the template is applied to an event that exists;
  and where the two ways differ.
\<close>

section \<open>Copying a part\<close>

definition no_dangling :: "pdb \<Rightarrow> bool" where
  "no_dangling p \<longleftrightarrow> list_all (\<lambda>r. al_ownerId r \<in> epa_id ` set (eventParts p)) (eventPartAllowedRoles p)"

lemma create_other:
  assumes "list_all (\<lambda>r. al_ownerId r \<noteq> i) new"
  shows "allowed_role_ids (create_allowed new rows) i kind c = allowed_role_ids rows i kind c"
  using assms unfolding create_allowed_def
proof (induction new arbitrary: rows)
  case (Cons r new)
  then have "allowed_role_ids (add_if_new r rows) i kind c = allowed_role_ids rows i kind c"
    by (simp add: add_if_new_def allowed_role_ids_def allowed_on_def)
  then show ?case using Cons by simp
qed simp

lemma create_fresh:
  assumes "i \<notin> al_ownerId ` set rows"
  shows "set (allowed_role_ids (create_allowed (map (\<lambda>r. allowed_row i (al_asKind r) c (al_roleId r)) allowed) rows) i kind c) =
    al_roleId ` {r \<in> set allowed. al_asKind r = kind}" (is "?left = ?right")
proof -
  let ?new = "map (\<lambda>r. allowed_row i (al_asKind r) c (al_roleId r)) allowed"
  have rows: "r \<in> set ?new" if "r \<in> set (create_allowed ?new rows)" "al_ownerId r = i" for r
    using that set_create_allowed(1) [of ?new rows] assms by auto
  have new: "al_congregationId r = c" if "r \<in> set ?new" for r using that by (auto simp: allowed_row_def)
  show ?thesis
  proof
    show "?left \<subseteq> ?right"
    proof
      fix x
      assume "x \<in> ?left"
      then obtain r where "r \<in> set (create_allowed ?new rows)" "al_ownerId r = i" "al_asKind r = kind" "al_roleId r = x"
        by (auto simp: allowed_role_ids_def allowed_on_def)
      with rows have "r \<in> set ?new" "al_asKind r = kind" "al_roleId r = x" by simp_all
      then show "x \<in> ?right" by (auto simp: allowed_row_def)
    qed
    show "?right \<subseteq> ?left"
    proof
      fix x
      assume "x \<in> ?right"
      then obtain r where r: "r \<in> set allowed" "al_asKind r = kind" "al_roleId r = x" by auto
      then have "allowed_row i kind c x \<in> set ?new" by auto
      then obtain r' where r': "r' \<in> set (create_allowed ?new rows)" "same_key (allowed_row i kind c x) r'"
        using set_create_allowed(3) by blast
      then have "al_ownerId r' = i" "al_roleId r' = x" "al_asKind r' = kind" by (simp_all add: same_key_def allowed_row_def)
      moreover from this have "al_congregationId r' = c" using rows [OF r'(1)] new by simp
      ultimately show "x \<in> ?left" using r'(1) by (auto simp: allowed_role_ids_def allowed_on_def)
    qed
  qed
qed

lemma copy_one:
  fixes f :: "template_part \<Rightarrow> PartData" and i c :: int and t :: template_part
  assumes "fresh_rows k" and "no_dangling p"
  defines "a \<equiv> blank_part (key_part k (eventParts p)) i (Some (tp_id t)) c (f t)" and "q \<equiv> copy_part k f i c t p"
  shows "eventParts q = eventParts p @ [a]" and "no_dangling q"
    and "j \<in> epa_id ` set (eventParts p) \<Longrightarrow> getPartAssignmentAllowedRoleIds q j kind d = getPartAssignmentAllowedRoleIds p j kind d"
    and "set (getPartAssignmentAllowedRoleIds q (epa_id a) kind c) =
      al_roleId ` {r \<in> set (templatePartAllowedRoles p). al_ownerId r = tp_id t \<and> al_asKind r = kind}"
    and "templatePartAllowedRoles q = templatePartAllowedRoles p"
proof -
  let ?allowed = "filter (\<lambda>r. al_ownerId r = tp_id t) (templatePartAllowedRoles p)"
  let ?new = "map (\<lambda>r. allowed_row (epa_id a) (al_asKind r) c (al_roleId r)) ?allowed"
  have fresh: "epa_id a \<notin> epa_id ` set (eventParts p)"
    using assms(1) by (simp add: a_def blank_part_def fresh_rows_def)
  then have unowned: "epa_id a \<notin> al_ownerId ` set (eventPartAllowedRoles p)"
    using assms(2) by (auto simp: no_dangling_def list_all_iff)
  have rows: "eventPartAllowedRoles q = create_allowed ?new (eventPartAllowedRoles p)"
    by (simp add: q_def copy_part_def Let_def a_def)
  show parts: "eventParts q = eventParts p @ [a]" by (simp add: q_def copy_part_def Let_def a_def)
  show "templatePartAllowedRoles q = templatePartAllowedRoles p" by (simp add: q_def copy_part_def Let_def)
  show "no_dangling q"
    using assms(2) set_create_allowed(1) [of ?new "eventPartAllowedRoles p"] unfolding no_dangling_def rows parts list_all_iff
    by (fastforce simp: allowed_row_def)
  show "getPartAssignmentAllowedRoleIds q j kind d = getPartAssignmentAllowedRoleIds p j kind d" if "j \<in> epa_id ` set (eventParts p)"
    unfolding getPartAssignmentAllowedRoleIds_def rows
    by (rule create_other) (use that fresh in \<open>auto simp: list_all_iff allowed_row_def\<close>)
  show "set (getPartAssignmentAllowedRoleIds q (epa_id a) kind c) =
      al_roleId ` {r \<in> set (templatePartAllowedRoles p). al_ownerId r = tp_id t \<and> al_asKind r = kind}"
    unfolding getPartAssignmentAllowedRoleIds_def rows create_fresh [OF unowned] by simp
qed

lemma copies_keep:
  assumes "fresh_rows k" and "no_dangling p" and "j \<in> epa_id ` set (eventParts p)"
  shows "getPartAssignmentAllowedRoleIds (fold (copy_part k f i c) ts p) j kind d = getPartAssignmentAllowedRoleIds p j kind d \<and>
    set (eventParts p) \<subseteq> set (eventParts (fold (copy_part k f i c) ts p))"
  using assms(2,3)
proof (induction ts arbitrary: p)
  case (Cons t ts)
  note one = copy_one [OF assms(1) Cons.prems(1)]
  have "j \<in> epa_id ` set (eventParts (copy_part k f i c t p))" using Cons.prems(2) unfolding one(1) by auto
  from Cons.IH [OF one(2) this] show ?case using one(3) [OF Cons.prems(2)] by (auto simp: one(1))
qed simp

definition carries :: "(template_part \<Rightarrow> PartData) \<Rightarrow> int \<Rightarrow> int \<Rightarrow> template_part \<Rightarrow> allowed_role list \<Rightarrow> pdb \<Rightarrow> event_part \<Rightarrow> bool" where
  "carries f i c t allowed q a \<longleftrightarrow> a = blank_part (epa_id a) i (Some (tp_id t)) c (f t) \<and>
     (\<forall>kind. set (getPartAssignmentAllowedRoleIds q (epa_id a) kind c) =
       al_roleId ` {r \<in> set allowed. al_ownerId r = tp_id t \<and> al_asKind r = kind})"

lemma copies_carry:
  fixes f :: "template_part \<Rightarrow> PartData" and i c :: int
  assumes "fresh_rows k" and "no_dangling p" and "t \<in> set ts"
  defines "q \<equiv> fold (copy_part k f i c) ts p"
  shows "\<exists>a \<in> set (eventParts q). carries f i c t (templatePartAllowedRoles p) q a"
  using assms(2,3) unfolding q_def
proof (induction ts arbitrary: p)
  case (Cons t' ts)
  let ?p = "copy_part k f i c t' p"
  note one = copy_one [OF assms(1) Cons.prems(1), where f = f and i = i and c = c and t = t']
  show ?case
  proof (cases "t \<in> set ts")
    case True
    then show ?thesis using Cons.IH [OF one(2)] by (simp add: one(5))
  next
    case False
    then have t: "t' = t" using Cons.prems(2) by simp
    let ?a = "blank_part (key_part k (eventParts p)) i (Some (tp_id t)) c (f t)"
    have "?a \<in> set (eventParts ?p)" using one(1) t by simp
    moreover from this have id: "epa_id ?a \<in> epa_id ` set (eventParts ?p)" by (rule imageI)
    moreover note copies_keep [OF assms(1) one(2) id, of f i c ts]
    ultimately have "?a \<in> set (eventParts (fold (copy_part k f i c) ts ?p))"
      and "set (getPartAssignmentAllowedRoleIds (fold (copy_part k f i c) ts ?p) (epa_id ?a) kind c) =
        al_roleId ` {r \<in> set (templatePartAllowedRoles p). al_ownerId r = tp_id t \<and> al_asKind r = kind}" for kind
      using one(4) [unfolded t] by (blast, simp add: t)
    moreover have "?a = blank_part (epa_id ?a) i (Some (tp_id t)) c (f t)" by (simp add: blank_part_def)
    ultimately have "?a \<in> set (eventParts (fold (copy_part k f i c) ts ?p)) \<and>
        carries f i c t (templatePartAllowedRoles p) (fold (copy_part k f i c) ts ?p) ?a"
      unfolding carries_def by blast
    then show ?thesis unfolding fold_Cons comp_apply t by blast
  qed
qed simp

section \<open>A generated event\<close>

text \<open>
  A generated event carries its template: each part of the template is on the event, under the
  same name, section, track, order, duration and labels, empty, and open to exactly the roles that
  the template allows on each slot.
\<close>

theorem generated_event_carries_the_template:
  assumes "createEventWithAssignments k offset tpl date u c p = (Inr e, q)" and "fresh_rows k" and "no_dangling p"
    and "t \<in> set (template_parts p (tpl_id tpl))"
  shows "\<exists>a \<in> set (eventParts q). a = blank_part (epa_id a) (evt_id e) (Some (tp_id t)) c (generated_part t) \<and>
    (\<forall>kind. set (getPartAssignmentAllowedRoleIds q (epa_id a) kind c) =
      al_roleId ` {r \<in> set (templatePartAllowedRoles p). al_ownerId r = tp_id t \<and> al_asKind r = kind})"
proof -
  let ?p = "p\<lparr>events := events p @ [e]\<rparr>"
  let ?r = "fold (copy_part k generated_part (evt_id e) c) (template_parts p (tpl_id tpl)) ?p"
  have q: "q = fold (copy_service k (\<lambda>_. None) (evt_id e) c) (template_services p (tpl_id tpl)) ?r"
    using assms(1) unfolding createEventWithAssignments_def Let_def by (auto split: option.splits)
  have "no_dangling ?p" using assms(3) by (simp add: no_dangling_def)
  from copies_carry [OF assms(2) this assms(4), of generated_part "evt_id e" c]
  obtain a where "a \<in> set (eventParts ?r)" "carries generated_part (evt_id e) c t (templatePartAllowedRoles p) ?r a" by auto
  moreover have "getPartAssignmentAllowedRoleIds q = getPartAssignmentAllowedRoleIds ?r" "eventParts q = eventParts ?r"
    by (simp_all add: fun_eq_iff getPartAssignmentAllowedRoleIds_def q)
  ultimately show ?thesis unfolding carries_def by metis
qed

definition sample_template_part :: template_part where
  "sample_template_part = \<lparr>tp_id = 4, tp_name = ''Reading'', tp_section = [], tp_track = ''main'', tp_trackOrder = Some 2, tp_order = 5,
     tp_durationMin = Some 4, tp_allowExternalSpeaker = False, tp_speakerLabel = None, tp_readerLabel = None, tp_templateId = 2,
     tp_presetId = Some 7, tp_congregationId = 1\<rparr>"

definition sample_plan :: pdb where
  "sample_plan = sample_programme\<lparr>eventParts := [], events := [],
     eventTemplates := [(sample_template 2 ''midweek'')\<lparr>tpl_startTime := ''18:30'', tpl_endTime := ''20:15''\<rparr>],
     templateParts := [sample_template_part], templatePartAllowedRoles := [allowed_row 4 ''speaker'' 1 8],
     templateServiceParts := [\<lparr>tsp_id = 6, tsp_name = ''Sound'', tsp_key = ''sound'', tsp_templateId = 2, tsp_presetId = Some 9,
       tsp_congregationId = 1\<rparr>]\<rparr>"

lemma sample_clock: "clock_time ''18:30'' = Some 66600000" "clock_time ''20:15'' = Some 72900000"
  by (simp_all add: clock_time_def parseTimeString_def number_eval)

lemma sample_plan_fields:
  "events sample_plan = []" "eventParts sample_plan = []" "eventServiceParts sample_plan = []" "eventPartAllowedRoles sample_plan = []"
  "eventTemplates sample_plan = [(sample_template 2 ''midweek'')\<lparr>tpl_startTime := ''18:30'', tpl_endTime := ''20:15''\<rparr>]"
  "templatePartAllowedRoles sample_plan = [allowed_row 4 ''speaker'' 1 8]" "templateServicePartAllowedRoles sample_plan = []"
  "template_parts sample_plan 2 = [sample_template_part]"
  "template_services sample_plan 2 = [\<lparr>tsp_id = 6, tsp_name = ''Sound'', tsp_key = ''sound'', tsp_templateId = 2, tsp_presetId = Some 9,
       tsp_congregationId = 1\<rparr>]"
  by (simp_all add: sample_plan_def template_parts_def template_services_def sample_template_part_def sample_programme_def)

definition sample_plan_template :: event_template where
  "sample_plan_template = (sample_template 2 ''midweek'')\<lparr>tpl_startTime := ''18:30'', tpl_endTime := ''20:15''\<rparr>"

lemma sample_plan_template_fields:
  "tpl_startTime sample_plan_template = ''18:30''" "tpl_endTime sample_plan_template = ''20:15''" "tpl_id sample_plan_template = 2"
  "tpl_weekDay sample_plan_template = Some 2" "is_template 2 1 sample_plan_template"
  by (simp_all add: sample_plan_template_def sample_template_def is_template_def)

lemma generated_event_carries_the_template_witness:
  "\<exists>e q. createEventWithAssignments serial_keys (\<lambda>_. 0) sample_plan_template 0 10 1 sample_plan = (Inr e, q) \<and>
    (\<exists>a \<in> set (eventParts q). epa_name a = ''Reading'' \<and> set (getPartAssignmentAllowedRoleIds q (epa_id a) ''speaker'' 1) = {8})"
proof -
  obtain e q where run: "createEventWithAssignments serial_keys (\<lambda>_. 0) sample_plan_template 0 10 1 sample_plan = (Inr e, q)"
    by (simp add: createEventWithAssignments_def Let_def sample_plan_template_fields sample_clock)
  have "no_dangling sample_plan" by (simp add: no_dangling_def sample_plan_fields)
  moreover have "sample_template_part \<in> set (template_parts sample_plan (tpl_id sample_plan_template))"
    by (simp add: sample_plan_template_fields sample_plan_fields)
  ultimately obtain a where "a \<in> set (eventParts q)" and a: "a = blank_part (epa_id a) (evt_id e) (Some (tp_id sample_template_part)) 1 (generated_part sample_template_part)"
    and roles: "\<forall>kind. set (getPartAssignmentAllowedRoleIds q (epa_id a) kind 1) =
      al_roleId ` {r \<in> set (templatePartAllowedRoles sample_plan). al_ownerId r = tp_id sample_template_part \<and> al_asKind r = kind}"
    using generated_event_carries_the_template [OF run fresh_serial_keys] by blast
  moreover have "epa_name a = ''Reading''"
    by (subst a) (simp add: blank_part_def generated_part_def applied_part_def sample_template_part_def)
  moreover have "set (getPartAssignmentAllowedRoleIds q (epa_id a) ''speaker'' 1) = {8}"
    using roles by (auto simp: sample_plan_fields sample_template_part_def allowed_row_def)
  ultimately show ?thesis using run by blast
qed

text \<open>
  Two ways of using a template do not agree: generating an event keeps the order of the track
  and forgets the kind of a service part, applying the template to an event keeps the kind and
  forgets the order.
\<close>

theorem generation_and_application_differ:
  "let generated = snd (createEventWithAssignments serial_keys (\<lambda>_. 0) sample_plan_template 0 10 1 sample_plan);
       applied = snd (applyTemplateToEvent serial_keys 1 2 1 (sample_plan\<lparr>events := [sample_event 1 2 0 0]\<rparr>))
   in map epa_trackOrder (eventParts generated) = [Some 2] \<and> map esp_presetId (eventServiceParts generated) = [None] \<and>
      map epa_trackOrder (eventParts applied) = [None] \<and> map esp_presetId (eventServiceParts applied) = [Some 9]"
proof -
  have "template_parts (sample_plan\<lparr>events := x\<rparr>) 2 = [sample_template_part]"
    "template_services (sample_plan\<lparr>events := x\<rparr>) 2 = template_services sample_plan 2" for x
    using sample_plan_fields(8) by (simp_all add: template_parts_def template_services_def)
  moreover have "find (is_template 2 1) (eventTemplates sample_plan) = Some sample_plan_template"
    using sample_plan_template_fields(5) by (simp add: sample_plan_fields sample_plan_template_def)
  ultimately show ?thesis
    by (simp add: Let_def createEventWithAssignments_def applyTemplateToEvent_def sample_plan_template_fields sample_clock
      sample_plan_fields copy_part_def copy_service_def is_event_def sample_event_def)
      (simp add: blank_part_def blank_service_def generated_part_def applied_part_def given_def sample_template_part_def)
qed

section \<open>East of the server\<close>

text \<open>A run of two weeks, two hours east of a server in UTC, on which the laws of generation are applied.\<close>

definition sample_run :: "(pdb, event list) outcome" where
  "sample_run = generateEventsFromTemplate serial_keys (fixed_zone 0) 0 2 2 10 1 (\<lambda>_. 2 * MS_PER_HOUR) (Some 0) sample_plan"

lemma sample_plan_template: "find (is_template 2 1) (eventTemplates sample_plan) = Some sample_plan_template"
  using sample_plan_template_fields(5) by (simp add: sample_plan_fields sample_plan_template_def)

lemma generated_more:
  assumes "toDateString offset date \<notin> taken" and "createEventWithAssignments k offset t date u c p = (Inr e, r)"
    and "generate_dates k offset t taken u c dates r = (Inr es, q)"
  shows "generate_dates k offset t taken u c (date # dates) p = (Inr (e # es), q)"
  using assms by simp

lemma sample_run_done: "\<exists>e es q. sample_run = (Inr (e # es), q)"
proof -
  have create: "\<exists>e r. createEventWithAssignments serial_keys off sample_plan_template date 10 1 p = (Inr e, r)" for off date p
    by (simp add: createEventWithAssignments_def Let_def sample_plan_template_fields sample_clock)
  have ok: "\<exists>es q. generate_dates serial_keys off sample_plan_template taken 10 1 dates p = (Inr es, q)" for off taken dates p
  proof (induction dates arbitrary: p)
    case (Cons date dates)
    obtain e r where "createEventWithAssignments serial_keys off sample_plan_template date 10 1 p = (Inr e, r)"
      using create by blast
    moreover obtain es q where "generate_dates serial_keys off sample_plan_template taken 10 1 dates r = (Inr es, q)" using Cons by blast
    ultimately show ?case using Cons by simp
  qed simp
  obtain d where dates: "computeDatesForWeekdayCount (fixed_zone 0) 2 2 0 = map (\<lambda>i. (d + 7 * int i) * MS_PER_DAY - 0) [0..<2]"
    using dates_fixed [of 2 0 2 0] by auto
  obtain e r where one: "createEventWithAssignments serial_keys (\<lambda>_. 2 * MS_PER_HOUR) sample_plan_template (d * MS_PER_DAY) 10 1 sample_plan = (Inr e, r)"
    using create by blast
  obtain es q where "generate_dates serial_keys (\<lambda>_. 2 * MS_PER_HOUR) sample_plan_template {} 10 1 [(d + 7) * MS_PER_DAY] r = (Inr es, q)"
    using ok by blast
  from generated_more [OF _ one this] have
    "generate_dates serial_keys (\<lambda>_. 2 * MS_PER_HOUR) sample_plan_template {} 10 1 [d * MS_PER_DAY, (d + 7) * MS_PER_DAY] sample_plan = (Inr (e # es), q)"
    by simp
  moreover have "computeDatesForWeekdayCount (fixed_zone 0) 2 2 0 = [d * MS_PER_DAY, (d + 7) * MS_PER_DAY]"
    unfolding dates by (simp add: numeral_2_eq_2)
  ultimately have "sample_run = (Inr (e # es), q)"
    by (simp add: sample_run_def generateEventsFromTemplate_def sample_plan_template sample_plan_template_fields
      taken_days_def sample_plan_fields(1) del: generate_dates.simps(2))
  then show ?thesis by blast
qed


lemma regenerating_adds_nothing_witness:
  "\<exists>e es q. sample_run = (Inr (e # es), q) \<and>
    generateEventsFromTemplate serial_keys (fixed_zone 0) 5 2 2 10 1 (\<lambda>_. 2 * MS_PER_HOUR) (Some 0) q = (Inr [], q)"
proof -
  obtain e es q where run: "sample_run = (Inr (e # es), q)" using sample_run_done by blast
  have "generateEventsFromTemplate serial_keys (fixed_zone 0) 5 2 2 10 1 (\<lambda>_. 2 * MS_PER_HOUR) (Some 0) q = (Inr [], q)"
    using regenerating_adds_nothing [OF run [unfolded sample_run_def] sample_plan_template, of 2 66600000]
    by (simp add: sample_plan_template_fields sample_clock MS_PER_DAY_val MS_PER_HOUR_def)
  with run show ?thesis by blast
qed

section \<open>West of the server\<close>

text \<open>
  West of the server the days slip. On a server in UTC, for a congregation five hours behind,
  the event generated for a Tuesday is on the Monday, and generating again creates it again.
\<close>

theorem western_events_fall_a_day_early:
  "let offset = (\<lambda>_. - (5 * MS_PER_HOUR));
       first = generateEventsFromTemplate serial_keys utc 0 2 1 10 1 offset (Some 0) sample_plan;
       again = generateEventsFromTemplate serial_keys utc 0 2 1 10 1 offset (Some 0) (snd first)
   in map_sum id (map (\<lambda>e. (zone_day offset (evt_startDate e) + 4) mod 7)) (fst first) = Inr [1] \<and>
      map_sum id length (fst again) = Inr 1"
proof -
  let ?off = "\<lambda>_ :: int. - (5 * MS_PER_HOUR)"
  let ?first = "generateEventsFromTemplate serial_keys utc 0 2 1 10 1 ?off (Some 0) sample_plan"
  note tpl = sample_plan_template
  have dates: "computeDatesForWeekdayCount utc 2 (Suc 0) 0 = [432000000]"
    by (simp add: computeDatesForWeekdayCount_def midnight_of_def shift_days_def getDay_def server_day_def utc_def js_rem_def
      MS_PER_DAY_val numeral_eq_Suc)
  have start: "setHoursInTimezone 432000000 66600000 ?off = 430200000"
    by (simp add: setHoursInTimezone_def combineLocalDateTime_def zone_day_def MS_PER_DAY_val MS_PER_HOUR_def)
  have create: "\<exists>e r. createEventWithAssignments serial_keys ?off sample_plan_template 432000000 10 1 p = (Inr e, r) \<and>
      evt_startDate e = 430200000 \<and> events r = events p @ [e] \<and> eventTemplates r = eventTemplates p" for p
    by (simp add: createEventWithAssignments_def Let_def sample_plan_template_fields sample_clock start generated_event_def)
  obtain e q where one: "createEventWithAssignments serial_keys ?off sample_plan_template 432000000 10 1 sample_plan = (Inr e, q)"
    "evt_startDate e = 430200000" "events q = [e]" "eventTemplates q = eventTemplates sample_plan"
    using create [of sample_plan] by (auto simp: sample_plan_fields)
  obtain e' q' where two: "createEventWithAssignments serial_keys ?off sample_plan_template 432000000 10 1 q = (Inr e', q')"
    using create [of q] by auto
  have first: "?first = (Inr [e], q)"
    by (simp add: generateEventsFromTemplate_def tpl sample_plan_template_fields dates taken_days_def sample_plan_fields(1) one)
  have again: "generateEventsFromTemplate serial_keys utc 0 2 1 10 1 ?off (Some 0) q = (Inr [e'], q')"
    by (simp add: generateEventsFromTemplate_def one(4) tpl sample_plan_template_fields dates taken_days_def one(2,3) two)
  show ?thesis
    unfolding Let_def first snd_conv again by (simp add: one(2) zone_day_def MS_PER_DAY_val MS_PER_HOUR_def)
qed

end
