(* ===== verification/Event_Templates.thy ===== *)
theory Event_Templates
  imports Programme_Steps
begin

text \<open>
  Event templates (\<^verbatim>\<open>features/events/server/event-templates.server.ts\<close>,
  \<^verbatim>\<open>duplicate-template.server.ts\<close>, \<^verbatim>\<open>model/responsibility-scope.type.ts\<close>) and who may act on
  the events made from them (\<^verbatim>\<open>events-auth.server.ts\<close>). The collation of the database and the
  caller's permissions are arguments.
\<close>

section \<open>Reading\<close>

definition by_scope :: "template_responsible \<Rightarrow> template_responsible \<Rightarrow> int" where
  "by_scope a b = (if trs_scope a = trs_scope b then 0 else if trs_scope a = ''programme'' then - 1 else 1)"

definition responsibles_of :: "pdb \<Rightarrow> int \<Rightarrow> template_responsible list" where
  "responsibles_of p i = js_sort by_scope (filter (\<lambda>r. trs_templateId r = i) (templateResponsibles p))"

record TemplateListItem =
  tli_template :: event_template
  tli_parts :: nat
  tli_serviceParts :: nat
  tli_events :: nat
  tli_responsibles :: "template_responsible list"

definition list_item :: "pdb \<Rightarrow> event_template \<Rightarrow> TemplateListItem" where
  "list_item p t =
     \<lparr>tli_template = t, tli_parts = length (filter (\<lambda>a. tp_templateId a = tpl_id t) (templateParts p)),
      tli_serviceParts = length (filter (\<lambda>a. tsp_templateId a = tpl_id t) (templateServiceParts p)),
      tli_events = length (filter (\<lambda>e. evt_templateId e = Some (tpl_id t)) (events p)),
      tli_responsibles = responsibles_of p (tpl_id t)\<rparr>"

definition getTemplates :: "(string \<Rightarrow> string \<Rightarrow> int) \<Rightarrow> int \<Rightarrow> pdb \<Rightarrow> TemplateListItem list" where
  "getTemplates collate congregationId p =
     map (list_item p) (js_sort (\<lambda>a b. collate (tpl_name a) (tpl_name b))
       (filter (\<lambda>t. tpl_congregationId t = congregationId) (eventTemplates p)))"

definition getTemplateById ::
  "(string \<Rightarrow> string \<Rightarrow> int) \<Rightarrow> int \<Rightarrow> int \<Rightarrow> pdb \<Rightarrow>
     (event_template \<times> template_part list \<times> template_service_part list \<times> template_responsible list) option" where
  "getTemplateById collate templateId congregationId p =
     map_option (\<lambda>t. (t, template_parts p templateId,
         js_sort (\<lambda>a b. collate (tsp_name a) (tsp_name b)) (template_services p templateId), responsibles_of p templateId))
       (find (is_template templateId congregationId) (eventTemplates p))"

section \<open>Editing a template\<close>

text \<open>An absent field is \<open>None\<close>; the weekday may also be set to \<^verbatim>\<open>null\<close>.\<close>

record TemplateEdit =
  te_name :: "string option"
  te_weekDay :: "int option option"
  te_isRecurring :: "bool option"
  te_description :: "string option"
  te_color :: "string option"
  te_startTime :: "string option"
  te_endTime :: "string option"

definition only_color :: "TemplateEdit \<Rightarrow> TemplateEdit" where
  "only_color d = \<lparr>te_name = None, te_weekDay = None, te_isRecurring = None, te_description = None, te_color = te_color d,
     te_startTime = None, te_endTime = None\<rparr>"

definition nothing_given :: "TemplateEdit \<Rightarrow> bool" where
  "nothing_given d \<longleftrightarrow> te_name d = None \<and> te_weekDay d = None \<and> te_isRecurring d = None \<and> te_description d = None \<and>
     te_color d = None \<and> te_startTime d = None \<and> te_endTime d = None"

definition default_to :: "'a option \<Rightarrow> 'a \<Rightarrow> 'a" where
  "default_to x old = (case x of None \<Rightarrow> old | Some v \<Rightarrow> v)"

definition edited_template :: "TemplateEdit \<Rightarrow> event_template \<Rightarrow> event_template" where
  "edited_template d t =
     t\<lparr>tpl_name := default_to (map_option sanitizeText (te_name d)) (tpl_name t),
       tpl_weekDay := given (te_weekDay d) (tpl_weekDay t), tpl_isRecurring := default_to (te_isRecurring d) (tpl_isRecurring t),
       tpl_description := default_to (map_option sanitizeText (te_description d)) (tpl_description t),
       tpl_color := default_to (te_color d) (tpl_color t), tpl_startTime := default_to (te_startTime d) (tpl_startTime t),
       tpl_endTime := default_to (te_endTime d) (tpl_endTime t)\<rparr>"

definition updateTemplate :: "int \<Rightarrow> TemplateEdit \<Rightarrow> int \<Rightarrow> pdb \<Rightarrow> (pdb, event_template option) outcome" where
  "updateTemplate templateId d congregationId p =
     (let existing = find (is_template templateId congregationId) (eventTemplates p);
          scoped = (case existing of None \<Rightarrow> d | Some t \<Rightarrow> if isSystemTemplate (tpl_key t) then only_color d else d)
      in if nothing_given scoped then (Inr None, p)
         else
           (case existing of
              None \<Rightarrow> (Inl (DatabaseError RecordNotFound), p)
            | Some t \<Rightarrow> (Inr (Some (edited_template scoped t)),
                p\<lparr>eventTemplates := update_where (is_template templateId congregationId) (edited_template scoped) (eventTemplates p)\<rparr>)))"

section \<open>Parts of a template\<close>

definition is_template_part :: "int \<Rightarrow> int \<Rightarrow> template_part \<Rightarrow> bool" where
  "is_template_part i congregationId a \<longleftrightarrow> tp_id a = i \<and> tp_congregationId a = congregationId"

definition is_template_service :: "int \<Rightarrow> int \<Rightarrow> template_service_part \<Rightarrow> bool" where
  "is_template_service i congregationId a \<longleftrightarrow> tsp_id a = i \<and> tsp_congregationId a = congregationId"

definition part_columns :: "PartData \<Rightarrow> template_part \<Rightarrow> template_part" where
  "part_columns d a =
     a\<lparr>tp_name := sanitizeText (pd_name d), tp_section := sanitizeText (pd_section d), tp_track := sanitizeText (pd_track d),
       tp_trackOrder := given (pd_trackOrder d) (tp_trackOrder a), tp_order := pd_order d, tp_durationMin := pd_durationMin d,
       tp_allowExternalSpeaker := pd_allowExternalSpeaker d, tp_speakerLabel := given (pd_speakerLabel d) (tp_speakerLabel a),
       tp_readerLabel := given (pd_readerLabel d) (tp_readerLabel a), tp_presetId := given (pd_presetId d) None\<rparr>"

definition new_template_part :: "int \<Rightarrow> int \<Rightarrow> int \<Rightarrow> template_part" where
  "new_template_part i templateId congregationId =
     \<lparr>tp_id = i, tp_name = [], tp_section = [], tp_track = [], tp_trackOrder = None, tp_order = 0, tp_durationMin = None,
      tp_allowExternalSpeaker = False, tp_speakerLabel = None, tp_readerLabel = None, tp_templateId = templateId,
      tp_presetId = None, tp_congregationId = congregationId\<rparr>"

definition write_template_roles :: "int \<Rightarrow> PartData \<Rightarrow> int \<Rightarrow> int \<Rightarrow> pdb \<Rightarrow> pdb" where
  "write_template_roles partId d congregationId actorId p =
     (let (speakerDiff, q) = set_slot (\<lambda>ids. setTemplatePartAllowedRoles partId ''speaker'' ids congregationId) (pd_allowedSpeakerRoleIds d) p;
          (readerDiff, r) = set_slot (\<lambda>ids. setTemplatePartAllowedRoles partId ''reader'' ids congregationId) (pd_allowedReaderRoleIds d) q
      in if role_changes speakerDiff \<or> role_changes readerDiff
         then programme_audit ''part.allowed_roles.changed'' congregationId actorId ''TemplatePart'' partId
                (Some [(''speaker'', JObj (diff_json speakerDiff)), (''reader'', JObj (diff_json readerDiff))]) r
         else r)"

text \<open>The identifier 0 counts as absent.\<close>

definition upsertTemplatePart ::
  "row_keys \<Rightarrow> int \<Rightarrow> int option \<Rightarrow> PartData \<Rightarrow> int \<Rightarrow> int \<Rightarrow> pdb \<Rightarrow> (pdb, template_part) outcome" where
  "upsertTemplatePart k templateId partId d congregationId actorId p =
     (if partId \<in> {None, Some 0} then
        (if \<not> list_ex (\<lambda>t. tpl_id t = templateId) (eventTemplates p) then (Inl (DatabaseError ForeignKeyViolation), p)
         else
           (let a = part_columns d (new_template_part (key_template_part k (templateParts p)) templateId congregationId)
            in (Inr a, write_template_roles (tp_id a) d congregationId actorId (p\<lparr>templateParts := templateParts p @ [a]\<rparr>))))
      else
        (let i = the partId
         in case find (is_template_part i congregationId) (templateParts p) of
              None \<Rightarrow> (Inl (DatabaseError RecordNotFound), p)
            | Some a \<Rightarrow>
                (Inr (part_columns d a), write_template_roles i d congregationId actorId
                  (p\<lparr>templateParts := update_where (is_template_part i congregationId) (part_columns d) (templateParts p)\<rparr>))))"

definition remove_template_parts :: "(template_part \<Rightarrow> bool) \<Rightarrow> pdb \<Rightarrow> pdb" where
  "remove_template_parts gone p =
     (let ids = tp_id ` set (filter gone (templateParts p))
      in p\<lparr>templateParts := delete_where gone (templateParts p),
          templatePartAllowedRoles := delete_where (\<lambda>r. al_ownerId r \<in> ids) (templatePartAllowedRoles p),
          eventParts := update_where (\<lambda>a. case epa_partId a of None \<Rightarrow> False | Some i \<Rightarrow> i \<in> ids)
            (\<lambda>a. a\<lparr>epa_partId := None\<rparr>) (eventParts p)\<rparr>)"

definition remove_template_services :: "(template_service_part \<Rightarrow> bool) \<Rightarrow> pdb \<Rightarrow> pdb" where
  "remove_template_services gone p =
     (let ids = tsp_id ` set (filter gone (templateServiceParts p))
      in p\<lparr>templateServiceParts := delete_where gone (templateServiceParts p),
          templateServicePartAllowedRoles := delete_where (\<lambda>r. al_ownerId r \<in> ids) (templateServicePartAllowedRoles p),
          eventServiceParts := update_where (\<lambda>a. case esp_servicePartId a of None \<Rightarrow> False | Some i \<Rightarrow> i \<in> ids)
            (\<lambda>a. a\<lparr>esp_servicePartId := None\<rparr>) (eventServiceParts p)\<rparr>)"

definition deleteTemplatePart :: "int \<Rightarrow> int \<Rightarrow> pdb \<Rightarrow> (pdb, template_part) outcome" where
  "deleteTemplatePart partId congregationId p =
     (case find (is_template_part partId congregationId) (templateParts p) of
        None \<Rightarrow> (Inl (DatabaseError RecordNotFound), p)
      | Some a \<Rightarrow> (Inr a, remove_template_parts (is_template_part partId congregationId) p))"

definition upsertTemplateServicePart ::
  "row_keys \<Rightarrow> int \<Rightarrow> int option \<Rightarrow> string \<Rightarrow> string \<Rightarrow> int list \<Rightarrow> int \<Rightarrow> int \<Rightarrow> pdb \<Rightarrow> (pdb, template_service_part) outcome" where
  "upsertTemplateServicePart k templateId partId name key allowedRoleIds congregationId actorId p =
     (let saved = (if partId \<in> {None, Some 0} then
            (if \<not> list_ex (\<lambda>t. tpl_id t = templateId) (eventTemplates p) then Inl (DatabaseError ForeignKeyViolation)
             else
               (let a = \<lparr>tsp_id = key_template_service k (templateServiceParts p), tsp_name = name, tsp_key = key,
                         tsp_templateId = templateId, tsp_presetId = None, tsp_congregationId = congregationId\<rparr>
                in Inr (a, p\<lparr>templateServiceParts := templateServiceParts p @ [a]\<rparr>)))
          else
            (case find (is_template_service (the partId) congregationId) (templateServiceParts p) of
               None \<Rightarrow> Inl (DatabaseError RecordNotFound)
             | Some a \<Rightarrow> Inr (a\<lparr>tsp_name := name, tsp_key := key\<rparr>,
                 p\<lparr>templateServiceParts := update_where (is_template_service (the partId) congregationId)
                   (\<lambda>a. a\<lparr>tsp_name := name, tsp_key := key\<rparr>) (templateServiceParts p)\<rparr>)))
      in case saved of
           Inl err \<Rightarrow> (Inl err, p)
         | Inr (a, q) \<Rightarrow>
             (let (diff, r) = setTemplateServicePartAllowedRoles (tsp_id a) allowedRoleIds congregationId q
              in (Inr a, service_roles_audit ''TemplateServicePart'' (tsp_id a) diff congregationId actorId r)))"

definition deleteTemplateServicePart :: "int \<Rightarrow> int \<Rightarrow> pdb \<Rightarrow> (pdb, template_service_part) outcome" where
  "deleteTemplateServicePart roleId congregationId p =
     (case find (is_template_service roleId congregationId) (templateServiceParts p) of
        None \<Rightarrow> (Inl (DatabaseError RecordNotFound), p)
      | Some a \<Rightarrow> (Inr a, remove_template_services (is_template_service roleId congregationId) p))"

fun reorder_template_from :: "int \<Rightarrow> int \<Rightarrow> int list \<Rightarrow> pdb \<Rightarrow> (pdb, unit) outcome" where
  "reorder_template_from i congregationId [] p = (Inr (), p)"
| "reorder_template_from i congregationId (x # xs) p =
     (if find (is_template_part x congregationId) (templateParts p) = None then (Inl (DatabaseError RecordNotFound), p)
      else reorder_template_from (i + 1) congregationId xs
        (p\<lparr>templateParts := update_where (is_template_part x congregationId) (\<lambda>a. a\<lparr>tp_order := i * 5\<rparr>) (templateParts p)\<rparr>))"

definition reorderTemplateParts :: "int \<Rightarrow> int list \<Rightarrow> pdb \<Rightarrow> (pdb, unit) outcome" where
  "reorderTemplateParts congregationId orderedIds p = reorder_template_from 0 congregationId orderedIds p"

section \<open>Who is responsible\<close>

definition Scope_Programme :: string where
  "Scope_Programme = ''programme''"

definition Scope_Service :: string where
  "Scope_Service = ''service''"

definition scopesCovering :: "string \<Rightarrow> string list" where
  "scopesCovering scope = (if scope = Scope_Service then [Scope_Programme, Scope_Service] else [Scope_Programme])"

definition findResponsible :: "template_responsible list \<Rightarrow> string \<Rightarrow> template_responsible option" where
  "findResponsible responsibles scope = find (\<lambda>r. trs_scope r = scope) responsibles"

definition responsible_on :: "int \<Rightarrow> string \<Rightarrow> int \<Rightarrow> template_responsible \<Rightarrow> bool" where
  "responsible_on templateId scope congregationId r \<longleftrightarrow>
     trs_templateId r = templateId \<and> trs_scope r = scope \<and> trs_congregationId r = congregationId"

definition setTemplateResponsible :: "row_keys \<Rightarrow> int \<Rightarrow> int \<Rightarrow> int \<Rightarrow> string \<Rightarrow> pdb \<Rightarrow> pdb" where
  "setTemplateResponsible k templateId roleId congregationId scope p =
     (if list_ex (responsible_on templateId scope congregationId) (templateResponsibles p)
      then p\<lparr>templateResponsibles := update_where (responsible_on templateId scope congregationId)
        (\<lambda>r. r\<lparr>trs_roleId := roleId\<rparr>) (templateResponsibles p)\<rparr>
      else p\<lparr>templateResponsibles := templateResponsibles p @
        [\<lparr>trs_id = key_responsible k (templateResponsibles p), trs_templateId = templateId, trs_roleId = roleId,
          trs_scope = scope, trs_congregationId = congregationId\<rparr>]\<rparr>)"

definition removeTemplateResponsible :: "int \<Rightarrow> int \<Rightarrow> string \<Rightarrow> pdb \<Rightarrow> pdb" where
  "removeTemplateResponsible templateId congregationId scope p =
     p\<lparr>templateResponsibles := delete_where (responsible_on templateId scope congregationId) (templateResponsibles p)\<rparr>"

definition isTemplateResponsible :: "pdb \<Rightarrow> int \<Rightarrow> int \<Rightarrow> int \<Rightarrow> string \<Rightarrow> template_responsible option" where
  "isTemplateResponsible p templateId userId congregationId scope =
     (let roleIds = resolveEffectiveRoleIds (core p) userId congregationId
      in if length roleIds = 0 then None
         else find (\<lambda>r. trs_templateId r = templateId \<and> trs_congregationId r = congregationId \<and> trs_roleId r \<in> set roleIds \<and>
           trs_scope r \<in> set (scopesCovering scope)) (templateResponsibles p))"

section \<open>Deleting\<close>

datatype DeleteTemplateResult = TemplateDeleted string | TemplateNotFound | TemplateIsSystem | TemplateInUse nat

definition deleteTemplate :: "int \<Rightarrow> int \<Rightarrow> pdb \<Rightarrow> DeleteTemplateResult \<times> pdb" where
  "deleteTemplate templateId congregationId p =
     (case find (is_template templateId congregationId) (eventTemplates p) of
        None \<Rightarrow> (TemplateNotFound, p)
      | Some t \<Rightarrow>
          if isSystemTemplate (tpl_key t) then (TemplateIsSystem, p)
          else
            (let used = length (filter (\<lambda>e. evt_templateId e = Some (tpl_id t)) (events p))
             in if used > 0 then (TemplateInUse used, p)
                else
                  (TemplateDeleted (tpl_name t),
                   (let q = remove_template_services (\<lambda>a. tsp_templateId a = tpl_id t)
                          (remove_template_parts (\<lambda>a. tp_templateId a = tpl_id t) p)
                    in q\<lparr>eventTemplates := delete_where (is_template templateId congregationId) (eventTemplates q),
                         templateResponsibles := delete_where (\<lambda>r. trs_templateId r = tpl_id t) (templateResponsibles q)\<rparr>))))"

section \<open>Duplicating\<close>

text \<open>\<open>stamp\<close> is \<^verbatim>\<open>Date.now()\<close>; the columns that are not copied take their default.\<close>

definition copied_key :: "int \<Rightarrow> string \<Rightarrow> string" where
  "copied_key stamp key = key @ ''-copy-'' @ js_string stamp"

definition copied_template :: "int \<Rightarrow> int \<Rightarrow> event_template \<Rightarrow> event_template" where
  "copied_template i stamp t =
     \<lparr>tpl_id = i, tpl_name = tpl_name t @ '' (copie)'', tpl_key = copied_key stamp (tpl_key t), tpl_description = tpl_description t,
      tpl_weekDay = tpl_weekDay t, tpl_isRecurring = tpl_isRecurring t, tpl_startTime = tpl_startTime t,
      tpl_endTime = tpl_endTime t, tpl_color = ''#cfcfcf'', tpl_congregationId = tpl_congregationId t\<rparr>"

definition add_part_copy :: "row_keys \<Rightarrow> int \<Rightarrow> int \<Rightarrow> template_part \<Rightarrow> pdb \<Rightarrow> pdb" where
  "add_part_copy k templateId congregationId a p =
     p\<lparr>templateParts := templateParts p @
       [a\<lparr>tp_id := key_template_part k (templateParts p), tp_templateId := templateId, tp_congregationId := congregationId\<rparr>]\<rparr>"

definition add_service_copy :: "row_keys \<Rightarrow> int \<Rightarrow> int \<Rightarrow> int \<Rightarrow> template_service_part \<Rightarrow> pdb \<Rightarrow> pdb" where
  "add_service_copy k stamp templateId congregationId a p =
     p\<lparr>templateServiceParts := templateServiceParts p @
       [\<lparr>tsp_id = key_template_service k (templateServiceParts p), tsp_name = tsp_name a, tsp_key = copied_key stamp (tsp_key a),
         tsp_templateId = templateId, tsp_presetId = None, tsp_congregationId = congregationId\<rparr>]\<rparr>"

text \<open>
  The roles are copied in a second pass, which finds the source of a new part by its order and of
  a new service part by its name: a later row of the same key replaces an earlier one in the map.
\<close>

definition source_roles :: "pdb \<Rightarrow> int \<Rightarrow> string \<Rightarrow> int list" where
  "source_roles p partId kind = map al_roleId (filter (\<lambda>r. al_ownerId r = partId \<and> al_asKind r = kind) (templatePartAllowedRoles p))"

definition copy_part_roles :: "template_part list \<Rightarrow> int \<Rightarrow> template_part \<Rightarrow> pdb \<Rightarrow> pdb" where
  "copy_part_roles sources congregationId a p =
     (case find (\<lambda>b. tp_order b = tp_order a) (rev sources) of
        None \<Rightarrow> p
      | Some b \<Rightarrow>
          (let speakers = map (allowed_row (tp_id a) ''speaker'' congregationId) (source_roles p (tp_id b) ''speaker'');
               readers = map (allowed_row (tp_id a) ''reader'' congregationId) (source_roles p (tp_id b) ''reader'')
           in p\<lparr>templatePartAllowedRoles := create_allowed readers (create_allowed speakers (templatePartAllowedRoles p))\<rparr>))"

definition copy_service_roles :: "template_service_part list \<Rightarrow> int \<Rightarrow> template_service_part \<Rightarrow> pdb \<Rightarrow> pdb" where
  "copy_service_roles sources congregationId a p =
     (case find (\<lambda>b. tsp_name b = tsp_name a) (rev sources) of
        None \<Rightarrow> p
      | Some b \<Rightarrow>
          p\<lparr>templateServicePartAllowedRoles := create_allowed
              (map (\<lambda>r. allowed_row (tsp_id a) [] congregationId (al_roleId r))
                (filter (\<lambda>r. al_ownerId r = tsp_id b) (templateServicePartAllowedRoles p))) (templateServicePartAllowedRoles p)\<rparr>)"

definition duplicateTemplate ::
  "row_keys \<Rightarrow> (string \<Rightarrow> string \<Rightarrow> int) \<Rightarrow> int \<Rightarrow> int \<Rightarrow> int \<Rightarrow> pdb \<Rightarrow> (pdb, event_template option) outcome" where
  "duplicateTemplate k collate stamp templateId congregationId p =
     (case find (is_template templateId congregationId) (eventTemplates p) of
        None \<Rightarrow> (Inr None, p)
      | Some source \<Rightarrow>
          if isSystemTemplate (tpl_key source) then (Inr None, p)
          else if list_ex (\<lambda>t. tpl_key t = copied_key stamp (tpl_key source) \<and> tpl_congregationId t = congregationId) (eventTemplates p)
          then (Inl (DatabaseError UniqueViolation), p)
          else
            (let parts = template_parts p templateId;
                 services = template_services p templateId;
                 t = copied_template (key_template k (eventTemplates p)) stamp source;
                 created = fold (add_service_copy k stamp (tpl_id t) congregationId) services
                   (fold (add_part_copy k (tpl_id t) congregationId) parts (p\<lparr>eventTemplates := eventTemplates p @ [t]\<rparr>));
                 with_part_roles = fold (copy_part_roles parts congregationId) (template_parts created (tpl_id t)) created;
                 new_services = js_sort (\<lambda>a b. collate (tsp_name a) (tsp_name b)) (template_services created (tpl_id t))
             in (Inr (Some t), fold (copy_service_roles services congregationId) new_services with_part_roles)))"

end
