(* ===== verification/Events_Access.thy ===== *)
theory Events_Access
  imports Event_Templates
begin

text \<open>
  Who may act on an event (\<^verbatim>\<open>features/events/server/events-auth.server.ts\<close>). The permissions of the
  caller are a predicate, as in the source.
\<close>

section \<open>The checks\<close>

definition canEditEvent :: "pdb \<Rightarrow> (string \<Rightarrow> bool) \<Rightarrow> int \<Rightarrow> int option \<Rightarrow> int \<Rightarrow> string \<Rightarrow> string \<Rightarrow> bool" where
  "canEditEvent p can userId templateId congregationId required scope =
     (if can required then True
      else
        (case templateId of
           None \<Rightarrow> False
         | Some t \<Rightarrow> isTemplateResponsible p t userId congregationId scope \<noteq> None))"

definition getResponsibleTemplateIds :: "pdb \<Rightarrow> int \<Rightarrow> int \<Rightarrow> string \<Rightarrow> int list" where
  "getResponsibleTemplateIds p userId congregationId scope =
     (let roleIds = resolveEffectiveRoleIds (core p) userId congregationId
      in if length roleIds = 0 then []
         else js_set (map trs_templateId (filter (\<lambda>r. trs_roleId r \<in> set roleIds \<and> trs_congregationId r = congregationId \<and>
           trs_scope r \<in> set (scopesCovering scope)) (templateResponsibles p))))"

text \<open>An identifier that is not an integer is \<open>None\<close>.\<close>

definition assignmentBelongsToEvent :: "pdb \<Rightarrow> string \<Rightarrow> int option \<Rightarrow> int \<Rightarrow> int \<Rightarrow> bool" where
  "assignmentBelongsToEvent p kind assignmentId eventId congregationId =
     (case assignmentId of
        None \<Rightarrow> False
      | Some i \<Rightarrow>
          if kind = ''service''
          then list_ex (\<lambda>a. is_service i congregationId a \<and> esp_eventId a = eventId) (eventServiceParts p)
          else list_ex (\<lambda>a. is_part i congregationId a \<and> epa_eventId a = eventId) (eventParts p))"

definition CanManagePrograms :: string where
  "CanManagePrograms = ''can-manage-programs''"

definition canManageAnyProgram :: "pdb \<Rightarrow> (string \<Rightarrow> bool) \<Rightarrow> int \<Rightarrow> int \<Rightarrow> bool" where
  "canManageAnyProgram p can userId congregationId =
     (if can CanManagePrograms then True
      else length (getResponsibleTemplateIds p userId congregationId Scope_Programme) > 0)"

definition filterToManageableEventIds ::
  "pdb \<Rightarrow> (string \<Rightarrow> bool) \<Rightarrow> int list \<Rightarrow> int \<Rightarrow> int \<Rightarrow> string \<Rightarrow> int list" where
  "filterToManageableEventIds p can eventIds userId congregationId required =
     (if length eventIds = 0 then []
      else
        (let found = filter (\<lambda>e. evt_id e \<in> set eventIds \<and> evt_congregationId e = congregationId) (events p)
         in if can required then map evt_id found
            else
              (let responsible = set (getResponsibleTemplateIds p userId congregationId Scope_Programme)
               in map evt_id (filter (\<lambda>e. case evt_templateId e of None \<Rightarrow> False | Some t \<Rightarrow> t \<in> responsible) found))))"

section \<open>One rule\<close>

lemma find_found: "find P xs \<noteq> None \<longleftrightarrow> (\<exists>x\<in>set xs. P x)"
  by (auto simp: find_None_iff)

lemma responsible_one:
  "isTemplateResponsible p t u c scope \<noteq> None \<longleftrightarrow>
    (\<exists>r\<in>set (templateResponsibles p). trs_templateId r = t \<and> trs_congregationId r = c \<and>
      trs_roleId r \<in> set (resolveEffectiveRoleIds (core p) u c) \<and> trs_scope r \<in> set (scopesCovering scope))"
proof (cases "resolveEffectiveRoleIds (core p) u c = []")
  case True
  then show ?thesis by (auto simp: isTemplateResponsible_def)
next
  case False
  then show ?thesis by (simp only: isTemplateResponsible_def Let_def find_found length_0_conv if_False conj_assoc)
qed

lemma responsible_ids:
  "t \<in> set (getResponsibleTemplateIds p u c scope) \<longleftrightarrow> isTemplateResponsible p t u c scope \<noteq> None"
  unfolding responsible_one by (auto simp: getResponsibleTemplateIds_def Let_def)

lemma one_may_edit:
  "canEditEvent p can u t c required scope \<longleftrightarrow>
    can required \<or> (\<exists>i\<in>set (getResponsibleTemplateIds p u c scope). t = Some i)"
  by (auto simp: canEditEvent_def responsible_ids split: option.splits)

text \<open>
  C39. Bulk actions and single ones obey one rule: a bulk selection is narrowed to exactly the
  events of the congregation among it on which the caller could act one at a time.
\<close>

theorem bulk_selection_is_what_one_may_edit:
  "filterToManageableEventIds p can ids u c required =
    map evt_id (filter (\<lambda>e. evt_id e \<in> set ids \<and> evt_congregationId e = c \<and>
      canEditEvent p can u (evt_templateId e) c required Scope_Programme) (events p))"
proof -
  have "(case t of None \<Rightarrow> False | Some i \<Rightarrow> i \<in> R) = (\<exists>i\<in>R. t = Some i)" for t and R :: "int set"
    by (auto split: option.split)
  then show ?thesis
    by (simp add: filterToManageableEventIds_def Let_def one_may_edit conj_commute conj_left_commute)
qed

text \<open>
  The service delegation never widens: whoever may act on an event for the programme may act on its
  service parts too.
\<close>

lemma programme_covers_service:
  assumes "canEditEvent p can u t c required Scope_Programme"
  shows "canEditEvent p can u t c required Scope_Service"
proof -
  have "isTemplateResponsible p i u c Scope_Programme \<noteq> None \<Longrightarrow> isTemplateResponsible p i u c Scope_Service \<noteq> None" for i
    unfolding responsible_one by (auto simp: scopesCovering_def Scope_Programme_def Scope_Service_def)
  then show ?thesis using assms by (auto simp: canEditEvent_def split: option.splits if_splits)
qed

end
