(* ===== verification/Part_Presets.thy ===== *)
theory Part_Presets
  imports Programme_Steps Roles
begin

text \<open>
  The kinds of programme part of a congregation (\<^verbatim>\<open>features/events/server/part-presets.server.ts\<close>,
  \<^verbatim>\<open>part-presets.queries.ts\<close>, \<^verbatim>\<open>seed-part-presets.server.ts\<close>, \<^verbatim>\<open>model/part-preset-defaults.ts\<close>,
  \<^verbatim>\<open>model/part-capability.ts\<close>, \<^verbatim>\<open>model/part-labels.ts\<close>) and the two pages that edit them
  (\<^verbatim>\<open>features/settings/routes/congregation/presets\<close>). The message catalogue, which the build
  generates, is an argument: the text of a message in a locale, \<open>None\<close> being the ambient one.
\<close>

type_synonym catalogue = "string \<Rightarrow> string option \<Rightarrow> string"

section \<open>Built-in wording\<close>

definition PartPresetScope_Part :: string where
  "PartPresetScope_Part = ''part''"

definition BUILT_IN_NAMES :: "(string \<times> string) list" where
  "BUILT_IN_NAMES =
     [(''prayer'', ''seed_preset_prayer''), (''chairman'', ''seed_preset_chairman''),
      (''midweek-talk'', ''seed_preset_midweek_talk''), (''bible-reading'', ''seed_preset_bible_reading''),
      (''school-demonstration'', ''seed_preset_school_demonstration''), (''school-talk'', ''seed_preset_school_talk''),
      (''public-talk'', ''seed_preset_public_talk''), (''watchtower-study'', ''seed_preset_watchtower_study''),
      (''congregation-bible-study'', ''seed_preset_congregation_bible_study'')]"

definition BUILT_IN_SPEAKER_LABELS :: "(string \<times> string) list" where
  "BUILT_IN_SPEAKER_LABELS =
     [(''prayer'', ''seed_preset_label_brother''), (''chairman'', ''seed_preset_label_chairman''),
      (''midweek-talk'', ''seed_preset_label_speaker''), (''bible-reading'', ''seed_preset_label_reader''),
      (''school-demonstration'', ''seed_preset_label_publisher''), (''school-talk'', ''seed_preset_label_speaker''),
      (''public-talk'', ''seed_preset_label_speaker''), (''watchtower-study'', ''seed_preset_label_conductor''),
      (''congregation-bible-study'', ''seed_preset_label_conductor'')]"

definition BUILT_IN_READER_LABELS :: "(string \<times> string) list" where
  "BUILT_IN_READER_LABELS =
     [(''school-demonstration'', ''seed_preset_label_counterpart''), (''watchtower-study'', ''seed_preset_label_reader''),
      (''congregation-bible-study'', ''seed_preset_label_reader'')]"

text \<open>\<^verbatim>\<open>stored || ...\<close>: an empty text counts as absent.\<close>

definition truthy :: "string option \<Rightarrow> bool" where
  "truthy s \<longleftrightarrow> s \<noteq> None \<and> s \<noteq> Some []"

definition partPresetName :: "catalogue \<Rightarrow> string \<Rightarrow> string option \<Rightarrow> string option \<Rightarrow> string" where
  "partPresetName words key name locale =
     (if truthy name then the name
      else (case map_of BUILT_IN_NAMES key of None \<Rightarrow> key | Some message \<Rightarrow> words message locale))"

definition resolveLabel :: "catalogue \<Rightarrow> string option \<Rightarrow> string \<Rightarrow> (string \<times> string) list \<Rightarrow> string option \<Rightarrow> string option" where
  "resolveLabel words stored key table locale =
     (if truthy stored then stored
      else (case map_of table key of None \<Rightarrow> None | Some message \<Rightarrow> Some (words message locale)))"

definition partPresetSpeakerLabel :: "catalogue \<Rightarrow> part_preset \<Rightarrow> string option \<Rightarrow> string option" where
  "partPresetSpeakerLabel words t locale = resolveLabel words (pst_speakerLabel t) (pst_key t) BUILT_IN_SPEAKER_LABELS locale"

definition partPresetReaderLabel :: "catalogue \<Rightarrow> part_preset \<Rightarrow> string option \<Rightarrow> string option" where
  "partPresetReaderLabel words t locale = resolveLabel words (pst_readerLabel t) (pst_key t) BUILT_IN_READER_LABELS locale"

text \<open>
  The bodies written in the source for each locale have the same keys as the names; their text is
  the argument \<open>bodies\<close>.
\<close>

definition partPresetShareMessage :: "(string \<Rightarrow> string \<Rightarrow> string) \<Rightarrow> string \<Rightarrow> string option \<Rightarrow> string \<Rightarrow> string" where
  "partPresetShareMessage bodies key shareMessage locale =
     (case shareMessage of
        Some s \<Rightarrow> s
      | None \<Rightarrow> if key \<in> fst ` set BUILT_IN_NAMES then bodies locale key else [])"

definition hasPartPresetShareMessage :: "string \<Rightarrow> string option \<Rightarrow> bool" where
  "hasPartPresetShareMessage key shareMessage =
     (case shareMessage of Some s \<Rightarrow> trim s \<noteq> [] | None \<Rightarrow> key \<in> fst ` set BUILT_IN_NAMES)"

section \<open>What a part can do\<close>

record PartCapability =
  pc_speakerLabel :: "string option"
  pc_readerLabel :: "string option"
  pc_hasReaderSlot :: bool
  pc_allowExternalSpeaker :: bool
  pc_source :: string

definition resolvePartCapability ::
  "string option \<Rightarrow> string option \<Rightarrow> bool option \<Rightarrow> part_preset option \<Rightarrow> PartCapability" where
  "resolvePartCapability speakerLabel readerLabel allowExternal preset =
     (case preset of
        Some t \<Rightarrow> \<lparr>pc_speakerLabel = pst_speakerLabel t, pc_readerLabel = pst_readerLabel t,
          pc_hasReaderSlot = pst_hasReaderSlot t, pc_allowExternalSpeaker = pst_allowExternalSpeaker t, pc_source = ''preset''\<rparr>
      | None \<Rightarrow> \<lparr>pc_speakerLabel = speakerLabel, pc_readerLabel = readerLabel, pc_hasReaderSlot = True,
          pc_allowExternalSpeaker = (case allowExternal of None \<Rightarrow> False | Some b \<Rightarrow> b), pc_source = ''part''\<rparr>)"

definition partSpeakerLabel :: "catalogue \<Rightarrow> string option \<Rightarrow> string" where
  "partSpeakerLabel words label = (case label of Some s \<Rightarrow> s | None \<Rightarrow> words ''programs_default_speaker_label'' None)"

definition partReaderLabel :: "catalogue \<Rightarrow> string option \<Rightarrow> string" where
  "partReaderLabel words label = (case label of Some s \<Rightarrow> s | None \<Rightarrow> words ''programs_default_reader_label'' None)"

section \<open>Keys\<close>

definition slugify :: "string \<Rightarrow> string" where
  "slugify name =
     strip_hyphens (hyphenate False
       (map (\<lambda>n. char_of (lower_code n)) (filter (\<lambda>n. \<not> is_diacritic n) (map (base_letter \<circ> code) name))))"

partial_function (option) free_suffix :: "string set \<Rightarrow> string \<Rightarrow> int \<Rightarrow> int option" where
  "free_suffix taken base suffix =
     (if base @ ''-'' @ js_string suffix \<in> taken then free_suffix taken base (suffix + 1) else Some suffix)"

definition preset_keys :: "int \<Rightarrow> pdb \<Rightarrow> string list" where
  "preset_keys congregationId p = map pst_key (filter (\<lambda>t. pst_congregationId t = congregationId) (partPresets p))"

definition buildKey :: "pdb \<Rightarrow> string \<Rightarrow> int \<Rightarrow> string option" where
  "buildKey p name congregationId =
     (let base = (if slugify name = [] then ''preset'' else slugify name);
          taken = set (preset_keys congregationId p)
      in if base \<notin> taken then Some base
         else map_option (\<lambda>suffix. base @ ''-'' @ js_string suffix) (free_suffix taken base 2))"

section \<open>Writing\<close>

record PartPresetInput =
  ppi_name :: "string option"
  ppi_hasReaderSlot :: bool
  ppi_speakerLabel :: "string option"
  ppi_readerLabel :: "string option"
  ppi_allowExternalSpeaker :: bool
  ppi_shareMessage :: "string option"

definition normalize_input :: "PartPresetInput \<Rightarrow> PartPresetInput" where
  "normalize_input d = d\<lparr>ppi_readerLabel := (if ppi_hasReaderSlot d then ppi_readerLabel d else None)\<rparr>"

definition preset_columns :: "PartPresetInput \<Rightarrow> part_preset \<Rightarrow> part_preset" where
  "preset_columns d t =
     t\<lparr>pst_name := ppi_name d, pst_hasReaderSlot := ppi_hasReaderSlot d, pst_speakerLabel := ppi_speakerLabel d,
       pst_readerLabel := ppi_readerLabel d, pst_allowExternalSpeaker := ppi_allowExternalSpeaker d,
       pst_shareMessage := ppi_shareMessage d\<rparr>"

definition blank_preset :: "int \<Rightarrow> string \<Rightarrow> bool \<Rightarrow> int \<Rightarrow> part_preset" where
  "blank_preset i key isSystem congregationId =
     \<lparr>pst_id = i, pst_key = key, pst_name = None, pst_scope = PartPresetScope_Part, pst_hasReaderSlot = False,
      pst_speakerLabel = None, pst_readerLabel = None, pst_allowExternalSpeaker = False, pst_shareMessage = None,
      pst_isSystem = isSystem, pst_congregationId = congregationId\<rparr>"

text \<open>An insert, under the constraint that a key is unique in its congregation.\<close>

definition insert_preset :: "part_preset \<Rightarrow> pdb \<Rightarrow> (pdb, part_preset) outcome" where
  "insert_preset t p =
     (if pst_key t \<in> set (preset_keys (pst_congregationId t) p) then (Inl (DatabaseError UniqueViolation), p)
      else (Inr t, p\<lparr>partPresets := partPresets p @ [t]\<rparr>))"

definition isUniqueViolation :: "app_error \<Rightarrow> bool" where
  "isUniqueViolation e \<longleftrightarrow> e = DatabaseError UniqueViolation"

text \<open>
  One attempt reads the keys and then inserts; what it reads, \<open>seen\<close>, may be older than the table
  \<open>p\<close> it writes to. In a transaction where a statement has failed every later one is refused.
\<close>

definition create_attempt :: "row_keys \<Rightarrow> bool \<Rightarrow> pdb \<Rightarrow> PartPresetInput \<Rightarrow> int \<Rightarrow> pdb \<Rightarrow> (pdb, part_preset) outcome option" where
  "create_attempt k failed seen d congregationId p =
     (if failed then Some (Inl (DatabaseError TransactionAborted), p)
      else map_option (\<lambda>key. insert_preset (preset_columns (normalize_input d)
          (blank_preset (key_preset k (partPresets p)) key False congregationId)) p)
        (buildKey seen (case ppi_name d of None \<Rightarrow> [] | Some s \<Rightarrow> s) congregationId))"

text \<open>At most two attempts; only the first may be retried, and only after a unique violation.\<close>

definition create_row :: "row_keys \<Rightarrow> pdb \<Rightarrow> PartPresetInput \<Rightarrow> int \<Rightarrow> pdb \<Rightarrow> (pdb, part_preset) outcome option" where
  "create_row k seen d congregationId p =
     (case create_attempt k False seen d congregationId p of
        Some (Inl e, q) \<Rightarrow>
          if isUniqueViolation e then create_attempt k True q d congregationId q else Some (Inl e, q)
      | r \<Rightarrow> r)"

definition preset_audit :: "catalogue \<Rightarrow> string \<Rightarrow> int \<Rightarrow> int \<Rightarrow> part_preset \<Rightarrow> pdb \<Rightarrow> pdb" where
  "preset_audit words action congregationId actorId t p =
     programme_audit action congregationId actorId ''PartPreset'' (pst_id t)
       (Some [(''name'', JStr (partPresetName words (pst_key t) (pst_name t) None))]) p"

definition createPartPreset ::
  "row_keys \<Rightarrow> catalogue \<Rightarrow> pdb \<Rightarrow> PartPresetInput \<Rightarrow> int \<Rightarrow> int \<Rightarrow> pdb \<Rightarrow> (pdb, part_preset) outcome option" where
  "createPartPreset k words seen d congregationId actorId p =
     map_option (\<lambda>r. case r of
         (Inl e, q) \<Rightarrow> (Inl e, q)
       | (Inr t, q) \<Rightarrow> (Inr t, preset_audit words ''part_preset.created'' congregationId actorId t q))
       (create_row k seen d congregationId p)"

definition is_preset :: "int \<Rightarrow> int \<Rightarrow> part_preset \<Rightarrow> bool" where
  "is_preset i congregationId t \<longleftrightarrow> pst_id t = i \<and> pst_congregationId t = congregationId"

definition updatePartPreset :: "catalogue \<Rightarrow> int \<Rightarrow> PartPresetInput \<Rightarrow> int \<Rightarrow> int \<Rightarrow> pdb \<Rightarrow> part_preset option \<times> pdb" where
  "updatePartPreset words i d congregationId actorId p =
     (case find (is_preset i congregationId) (partPresets p) of
        None \<Rightarrow> (None, p)
      | Some old \<Rightarrow>
          (let t = preset_columns (normalize_input d) old
           in (Some t, preset_audit words ''part_preset.updated'' congregationId actorId t
                (p\<lparr>partPresets := update_where (is_preset i congregationId) (preset_columns (normalize_input d)) (partPresets p)\<rparr>))))"

datatype DeletePartPresetResult = PresetDeleted string | PresetNotFound | PresetIsSystem | PresetInUse nat

text \<open>The references of the rows that keep a kind are set to null by the database.\<close>

definition forget_preset :: "int \<Rightarrow> int option \<Rightarrow> int option" where
  "forget_preset i x = (if x = Some i then None else x)"

definition remove_preset :: "int \<Rightarrow> int \<Rightarrow> pdb \<Rightarrow> pdb" where
  "remove_preset i congregationId p =
     p\<lparr>partPresets := delete_where (is_preset i congregationId) (partPresets p),
       templateParts := map (\<lambda>a. a\<lparr>tp_presetId := forget_preset i (tp_presetId a)\<rparr>) (templateParts p),
       templateServiceParts := map (\<lambda>a. a\<lparr>tsp_presetId := forget_preset i (tsp_presetId a)\<rparr>) (templateServiceParts p),
       eventParts := map (\<lambda>a. a\<lparr>epa_presetId := forget_preset i (epa_presetId a)\<rparr>) (eventParts p),
       eventServiceParts := map (\<lambda>a. a\<lparr>esp_presetId := forget_preset i (esp_presetId a)\<rparr>) (eventServiceParts p)\<rparr>"

definition deletePartPreset :: "catalogue \<Rightarrow> int \<Rightarrow> int \<Rightarrow> int \<Rightarrow> pdb \<Rightarrow> DeletePartPresetResult \<times> pdb" where
  "deletePartPreset words i congregationId actorId p =
     (case find (is_preset i congregationId) (partPresets p) of
        None \<Rightarrow> (PresetNotFound, p)
      | Some t \<Rightarrow>
          if pst_isSystem t then (PresetIsSystem, p)
          else
            (let partCount = length (filter (\<lambda>a. tp_presetId a = Some i) (templateParts p)) +
                             length (filter (\<lambda>a. epa_presetId a = Some i) (eventParts p))
             in if partCount > 0 then (PresetInUse partCount, p)
                else (PresetDeleted (partPresetName words (pst_key t) (pst_name t) None),
                      preset_audit words ''part_preset.deleted'' congregationId actorId t (remove_preset i congregationId p))))"

section \<open>Seeding\<close>

definition PRESETS :: "(string \<times> bool \<times> bool) list" where
  "PRESETS =
     [(''prayer'', False, True), (''chairman'', False, False), (''midweek-talk'', False, True),
      (''bible-reading'', False, False), (''school-demonstration'', True, False), (''school-talk'', False, False),
      (''public-talk'', False, True), (''watchtower-study'', True, False), (''congregation-bible-study'', True, False)]"

definition seed_preset :: "row_keys \<Rightarrow> int \<Rightarrow> string \<times> bool \<times> bool \<Rightarrow> pdb \<Rightarrow> pdb" where
  "seed_preset k congregationId preset p =
     (case preset of (key, reader, external) \<Rightarrow>
        if key \<in> set (preset_keys congregationId p) then p
        else p\<lparr>partPresets := partPresets p @
          [(blank_preset (key_preset k (partPresets p)) key True congregationId)
             \<lparr>pst_hasReaderSlot := reader, pst_allowExternalSpeaker := external\<rparr>]\<rparr>)"

definition seedDefaultPartPresets :: "row_keys \<Rightarrow> int \<Rightarrow> pdb \<Rightarrow> pdb" where
  "seedDefaultPartPresets k congregationId p = fold (seed_preset k congregationId) PRESETS p"

section \<open>Reading\<close>

record PresetListItem =
  pli_preset :: part_preset
  pli_name :: string
  pli_speakerLabel :: "string option"
  pli_readerLabel :: "string option"
  pli_hasShareMessage :: bool

text \<open>Ascending order puts \<^verbatim>\<open>NULL\<close> last.\<close>

definition optional_names :: "(string \<Rightarrow> string \<Rightarrow> int) \<Rightarrow> string option \<Rightarrow> string option \<Rightarrow> int" where
  "optional_names collate a b =
     (case (a, b) of
        (None, None) \<Rightarrow> 0 | (None, Some _) \<Rightarrow> 1 | (Some _, None) \<Rightarrow> - 1 | (Some x, Some y) \<Rightarrow> collate x y)"

definition presets_by_name :: "(string \<Rightarrow> string \<Rightarrow> int) \<Rightarrow> int \<Rightarrow> pdb \<Rightarrow> part_preset list" where
  "presets_by_name collate congregationId p =
     js_sort (\<lambda>a b. optional_names collate (pst_name a) (pst_name b))
       (filter (\<lambda>t. pst_congregationId t = congregationId \<and> pst_scope t = PartPresetScope_Part) (partPresets p))"

definition listPartPresets ::
  "catalogue \<Rightarrow> (string \<Rightarrow> string \<Rightarrow> int) \<Rightarrow> int \<Rightarrow> string option \<Rightarrow> pdb \<Rightarrow> PresetListItem list" where
  "listPartPresets words collate congregationId locale p =
     (let messageLocale = (if locale = Some ''en'' \<or> locale = Some ''fr'' then locale else None)
      in map (\<lambda>t. \<lparr>pli_preset = t, pli_name = partPresetName words (pst_key t) (pst_name t) messageLocale,
             pli_speakerLabel = partPresetSpeakerLabel words t messageLocale,
             pli_readerLabel = partPresetReaderLabel words t messageLocale,
             pli_hasShareMessage = hasPartPresetShareMessage (pst_key t) (pst_shareMessage t)\<rparr>)
           (presets_by_name collate congregationId p))"

definition listPartPresetsForSettings :: "(string \<Rightarrow> string \<Rightarrow> int) \<Rightarrow> int \<Rightarrow> pdb \<Rightarrow> (part_preset \<times> nat \<times> nat) list" where
  "listPartPresetsForSettings collate congregationId p =
     (let rows = presets_by_name collate congregationId p
      in map (\<lambda>t. (t, length (filter (\<lambda>a. tp_presetId a = Some (pst_id t)) (templateParts p)),
                      length (filter (\<lambda>a. epa_presetId a = Some (pst_id t)) (eventParts p))))
           (filter pst_isSystem rows @ filter (\<lambda>t. \<not> pst_isSystem t) rows))"

definition getPartPresetById :: "int \<Rightarrow> int \<Rightarrow> pdb \<Rightarrow> part_preset option" where
  "getPartPresetById i congregationId p = find (is_preset i congregationId) (partPresets p)"

end
