(* ===== verification/Preset_Pages.thy ===== *)
theory Preset_Pages
  imports Part_Presets
begin

text \<open>
  What holds of the kinds of programme part however they are created, edited, deleted and seeded,
  and what the pages that edit them do.
\<close>

section \<open>A free key is found\<close>

lemma free_suffix_found:
  "base @ ''-'' @ js_string (s + int n) \<notin> taken \<Longrightarrow>
    \<exists>r. free_suffix taken base s = Some r \<and> base @ ''-'' @ js_string r \<notin> taken"
proof (induction n arbitrary: s)
  case 0
  then show ?case by (simp add: free_suffix.simps)
next
  case (Suc n)
  then have "base @ ''-'' @ js_string ((s + 1) + int n) \<notin> taken" by (simp add: algebra_simps)
  from Suc.IH [OF this] show ?case by (cases "base @ ''-'' @ js_string s \<in> taken") (auto simp: free_suffix.simps [of _ _ s])
qed

lemma free_suffix_exists:
  assumes "finite taken"
  shows "\<exists>n. base @ ''-'' @ js_string (s + int n) \<notin> taken"
proof (rule ccontr)
  assume "\<not> ?thesis"
  then have "range (\<lambda>n. base @ ''-'' @ js_string (s + int n)) \<subseteq> taken" by auto
  moreover have "inj (\<lambda>n. base @ ''-'' @ js_string (s + int n))"
    by (rule injI) (simp add: js_string_inject)
  ultimately show False using assms finite_subset finite_imageD [of _ "UNIV :: nat set"] infinite_UNIV_nat by blast
qed

lemma buildKey_total: "\<exists>key. buildKey p name c = Some key \<and> key \<notin> set (preset_keys c p) \<and> key \<noteq> []"
proof -
  define base where "base = (if slugify name = [] then ''preset'' else slugify name)"
  define taken where "taken = set (preset_keys c p)"
  have b: "buildKey p name c = (if base \<notin> taken then Some base
      else map_option (\<lambda>suffix. base @ ''-'' @ js_string suffix) (free_suffix taken base 2))"
    by (simp only: buildKey_def base_def taken_def Let_def)
  have "base \<noteq> []" by (simp add: base_def)
  obtain n where n: "base @ ''-'' @ js_string (2 + int n) \<notin> taken"
    using free_suffix_exists [of taken base 2] by (auto simp: taken_def)
  obtain r where "free_suffix taken base 2 = Some r" "base @ ''-'' @ js_string r \<notin> taken"
    using free_suffix_found [OF n] by blast
  then show ?thesis using b \<open>base \<noteq> []\<close> by (auto simp: taken_def)
qed

text \<open>
  The search for a key ends: whatever the name, and however many kinds bear its like, a key is
  built, it is not empty, and no kind of the congregation has it.
\<close>

theorem a_free_key_is_always_built:
  "\<exists>key. buildKey p name c = Some key \<and> key \<notin> set (preset_keys c p) \<and> key \<noteq> []"
  by (rule buildKey_total)

section \<open>Steps\<close>

inductive preset_step :: "pdb \<Rightarrow> pdb \<Rightarrow> bool" where
  created: "fresh_rows k \<Longrightarrow> createPartPreset k words seen d c actor p = Some (r, q) \<Longrightarrow> preset_step p q"
| updated: "updatePartPreset words i d c actor p = (r, q) \<Longrightarrow> preset_step p q"
| deleted: "deletePartPreset words i c actor p = (r, q) \<Longrightarrow> preset_step p q"
| seeded: "fresh_rows k \<Longrightarrow> preset_step p (seedDefaultPartPresets k c p)"

definition preset_key :: "part_preset \<Rightarrow> string \<times> int" where
  "preset_key t = (pst_key t, pst_congregationId t)"

definition presets_in_line :: "pdb \<Rightarrow> bool" where
  "presets_in_line p \<longleftrightarrow> distinct (map pst_id (partPresets p)) \<and> distinct (map preset_key (partPresets p))"

text \<open>What no step loses of a system kind, and the kinds the parts have.\<close>

definition still_there :: "part_preset \<Rightarrow> pdb \<Rightarrow> bool" where
  "still_there t p \<longleftrightarrow> (\<exists>s \<in> set (partPresets p). pst_id s = pst_id t \<and> preset_key s = preset_key t \<and> pst_isSystem s)"

definition kinds_of_parts :: "pdb \<Rightarrow> int option list \<times> int option list" where
  "kinds_of_parts p = (map epa_presetId (eventParts p), map tp_presetId (templateParts p))"

definition safe_change :: "pdb \<Rightarrow> pdb \<Rightarrow> bool" where
  "safe_change p q \<longleftrightarrow> presets_in_line q \<and> (\<forall>t. still_there t p \<longrightarrow> still_there t q) \<and> kinds_of_parts q = kinds_of_parts p"

lemma preset_keys_iff: "key \<in> set (preset_keys c p) \<longleftrightarrow> (key, c) \<in> preset_key ` set (partPresets p)"
  by (force simp: preset_keys_def preset_key_def)

lemma safe_append:
  assumes "presets_in_line p" and "pst_id t \<notin> pst_id ` set (partPresets p)"
    and "pst_key t \<notin> set (preset_keys (pst_congregationId t) p)"
  shows "safe_change p (p\<lparr>partPresets := partPresets p @ [t]\<rparr>)"
  using assms unfolding preset_keys_iff
  by (auto simp: safe_change_def presets_in_line_def still_there_def kinds_of_parts_def preset_key_def)

lemma safe_audit: "safe_change p q \<Longrightarrow> safe_change p (programme_audit a c u y i m q)"
  by (simp add: safe_change_def presets_in_line_def still_there_def kinds_of_parts_def)

lemma safe_refl: "presets_in_line p \<Longrightarrow> safe_change p p"
  by (simp add: safe_change_def)

lemma insert_preset_cases:
  "insert_preset t p = (if pst_key t \<in> set (preset_keys (pst_congregationId t) p) then (Inl (DatabaseError UniqueViolation), p)
    else (Inr t, p\<lparr>partPresets := partPresets p @ [t]\<rparr>))"
  by (simp add: insert_preset_def)

lemma columns_keep [simp]:
  "pst_id (preset_columns d t) = pst_id t" "pst_key (preset_columns d t) = pst_key t"
  "pst_isSystem (preset_columns d t) = pst_isSystem t" "pst_congregationId (preset_columns d t) = pst_congregationId t"
  "preset_key (preset_columns d t) = preset_key t"
  by (simp_all add: preset_columns_def preset_key_def)

lemma blank_preset_sel [simp]:
  "pst_id (blank_preset i key s c) = i" "pst_key (blank_preset i key s c) = key"
  "pst_isSystem (blank_preset i key s c) = s" "pst_congregationId (blank_preset i key s c) = c"
  by (simp_all add: blank_preset_def)

lemma create_safe:
  assumes "presets_in_line p" and "fresh_rows k" and "createPartPreset k words seen d c actor p = Some (r, q)"
  shows "safe_change p q"
proof -
  obtain key where key: "buildKey seen (case ppi_name d of None \<Rightarrow> [] | Some s \<Rightarrow> s) c = Some key"
    using buildKey_total by blast
  define t where "t = preset_columns (normalize_input d) (blank_preset (key_preset k (partPresets p)) key False c)"
  have "pst_id t \<notin> pst_id ` set (partPresets p)" using assms(2) by (simp add: t_def fresh_rows_def)
  moreover have "create_row k seen d c p = (if key \<in> set (preset_keys c p) then Some (Inl (DatabaseError TransactionAborted), p)
      else Some (Inr t, p\<lparr>partPresets := partPresets p @ [t]\<rparr>))"
    by (simp add: create_row_def create_attempt_def key insert_preset_cases isUniqueViolation_def flip: t_def)
  ultimately show ?thesis
    using assms safe_append [of p t] safe_refl [of p]
    by (auto simp: createPartPreset_def preset_audit_def t_def intro!: safe_audit split: if_splits)
qed

lemma update_safe:
  assumes "presets_in_line p" and "updatePartPreset words i d c actor p = (r, q)"
  shows "safe_change p q"
proof -
  let ?f = "preset_columns (normalize_input d)"
  have "safe_change p (p\<lparr>partPresets := update_where (is_preset i c) ?f (partPresets p)\<rparr>)"
    using assms(1)
    by (auto simp: safe_change_def presets_in_line_def still_there_def kinds_of_parts_def map_update_where bex_update_where)
  then show ?thesis
    using assms by (auto simp: updatePartPreset_def preset_audit_def safe_refl Let_def intro!: safe_audit split: option.splits)
qed

lemma delete_safe:
  assumes "presets_in_line p" and "deletePartPreset words i c actor p = (r, q)"
  shows "safe_change p q"
proof (cases "q = p")
  case True
  then show ?thesis using assms(1) by (simp add: safe_refl)
next
  case False
  then obtain t where t: "find (is_preset i c) (partPresets p) = Some t" "\<not> pst_isSystem t"
      "filter (\<lambda>a. tp_presetId a = Some i) (templateParts p) = []" "filter (\<lambda>a. epa_presetId a = Some i) (eventParts p) = []"
      and q: "q = preset_audit words ''part_preset.deleted'' c actor t (remove_preset i c p)"
    using assms(2) by (auto simp: deletePartPreset_def Let_def split: option.splits if_splits)
  have tin: "t \<in> set (partPresets p)" "pst_id t = i" "pst_congregationId t = c"
    using find_Some_in [OF t(1)] by (auto simp: is_preset_def)
  have only: "s = t" if "s \<in> set (partPresets p)" "pst_id s = i" for s
    using that tin assms(1) unfolding presets_in_line_def distinct_map inj_on_def by metis
  have "still_there u (remove_preset i c p)" if "still_there u p" for u
    using that t(2) only by (fastforce simp: still_there_def remove_preset_def is_preset_def)
  moreover have "kinds_of_parts (remove_preset i c p) = kinds_of_parts p"
    using t(3,4) by (auto simp: kinds_of_parts_def remove_preset_def forget_preset_def filter_empty_conv)
  moreover have "presets_in_line (remove_preset i c p)"
    using assms(1) by (simp add: presets_in_line_def remove_preset_def distinct_map_delete_where)
  ultimately show ?thesis unfolding q preset_audit_def by (intro safe_audit) (simp add: safe_change_def)
qed

lemma seed_one_safe:
  assumes "presets_in_line p" and "fresh_rows k"
  shows "safe_change p (seed_preset k c x p)"
proof -
  have "key_preset k (partPresets p) \<notin> pst_id ` set (partPresets p)" using assms(2) by (simp add: fresh_rows_def)
  then show ?thesis
    using assms(1) safe_append [of p] by (auto simp: seed_preset_def safe_refl split: prod.splits)
qed

lemma safe_trans: "safe_change p q \<Longrightarrow> safe_change q r \<Longrightarrow> safe_change p r"
  by (auto simp: safe_change_def)

lemma safe_in_line: "safe_change p q \<Longrightarrow> presets_in_line q"
  by (simp add: safe_change_def)

lemma seed_safe:
  assumes "presets_in_line p" and "fresh_rows k"
  shows "safe_change p (fold (seed_preset k c) xs p)"
  using assms(1)
proof (induction xs arbitrary: p)
  case (Cons x xs)
  then show ?case using seed_one_safe [OF Cons.prems assms(2), of c x] safe_trans safe_in_line by fastforce
qed (simp add: safe_refl)

lemma preset_step_safe: "preset_step p q \<Longrightarrow> presets_in_line p \<Longrightarrow> safe_change p q"
  by (induction rule: preset_step.induct)
    (auto simp: seedDefaultPartPresets_def intro: create_safe update_safe delete_safe seed_safe)

lemma preset_steps_safe: "preset_step\<^sup>*\<^sup>* p q \<Longrightarrow> presets_in_line p \<Longrightarrow> safe_change p q"
  by (induction rule: rtranclp_induct) (auto intro: safe_refl safe_trans safe_in_line preset_step_safe)

text \<open>
  Kinds are never confused or lost: however they are created, edited, deleted and seeded, even
  by creations that read an older state of the table, every kind keeps a key of its own in its
  congregation, a system kind keeps its row, its key and its status, and no part of an event or of
  a template loses or changes its kind.
\<close>

theorem kinds_keep_their_keys:
  assumes "preset_step\<^sup>*\<^sup>* p q" and "presets_in_line p" and "t \<in> set (partPresets p)" and "pst_isSystem t"
  shows "presets_in_line q \<and> still_there t q \<and> kinds_of_parts q = kinds_of_parts p"
  using preset_steps_safe [OF assms(1,2)] assms(3,4) by (auto simp: safe_change_def still_there_def)

lemma kinds_keep_their_keys_witness:
  "\<exists>p q t. preset_step\<^sup>*\<^sup>* p q \<and> partPresets p = [t] \<and> length (partPresets q) = 9 \<and>
    (presets_in_line q \<and> still_there t q \<and> kinds_of_parts q = kinds_of_parts p)"
proof -
  define t where "t = blank_preset 1 ''prayer'' True 1"
  define p where "p = sample_programme\<lparr>partPresets := [t]\<rparr>"
  define q where "q = seedDefaultPartPresets serial_keys 1 p"
  have step: "preset_step\<^sup>*\<^sup>* p q" unfolding q_def by (intro r_into_rtranclp preset_step.seeded fresh_serial_keys)
  have line: "presets_in_line p" by (simp add: p_def presets_in_line_def)
  have "length (partPresets q) = 9"
    by (simp add: q_def p_def t_def seedDefaultPartPresets_def PRESETS_def seed_preset_def preset_keys_def blank_preset_def)
  then show ?thesis
    using kinds_keep_their_keys [OF step line, of t] step by (intro exI [of _ p] exI [of _ q] exI [of _ t]) (simp add: p_def t_def)
qed

section \<open>The pages\<close>

text \<open>
  The pages that create and edit the kinds of part
  (\<^verbatim>\<open>features/settings/routes/congregation/presets/new.tsx\<close> and \<^verbatim>\<open>edit.tsx\<close>). An action runs in
  a transaction (\<^verbatim>\<open>shared/infra/db.server.ts\<close>, \<^verbatim>\<open>shared/auth/route-context.server.ts\<close>), which the
  database client commits when the callback returns and rolls back when it throws, whatever it
  throws. What the form parser, a library, makes of the submission is an argument.
\<close>

subsection \<open>Actions\<close>

datatype thrown = Thrown_Error app_error | Thrown_Redirect string

datatype reply = Reply_Errors "string list"

type_synonym ending = "(thrown + reply) \<times> pdb"

definition withScopeFromContext :: "(pdb \<Rightarrow> ending option) \<Rightarrow> pdb \<Rightarrow> ending option" where
  "withScopeFromContext body p =
     map_option (\<lambda>r. case r of
         (Inl t, q) \<Rightarrow> (Inl t, p\<lparr>core := (core p)\<lparr>auditLog := auditLog (core q)\<rparr>\<rparr>)
       | (Inr x, q) \<Rightarrow> (Inr x, q)) (body p)"

definition LIST_PATH :: string where
  "LIST_PATH = ''/settings/congregation/presets''"

definition new_action ::
  "row_keys \<Rightarrow> catalogue \<Rightarrow> pdb \<Rightarrow> bool \<Rightarrow> string list + PartPresetInput \<Rightarrow> int \<Rightarrow> int \<Rightarrow> pdb \<Rightarrow> ending option" where
  "new_action k words seen canManage submission congregationId userId p =
     (if \<not> canManage then Some (Inl (Thrown_Redirect LIST_PATH), p)
      else withScopeFromContext (\<lambda>p.
        case submission of
          Inl errors \<Rightarrow> Some (Inr (Reply_Errors errors), p)
        | Inr d \<Rightarrow>
            map_option (\<lambda>r. case r of
                (Inl e, q) \<Rightarrow> (Inl (Thrown_Error e), q)
              | (Inr t, q) \<Rightarrow> (Inl (Thrown_Redirect LIST_PATH), q))
              (createPartPreset k words seen d congregationId userId p)) p)"

text \<open>
  A path parameter that is not a number is \<open>None\<close>. The messages of the refusals are named by their
  keys in the catalogue.
\<close>

definition delete_errors :: "DeletePartPresetResult \<Rightarrow> string list" where
  "delete_errors r =
     (case r of
        PresetDeleted _ \<Rightarrow> []
      | PresetIsSystem \<Rightarrow> [''settings_presets_error_system'']
      | PresetNotFound \<Rightarrow> [''settings_presets_error_not_found'']
      | PresetInUse n \<Rightarrow> [''settings_presets_error_in_use_count''])"

definition edit_body ::
  "catalogue \<Rightarrow> int \<Rightarrow> bool \<Rightarrow> string list + PartPresetInput \<Rightarrow> int \<Rightarrow> int \<Rightarrow> pdb \<Rightarrow> ending option" where
  "edit_body words i isDelete submission congregationId userId p =
     (if isDelete then
        (case deletePartPreset words i congregationId userId p of
           (PresetDeleted _, q) \<Rightarrow> Some (Inl (Thrown_Redirect LIST_PATH), q)
         | (refusal, q) \<Rightarrow> Some (Inr (Reply_Errors (delete_errors refusal)), q))
      else
        (case submission of
           Inl errors \<Rightarrow> Some (Inr (Reply_Errors errors), p)
         | Inr d \<Rightarrow>
             (case updatePartPreset words i d congregationId userId p of
                (None, q) \<Rightarrow> Some (Inr (Reply_Errors [''settings_presets_error_vanished'']), q)
              | (Some t, q) \<Rightarrow> Some (Inl (Thrown_Redirect LIST_PATH), q))))"

definition edit_action ::
  "catalogue \<Rightarrow> bool \<Rightarrow> int option \<Rightarrow> bool \<Rightarrow> string list + PartPresetInput \<Rightarrow> int \<Rightarrow> int \<Rightarrow> pdb \<Rightarrow> ending option" where
  "edit_action words canManage presetId isDelete submission congregationId userId p =
     (if \<not> canManage then Some (Inl (Thrown_Redirect LIST_PATH), p)
      else
        (case presetId of
           None \<Rightarrow> Some (Inl (Thrown_Redirect LIST_PATH), p)
         | Some i \<Rightarrow> withScopeFromContext (edit_body words i isDelete submission congregationId userId) p))"

subsection \<open>What they save\<close>

lemma scope_keeps:
  assumes "withScopeFromContext body p = Some (r, q)" and "\<And>x s. body p = Some (Inr x, s) \<Longrightarrow> s = p"
  shows "partPresets q = partPresets p"
proof -
  obtain a b where ab: "body p = Some (a, b)" using assms(1) by (auto simp: withScopeFromContext_def)
  then show ?thesis using assms by (cases a) (auto simp: withScopeFromContext_def)
qed

lemma refused_deletion: "deletePartPreset words i c u p = (r, q) \<Longrightarrow> (\<exists>n. r = PresetDeleted n) \<or> q = p"
  by (auto simp: deletePartPreset_def Let_def split: option.splits if_splits)

lemma edit_body_returns: "edit_body words i isDelete submission c u p = Some (Inr x, q) \<Longrightarrow> q = p"
  using refused_deletion [of words i c u p]
  by (auto simp: edit_body_def updatePartPreset_def Let_def
    split: if_splits prod.splits sum.splits option.splits DeletePartPresetResult.splits)

lemma created_row: "\<exists>t q. createPartPreset k words p d c u p = Some (Inr t, preset_audit words ''part_preset.created'' c u t q)
    \<and> core q = core p"
proof -
  obtain key where key: "buildKey p (case ppi_name d of None \<Rightarrow> [] | Some s \<Rightarrow> s) c = Some key" "key \<notin> set (preset_keys c p)"
    using buildKey_total by blast
  then show ?thesis
    by (intro exI [of _ "preset_columns (normalize_input d) (blank_preset (key_preset k (partPresets p)) key False c)"]
          exI [of _ "p\<lparr>partPresets := partPresets p @
            [preset_columns (normalize_input d) (blank_preset (key_preset k (partPresets p)) key False c)]\<rparr>"])
      (simp add: createPartPreset_def create_row_def create_attempt_def insert_preset_cases)
qed

text \<open>
  C40. A kind created from its page is rolled back: a manager who submits a valid form is sent to the
  list, as after a success, the journal says that a kind was created, and the table is what it was.
  The page reports its success by throwing the redirection inside the transaction.
\<close>

theorem a_created_kind_is_rolled_back:
  "\<exists>q. new_action k words p True (Inr d) c u p = Some (Inl (Thrown_Redirect LIST_PATH), q) \<and>
     partPresets q = partPresets p \<and> length (auditLog (core q)) = Suc (length (auditLog (core p)))"
proof -
  obtain t q where "createPartPreset k words p d c u p = Some (Inr t, preset_audit words ''part_preset.created'' c u t q)"
    and "core q = core p"
    using created_row by blast
  then show ?thesis
    by (simp add: new_action_def withScopeFromContext_def preset_audit_def programme_audit_def entity_audit_def audit_def)
qed

text \<open>Nor does the other page change anything, whether it edits or deletes.\<close>

lemma the_edit_page_never_saves:
  assumes "edit_action words canManage i isDelete submission c u p = Some (r, q)"
  shows "partPresets q = partPresets p"
  using assms edit_body_returns
  by (auto simp: edit_action_def elim!: scope_keeps split: if_splits option.splits)

end
