(* ===== verification/Programme_Views.thy ===== *)
theory Programme_Views
  imports Programme_Tables Classes
begin

text \<open>
  How the parts of a programme are laid out: by section and parallel track
  (\<^verbatim>\<open>features/events/model/programme-grouping.ts\<close>) and by section and slot
  (\<^verbatim>\<open>features/events/model/group-parts-by-slot.ts\<close>). Each is shown equal to a description that does
  not mention the mutable groups of the code.
\<close>

section \<open>By track\<close>

text \<open>\<^verbatim>\<open>Number.POSITIVE_INFINITY\<close>, the order of a track whose parts have none, is \<open>None\<close>.\<close>

record Cluster =
  cl_parts :: "event_part list"
  cl_minTrackOrder :: "int option"
  cl_firstIndex :: nat

type_synonym section_group = "string \<times> (string \<times> Cluster) list"

definition min_order :: "int option \<Rightarrow> int option \<Rightarrow> int option" where
  "min_order x y = (case (x, y) of (None, _) \<Rightarrow> y | (_, None) \<Rightarrow> x | (Some a, Some b) \<Rightarrow> Some (min a b))"

lemma min_order_None: "min_order None y = y"
  by (simp add: min_order_def)

fun add_to_track :: "nat \<Rightarrow> event_part \<Rightarrow> (string \<times> Cluster) list \<Rightarrow> (string \<times> Cluster) list" where
  "add_to_track i a [] = [(epa_track a, \<lparr>cl_parts = [a], cl_minTrackOrder = epa_trackOrder a, cl_firstIndex = i\<rparr>)]"
| "add_to_track i a ((t, cl) # rest) =
     (if t = epa_track a
      then (t, cl\<lparr>cl_parts := cl_parts cl @ [a], cl_minTrackOrder := min_order (cl_minTrackOrder cl) (epa_trackOrder a)\<rparr>) # rest
      else (t, cl) # add_to_track i a rest)"

definition add_to_section :: "nat \<times> event_part \<Rightarrow> section_group list \<Rightarrow> section_group list" where
  "add_to_section ia groups =
     (case ia of (i, a) \<Rightarrow>
        if groups = [] \<or> fst (last groups) \<noteq> epa_section a
        then groups @ [(epa_section a, add_to_track i a [])]
        else butlast groups @ [(epa_section a, add_to_track i a (snd (last groups)))])"

text \<open>
  The key of the untracked cluster is \<open>-\<infinity>\<close>; the difference of two infinities of one sign is not a
  number, which leaves the decision to the first appearance, as a difference of zero does.
\<close>

definition track_rank :: "string \<times> Cluster \<Rightarrow> int \<times> int" where
  "track_rank tc = (if fst tc = [] then (0, 0) else (case cl_minTrackOrder (snd tc) of Some n \<Rightarrow> (1, n) | None \<Rightarrow> (2, 0)))"

definition compare_tracks :: "string \<times> Cluster \<Rightarrow> string \<times> Cluster \<Rightarrow> int" where
  "compare_tracks x y =
     (if track_rank x = track_rank y then int (cl_firstIndex (snd x)) - int (cl_firstIndex (snd y))
      else if fst (track_rank x) < fst (track_rank y) \<or>
              fst (track_rank x) = fst (track_rank y) \<and> snd (track_rank x) < snd (track_rank y) then - 1
      else 1)"

definition groupProgrammeParts :: "event_part list \<Rightarrow> (string \<times> (string \<times> event_part list) list) list" where
  "groupProgrammeParts parts =
     map (\<lambda>(section, tracks). (section, map (\<lambda>(t, cl). (t, cl_parts cl)) (js_sort compare_tracks tracks)))
       (fold add_to_section (enumerate 0 parts) [])"

definition add_minutes :: "event_part \<Rightarrow> int option \<Rightarrow> int option" where
  "add_minutes a acc = (case epa_durationMin a of None \<Rightarrow> acc | Some n \<Rightarrow> Some ((case acc of None \<Rightarrow> 0 | Some t \<Rightarrow> t) + n))"

definition sectionDurationMin :: "string \<times> (string \<times> event_part list) list \<Rightarrow> int option" where
  "sectionDurationMin g = fold (\<lambda>track. fold add_minutes (snd track)) (snd g) None"

section \<open>By slot\<close>

definition add_to_slot :: "event_part \<Rightarrow> (string \<times> (int \<times> event_part list) list) list \<Rightarrow> (string \<times> (int \<times> event_part list) list) list" where
  "add_to_slot a groups =
     (if groups \<noteq> [] \<and> fst (last groups) = epa_section a
      then
        (let slots = snd (last groups)
         in if slots \<noteq> [] \<and> fst (last slots) = epa_order a
            then butlast groups @ [(epa_section a, butlast slots @ [(epa_order a, snd (last slots) @ [a])])]
            else butlast groups @ [(epa_section a, slots @ [(epa_order a, [a])])])
      else groups @ [(epa_section a, [(epa_order a, [a])])])"

definition groupPartsBySlot :: "event_part list \<Rightarrow> (string \<times> (int \<times> event_part list) list) list" where
  "groupPartsBySlot parts = fold add_to_slot (js_sort (\<lambda>a b. epa_order a - epa_order b) parts) []"

section \<open>Runs\<close>

text \<open>The maximal runs of elements that agree on a key, in order.\<close>

fun runs :: "('a \<Rightarrow> 'k) \<Rightarrow> 'a list \<Rightarrow> ('k \<times> 'a list) list" where
  "runs f [] = []"
| "runs f (x # xs) =
     (case runs f xs of
        [] \<Rightarrow> [(f x, [x])]
      | (k, ys) # rest \<Rightarrow> if k = f x then (k, x # ys) # rest else (f x, [x]) # (k, ys) # rest)"

definition extend_run :: "('a \<Rightarrow> 'k) \<Rightarrow> 'a \<Rightarrow> ('k \<times> 'a list) list \<Rightarrow> ('k \<times> 'a list) list" where
  "extend_run f a rs =
     (if rs \<noteq> [] \<and> fst (last rs) = f a then butlast rs @ [(f a, snd (last rs) @ [a])] else rs @ [(f a, [a])])"

lemma runs_not_Nil [simp]: "runs f xs = [] \<longleftrightarrow> xs = []"
  by (cases xs) (auto split: list.splits)

lemma extend_run_Cons:
  "rs \<noteq> [] \<Longrightarrow> extend_run f a (r # rs) = r # extend_run f a rs"
  by (auto simp: extend_run_def)

lemma runs_snoc: "runs f (xs @ [a]) = extend_run f a (runs f xs)"
proof (induction xs)
  case Nil
  then show ?case by (simp add: extend_run_def)
next
  case (Cons x xs)
  show ?case
  proof (cases "runs f xs")
    case Nil
    then show ?thesis using Cons by (auto simp: extend_run_def)
  next
    case (Cons r rest)
    obtain k ys where r: "r = (k, ys)" by (cases r)
    show ?thesis
    proof (cases rest)
      case Nil
      then show ?thesis using Cons.IH \<open>runs f xs = r # rest\<close> r by (auto simp: extend_run_def)
    next
      case (Cons r2 rest2)
      then have "extend_run f a ((k, ys) # rest) = (k, ys) # extend_run f a rest" by (simp add: extend_run_Cons)
      then show ?thesis using Cons.IH \<open>runs f xs = r # rest\<close> r Cons by (auto simp: extend_run_Cons)
    qed
  qed
qed

lemma concat_runs: "concat (map snd (runs f xs)) = xs"
  by (induction xs) (auto split: list.splits)

lemma run_nonempty: "(k, ys) \<in> set (runs f xs) \<Longrightarrow> ys \<noteq> []"
proof (induction xs arbitrary: k ys)
  case (Cons x xs)
  then show ?case by (cases "runs f xs") (auto split: if_splits)
qed simp

lemma map_extend_run:
  assumes "\<And>x. h x = (fst x, g (snd x))"
  shows "map h (extend_run f a rs) =
    (if rs \<noteq> [] \<and> fst (last (map h rs)) = f a then butlast (map h rs) @ [(f a, g (snd (last rs) @ [a]))]
     else map h rs @ [(f a, g [a])])"
  by (cases "rs = []") (simp_all add: extend_run_def last_map map_butlast assms)

section \<open>The slots\<close>

definition slots_of :: "string \<times> event_part list \<Rightarrow> string \<times> (int \<times> event_part list) list" where
  "slots_of r = (fst r, runs epa_order (snd r))"

lemma add_to_slot_run:
  assumes "\<And>k ys. (k, ys) \<in> set rs \<Longrightarrow> ys \<noteq> []"
  shows "add_to_slot a (map slots_of rs) = map slots_of (extend_run epa_section a rs)"
proof -
  have "map slots_of (extend_run epa_section a rs) =
    (if rs \<noteq> [] \<and> fst (last (map slots_of rs)) = epa_section a
     then butlast (map slots_of rs) @ [(epa_section a, runs epa_order (snd (last rs) @ [a]))]
     else map slots_of rs @ [(epa_section a, runs epa_order [a])])"
    by (intro map_extend_run) (simp add: slots_of_def)
  moreover have "snd (last (map slots_of rs)) = runs epa_order (snd (last rs))" if "rs \<noteq> []"
    using that by (simp add: last_map slots_of_def)
  moreover have "runs epa_order (snd (last rs)) \<noteq> []" if "rs \<noteq> []"
    using that assms [of "fst (last rs)" "snd (last rs)"] by simp
  ultimately show ?thesis by (auto simp: add_to_slot_def runs_snoc extend_run_def Let_def)
qed

lemma slots_are_runs: "fold add_to_slot xs [] = map slots_of (runs epa_section xs)"
proof (induction xs rule: rev_induct)
  case (snoc a xs)
  then show ?case by (simp add: runs_snoc add_to_slot_run run_nonempty)
qed simp

section \<open>The tracks\<close>

definition tracks_of :: "(nat \<times> event_part) list \<Rightarrow> (string \<times> Cluster) list" where
  "tracks_of r = fold (\<lambda>(i, a). add_to_track i a) r []"

lemma tracks_of_snoc: "tracks_of (r @ [ia]) = add_to_track (fst ia) (snd ia) (tracks_of r)"
  by (cases ia) (simp add: tracks_of_def)

definition section_of :: "nat \<times> event_part \<Rightarrow> string" where
  "section_of ia = epa_section (snd ia)"

definition tracked :: "string \<times> (nat \<times> event_part) list \<Rightarrow> section_group" where
  "tracked r = (fst r, tracks_of (snd r))"

lemma add_to_section_run: "add_to_section ia (map tracked rs) = map tracked (extend_run section_of ia rs)"
proof -
  have "map tracked (extend_run section_of ia rs) =
    (if rs \<noteq> [] \<and> fst (last (map tracked rs)) = section_of ia
     then butlast (map tracked rs) @ [(section_of ia, tracks_of (snd (last rs) @ [ia]))]
     else map tracked rs @ [(section_of ia, tracks_of [ia])])"
    by (intro map_extend_run) (simp add: tracked_def)
  moreover have "tracks_of [ia] = add_to_track (fst ia) (snd ia) []"
    using tracks_of_snoc [of "[]" ia] by (simp add: tracks_of_def)
  moreover have "snd (last (map tracked rs)) = tracks_of (snd (last rs))" if "rs \<noteq> []"
    using that by (simp add: last_map tracked_def)
  ultimately show ?thesis
    by (cases ia) (auto simp: add_to_section_def tracks_of_snoc section_of_def simp del: add_to_track.simps)
qed

lemma sections_are_runs: "fold add_to_section xs [] = map tracked (runs section_of xs)"
proof (induction xs rule: rev_induct)
  case (snoc ia xs)
  then show ?case by (simp only: fold_append fold_simps id_o o_apply runs_snoc add_to_section_run)
qed simp

definition cluster_of :: "(nat \<times> event_part) list \<Rightarrow> string \<Rightarrow> Cluster" where
  "cluster_of r t = (let own = filter (\<lambda>ia. epa_track (snd ia) = t) r
     in \<lparr>cl_parts = map snd own, cl_minTrackOrder = fold (\<lambda>ia m. min_order m (epa_trackOrder (snd ia))) own None,
         cl_firstIndex = fst (hd own)\<rparr>)"

lemma add_to_track_map:
  assumes "distinct ts"
  shows "add_to_track i a (map (\<lambda>t. (t, c t)) ts) =
    (if epa_track a \<in> set ts
     then map (\<lambda>t. (t, if t = epa_track a then (c t)\<lparr>cl_parts := cl_parts (c t) @ [a],
            cl_minTrackOrder := min_order (cl_minTrackOrder (c t)) (epa_trackOrder a)\<rparr> else c t)) ts
     else map (\<lambda>t. (t, c t)) ts @ [(epa_track a, \<lparr>cl_parts = [a], cl_minTrackOrder = epa_trackOrder a, cl_firstIndex = i\<rparr>)])"
  using assms by (induction ts) auto

lemma tracks_are_classes: "tracks_of r = map (\<lambda>t. (t, cluster_of r t)) (js_set (map (epa_track \<circ> snd) r))"
proof (induction r rule: rev_induct)
  case Nil
  then show ?case by (simp add: tracks_of_def js_set_def)
next
  case (snoc ia r)
  obtain i a where ia: "ia = (i, a)" by (cases ia)
  have none: "filter (\<lambda>ia. epa_track (snd ia) = t) r = [] \<longleftrightarrow> t \<notin> set (map (epa_track \<circ> snd) r)" for t
    by (auto simp: filter_empty_conv)
  have new: "cluster_of (r @ [ia]) t = (if t = epa_track a then
      (if t \<in> set (map (epa_track \<circ> snd) r) then (cluster_of r t)\<lparr>cl_parts := cl_parts (cluster_of r t) @ [a],
          cl_minTrackOrder := min_order (cl_minTrackOrder (cluster_of r t)) (epa_trackOrder a)\<rparr>
       else \<lparr>cl_parts = [a], cl_minTrackOrder = epa_trackOrder a, cl_firstIndex = i\<rparr>) else cluster_of r t)" for t
  proof (cases "t = epa_track a \<and> t \<in> set (map (epa_track \<circ> snd) r)")
    case True
    then have "filter (\<lambda>ia. epa_track (snd ia) = epa_track a) r \<noteq> []" using none [of "epa_track a"] by blast
    then show ?thesis using True by (auto simp: cluster_of_def ia hd_append Let_def simp del: set_map)
  next
    case False
    then have "t = epa_track a \<longrightarrow> filter (\<lambda>ia. epa_track (snd ia) = epa_track a) r = []" using none [of "epa_track a"] by blast
    then show ?thesis using False by (auto simp: cluster_of_def ia min_order_None Let_def simp del: set_map)
  qed
  show ?case
    unfolding tracks_of_snoc snoc.IH by (subst add_to_track_map) (auto simp: js_set_snoc ia new [unfolded ia] simp del: set_map)
qed

section \<open>Nothing is lost\<close>

text \<open>The layouts described without the mutable groups of the code.\<close>

lemma grouped_by_track:
  "groupProgrammeParts parts = map (\<lambda>r. (fst r, map (\<lambda>(t, cl). (t, cl_parts cl))
     (js_sort compare_tracks (map (\<lambda>t. (t, cluster_of (snd r) t)) (js_set (map (epa_track \<circ> snd) (snd r)))))))
     (runs section_of (enumerate 0 parts))"
  by (simp add: groupProgrammeParts_def sections_are_runs tracked_def tracks_are_classes)

lemma grouped_by_slot:
  "groupPartsBySlot parts =
    map (\<lambda>r. (fst r, runs epa_order (snd r))) (runs epa_section (js_sort (\<lambda>a b. epa_order a - epa_order b) parts))"
  by (simp add: groupPartsBySlot_def slots_are_runs slots_of_def [abs_def])

lemma mset_of_tracks:
  "mset (concat (map snd (map (\<lambda>(t, cl). (t, cl_parts cl))
     (js_sort compare_tracks (map (\<lambda>t. (t, cluster_of r t)) (js_set (map (epa_track \<circ> snd) r))))))) = mset (map snd r)"
proof -
  let ?ts = "js_set (map (epa_track \<circ> snd) r)"
  have "mset (concat (map (\<lambda>tc. cl_parts (snd tc)) (js_sort compare_tracks (map (\<lambda>t. (t, cluster_of r t)) ?ts)))) =
      mset (concat (map (\<lambda>tc. cl_parts (snd tc)) (map (\<lambda>t. (t, cluster_of r t)) ?ts)))"
    by (rule mset_concat_perm) (rule mset_js_sort)
  also have "\<dots> = mset (map snd (concat (map (\<lambda>t. filter (\<lambda>ia. (epa_track \<circ> snd) ia = t) r) ?ts)))"
    by (simp add: cluster_of_def Let_def comp_def map_concat)
  also have "\<dots> = image_mset snd (mset r)" by (simp only: mset_map all_classes)
  finally show ?thesis by (simp add: comp_def case_prod_beta)
qed

text \<open>Both views show every part of the programme exactly once.\<close>

theorem views_show_every_part_once:
  "mset (concat (map (concat \<circ> map snd \<circ> snd) (groupProgrammeParts parts))) = mset parts \<and>
   mset (concat (map (concat \<circ> map snd \<circ> snd) (groupPartsBySlot parts))) = mset parts"
proof
  have "mset (concat (map (concat \<circ> map snd \<circ> snd) (groupProgrammeParts parts))) =
      mset (concat (map (map snd \<circ> snd) (runs section_of (enumerate 0 parts))))"
    unfolding grouped_by_track map_map by (rule mset_concat_cong) (simp only: o_apply snd_conv mset_of_tracks)
  also have "\<dots> = mset (map snd (concat (map snd (runs section_of (enumerate 0 parts)))))"
    by (simp add: map_concat comp_def)
  finally show "mset (concat (map (concat \<circ> map snd \<circ> snd) (groupProgrammeParts parts))) = mset parts"
    by (simp add: concat_runs)
next
  show "mset (concat (map (concat \<circ> map snd \<circ> snd) (groupPartsBySlot parts))) = mset parts"
    unfolding grouped_by_slot by (simp add: comp_def concat_runs mset_js_sort)
qed

end
