(* ===== verification/Engagement.thy ===== *)
theory Engagement
  imports Programme_Steps Classes
begin

text \<open>
  What a member is engaged for: the upcoming assignments and absences of a member's page
  (\<^verbatim>\<open>features/events/server/member-engagement.queries.ts\<close>), the personal calendar
  (\<^verbatim>\<open>personal-assignments.server.ts\<close>), the conflicts of an absence
  (\<^verbatim>\<open>list-user-conflicts-in-range.server.ts\<close>) and the other places held at one event
  (\<^verbatim>\<open>list-user-same-event-assignments.server.ts\<close>).
\<close>

section \<open>Rows with their event\<close>

text \<open>\<^verbatim>\<open>where: { event: ... }\<close> and \<^verbatim>\<open>select: { event }\<close>: the rows whose event satisfies the filter.\<close>

definition parts_with :: "(event \<Rightarrow> bool) \<Rightarrow> pdb \<Rightarrow> (event_part \<times> event) list" where
  "parts_with f p = List.map_filter (\<lambda>a. case event_with p (epa_eventId a) of
     None \<Rightarrow> None | Some e \<Rightarrow> if f e then Some (a, e) else None) (eventParts p)"

definition services_with :: "(event \<Rightarrow> bool) \<Rightarrow> pdb \<Rightarrow> (event_service_part \<times> event) list" where
  "services_with f p = List.map_filter (\<lambda>a. case event_with p (esp_eventId a) of
     None \<Rightarrow> None | Some e \<Rightarrow> if f e then Some (a, e) else None) (eventServiceParts p)"

definition holds_part :: "int \<Rightarrow> event_part \<Rightarrow> bool" where
  "holds_part memberId a \<longleftrightarrow> epa_assigneeId a = Some memberId \<or> epa_assistantId a = Some memberId"

section \<open>The page of a member\<close>

record MemberAssignment =
  ma_key :: string
  ma_partName :: string
  ma_eventId :: int
  ma_eventName :: string
  ma_eventStartDate :: int

definition MAX_ASSIGNMENTS :: nat where
  "MAX_ASSIGNMENTS = 5"

definition upcoming_event :: "pdb \<Rightarrow> int \<Rightarrow> int \<Rightarrow> event \<Rightarrow> bool" where
  "upcoming_event p congregationId now e \<longleftrightarrow>
     evt_congregationId e = congregationId \<and> evt_status e = EventStatus_Released \<and> now \<le> evt_startDate e \<and>
     \<not> has_template_key p TemplateKey_DayOff e"

definition toAssignment :: "string \<Rightarrow> string \<Rightarrow> event \<Rightarrow> MemberAssignment" where
  "toAssignment key name e =
     \<lparr>ma_key = key, ma_partName = name, ma_eventId = evt_id e, ma_eventName = evt_name e, ma_eventStartDate = evt_startDate e\<rparr>"

definition by_start :: "'a \<times> event \<Rightarrow> 'a \<times> event \<Rightarrow> int" where
  "by_start x y = evt_startDate (snd x) - evt_startDate (snd y)"

definition part_assignment :: "event_part \<times> event \<Rightarrow> MemberAssignment" where
  "part_assignment ae = toAssignment (''part-'' @ js_string (epa_id (fst ae))) (epa_name (fst ae)) (snd ae)"

definition service_assignment :: "event_service_part \<times> event \<Rightarrow> MemberAssignment" where
  "service_assignment ae = toAssignment (''service-'' @ js_string (esp_id (fst ae))) (esp_name (fst ae)) (snd ae)"

definition findUpcomingAssignmentsForMember :: "pdb \<Rightarrow> int \<Rightarrow> int \<Rightarrow> int \<Rightarrow> MemberAssignment list" where
  "findUpcomingAssignmentsForMember p memberId congregationId now =
     (let parts = take MAX_ASSIGNMENTS (js_sort by_start
            (filter (\<lambda>ae. holds_part memberId (fst ae)) (parts_with (upcoming_event p congregationId now) p)));
          serviceParts = take MAX_ASSIGNMENTS (js_sort by_start
            (filter (\<lambda>ae. esp_assigneeId (fst ae) = Some memberId) (services_with (upcoming_event p congregationId now) p)))
      in take MAX_ASSIGNMENTS (js_sort (\<lambda>a b. ma_eventStartDate a - ma_eventStartDate b)
           (map part_assignment parts @ map service_assignment serviceParts)))"

definition findUpcomingAbsencesForMember :: "pdb \<Rightarrow> int \<Rightarrow> int \<Rightarrow> int \<Rightarrow> event list" where
  "findUpcomingAbsencesForMember p memberId congregationId now =
     js_sort (\<lambda>a b. evt_startDate a - evt_startDate b)
       (filter (\<lambda>e. evt_congregationId e = congregationId \<and> has_template_key p TemplateKey_DayOff e \<and>
          creator_member p e = Some memberId \<and> now \<le> evt_endDate e) (events p))"

text \<open>All the assignments that qualify, in the order of the code: parts before service parts.\<close>

definition all_upcoming :: "pdb \<Rightarrow> int \<Rightarrow> int \<Rightarrow> int \<Rightarrow> MemberAssignment list" where
  "all_upcoming p memberId congregationId now =
     map part_assignment (filter (\<lambda>ae. holds_part memberId (fst ae)) (parts_with (upcoming_event p congregationId now) p)) @
     map service_assignment (filter (\<lambda>ae. esp_assigneeId (fst ae) = Some memberId)
       (services_with (upcoming_event p congregationId now) p))"

lemma sort_then_map:
  assumes "\<And>x. ma_eventStartDate (g x) = evt_startDate (snd x)"
  shows "map g (take n (js_sort by_start xs)) = take n (sort_key ma_eventStartDate (map g xs))"
proof -
  have "map g (insort_key (evt_startDate \<circ> snd) x zs) = insort_key ma_eventStartDate (g x) (map g zs)" for x zs
    by (induction zs) (simp_all add: assms)
  then have "map g (sort_key (evt_startDate \<circ> snd) zs) = sort_key ma_eventStartDate (map g zs)" for zs
    by (induction zs) simp_all
  moreover have "js_sort by_start xs = sort_key (evt_startDate \<circ> snd) xs"
    using js_sort_key [of "evt_startDate \<circ> snd" xs] by (simp add: by_start_def [abs_def] comp_def)
  ultimately show ?thesis by (simp flip: take_map)
qed

text \<open>
  Reading five rows of each table is enough: the page shows the first five of all the upcoming
  assignments of the member, in chronological order, parts before service parts at one instant.
\<close>

theorem page_shows_the_first_five:
  "findUpcomingAssignmentsForMember p m c now = take 5 (sort_key ma_eventStartDate (all_upcoming p m c now))"
proof -
  have p: "map part_assignment (take n (js_sort by_start xs)) = take n (sort_key ma_eventStartDate (map part_assignment xs))" for n xs
    by (rule sort_then_map) (simp add: part_assignment_def toAssignment_def)
  have s: "map service_assignment (take n (js_sort by_start xs)) = take n (sort_key ma_eventStartDate (map service_assignment xs))" for n xs
    by (rule sort_then_map) (simp add: service_assignment_def toAssignment_def)
  show ?thesis
    unfolding findUpcomingAssignmentsForMember_def Let_def p s js_sort_key take_merge all_upcoming_def MAX_ASSIGNMENTS_def ..
qed

section \<open>The personal calendar\<close>

text \<open>
  A text made of several pieces is kept as the list of its pieces; a message of the catalogue is
  its key and its inputs. The time of the last change of a row, a column the database maintains,
  is an argument.
\<close>

datatype piece = Text string | Message string "piece list"

record PersonalCalendarItem =
  pci_uid :: string
  pci_kind :: string
  pci_summary :: "piece list"
  pci_description :: "piece list"
  pci_start :: jsdate
  pci_end :: jsdate
  pci_allDay :: bool
  pci_updatedAt :: int

definition or_dash :: "string \<Rightarrow> piece" where
  "or_dash s = (if s = [] then Message ''dash'' [] else Text s)"

definition partAssignmentToItem :: "(string \<Rightarrow> int \<Rightarrow> int) \<Rightarrow> int \<Rightarrow> event_part \<times> event \<Rightarrow> PersonalCalendarItem" where
  "partAssignmentToItem updatedAt userId ae =
     (case ae of (a, e) \<Rightarrow>
       (let isAssistant = (epa_assistantId a = Some userId);
            role = Message (if isAssistant then ''calendar_feed_role_reader'' else ''calendar_feed_role_speaker'') []
        in \<lparr>pci_uid = ''programme-part-'' @ (if isAssistant then ''assistant'' else ''assignee'') @ ''-'' @ js_string (epa_id a),
            pci_kind = (if isAssistant then ''programme-part-assistant'' else ''programme-part''),
            pci_summary = role # map Text (filter (\<lambda>s. s \<noteq> []) [evt_name e, epa_name a]),
            pci_description = Message ''calendar_feed_part_description'' [role, or_dash (epa_section a)] #
              (if epa_topic a = [] then [] else [Message ''calendar_feed_part_topic'' [Text (epa_topic a)]]) @
              (if epa_note a = [] then [] else [Message ''calendar_feed_part_note'' [Text (epa_note a)]]),
            pci_start = Date (evt_startDate e), pci_end = Date (evt_endDate e), pci_allDay = False,
            pci_updatedAt = updatedAt ''EventPart'' (epa_id a)\<rparr>))"

definition servicePartAssignmentToItem :: "(string \<Rightarrow> int \<Rightarrow> int) \<Rightarrow> event_service_part \<times> event \<Rightarrow> PersonalCalendarItem" where
  "servicePartAssignmentToItem updatedAt ae =
     (case ae of (a, e) \<Rightarrow>
       (let role = Message ''calendar_feed_role_service'' []
        in \<lparr>pci_uid = ''programme-service-role-'' @ js_string (esp_id a), pci_kind = ''programme-service-role'',
            pci_summary = role # map Text (filter (\<lambda>s. s \<noteq> []) [evt_name e, esp_name a]),
            pci_description = Message ''calendar_feed_part_description'' [role, or_dash (esp_name a)] #
              (if esp_note a = [] then [] else [Message ''calendar_feed_part_note'' [Text (esp_note a)]]),
            pci_start = Date (evt_startDate e), pci_end = Date (evt_endDate e), pci_allDay = False,
            pci_updatedAt = updatedAt ''EventServicePart'' (esp_id a)\<rparr>))"

definition dayOffToItem :: "zone \<Rightarrow> (string \<Rightarrow> int \<Rightarrow> int) \<Rightarrow> event \<Rightarrow> PersonalCalendarItem" where
  "dayOffToItem z updatedAt e =
     \<lparr>pci_uid = ''day-off-'' @ js_string (evt_id e), pci_kind = ''day-off'',
      pci_summary = [Message ''calendar_feed_day_off_summary'' []], pci_description = [],
      pci_start = Date (evt_startDate e), pci_end = add_local_days z (Date (evt_endDate e)) 1, pci_allDay = True,
      pci_updatedAt = updatedAt ''Event'' (evt_id e)\<rparr>"

definition getPersonalAssignments ::
  "zone \<Rightarrow> (string \<Rightarrow> int \<Rightarrow> int) \<Rightarrow> pdb \<Rightarrow> int \<Rightarrow> int \<Rightarrow> int \<Rightarrow> PersonalCalendarItem list" where
  "getPersonalAssignments z updatedAt p userId congregationId since =
     (let memberId = Option.bind (find (\<lambda>u. acc_id u = userId \<and> acc_congregationId u = congregationId) (userAccounts (core p))) acc_memberId;
          shown = (\<lambda>e. evt_congregationId e = congregationId \<and> since \<le> evt_startDate e \<and> evt_status e = EventStatus_Released);
          parts = (case memberId of None \<Rightarrow> []
            | Some m \<Rightarrow> filter (\<lambda>ae. holds_part m (fst ae)) (parts_with shown p));
          serviceParts = (case memberId of None \<Rightarrow> []
            | Some m \<Rightarrow> filter (\<lambda>ae. esp_assigneeId (fst ae) = Some m) (services_with shown p));
          daysOff = filter (\<lambda>e. evt_congregationId e = congregationId \<and> evt_createdById e = userId \<and>
            has_template_key p TemplateKey_DayOff e \<and> since \<le> evt_startDate e) (events p)
      in map (partAssignmentToItem updatedAt (case memberId of None \<Rightarrow> userId | Some m \<Rightarrow> m)) parts @
         map (servicePartAssignmentToItem updatedAt) serviceParts @ map (dayOffToItem z updatedAt) daysOff)"

section \<open>Conflicts of an absence\<close>

record UserConflictInRange =
  uc_eventDate :: int
  uc_assignmentName :: string
  uc_responsibleName :: "string option"

definition resolveResponsibleName :: "i18n \<Rightarrow> pdb \<Rightarrow> event \<Rightarrow> string list option" where
  "resolveResponsibleName loc p e =
     (let responsibles = (case template_of p e of None \<Rightarrow> []
            | Some t \<Rightarrow> filter (\<lambda>r. trs_templateId r = tpl_id t) (templateResponsibles p));
          seats = (\<lambda>r. filter (\<lambda>u. ura_roleId u = trs_roleId r) (userRoleAssignments (core p)));
          seated = (\<lambda>u. find (\<lambda>a. acc_id a = ura_userId u) (userAccounts (core p)));
          names = filter (\<lambda>n. length n > 0)
            (concat (map (\<lambda>r. map (accountDisplayName p) (List.map_filter seated (seats r))) responsibles))
      in if length responsibles = 0 then None
         else if length names = 0 then
           (let roleNames = filter (\<lambda>n. length n > 0) (map (\<lambda>r. getRoleDisplayName loc (role_key r) (role_name r))
                  (List.map_filter (\<lambda>r. find (\<lambda>x. role_id x = trs_roleId r) (roles (core p))) responsibles))
            in if length roleNames = 0 then None else Some (js_sort (localeCompare loc) roleNames))
         else Some (js_set (js_sort (localeCompare loc) names)))"

text \<open>The names are kept as a list; the code joins them with commas.\<close>

definition joined :: "string list \<Rightarrow> string" where
  "joined ns = (case ns of [] \<Rightarrow> [] | n # rest \<Rightarrow> n @ concat (map (\<lambda>m. '', '' @ m) rest))"

definition listUserConflictsInRange ::
  "i18n \<Rightarrow> pdb \<Rightarrow> int \<Rightarrow> int \<Rightarrow> int \<Rightarrow> UserConflictInRange list" where
  "listUserConflictsInRange loc p memberId startDate endDate =
     (let inRange = (\<lambda>e. evt_startDate e \<le> endDate \<and> startDate \<le> evt_endDate e \<and> evt_status e = EventStatus_Released);
          conflict = (\<lambda>name e. \<lparr>uc_eventDate = evt_startDate e, uc_assignmentName = name,
            uc_responsibleName = map_option joined (resolveResponsibleName loc p e)\<rparr>);
          merged = map (\<lambda>(a, e). conflict (epa_name a) e)
              (filter (\<lambda>ae. epa_hasConflict (fst ae) \<and> holds_part memberId (fst ae)) (parts_with inRange p)) @
            map (\<lambda>(a, e). conflict (esp_name a) e)
              (filter (\<lambda>ae. esp_hasConflict (fst ae) \<and> esp_assigneeId (fst ae) = Some memberId) (services_with inRange p))
      in js_sort (\<lambda>a b. uc_eventDate a - uc_eventDate b) merged)"

section \<open>Other places at one event\<close>

datatype SameEventAssignment = SamePart string string | SameService string

definition not_excluded :: "int option \<Rightarrow> int \<Rightarrow> bool" where
  "not_excluded x i \<longleftrightarrow> x = None \<or> x \<noteq> Some i"

definition listUserSameEventAssignments ::
  "pdb \<Rightarrow> int \<Rightarrow> int \<Rightarrow> int \<Rightarrow> int option \<Rightarrow> int option \<Rightarrow> SameEventAssignment list" where
  "listUserSameEventAssignments p userId eventId congregationId excludePart excludeService =
     map (\<lambda>a. SamePart (epa_name a) (epa_section a))
       (filter (\<lambda>a. epa_eventId a = eventId \<and> epa_congregationId a = congregationId \<and> holds_part userId a \<and>
          not_excluded excludePart (epa_id a)) (eventParts p)) @
     map (\<lambda>a. SameService (esp_name a))
       (filter (\<lambda>a. esp_eventId a = eventId \<and> esp_congregationId a = congregationId \<and> esp_assigneeId a = Some userId \<and>
          not_excluded excludeService (esp_id a)) (eventServiceParts p))"

section \<open>Cadence\<close>

text \<open>
  The cadence strip beside an assignment: who held the same place at the last and the next
  instances of the same recurring event (\<^verbatim>\<open>features/events/server/list-user-cadence.server.ts\<close>,
  \<^verbatim>\<open>list-user-service-cadence.server.ts\<close>, \<^verbatim>\<open>list-external-speaker-cadence.server.ts\<close>,
  \<^verbatim>\<open>resolve-publisher-cadence.server.ts\<close>, \<^verbatim>\<open>resolve-external-speaker-cadence.server.ts\<close>,
  \<^verbatim>\<open>cadence-shared.server.ts\<close>). A date is kept as its instant rather than its ISO text, and the
  capitals of a family name, which depend on the locale, are an argument.
\<close>

subsection \<open>Vocabulary\<close>

record CadenceEntry =
  ce_date :: int
  ce_assigned :: bool
  ce_personName :: "string option"
  ce_status :: string

record CadencePayload =
  cp_anchored :: bool
  cp_past :: "CadenceEntry list"
  cp_future :: "CadenceEntry list"
  cp_hasHistory :: bool
  cp_savedMatchesSelection :: bool

datatype PartSlot = Slot_Assignee | Slot_Assistant

definition EMPTY_CADENCE :: CadencePayload where
  "EMPTY_CADENCE = \<lparr>cp_anchored = False, cp_past = [], cp_future = [], cp_hasHistory = False, cp_savedMatchesSelection = False\<rparr>"

definition normalize :: "string \<Rightarrow> string" where
  "normalize input = trim (stripDiacritics input)"

definition toCadenceStatus :: "string \<Rightarrow> string" where
  "toCadenceStatus rawStatus = (if rawStatus = ''draft'' then ''draft'' else ''released'')"

definition formatPersonName :: "(string \<Rightarrow> string) \<Rightarrow> string option \<Rightarrow> string option \<Rightarrow> string \<Rightarrow> string" where
  "formatPersonName capitals firstname lastname fallback =
     (let first = (case firstname of None \<Rightarrow> [] | Some s \<Rightarrow> trim s);
          last = (case lastname of None \<Rightarrow> [] | Some s \<Rightarrow> capitals (trim s))
      in if first \<noteq> [] \<and> last \<noteq> [] then first @ '' '' @ last
         else if first \<noteq> [] then first
         else if last \<noteq> [] then last
         else fallback)"

definition name_or_null :: "(string \<Rightarrow> string) \<Rightarrow> member option \<Rightarrow> string option" where
  "name_or_null capitals person =
     (case person of None \<Rightarrow> None
      | Some m \<Rightarrow> (let n = formatPersonName capitals (Some (mem_firstname m)) (Some (mem_lastname m)) []
                  in if n = [] then None else Some n))"

definition member_at :: "pdb \<Rightarrow> int option \<Rightarrow> member option" where
  "member_at p x = Option.bind x (\<lambda>i. find (\<lambda>m. mem_id m = i) (members (core p)))"

subsection \<open>Instances\<close>

text \<open>The event at hand is given by its template and its start.\<close>

definition instance_of :: "int \<Rightarrow> int \<Rightarrow> event \<Rightarrow> bool" where
  "instance_of t congregationId e \<longleftrightarrow> evt_templateId e = Some t \<and> evt_congregationId e = congregationId"

definition past_instances :: "pdb \<Rightarrow> int \<Rightarrow> int \<Rightarrow> int \<Rightarrow> nat \<Rightarrow> event list" where
  "past_instances p t congregationId startDate n =
     take n (js_sort (\<lambda>a b. evt_startDate b - evt_startDate a)
       (filter (\<lambda>e. instance_of t congregationId e \<and> evt_startDate e < startDate) (events p)))"

definition future_instances :: "pdb \<Rightarrow> int \<Rightarrow> int \<Rightarrow> int \<Rightarrow> nat \<Rightarrow> event list" where
  "future_instances p t congregationId startDate n =
     take n (js_sort (\<lambda>a b. evt_startDate a - evt_startDate b)
       (filter (\<lambda>e. instance_of t congregationId e \<and> startDate < evt_startDate e) (events p)))"

definition before :: "int \<Rightarrow> int \<Rightarrow> int \<Rightarrow> event \<Rightarrow> bool" where
  "before t congregationId startDate e \<longleftrightarrow> instance_of t congregationId e \<and> evt_startDate e < startDate"

definition helper_result :: "CadenceEntry list \<Rightarrow> CadenceEntry list \<Rightarrow> bool \<Rightarrow> CadencePayload" where
  "helper_result past future hasHistory =
     EMPTY_CADENCE\<lparr>cp_past := past, cp_future := future, cp_hasHistory := hasHistory\<rparr>"

text \<open>\<^verbatim>\<open>matches.map(f).find(x => x != null)\<close>.\<close>

definition first_some :: "('a \<Rightarrow> 'b option) \<Rightarrow> 'a list \<Rightarrow> 'b option" where
  "first_some f xs = (case List.map_filter f xs of [] \<Rightarrow> None | y # _ \<Rightarrow> Some y)"

definition same_part :: "string \<Rightarrow> string \<Rightarrow> event_part \<Rightarrow> bool" where
  "same_part partName partSection a \<longleftrightarrow>
     normalize (epa_name a) = normalize partName \<and> normalize (epa_section a) = normalize partSection"

subsection \<open>Members\<close>

definition on_slot :: "PartSlot \<Rightarrow> event_part \<Rightarrow> int option" where
  "on_slot slot a = (case slot of Slot_Assignee \<Rightarrow> epa_assigneeId a | Slot_Assistant \<Rightarrow> epa_assistantId a)"

definition user_entry :: "(string \<Rightarrow> string) \<Rightarrow> pdb \<Rightarrow> int \<Rightarrow> string \<Rightarrow> string \<Rightarrow> PartSlot \<Rightarrow> event \<Rightarrow> CadenceEntry" where
  "user_entry capitals p userId partName partSection slot e =
     (let matches = filter (same_part partName partSection) (parts_of p (evt_id e))
      in \<lparr>ce_date = evt_startDate e, ce_assigned = list_ex (\<lambda>a. on_slot slot a = Some userId) matches,
          ce_personName = name_or_null capitals (first_some (member_at p \<circ> on_slot slot) matches),
          ce_status = toCadenceStatus (evt_status e)\<rparr>)"

definition listUserCadence ::
  "(string \<Rightarrow> string) \<Rightarrow> pdb \<Rightarrow> int \<Rightarrow> int option \<Rightarrow> int \<Rightarrow> int \<Rightarrow> string \<Rightarrow> string \<Rightarrow> PartSlot \<Rightarrow> nat \<Rightarrow> nat \<Rightarrow> CadencePayload" where
  "listUserCadence capitals p userId templateId startDate congregationId partName partSection slot pastCount futureCount =
     (case templateId of
        None \<Rightarrow> helper_result [] [] False
      | Some t \<Rightarrow>
          (let toEntry = user_entry capitals p userId partName partSection slot;
               historical = filter (\<lambda>ae. on_slot slot (fst ae) = Some userId) (parts_with (before t congregationId startDate) p)
           in helper_result (rev (map toEntry (past_instances p t congregationId startDate pastCount)))
                (map toEntry (future_instances p t congregationId startDate futureCount))
                (list_ex (\<lambda>ae. same_part partName partSection (fst ae)) historical)))"

definition service_entry :: "(string \<Rightarrow> string) \<Rightarrow> pdb \<Rightarrow> int \<Rightarrow> string \<Rightarrow> event \<Rightarrow> CadenceEntry" where
  "service_entry capitals p userId servicePartName e =
     (let matches = filter (\<lambda>s. normalize (esp_name s) = normalize servicePartName) (services_of p (evt_id e))
      in \<lparr>ce_date = evt_startDate e, ce_assigned = list_ex (\<lambda>s. esp_assigneeId s = Some userId) matches,
          ce_personName = name_or_null capitals (first_some (member_at p \<circ> esp_assigneeId) matches),
          ce_status = toCadenceStatus (evt_status e)\<rparr>)"

definition listUserServiceCadence ::
  "(string \<Rightarrow> string) \<Rightarrow> pdb \<Rightarrow> int \<Rightarrow> int option \<Rightarrow> int \<Rightarrow> int \<Rightarrow> string \<Rightarrow> nat \<Rightarrow> nat \<Rightarrow> CadencePayload" where
  "listUserServiceCadence capitals p userId templateId startDate congregationId servicePartName pastCount futureCount =
     (case templateId of
        None \<Rightarrow> helper_result [] [] False
      | Some t \<Rightarrow>
          (let toEntry = service_entry capitals p userId servicePartName;
               historical = filter (\<lambda>ae. esp_assigneeId (fst ae) = Some userId) (services_with (before t congregationId startDate) p)
           in helper_result (rev (map toEntry (past_instances p t congregationId startDate pastCount)))
                (map toEntry (future_instances p t congregationId startDate futureCount))
                (list_ex (\<lambda>ae. normalize (esp_name (fst ae)) = normalize servicePartName) historical)))"

subsection \<open>Visiting speakers\<close>

definition speaker_name :: "(string \<Rightarrow> string) \<Rightarrow> pdb \<Rightarrow> event_part \<Rightarrow> string option" where
  "speaker_name capitals p a =
     (case epa_externalSpeakerId a of
        Some i \<Rightarrow>
          (case find (\<lambda>x. xs_id x = i) (externalSpeakers p) of
             None \<Rightarrow> None | Some x \<Rightarrow> if xs_name x = [] then None else Some (xs_name x))
      | None \<Rightarrow> name_or_null capitals (member_at p (epa_assigneeId a)))"

definition external_entry :: "(string \<Rightarrow> string) \<Rightarrow> pdb \<Rightarrow> int \<Rightarrow> string \<Rightarrow> string \<Rightarrow> event \<Rightarrow> CadenceEntry" where
  "external_entry capitals p externalSpeakerId partName partSection e =
     (let matches = filter (same_part partName partSection) (parts_of p (evt_id e))
      in \<lparr>ce_date = evt_startDate e, ce_assigned = list_ex (\<lambda>a. epa_externalSpeakerId a = Some externalSpeakerId) matches,
          ce_personName = first_some (speaker_name capitals p) matches, ce_status = toCadenceStatus (evt_status e)\<rparr>)"

definition listExternalSpeakerCadence ::
  "(string \<Rightarrow> string) \<Rightarrow> pdb \<Rightarrow> int \<Rightarrow> int option \<Rightarrow> int \<Rightarrow> int \<Rightarrow> string \<Rightarrow> string \<Rightarrow> nat \<Rightarrow> nat \<Rightarrow> CadencePayload" where
  "listExternalSpeakerCadence capitals p externalSpeakerId templateId startDate congregationId partName partSection pastCount futureCount =
     (case templateId of
        None \<Rightarrow> helper_result [] [] False
      | Some t \<Rightarrow>
          (let toEntry = external_entry capitals p externalSpeakerId partName partSection;
               historical = filter (\<lambda>ae. epa_externalSpeakerId (fst ae) = Some externalSpeakerId)
                 (parts_with (before t congregationId startDate) p)
           in helper_result (rev (map toEntry (past_instances p t congregationId startDate pastCount)))
                (map toEntry (future_instances p t congregationId startDate futureCount))
                (list_ex (\<lambda>ae. same_part partName partSection (fst ae)) historical)))"

subsection \<open>The panel\<close>

definition PAST_COUNT :: nat where "PAST_COUNT = 6"

definition FUTURE_COUNT :: nat where "FUTURE_COUNT = 6"

definition anchored_on :: "bool \<Rightarrow> CadencePayload \<Rightarrow> CadencePayload" where
  "anchored_on saved c = c\<lparr>cp_anchored := True, cp_savedMatchesSelection := saved\<rparr>"

definition resolvePublisherCadence ::
  "(string \<Rightarrow> string) \<Rightarrow> pdb \<Rightarrow> int \<Rightarrow> int option \<Rightarrow> int \<Rightarrow> int \<Rightarrow> int option \<Rightarrow> int option \<Rightarrow> PartSlot \<Rightarrow> CadencePayload" where
  "resolvePublisherCadence capitals p userId templateId startDate congregationId excludePart excludeService slot =
     (case excludePart of
        Some i \<Rightarrow>
          (case find (is_part i congregationId) (eventParts p) of
             None \<Rightarrow> EMPTY_CADENCE
           | Some a \<Rightarrow> anchored_on (on_slot slot a = Some userId)
               (listUserCadence capitals p userId templateId startDate congregationId (epa_name a) (epa_section a) slot PAST_COUNT FUTURE_COUNT))
      | None \<Rightarrow>
          (case excludeService of
             Some i \<Rightarrow>
               (case find (is_service i congregationId) (eventServiceParts p) of
                  None \<Rightarrow> EMPTY_CADENCE
                | Some a \<Rightarrow> anchored_on (esp_assigneeId a = Some userId)
                    (listUserServiceCadence capitals p userId templateId startDate congregationId (esp_name a) PAST_COUNT FUTURE_COUNT))
           | None \<Rightarrow> EMPTY_CADENCE))"

definition resolveExternalSpeakerCadence ::
  "(string \<Rightarrow> string) \<Rightarrow> pdb \<Rightarrow> int \<Rightarrow> int option \<Rightarrow> int \<Rightarrow> int \<Rightarrow> int option \<Rightarrow> CadencePayload" where
  "resolveExternalSpeakerCadence capitals p externalSpeakerId templateId startDate congregationId excludePart =
     (case excludePart of
        None \<Rightarrow> EMPTY_CADENCE
      | Some i \<Rightarrow>
          (case find (is_part i congregationId) (eventParts p) of
             None \<Rightarrow> EMPTY_CADENCE
           | Some a \<Rightarrow> anchored_on (epa_externalSpeakerId a = Some externalSpeakerId)
               (listExternalSpeakerCadence capitals p externalSpeakerId templateId startDate congregationId (epa_name a) (epa_section a) PAST_COUNT FUTURE_COUNT)))"

subsection \<open>Laws of the strip\<close>

lemma past_rev_sorted:
  "sorted (map evt_startDate (rev (past_instances p t c s n)))"
proof -
  have "sorted (map (\<lambda>e. - evt_startDate e) (past_instances p t c s n))"
    by (simp add: past_instances_def js_sort_descending sorted_wrt_take flip: take_map)
  then show ?thesis by (simp add: sorted_map sorted_wrt_rev)
qed

lemma future_sorted: "sorted (map evt_startDate (future_instances p t c s n))"
  by (simp add: future_instances_def js_sort_key sorted_wrt_take flip: take_map)

lemma past_bound: "e \<in> set (past_instances p t c s n) \<Longrightarrow> instance_of t c e \<and> evt_startDate e < s \<and> e \<in> set (events p)"
  by (auto simp: past_instances_def dest!: in_set_takeD)

lemma future_bound: "e \<in> set (future_instances p t c s n) \<Longrightarrow> s < evt_startDate e"
  by (auto simp: future_instances_def dest!: in_set_takeD)

definition strip_dates :: "CadencePayload \<Rightarrow> int list" where
  "strip_dates c = map ce_date (cp_past c @ cp_future c)"

lemma strip_in_order:
  assumes "\<And>e. ce_date (f e) = evt_startDate e"
  shows "sorted (strip_dates (helper_result (rev (map f (past_instances p t c s n))) (map f (future_instances p t c s m)) h))"
proof -
  have d: "strip_dates (helper_result (rev (map f (past_instances p t c s n))) (map f (future_instances p t c s m)) h) =
      map evt_startDate (rev (past_instances p t c s n)) @ map evt_startDate (future_instances p t c s m)"
    by (simp add: strip_dates_def helper_result_def rev_map comp_def assms)
  have "evt_startDate a \<le> evt_startDate b" if "a \<in> set (past_instances p t c s n)" "b \<in> set (future_instances p t c s m)" for a b
    using past_bound [OF that(1)] future_bound [OF that(2)] by linarith
  then have "\<forall>x\<in>set (map evt_startDate (rev (past_instances p t c s n))). \<forall>y\<in>set (map evt_startDate (future_instances p t c s m)). x \<le> y"
    by simp
  then show ?thesis unfolding d sorted_append using past_rev_sorted future_sorted by blast
qed

text \<open>The strip of a publisher reads from the oldest instance to the latest.\<close>

theorem publisher_strip_is_chronological:
  "sorted (strip_dates (resolvePublisherCadence capitals p u t s c x y slot))"
proof -
  have e: "sorted (strip_dates EMPTY_CADENCE)" "sorted (strip_dates (helper_result [] [] False))"
    by (simp_all add: strip_dates_def EMPTY_CADENCE_def helper_result_def)
  have a: "strip_dates (anchored_on b r) = strip_dates r" for b r by (simp add: strip_dates_def anchored_on_def)
  have "sorted (strip_dates (listUserCadence capitals p u t s c n m slot k l))" for n m k l
    by (cases t) (auto simp: listUserCadence_def Let_def e user_entry_def intro!: strip_in_order)
  moreover have "sorted (strip_dates (listUserServiceCadence capitals p u t s c n k l))" for n k l
    by (cases t) (auto simp: listUserServiceCadence_def Let_def e service_entry_def intro!: strip_in_order)
  ultimately show ?thesis by (auto simp: resolvePublisherCadence_def e a split: option.split)
qed

text \<open>
  The strip and the history agree: whoever appears on a past instance of the strip has a history,
  even though the two are read by different queries.
\<close>

theorem strip_agrees_with_history:
  assumes "distinct (map evt_id (events p))"
    and "list_ex ce_assigned (cp_past (listUserCadence capitals p u t s c n m slot k l))"
  shows "cp_hasHistory (listUserCadence capitals p u t s c n m slot k l)"
proof -
  obtain i where i: "t = Some i" using assms(2) by (cases t) (auto simp: listUserCadence_def helper_result_def)
  obtain e where e: "e \<in> set (past_instances p i c s k)" "ce_assigned (user_entry capitals p u n m slot e)"
    using assms(2) by (auto simp: i listUserCadence_def helper_result_def Let_def list_ex_iff)
  then obtain a where a: "a \<in> set (eventParts p)" "epa_eventId a = evt_id e" "same_part n m a" "on_slot slot a = Some u"
    by (auto simp: user_entry_def Let_def list_ex_iff parts_of_def)
  have "event_with p (epa_eventId a) = Some e"
    using past_bound [OF e(1)] find_key [OF assms(1), of e] a(2) by (simp add: event_with_def)
  then have "(a, e) \<in> set (parts_with (before i c s) p)"
    using past_bound [OF e(1)] a(1) by (force simp: parts_with_def map_filter_def before_def)
  then show ?thesis using a by (force simp: i listUserCadence_def helper_result_def Let_def list_ex_iff)
qed

end
