(* ===== verification/External_Speakers.thy ===== *)
theory External_Speakers
  imports Programme_Steps Classes
begin

text \<open>
  Visiting speakers (\<^verbatim>\<open>features/events/server/external-speakers.server.ts\<close>). The comparison of
  names that ignores case is the database's: \<open>fold_case\<close> is an argument.
\<close>

section \<open>Operations\<close>

record ExternalSpeakerInput =
  xi_name :: string
  xi_congregationName :: string
  xi_phone :: string
  xi_email :: string
  xi_notes :: string

definition is_speaker :: "int \<Rightarrow> int \<Rightarrow> external_speaker \<Rightarrow> bool" where
  "is_speaker i congregationId x \<longleftrightarrow> xs_id x = i \<and> xs_congregationId x = congregationId"

definition or_null :: "string \<Rightarrow> string option" where
  "or_null s = (if s = [] then None else Some s)"

definition speaker_columns :: "ExternalSpeakerInput \<Rightarrow> external_speaker \<Rightarrow> external_speaker" where
  "speaker_columns d x =
     x\<lparr>xs_name := xi_name d, xs_congregationName := xi_congregationName d, xs_phone := or_null (xi_phone d),
       xs_email := or_null (xi_email d), xs_notes := or_null (xi_notes d)\<rparr>"

definition bears_the_name :: "(string \<Rightarrow> string) \<Rightarrow> string \<Rightarrow> string \<Rightarrow> int \<Rightarrow> external_speaker \<Rightarrow> bool" where
  "bears_the_name fold_case name congregationName congregationId x \<longleftrightarrow>
     xs_congregationId x = congregationId \<and> fold_case (xs_name x) = fold_case name \<and>
     fold_case (xs_congregationName x) = fold_case congregationName"

definition speaker_audit :: "string \<Rightarrow> int \<Rightarrow> int \<Rightarrow> bool \<Rightarrow> external_speaker \<Rightarrow> pdb \<Rightarrow> pdb" where
  "speaker_audit action congregationId actorId named x p =
     programme_audit action congregationId actorId ''ExternalSpeaker'' (xs_id x)
       (if named then Some [(''name'', JStr (xs_name x)), (''congregationName'', JStr (xs_congregationName x))] else None) p"

definition createExternalSpeaker ::
  "row_keys \<Rightarrow> (string \<Rightarrow> string) \<Rightarrow> int \<Rightarrow> int \<Rightarrow> ExternalSpeakerInput \<Rightarrow> pdb \<Rightarrow> (pdb, external_speaker) outcome" where
  "createExternalSpeaker k fold_case congregationId actorId d p =
     (if list_ex (bears_the_name fold_case (xi_name d) (xi_congregationName d) congregationId) (externalSpeakers p)
      then (Inl (ConflictError ''external_speaker_exists''), p)
      else
        (let x = speaker_columns d \<lparr>xs_id = key_speaker k (externalSpeakers p), xs_name = [], xs_congregationName = [], xs_phone = None,
               xs_email = None, xs_notes = None, xs_archivedAt = None, xs_congregationId = congregationId\<rparr>
         in (Inr x, speaker_audit ''external_speaker.created'' congregationId actorId True x
              (p\<lparr>externalSpeakers := externalSpeakers p @ [x]\<rparr>))))"

text \<open>The update that every other operation ends with, after the row has been found.\<close>

definition write_speaker ::
  "int \<Rightarrow> int \<Rightarrow> (external_speaker \<Rightarrow> external_speaker) \<Rightarrow> external_speaker \<Rightarrow> pdb \<Rightarrow> external_speaker \<times> pdb" where
  "write_speaker i congregationId f x p =
     (f x, p\<lparr>externalSpeakers := update_where (is_speaker i congregationId) f (externalSpeakers p)\<rparr>)"

definition updateExternalSpeaker ::
  "(string \<Rightarrow> string) \<Rightarrow> int \<Rightarrow> int \<Rightarrow> int \<Rightarrow> ExternalSpeakerInput \<Rightarrow> pdb \<Rightarrow> (pdb, external_speaker) outcome" where
  "updateExternalSpeaker fold_case i congregationId actorId d p =
     (case find (is_speaker i congregationId) (externalSpeakers p) of
        None \<Rightarrow> (Inl (NotFoundError ''ExternalSpeaker'' (Some i)), p)
      | Some existing \<Rightarrow>
          if list_ex (\<lambda>x. xs_id x \<noteq> i \<and> bears_the_name fold_case (xi_name d) (xi_congregationName d) congregationId x) (externalSpeakers p)
          then (Inl (ConflictError ''external_speaker_exists''), p)
          else
            (let (x, q) = write_speaker i congregationId (speaker_columns d) existing p
             in (Inr x, speaker_audit ''external_speaker.updated'' congregationId actorId True x q)))"

definition archiveExternalSpeaker :: "int \<Rightarrow> int \<Rightarrow> int \<Rightarrow> int \<Rightarrow> pdb \<Rightarrow> (pdb, external_speaker) outcome" where
  "archiveExternalSpeaker now i congregationId actorId p =
     (case find (is_speaker i congregationId) (externalSpeakers p) of
        None \<Rightarrow> (Inl (NotFoundError ''ExternalSpeaker'' (Some i)), p)
      | Some existing \<Rightarrow>
          (let (x, q) = write_speaker i congregationId (\<lambda>x. x\<lparr>xs_archivedAt := Some now\<rparr>) existing p
           in (Inr x, speaker_audit ''external_speaker.archived'' congregationId actorId False x q)))"

definition unarchiveExternalSpeaker :: "int \<Rightarrow> int \<Rightarrow> int \<Rightarrow> pdb \<Rightarrow> (pdb, external_speaker) outcome" where
  "unarchiveExternalSpeaker i congregationId actorId p =
     (case find (is_speaker i congregationId) (externalSpeakers p) of
        None \<Rightarrow> (Inl (NotFoundError ''ExternalSpeaker'' (Some i)), p)
      | Some existing \<Rightarrow>
          (let (x, q) = write_speaker i congregationId (\<lambda>x. x\<lparr>xs_archivedAt := None\<rparr>) existing p
           in (Inr x, speaker_audit ''external_speaker.unarchived'' congregationId actorId False x q)))"

section \<open>Reading\<close>

definition visits :: "pdb \<Rightarrow> int \<Rightarrow> int \<Rightarrow> (event_part \<times> event) list" where
  "visits p now i =
     js_sort (\<lambda>a b. evt_startDate (snd b) - evt_startDate (snd a))
       (List.map_filter (\<lambda>a. case event_with p (epa_eventId a) of
          None \<Rightarrow> None | Some e \<Rightarrow> if epa_externalSpeakerId a = Some i \<and> evt_startDate e < now then Some (a, e) else None) (eventParts p))"

fun contains :: "string \<Rightarrow> string \<Rightarrow> bool" where
  "contains needle [] \<longleftrightarrow> needle = []"
| "contains needle (c # cs) \<longleftrightarrow> take (length needle) (c # cs) = needle \<or> contains needle cs"

definition matches_search :: "(string \<Rightarrow> string) \<Rightarrow> string option \<Rightarrow> external_speaker \<Rightarrow> bool" where
  "matches_search fold_case search x =
     (case search of
        None \<Rightarrow> True
      | Some s \<Rightarrow> s = [] \<or> contains (fold_case s) (fold_case (xs_name x)) \<or> contains (fold_case s) (fold_case (xs_congregationName x)))"

text \<open>Each listed speaker with the date of the last visit.\<close>

definition listExternalSpeakers ::
  "(string \<Rightarrow> string) \<Rightarrow> (string \<Rightarrow> string \<Rightarrow> int) \<Rightarrow> pdb \<Rightarrow> int \<Rightarrow> int \<Rightarrow> string option \<Rightarrow> bool \<Rightarrow> (external_speaker \<times> int option) list" where
  "listExternalSpeakers fold_case collate p now congregationId search includeArchived =
     map (\<lambda>x. (x, case visits p now (xs_id x) of [] \<Rightarrow> None | v # _ \<Rightarrow> Some (evt_startDate (snd v))))
       (js_sort (\<lambda>a b. collate (xs_name a) (xs_name b))
         (filter (\<lambda>x. xs_congregationId x = congregationId \<and> (includeArchived \<or> xs_archivedAt x = None) \<and>
            matches_search fold_case search x) (externalSpeakers p)))"

definition getExternalSpeaker :: "pdb \<Rightarrow> int \<Rightarrow> int \<Rightarrow> int \<Rightarrow> (external_speaker \<times> (int \<times> string \<times> string) list) option" where
  "getExternalSpeaker p now i congregationId =
     map_option (\<lambda>x. (x, map (\<lambda>(a, e). (evt_startDate e, epa_name a, epa_topic a))
         (take 5 (filter (\<lambda>ae. epa_congregationId (fst ae) = congregationId) (visits p now i)))))
       (find (is_speaker i congregationId) (externalSpeakers p))"

section \<open>No speaker is listed twice\<close>

definition speaker_conflict :: "(string \<Rightarrow> string) \<Rightarrow> external_speaker \<Rightarrow> external_speaker \<Rightarrow> bool" where
  "speaker_conflict fold_case x y \<longleftrightarrow> bears_the_name fold_case (xs_name y) (xs_congregationName y) (xs_congregationId y) x"

definition speakers_ok :: "(string \<Rightarrow> string) \<Rightarrow> pdb \<Rightarrow> bool" where
  "speakers_ok fold_case p \<longleftrightarrow> exclusive xs_id (speaker_conflict fold_case) (externalSpeakers p)"

interpretation speaker_table: exclusive_rows xs_id "speaker_conflict fold_case" for fold_case
  by unfold_locales (auto simp: speaker_conflict_def bears_the_name_def)

inductive speaker_step :: "(string \<Rightarrow> string) \<Rightarrow> pdb \<Rightarrow> pdb \<Rightarrow> bool" for fold_case where
  created: "fresh_rows k \<Longrightarrow> createExternalSpeaker k fold_case c u d p = (r, q) \<Longrightarrow> speaker_step fold_case p q"
| updated: "updateExternalSpeaker fold_case i c u d p = (r, q) \<Longrightarrow> speaker_step fold_case p q"
| archived: "archiveExternalSpeaker now i c u p = (r, q) \<Longrightarrow> speaker_step fold_case p q"
| unarchived: "unarchiveExternalSpeaker i c u p = (r, q) \<Longrightarrow> speaker_step fold_case p q"

lemma audited_ok [simp]: "speakers_ok f (speaker_audit a c u n x p) = speakers_ok f p"
  by (simp add: speakers_ok_def speaker_audit_def)

lemma names_of_columns [simp]:
  "xs_id (speaker_columns d x) = xs_id x" "xs_name (speaker_columns d x) = xi_name d"
  "xs_congregationName (speaker_columns d x) = xi_congregationName d" "xs_congregationId (speaker_columns d x) = xs_congregationId x"
  by (simp_all add: speaker_columns_def)

lemma created_ok:
  assumes "speakers_ok f p" and "fresh_rows k" and "createExternalSpeaker k f c u d p = (r, q)"
  shows "speakers_ok f q"
proof (cases "list_ex (bears_the_name f (xi_name d) (xi_congregationName d) c) (externalSpeakers p)")
  case True
  then show ?thesis using assms by (simp add: createExternalSpeaker_def)
next
  case False
  define x where "x = speaker_columns d \<lparr>xs_id = key_speaker k (externalSpeakers p), xs_name = [], xs_congregationName = [],
    xs_phone = None, xs_email = None, xs_notes = None, xs_archivedAt = None, xs_congregationId = c\<rparr>"
  have "exclusive xs_id (speaker_conflict f) (externalSpeakers p @ [x])"
  proof (rule speaker_table.snoc)
    show "exclusive xs_id (speaker_conflict f) (externalSpeakers p)" using assms(1) by (simp add: speakers_ok_def)
    show "xs_id x \<notin> xs_id ` set (externalSpeakers p)" using assms(2) by (simp add: x_def fresh_rows_def)
    show "\<not> speaker_conflict f x r" if "r \<in> set (externalSpeakers p)" for r
      using False that by (auto simp: x_def speaker_conflict_def bears_the_name_def list_ex_iff)
  qed
  moreover have "q = speaker_audit ''external_speaker.created'' c u True x (p\<lparr>externalSpeakers := externalSpeakers p @ [x]\<rparr>)"
    using assms(3) False by (simp add: createExternalSpeaker_def x_def Let_def)
  ultimately show ?thesis by (simp add: speakers_ok_def [of _ "p\<lparr>externalSpeakers := externalSpeakers p @ [x]\<rparr>"])
qed

lemma written_ok:
  assumes "speakers_ok f p" and "x \<in> set (externalSpeakers p)" and "xs_id x = i" and "xs_id (g x) = i"
    and "\<And>y. y \<in> set (externalSpeakers p) \<Longrightarrow> xs_id y \<noteq> i \<Longrightarrow> \<not> speaker_conflict f (g x) y"
  shows "speakers_ok f (p\<lparr>externalSpeakers := update_where (is_speaker i c) g (externalSpeakers p)\<rparr>)"
proof -
  have "exclusive xs_id (speaker_conflict f) (update_where (is_speaker i c) g (externalSpeakers p))"
  proof (rule speaker_table.replace [OF _ assms(2)])
    show "exclusive xs_id (speaker_conflict f) (externalSpeakers p)" using assms(1) by (simp add: speakers_ok_def)
    show "r = x" if "r \<in> set (externalSpeakers p)" "is_speaker i c r" for r
      using exclusive_unique [of xs_id "speaker_conflict f" "externalSpeakers p" r x] assms(1-3) that
      by (simp add: speakers_ok_def is_speaker_def)
  qed (use assms in auto)
  then show ?thesis by (simp add: speakers_ok_def)
qed

lemma marked_ok:
  assumes "speakers_ok f p" and "find (is_speaker i c) (externalSpeakers p) = Some x"
  shows "speakers_ok f (p\<lparr>externalSpeakers := update_where (is_speaker i c) (\<lambda>x. x\<lparr>xs_archivedAt := t\<rparr>) (externalSpeakers p)\<rparr>)"
proof -
  have x: "x \<in> set (externalSpeakers p)" "xs_id x = i" using find_Some_in [OF assms(2)] by (auto simp: is_speaker_def)
  have "speaker_conflict f (x\<lparr>xs_archivedAt := t\<rparr>) y = speaker_conflict f x y" for y
    by (simp add: speaker_conflict_def bears_the_name_def)
  then show ?thesis using assms(1) x by (intro written_ok [of f p x]) (auto simp: speakers_ok_def exclusive_def)
qed

lemma updated_ok:
  assumes "speakers_ok f p" and "updateExternalSpeaker f i c u d p = (r, q)"
  shows "speakers_ok f q"
proof (cases "find (is_speaker i c) (externalSpeakers p)")
  case None
  then show ?thesis using assms by (simp add: updateExternalSpeaker_def)
next
  case (Some x)
  have x: "x \<in> set (externalSpeakers p)" "xs_id x = i" "xs_congregationId x = c"
    using find_Some_in [OF Some] by (auto simp: is_speaker_def)
  show ?thesis
  proof (cases "list_ex (\<lambda>x. xs_id x \<noteq> i \<and> bears_the_name f (xi_name d) (xi_congregationName d) c x) (externalSpeakers p)")
    case True
    then show ?thesis using assms Some by (simp add: updateExternalSpeaker_def)
  next
    case False
    have "speakers_ok f (p\<lparr>externalSpeakers := update_where (is_speaker i c) (speaker_columns d) (externalSpeakers p)\<rparr>)"
      using assms(1) x False by (intro written_ok) (auto simp: speaker_conflict_def bears_the_name_def list_ex_iff)
    then show ?thesis using assms(2) Some False by (auto simp: updateExternalSpeaker_def write_speaker_def)
  qed
qed

lemma speaker_step_ok: "speaker_step f p q \<Longrightarrow> speakers_ok f p \<Longrightarrow> speakers_ok f q"
  by (induction rule: speaker_step.induct)
    (auto simp: archiveExternalSpeaker_def unarchiveExternalSpeaker_def write_speaker_def
      split: option.splits intro: created_ok updated_ok marked_ok)

text \<open>
  However speakers are created, edited, archived and restored, no two of a congregation bear one
  name and come from one congregation, archived ones included.
\<close>

theorem speakers_are_listed_once:
  "(speaker_step f)\<^sup>*\<^sup>* p q \<Longrightarrow> speakers_ok f p \<Longrightarrow> speakers_ok f q"
  by (induction rule: rtranclp_induct) (auto intro: speaker_step_ok)

end
