(* ===== verification/Share_Message.thy ===== *)
theory Share_Message
  imports Part_Presets
begin

text \<open>
  The message a manager sends to whoever has a part (\<^verbatim>\<open>features/events/model/share-message.ts\<close>,
  \<^verbatim>\<open>server/build-share-message.server.ts\<close>), on Latin-1 text: the two long dashes among the
  separators are outside it. Dates and times written in words are arguments.
\<close>

section \<open>Placeholders\<close>

definition SHARE_VARIABLES :: "string list" where
  "SHARE_VARIABLES = [''assignee'', ''assigneeFirstname'', ''assistant'', ''partName'', ''section'', ''topic'', ''duration'',
     ''date'', ''time'', ''eventName'', ''note'', ''congregation'', ''link'']"

definition is_letter :: "char \<Rightarrow> bool" where
  "is_letter c \<longleftrightarrow> 65 \<le> code c \<and> code c \<le> 90 \<or> 97 \<le> code c \<and> code c \<le> 122"

text \<open>\<^verbatim>\<open>/\{\{\s*([a-zA-Z]+)\s*\}\}/\<close> at the head of a text: the name and what follows.\<close>

definition placeholder :: "string \<Rightarrow> (string \<times> string) option" where
  "placeholder s =
     (if take 2 s \<noteq> ''{{'' then None
      else
        (let body = dropWhile is_space (drop 2 s);
             name = takeWhile is_letter body;
             after = dropWhile is_space (dropWhile is_letter body)
         in if name = [] \<or> take 2 after \<noteq> ''}}'' then None else Some (name, drop 2 after)))"

lemma placeholder_shorter: "placeholder s = Some (n, r) \<Longrightarrow> length r < length s"
proof -
  assume "placeholder s = Some (n, r)"
  then have s: "take 2 s = ''{{''" and r: "r = drop 2 (dropWhile is_space (dropWhile is_letter (dropWhile is_space (drop 2 s))))"
    by (auto simp: placeholder_def Let_def split: if_splits)
  have "length (take 2 s) = 2" using s by simp
  then have "length s \<ge> 2" by simp
  moreover have "length r \<le> length (drop 2 s)"
    unfolding r using length_dropWhile_le le_trans by (metis diff_le_self length_drop)
  ultimately show ?thesis by simp
qed

text \<open>A text as literal characters (left) and placeholders (right), scanned from left to right.\<close>

function scan :: "string \<Rightarrow> (char + string) list" where
  "scan [] = []"
| "scan (c # cs) = (case placeholder (c # cs) of Some (name, rest) \<Rightarrow> Inr name # scan rest | None \<Rightarrow> Inl c # scan cs)"
  by pat_completeness auto
termination by (relation "measure length") (auto dest: placeholder_shorter)

definition findUnknownVariables :: "string \<Rightarrow> string list" where
  "findUnknownVariables body =
     js_set (filter (\<lambda>n. n \<notin> set SHARE_VARIABLES) (List.map_filter (\<lambda>x. case x of Inl _ \<Rightarrow> None | Inr n \<Rightarrow> Some n) (scan body)))"

section \<open>Rendering\<close>

type_synonym share_context = "string \<Rightarrow> string option"

definition isBlank :: "string option \<Rightarrow> bool" where
  "isBlank value = (case value of None \<Rightarrow> True | Some s \<Rightarrow> trim s = [])"

definition fills :: "share_context \<Rightarrow> string \<Rightarrow> bool" where
  "fills ctx n \<longleftrightarrow> n \<in> set SHARE_VARIABLES \<and> \<not> isBlank (ctx n)"

definition substitute :: "share_context \<Rightarrow> (char + string) \<Rightarrow> string" where
  "substitute ctx x = (case x of Inl c \<Rightarrow> [c] | Inr n \<Rightarrow> if fills ctx n then trim (the (ctx n)) else [])"

definition is_separator :: "char \<Rightarrow> bool" where
  "is_separator c \<longleftrightarrow> c \<in> {CHR '':'', CHR ''-'', CHR '','', CHR '';''}"

text \<open>\<^verbatim>\<open>replace(/[\s]*[:\-,;]+\s*$/, '')\<close>.\<close>

definition drop_dangling :: "string \<Rightarrow> string" where
  "drop_dangling s =
     (let r = dropWhile is_space (rev s)
      in if takeWhile is_separator r = [] then s else rev (dropWhile is_space (dropWhile is_separator r)))"

definition is_blank_char :: "char \<Rightarrow> bool" where
  "is_blank_char c \<longleftrightarrow> c = CHR '' '' \<or> code c = 9"

text \<open>\<^verbatim>\<open>replace(/[ \t]{2,}/g, ' ')\<close>; the flag says whether the previous character was blank.\<close>

fun close_gaps :: "string \<Rightarrow> string" where
  "close_gaps [] = []"
| "close_gaps [c] = [c]"
| "close_gaps (c # d # cs) =
     (if is_blank_char c \<and> is_blank_char d then
        (case close_gaps (d # cs) of
           e # es \<Rightarrow> if is_blank_char e then CHR '' '' # es else CHR '' '' # e # es
         | [] \<Rightarrow> [CHR '' ''])
      else c # close_gaps (d # cs))"

definition renderLine :: "share_context \<Rightarrow> string \<Rightarrow> string option" where
  "renderLine ctx line =
     (let pieces = scan line;
          names = List.map_filter (\<lambda>x. case x of Inl _ \<Rightarrow> None | Inr n \<Rightarrow> Some n) pieces;
          known = filter (\<lambda>n. n \<in> set SHARE_VARIABLES) names;
          filled = filter (fills ctx) names;
          substituted = concat (map (substitute ctx) pieces)
      in if known \<noteq> [] \<and> filled = [] then None
         else if list_all (fills ctx) names then Some substituted
         else Some (close_gaps (drop_dangling substituted)))"

text \<open>\<^verbatim>\<open>replace(/\r\n?/g, '\n')\<close> and \<^verbatim>\<open>split('\n')\<close>.\<close>

fun unix_lines :: "string \<Rightarrow> string" where
  "unix_lines [] = []"
| "unix_lines (c # cs) =
     (if code c = 13 then
        (case cs of d # ds \<Rightarrow> if code d = 10 then char_of (10 :: nat) # unix_lines ds else char_of (10 :: nat) # unix_lines cs
         | [] \<Rightarrow> [char_of (10 :: nat)])
      else c # unix_lines cs)"

fun join_with :: "string \<Rightarrow> string list \<Rightarrow> string" where
  "join_with sep [] = []"
| "join_with sep [x] = x"
| "join_with sep (x # y # xs) = x @ sep @ join_with sep (y # xs)"

definition renderShareMessage :: "string \<Rightarrow> share_context \<Rightarrow> string" where
  "renderShareMessage body ctx =
     trim (join_with [char_of (10 :: nat)]
       (List.map_filter (renderLine ctx) (split_on (char_of (10 :: nat)) (unix_lines body))))"

section \<open>The message of a part\<close>

record ShareablePart =
  sp_id :: int
  sp_name :: string
  sp_section :: string
  sp_topic :: string
  sp_note :: string
  sp_durationMin :: "int option"
  sp_assignee :: "(string option \<times> string option) option"
  sp_assistant :: "(string option \<times> string option) option"
  sp_externalSpeaker :: "string option"
  sp_preset :: "(string \<times> string option) option"

record ShareCongregation =
  sc_baseUrl :: string
  sc_displayName :: string
  sc_locale :: string

definition person_name :: "(string option \<times> string option) option \<Rightarrow> string option" where
  "person_name person =
     (case person of None \<Rightarrow> None
      | Some (f, l) \<Rightarrow>
          (let n = trim ((case f of None \<Rightarrow> [] | Some s \<Rightarrow> s) @ '' '' @ (case l of None \<Rightarrow> [] | Some s \<Rightarrow> s))
           in if n = [] then None else Some n))"

definition toIntlLocale :: "string \<Rightarrow> string" where
  "toIntlLocale locale = (if locale = ''en'' then ''en-GB'' else ''fr-FR'')"

text \<open>\<open>words what intlLocale instant\<close> is the date or the time in words.\<close>

definition buildAssignmentShareText ::
  "(string \<Rightarrow> string \<Rightarrow> string) \<Rightarrow> (string \<Rightarrow> string \<Rightarrow> int \<Rightarrow> string) \<Rightarrow> ShareablePart \<Rightarrow> string \<Rightarrow> int \<Rightarrow> string \<Rightarrow> ShareCongregation \<Rightarrow> string option" where
  "buildAssignmentShareText bodies words part eventName startDate link c =
     (let body = (case sp_preset part of None \<Rightarrow> []
            | Some (key, shareMessage) \<Rightarrow> partPresetShareMessage bodies key shareMessage (if sc_locale c = ''en'' then ''en'' else ''fr''))
      in if trim body = [] then None
         else
           (case (case person_name (sp_assignee part) of Some n \<Rightarrow> Some n | None \<Rightarrow> sp_externalSpeaker part) of
              None \<Rightarrow> None
            | Some assignee \<Rightarrow>
                if assignee = [] then None
                else
                  (let intl = toIntlLocale (sc_locale c);
                       firstname = (case sp_assignee part of Some (Some f, _) \<Rightarrow> f | _ \<Rightarrow> assignee);
                       ctx = map_of [(''assignee'', Some assignee), (''assigneeFirstname'', Some firstname),
                         (''assistant'', person_name (sp_assistant part)), (''partName'', Some (sp_name part)),
                         (''section'', Some (sp_section part)), (''topic'', Some (sp_topic part)),
                         (''duration'', map_option (\<lambda>n. js_string n @ '' min'') (sp_durationMin part)),
                         (''date'', Some (words ''date'' intl startDate)), (''time'', Some (words ''time'' intl startDate)),
                         (''eventName'', Some eventName), (''note'', Some (sp_note part)),
                         (''congregation'', Some (sc_displayName c)), (''link'', Some (sc_baseUrl c @ link))];
                       text = renderShareMessage body (\<lambda>n. Option.bind (ctx n) (\<lambda>v. v))
                   in if text = [] then None else Some text)))"

definition buildShareTextsForEvent ::
  "(string \<Rightarrow> string \<Rightarrow> string) \<Rightarrow> (string \<Rightarrow> string \<Rightarrow> int \<Rightarrow> string) \<Rightarrow> event \<Rightarrow> ShareablePart list \<Rightarrow> ShareCongregation \<Rightarrow>
     (int \<Rightarrow> int option \<Rightarrow> string) \<Rightarrow> (int \<times> string) list" where
  "buildShareTextsForEvent bodies words e parts c resolveLink =
     (if evt_status e \<noteq> EventStatus_Released then []
      else
        (let link = resolveLink (evt_id e) (evt_templateId e)
         in List.map_filter (\<lambda>part. map_option (\<lambda>text. (sp_id part, text))
              (buildAssignmentShareText bodies words part (evt_name e) (evt_startDate e) link c)) parts))"

section \<open>Which lines survive\<close>

lemma literal_text: "list_all isl (scan line) \<Longrightarrow> concat (map (substitute ctx) (scan line)) = line"
proof (induction line rule: scan.induct)
  case (2 c cs)
  then show ?case by (cases "placeholder (c # cs)") (auto simp: substitute_def)
qed simp

definition names_in :: "string \<Rightarrow> string list" where
  "names_in line = List.map_filter (\<lambda>x. case x of Inl _ \<Rightarrow> None | Inr n \<Rightarrow> Some n) (scan line)"

text \<open>
  A line without placeholder is sent as it is written; one whose variables are all without a value
  is left out; any other is kept.
\<close>

lemma literal_line: "list_all isl (scan line) \<Longrightarrow> renderLine ctx line = Some line"
proof -
  assume l: "list_all isl (scan line)"
  then have "List.map_filter (\<lambda>x. case x of Inl _ \<Rightarrow> None | Inr n \<Rightarrow> Some n) (scan line) = []"
    by (auto simp: map_filter_def filter_empty_conv list_all_iff split: sum.split)
  then show ?thesis using literal_text [OF l] by (simp add: renderLine_def)
qed

lemma line_is_dropped_iff:
  "renderLine ctx line = None \<longleftrightarrow>
    list_ex (\<lambda>n. n \<in> set SHARE_VARIABLES) (names_in line) \<and> \<not> list_ex (fills ctx) (names_in line)"
  by (auto simp: renderLine_def names_in_def Let_def filter_empty_conv list_ex_iff)

end
