(* ===== verification/Passwords.thy ===== *)
theory Passwords
  imports Accounts "HOL-Library.Word"
begin

text \<open>
  Stored passwords (\<^verbatim>\<open>shared/auth/crypto.server.ts\<close>): the format, the check and the renewal of old
  hashes. The key derivation \<^verbatim>\<open>scrypt\<close> is an argument, bytes from a password, a salt and its
  parameters; \<open>None\<close> is its rejection. Numbers are exact, where JavaScript rounds above \<open>2 ^ 53\<close>.
\<close>

section \<open>Hexadecimal text\<close>

type_synonym bytes = "8 word list"

text \<open>\<^verbatim>\<open>toString('hex')\<close> and \<^verbatim>\<open>Buffer.from(s, 'hex')\<close>, which stops at the first pair that is not hexadecimal.\<close>

definition hex_digit :: "nat \<Rightarrow> char" where
  "hex_digit n = char_of (if n < 10 then 48 + n else 87 + n)"

definition to_hex :: "bytes \<Rightarrow> string" where
  "to_hex bs = concat (map (\<lambda>b. [hex_digit (unat b div 16), hex_digit (unat b mod 16)]) bs)"

fun from_hex :: "string \<Rightarrow> bytes" where
  "from_hex (a # b # rest) =
     (case (digit_value 16 a, digit_value 16 b) of
        (Some x, Some y) \<Rightarrow> of_nat (16 * x + y) # from_hex rest
      | _ \<Rightarrow> [])"
| "from_hex _ = []"

lemma digit_value_hex: "n < 16 \<Longrightarrow> digit_value 16 (hex_digit n) = Some n"
  by (auto simp: digit_value_def hex_digit_def code_def Let_def)

lemma byte_nibbles: "unat b div 16 < 16" "unat b mod 16 < 16" for b :: "8 word"
proof -
  have "unat b < 256" using unsigned_less [of b] by simp
  then show "unat b div 16 < 16" "unat b mod 16 < 16" by simp_all
qed

lemma from_to_hex: "from_hex (to_hex bs) = bs"
proof (induction bs)
  case (Cons b bs)
  have "(of_nat (16 * (unat b div 16) + unat b mod 16) :: 8 word) = b" by simp
  then show ?case using Cons byte_nibbles by (simp add: to_hex_def digit_value_hex del: of_nat_add of_nat_mult)
qed (simp add: to_hex_def)

section \<open>The stored form\<close>

record ScryptParams =
  sp_N :: int
  sp_r :: int
  sp_p :: int

type_synonym scrypt = "string \<Rightarrow> string \<Rightarrow> ScryptParams \<Rightarrow> bytes option"

definition CURRENT_PARAMS :: ScryptParams where
  "CURRENT_PARAMS = \<lparr>sp_N = 2 ^ 17, sp_r = 8, sp_p = 1\<rparr>"

definition LEGACY_PARAMS :: ScryptParams where
  "LEGACY_PARAMS = \<lparr>sp_N = 2 ^ 14, sp_r = 8, sp_p = 1\<rparr>"

definition SCHEME :: string where
  "SCHEME = ''scrypt''"

record ParsedHash =
  ph_params :: ScryptParams
  ph_salt :: string
  ph_key :: string

text \<open>An entry of a destructured array: \<open>None\<close> is \<^verbatim>\<open>undefined\<close>.\<close>

definition destructured :: "'a list \<Rightarrow> nat \<Rightarrow> 'a option" where
  "destructured xs i = (if i < length xs then Some (xs ! i) else None)"

definition js_integer :: "string \<Rightarrow> int option" where
  "js_integer s = (case js_number s of None \<Rightarrow> None | Some q \<Rightarrow> if q = of_int \<lfloor>q\<rfloor> then Some \<lfloor>q\<rfloor> else None)"

definition parseStoredHash :: "string \<Rightarrow> ParsedHash option" where
  "parseStoredHash stored =
     (if CHR ''$'' \<in> set stored then
        (let parts = split_on CHR ''$'' stored; part = (\<lambda>i. case destructured parts i of None \<Rightarrow> [] | Some s \<Rightarrow> s)
         in if part 0 \<noteq> SCHEME \<or> part 1 = [] \<or> part 2 = [] \<or> part 3 = [] \<or> part 4 = [] \<or> part 5 = [] then None
            else
              (case (js_integer (part 1), js_integer (part 2), js_integer (part 3)) of
                 (Some N, Some r, Some p) \<Rightarrow>
                   Some \<lparr>ph_params = \<lparr>sp_N = N, sp_r = r, sp_p = p\<rparr>, ph_salt = part 4, ph_key = part 5\<rparr>
               | _ \<Rightarrow> None))
      else
        (let parts = split_on CHR ''.'' stored
         in case (destructured parts 0, destructured parts 1) of
              (Some salt, Some key) \<Rightarrow> Some \<lparr>ph_params = LEGACY_PARAMS, ph_salt = salt, ph_key = key\<rparr>
            | _ \<Rightarrow> None))"

text \<open>The random salt of a new hash is an argument.\<close>

definition hash_password :: "scrypt \<Rightarrow> bytes \<Rightarrow> string \<Rightarrow> string option" where
  "hash_password derive random password =
     (let salt = to_hex random
      in case derive password salt CURRENT_PARAMS of
           None \<Rightarrow> None
         | Some derivedKey \<Rightarrow>
             Some (SCHEME @ ''$'' @ js_string (sp_N CURRENT_PARAMS) @ ''$'' @ js_string (sp_r CURRENT_PARAMS) @ ''$'' @
               js_string (sp_p CURRENT_PARAMS) @ ''$'' @ salt @ ''$'' @ to_hex derivedKey))"

text \<open>\<open>None\<close> is an exception: a malformed hash, a rejection of the derivation, or keys of two lengths.\<close>

definition compare_password :: "scrypt \<Rightarrow> string \<Rightarrow> string \<Rightarrow> bool option" where
  "compare_password derive password stored =
     (case parseStoredHash stored of
        None \<Rightarrow> None
      | Some parsed \<Rightarrow>
          (case derive password (ph_salt parsed) (ph_params parsed) of
             None \<Rightarrow> None
           | Some derivedKey \<Rightarrow>
               if length (from_hex (ph_key parsed)) = length derivedKey then Some (from_hex (ph_key parsed) = derivedKey)
               else None))"

definition needsRehash :: "string \<Rightarrow> bool" where
  "needsRehash stored \<longleftrightarrow>
     (case parseStoredHash stored of
        None \<Rightarrow> False
      | Some parsed \<Rightarrow>
          sp_N (ph_params parsed) < sp_N CURRENT_PARAMS \<or> sp_r (ph_params parsed) < sp_r CURRENT_PARAMS \<or>
          sp_p (ph_params parsed) < sp_p CURRENT_PARAMS)"

section \<open>A new hash is read back\<close>

lemma split_on_word:
  "sep \<notin> set w \<Longrightarrow> split_on sep (w @ sep # rest) = w # split_on sep rest"
  by (induction w) auto

lemma split_on_last: "sep \<notin> set w \<Longrightarrow> split_on sep w = [w]"
  by (induction w) auto

lemma hex_no_dollar: "CHR ''$'' \<notin> set (to_hex bs)"
proof -
  have "hex_digit n \<noteq> CHR ''$''" if "n < 16" for n
    using digit_value_hex [OF that] by (auto simp: digit_value_def code_Char Let_def)
  then show ?thesis using byte_nibbles by (auto simp: to_hex_def) (metis byte_nibbles)+
qed

lemma to_hex_Nil_iff [simp]: "to_hex bs = [] \<longleftrightarrow> bs = []"
  by (cases bs) (simp_all add: to_hex_def)

lemma decimal_no_dollar: "CHR ''$'' \<notin> set (decimal n)"
  using decimal_digits [of n] by (auto simp: is_digit_def code_Char)

lemma js_integer_decimal: "js_integer (decimal n) = Some (int n)"
  by (simp add: js_integer_def js_number_decimal)

lemma parse_fields:
  assumes "CHR ''$'' \<notin> set salt" and "CHR ''$'' \<notin> set key" and "salt \<noteq> []" and "key \<noteq> []"
  shows "parseStoredHash (SCHEME @ ''$'' @ decimal N @ ''$'' @ decimal r @ ''$'' @ decimal p @ ''$'' @ salt @ ''$'' @ key) =
    Some \<lparr>ph_params = \<lparr>sp_N = int N, sp_r = int r, sp_p = int p\<rparr>, ph_salt = salt, ph_key = key\<rparr>"
proof -
  have "CHR ''$'' \<notin> set SCHEME" by (simp add: SCHEME_def)
  then have "split_on CHR ''$'' (SCHEME @ ''$'' @ decimal N @ ''$'' @ decimal r @ ''$'' @ decimal p @ ''$'' @ salt @ ''$'' @ key) =
      [SCHEME, decimal N, decimal r, decimal p, salt, key]"
    using assms(1,2) decimal_no_dollar by (simp add: split_on_word split_on_last)
  moreover have "decimal n \<noteq> []" for n using decimal_digits [of n] by simp
  ultimately show ?thesis using assms(3,4)
    by (simp add: parseStoredHash_def destructured_def js_integer_decimal numeral_eq_Suc)
qed

lemma js_string_nat: "js_string (int n) = decimal n"
  by (simp add: js_string_def)

lemma new_hash:
  assumes "hash_password derive random password = Some stored" and "random \<noteq> []"
    and "\<And>key. derive password (to_hex random) CURRENT_PARAMS = Some key \<Longrightarrow> key \<noteq> []"
  obtains key where "derive password (to_hex random) CURRENT_PARAMS = Some key"
    "parseStoredHash stored = Some \<lparr>ph_params = CURRENT_PARAMS, ph_salt = to_hex random, ph_key = to_hex key\<rparr>"
proof -
  obtain key where key: "derive password (to_hex random) CURRENT_PARAMS = Some key"
    and stored: "stored = SCHEME @ ''$'' @ decimal 131072 @ ''$'' @ decimal 8 @ ''$'' @ decimal 1 @ ''$'' @ to_hex random @ ''$'' @ to_hex key"
    using assms(1) js_string_nat [of 131072] js_string_nat [of 8] js_string_nat [of 1]
    by (auto simp: hash_password_def Let_def CURRENT_PARAMS_def split: option.splits)
  have "parseStoredHash stored = Some \<lparr>ph_params = CURRENT_PARAMS, ph_salt = to_hex random, ph_key = to_hex key\<rparr>"
    unfolding stored using parse_fields [OF hex_no_dollar hex_no_dollar, of random key 131072 8 1] assms(2,3) key
    by (simp add: CURRENT_PARAMS_def)
  then show ?thesis using that key by blast
qed

text \<open>
  A password verifies against its own hash, whatever the salt, the hash is never renewed at the
  next login, and another password verifies only if the derivation gives both the same key.
\<close>

theorem stored_passwords_verify:
  assumes "hash_password derive random password = Some stored" and "random \<noteq> []"
    and "\<forall>secret salt params key. derive secret salt params = Some key \<longrightarrow> length key = 32"
  shows "compare_password derive password stored = Some True \<and> \<not> needsRehash stored \<and>
    (compare_password derive guess stored = Some True \<longleftrightarrow>
       derive guess (to_hex random) CURRENT_PARAMS = derive password (to_hex random) CURRENT_PARAMS)"
proof -
  have "key \<noteq> []" if "derive password (to_hex random) CURRENT_PARAMS = Some key" for key
    using assms(3) that by fastforce
  then obtain key where key: "derive password (to_hex random) CURRENT_PARAMS = Some key"
    and parsed: "parseStoredHash stored = Some \<lparr>ph_params = CURRENT_PARAMS, ph_salt = to_hex random, ph_key = to_hex key\<rparr>"
    using new_hash [OF assms(1,2)] by metis
  have "length key = 32" using assms(3) key by blast
  then show ?thesis using assms(3) key
    by (auto simp: compare_password_def needsRehash_def parsed from_to_hex split: option.splits)
qed

definition sample_scrypt :: scrypt where
  "sample_scrypt secret salt params = Some (replicate 31 0 @ [of_nat (length secret)])"

lemma stored_passwords_verify_witness:
  "\<exists>stored. hash_password sample_scrypt [1, 2] ''abcd'' = Some stored \<and> compare_password sample_scrypt ''abcd'' stored = Some True"
proof -
  obtain stored where stored: "hash_password sample_scrypt [1, 2] ''abcd'' = Some stored"
    by (simp add: hash_password_def sample_scrypt_def Let_def)
  moreover have "\<forall>secret salt params key. sample_scrypt secret salt params = Some key \<longrightarrow> length key = 32"
    by (auto simp: sample_scrypt_def)
  ultimately have "compare_password sample_scrypt ''abcd'' stored = Some True"
    using stored_passwords_verify [of sample_scrypt "[1, 2]" "''abcd''" stored "[]"] by simp
  with stored show ?thesis by blast
qed

end
