(* ===== verification/Redirects.thy ===== *)
theory Redirects
  imports Passwords
begin

text \<open>
  Where a browser is sent after signing in (\<^verbatim>\<open>shared/utils/safe-redirect.server.ts\<close>,
  \<^verbatim>\<open>post-login-redirect.server.ts\<close>). The URL parser \<^verbatim>\<open>new URL(url, base)\<close> is an argument; query strings are
  read as \<^verbatim>\<open>URLSearchParams\<close> does, on bytes that are valid UTF-8.
\<close>

section \<open>Percent encoding\<close>

text \<open>Bytes are numbers below 256; Latin-1 characters above 127 take two bytes of UTF-8.\<close>

definition utf8 :: "string \<Rightarrow> nat list" where
  "utf8 s = concat (map (\<lambda>c. if code c < 128 then [code c] else [192 + code c div 64, 128 + code c mod 64]) s)"

definition upper_hex :: "nat \<Rightarrow> char" where
  "upper_hex n = char_of (if n < 10 then 48 + n else 55 + n)"

definition percent :: "nat \<Rightarrow> string" where
  "percent b = [CHR ''%'', upper_hex (b div 16), upper_hex (b mod 16)]"

definition alphanumeric :: "nat \<Rightarrow> bool" where
  "alphanumeric b \<longleftrightarrow> 48 \<le> b \<and> b \<le> 57 \<or> 65 \<le> b \<and> b \<le> 90 \<or> 97 \<le> b \<and> b \<le> 122"

definition encodeURIComponent :: "string \<Rightarrow> string" where
  "encodeURIComponent s =
     concat (map (\<lambda>b. if alphanumeric b \<or> char_of b \<in> set ''-_.!~*'' \<or> b \<in> {39, 40, 41} then [char_of b] else percent b) (utf8 s))"

section \<open>Query strings\<close>

definition escaped :: "nat list \<Rightarrow> nat option" where
  "escaped rest =
     (case rest of
        a # b # _ \<Rightarrow>
          (case (digit_value 16 (char_of a), digit_value 16 (char_of b)) of
             (Some x, Some y) \<Rightarrow> Some (16 * x + y)
           | _ \<Rightarrow> None)
      | _ \<Rightarrow> None)"

fun unescape :: "nat list \<Rightarrow> nat list" where
  "unescape [] = []"
| "unescape (c # rest) =
     (if c = 37
      then (case escaped rest of Some v \<Rightarrow> v # unescape (drop 2 rest) | None \<Rightarrow> 37 # unescape rest)
      else (if c = 43 then 32 else c) # unescape rest)"

text \<open>The pairs of \<^verbatim>\<open>new URLSearchParams(s)\<close>, and \<^verbatim>\<open>toString()\<close>.\<close>

definition search_pair :: "string \<Rightarrow> nat list \<times> nat list" where
  "search_pair part =
     (unescape (utf8 (takeWhile (\<lambda>c. c \<noteq> CHR ''='') part)), unescape (utf8 (tl (dropWhile (\<lambda>c. c \<noteq> CHR ''='') part))))"

definition search_params :: "string \<Rightarrow> (nat list \<times> nat list) list" where
  "search_params s = map search_pair (filter (\<lambda>part. part \<noteq> []) (split_on CHR ''&'' s))"

definition form_encode :: "nat list \<Rightarrow> string" where
  "form_encode bs =
     concat (map (\<lambda>b. if b = 32 then ''+'' else if alphanumeric b \<or> b \<in> {42, 45, 46, 95} then [char_of b] else percent b) bs)"

fun join_search :: "string \<Rightarrow> string list \<Rightarrow> string" where
  "join_search sep [] = []"
| "join_search sep [x] = x"
| "join_search sep (x # y # xs) = x @ sep @ join_search sep (y # xs)"

definition search_string :: "(nat list \<times> nat list) list \<Rightarrow> string" where
  "search_string params = join_search ''&'' (map (\<lambda>(n, v). form_encode n @ ''='' @ form_encode v) params)"

section \<open>The path of a page\<close>

definition endsWith :: "string \<Rightarrow> string \<Rightarrow> bool" where
  "endsWith s suffix \<longleftrightarrow> length suffix \<le> length s \<and> drop (length s - length suffix) s = suffix"

definition without_suffix :: "string \<Rightarrow> string \<Rightarrow> string" where
  "without_suffix s suffix = (if endsWith s suffix then take (length s - length suffix) s else s)"

definition page_path :: "string \<Rightarrow> string" where
  "page_path rawPath =
     (if endsWith rawPath ''.data'' then
        (let stripped = (if endsWith rawPath ''/_.data'' then without_suffix rawPath ''_.data'' else without_suffix rawPath ''.data'');
             pathname = (if length stripped > 1 \<and> endsWith stripped ''/'' then butlast stripped else stripped)
         in if pathname = [] then ''/'' else pathname)
      else rawPath)"

definition normalizeRedirectPath :: "string \<Rightarrow> string" where
  "normalizeRedirectPath url =
     (let rawPath = takeWhile (\<lambda>c. c \<noteq> CHR ''?'') url;
          pathname = page_path rawPath
      in if CHR ''?'' \<notin> set url then pathname
         else
           (let rawSearch = tl (dropWhile (\<lambda>c. c \<noteq> CHR ''?'') url);
                params = search_params rawSearch;
                routes = utf8 ''_routes''
            in if \<not> (\<exists>p \<in> set params. fst p = routes) then pathname @ ''?'' @ rawSearch
               else
                 (let search = search_string (filter (\<lambda>p. fst p \<noteq> routes) params)
                  in if search = [] then pathname else pathname @ ''?'' @ search)))"

section \<open>Targets that stay on the site\<close>

record url =
  url_onSite :: bool
  url_pathname :: string
  url_search :: string
  url_hash :: string

text \<open>\<open>parse\<close> is \<^verbatim>\<open>new URL(url, SENTINEL_ORIGIN)\<close>, with whether its origin is the sentinel's; \<open>None\<close> when it throws.\<close>

definition resolveOnSitePath :: "(string \<Rightarrow> url option) \<Rightarrow> string option \<Rightarrow> string option" where
  "resolveOnSitePath parse candidate =
     (case candidate of
        Some (CHR ''/'' # rest) \<Rightarrow>
          (case parse (CHR ''/'' # rest) of
             None \<Rightarrow> None
           | Some resolved \<Rightarrow>
               if \<not> url_onSite resolved then None
               else
                 (let target = url_pathname resolved @ url_search resolved @ url_hash resolved
                  in if take 2 target = ''//'' then None else Some target))
      | _ \<Rightarrow> None)"

definition safeRedirectUrl :: "(string \<Rightarrow> url option) \<Rightarrow> string option \<Rightarrow> string \<Rightarrow> string" where
  "safeRedirectUrl parse candidate fallback =
     (case resolveOnSitePath parse candidate of
        Some target \<Rightarrow> normalizeRedirectPath target
      | None \<Rightarrow> fallback)"

text \<open>The form's value wins over the query's; an empty one counts as absent.\<close>

definition resolvePostLoginRedirect :: "(string \<Rightarrow> url option) \<Rightarrow> string option \<Rightarrow> string option \<Rightarrow> string" where
  "resolvePostLoginRedirect parse formValue fromUrl =
     (let fromForm = (case formValue of Some [] \<Rightarrow> None | v \<Rightarrow> v)
      in safeRedirectUrl parse (case fromForm of None \<Rightarrow> fromUrl | Some v \<Rightarrow> Some v) ''/'')"

definition buildLoginRedirectUrl :: "string \<Rightarrow> string" where
  "buildLoginRedirectUrl target = (if target = ''/'' then ''/login'' else ''/login?redirectTo='' @ encodeURIComponent target)"

definition buildTwoFactorChallengeUrl :: "string \<Rightarrow> string" where
  "buildTwoFactorChallengeUrl target =
     (if target = ''/'' then ''/login/2fa'' else ''/login/2fa?redirectTo='' @ encodeURIComponent target)"

section \<open>What is guaranteed\<close>

text \<open>
  A path that a browser keeps on the current host. Browsers resolve a target as \<^verbatim>\<open>new URL\<close> does:
  they drop its tabs and line breaks and read a backslash as a slash. So the target starts with
  a slash, and what is left of it once those characters are dropped does not go on with a second
  slash or a backslash.
\<close>

definition browser_reads :: "string \<Rightarrow> string" where
  "browser_reads s = filter (\<lambda>c. c \<notin> {CHR 0x09, CHR 0x0A, CHR 0x0D}) s"

definition local_path :: "string \<Rightarrow> bool" where
  "local_path s \<longleftrightarrow>
     (\<exists>rest. s = CHR ''/'' # rest \<and>
        (browser_reads rest = [] \<or> hd (browser_reads rest) \<notin> {CHR ''/'', CHR 0x5C}))"

lemma not_local_paths:
  "\<not> local_path ''//evil''" "\<not> local_path (CHR ''/'' # CHR 0x5C # ''evil'')"
  "\<not> local_path (CHR ''/'' # CHR 0x09 # ''/evil'')" "\<not> local_path (CHR ''/'' # CHR 0x0D # CHR 0x0A # ''/evil'')"
  by (simp_all add: local_path_def browser_reads_def)

lemma browser_reads_append: "browser_reads (p @ q) = browser_reads p @ browser_reads q"
  by (simp add: browser_reads_def)

lemma browser_reads_plain: "\<forall>c \<in> set s. 32 \<le> code c \<Longrightarrow> browser_reads s = s"
proof -
  assume a: "\<forall>c \<in> set s. 32 \<le> code c"
  have "code CHR 0x09 < 32" "code CHR 0x0A < 32" "code CHR 0x0D < 32" by (simp_all add: code_Char)
  then have "\<forall>c \<in> set s. c \<notin> {CHR 0x09, CHR 0x0A, CHR 0x0D}" using a by fastforce
  then show ?thesis unfolding browser_reads_def by (simp add: filter_id_conv)
qed

text \<open>A path followed by a query or a fragment is local when the path is.\<close>

lemma local_path_suffix:
  assumes "p = [] \<or> hd p \<notin> {CHR ''/'', CHR 0x5C}" and "browser_reads p = p"
    and "q = [] \<or> hd q \<in> {CHR ''?'', CHR ''#''}"
  shows "local_path (CHR ''/'' # p @ q)"
proof (cases p)
  case (Cons c cs)
  have "browser_reads (p @ q) = p @ browser_reads q" using assms(2) by (simp add: browser_reads_append)
  then show ?thesis using assms(1) Cons by (simp add: local_path_def)
next
  case Nil
  have "browser_reads q = [] \<or> hd (browser_reads q) \<notin> {CHR ''/'', CHR 0x5C}"
  proof (cases q)
    case (Cons c cs)
    then have c: "c = CHR ''?'' \<or> c = CHR ''#''" using assms(3) by simp
    then have "browser_reads q = c # browser_reads cs" using Cons by (elim disjE) (simp_all add: browser_reads_def)
    then show ?thesis using c by (elim disjE) simp_all
  qed (simp add: browser_reads_def)
  then show ?thesis using Nil by (simp add: local_path_def)
qed

lemma endsWith_iff: "endsWith s suffix \<longleftrightarrow> (\<exists>p. s = p @ suffix)"
proof
  assume "endsWith s suffix"
  then have "s = take (length s - length suffix) s @ suffix"
    unfolding endsWith_def by (metis append_take_drop_id)
  then show "\<exists>p. s = p @ suffix" by blast
qed (auto simp: endsWith_def)

lemma without_suffix_append [simp]: "without_suffix (p @ suffix) suffix = p"
  by (auto simp: without_suffix_def endsWith_def)

lemma page_path_prefix:
  assumes "raw = CHR ''/'' # rest"
  shows "\<exists>k. page_path raw = CHR ''/'' # take k rest"
proof -
  have pre: "\<exists>k. p = CHR ''/'' # take k rest" if "p @ q = raw" "p \<noteq> []" for p q
    using that assms by (cases p) (auto intro!: exI [of _ "length p - 1"])
  show ?thesis
  proof (cases "endsWith raw ''.data''")
    case False
    then show ?thesis using pre [of raw "[]"] assms by (simp add: page_path_def)
  next
    case True
    define stripped where "stripped =
      (if endsWith raw ''/_.data'' then without_suffix raw ''_.data'' else without_suffix raw ''.data'')"
    obtain q where q: "stripped @ q = raw"
    proof (cases "endsWith raw ''/_.data''")
      case e: True
      then obtain p where "raw = (p @ ''/'') @ ''_.data''" by (auto simp: endsWith_iff)
      then show ?thesis using that [of "''_.data''"] e by (simp add: stripped_def del: append_assoc)
    next
      case e: False
      from True obtain p where "raw = p @ ''.data''" by (auto simp: endsWith_iff)
      then show ?thesis using that [of "''.data''"] e by (simp add: stripped_def)
    qed
    define pathname where "pathname = (if length stripped > 1 \<and> endsWith stripped ''/'' then butlast stripped else stripped)"
    have "\<exists>q'. pathname @ q' = raw"
    proof (cases "length stripped > 1 \<and> endsWith stripped ''/''")
      case True
      then have "stripped = butlast stripped @ [last stripped]" by (intro append_butlast_last_id [symmetric]) auto
      then have "pathname @ (last stripped # q) = raw" using q True by (metis append.assoc append_Cons append_Nil pathname_def)
      then show ?thesis by blast
    qed (use q in \<open>auto simp: pathname_def\<close>)
    moreover have "page_path raw = (if pathname = [] then ''/'' else pathname)"
      using True by (simp add: page_path_def Let_def stripped_def pathname_def)
    ultimately show ?thesis using pre by (auto intro: exI [of _ 0])
  qed
qed

lemma set_takeWhile_take: "set (takeWhile P (take k xs)) \<subseteq> set (takeWhile P xs)"
proof (induction xs arbitrary: k)
  case (Cons x xs)
  then show ?case by (cases k) auto
qed simp

lemma normalize_local:
  assumes "rest = [] \<or> hd rest \<notin> {CHR ''/'', CHR 0x5C}" and "raw = takeWhile (\<lambda>c. c \<noteq> CHR ''?'') rest"
    and "browser_reads (takeWhile (\<lambda>c. c \<noteq> CHR ''#'') raw) = takeWhile (\<lambda>c. c \<noteq> CHR ''#'') raw"
  shows "local_path (normalizeRedirectPath (CHR ''/'' # rest))"
proof -
  have "\<exists>k. page_path (CHR ''/'' # raw) = CHR ''/'' # take k raw" by (rule page_path_prefix) simp
  then obtain k where k: "page_path (takeWhile (\<lambda>c. c \<noteq> CHR ''?'') (CHR ''/'' # rest)) = CHR ''/'' # take k raw"
    by (auto simp: assms(2))
  let ?p = "takeWhile (\<lambda>c. c \<noteq> CHR ''#'') (take k raw)" and ?q = "dropWhile (\<lambda>c. c \<noteq> CHR ''#'') (take k raw)"
  have first: "?p = [] \<or> hd ?p \<notin> {CHR ''/'', CHR 0x5C}"
    using assms(1,2) by (cases rest; cases k) auto
  have plain: "browser_reads ?p = ?p"
  proof -
    have "set ?p \<subseteq> set (takeWhile (\<lambda>c. c \<noteq> CHR ''#'') raw)"
      by (rule set_takeWhile_take)
    then show ?thesis using assms(3) unfolding browser_reads_def filter_id_conv by blast
  qed
  have "\<exists>suffix. normalizeRedirectPath (CHR ''/'' # rest) = CHR ''/'' # take k raw @ suffix \<and> (suffix = [] \<or> hd suffix = CHR ''?'')"
    unfolding normalizeRedirectPath_def Let_def k by (auto intro: exI [of _ "[]"])
  then obtain suffix where sfx: "normalizeRedirectPath (CHR ''/'' # rest) = CHR ''/'' # take k raw @ suffix"
    "suffix = [] \<or> hd suffix = CHR ''?''"
    by blast
  have n: "normalizeRedirectPath (CHR ''/'' # rest) = CHR ''/'' # ?p @ (?q @ suffix)"
    unfolding sfx(1) append_assoc [symmetric] takeWhile_dropWhile_id ..
  moreover have "?q @ suffix = [] \<or> hd (?q @ suffix) \<in> {CHR ''?'', CHR ''#''}"
  proof (cases "?q = []")
    case True
    then show ?thesis unfolding True append_Nil using sfx(2) by blast
  next
    case False
    then have "hd (?q @ suffix) = CHR ''#''"
      using hd_dropWhile [OF False] by (simp only: hd_append if_False) blast
    then show ?thesis by blast
  qed
  ultimately show ?thesis unfolding n using first plain by (intro local_path_suffix)
qed

lemma path_of_address:
  assumes "\<forall>c \<in> set p. c \<noteq> CHR ''#'' \<and> c \<noteq> CHR ''?''"
    and "s = [] \<or> hd s = CHR ''?''" and "h = [] \<or> hd h = CHR ''#''"
  shows "takeWhile (\<lambda>c. c \<noteq> CHR ''#'') (takeWhile (\<lambda>c. c \<noteq> CHR ''?'') (p @ s @ h)) = p"
proof -
  have p: "takeWhile (\<lambda>c. c \<noteq> CHR ''?'') (p @ xs) = p @ takeWhile (\<lambda>c. c \<noteq> CHR ''?'') xs"
    "takeWhile (\<lambda>c. c \<noteq> CHR ''#'') (p @ xs) = p @ takeWhile (\<lambda>c. c \<noteq> CHR ''#'') xs" for xs
    using assms(1) by (simp_all add: takeWhile_append2)
  show ?thesis
    using assms(2,3) unfolding p by (cases s; cases h) simp_all
qed

text \<open>
  C14. Signing in never leaves the site: whatever target the form or the address asked for, the
  browser is sent to a path of the same host, one that no browser reads as the address of another
  after dropping tabs and line breaks and taking backslashes for slashes. The parser is used only
  for what the standard promises of an address on the base's origin: its path starts with a slash
  and has no backslash, control character or hash sign in it, and its query and fragment are empty
  or start with their marks.
\<close>

theorem redirects_stay_on_site:
  assumes "\<forall>s u. parse s = Some u \<longrightarrow> url_onSite u \<longrightarrow>
      (\<exists>rest. url_pathname u = CHR ''/'' # rest \<and> (\<forall>c \<in> set rest. 32 \<le> code c \<and> c \<notin> {CHR 0x5C, CHR ''#'', CHR ''?''})) \<and>
      (url_search u = [] \<or> hd (url_search u) = CHR ''?'') \<and> (url_hash u = [] \<or> hd (url_hash u) = CHR ''#'')"
  shows "local_path (resolvePostLoginRedirect parse formValue fromUrl)"
proof -
  have target: "local_path (normalizeRedirectPath t)" if resolved: "resolveOnSitePath parse candidate = Some t" for candidate t
  proof -
    obtain s u where u: "parse s = Some u" "url_onSite u" "t = url_pathname u @ url_search u @ url_hash u" "take 2 t \<noteq> ''//''"
      using resolved by (auto simp: resolveOnSitePath_def Let_def split: option.splits list.splits char.splits bool.splits if_splits)
    then obtain rest where p: "url_pathname u = CHR ''/'' # rest"
        "\<forall>c \<in> set rest. 32 \<le> code c \<and> c \<notin> {CHR 0x5C, CHR ''#'', CHR ''?''}"
      and q: "url_search u = [] \<or> hd (url_search u) = CHR ''?''" "url_hash u = [] \<or> hd (url_hash u) = CHR ''#''"
      using assms by blast
    let ?r = "rest @ url_search u @ url_hash u"
    have t: "t = CHR ''/'' # ?r" using u(3) p(1) by simp
    have slash: "?r = [] \<or> hd ?r \<noteq> CHR ''/''" using u(4) unfolding t by (cases ?r) simp_all
    have "?r = [] \<or> hd ?r \<noteq> CHR 0x5C"
    proof (cases rest)
      case Nil
      then show ?thesis using q by (cases "url_search u"; cases "url_hash u") simp_all
    qed (use p(2) in simp)
    with slash have "?r = [] \<or> hd ?r \<notin> {CHR ''/'', CHR 0x5C}" by blast
    moreover have "takeWhile (\<lambda>c. c \<noteq> CHR ''#'') (takeWhile (\<lambda>c. c \<noteq> CHR ''?'') ?r) = rest"
      by (rule path_of_address [OF _ q]) (use p(2) in blast)
    ultimately show ?thesis unfolding t using p(2) browser_reads_plain [of rest] by (intro normalize_local [OF _ refl]) auto
  qed
  have "local_path (safeRedirectUrl parse candidate ''/'')" for candidate
    using target by (auto simp: safeRedirectUrl_def local_path_def [of "''/''"] browser_reads_def split: option.splits)
  then show ?thesis by (simp add: resolvePostLoginRedirect_def Let_def)
qed

text \<open>A parser that knows two addresses: a page of the site, and a tab that hides a second slash.\<close>

definition sample_parse :: "string \<Rightarrow> url option" where
  "sample_parse s =
     (if s = ''/programs.data'' then Some \<lparr>url_onSite = True, url_pathname = s, url_search = [], url_hash = []\<rparr>
      else if s = CHR ''/'' # CHR 0x09 # ''/evil''
      then Some \<lparr>url_onSite = False, url_pathname = ''/'', url_search = [], url_hash = []\<rparr>
      else None)"

lemmas redirect_eval = resolvePostLoginRedirect_def safeRedirectUrl_def resolveOnSitePath_def sample_parse_def
    normalizeRedirectPath_def page_path_def endsWith_def without_suffix_def Let_def

lemma redirects_stay_on_site_witness:
  "local_path (resolvePostLoginRedirect sample_parse (Some ''/programs.data'') None) \<and>
   resolvePostLoginRedirect sample_parse (Some ''/programs.data'') None = ''/programs'' \<and>
   local_path (resolvePostLoginRedirect sample_parse None (Some (CHR ''/'' # CHR 0x09 # ''/evil''))) \<and>
   resolvePostLoginRedirect sample_parse None (Some (CHR ''/'' # CHR 0x09 # ''/evil'')) = ''/''"
proof (intro conjI)
  show "local_path (resolvePostLoginRedirect sample_parse (Some ''/programs.data'') None)"
    by (rule redirects_stay_on_site) (simp add: sample_parse_def code_Char)
  show "local_path (resolvePostLoginRedirect sample_parse None (Some (CHR ''/'' # CHR 0x09 # ''/evil'')))"
    by (rule redirects_stay_on_site) (simp add: sample_parse_def code_Char)
qed (simp_all add: redirect_eval)

text \<open>
  The decoration of React Router's data requests: the page a client navigates to is fetched as
  \<^verbatim>\<open>/page.data\<close>, the root as \<^verbatim>\<open>/_.data\<close>.
\<close>

definition data_request :: "string \<Rightarrow> string" where
  "data_request path = (if path = ''/'' then ''/_.data'' else path @ ''.data'')"

text \<open>A guard that catches the data request of a page sends the visitor back to the page itself.\<close>

theorem data_requests_return_to_their_page:
  assumes "hd path = CHR ''/''" and "path \<noteq> []" and "path = ''/'' \<or> last path \<noteq> CHR ''/''" and "\<not> endsWith path ''/_''"
    and "CHR ''?'' \<notin> set path"
  shows "normalizeRedirectPath (data_request path) = path"
proof (cases "path = ''/''")
  case True
  then show ?thesis
    by (simp add: data_request_def normalizeRedirectPath_def page_path_def endsWith_def without_suffix_def Let_def)
next
  case False
  have nq: "CHR ''?'' \<notin> set (data_request path)" using assms(5) False by (simp add: data_request_def)
  then have raw: "takeWhile (\<lambda>c. c \<noteq> CHR ''?'') (data_request path) = path @ ''.data''"
    using False by (subst takeWhile_eq_all_conv [THEN iffD2]) (auto simp: data_request_def)
  have "\<not> endsWith (path @ ''.data'') ''/_.data''"
  proof
    assume "endsWith (path @ ''.data'') ''/_.data''"
    then obtain p where "path @ ''.data'' = (p @ ''/_'') @ ''.data''" by (auto simp: endsWith_iff)
    then have "path = p @ ''/_''" by (rule append_same_eq [THEN iffD1])
    then show False using assms(4) by (auto simp: endsWith_iff)
  qed
  moreover have "endsWith (path @ ''.data'') ''.data''" by (auto simp: endsWith_iff)
  moreover have "\<not> endsWith path ''/''" using assms(3) False by (auto simp: endsWith_iff)
  ultimately have "page_path (path @ ''.data'') = path" using assms(2) by (simp add: page_path_def Let_def)
  then show ?thesis using nq raw by (simp add: normalizeRedirectPath_def Let_def)
qed

lemma data_requests_return_to_their_page_witness:
  "normalizeRedirectPath (data_request ''/me'') = ''/me''"
  by (rule data_requests_return_to_their_page) (simp_all add: endsWith_def)

end
