(* ===== verification/Auth_Tables.thy ===== *)
theory Auth_Tables
  imports Redirects
begin

text \<open>
  What signing in works on: the accounts with the columns that only authentication reads, the tables
  of its links, the counters of the rate limiter, which live in Redis, and the journal. A cookie is
  the session it carries: cookies are signed, so a visitor presents a session that was issued or none.
\<close>

record login_account = user_account +
  acc_sessionEpoch :: int
  acc_twoFactorSecret :: "string option"
  acc_twoFactorEnabledAt :: "int option"
  acc_locale :: "string option"

record tenant = congregation +
  cong_domain :: "string option"
  cong_locale :: string
  cong_trialEndsAt :: "int option"

record reset_token =
  prt_id :: int
  prt_token :: string
  prt_userId :: int
  prt_expiresAt :: int

record verification_token =
  evt_id :: int
  evt_token :: string
  evt_userId :: int
  evt_expiresAt :: int
  evt_createdAt :: int

record feed_token =
  cft_id :: int
  cft_token :: string
  cft_userId :: int
  cft_lastUsedAt :: "int option"

record consent_record =
  cr_id :: int
  cr_userId :: int
  cr_congregationId :: int
  cr_purpose :: string
  cr_consentedAt :: int
  cr_withdrawnAt :: "int option"
  cr_consentVersion :: string

record login_entry = audit_entry +
  au_actorEmail :: "string option"

text \<open>A counter with the instant it expires at.\<close>

type_synonym counters = "string \<Rightarrow> (int \<times> int) option"

record auth =
  accounts :: "login_account list"
  tenants :: "tenant list"
  resetTokens :: "reset_token list"
  verificationTokens :: "verification_token list"
  feedTokens :: "feed_token list"
  consents :: "consent_record list"
  counters :: counters
  journal :: "login_entry list"

definition login_audit :: "string \<Rightarrow> int \<Rightarrow> int option \<Rightarrow> string option \<Rightarrow> auth \<Rightarrow> auth" where
  "login_audit action congregationId actorId actorEmail db =
     db\<lparr>journal := journal db @
       [\<lparr>au_action = action, au_congregationId = congregationId, au_actorId = actorId,
         au_entityType = map_option (\<lambda>_. ''User'') actorId, au_entityId = actorId, au_metadata = None,
         au_actorEmail = actorEmail\<rparr>]\<rparr>"

definition account_row :: "auth \<Rightarrow> int \<Rightarrow> login_account option" where
  "account_row db i = find (\<lambda>a. acc_id a = i) (accounts db)"

definition update_account :: "int \<Rightarrow> (login_account \<Rightarrow> login_account) \<Rightarrow> auth \<Rightarrow> auth" where
  "update_account i f db = db\<lparr>accounts := update_where (\<lambda>a. acc_id a = i) f (accounts db)\<rparr>"

text \<open>The deployment, and one request of a browser.\<close>

record site =
  multiTenant :: bool
  baseDomain :: string
  LOGIN_IP_MAX :: int
  LOGIN_GLOBAL_MAX :: int
  TWO_FACTOR_MAX :: int
  parseUrl :: "string \<Rightarrow> url option"

record session =
  sess_userId :: "string option"
  sess_sessionEpoch :: "string option"
  sess_pending2faUserId :: "string option"
  sess_error :: "string option"
  sess_success :: "string option"

definition empty_session :: session where
  "empty_session = \<lparr>sess_userId = None, sess_sessionEpoch = None, sess_pending2faUserId = None, sess_error = None, sess_success = None\<rparr>"

datatype cookie = Keep_Cookie | Commit session | Destroy

datatype answer = Redirected string cookie | Shown cookie | Bad_Request

section \<open>The congregation of a request\<close>

text \<open>\<open>Inl\<close> is the address of a thrown redirection.\<close>

definition slugFromHostname :: "site \<Rightarrow> string \<Rightarrow> string option" where
  "slugFromHostname st hostname =
     (let suffix = CHR ''.'' # baseDomain st
      in if endsWith hostname suffix \<and> without_suffix hostname suffix \<noteq> [] then Some (without_suffix hostname suffix) else None)"

definition resolveCongregationFromRequest :: "site \<Rightarrow> auth \<Rightarrow> string \<Rightarrow> string + tenant option" where
  "resolveCongregationFromRequest st db hostname =
     (if \<not> multiTenant st then Inr None
      else
        (case slugFromHostname st hostname of
           Some slug \<Rightarrow>
             (case find (\<lambda>c. cong_slug c = slug) (tenants db) of
                Some c \<Rightarrow> Inr (Some c)
              | None \<Rightarrow> Inl ''/congregation-not-found'')
         | None \<Rightarrow> Inr (find (\<lambda>c. cong_domain c = Some hostname) (tenants db))))"

definition findCongregation :: "auth \<Rightarrow> int \<Rightarrow> tenant option" where
  "findCongregation db i = find (\<lambda>c. cong_id c = i) (tenants db)"

end
