(* ===== verification/Rate_Limit.thy ===== *)
theory Rate_Limit
  imports Auth_Tables
begin

text \<open>
  The counters that slow guessing down (\<^verbatim>\<open>features/authentication/server/rate-limit.server.ts\<close>). The
  two scripts run atomically in Redis; \<open>up\<close> says whether it answers. An expired key is absent.
\<close>

section \<open>Counters\<close>

definition WINDOW_SECONDS :: int where
  "WINDOW_SECONDS = 15 * 60"

definition DAY_SECONDS :: int where
  "DAY_SECONDS = 24 * 60 * 60"

definition PASSWORD_RESET_EMAIL_WINDOW_MAX :: int where
  "PASSWORD_RESET_EMAIL_WINDOW_MAX = 3"

definition PASSWORD_RESET_EMAIL_DAY_MAX :: int where
  "PASSWORD_RESET_EMAIL_DAY_MAX = 20"

definition PASSWORD_RESET_IP_WINDOW_MAX :: int where
  "PASSWORD_RESET_IP_WINDOW_MAX = 10"

definition live :: "int \<Rightarrow> (int \<times> int) option \<Rightarrow> (int \<times> int) option" where
  "live now c = (case c of Some (n, e) \<Rightarrow> if now < e then Some (n, e) else None | None \<Rightarrow> None)"

definition incrementAndCount :: "string \<Rightarrow> int \<Rightarrow> int \<Rightarrow> counters \<Rightarrow> int \<times> counters" where
  "incrementAndCount key ttlSeconds now cs =
     (case live now (cs key) of
        None \<Rightarrow> (1, cs(key \<mapsto> (1, now + ttlSeconds * 1000)))
      | Some (n, e) \<Rightarrow> (n + 1, cs(key \<mapsto> (n + 1, e))))"

definition decrement :: "string \<Rightarrow> int \<Rightarrow> counters \<Rightarrow> counters" where
  "decrement key now cs =
     (case live now (cs key) of
        None \<Rightarrow> cs(key := None)
      | Some (n, e) \<Rightarrow> if n - 1 \<le> 0 then cs(key := None) else cs(key \<mapsto> (n - 1, e)))"

definition LOGIN_GLOBAL_KEY :: string where
  "LOGIN_GLOBAL_KEY = ''login_fail:global''"

definition or_unknown :: "string option \<Rightarrow> string" where
  "or_unknown ip = (case ip of None \<Rightarrow> ''unknown'' | Some a \<Rightarrow> a)"

definition loginIpKey :: "string option \<Rightarrow> string" where
  "loginIpKey ip = ''login_fail:ip:'' @ or_unknown ip"

definition twoFactorKey :: "int \<Rightarrow> string" where
  "twoFactorKey userId = ''two_factor_fail:user:'' @ js_string userId"

section \<open>Guards\<close>

text \<open>Whether the attempt is limited.\<close>

definition guardLoginAttempt :: "site \<Rightarrow> bool \<Rightarrow> string option \<Rightarrow> int \<Rightarrow> counters \<Rightarrow> bool \<times> counters" where
  "guardLoginAttempt st up ip now cs =
     (if \<not> up then (True, cs)
      else
        (case incrementAndCount (loginIpKey ip) WINDOW_SECONDS now cs of
           (ipCount, cs) \<Rightarrow>
             if ipCount > LOGIN_IP_MAX st then (True, cs)
             else
               (case incrementAndCount LOGIN_GLOBAL_KEY WINDOW_SECONDS now cs of
                  (globalCount, cs) \<Rightarrow> (globalCount > LOGIN_GLOBAL_MAX st, cs))))"

definition releaseLoginAttempt :: "bool \<Rightarrow> string option \<Rightarrow> int \<Rightarrow> counters \<Rightarrow> counters" where
  "releaseLoginAttempt up ip now cs =
     (if up then decrement LOGIN_GLOBAL_KEY now (decrement (loginIpKey ip) now cs) else cs)"

definition guardTwoFactorAttempt :: "site \<Rightarrow> bool \<Rightarrow> int \<Rightarrow> int \<Rightarrow> counters \<Rightarrow> bool \<times> counters" where
  "guardTwoFactorAttempt st up userId now cs =
     (if \<not> up then (True, cs)
      else
        (case incrementAndCount (twoFactorKey userId) WINDOW_SECONDS now cs of
           (n, cs) \<Rightarrow> (n > TWO_FACTOR_MAX st, cs)))"

definition releaseTwoFactorAttempts :: "bool \<Rightarrow> int \<Rightarrow> counters \<Rightarrow> counters" where
  "releaseTwoFactorAttempts up userId cs = (if up then cs(twoFactorKey userId := None) else cs)"

datatype PasswordResetGuard = Not_Limited | Rate_Limited | Unavailable

definition guardPasswordResetRequest :: "bool \<Rightarrow> string \<Rightarrow> string option \<Rightarrow> int \<Rightarrow> counters \<Rightarrow> PasswordResetGuard \<times> counters" where
  "guardPasswordResetRequest up email ip now cs =
     (if \<not> up then (Unavailable, cs)
      else
        (case incrementAndCount (''password_reset:window:ip:'' @ or_unknown ip) WINDOW_SECONDS now cs of
           (n, cs) \<Rightarrow>
             if n > PASSWORD_RESET_IP_WINDOW_MAX then (Rate_Limited, cs)
             else
               (case incrementAndCount (''password_reset:window:email:'' @ lower_text email) WINDOW_SECONDS now cs of
                  (n, cs) \<Rightarrow>
                    if n > PASSWORD_RESET_EMAIL_WINDOW_MAX then (Rate_Limited, cs)
                    else
                      (case incrementAndCount (''password_reset:day:email:'' @ lower_text email) DAY_SECONDS now cs of
                         (n, cs) \<Rightarrow> (if n > PASSWORD_RESET_EMAIL_DAY_MAX then Rate_Limited else Not_Limited, cs)))))"

section \<open>A counter within one window\<close>

text \<open>
  A budget bounds a counter over a window that starts with no live count: whatever was spent so far
  is in the count, and the count does not expire before the window ends.
\<close>

definition spent :: "string \<Rightarrow> int \<Rightarrow> int \<Rightarrow> counters \<Rightarrow> bool" where
  "spent key until k cs \<longleftrightarrow> 0 \<le> k \<and> (case cs key of None \<Rightarrow> k = 0 | Some (n, e) \<Rightarrow> k \<le> n \<and> until \<le> e)"

lemma spent_count:
  assumes "spent key until k cs" and "now < until" and "until \<le> now + ttl * 1000"
    and "incrementAndCount key ttl now cs = (n, cs')"
  shows "k + 1 \<le> n \<and> spent key until (k + 1) cs'"
  using assms by (auto simp: spent_def incrementAndCount_def live_def split: option.splits if_splits)

lemma spent_less: "spent key until k cs \<Longrightarrow> 0 \<le> j \<Longrightarrow> j \<le> k \<Longrightarrow> j = 0 \<or> cs key \<noteq> None \<Longrightarrow> spent key until j cs"
  by (auto simp: spent_def split: option.splits)

lemma spent_decrement:
  assumes "spent key until (k + 1) cs" and "now < until" and "0 \<le> k"
  shows "spent key until k (decrement key now cs)"
  using assms by (auto simp: spent_def decrement_def live_def split: option.splits if_splits)

lemma spent_other [simp]:
  "key' \<noteq> key \<Longrightarrow> spent key until k (cs(key' := v)) = spent key until k cs"
  by (simp add: spent_def)

lemma count_other:
  assumes "incrementAndCount key' ttl now cs = (n, cs')" and "key' \<noteq> key"
  shows "spent key until k cs' = spent key until k cs"
  using assms by (auto simp: incrementAndCount_def split: option.splits)

lemma decrement_other: "key' \<noteq> key \<Longrightarrow> spent key until k (decrement key' now cs) = spent key until k cs"
  by (auto simp: decrement_def split: option.splits)

lemma ip_key_not_global [simp]: "LOGIN_GLOBAL_KEY \<noteq> loginIpKey ip" "loginIpKey ip \<noteq> LOGIN_GLOBAL_KEY"
  by (simp_all add: LOGIN_GLOBAL_KEY_def loginIpKey_def)

lemma ip_key_inject: "loginIpKey a = loginIpKey b \<longleftrightarrow> or_unknown a = or_unknown b"
  by (simp add: loginIpKey_def)

lemma two_factor_key_inject: "twoFactorKey a = twoFactorKey b \<longleftrightarrow> a = b"
  by (simp add: twoFactorKey_def js_string_inject)

lemma login_key_not_two_factor [simp]:
  "twoFactorKey u \<noteq> LOGIN_GLOBAL_KEY" "twoFactorKey u \<noteq> loginIpKey ip" "LOGIN_GLOBAL_KEY \<noteq> twoFactorKey u" "loginIpKey ip \<noteq> twoFactorKey u"
  by (simp_all add: twoFactorKey_def LOGIN_GLOBAL_KEY_def loginIpKey_def)

end
