(* ===== verification/Totp.thy ===== *)
theory Totp
  imports Auth_Tables
begin

text \<open>
  The second factor: codes and the encryption of their seeds (\<^verbatim>\<open>totp.server.ts\<close>,
  \<^verbatim>\<open>totp-encryption.server.ts\<close>), and the functions that arm and disarm it. Cryptography is a record of
  arguments: the derivation of passwords, the keys of the session secrets in order, the texts of
  base64, AES-256-GCM, the check of a code by the \<^verbatim>\<open>otpauth\<close> package, and SHA-256.
\<close>

record crypto =
  kdf :: scrypt
  sessionKeys :: "bytes list"
  base64 :: "bytes \<Rightarrow> string"
  unbase64 :: "string \<Rightarrow> bytes"
  seal :: "bytes \<Rightarrow> bytes \<Rightarrow> string \<Rightarrow> bytes \<times> bytes"
  unseal :: "bytes \<Rightarrow> bytes \<Rightarrow> bytes \<Rightarrow> bytes \<Rightarrow> string option"
  totp_delta :: "string \<Rightarrow> string \<Rightarrow> int \<Rightarrow> int option"
  sha256_hex :: "string \<Rightarrow> string"

section \<open>Seeds at rest\<close>

text \<open>The random IV is an argument; without a key both directions throw, here \<open>None\<close>.\<close>

definition encryptSecret :: "crypto \<Rightarrow> bytes \<Rightarrow> string \<Rightarrow> string option" where
  "encryptSecret cry iv plain =
     (case sessionKeys cry of
        [] \<Rightarrow> None
      | key # _ \<Rightarrow>
          (case seal cry key iv plain of
             (authTag, ciphertext) \<Rightarrow>
               Some (base64 cry iv @ '':'' @ base64 cry authTag @ '':'' @ base64 cry ciphertext)))"

fun try_keys :: "crypto \<Rightarrow> bytes \<Rightarrow> bytes \<Rightarrow> bytes \<Rightarrow> bytes list \<Rightarrow> string option" where
  "try_keys cry iv authTag ciphertext [] = None"
| "try_keys cry iv authTag ciphertext (key # keys) =
     (case unseal cry key iv authTag ciphertext of
        Some plain \<Rightarrow> Some plain
      | None \<Rightarrow> try_keys cry iv authTag ciphertext keys)"

definition decryptSecret :: "crypto \<Rightarrow> string \<Rightarrow> string option" where
  "decryptSecret cry payload =
     (let parts = split_on CHR '':'' payload; part = (\<lambda>i. case destructured parts i of None \<Rightarrow> [] | Some s \<Rightarrow> s)
      in if part 0 = [] \<or> part 1 = [] \<or> part 2 = [] then None
         else try_keys cry (unbase64 cry (part 0)) (unbase64 cry (part 1)) (unbase64 cry (part 2)) (sessionKeys cry))"

section \<open>Codes\<close>

definition is_code :: "string \<Rightarrow> bool" where
  "is_code digits \<longleftrightarrow> length digits = 6 \<and> list_all is_digit digits"

definition verifyTotpCode :: "crypto \<Rightarrow> string \<Rightarrow> string \<Rightarrow> int \<Rightarrow> bool" where
  "verifyTotpCode cry secret digits now \<longleftrightarrow> is_code digits \<and> totp_delta cry secret digits now \<noteq> None"

section \<open>Arming and disarming\<close>

definition isTwoFactorEnabled :: "auth \<Rightarrow> int \<Rightarrow> bool" where
  "isTwoFactorEnabled db userId \<longleftrightarrow>
     (case account_row db userId of None \<Rightarrow> False | Some a \<Rightarrow> acc_twoFactorEnabledAt a \<noteq> None)"

text \<open>Enabled, and pending.\<close>

definition getTwoFactorStatus :: "auth \<Rightarrow> int \<Rightarrow> bool \<times> bool" where
  "getTwoFactorStatus db userId =
     (case account_row db userId of
        None \<Rightarrow> (False, False)
      | Some a \<Rightarrow> (acc_twoFactorEnabledAt a \<noteq> None, acc_twoFactorSecret a \<noteq> None \<and> acc_twoFactorEnabledAt a = None))"

definition verifyTwoFactorChallenge :: "crypto \<Rightarrow> auth \<Rightarrow> int \<Rightarrow> string \<Rightarrow> int \<Rightarrow> bool" where
  "verifyTwoFactorChallenge cry db userId digits now =
     (case account_row db userId of
        None \<Rightarrow> False
      | Some a \<Rightarrow>
          if \<not> acc_active a \<or> acc_twoFactorEnabledAt a = None then False
          else
            (case acc_twoFactorSecret a of
               None \<Rightarrow> False
             | Some [] \<Rightarrow> False
             | Some stored \<Rightarrow>
                 (case decryptSecret cry stored of None \<Rightarrow> False | Some secret \<Rightarrow> verifyTotpCode cry secret digits now)))"

text \<open>The fresh secret is an argument; \<open>None\<close> is the exception of an instance without a secret.\<close>

definition startTwoFactorEnrollment :: "crypto \<Rightarrow> bytes \<Rightarrow> string \<Rightarrow> int \<Rightarrow> auth \<Rightarrow> auth option" where
  "startTwoFactorEnrollment cry iv secret userId db =
     map_option (\<lambda>stored. update_account userId
       (\<lambda>a. a\<lparr>acc_twoFactorSecret := Some stored, acc_twoFactorEnabledAt := None\<rparr>) db) (encryptSecret cry iv secret)"

text \<open>\<open>None\<close> is the exception of a stored seed that no key opens.\<close>

definition confirmTwoFactorEnrollment :: "crypto \<Rightarrow> int \<Rightarrow> string \<Rightarrow> int \<Rightarrow> auth \<Rightarrow> (bool \<times> auth) option" where
  "confirmTwoFactorEnrollment cry userId digits now db =
     (case account_row db userId of
        None \<Rightarrow> Some (False, db)
      | Some a \<Rightarrow>
          (case acc_twoFactorSecret a of
             None \<Rightarrow> Some (False, db)
           | Some [] \<Rightarrow> Some (False, db)
           | Some stored \<Rightarrow>
               (case decryptSecret cry stored of
                  None \<Rightarrow> None
                | Some secret \<Rightarrow>
                    if \<not> verifyTotpCode cry secret digits now then Some (False, db)
                    else Some (True, update_account userId (\<lambda>a. a\<lparr>acc_twoFactorEnabledAt := Some now\<rparr>) db))))"

definition disableTwoFactor :: "int \<Rightarrow> auth \<Rightarrow> auth" where
  "disableTwoFactor userId =
     update_account userId (\<lambda>a. a\<lparr>acc_twoFactorSecret := None, acc_twoFactorEnabledAt := None\<rparr>)"

section \<open>Rotation of the session secret\<close>

lemma try_keys_rejects:
  "\<forall>k \<in> set before. unseal cry k iv tag ct = None \<Longrightarrow>
     try_keys cry iv tag ct (before @ keys) = try_keys cry iv tag ct keys"
  by (induction before) auto

text \<open>
  A seed survives every rotation of the session secret that keeps the secret it was encrypted
  under: decrypting it with the newer secrets in front gives the seed back. What is used of the
  cipher is that it opens what it sealed and that the tag rejects the other keys; of base64, that it
  is read back and has no colon.
\<close>

theorem seeds_survive_rotation:
  assumes "encryptSecret cry iv seed = Some stored" and "sessionKeys cry = key # rest"
    and "\<forall>k i p. case seal cry k i p of (tag, ct) \<Rightarrow> unseal cry k i tag ct = Some p"
    and "\<forall>k \<in> set newer. \<forall>p. case seal cry key iv p of (tag, ct) \<Rightarrow> unseal cry k iv tag ct = None"
    and "\<forall>bs. unbase64 cry (base64 cry bs) = bs \<and> base64 cry bs \<noteq> [] \<and> CHR '':'' \<notin> set (base64 cry bs)"
  shows "decryptSecret (cry\<lparr>sessionKeys := newer @ key # older\<rparr>) stored = Some seed"
proof -
  obtain tag ct where sealed: "seal cry key iv seed = (tag, ct)" by fastforce
  let ?cry = "cry\<lparr>sessionKeys := newer @ key # older\<rparr>"
  have "stored = base64 cry iv @ CHR '':'' # base64 cry tag @ CHR '':'' # base64 cry ct"
    using assms(1,2) sealed by (simp add: encryptSecret_def)
  then have parts: "split_on CHR '':'' stored = [base64 cry iv, base64 cry tag, base64 cry ct]"
    using assms(5) by (simp add: split_on_word split_on_last)
  have "try_keys ?cry iv tag ct (newer @ key # older) = try_keys ?cry iv tag ct (key # older)"
    using assms(4) [rule_format, of _ seed] sealed by (intro try_keys_rejects) simp
  moreover have "unseal cry key iv tag ct = Some seed" using assms(3) [rule_format, of key iv seed] sealed by simp
  ultimately show ?thesis using assms(5)
    by (simp add: decryptSecret_def parts destructured_def numeral_2_eq_2)
qed

definition sample_crypto :: crypto where
  "sample_crypto = \<lparr>kdf = sample_scrypt, sessionKeys = [[1]], base64 = (\<lambda>bs. ''b'' @ to_hex bs), unbase64 = from_hex \<circ> tl,
     seal = (\<lambda>k i p. (k, map (\<lambda>c. of_nat (code c)) p)), unseal = (\<lambda>k i tag ct. if tag = k then Some (map (\<lambda>w. char_of (unat w)) ct) else None),
     totp_delta = (\<lambda>secret token now. if token = ''123456'' then Some 0 else None), sha256_hex = (\<lambda>s. ''h'' @ s)\<rparr>"

lemma byte_char: "char_of (unat (of_nat (code c) :: 8 word)) = c"
proof -
  have "code c < 256" by (simp add: code_def)
  then show ?thesis by (simp add: unat_of_nat code_def)
qed

lemma sample_base64: "\<forall>bs. unbase64 sample_crypto (base64 sample_crypto bs) = bs \<and> base64 sample_crypto bs \<noteq> [] \<and>
    CHR '':'' \<notin> set (base64 sample_crypto bs)"
proof -
  have "hex_digit n \<noteq> CHR '':''" if "n < 16" for n
    using digit_value_hex [OF that] by (auto simp: digit_value_def code_Char Let_def)
  then have "CHR '':'' \<notin> set (to_hex bs)" for bs
    using byte_nibbles by (auto simp: to_hex_def) (metis byte_nibbles)+
  then show ?thesis by (simp add: sample_crypto_def from_to_hex)
qed

lemma seeds_survive_rotation_witness:
  "\<exists>stored. encryptSecret sample_crypto [7] ''JBSW'' = Some stored \<and>
     decryptSecret (sample_crypto\<lparr>sessionKeys := [[2], [1]]\<rparr>) stored = Some ''JBSW''"
proof -
  obtain stored where stored: "encryptSecret sample_crypto [7] ''JBSW'' = Some stored"
    by (simp add: encryptSecret_def sample_crypto_def)
  have "decryptSecret (sample_crypto\<lparr>sessionKeys := [[2]] @ [1] # []\<rparr>) stored = Some ''JBSW''"
    by (rule seeds_survive_rotation [OF stored _ _ _ sample_base64, of _ "[]"])
      (auto simp: sample_crypto_def comp_def byte_char)
  with stored show ?thesis by auto
qed

end
