(* ===== verification/Sign_In.thy ===== *)
theory Sign_In
  imports Rate_Limit Totp
begin

text \<open>
  Signing in and out (\<^verbatim>\<open>features/authentication/server\<close> and its routes): credentials, the challenge
  of the second factor, the session that every request is checked against, and its end. Form
  validation belongs to the \<^verbatim>\<open>zod\<close> schemas, whose outcome is an argument; flash messages are named
  by their keys.
\<close>

section \<open>Credentials\<close>

definition DECOY_HASH :: string where
  "DECOY_HASH =
     ''scrypt$131072$8$1$a3f1c9e0b7d24856a3f1c9e0b7d24856$476ba733127aa020464321f8c35c29c0e8976548860928bc0e35869025ffca23''"

definition validateCredentials ::
  "crypto \<Rightarrow> bytes \<Rightarrow> string \<Rightarrow> string \<Rightarrow> int option \<Rightarrow> auth \<Rightarrow> int option \<times> auth" where
  "validateCredentials cry random email password congregationId db =
     (let user = find (\<lambda>a. acc_email a = lower_text email \<and>
            (case congregationId of None \<Rightarrow> True | Some c \<Rightarrow> acc_congregationId a = c)) (accounts db);
          passwordHash = (case user of Some a \<Rightarrow> if acc_active a then acc_password a else DECOY_HASH | None \<Rightarrow> DECOY_HASH)
      in case compare_password (kdf cry) password passwordHash of
           None \<Rightarrow> (None, db)
         | Some isValid \<Rightarrow>
             (case user of
                None \<Rightarrow> (None, db)
              | Some a \<Rightarrow>
                  if \<not> acc_active a then (None, db)
                  else if \<not> isValid then (None, db)
                  else
                    (Some (acc_id a),
                     if needsRehash (acc_password a)
                     then (case hash_password (kdf cry) random password of
                             None \<Rightarrow> db
                           | Some stored \<Rightarrow> update_account (acc_id a) (\<lambda>a. a\<lparr>acc_password := stored\<rparr>) db)
                     else db)))"

section \<open>Sessions\<close>

definition account_epoch :: "auth \<Rightarrow> int \<Rightarrow> int" where
  "account_epoch db userId = (case account_row db userId of None \<Rightarrow> 0 | Some a \<Rightarrow> acc_sessionEpoch a)"

definition establishAuthenticatedSession :: "auth \<Rightarrow> int \<Rightarrow> session \<Rightarrow> session" where
  "establishAuthenticatedSession db userId s =
     s\<lparr>sess_userId := Some (js_string userId), sess_sessionEpoch := Some (js_string (account_epoch db userId))\<rparr>"

text \<open>
  \<^verbatim>\<open>Number(raw)\<close> of an id in the session, when it is positive. Signed cookies only hold the texts of
  ids; any other number names no account.
\<close>

definition positive_id :: "string option \<Rightarrow> int option" where
  "positive_id raw =
     (case raw of
        None \<Rightarrow> None
      | Some t \<Rightarrow>
          (case js_integer t of None \<Rightarrow> None | Some i \<Rightarrow> if t = [] \<or> i \<le> 0 then None else Some i))"

definition session_epoch :: "session \<Rightarrow> int option" where
  "session_epoch s = (case sess_sessionEpoch s of None \<Rightarrow> Some 0 | Some t \<Rightarrow> js_integer t)"

text \<open>\<^verbatim>\<open>findUserFromSession\<close>: \<open>None\<close> is the redirection to the login page.\<close>

definition findUserFromSession :: "auth \<Rightarrow> session \<Rightarrow> login_account option" where
  "findUserFromSession db s =
     (case positive_id (sess_userId s) of
        None \<Rightarrow> None
      | Some userId \<Rightarrow>
          (case account_row db userId of
             None \<Rightarrow> None
           | Some user \<Rightarrow>
               if \<not> acc_active user then None
               else if session_epoch s \<noteq> Some (acc_sessionEpoch user) then None
               else Some user))"

definition redirectToLogin :: "string \<Rightarrow> answer" where
  "redirectToLogin redirectTo = Redirected (buildLoginRedirectUrl redirectTo) Destroy"

text \<open>The path and the query of the request, when its address parses.\<close>

definition extractRedirectTo :: "string option \<Rightarrow> string" where
  "extractRedirectTo path = (case path of None \<Rightarrow> ''/'' | Some p \<Rightarrow> normalizeRedirectPath p)"

definition verifySession ::
  "site \<Rightarrow> auth \<Rightarrow> int \<Rightarrow> string \<Rightarrow> string option \<Rightarrow> session \<Rightarrow> answer + (login_account \<times> tenant)" where
  "verifySession st db now hostname path s =
     (case findUserFromSession db s of
        None \<Rightarrow> Inl (redirectToLogin (extractRedirectTo path))
      | Some user \<Rightarrow>
          (case resolveCongregationFromRequest st db hostname of
             Inl location \<Rightarrow> Inl (Redirected location Keep_Cookie)
           | Inr urlCongregation \<Rightarrow>
               if (case urlCongregation of None \<Rightarrow> False | Some c \<Rightarrow> cong_id c \<noteq> acc_congregationId user)
               then Inl (redirectToLogin ''/'')
               else
                 (case findCongregation db (acc_congregationId user) of
                    None \<Rightarrow> Inl (redirectToLogin ''/'')
                  | Some c \<Rightarrow>
                      if cong_suspendedAt c \<noteq> None then Inl (Redirected ''/suspended'' Keep_Cookie)
                      else if (case cong_trialEndsAt c of None \<Rightarrow> False | Some t \<Rightarrow> t < now)
                      then Inl (Redirected ''/trial-expired'' Keep_Cookie)
                      else if acc_emailVerifiedAt user = None then Inl (Redirected ''/verify-email'' Keep_Cookie)
                      else Inr (user, c))))"

text \<open>\<^verbatim>\<open>requireAuth\<close>: a request reaches a page of the application only with the consent to data processing.\<close>

definition hasDataProcessingConsent :: "auth \<Rightarrow> int \<Rightarrow> bool" where
  "hasDataProcessingConsent db userId \<longleftrightarrow>
     list_ex (\<lambda>r. cr_userId r = userId \<and> cr_purpose r = ''DATA_PROCESSING'' \<and> cr_withdrawnAt r = None) (consents db)"

definition requireAuth ::
  "site \<Rightarrow> auth \<Rightarrow> int \<Rightarrow> string \<Rightarrow> string option \<Rightarrow> session \<Rightarrow> answer + (login_account \<times> tenant)" where
  "requireAuth st db now hostname path s =
     (case verifySession st db now hostname path s of
        Inl a \<Rightarrow> Inl a
      | Inr (user, c) \<Rightarrow>
          if \<not> hasDataProcessingConsent db (acc_id user) then Inl (Redirected ''/consent'' Keep_Cookie)
          else Inr (user, c))"

definition resolveLoginAuditCongregationId :: "auth \<Rightarrow> tenant option \<Rightarrow> (login_account \<Rightarrow> bool) \<Rightarrow> int option" where
  "resolveLoginAuditCongregationId db urlCongregation is_subject =
     (case urlCongregation of
        Some c \<Rightarrow> Some (cong_id c)
      | None \<Rightarrow> map_option acc_congregationId (find is_subject (accounts db)))"

definition audit_sign_in :: "string \<Rightarrow> int option \<Rightarrow> int option \<Rightarrow> string option \<Rightarrow> auth \<Rightarrow> auth" where
  "audit_sign_in action congregationId actorId actorEmail db =
     (case congregationId of None \<Rightarrow> db | Some c \<Rightarrow> login_audit action c actorId actorEmail db)"

section \<open>The login page\<close>

record login_request =
  lr_hostname :: string
  lr_ip :: "string option"
  lr_session :: session
  lr_submission :: "(string \<times> string) option"
  lr_form :: "string option"
  lr_query :: "string option"
  lr_now :: int
  lr_random :: bytes
  lr_redis :: bool

definition flash_error :: "string \<Rightarrow> session \<Rightarrow> session" where
  "flash_error message s = s\<lparr>sess_error := Some message\<rparr>"

definition flash_success :: "string \<Rightarrow> session \<Rightarrow> session" where
  "flash_success message s = s\<lparr>sess_success := Some message\<rparr>"

definition needSetupProcess :: "auth \<Rightarrow> bool" where
  "needSetupProcess db \<longleftrightarrow> length (accounts db) = 0"

definition loginLoader :: "site \<Rightarrow> string \<Rightarrow> string option \<Rightarrow> session \<Rightarrow> auth \<Rightarrow> answer" where
  "loginLoader st hostname query s db =
     (case resolveCongregationFromRequest st db hostname of
        Inl location \<Rightarrow> Redirected location Keep_Cookie
      | Inr urlCongregation \<Rightarrow>
          if needSetupProcess db then Redirected (if multiTenant st then ''/register'' else ''/setup'') Keep_Cookie
          else if sess_userId s \<noteq> None then
            (case positive_id (sess_userId s) of
               None \<Rightarrow> Shown Destroy
             | Some uid \<Rightarrow>
                 if (case urlCongregation of
                       None \<Rightarrow> False
                     | Some c \<Rightarrow>
                         (case account_row db uid of None \<Rightarrow> True | Some user \<Rightarrow> acc_congregationId user \<noteq> cong_id c))
                 then Shown Destroy
                 else Redirected (safeRedirectUrl (parseUrl st) query ''/'') Keep_Cookie)
          else Shown (Commit (s\<lparr>sess_error := None\<rparr>)))"

definition loginAction :: "site \<Rightarrow> crypto \<Rightarrow> login_request \<Rightarrow> auth \<Rightarrow> answer \<times> auth" where
  "loginAction st cry req db =
     (let postLoginRedirect = resolvePostLoginRedirect (parseUrl st) (lr_form req) (lr_query req);
          loginUrl = buildLoginRedirectUrl postLoginRedirect;
          s = lr_session req
      in case lr_submission req of
           None \<Rightarrow> (Bad_Request, db)
         | Some (username, password) \<Rightarrow>
             (case guardLoginAttempt st (lr_redis req) (lr_ip req) (lr_now req) (counters db) of
                (limited, cs) \<Rightarrow>
                  (let db = db\<lparr>counters := cs\<rparr>
                   in if limited then (Redirected loginUrl (Commit (flash_error ''rate_limit'' s)), db)
                      else
                        (case resolveCongregationFromRequest st db (lr_hostname req) of
                           Inl location \<Rightarrow> (Redirected location Keep_Cookie, db)
                         | Inr urlCongregation \<Rightarrow>
                             (case validateCredentials cry (lr_random req) username password (map_option cong_id urlCongregation) db of
                                (None, db) \<Rightarrow>
                                  (Redirected loginUrl (Commit (flash_error ''invalid_credentials'' s)),
                                   audit_sign_in ''user.login.failed''
                                     (resolveLoginAuditCongregationId db urlCongregation (\<lambda>a. acc_email a = lower_text username))
                                     None (Some username) db)
                              | (Some userId, db) \<Rightarrow>
                                  (let db = db\<lparr>counters := releaseLoginAttempt (lr_redis req) (lr_ip req) (lr_now req) (counters db)\<rparr>
                                   in if isTwoFactorEnabled db userId
                                      then (Redirected (buildTwoFactorChallengeUrl postLoginRedirect)
                                              (Commit (s\<lparr>sess_userId := None, sess_pending2faUserId := Some (js_string userId)\<rparr>)), db)
                                      else (Redirected postLoginRedirect (Commit (establishAuthenticatedSession db userId s)),
                                            audit_sign_in ''user.login''
                                              (resolveLoginAuditCongregationId db urlCongregation (\<lambda>a. acc_id a = userId))
                                              (Some userId) (Some username) db)))))))"

section \<open>The challenge\<close>

record challenge_request =
  ch_hostname :: string
  ch_session :: session
  ch_submission :: "string option"
  ch_form :: "string option"
  ch_query :: "string option"
  ch_now :: int
  ch_redis :: bool

text \<open>The inner \<open>None\<close> is no pending challenge for this host.\<close>

definition resolvePendingUserId :: "site \<Rightarrow> auth \<Rightarrow> string \<Rightarrow> string option \<Rightarrow> string + int option" where
  "resolvePendingUserId st db hostname rawPending =
     (case positive_id rawPending of
        None \<Rightarrow> Inr None
      | Some pendingId \<Rightarrow>
          (case resolveCongregationFromRequest st db hostname of
             Inl location \<Rightarrow> Inl location
           | Inr None \<Rightarrow> Inr (Some pendingId)
           | Inr (Some c) \<Rightarrow>
               (case account_row db pendingId of
                  None \<Rightarrow> Inr None
                | Some a \<Rightarrow> if acc_congregationId a \<noteq> cong_id c then Inr None else Inr (Some pendingId))))"

definition challengeLoader :: "site \<Rightarrow> string \<Rightarrow> session \<Rightarrow> auth \<Rightarrow> answer" where
  "challengeLoader st hostname s db =
     (case resolvePendingUserId st db hostname (sess_pending2faUserId s) of
        Inl location \<Rightarrow> Redirected location Keep_Cookie
      | Inr None \<Rightarrow> Redirected ''/login'' Destroy
      | Inr (Some _) \<Rightarrow> Shown (Commit (s\<lparr>sess_error := None\<rparr>)))"

definition challengeAction :: "site \<Rightarrow> crypto \<Rightarrow> challenge_request \<Rightarrow> auth \<Rightarrow> answer \<times> auth" where
  "challengeAction st cry req db =
     (let postLoginRedirect = resolvePostLoginRedirect (parseUrl st) (ch_form req) (ch_query req);
          challengeUrl = buildTwoFactorChallengeUrl postLoginRedirect;
          s = ch_session req
      in case resolvePendingUserId st db (ch_hostname req) (sess_pending2faUserId s) of
           Inl location \<Rightarrow> (Redirected location Keep_Cookie, db)
         | Inr None \<Rightarrow> (Redirected ''/login'' Destroy, db)
         | Inr (Some pendingId) \<Rightarrow>
             (case ch_submission req of
                None \<Rightarrow> (Bad_Request, db)
              | Some digits \<Rightarrow>
                  (case resolveCongregationFromRequest st db (ch_hostname req) of
                     Inl location \<Rightarrow> (Redirected location Keep_Cookie, db)
                   | Inr urlCongregation \<Rightarrow>
                       (case guardTwoFactorAttempt st (ch_redis req) pendingId (ch_now req) (counters db) of
                          (limited, cs) \<Rightarrow>
                            (let db = db\<lparr>counters := cs\<rparr>;
                                 congregationId = resolveLoginAuditCongregationId db urlCongregation (\<lambda>a. acc_id a = pendingId)
                             in if limited then (Redirected challengeUrl (Commit (flash_error ''rate_limit'' s)), db)
                                else if \<not> verifyTwoFactorChallenge cry db pendingId digits (ch_now req)
                                then (Redirected challengeUrl (Commit (flash_error ''invalid_code'' s)),
                                      audit_sign_in ''two_factor.challenge.failed'' congregationId (Some pendingId) None db)
                                else
                                  (let db = db\<lparr>counters := releaseTwoFactorAttempts (ch_redis req) pendingId (counters db)\<rparr>
                                   in (Redirected postLoginRedirect
                                         (Commit (establishAuthenticatedSession db pendingId (s\<lparr>sess_pending2faUserId := None\<rparr>))),
                                       audit_sign_in ''user.login'' congregationId (Some pendingId) None db)))))))"

section \<open>Signing out\<close>

definition revokeAccountSessions :: "int \<Rightarrow> auth \<Rightarrow> auth" where
  "revokeAccountSessions userId = update_account userId (\<lambda>a. a\<lparr>acc_sessionEpoch := acc_sessionEpoch a + 1\<rparr>)"

text \<open>One conditional update; whether it matched.\<close>

definition endCurrentSessions :: "int \<Rightarrow> int option \<Rightarrow> auth \<Rightarrow> bool \<times> auth" where
  "endCurrentSessions userId sessionEpoch db =
     (let current = (\<lambda>a. acc_id a = userId \<and> Some (acc_sessionEpoch a) = sessionEpoch \<and> acc_active a \<and> acc_anonymizedAt a = None)
      in (length (filter current (accounts db)) = 1,
          db\<lparr>accounts := update_where current (\<lambda>a. a\<lparr>acc_sessionEpoch := acc_sessionEpoch a + 1\<rparr>) (accounts db)\<rparr>))"

definition logoutAction :: "session \<Rightarrow> auth \<Rightarrow> answer \<times> auth" where
  "logoutAction s db =
     (Redirected ''/'' Destroy,
      (case positive_id (sess_userId s) of
         None \<Rightarrow> db
       | Some userId \<Rightarrow>
           (case endCurrentSessions userId (session_epoch s) db of
              (ended, db) \<Rightarrow>
                if ended
                then (case account_row db userId of
                        None \<Rightarrow> db
                      | Some user \<Rightarrow> login_audit ''user.logout'' (acc_congregationId user) (Some userId) None db)
                else db)))"

end
