(* ===== verification/Password_Flows.thy ===== *)
theory Password_Flows
  imports Sign_In
begin

text \<open>
  Changing and resetting passwords, verifying an address, the second factor's settings page, the
  calendar feed's address and consents (\<^verbatim>\<open>features/authentication/server\<close> and its routes). Fresh
  tokens, row identifiers and random bytes are arguments, as is \<open>tomorrow\<close>, twenty-four hours later on
  the server's clock; so is the verdict of the password policy, modelled in \<open>Password_Policy\<close>, and
  whether an e-mail was accepted.
\<close>

section \<open>Reset links\<close>

definition createPasswordResetToken ::
  "crypto \<Rightarrow> (int \<Rightarrow> int) \<Rightarrow> int \<Rightarrow> int \<Rightarrow> string \<Rightarrow> bool \<Rightarrow> int \<Rightarrow> auth \<Rightarrow> auth" where
  "createPasswordResetToken cry tomorrow now rowId token keepPending userId db =
     (let kept = delete_where (\<lambda>t. prt_userId t = userId \<and> (keepPending \<longrightarrow> prt_expiresAt t < now)) (resetTokens db)
      in db\<lparr>resetTokens := kept @
           [\<lparr>prt_id = rowId, prt_token = sha256_hex cry token, prt_userId = userId, prt_expiresAt = tomorrow now\<rparr>]\<rparr>)"

definition verifyPasswordResetToken :: "crypto \<Rightarrow> int \<Rightarrow> string \<Rightarrow> auth \<Rightarrow> login_account option \<times> auth" where
  "verifyPasswordResetToken cry now token db =
     (case find (\<lambda>t. prt_token t = sha256_hex cry token) (resetTokens db) of
        None \<Rightarrow> (None, db)
      | Some t \<Rightarrow>
          if prt_expiresAt t < now
          then (None, db\<lparr>resetTokens := delete_where (\<lambda>r. prt_id r = prt_id t) (resetTokens db)\<rparr>)
          else (account_row db (prt_userId t), db))"

text \<open>\<open>None\<close> is an exception: no such account, or a rejection of the derivation.\<close>

definition resetAccountPassword :: "crypto \<Rightarrow> bytes \<Rightarrow> int \<Rightarrow> int \<Rightarrow> string \<Rightarrow> auth \<Rightarrow> auth option" where
  "resetAccountPassword cry random now userId password db =
     (case (account_row db userId, hash_password (kdf cry) random password) of
        (Some account, Some hashedPassword) \<Rightarrow>
          Some ((update_account userId (\<lambda>a. a\<lparr>acc_password := hashedPassword, acc_sessionEpoch := acc_sessionEpoch a + 1,
                  acc_emailVerifiedAt := (if acc_emailVerifiedAt account = None then Some now else acc_emailVerifiedAt a)\<rparr>) db)
                \<lparr>resetTokens := delete_where (\<lambda>t. prt_userId t = userId) (resetTokens db)\<rparr>)
      | _ \<Rightarrow> None)"

definition changeAccountPassword :: "crypto \<Rightarrow> bytes \<Rightarrow> int \<Rightarrow> int \<Rightarrow> string \<Rightarrow> string \<Rightarrow> auth \<Rightarrow> (bool \<times> auth) option" where
  "changeAccountPassword cry random now userId password newPassword db =
     (case account_row db userId of
        None \<Rightarrow> Some (False, db)
      | Some user \<Rightarrow>
          (case compare_password (kdf cry) password (acc_password user) of
             None \<Rightarrow> Some (False, db)
           | Some isValid \<Rightarrow>
               if \<not> isValid then Some (False, db)
               else map_option (\<lambda>db. (True, db)) (resetAccountPassword cry random now userId newPassword db)))"

section \<open>Pages\<close>

text \<open>A page that throws answers nothing: \<open>None\<close>.\<close>

definition passwordResetAction ::
  "crypto \<Rightarrow> bytes \<Rightarrow> int \<Rightarrow> string \<Rightarrow> (string \<times> string) option \<Rightarrow> string option \<Rightarrow> session \<Rightarrow> auth \<Rightarrow> (answer \<times> auth) option" where
  "passwordResetAction cry random now userHash submission policyError s db =
     (case submission of
        None \<Rightarrow> Some (Bad_Request, db)
      | Some (username, password) \<Rightarrow>
          (case verifyPasswordResetToken cry now userHash db of
             (None, db) \<Rightarrow> Some (Redirected ''/'' (Commit (flash_error ''invalid_token'' s)), db)
           | (Some user, db) \<Rightarrow>
               if acc_email user \<noteq> username then Some (Redirected ''/'' (Commit (flash_error ''invalid_token'' s)), db)
               else if policyError \<noteq> None then Some (Bad_Request, db)
               else map_option (\<lambda>db. (Redirected ''/'' (Commit (flash_success ''password_reset'' s)), db))
                      (resetAccountPassword cry random now (acc_id user) password db)))"

definition changePasswordAction ::
  "crypto \<Rightarrow> bytes \<Rightarrow> int \<Rightarrow> login_account \<Rightarrow> (string \<times> string) option \<Rightarrow> string option \<Rightarrow> session \<Rightarrow> auth \<Rightarrow> (answer \<times> auth) option" where
  "changePasswordAction cry random now currentUser submission policyError s db =
     (case submission of
        None \<Rightarrow> Some (Bad_Request, db)
      | Some (password, newPassword) \<Rightarrow>
          if policyError \<noteq> None then Some (Bad_Request, db)
          else
            map_option (\<lambda>(isSuccess, db).
              if \<not> isSuccess then (Redirected ''/me/profile'' (Commit (flash_error ''change_password'' s)), db)
              else
                (let db = login_audit ''password.changed'' (acc_congregationId currentUser) (Some (acc_id currentUser)) None db
                 in (Redirected ''/me/profile'' (Commit (establishAuthenticatedSession db (acc_id currentUser) s)), db)))
              (changeAccountPassword cry random now (acc_id currentUser) password newPassword db))"

datatype RequestPasswordResetResult = Too_Many | Limiter_Down | No_User | Processed bool

record forgot_request =
  fr_email :: string
  fr_ip :: "string option"
  fr_now :: int
  fr_redis :: bool
  fr_rowId :: int
  fr_token :: string
  fr_emailDelivered :: bool

definition requestPasswordReset ::
  "crypto \<Rightarrow> (int \<Rightarrow> int) \<Rightarrow> forgot_request \<Rightarrow> auth \<Rightarrow> RequestPasswordResetResult \<times> auth" where
  "requestPasswordReset cry tomorrow req db =
     (case guardPasswordResetRequest (fr_redis req) (lower_text (fr_email req)) (fr_ip req) (fr_now req) (counters db) of
        (guard, cs) \<Rightarrow>
          (let db = db\<lparr>counters := cs\<rparr>
           in case guard of
                Rate_Limited \<Rightarrow> (Too_Many, db)
              | Unavailable \<Rightarrow> (Limiter_Down, db)
              | Not_Limited \<Rightarrow>
                  (case find (\<lambda>a. acc_email a = lower_text (fr_email req)) (accounts db) of
                     None \<Rightarrow> (No_User, db)
                   | Some user \<Rightarrow>
                       (Processed (fr_emailDelivered req),
                        login_audit ''password.reset.requested'' (acc_congregationId user) (Some (acc_id user)) None
                          (createPasswordResetToken cry tomorrow (fr_now req) (fr_rowId req) (fr_token req) True (acc_id user) db)))))"

definition forgotPasswordAction ::
  "crypto \<Rightarrow> (int \<Rightarrow> int) \<Rightarrow> forgot_request option \<Rightarrow> session \<Rightarrow> auth \<Rightarrow> answer \<times> auth" where
  "forgotPasswordAction cry tomorrow submission s db =
     (case submission of
        None \<Rightarrow> (Bad_Request, db)
      | Some req \<Rightarrow>
          (case requestPasswordReset cry tomorrow req db of
             (result, db) \<Rightarrow>
               (Redirected ''/password/forgot'' (Commit
                  (if result = Limiter_Down then flash_error ''unavailable'' s
                   else
                     (let s = flash_success ''reset_requested'' s
                      in if result = Processed False then flash_error ''email_send'' s else s))), db)))"

text \<open>An admin ends the sessions of an account and sends it a link.\<close>

definition passwordInvalidationAction ::
  "crypto \<Rightarrow> (int \<Rightarrow> int) \<Rightarrow> int \<Rightarrow> int \<Rightarrow> string \<Rightarrow> bool \<Rightarrow> login_account \<Rightarrow> bool \<Rightarrow> int \<Rightarrow> session \<Rightarrow> auth \<Rightarrow> answer \<times> auth" where
  "passwordInvalidationAction cry tomorrow now rowId token sent currentUser canManageUsers userId s db =
     (if \<not> canManageUsers then (Redirected ''/'' Keep_Cookie, db)
      else
        (case find (\<lambda>a. acc_id a = userId \<and> acc_congregationId a = acc_congregationId currentUser) (accounts db) of
           None \<Rightarrow> (Redirected ''/settings/users'' Keep_Cookie, db)
         | Some user \<Rightarrow>
             (let db = createPasswordResetToken cry tomorrow now rowId token False (acc_id user)
                  (login_audit ''password.reset.requested'' (acc_congregationId user) (Some (acc_id currentUser)) None
                    (revokeAccountSessions (acc_id user) db))
              in (Redirected (''/settings/users/'' @ js_string (acc_id user) @ ''/edit'')
                    (Commit (if \<not> sent then flash_error ''email_send'' s else flash_success ''password_invalidated'' s)), db))))"

section \<open>Verifying an address\<close>

definition createEmailVerificationToken :: "crypto \<Rightarrow> (int \<Rightarrow> int) \<Rightarrow> int \<Rightarrow> int \<Rightarrow> string \<Rightarrow> int \<Rightarrow> auth \<Rightarrow> auth" where
  "createEmailVerificationToken cry tomorrow now rowId token userId db =
     db\<lparr>verificationTokens := delete_where (\<lambda>t. evt_userId t = userId) (verificationTokens db) @
       [\<lparr>evt_id = rowId, evt_token = sha256_hex cry token, evt_userId = userId, evt_expiresAt = tomorrow now, evt_createdAt = now\<rparr>]\<rparr>"

definition verifyEmailVerificationToken :: "crypto \<Rightarrow> int \<Rightarrow> string \<Rightarrow> auth \<Rightarrow> login_account option \<times> auth" where
  "verifyEmailVerificationToken cry now token db =
     (case find (\<lambda>t. evt_token t = sha256_hex cry token) (verificationTokens db) of
        None \<Rightarrow> (None, db)
      | Some t \<Rightarrow>
          if evt_expiresAt t < now
          then (None, db\<lparr>verificationTokens := delete_where (\<lambda>r. evt_id r = evt_id t) (verificationTokens db)\<rparr>)
          else (account_row db (evt_userId t), db))"

definition consumeEmailVerificationToken :: "crypto \<Rightarrow> int \<Rightarrow> string \<Rightarrow> auth \<Rightarrow> auth" where
  "consumeEmailVerificationToken cry now token db =
     (case find (\<lambda>t. evt_token t = sha256_hex cry token) (verificationTokens db) of
        None \<Rightarrow> db
      | Some t \<Rightarrow>
          (update_account (evt_userId t) (\<lambda>a. a\<lparr>acc_emailVerifiedAt := Some now\<rparr>) db)
            \<lparr>verificationTokens := delete_where (\<lambda>r. evt_id r = evt_id t) (verificationTokens db)\<rparr>)"

definition RESEND_COOLDOWN_SECONDS :: int where
  "RESEND_COOLDOWN_SECONDS = 60"

definition getLatestVerificationToken :: "auth \<Rightarrow> int \<Rightarrow> verification_token option" where
  "getLatestVerificationToken db userId =
     (case js_sort (\<lambda>a b. evt_createdAt b - evt_createdAt a) (filter (\<lambda>t. evt_userId t = userId) (verificationTokens db)) of
        [] \<Rightarrow> None | t # _ \<Rightarrow> Some t)"

definition verifyEmailLoader :: "session \<Rightarrow> auth \<Rightarrow> answer" where
  "verifyEmailLoader s db =
     (case positive_id (sess_userId s) of
        None \<Rightarrow> Redirected ''/login'' Keep_Cookie
      | Some userId \<Rightarrow>
          (case account_row db userId of
             None \<Rightarrow> Redirected ''/login'' Destroy
           | Some user \<Rightarrow>
               if \<not> acc_active user then Redirected ''/login'' Destroy
               else if acc_emailVerifiedAt user \<noteq> None then Redirected ''/'' Keep_Cookie
               else Shown (Commit (s\<lparr>sess_success := None\<rparr>))))"

definition resendVerificationAction ::
  "crypto \<Rightarrow> (int \<Rightarrow> int) \<Rightarrow> int \<Rightarrow> int \<Rightarrow> string \<Rightarrow> bool \<Rightarrow> session \<Rightarrow> auth \<Rightarrow> answer \<times> auth" where
  "resendVerificationAction cry tomorrow now rowId token sent s db =
     (case positive_id (sess_userId s) of
        None \<Rightarrow> (Redirected ''/login'' Keep_Cookie, db)
      | Some userId \<Rightarrow>
          (case account_row db userId of
             None \<Rightarrow> (Redirected ''/login'' Keep_Cookie, db)
           | Some user \<Rightarrow>
               if (case getLatestVerificationToken db userId of
                     None \<Rightarrow> False
                   | Some t \<Rightarrow> now - evt_createdAt t < RESEND_COOLDOWN_SECONDS * 1000)
               then (Redirected ''/verify-email'' (Commit (flash_success ''rate_limited'' s)), db)
               else
                 (Redirected ''/verify-email'' (Commit (flash_success (if sent then ''resent'' else ''email_send'') s)),
                  createEmailVerificationToken cry tomorrow now rowId token userId db)))"

definition confirmEmailAction :: "crypto \<Rightarrow> int \<Rightarrow> string \<Rightarrow> session \<Rightarrow> auth \<Rightarrow> answer \<times> auth" where
  "confirmEmailAction cry now token s db =
     (case verifyEmailVerificationToken cry now token db of
        (None, db) \<Rightarrow> (Shown Keep_Cookie, db)
      | (Some user, db) \<Rightarrow>
          (let db = consumeEmailVerificationToken cry now token db
           in (if positive_id (sess_userId s) = Some (acc_id user) then Redirected ''/'' Keep_Cookie
               else Redirected ''/login'' (Commit (flash_success ''confirmed'' s)), db)))"

section \<open>The settings of the second factor\<close>

text \<open>The code of each form is its outcome under \<^verbatim>\<open>twoFactorCodeSchema\<close>.\<close>

datatype security_answer = Two_Factor_Error | Setup_Step string bool | Security_Redirect cookie

definition handleStart ::
  "crypto \<Rightarrow> bytes \<Rightarrow> string \<Rightarrow> int \<Rightarrow> login_account \<Rightarrow> string option \<Rightarrow> auth \<Rightarrow> (security_answer \<times> auth) option" where
  "handleStart cry iv secret now actor proof db =
     (if fst (getTwoFactorStatus db (acc_id actor)) \<and>
         (case proof of None \<Rightarrow> True | Some digits \<Rightarrow> \<not> verifyTwoFactorChallenge cry db (acc_id actor) digits now)
      then Some (Two_Factor_Error, db)
      else map_option (\<lambda>db. (Setup_Step secret False, db)) (startTwoFactorEnrollment cry iv secret (acc_id actor) db))"

definition handleConfirm ::
  "crypto \<Rightarrow> int \<Rightarrow> login_account \<Rightarrow> string \<Rightarrow> string option \<Rightarrow> session \<Rightarrow> auth \<Rightarrow> (security_answer \<times> auth) option" where
  "handleConfirm cry now actor submittedSecret submission s db =
     (case submission of
        None \<Rightarrow> Some (Setup_Step submittedSecret True, db)
      | Some digits \<Rightarrow>
          map_option (\<lambda>(confirmed, db).
            if \<not> confirmed then (Setup_Step submittedSecret True, db)
            else (Security_Redirect (Commit (flash_success ''two_factor_enabled'' s)),
                  login_audit ''two_factor.enabled'' (acc_congregationId actor) (Some (acc_id actor)) None db))
            (confirmTwoFactorEnrollment cry (acc_id actor) digits now db))"

definition handleDisable ::
  "crypto \<Rightarrow> int \<Rightarrow> login_account \<Rightarrow> string option \<Rightarrow> session \<Rightarrow> auth \<Rightarrow> security_answer \<times> auth" where
  "handleDisable cry now actor submission s db =
     (if (case submission of None \<Rightarrow> True | Some digits \<Rightarrow> \<not> verifyTwoFactorChallenge cry db (acc_id actor) digits now)
      then (Two_Factor_Error, db)
      else (Security_Redirect (Commit (flash_success ''two_factor_disabled'' s)),
            login_audit ''two_factor.disabled'' (acc_congregationId actor) (Some (acc_id actor)) None
              (disableTwoFactor (acc_id actor) db)))"

section \<open>Preferences\<close>

definition setAccountLocale :: "int \<Rightarrow> int \<Rightarrow> string option \<Rightarrow> int \<Rightarrow> auth \<Rightarrow> bool \<times> auth" where
  "setAccountLocale accountId congregationId locale actorId db =
     (case find (\<lambda>a. acc_id a = accountId \<and> acc_congregationId a = congregationId) (accounts db) of
        None \<Rightarrow> (False, db)
      | Some account \<Rightarrow>
          if acc_locale account = locale then (False, db)
          else
            (let text = (\<lambda>l. case l of None \<Rightarrow> JNull | Some t \<Rightarrow> JStr t);
                 row = \<lparr>au_action = ''user.locale.changed'', au_congregationId = congregationId, au_actorId = Some actorId,
                   au_entityType = Some ''User'', au_entityId = Some accountId,
                   au_metadata = Some [(''from'', text (acc_locale account)), (''to'', text locale)], au_actorEmail = None\<rparr>;
                 db = db\<lparr>accounts := update_where (\<lambda>a. acc_id a = accountId \<and> acc_congregationId a = congregationId)
                   (\<lambda>a. a\<lparr>acc_locale := locale\<rparr>) (accounts db)\<rparr>
             in (True, db\<lparr>journal := journal db @ [row]\<rparr>)))"

definition createCalendarFeedToken :: "int \<Rightarrow> string \<Rightarrow> int \<Rightarrow> auth \<Rightarrow> auth" where
  "createCalendarFeedToken rowId token userId db =
     db\<lparr>feedTokens := delete_where (\<lambda>t. cft_userId t = userId) (feedTokens db) @
       [\<lparr>cft_id = rowId, cft_token = token, cft_userId = userId, cft_lastUsedAt = None\<rparr>]\<rparr>"

definition revokeCalendarFeedToken :: "int \<Rightarrow> auth \<Rightarrow> auth" where
  "revokeCalendarFeedToken userId db = db\<lparr>feedTokens := delete_where (\<lambda>t. cft_userId t = userId) (feedTokens db)\<rparr>"

definition getCalendarFeedToken :: "auth \<Rightarrow> int \<Rightarrow> feed_token option" where
  "getCalendarFeedToken db userId = find (\<lambda>t. cft_userId t = userId) (feedTokens db)"

definition findUserByCalendarFeedToken :: "auth \<Rightarrow> string \<Rightarrow> (int \<times> login_account) option" where
  "findUserByCalendarFeedToken db token =
     (case find (\<lambda>t. cft_token t = token) (feedTokens db) of
        None \<Rightarrow> None
      | Some t \<Rightarrow> map_option (\<lambda>user. (cft_id t, user)) (account_row db (cft_userId t)))"

definition touchCalendarFeedToken :: "int \<Rightarrow> int \<Rightarrow> auth \<Rightarrow> auth" where
  "touchCalendarFeedToken tokenId now db =
     db\<lparr>feedTokens := update_where (\<lambda>t. cft_id t = tokenId) (\<lambda>t. t\<lparr>cft_lastUsedAt := Some now\<rparr>) (feedTokens db)\<rparr>"

definition recordConsentUnscoped :: "int \<Rightarrow> int \<Rightarrow> int \<Rightarrow> int \<Rightarrow> string \<Rightarrow> auth \<Rightarrow> auth" where
  "recordConsentUnscoped rowId now userId congregationId purpose db =
     db\<lparr>consents := consents db @ [\<lparr>cr_id = rowId, cr_userId = userId, cr_congregationId = congregationId,
       cr_purpose = purpose, cr_consentedAt = now, cr_withdrawnAt = None, cr_consentVersion = ''1.0''\<rparr>]\<rparr>"

definition latest_consents :: "(consent_record \<Rightarrow> bool) \<Rightarrow> auth \<Rightarrow> consent_record list" where
  "latest_consents sel db = js_sort (\<lambda>a b. cr_consentedAt b - cr_consentedAt a) (filter sel (consents db))"

definition withdrawConsent :: "int \<Rightarrow> int \<Rightarrow> int \<Rightarrow> string \<Rightarrow> auth \<Rightarrow> auth" where
  "withdrawConsent now congregationId userId purpose db =
     (case latest_consents (\<lambda>r. cr_congregationId r = congregationId \<and> cr_userId r = userId \<and> cr_purpose r = purpose \<and>
             cr_withdrawnAt r = None) db of
        [] \<Rightarrow> db
      | record # _ \<Rightarrow>
          db\<lparr>consents := update_where (\<lambda>r. cr_id r = cr_id record \<and> cr_congregationId r = cr_congregationId record)
            (\<lambda>r. r\<lparr>cr_withdrawnAt := Some now\<rparr>) (consents db)\<rparr>)"

definition getActiveConsents :: "int \<Rightarrow> int \<Rightarrow> auth \<Rightarrow> consent_record list" where
  "getActiveConsents congregationId userId =
     latest_consents (\<lambda>r. cr_congregationId r = congregationId \<and> cr_userId r = userId \<and> cr_withdrawnAt r = None)"

end
