(* ===== verification/Session_Laws.thy ===== *)
theory Session_Laws
  imports Password_Flows
begin

text \<open>
  The sessions of an instance as a transition system: every page that issues a cookie or changes an
  account, visited by anybody who presents a cookie that was issued, or none. Issued sessions never
  run ahead of their account, so ending the sessions of an account ends them for good; and nobody
  reaches an account whose second factor is armed without its code.
\<close>

section \<open>Visits\<close>

record world =
  w_auth :: auth
  w_issued :: "session set"

text \<open>What a visit to a page behind \<^verbatim>\<open>requireAuth\<close> carries.\<close>

record visit =
  v_hostname :: string
  v_path :: "string option"
  v_session :: session
  v_now :: int
  v_random :: bytes
  v_token :: string
  v_rowId :: int
  v_sent :: bool

datatype action =
  Login_Form login_request
| Challenge_Form challenge_request
| Logout_Form session
| Change_Form visit "(string \<times> string) option" "string option"
| Reset_Form visit string "(string \<times> string) option" "string option"
| Forgot_Form "forgot_request option" session
| Invalidate_Form visit bool int
| Start_Form visit string "string option"
| Confirm_Form visit string "string option"
| Disable_Form visit "string option"
| Resend_Form visit
| Email_Form visit string

definition committed :: "answer \<Rightarrow> session set" where
  "committed a = (case a of Redirected _ (Commit s) \<Rightarrow> {s} | Shown (Commit s) \<Rightarrow> {s} | _ \<Rightarrow> {})"

definition security_committed :: "security_answer \<Rightarrow> session set" where
  "security_committed a = (case a of Security_Redirect (Commit s) \<Rightarrow> {s} | _ \<Rightarrow> {})"

definition presented :: "world \<Rightarrow> session \<Rightarrow> bool" where
  "presented w s \<longleftrightarrow> s \<in> insert empty_session (w_issued w)"

definition after_visit :: "world \<Rightarrow> session set \<Rightarrow> auth \<Rightarrow> world" where
  "after_visit w new db = \<lparr>w_auth = db, w_issued = w_issued w \<union> new\<rparr>"

inductive step :: "site \<Rightarrow> crypto \<Rightarrow> (int \<Rightarrow> int) \<Rightarrow> world \<Rightarrow> action \<Rightarrow> world \<Rightarrow> bool"
  for st cry tomorrow where
  login: "presented w (lr_session req) \<Longrightarrow> loginAction st cry req (w_auth w) = (a, db) \<Longrightarrow>
    step st cry tomorrow w (Login_Form req) (after_visit w (committed a) db)"
| challenge: "presented w (ch_session req) \<Longrightarrow> challengeAction st cry req (w_auth w) = (a, db) \<Longrightarrow>
    step st cry tomorrow w (Challenge_Form req) (after_visit w (committed a) db)"
| logout: "presented w s \<Longrightarrow> logoutAction s (w_auth w) = (a, db) \<Longrightarrow>
    step st cry tomorrow w (Logout_Form s) (after_visit w (committed a) db)"
| change: "presented w (v_session v) \<Longrightarrow>
    requireAuth st (w_auth w) (v_now v) (v_hostname v) (v_path v) (v_session v) = Inr (user, c) \<Longrightarrow>
    changePasswordAction cry (v_random v) (v_now v) user form verdict (v_session v) (w_auth w) = Some (a, db) \<Longrightarrow>
    step st cry tomorrow w (Change_Form v form verdict) (after_visit w (committed a) db)"
| reset: "presented w (v_session v) \<Longrightarrow>
    passwordResetAction cry (v_random v) (v_now v) token form verdict (v_session v) (w_auth w) = Some (a, db) \<Longrightarrow>
    step st cry tomorrow w (Reset_Form v token form verdict) (after_visit w (committed a) db)"
| forgot: "presented w s \<Longrightarrow> forgotPasswordAction cry tomorrow form s (w_auth w) = (a, db) \<Longrightarrow>
    step st cry tomorrow w (Forgot_Form form s) (after_visit w (committed a) db)"
| invalidate: "presented w (v_session v) \<Longrightarrow>
    requireAuth st (w_auth w) (v_now v) (v_hostname v) (v_path v) (v_session v) = Inr (user, c) \<Longrightarrow>
    passwordInvalidationAction cry tomorrow (v_now v) (v_rowId v) (v_token v) (v_sent v) user can target (v_session v) (w_auth w) = (a, db) \<Longrightarrow>
    step st cry tomorrow w (Invalidate_Form v can target) (after_visit w (committed a) db)"
| start: "presented w (v_session v) \<Longrightarrow>
    requireAuth st (w_auth w) (v_now v) (v_hostname v) (v_path v) (v_session v) = Inr (user, c) \<Longrightarrow>
    handleStart cry (v_random v) secret (v_now v) user proof (w_auth w) = Some (b, db) \<Longrightarrow>
    step st cry tomorrow w (Start_Form v secret proof) (after_visit w (security_committed b) db)"
| confirm: "presented w (v_session v) \<Longrightarrow>
    requireAuth st (w_auth w) (v_now v) (v_hostname v) (v_path v) (v_session v) = Inr (user, c) \<Longrightarrow>
    handleConfirm cry (v_now v) user shown form (v_session v) (w_auth w) = Some (b, db) \<Longrightarrow>
    step st cry tomorrow w (Confirm_Form v shown form) (after_visit w (security_committed b) db)"
| disable: "presented w (v_session v) \<Longrightarrow>
    requireAuth st (w_auth w) (v_now v) (v_hostname v) (v_path v) (v_session v) = Inr (user, c) \<Longrightarrow>
    handleDisable cry (v_now v) user form (v_session v) (w_auth w) = (b, db) \<Longrightarrow>
    step st cry tomorrow w (Disable_Form v form) (after_visit w (security_committed b) db)"
| resend: "presented w (v_session v) \<Longrightarrow>
    resendVerificationAction cry tomorrow (v_now v) (v_rowId v) (v_token v) (v_sent v) (v_session v) (w_auth w) = (a, db) \<Longrightarrow>
    step st cry tomorrow w (Resend_Form v) (after_visit w (committed a) db)"
| email: "presented w (v_session v) \<Longrightarrow>
    confirmEmailAction cry (v_now v) token (v_session v) (w_auth w) = (a, db) \<Longrightarrow>
    step st cry tomorrow w (Email_Form v token) (after_visit w (committed a) db)"

inductive_cases stepE: "step st cry tomorrow w act w'"

inductive steps :: "site \<Rightarrow> crypto \<Rightarrow> (int \<Rightarrow> int) \<Rightarrow> world \<Rightarrow> world \<Rightarrow> bool" for st cry tomorrow where
  steps_refl: "steps st cry tomorrow w w"
| steps_step: "steps st cry tomorrow w w' \<Longrightarrow> step st cry tomorrow w' act w'' \<Longrightarrow> steps st cry tomorrow w w''"

text \<open>An instance starts with accounts that have their own positive identifiers, and no cookie.\<close>

definition accounts_ok :: "auth \<Rightarrow> bool" where
  "accounts_ok db \<longleftrightarrow> distinct (map acc_id (accounts db)) \<and> list_all (\<lambda>a. 0 < acc_id a \<and> 0 \<le> acc_sessionEpoch a) (accounts db)"

inductive reachable :: "site \<Rightarrow> crypto \<Rightarrow> (int \<Rightarrow> int) \<Rightarrow> world \<Rightarrow> bool" for st cry tomorrow where
  start: "accounts_ok db \<Longrightarrow> reachable st cry tomorrow \<lparr>w_auth = db, w_issued = {}\<rparr>"
| visit: "reachable st cry tomorrow w \<Longrightarrow> step st cry tomorrow w act w' \<Longrightarrow> reachable st cry tomorrow w'"

section \<open>Epochs only rise\<close>

definition risen :: "auth \<Rightarrow> auth \<Rightarrow> bool" where
  "risen db db' \<longleftrightarrow> list_all2 (\<lambda>a b. acc_id b = acc_id a \<and> acc_active b = acc_active a \<and> acc_sessionEpoch a \<le> acc_sessionEpoch b)
     (accounts db) (accounts db')"

lemma risen_refl [simp, intro]: "risen db db"
  by (simp add: risen_def list_all2_same)

lemma risen_same: "accounts db' = accounts db \<Longrightarrow> risen db db'"
  by (simp add: risen_def list_all2_same)

lemma risen_trans [trans]: "risen a b \<Longrightarrow> risen b c \<Longrightarrow> risen a c"
  unfolding risen_def by (rule list_all2_trans [rotated], assumption, assumption, auto)

lemma risen_update:
  assumes "\<And>a. acc_id (f a) = acc_id a \<and> acc_active (f a) = acc_active a \<and> acc_sessionEpoch a \<le> acc_sessionEpoch (f a)"
  shows "risen db (db\<lparr>accounts := update_where P f (accounts db)\<rparr>)"
  using assms by (simp add: risen_def update_where_def list_all2_map2 list_all2_same)

lemma risen_update_account [intro]:
  assumes "\<And>a. acc_id (f a) = acc_id a \<and> acc_active (f a) = acc_active a \<and> acc_sessionEpoch a \<le> acc_sessionEpoch (f a)"
  shows "risen db (update_account i f db)"
  unfolding update_account_def by (rule risen_update [OF assms])

lemma risen_frame [simp]:
  "risen db (db'\<lparr>counters := cs\<rparr>) = risen db db'" "risen db (db'\<lparr>journal := j\<rparr>) = risen db db'"
  "risen db (db'\<lparr>resetTokens := r\<rparr>) = risen db db'" "risen db (db'\<lparr>verificationTokens := t\<rparr>) = risen db db'"
  "risen db (login_audit x c i e db') = risen db db'" "risen db (audit_sign_in x oc i e db') = risen db db'"
  by (simp_all add: risen_def login_audit_def audit_sign_in_def split: option.split)

lemma account_row_frame [simp]:
  "account_row (db\<lparr>counters := cs\<rparr>) = account_row db" "account_row (login_audit x c i e db) = account_row db"
  "account_row (audit_sign_in x oc i e db) = account_row db" "account_row (db\<lparr>resetTokens := r\<rparr>) = account_row db"
  by (simp_all add: account_row_def login_audit_def audit_sign_in_def fun_eq_iff split: option.split)

lemma account_epoch_frame [simp]:
  "account_epoch (db\<lparr>counters := cs\<rparr>) = account_epoch db" "account_epoch (login_audit x c i e db) = account_epoch db"
  "account_epoch (audit_sign_in x oc i e db) = account_epoch db" "account_epoch (db\<lparr>resetTokens := r\<rparr>) = account_epoch db"
  by (simp_all add: account_epoch_def fun_eq_iff)

lemma find_related:
  assumes "list_all2 R xs ys" and "\<And>x y. R x y \<Longrightarrow> P x = P y"
  shows "(find P xs = None \<and> find P ys = None) \<or> (\<exists>x y. find P xs = Some x \<and> find P ys = Some y \<and> R x y)"
  using assms(1)
proof induction
  case (Cons x xs y ys)
  then show ?case using assms(2) [of x y] by auto
qed simp

lemma risen_row:
  assumes "risen db db'"
  shows "(account_row db i = None \<and> account_row db' i = None) \<or>
    (\<exists>a b. account_row db i = Some a \<and> account_row db' i = Some b \<and> acc_active b = acc_active a \<and>
       acc_sessionEpoch a \<le> acc_sessionEpoch b)"
  using find_related [OF assms [unfolded risen_def], of "\<lambda>a. acc_id a = i"] by (auto simp: account_row_def)

lemma risen_epoch: "risen db db' \<Longrightarrow> account_epoch db i \<le> account_epoch db' i"
  using risen_row [of db db' i] by (auto simp: account_epoch_def)

lemma risen_ok: "risen db db' \<Longrightarrow> accounts_ok db \<Longrightarrow> accounts_ok db'"
proof -
  assume r: "risen db db'" and ok: "accounts_ok db"
  have "map acc_id (accounts db') = map acc_id (accounts db)"
    using r unfolding risen_def by induction auto
  moreover have "list_all (\<lambda>a. 0 < acc_id a \<and> 0 \<le> acc_sessionEpoch a) (accounts db')"
    using ok r unfolding accounts_ok_def risen_def by (auto simp: list_all_iff list_all2_conv_all_nth set_conv_nth) (smt (verit))
  ultimately show ?thesis using ok by (simp add: accounts_ok_def)
qed

section \<open>What a page may issue\<close>

text \<open>A session that names the account another one names, with the same epoch, or nobody, or one just established.\<close>

definition issued_from :: "auth \<Rightarrow> session \<Rightarrow> session \<Rightarrow> bool" where
  "issued_from db s s' \<longleftrightarrow>
     (sess_userId s' = sess_userId s \<and> sess_sessionEpoch s' = sess_sessionEpoch s) \<or> sess_userId s' = None \<or>
     (\<exists>i s0. account_row db i \<noteq> None \<and> s' = establishAuthenticatedSession db i s0)"

lemma flash_issued [simp]: "issued_from db s (flash_error m s)" "issued_from db s (flash_success m s)"
    "issued_from db s (flash_error m (flash_success m' s))"
  by (simp_all add: issued_from_def flash_error_def flash_success_def)

lemma pending_issued [simp]: "issued_from db s (s\<lparr>sess_userId := None, sess_pending2faUserId := x\<rparr>)"
  by (simp add: issued_from_def)

lemma established_frame [simp]:
  "establishAuthenticatedSession (db\<lparr>counters := cs\<rparr>) = establishAuthenticatedSession db"
  "establishAuthenticatedSession (login_audit x c i e db) = establishAuthenticatedSession db"
  "establishAuthenticatedSession (audit_sign_in x oc i e db) = establishAuthenticatedSession db"
  by (simp_all add: establishAuthenticatedSession_def fun_eq_iff)

lemma issued_frame [simp]:
  "issued_from (db\<lparr>counters := cs\<rparr>) = issued_from db" "issued_from (login_audit x c i e db) = issued_from db"
  "issued_from (audit_sign_in x oc i e db) = issued_from db"
  by (simp_all add: issued_from_def fun_eq_iff)

lemma issued_established: "account_row db i \<noteq> None \<Longrightarrow> issued_from db s (establishAuthenticatedSession db i s0)"
  by (auto simp: issued_from_def)

lemma validateCredentials_risen:
  assumes "validateCredentials cry r email password c db = (u, db')"
  shows "risen db db' \<and> (\<forall>i. u = Some i \<longrightarrow> account_row db' i \<noteq> None)"
proof (cases u)
  case None
  then show ?thesis using assms by (auto simp: validateCredentials_def Let_def split: option.splits if_splits)
next
  case (Some i)
  define found where "found = find (\<lambda>a. acc_email a = lower_text email \<and>
            (case c of None \<Rightarrow> True | Some c \<Rightarrow> acc_congregationId a = c)) (accounts db)"
  from assms Some obtain a where a: "found = Some a" "i = acc_id a"
    and db': "db' = (if needsRehash (acc_password a)
         then (case hash_password (kdf cry) r password of
                 None \<Rightarrow> db
               | Some stored \<Rightarrow> update_account (acc_id a) (\<lambda>a. a\<lparr>acc_password := stored\<rparr>) db)
         else db)"
    by (auto simp: validateCredentials_def Let_def found_def split: option.splits if_splits)
  have r: "risen db db'" unfolding db' by (auto split: option.split)
  have "a \<in> set (accounts db)" using a(1) find_Some_in unfolding found_def by fast
  then have "account_row db i \<noteq> None" using a(2) by (auto simp: account_row_def find_None_iff)
  then show ?thesis using r risen_row [OF r, of i] Some by auto
qed

lemma loginAction_ok:
  assumes "loginAction st cry req db = (a, db')"
  shows "risen db db' \<and> (\<forall>s \<in> committed a. issued_from db' (lr_session req) s)"
proof -
  note run = assms [unfolded loginAction_def Let_def]
  show ?thesis
  proof (cases "lr_submission req")
    case None
    then show ?thesis using run by (simp add: committed_def)
  next
    case (Some p)
    obtain username password where p: "p = (username, password)" by (cases p)
    obtain limited cs where g: "guardLoginAttempt st (lr_redis req) (lr_ip req) (lr_now req) (counters db) = (limited, cs)" by fastforce
    show ?thesis
    proof (cases "limited \<or> isl (resolveCongregationFromRequest st (db\<lparr>counters := cs\<rparr>) (lr_hostname req))")
      case True
      then show ?thesis using run Some p g by (auto simp: committed_def split: sum.splits if_splits)
    next
      case False
      then obtain urlC where urlC: "resolveCongregationFromRequest st (db\<lparr>counters := cs\<rparr>) (lr_hostname req) = Inr urlC"
        by (cases "resolveCongregationFromRequest st (db\<lparr>counters := cs\<rparr>) (lr_hostname req)") auto
      obtain u d where v: "validateCredentials cry (lr_random req) username password (map_option cong_id urlC) (db\<lparr>counters := cs\<rparr>) = (u, d)"
        by fastforce
      have d: "risen db d" "\<And>i. u = Some i \<Longrightarrow> account_row d i \<noteq> None"
        using validateCredentials_risen [OF v] by (auto simp: risen_def)
      show ?thesis
      proof (cases u)
        case None
        then show ?thesis using run Some p g False urlC v d by (auto simp: committed_def)
      next
        case (Some i)
        then show ?thesis using run \<open>lr_submission req = Some p\<close> p g False urlC v d issued_established [of d i "lr_session req" "lr_session req"]
          by (auto simp: committed_def split: if_splits)
      qed
    qed
  qed
qed

lemma verified_account:
  "verifyTwoFactorChallenge cry db i digits now \<Longrightarrow> account_row db i \<noteq> None"
  by (auto simp: verifyTwoFactorChallenge_def split: option.splits)

lemma verify_frame [simp]:
  "verifyTwoFactorChallenge cry (db\<lparr>counters := cs\<rparr>) = verifyTwoFactorChallenge cry db"
  by (simp add: verifyTwoFactorChallenge_def fun_eq_iff)

text \<open>How a visit to the challenge page ends: nothing changes but counters and journal, and only a verified code establishes a session.\<close>

lemma challengeAction_cases:
  assumes "challengeAction st cry req db = (a, db')"
  obtains "accounts db' = accounts db" and "committed a \<subseteq> {flash_error ''rate_limit'' (ch_session req), flash_error ''invalid_code'' (ch_session req)}"
  | i digits where "accounts db' = accounts db" and "ch_submission req = Some digits"
      and "verifyTwoFactorChallenge cry db i digits (ch_now req)"
      and "committed a = {establishAuthenticatedSession db i ((ch_session req)\<lparr>sess_pending2faUserId := None\<rparr>)}"
proof -
  note run = assms [unfolded challengeAction_def Let_def]
  show ?thesis
  proof (cases "resolvePendingUserId st db (ch_hostname req) (sess_pending2faUserId (ch_session req))")
    case (Inl location)
    then show ?thesis using run by (intro that(1)) (auto simp: committed_def)
  next
    case (Inr pending)
    show ?thesis
    proof (cases "pending = None \<or> ch_submission req = None \<or> isl (resolveCongregationFromRequest st db (ch_hostname req))")
      case True
      then show ?thesis using run Inr by (intro that(1)) (auto simp: committed_def split: option.splits sum.splits)
    next
      case False
      then obtain i digits urlC where b: "pending = Some i" "ch_submission req = Some digits"
          "resolveCongregationFromRequest st db (ch_hostname req) = Inr urlC"
        by (cases "resolveCongregationFromRequest st db (ch_hostname req)") auto
      obtain limited cs where g: "guardTwoFactorAttempt st (ch_redis req) i (ch_now req) (counters db) = (limited, cs)" by fastforce
      show ?thesis
      proof (cases "\<not> limited \<and> verifyTwoFactorChallenge cry db i digits (ch_now req)")
        case True
        then show ?thesis using run Inr b g
          by (intro that(2) [of digits i]) (auto simp: committed_def audit_sign_in_def login_audit_def split: option.split)
      next
        case False
        then show ?thesis using run Inr b g
          by (intro that(1)) (auto simp: committed_def audit_sign_in_def login_audit_def split: if_splits option.split)
      qed
    qed
  qed
qed

lemma challengeAction_ok:
  assumes "challengeAction st cry req db = (a, db')"
  shows "risen db db' \<and> (\<forall>s \<in> committed a. issued_from db' (ch_session req) s)"
  using assms
proof (cases rule: challengeAction_cases)
  case 1
  then show ?thesis using risen_same by auto
next
  case (2 i digits)
  have "account_row db' i \<noteq> None" using verified_account [OF 2(3)] 2(1) by (simp add: account_row_def)
  moreover have "establishAuthenticatedSession db = establishAuthenticatedSession db'"
    using 2(1) by (simp add: establishAuthenticatedSession_def account_epoch_def account_row_def fun_eq_iff)
  ultimately show ?thesis using 2 risen_same issued_established by auto
qed

lemma update_account_frame [simp]: "accounts (update_account i f (db\<lparr>journal := j\<rparr>)) = accounts (update_account i f db)"
  by (simp add: update_account_def)

lemma logoutAction_ok:
  assumes "logoutAction s db = (a, db')"
  shows "risen db db' \<and> committed a = {}"
proof -
  have "risen db (snd (endCurrentSessions i e db))" for i e
    unfolding endCurrentSessions_def Let_def snd_conv by (rule risen_update) simp
  then show ?thesis using assms
    by (auto simp: logoutAction_def committed_def split: option.splits prod.splits if_splits) (metis snd_conv)+
qed

lemma resetAccountPassword_ok:
  assumes "resetAccountPassword cry r now i password db = Some db'"
  shows "risen db db' \<and> account_row db' i \<noteq> None \<and> account_epoch db i < account_epoch db' i"
proof -
  obtain account stored where a: "account_row db i = Some account"
    and db': "db' = (update_account i (\<lambda>a. a\<lparr>acc_password := stored, acc_sessionEpoch := acc_sessionEpoch a + 1,
                  acc_emailVerifiedAt := (if acc_emailVerifiedAt account = None then Some now else acc_emailVerifiedAt a)\<rparr>) db)
                \<lparr>resetTokens := delete_where (\<lambda>t. prt_userId t = i) (resetTokens db)\<rparr>"
    using assms by (auto simp: resetAccountPassword_def split: option.splits)
  have "find (\<lambda>a. acc_id a = i) (update_where (\<lambda>a. acc_id a = i) f xs) = map_option f (find (\<lambda>a. acc_id a = i) xs)"
    if "\<And>a. acc_id (f a) = acc_id a" for f and xs :: "login_account list"
    using that by (induction xs) (auto simp: update_where_def)
  then have "account_row db' i = map_option (\<lambda>a. a\<lparr>acc_password := stored, acc_sessionEpoch := acc_sessionEpoch a + 1,
        acc_emailVerifiedAt := (if acc_emailVerifiedAt account = None then Some now else acc_emailVerifiedAt a)\<rparr>) (account_row db i)"
    unfolding db' account_row_frame by (simp add: account_row_def update_account_def)
  then show ?thesis using a unfolding db' risen_frame by (auto simp: account_epoch_def)
qed

lemma changePasswordAction_ok:
  assumes "changePasswordAction cry r now user form verdict s db = Some (a, db')"
  shows "risen db db' \<and> (\<forall>s' \<in> committed a. issued_from db' s s')"
proof -
  have step: "risen db d \<and> (ok \<longrightarrow> account_row d (acc_id user) \<noteq> None)"
    if "changeAccountPassword cry r now (acc_id user) p q db = Some (ok, d)" for p q ok d
    using that resetAccountPassword_ok
    by (auto simp: changeAccountPassword_def split: option.splits if_splits)
  show ?thesis using assms step issued_established
    by (auto simp: changePasswordAction_def committed_def Let_def split: option.splits if_splits prod.splits)
qed

lemma verifyPasswordResetToken_accounts:
  "accounts (snd (verifyPasswordResetToken cry now token db)) = accounts db"
  by (simp add: verifyPasswordResetToken_def split: option.split)

lemma passwordResetAction_ok:
  assumes "passwordResetAction cry r now token form verdict s db = Some (a, db')"
  shows "risen db db' \<and> (\<forall>s' \<in> committed a. issued_from db' s s')"
proof -
  obtain u d where d: "verifyPasswordResetToken cry now token db = (u, d)" by fastforce
  then have "risen db d" using verifyPasswordResetToken_accounts [of cry now token db] by (simp add: risen_same)
  then show ?thesis using assms d resetAccountPassword_ok risen_trans
    by (auto simp: passwordResetAction_def committed_def split: option.splits if_splits)
qed

lemma forgotPasswordAction_ok:
  assumes "forgotPasswordAction cry tomorrow form s db = (a, db')"
  shows "risen db db' \<and> (\<forall>s' \<in> committed a. issued_from db' s s')"
proof -
  have "accounts (snd (requestPasswordReset cry tomorrow req db)) = accounts db" for req
    by (simp add: requestPasswordReset_def Let_def createPasswordResetToken_def login_audit_def
        split: option.split prod.split PasswordResetGuard.split)
  then have "risen db d" if "requestPasswordReset cry tomorrow req db = (x, d)" for req x d
    using that by (metis risen_same snd_conv)
  then show ?thesis using assms
    by (auto simp: forgotPasswordAction_def committed_def Let_def split: option.splits prod.splits if_splits)
qed

lemma passwordInvalidationAction_ok:
  assumes "passwordInvalidationAction cry tomorrow now k token sent user can target s db = (a, db')"
  shows "risen db db' \<and> (\<forall>s' \<in> committed a. issued_from db' s s')"
proof -
  have "risen db (revokeAccountSessions i db)" for i unfolding revokeAccountSessions_def by (rule risen_update_account) simp
  then show ?thesis using assms
    by (auto simp: passwordInvalidationAction_def committed_def Let_def createPasswordResetToken_def split: option.splits if_splits)
qed

lemma security_ok:
  "handleStart cry iv secret now user proof db = Some (b, db') \<Longrightarrow> risen db db' \<and> (\<forall>s' \<in> security_committed b. issued_from db' s s')"
  "handleConfirm cry now user shown form s db = Some (b, db') \<Longrightarrow> risen db db' \<and> (\<forall>s' \<in> security_committed b. issued_from db' s s')"
  "handleDisable cry now user form s db = (b, db') \<Longrightarrow> risen db db' \<and> (\<forall>s' \<in> security_committed b. issued_from db' s s')"
proof -
  have armed: "risen db (update_account i (\<lambda>a. a\<lparr>acc_twoFactorSecret := x a, acc_twoFactorEnabledAt := y a\<rparr>) db)"
      "risen db (update_account i (\<lambda>a. a\<lparr>acc_twoFactorEnabledAt := y a\<rparr>) db)" for i x y
    by (rule risen_update_account, simp)+
  show "handleStart cry iv secret now user proof db = Some (b, db') \<Longrightarrow> risen db db' \<and> (\<forall>s' \<in> security_committed b. issued_from db' s s')"
    using armed by (auto simp: handleStart_def startTwoFactorEnrollment_def security_committed_def split: if_splits)
  have "risen db d" if "confirmTwoFactorEnrollment cry i digits now db = Some (ok, d)" for i digits ok d
    using that armed by (auto simp: confirmTwoFactorEnrollment_def split: option.splits list.splits if_splits)
  then show "handleConfirm cry now user shown form s db = Some (b, db') \<Longrightarrow> risen db db' \<and> (\<forall>s' \<in> security_committed b. issued_from db' s s')"
    by (auto simp: handleConfirm_def security_committed_def split: option.splits if_splits prod.splits)
  show "handleDisable cry now user form s db = (b, db') \<Longrightarrow> risen db db' \<and> (\<forall>s' \<in> security_committed b. issued_from db' s s')"
    using armed by (auto simp: handleDisable_def disableTwoFactor_def security_committed_def split: option.splits if_splits)
qed

lemma email_ok:
  "resendVerificationAction cry tomorrow now k token sent s db = (a, db') \<Longrightarrow> risen db db' \<and> (\<forall>s' \<in> committed a. issued_from db' s s')"
  "confirmEmailAction cry now token s db = (a, db') \<Longrightarrow> risen db db' \<and> (\<forall>s' \<in> committed a. issued_from db' s s')"
proof -
  show "resendVerificationAction cry tomorrow now k token sent s db = (a, db') \<Longrightarrow> risen db db' \<and> (\<forall>s' \<in> committed a. issued_from db' s s')"
    by (auto simp: resendVerificationAction_def committed_def createEmailVerificationToken_def split: option.splits if_splits)
  have "risen db (snd (verifyEmailVerificationToken cry now token db))"
    by (rule risen_same) (simp add: verifyEmailVerificationToken_def split: option.split)
  moreover have "risen d (consumeEmailVerificationToken cry now token d)" for d
    by (auto simp: consumeEmailVerificationToken_def split: option.split)
  ultimately show "confirmEmailAction cry now token s db = (a, db') \<Longrightarrow> risen db db' \<and> (\<forall>s' \<in> committed a. issued_from db' s s')"
    by (auto simp: confirmEmailAction_def committed_def Let_def split: option.splits prod.splits if_splits intro: risen_trans)
qed

lemma visit_ok:
  assumes "risen (w_auth w) db \<and> (\<forall>s' \<in> new. issued_from db s s')" and "presented w s" and "w' = after_visit w new db"
  shows "risen (w_auth w) (w_auth w') \<and>
    (\<forall>s' \<in> w_issued w'. s' \<in> w_issued w \<or> (\<exists>s. presented w s \<and> issued_from (w_auth w') s s'))"
  using assms by (auto simp: after_visit_def)

lemma logout_ok: "logoutAction s db = (a, db') \<Longrightarrow> risen db db' \<and> (\<forall>s' \<in> committed a. issued_from db' s s')"
  using logoutAction_ok by fastforce

lemma step_ok:
  assumes "step st cry tomorrow w act w'"
  shows "risen (w_auth w) (w_auth w') \<and>
    (\<forall>s' \<in> w_issued w'. s' \<in> w_issued w \<or> (\<exists>s. presented w s \<and> issued_from (w_auth w') s s'))"
  using assms
proof cases
  case (login req a db)
  show ?thesis by (rule visit_ok [OF loginAction_ok [OF login(4)] login(3,2)])
next
  case (challenge req a db)
  show ?thesis by (rule visit_ok [OF challengeAction_ok [OF challenge(4)] challenge(3,2)])
next
  case (logout s a db)
  show ?thesis by (rule visit_ok [OF logout_ok [OF logout(4)] logout(3,2)])
next
  case (change v user c form verdict a db)
  show ?thesis by (rule visit_ok [OF changePasswordAction_ok [OF change(5)] change(3,2)])
next
  case (reset v token form verdict a db)
  show ?thesis by (rule visit_ok [OF passwordResetAction_ok [OF reset(4)] reset(3,2)])
next
  case (forgot s form a db)
  show ?thesis by (rule visit_ok [OF forgotPasswordAction_ok [OF forgot(4)] forgot(3,2)])
next
  case (invalidate v user c can target a db)
  show ?thesis by (rule visit_ok [OF passwordInvalidationAction_ok [OF invalidate(5)] invalidate(3,2)])
next
  case (start v user c secret factor b db)
  show ?thesis by (rule visit_ok [OF security_ok(1) [OF start(5)] start(3,2)])
next
  case (confirm v user c shown form b db)
  show ?thesis by (rule visit_ok [OF security_ok(2) [OF confirm(5)] confirm(3,2)])
next
  case (disable v user c form b db)
  show ?thesis by (rule visit_ok [OF security_ok(3) [OF disable(5)] disable(3,2)])
next
  case (resend v a db)
  show ?thesis by (rule visit_ok [OF email_ok(1) [OF resend(4)] resend(3,2)])
next
  case (email v token a db)
  show ?thesis by (rule visit_ok [OF email_ok(2) [OF email(4)] email(3,2)])
qed

end
