(* ===== verification/Session_Security.thy ===== *)
theory Session_Security
  imports Session_Laws
begin

text \<open>
  What the sessions guarantee: revocation is for good, an armed account is reached only with a code,
  and guessing is slow.
\<close>

section \<open>The invariant of issued sessions\<close>

definition session_behind :: "auth \<Rightarrow> session \<Rightarrow> bool" where
  "session_behind db s \<longleftrightarrow>
     (\<forall>i. positive_id (sess_userId s) = Some i \<longrightarrow> (\<exists>e. session_epoch s = Some e \<and> e \<le> account_epoch db i))"

definition world_ok :: "world \<Rightarrow> bool" where
  "world_ok w \<longleftrightarrow> accounts_ok (w_auth w) \<and> (\<forall>s \<in> w_issued w. session_behind (w_auth w) s)"

lemma empty_behind [simp]: "session_behind db empty_session"
  by (simp add: session_behind_def positive_id_def empty_session_def)

lemma behind_risen: "risen db db' \<Longrightarrow> session_behind db s \<Longrightarrow> session_behind db' s"
  unfolding session_behind_def by (meson order_trans risen_epoch)

lemma js_integer_string: "0 \<le> n \<Longrightarrow> js_integer (js_string n) = Some n"
  using js_integer_decimal [of "nat n"] by (simp add: js_string_def)

lemma js_string_not_Nil [simp]: "js_string n \<noteq> []"
  using decimal_digits by (auto simp: js_string_def)

lemma positive_id_string: "positive_id (Some (js_string i)) = (if 0 < i then Some i else positive_id (Some (js_string i)))"
  by (simp add: positive_id_def js_integer_string)

lemma account_row_ok:
  assumes "accounts_ok db" and "account_row db i = Some a"
  shows "acc_id a = i" and "0 < i" and "0 \<le> acc_sessionEpoch a"
proof -
  have "a \<in> set (accounts db)" "acc_id a = i" using find_Some_in [OF assms(2) [unfolded account_row_def]] by simp_all
  then show "acc_id a = i" "0 < i" "0 \<le> acc_sessionEpoch a" using assms(1) by (auto simp: accounts_ok_def list_all_iff)
qed

lemma established_session:
  assumes "accounts_ok db" and "account_row db i \<noteq> None"
  shows "positive_id (sess_userId (establishAuthenticatedSession db i s)) = Some i"
    and "session_epoch (establishAuthenticatedSession db i s) = Some (account_epoch db i)"
proof -
  obtain a where a: "account_row db i = Some a" using assms(2) by blast
  note ok = account_row_ok [OF assms(1) a]
  show "positive_id (sess_userId (establishAuthenticatedSession db i s)) = Some i"
    using ok(2) by (simp add: establishAuthenticatedSession_def positive_id_def js_integer_string)
  show "session_epoch (establishAuthenticatedSession db i s) = Some (account_epoch db i)"
    using ok(3) a by (simp add: establishAuthenticatedSession_def session_epoch_def account_epoch_def js_integer_string)
qed

lemma issued_behind:
  assumes "accounts_ok db" and "session_behind db s" and "issued_from db s s'"
  shows "session_behind db s'"
  using assms(3) unfolding issued_from_def
proof (elim disjE exE conjE)
  assume "sess_userId s' = sess_userId s" "sess_sessionEpoch s' = sess_sessionEpoch s"
  then show ?thesis using assms(2) by (simp add: session_behind_def session_epoch_def)
next
  assume "sess_userId s' = None"
  then show ?thesis by (simp add: session_behind_def positive_id_def)
next
  fix i s0 assume "account_row db i \<noteq> None" "s' = establishAuthenticatedSession db i s0"
  then show ?thesis using established_session [OF assms(1)] by (auto simp: session_behind_def)
qed

lemma step_keeps_ok:
  assumes "step st cry tomorrow w act w'" and "world_ok w"
  shows "world_ok w'"
proof -
  have r: "risen (w_auth w) (w_auth w')"
    and new: "\<And>s'. s' \<in> w_issued w' \<Longrightarrow> s' \<in> w_issued w \<or> (\<exists>s. presented w s \<and> issued_from (w_auth w') s s')"
    using step_ok [OF assms(1)] by blast+
  have ok: "accounts_ok (w_auth w')" using risen_ok [OF r] assms(2) by (simp add: world_ok_def)
  have old: "session_behind (w_auth w') s" if "presented w s" for s
    using that assms(2) behind_risen [OF r] by (auto simp: presented_def world_ok_def)
  have "session_behind (w_auth w') s'" if "s' \<in> w_issued w'" for s'
    using new [OF that]
  proof
    assume "s' \<in> w_issued w"
    then show ?thesis using old by (simp add: presented_def)
  qed (use old issued_behind [OF ok] in blast)
  then show ?thesis using ok by (simp add: world_ok_def)
qed

lemma reachable_ok: "reachable st cry tomorrow w \<Longrightarrow> world_ok w"
proof (induction rule: reachable.induct)
  case (visit w act w')
  show ?case by (rule step_keeps_ok [OF visit(2,3)])
qed (simp add: world_ok_def)

lemma steps_risen: "steps st cry tomorrow w w' \<Longrightarrow> risen (w_auth w) (w_auth w')"
  by (induction rule: steps.induct) (use step_ok risen_trans in blast)+

lemma found_user:
  assumes "accounts_ok db" and "findUserFromSession db s = Some a"
  shows "positive_id (sess_userId s) = Some (acc_id a)" and "session_epoch s = Some (account_epoch db (acc_id a))"
    and "account_row db (acc_id a) = Some a"
proof -
  obtain i where i: "positive_id (sess_userId s) = Some i" "account_row db i = Some a" "session_epoch s = Some (acc_sessionEpoch a)"
    using assms(2) by (auto simp: findUserFromSession_def split: option.splits if_splits)
  have "acc_id a = i" using account_row_ok [OF assms(1) i(2)] by simp
  then show "positive_id (sess_userId s) = Some (acc_id a)" "session_epoch s = Some (account_epoch db (acc_id a))"
      "account_row db (acc_id a) = Some a"
    using i by (simp_all add: account_epoch_def)
qed

section \<open>Revocation\<close>

text \<open>The three ways to end the sessions of an account: a new password, an admin, and signing out.\<close>

definition sessions_ended :: "crypto \<Rightarrow> int \<Rightarrow> auth \<Rightarrow> auth \<Rightarrow> bool" where
  "sessions_ended cry u db db' \<longleftrightarrow>
     (\<exists>random now password. resetAccountPassword cry random now u password db = Some db') \<or>
     db' = revokeAccountSessions u db \<or>
     (\<exists>e. endCurrentSessions u e db = (True, db'))"

lemma find_account_update:
  assumes "\<And>a. acc_id (f a) = acc_id a"
  shows "find (\<lambda>a. acc_id a = u) (update_where P f xs) = map_option (\<lambda>a. if P a then f a else a) (find (\<lambda>a. acc_id a = u) xs)"
  using assms by (induction xs) (auto simp: update_where_def)

lemma filter_one_found:
  assumes "length (filter P (xs :: login_account list)) = 1" and "\<And>a. P a \<Longrightarrow> acc_id a = u" and "distinct (map acc_id xs)"
  shows "\<exists>a. find (\<lambda>a. acc_id a = u) xs = Some a \<and> P a"
proof -
  obtain a where a: "a \<in> set xs" "P a" using assms(1) by (metis filter_False length_0_conv zero_neq_one)
  then obtain b where b: "find (\<lambda>a. acc_id a = u) xs = Some b"
    using assms(2) by (cases "find (\<lambda>a. acc_id a = u) xs") (auto simp: find_None_iff)
  have "b \<in> set xs" "acc_id b = u" using find_Some_in [OF b] by simp_all
  then have "b = a" using a assms(2,3) by (auto simp: distinct_map inj_on_def)
  then show ?thesis using a b by blast
qed

lemma ended_raises:
  assumes "sessions_ended cry u db db'" and "accounts_ok db"
  shows "risen db db' \<and> (account_row db u = None \<or> account_epoch db u < account_epoch db' u)"
  using assms(1) unfolding sessions_ended_def
proof (elim disjE exE)
  fix random now password assume "resetAccountPassword cry random now u password db = Some db'"
  then show ?thesis using resetAccountPassword_ok by blast
next
  assume db': "db' = revokeAccountSessions u db"
  have "risen db db'" unfolding db' revokeAccountSessions_def by (rule risen_update_account) simp
  moreover have "account_row db' u = map_option (\<lambda>a. if acc_id a = u then a\<lparr>acc_sessionEpoch := acc_sessionEpoch a + 1\<rparr> else a) (account_row db u)"
    unfolding db' revokeAccountSessions_def update_account_def account_row_def by (simp add: find_account_update)
  ultimately show ?thesis using account_row_ok(1) [OF assms(2)] by (cases "account_row db u") (auto simp: account_epoch_def)
next
  fix e assume run: "endCurrentSessions u e db = (True, db')"
  define current where "current = (\<lambda>a :: login_account. acc_id a = u \<and> Some (acc_sessionEpoch a) = e \<and> acc_active a \<and> acc_anonymizedAt a = None)"
  have db': "db' = db\<lparr>accounts := update_where current (\<lambda>a. a\<lparr>acc_sessionEpoch := acc_sessionEpoch a + 1\<rparr>) (accounts db)\<rparr>"
    and one: "length (filter current (accounts db)) = 1"
    using run by (simp_all add: endCurrentSessions_def Let_def current_def)
  have "risen db db'" unfolding db' by (rule risen_update) simp
  moreover obtain a where "account_row db u = Some a" "current a"
    using filter_one_found [OF one] assms(2) by (auto simp: account_row_def accounts_ok_def current_def)
  moreover have "account_row db' u = map_option (\<lambda>a. if current a then a\<lparr>acc_sessionEpoch := acc_sessionEpoch a + 1\<rparr> else a) (account_row db u)"
    unfolding db' account_row_def by (simp add: find_account_update)
  ultimately show ?thesis by (simp add: account_epoch_def)
qed

text \<open>
  C11. Ending the sessions of an account ends them for good: after a new password, an administrator's
  revocation or a sign-out, no cookie issued before is ever accepted for that account again, whatever
  pages are visited afterwards and by whom.
\<close>

theorem ended_sessions_never_come_back:
  assumes "reachable st cry tomorrow w" and "s \<in> w_issued w" and "sessions_ended cry u (w_auth w) db"
    and "steps st cry tomorrow (w\<lparr>w_auth := db\<rparr>) w'" and "findUserFromSession (w_auth w') s = Some a"
  shows "acc_id a \<noteq> u"
proof
  assume u: "acc_id a = u"
  have ok: "accounts_ok (w_auth w)" and behind: "session_behind (w_auth w) s"
    using reachable_ok [OF assms(1)] assms(2) by (auto simp: world_ok_def)
  have ended: "risen (w_auth w) db" "account_row (w_auth w) u = None \<or> account_epoch (w_auth w) u < account_epoch db u"
    using ended_raises [OF assms(3) ok] by blast+
  have later: "risen db (w_auth w')" using steps_risen [OF assms(4)] by simp
  have ok': "accounts_ok (w_auth w')" using risen_ok [OF risen_trans [OF ended(1) later] ok] .
  note found = found_user [OF ok' assms(5), unfolded u]
  obtain e where e: "session_epoch s = Some e" "e \<le> account_epoch (w_auth w) u"
    using behind found(1) by (auto simp: session_behind_def)
  have "account_row (w_auth w) u \<noteq> None" using found(3) risen_row [OF risen_trans [OF ended(1) later], of u] by auto
  then have "account_epoch (w_auth w) u < account_epoch (w_auth w') u"
    using ended(2) risen_epoch [OF later, of u] by linarith
  then show False using e found(2) by simp
qed

section \<open>The second factor\<close>

lemma found_before:
  assumes "world_ok w" and "presented w s" and "risen (w_auth w) db"
    and "sess_userId s' = sess_userId s" and "sess_sessionEpoch s' = sess_sessionEpoch s"
    and "findUserFromSession db s' = Some a"
  shows "\<exists>b. s \<in> w_issued w \<and> findUserFromSession (w_auth w) s = Some b \<and> acc_id b = acc_id a"
proof -
  have ok: "accounts_ok (w_auth w)" "accounts_ok db" using assms(1) risen_ok [OF assms(3)] by (auto simp: world_ok_def)
  note found = found_user [OF ok(2) assms(6)]
  have i: "positive_id (sess_userId s) = Some (acc_id a)" using found(1) assms(4) by simp
  then have "s \<noteq> empty_session" by (auto simp: empty_session_def positive_id_def)
  then have issued: "s \<in> w_issued w" using assms(2) by (simp add: presented_def)
  obtain e where e: "session_epoch s = Some e" "e \<le> account_epoch (w_auth w) (acc_id a)"
    using assms(1) issued i by (auto simp: world_ok_def session_behind_def)
  have "e = account_epoch db (acc_id a)" using e(1) found(2) assms(5) by (simp add: session_epoch_def)
  then have same: "account_epoch (w_auth w) (acc_id a) = e" using e(2) risen_epoch [OF assms(3), of "acc_id a"] by simp
  obtain b where b: "account_row (w_auth w) (acc_id a) = Some b" "acc_active b = acc_active a"
    using risen_row [OF assms(3), of "acc_id a"] found(3) by auto
  have "acc_active a" using assms(6) by (auto simp: findUserFromSession_def split: option.splits if_splits)
  then have "findUserFromSession (w_auth w) s = Some b"
    using i b e(1) same by (simp add: findUserFromSession_def account_epoch_def)
  moreover have "acc_id b = acc_id a" using account_row_ok(1) [OF ok(1) b(1)] .
  ultimately show ?thesis using issued by blast
qed

definition carried :: "session \<Rightarrow> session \<Rightarrow> bool" where
  "carried s s' \<longleftrightarrow> sess_userId s' = sess_userId s \<and> sess_sessionEpoch s' = sess_sessionEpoch s"

lemma carried_flash [simp]: "carried s (flash_error m s)" "carried s (flash_success m s)" "carried s (flash_error m (flash_success n s))"
  by (simp_all add: carried_def flash_error_def flash_success_def)

lemma loginAction_unarmed:
  assumes "loginAction st cry req db = (a, db')" and "s \<in> committed a"
  shows "carried (lr_session req) s \<or> sess_userId s = None \<or>
    (\<exists>i. s = establishAuthenticatedSession db' i (lr_session req) \<and> \<not> isTwoFactorEnabled db' i)"
  using assms unfolding loginAction_def Let_def
  by (auto simp: committed_def isTwoFactorEnabled_def split: option.splits prod.splits sum.splits if_splits)

lemma pages_carry:
  "passwordResetAction cry r now token form verdict s db = Some (a, db') \<Longrightarrow> s' \<in> committed a \<Longrightarrow> carried s s'"
  "forgotPasswordAction cry tomorrow request s db = (a, db') \<Longrightarrow> s' \<in> committed a \<Longrightarrow> carried s s'"
  "passwordInvalidationAction cry tomorrow now k token sent user can target s db = (a, db') \<Longrightarrow> s' \<in> committed a \<Longrightarrow> carried s s'"
  "handleStart cry iv secret now user factor db = Some (b, db') \<Longrightarrow> s' \<in> security_committed b \<Longrightarrow> carried s s'"
  "handleConfirm cry now user shown digits s db = Some (b, db') \<Longrightarrow> s' \<in> security_committed b \<Longrightarrow> carried s s'"
  "handleDisable cry now user digits s db = (b, db') \<Longrightarrow> s' \<in> security_committed b \<Longrightarrow> carried s s'"
  "resendVerificationAction cry tomorrow now k token sent s db = (a, db') \<Longrightarrow> s' \<in> committed a \<Longrightarrow> carried s s'"
  "confirmEmailAction cry now token s db = (a, db') \<Longrightarrow> s' \<in> committed a \<Longrightarrow> carried s s'"
  "logoutAction s db = (a, db') \<Longrightarrow> s' \<in> committed a \<Longrightarrow> carried s s'"
proof -
  show "forgotPasswordAction cry tomorrow request s db = (a, db') \<Longrightarrow> s' \<in> committed a \<Longrightarrow> carried s s'"
    by (auto simp: forgotPasswordAction_def committed_def Let_def split: option.splits prod.splits if_splits)
qed (auto simp: passwordResetAction_def passwordInvalidationAction_def handleStart_def handleConfirm_def handleDisable_def
    resendVerificationAction_def confirmEmailAction_def logoutAction_def committed_def security_committed_def Let_def
    split: option.splits prod.splits if_splits)

lemma changePasswordAction_issues:
  assumes "changePasswordAction cry r now user form verdict s db = Some (a, db')" and "s' \<in> committed a"
  shows "carried s s' \<or> s' = establishAuthenticatedSession db' (acc_id user) s"
  using assms by (auto simp: changePasswordAction_def committed_def Let_def split: option.splits prod.splits if_splits)

lemma requireAuth_user:
  "requireAuth st db now host path s = Inr (user, c) \<Longrightarrow> findUserFromSession db s = Some user"
  by (auto simp: requireAuth_def verifySession_def split: option.splits sum.splits if_splits)

lemma established_issued:
  assumes "issued_from db s s'" and "s' = establishAuthenticatedSession db i s0"
  shows "carried s s' \<or> account_row db i \<noteq> None"
  using assms(1) unfolding issued_from_def
proof (elim disjE exE conjE)
  assume "sess_userId s' = None"
  then show ?thesis using assms(2) by (simp add: establishAuthenticatedSession_def)
next
  fix j s1 assume "account_row db j \<noteq> None" "s' = establishAuthenticatedSession db j s1"
  moreover from this assms(2) have "sess_userId (establishAuthenticatedSession db i s0) = sess_userId (establishAuthenticatedSession db j s1)" by simp
  ultimately show ?thesis by (simp add: establishAuthenticatedSession_def js_string_inject)
qed (simp add: carried_def)

definition already_in :: "world \<Rightarrow> int \<Rightarrow> bool" where
  "already_in w u \<longleftrightarrow> (\<exists>s \<in> w_issued w. \<exists>b. findUserFromSession (w_auth w) s = Some b \<and> acc_id b = u)"

lemma carried_found:
  assumes "world_ok w" and "risen (w_auth w) db" and "findUserFromSession db s' = Some a"
    and "presented w s" and "carried s s'"
  shows "already_in w (acc_id a)"
  using found_before [OF assms(1,4,2) _ _ assms(3)] assms(5) by (auto simp: already_in_def carried_def)

lemma established_found:
  assumes "accounts_ok db" and "findUserFromSession db (establishAuthenticatedSession db i s) = Some a" and "account_row db i \<noteq> None"
  shows "acc_id a = i"
  using found_user(1) [OF assms(1,2)] established_session(1) [OF assms(1,3)] by simp

lemma already_in_self:
  assumes "world_ok w" and "presented w s" and "findUserFromSession (w_auth w) s = Some a"
  shows "already_in w (acc_id a)"
  using carried_found [OF assms(1) risen_refl assms(3,2)] by (simp add: carried_def)

lemma userless: "sess_userId s = None \<Longrightarrow> findUserFromSession db s = None"
  by (simp add: findUserFromSession_def positive_id_def)

text \<open>
  C12. Nobody gets into an account whose second factor is armed without its code: whenever a visit
  leaves somebody with a cookie that the account accepts, either the visit was the challenge, passed
  with a code verified against the seed of that very account, or a cookie accepted for the account
  had been issued already.
\<close>

theorem armed_accounts_need_their_code:
  assumes "reachable st cry tomorrow w" and "step st cry tomorrow w act w'" and "s \<in> w_issued w'"
    and "findUserFromSession (w_auth w') s = Some a" and "isTwoFactorEnabled (w_auth w') (acc_id a)"
  shows "(\<exists>req digits. act = Challenge_Form req \<and> ch_submission req = Some digits \<and>
      verifyTwoFactorChallenge cry (w_auth w) (acc_id a) digits (ch_now req)) \<or> already_in w (acc_id a)"
proof -
  have ok: "world_ok w" "accounts_ok (w_auth w)" using reachable_ok [OF assms(1)] by (simp_all add: world_ok_def)
  have r: "risen (w_auth w) (w_auth w')" using step_ok [OF assms(2)] by blast
  have ok': "accounts_ok (w_auth w')" by (rule risen_ok [OF r ok(2)])
  note carry = carried_found [OF ok(1) r assms(4)]
  have known: "s \<in> w_issued w \<Longrightarrow> ?thesis" using carry [of s] by (simp add: presented_def carried_def)
  show ?thesis using assms(2)
  proof cases
    case (login req x db)
    have "already_in w (acc_id a)" if new: "s \<in> committed x"
    proof -
      have db: "w_auth w' = db" using login(2) by (simp add: after_visit_def)
      consider "carried (lr_session req) s" | "sess_userId s = None"
        | i where "s = establishAuthenticatedSession db i (lr_session req)" "\<not> isTwoFactorEnabled db i"
        using loginAction_unarmed [OF login(4) new] by metis
      then show ?thesis
      proof cases
        case 1
        then show ?thesis using carry [OF login(3)] by blast
      next
        case 2
        then show ?thesis using assms(4) userless by simp
      next
        case (3 i)
        have "issued_from db (lr_session req) s" using loginAction_ok [OF login(4)] new by blast
        then consider "carried (lr_session req) s" | "account_row db i \<noteq> None"
          using 3(1) established_issued [of db "lr_session req" s i] by blast
        then show ?thesis
        proof cases
          case 1
          then show ?thesis using carry [OF login(3)] by blast
        next
          case 2
          then have "acc_id a = i" using established_found [OF ok', of i "lr_session req" a] assms(4) 3(1) db by simp
          then show ?thesis using 3(2) assms(5) db by simp
        qed
      qed
    qed
    then show ?thesis using known assms(3) login(2) by (auto simp: after_visit_def)
  next
    case (challenge req x db)
    have db: "w_auth w' = db" using challenge(2) by (simp add: after_visit_def)
    have ?thesis if new: "s \<in> committed x"
      using challenge(4)
    proof (cases rule: challengeAction_cases)
      case 1
      then have "carried (ch_session req) s" using new by auto
      then show ?thesis using carry [OF challenge(3)] by blast
    next
      case (2 i digits)
      have "establishAuthenticatedSession (w_auth w) = establishAuthenticatedSession db"
        using 2(1) by (simp add: establishAuthenticatedSession_def account_epoch_def account_row_def fun_eq_iff)
      moreover have "account_row db i \<noteq> None" using verified_account [OF 2(3)] 2(1) by (simp add: account_row_def)
      ultimately have "acc_id a = i" using established_found [OF ok', of i _ a] assms(4) new 2(4) db by auto
      then show ?thesis using 2(2,3) challenge(1) by blast
    qed
    then show ?thesis using known assms(3) challenge(2) by (auto simp: after_visit_def)
  next
    case (change v user c form verdict x db)
    have db: "w_auth w' = db" using change(2) by (simp add: after_visit_def)
    have user: "findUserFromSession (w_auth w) (v_session v) = Some user" by (rule requireAuth_user [OF change(4)])
    have "account_row (w_auth w) (acc_id user) \<noteq> None" using found_user(3) [OF ok(2) user] by simp
    then have "account_row db (acc_id user) \<noteq> None" using risen_row [OF r, of "acc_id user"] db by auto
    then have "already_in w (acc_id a)" if "s \<in> committed x"
      using changePasswordAction_issues [OF change(5) that] carry [OF change(3)] already_in_self [OF ok(1) change(3) user]
        established_found [OF ok', of "acc_id user" "v_session v" a] assms(4) db by auto
    then show ?thesis using known assms(3) change(2) by (auto simp: after_visit_def)
  qed (use known assms(3) carry pages_carry in \<open>auto simp: after_visit_def\<close>)
qed

section \<open>Bounds on guessing\<close>

text \<open>
  How many guesses an address has in one window, and what a revocation leaves standing.
\<close>

subsection \<open>Wrong passwords\<close>

fun login_run :: "site \<Rightarrow> crypto \<Rightarrow> login_request list \<Rightarrow> auth \<Rightarrow> answer list \<times> auth" where
  "login_run st cry [] db = ([], db)"
| "login_run st cry (req # reqs) db =
     (case loginAction st cry req db of
        (a, db) \<Rightarrow> (case login_run st cry reqs db of (as, db) \<Rightarrow> (a # as, db)))"

text \<open>The answer to credentials that were checked and found wrong.\<close>

definition wrong_guess :: "answer \<Rightarrow> bool" where
  "wrong_guess a \<longleftrightarrow> (case a of Redirected _ (Commit s) \<Rightarrow> sess_error s = Some ''invalid_credentials'' | _ \<Rightarrow> False)"

lemma validate_counters [simp]: "counters (snd (validateCredentials cry r e p c db)) = counters db"
  by (simp add: validateCredentials_def Let_def update_account_def split: option.split)

lemma guard_spends:
  assumes "spent (loginIpKey ip) until k cs" and "now < until" and "until \<le> now + WINDOW_SECONDS * 1000"
    and "guardLoginAttempt st True ip now cs = (limited, cs')"
  shows "spent (loginIpKey ip) until (k + 1) cs' \<and> (\<not> limited \<longrightarrow> k + 1 \<le> LOGIN_IP_MAX st)"
proof -
  obtain n c1 where one: "incrementAndCount (loginIpKey ip) WINDOW_SECONDS now cs = (n, c1)" by fastforce
  obtain g c2 where two: "incrementAndCount LOGIN_GLOBAL_KEY WINDOW_SECONDS now c1 = (g, c2)" by fastforce
  have "k + 1 \<le> n" "spent (loginIpKey ip) until (k + 1) c1" using spent_count [OF assms(1-3) one] by simp_all
  moreover from this have "spent (loginIpKey ip) until (k + 1) c2" using count_other [OF two] by simp
  ultimately show ?thesis using assms(4) one two by (auto simp: guardLoginAttempt_def split: if_splits)
qed

lemma release_spends:
  assumes "spent (loginIpKey ip) until (k + 1) cs" and "now < until" and "0 \<le> k"
  shows "spent (loginIpKey ip) until k (releaseLoginAttempt True ip now cs)"
  using spent_decrement [OF assms] by (simp add: releaseLoginAttempt_def decrement_other)

lemma login_spends:
  assumes "loginAction st cry req db = (a, db')" and "spent (loginIpKey (lr_ip req)) until k (counters db)"
    and "lr_now req < until" and "until \<le> lr_now req + WINDOW_SECONDS * 1000" and "sess_error (lr_session req) = None"
  shows "\<exists>j. spent (loginIpKey (lr_ip req)) until j (counters db') \<and> k \<le> j \<and>
    (wrong_guess a \<longrightarrow> k < j \<and> j \<le> LOGIN_IP_MAX st)"
proof (cases "lr_submission req = None \<or> \<not> lr_redis req")
  case True
  then show ?thesis using assms
    by (auto simp: loginAction_def Let_def guardLoginAttempt_def wrong_guess_def flash_error_def split: option.splits intro!: exI [of _ k])
next
  case False
  then obtain username password where p: "lr_submission req = Some (username, password)" "lr_redis req" by auto
  obtain limited cs where g: "guardLoginAttempt st True (lr_ip req) (lr_now req) (counters db) = (limited, cs)" by fastforce
  have cs: "spent (loginIpKey (lr_ip req)) until (k + 1) cs" and max: "\<not> limited \<Longrightarrow> k + 1 \<le> LOGIN_IP_MAX st"
    using guard_spends [OF assms(2-4) g] by simp_all
  note run = assms(1) [unfolded loginAction_def Let_def]
  have k: "0 \<le> k" using assms(2) by (simp add: spent_def)
  show ?thesis
  proof (cases "limited \<or> isl (resolveCongregationFromRequest st (db\<lparr>counters := cs\<rparr>) (lr_hostname req))")
    case True
    then have "counters db' = cs" "\<not> wrong_guess a"
      using run p g by (auto simp: wrong_guess_def flash_error_def split: sum.splits if_splits)
    then show ?thesis using cs by (intro exI [of _ "k + 1"]) simp
  next
    case False
    then obtain urlC where urlC: "resolveCongregationFromRequest st (db\<lparr>counters := cs\<rparr>) (lr_hostname req) = Inr urlC"
      by (cases "resolveCongregationFromRequest st (db\<lparr>counters := cs\<rparr>) (lr_hostname req)") auto
    obtain u d where v: "validateCredentials cry (lr_random req) username password (map_option cong_id urlC) (db\<lparr>counters := cs\<rparr>) = (u, d)"
      by fastforce
    have d: "counters d = cs" using validate_counters [of cry "lr_random req" username password "map_option cong_id urlC" "db\<lparr>counters := cs\<rparr>"] v by simp
    have audits: "counters (audit_sign_in x oc i e q) = counters q" for x oc i e q
      by (simp add: audit_sign_in_def login_audit_def split: option.split)
    show ?thesis
    proof (cases u)
      case None
      then have "counters db' = cs" using run p g False urlC v d by (auto simp: audits)
      then show ?thesis using cs max False by (intro exI [of _ "k + 1"]) simp
    next
      case (Some i)
      then have "counters db' = releaseLoginAttempt True (lr_ip req) (lr_now req) cs" "\<not> wrong_guess a"
        using run p g False urlC v d assms(5)
        by (auto simp: audits wrong_guess_def establishAuthenticatedSession_def split: if_splits)
      then show ?thesis using release_spends [OF cs assms(3) k] by (intro exI [of _ k]) simp
    qed
  qed
qed

lemma login_run_bound:
  assumes "\<forall>req \<in> set reqs. or_unknown (lr_ip req) = ip \<and> lr_now req < until \<and>
      until \<le> lr_now req + WINDOW_SECONDS * 1000 \<and> sess_error (lr_session req) = None"
    and "spent (''login_fail:ip:'' @ ip) until k (counters db)"
  shows "int (length (filter wrong_guess (fst (login_run st cry reqs db)))) \<le> max 0 (LOGIN_IP_MAX st - k)"
  using assms
proof (induction reqs arbitrary: k db)
  case (Cons req reqs)
  obtain a d where run: "loginAction st cry req db = (a, d)" by fastforce
  have key: "loginIpKey (lr_ip req) = ''login_fail:ip:'' @ ip" using Cons.prems(1) by (simp add: loginIpKey_def)
  obtain j where j: "spent (''login_fail:ip:'' @ ip) until j (counters d)" "k \<le> j"
      "wrong_guess a \<longrightarrow> k < j \<and> j \<le> LOGIN_IP_MAX st"
    using login_spends [OF run, of until k] Cons.prems key by auto
  have "int (length (filter wrong_guess (fst (login_run st cry reqs d)))) \<le> max 0 (LOGIN_IP_MAX st - j)"
    using Cons.IH [OF _ j(1)] Cons.prems(1) by simp
  then show ?case using j(2,3) run by (cases "wrong_guess a") (auto split: prod.split)
qed simp

text \<open>
  C13. One address has at most \<^verbatim>\<open>LOGIN_RATE_LIMIT_IP_MAX\<close> wrong passwords in a window of fifteen minutes,
  whatever accounts it tries, however its requests are ordered, and even if it signs in to an account
  of its own in between to have its budget released.
\<close>

theorem wrong_passwords_are_bounded:
  assumes "\<forall>req \<in> set reqs. or_unknown (lr_ip req) = ip \<and> t \<le> lr_now req \<and> lr_now req < t + WINDOW_SECONDS * 1000 \<and>
      sess_error (lr_session req) = None"
    and "counters db (''login_fail:ip:'' @ ip) = None"
  shows "int (length (filter wrong_guess (fst (login_run st cry reqs db)))) \<le> max 0 (LOGIN_IP_MAX st)"
proof -
  have "spent (''login_fail:ip:'' @ ip) (t + WINDOW_SECONDS * 1000) 0 (counters db)" using assms(2) by (simp add: spent_def)
  then show ?thesis using login_run_bound [of reqs ip "t + WINDOW_SECONDS * 1000" 0 db st cry] assms(1) by fastforce
qed

subsection \<open>A concrete instance\<close>

definition sample_account_row :: "string \<Rightarrow> login_account" where
  "sample_account_row stored =
     \<lparr>acc_id = 1, acc_memberId = None, acc_email = ''a@b.fr'', acc_firstname = None, acc_lastname = None,
      acc_password = stored, acc_active = True, acc_emailVerifiedAt = Some 0, acc_anonymizedAt = None,
      acc_congregationId = 1, acc_sessionEpoch = 0, acc_twoFactorSecret = None, acc_twoFactorEnabledAt = None, acc_locale = None\<rparr>"

definition sample_auth :: auth where
  "sample_auth = \<lparr>accounts = [sample_account_row ''salt.00''], tenants = [], resetTokens = [], verificationTokens = [],
     feedTokens = [], consents = [], counters = (\<lambda>_. None), journal = []\<rparr>"

definition sample_site :: site where
  "sample_site = \<lparr>multiTenant = False, baseDomain = ''unitae.app'', LOGIN_IP_MAX = 1, LOGIN_GLOBAL_MAX = 100,
     TWO_FACTOR_MAX = 5, parseUrl = (\<lambda>_. None)\<rparr>"

definition short_crypto :: crypto where
  "short_crypto = sample_crypto\<lparr>kdf := (\<lambda>secret salt params. if sp_N params = 16384 then Some (if secret = ''good'' then [0] else [1]) else None)\<rparr>"

definition sample_login_form :: "string \<Rightarrow> login_request" where
  "sample_login_form password = \<lparr>lr_hostname = ''unitae.app'', lr_ip = Some ''::1'', lr_session = empty_session,
     lr_submission = Some (''a@b.fr'', password), lr_form = None, lr_query = None, lr_now = 5, lr_random = [1], lr_redis = True\<rparr>"

lemma wrong_passwords_are_bounded_witness:
  "length (filter wrong_guess (fst (login_run sample_site short_crypto
     [sample_login_form ''x'', sample_login_form ''y'', sample_login_form ''z''] sample_auth))) \<le> 1"
proof -
  have "int (length (filter wrong_guess (fst (login_run sample_site short_crypto
     [sample_login_form ''x'', sample_login_form ''y'', sample_login_form ''z''] sample_auth)))) \<le> max 0 (LOGIN_IP_MAX sample_site)"
    by (rule wrong_passwords_are_bounded [of _ "''::1''" 0])
      (simp_all add: sample_login_form_def sample_auth_def or_unknown_def WINDOW_SECONDS_def empty_session_def)
  then show ?thesis by (simp add: sample_site_def)
qed

subsection \<open>What a revocation leaves\<close>

text \<open>
  The pending state of a challenge is not bound to the epoch: somebody who had passed the password
  before a reset still passes the challenge with a code afterwards, and is signed in with the new epoch.
\<close>

lemma pending_challenge_survives_a_reset:
  assumes "resetAccountPassword cry random now u password db = Some db'"
  shows "resolvePendingUserId st db' hostname raw = resolvePendingUserId st db hostname raw"
    and "verifyTwoFactorChallenge cry db' i digits later = verifyTwoFactorChallenge cry db i digits later"
proof -
  obtain account stored where a: "account_row db u = Some account"
    and db': "db' = (update_account u (\<lambda>a. a\<lparr>acc_password := stored, acc_sessionEpoch := acc_sessionEpoch a + 1,
                  acc_emailVerifiedAt := (if acc_emailVerifiedAt account = None then Some now else acc_emailVerifiedAt a)\<rparr>) db)
                \<lparr>resetTokens := delete_where (\<lambda>t. prt_userId t = u) (resetTokens db)\<rparr>"
    using assms by (auto simp: resetAccountPassword_def split: option.splits)
  have row: "account_row db' j = map_option (\<lambda>a. if acc_id a = u then a\<lparr>acc_password := stored, acc_sessionEpoch := acc_sessionEpoch a + 1,
        acc_emailVerifiedAt := (if acc_emailVerifiedAt account = None then Some now else acc_emailVerifiedAt a)\<rparr> else a) (account_row db j)" for j
    unfolding db' account_row_frame by (simp add: account_row_def update_account_def find_account_update)
  have "tenants db' = tenants db" by (simp add: db' update_account_def)
  then have tenants: "resolveCongregationFromRequest st db' = resolveCongregationFromRequest st db"
    unfolding resolveCongregationFromRequest_def fun_eq_iff by (simp split: option.split)
  show "resolvePendingUserId st db' hostname raw = resolvePendingUserId st db hostname raw"
    by (simp add: resolvePendingUserId_def row tenants split: option.split sum.split)
  show "verifyTwoFactorChallenge cry db' i digits later = verifyTwoFactorChallenge cry db i digits later"
    by (simp add: verifyTwoFactorChallenge_def row split: option.split)
qed

subsection \<open>Witnesses of the session theorems\<close>

text \<open>Two accounts, the first with its second factor armed.\<close>

definition armed_auth :: auth where
  "armed_auth = sample_auth\<lparr>accounts :=
     [(sample_account_row ''salt.00'')\<lparr>acc_twoFactorSecret := Some ''b00:b01:b41'', acc_twoFactorEnabledAt := Some 3\<rparr>,
      (sample_account_row ''salt.00'')\<lparr>acc_id := 2, acc_email := ''c@d.fr''\<rparr>]\<rparr>"

definition armed_world :: world where
  "armed_world = \<lparr>w_auth = armed_auth, w_issued = {}\<rparr>"

lemmas sample_account_defs = armed_auth_def sample_auth_def sample_account_row_def

lemma armed_start: "reachable sample_site short_crypto id armed_world"
  unfolding armed_world_def by (rule reachable.start) (simp add: accounts_ok_def sample_account_defs)

definition pending_session :: session where
  "pending_session = empty_session\<lparr>sess_pending2faUserId := Some (js_string 1)\<rparr>"

lemma sample_lower: "lower_text ''a@b.fr'' = ''a@b.fr''" "lower_text ''c@d.fr'' = ''c@d.fr''"
  by code_simp+

lemma sample_compare: "compare_password (kdf short_crypto) password ''salt.00'' = Some (password = ''good'')"
proof -
  have "parseStoredHash ''salt.00'' = Some \<lparr>ph_params = LEGACY_PARAMS, ph_salt = ''salt'', ph_key = ''00''\<rparr>"
    by (simp add: parseStoredHash_def destructured_def)
  moreover have "from_hex ''00'' = [0]" by (simp add: digit_value_def code_Char Let_def)
  ultimately show ?thesis by (simp add: compare_password_def short_crypto_def LEGACY_PARAMS_def)
qed

lemma sample_no_hash: "hash_password (kdf short_crypto) r password = None"
  by (simp add: hash_password_def short_crypto_def CURRENT_PARAMS_def Let_def)

lemma sample_validates:
  assumes "accounts db = accounts armed_auth"
  shows "validateCredentials short_crypto r ''a@b.fr'' ''good'' None db = (Some 1, db)"
    and "validateCredentials short_crypto r ''c@d.fr'' ''good'' None db = (Some 2, db)"
  using assms by (simp_all add: validateCredentials_def sample_lower sample_compare sample_no_hash sample_account_defs Let_def)

lemma loginAction_result:
  assumes "lr_submission req = Some (username, password)"
    and "guardLoginAttempt st (lr_redis req) (lr_ip req) (lr_now req) (counters db) = (False, cs)"
    and "resolveCongregationFromRequest st (db\<lparr>counters := cs\<rparr>) (lr_hostname req) = Inr None"
    and "validateCredentials cry (lr_random req) username password None (db\<lparr>counters := cs\<rparr>) = (Some i, d)"
    and "d' = d\<lparr>counters := releaseLoginAttempt (lr_redis req) (lr_ip req) (lr_now req) (counters d)\<rparr>"
    and "to = resolvePostLoginRedirect (parseUrl st) (lr_form req) (lr_query req)"
  shows "isTwoFactorEnabled d' i \<Longrightarrow> loginAction st cry req db =
      (Redirected (buildTwoFactorChallengeUrl to) (Commit ((lr_session req)\<lparr>sess_userId := None, sess_pending2faUserId := Some (js_string i)\<rparr>)), d')"
    and "\<not> isTwoFactorEnabled d' i \<Longrightarrow> accounts (snd (loginAction st cry req db)) = accounts d' \<and>
      fst (loginAction st cry req db) = Redirected to (Commit (establishAuthenticatedSession d' i (lr_session req)))"
  using assms by (simp_all add: loginAction_def Let_def audit_sign_in_def login_audit_def split: option.split)

lemma sample_congregation: "resolveCongregationFromRequest sample_site db host = Inr None"
  by (simp add: resolveCongregationFromRequest_def sample_site_def)

lemma sample_guard:
  "\<exists>cs. guardLoginAttempt sample_site True ip t (counters armed_auth) = (False, cs) \<and> cs (twoFactorKey 1) = None"
proof -
  have "counters armed_auth = (\<lambda>_. None)" by (simp add: armed_auth_def sample_auth_def)
  then show ?thesis
    by (simp add: guardLoginAttempt_def incrementAndCount_def live_def sample_site_def)
qed

lemma sample_armed: "accounts db = accounts armed_auth \<Longrightarrow> isTwoFactorEnabled db 1 \<and> \<not> isTwoFactorEnabled db 2"
  by (simp add: isTwoFactorEnabled_def account_row_def sample_account_defs)

lemma armed_login:
  "\<exists>to db. accounts db = accounts armed_auth \<and> counters db (twoFactorKey 1) = None \<and>
     loginAction sample_site short_crypto (sample_login_form ''good'') armed_auth = (Redirected to (Commit pending_session), db)"
proof -
  obtain cs where g: "guardLoginAttempt sample_site True (Some ''::1'') 5 (counters armed_auth) = (False, cs)" "cs (twoFactorKey 1) = None"
    using sample_guard by blast
  have v: "validateCredentials short_crypto [1] ''a@b.fr'' ''good'' None (armed_auth\<lparr>counters := cs\<rparr>) = (Some 1, armed_auth\<lparr>counters := cs\<rparr>)"
    by (rule sample_validates(1)) simp
  have "loginAction sample_site short_crypto (sample_login_form ''good'') armed_auth =
    (Redirected (buildTwoFactorChallengeUrl (resolvePostLoginRedirect (parseUrl sample_site) None None)) (Commit pending_session),
     armed_auth\<lparr>counters := releaseLoginAttempt True (Some ''::1'') 5 cs\<rparr>)"
    using loginAction_result(1) [of "sample_login_form ''good''" "''a@b.fr''" "''good''" sample_site armed_auth cs short_crypto 1
      "armed_auth\<lparr>counters := cs\<rparr>", OF _ _ sample_congregation _ refl refl] g v sample_armed
    by (simp add: sample_login_form_def pending_session_def empty_session_def)
  moreover have "releaseLoginAttempt True (Some ''::1'') 5 cs (twoFactorKey 1) = None"
    using g(2) by (auto simp: releaseLoginAttempt_def decrement_def split: option.split)
  ultimately show ?thesis by auto
qed

lemma challengeAction_result:
  assumes "resolvePendingUserId st db (ch_hostname req) (sess_pending2faUserId (ch_session req)) = Inr (Some i)"
    and "ch_submission req = Some digits"
    and "resolveCongregationFromRequest st db (ch_hostname req) = Inr None"
    and "guardTwoFactorAttempt st (ch_redis req) i (ch_now req) (counters db) = (False, cs)"
    and "verifyTwoFactorChallenge cry (db\<lparr>counters := cs\<rparr>) i digits (ch_now req)"
  shows "accounts (snd (challengeAction st cry req db)) = accounts db \<and>
    (\<exists>to. fst (challengeAction st cry req db) =
       Redirected to (Commit (establishAuthenticatedSession db i ((ch_session req)\<lparr>sess_pending2faUserId := None\<rparr>))))"
  using assms
  by (simp add: challengeAction_def Let_def audit_sign_in_def login_audit_def establishAuthenticatedSession_def split: option.split)

definition sample_challenge :: challenge_request where
  "sample_challenge = \<lparr>ch_hostname = ''unitae.app'', ch_session = pending_session, ch_submission = Some ''123456'',
     ch_form = None, ch_query = None, ch_now = 6, ch_redis = True\<rparr>"

lemma sample_decrypts: "decryptSecret short_crypto ''b00:b01:b41'' = Some ''A''"
proof -
  have "from_hex ''00'' = [0]" "from_hex ''01'' = [1]" "from_hex ''41'' = [65]" by (simp_all add: digit_value_def code_Char Let_def)
  moreover have "char_of (65 :: nat) = CHR ''A''" by code_simp
  ultimately show ?thesis by (simp add: decryptSecret_def destructured_def short_crypto_def sample_crypto_def)
qed

lemma sample_verifies:
  assumes "accounts db = accounts armed_auth"
  shows "verifyTwoFactorChallenge short_crypto db 1 ''123456'' t"
proof -
  have "account_row db 1 = Some ((sample_account_row ''salt.00'')\<lparr>acc_twoFactorSecret := Some ''b00:b01:b41'', acc_twoFactorEnabledAt := Some 3\<rparr>)"
    by (simp add: account_row_def assms armed_auth_def sample_account_row_def)
  then show ?thesis
    by (simp add: verifyTwoFactorChallenge_def sample_account_row_def sample_decrypts verifyTotpCode_def is_code_def)
      (simp add: short_crypto_def sample_crypto_def is_digit_def code_Char)
qed

lemma first_id: "positive_id (Some (js_string 1)) = Some 1"
  using positive_id_string [of 1] by simp

lemma pending_world:
  "\<exists>db. accounts db = accounts armed_auth \<and> counters db (twoFactorKey 1) = None \<and>
     step sample_site short_crypto id armed_world (Login_Form (sample_login_form ''good''))
       \<lparr>w_auth = db, w_issued = {pending_session}\<rparr>"
proof -
  obtain to db where login: "accounts db = accounts armed_auth" "counters db (twoFactorKey 1) = None"
      "loginAction sample_site short_crypto (sample_login_form ''good'') armed_auth = (Redirected to (Commit pending_session), db)"
    using armed_login by blast
  have "step sample_site short_crypto id armed_world (Login_Form (sample_login_form ''good''))
      (after_visit armed_world (committed (Redirected to (Commit pending_session))) db)"
    by (rule step.login) (use login in \<open>simp_all add: presented_def sample_login_form_def armed_world_def\<close>)
  moreover have "after_visit armed_world (committed (Redirected to (Commit pending_session))) db =
      \<lparr>w_auth = db, w_issued = {pending_session}\<rparr>"
    by (simp add: after_visit_def committed_def armed_world_def)
  ultimately show ?thesis using login(1,2) by auto
qed

lemma armed_accounts_need_their_code_witness:
  "\<exists>w w' s a. step sample_site short_crypto id w (Challenge_Form sample_challenge) w' \<and> s \<in> w_issued w' \<and>
     findUserFromSession (w_auth w') s = Some a \<and> isTwoFactorEnabled (w_auth w') (acc_id a) \<and>
     (verifyTwoFactorChallenge short_crypto (w_auth w) (acc_id a) ''123456'' 6 \<or> already_in w (acc_id a))"
proof -
  obtain db where db: "accounts db = accounts armed_auth" "counters db (twoFactorKey 1) = None"
      and login: "step sample_site short_crypto id armed_world (Login_Form (sample_login_form ''good''))
        \<lparr>w_auth = db, w_issued = {pending_session}\<rparr>"
    using pending_world by (rule exE) (elim conjE, rule that)
  define w where "w = \<lparr>w_auth = db, w_issued = {pending_session}\<rparr>"
  have w: "reachable sample_site short_crypto id w" unfolding w_def by (rule reachable.visit [OF armed_start login])
  define opened where "opened = establishAuthenticatedSession db 1 (pending_session\<lparr>sess_pending2faUserId := None\<rparr>)"
  have pending: "resolvePendingUserId sample_site db ''unitae.app'' (Some (js_string 1)) = Inr (Some 1)"
    by (simp add: resolvePendingUserId_def sample_congregation first_id)
  have verified: "verifyTwoFactorChallenge short_crypto (db\<lparr>counters := cs\<rparr>) 1 ''123456'' 6" for cs
    by (rule sample_verifies) (simp add: db)
  obtain x db' where c: "challengeAction sample_site short_crypto sample_challenge db = (x, db')" by fastforce
  obtain cs where guard: "guardTwoFactorAttempt sample_site True 1 6 (counters db) = (False, cs)"
    by (simp add: guardTwoFactorAttempt_def incrementAndCount_def live_def db sample_site_def)
  have result: "accounts db' = accounts db \<and> (\<exists>to. x = Redirected to (Commit opened))"
    using challengeAction_result [of sample_site db sample_challenge 1 "''123456''" cs short_crypto] pending verified guard c
    by (simp add: sample_challenge_def pending_session_def sample_congregation opened_def)
  have s: "step sample_site short_crypto id w (Challenge_Form sample_challenge) (after_visit w (committed x) db')"
    by (rule step.challenge) (use c in \<open>simp_all add: w_def presented_def sample_challenge_def\<close>)
  have issued: "opened \<in> w_issued (after_visit w (committed x) db')" using result by (auto simp: after_visit_def committed_def)
  have same: "accounts db' = accounts armed_auth" using result db by simp
  obtain a where a: "account_row db' 1 = Some a" "acc_id a = 1" "acc_active a" "acc_sessionEpoch a = 0"
    using same by (simp add: account_row_def sample_account_defs)
  have "account_epoch db 1 = 0" using same result db by (simp add: account_epoch_def account_row_def sample_account_defs)
  then have "opened = pending_session\<lparr>sess_pending2faUserId := None, sess_userId := Some (js_string 1), sess_sessionEpoch := Some (js_string 0)\<rparr>"
    by (simp add: opened_def establishAuthenticatedSession_def)
  then have found: "findUserFromSession (w_auth (after_visit w (committed x) db')) opened = Some a"
    using a by (simp add: findUserFromSession_def session_epoch_def first_id js_integer_string after_visit_def)
  have armed: "isTwoFactorEnabled (w_auth (after_visit w (committed x) db')) (acc_id a)"
    using sample_armed [OF same] a(2) by (simp add: after_visit_def)
  show ?thesis
    using armed_accounts_need_their_code [OF w s issued found armed] s issued found armed
    by (intro exI [of _ w] exI [of _ "after_visit w (committed x) db'"] exI [of _ opened] exI [of _ a])
      (auto simp: sample_challenge_def)
qed

definition second_form :: login_request where
  "second_form = (sample_login_form ''good'')\<lparr>lr_submission := Some (''c@d.fr'', ''good'')\<rparr>"

definition second_session :: session where
  "second_session = empty_session\<lparr>sess_userId := Some (js_string 2), sess_sessionEpoch := Some (js_string 0)\<rparr>"

lemma second_login:
  "accounts (snd (loginAction sample_site short_crypto second_form armed_auth)) = accounts armed_auth \<and>
   (\<exists>to. fst (loginAction sample_site short_crypto second_form armed_auth) = Redirected to (Commit second_session))"
proof -
  obtain cs where g: "guardLoginAttempt sample_site True (Some ''::1'') 5 (counters armed_auth) = (False, cs)"
    using sample_guard by (rule exE) (elim conjE, rule that)
  have v: "validateCredentials short_crypto [1] ''c@d.fr'' ''good'' None (armed_auth\<lparr>counters := cs\<rparr>) = (Some 2, armed_auth\<lparr>counters := cs\<rparr>)"
    by (rule sample_validates(2)) simp
  have "account_epoch armed_auth 2 = 0" by (simp add: account_epoch_def account_row_def sample_account_defs)
  then have e: "establishAuthenticatedSession armed_auth 2 empty_session = second_session"
    by (simp add: establishAuthenticatedSession_def second_session_def)
  have n: "\<not> isTwoFactorEnabled (armed_auth\<lparr>counters := c\<rparr>) 2" for c
    using sample_armed [of "armed_auth\<lparr>counters := c\<rparr>"] by simp
  show ?thesis
    using loginAction_result(2) [of second_form "''c@d.fr''" "''good''" sample_site armed_auth cs short_crypto 2
      "armed_auth\<lparr>counters := cs\<rparr>", OF _ _ sample_congregation _ refl refl] g v n
    by (simp add: second_form_def sample_login_form_def e)
qed

lemma ended_sessions_never_come_back_witness:
  "\<exists>w a. reachable sample_site short_crypto id w \<and> second_session \<in> w_issued w \<and>
     findUserFromSession (revokeAccountSessions 1 (w_auth w)) second_session = Some a \<and> acc_id a \<noteq> 1"
proof -
  obtain x db where c: "loginAction sample_site short_crypto second_form armed_auth = (x, db)" by fastforce
  have db: "accounts db = accounts armed_auth" and x: "second_session \<in> committed x"
    using second_login c by (auto simp: committed_def)
  define w where "w = after_visit armed_world (committed x) db"
  have "step sample_site short_crypto id armed_world (Login_Form second_form) w"
    unfolding w_def by (rule step.login) (use c in \<open>simp_all add: presented_def second_form_def sample_login_form_def armed_world_def\<close>)
  then have r: "reachable sample_site short_crypto id w" by (rule reachable.visit [OF armed_start])
  have issued: "second_session \<in> w_issued w" using x by (simp add: w_def after_visit_def)
  have w: "w_auth w = db" by (simp add: w_def after_visit_def)
  have "positive_id (Some (js_string 2)) = Some 2" using positive_id_string [of 2] by simp
  then obtain a where found: "findUserFromSession (revokeAccountSessions 1 (w_auth w)) second_session = Some a"
    by (simp add: findUserFromSession_def session_epoch_def js_integer_string second_session_def w revokeAccountSessions_def
        update_account_def account_row_def db update_where_def sample_account_defs)
  have "acc_id a \<noteq> 1"
    by (rule ended_sessions_never_come_back [OF r issued _ steps_refl, of 1 "revokeAccountSessions 1 (w_auth w)"])
      (use found in \<open>simp_all add: sessions_ended_def\<close>)
  then show ?thesis using r issued found by blast
qed

end
