(* ===== verification/Seed_Templates.thy ===== *)
theory Seed_Templates
  imports Event_Templates Part_Presets
begin

text \<open>
  The programme a new congregation starts with (\<^verbatim>\<open>features/events/server/seed-templates.server.ts\<close>):
  the kinds of part, then five templates with their parts and services. The messages are read from
  the catalogue, in the locale of the congregation.
\<close>

section \<open>The definitions\<close>

record PartDefinition =
  pdf_name :: string
  pdf_section :: string
  pdf_order :: int
  pdf_durationMin :: "int option"
  pdf_allowExternalSpeaker :: bool
  pdf_preset :: "string option"

record TemplateDefinition =
  tdf_name :: string
  tdf_key :: string
  tdf_weekDay :: "int option"
  tdf_isRecurring :: bool
  tdf_startTime :: string
  tdf_endTime :: string
  tdf_color :: string
  tdf_parts :: "PartDefinition list"
  tdf_serviceParts :: "(string \<times> string) list"

definition seed_part :: "string \<Rightarrow> string option \<Rightarrow> string \<Rightarrow> int \<Rightarrow> int option \<Rightarrow> bool \<Rightarrow> PartDefinition" where
  "seed_part name preset section_name order durationMin external =
     \<lparr>pdf_name = name, pdf_section = section_name, pdf_order = order, pdf_durationMin = durationMin,
      pdf_allowExternalSpeaker = external, pdf_preset = preset\<rparr>"

definition getSharedServiceParts :: "(string \<Rightarrow> string) \<Rightarrow> (string \<times> string) list" where
  "getSharedServiceParts m =
     [(m ''seed_service_sound'', ''sono''), (m ''seed_service_stage'', ''stage''),
      (m ''seed_service_reception'', ''welcome''), (m ''seed_service_cleaning'', ''cleaning'')]"

definition midweek_template :: "(string \<Rightarrow> string) \<Rightarrow> TemplateDefinition" where
  "midweek_template m =
     \<lparr>tdf_name = m ''seed_template_midweek'', tdf_key = ''midweek-meeting'', tdf_weekDay = Some 2, tdf_isRecurring = True,
      tdf_startTime = ''19:00'', tdf_endTime = ''20:45'', tdf_color = ''#3b82f6'',
      tdf_parts =
        [seed_part (m ''seed_part_song_and_prayer'') (Some ''prayer'') [] 1 (Some 5) False,
         seed_part (m ''seed_part_discourse'') (Some ''midweek-talk'') (m ''seed_section_spiritual_gems'') 2 (Some 10) True,
         seed_part (m ''seed_part_search_spiritual_pearls'') (Some ''midweek-talk'') (m ''seed_section_spiritual_gems'') 3 (Some 10) False,
         seed_part (m ''seed_part_bible_reading'') (Some ''bible-reading'') (m ''seed_section_spiritual_gems'') 4 (Some 4) False,
         seed_part (m ''seed_part_first_part'') None (m ''seed_section_ministry'') 5 None True,
         seed_part (m ''seed_part_second_part'') None (m ''seed_section_ministry'') 6 None True,
         seed_part (m ''seed_part_third_part'') None (m ''seed_section_ministry'') 7 None True,
         seed_part (m ''seed_part_song'') None [] 8 (Some 5) False,
         seed_part (m ''seed_part_first_part'') (Some ''midweek-talk'') (m ''seed_section_christian_life'') 9 None True,
         seed_part (m ''seed_part_second_part'') (Some ''midweek-talk'') (m ''seed_section_christian_life'') 10 None True,
         seed_part (m ''seed_part_congregation_bible_study'') (Some ''congregation-bible-study'')
           (m ''seed_section_christian_life'') 11 (Some 30) False,
         seed_part (m ''seed_part_song_and_closing_prayer'') (Some ''prayer'') [] 12 (Some 5) False],
      tdf_serviceParts = getSharedServiceParts m\<rparr>"

definition weekend_template :: "(string \<Rightarrow> string) \<Rightarrow> TemplateDefinition" where
  "weekend_template m =
     \<lparr>tdf_name = m ''seed_template_weekend'', tdf_key = ''weekend-meeting'', tdf_weekDay = Some 6, tdf_isRecurring = True,
      tdf_startTime = ''10:00'', tdf_endTime = ''11:45'', tdf_color = ''#10b981'',
      tdf_parts =
        [seed_part (m ''seed_part_song_and_prayer'') (Some ''prayer'') [] 1 (Some 5) False,
         seed_part (m ''seed_part_public_discourse'') (Some ''public-talk'') [] 2 (Some 30) True,
         seed_part (m ''seed_part_song'') None [] 3 (Some 5) False,
         seed_part (m ''seed_part_watchtower_study'') (Some ''watchtower-study'') [] 4 (Some 60) False,
         seed_part (m ''seed_part_song_and_closing_prayer'') (Some ''prayer'') [] 5 (Some 5) False],
      tdf_serviceParts = getSharedServiceParts m\<rparr>"

definition memorial_template :: "(string \<Rightarrow> string) \<Rightarrow> TemplateDefinition" where
  "memorial_template m =
     \<lparr>tdf_name = m ''seed_template_memorial'', tdf_key = ''memorial'', tdf_weekDay = None, tdf_isRecurring = False,
      tdf_startTime = ''19:00'', tdf_endTime = ''20:30'', tdf_color = ''#f59e0b'',
      tdf_parts =
        [seed_part (m ''seed_part_song_and_prayer'') (Some ''prayer'') [] 1 (Some 5) False,
         seed_part (m ''seed_part_memorial_discourse'') None [] 2 (Some 45) True,
         seed_part (m ''seed_part_prayer_bread'') (Some ''prayer'') [] 3 None False,
         seed_part (m ''seed_part_prayer_wine'') (Some ''prayer'') [] 4 None False,
         seed_part (m ''seed_part_song_and_closing_prayer'') (Some ''prayer'') [] 5 (Some 5) False],
      tdf_serviceParts = getSharedServiceParts m\<rparr>"

definition bare_template :: "string \<Rightarrow> string \<Rightarrow> string \<Rightarrow> string \<Rightarrow> string \<Rightarrow> TemplateDefinition" where
  "bare_template name key startTime endTime color =
     \<lparr>tdf_name = name, tdf_key = key, tdf_weekDay = None, tdf_isRecurring = False, tdf_startTime = startTime,
      tdf_endTime = endTime, tdf_color = color, tdf_parts = [], tdf_serviceParts = []\<rparr>"

definition default_templates :: "(string \<Rightarrow> string) \<Rightarrow> TemplateDefinition list" where
  "default_templates m =
     [midweek_template m, weekend_template m, memorial_template m,
      bare_template (m ''seed_template_day_off'') TemplateKey_DayOff ''00:00'' ''23:59'' ''#cfcfcf'',
      bare_template (m ''seed_template_freeform'') TemplateKey_Freeform ''19:00'' ''21:00'' ''#6366f1'']"

section \<open>Seeding\<close>

text \<open>\<^verbatim>\<open>new Map(...)\<close>: of two presets with one key the last would win.\<close>

definition presetIdByKey :: "int \<Rightarrow> pdb \<Rightarrow> string \<Rightarrow> int option" where
  "presetIdByKey congregationId p key =
     map_option pst_id (find (\<lambda>t. pst_congregationId t = congregationId \<and> pst_key t = key) (rev (partPresets p)))"

definition seeded_part :: "(string \<Rightarrow> int option) \<Rightarrow> int \<Rightarrow> int \<Rightarrow> int \<Rightarrow> PartDefinition \<Rightarrow> template_part" where
  "seeded_part presets i templateId congregationId d =
     (new_template_part i templateId congregationId)
       \<lparr>tp_name := pdf_name d, tp_section := pdf_section d, tp_order := pdf_order d, tp_durationMin := pdf_durationMin d,
        tp_allowExternalSpeaker := pdf_allowExternalSpeaker d,
        tp_presetId := (case pdf_preset d of None \<Rightarrow> None | Some key \<Rightarrow> presets key)\<rparr>"

definition add_seeded_part :: "row_keys \<Rightarrow> (string \<Rightarrow> int option) \<Rightarrow> int \<Rightarrow> int \<Rightarrow> PartDefinition \<Rightarrow> pdb \<Rightarrow> pdb" where
  "add_seeded_part k presets templateId congregationId d p =
     p\<lparr>templateParts := templateParts p @
        [seeded_part presets (key_template_part k (templateParts p)) templateId congregationId d]\<rparr>"

definition add_seeded_service :: "row_keys \<Rightarrow> int \<Rightarrow> int \<Rightarrow> string \<times> string \<Rightarrow> pdb \<Rightarrow> pdb" where
  "add_seeded_service k templateId congregationId service p =
     p\<lparr>templateServiceParts := templateServiceParts p @
        [\<lparr>tsp_id = key_template_service k (templateServiceParts p), tsp_name = fst service, tsp_key = snd service,
          tsp_templateId = templateId, tsp_presetId = None, tsp_congregationId = congregationId\<rparr>]\<rparr>"

definition has_template :: "int \<Rightarrow> string \<Rightarrow> pdb \<Rightarrow> bool" where
  "has_template congregationId key p \<longleftrightarrow>
     list_ex (\<lambda>t. tpl_key t = key \<and> tpl_congregationId t = congregationId) (eventTemplates p)"

definition seeded_template :: "int \<Rightarrow> int \<Rightarrow> TemplateDefinition \<Rightarrow> event_template" where
  "seeded_template i congregationId d =
     \<lparr>tpl_id = i, tpl_name = tdf_name d, tpl_key = tdf_key d, tpl_description = [], tpl_weekDay = tdf_weekDay d,
      tpl_isRecurring = tdf_isRecurring d, tpl_startTime = tdf_startTime d, tpl_endTime = tdf_endTime d,
      tpl_color = tdf_color d, tpl_congregationId = congregationId\<rparr>"

definition seed_template :: "row_keys \<Rightarrow> (string \<Rightarrow> int option) \<Rightarrow> int \<Rightarrow> TemplateDefinition \<Rightarrow> pdb \<Rightarrow> pdb" where
  "seed_template k presets congregationId d p =
     (if has_template congregationId (tdf_key d) p then p
      else
        (let i = key_template k (eventTemplates p)
         in fold (add_seeded_service k i congregationId) (tdf_serviceParts d)
              (fold (add_seeded_part k presets i congregationId) (tdf_parts d)
                (p\<lparr>eventTemplates := eventTemplates p @ [seeded_template i congregationId d]\<rparr>))))"

definition seedDefaultTemplates :: "row_keys \<Rightarrow> catalogue \<Rightarrow> int \<Rightarrow> string \<Rightarrow> pdb \<Rightarrow> pdb" where
  "seedDefaultTemplates k words congregationId locale p =
     (let q = seedDefaultPartPresets k congregationId p
      in fold (seed_template k (presetIdByKey congregationId q) congregationId)
           (default_templates (\<lambda>message. words message (Some locale))) q)"

section \<open>What the seed leaves\<close>

lemma seed_rows_frame [simp]:
  "partPresets (fold (add_seeded_service k i c) ss p) = partPresets p"
  "partPresets (fold (add_seeded_part k presets i c) ds p) = partPresets p"
  "eventTemplates (fold (add_seeded_service k i c) ss p) = eventTemplates p"
  "eventTemplates (fold (add_seeded_part k presets i c) ds p) = eventTemplates p"
  "templateParts (fold (add_seeded_service k i c) ss p) = templateParts p"
  "core (fold (add_seeded_service k i c) ss p) = core p"
  "core (fold (add_seeded_part k presets i c) ds p) = core p"
  by (induction ss arbitrary: p, simp_all add: add_seeded_service_def)
    (induction ds arbitrary: p, simp_all add: add_seeded_part_def)+

lemma seed_template_frame [simp]:
  "partPresets (seed_template k presets c d p) = partPresets p" "core (seed_template k presets c d p) = core p"
  by (simp_all add: seed_template_def Let_def)

lemma seed_templates_frame [simp]:
  "partPresets (fold (seed_template k presets c) ds p) = partPresets p"
  "core (fold (seed_template k presets c) ds p) = core p"
  by (induction ds arbitrary: p) simp_all

lemma seed_preset_frame [simp]:
  "core (fold (seed_preset k c) xs p) = core p" "templateParts (fold (seed_preset k c) xs p) = templateParts p"
  by (induction xs arbitrary: p) (simp_all add: seed_preset_def split: prod.split)

lemma seed_core: "core (seedDefaultTemplates k words c l p) = core p"
  by (simp add: seedDefaultTemplates_def seedDefaultPartPresets_def Let_def)

lemma seed_template_has:
  "has_template c key (seed_template k presets c d p) \<longleftrightarrow> has_template c key p \<or> key = tdf_key d"
  by (auto simp: seed_template_def has_template_def seeded_template_def Let_def)

lemma seed_templates_have:
  "has_template c key (fold (seed_template k presets c) ds p) \<longleftrightarrow> has_template c key p \<or> key \<in> tdf_key ` set ds"
  by (induction ds arbitrary: p) (auto simp: seed_template_has)

lemma seed_templates_again:
  "\<forall>d \<in> set ds. has_template c (tdf_key d) p \<Longrightarrow> fold (seed_template k presets c) ds p = p"
  by (induction ds) (simp_all add: seed_template_def)

lemma seed_preset_keys: "set (preset_keys c (seed_preset k c x p)) = insert (fst x) (set (preset_keys c p))"
proof (cases x)
  case (fields key reader external)
  have "preset_keys c (p\<lparr>partPresets := partPresets p @ [t]\<rparr>) = preset_keys c p @ (if pst_congregationId t = c then [pst_key t] else [])" for t
    by (simp add: preset_keys_def)
  then show ?thesis by (auto simp: fields seed_preset_def blank_preset_def)
qed

lemma seed_presets_have: "set (preset_keys c (fold (seed_preset k c) xs p)) = set (preset_keys c p) \<union> fst ` set xs"
  by (induction xs arbitrary: p) (auto simp: seed_preset_keys)

lemma seed_presets_again: "fst ` set xs \<subseteq> set (preset_keys c p) \<Longrightarrow> fold (seed_preset k c) xs p = p"
  by (induction xs) (auto simp: seed_preset_def)

lemma template_keys: "tdf_key ` set (default_templates m) = tdf_key ` set (default_templates m')"
  by (simp add: default_templates_def midweek_template_def weekend_template_def memorial_template_def bare_template_def)

text \<open>
  Seeding is complete and can be repeated: afterwards the congregation has every template and every
  kind of the defaults, and seeding again, in whatever language, changes nothing.
\<close>

theorem seeding_again_changes_nothing:
  "seedDefaultTemplates k' words' c l' (seedDefaultTemplates k words c l p) = seedDefaultTemplates k words c l p"
proof -
  define q where "q = seedDefaultTemplates k words c l p"
  have "fst ` set PRESETS \<subseteq> set (preset_keys c q)"
    using seed_presets_have [of c k PRESETS p]
    by (simp add: q_def seedDefaultTemplates_def seedDefaultPartPresets_def Let_def preset_keys_def)
  then have again: "seedDefaultPartPresets k' c q = q" by (simp add: seedDefaultPartPresets_def seed_presets_again)
  have "\<forall>d \<in> set (default_templates m). has_template c (tdf_key d) q" for m
    using template_keys [of m "\<lambda>message. words message (Some l)"]
    by (auto simp: q_def seedDefaultTemplates_def Let_def seed_templates_have)
  then show ?thesis
    unfolding q_def [symmetric] by (simp add: seedDefaultTemplates_def again seed_templates_again)
qed

definition follows :: "int \<Rightarrow> (string \<Rightarrow> int option) \<Rightarrow> event_template list \<Rightarrow> template_part \<Rightarrow> TemplateDefinition \<Rightarrow> PartDefinition \<Rightarrow> bool" where
  "follows c presets ts a d x \<longleftrightarrow>
     x \<in> set (tdf_parts d) \<and> (\<exists>t \<in> set ts. tpl_id t = tp_templateId a \<and> tpl_key t = tdf_key d \<and> tpl_congregationId t = c) \<and>
     tp_name a = pdf_name x \<and> tp_section a = pdf_section x \<and> tp_order a = pdf_order x \<and> tp_congregationId a = c \<and>
     tp_presetId a = (case pdf_preset x of None \<Rightarrow> None | Some key \<Rightarrow> presets key)"

lemma seeded_parts_rows:
  "\<exists>new. templateParts (fold (add_seeded_part k presets i c) ds p) = templateParts p @ new \<and>
     list_all2 (\<lambda>a x. \<exists>j. a = seeded_part presets j i c x) new ds"
proof (induction ds arbitrary: p)
  case (Cons x ds)
  define r where "r = add_seeded_part k presets i c x p"
  obtain new where new: "templateParts (fold (add_seeded_part k presets i c) ds r) = templateParts r @ new"
      "list_all2 (\<lambda>a x. \<exists>j. a = seeded_part presets j i c x) new ds"
    using Cons.IH [of r] by blast
  then show ?case
    unfolding fold_simps r_def [symmetric]
    by (intro exI [of _ "seeded_part presets (key_template_part k (templateParts p)) i c x # new"])
      (auto simp: r_def add_seeded_part_def [of k presets i c x p])
qed simp

lemma follows_mono: "follows c presets ts a d x \<Longrightarrow> set ts \<subseteq> set us \<Longrightarrow> follows c presets us a d x"
  by (auto simp: follows_def)

lemma seed_template_rows:
  "\<exists>new. templateParts (seed_template k presets c d p) = templateParts p @ new \<and>
     (\<forall>a \<in> set new. \<exists>x. follows c presets (eventTemplates (seed_template k presets c d p)) a d x)"
proof (cases "has_template c (tdf_key d) p")
  case False
  define i where "i = key_template k (eventTemplates p)"
  obtain new where new: "templateParts (fold (add_seeded_part k presets i c) (tdf_parts d)
        (p\<lparr>eventTemplates := eventTemplates p @ [seeded_template i c d]\<rparr>)) = templateParts p @ new"
      "list_all2 (\<lambda>a x. \<exists>j. a = seeded_part presets j i c x) new (tdf_parts d)"
    using seeded_parts_rows [of k presets i c "tdf_parts d" "p\<lparr>eventTemplates := eventTemplates p @ [seeded_template i c d]\<rparr>"] by auto
  have "\<exists>x. follows c presets (eventTemplates (seed_template k presets c d p)) a d x" if a: "a \<in> set new" for a
  proof -
    obtain x j where "x \<in> set (tdf_parts d)" "a = seeded_part presets j i c x"
      using new(2) a by (fastforce simp: list_all2_conv_all_nth in_set_conv_nth)
    then have "follows c presets (eventTemplates (seed_template k presets c d p)) a d x"
      using False by (simp add: follows_def seed_template_def seeded_part_def new_template_part_def seeded_template_def i_def Let_def)
    then show ?thesis ..
  qed
  then show ?thesis using new(1) False by (intro exI [of _ new]) (simp add: seed_template_def i_def Let_def)
qed (simp add: seed_template_def)

lemma seed_template_grows: "set (eventTemplates p) \<subseteq> set (eventTemplates (seed_template k presets c d p))"
  by (auto simp: seed_template_def Let_def)

lemma seed_templates_grow: "set (eventTemplates p) \<subseteq> set (eventTemplates (fold (seed_template k presets c) ds p))"
  by (induction ds arbitrary: p) (auto dest: subsetD [OF seed_template_grows])

lemma seed_templates_rows:
  "\<exists>new. templateParts (fold (seed_template k presets c) ds p) = templateParts p @ new \<and>
     (\<forall>a \<in> set new. \<exists>d \<in> set ds. \<exists>x. follows c presets (eventTemplates (fold (seed_template k presets c) ds p)) a d x)"
proof (induction ds arbitrary: p)
  case (Cons d ds)
  define r where "r = seed_template k presets c d p"
  obtain new where new: "templateParts r = templateParts p @ new" "\<forall>a \<in> set new. \<exists>x. follows c presets (eventTemplates r) a d x"
    using seed_template_rows [of k presets c d p] by (auto simp: r_def)
  obtain more where more: "templateParts (fold (seed_template k presets c) ds r) = templateParts r @ more"
      "\<forall>a \<in> set more. \<exists>d \<in> set ds. \<exists>x. follows c presets (eventTemplates (fold (seed_template k presets c) ds r)) a d x"
    using Cons.IH [of r] by blast
  show ?case
    using new more follows_mono [OF _ seed_templates_grow]
    by (intro exI [of _ "new @ more"]) (fastforce simp: r_def)
qed simp

lemma presetIdByKey_found:
  assumes "key \<in> set (preset_keys c p)"
  shows "\<exists>t \<in> set (partPresets p). pst_congregationId t = c \<and> pst_key t = key \<and> presetIdByKey c p key = Some (pst_id t)"
proof -
  obtain t where "find (\<lambda>t. pst_congregationId t = c \<and> pst_key t = key) (rev (partPresets p)) = Some t"
    using assms by (cases "find (\<lambda>t. pst_congregationId t = c \<and> pst_key t = key) (rev (partPresets p))")
      (auto simp: preset_keys_def find_None_iff)
  then show ?thesis using find_Some_in by (fastforce simp: presetIdByKey_def)
qed

lemma named_kinds: "d \<in> set (default_templates m) \<Longrightarrow> x \<in> set (tdf_parts d) \<Longrightarrow> pdf_preset x = Some key \<Longrightarrow> key \<in> fst ` set PRESETS"
  by (auto simp: default_templates_def midweek_template_def weekend_template_def memorial_template_def bare_template_def
      seed_part_def PRESETS_def)

text \<open>
  Every part the seed adds stands in a template of the congregation as its definition says, and a
  part whose definition names a kind is linked to the congregation's own row of that kind: the
  fallback to no kind at all never happens.
\<close>

theorem seeded_parts_know_their_kind:
  "\<exists>new. templateParts (seedDefaultTemplates k words c l p) = templateParts p @ new \<and>
     (\<forall>a \<in> set new. \<exists>d \<in> set (default_templates (\<lambda>message. words message (Some l))). \<exists>x \<in> set (tdf_parts d).
        (\<exists>t \<in> set (eventTemplates (seedDefaultTemplates k words c l p)).
           tpl_id t = tp_templateId a \<and> tpl_key t = tdf_key d \<and> tpl_congregationId t = c) \<and>
        tp_name a = pdf_name x \<and> tp_section a = pdf_section x \<and> tp_order a = pdf_order x \<and>
        (case pdf_preset x of
           None \<Rightarrow> tp_presetId a = None
         | Some key \<Rightarrow> (\<exists>t \<in> set (partPresets (seedDefaultTemplates k words c l p)).
             pst_congregationId t = c \<and> pst_key t = key \<and> tp_presetId a = Some (pst_id t))))"
proof -
  define q where "q = seedDefaultPartPresets k c p"
  define s where "s = seedDefaultTemplates k words c l p"
  define ds where "ds = default_templates (\<lambda>message. words message (Some l))"
  have s: "s = fold (seed_template k (presetIdByKey c q) c) ds q" by (simp add: s_def q_def ds_def seedDefaultTemplates_def Let_def)
  have parts: "templateParts q = templateParts p"
    by (simp add: q_def seedDefaultPartPresets_def)
  have keys: "fst ` set PRESETS \<subseteq> set (preset_keys c q)"
    by (simp add: q_def seedDefaultPartPresets_def seed_presets_have)
  have kinds: "partPresets s = partPresets q" by (simp add: s)
  obtain new where new: "templateParts s = templateParts q @ new"
      "\<forall>a \<in> set new. \<exists>d \<in> set ds. \<exists>x. follows c (presetIdByKey c q) (eventTemplates s) a d x"
    using seed_templates_rows [of k "presetIdByKey c q" c ds q] by (auto simp: s)
  have linked: "case pdf_preset x of None \<Rightarrow> tp_presetId a = None
      | Some key \<Rightarrow> (\<exists>t \<in> set (partPresets s). pst_congregationId t = c \<and> pst_key t = key \<and> tp_presetId a = Some (pst_id t))"
    if "d \<in> set ds" "follows c (presetIdByKey c q) (eventTemplates s) a d x" for a d x
  proof (cases "pdf_preset x")
    case (Some key)
    then have "key \<in> fst ` set PRESETS"
      using named_kinds [of d "\<lambda>message. words message (Some l)" x key] that by (simp add: follows_def ds_def)
    then have "key \<in> set (preset_keys c q)" using keys by blast
    from presetIdByKey_found [OF this] show ?thesis using that Some by (auto simp: follows_def kinds)
  qed (use that in \<open>simp add: follows_def\<close>)
  have "\<forall>a \<in> set new. \<exists>d \<in> set ds. \<exists>x \<in> set (tdf_parts d).
      (\<exists>t \<in> set (eventTemplates s). tpl_id t = tp_templateId a \<and> tpl_key t = tdf_key d \<and> tpl_congregationId t = c) \<and>
      tp_name a = pdf_name x \<and> tp_section a = pdf_section x \<and> tp_order a = pdf_order x \<and>
      (case pdf_preset x of None \<Rightarrow> tp_presetId a = None
        | Some key \<Rightarrow> (\<exists>t \<in> set (partPresets s). pst_congregationId t = c \<and> pst_key t = key \<and> tp_presetId a = Some (pst_id t)))"
  proof
    fix a assume "a \<in> set new"
    then obtain d x where "d \<in> set ds" "follows c (presetIdByKey c q) (eventTemplates s) a d x" using new(2) by blast
    from linked [OF this] this show "\<exists>d \<in> set ds. \<exists>x \<in> set (tdf_parts d).
      (\<exists>t \<in> set (eventTemplates s). tpl_id t = tp_templateId a \<and> tpl_key t = tdf_key d \<and> tpl_congregationId t = c) \<and>
      tp_name a = pdf_name x \<and> tp_section a = pdf_section x \<and> tp_order a = pdf_order x \<and>
      (case pdf_preset x of None \<Rightarrow> tp_presetId a = None
        | Some key \<Rightarrow> (\<exists>t \<in> set (partPresets s). pst_congregationId t = c \<and> pst_key t = key \<and> tp_presetId a = Some (pst_id t)))"
      unfolding follows_def by blast
  qed
  then show ?thesis using new(1) parts unfolding s_def ds_def by (intro exI [of _ new]) simp
qed

end
