(* ===== verification/Provisioning.thy ===== *)
theory Provisioning
  imports Seed_Templates Sign_In Password_Flows Organigram_Chart Built_In_Roles
begin

text \<open>
  How a congregation comes to be (\<^verbatim>\<open>shared/domain/setup.server.ts\<close>,
  \<^verbatim>\<open>setup-first-account.server.ts\<close>, \<^verbatim>\<open>register-congregation.server.ts\<close>, \<^verbatim>\<open>territory-kinds.server.ts\<close>
  and the pages \<^verbatim>\<open>setup.tsx\<close> and \<^verbatim>\<open>register.tsx\<close>). The instance is the accounts and tenants of the
  authentication, and the tables of the programme, which hold those of the roles; an account created
  here is a row of both. The keys of permissions and kinds of territory that the database allots are
  arguments.
\<close>

section \<open>Permissions and roles\<close>

definition upsert_permission :: "(permission list \<Rightarrow> int) \<Rightarrow> string \<Rightarrow> db \<Rightarrow> db" where
  "upsert_permission newId key db =
     (if list_ex (\<lambda>p. perm_key p = key) (permissions db) then db
      else db\<lparr>permissions := permissions db @ [\<lparr>perm_id = newId (permissions db), perm_key = key\<rparr>]\<rparr>)"

definition seedPermissions :: "(permission list \<Rightarrow> int) \<Rightarrow> db \<Rightarrow> db" where
  "seedPermissions newId db = fold (upsert_permission newId) ALL_PERMISSIONS db"

definition has_key :: "string \<Rightarrow> int \<Rightarrow> role \<Rightarrow> bool" where
  "has_key key congregationId r \<longleftrightarrow> role_key r = key \<and> role_congregationId r = congregationId"

definition system_role :: "env \<Rightarrow> string \<Rightarrow> bool \<Rightarrow> int \<Rightarrow> role list \<Rightarrow> role" where
  "system_role ev key isSinglePerson congregationId rs =
     \<lparr>role_id = env_role_id ev rs, role_key = key, role_name = None, role_description = None, role_isBuiltIn = True,
      role_parentRoleId = None, role_showInOrganigram = False, role_organigramOrder = None, role_organigramNote = None,
      role_isSinglePerson = isSinglePerson, role_congregationId = congregationId\<rparr>"

definition seed_role :: "env \<Rightarrow> int \<Rightarrow> string \<Rightarrow> db \<Rightarrow> db" where
  "seed_role ev congregationId key db =
     (let isSinglePerson = (key \<in> set SERVICE_COMMITTEE_POST_KEYS)
      in if list_ex (has_key key congregationId) (roles db)
         then db\<lparr>roles := update_where (has_key key congregationId)
                (\<lambda>r. r\<lparr>role_isBuiltIn := True, role_isSinglePerson := isSinglePerson\<rparr>) (roles db)\<rparr>
         else db\<lparr>roles := roles db @ [system_role ev key isSinglePerson congregationId (roles db)]\<rparr>)"

definition upsert_role_permission :: "int \<Rightarrow> int \<Rightarrow> int \<Rightarrow> db \<Rightarrow> db" where
  "upsert_role_permission roleId permissionId congregationId db =
     (if list_ex (\<lambda>x. rp_roleId x = roleId \<and> rp_permissionId x = permissionId) (rolePermissions db) then db
      else db\<lparr>rolePermissions := rolePermissions db @
        [\<lparr>rp_roleId = roleId, rp_permissionId = permissionId, rp_congregationId = congregationId\<rparr>]\<rparr>)"

definition find_permission :: "string \<Rightarrow> db \<Rightarrow> permission option" where
  "find_permission key db = find (\<lambda>p. perm_key p = key) (permissions db)"

definition seedBuiltInRoles :: "env \<Rightarrow> int \<Rightarrow> db \<Rightarrow> db" where
  "seedBuiltInRoles ev congregationId db =
     (let seeded = fold (seed_role ev congregationId) (BUILT_IN_ROLE_KEYS @ SYSTEM_ROLE_KEYS @ APPOINTED_ROLE_KEYS) db
      in case (find (has_key ''publisher'' congregationId) (roles seeded), find_permission ''can-view-board'' seeded) of
           (Some publisherRole, Some boardViewer) \<Rightarrow>
             upsert_role_permission (role_id publisherRole) (perm_id boardViewer) congregationId seeded
         | _ \<Rightarrow> seeded)"

section \<open>The chart every congregation starts with\<close>

definition ORGANIGRAM_ORDER_STEP :: int where
  "ORGANIGRAM_ORDER_STEP = 5"

definition idFor :: "int \<Rightarrow> role list \<Rightarrow> string \<Rightarrow> int option" where
  "idFor congregationId rs key = map_option role_id (find (has_key key congregationId) (rev rs))"

definition place_default :: "(string \<Rightarrow> int option) \<Rightarrow> int \<Rightarrow> string \<Rightarrow> int option \<Rightarrow> int \<Rightarrow> role list \<Rightarrow> role list" where
  "place_default ids congregationId key parentRoleId order rs =
     (case ids key of
        None \<Rightarrow> rs
      | Some i \<Rightarrow> update_where (is_role i congregationId)
          (\<lambda>r. r\<lparr>role_showInOrganigram := True, role_parentRoleId := parentRoleId, role_organigramOrder := Some order\<rparr>) rs)"

definition placeDefaultOrganigram :: "int \<Rightarrow> db \<Rightarrow> db" where
  "placeDefaultOrganigram congregationId db =
     (if list_ex (\<lambda>r. role_congregationId r = congregationId \<and> role_showInOrganigram r) (roles db) then db
      else
        (let ids = idFor congregationId (roles db);
             rosters = place_default ids congregationId ''assistant-servant'' None (ORGANIGRAM_ORDER_STEP * 2)
               (place_default ids congregationId ''elder'' None ORGANIGRAM_ORDER_STEP (roles db));
             committee = place_default ids congregationId SERVICE_COMMITTEE_KEY (ids ''elder'') ORGANIGRAM_ORDER_STEP rosters
         in db\<lparr>roles := fold (\<lambda>(index, key).
                  place_default ids congregationId key (ids SERVICE_COMMITTEE_KEY) ((int index + 1) * ORGANIGRAM_ORDER_STEP))
                (zip [0..<length SERVICE_COMMITTEE_POST_KEYS] SERVICE_COMMITTEE_POST_KEYS) committee\<rparr>))"

definition ADMIN_ROLE_KEY :: string where
  "ADMIN_ROLE_KEY = ''admin''"

definition ensureAdminRole :: "env \<Rightarrow> int \<Rightarrow> db \<Rightarrow> int option \<times> db" where
  "ensureAdminRole ev congregationId db =
     (case find_permission CanDoAnything db of
        None \<Rightarrow> (None, db)
      | Some adminPermission \<Rightarrow>
          (let ensured = (if list_ex (has_key ADMIN_ROLE_KEY congregationId) (roles db) then db
                 else db\<lparr>roles := roles db @ [system_role ev ADMIN_ROLE_KEY False congregationId (roles db)]\<rparr>)
           in case find (has_key ADMIN_ROLE_KEY congregationId) (roles ensured) of
                None \<Rightarrow> (None, ensured)
              | Some r \<Rightarrow>
                  (Some (role_id r), upsert_role_permission (role_id r) (perm_id adminPermission) congregationId ensured)))"

section \<open>Kinds of territory\<close>

definition BUILT_IN_TERRITORY_KIND_KEYS :: "TerritoryKindKey list" where
  "BUILT_IN_TERRITORY_KIND_KEYS = [Classical, Univ, Commerces, Phone, Hotel]"

definition is_kind :: "TerritoryKindKey \<Rightarrow> int \<Rightarrow> territory_kind \<Rightarrow> bool" where
  "is_kind key congregationId t \<longleftrightarrow> tk_key t = key \<and> tk_congregationId t = congregationId"

definition seed_kind :: "(territory_kind list \<Rightarrow> int) \<Rightarrow> int \<Rightarrow> TerritoryKindKey \<Rightarrow> db \<Rightarrow> db" where
  "seed_kind newId congregationId key db =
     (if list_ex (is_kind key congregationId) (territoryKinds db)
      then db\<lparr>territoryKinds := update_where (is_kind key congregationId) (\<lambda>t. t\<lparr>tk_isBuiltIn := True\<rparr>) (territoryKinds db)\<rparr>
      else db\<lparr>territoryKinds := territoryKinds db @
        [\<lparr>tk_id = newId (territoryKinds db), tk_key = key, tk_isBuiltIn = True, tk_congregationId = congregationId\<rparr>]\<rparr>)"

definition seedBuiltInTerritoryKinds :: "(territory_kind list \<Rightarrow> int) \<Rightarrow> int \<Rightarrow> db \<Rightarrow> db" where
  "seedBuiltInTerritoryKinds newId congregationId db = fold (seed_kind newId congregationId) BUILT_IN_TERRITORY_KIND_KEYS db"

text \<open>\<^verbatim>\<open>createMany\<close> with \<^verbatim>\<open>skipDuplicates\<close>.\<close>

definition insert_kind_role :: "int \<Rightarrow> int \<Rightarrow> int \<Rightarrow> db \<Rightarrow> db" where
  "insert_kind_role kindId congregationId roleId db =
     (if list_ex (\<lambda>x. tkr_kindId x = kindId \<and> tkr_roleId x = roleId) (kindAllowedRoles db) then db
      else db\<lparr>kindAllowedRoles := kindAllowedRoles db @
        [\<lparr>tkr_kindId = kindId, tkr_roleId = roleId, tkr_congregationId = congregationId\<rparr>]\<rparr>)"

definition kind_key_name :: "TerritoryKindKey \<Rightarrow> string" where
  "kind_key_name key =
     (case key of Classical \<Rightarrow> ''Classical'' | Univ \<Rightarrow> ''Univ'' | Commerces \<Rightarrow> ''Commerces'' | Phone \<Rightarrow> ''Phone'' | Hotel \<Rightarrow> ''Hotel'')"

definition setKindAllowedRoles ::
  "TerritoryKindKey \<Rightarrow> int list \<Rightarrow> int \<Rightarrow> int \<Rightarrow> db \<Rightarrow> (db, int list \<times> int list) outcome" where
  "setKindAllowedRoles kindKey desiredRoleIds congregationId actorId db =
     (case find (is_kind kindKey congregationId) (territoryKinds db) of
        None \<Rightarrow> (Inl (NotFoundError ''TerritoryKind'' None), db)
      | Some kind \<Rightarrow>
          (let previous = map tkr_roleId (filter (\<lambda>x. tkr_kindId x = tk_id kind \<and> tkr_congregationId x = congregationId)
                 (kindAllowedRoles db));
               diff = diffRoleIds previous desiredRoleIds; added = df_added diff; removed = df_removed diff
           in if added = [] \<and> removed = [] then (Inr (added, removed), db)
              else if list_ex (\<lambda>i. find (is_role i congregationId) (roles db) = None) added
              then (Inl (DatabaseError ForeignKeyViolation), db)
              else
                (Inr (added, removed),
                 entity_audit ''territory_kind.allowed_roles.changed'' congregationId actorId ''TerritoryKind'' (tk_id kind)
                   (Some [(''key'', JStr (kind_key_name kindKey)), (''added'', JArr (map JNum added)), (''removed'', JArr (map JNum removed))])
                   (fold (insert_kind_role (tk_id kind) congregationId) added
                     (db\<lparr>kindAllowedRoles := delete_where (\<lambda>x. tkr_kindId x = tk_id kind \<and> tkr_congregationId x = congregationId \<and>
                        tkr_roleId x \<in> set removed) (kindAllowedRoles db)\<rparr>)))))"

section \<open>A new congregation\<close>

record instance_state =
  in_auth :: auth
  in_programme :: pdb

text \<open>What the database and the random generator supply.\<close>

record provider =
  sp_env :: env
  sp_rows :: row_keys
  sp_permission :: "permission list \<Rightarrow> int"
  sp_kind :: "territory_kind list \<Rightarrow> int"
  sp_tenant :: "tenant list \<Rightarrow> int"
  sp_account :: "login_account list \<Rightarrow> int"
  sp_consent :: "consent_record list \<Rightarrow> int"
  sp_salt :: bytes
  sp_suffix :: "nat \<Rightarrow> bytes"
  sp_now :: int

definition on_core :: "(db \<Rightarrow> db) \<Rightarrow> instance_state \<Rightarrow> instance_state" where
  "on_core f ins = ins\<lparr>in_programme := (in_programme ins)\<lparr>core := f (core (in_programme ins))\<rparr>\<rparr>"

definition seedCongregationDefaults ::
  "provider \<Rightarrow> catalogue \<Rightarrow> int \<Rightarrow> string \<Rightarrow> pdb \<Rightarrow> pdb" where
  "seedCongregationDefaults sp words congregationId locale p =
     (let templates = seedDefaultTemplates (sp_rows sp) words congregationId locale p
      in templates\<lparr>core := placeDefaultOrganigram congregationId (seedBuiltInRoles (sp_env sp) congregationId
           (seedBuiltInTerritoryKinds (sp_kind sp) congregationId (core templates)))\<rparr>)"

definition new_account :: "int \<Rightarrow> string \<Rightarrow> string \<Rightarrow> int \<Rightarrow> int \<Rightarrow> login_account" where
  "new_account i email stored now congregationId =
     \<lparr>acc_id = i, acc_memberId = None, acc_email = email, acc_firstname = None, acc_lastname = None, acc_password = stored,
      acc_active = True, acc_emailVerifiedAt = Some now, acc_anonymizedAt = None, acc_congregationId = congregationId,
      acc_sessionEpoch = 0, acc_twoFactorSecret = None, acc_twoFactorEnabledAt = None, acc_locale = None\<rparr>"

definition add_account :: "login_account \<Rightarrow> instance_state \<Rightarrow> instance_state" where
  "add_account a ins =
     on_core (\<lambda>db. db\<lparr>userAccounts := userAccounts db @ [user_account.truncate a]\<rparr>)
       (ins\<lparr>in_auth := (in_auth ins)\<lparr>accounts := accounts (in_auth ins) @ [a]\<rparr>\<rparr>)"

definition new_tenant :: "int \<Rightarrow> string \<Rightarrow> string \<Rightarrow> tenant" where
  "new_tenant i slug locale =
     \<lparr>cong_id = i, cong_slug = slug, cong_active = True, cong_suspendedAt = None, cong_domain = None, cong_locale = locale,
      cong_trialEndsAt = None\<rparr>"

definition add_tenant :: "tenant \<Rightarrow> instance_state \<Rightarrow> instance_state" where
  "add_tenant c ins = ins\<lparr>in_auth := (in_auth ins)\<lparr>tenants := tenants (in_auth ins) @ [c]\<rparr>\<rparr>"

text \<open>
  The transaction of the new congregation: its defaults, the role of its first account, and a sync
  that is given the identifier of the account where it expects that of a member.
\<close>

definition provision :: "provider \<Rightarrow> catalogue \<Rightarrow> int \<Rightarrow> string \<Rightarrow> int \<Rightarrow> instance_state \<Rightarrow> instance_state" where
  "provision sp words congregationId locale userId ins =
     (let seeded = ins\<lparr>in_programme := seedCongregationDefaults sp words congregationId locale (in_programme ins)\<rparr>
      in on_core (\<lambda>db.
           (case ensureAdminRole (sp_env sp) congregationId db of
              (adminRoleId, db) \<Rightarrow>
                syncBuiltInRoleAssignments userId congregationId (Some userId)
                  (case adminRoleId of
                     None \<Rightarrow> db
                   | Some i \<Rightarrow> db\<lparr>userRoleAssignments := userRoleAssignments db @
                       [\<lparr>ura_userId = userId, ura_roleId = i, ura_kind = ''member'', ura_congregationId = congregationId\<rparr>]\<rparr>))) seeded)"

definition record_first_consent :: "provider \<Rightarrow> int \<Rightarrow> int \<Rightarrow> instance_state \<Rightarrow> instance_state" where
  "record_first_consent sp userId congregationId ins =
     ins\<lparr>in_auth := recordConsentUnscoped (sp_consent sp (consents (in_auth ins))) (sp_now sp) userId congregationId
       ''DATA_PROCESSING'' (in_auth ins)\<rparr>"

text \<open>The result is \<open>None\<close> when an account exists already; the outer \<open>None\<close> is the exception of the derivation.\<close>

definition setupFirstAccount ::
  "provider \<Rightarrow> crypto \<Rightarrow> catalogue \<Rightarrow> string \<Rightarrow> string \<Rightarrow> string \<Rightarrow> string \<Rightarrow> instance_state \<Rightarrow> (int option \<times> instance_state) option" where
  "setupFirstAccount sp cry words email password congregationSlug locale ins =
     (if length (accounts (in_auth ins)) > 0 then Some (None, ins)
      else
        (case hash_password (kdf cry) (sp_salt sp) password of
           None \<Rightarrow> None
         | Some hashedPassword \<Rightarrow>
             (let ins = on_core (seedPermissions (sp_permission sp)) ins;
                  (c, ins) = (case tenants (in_auth ins) of
                     existing # _ \<Rightarrow> (existing, ins)
                   | [] \<Rightarrow> (let c = new_tenant (sp_tenant sp []) congregationSlug locale in (c, add_tenant c ins)));
                  user = new_account (sp_account sp (accounts (in_auth ins))) email hashedPassword (sp_now sp) (cong_id c);
                  ins = provision sp words (cong_id c) locale (acc_id user) (add_account user ins)
              in Some (Some (acc_id user), record_first_consent sp (acc_id user) (cong_id c) ins))))"

definition generateUniqueSlug :: "(nat \<Rightarrow> bytes) \<Rightarrow> string \<Rightarrow> auth \<Rightarrow> string option" where
  "generateUniqueSlug suffix baseSlug db =
     find (\<lambda>candidate. \<not> list_ex (\<lambda>c. cong_slug c = candidate) (tenants db))
       (map (\<lambda>attempt. baseSlug @ ''-'' @ to_hex (suffix attempt)) [0..<5])"

datatype registration = Email_Taken | Provisioning_Failed | Registered string int

definition registerCongregation ::
  "provider \<Rightarrow> crypto \<Rightarrow> catalogue \<Rightarrow> string \<Rightarrow> string \<Rightarrow> string \<Rightarrow> string \<Rightarrow> instance_state \<Rightarrow> (registration \<times> instance_state) option" where
  "registerCongregation sp cry words congregationSlug adminEmail adminPassword locale ins =
     (if list_ex (\<lambda>a. acc_email a = lower_text adminEmail) (accounts (in_auth ins)) then Some (Email_Taken, ins)
      else
        (case hash_password (kdf cry) (sp_salt sp) adminPassword of
           None \<Rightarrow> None
         | Some hashedPassword \<Rightarrow>
             (let ins = on_core (seedPermissions (sp_permission sp)) ins
              in case generateUniqueSlug (sp_suffix sp) congregationSlug (in_auth ins) of
                   None \<Rightarrow> Some (Provisioning_Failed, ins)
                 | Some slug \<Rightarrow>
                     (let c = new_tenant (sp_tenant sp (tenants (in_auth ins))) slug locale;
                          ins = add_tenant c ins;
                          user = new_account (sp_account sp (accounts (in_auth ins))) (lower_text adminEmail) hashedPassword
                            (sp_now sp) (cong_id c);
                          ins = provision sp words (cong_id c) locale (acc_id user) (add_account user ins)
                      in Some (Registered slug (acc_id user), record_first_consent sp (acc_id user) (cong_id c) ins)))))"

section \<open>The two pages\<close>

text \<open>Canonical decomposition of Latin-1 text is \<open>base_letter\<close>; the combining marks are dropped.\<close>

definition congregation_slug :: "string \<Rightarrow> string" where
  "congregation_slug text =
     strip_hyphens (hyphenate False (map (\<lambda>c. char_of (base_letter (lower_latin1 (code c)))) text))"

text \<open>The form is its outcome under the schema; the verdict of the password policy is an argument.\<close>

definition setupAction ::
  "site \<Rightarrow> provider \<Rightarrow> crypto \<Rightarrow> catalogue \<Rightarrow> (string \<times> string \<times> string) option \<Rightarrow> string option \<Rightarrow> session \<Rightarrow> instance_state \<Rightarrow>
     (answer \<times> instance_state) option" where
  "setupAction st sp cry words form policyError s ins =
     (if multiTenant st then Some (Redirected ''/register'' Keep_Cookie, ins)
      else if \<not> needSetupProcess (in_auth ins) then Some (Redirected ''/login'' Keep_Cookie, ins)
      else case form of
        None \<Rightarrow> Some (Bad_Request, ins)
      | Some (username, password, locale) \<Rightarrow>
          if policyError \<noteq> None then Some (Bad_Request, ins)
          else map_option (\<lambda>(userId, ins).
              (case userId of
                 None \<Rightarrow> Redirected ''/setup'' (Commit (flash_error ''generic_error'' s))
               | Some _ \<Rightarrow> Redirected ''/login'' Keep_Cookie, ins))
            (setupFirstAccount sp cry words username password ''default'' locale ins))"

definition registerAction ::
  "site \<Rightarrow> provider \<Rightarrow> crypto \<Rightarrow> catalogue \<Rightarrow> (string \<times> string \<times> string \<times> string) option \<Rightarrow> string option \<Rightarrow> session \<Rightarrow> instance_state \<Rightarrow>
     (answer \<times> instance_state) option" where
  "registerAction st sp cry words form policyError s ins =
     (if \<not> multiTenant st then Some (Redirected ''/login'' Keep_Cookie, ins)
      else case form of
        None \<Rightarrow> Some (Bad_Request, ins)
      | Some (name, locale, email, password) \<Rightarrow>
          if policyError \<noteq> None then Some (Bad_Request, ins)
          else
            (let slug = congregation_slug (trim name)
             in if length slug < 2 then Some (Redirected ''/register'' (Commit (flash_error ''slug_invalid'' s)), ins)
                else map_option (\<lambda>(result, ins).
                    (case result of
                       Email_Taken \<Rightarrow> Redirected ''/register'' (Commit (flash_error ''email_taken'' s))
                     | Provisioning_Failed \<Rightarrow> Redirected ''/register'' (Commit (flash_error ''generic_error'' s))
                     | Registered _ userId \<Rightarrow> Redirected ''/'' (Commit (establishAuthenticatedSession (in_auth ins) userId s)), ins))
                  (registerCongregation sp cry words slug (trim email) password locale ins)))"

section \<open>A congregation that has just been created\<close>

text \<open>
  A congregation that has just been created can be run: it has its chart, and its first account is
  an administrator that may sign in and work.
\<close>

subsection \<open>The seeded rows\<close>

lemma seed_permission_frame [simp]:
  "roles (fold (upsert_permission k) xs db) = roles db" "members (fold (upsert_permission k) xs db) = members db"
  "rolePermissions (fold (upsert_permission k) xs db) = rolePermissions db"
  "userAccounts (fold (upsert_permission k) xs db) = userAccounts db"
  "userRoleAssignments (fold (upsert_permission k) xs db) = userRoleAssignments db"
  "memberRoleAssignments (fold (upsert_permission k) xs db) = memberRoleAssignments db"
  by (induction xs arbitrary: db) (simp_all add: upsert_permission_def)

lemma seed_permissions_have:
  "perm_key ` set (permissions (fold (upsert_permission k) xs db)) = perm_key ` set (permissions db) \<union> set xs"
  by (induction xs arbitrary: db) (auto simp: upsert_permission_def list_ex_iff image_iff)

lemma found_permission:
  assumes "key \<in> perm_key ` set (permissions db)"
  shows "\<exists>p \<in> set (permissions db). perm_key p = key \<and> find_permission key db = Some p"
proof (cases "find_permission key db")
  case None
  then show ?thesis using assms by (auto simp: find_permission_def find_None_iff)
next
  case (Some p)
  then show ?thesis using find_Some_in [OF Some [unfolded find_permission_def]] by auto
qed

definition plain_rows :: "int \<Rightarrow> role list \<Rightarrow> bool" where
  "plain_rows c rs \<longleftrightarrow> (\<forall>r \<in> set rs. role_congregationId r = c \<and> \<not> role_showInOrganigram r \<and> role_parentRoleId r = None)"

lemma seed_roles_rows:
  assumes "fresh_keys ev" and "distinct (map role_id (roles db))" and "distinct keys"
    and "\<forall>key \<in> set keys. \<not> list_ex (has_key key c) (roles db)"
  shows "\<exists>new. fold (seed_role ev c) keys db = db\<lparr>roles := roles db @ new\<rparr> \<and> map role_key new = keys \<and> plain_rows c new \<and>
    distinct (map role_id (roles db @ new))"
  using assms(2-)
proof (induction keys arbitrary: db)
  case Nil
  then show ?case by (intro exI [of _ "[]"]) (simp add: plain_rows_def)
next
  case (Cons key keys)
  define r where "r = system_role ev key (key \<in> set SERVICE_COMMITTEE_POST_KEYS) c (roles db)"
  have one: "seed_role ev c key db = db\<lparr>roles := roles db @ [r]\<rparr>" using Cons.prems(3) by (simp add: seed_role_def r_def Let_def)
  have "role_id r \<notin> role_id ` set (roles db)" using assms(1) by (simp add: fresh_keys_def r_def system_role_def)
  then have d: "distinct (map role_id (roles (db\<lparr>roles := roles db @ [r]\<rparr>)))" using Cons.prems(1) by simp
  have k: "role_key r = key" by (simp add: r_def system_role_def)
  have "\<forall>key \<in> set keys. \<not> list_ex (has_key key c) (roles (db\<lparr>roles := roles db @ [r]\<rparr>))"
    using Cons.prems(2,3) k by (auto simp: has_key_def [of _ _ r])
  then obtain new where new: "fold (seed_role ev c) keys (db\<lparr>roles := roles db @ [r]\<rparr>) = db\<lparr>roles := (roles db @ [r]) @ new\<rparr>"
      "map role_key new = keys" "plain_rows c new" "distinct (map role_id ((roles db @ [r]) @ new))"
    using Cons.IH [OF d] Cons.prems(2) by auto
  show ?case
    by (rule exI [of _ "r # new"]) (use new k in \<open>simp add: one plain_rows_def r_def system_role_def\<close>)
qed

subsection \<open>The default chart\<close>

text \<open>The rows of one congregation among rows with identifiers and keys of their own.\<close>

definition keyed :: "int \<Rightarrow> role list \<Rightarrow> bool" where
  "keyed c rs \<longleftrightarrow> distinct (map role_id rs) \<and>
     (\<forall>r \<in> set rs. \<forall>r' \<in> set rs. role_congregationId r = c \<and> role_congregationId r' = c \<and> role_key r = role_key r' \<longrightarrow> r = r')"

lemma idFor_role:
  assumes "keyed c rs" and "r \<in> set rs"
  shows "(idFor c rs key = Some (role_id r) \<and> role_congregationId r = c) \<longleftrightarrow> has_key key c r"
proof -
  have same: "r' = r" if "r' \<in> set rs" "role_id r' = role_id r" for r'
    using assms that by (auto simp: keyed_def distinct_map inj_on_def)
  show ?thesis
  proof (cases "find (has_key key c) (rev rs)")
    case None
    then have "\<not> has_key key c r" using assms(2) by (simp add: find_None_iff)
    then show ?thesis using None by (simp add: idFor_def)
  next
    case (Some r0)
    then have r0: "r0 \<in> set rs" "has_key key c r0" using find_Some_in by fastforce+
    have "has_key key c r \<Longrightarrow> r = r0" using assms r0 by (auto simp: keyed_def has_key_def)
    then show ?thesis using Some r0 same [OF r0(1)] by (auto simp: idFor_def has_key_def)
  qed
qed

lemma place_default_map:
  assumes "keyed c rs" and "\<And>r. r \<in> set rs \<Longrightarrow> role_id (h r) = role_id r \<and> role_congregationId (h r) = role_congregationId r"
  shows "place_default (idFor c rs) c key parent order (map h rs) =
    map (\<lambda>r. if has_key key c r
             then (h r)\<lparr>role_showInOrganigram := True, role_parentRoleId := parent, role_organigramOrder := Some order\<rparr> else h r) rs"
proof (cases "idFor c rs key")
  case None
  then have "\<not> has_key key c r" if "r \<in> set rs" for r using idFor_role [OF assms(1) that, of key] by simp
  then show ?thesis using None by (simp add: place_default_def)
next
  case (Some i)
  have "is_role i c (h r) \<longleftrightarrow> has_key key c r" if "r \<in> set rs" for r
    using idFor_role [OF assms(1) that, of key] Some assms(2) [OF that] by (auto simp: is_role_def)
  then show ?thesis using Some by (simp add: place_default_def update_where_def)
qed

definition placed :: "(string \<Rightarrow> int option) \<Rightarrow> int \<Rightarrow> role \<Rightarrow> role" where
  "placed ids c r =
     (if role_congregationId r \<noteq> c then r
      else if role_key r = ''elder''
      then r\<lparr>role_showInOrganigram := True, role_parentRoleId := None, role_organigramOrder := Some 5\<rparr>
      else if role_key r = ''assistant-servant''
      then r\<lparr>role_showInOrganigram := True, role_parentRoleId := None, role_organigramOrder := Some 10\<rparr>
      else if role_key r = ''service-committee''
      then r\<lparr>role_showInOrganigram := True, role_parentRoleId := ids ''elder'', role_organigramOrder := Some 5\<rparr>
      else if role_key r = ''coordinator''
      then r\<lparr>role_showInOrganigram := True, role_parentRoleId := ids ''service-committee'', role_organigramOrder := Some 5\<rparr>
      else if role_key r = ''secretary''
      then r\<lparr>role_showInOrganigram := True, role_parentRoleId := ids ''service-committee'', role_organigramOrder := Some 10\<rparr>
      else if role_key r = ''service-overseer''
      then r\<lparr>role_showInOrganigram := True, role_parentRoleId := ids ''service-committee'', role_organigramOrder := Some 15\<rparr>
      else r)"

lemma placeDefaultOrganigram_rows:
  assumes "keyed c (roles db)" and "\<not> list_ex (\<lambda>r. role_congregationId r = c \<and> role_showInOrganigram r) (roles db)"
  shows "placeDefaultOrganigram c db = db\<lparr>roles := map (placed (idFor c (roles db)) c) (roles db)\<rparr>"
proof -
  let ?rs = "roles db"
  let ?ids = "idFor c ?rs"
  note place = place_default_map [OF assms(1)]
  have order: "ORGANIGRAM_ORDER_STEP = 5" by (simp add: ORGANIGRAM_ORDER_STEP_def)
  have steps: "place_default ?ids c ''service-overseer'' (?ids ''service-committee'') 15
      (place_default ?ids c ''secretary'' (?ids ''service-committee'') 10
      (place_default ?ids c ''coordinator'' (?ids ''service-committee'') 5
      (place_default ?ids c ''service-committee'' (?ids ''elder'') 5
      (place_default ?ids c ''assistant-servant'' None 10
      (place_default ?ids c ''elder'' None 5 (map (\<lambda>r. r) ?rs)))))) = map (placed ?ids c) ?rs"
    by (subst place, simp)+ (auto simp: placed_def has_key_def)
  then show ?thesis
    using assms(2) by (simp add: placeDefaultOrganigram_def Let_def order SERVICE_COMMITTEE_POST_KEYS_def SERVICE_COMMITTEE_KEY_def upt_rec)
qed

lemma placed_columns [simp]:
  "role_id (placed ids c r) = role_id r" "role_congregationId (placed ids c r) = role_congregationId r"
  "role_key (placed ids c r) = role_key r"
  by (simp_all add: placed_def)

lemma default_edges:
  assumes "keyed c rs" and "plain_rows c new" and "rs = old @ new" and "\<forall>r \<in> set old. role_congregationId r \<noteq> c"
    and "roles db = map (placed (idFor c rs) c) rs" and "(i, p) \<in> chart_edges db c"
  shows "\<exists>r \<in> set rs. role_id r = i \<and> role_congregationId r = c \<and>
    (role_key r = ''service-committee'' \<and> idFor c rs ''elder'' = Some p \<or>
     role_key r \<in> set SERVICE_COMMITTEE_POST_KEYS \<and> idFor c rs ''service-committee'' = Some p)"
proof -
  obtain r where r: "r \<in> set rs" "role_congregationId r = c" "role_id r = i" "role_parentRoleId (placed (idFor c rs) c r) = Some p"
    using assms(6) by (auto simp: chart_edges_iff assms(5))
  have "role_parentRoleId r = None" using r(1,2) assms(2-4) by (auto simp: plain_rows_def)
  then have "role_key r = ''service-committee'' \<and> idFor c rs ''elder'' = Some p \<or>
      role_key r \<in> set SERVICE_COMMITTEE_POST_KEYS \<and> idFor c rs ''service-committee'' = Some p"
    using r(2,4) by (simp add: placed_def SERVICE_COMMITTEE_POST_KEYS_def split: if_splits)
  then show ?thesis using r by blast
qed

lemma default_chart_ok:
  assumes "keyed c rs" and "plain_rows c new" and "rs = old @ new" and "\<forall>r \<in> set old. role_congregationId r \<noteq> c"
    and "roles db = map (placed (idFor c rs) c) rs"
  shows "chart_ok db c"
proof -
  note edge = default_edges [OF assms]
  have same: "r = r'" if "r \<in> set rs" "r' \<in> set rs" "role_id r = role_id r'" for r r'
    using assms(1) that by (auto simp: keyed_def distinct_map inj_on_def)
  have named: "role_key r = key" if "r \<in> set rs" "role_congregationId r = c" "idFor c rs key = Some (role_id r)" for r key
    using idFor_role [OF assms(1) that(1), of key] that by (simp add: has_key_def)
  have apart: "''elder'' \<notin> insert ''service-committee'' (set SERVICE_COMMITTEE_POST_KEYS)"
    "''service-committee'' \<notin> set SERVICE_COMMITTEE_POST_KEYS" by (simp_all add: SERVICE_COMMITTEE_POST_KEYS_def)
  have leaf: "(p, q) \<notin> chart_edges db c" if "idFor c rs ''elder'' = Some p" for p q
    using edge [of p q] named [of _ "''elder''"] that apart by fastforce
  have two: "(q, s) \<notin> chart_edges db c" if "(i, p) \<in> chart_edges db c" "(p, q) \<in> chart_edges db c" for i p q s
  proof -
    have "idFor c rs ''service-committee'' = Some p" using edge [OF that(1)] leaf that(2) by blast
    then have "idFor c rs ''elder'' = Some q" using edge [OF that(2)] named [of _ "''service-committee''"] apart by fastforce
    then show ?thesis by (rule leaf)
  qed
  have "chart_edges db c O chart_edges db c O chart_edges db c = {}" using two by fast
  moreover have "chart_edges db c ^^ 3 = chart_edges db c O chart_edges db c O chart_edges db c"
    by (simp add: numeral_3_eq_3 O_assoc)
  ultimately have "chart_edges db c ^^ 3 = {}" by (simp only:)
  then have "chart_edges db c ^^ (3 + 7) = {}" unfolding relpow_add by (simp only: relcomp_empty1)
  then have "chart_edges db c ^^ MAX_ORGANIGRAM_DEPTH = {}" by (simp add: MAX_ORGANIGRAM_DEPTH_def)
  moreover have "distinct (map role_id (roles db))" using assms(1) by (simp add: assms(5) keyed_def comp_def)
  moreover have "role_parentRoleId r = None" if "r \<in> set (roles db)" "role_congregationId r = c" "\<not> role_showInOrganigram r" for r
  proof -
    obtain r0 where r0: "r0 \<in> set rs" "r = placed (idFor c rs) c r0" using \<open>r \<in> set (roles db)\<close> by (auto simp: assms(5))
    then have "r0 \<in> set new" using that(2) assms(3,4) by auto
    then have "role_parentRoleId r0 = None" using assms(2) by (simp add: plain_rows_def)
    then show ?thesis using that(3) r0(2) by (simp add: placed_def split: if_splits)
  qed
  ultimately show ?thesis by (simp add: chart_ok_def)
qed

subsection \<open>The defaults of a fresh congregation\<close>

lemma seed_kind_frame [simp]:
  "roles (fold (seed_kind k c) xs db) = roles db" "members (fold (seed_kind k c) xs db) = members db"
  "permissions (fold (seed_kind k c) xs db) = permissions db" "rolePermissions (fold (seed_kind k c) xs db) = rolePermissions db"
  "userAccounts (fold (seed_kind k c) xs db) = userAccounts db"
  "userRoleAssignments (fold (seed_kind k c) xs db) = userRoleAssignments db"
  "memberRoleAssignments (fold (seed_kind k c) xs db) = memberRoleAssignments db"
  by (induction xs arbitrary: db) (simp_all add: seed_kind_def)

lemma upsert_role_permission_frame [simp]:
  "roles (upsert_role_permission r i c db) = roles db" "members (upsert_role_permission r i c db) = members db"
  "permissions (upsert_role_permission r i c db) = permissions db" "userAccounts (upsert_role_permission r i c db) = userAccounts db"
  "userRoleAssignments (upsert_role_permission r i c db) = userRoleAssignments db"
  "memberRoleAssignments (upsert_role_permission r i c db) = memberRoleAssignments db"
  "filter (\<lambda>x. rp_congregationId x \<noteq> c) (rolePermissions (upsert_role_permission r i c db)) =
     filter (\<lambda>x. rp_congregationId x \<noteq> c) (rolePermissions db)"
  by (simp_all add: upsert_role_permission_def)

definition untouched :: "db \<Rightarrow> db \<Rightarrow> bool" where
  "untouched db db' \<longleftrightarrow> members db' = members db \<and> permissions db' = permissions db \<and> userAccounts db' = userAccounts db"

text \<open>The permissions of the roles of other congregations, and who holds those roles.\<close>

definition others_kept :: "int \<Rightarrow> db \<Rightarrow> db \<Rightarrow> bool" where
  "others_kept c db db' \<longleftrightarrow>
     filter (\<lambda>x. rp_congregationId x \<noteq> c) (rolePermissions db') = filter (\<lambda>x. rp_congregationId x \<noteq> c) (rolePermissions db) \<and>
     filter (\<lambda>a. ura_congregationId a \<noteq> c) (userRoleAssignments db') = filter (\<lambda>a. ura_congregationId a \<noteq> c) (userRoleAssignments db) \<and>
     memberRoleAssignments db' = memberRoleAssignments db"

text \<open>
  The chart a congregation starts with: the elders and the ministerial servants at the top, the
  service committee under the elders, and its three posts under the committee, in this order.
\<close>

definition at_place :: "db \<Rightarrow> int \<Rightarrow> string \<Rightarrow> string option \<Rightarrow> int \<Rightarrow> bool" where
  "at_place db c key parentKey order \<longleftrightarrow>
     (\<exists>r \<in> set (roles db). has_key key c r \<and> role_showInOrganigram r \<and> role_organigramOrder r = Some order \<and>
        (case parentKey of
           None \<Rightarrow> role_parentRoleId r = None
         | Some k \<Rightarrow> \<exists>p \<in> set (roles db). has_key k c p \<and> role_parentRoleId r = Some (role_id p)))"

definition default_chart :: "db \<Rightarrow> int \<Rightarrow> bool" where
  "default_chart db c \<longleftrightarrow>
     at_place db c ''elder'' None 5 \<and> at_place db c ''assistant-servant'' None 10 \<and>
     at_place db c ''service-committee'' (Some ''elder'') 5 \<and>
     at_place db c ''coordinator'' (Some ''service-committee'') 5 \<and>
     at_place db c ''secretary'' (Some ''service-committee'') 10 \<and>
     at_place db c ''service-overseer'' (Some ''service-committee'') 15"

lemma default_chart_placed:
  assumes "keyed c rs" and "roles db = map (placed (idFor c rs) c) rs"
    and "\<forall>key \<in> {''elder'', ''assistant-servant'', ''service-committee'', ''coordinator'', ''secretary'', ''service-overseer''}.
           list_ex (has_key key c) rs"
  shows "default_chart db c"
proof -
  let ?f = "placed (idFor c rs) c"
  have row: "?f r \<in> set (roles db)" if "r \<in> set rs" for r using that assms(2) by simp
  have key: "has_key k c (?f r) = has_key k c r" for k r by (simp add: has_key_def)
  have parent: "\<exists>p \<in> set (roles db). has_key k c p \<and> idFor c rs k = Some (role_id p)"
    if has: "list_ex (has_key k c) rs" for k
  proof -
    obtain p where p: "p \<in> set rs" "has_key k c p" using has by (auto simp: list_ex_iff)
    then have "idFor c rs k = Some (role_id (?f p))" using idFor_role [OF assms(1) p(1), of k] by simp
    then show ?thesis using row [OF p(1)] p(2) key by blast
  qed
  have place: "at_place db c k parentKey n"
    if has: "list_ex (has_key k c) rs"
      and set_to: "\<And>r. has_key k c r \<Longrightarrow> role_showInOrganigram (?f r) \<and> role_organigramOrder (?f r) = Some n \<and>
             (case parentKey of None \<Rightarrow> role_parentRoleId (?f r) = None
              | Some a \<Rightarrow> role_parentRoleId (?f r) = idFor c rs a \<and> list_ex (has_key a c) rs)"
    for k parentKey n
  proof -
    obtain r where r: "r \<in> set rs" "has_key k c r" using has by (auto simp: list_ex_iff)
    show ?thesis unfolding at_place_def
      by (rule bexI [OF _ row [OF r(1)]]) (use set_to [OF r(2)] r(2) key parent in \<open>auto split: option.splits\<close>)
  qed
  show ?thesis unfolding default_chart_def
    by (intro conjI; rule place) (use assms(3) in \<open>simp_all add: placed_def has_key_def\<close>)
qed

lemma default_keys: "distinct (BUILT_IN_ROLE_KEYS @ SYSTEM_ROLE_KEYS @ APPOINTED_ROLE_KEYS)"
  by (simp add: role_key_defs)

lemma seeded_defaults:
  assumes "fresh_keys ev" and "distinct (map role_id (roles db))" and "\<forall>r \<in> set (roles db). role_congregationId r \<noteq> c"
  shows "\<exists>db'. placeDefaultOrganigram c (seedBuiltInRoles ev c db) = db' \<and> untouched db db' \<and> chart_ok db' c \<and>
    others_kept c db db' \<and> default_chart db' c \<and>
    filter (\<lambda>r. role_congregationId r \<noteq> c) (roles db') = roles db \<and> list_ex (has_key ADMIN_ROLE_KEY c) (roles db')"
proof -
  let ?keys = "BUILT_IN_ROLE_KEYS @ SYSTEM_ROLE_KEYS @ APPOINTED_ROLE_KEYS"
  have "\<forall>key \<in> set ?keys. \<not> list_ex (has_key key c) (roles db)" using assms(3) by (auto simp: list_ex_iff has_key_def)
  then obtain new where new: "fold (seed_role ev c) ?keys db = db\<lparr>roles := roles db @ new\<rparr>" "map role_key new = ?keys"
      "plain_rows c new" "distinct (map role_id (roles db @ new))"
    using seed_roles_rows [OF assms(1,2) default_keys] by blast
  define s where "s = seedBuiltInRoles ev c db"
  have s: "roles s = roles db @ new" "untouched db s" "others_kept c db s"
    unfolding s_def seedBuiltInRoles_def Let_def new(1) by (simp_all add: untouched_def others_kept_def split: option.split)
  have "inj_on role_key (set new)" using new(2) default_keys distinct_map [of role_key new] by simp
  then have keyed: "keyed c (roles s)" using new(4) assms(3) by (auto simp: keyed_def s(1) inj_on_def)
  have "\<not> list_ex (\<lambda>r. role_congregationId r = c \<and> role_showInOrganigram r) (roles s)"
    using assms(3) new(3) by (auto simp: s(1) list_ex_iff plain_rows_def)
  from placeDefaultOrganigram_rows [OF keyed this]
  have p: "placeDefaultOrganigram c s = s\<lparr>roles := map (placed (idFor c (roles s)) c) (roles s)\<rparr>" .
  have "chart_ok (placeDefaultOrganigram c s) c"
    by (rule default_chart_ok [OF keyed new(3) s(1) assms(3)]) (simp add: p)
  moreover have "default_chart (placeDefaultOrganigram c s) c"
  proof (rule default_chart_placed [OF keyed])
    have "list_ex (has_key key c) (roles s)" if listed: "key \<in> set ?keys" for key
    proof -
      obtain r where "r \<in> set new" "role_key r = key" using listed unfolding new(2) [symmetric] by auto
      then show ?thesis using new(3) by (auto simp: s(1) list_ex_iff has_key_def plain_rows_def)
    qed
    then show "\<forall>key \<in> {''elder'', ''assistant-servant'', ''service-committee'', ''coordinator'', ''secretary'', ''service-overseer''}.
        list_ex (has_key key c) (roles s)"
      by (simp add: role_key_defs)
  qed (simp add: p)
  moreover have "filter (\<lambda>r. role_congregationId r \<noteq> c) (roles (placeDefaultOrganigram c s)) = roles db"
  proof -
    have "filter (\<lambda>r. role_congregationId r \<noteq> c) new = []" using new(3) by (simp add: filter_empty_conv plain_rows_def)
    moreover have "map (placed (idFor c (roles s)) c) (roles db) = roles db"
      using assms(3) by (intro map_idI) (simp add: placed_def)
    moreover have "filter (\<lambda>r. role_congregationId r \<noteq> c) (roles db) = roles db" using assms(3) by simp
    ultimately show ?thesis by (simp add: p s(1) filter_map comp_def)
  qed
  moreover have "list_ex (has_key ADMIN_ROLE_KEY c) (roles (placeDefaultOrganigram c s))"
  proof -
    have "''admin'' \<in> set (map role_key new)" unfolding new(2) by (simp add: role_key_defs)
    then obtain r where "r \<in> set new" "role_key r = ''admin''" by auto
    then have "has_key ADMIN_ROLE_KEY c (placed (idFor c (roles s)) c r)"
      using new(3) by (simp add: has_key_def plain_rows_def ADMIN_ROLE_KEY_def)
    then show ?thesis using \<open>r \<in> set new\<close> by (auto simp: p s(1) list_ex_iff)
  qed
  ultimately show ?thesis using s(2,3) unfolding s_def [symmetric] by (auto simp: untouched_def others_kept_def p)
qed

subsection \<open>A congregation that can be run\<close>

lemma admin_role_granted:
  assumes "CanDoAnything \<in> perm_key ` set (permissions db)" and "list_ex (has_key ADMIN_ROLE_KEY c) (roles db)"
  shows "\<exists>i x. ensureAdminRole ev c db = (Some i, db\<lparr>rolePermissions := x\<rparr>) \<and>
    role_has_permission (db\<lparr>rolePermissions := x\<rparr>) i CanDoAnything \<and>
    filter (\<lambda>x. rp_congregationId x \<noteq> c) x = filter (\<lambda>x. rp_congregationId x \<noteq> c) (rolePermissions db)"
proof -
  obtain p where p: "p \<in> set (permissions db)" "perm_key p = CanDoAnything" "find_permission CanDoAnything db = Some p"
    using found_permission [OF assms(1)] by blast
  obtain r where r: "find (has_key ADMIN_ROLE_KEY c) (roles db) = Some r"
    using assms(2) by (cases "find (has_key ADMIN_ROLE_KEY c) (roles db)") (auto simp: list_ex_iff find_None_iff)
  define d where "d = upsert_role_permission (role_id r) (perm_id p) c db"
  have d: "d = db\<lparr>rolePermissions := rolePermissions d\<rparr>" by (simp add: d_def upsert_role_permission_def)
  have "\<exists>x \<in> set (rolePermissions d). rp_roleId x = role_id r \<and> rp_permissionId x = perm_id p"
    by (auto simp: d_def upsert_role_permission_def list_ex_iff)
  moreover have "permissions d = permissions db" by (simp add: d_def)
  ultimately have "role_has_permission d (role_id r) CanDoAnything" using p(1,2) unfolding role_has_permission_def by metis
  moreover have "ensureAdminRole ev c db = (Some (role_id r), d)" using assms(2) p(3) r by (simp add: ensureAdminRole_def d_def)
  moreover have "filter (\<lambda>x. rp_congregationId x \<noteq> c) (rolePermissions d) = filter (\<lambda>x. rp_congregationId x \<noteq> c) (rolePermissions db)"
    by (simp add: d_def)
  ultimately show ?thesis using d by metis
qed

definition runs_well :: "instance_state \<Rightarrow> instance_state \<Rightarrow> int \<Rightarrow> int \<Rightarrow> bool" where
  "runs_well ins ins' c u \<longleftrightarrow>
     chart_ok (core (in_programme ins')) c \<and> default_chart (core (in_programme ins')) c \<and>
     others_kept c (core (in_programme ins)) (core (in_programme ins')) \<and> isAccountAdmin (core (in_programme ins')) u c \<and>
     hasDataProcessingConsent (in_auth ins') u \<and>
     filter (\<lambda>r. role_congregationId r \<noteq> c) (roles (core (in_programme ins'))) = roles (core (in_programme ins))"

definition fresh_congregation :: "db \<Rightarrow> int \<Rightarrow> bool" where
  "fresh_congregation db c \<longleftrightarrow>
     distinct (map role_id (roles db)) \<and> (\<forall>r \<in> set (roles db). role_congregationId r \<noteq> c) \<and>
     (\<forall>m \<in> set (members db). mem_congregationId m \<noteq> c)"

lemma no_member_to_sync:
  assumes "\<forall>m \<in> set (members db). mem_congregationId m \<noteq> c"
  shows "syncBuiltInRoleAssignments u c a db = db"
proof -
  have "find_member u c db = None" using assms by (auto simp: find_member_def find_None_iff is_member_def)
  then show ?thesis by (simp add: syncBuiltInRoleAssignments_def)
qed

lemma provision_works:
  assumes "fresh_keys (sp_env sp)" and "fresh_congregation (core (in_programme ins)) c"
    and "CanDoAnything \<in> perm_key ` set (permissions (core (in_programme ins)))"
    and "\<exists>a \<in> set (userAccounts (core (in_programme ins))). acc_id a = u \<and> acc_congregationId a = c"
  shows "runs_well ins (record_first_consent sp u c (provision sp words c l u ins)) c u"
    and "in_auth (provision sp words c l u ins) = in_auth ins"
proof -
  define db where "db = seedBuiltInTerritoryKinds (sp_kind sp) c (core (in_programme ins))"
  have same: "roles db = roles (core (in_programme ins))" "members db = members (core (in_programme ins))"
      "permissions db = permissions (core (in_programme ins))" "userAccounts db = userAccounts (core (in_programme ins))"
    by (simp_all add: db_def seedBuiltInTerritoryKinds_def)
  define seeded where "seeded = placeDefaultOrganigram c (seedBuiltInRoles (sp_env sp) c db)"
  have s: "untouched db seeded" "chart_ok seeded c" "filter (\<lambda>r. role_congregationId r \<noteq> c) (roles seeded) = roles db"
      "list_ex (has_key ADMIN_ROLE_KEY c) (roles seeded)" "others_kept c db seeded" "default_chart seeded c"
    using seeded_defaults [OF assms(1), of db c] assms(2) unfolding seeded_def fresh_congregation_def same by blast+
  have core: "core (seedCongregationDefaults sp words c l (in_programme ins)) = seeded"
    by (simp add: seedCongregationDefaults_def seeded_def db_def seed_core Let_def)
  have "CanDoAnything \<in> perm_key ` set (permissions seeded)" using s(1) assms(3) same by (simp add: untouched_def)
  from admin_role_granted [OF this s(4)] obtain i x where admin: "ensureAdminRole (sp_env sp) c seeded = (Some i, seeded\<lparr>rolePermissions := x\<rparr>)"
      "role_has_permission (seeded\<lparr>rolePermissions := x\<rparr>) i CanDoAnything"
      "filter (\<lambda>x. rp_congregationId x \<noteq> c) x = filter (\<lambda>x. rp_congregationId x \<noteq> c) (rolePermissions seeded)"
    by blast
  define final where "final = seeded\<lparr>rolePermissions := x, userRoleAssignments := userRoleAssignments seeded @
      [\<lparr>ura_userId = u, ura_roleId = i, ura_kind = ''member'', ura_congregationId = c\<rparr>]\<rparr>"
  have "\<forall>m \<in> set (members final). mem_congregationId m \<noteq> c"
    using s(1) assms(2) same by (simp add: final_def untouched_def fresh_congregation_def)
  from no_member_to_sync [OF this] have last: "core (in_programme (provision sp words c l u ins)) = final"
    by (simp add: provision_def Let_def on_core_def core admin(1) final_def)
  show auth: "in_auth (provision sp words c l u ins) = in_auth ins" by (simp add: provision_def Let_def on_core_def)
  have "role_has_permission final i CanDoAnything" using admin(2) by (simp add: role_has_permission_def final_def)
  moreover obtain a where "a \<in> set (userAccounts final)" "acc_id a = u" "acc_congregationId a = c"
    using assms(4) s(1) same by (auto simp: untouched_def final_def)
  ultimately have "isAccountAdmin final u c"
    by (auto simp: isAccountAdmin_def findAccountsWithPermission_def account_has_permission_def final_def)
  moreover have "chart_ok final c" using s(2) chart_ok_cong [of final seeded c] by (simp add: final_def)
  moreover have "default_chart final c" using s(6) by (simp add: final_def default_chart_def at_place_def)
  moreover have "others_kept c (core (in_programme ins)) final"
    using s(5) admin(3) by (simp add: others_kept_def final_def db_def seedBuiltInTerritoryKinds_def)
  moreover have "hasDataProcessingConsent (in_auth (record_first_consent sp u c (provision sp words c l u ins))) u"
    by (simp add: record_first_consent_def recordConsentUnscoped_def hasDataProcessingConsent_def)
  ultimately show "runs_well ins (record_first_consent sp u c (provision sp words c l u ins)) c u"
    using s(3) same by (simp add: runs_well_def record_first_consent_def last) (simp add: final_def)
qed

lemma permissions_seeded: "CanDoAnything \<in> perm_key ` set (permissions (seedPermissions k db))"
proof -
  have "CanDoAnything \<in> set ALL_PERMISSIONS" by (simp add: ALL_PERMISSIONS_def)
  then show ?thesis using seed_permissions_have [of k ALL_PERMISSIONS db] by (simp add: seedPermissions_def)
qed

text \<open>
  C26. Registering a congregation leaves one that can be run: its organigram is a chart, with the
  elders, the ministerial servants, the service committee and its three posts each in its default place,
  the account that registered it is its administrator, has consented and carries the address in the form
  the login looks up, and its subdomain was nobody's. The roles of the other congregations, the permissions
  of those roles and the accounts and members who hold them are as they were.
\<close>

theorem registered_congregation_can_be_run:
  assumes "registerCongregation sp cry words base email password l ins = Some (Registered slug u, ins')"
    and "fresh_keys (sp_env sp)" and "c = sp_tenant sp (tenants (in_auth ins))" and "fresh_congregation (core (in_programme ins)) c"
  shows "runs_well ins ins' c u \<and>
    (\<exists>a \<in> set (accounts (in_auth ins')). acc_id a = u \<and> acc_email a = lower_text email \<and> acc_congregationId a = c \<and> acc_active a) \<and>
    (\<exists>t \<in> set (tenants (in_auth ins')). cong_id t = c \<and> cong_slug t = slug) \<and> (\<forall>t \<in> set (tenants (in_auth ins)). cong_slug t \<noteq> slug)"
proof -
  define ins1 where "ins1 = on_core (seedPermissions (sp_permission sp)) ins"
  obtain stored where stored: "hash_password (kdf cry) (sp_salt sp) password = Some stored"
    using assms(1) by (auto simp: registerCongregation_def split: if_splits option.splits)
  have auth1: "in_auth ins1 = in_auth ins" by (simp add: ins1_def on_core_def)
  define user where "user = new_account (sp_account sp (accounts (in_auth ins))) (lower_text email) stored (sp_now sp) c"
  define ins2 where "ins2 = add_account user (add_tenant (new_tenant c slug l) ins1)"
  have slug: "generateUniqueSlug (sp_suffix sp) base (in_auth ins) = Some slug"
    and ins': "ins' = record_first_consent sp u c (provision sp words c l u ins2)" and u: "u = acc_id user"
    using assms(1) stored auth1
    by (auto simp: registerCongregation_def Let_def ins1_def [symmetric] ins2_def user_def assms(3) new_tenant_def add_tenant_def
        split: if_splits option.splits)
  have core2: "core (in_programme ins2) = (seedPermissions (sp_permission sp) (core (in_programme ins)))
      \<lparr>userAccounts := userAccounts (seedPermissions (sp_permission sp) (core (in_programme ins))) @ [user_account.truncate user]\<rparr>"
    by (simp add: ins2_def add_account_def add_tenant_def ins1_def on_core_def)
  have fresh: "fresh_congregation (core (in_programme ins2)) c"
    using assms(4) by (simp add: fresh_congregation_def core2 seedPermissions_def)
  have perm: "CanDoAnything \<in> perm_key ` set (permissions (core (in_programme ins2)))"
    using permissions_seeded [of "sp_permission sp" "core (in_programme ins)"] by (simp add: core2)
  have account: "\<exists>a \<in> set (userAccounts (core (in_programme ins2))). acc_id a = u \<and> acc_congregationId a = c"
    by (auto simp: core2 u user_def new_account_def user_account.truncate_def)
  note works = provision_works [OF assms(2) fresh perm account, of words l]
  have "runs_well ins ins' c u"
    using works(1) by (simp add: ins' runs_well_def core2 seedPermissions_def others_kept_def)
  moreover have "in_auth ins' = recordConsentUnscoped (sp_consent sp (consents (in_auth ins2))) (sp_now sp) u c ''DATA_PROCESSING'' (in_auth ins2)"
    by (simp add: ins' record_first_consent_def works(2))
  moreover have "\<exists>a \<in> set (accounts (in_auth ins2)). acc_id a = u \<and> acc_email a = lower_text email \<and> acc_congregationId a = c \<and> acc_active a"
    and "\<exists>t \<in> set (tenants (in_auth ins2)). cong_id t = c \<and> cong_slug t = slug"
    by (auto simp: ins2_def add_account_def add_tenant_def on_core_def u user_def new_account_def new_tenant_def auth1)
  moreover have "\<forall>t \<in> set (tenants (in_auth ins)). cong_slug t \<noteq> slug"
    using find_Some_in [OF slug [unfolded generateUniqueSlug_def]] by (auto simp: list_ex_iff)
  ultimately show ?thesis by (simp add: recordConsentUnscoped_def)
qed

subsection \<open>A capital letter\<close>

lemma lower_text_again: "lower_text (lower_text s) = lower_text s"
proof -
  have "code ch < 256" for ch by (simp add: code_def)
  then have "code (char_of (lower_latin1 (code ch))) = lower_latin1 (code ch)" for ch
    by (subst code_def) (auto simp: lower_latin1_def)
  moreover have "lower_latin1 (lower_latin1 n) = lower_latin1 n" for n by (auto simp: lower_latin1_def)
  ultimately show ?thesis by (simp add: lower_text_def)
qed

text \<open>
  The first account of an instance is stored under the address as it was typed, and looked up in
  lower case: with a capital letter in the address nobody signs in, whatever is typed at the login.
\<close>

lemma a_capital_letter_locks_the_instance:
  assumes "setupFirstAccount sp cry words email password slug l ins = Some (Some u, ins')" and "lower_text email \<noteq> email"
  shows "fst (validateCredentials cry random typed guess congregation (in_auth ins')) = None"
proof -
  have "accounts (in_auth ins) = []" using assms(1) by (auto simp: setupFirstAccount_def split: if_splits)
  then have "\<exists>a. accounts (in_auth ins') = [a] \<and> acc_email a = email"
    using assms(1)
    by (auto simp: setupFirstAccount_def Let_def record_first_consent_def recordConsentUnscoped_def provision_def on_core_def
        add_account_def add_tenant_def new_account_def split: option.splits list.splits)
  moreover have "email \<noteq> lower_text typed" using assms(2) lower_text_again by metis
  ultimately have "find (\<lambda>a. acc_email a = lower_text typed \<and>
      (case congregation of None \<Rightarrow> True | Some c \<Rightarrow> acc_congregationId a = c)) (accounts (in_auth ins')) = None"
    by auto
  then show ?thesis by (simp add: validateCredentials_def Let_def split: option.split)
qed

subsection \<open>A concrete registration\<close>

definition sample_provider :: provider where
  "sample_provider = \<lparr>sp_env = utc_env, sp_rows = serial_keys, sp_permission = next_key \<circ> map perm_id, sp_kind = next_key \<circ> map tk_id,
     sp_tenant = next_key \<circ> map cong_id, sp_account = next_key \<circ> map acc_id, sp_consent = next_key \<circ> map cr_id,
     sp_salt = [7], sp_suffix = (\<lambda>n. [1, 2, 3, 4]), sp_now = 9\<rparr>"

definition blank_instance :: instance_state where
  "blank_instance = \<lparr>in_auth = \<lparr>accounts = [], tenants = [], resetTokens = [], verificationTokens = [], feedTokens = [],
     consents = [], counters = (\<lambda>_. None), journal = []\<rparr>,
     in_programme = \<lparr>core = empty_db, events = [], eventTemplates = [], templateParts = [], templateServiceParts = [],
       templatePartAllowedRoles = [], templateServicePartAllowedRoles = [], templateResponsibles = [], eventParts = [],
       eventServiceParts = [], eventPartAllowedRoles = [], eventServicePartAllowedRoles = [], partPresets = [],
       externalSpeakers = [], notificationEvents = [], notificationPreferences = [], emailQueue = []\<rparr>\<rparr>"

lemma sample_registers:
  "\<exists>ins'. registerCongregation sample_provider sample_crypto words ''nord'' email password l blank_instance =
     Some (Registered ''nord-01020304'' 1, ins')"
proof -
  obtain stored where stored: "hash_password (kdf sample_crypto) [7] password = Some stored"
    by (simp add: hash_password_def sample_crypto_def sample_scrypt_def Let_def)
  have auth: "in_auth (on_core f ins) = in_auth ins" for f ins by (simp add: on_core_def)
  have none: "accounts (in_auth blank_instance) = []" "tenants (in_auth blank_instance) = []" by (simp_all add: blank_instance_def)
  have hex: "to_hex [1, 2, 3, 4] = ''01020304''" by (simp add: to_hex_def hex_digit_def) code_simp
  have slug: "generateUniqueSlug (\<lambda>n. [1, 2, 3, 4]) ''nord'' (in_auth blank_instance) = Some ''nord-01020304''"
    by (simp add: generateUniqueSlug_def none hex upt_rec)
  have keys: "sp_salt sample_provider = [7]" "sp_suffix sample_provider = (\<lambda>n. [1, 2, 3, 4])" "sp_account sample_provider [] = 1"
    by (simp_all add: sample_provider_def next_key_def)
  show ?thesis by (simp add: registerCongregation_def Let_def none stored auth slug keys add_tenant_def new_account_def)
qed

lemma registered_congregation_can_be_run_witness:
  "\<exists>ins'. registerCongregation sample_provider sample_crypto (\<lambda>_ _. ''x'') ''nord'' ''A@b.fr'' ''pw'' ''fr'' blank_instance =
      Some (Registered ''nord-01020304'' 1, ins') \<and> runs_well blank_instance ins' 1 1"
proof -
  obtain ins' where run: "registerCongregation sample_provider sample_crypto (\<lambda>_ _. ''x'') ''nord'' ''A@b.fr'' ''pw'' ''fr'' blank_instance =
      Some (Registered ''nord-01020304'' 1, ins')"
    using sample_registers by blast
  have "fresh_keys (sp_env sample_provider)" "1 = sp_tenant sample_provider (tenants (in_auth blank_instance))"
      "fresh_congregation (core (in_programme blank_instance)) 1"
    by (simp_all add: sample_provider_def fresh_utc_env next_key_def blank_instance_def fresh_congregation_def empty_db_def)
  from registered_congregation_can_be_run [OF run this] run show ?thesis by blast
qed

end
