(* ===== verification/Spec2Isabelle.thy ===== *)
theory Spec2Isabelle
  imports Board_Links Adoption Lifecycle Org_Sheet Publisher_Groups Inactive_Status Last_Admin Pioneer_Roster Digest Template_Copies Events_Access Preset_Pages Programme_Views Engagement External_Speakers Share_Message Session_Security Provisioning
begin

text \<open>
  Unitae is a web application with which a congregation runs its territories, its roles and its
  organigram, its members and pioneers, the programme of its meetings and its display board. It is a
  React-Router server over PostgreSQL: a route's loader or action reads the request, calls the server
  functions of a feature, and these read and write rows through Prisma inside a transaction that is
  scoped to one congregation. This development models that core as functions from tables to tables and
  proves what keeps the data right. It is a shallow embedding: each definition bears the name of the
  function, type or handler it translates, under \<^verbatim>\<open>src/app\<close>.

  \<^bold>\<open>How the code is rendered.\<close> A table is a list of records with the columns of
  \<^verbatim>\<open>database/schema.prisma\<close> that the code reads or writes; the database is the record \<open>db\<close> (theory
  \<open>Database\<close>), the programme adds its tables in \<open>pdb\<close> (\<open>Programme_Tables\<close>), accounts and cookies in
  \<open>auth\<close> (\<open>Auth_Tables\<close>), the display board in \<open>board\<close> (\<open>Board\<close>), each around the one before.
  A function that writes takes the state and returns it with its answer. A function that may throw
  returns an \<open>outcome\<close> (\<open>Prelude\<close>): \<open>Inl\<close> the error, \<open>Inr\<close> the value, with the state it leaves.
  Errors are the values of \<open>app_error\<close>, one for each class of \<^verbatim>\<open>shared/errors\<close> and one for the refusals
  of the database; constraints of the schema are modelled where the code leans on them. A transaction is
  modelled where its rollback matters: \<open>withScopeFromContext\<close> and \<open>in_scope\<close> give back the rows a throw
  undoes and keep what is written outside (audit log, queues, files). Row level security, which filters
  every table by congregation, is written into the conditions of the queries. The integers of the code
  are identifiers, counts, months and milliseconds, far below the width at which they would
  lose precision, and are unbounded \<open>int\<close> here; averages are exact rationals. Text is Latin-1,
  the range of \<open>char\<close>.

  \<^bold>\<open>What is a parameter.\<close> Row identifiers that the database allots (\<open>env\<close>, \<open>row_keys\<close>, \<open>board_keys\<close>,
  with freshness as the named hypotheses \<open>fresh_keys\<close> and \<open>fresh_board_keys\<close>), the clock, time zones and
  offsets, the collation of names, the catalogue of messages, the folding of case, scrypt, AES-GCM,
  TOTP and random bytes (the record \<open>crypto\<close>), the URL parser, the result of a form's zod schema, and the
  delivery of e-mails. Nothing is assumed of them beyond what a theorem names.

  \<^bold>\<open>The theories, from the bottom.\<close>
  \<^item> \<open>Prelude\<close>, \<open>Js_Dates\<close>, \<open>Database\<close>: errors, sequencing, the list operations of the queries
    (\<open>update_where\<close>, \<open>delete_where\<close>, \<open>js_sort\<close>), the locale \<open>exclusive_rows\<close>, JavaScript's local
    calendar, and the tables.
  \<^item> Territories: \<open>Settings\<close>, \<open>Campaign_Queries\<close>, \<open>Attribution\<close>, \<open>Attribution_Pause\<close>,
    \<open>Campaign\<close>, \<open>Lifecycle\<close> (\<^verbatim>\<open>features/territories/server\<close> and its lifecycle job). Attributions
    of a publisher, territory and layer never overlap, campaigns never share a day, and a campaign that
    pauses at its start and resumes at its end gives the rows it paused, and that stayed so, their remaining time back.
  \<^item> Roles and rights: \<open>Role_Keys\<close>, \<open>Permissions\<close>, \<open>Roles\<close>, \<open>Role_Grants\<close>, \<open>Built_In_Roles\<close>,
    \<open>Plan_Limits\<close> (\<^verbatim>\<open>shared/domain\<close>, \<^verbatim>\<open>shared/auth\<close>): by the four operations that grant and revoke,
    an actor changes only what it holds.
  \<^item> Organigram: \<open>Org_Queries\<close>, \<open>Org_Tree\<close>, \<open>Organigram\<close>, \<open>Organigram_Chart\<close>,
    \<open>Chart_Operations\<close>, \<open>Org_Shape\<close>, \<open>Org_Layout\<close>, \<open>Org_Sheet\<close>, \<open>Seats\<close>, \<open>Seat_Laws\<close>,
    \<open>Adoption\<close>: the chart stays acyclic, is shown once and whole, and the derived committee is made of
    the holders of its posts.
  \<^item> Publishers: \<open>Pioneer_Enrolment\<close>, \<open>Pioneer_Stints\<close>, \<open>Pioneer_Workflow\<close>, \<open>Pioneer_Pace\<close>,
    \<open>Pioneer_Roster\<close>, \<open>Members\<close>, \<open>Member_Roles\<close>, \<open>Publisher_Groups\<close>, \<open>Inactive_Status\<close>,
    \<open>Accounts\<close>, \<open>Last_Admin\<close> (\<^verbatim>\<open>features/publishers\<close>, \<^verbatim>\<open>features/settings/server\<close>).
  \<^item> Programme: \<open>Programme_Tables\<close>, \<open>Day_Offs\<close>, \<open>Allowed_Roles\<close>, \<open>Assignments\<close>,
    \<open>Conflict_Flags\<close>, \<open>Release\<close>, \<open>Event_Parts\<close>, \<open>Programme_Flags\<close>, \<open>Programme_Steps\<close>,
    \<open>Eligibility\<close>, \<open>Template_Generation\<close>, \<open>Event_Templates\<close>, \<open>Template_Copies\<close>,
    \<open>Part_Presets\<close>, \<open>Preset_Pages\<close>, \<open>Events_Access\<close>, \<open>Programme_Views\<close>, \<open>Engagement\<close>,
    \<open>External_Speakers\<close>, \<open>Share_Message\<close> (\<^verbatim>\<open>features/events\<close>), \<open>Notifications\<close>, \<open>Digest\<close>,
    \<open>Assignment_News\<close> (\<^verbatim>\<open>features/notifications\<close>). \<open>Programme_Steps\<close> puts the operations into
    one step relation: flags tell exactly the absences, and whoever is on a released draft is present
    (moving an event, which leaves its flags behind, is not a step).
  \<^item> Signing in: \<open>Passwords\<close>, \<open>Redirects\<close>, \<open>Auth_Tables\<close>, \<open>Rate_Limit\<close>, \<open>Totp\<close>, \<open>Sign_In\<close>,
    \<open>Password_Flows\<close>, \<open>Session_Laws\<close>, \<open>Session_Security\<close> (\<^verbatim>\<open>features/authentication\<close>), and
    \<open>Seed_Templates\<close>, \<open>Provisioning\<close> for a new congregation.
  \<^item> Display board: \<open>Board_Appearance\<close>, \<open>Board\<close>, \<open>Board_Pages\<close>, \<open>Board_Content\<close>, \<open>Board_Laws\<close>,
    \<open>Board_Links\<close> (\<^verbatim>\<open>features/display-board\<close>). The board reads the chart, the groups, the stints and
    the programme of the theories above, so its links and sheets are statements about all of them.

  \<^bold>\<open>Interfaces.\<close> \<open>exclusive_rows\<close> is a table in which no two rows conflict, with the laws of inserting,
  updating and deleting; attributions, campaigns, stints and visiting speakers interpret it on their own
  conflict relation. \<open>bulk_transition\<close> is a guarded update of many attributions, interpreted by the five
  transitions of a campaign. \<open>assignment_table\<close> is a table of assignments with a conflict flag, interpreted
  by the parts and the service parts of a programme.

  \<^bold>\<open>Kinds of result.\<close> Invariants are stated over a step relation or over every operation and proved by
  rule induction; the safety theorems say who may do what; functional, round trip and refinement theorems
  say what an operation computes; error theorems say what a refusal or a failure leaves. Lemmas that are not
  properties, such as \<open>sweep_handover_loses_the_pause\<close> or \<open>a_capital_letter_locks_the_instance\<close>, record
  concrete behaviour of the code that its comments do not intend.

  \<^bold>\<open>Loops.\<close> The walk over monthly reports (\<open>walk_from\<close>) and the search for a free key (\<open>free_suffix\<close>) have
  no bound in the code; they are \<open>partial_function (option)\<close>, and that they end is proved. The
  recursions over the tree of roles carry a set of visited roles or the length of the table as their measure.
  No other loop needs fuel.

  \<^bold>\<open>Not modelled.\<close> Everything React renders, and the wording, e-mails, spreadsheets and PDF files produced
  from data that is modelled. Of the territories: buildings, streets, maps, imports, prospection and
  statistics, which lean on spatial data and on services outside. Of the settings: export and import of
  a congregation, whose formats are archives. The dashboard and the calendar feeds, which recount what the other
  theories define. The content of the password policy (a dictionary estimator and a remote list), retention,
  platform administration, billing, and the infrastructure: Redis, queues, workers, storage, geocoder, logging,
  headers, migrations and seeds. The change stamps (\<^verbatim>\<open>updatedAt\<close>) are no columns of the model, so the unread
  marks of the board's computed documents take the stamp as an argument.
\<close>

end
